(* ===== verification/Prelude.thy ===== *)
theory Prelude
  imports Main "HOL-Library.AList" "HOL-Library.Char_ord" "HOL-Library.List_Lexorder"
    "HOL-Library.Multiset"
begin

text \<open>
  Shared vocabulary of the development: Go maps, byte strings, the outcome of a call that changes
  its receiver, and the generic lemmas on association lists, strings and folds that the component
  theories use.

  A Go map is an association list whose keys are distinct. Go leaves the iteration order of a map
  open; here a \<^verbatim>\<open>range\<close> over a map visits the entries in list order, and a theorem that is stated
  for every list therefore holds for every order the runtime may choose. A Go string is a list of
  bytes (\<^typ>\<open>char\<close>), and the order of \<^typ>\<open>string\<close> is the bytewise order of Go's \<^verbatim>\<open><\<close>.
\<close>

section \<open>Collections of rewrite rules\<close>

named_theorems gomap_simps \<open>lookup after an update of a Go map\<close>
named_theorems chan_defs \<open>definitions of the methods of the channel types\<close>
named_theorems eng_defs \<open>definitions of the engine's helpers\<close>

section \<open>Go maps\<close>

type_synonym 'v gomap = "(string \<times> 'v) list"

abbreviation gm_set :: "string \<Rightarrow> 'v \<Rightarrow> 'v gomap \<Rightarrow> 'v gomap" where
  "gm_set k v m \<equiv> AList.update k v m"

abbreviation gm_delete :: "string \<Rightarrow> 'v gomap \<Rightarrow> 'v gomap" where
  "gm_delete k m \<equiv> AList.delete k m"

abbreviation gm_keys :: "'v gomap \<Rightarrow> string list" where
  "gm_keys m \<equiv> map fst m"

abbreviation gm_ok :: "'v gomap \<Rightarrow> bool" where
  "gm_ok m \<equiv> distinct (map fst m)"

text \<open>\<open>m[k]\<close> on a map with values of type \<^verbatim>\<open>bool\<close>: the zero value where the key is absent.\<close>

definition gm_true :: "bool gomap \<Rightarrow> string \<Rightarrow> bool" where
  "gm_true m k = (map_of m k = Some True)"

text \<open>\<open>m[k]\<close> on a map with integer values, and \<open>m[k]++\<close>.\<close>

definition gm_int :: "int gomap \<Rightarrow> string \<Rightarrow> int" where
  "gm_int m k = (case map_of m k of None \<Rightarrow> 0 | Some v \<Rightarrow> v)"

definition gm_incr :: "string \<Rightarrow> int gomap \<Rightarrow> int gomap" where
  "gm_incr k m = gm_set k (gm_int m k + 1) m"

text \<open>\<open>m[k] = append(m[k], v)\<close> on a map whose values are slices.\<close>

definition gm_app :: "string \<Rightarrow> 'v \<Rightarrow> 'v list gomap \<Rightarrow> 'v list gomap" where
  "gm_app k v m = gm_set k ((case map_of m k of None \<Rightarrow> [] | Some vs \<Rightarrow> vs) @ [v]) m"

text \<open>Copying every entry of \<open>src\<close> into \<open>dst\<close>: \<^verbatim>\<open>for k, v := range src { dst[k] = v }\<close>.\<close>

definition gm_copy_into :: "'v gomap \<Rightarrow> 'v gomap \<Rightarrow> 'v gomap" where
  "gm_copy_into src dst = fold (\<lambda>(k, v) m. gm_set k v m) src dst"

lemma gm_set_lookup [gomap_simps]: "map_of (gm_set k v m) = (map_of m)(k \<mapsto> v)"
  by (rule update_conv')

lemma gm_delete_lookup [gomap_simps]: "map_of (gm_delete k m) = (map_of m)(k := None)"
  by (rule delete_conv')

lemma gm_ok_set [simp, intro]: "gm_ok m \<Longrightarrow> gm_ok (gm_set k v m)"
  by (rule distinct_update)

lemma gm_ok_delete [simp, intro]: "gm_ok m \<Longrightarrow> gm_ok (gm_delete k m)"
  by (rule distinct_delete)

lemma gm_set_nonempty [simp]: "gm_set k v m \<noteq> []"
  by (cases m) auto

lemma gm_keys_set: "set (gm_keys (gm_set k v m)) = insert k (set (gm_keys m))"
  by (induction m) auto

lemma gm_set_entries: "set (gm_set k v m) \<subseteq> insert (k, v) (set m)"
  by (induction m) auto

lemma gm_fst_set [simp]: "fst ` set (gm_set k v m) = insert k (fst ` set m)"
  by (induction m) auto

lemma gm_int_incr [gomap_simps]: "gm_int (gm_incr k m) j = gm_int m j + (if j = k then 1 else 0)"
  by (simp add: gm_incr_def gm_int_def gomap_simps)

lemma gm_true_set [gomap_simps]: "gm_true (gm_set k b m) j = (if j = k then b else gm_true m j)"
  by (simp add: gm_true_def gomap_simps)

lemma gm_true_Nil [simp]: "\<not> gm_true [] k"
  by (simp add: gm_true_def)

lemma gm_app_lookup [gomap_simps]:
  "map_of (gm_app k v m) = (map_of m)(k \<mapsto> (case map_of m k of None \<Rightarrow> [] | Some vs \<Rightarrow> vs) @ [v])"
  by (simp add: gm_app_def gomap_simps)

lemma gm_ok_app [simp, intro]: "gm_ok m \<Longrightarrow> gm_ok (gm_app k v m)"
  by (simp add: gm_app_def)

lemma gm_copy_into_lookup [gomap_simps]:
  "gm_ok src \<Longrightarrow> map_of (gm_copy_into src dst) = map_of dst ++ map_of src"
proof (induction src arbitrary: dst)
  case Nil
  then show ?case by (simp add: gm_copy_into_def)
next
  case (Cons p src)
  obtain k v where p: "p = (k, v)" by force
  have "map_of src k = None"
    using Cons.prems by (simp add: p map_of_eq_None_iff)
  moreover have "map_of (gm_copy_into src (gm_set k v dst)) = (map_of dst)(k \<mapsto> v) ++ map_of src"
    using Cons by (simp add: gomap_simps)
  ultimately show ?case
    by (auto simp: p gm_copy_into_def map_add_def fun_eq_iff split: option.splits)
qed

lemma gm_ok_copy_into [simp]: "gm_ok dst \<Longrightarrow> gm_ok (gm_copy_into src dst)"
  by (induction src arbitrary: dst) (auto simp: gm_copy_into_def)

lemma gm_set_absent: "map_of m k = None \<Longrightarrow> gm_set k v m = m @ [(k, v)]"
  by (induction m) (auto split: if_splits)

lemma gm_copy_into_fresh:
  "gm_ok src \<Longrightarrow> set (gm_keys src) \<inter> set (gm_keys dst) = {} \<Longrightarrow> gm_copy_into src dst = dst @ src"
proof (induction src arbitrary: dst)
  case Nil
  then show ?case by (simp add: gm_copy_into_def)
next
  case (Cons p src)
  obtain k v where p: "p = (k, v)" by force
  have "map_of dst k = None"
    using Cons.prems(2) by (auto simp: p map_of_eq_None_iff)
  then have "gm_copy_into (p # src) dst = gm_copy_into src (dst @ [(k, v)])"
    by (simp add: gm_copy_into_def p gm_set_absent)
  also have "\<dots> = (dst @ [(k, v)]) @ src"
    using Cons.prems by (intro Cons.IH) (auto simp: p)
  finally show ?case by (simp add: p)
qed

text \<open>A copy into an empty map is the map itself.\<close>

lemma gm_copy_into_Nil [simp]: "gm_ok src \<Longrightarrow> gm_copy_into src [] = src"
  by (simp add: gm_copy_into_fresh)

lemma map_of_map_snd: "map_of (map (\<lambda>(k, v). (k, f k v)) m) k = map_option (f k) (map_of m k)"
  by (induction m) auto

lemma map_of_filter_key:
  "gm_ok m \<Longrightarrow>
   map_of (filter (\<lambda>(k, v). P k v) m) k =
     (case map_of m k of None \<Rightarrow> None | Some v \<Rightarrow> if P k v then Some v else None)"
proof (induction m)
  case Nil
  then show ?case by simp
next
  case (Cons p m)
  obtain j w where p: "p = (j, w)" by force
  have "k = j \<Longrightarrow> map_of m k = None"
    using Cons.prems by (simp add: p map_of_eq_None_iff)
  then show ?case
    using Cons by (auto simp: p split: option.splits)
qed

lemma gm_ok_filter [simp, intro]: "gm_ok m \<Longrightarrow> gm_ok (filter P m)"
  by (induction m) auto

section \<open>Strings: Split and Join\<close>

text \<open>\<^verbatim>\<open>strings.Split\<close> for a separator of one byte, and \<^verbatim>\<open>strings.Join\<close>.\<close>

fun split_on :: "char \<Rightarrow> string \<Rightarrow> string list" where
  "split_on c [] = [[]]"
| "split_on c (x # xs) =
     (if x = c then [] # split_on c xs
      else (case split_on c xs of [] \<Rightarrow> [[x]] | w # ws \<Rightarrow> (x # w) # ws))"

fun join_with :: "string \<Rightarrow> string list \<Rightarrow> string" where
  "join_with sep [] = []"
| "join_with sep [w] = w"
| "join_with sep (w # v # ws) = w @ sep @ join_with sep (v # ws)"

lemma split_on_nonempty [simp]: "split_on c s \<noteq> []"
  by (induction s) (auto split: list.splits)

lemma join_with_Cons: "ws \<noteq> [] \<Longrightarrow> join_with sep (w # ws) = w @ sep @ join_with sep ws"
  by (cases ws) auto

lemma join_split: "join_with [c] (split_on c s) = s"
proof (induction s)
  case Nil
  then show ?case by simp
next
  case (Cons x xs)
  obtain w ws where *: "split_on c xs = w # ws"
    using split_on_nonempty by (cases "split_on c xs") auto
  with Cons show ?case by (cases ws) auto
qed

lemma split_on_no_sep: "c \<notin> set s \<Longrightarrow> split_on c s = [s]"
  by (induction s) auto

lemma split_on_append_sep:
  "c \<notin> set w \<Longrightarrow> split_on c (w @ c # s) = w # split_on c s"
  by (induction w) auto

lemma split_join:
  "ws \<noteq> [] \<Longrightarrow> \<forall>w \<in> set ws. c \<notin> set w \<Longrightarrow> split_on c (join_with [c] ws) = ws"
proof (induction ws rule: induct_list012)
  case 1
  then show ?case by simp
next
  case (2 w)
  then show ?case by (simp add: split_on_no_sep)
next
  case (3 w v ws)
  then show ?case by (simp add: split_on_append_sep)
qed

section \<open>Outcomes\<close>

text \<open>
  A method that changes its receiver and may fail returns the receiver as it is left, together with
  the error (\<^const>\<open>Inl\<close>) or the result (\<^const>\<open>Inr\<close>): an error does not undo what was written before.
\<close>

type_synonym ('e, 's, 'a) outcome = "'s \<times> ('e + 'a)"

fun is_ok :: "'e + 'a \<Rightarrow> bool" where
  "is_ok (Inl e) = False"
| "is_ok (Inr a) = True"

lemma is_ok_iff: "is_ok r \<longleftrightarrow> (\<exists>a. r = Inr a)"
  by (cases r) auto

lemma not_is_ok_iff: "\<not> is_ok r \<longleftrightarrow> (\<exists>e. r = Inl e)"
  by (cases r) auto

section \<open>Folds and last elements\<close>

lemma foldl_invariant:
  "P a \<Longrightarrow> (\<And>b x. P b \<Longrightarrow> x \<in> set xs \<Longrightarrow> P (f b x)) \<Longrightarrow> P (foldl f a xs)"
  by (induction xs arbitrary: a) auto

lemma fold_invariant':
  "P a \<Longrightarrow> (\<And>b x. P b \<Longrightarrow> x \<in> set xs \<Longrightarrow> P (f x b)) \<Longrightarrow> P (fold f xs a)"
  by (induction xs arbitrary: a) auto

end
