(* ===== verification/GoValue.thy ===== *)
theory GoValue
  imports Prelude "HOL-Library.Word" "HOL-Library.Log_Nat"
begin

text \<open>
  The dynamic values (\<^verbatim>\<open>interface{}\<close>, \<^verbatim>\<open>any\<close>) that flow through channels, checkpoints and node
  functions, the arithmetic of Go's \<^verbatim>\<open>int\<close> and \<^verbatim>\<open>float64\<close> that the code applies to them, and the
  JSON round trip that \<^verbatim>\<open>deepCopy\<close> of \<^verbatim>\<open>graph/checkpoint/checkpoint.go\<close> uses.

  Slices and maps are values here: the code under verification copies them before it writes to
  them, except where a theory says otherwise.
\<close>

section \<open>float64\<close>

text \<open>
  A \<^verbatim>\<open>float64\<close> is its exact rational value or one of the special values; the two zeros are
  identified, which nothing in the modelled code can tell apart. \<open>f64_round\<close> is rounding to nearest,
  ties to even, on the 53-bit significand with the subnormal and overflow thresholds of binary64.
\<close>

datatype f64 = F64 rat | F64_PosInf | F64_NegInf | F64_NaN

definition round_half_even :: "rat \<Rightarrow> int" where
  "round_half_even x =
     (let f = \<lfloor>x\<rfloor>; d = x - of_int f
      in if d < 1 / 2 then f else if d > 1 / 2 then f + 1 else if even f then f else f + 1)"

definition pow2 :: "int \<Rightarrow> rat" where
  "pow2 k = (if 0 \<le> k then 2 ^ nat k else 1 / 2 ^ nat (- k))"

text \<open>The largest \<open>k\<close> with \<open>pow2 k \<le> x\<close>, for positive \<open>x\<close>.\<close>

definition ilog2 :: "rat \<Rightarrow> int" where
  "ilog2 x =
     (let (p, q) = quotient_of x;
          k = int (floorlog 2 (nat p)) - int (floorlog 2 (nat q))
      in if pow2 k \<le> x then k else k - 1)"

definition f64_max :: rat where
  "f64_max = (2 ^ 53 - 1) * 2 ^ 971"

definition f64_round :: "rat \<Rightarrow> f64" where
  "f64_round x =
     (if x = 0 then F64 0
      else let e = max (- 1074) (ilog2 \<bar>x\<bar> - 52);
               r = of_int (round_half_even (x / pow2 e)) * pow2 e
           in if r > f64_max then F64_PosInf else if r < - f64_max then F64_NegInf else F64 r)"

fun f64_add :: "f64 \<Rightarrow> f64 \<Rightarrow> f64" where
  "f64_add F64_NaN _ = F64_NaN"
| "f64_add _ F64_NaN = F64_NaN"
| "f64_add F64_PosInf F64_NegInf = F64_NaN"
| "f64_add F64_NegInf F64_PosInf = F64_NaN"
| "f64_add F64_PosInf _ = F64_PosInf"
| "f64_add _ F64_PosInf = F64_PosInf"
| "f64_add F64_NegInf _ = F64_NegInf"
| "f64_add _ F64_NegInf = F64_NegInf"
| "f64_add (F64 a) (F64 b) = f64_round (a + b)"

lemma f64_add_commute: "f64_add a b = f64_add b a"
  by (cases a; cases b) (auto simp: add.commute)

text \<open>Conversion \<^verbatim>\<open>int(f)\<close> of a float64 truncates; out of range the result is not specified by Go.\<close>

definition trunc_rat :: "rat \<Rightarrow> int" where
  "trunc_rat x = (if 0 \<le> x then \<lfloor>x\<rfloor> else - \<lfloor>- x\<rfloor>)"

lemma round_half_even_of_int [simp]: "round_half_even (of_int n) = n"
  by (simp add: round_half_even_def)

lemma pow2_pos [simp]: "0 < pow2 k"
  by (simp add: pow2_def)

lemma pow2_nonzero [simp]: "pow2 k \<noteq> 0"
  using pow2_pos [of k] by linarith

lemma pow2_neg_mult: "0 \<le> k \<Longrightarrow> of_int n / pow2 (- k) = of_int (n * 2 ^ nat k)"
  by (cases "k = 0") (simp_all add: pow2_def)

lemma ilog2_of_int:
  assumes "0 < n" "n < 2 ^ 53"
  shows "ilog2 (of_int n) \<le> 52"
proof -
  have "nat n < 2 ^ 53"
    using assms by (simp add: nat_less_iff)
  then have "floorlog 2 (nat n) \<le> 53"
    by (simp add: floorlog_le_iff)
  moreover have "floorlog 2 1 = 1"
    by (simp add: floorlog_def)
  ultimately show ?thesis
    by (simp add: ilog2_def quotient_of_int Let_def)
qed

text \<open>Integers below \<open>2 ^ 53\<close> in absolute value are exact in float64.\<close>

lemma f64_round_exact:
  assumes "\<bar>n\<bar> < 2 ^ 53"
  shows "f64_round (of_int n) = F64 (of_int n)"
proof (cases "n = 0")
  case True
  then show ?thesis by (simp add: f64_round_def)
next
  case False
  define e where "e = max (- 1074) (ilog2 \<bar>of_int n\<bar> - 52)"
  have "ilog2 (of_int \<bar>n\<bar>) \<le> 52"
    using False assms by (intro ilog2_of_int) auto
  then have e0: "e \<le> 0"
    by (simp add: e_def)
  then have q: "of_int n / pow2 e = (of_int (n * 2 ^ nat (- e)) :: rat)"
    using pow2_neg_mult [of "- e" n] by simp
  have "of_int (round_half_even (of_int n / pow2 e)) = (of_int n / pow2 e :: rat)"
    by (simp only: q round_half_even_of_int)
  then have r: "of_int (round_half_even (of_int n / pow2 e)) * pow2 e = (of_int n :: rat)"
    by simp
  have big: "(2::rat) ^ 53 \<le> f64_max"
    by (simp add: f64_max_def)
  have "\<bar>of_int n :: rat\<bar> < 2 ^ 53"
    using assms by (metis of_int_abs of_int_less_iff of_int_numeral of_int_power)
  with big have "\<not> f64_max < of_int n" "\<not> of_int n < - f64_max"
    by linarith+
  then show ?thesis
    using False r unfolding f64_round_def e_def [symmetric] by (simp add: Let_def)
qed

section \<open>Dynamic values\<close>

type_synonym i64 = "64 word"

text \<open>
  One constructor per dynamic type the code distinguishes: \<open>GInt\<close> is \<^verbatim>\<open>int\<close>, \<open>GNum\<close> the other sized
  numbers (the payload of a float32 is its bits), \<open>GList\<close> is \<^verbatim>\<open>[]interface{}\<close>, \<open>GSlice\<close> a slice of
  another element type, \<open>GBytes\<close> is \<^verbatim>\<open>[]byte\<close>, \<open>GMap\<close> is \<^verbatim>\<open>map[string]interface{}\<close>, \<open>GBoolMap\<close> is
  \<^verbatim>\<open>map[string]bool\<close>, \<open>GIntMap\<close> is \<^verbatim>\<open>map[string]int\<close>, \<open>GIntMapMap\<close> is
  \<^verbatim>\<open>map[string]map[string]int\<close>. \<open>GMissing\<close> is the sentinel
  \<^verbatim>\<open>channels.Missing\<close>, \<open>GOverwrite\<close> is \<^verbatim>\<open>*types.Overwrite\<close>, \<open>GGetter\<close> a struct of one field with a
  method \<^verbatim>\<open>GetValue() interface{}\<close> that returns it (the one thing \<^verbatim>\<open>isOverwrite\<close> asks of a value),
  \<open>GStruct\<close> any other struct value with its type name and exported fields in order, and \<open>GPtr\<close> a
  pointer to a struct value.
\<close>

datatype numkind =
  Int8 | Int16 | Int32 | Int64 | Uint | Uint8 | Uint16 | Uint32 | Uint64 | Float32

datatype goval =
    GNil
  | GMissing
  | GBool bool
  | GInt i64
  | GNum numkind i64
  | GFloat f64
  | GStr string
  | GBytes string
  | GList "goval list"
  | GSlice string "goval list"
  | GMap "(string \<times> goval) list"
  | GBoolMap "(string \<times> bool) list"
  | GIntMap "(string \<times> int) list"
  | GIntMapMap "(string \<times> (string \<times> int) list) list"
  | GOverwrite goval
  | GGetter goval
  | GStruct string "(string \<times> goval) list"
  | GPtr goval

type_synonym gostate = "goval gomap"

text \<open>\<^verbatim>\<open>base.go\<close>, \<^verbatim>\<open>IsMissing\<close>: a type assertion to the sentinel's type; nil is not missing.\<close>

definition IsMissing :: "goval \<Rightarrow> bool" where
  "IsMissing v = (case v of GMissing \<Rightarrow> True | _ \<Rightarrow> False)"

lemma IsMissing_iff [simp]: "IsMissing v \<longleftrightarrow> v = GMissing"
  by (simp add: IsMissing_def split: goval.split)

text \<open>Type assertions \<^verbatim>\<open>v.(T)\<close>: \<^const>\<open>None\<close> where the assertion fails.\<close>

definition as_string :: "goval \<Rightarrow> string option" where
  "as_string v = (case v of GStr s \<Rightarrow> Some s | _ \<Rightarrow> None)"

definition as_bool :: "goval \<Rightarrow> bool option" where
  "as_bool v = (case v of GBool b \<Rightarrow> Some b | _ \<Rightarrow> None)"

definition as_int :: "goval \<Rightarrow> i64 option" where
  "as_int v = (case v of GInt n \<Rightarrow> Some n | _ \<Rightarrow> None)"

definition as_float :: "goval \<Rightarrow> f64 option" where
  "as_float v = (case v of GFloat x \<Rightarrow> Some x | _ \<Rightarrow> None)"

definition as_list :: "goval \<Rightarrow> goval list option" where
  "as_list v = (case v of GList xs \<Rightarrow> Some xs | _ \<Rightarrow> None)"

definition as_map :: "goval \<Rightarrow> gostate option" where
  "as_map v = (case v of GMap m \<Rightarrow> Some m | _ \<Rightarrow> None)"

lemmas assert_defs = as_string_def as_bool_def as_int_def as_float_def as_list_def as_map_def

text \<open>\<open>m[k]\<close> on a \<^verbatim>\<open>map[string]interface{}\<close>: nil where the key is absent.\<close>

definition gm_val :: "gostate \<Rightarrow> string \<Rightarrow> goval" where
  "gm_val m k = (case map_of m k of None \<Rightarrow> GNil | Some v \<Rightarrow> v)"

section \<open>Types\<close>

text \<open>
  The \<^verbatim>\<open>Typ\<close> of a channel is used only through \<^verbatim>\<open>reflect.TypeOf\<close>, so it is represented by the type:
  \<open>TNil\<close> is a nil \<^verbatim>\<open>Typ\<close>, a struct type carries its zero value, and \<open>TOther\<close> is any further type,
  with the zero value of that type.
\<close>

datatype gotype =
    TNil
  | TBool
  | TInt
  | TNum numkind
  | TFloat64
  | TString
  | TBytes
  | TSliceAny
  | TSlice string
  | TArray goval
  | TMapAny
  | TMapBool
  | TMapInt
  | TStruct goval
  | TPtr gotype
  | TOther goval

datatype kind =
  KInvalid | KBool | KInt | KNum numkind | KFloat64 | KString | KSlice | KArray | KMap | KStruct
  | KPtr | KOther

fun kind_of :: "gotype \<Rightarrow> kind" where
  "kind_of TNil = KInvalid"
| "kind_of TBool = KBool"
| "kind_of TInt = KInt"
| "kind_of (TNum k) = KNum k"
| "kind_of TFloat64 = KFloat64"
| "kind_of TString = KString"
| "kind_of TBytes = KSlice"
| "kind_of TSliceAny = KSlice"
| "kind_of (TSlice n) = KSlice"
| "kind_of (TArray z) = KArray"
| "kind_of TMapAny = KMap"
| "kind_of TMapBool = KMap"
| "kind_of TMapInt = KMap"
| "kind_of (TStruct z) = KStruct"
| "kind_of (TPtr t) = KPtr"
| "kind_of (TOther z) = KOther"

text \<open>
  \<^verbatim>\<open>reflect.Zero(t).Interface()\<close>; for slices and maps the empty value that \<^verbatim>\<open>MakeSlice\<close> and
  \<^verbatim>\<open>MakeMap\<close> give. The zero value of a pointer type is a nil pointer.
\<close>

fun zero_of :: "gotype \<Rightarrow> goval" where
  "zero_of TNil = GNil"
| "zero_of TBool = GBool False"
| "zero_of TInt = GInt 0"
| "zero_of (TNum k) = GNum k 0"
| "zero_of TFloat64 = GFloat (F64 0)"
| "zero_of TString = GStr []"
| "zero_of TBytes = GBytes []"
| "zero_of TSliceAny = GList []"
| "zero_of (TSlice n) = GSlice n []"
| "zero_of (TArray z) = z"
| "zero_of TMapAny = GMap []"
| "zero_of TMapBool = GBoolMap []"
| "zero_of TMapInt = GIntMap []"
| "zero_of (TStruct z) = z"
| "zero_of (TPtr t) = GPtr GNil"
| "zero_of (TOther z) = z"

text \<open>
  The dynamic type of a \<^verbatim>\<open>reflect.Type\<close> value is \<^verbatim>\<open>*reflect.rtype\<close>, a pointer to a struct without
  exported fields.
\<close>

definition rtype_zero :: goval where
  "rtype_zero = GStruct ''reflect.rtype'' []"

definition type_of_rtype :: gotype where
  "type_of_rtype = TPtr (TStruct rtype_zero)"

section \<open>Formatting with the verb v\<close>

text \<open>
  \<^verbatim>\<open>fmt.Sprint(v)\<close> and \<^verbatim>\<open>fmt.Sprintf("%v", v)\<close>: decimal integers, maps in key order. How floats and
  values of user types print is the argument \<open>fx\<close>.
\<close>

fun show_nat :: "nat \<Rightarrow> string" where
  "show_nat n = (if n < 10 then [char_of (48 + n)] else show_nat (n div 10) @ [char_of (48 + n mod 10)])"

declare show_nat.simps [simp del]

definition show_int :: "int \<Rightarrow> string" where
  "show_int n = (if n < 0 then ''-'' @ show_nat (nat (- n)) else show_nat (nat n))"

fun go_sprint :: "(goval \<Rightarrow> string) \<Rightarrow> goval \<Rightarrow> string" where
  "go_sprint fx GNil = ''<nil>''"
| "go_sprint fx (GBool b) = (if b then ''true'' else ''false'')"
| "go_sprint fx (GInt n) = show_int (sint n)"
| "go_sprint fx (GStr s) = s"
| "go_sprint fx (GList xs) = ''['' @ join_with '' '' (map (go_sprint fx) xs) @ '']''"
| "go_sprint fx (GMap m) =
     ''map['' @ join_with '' '' (map (\<lambda>q. fst q @ '':'' @ snd q)
       (sort_key fst (map (\<lambda>p. (fst p, go_sprint fx (snd p))) m))) @ '']''"
| "go_sprint fx v = fx v"

section \<open>The JSON round trip\<close>

text \<open>
  \<^verbatim>\<open>json.Marshal\<close> followed by \<^verbatim>\<open>json.Unmarshal\<close> into an \<^verbatim>\<open>interface{}\<close>. Bytes that are not part of a
  valid UTF-8 sequence are replaced by U+FFFD, numbers come back as float64, structs and maps as
  \<^verbatim>\<open>map[string]interface{}\<close>; infinities and NaN do not marshal. \<open>utf8_len\<close> is the length of the
  valid UTF-8 sequence at the head of the string, 0 if there is none.
\<close>

definition cont_byte :: "nat \<Rightarrow> bool" where
  "cont_byte b = (128 \<le> b \<and> b \<le> 191)"

definition utf8_len :: "string \<Rightarrow> nat" where
  "utf8_len s =
     (case map of_char s of
        [] \<Rightarrow> 0
      | b # bs \<Rightarrow>
          if b < 128 then 1
          else if 194 \<le> b \<and> b \<le> 223 then
            (case bs of c # _ \<Rightarrow> if cont_byte c then 2 else 0 | _ \<Rightarrow> 0)
          else if 224 \<le> b \<and> b \<le> 239 then
            (case bs of
               c # d # _ \<Rightarrow>
                 if (if b = 224 then 160 else 128) \<le> c \<and> c \<le> (if b = 237 then 159 else 191)
                    \<and> cont_byte d then 3 else 0
             | _ \<Rightarrow> 0)
          else if 240 \<le> b \<and> b \<le> 244 then
            (case bs of
               c # d # e # _ \<Rightarrow>
                 if (if b = 240 then 144 else 128) \<le> c \<and> c \<le> (if b = 244 then 143 else 191)
                    \<and> cont_byte d \<and> cont_byte e then 4 else 0
             | _ \<Rightarrow> 0)
          else (0::nat))"

definition replacement_char :: string where
  "replacement_char = map char_of [239, 191, 189 :: nat]"

function to_valid_utf8 :: "string \<Rightarrow> string" where
  "to_valid_utf8 s =
     (if s = [] then []
      else if utf8_len s = 0 then replacement_char @ to_valid_utf8 (tl s)
      else take (utf8_len s) s @ to_valid_utf8 (drop (utf8_len s) s))"
  by pat_completeness auto
termination
  by (relation "measure length") auto

declare to_valid_utf8.simps [simp del]

lemma utf8_len_ascii: "of_char c < (128 :: nat) \<Longrightarrow> utf8_len (c # s) = 1"
  by (simp add: utf8_len_def)

text \<open>ASCII text is untouched.\<close>

lemma to_valid_utf8_ascii: "\<forall>c \<in> set s. of_char c < (128 :: nat) \<Longrightarrow> to_valid_utf8 s = s"
  by (induction s) (simp_all add: to_valid_utf8.simps [of "_ # _"] to_valid_utf8.simps [of "[]"]
      utf8_len_ascii)

text \<open>Object members are written in the order of their keys and read back one by one.\<close>

definition json_object :: "('v \<Rightarrow> goval) \<Rightarrow> 'v gomap \<Rightarrow> gostate" where
  "json_object f m = gm_copy_into (map (\<lambda>(k, v). (to_valid_utf8 k, f v)) (sort_key fst m)) []"

text \<open>
  The round trip of a value that is neither nil, \<^verbatim>\<open>map[string]interface{}\<close> nor \<^verbatim>\<open>[]interface{}\<close>;
  \<^const>\<open>None\<close> is a marshalling error. How structs, pointers and values of other user types marshal
  depends on their tags and methods, so it is the argument \<open>jx\<close>.
\<close>

definition json_rt :: "(goval \<Rightarrow> goval option) \<Rightarrow> goval \<Rightarrow> goval option" where
  "json_rt jx v =
     (case v of
        GNil \<Rightarrow> Some GNil
      | GBool b \<Rightarrow> Some (GBool b)
      | GInt n \<Rightarrow> Some (GFloat (f64_round (of_int (sint n))))
      | GNum Float32 n \<Rightarrow> jx v
      | GNum k n \<Rightarrow>
          Some (GFloat (f64_round (of_int
            (if k \<in> {Int8, Int16, Int32, Int64} then sint n else uint n))))
      | GFloat x \<Rightarrow> (case x of F64 r \<Rightarrow> Some (GFloat (F64 r)) | _ \<Rightarrow> None)
      | GStr s \<Rightarrow> Some (GStr (to_valid_utf8 s))
      | GBoolMap m \<Rightarrow> Some (GMap (json_object GBool m))
      | GIntMap m \<Rightarrow> Some (GMap (json_object (\<lambda>n. GFloat (f64_round (of_int n))) m))
      | _ \<Rightarrow> jx v)"

end
