(* ===== verification/GraphErrors.thy ===== *)
theory GraphErrors
  imports GoValue
begin

text \<open>
  The error values of \<^verbatim>\<open>internal/harness/graph\<close>: the error types of \<^verbatim>\<open>graph/errors/errors.go\<close> that
  the modelled code builds or inspects, those of the graph, checkpoint, types and pregel packages, and the plain
  and wrapping errors of \<^verbatim>\<open>fmt.Errorf\<close>. An error keeps its type and its arguments; the rendered
  text is the literal of the source without its formatted arguments.
\<close>

datatype update_fault =
    OneValuePerStep string
  | OneOverwritePerStep
  | NameNotString goval
  | NameNotExpected string

datatype gerror =
    EmptyChannelError
  | InvalidUpdateError update_fault
  | ChannelNotFoundError string
  | NodeNotFoundError string
  | GraphRecursionError int
  | GraphInterrupt "goval list"
  | VersionConflictError int int string string
  | RetryExhaustedError string int "gerror option" goval
  | CancelledError
  | StoreError string
  | GraphError string
  | StreamError string
  | WriteValidationError string string
  | WriteSkipError string
  | PanicError string
  | PlainError string "string list"
  | WrapError string "string list" gerror

text \<open>
  The predicates are type assertions on the outermost error: an error wrapped by \<^verbatim>\<open>%w\<close> is not
  recognised.
\<close>

fun IsEmptyChannelError :: "gerror \<Rightarrow> bool" where
  "IsEmptyChannelError EmptyChannelError = True"
| "IsEmptyChannelError _ = False"

fun IsGraphInterrupt :: "gerror option \<Rightarrow> bool" where
  "IsGraphInterrupt (Some (GraphInterrupt is)) = True"
| "IsGraphInterrupt _ = False"

fun IsRetryExhausted :: "gerror \<Rightarrow> bool" where
  "IsRetryExhausted (RetryExhaustedError n a e v) = True"
| "IsRetryExhausted _ = False"

fun IsWriteSkipError :: "gerror \<Rightarrow> bool" where
  "IsWriteSkipError (WriteSkipError c) = True"
| "IsWriteSkipError _ = False"

lemma IsEmptyChannelError_iff [simp]: "IsEmptyChannelError e \<longleftrightarrow> e = EmptyChannelError"
  by (cases e) auto

lemma IsGraphInterrupt_iff: "IsGraphInterrupt e \<longleftrightarrow> (\<exists>is. e = Some (GraphInterrupt is))"
  by (cases e rule: IsGraphInterrupt.cases) auto

lemma IsGraphInterrupt_simps [simp]:
  "\<not> IsGraphInterrupt None"
  "IsGraphInterrupt (Some e) \<longleftrightarrow> (\<exists>is. e = GraphInterrupt is)"
  by (simp_all add: IsGraphInterrupt_iff)

end
