(* ===== verification/Channels.thy ===== *)
theory Channels
  imports GraphErrors
begin

text \<open>
  The channel types of \<^verbatim>\<open>graph/channels\<close>, one record per struct (embedding of \<^verbatim>\<open>BaseChannel\<close> is
  record extension) and one definition per method, then the interface \<^verbatim>\<open>Channel\<close> as a sum of the
  structs with its methods dispatched over it. Locks are left out: a type that has one holds it for
  the whole body of each method, so a call is one step.
\<close>

section \<open>BaseChannel (base.go)\<close>

record BaseChannel =
  Key :: string
  Typ :: gotype
  Version :: int

definition GetKey :: "'a BaseChannel_scheme \<Rightarrow> string" where
  "GetKey c = Key c"

definition SetKey :: "string \<Rightarrow> 'a BaseChannel_scheme \<Rightarrow> 'a BaseChannel_scheme" where
  "SetKey k c = c\<lparr>Key := k\<rparr>"

definition SetVersion :: "int \<Rightarrow> 'a BaseChannel_scheme \<Rightarrow> 'a BaseChannel_scheme" where
  "SetVersion v c = c\<lparr>Version := v\<rparr>"

section \<open>LastValue (last_value.go)\<close>

record LastValue = BaseChannel +
  lv_value :: goval

definition NewLastValue :: "gotype \<Rightarrow> LastValue" where
  "NewLastValue typ = \<lparr>Key = [], Typ = typ, Version = 0, lv_value = GMissing\<rparr>"

definition LastValue_Get :: "LastValue \<Rightarrow> gerror + goval" where
  "LastValue_Get c = (if IsMissing (lv_value c) then Inl EmptyChannelError else Inr (lv_value c))"

definition LastValue_IsAvailable :: "LastValue \<Rightarrow> bool" where
  "LastValue_IsAvailable c = (\<not> IsMissing (lv_value c))"

definition LastValue_Update :: "LastValue \<Rightarrow> goval list \<Rightarrow> (gerror, LastValue, bool) outcome" where
  "LastValue_Update c values =
     (if values = [] then (c, Inr False)
      else if length values \<noteq> 1 then (c, Inl (InvalidUpdateError (OneValuePerStep (Key c))))
      else (c\<lparr>lv_value := last values\<rparr>, Inr True))"

definition LastValue_Copy :: "LastValue \<Rightarrow> LastValue" where
  "LastValue_Copy c = (NewLastValue (Typ c))\<lparr>Key := Key c, lv_value := lv_value c\<rparr>"

definition LastValue_Checkpoint :: "LastValue \<Rightarrow> goval" where
  "LastValue_Checkpoint c = lv_value c"

definition LastValue_FromCheckpoint :: "LastValue \<Rightarrow> goval \<Rightarrow> LastValue" where
  "LastValue_FromCheckpoint c cp =
     (let n = (NewLastValue (Typ c))\<lparr>Key := Key c\<rparr>
      in if \<not> IsMissing cp then n\<lparr>lv_value := cp\<rparr> else n)"

lemmas LastValue_defs [chan_defs] = NewLastValue_def LastValue_Get_def LastValue_IsAvailable_def
  LastValue_Update_def LastValue_Copy_def LastValue_Checkpoint_def LastValue_FromCheckpoint_def

section \<open>AnyValue (any_value.go)\<close>

record AnyValue = BaseChannel +
  av_value :: goval

definition NewAnyValue :: "gotype \<Rightarrow> AnyValue" where
  "NewAnyValue typ = \<lparr>Key = [], Typ = typ, Version = 0, av_value = GMissing\<rparr>"

definition AnyValue_Get :: "AnyValue \<Rightarrow> gerror + goval" where
  "AnyValue_Get c = (if IsMissing (av_value c) then Inl EmptyChannelError else Inr (av_value c))"

definition AnyValue_IsAvailable :: "AnyValue \<Rightarrow> bool" where
  "AnyValue_IsAvailable c = (\<not> IsMissing (av_value c))"

definition AnyValue_Update :: "AnyValue \<Rightarrow> goval list \<Rightarrow> (gerror, AnyValue, bool) outcome" where
  "AnyValue_Update c values =
     (if values = [] then (c, Inr False) else (c\<lparr>av_value := last values\<rparr>, Inr True))"

definition AnyValue_Copy :: "AnyValue \<Rightarrow> AnyValue" where
  "AnyValue_Copy c = (NewAnyValue (Typ c))\<lparr>Key := Key c, av_value := av_value c\<rparr>"

definition AnyValue_Checkpoint :: "AnyValue \<Rightarrow> goval" where
  "AnyValue_Checkpoint c = av_value c"

definition AnyValue_FromCheckpoint :: "AnyValue \<Rightarrow> goval \<Rightarrow> AnyValue" where
  "AnyValue_FromCheckpoint c cp =
     (let n = (NewAnyValue (Typ c))\<lparr>Key := Key c\<rparr>
      in if \<not> IsMissing cp then n\<lparr>av_value := cp\<rparr> else n)"

lemmas AnyValue_defs [chan_defs] = NewAnyValue_def AnyValue_Get_def AnyValue_IsAvailable_def
  AnyValue_Update_def AnyValue_Copy_def AnyValue_Checkpoint_def AnyValue_FromCheckpoint_def

section \<open>EphemeralValue (ephemeral\_value.go)\<close>

record EphemeralValue = BaseChannel +
  ev_value :: goval
  guard :: bool

definition NewEphemeralValue :: "gotype \<Rightarrow> bool \<Rightarrow> EphemeralValue" where
  "NewEphemeralValue typ g = \<lparr>Key = [], Typ = typ, Version = 0, ev_value = GMissing, guard = g\<rparr>"

text \<open>\<^verbatim>\<open>Get\<close> clears the value it returns, so it also returns the channel it leaves.\<close>

definition EphemeralValue_Get ::
  "EphemeralValue \<Rightarrow> (gerror, EphemeralValue, goval) outcome" where
  "EphemeralValue_Get c =
     (if IsMissing (ev_value c) then (if guard c then (c, Inl EmptyChannelError) else (c, Inr GNil))
      else (c\<lparr>ev_value := GMissing\<rparr>, Inr (ev_value c)))"

definition EphemeralValue_IsAvailable :: "EphemeralValue \<Rightarrow> bool" where
  "EphemeralValue_IsAvailable c = (\<not> IsMissing (ev_value c))"

definition EphemeralValue_Update ::
  "EphemeralValue \<Rightarrow> goval list \<Rightarrow> (gerror, EphemeralValue, bool) outcome" where
  "EphemeralValue_Update c values =
     (if values = [] then (c, Inr False) else (c\<lparr>ev_value := last values\<rparr>, Inr True))"

definition EphemeralValue_Copy :: "EphemeralValue \<Rightarrow> EphemeralValue" where
  "EphemeralValue_Copy c =
     (NewEphemeralValue (Typ c) (guard c))\<lparr>Key := Key c, ev_value := ev_value c\<rparr>"

definition EphemeralValue_Checkpoint :: "EphemeralValue \<Rightarrow> goval" where
  "EphemeralValue_Checkpoint c = ev_value c"

definition EphemeralValue_FromCheckpoint :: "EphemeralValue \<Rightarrow> goval \<Rightarrow> EphemeralValue" where
  "EphemeralValue_FromCheckpoint c cp =
     (let n = (NewEphemeralValue (Typ c) (guard c))\<lparr>Key := Key c\<rparr>
      in if \<not> IsMissing cp then n\<lparr>ev_value := cp\<rparr> else n)"

lemmas EphemeralValue_defs [chan_defs] = NewEphemeralValue_def EphemeralValue_Get_def
  EphemeralValue_IsAvailable_def EphemeralValue_Update_def EphemeralValue_Copy_def
  EphemeralValue_Checkpoint_def EphemeralValue_FromCheckpoint_def

section \<open>UntrackedValue (untracked.go)\<close>

record UntrackedValue = BaseChannel +
  uv_value :: goval

definition NewUntrackedValue :: "gotype \<Rightarrow> UntrackedValue" where
  "NewUntrackedValue typ = \<lparr>Key = [], Typ = typ, Version = 0, uv_value = GMissing\<rparr>"

definition UntrackedValue_Get :: "UntrackedValue \<Rightarrow> gerror + goval" where
  "UntrackedValue_Get c =
     (if IsMissing (uv_value c) then Inl EmptyChannelError else Inr (uv_value c))"

definition UntrackedValue_IsAvailable :: "UntrackedValue \<Rightarrow> bool" where
  "UntrackedValue_IsAvailable c = (\<not> IsMissing (uv_value c))"

definition UntrackedValue_Update ::
  "UntrackedValue \<Rightarrow> goval list \<Rightarrow> (gerror, UntrackedValue, bool) outcome" where
  "UntrackedValue_Update c values =
     (if values = [] then (c, Inr False) else (c\<lparr>uv_value := last values\<rparr>, Inr True))"

definition UntrackedValue_Copy :: "UntrackedValue \<Rightarrow> UntrackedValue" where
  "UntrackedValue_Copy c = (NewUntrackedValue (Typ c))\<lparr>Key := Key c\<rparr>"

definition UntrackedValue_Checkpoint :: "UntrackedValue \<Rightarrow> goval" where
  "UntrackedValue_Checkpoint c = GMissing"

definition UntrackedValue_FromCheckpoint :: "UntrackedValue \<Rightarrow> goval \<Rightarrow> UntrackedValue" where
  "UntrackedValue_FromCheckpoint c cp = NewUntrackedValue (Typ c)"

lemmas UntrackedValue_defs [chan_defs] = NewUntrackedValue_def UntrackedValue_Get_def
  UntrackedValue_IsAvailable_def UntrackedValue_Update_def UntrackedValue_Copy_def
  UntrackedValue_Checkpoint_def UntrackedValue_FromCheckpoint_def

section \<open>Topic (topic.go)\<close>

record Topic = BaseChannel +
  topic_values :: "goval list"
  accumulate :: bool

definition NewTopic :: "gotype \<Rightarrow> bool \<Rightarrow> Topic" where
  "NewTopic typ acc = \<lparr>Key = [], Typ = typ, Version = 0, topic_values = [], accumulate = acc\<rparr>"

definition Topic_Get :: "Topic \<Rightarrow> gerror + goval" where
  "Topic_Get c =
     (if topic_values c = [] then Inl EmptyChannelError else Inr (GList (topic_values c)))"

definition Topic_IsAvailable :: "Topic \<Rightarrow> bool" where
  "Topic_IsAvailable c = (length (topic_values c) > 0)"

fun flatten :: "goval list \<Rightarrow> goval list" where
  "flatten [] = []"
| "flatten (v # vs) = (case as_list v of Some xs \<Rightarrow> xs @ flatten vs | None \<Rightarrow> v # flatten vs)"

definition Topic_Update :: "Topic \<Rightarrow> goval list \<Rightarrow> (gerror, Topic, bool) outcome" where
  "Topic_Update c values =
     (let updated = (\<not> accumulate c \<and> length (topic_values c) > 0);
          c1 = (if \<not> accumulate c then c\<lparr>topic_values := []\<rparr> else c);
          flatValues = flatten values
      in if length flatValues > 0
         then (c1\<lparr>topic_values := topic_values c1 @ flatValues\<rparr>, Inr True)
         else (c1, Inr updated))"

definition Topic_Copy :: "Topic \<Rightarrow> Topic" where
  "Topic_Copy c = (NewTopic (Typ c) (accumulate c))\<lparr>Key := Key c, topic_values := topic_values c\<rparr>"

definition Topic_Checkpoint :: "Topic \<Rightarrow> goval" where
  "Topic_Checkpoint c = (if topic_values c = [] then GMissing else GList (topic_values c))"

definition Topic_FromCheckpoint :: "Topic \<Rightarrow> goval \<Rightarrow> Topic" where
  "Topic_FromCheckpoint c cp =
     (let n = (NewTopic (Typ c) (accumulate c))\<lparr>Key := Key c\<rparr>
      in if \<not> IsMissing cp
         then (case as_list cp of Some v \<Rightarrow> n\<lparr>topic_values := v\<rparr> | None \<Rightarrow> n)
         else n)"

lemmas Topic_defs [chan_defs] = NewTopic_def Topic_Get_def Topic_IsAvailable_def Topic_Update_def
  Topic_Copy_def Topic_Checkpoint_def Topic_FromCheckpoint_def

section \<open>BinaryOperatorAggregate (binop.go)\<close>

type_synonym BinaryOperator = "goval \<Rightarrow> goval \<Rightarrow> goval"

record BinaryOperatorAggregate = BaseChannel +
  bo_value :: goval
  operator :: BinaryOperator

text \<open>
  \<^verbatim>\<open>createZeroValue\<close>: the two collection types by name, then one level of pointer is stripped and the
  zero value of the type is taken.
\<close>

definition createZeroValue :: "gotype \<Rightarrow> goval" where
  "createZeroValue typ =
     (if typ = TNil then GMissing
      else if typ = TSliceAny then GList []
      else if typ = TMapAny then GMap []
      else (let rt = (case typ of TPtr t \<Rightarrow> t | _ \<Rightarrow> typ) in zero_of rt))"

definition NewBinaryOperatorAggregate :: "gotype \<Rightarrow> BinaryOperator \<Rightarrow> BinaryOperatorAggregate" where
  "NewBinaryOperatorAggregate typ f =
     \<lparr>Key = [], Typ = typ, Version = 0, bo_value = createZeroValue typ, operator = f\<rparr>"

definition BinaryOperatorAggregate_Get :: "BinaryOperatorAggregate \<Rightarrow> gerror + goval" where
  "BinaryOperatorAggregate_Get c =
     (if IsMissing (bo_value c) then Inl EmptyChannelError else Inr (bo_value c))"

definition BinaryOperatorAggregate_IsAvailable :: "BinaryOperatorAggregate \<Rightarrow> bool" where
  "BinaryOperatorAggregate_IsAvailable c = (\<not> IsMissing (bo_value c))"

text \<open>
  \<^verbatim>\<open>isOverwrite\<close> recognises a value with a \<^verbatim>\<open>GetValue\<close> method, or a map whose only key is
  \<^verbatim>\<open>__overwrite__\<close>. \<^verbatim>\<open>*types.Overwrite\<close> has a field \<^verbatim>\<open>Value\<close> and no such method.
\<close>

definition Overwrite_key :: string where
  "Overwrite_key = ''__overwrite__''"

definition isOverwrite :: "goval \<Rightarrow> goval option" where
  "isOverwrite value =
     (case value of
        GNil \<Rightarrow> None
      | GGetter v \<Rightarrow> Some v
      | GMap m \<Rightarrow> if length m = 1 then map_of m Overwrite_key else None
      | _ \<Rightarrow> None)"

text \<open>The loop of \<^verbatim>\<open>Update\<close>: the current value, and whether an overwrite was seen.\<close>

fun binop_loop ::
  "BinaryOperator \<Rightarrow> goval \<Rightarrow> bool \<Rightarrow> goval list \<Rightarrow> (gerror, goval, bool) outcome" where
  "binop_loop f cur seen [] = (cur, Inr True)"
| "binop_loop f cur seen (v # vs) =
     (case isOverwrite v of
        Some ov \<Rightarrow>
          if seen then (cur, Inl (InvalidUpdateError OneOverwritePerStep))
          else binop_loop f ov True vs
      | None \<Rightarrow> if \<not> seen then binop_loop f (f cur v) seen vs else binop_loop f cur seen vs)"

definition BinaryOperatorAggregate_Update ::
  "BinaryOperatorAggregate \<Rightarrow> goval list \<Rightarrow> (gerror, BinaryOperatorAggregate, bool) outcome" where
  "BinaryOperatorAggregate_Update c values =
     (if values = [] then (c, Inr False)
      else let (start, rest) = (if IsMissing (bo_value c) then (hd values, tl values)
                                else (bo_value c, values));
               (cur, r) = binop_loop (operator c) start False rest
           in (c\<lparr>bo_value := cur\<rparr>, r))"

definition BinaryOperatorAggregate_Copy :: "BinaryOperatorAggregate \<Rightarrow> BinaryOperatorAggregate" where
  "BinaryOperatorAggregate_Copy c =
     (NewBinaryOperatorAggregate (Typ c) (operator c))\<lparr>Key := Key c, bo_value := bo_value c\<rparr>"

definition BinaryOperatorAggregate_Checkpoint :: "BinaryOperatorAggregate \<Rightarrow> goval" where
  "BinaryOperatorAggregate_Checkpoint c = bo_value c"

definition BinaryOperatorAggregate_FromCheckpoint ::
  "BinaryOperatorAggregate \<Rightarrow> goval \<Rightarrow> BinaryOperatorAggregate" where
  "BinaryOperatorAggregate_FromCheckpoint c cp =
     (let n = (NewBinaryOperatorAggregate (Typ c) (operator c))\<lparr>Key := Key c\<rparr>
      in if \<not> IsMissing cp then n\<lparr>bo_value := cp\<rparr> else n)"

lemmas BinaryOperatorAggregate_defs [chan_defs] = NewBinaryOperatorAggregate_def
  BinaryOperatorAggregate_Get_def BinaryOperatorAggregate_IsAvailable_def
  BinaryOperatorAggregate_Update_def BinaryOperatorAggregate_Copy_def
  BinaryOperatorAggregate_Checkpoint_def BinaryOperatorAggregate_FromCheckpoint_def

subsection \<open>Operators\<close>

definition StringConcat :: "(goval \<Rightarrow> string) \<Rightarrow> BinaryOperator" where
  "StringConcat fx a b =
     (case (as_string a, as_string b) of
        (Some sa, Some sb) \<Rightarrow> GStr (sa @ sb)
      | _ \<Rightarrow> GStr (go_sprint fx a @ go_sprint fx b))"

definition IntAdd :: BinaryOperator where
  "IntAdd a b =
     (case (a, b) of
        (GInt ai, GInt bi) \<Rightarrow> GInt (ai + bi)
      | (GFloat af, GFloat bf) \<Rightarrow> GFloat (f64_add af bf)
      | _ \<Rightarrow> a)"

definition ListAppend :: BinaryOperator where
  "ListAppend a b =
     (case as_list a of
        Some al \<Rightarrow> (case as_list b of Some bl \<Rightarrow> GList (al @ bl) | None \<Rightarrow> GList (al @ [b]))
      | None \<Rightarrow> GList [a, b])"

section \<open>NamedBarrierValue (barrier.go)\<close>

record NamedBarrierValue = BaseChannel +
  nb_names :: "bool gomap"
  nb_seen :: "bool gomap"

definition expected_names :: "string list \<Rightarrow> bool gomap" where
  "expected_names waitFor = fold (\<lambda>n m. gm_set n True m) waitFor []"

definition NewNamedBarrierValue :: "gotype \<Rightarrow> string list \<Rightarrow> NamedBarrierValue" where
  "NewNamedBarrierValue typ waitFor =
     \<lparr>Key = [], Typ = typ, Version = 0, nb_names = expected_names waitFor, nb_seen = []\<rparr>"

text \<open>\<^verbatim>\<open>namesMatchSeen\<close>, which the two barrier types share.\<close>

definition namesMatchSeen :: "bool gomap \<Rightarrow> bool gomap \<Rightarrow> bool" where
  "namesMatchSeen names seen =
     (if length names \<noteq> length seen then False
      else list_all (\<lambda>n. gm_true seen n) (gm_keys names))"

definition NamedBarrierValue_Get :: "NamedBarrierValue \<Rightarrow> gerror + goval" where
  "NamedBarrierValue_Get c =
     (if \<not> namesMatchSeen (nb_names c) (nb_seen c) then Inl EmptyChannelError else Inr GNil)"

definition NamedBarrierValue_IsAvailable :: "NamedBarrierValue \<Rightarrow> bool" where
  "NamedBarrierValue_IsAvailable c = namesMatchSeen (nb_names c) (nb_seen c)"

text \<open>The loop of \<^verbatim>\<open>Update\<close>, also shared: names seen so far are kept when a later value is refused.\<close>

fun barrier_loop ::
  "bool gomap \<Rightarrow> bool gomap \<Rightarrow> bool \<Rightarrow> goval list \<Rightarrow> (gerror, bool gomap, bool) outcome" where
  "barrier_loop names seen updated [] = (seen, Inr updated)"
| "barrier_loop names seen updated (v # vs) =
     (case as_string v of
        None \<Rightarrow> (seen, Inl (InvalidUpdateError (NameNotString v)))
      | Some name \<Rightarrow>
          (case map_of names name of
             None \<Rightarrow> (seen, Inl (InvalidUpdateError (NameNotExpected name)))
           | Some _ \<Rightarrow>
               if \<not> gm_true seen name then barrier_loop names (gm_set name True seen) True vs
               else barrier_loop names seen updated vs))"

definition NamedBarrierValue_Update ::
  "NamedBarrierValue \<Rightarrow> goval list \<Rightarrow> (gerror, NamedBarrierValue, bool) outcome" where
  "NamedBarrierValue_Update c values =
     (if values = [] then (c, Inr False)
      else let (s, r) = barrier_loop (nb_names c) (nb_seen c) False values in (c\<lparr>nb_seen := s\<rparr>, r))"

definition NamedBarrierValue_Copy :: "NamedBarrierValue \<Rightarrow> NamedBarrierValue" where
  "NamedBarrierValue_Copy c =
     (NewNamedBarrierValue (Typ c) [])
       \<lparr>Key := Key c, nb_names := gm_copy_into (nb_names c) [],
        nb_seen := gm_copy_into (nb_seen c) []\<rparr>"

definition NamedBarrierValue_Checkpoint :: "NamedBarrierValue \<Rightarrow> goval" where
  "NamedBarrierValue_Checkpoint c =
     (if nb_seen c = [] then GMissing else GBoolMap (gm_copy_into (nb_seen c) []))"

text \<open>
  The \<^verbatim>\<open>seen\<close> set restored from a checkpoint value: a \<^verbatim>\<open>map[string]bool\<close>, or, after a JSON round
  trip, a \<^verbatim>\<open>map[string]interface{}\<close> of which the entries that are not booleans are dropped.
\<close>

definition restore_seen :: "goval \<Rightarrow> bool gomap" where
  "restore_seen v =
     (case v of
        GBoolMap m \<Rightarrow> gm_copy_into m []
      | GMap m \<Rightarrow> fold (\<lambda>(k, bv) s. case as_bool bv of Some b \<Rightarrow> gm_set k b s | None \<Rightarrow> s) m []
      | _ \<Rightarrow> [])"

definition NamedBarrierValue_FromCheckpoint :: "NamedBarrierValue \<Rightarrow> goval \<Rightarrow> NamedBarrierValue" where
  "NamedBarrierValue_FromCheckpoint c cp =
     (let n = (NewNamedBarrierValue (Typ c) [])
                \<lparr>Key := Key c, nb_names := gm_copy_into (nb_names c) []\<rparr>
      in if cp \<noteq> GNil \<and> \<not> IsMissing cp then n\<lparr>nb_seen := restore_seen cp\<rparr> else n)"

definition NamedBarrierValue_Finish :: "NamedBarrierValue \<Rightarrow> NamedBarrierValue \<times> bool" where
  "NamedBarrierValue_Finish c =
     (if length (nb_seen c) > 0 then (c\<lparr>nb_seen := []\<rparr>, True) else (c, False))"

definition NamedBarrierValue_Consume :: "NamedBarrierValue \<Rightarrow> NamedBarrierValue \<times> bool" where
  "NamedBarrierValue_Consume c =
     (if namesMatchSeen (nb_names c) (nb_seen c) \<and> length (nb_seen c) > 0
      then (c\<lparr>nb_seen := []\<rparr>, True) else (c, False))"

lemmas NamedBarrierValue_defs [chan_defs] = NewNamedBarrierValue_def NamedBarrierValue_Get_def
  NamedBarrierValue_IsAvailable_def NamedBarrierValue_Update_def NamedBarrierValue_Copy_def
  NamedBarrierValue_Checkpoint_def NamedBarrierValue_FromCheckpoint_def
  NamedBarrierValue_Finish_def NamedBarrierValue_Consume_def

section \<open>NamedBarrierValueAfterFinish (barrier.go)\<close>

record NamedBarrierValueAfterFinish = BaseChannel +
  nf_names :: "bool gomap"
  nf_seen :: "bool gomap"
  nf_finished :: bool

definition NewNamedBarrierValueAfterFinish ::
  "gotype \<Rightarrow> string list \<Rightarrow> NamedBarrierValueAfterFinish" where
  "NewNamedBarrierValueAfterFinish typ waitFor =
     \<lparr>Key = [], Typ = typ, Version = 0, nf_names = expected_names waitFor, nf_seen = [],
      nf_finished = False\<rparr>"

definition NamedBarrierValueAfterFinish_Get :: "NamedBarrierValueAfterFinish \<Rightarrow> gerror + goval" where
  "NamedBarrierValueAfterFinish_Get c =
     (if \<not> nf_finished c \<or> \<not> namesMatchSeen (nf_names c) (nf_seen c)
      then Inl EmptyChannelError else Inr GNil)"

definition NamedBarrierValueAfterFinish_IsAvailable :: "NamedBarrierValueAfterFinish \<Rightarrow> bool" where
  "NamedBarrierValueAfterFinish_IsAvailable c =
     (nf_finished c \<and> namesMatchSeen (nf_names c) (nf_seen c))"

definition NamedBarrierValueAfterFinish_Update ::
  "NamedBarrierValueAfterFinish \<Rightarrow> goval list
     \<Rightarrow> (gerror, NamedBarrierValueAfterFinish, bool) outcome" where
  "NamedBarrierValueAfterFinish_Update c values =
     (if values = [] then (c, Inr False)
      else let (s, r) = barrier_loop (nf_names c) (nf_seen c) False values in (c\<lparr>nf_seen := s\<rparr>, r))"

definition NamedBarrierValueAfterFinish_Copy ::
  "NamedBarrierValueAfterFinish \<Rightarrow> NamedBarrierValueAfterFinish" where
  "NamedBarrierValueAfterFinish_Copy c =
     (NewNamedBarrierValueAfterFinish (Typ c) [])
       \<lparr>Key := Key c, nf_names := gm_copy_into (nf_names c) [],
        nf_seen := gm_copy_into (nf_seen c) [], nf_finished := nf_finished c\<rparr>"

definition NamedBarrierValueAfterFinish_Checkpoint :: "NamedBarrierValueAfterFinish \<Rightarrow> goval" where
  "NamedBarrierValueAfterFinish_Checkpoint c =
     (if nf_seen c = [] \<and> \<not> nf_finished c then GMissing
      else GMap [(''seen'', GBoolMap (nf_seen c)), (''finished'', GBool (nf_finished c))])"

definition NamedBarrierValueAfterFinish_FromCheckpoint ::
  "NamedBarrierValueAfterFinish \<Rightarrow> goval \<Rightarrow> NamedBarrierValueAfterFinish" where
  "NamedBarrierValueAfterFinish_FromCheckpoint c cp =
     (let n = (NewNamedBarrierValueAfterFinish (Typ c) [])
                \<lparr>Key := Key c, nf_names := gm_copy_into (nf_names c) []\<rparr>
      in if cp \<noteq> GNil \<and> \<not> IsMissing cp
         then (case as_map cp of
                 None \<Rightarrow> n
               | Some m \<Rightarrow>
                   let n1 = n\<lparr>nf_seen := restore_seen (gm_val m ''seen'')\<rparr>
                   in (case as_bool (gm_val m ''finished'') of
                         Some b \<Rightarrow> n1\<lparr>nf_finished := b\<rparr> | None \<Rightarrow> n1))
         else n)"

definition NamedBarrierValueAfterFinish_Finish ::
  "NamedBarrierValueAfterFinish \<Rightarrow> NamedBarrierValueAfterFinish \<times> bool" where
  "NamedBarrierValueAfterFinish_Finish c =
     (if \<not> nf_finished c \<and> namesMatchSeen (nf_names c) (nf_seen c)
      then (c\<lparr>nf_finished := True\<rparr>, True) else (c, False))"

definition NamedBarrierValueAfterFinish_Consume ::
  "NamedBarrierValueAfterFinish \<Rightarrow> NamedBarrierValueAfterFinish \<times> bool" where
  "NamedBarrierValueAfterFinish_Consume c =
     (if nf_finished c \<and> namesMatchSeen (nf_names c) (nf_seen c) \<and> length (nf_seen c) > 0
      then (c\<lparr>nf_finished := False, nf_seen := []\<rparr>, True) else (c, False))"

lemmas NamedBarrierValueAfterFinish_defs [chan_defs] = NewNamedBarrierValueAfterFinish_def
  NamedBarrierValueAfterFinish_Get_def NamedBarrierValueAfterFinish_IsAvailable_def
  NamedBarrierValueAfterFinish_Update_def NamedBarrierValueAfterFinish_Copy_def
  NamedBarrierValueAfterFinish_Checkpoint_def NamedBarrierValueAfterFinish_FromCheckpoint_def
  NamedBarrierValueAfterFinish_Finish_def NamedBarrierValueAfterFinish_Consume_def

section \<open>LastValueAfterFinish (barrier.go)\<close>

record LastValueAfterFinish = BaseChannel +
  lf_value :: goval
  lf_finished :: bool

definition NewLastValueAfterFinish :: "gotype \<Rightarrow> LastValueAfterFinish" where
  "NewLastValueAfterFinish typ =
     \<lparr>Key = [], Typ = typ, Version = 0, lf_value = GMissing, lf_finished = False\<rparr>"

definition LastValueAfterFinish_Get :: "LastValueAfterFinish \<Rightarrow> gerror + goval" where
  "LastValueAfterFinish_Get c =
     (if \<not> lf_finished c then Inl EmptyChannelError
      else if IsMissing (lf_value c) then Inl EmptyChannelError
      else Inr (lf_value c))"

definition LastValueAfterFinish_IsAvailable :: "LastValueAfterFinish \<Rightarrow> bool" where
  "LastValueAfterFinish_IsAvailable c = (lf_finished c \<and> \<not> IsMissing (lf_value c))"

definition LastValueAfterFinish_Update ::
  "LastValueAfterFinish \<Rightarrow> goval list \<Rightarrow> (gerror, LastValueAfterFinish, bool) outcome" where
  "LastValueAfterFinish_Update c values =
     (if values = [] then (c, Inr False)
      else if length values > 1 then (c, Inl (InvalidUpdateError (OneValuePerStep [])))
      else (c\<lparr>lf_value := hd values\<rparr>, Inr True))"

definition LastValueAfterFinish_Copy :: "LastValueAfterFinish \<Rightarrow> LastValueAfterFinish" where
  "LastValueAfterFinish_Copy c =
     (NewLastValueAfterFinish (Typ c))
       \<lparr>Key := Key c, lf_value := lf_value c, lf_finished := lf_finished c\<rparr>"

definition LastValueAfterFinish_Checkpoint :: "LastValueAfterFinish \<Rightarrow> goval" where
  "LastValueAfterFinish_Checkpoint c = lf_value c"

definition LastValueAfterFinish_FromCheckpoint ::
  "LastValueAfterFinish \<Rightarrow> goval \<Rightarrow> LastValueAfterFinish" where
  "LastValueAfterFinish_FromCheckpoint c cp =
     (let n = (NewLastValueAfterFinish (Typ c))\<lparr>Key := Key c\<rparr>
      in if \<not> IsMissing cp then n\<lparr>lf_value := cp\<rparr> else n)"

definition LastValueAfterFinish_Finish :: "LastValueAfterFinish \<Rightarrow> LastValueAfterFinish \<times> bool" where
  "LastValueAfterFinish_Finish c =
     (if \<not> lf_finished c then (c\<lparr>lf_finished := True\<rparr>, True) else (c, False))"

lemmas LastValueAfterFinish_defs [chan_defs] = NewLastValueAfterFinish_def
  LastValueAfterFinish_Get_def LastValueAfterFinish_IsAvailable_def LastValueAfterFinish_Update_def
  LastValueAfterFinish_Copy_def LastValueAfterFinish_Checkpoint_def
  LastValueAfterFinish_FromCheckpoint_def LastValueAfterFinish_Finish_def

section \<open>The interface Channel (base.go) and ReducerChannel (reducer.go)\<close>

type_synonym ReducerFunc = "goval \<Rightarrow> goval \<Rightarrow> goval"

datatype channel =
    ChLastValue LastValue
  | ChAnyValue AnyValue
  | ChEphemeral EphemeralValue
  | ChUntracked UntrackedValue
  | ChTopic Topic
  | ChBinop BinaryOperatorAggregate
  | ChBarrier NamedBarrierValue
  | ChBarrierFin NamedBarrierValueAfterFinish
  | ChLastFin LastValueAfterFinish
  | ChReducer channel ReducerFunc

text \<open>A \<^verbatim>\<open>ReducerChannel\<close> embeds the wrapped channel and overrides four of its methods.\<close>

fun ch_Get :: "channel \<Rightarrow> (gerror, channel, goval) outcome" where
  "ch_Get (ChLastValue c) = (ChLastValue c, LastValue_Get c)"
| "ch_Get (ChAnyValue c) = (ChAnyValue c, AnyValue_Get c)"
| "ch_Get (ChEphemeral c) = (let (c', r) = EphemeralValue_Get c in (ChEphemeral c', r))"
| "ch_Get (ChUntracked c) = (ChUntracked c, UntrackedValue_Get c)"
| "ch_Get (ChTopic c) = (ChTopic c, Topic_Get c)"
| "ch_Get (ChBinop c) = (ChBinop c, BinaryOperatorAggregate_Get c)"
| "ch_Get (ChBarrier c) = (ChBarrier c, NamedBarrierValue_Get c)"
| "ch_Get (ChBarrierFin c) = (ChBarrierFin c, NamedBarrierValueAfterFinish_Get c)"
| "ch_Get (ChLastFin c) = (ChLastFin c, LastValueAfterFinish_Get c)"
| "ch_Get (ChReducer c f) = (let (c', r) = ch_Get c in (ChReducer c' f, r))"

fun ch_IsAvailable :: "channel \<Rightarrow> bool" where
  "ch_IsAvailable (ChLastValue c) = LastValue_IsAvailable c"
| "ch_IsAvailable (ChAnyValue c) = AnyValue_IsAvailable c"
| "ch_IsAvailable (ChEphemeral c) = EphemeralValue_IsAvailable c"
| "ch_IsAvailable (ChUntracked c) = UntrackedValue_IsAvailable c"
| "ch_IsAvailable (ChTopic c) = Topic_IsAvailable c"
| "ch_IsAvailable (ChBinop c) = BinaryOperatorAggregate_IsAvailable c"
| "ch_IsAvailable (ChBarrier c) = NamedBarrierValue_IsAvailable c"
| "ch_IsAvailable (ChBarrierFin c) = NamedBarrierValueAfterFinish_IsAvailable c"
| "ch_IsAvailable (ChLastFin c) = LastValueAfterFinish_IsAvailable c"
| "ch_IsAvailable (ChReducer c f) = ch_IsAvailable c"

fun reduce_rest :: "ReducerFunc \<Rightarrow> goval \<Rightarrow> goval list \<Rightarrow> goval" where
  "reduce_rest f combined [] = combined"
| "reduce_rest f combined (v # vs) = reduce_rest f (f combined v) vs"

definition out_map :: "('s \<Rightarrow> 't) \<Rightarrow> ('e, 's, 'a) outcome \<Rightarrow> ('e, 't, 'a) outcome" where
  "out_map g o' = (g (fst o'), snd o')"

lemma out_map_sel [simp]: "fst (out_map g x) = g (fst x)" "snd (out_map g x) = snd x"
  by (simp_all add: out_map_def)

lemma size_ch_Get [termination_simp]: "size (fst (ch_Get c)) = size c"
  by (induction c rule: ch_Get.induct) (auto split: prod.splits)

text \<open>
  \<^verbatim>\<open>ReducerChannel.Update\<close> reads the wrapped channel, folds the values into what it read (or starts
  from the first value when the read failed) and writes the one combined value.
\<close>

fun ch_Update :: "channel \<Rightarrow> goval list \<Rightarrow> (gerror, channel, bool) outcome" where
  "ch_Update (ChLastValue c) vs = out_map ChLastValue (LastValue_Update c vs)"
| "ch_Update (ChAnyValue c) vs = out_map ChAnyValue (AnyValue_Update c vs)"
| "ch_Update (ChEphemeral c) vs = out_map ChEphemeral (EphemeralValue_Update c vs)"
| "ch_Update (ChUntracked c) vs = out_map ChUntracked (UntrackedValue_Update c vs)"
| "ch_Update (ChTopic c) vs = out_map ChTopic (Topic_Update c vs)"
| "ch_Update (ChBinop c) vs = out_map ChBinop (BinaryOperatorAggregate_Update c vs)"
| "ch_Update (ChBarrier c) vs = out_map ChBarrier (NamedBarrierValue_Update c vs)"
| "ch_Update (ChBarrierFin c) vs = out_map ChBarrierFin (NamedBarrierValueAfterFinish_Update c vs)"
| "ch_Update (ChLastFin c) vs = out_map ChLastFin (LastValueAfterFinish_Update c vs)"
| "ch_Update (ChReducer c f) vs =
     (case vs of
        [] \<Rightarrow> (ChReducer c f, Inr False)
      | v # rest \<Rightarrow>
          let first = (case snd (ch_Get c) of Inr current \<Rightarrow> f current v | Inl _ \<Rightarrow> v)
          in out_map (\<lambda>d. ChReducer d f) (ch_Update (fst (ch_Get c)) [reduce_rest f first rest]))"

fun ch_Copy :: "channel \<Rightarrow> channel" where
  "ch_Copy (ChLastValue c) = ChLastValue (LastValue_Copy c)"
| "ch_Copy (ChAnyValue c) = ChAnyValue (AnyValue_Copy c)"
| "ch_Copy (ChEphemeral c) = ChEphemeral (EphemeralValue_Copy c)"
| "ch_Copy (ChUntracked c) = ChUntracked (UntrackedValue_Copy c)"
| "ch_Copy (ChTopic c) = ChTopic (Topic_Copy c)"
| "ch_Copy (ChBinop c) = ChBinop (BinaryOperatorAggregate_Copy c)"
| "ch_Copy (ChBarrier c) = ChBarrier (NamedBarrierValue_Copy c)"
| "ch_Copy (ChBarrierFin c) = ChBarrierFin (NamedBarrierValueAfterFinish_Copy c)"
| "ch_Copy (ChLastFin c) = ChLastFin (LastValueAfterFinish_Copy c)"
| "ch_Copy (ChReducer c f) = ChReducer (ch_Copy c) f"

fun ch_Checkpoint :: "channel \<Rightarrow> goval" where
  "ch_Checkpoint (ChLastValue c) = LastValue_Checkpoint c"
| "ch_Checkpoint (ChAnyValue c) = AnyValue_Checkpoint c"
| "ch_Checkpoint (ChEphemeral c) = EphemeralValue_Checkpoint c"
| "ch_Checkpoint (ChUntracked c) = UntrackedValue_Checkpoint c"
| "ch_Checkpoint (ChTopic c) = Topic_Checkpoint c"
| "ch_Checkpoint (ChBinop c) = BinaryOperatorAggregate_Checkpoint c"
| "ch_Checkpoint (ChBarrier c) = NamedBarrierValue_Checkpoint c"
| "ch_Checkpoint (ChBarrierFin c) = NamedBarrierValueAfterFinish_Checkpoint c"
| "ch_Checkpoint (ChLastFin c) = LastValueAfterFinish_Checkpoint c"
| "ch_Checkpoint (ChReducer c f) = ch_Checkpoint c"

fun ch_FromCheckpoint :: "channel \<Rightarrow> goval \<Rightarrow> channel" where
  "ch_FromCheckpoint (ChLastValue c) cp = ChLastValue (LastValue_FromCheckpoint c cp)"
| "ch_FromCheckpoint (ChAnyValue c) cp = ChAnyValue (AnyValue_FromCheckpoint c cp)"
| "ch_FromCheckpoint (ChEphemeral c) cp = ChEphemeral (EphemeralValue_FromCheckpoint c cp)"
| "ch_FromCheckpoint (ChUntracked c) cp = ChUntracked (UntrackedValue_FromCheckpoint c cp)"
| "ch_FromCheckpoint (ChTopic c) cp = ChTopic (Topic_FromCheckpoint c cp)"
| "ch_FromCheckpoint (ChBinop c) cp = ChBinop (BinaryOperatorAggregate_FromCheckpoint c cp)"
| "ch_FromCheckpoint (ChBarrier c) cp = ChBarrier (NamedBarrierValue_FromCheckpoint c cp)"
| "ch_FromCheckpoint (ChBarrierFin c) cp =
     ChBarrierFin (NamedBarrierValueAfterFinish_FromCheckpoint c cp)"
| "ch_FromCheckpoint (ChLastFin c) cp = ChLastFin (LastValueAfterFinish_FromCheckpoint c cp)"
| "ch_FromCheckpoint (ChReducer c f) cp = ChReducer (ch_FromCheckpoint c cp) f"

text \<open>\<^verbatim>\<open>BaseChannel\<close>'s \<^verbatim>\<open>Consume\<close> and \<^verbatim>\<open>Finish\<close> do nothing and return false.\<close>

fun ch_Consume :: "channel \<Rightarrow> channel \<times> bool" where
  "ch_Consume (ChBarrier c) = map_prod ChBarrier id (NamedBarrierValue_Consume c)"
| "ch_Consume (ChBarrierFin c) = map_prod ChBarrierFin id (NamedBarrierValueAfterFinish_Consume c)"
| "ch_Consume (ChReducer c f) = map_prod (\<lambda>d. ChReducer d f) id (ch_Consume c)"
| "ch_Consume c = (c, False)"

fun ch_Finish :: "channel \<Rightarrow> channel \<times> bool" where
  "ch_Finish (ChBarrier c) = map_prod ChBarrier id (NamedBarrierValue_Finish c)"
| "ch_Finish (ChBarrierFin c) = map_prod ChBarrierFin id (NamedBarrierValueAfterFinish_Finish c)"
| "ch_Finish (ChLastFin c) = map_prod ChLastFin id (LastValueAfterFinish_Finish c)"
| "ch_Finish (ChReducer c f) = map_prod (\<lambda>d. ChReducer d f) id (ch_Finish c)"
| "ch_Finish c = (c, False)"

fun ch_GetVersion :: "channel \<Rightarrow> int" where
  "ch_GetVersion (ChLastValue c) = Version c"
| "ch_GetVersion (ChAnyValue c) = Version c"
| "ch_GetVersion (ChEphemeral c) = Version c"
| "ch_GetVersion (ChUntracked c) = Version c"
| "ch_GetVersion (ChTopic c) = Version c"
| "ch_GetVersion (ChBinop c) = Version c"
| "ch_GetVersion (ChBarrier c) = Version c"
| "ch_GetVersion (ChBarrierFin c) = Version c"
| "ch_GetVersion (ChLastFin c) = Version c"
| "ch_GetVersion (ChReducer c f) = ch_GetVersion c"

text \<open>
  \<^verbatim>\<open>SetVersion\<close> is a method of the structs but not of the interface, so a \<^verbatim>\<open>ReducerChannel\<close>, which
  embeds the interface, does not have it and the engine's type assertion fails.
\<close>

fun ch_SetVersion :: "int \<Rightarrow> channel \<Rightarrow> channel" where
  "ch_SetVersion v (ChLastValue c) = ChLastValue (SetVersion v c)"
| "ch_SetVersion v (ChAnyValue c) = ChAnyValue (SetVersion v c)"
| "ch_SetVersion v (ChEphemeral c) = ChEphemeral (SetVersion v c)"
| "ch_SetVersion v (ChUntracked c) = ChUntracked (SetVersion v c)"
| "ch_SetVersion v (ChTopic c) = ChTopic (SetVersion v c)"
| "ch_SetVersion v (ChBinop c) = ChBinop (SetVersion v c)"
| "ch_SetVersion v (ChBarrier c) = ChBarrier (SetVersion v c)"
| "ch_SetVersion v (ChBarrierFin c) = ChBarrierFin (SetVersion v c)"
| "ch_SetVersion v (ChLastFin c) = ChLastFin (SetVersion v c)"
| "ch_SetVersion v (ChReducer c f) = ChReducer c f"

fun ch_SetKey :: "string \<Rightarrow> channel \<Rightarrow> channel" where
  "ch_SetKey k (ChLastValue c) = ChLastValue (SetKey k c)"
| "ch_SetKey k (ChAnyValue c) = ChAnyValue (SetKey k c)"
| "ch_SetKey k (ChEphemeral c) = ChEphemeral (SetKey k c)"
| "ch_SetKey k (ChUntracked c) = ChUntracked (SetKey k c)"
| "ch_SetKey k (ChTopic c) = ChTopic (SetKey k c)"
| "ch_SetKey k (ChBinop c) = ChBinop (SetKey k c)"
| "ch_SetKey k (ChBarrier c) = ChBarrier (SetKey k c)"
| "ch_SetKey k (ChBarrierFin c) = ChBarrierFin (SetKey k c)"
| "ch_SetKey k (ChLastFin c) = ChLastFin (SetKey k c)"
| "ch_SetKey k (ChReducer c f) = ChReducer (ch_SetKey k c) f"

subsection \<open>Built-in reducers and CreateReducerChannel (reducer.go)\<close>

definition AddReducer :: ReducerFunc where
  "AddReducer current upd =
     (case (current, upd) of
        (GNil, _) \<Rightarrow> upd
      | (GInt ci, GInt ui) \<Rightarrow> GInt (ci + ui)
      | (GFloat cf, GFloat uf) \<Rightarrow> GFloat (f64_add cf uf)
      | _ \<Rightarrow> upd)"

definition AppendReducer :: ReducerFunc where
  "AppendReducer current upd =
     (case current of
        GNil \<Rightarrow> GList [upd]
      | GList xs \<Rightarrow> GList (xs @ [upd])
      | _ \<Rightarrow> GList [current, upd])"

definition MergeReducer :: ReducerFunc where
  "MergeReducer current upd =
     (case (current, upd) of
        (GNil, _) \<Rightarrow> upd
      | (GMap cm, GMap um) \<Rightarrow> GMap (gm_copy_into um (gm_copy_into cm []))
      | _ \<Rightarrow> upd)"

text \<open>The operator \<^verbatim>\<open>CreateReducerChannel\<close> gives map fields.\<close>

definition MergeMaps :: BinaryOperator where
  "MergeMaps a b =
     (case (a, b) of (GMap am, GMap bm) \<Rightarrow> GMap (gm_copy_into bm (gm_copy_into am [])) | _ \<Rightarrow> b)"

text \<open>
  For slices, arrays and maps the code passes the \<^verbatim>\<open>reflect.Type\<close> of the field itself as \<^verbatim>\<open>typ\<close>, so
  the dynamic type that \<^verbatim>\<open>createZeroValue\<close> sees is the one of type descriptors; for numbers it
  passes the zero value of the field's type.
\<close>

definition CreateReducerChannel :: "string \<Rightarrow> gotype \<Rightarrow> ReducerFunc option \<Rightarrow> channel" where
  "CreateReducerChannel fieldName fieldType reducer =
     (let ch = (case kind_of fieldType of
                  KSlice \<Rightarrow> ChBinop (NewBinaryOperatorAggregate type_of_rtype ListAppend)
                | KArray \<Rightarrow> ChBinop (NewBinaryOperatorAggregate type_of_rtype ListAppend)
                | KMap \<Rightarrow> ChBinop (NewBinaryOperatorAggregate type_of_rtype MergeMaps)
                | KInt \<Rightarrow> ChBinop (NewBinaryOperatorAggregate fieldType IntAdd)
                | KNum k \<Rightarrow> ChBinop (NewBinaryOperatorAggregate fieldType IntAdd)
                | KFloat64 \<Rightarrow> ChBinop (NewBinaryOperatorAggregate fieldType IntAdd)
                | _ \<Rightarrow> ChLastValue (NewLastValue type_of_rtype));
          ch1 = ch_SetKey fieldName ch
      in (case reducer of Some f \<Rightarrow> ChReducer ch1 f | None \<Rightarrow> ch1))"

end
