(* ===== verification/ChannelLaws.thy ===== *)
theory ChannelLaws
  imports Channels
begin

text \<open>
  What the channels of \<^verbatim>\<open>graph/channels\<close> promise: the contract of the interface \<^verbatim>\<open>Channel\<close> as the
  locale \<open>channel_adt\<close>, its interpretation on the sum of all channel types, and the functional
  behaviour of the aggregates and barriers.
\<close>

section \<open>The contract of a channel\<close>

text \<open>
  \<open>core\<close> forgets what no method but \<^verbatim>\<open>GetVersion\<close> reads. The laws: the methods depend on the core
  only, an available channel can be read, and a channel restored from its own checkpoint has the
  core of the original.
\<close>

datatype chan_op = OpGet | OpUpdate "goval list" | OpAvailable

datatype chan_obs = ObsGet "gerror + goval" | ObsUpdate "gerror + bool" | ObsAvailable bool

text \<open>A sequence of calls and what each of them returns.\<close>

fun run_op ::
  "('c \<Rightarrow> (gerror, 'c, goval) outcome) \<Rightarrow> ('c \<Rightarrow> bool) \<Rightarrow> ('c \<Rightarrow> goval list \<Rightarrow> (gerror, 'c, bool) outcome)
     \<Rightarrow> 'c \<Rightarrow> chan_op \<Rightarrow> 'c \<times> chan_obs" where
  "run_op get avail upd c OpGet = (fst (get c), ObsGet (snd (get c)))"
| "run_op get avail upd c (OpUpdate vs) = (fst (upd c vs), ObsUpdate (snd (upd c vs)))"
| "run_op get avail upd c OpAvailable = (c, ObsAvailable (avail c))"

fun run_ops ::
  "('c \<Rightarrow> (gerror, 'c, goval) outcome) \<Rightarrow> ('c \<Rightarrow> bool) \<Rightarrow> ('c \<Rightarrow> goval list \<Rightarrow> (gerror, 'c, bool) outcome)
     \<Rightarrow> 'c \<Rightarrow> chan_op list \<Rightarrow> chan_obs list" where
  "run_ops get avail upd c [] = []"
| "run_ops get avail upd c (x # xs) =
     snd (run_op get avail upd c x) # run_ops get avail upd (fst (run_op get avail upd c x)) xs"

locale channel_adt =
  fixes core :: "'c \<Rightarrow> 'c"
    and invar :: "'c \<Rightarrow> bool"
    and get :: "'c \<Rightarrow> (gerror, 'c, goval) outcome"
    and avail :: "'c \<Rightarrow> bool"
    and upd :: "'c \<Rightarrow> goval list \<Rightarrow> (gerror, 'c, bool) outcome"
    and copy :: "'c \<Rightarrow> 'c"
    and checkpoint :: "'c \<Rightarrow> goval"
    and restore :: "'c \<Rightarrow> goval \<Rightarrow> 'c"
  assumes get_core: "get (core c) = out_map core (get c)"
    and avail_core: "avail (core c) = avail c"
    and upd_core: "upd (core c) vs = out_map core (upd c vs)"
    and avail_get: "avail c \<Longrightarrow> is_ok (snd (get c))"
    and core_copy: "invar c \<Longrightarrow> core (copy c) = core c"
    and core_restore: "invar c \<Longrightarrow> checkpoint c \<noteq> GMissing \<Longrightarrow> core (restore c (checkpoint c)) = core c"
begin

lemma run_op_core: "run_op get avail upd (core c) x = (core (fst (run_op get avail upd c x)), snd (run_op get avail upd c x))"
  by (cases x) (simp_all add: get_core upd_core avail_core)

lemma run_ops_of_core: "run_ops get avail upd (core c) xs = run_ops get avail upd c xs"
  by (induction xs arbitrary: c) (simp_all add: run_op_core)

text \<open>Channels with the same core cannot be told apart by any sequence of calls.\<close>

lemma run_ops_core: "core c = core d \<Longrightarrow> run_ops get avail upd c xs = run_ops get avail upd d xs"
  using run_ops_of_core [of c xs] run_ops_of_core [of d xs] by simp

lemma restored_same_runs:
  "invar c \<Longrightarrow> checkpoint c \<noteq> GMissing \<Longrightarrow> run_ops get avail upd (restore c (checkpoint c)) xs = run_ops get avail upd c xs"
  by (intro run_ops_core core_restore)

lemma copied_same_runs: "invar c \<Longrightarrow> run_ops get avail upd (copy c) xs = run_ops get avail upd c xs"
  by (intro run_ops_core core_copy)

lemma restored_get:
  assumes "invar c" "checkpoint c \<noteq> GMissing"
  shows "snd (get (restore c (checkpoint c))) = snd (get c)"
  using restored_same_runs [OF assms, of "[OpGet]"] by simp

end

section \<open>The interpretation on the channel types\<close>

text \<open>The core of a channel: the version set to 0, also under reducers.\<close>

fun ch_core :: "channel \<Rightarrow> channel" where
  "ch_core (ChReducer c f) = ChReducer (ch_core c) f"
| "ch_core c = ch_SetVersion 0 c"

text \<open>
  The invariant: the maps of a barrier have distinct keys, and no part of the channel is of a type
  that does not save all of its state (\<^verbatim>\<open>UntrackedValue\<close> saves nothing, \<^verbatim>\<open>LastValueAfterFinish\<close> does
  not save \<^verbatim>\<open>finished\<close>).
\<close>

fun ch_persistent :: "channel \<Rightarrow> bool" where
  "ch_persistent (ChUntracked c) = False"
| "ch_persistent (ChLastFin c) = False"
| "ch_persistent (ChBarrier c) = (gm_ok (nb_names c) \<and> gm_ok (nb_seen c))"
| "ch_persistent (ChBarrierFin c) = (gm_ok (nf_names c) \<and> gm_ok (nf_seen c))"
| "ch_persistent (ChReducer c f) = ch_persistent c"
| "ch_persistent c = True"

lemma ch_Get_core: "ch_Get (ch_core c) = out_map ch_core (ch_Get c)"
  by (induction c) (auto simp: chan_defs SetVersion_def out_map_def Let_def split: prod.splits)

lemma ch_IsAvailable_core: "ch_IsAvailable (ch_core c) = ch_IsAvailable c"
  by (induction c) (auto simp: chan_defs SetVersion_def)

lemma ch_Update_core: "ch_Update (ch_core c) vs = out_map ch_core (ch_Update c vs)"
proof (induction c vs rule: ch_Update.induct)
  case (10 c f vs)
  show ?case
  proof (cases vs)
    case Nil
    then show ?thesis by (simp add: out_map_def)
  next
    case (Cons v rest)
    then show ?thesis
      using 10 by (simp add: ch_Get_core out_map_def Let_def)
  qed
qed (auto simp: chan_defs SetVersion_def out_map_def Let_def split: prod.splits)

lemma ch_avail_get: "ch_IsAvailable c \<Longrightarrow> is_ok (snd (ch_Get c))"
  by (induction c) (auto simp: chan_defs Let_def split: prod.splits)

lemma ch_core_copy: "ch_persistent c \<Longrightarrow> ch_core (ch_Copy c) = ch_core c"
  by (induction c) (simp_all add: chan_defs SetVersion_def)

lemma ch_core_restore:
  "ch_persistent c \<Longrightarrow> ch_Checkpoint c \<noteq> GMissing \<Longrightarrow>
   ch_core (ch_FromCheckpoint c (ch_Checkpoint c)) = ch_core c"
  by (induction c)
    (auto simp: chan_defs SetVersion_def assert_defs restore_seen_def gm_val_def split: if_splits)

interpretation chan: channel_adt ch_core ch_persistent ch_Get ch_IsAvailable ch_Update ch_Copy
  ch_Checkpoint ch_FromCheckpoint
  by unfold_locales (fact ch_Get_core ch_IsAvailable_core ch_Update_core ch_avail_get ch_core_copy
      ch_core_restore)+

text \<open>C8: a channel restored from its own checkpoint cannot be told apart from the original: every
  sequence of reads, updates and availability checks returns the same results, for each channel
  type that saves its whole state, also under any nesting of reducers, if it has something to save.\<close>

theorem channel_resume_equiv:
  assumes "ch_persistent c" and "ch_Checkpoint c \<noteq> GMissing"
  shows "run_ops ch_Get ch_IsAvailable ch_Update (ch_FromCheckpoint c (ch_Checkpoint c)) xs
       = run_ops ch_Get ch_IsAvailable ch_Update c xs"
  using assms by (rule chan.restored_same_runs)

theorem channel_resume_equiv_witness:
  "run_ops ch_Get ch_IsAvailable ch_Update
     (ch_FromCheckpoint (ChTopic \<lparr>Key = ''log'', Typ = TNil, Version = 3, topic_values = [GStr ''a''],
        accumulate = True\<rparr>) (GList [GStr ''a'']))
     [OpUpdate [GStr ''b''], OpGet]
   = [ObsUpdate (Inr True), ObsGet (Inr (GList [GStr ''a'', GStr ''b'']))]"
  using channel_resume_equiv [of "ChTopic \<lparr>Key = ''log'', Typ = TNil, Version = 3,
      topic_values = [GStr ''a''], accumulate = True\<rparr>" "[OpUpdate [GStr ''b''], OpGet]"]
  by (simp add: chan_defs assert_defs out_map_def)

section \<open>Operations keep the invariant\<close>

lemma barrier_loop_gm_ok: "gm_ok seen \<Longrightarrow> gm_ok (fst (barrier_loop names seen u vs))"
  by (induction names seen u vs rule: barrier_loop.induct) (auto split: option.splits)

lemma ch_persistent_Get: "ch_persistent c \<Longrightarrow> ch_persistent (fst (ch_Get c))"
  by (induction c) (auto simp: Let_def split: prod.splits)

lemma ch_persistent_Update: "ch_persistent c \<Longrightarrow> ch_persistent (fst (ch_Update c vs))"
proof (induction c vs rule: ch_Update.induct)
  case (7 c vs)
  then show ?case
    using barrier_loop_gm_ok [of "nb_seen c" "nb_names c" False vs]
    by (auto simp: chan_defs Let_def split: prod.splits)
next
  case (8 c vs)
  then show ?case
    using barrier_loop_gm_ok [of "nf_seen c" "nf_names c" False vs]
    by (auto simp: chan_defs Let_def split: prod.splits)
next
  case (10 c f vs)
  then show ?case
    using ch_persistent_Get [of c] by (cases vs) (auto simp: Let_def)
qed (auto simp: chan_defs)

lemma ch_persistent_Consume: "ch_persistent c \<Longrightarrow> ch_persistent (fst (ch_Consume c))"
  by (induction c) (auto simp: chan_defs)

lemma ch_persistent_Finish: "ch_persistent c \<Longrightarrow> ch_persistent (fst (ch_Finish c))"
  by (induction c) (auto simp: chan_defs)

lemma restore_seen_gm_ok: "gm_ok (restore_seen v)"
proof (cases v)
  case (GMap m)
  have "gm_ok (fold (\<lambda>(k, bv) s. case as_bool bv of Some b \<Rightarrow> gm_set k b s | None \<Rightarrow> s) m ([] :: bool gomap))"
    by (rule fold_invariant') (auto split: option.splits)
  then show ?thesis by (simp add: GMap restore_seen_def)
qed (simp_all add: restore_seen_def)

lemma expected_names_gm_ok: "gm_ok (expected_names ws)"
  unfolding expected_names_def by (rule fold_invariant') auto

lemma ch_persistent_FromCheckpoint: "ch_persistent c \<Longrightarrow> ch_persistent (ch_FromCheckpoint c cp)"
  by (induction c)
    (auto simp: chan_defs Let_def restore_seen_gm_ok expected_names_gm_ok split: option.splits)

section \<open>BinaryOperatorAggregate\<close>

text \<open>The reference behaviour: fold the operator, unless one of the values is an overwrite.\<close>

definition overwrites :: "goval list \<Rightarrow> goval list" where
  "overwrites vs = List.map_filter isOverwrite vs"

lemma overwrites_simps [simp]:
  "overwrites [] = []"
  "overwrites (v # vs) = (case isOverwrite v of None \<Rightarrow> overwrites vs | Some w \<Rightarrow> w # overwrites vs)"
  by (simp_all add: overwrites_def List.map_filter_def split: option.split)

lemma binop_loop_seen:
  "binop_loop f cur True vs =
     (cur, if overwrites vs = [] then Inr True else Inl (InvalidUpdateError OneOverwritePerStep))"
  by (induction vs arbitrary: cur) (auto split: option.splits)

lemma binop_loop_spec:
  "binop_loop f cur False vs =
     (case overwrites vs of
        [] \<Rightarrow> (foldl f cur vs, Inr True)
      | [w] \<Rightarrow> (w, Inr True)
      | w # _ \<Rightarrow> (w, Inl (InvalidUpdateError OneOverwritePerStep)))"
proof (induction vs arbitrary: cur)
  case Nil
  then show ?case by simp
next
  case (Cons v vs)
  then show ?case
    by (cases "isOverwrite v") (auto simp: binop_loop_seen split: list.splits)
qed

text \<open>An update of a non-empty aggregate folds its operator over the values; one overwrite among
  them replaces the value and everything else written in that step; two are refused, and the first
  of them stays written.\<close>

theorem binop_update_spec:
  assumes "vs \<noteq> []" and "bo_value c \<noteq> GMissing"
  shows "BinaryOperatorAggregate_Update c vs =
    (case overwrites vs of
       [] \<Rightarrow> (c\<lparr>bo_value := foldl (operator c) (bo_value c) vs\<rparr>, Inr True)
     | [w] \<Rightarrow> (c\<lparr>bo_value := w\<rparr>, Inr True)
     | w # _ \<Rightarrow> (c\<lparr>bo_value := w\<rparr>, Inl (InvalidUpdateError OneOverwritePerStep)))"
  using assms by (simp add: chan_defs binop_loop_spec split: list.split)

theorem binop_update_spec_witness:
  "BinaryOperatorAggregate_Update (NewBinaryOperatorAggregate TInt IntAdd)
     [GInt 2, GMap [(Overwrite_key, GInt 7)], GInt 5]
   = ((NewBinaryOperatorAggregate TInt IntAdd)\<lparr>bo_value := GInt 7\<rparr>, Inr True)"
  using binop_update_spec [of "[GInt 2, GMap [(Overwrite_key, GInt 7)], GInt 5]"
      "NewBinaryOperatorAggregate TInt IntAdd"]
  by (simp add: isOverwrite_def NewBinaryOperatorAggregate_def createZeroValue_def)

text \<open>\<^verbatim>\<open>types.Overwrite\<close>, the wrapper documented to bypass a reducer, is not recognised: an
  aggregate hands it to its operator like any other value.\<close>

theorem types_Overwrite_not_recognised:
  "BinaryOperatorAggregate_Update c [GOverwrite v] =
     (c\<lparr>bo_value := (if bo_value c = GMissing then GOverwrite v
                     else operator c (bo_value c) (GOverwrite v))\<rparr>, Inr True)"
  by (simp add: chan_defs isOverwrite_def)

section \<open>Barriers\<close>

text \<open>What holds of the two maps of a barrier between calls.\<close>

definition barrier_ok :: "bool gomap \<Rightarrow> bool gomap \<Rightarrow> bool" where
  "barrier_ok names seen \<longleftrightarrow>
     gm_ok names \<and> gm_ok seen \<and> set (gm_keys seen) \<subseteq> set (gm_keys names) \<and>
     (\<forall>k. map_of seen k \<noteq> Some False)"

lemma barrier_ok_seen_True:
  "barrier_ok names seen \<Longrightarrow> gm_true seen k \<longleftrightarrow> k \<in> set (gm_keys seen)"
proof -
  assume ok: "barrier_ok names seen"
  have "k \<in> set (gm_keys seen) \<longleftrightarrow> map_of seen k \<noteq> None"
    by (simp add: map_of_eq_None_iff)
  moreover have "map_of seen k \<noteq> Some False"
    using ok by (simp add: barrier_ok_def)
  ultimately show ?thesis
    by (cases "map_of seen k") (auto simp: gm_true_def)
qed

lemma namesMatchSeen_iff:
  assumes "barrier_ok names seen"
  shows "namesMatchSeen names seen \<longleftrightarrow> set (gm_keys seen) = set (gm_keys names)"
proof -
  have cards: "card (set (gm_keys names)) = length names" "card (set (gm_keys seen)) = length seen"
    using assms by (auto simp: barrier_ok_def dest: distinct_card)
  have "list_all (gm_true seen) (gm_keys names) \<longleftrightarrow> set (gm_keys names) \<subseteq> set (gm_keys seen)"
    using barrier_ok_seen_True [OF assms] by (auto simp: list_all_iff)
  then show ?thesis
    using assms cards by (auto simp: namesMatchSeen_def barrier_ok_def)
qed

lemma barrier_loop_ok:
  assumes "barrier_ok names seen" and "\<forall>v \<in> set vs. \<exists>n \<in> set (gm_keys names). v = GStr n"
  shows "is_ok (snd (barrier_loop names seen u vs)) \<and>
    barrier_ok names (fst (barrier_loop names seen u vs)) \<and>
    set (gm_keys (fst (barrier_loop names seen u vs))) =
      set (gm_keys seen) \<union> {n. GStr n \<in> set vs}"
  using assms
proof (induction vs arbitrary: seen u)
  case Nil
  then show ?case by simp
next
  case (Cons v vs)
  obtain n where v: "v = GStr n" and n: "n \<in> set (gm_keys names)"
    using Cons.prems(2) by auto
  then obtain b where b: "map_of names n = Some b"
    by (metis list.set_map map_of_eq_None_iff not_None_eq)
  have ok': "barrier_ok names (gm_set n True seen)"
    using Cons.prems(1) n by (auto simp: barrier_ok_def gm_keys_set gomap_simps)
  have vs: "\<forall>v \<in> set vs. \<exists>n \<in> set (gm_keys names). v = GStr n"
    using Cons.prems(2) by simp
  show ?case
  proof (cases "gm_true seen n")
    case True
    then have "n \<in> set (gm_keys seen)"
      using barrier_ok_seen_True [OF Cons.prems(1)] by blast
    then show ?thesis
      using Cons.IH [OF Cons.prems(1) vs, of u] True b by (auto simp: v as_string_def)
  next
    case False
    then show ?thesis
      using Cons.IH [OF ok' vs, of True] b by (auto simp: v as_string_def gm_keys_set)
  qed
qed

lemma expected_names_keys: "set (gm_keys (expected_names ws)) = set ws"
proof -
  have "set (gm_keys (fold (\<lambda>n m. gm_set n True m) ws (m :: bool gomap))) = set (gm_keys m) \<union> set ws" for m
    by (induction ws arbitrary: m) (auto simp: gm_keys_set)
  then show ?thesis by (simp add: expected_names_def)
qed

text \<open>Feeding a barrier one step of writes after the other.\<close>

definition barrier_feed :: "NamedBarrierValue \<Rightarrow> goval list list \<Rightarrow> NamedBarrierValue" where
  "barrier_feed c vss = foldl (\<lambda>c vs. fst (NamedBarrierValue_Update c vs)) c vss"

lemma barrier_feed_seen:
  assumes "barrier_ok (nb_names c) (nb_seen c)"
    and "\<forall>vs \<in> set vss. \<forall>v \<in> set vs. \<exists>n \<in> set (gm_keys (nb_names c)). v = GStr n"
  shows "nb_names (barrier_feed c vss) = nb_names c \<and>
    barrier_ok (nb_names c) (nb_seen (barrier_feed c vss)) \<and>
    set (gm_keys (nb_seen (barrier_feed c vss))) =
      set (gm_keys (nb_seen c)) \<union> {n. \<exists>vs \<in> set vss. GStr n \<in> set vs}"
  using assms
proof (induction vss arbitrary: c)
  case Nil
  then show ?case by (simp add: barrier_feed_def)
next
  case (Cons vs vss)
  define c' where "c' = fst (NamedBarrierValue_Update c vs)"
  have vs: "\<forall>v \<in> set vs. \<exists>n \<in> set (gm_keys (nb_names c)). v = GStr n"
    using Cons.prems(2) by simp
  have c': "nb_names c' = nb_names c" "nb_seen c' = fst (barrier_loop (nb_names c) (nb_seen c) False vs)"
    by (cases vs; simp add: c'_def chan_defs split: prod.split)+
  have ok: "barrier_ok (nb_names c') (nb_seen c')"
    "set (gm_keys (nb_seen c')) = set (gm_keys (nb_seen c)) \<union> {n. GStr n \<in> set vs}"
    using barrier_loop_ok [OF Cons.prems(1) vs, of False] by (auto simp: c')
  have "barrier_feed c (vs # vss) = barrier_feed c' vss"
    by (simp add: barrier_feed_def c'_def)
  with Cons.IH [OF ok(1)] ok(2) Cons.prems(2) show ?case by (auto simp: c')
qed

text \<open>A named barrier opens exactly when every expected name has been written in some step, in
  whatever order and however often the names arrive.\<close>

theorem barrier_opens_iff:
  assumes "\<forall>vs \<in> set vss. \<forall>v \<in> set vs. \<exists>n \<in> set ws. v = GStr n"
  shows "NamedBarrierValue_IsAvailable (barrier_feed (NewNamedBarrierValue t ws) vss) \<longleftrightarrow>
    (\<forall>n \<in> set ws. \<exists>vs \<in> set vss. GStr n \<in> set vs)"
proof -
  let ?c = "NewNamedBarrierValue t ws"
  have names: "nb_names ?c = expected_names ws" "nb_seen ?c = []"
    by (simp_all add: NewNamedBarrierValue_def)
  have ok: "barrier_ok (nb_names ?c) (nb_seen ?c)"
    by (simp add: names barrier_ok_def expected_names_gm_ok)
  have known: "\<forall>vs \<in> set vss. \<forall>v \<in> set vs. \<exists>n \<in> set (gm_keys (nb_names ?c)). v = GStr n"
    using assms by (simp only: names expected_names_keys)
  have "nb_names (barrier_feed ?c vss) = expected_names ws"
    and "barrier_ok (expected_names ws) (nb_seen (barrier_feed ?c vss))"
    and "set (gm_keys (nb_seen (barrier_feed ?c vss))) = {n. \<exists>vs \<in> set vss. GStr n \<in> set vs}"
    using barrier_feed_seen [OF ok known] by (simp_all add: names)
  moreover from assms have "{n. \<exists>vs \<in> set vss. GStr n \<in> set vs} \<subseteq> set ws"
    by auto
  ultimately show ?thesis
    unfolding NamedBarrierValue_IsAvailable_def by (simp only: namesMatchSeen_iff expected_names_keys) blast
qed

theorem barrier_opens_iff_witness:
  "NamedBarrierValue_IsAvailable
     (barrier_feed (NewNamedBarrierValue TNil [''a'', ''b'']) [[GStr ''b''], [GStr ''a'', GStr ''b'']])"
  using barrier_opens_iff [of "[[GStr ''b''], [GStr ''a'', GStr ''b'']]" "[''a'', ''b'']" TNil]
  by auto

end
