(* ===== verification/Registry.thy ===== *)
theory Registry
  imports ChannelLaws
begin

text \<open>
  The channel registry of \<^verbatim>\<open>graph/channels/base.go\<close>: the named channels of one run, how they are
  updated and read together, and the checkpoint of all of them. The loops of the code range over a
  Go map; the theorems hold for every order of the entries. An update that fails leaves the channels
  written before it written.
\<close>

section \<open>The registry and its methods\<close>

record Registry =
  reg_channels :: "channel gomap"

definition NewRegistry :: Registry where
  "NewRegistry = \<lparr>reg_channels = []\<rparr>"

definition Register :: "Registry \<Rightarrow> string \<Rightarrow> channel \<Rightarrow> Registry" where
  "Register r name c = r\<lparr>reg_channels := gm_set name c (reg_channels r)\<rparr>"

definition Registry_Get :: "Registry \<Rightarrow> string \<Rightarrow> channel option" where
  "Registry_Get r name = map_of (reg_channels r) name"

definition Registry_Remove :: "Registry \<Rightarrow> string \<Rightarrow> Registry" where
  "Registry_Remove r name = r\<lparr>reg_channels := gm_delete name (reg_channels r)\<rparr>"

definition Registry_Len :: "Registry \<Rightarrow> nat" where
  "Registry_Len r = length (reg_channels r)"

definition Registry_Names :: "Registry \<Rightarrow> string list" where
  "Registry_Names r = gm_keys (reg_channels r)"

definition Registry_List :: "Registry \<Rightarrow> string list" where
  "Registry_List r = Registry_Names r"

definition CreateCheckpoint :: "Registry \<Rightarrow> gostate" where
  "CreateCheckpoint r =
     fold (\<lambda>(name, c) cp. if \<not> IsMissing (ch_Checkpoint c) then gm_set name (ch_Checkpoint c) cp else cp)
       (reg_channels r) []"

fun restore_loop :: "channel gomap \<Rightarrow> gostate \<Rightarrow> (gerror, channel gomap, unit) outcome" where
  "restore_loop chans [] = (chans, Inr ())"
| "restore_loop chans ((name, cp) # rest) =
     (case map_of chans name of
        None \<Rightarrow> (chans, Inl (PlainError ''channel not found in registry'' [name]))
      | Some c \<Rightarrow> restore_loop (gm_set name (ch_FromCheckpoint c cp) chans) rest)"

definition RestoreFromCheckpoint :: "Registry \<Rightarrow> gostate \<Rightarrow> (gerror, Registry, unit) outcome" where
  "RestoreFromCheckpoint r checkpoint =
     (let (chans, res) = restore_loop (reg_channels r) checkpoint in (r\<lparr>reg_channels := chans\<rparr>, res))"

fun update_loop :: "channel gomap \<Rightarrow> goval list gomap \<Rightarrow> (gerror, channel gomap, unit) outcome" where
  "update_loop chans [] = (chans, Inr ())"
| "update_loop chans ((name, values) # rest) =
     (case map_of chans name of
        None \<Rightarrow> (chans, Inl (ChannelNotFoundError name))
      | Some c \<Rightarrow>
          (let (c', res) = ch_Update c values;
               chans' = gm_set name c' chans
           in (case res of
                 Inl e \<Rightarrow> (chans', Inl (WrapError ''failed to update channel'' [name] e))
               | Inr _ \<Rightarrow> update_loop chans' rest)))"

definition UpdateChannels :: "Registry \<Rightarrow> goval list gomap \<Rightarrow> (gerror, Registry, unit) outcome" where
  "UpdateChannels r writes =
     (let (chans, res) = update_loop (reg_channels r) writes in (r\<lparr>reg_channels := chans\<rparr>, res))"

text \<open>\<^verbatim>\<open>GetValues\<close> reads every channel, which empties the ephemeral ones.\<close>

fun values_loop ::
  "channel gomap \<Rightarrow> channel gomap \<Rightarrow> gostate \<Rightarrow> (gerror, channel gomap, gostate) outcome" where
  "values_loop chans [] vals = (chans, Inr vals)"
| "values_loop chans ((name, c) # rest) vals =
     (let (c', res) = ch_Get c;
          chans' = gm_set name c' chans
      in (case res of
            Inl e \<Rightarrow>
              if IsEmptyChannelError e then values_loop chans' rest vals
              else (chans', Inl (WrapError ''failed to get value from channel'' [name] e))
          | Inr v \<Rightarrow> values_loop chans' rest (gm_set name v vals)))"

definition GetValues :: "Registry \<Rightarrow> (gerror, Registry, gostate) outcome" where
  "GetValues r =
     (let (chans, res) = values_loop (reg_channels r) (reg_channels r) []
      in (r\<lparr>reg_channels := chans\<rparr>, res))"

section \<open>Reading all channels\<close>

text \<open>The invariant of the registry: one channel per name.\<close>

definition reg_ok :: "Registry \<Rightarrow> bool" where
  "reg_ok r = gm_ok (reg_channels r)"

lemma ch_Get_error: "snd (ch_Get c) = Inl e \<Longrightarrow> e = EmptyChannelError"
  by (induction c) (auto simp: chan_defs Let_def split: if_splits prod.splits)

text \<open>The value a channel contributes to \<^verbatim>\<open>GetValues\<close>.\<close>

definition ch_value :: "channel \<Rightarrow> goval option" where
  "ch_value c = (case snd (ch_Get c) of Inl e \<Rightarrow> None | Inr v \<Rightarrow> Some v)"

lemma values_loop_spec:
  "gm_ok todo \<Longrightarrow> \<exists>chans' vals'. values_loop chans todo vals = (chans', Inr vals') \<and>
    (\<forall>k. map_of chans' k = (case map_of todo k of
       None \<Rightarrow> map_of chans k | Some c \<Rightarrow> Some (fst (ch_Get c)))) \<and>
    (\<forall>k. map_of vals' k = (case map_of todo k of
       None \<Rightarrow> map_of vals k
     | Some c \<Rightarrow> (case ch_value c of None \<Rightarrow> map_of vals k | Some v \<Rightarrow> Some v)))"
proof (induction todo arbitrary: chans vals)
  case Nil
  then show ?case by simp
next
  case (Cons p todo)
  obtain name c where p: "p = (name, c)" by force
  have fresh: "map_of todo name = None" and ok: "gm_ok todo"
    using Cons.prems by (simp_all add: p map_of_eq_None_iff)
  let ?chans = "gm_set name (fst (ch_Get c)) chans"
  show ?case
  proof (cases "snd (ch_Get c)")
    case (Inl e)
    then have step: "values_loop chans (p # todo) vals = values_loop ?chans todo vals"
      by (auto simp: p split_beta dest: ch_Get_error)
    have "ch_value c = None"
      by (simp add: ch_value_def Inl)
    then show ?thesis
      using Cons.IH [OF ok, of ?chans vals] fresh unfolding step
      by (auto simp: p gomap_simps split: option.split)
  next
    case (Inr v)
    then have step: "values_loop chans (p # todo) vals = values_loop ?chans todo (gm_set name v vals)"
      by (simp add: p split_beta)
    have "ch_value c = Some v"
      by (simp add: ch_value_def Inr)
    then show ?thesis
      using Cons.IH [OF ok, of ?chans "gm_set name v vals"] fresh unfolding step
      by (auto simp: p gomap_simps split: option.split)
  qed
qed

text \<open>\<^verbatim>\<open>GetValues\<close> always succeeds on a registry, returns exactly the values of the channels that
  have one, and changes the channels only as reading each of them once does.\<close>

theorem GetValues_spec:
  assumes "reg_ok r"
  shows "\<exists>r' vals. GetValues r = (r', Inr vals) \<and>
    (\<forall>k. map_of vals k = Option.bind (Registry_Get r k) ch_value) \<and>
    (\<forall>k. Registry_Get r' k = map_option (fst \<circ> ch_Get) (Registry_Get r k))"
proof -
  obtain chans vals where "values_loop (reg_channels r) (reg_channels r) [] = (chans, Inr vals)"
    and "\<forall>k. map_of chans k = (case map_of (reg_channels r) k of
       None \<Rightarrow> map_of (reg_channels r) k | Some c \<Rightarrow> Some (fst (ch_Get c)))"
    and "\<forall>k. map_of vals k = (case map_of (reg_channels r) k of
       None \<Rightarrow> map_of [] k | Some c \<Rightarrow> (case ch_value c of None \<Rightarrow> map_of [] k | Some v \<Rightarrow> Some v))"
    using values_loop_spec [of "reg_channels r" "reg_channels r" "[]"] assms
    unfolding reg_ok_def by blast
  then show ?thesis
    by (auto simp: GetValues_def Registry_Get_def split: option.split)
qed

theorem GetValues_spec_witness:
  "\<exists>r' vals. GetValues \<lparr>reg_channels = [(''q'', ChEphemeral ((NewEphemeralValue TNil True)\<lparr>ev_value := GBool True\<rparr>)),
       (''e'', ChTopic (NewTopic TNil False))]\<rparr> = (r', Inr vals) \<and>
    map_of vals ''q'' = Some (GBool True) \<and> map_of vals ''e'' = None \<and>
    Registry_Get r' ''q'' = Some (ChEphemeral (NewEphemeralValue TNil True))"
  using GetValues_spec [of "\<lparr>reg_channels = [(''q'', ChEphemeral ((NewEphemeralValue TNil True)\<lparr>ev_value := GBool True\<rparr>)),
       (''e'', ChTopic (NewTopic TNil False))]\<rparr>"]
  by (fastforce simp: reg_ok_def Registry_Get_def ch_value_def chan_defs)

section \<open>Updating all channels\<close>

lemma update_loop_step:
  "update_loop chans ((name, vs) # rest) =
     (case map_of chans name of
        None \<Rightarrow> (chans, Inl (ChannelNotFoundError name))
      | Some c \<Rightarrow>
          (case snd (ch_Update c vs) of
             Inl e \<Rightarrow> (gm_set name (fst (ch_Update c vs)) chans,
                       Inl (WrapError ''failed to update channel'' [name] e))
           | Inr _ \<Rightarrow> update_loop (gm_set name (fst (ch_Update c vs)) chans) rest))"
  by (simp add: split_beta Let_def split: option.split)

declare update_loop.simps(2) [simp del]

lemma update_loop_gm_ok: "gm_ok chans \<Longrightarrow> gm_ok (fst (update_loop chans writes))"
  by (induction writes arbitrary: chans) (auto simp: update_loop_step split: option.split sum.split)

lemma update_loop_ok:
  "gm_ok writes \<Longrightarrow> is_ok (snd (update_loop chans writes)) \<longleftrightarrow>
     (\<forall>(k, vs) \<in> set writes. \<exists>c. map_of chans k = Some c \<and> is_ok (snd (ch_Update c vs)))"
proof (induction writes arbitrary: chans)
  case (Cons w rest)
  obtain name vs where w: "w = (name, vs)" by force
  have fresh: "(name, ws) \<notin> set rest" for ws
    using Cons.prems by (auto simp: w image_iff)
  then have "(\<forall>(k, vs) \<in> set rest. \<exists>c. map_of (gm_set name d chans) k = Some c \<and> is_ok (snd (ch_Update c vs)))
      \<longleftrightarrow> (\<forall>(k, vs) \<in> set rest. \<exists>c. map_of chans k = Some c \<and> is_ok (snd (ch_Update c vs)))" for d
    by (intro ball_cong) (auto simp: gomap_simps split: if_splits)
  then show ?case
    using Cons by (auto simp: w update_loop_step split: option.split sum.split)
qed simp

lemma update_loop_lookup:
  "gm_ok writes \<Longrightarrow> is_ok (snd (update_loop chans writes)) \<Longrightarrow>
     map_of (fst (update_loop chans writes)) k =
       (case map_of writes k of
          None \<Rightarrow> map_of chans k
        | Some vs \<Rightarrow> map_option (\<lambda>c. fst (ch_Update c vs)) (map_of chans k))"
proof (induction writes arbitrary: chans)
  case (Cons w rest)
  obtain name vs where w: "w = (name, vs)" by force
  have fresh: "map_of rest name = None"
    using Cons.prems by (simp add: w map_of_eq_None_iff)
  show ?case
    using Cons fresh
    by (auto simp: w update_loop_step gomap_simps split: option.splits sum.splits)
qed simp

text \<open>C10: applying a set of writes succeeds exactly when each named channel exists and accepts its
  values, and then every channel holds the result of its own update: neither depends on the order
  in which the map of writes is traversed.\<close>

theorem UpdateChannels_order_free:
  assumes "gm_ok writes"
  shows "(is_ok (snd (UpdateChannels r writes)) \<longleftrightarrow>
      (\<forall>(k, vs) \<in> set writes. \<exists>c. Registry_Get r k = Some c \<and> is_ok (snd (ch_Update c vs)))) \<and>
    (is_ok (snd (UpdateChannels r writes)) \<longrightarrow>
      (\<forall>k. Registry_Get (fst (UpdateChannels r writes)) k =
        (case map_of writes k of
           None \<Rightarrow> Registry_Get r k
         | Some vs \<Rightarrow> map_option (\<lambda>c. fst (ch_Update c vs)) (Registry_Get r k))))"
  by (simp add: UpdateChannels_def Registry_Get_def split_beta update_loop_ok [OF assms]
      update_loop_lookup [OF assms] split: option.split)

theorem UpdateChannels_order_free_witness:
  "Registry_Get (fst (UpdateChannels (Register NewRegistry ''n'' (ChBinop (NewBinaryOperatorAggregate TInt IntAdd)))
      [(''n'', [GInt 2, GInt 3])])) ''n''
   = Some (ChBinop ((NewBinaryOperatorAggregate TInt IntAdd)\<lparr>bo_value := GInt 5\<rparr>))"
proof -
  let ?r = "Register NewRegistry ''n'' (ChBinop (NewBinaryOperatorAggregate TInt IntAdd))"
  have r: "Registry_Get ?r ''n'' = Some (ChBinop (NewBinaryOperatorAggregate TInt IntAdd))"
    by (simp add: Register_def NewRegistry_def Registry_Get_def)
  have u: "ch_Update (ChBinop (NewBinaryOperatorAggregate TInt IntAdd)) [GInt 2, GInt 3]
      = (ChBinop ((NewBinaryOperatorAggregate TInt IntAdd)\<lparr>bo_value := GInt 5\<rparr>), Inr True)"
    by (simp add: chan_defs createZeroValue_def isOverwrite_def IntAdd_def out_map_def)
  have "is_ok (snd (UpdateChannels ?r [(''n'', [GInt 2, GInt 3])]))"
    using UpdateChannels_order_free [of "[(''n'', [GInt 2, GInt 3])]" ?r] r u
    by (simp del: ch_Update.simps)
  then show ?thesis
    using UpdateChannels_order_free [of "[(''n'', [GInt 2, GInt 3])]" ?r] r u
    by (simp del: ch_Update.simps)
qed

section \<open>Checkpoint and restore\<close>

lemma CreateCheckpoint_lookup:
  assumes "reg_ok r"
  shows "map_of (CreateCheckpoint r) k =
    Option.bind (Registry_Get r k) (\<lambda>c. if IsMissing (ch_Checkpoint c) then None else Some (ch_Checkpoint c))"
proof -
  have "map_of (fold (\<lambda>(name, c) cp. if \<not> IsMissing (ch_Checkpoint c)
            then gm_set name (ch_Checkpoint c) cp else cp) chans cp) k =
    (case map_of chans k of
       None \<Rightarrow> map_of cp k
     | Some c \<Rightarrow> if IsMissing (ch_Checkpoint c) then map_of cp k else Some (ch_Checkpoint c))"
    if "gm_ok chans" for chans cp
    using that
  proof (induction chans arbitrary: cp)
    case (Cons p chans)
    then have "map_of chans (fst p) = None"
      by (simp add: map_of_eq_None_iff)
    with Cons show ?case
      by (cases p) (auto simp: gomap_simps split: option.split)
  qed simp
  from this [of "reg_channels r" "[]"] assms show ?thesis
    by (simp add: CreateCheckpoint_def Registry_Get_def reg_ok_def split: option.split)
qed

lemma CreateCheckpoint_gm_ok: "gm_ok (CreateCheckpoint r)"
  unfolding CreateCheckpoint_def by (rule fold_invariant') auto

lemma restore_loop_spec:
  assumes "gm_ok cps" and "set (gm_keys cps) \<subseteq> set (gm_keys chans)"
  shows "snd (restore_loop chans cps) = Inr () \<and>
    (\<forall>k. map_of (fst (restore_loop chans cps)) k =
      (case map_of cps k of
         None \<Rightarrow> map_of chans k
       | Some cp \<Rightarrow> map_option (\<lambda>c. ch_FromCheckpoint c cp) (map_of chans k)))"
  using assms
proof (induction chans cps rule: restore_loop.induct)
  case (2 chans name cp rest)
  have rest: "map_of rest name = None" "gm_ok rest"
    using 2(2) by (simp_all add: map_of_eq_None_iff)
  obtain c where c: "map_of chans name = Some c"
    using 2(3) by (metis (no_types) insert_subset list.simps(15) list.simps(9) map_of_eq_None_iff
        list.set_map not_None_eq fst_conv)
  have "set (gm_keys rest) \<subseteq> set (gm_keys (gm_set name (ch_FromCheckpoint c cp) chans))"
    using 2(3) by auto
  then show ?case
    using "2.IH" [OF c rest(2)] rest(1) c by (auto simp: gomap_simps split: option.split)
qed simp

text \<open>
  A channel as the graph constructs it, before any write: what \<^verbatim>\<open>FromCheckpoint\<close> builds when there is
  nothing to restore.
\<close>

definition ch_blank :: "channel \<Rightarrow> channel" where
  "ch_blank c = ch_FromCheckpoint c GMissing"

text \<open>
  An aggregate without a value starts again from the zero value of its type, so its state is lost
  unless that zero value is missing too.
\<close>

fun ch_restartable :: "channel \<Rightarrow> bool" where
  "ch_restartable (ChBinop c) = (bo_value c = GMissing \<longrightarrow> createZeroValue (Typ c) = GMissing)"
| "ch_restartable (ChReducer c f) = ch_restartable c"
| "ch_restartable c = True"

lemma ch_restore_blank:
  "ch_persistent c \<Longrightarrow> ch_FromCheckpoint (ch_blank c) cp = ch_FromCheckpoint c cp"
  unfolding ch_blank_def
  by (induction c) (auto simp: chan_defs Let_def split: option.splits)

lemma ch_core_blank:
  "ch_persistent c \<Longrightarrow> ch_restartable c \<Longrightarrow> ch_Checkpoint c = GMissing \<Longrightarrow> ch_core (ch_blank c) = ch_core c"
  unfolding ch_blank_def
  by (induction c) (auto simp: chan_defs SetVersion_def split: if_splits)

definition reg_blank :: "Registry \<Rightarrow> Registry" where
  "reg_blank r = \<lparr>reg_channels = map (\<lambda>(k, c). (k, ch_blank c)) (reg_channels r)\<rparr>"

text \<open>C9: a fresh registry of the same graph, restored from the checkpoint of a running one, has under
  every name a channel that no sequence of calls can tell from the running one, provided every channel is of a type
  that saves its whole state, and aggregates without a value have no zero value to start from.\<close>

theorem registry_resume_equiv:
  assumes "reg_ok r" and "\<forall>(k, c) \<in> set (reg_channels r). ch_persistent c \<and> ch_restartable c"
    and "Registry_Get r k = Some c"
  shows "\<exists>r' c'. RestoreFromCheckpoint (reg_blank r) (CreateCheckpoint r) = (r', Inr ()) \<and>
    Registry_Get r' k = Some c' \<and>
    run_ops ch_Get ch_IsAvailable ch_Update c' xs = run_ops ch_Get ch_IsAvailable ch_Update c xs"
proof -
  let ?cp = "CreateCheckpoint r" and ?b = "reg_channels (reg_blank r)"
  have blank: "map_of ?b j = map_option ch_blank (Registry_Get r j)" for j
    by (simp add: reg_blank_def Registry_Get_def map_of_map_snd)
  have "map_of ?cp j \<noteq> None \<Longrightarrow> map_of ?b j \<noteq> None" for j
    by (auto simp: blank CreateCheckpoint_lookup [OF assms(1)] split: bind_splits)
  then have "set (gm_keys ?cp) \<subseteq> set (gm_keys ?b)"
    by (fastforce simp: map_of_eq_None_iff)
  note restored = restore_loop_spec [OF CreateCheckpoint_gm_ok this]
  have c: "ch_persistent c" "ch_restartable c"
    using assms(2,3) by (auto simp: Registry_Get_def dest: map_of_SomeD)
  let ?c' = "if ch_Checkpoint c = GMissing then ch_blank c else ch_FromCheckpoint c (ch_Checkpoint c)"
  have "map_of (fst (restore_loop ?b ?cp)) k = Some ?c'"
    using restored c assms(3)
    by (auto simp: blank CreateCheckpoint_lookup [OF assms(1)] ch_restore_blank)
  moreover have "ch_core ?c' = ch_core c"
    using c by (simp add: ch_core_blank ch_core_restore)
  ultimately show ?thesis
    using restored chan.run_ops_core [of ?c' c xs]
    by (auto simp: RestoreFromCheckpoint_def Registry_Get_def split_beta)
qed

theorem registry_resume_equiv_witness:
  "\<exists>r' c'. RestoreFromCheckpoint (reg_blank \<lparr>reg_channels = [(''log'', ChTopic ((NewTopic TNil True)\<lparr>topic_values := [GStr ''a'']\<rparr>))]\<rparr>)
      [(''log'', GList [GStr ''a''])] = (r', Inr ()) \<and>
    Registry_Get r' ''log'' = Some c' \<and>
    run_ops ch_Get ch_IsAvailable ch_Update c' [OpUpdate [GStr ''b''], OpGet]
      = [ObsUpdate (Inr True), ObsGet (Inr (GList [GStr ''a'', GStr ''b'']))]"
  using registry_resume_equiv [of "\<lparr>reg_channels = [(''log'', ChTopic ((NewTopic TNil True)\<lparr>topic_values := [GStr ''a'']\<rparr>))]\<rparr>"
      "''log''" "ChTopic ((NewTopic TNil True)\<lparr>topic_values := [GStr ''a'']\<rparr>)" "[OpUpdate [GStr ''b''], OpGet]"]
  by (simp add: reg_ok_def Registry_Get_def CreateCheckpoint_def chan_defs as_list_def)

end
