(* ===== verification/StateGraph.thy ===== *)
theory StateGraph
  imports Registry
begin

text \<open>
  Building a graph: the types \<^verbatim>\<open>Node\<close>, \<^verbatim>\<open>Edge\<close>, \<^verbatim>\<open>ConditionalEdge\<close>, \<^verbatim>\<open>Branch\<close>, \<^verbatim>\<open>DataEdge\<close> of
  \<^verbatim>\<open>types/types.go\<close>, the state schema of \<^verbatim>\<open>graph/state.go\<close> and the builder, the reachability check and
  the compilation of \<^verbatim>\<open>graph/graph.go\<close>. The functions a user attaches to nodes and edges are values
  of the model: functions from the state to what the call does.
\<close>

section \<open>Constants (constants.go)\<close>

definition End_node :: string where "End_node = ''__end__''"
definition Start_node :: string where "Start_node = ''__start__''"
definition All_nodes :: string where "All_nodes = ''*''"
definition DefaultRecursionLimit :: int where "DefaultRecursionLimit = 50"
definition NSSep :: string where "NSSep = ''|''"
definition NSEnd :: string where "NSEnd = '':''"

section \<open>Nodes and edges (types.go)\<close>

text \<open>What a call of a user's function does: it returns a value and an error (both, as in Go), or panics.\<close>

datatype call = CRet goval "gerror option" | CPanic string

type_synonym NodeFunc = "goval \<Rightarrow> call"
type_synonym EdgeFunc = "goval \<Rightarrow> goval \<times> gerror option"

datatype NodeTriggerMode = NodeTriggerUnset | NodeTriggerAnyPredecessor | NodeTriggerAllPredecessor

text \<open>Durations are in nanoseconds; the interval arithmetic of retries is in the theory \<open>Retry\<close>.\<close>

record RetryPolicy =
  InitialInterval :: int
  BackoffFactor :: f64
  MaxInterval :: int
  MaxAttempts :: int
  Jitter :: bool
  RetryOn :: "(gerror \<Rightarrow> bool) option"

record FieldMapping =
  fm_From :: string
  fm_To :: string

record Node =
  Name :: string
  Function :: NodeFunc
  Triggers :: "string list"
  Writes :: "string list"
  node_RetryPolicy :: "RetryPolicy option"
  Tags :: "string list"
  Metadata :: gostate
  node_FieldMapping :: "FieldMapping list"

record Edge =
  e_From :: string
  e_To :: string

record DataEdge =
  de_From :: string
  de_To :: string
  de_Mapping :: "FieldMapping list"

record ConditionalEdge =
  ce_From :: string
  ce_Condition :: EdgeFunc
  ce_Mapping :: "string gomap"

record Branch =
  br_From :: string
  br_Condition :: EdgeFunc
  br_Then :: "goval \<Rightarrow> string list"

record NodeOptions =
  no_RetryPolicy :: "RetryPolicy option"
  no_Tags :: "string list"
  no_Metadata :: gostate
  no_Triggers :: "string list"
  no_Writes :: "string list"
  no_FieldMapping :: "FieldMapping list"
  StatePre :: "NodeFunc option"
  StatePost :: "NodeFunc option"

section \<open>The state schema (state.go)\<close>

text \<open>
  A schema is a Go value of which only the type matters. A struct type has its fields in order, each
  with its \<^verbatim>\<open>PkgPath\<close> (empty for an exported field) and the value of its \<^verbatim>\<open>harness\<close> tag.
\<close>

record StructField =
  sf_Name :: string
  sf_Type :: gotype
  PkgPath :: string
  harness_tag :: string

datatype schema =
    SNil
  | SStruct "StructField list"
  | SMap kind
  | SPtr schema
  | SNilPtr
  | SOther kind

record Annotation =
  an_Reducer :: "ReducerFunc option"
  an_Metadata :: gostate

record fieldInfo =
  fi_Name :: string
  fi_Type :: gotype
  fi_Channel :: channel
  fi_Annotation :: "Annotation option"

text \<open>\<^verbatim>\<open>strings.TrimSpace\<close>: the white space of Unicode in UTF-8.\<close>

definition space_runes :: "string list" where
  "space_runes = map (map char_of)
     ([[9], [10], [11], [12], [13], [32], [194, 133], [194, 160], [225, 154, 128]]
      @ map (\<lambda>i. [226, 128, 128 + i]) [0..<11]
      @ [[226, 128, 168], [226, 128, 169], [226, 128, 175], [226, 129, 159], [227, 128, 128 :: nat]])"

definition space_prefix :: "string list \<Rightarrow> string \<Rightarrow> nat" where
  "space_prefix rs s =
     (case filter (\<lambda>r. take (length r) s = r) rs of [] \<Rightarrow> 0 | r # _ \<Rightarrow> length r)"

function trim_left :: "string list \<Rightarrow> string \<Rightarrow> string" where
  "trim_left rs s =
     (if space_prefix rs s = 0 \<or> s = [] then s else trim_left rs (drop (space_prefix rs s) s))"
  by pat_completeness auto
termination
  by (relation "measure (\<lambda>(rs, s). length s)") auto

declare trim_left.simps [simp del]

definition TrimSpace :: "string \<Rightarrow> string" where
  "TrimSpace s = rev (trim_left (map rev space_runes) (rev (trim_left space_runes s)))"

text \<open>\<^verbatim>\<open>strings.SplitN(s, "=", 2)\<close>: \<^const>\<open>None\<close> where there is no separator.\<close>

fun split2 :: "char \<Rightarrow> string \<Rightarrow> (string \<times> string) option" where
  "split2 c [] = None"
| "split2 c (x # xs) =
     (if x = c then Some ([], xs) else map_option (\<lambda>(a, b). (x # a, b)) (split2 c xs))"

text \<open>The built-in reducers: the same functions as in \<^verbatim>\<open>channels/reducer.go\<close>, by name.\<close>

definition reducers :: "ReducerFunc gomap" where
  "reducers = [(''add'', AddReducer), (''append'', AppendReducer), (''merge'', MergeReducer)]"

fun annotation_loop :: "Annotation \<Rightarrow> string list \<Rightarrow> gerror + Annotation" where
  "annotation_loop a [] = Inr a"
| "annotation_loop a (pair # pairs) =
     (case split2 (CHR ''='') pair of
        None \<Rightarrow> annotation_loop (a\<lparr>an_Metadata := gm_set pair (GBool True) (an_Metadata a)\<rparr>) pairs
      | Some (k, v) \<Rightarrow>
          let key = TrimSpace k; value = TrimSpace v
          in if key = ''reducer'' then
               (case map_of reducers value of
                  None \<Rightarrow> Inl (PlainError ''unknown reducer'' [value])
                | Some r \<Rightarrow> annotation_loop (a\<lparr>an_Reducer := Some r\<rparr>) pairs)
             else annotation_loop (a\<lparr>an_Metadata := gm_set key (GStr value) (an_Metadata a)\<rparr>) pairs)"

definition parseAnnotation :: "string \<Rightarrow> gerror + Annotation" where
  "parseAnnotation tag =
     annotation_loop \<lparr>an_Reducer = None, an_Metadata = []\<rparr> (split_on (CHR '','') tag)"

definition processField :: "StructField \<Rightarrow> gerror + fieldInfo" where
  "processField field =
     (let mk = (\<lambda>an. \<lparr>fi_Name = sf_Name field, fi_Type = sf_Type field,
                 fi_Channel = CreateReducerChannel (sf_Name field) (sf_Type field)
                   (case an of None \<Rightarrow> None | Some a \<Rightarrow> an_Reducer a),
                 fi_Annotation = an\<rparr>)
      in if harness_tag field \<noteq> [] then
           (case parseAnnotation (harness_tag field) of
              Inl e \<Rightarrow> Inl (WrapError ''invalid annotation'' [] e)
            | Inr a \<Rightarrow> Inr (mk (Some a)))
         else Inr (mk None))"

fun fields_loop :: "fieldInfo gomap \<Rightarrow> StructField list \<Rightarrow> gerror + fieldInfo gomap" where
  "fields_loop infos [] = Inr infos"
| "fields_loop infos (f # fs) =
     (if PkgPath f \<noteq> [] then fields_loop infos fs
      else (case processField f of
              Inl e \<Rightarrow> Inl (WrapError ''field'' [sf_Name f] e)
            | Inr info \<Rightarrow> fields_loop (gm_set (fi_Name info) info infos) fs))"

definition validateStateSchema :: "schema \<Rightarrow> gerror + fieldInfo gomap" where
  "validateStateSchema s =
     (if s = SNil then Inl (PlainError ''state schema cannot be nil'' [])
      else (case (case s of SPtr t \<Rightarrow> t | _ \<Rightarrow> s) of
              SStruct fs \<Rightarrow> fields_loop [] fs
            | SMap key \<Rightarrow>
                if key \<noteq> KString then Inl (PlainError ''state schema map must have string keys'' [])
                else Inr []
            | _ \<Rightarrow> Inl (PlainError ''state schema must be a struct or map'' [])))"

section \<open>The builder (graph.go)\<close>

record stateGraph =
  nodes :: "Node gomap"
  edges :: "Edge list"
  dataEdges :: "DataEdge list"
  conditionalEdges :: "ConditionalEdge list"
  branches :: "Branch list"
  entryPoint :: string
  finishPoints :: "string list"
  channels :: "channel gomap"
  graph_reducers :: "ReducerFunc gomap"
  stateSchema :: schema
  inputSchema :: schema
  outputSchema :: schema
  graph_NodeTriggerMode :: NodeTriggerMode

definition NewStateGraph :: "schema \<Rightarrow> stateGraph" where
  "NewStateGraph s =
     \<lparr>nodes = [], edges = [], dataEdges = [], conditionalEdges = [], branches = [], entryPoint = [],
      finishPoints = [], channels = [], graph_reducers = [], stateSchema = s, inputSchema = s,
      outputSchema = s, graph_NodeTriggerMode = NodeTriggerUnset\<rparr>"

definition WithInputSchema :: "schema \<Rightarrow> stateGraph \<Rightarrow> stateGraph" where
  "WithInputSchema s g = g\<lparr>inputSchema := s\<rparr>"

definition WithOutputSchema :: "schema \<Rightarrow> stateGraph \<Rightarrow> stateGraph" where
  "WithOutputSchema s g = g\<lparr>outputSchema := s\<rparr>"

definition new_node :: "string \<Rightarrow> NodeFunc \<Rightarrow> Node" where
  "new_node name fn =
     \<lparr>Name = name, Function = fn, Triggers = [], Writes = [], node_RetryPolicy = None, Tags = [],
      Metadata = [], node_FieldMapping = []\<rparr>"

definition AddNode :: "string \<Rightarrow> NodeFunc \<Rightarrow> stateGraph \<Rightarrow> stateGraph" where
  "AddNode name fn g = g\<lparr>nodes := gm_set name (new_node name fn) (nodes g)\<rparr>"

text \<open>The node function with the handlers around it.\<close>

definition wrap_handlers :: "string \<Rightarrow> NodeFunc option \<Rightarrow> NodeFunc option \<Rightarrow> NodeFunc \<Rightarrow> NodeFunc" where
  "wrap_handlers name pre post orig =
     (if pre = None \<and> post = None then orig
      else (\<lambda>state.
        (case (case pre of None \<Rightarrow> CRet state None | Some h \<Rightarrow> h state) of
           CPanic r \<Rightarrow> CPanic r
         | CRet _ (Some e) \<Rightarrow> CRet GNil (Some (WrapError ''state pre-handler for'' [name] e))
         | CRet s1 None \<Rightarrow>
             (case orig s1 of
                CPanic r \<Rightarrow> CPanic r
              | CRet _ (Some e) \<Rightarrow> CRet GNil (Some e)
              | CRet out None \<Rightarrow>
                  (case post of
                     None \<Rightarrow> CRet out None
                   | Some h \<Rightarrow>
                       (case h out of
                          CPanic r \<Rightarrow> CPanic r
                        | CRet _ (Some e) \<Rightarrow> CRet GNil (Some (WrapError ''state post-handler for'' [name] e))
                        | CRet out' None \<Rightarrow> CRet out' None))))))"

definition AddNodeWithOptions ::
  "string \<Rightarrow> NodeFunc \<Rightarrow> NodeOptions \<Rightarrow> stateGraph \<Rightarrow> stateGraph" where
  "AddNodeWithOptions name fn opts g =
     (let n = new_node name (wrap_handlers name (StatePre opts) (StatePost opts) fn);
          n = (if no_RetryPolicy opts \<noteq> None then n\<lparr>node_RetryPolicy := no_RetryPolicy opts\<rparr> else n);
          n = n\<lparr>Tags := Tags n @ no_Tags opts\<rparr>;
          n = n\<lparr>Metadata := gm_copy_into (no_Metadata opts) (Metadata n)\<rparr>;
          n = n\<lparr>Triggers := Triggers n @ no_Triggers opts\<rparr>;
          n = n\<lparr>Writes := Writes n @ no_Writes opts\<rparr>;
          n = n\<lparr>node_FieldMapping := node_FieldMapping n @ no_FieldMapping opts\<rparr>
      in g\<lparr>nodes := gm_set name n (nodes g)\<rparr>)"

definition WithStatePreHandler :: "NodeFunc \<Rightarrow> NodeOptions \<Rightarrow> NodeOptions" where
  "WithStatePreHandler fn opts = opts\<lparr>StatePre := Some fn\<rparr>"

definition WithStatePostHandler :: "NodeFunc \<Rightarrow> NodeOptions \<Rightarrow> NodeOptions" where
  "WithStatePostHandler fn opts = opts\<lparr>StatePost := Some fn\<rparr>"

definition WithFieldMapping :: "FieldMapping list \<Rightarrow> NodeOptions \<Rightarrow> NodeOptions" where
  "WithFieldMapping ms opts = opts\<lparr>no_FieldMapping := no_FieldMapping opts @ ms\<rparr>"

definition MapFields :: "string \<Rightarrow> string \<Rightarrow> FieldMapping" where
  "MapFields from to = \<lparr>fm_From = from, fm_To = to\<rparr>"

definition MapTo :: "string \<Rightarrow> FieldMapping" where
  "MapTo to = \<lparr>fm_From = [], fm_To = to\<rparr>"

definition has_node :: "stateGraph \<Rightarrow> string \<Rightarrow> bool" where
  "has_node g n = (map_of (nodes g) n \<noteq> None)"

definition AddEdge :: "string \<Rightarrow> string \<Rightarrow> stateGraph \<Rightarrow> (gerror, stateGraph, unit) outcome" where
  "AddEdge from to g =
     (if \<not> has_node g from \<and> from \<noteq> Start_node then (g, Inl (NodeNotFoundError from))
      else if \<not> has_node g to \<and> to \<noteq> End_node then (g, Inl (NodeNotFoundError to))
      else let g1 = g\<lparr>edges := edges g @ [\<lparr>e_From = from, e_To = to\<rparr>]\<rparr>;
               g2 = (if from = Start_node then g1\<lparr>entryPoint := to\<rparr> else g1);
               g3 = (if to = End_node \<and> from \<notin> set (finishPoints g2)
                     then g2\<lparr>finishPoints := finishPoints g2 @ [from]\<rparr> else g2)
           in (g3, Inr ()))"

text \<open>The check of the targets of a conditional edge: the first unknown one.\<close>

fun unknown_target :: "stateGraph \<Rightarrow> string gomap \<Rightarrow> string option" where
  "unknown_target g [] = None"
| "unknown_target g ((k, t) # m) =
     (if \<not> has_node g t \<and> t \<noteq> End_node then Some t else unknown_target g m)"

definition AddConditionalEdges ::
  "string \<Rightarrow> EdgeFunc \<Rightarrow> string gomap \<Rightarrow> stateGraph \<Rightarrow> (gerror, stateGraph, unit) outcome" where
  "AddConditionalEdges from condition mapping g =
     (if \<not> has_node g from then (g, Inl (NodeNotFoundError from))
      else (case unknown_target g mapping of
              Some t \<Rightarrow> (g, Inl (NodeNotFoundError t))
            | None \<Rightarrow>
                (g\<lparr>conditionalEdges := conditionalEdges g @
                    [\<lparr>ce_From = from, ce_Condition = condition, ce_Mapping = mapping\<rparr>]\<rparr>, Inr ())))"

definition AddBranch ::
  "string \<Rightarrow> EdgeFunc \<Rightarrow> (goval \<Rightarrow> string list) \<Rightarrow> stateGraph \<Rightarrow> (gerror, stateGraph, unit) outcome" where
  "AddBranch from condition next g =
     (if \<not> has_node g from then (g, Inl (NodeNotFoundError from))
      else (g\<lparr>branches := branches g @
               [\<lparr>br_From = from, br_Condition = condition, br_Then = next\<rparr>]\<rparr>, Inr ()))"

definition AddDataEdge ::
  "string \<Rightarrow> string \<Rightarrow> FieldMapping list \<Rightarrow> stateGraph \<Rightarrow> (gerror, stateGraph, unit) outcome" where
  "AddDataEdge from to mappings g =
     (if \<not> has_node g from \<and> from \<noteq> Start_node then (g, Inl (NodeNotFoundError from))
      else if \<not> has_node g to \<and> to \<noteq> End_node then (g, Inl (NodeNotFoundError to))
      else (g\<lparr>dataEdges := dataEdges g @
               [\<lparr>de_From = from, de_To = to, de_Mapping = mappings\<rparr>]\<rparr>, Inr ()))"

definition SetEntryPoint :: "string \<Rightarrow> stateGraph \<Rightarrow> (gerror, stateGraph, unit) outcome" where
  "SetEntryPoint n g =
     (if \<not> has_node g n then (g, Inl (NodeNotFoundError n)) else (g\<lparr>entryPoint := n\<rparr>, Inr ()))"

definition SetFinishPoint :: "string \<Rightarrow> stateGraph \<Rightarrow> (gerror, stateGraph, unit) outcome" where
  "SetFinishPoint n g =
     (if \<not> has_node g n then (g, Inl (NodeNotFoundError n))
      else (g\<lparr>finishPoints := finishPoints g @ [n]\<rparr>, Inr ()))"

text \<open>The channel arguments have type \<^verbatim>\<open>interface{}\<close>; one that is not a channel (\<^const>\<open>None\<close>) is ignored.\<close>

definition AddChannel :: "string \<Rightarrow> channel option \<Rightarrow> stateGraph \<Rightarrow> stateGraph" where
  "AddChannel name ch g =
     (case ch of None \<Rightarrow> g | Some c \<Rightarrow> g\<lparr>channels := gm_set name (ch_SetKey name c) (channels g)\<rparr>)"

definition SetReducer :: "string \<Rightarrow> ReducerFunc \<Rightarrow> stateGraph \<Rightarrow> stateGraph" where
  "SetReducer name f g =
     (let g1 = (case map_of (channels g) name of
                  None \<Rightarrow> g | Some c \<Rightarrow> g\<lparr>channels := gm_set name (ChReducer c f) (channels g)\<rparr>)
      in g1\<lparr>graph_reducers := gm_set name f (graph_reducers g1)\<rparr>)"

definition AddChannelWithReducer ::
  "string \<Rightarrow> channel option \<Rightarrow> ReducerFunc option \<Rightarrow> stateGraph \<Rightarrow> stateGraph" where
  "AddChannelWithReducer name ch reducer g =
     (case ch of
        None \<Rightarrow> g
      | Some c \<Rightarrow>
          (case reducer of
             Some f \<Rightarrow> g\<lparr>channels := gm_set name (ChReducer (ch_SetKey name c) f) (channels g),
                        graph_reducers := gm_set name f (graph_reducers g)\<rparr>
           | None \<Rightarrow> g\<lparr>channels := gm_set name (ch_SetKey name c) (channels g)\<rparr>))"

definition SetNodeTriggerMode :: "NodeTriggerMode \<Rightarrow> stateGraph \<Rightarrow> stateGraph" where
  "SetNodeTriggerMode mode g = g\<lparr>graph_NodeTriggerMode := mode\<rparr>"

definition ValidateStateSchema :: "stateGraph \<Rightarrow> gerror + unit" where
  "ValidateStateSchema g =
     (case validateStateSchema (stateSchema g) of Inl e \<Rightarrow> Inl e | Inr _ \<Rightarrow> Inr ())"

definition GetStateSchemaInfo :: "stateGraph \<Rightarrow> gerror + fieldInfo gomap" where
  "GetStateSchemaInfo g = validateStateSchema (stateSchema g)"

section \<open>Reachability (graph.go, computeReachable)\<close>

text \<open>
  The state of the search: the map \<^verbatim>\<open>reachable\<close> and the queue. The body of the loop visits the edges
  and the conditional edges that leave the node taken from the queue.
\<close>

type_synonym bfs_state = "bool gomap \<times> string list"

definition mark :: "string \<Rightarrow> bfs_state \<Rightarrow> bfs_state" where
  "mark t st = (gm_set t True (fst st), snd st @ [t])"

definition visit_edge :: "string \<Rightarrow> Edge \<Rightarrow> bfs_state \<Rightarrow> bfs_state" where
  "visit_edge current e st =
     (if e_From e = current \<and> \<not> gm_true (fst st) (e_To e) \<and> e_To e \<noteq> End_node
      then mark (e_To e) st else st)"

definition visit_target :: "stateGraph \<Rightarrow> string \<times> string \<Rightarrow> bfs_state \<Rightarrow> bfs_state" where
  "visit_target g kt st =
     (if has_node g (snd kt) \<and> \<not> gm_true (fst st) (snd kt) \<and> snd kt \<noteq> End_node
      then mark (snd kt) st else st)"

definition visit_cond :: "stateGraph \<Rightarrow> string \<Rightarrow> ConditionalEdge \<Rightarrow> bfs_state \<Rightarrow> bfs_state" where
  "visit_cond g current ce st =
     (if ce_From ce = current then fold (visit_target g) (ce_Mapping ce) st else st)"

definition expand :: "stateGraph \<Rightarrow> string \<Rightarrow> bfs_state \<Rightarrow> bfs_state" where
  "expand g current st =
     fold (visit_cond g current) (conditionalEdges g) (fold (visit_edge current) (edges g) st)"

text \<open>Every step of \<^const>\<open>expand\<close> marks an unmarked node of this finite set, or does nothing.\<close>

definition targets :: "stateGraph \<Rightarrow> string set" where
  "targets g = e_To ` set (edges g) \<union> (\<Union>ce \<in> set (conditionalEdges g). snd ` set (ce_Mapping ce))"

definition unmarked :: "stateGraph \<Rightarrow> bool gomap \<Rightarrow> string set" where
  "unmarked g m = {t \<in> targets g. \<not> gm_true m t}"

definition work :: "stateGraph \<Rightarrow> bfs_state \<Rightarrow> nat" where
  "work g st = card (unmarked g (fst st)) + length (snd st)"

lemma finite_targets [simp]: "finite (targets g)"
  by (simp add: targets_def)

lemma finite_unmarked [simp]: "finite (unmarked g m)"
  by (simp add: unmarked_def)

lemma work_mark: "t \<in> targets g \<Longrightarrow> \<not> gm_true (fst st) t \<Longrightarrow> work g (mark t st) = work g st"
proof -
  assume t: "t \<in> targets g" "\<not> gm_true (fst st) t"
  then have "unmarked g (fst (mark t st)) = unmarked g (fst st) - {t}" "t \<in> unmarked g (fst st)"
    by (auto simp: unmarked_def mark_def gomap_simps)
  then show ?thesis
    using card_Suc_Diff1 [of "unmarked g (fst st)" t] by (simp add: work_def mark_def)
qed

lemma work_visit_edge: "e \<in> set (edges g) \<Longrightarrow> work g (visit_edge c e st) = work g st"
  by (auto simp: visit_edge_def targets_def intro!: work_mark)

lemma work_visit_cond: "ce \<in> set (conditionalEdges g) \<Longrightarrow> work g (visit_cond g c ce st) = work g st"
proof -
  assume ce: "ce \<in> set (conditionalEdges g)"
  have "work g (visit_target g kt s) = work g s" if "kt \<in> set (ce_Mapping ce)" for kt s
    using that ce by (force simp: visit_target_def targets_def intro!: work_mark)
  then show ?thesis
    unfolding visit_cond_def by (auto intro: fold_invariant' [where P = "\<lambda>s. work g s = work g st"])
qed

lemma work_expand: "work g (expand g c st) = work g st"
  unfolding expand_def
  by (intro fold_invariant' [where P = "\<lambda>s. work g s = work g st"])
    (simp_all add: work_visit_cond work_visit_edge)

function reach_loop :: "stateGraph \<Rightarrow> bool gomap \<Rightarrow> string list \<Rightarrow> bool gomap" where
  "reach_loop g m [] = m"
| "reach_loop g m (c # q) = (let st = expand g c (m, q) in reach_loop g (fst st) (snd st))"
  by pat_completeness auto
termination
proof (relation "measure (\<lambda>(g, m, q). work g (m, q))")
  fix g :: stateGraph and m c q x
  assume "x = expand g c (m, q)"
  then show "((g, fst x, snd x), g, m, c # q) \<in> measure (\<lambda>(g, m, q). work g (m, q))"
    using work_expand [of g c "(m, q)"] by (simp add: work_def split_beta)
qed simp

declare reach_loop.simps(2) [simp del]

definition computeReachable :: "stateGraph \<Rightarrow> bool gomap" where
  "computeReachable g =
     (if entryPoint g = [] then []
      else reach_loop g [(entryPoint g, True)] [entryPoint g])"

subsection \<open>The search computes the transitive closure\<close>

text \<open>One hop along an edge or a conditional edge.\<close>

definition hop :: "stateGraph \<Rightarrow> (string \<times> string) set" where
  "hop g = {(a, b). b \<noteq> End_node \<and>
     ((\<exists>e \<in> set (edges g). e_From e = a \<and> e_To e = b) \<or>
      (\<exists>ce \<in> set (conditionalEdges g). ce_From ce = a \<and> b \<in> snd ` set (ce_Mapping ce) \<and> has_node g b))}"

text \<open>
  What one body of the loop does: it marks exactly the successors of the current node, keeps what was
  marked, and queues what it newly marked.
\<close>

definition marks :: "bfs_state \<Rightarrow> string set" where
  "marks st = {n. gm_true (fst st) n}"

definition grows :: "string set \<Rightarrow> bfs_state \<Rightarrow> bfs_state \<Rightarrow> bool" where
  "grows S st st' \<longleftrightarrow> marks st' = marks st \<union> S \<and> set (snd st') \<union> marks st = set (snd st) \<union> marks st \<union> S \<and>
     set (snd st) \<subseteq> set (snd st')"

lemma grows_refl: "S \<subseteq> marks st \<Longrightarrow> grows S st st"
  by (auto simp: grows_def)

lemma grows_trans: "grows S st st1 \<Longrightarrow> grows T st1 st2 \<Longrightarrow> grows (S \<union> T) st st2"
  unfolding grows_def by blast

lemma grows_mark: "grows {t} st (mark t st)"
  by (auto simp: grows_def marks_def mark_def gomap_simps)

lemma grows_fold:
  "(\<And>x st. x \<in> set xs \<Longrightarrow> grows (F x) st (f x st)) \<Longrightarrow> grows (\<Union>x \<in> set xs. F x) st (fold f xs st)"
proof (induction xs arbitrary: st)
  case Nil
  then show ?case by (simp add: grows_refl)
next
  case (Cons x xs)
  have "grows (F x) st (f x st)" "grows (\<Union>x \<in> set xs. F x) (f x st) (fold f xs (f x st))"
    using Cons by simp_all
  then show ?case
    using grows_trans by fastforce
qed

lemma grows_visit_edge:
  "grows (if e_From e = c \<and> e_To e \<noteq> End_node then {e_To e} else {}) st (visit_edge c e st)"
  by (auto simp: visit_edge_def grows_mark intro!: grows_refl) (simp add: marks_def)

lemma grows_visit_target:
  "grows (if has_node g (snd kt) \<and> snd kt \<noteq> End_node then {snd kt} else {}) st (visit_target g kt st)"
  by (auto simp: visit_target_def grows_mark intro!: grows_refl) (simp add: marks_def)

lemma grows_expand: "grows (hop g `` {c}) st (expand g c st)"
proof -
  let ?E = "\<Union>e \<in> set (edges g). if e_From e = c \<and> e_To e \<noteq> End_node then {e_To e} else {}"
  let ?T = "\<lambda>ce. \<Union>kt \<in> set (ce_Mapping ce). if has_node g (snd kt) \<and> snd kt \<noteq> End_node then {snd kt} else {}"
  let ?C = "\<Union>ce \<in> set (conditionalEdges g). if ce_From ce = c then ?T ce else {}"
  have cond: "grows (if ce_From ce = c then ?T ce else {}) st (visit_cond g c ce st)" for ce st
    unfolding visit_cond_def
    by (cases "ce_From ce = c") (simp_all only: refl if_True if_False grows_fold grows_visit_target
        grows_refl empty_subsetI)
  have "grows ?E st (fold (visit_edge c) (edges g) st)"
    by (rule grows_fold, rule grows_visit_edge)
  moreover have "grows ?C st (fold (visit_cond g c) (conditionalEdges g) st)" for st
    by (rule grows_fold, rule cond)
  ultimately have "grows (?E \<union> ?C) st (expand g c st)"
    unfolding expand_def by (rule grows_trans)
  moreover have "?E \<union> ?C = hop g `` {c}"
    by (auto simp: hop_def split: if_splits)
  ultimately show ?thesis by simp
qed

text \<open>The invariant of the search: every marked node not in the queue has all its successors marked.\<close>

lemma reach_loop_spec:
  assumes "set q \<subseteq> marks (m, q)"
    and "\<forall>n \<in> marks (m, q) - set q. hop g `` {n} \<subseteq> marks (m, q)"
  shows "{n. gm_true (reach_loop g m q) n} = (hop g)\<^sup>* `` marks (m, q)"
  using assms
proof (induction g m q rule: reach_loop.induct)
  case (1 g m)
  then have "(hop g)\<^sup>* `` marks (m, []) \<subseteq> marks (m, [])"
    by (auto elim!: rtrancl_induct)
  then show ?case by (auto simp: marks_def)
next
  case (2 g m c q)
  define st where "st = expand g c (m, q)"
  have st: "marks st = marks (m, q) \<union> hop g `` {c}" "set q \<subseteq> set (snd st)"
    "set (snd st) \<union> marks (m, q) = set q \<union> marks (m, q) \<union> hop g `` {c}"
    using grows_expand [of g c "(m, q)"] by (auto simp: grows_def st_def)
  have m: "marks (m, c # q) = marks (m, q)"
    by (simp add: marks_def)
  have "set (snd st) \<subseteq> marks (fst st, snd st)"
    using 2(2) st by (auto simp: m)
  moreover have "\<forall>n \<in> marks (fst st, snd st) - set (snd st). hop g `` {n} \<subseteq> marks (fst st, snd st)"
    using 2(2,3) st by (auto simp: m)
  ultimately have "{n. gm_true (reach_loop g (fst st) (snd st)) n} = (hop g)\<^sup>* `` marks st"
    using "2.IH" [of st] by (simp add: st_def)
  also have "\<dots> = (hop g)\<^sup>* `` marks (m, q)"
    using 2(2) unfolding st(1) by (auto simp: m intro: rtrancl_into_rtrancl converse_rtrancl_into_rtrancl)
  finally show ?case
    by (simp add: reach_loop.simps(2) st_def m Let_def)
qed

lemma computeReachable_reach:
  "gm_true (computeReachable g) n \<longleftrightarrow> entryPoint g \<noteq> [] \<and> (entryPoint g, n) \<in> (hop g)\<^sup>*"
proof -
  let ?m = "[(entryPoint g, True)]" and ?q = "[entryPoint g]"
  have marks: "marks (?m, ?q) = {entryPoint g}"
    by (auto simp: marks_def gm_true_def)
  have "{n. gm_true (reach_loop g ?m ?q) n} = (hop g)\<^sup>* `` marks (?m, ?q)"
    by (rule reach_loop_spec) (simp_all add: marks)
  then show ?thesis
    by (auto simp: computeReachable_def marks)
qed

text \<open>The breadth-first search of \<^verbatim>\<open>computeReachable\<close> ends for every graph and marks exactly the
  nodes on a path of edges and conditional edges from the entry point. Branches are not followed.\<close>

theorem computeReachable_iff:
  "gm_true (computeReachable g) n \<longleftrightarrow> entryPoint g \<noteq> [] \<and> (entryPoint g, n) \<in> (hop g)\<^sup>*"
  by (rule computeReachable_reach)

section \<open>Validate and Compile (graph.go)\<close>

definition Validate :: "stateGraph \<Rightarrow> gerror + unit" where
  "Validate g =
     (if entryPoint g = [] then Inl (PlainError ''no entry point set'' [])
      else if finishPoints g = [] then Inl (PlainError ''no finish points set'' [])
      else (case filter (\<lambda>n. \<not> gm_true (computeReachable g) n) (gm_keys (nodes g)) of
              n # _ \<Rightarrow> Inl (PlainError ''node is not reachable from entry point'' [n])
            | [] \<Rightarrow>
                (case ValidateStateSchema g of
                   Inl e \<Rightarrow> Inl (WrapError ''state schema validation failed'' [] e)
                 | Inr _ \<Rightarrow> Inr ())))"

text \<open>The loop of \<^verbatim>\<open>configureChannelsFromSchema\<close> over the fields of the schema.\<close>

definition configure_field :: "string \<times> fieldInfo \<Rightarrow> stateGraph \<Rightarrow> stateGraph" where
  "configure_field fi g =
     (let (fieldName, info) = fi;
          g1 = (if map_of (channels g) fieldName = None
                then g\<lparr>channels := gm_set fieldName (fi_Channel info) (channels g)\<rparr> else g)
      in (case fi_Annotation info of
            None \<Rightarrow> g1
          | Some a \<Rightarrow>
              (case an_Reducer a of
                 None \<Rightarrow> g1
               | Some r \<Rightarrow> g1\<lparr>graph_reducers := gm_set fieldName r (graph_reducers g1)\<rparr>)))"

definition configureChannelsFromSchema :: "stateGraph \<Rightarrow> (gerror, stateGraph, unit) outcome" where
  "configureChannelsFromSchema g =
     (case GetStateSchemaInfo g of
        Inl e \<Rightarrow> (g, Inl e)
      | Inr infos \<Rightarrow> (fold configure_field infos g, Inr ()))"

text \<open>The type of checkpointers is open here: \<^verbatim>\<open>interface{}\<close>.\<close>

record 'cp compiledGraph =
  cg_graph :: stateGraph
  cg_checkpointer :: "'cp option"
  cg_interrupts :: "bool gomap"
  cg_interruptsAfter :: "bool gomap"
  cg_recursionLimit :: int
  cg_debug :: bool
  cg_nodeTriggerMode :: NodeTriggerMode

type_synonym 'cp CompileOption = "'cp compiledGraph \<Rightarrow> 'cp compiledGraph"

definition WithCheckpointer :: "'cp \<Rightarrow> 'cp CompileOption" where
  "WithCheckpointer cp cg = cg\<lparr>cg_checkpointer := Some cp\<rparr>"

definition WithInterrupts :: "string list \<Rightarrow> 'cp CompileOption" where
  "WithInterrupts ns cg = cg\<lparr>cg_interrupts := fold (\<lambda>n m. gm_set n True m) ns (cg_interrupts cg)\<rparr>"

definition WithInterruptsAfter :: "string list \<Rightarrow> 'cp CompileOption" where
  "WithInterruptsAfter ns cg =
     cg\<lparr>cg_interruptsAfter := fold (\<lambda>n m. gm_set n True m) ns (cg_interruptsAfter cg)\<rparr>"

definition WithRecursionLimit :: "int \<Rightarrow> 'cp CompileOption" where
  "WithRecursionLimit n cg = cg\<lparr>cg_recursionLimit := n\<rparr>"

definition WithDebug :: "bool \<Rightarrow> 'cp CompileOption" where
  "WithDebug b cg = cg\<lparr>cg_debug := b\<rparr>"

definition WithNodeTriggerMode :: "NodeTriggerMode \<Rightarrow> 'cp CompileOption" where
  "WithNodeTriggerMode mode cg = cg\<lparr>cg_nodeTriggerMode := mode\<rparr>"

text \<open>
  \<^verbatim>\<open>Compile\<close> changes the graph it compiles (channels and trigger mode), and the compiled graph refers
  to it. An option that is not a \<^verbatim>\<open>CompileOption\<close> (\<^const>\<open>None\<close>) is skipped.
\<close>

definition Compile ::
  "'cp CompileOption option list \<Rightarrow> stateGraph \<Rightarrow> (gerror, stateGraph, 'cp compiledGraph) outcome" where
  "Compile opts g =
     (case Validate g of
        Inl e \<Rightarrow> (g, Inl (WrapError ''graph validation failed'' [] e))
      | Inr _ \<Rightarrow>
          (case configureChannelsFromSchema g of
             (g1, Inl e) \<Rightarrow> (g1, Inl (WrapError ''failed to configure channels from schema'' [] e))
           | (g1, Inr _) \<Rightarrow>
               let cg = fold (\<lambda>opt cg. case opt of Some fn \<Rightarrow> fn cg | None \<Rightarrow> cg) opts
                          \<lparr>cg_graph = g1, cg_checkpointer = None, cg_interrupts = [],
                           cg_interruptsAfter = [], cg_recursionLimit = DefaultRecursionLimit,
                           cg_debug = False, cg_nodeTriggerMode = NodeTriggerAnyPredecessor\<rparr>;
                   g2 = g1\<lparr>graph_NodeTriggerMode := cg_nodeTriggerMode cg\<rparr>
               in (g2, Inr (cg\<lparr>cg_graph := g2\<rparr>))))"

lemma Validate_ok_iff:
  "is_ok (Validate g) \<longleftrightarrow>
     entryPoint g \<noteq> [] \<and> finishPoints g \<noteq> [] \<and>
     (\<forall>n. has_node g n \<longrightarrow> gm_true (computeReachable g) n) \<and>
     is_ok (validateStateSchema (stateSchema g))"
proof -
  have "filter (\<lambda>n. \<not> gm_true (computeReachable g) n) (gm_keys (nodes g)) = [] \<longleftrightarrow>
      (\<forall>n. has_node g n \<longrightarrow> gm_true (computeReachable g) n)"
    by (auto simp: filter_empty_conv has_node_def map_of_eq_None_iff)
  then show ?thesis
    by (auto simp: Validate_def ValidateStateSchema_def split: list.split sum.split)
qed

text \<open>C38: compilation succeeds exactly for graphs with an entry point and a finish point, all of whose
  nodes lie on a path of edges and conditional edges from the entry point, and whose schema is
  accepted; a failed compilation leaves the graph as it was.\<close>

theorem Compile_ok_iff:
  "(is_ok (snd (Compile opts g)) \<longleftrightarrow>
     entryPoint g \<noteq> [] \<and> finishPoints g \<noteq> [] \<and>
     (\<forall>n. has_node g n \<longrightarrow> (entryPoint g, n) \<in> (hop g)\<^sup>*) \<and>
     is_ok (validateStateSchema (stateSchema g))) \<and>
   (is_ok (snd (Compile opts g)) \<or> fst (Compile opts g) = g)"
proof -
  have "is_ok (Validate g) \<longleftrightarrow> entryPoint g \<noteq> [] \<and> finishPoints g \<noteq> [] \<and>
     (\<forall>n. has_node g n \<longrightarrow> (entryPoint g, n) \<in> (hop g)\<^sup>*) \<and>
     is_ok (validateStateSchema (stateSchema g))"
    unfolding Validate_ok_iff by (auto simp: computeReachable_reach)
  moreover have "is_ok (snd (Compile opts g)) \<longleftrightarrow> is_ok (Validate g)"
    by (cases "Validate g"; cases "validateStateSchema (stateSchema g)")
      (use Validate_ok_iff [of g] in \<open>auto simp: Compile_def configureChannelsFromSchema_def
        GetStateSchemaInfo_def Let_def\<close>)
  moreover have "is_ok (Validate g) \<or> fst (Compile opts g) = g"
    by (cases "Validate g") (simp_all add: Compile_def)
  ultimately show ?thesis by simp
qed

theorem Compile_ok_iff_witness:
  "is_ok (snd (Compile ([] :: unit CompileOption option list)
     (fst (AddEdge ''a'' End_node (fst (AddEdge Start_node ''a''
       (AddNode ''a'' (\<lambda>s. CRet s None) (NewStateGraph (SMap KString)))))))))"
proof -
  let ?g = "fst (AddEdge ''a'' End_node (fst (AddEdge Start_node ''a''
       (AddNode ''a'' (\<lambda>s. CRet s None) (NewStateGraph (SMap KString))))))"
  have "entryPoint ?g = ''a''" "finishPoints ?g = [''a'']" "stateSchema ?g = SMap KString"
    and "has_node ?g n \<longleftrightarrow> n = ''a''" for n
    by (auto simp: AddEdge_def AddNode_def NewStateGraph_def has_node_def Let_def Start_node_def
        End_node_def)
  then show ?thesis
    using Compile_ok_iff [of "[] :: unit CompileOption option list" ?g]
    by (simp add: validateStateSchema_def)
qed

section \<open>The builder keeps the graph well-formed\<close>

text \<open>The calls a user can make on the graph under construction, as a step relation.\<close>

inductive builder_step :: "stateGraph \<Rightarrow> stateGraph \<Rightarrow> bool" where
  bs_node: "builder_step g (AddNode n f g)"
| bs_node_options: "builder_step g (AddNodeWithOptions n f opts g)"
| bs_edge: "builder_step g (fst (AddEdge a b g))"
| bs_cond: "builder_step g (fst (AddConditionalEdges a c m g))"
| bs_branch: "builder_step g (fst (AddBranch a c th g))"
| bs_data: "builder_step g (fst (AddDataEdge a b ms g))"
| bs_entry: "builder_step g (fst (SetEntryPoint n g))"
| bs_finish: "builder_step g (fst (SetFinishPoint n g))"
| bs_channel: "builder_step g (AddChannel n ch g)"
| bs_reducer: "builder_step g (SetReducer n r g)"
| bs_channel_reducer: "builder_step g (AddChannelWithReducer n ch r' g)"
| bs_input: "builder_step g (WithInputSchema s g)"
| bs_output: "builder_step g (WithOutputSchema s g)"
| bs_mode: "builder_step g (SetNodeTriggerMode mode g)"

definition known_source :: "stateGraph \<Rightarrow> string \<Rightarrow> bool" where
  "known_source g n = (has_node g n \<or> n = Start_node)"

definition known_target :: "stateGraph \<Rightarrow> string \<Rightarrow> bool" where
  "known_target g n = (has_node g n \<or> n = End_node)"

text \<open>Every name an edge, a conditional edge, a branch, the entry or a finish point uses is known.\<close>

definition graph_wf :: "stateGraph \<Rightarrow> bool" where
  "graph_wf g \<longleftrightarrow> gm_ok (nodes g) \<and> gm_ok (channels g) \<and>
     (\<forall>(k, n) \<in> set (nodes g). Name n = k) \<and>
     (\<forall>e \<in> set (edges g). known_source g (e_From e) \<and> known_target g (e_To e)) \<and>
     (\<forall>e \<in> set (dataEdges g). known_source g (de_From e) \<and> known_target g (de_To e)) \<and>
     (\<forall>ce \<in> set (conditionalEdges g). has_node g (ce_From ce) \<and>
        (\<forall>t \<in> snd ` set (ce_Mapping ce). known_target g t)) \<and>
     (\<forall>b \<in> set (branches g). has_node g (br_From b)) \<and>
     (entryPoint g = [] \<or> known_target g (entryPoint g)) \<and>
     (\<forall>n \<in> set (finishPoints g). known_source g n)"

lemma unknown_target_None: "unknown_target g m = None \<longleftrightarrow> (\<forall>t \<in> snd ` set m. known_target g t)"
  by (induction g m rule: unknown_target.induct) (auto simp: known_target_def)

lemma graph_wf_more_nodes:
  assumes "graph_wf g" and "Name n = k"
  shows "graph_wf (g\<lparr>nodes := gm_set k n (nodes g)\<rparr>)"
proof -
  have more: "has_node (g\<lparr>nodes := gm_set k n (nodes g)\<rparr>) j \<longleftrightarrow> has_node g j \<or> j = k" for j
    by (auto simp: has_node_def gomap_simps)
  have "\<forall>(j, n') \<in> set (gm_set k n (nodes g)). Name n' = j"
    using assms gm_set_entries [of k n "nodes g"] unfolding graph_wf_def by blast
  then show ?thesis
    using assms(1) by (auto simp: graph_wf_def known_source_def known_target_def more)
qed

lemma new_node_Name [simp]: "Name (new_node n f) = n"
  by (simp add: new_node_def)

lemma has_node_update [simp]:
  "has_node (g\<lparr>edges := x1\<rparr>) n = has_node g n"
  "has_node (g\<lparr>dataEdges := x2\<rparr>) n = has_node g n"
  "has_node (g\<lparr>conditionalEdges := x3\<rparr>) n = has_node g n"
  "has_node (g\<lparr>branches := x4\<rparr>) n = has_node g n"
  "has_node (g\<lparr>entryPoint := x5\<rparr>) n = has_node g n"
  "has_node (g\<lparr>finishPoints := x6\<rparr>) n = has_node g n"
  "has_node (g\<lparr>channels := x7\<rparr>) n = has_node g n"
  "has_node (g\<lparr>graph_reducers := x8\<rparr>) n = has_node g n"
  "has_node (g\<lparr>inputSchema := x9\<rparr>) n = has_node g n"
  "has_node (g\<lparr>outputSchema := x10\<rparr>) n = has_node g n"
  "has_node (g\<lparr>graph_NodeTriggerMode := x11\<rparr>) n = has_node g n"
  by (simp_all add: has_node_def)

lemmas wf_defs = graph_wf_def known_source_def known_target_def

lemma graph_wf_AddNodeWithOptions: "graph_wf g \<Longrightarrow> graph_wf (AddNodeWithOptions n f opts g)"
  by (simp add: AddNodeWithOptions_def Let_def graph_wf_more_nodes)

lemma graph_wf_AddEdge: "graph_wf g \<Longrightarrow> graph_wf (fst (AddEdge a b g))"
  by (auto simp: AddEdge_def Let_def wf_defs)

lemma graph_wf_AddConditionalEdges: "graph_wf g \<Longrightarrow> graph_wf (fst (AddConditionalEdges a c m g))"
  by (auto simp: AddConditionalEdges_def graph_wf_def known_source_def unknown_target_None known_target_def
      split: option.split)

lemma graph_wf_SetReducer: "graph_wf g \<Longrightarrow> graph_wf (SetReducer n r g)"
  by (auto simp: SetReducer_def Let_def wf_defs split: option.split)

lemma graph_wf_AddBranch: "graph_wf g \<Longrightarrow> graph_wf (fst (AddBranch a c th g))"
  by (auto simp: AddBranch_def wf_defs)

lemma graph_wf_AddDataEdge: "graph_wf g \<Longrightarrow> graph_wf (fst (AddDataEdge a b ms g))"
  by (auto simp: AddDataEdge_def wf_defs)

lemma graph_wf_points:
  "graph_wf g \<Longrightarrow> graph_wf (fst (SetEntryPoint n g))"
  "graph_wf g \<Longrightarrow> graph_wf (fst (SetFinishPoint n g))"
  by (auto simp: SetEntryPoint_def SetFinishPoint_def wf_defs)

lemma graph_wf_channels:
  "graph_wf g \<Longrightarrow> graph_wf (AddChannel n ch g)"
  "graph_wf g \<Longrightarrow> graph_wf (AddChannelWithReducer n ch r' g)"
  by (auto simp: AddChannel_def AddChannelWithReducer_def wf_defs split: option.split)

lemma graph_wf_settings:
  "graph_wf g \<Longrightarrow> graph_wf (WithInputSchema s g)"
  "graph_wf g \<Longrightarrow> graph_wf (WithOutputSchema s g)"
  "graph_wf g \<Longrightarrow> graph_wf (SetNodeTriggerMode mode g)"
  by (auto simp: WithInputSchema_def WithOutputSchema_def SetNodeTriggerMode_def wf_defs)

lemmas graph_wf_ops = graph_wf_AddNodeWithOptions graph_wf_AddEdge graph_wf_AddConditionalEdges
  graph_wf_SetReducer graph_wf_AddBranch graph_wf_AddDataEdge graph_wf_points graph_wf_channels
  graph_wf_settings

lemma builder_step_wf: "builder_step g g' \<Longrightarrow> graph_wf g \<Longrightarrow> graph_wf g'"
  by (induction rule: builder_step.induct)
    (simp_all only: graph_wf_ops AddNode_def graph_wf_more_nodes new_node_Name)

text \<open>Whatever sequence of builder calls is made, accepted or refused, every edge, branch, entry
  and finish point of the graph names a node that exists (or the virtual start and end), and each
  node is stored under its own name.\<close>

theorem built_graph_wf: "builder_step\<^sup>*\<^sup>* (NewStateGraph s) g \<Longrightarrow> graph_wf g"
proof (induction rule: rtranclp_induct)
  case base
  show ?case by (simp add: NewStateGraph_def graph_wf_def)
next
  case (step g g')
  then show ?case by (blast intro: builder_step_wf)
qed

theorem built_graph_wf_witness:
  "graph_wf (fst (AddEdge Start_node ''a'' (AddNode ''a'' (\<lambda>s. CRet s None) (NewStateGraph SNil))))"
  by (rule built_graph_wf [of SNil], rule rtranclp.rtrancl_into_rtrancl,
      rule r_into_rtranclp, rule builder_step.bs_node, rule builder_step.bs_edge)

end
