(* ===== verification/Config.thy ===== *)
theory Config
  imports StateGraph
begin

text \<open>
  \<^verbatim>\<open>RunnableConfig\<close> of \<^verbatim>\<open>types/config.go\<close>: the configuration of one run. A nil map (a config written as
  a literal) is \<^const>\<open>None\<close>: reading it is allowed, writing it panics.
\<close>

datatype Durability = DurabilityUnset | DurabilitySync | DurabilityAsync | DurabilityExit

record RunnableConfig =
  Configurable :: "gostate option"
  RecursionLimit :: int
  rc_Tags :: "string list"
  rc_Metadata :: "gostate option"
  RunID :: string
  ThreadID :: string
  rc_Durability :: Durability

text \<open>The zero value \<^verbatim>\<open>&RunnableConfig{}\<close>.\<close>

definition zero_RunnableConfig :: RunnableConfig where
  "zero_RunnableConfig =
     \<lparr>Configurable = None, RecursionLimit = 0, rc_Tags = [], rc_Metadata = None, RunID = [],
      ThreadID = [], rc_Durability = DurabilityUnset\<rparr>"

definition NewRunnableConfig :: RunnableConfig where
  "NewRunnableConfig =
     \<lparr>Configurable = Some [], RecursionLimit = DefaultRecursionLimit, rc_Tags = [],
      rc_Metadata = Some [], RunID = [], ThreadID = [], rc_Durability = DurabilitySync\<rparr>"

definition RunnableConfig_Get :: "RunnableConfig \<Rightarrow> string \<Rightarrow> goval option" where
  "RunnableConfig_Get c key =
     (case Configurable c of None \<Rightarrow> None | Some m \<Rightarrow> map_of m key)"

definition RunnableConfig_Set :: "RunnableConfig \<Rightarrow> string \<Rightarrow> goval \<Rightarrow> RunnableConfig" where
  "RunnableConfig_Set c key value =
     (let m = (case Configurable c of None \<Rightarrow> [] | Some m \<Rightarrow> m)
      in c\<lparr>Configurable := Some (gm_set key value m)\<rparr>)"

text \<open>Writing the entries of one map into another that may be nil.\<close>

definition copy_into_nilable :: "gostate option \<Rightarrow> gostate option \<Rightarrow> gerror + gostate option" where
  "copy_into_nilable src dst =
     (case src of
        None \<Rightarrow> Inr dst
      | Some [] \<Rightarrow> Inr dst
      | Some m \<Rightarrow>
          (case dst of
             None \<Rightarrow> Inl (PanicError ''assignment to entry in nil map'')
           | Some d \<Rightarrow> Inr (Some (gm_copy_into m d))))"

definition Merge :: "RunnableConfig \<Rightarrow> RunnableConfig option \<Rightarrow> gerror + RunnableConfig" where
  "Merge c other =
     (case other of
        None \<Rightarrow> Inr c
      | Some o' \<Rightarrow>
          let c1 = fold (\<lambda>(k, v) c. RunnableConfig_Set c k v)
                     (case Configurable o' of None \<Rightarrow> [] | Some m \<Rightarrow> m) c;
              c2 = (if RecursionLimit o' > 0 then c1\<lparr>RecursionLimit := RecursionLimit o'\<rparr> else c1);
              c3 = c2\<lparr>rc_Tags := rc_Tags c2 @ rc_Tags o'\<rparr>
          in (case copy_into_nilable (rc_Metadata o') (rc_Metadata c3) of
                Inl e \<Rightarrow> Inl e
              | Inr md \<Rightarrow>
                  let c4 = c3\<lparr>rc_Metadata := md\<rparr>;
                      c5 = (if RunID o' \<noteq> [] then c4\<lparr>RunID := RunID o'\<rparr> else c4);
                      c6 = (if ThreadID o' \<noteq> [] then c5\<lparr>ThreadID := ThreadID o'\<rparr> else c5);
                      c7 = (if rc_Durability o' \<noteq> DurabilityUnset \<and> rc_Durability o' \<noteq> DurabilitySync
                            then c6\<lparr>rc_Durability := rc_Durability o'\<rparr> else c6)
                  in Inr c7))"

definition WithConfigurable :: "gostate option \<Rightarrow> RunnableConfig \<Rightarrow> RunnableConfig" where
  "WithConfigurable m c = c\<lparr>Configurable := m\<rparr>"

definition Config_WithRecursionLimit :: "int \<Rightarrow> RunnableConfig \<Rightarrow> RunnableConfig" where
  "Config_WithRecursionLimit n c = c\<lparr>RecursionLimit := n\<rparr>"

definition WithTags :: "string list \<Rightarrow> RunnableConfig \<Rightarrow> RunnableConfig" where
  "WithTags ts c = c\<lparr>rc_Tags := ts\<rparr>"

definition WithMetadata :: "gostate option \<Rightarrow> RunnableConfig \<Rightarrow> RunnableConfig" where
  "WithMetadata m c = c\<lparr>rc_Metadata := m\<rparr>"

definition WithRunID :: "string \<Rightarrow> RunnableConfig \<Rightarrow> RunnableConfig" where
  "WithRunID i c = c\<lparr>RunID := i\<rparr>"

definition WithThreadID :: "string \<Rightarrow> RunnableConfig \<Rightarrow> RunnableConfig" where
  "WithThreadID i c = c\<lparr>ThreadID := i\<rparr>"

definition WithDurability :: "Durability \<Rightarrow> RunnableConfig \<Rightarrow> RunnableConfig" where
  "WithDurability d c = c\<lparr>rc_Durability := d\<rparr>"

definition GetOrEmpty :: "RunnableConfig \<Rightarrow> string \<Rightarrow> string" where
  "GetOrEmpty c key =
     (case Configurable c of
        None \<Rightarrow> []
      | Some m \<Rightarrow>
          (case map_of m key of
             None \<Rightarrow> []
           | Some v \<Rightarrow> (case as_string v of Some s \<Rightarrow> s | None \<Rightarrow> [])))"

definition PatchConfig ::
  "RunnableConfig option \<Rightarrow> (RunnableConfig \<Rightarrow> RunnableConfig) option list \<Rightarrow> RunnableConfig" where
  "PatchConfig config patchers =
     fold (\<lambda>p c. case p of Some f \<Rightarrow> f c | None \<Rightarrow> c) patchers
       (case config of None \<Rightarrow> NewRunnableConfig | Some c \<Rightarrow> c)"

definition EnsureConfig :: "RunnableConfig option \<Rightarrow> RunnableConfig" where
  "EnsureConfig config = (case config of None \<Rightarrow> NewRunnableConfig | Some c \<Rightarrow> c)"

fun merge_loop :: "RunnableConfig \<Rightarrow> RunnableConfig option list \<Rightarrow> gerror + RunnableConfig" where
  "merge_loop result [] = Inr result"
| "merge_loop result (c # cs) =
     (case Merge result c of Inl e \<Rightarrow> Inl e | Inr r \<Rightarrow> merge_loop r cs)"

definition MergeConfigs :: "RunnableConfig option list \<Rightarrow> gerror + RunnableConfig" where
  "MergeConfigs configs = merge_loop NewRunnableConfig configs"

section \<open>Later configs win\<close>

lemma Set_Get [simp]:
  "RunnableConfig_Get (RunnableConfig_Set c k v) j = (if j = k then Some v else RunnableConfig_Get c j)"
  by (auto simp: RunnableConfig_Get_def RunnableConfig_Set_def Let_def gomap_simps split: option.split)

lemma Set_other [simp]:
  "rc_Metadata (RunnableConfig_Set c k v) = rc_Metadata c"
  "RecursionLimit (RunnableConfig_Set c k v) = RecursionLimit c"
  "ThreadID (RunnableConfig_Set c k v) = ThreadID c"
  by (simp_all add: RunnableConfig_Set_def Let_def)

lemma fold_Set:
  "gm_ok m \<Longrightarrow> RunnableConfig_Get (fold (\<lambda>(k, v) c. RunnableConfig_Set c k v) m c) j =
     (case map_of m j of Some v \<Rightarrow> Some v | None \<Rightarrow> RunnableConfig_Get c j)"
proof (induction m arbitrary: c)
  case (Cons p m)
  then have "map_of m (fst p) = None"
    by (simp add: map_of_eq_None_iff)
  with Cons show ?case
    by (cases p) (auto split: option.split)
qed simp

lemma fold_Set_other:
  "rc_Metadata (fold (\<lambda>(k, v) c. RunnableConfig_Set c k v) m c) = rc_Metadata c"
  "RecursionLimit (fold (\<lambda>(k, v) c. RunnableConfig_Set c k v) m c) = RecursionLimit c"
  "ThreadID (fold (\<lambda>(k, v) c. RunnableConfig_Set c k v) m c) = ThreadID c"
  by (induction m arbitrary: c) auto

definition config_ok :: "RunnableConfig \<Rightarrow> bool" where
  "config_ok c = (\<forall>m. Configurable c = Some m \<longrightarrow> gm_ok m)"

lemma Get_update [simp]:
  "RunnableConfig_Get (c\<lparr>RecursionLimit := a\<rparr>) j = RunnableConfig_Get c j"
  "RunnableConfig_Get (c\<lparr>rc_Tags := b\<rparr>) j = RunnableConfig_Get c j"
  "RunnableConfig_Get (c\<lparr>rc_Metadata := d\<rparr>) j = RunnableConfig_Get c j"
  "RunnableConfig_Get (c\<lparr>RunID := e\<rparr>) j = RunnableConfig_Get c j"
  "RunnableConfig_Get (c\<lparr>ThreadID := f\<rparr>) j = RunnableConfig_Get c j"
  "RunnableConfig_Get (c\<lparr>rc_Durability := g\<rparr>) j = RunnableConfig_Get c j"
  by (simp_all add: RunnableConfig_Get_def)

text \<open>A merge into a config with a metadata map succeeds, keeps that map, and prefers the other config.\<close>

lemma Merge_spec:
  assumes "config_ok o'" and "rc_Metadata c \<noteq> None"
  shows "\<exists>c'. Merge c (Some o') = Inr c' \<and> rc_Metadata c' \<noteq> None \<and>
    (\<forall>k. RunnableConfig_Get c' k =
       (case RunnableConfig_Get o' k of Some v \<Rightarrow> Some v | None \<Rightarrow> RunnableConfig_Get c k)) \<and>
    RecursionLimit c' = (if RecursionLimit o' > 0 then RecursionLimit o' else RecursionLimit c) \<and>
    ThreadID c' = (if ThreadID o' \<noteq> [] then ThreadID o' else ThreadID c)"
proof -
  have "\<exists>md. copy_into_nilable (rc_Metadata o') (rc_Metadata c) = Inr (Some md)"
    using assms(2) by (auto simp: copy_into_nilable_def split: option.split list.split)
  then obtain md where md: "copy_into_nilable (rc_Metadata o') (rc_Metadata c) = Inr (Some md)"
    by blast
  have get: "RunnableConfig_Get (fold (\<lambda>(k, v) c. RunnableConfig_Set c k v)
        (case Configurable o' of None \<Rightarrow> [] | Some m \<Rightarrow> m) c) k =
      (case RunnableConfig_Get o' k of Some v \<Rightarrow> Some v | None \<Rightarrow> RunnableConfig_Get c k)" for k
    using assms(1) by (cases "Configurable o'") (simp_all add: config_ok_def fold_Set RunnableConfig_Get_def [of o'])
  show ?thesis
    by (simp add: Merge_def Let_def fold_Set_other md get)
qed

text \<open>Merging any list of configs, nil ones included, never fails, and a key has the value of
  the last config that sets it.\<close>

theorem MergeConfigs_last_wins:
  assumes "\<forall>c. Some c \<in> set configs \<longrightarrow> config_ok c"
  shows "\<exists>c'. MergeConfigs configs = Inr c' \<and>
    (\<forall>k. RunnableConfig_Get c' k =
       fold (\<lambda>c r. case Option.bind c (\<lambda>c. RunnableConfig_Get c k) of Some v \<Rightarrow> Some v | None \<Rightarrow> r)
         configs None)"
proof -
  have "\<exists>c'. merge_loop c configs = Inr c' \<and>
    (\<forall>k. RunnableConfig_Get c' k =
       fold (\<lambda>c r. case Option.bind c (\<lambda>c. RunnableConfig_Get c k) of Some v \<Rightarrow> Some v | None \<Rightarrow> r)
         configs (RunnableConfig_Get c k))" if "rc_Metadata c \<noteq> None" for c
    using assms that
  proof (induction configs arbitrary: c)
    case Nil
    then show ?case by simp
  next
    case (Cons o' configs)
    show ?case
    proof (cases o')
      case None
      then show ?thesis using Cons by (simp add: Merge_def)
    next
      case (Some d)
      obtain c1 where c1: "Merge c o' = Inr c1" "rc_Metadata c1 \<noteq> None"
        "\<forall>k. RunnableConfig_Get c1 k =
          (case RunnableConfig_Get d k of Some v \<Rightarrow> Some v | None \<Rightarrow> RunnableConfig_Get c k)"
        using Merge_spec [of d c] Cons.prems Some by auto
      then show ?thesis
        using Cons.IH [of c1] Cons.prems by (simp add: Some)
    qed
  qed
  from this [of NewRunnableConfig] show ?thesis
    by (simp add: MergeConfigs_def NewRunnableConfig_def RunnableConfig_Get_def)
qed

theorem MergeConfigs_last_wins_witness:
  "\<exists>c'. MergeConfigs [Some (WithConfigurable (Some [(''k'', GInt 1)]) zero_RunnableConfig), None,
      Some (WithConfigurable (Some [(''k'', GInt 2)]) zero_RunnableConfig)] = Inr c' \<and>
    RunnableConfig_Get c' ''k'' = Some (GInt 2)"
proof -
  let ?cs = "[Some (WithConfigurable (Some [(''k'', GInt 1)]) zero_RunnableConfig), None,
      Some (WithConfigurable (Some [(''k'', GInt 2)]) zero_RunnableConfig)]"
  have "\<forall>c. Some c \<in> set ?cs \<longrightarrow> config_ok c"
    by (auto simp: config_ok_def WithConfigurable_def)
  from MergeConfigs_last_wins [OF this] show ?thesis
    by (auto simp: RunnableConfig_Get_def WithConfigurable_def)
qed

end
