(* ===== verification/Checkpoint.thy ===== *)
theory Checkpoint
  imports Config
begin

text \<open>
  Checkpoints: the struct \<^verbatim>\<open>Checkpoint\<close>, its map form and the versioned \<^verbatim>\<open>CheckpointManager\<close> of
  \<^verbatim>\<open>checkpoint/checkpoint.go\<close>, and \<^verbatim>\<open>MemorySaver\<close> of \<^verbatim>\<open>checkpoint/memory.go\<close>. What the code takes from
  outside is an argument: the identifiers of \<^verbatim>\<open>uuid.New\<close> (a string, or a function from the index of
  the draw), the clock, the text form of a time, and how JSON treats values of user types (\<open>jx\<close>).
\<close>

section \<open>Deep copies (deepCopy, deepCopyMap, deepCopySlice)\<close>

fun deepCopy :: "(goval \<Rightarrow> goval option) \<Rightarrow> goval \<Rightarrow> goval" where
  "deepCopy jx GNil = GNil"
| "deepCopy jx (GMap m) = GMap (map (\<lambda>p. (fst p, deepCopy jx (snd p))) m)"
| "deepCopy jx (GList xs) = GList (map (deepCopy jx) xs)"
| "deepCopy jx v = (case json_rt jx v of None \<Rightarrow> GNil | Some w \<Rightarrow> w)"

definition deepCopyMap :: "(goval \<Rightarrow> goval option) \<Rightarrow> gostate \<Rightarrow> gostate" where
  "deepCopyMap jx m = map (\<lambda>(k, v). (k, deepCopy jx v)) m"

definition deepCopySlice :: "(goval \<Rightarrow> goval option) \<Rightarrow> goval list \<Rightarrow> goval list" where
  "deepCopySlice jx xs = map (deepCopy jx) xs"

text \<open>The values a JSON decoder returns: what a deep copy leaves unchanged.\<close>

fun is_json :: "goval \<Rightarrow> bool" where
  "is_json GNil = True"
| "is_json (GBool b) = True"
| "is_json (GFloat x) = (case x of F64 r \<Rightarrow> True | _ \<Rightarrow> False)"
| "is_json (GStr s) = (to_valid_utf8 s = s)"
| "is_json (GList xs) = list_all is_json xs"
| "is_json (GMap m) = list_all (\<lambda>p. is_json (snd p)) m"
| "is_json _ = False"

lemma deepCopy_json: "is_json v \<Longrightarrow> deepCopy jx v = v"
proof (induction jx v rule: deepCopy.induct)
  case (2 jx m)
  then show ?case by (induction m) auto
next
  case (3 jx xs)
  then show ?case by (induction xs) auto
qed (auto simp: json_rt_def split: f64.splits)

lemma deepCopyMap_json: "list_all (\<lambda>p. is_json (snd p)) m \<Longrightarrow> deepCopyMap jx m = m"
  by (induction m) (auto simp: deepCopyMap_def deepCopy_json)

lemma deepCopyMap_lookup [gomap_simps]:
  "map_of (deepCopyMap jx m) k = map_option (deepCopy jx) (map_of m k)"
  unfolding deepCopyMap_def by (induction m) auto

lemma deepCopyMap_gm_ok [simp]: "gm_ok (deepCopyMap jx m) = gm_ok m"
  unfolding deepCopyMap_def by (simp add: comp_def split_beta)

section \<open>The checkpoint struct\<close>

record CheckpointMetadata =
  md_ID :: string
  md_ParentID :: string
  md_ThreadID :: string
  md_Step :: int
  md_CreatedAt :: int
  md_Source :: string
  md_Metadata :: gostate

record PendingWrite =
  pw_Channel :: string
  pw_Value :: goval
  pw_Overwrite :: bool
  pw_Node :: string
  pw_Timestamp :: int
  pw_TaskID :: string

definition NewPendingWrite ::
  "int \<Rightarrow> string \<Rightarrow> goval \<Rightarrow> bool \<Rightarrow> string \<Rightarrow> string \<Rightarrow> PendingWrite" where
  "NewPendingWrite now channel value overwrite node taskID =
     \<lparr>pw_Channel = channel, pw_Value = value, pw_Overwrite = overwrite, pw_Node = node,
      pw_Timestamp = now, pw_TaskID = taskID\<rparr>"

record Checkpoint =
  cp_ID :: string
  cp_Version :: int
  cp_ParentID :: string
  ChannelVersions :: "int gomap"
  VersionsSeen :: "int gomap gomap"
  State :: gostate
  PendingWrites :: "PendingWrite list"
  cp_Metadata :: CheckpointMetadata

definition NewCheckpoint :: "string \<Rightarrow> int \<Rightarrow> string \<Rightarrow> int \<Rightarrow> Checkpoint" where
  "NewCheckpoint uid now threadID step =
     \<lparr>cp_ID = uid, cp_Version = 0, cp_ParentID = [], ChannelVersions = [], VersionsSeen = [],
      State = [], PendingWrites = [],
      cp_Metadata = \<lparr>md_ID = uid, md_ParentID = [], md_ThreadID = threadID, md_Step = step,
        md_CreatedAt = now, md_Source = ''node'', md_Metadata = []\<rparr>\<rparr>"

definition Clone :: "(goval \<Rightarrow> goval option) \<Rightarrow> string \<Rightarrow> int \<Rightarrow> Checkpoint \<Rightarrow> Checkpoint" where
  "Clone jx newID now c =
     \<lparr>cp_ID = newID, cp_Version = cp_Version c, cp_ParentID = cp_ID c,
      ChannelVersions = gm_copy_into (ChannelVersions c) [],
      VersionsSeen = map (\<lambda>(n, vs). (n, gm_copy_into vs [])) (VersionsSeen c),
      State = deepCopyMap jx (State c),
      PendingWrites = map (\<lambda>pw. pw\<lparr>pw_Value := deepCopy jx (pw_Value pw)\<rparr>) (PendingWrites c),
      cp_Metadata = \<lparr>md_ID = newID, md_ParentID = cp_ID c, md_ThreadID = md_ThreadID (cp_Metadata c),
        md_Step = md_Step (cp_Metadata c), md_CreatedAt = now, md_Source = md_Source (cp_Metadata c),
        md_Metadata = deepCopyMap jx (md_Metadata (cp_Metadata c))\<rparr>\<rparr>"

definition IncrementChannel :: "string \<Rightarrow> Checkpoint \<Rightarrow> Checkpoint" where
  "IncrementChannel channel c = c\<lparr>ChannelVersions := gm_incr channel (ChannelVersions c)\<rparr>"

text \<open>\<open>versionsSeen[node][channel] = v\<close> with the inner map made on demand.\<close>

definition seen_set :: "string \<Rightarrow> string \<Rightarrow> int \<Rightarrow> int gomap gomap \<Rightarrow> int gomap gomap" where
  "seen_set node channel v m =
     gm_set node (gm_set channel v (case map_of m node of None \<Rightarrow> [] | Some vs \<Rightarrow> vs)) m"

definition MarkSeen :: "string \<Rightarrow> string \<Rightarrow> Checkpoint \<Rightarrow> Checkpoint" where
  "MarkSeen node channel c =
     c\<lparr>VersionsSeen := seen_set node channel (gm_int (ChannelVersions c) channel) (VersionsSeen c)\<rparr>"

definition HasSeen :: "string \<Rightarrow> string \<Rightarrow> Checkpoint \<Rightarrow> bool" where
  "HasSeen node channel c =
     (case map_of (VersionsSeen c) node of
        None \<Rightarrow> False
      | Some vs \<Rightarrow>
          (case map_of vs channel of
             None \<Rightarrow> False | Some v \<Rightarrow> v = gm_int (ChannelVersions c) channel))"

definition AddPendingWrite :: "string \<Rightarrow> goval \<Rightarrow> bool \<Rightarrow> string \<Rightarrow> Checkpoint \<Rightarrow> Checkpoint" where
  "AddPendingWrite channel value overwrite node c =
     c\<lparr>PendingWrites := PendingWrites c @
        [\<lparr>pw_Channel = channel, pw_Value = value, pw_Overwrite = overwrite, pw_Node = node,
          pw_Timestamp = 0, pw_TaskID = []\<rparr>]\<rparr>"

definition ClearPendingWrites :: "Checkpoint \<Rightarrow> Checkpoint" where
  "ClearPendingWrites c = c\<lparr>PendingWrites := []\<rparr>"

text \<open>\<^verbatim>\<open>HasSeen\<close> reports a change exactly: after \<^verbatim>\<open>MarkSeen\<close> a node has seen the channel, and it
  stays so until that channel (and no other) is incremented.\<close>

theorem seen_until_incremented:
  "HasSeen node ch (MarkSeen node ch c) \<and>
   HasSeen node ch (fold IncrementChannel others (MarkSeen node ch c)) = (ch \<notin> set others)"
proof -
  have "ChannelVersions (fold IncrementChannel xs d) = fold gm_incr xs (ChannelVersions d) \<and>
      VersionsSeen (fold IncrementChannel xs d) = VersionsSeen d" for xs d
    by (induction xs arbitrary: d) (auto simp: IncrementChannel_def)
  moreover have "gm_int (fold gm_incr xs m) ch = gm_int m ch + int (count_list xs ch)" for xs m
    by (induction xs arbitrary: m) (auto simp: gomap_simps)
  ultimately show ?thesis
    by (simp add: HasSeen_def MarkSeen_def seen_set_def gomap_simps count_list_0_iff)
qed

section \<open>The map form (ToMap, FromMap)\<close>

definition write_map :: "PendingWrite \<Rightarrow> gostate" where
  "write_map pw =
     [(''channel'', GStr (pw_Channel pw)), (''value'', pw_Value pw),
      (''overwrite'', GBool (pw_Overwrite pw)), (''node'', GStr (pw_Node pw))]"

definition metadata_map :: "(int \<Rightarrow> string) \<Rightarrow> CheckpointMetadata \<Rightarrow> gostate" where
  "metadata_map fmt md =
     gm_copy_into (md_Metadata md)
       [(''id'', GStr (md_ID md)), (''parent_id'', GStr (md_ParentID md)),
        (''thread_id'', GStr (md_ThreadID md)), (''step'', GInt (word_of_int (md_Step md))),
        (''created_at'', GStr (fmt (md_CreatedAt md))), (''source'', GStr (md_Source md))]"

definition ToMap :: "(goval \<Rightarrow> goval option) \<Rightarrow> (int \<Rightarrow> string) \<Rightarrow> Checkpoint \<Rightarrow> gostate" where
  "ToMap jx fmt c =
     [(''id'', GStr (cp_ID c)),
      (''version'', GInt (word_of_int (cp_Version c))),
      (''parent_id'', GStr (cp_ParentID c)),
      (''channel_versions'', GIntMap (gm_copy_into (ChannelVersions c) [])),
      (''versions_seen'', GIntMapMap (map (\<lambda>(n, vs). (n, gm_copy_into vs [])) (VersionsSeen c))),
      (''state'', GMap (deepCopyMap jx (State c))),
      (''pending_writes'',
        GSlice ''map[string]interface {}'' (map (\<lambda>pw. GMap (write_map pw)) (PendingWrites c))),
      (''metadata'', GMap (metadata_map fmt (cp_Metadata c)))]"

definition getString :: "gostate \<Rightarrow> string \<Rightarrow> string" where
  "getString data key = (case as_string (gm_val data key) of Some s \<Rightarrow> s | None \<Rightarrow> [])"

text \<open>\<^verbatim>\<open>int(f)\<close> for a float64 truncates towards zero.\<close>

definition f64_to_int :: "f64 \<Rightarrow> int" where
  "f64_to_int x = (case x of F64 r \<Rightarrow> if 0 \<le> r then \<lfloor>r\<rfloor> else \<lceil>r\<rceil> | _ \<Rightarrow> 0)"

definition getInt :: "gostate \<Rightarrow> string \<Rightarrow> int \<Rightarrow> int" where
  "getInt data key d = (case as_float (gm_val data key) of Some x \<Rightarrow> f64_to_int x | None \<Rightarrow> d)"

definition getBool :: "gostate \<Rightarrow> string \<Rightarrow> bool \<Rightarrow> bool" where
  "getBool data key d = (case as_bool (gm_val data key) of Some b \<Rightarrow> b | None \<Rightarrow> d)"

definition parse_versions :: "gostate \<Rightarrow> int gomap" where
  "parse_versions cv =
     fold (\<lambda>(k, v) m. case as_float v of Some x \<Rightarrow> gm_set k (f64_to_int x) m | None \<Rightarrow> m) cv []"

definition parse_seen :: "gostate \<Rightarrow> int gomap gomap" where
  "parse_seen vs =
     fold (\<lambda>(n, v) m. case as_map v of Some vm \<Rightarrow> gm_set n (parse_versions vm) m | None \<Rightarrow> m) vs []"

definition parse_writes :: "goval list \<Rightarrow> PendingWrite list" where
  "parse_writes pws =
     List.map_filter (\<lambda>pw. map_option (\<lambda>m.
       \<lparr>pw_Channel = getString m ''channel'', pw_Value = gm_val m ''value'',
        pw_Overwrite = getBool m ''overwrite'' False, pw_Node = getString m ''node'',
        pw_Timestamp = 0, pw_TaskID = []\<rparr>) (as_map pw)) pws"

text \<open>The zero value of \<^verbatim>\<open>CheckpointMetadata\<close>, and what \<^verbatim>\<open>FromMap\<close> reads of the metadata map.\<close>

definition no_metadata :: CheckpointMetadata where
  "no_metadata =
     \<lparr>md_ID = [], md_ParentID = [], md_ThreadID = [], md_Step = 0, md_CreatedAt = 0, md_Source = [],
      md_Metadata = []\<rparr>"

definition metadata_keys :: "string list" where
  "metadata_keys = [''id'', ''parent_id'', ''thread_id'', ''step'', ''created_at'', ''source'']"

definition parse_metadata :: "(string \<Rightarrow> int option) \<Rightarrow> gostate \<Rightarrow> CheckpointMetadata" where
  "parse_metadata prs md =
     \<lparr>md_ID = getString md ''id'', md_ParentID = getString md ''parent_id'',
      md_ThreadID = getString md ''thread_id'', md_Step = getInt md ''step'' 0,
      md_CreatedAt =
        (if getString md ''created_at'' \<noteq> []
         then (case prs (getString md ''created_at'') of Some t \<Rightarrow> t | None \<Rightarrow> 0) else 0),
      md_Source = getString md ''source'',
      md_Metadata = gm_copy_into (filter (\<lambda>(k, v). k \<notin> set metadata_keys) md) []\<rparr>"

definition FromMap ::
  "(goval \<Rightarrow> goval option) \<Rightarrow> (string \<Rightarrow> int option) \<Rightarrow> gostate \<Rightarrow> Checkpoint" where
  "FromMap jx prs data =
     \<lparr>cp_ID = getString data ''id'', cp_Version = getInt data ''version'' 0,
      cp_ParentID = getString data ''parent_id'',
      ChannelVersions =
        (case as_map (gm_val data ''channel_versions'') of Some cv \<Rightarrow> parse_versions cv | None \<Rightarrow> []),
      VersionsSeen =
        (case as_map (gm_val data ''versions_seen'') of Some vs \<Rightarrow> parse_seen vs | None \<Rightarrow> []),
      State =
        (case as_map (gm_val data ''state'') of Some st \<Rightarrow> deepCopyMap jx st | None \<Rightarrow> []),
      PendingWrites =
        (case as_list (gm_val data ''pending_writes'') of Some l \<Rightarrow> parse_writes l | None \<Rightarrow> []),
      cp_Metadata =
        (case as_map (gm_val data ''metadata'') of
           Some md \<Rightarrow> parse_metadata prs md | None \<Rightarrow> no_metadata)\<rparr>"

text \<open>Read back in memory, without an encoding in between, the map form of a checkpoint has lost
  its version, its channel versions, the versions seen and the pending writes: \<^verbatim>\<open>ToMap\<close> writes
  \<^verbatim>\<open>int\<close>, \<^verbatim>\<open>map[string]int\<close> and slices of maps where \<^verbatim>\<open>FromMap\<close> looks for the types a JSON decoder
  returns.\<close>

theorem FromMap_ToMap_in_memory:
  "cp_ID (FromMap jx prs (ToMap jx fmt c)) = cp_ID c \<and>
   cp_ParentID (FromMap jx prs (ToMap jx fmt c)) = cp_ParentID c \<and>
   cp_Version (FromMap jx prs (ToMap jx fmt c)) = 0 \<and>
   ChannelVersions (FromMap jx prs (ToMap jx fmt c)) = [] \<and>
   VersionsSeen (FromMap jx prs (ToMap jx fmt c)) = [] \<and>
   PendingWrites (FromMap jx prs (ToMap jx fmt c)) = []"
  by (simp add: FromMap_def ToMap_def getString_def getInt_def gm_val_def assert_defs)

section \<open>The round trip through JSON\<close>

text \<open>
  \<^verbatim>\<open>json.Marshal\<close> and \<^verbatim>\<open>json.Unmarshal\<close> of a whole value, as the savers that store bytes apply it
  (\<^verbatim>\<open>nats.go\<close>); \<^const>\<open>json_rt\<close> has the scalars.
\<close>

fun json_full :: "(goval \<Rightarrow> goval option) \<Rightarrow> goval \<Rightarrow> goval option" where
  "json_full jx (GMap m) =
     map_option (\<lambda>vs. GMap (json_object id (zip (map fst m) vs)))
       (those (map (\<lambda>p. json_full jx (snd p)) m))"
| "json_full jx (GList xs) = map_option GList (those (map (json_full jx) xs))"
| "json_full jx (GSlice t xs) = map_option GList (those (map (json_full jx) xs))"
| "json_full jx (GIntMapMap m) =
     Some (GMap (json_object (\<lambda>im. GMap (json_object (\<lambda>n. GFloat (f64_round (of_int n))) im)) m))"
| "json_full jx v = json_rt jx v"

text \<open>Keys that survive the encoding: distinct and valid UTF-8.\<close>

definition json_keys :: "'v gomap \<Rightarrow> bool" where
  "json_keys m \<longleftrightarrow> gm_ok m \<and> (\<forall>k \<in> set (gm_keys m). to_valid_utf8 k = k)"

lemma map_of_sort_key: "gm_ok m \<Longrightarrow> map_of (sort_key fst m) = map_of m"
  by (subst map_of_inject_set) (simp_all add: distinct_map)

lemma json_object_lookup:
  assumes "json_keys m"
  shows "map_of (json_object f m) k = map_option f (map_of m k)"
proof -
  have keys: "map (\<lambda>(k, v). (to_valid_utf8 k, f v)) (sort_key fst m) = map (\<lambda>(k, v). (k, f v)) (sort_key fst m)"
    using assms by (auto simp: json_keys_def)
  have "distinct (map fst (sort_key fst m))"
    using assms by (simp add: json_keys_def distinct_map)
  then have "gm_ok (map (\<lambda>(k, v). (k, f v)) (sort_key fst m))"
    by (simp add: comp_def split_beta)
  then have "json_object f m = map (\<lambda>(k, v). (k, f v)) (sort_key fst m)"
    unfolding json_object_def keys by (rule gm_copy_into_Nil)
  then show ?thesis
    using assms by (simp add: map_of_map_snd map_of_sort_key json_keys_def)
qed

lemma those_zip:
  "those (map (\<lambda>p. f (snd p)) m) = Some vs \<Longrightarrow>
     length vs = length m \<and> map_of (zip (map fst m) vs) k = Option.bind (map_of m k) f"
  by (induction m arbitrary: vs) (auto split: option.splits)

lemma json_full_lookup:
  assumes "json_full jx (GMap m) = Some w" and "json_keys m"
  obtains m' where "w = GMap m'" "\<And>k. map_of m' k = Option.bind (map_of m k) (json_full jx)"
proof -
  obtain vs where vs: "those (map (\<lambda>p. json_full jx (snd p)) m) = Some vs"
    and w: "w = GMap (json_object id (zip (map fst m) vs))"
    using assms(1) by auto
  have "json_keys (zip (map fst m) vs)"
    using assms(2) those_zip [OF vs] by (simp add: json_keys_def)
  then have "map_of (json_object id (zip (map fst m) vs)) k = Option.bind (map_of m k) (json_full jx)" for k
    using those_zip [OF vs] by (simp add: json_object_lookup option.map_id)
  with w show ?thesis by (rule that)
qed

lemma f64_to_int_round: "\<bar>n\<bar> < 2 ^ 53 \<Longrightarrow> f64_to_int (f64_round (of_int n)) = n"
  by (simp add: f64_round_exact f64_to_int_def)

lemma sint_small: "\<bar>n\<bar> < 2 ^ 53 \<Longrightarrow> sint (word_of_int n :: i64) = n"
  by (simp add: sint_sbintrunc' signed_take_bit_int_eq_self_iff abs_less_iff)

definition small_versions :: "int gomap \<Rightarrow> bool" where
  "small_versions m \<longleftrightarrow> json_keys m \<and> (\<forall>(k, n) \<in> set m. \<bar>n\<bar> < 2 ^ 53)"

lemma gm_ok_json_object [simp]: "gm_ok (json_object f m)"
  by (simp add: json_object_def)

text \<open>Both parsers copy the entries whose value has the expected type.\<close>

lemma fold_parse_lookup:
  assumes "gm_ok cv" and "\<forall>p \<in> set cv. g (snd p) \<noteq> None"
  shows "map_of (fold (\<lambda>(k, v) m. case g v of Some x \<Rightarrow> gm_set k (h x) m | None \<Rightarrow> m) cv m) k =
    (case map_of cv k of None \<Rightarrow> map_of m k | Some v \<Rightarrow> map_option h (g v))"
  using assms
proof (induction cv arbitrary: m)
  case (Cons p cv)
  have "map_of cv (fst p) = None" "g (snd p) \<noteq> None"
    using Cons.prems by (auto simp: map_of_eq_None_iff)
  then show ?case
    using Cons by (cases p) (auto simp: gomap_simps split: option.split)
qed simp

lemma json_object_values: "json_keys m \<Longrightarrow> p \<in> set (json_object f m) \<Longrightarrow> \<exists>v. snd p = f v"
proof -
  assume m: "json_keys m" and p: "p \<in> set (json_object f m)"
  then have "map_of (json_object f m) (fst p) = Some (snd p)"
    by (simp add: map_of_eq_Some_iff)
  with m show ?thesis
    by (metis (no_types, lifting) json_object_lookup map_option_eq_Some)
qed

lemma parse_versions_json:
  assumes "small_versions m"
  shows "map_of (parse_versions (json_object (\<lambda>n. GFloat (f64_round (of_int n))) m)) k = map_of m k"
proof -
  let ?cv = "json_object (\<lambda>n. GFloat (f64_round (of_int n))) m"
  have m: "json_keys m" and "\<forall>k n. map_of m k = Some n \<longrightarrow> \<bar>n\<bar> < 2 ^ 53"
    using assms by (auto simp: small_versions_def dest: map_of_SomeD)
  moreover have "\<forall>p \<in> set ?cv. as_float (snd p) \<noteq> None"
    using json_object_values [OF m] by (fastforce simp: as_float_def)
  ultimately show ?thesis
    unfolding parse_versions_def
    by (subst fold_parse_lookup) (auto simp: json_object_lookup [OF m] as_float_def f64_to_int_round
        split: option.split)
qed

lemma parse_seen_json:
  assumes "json_keys m" and "\<forall>(n, vs) \<in> set m. small_versions vs"
  shows "map_of (parse_seen (json_object (\<lambda>im. GMap (json_object (\<lambda>n. GFloat (f64_round (of_int n))) im)) m)) n
    = map_option (\<lambda>vs. parse_versions (json_object (\<lambda>n. GFloat (f64_round (of_int n))) vs)) (map_of m n)"
proof -
  let ?vs = "json_object (\<lambda>im. GMap (json_object (\<lambda>n. GFloat (f64_round (of_int n))) im)) m"
  have "\<forall>p \<in> set ?vs. as_map (snd p) \<noteq> None"
    using json_object_values [OF assms(1)] by (fastforce simp: as_map_def)
  then show ?thesis
    unfolding parse_seen_def
    by (subst fold_parse_lookup) (auto simp: json_object_lookup [OF assms(1)] as_map_def split: option.split)
qed

lemma parse_writes_json:
  assumes "those (map (json_full jx) (map (\<lambda>pw. GMap (write_map pw)) pws)) = Some l"
    and "\<forall>pw \<in> set pws. to_valid_utf8 (pw_Channel pw) = pw_Channel pw \<and> to_valid_utf8 (pw_Node pw) = pw_Node pw"
  shows "map (\<lambda>pw. (pw_Channel pw, pw_Overwrite pw, pw_Node pw)) (parse_writes l) =
    map (\<lambda>pw. (pw_Channel pw, pw_Overwrite pw, pw_Node pw)) pws"
  using assms
proof (induction pws arbitrary: l)
  case Nil
  then show ?case by (simp add: parse_writes_def List.map_filter_def)
next
  case (Cons pw pws)
  obtain w l' where w: "json_full jx (GMap (write_map pw)) = Some w" and l: "l = w # l'"
    and l': "those (map (json_full jx) (map (\<lambda>pw. GMap (write_map pw)) pws)) = Some l'"
    using Cons.prems(1) by (auto simp del: json_full.simps split: option.splits)
  have "json_keys (write_map pw)"
    by (simp add: json_keys_def write_map_def to_valid_utf8_ascii)
  then obtain m where m: "w = GMap m"
    "\<And>k. map_of m k = Option.bind (map_of (write_map pw) k) (json_full jx)"
    using json_full_lookup [OF w] by blast
  have "getString m ''channel'' = pw_Channel pw" "getBool m ''overwrite'' False = pw_Overwrite pw"
    "getString m ''node'' = pw_Node pw"
    using Cons.prems(2)
    by (simp_all add: getString_def getBool_def gm_val_def m(2) write_map_def json_rt_def assert_defs)
  moreover have "as_map w = Some m"
    by (simp add: m(1) as_map_def)
  ultimately show ?case
    using Cons.IH [OF l'] Cons.prems(2) by (simp add: l parse_writes_def List.map_filter_def)
qed

text \<open>What the encoding needs of a checkpoint: valid UTF-8 in names, versions below \<open>2 ^ 53\<close>.\<close>

definition encodable :: "Checkpoint \<Rightarrow> bool" where
  "encodable c \<longleftrightarrow> to_valid_utf8 (cp_ID c) = cp_ID c \<and> to_valid_utf8 (cp_ParentID c) = cp_ParentID c \<and>
     \<bar>cp_Version c\<bar> < 2 ^ 53 \<and> small_versions (ChannelVersions c) \<and>
     json_keys (VersionsSeen c) \<and> (\<forall>(n, vs) \<in> set (VersionsSeen c). small_versions vs) \<and>
     (\<forall>pw \<in> set (PendingWrites c). to_valid_utf8 (pw_Channel pw) = pw_Channel pw \<and>
        to_valid_utf8 (pw_Node pw) = pw_Node pw)"

lemma ToMap_keys: "json_keys (ToMap jx fmt c)"
  by (simp add: json_keys_def ToMap_def to_valid_utf8_ascii)

lemma copies_same:
  "small_versions m \<Longrightarrow> gm_copy_into m [] = m"
  "\<forall>(n, vs) \<in> set ms. small_versions vs \<Longrightarrow> map (\<lambda>(n, vs). (n, gm_copy_into vs [])) ms = ms"
  by (auto simp: small_versions_def json_keys_def intro!: map_idI)

text \<open>Stored as JSON and read back, a checkpoint keeps its identifiers, its version, the version of
  every channel, the versions each node has seen, and the channel, node and overwrite flag of every
  pending write, for counters below \<open>2 ^ 53\<close>.\<close>

theorem FromMap_json_ToMap:
  assumes "json_full jx (GMap (ToMap jx fmt c)) = Some w" and "encodable c"
  shows "\<exists>m. w = GMap m \<and>
    cp_ID (FromMap jx prs m) = cp_ID c \<and> cp_ParentID (FromMap jx prs m) = cp_ParentID c \<and>
    cp_Version (FromMap jx prs m) = cp_Version c \<and>
    map_of (ChannelVersions (FromMap jx prs m)) = map_of (ChannelVersions c) \<and>
    (\<forall>n. map_option map_of (map_of (VersionsSeen (FromMap jx prs m)) n) =
       map_option map_of (map_of (VersionsSeen c) n)) \<and>
    map (\<lambda>pw. (pw_Channel pw, pw_Overwrite pw, pw_Node pw)) (PendingWrites (FromMap jx prs m)) =
      map (\<lambda>pw. (pw_Channel pw, pw_Overwrite pw, pw_Node pw)) (PendingWrites c)"
proof -
  obtain m where w: "w = GMap m"
    and m: "\<And>k. map_of m k = Option.bind (map_of (ToMap jx fmt c) k) (json_full jx)"
    using json_full_lookup [OF assms(1) ToMap_keys] by blast
  have e: "to_valid_utf8 (cp_ID c) = cp_ID c" "to_valid_utf8 (cp_ParentID c) = cp_ParentID c"
    "\<bar>cp_Version c\<bar> < 2 ^ 53" "small_versions (ChannelVersions c)" "json_keys (VersionsSeen c)"
    "\<forall>(n, vs) \<in> set (VersionsSeen c). small_versions vs"
    using assms(2) by (auto simp: encodable_def)
  note get = getString_def getInt_def gm_val_def m ToMap_def json_rt_def assert_defs copies_same e
  have ids: "cp_ID (FromMap jx prs m) = cp_ID c" "cp_ParentID (FromMap jx prs m) = cp_ParentID c"
    "cp_Version (FromMap jx prs m) = cp_Version c"
    using sint_small [OF e(3)] f64_to_int_round [OF e(3)]
    by (simp_all add: FromMap_def get del: of_int_sint)
  have cv: "ChannelVersions (FromMap jx prs m) =
      parse_versions (json_object (\<lambda>n. GFloat (f64_round (of_int n))) (ChannelVersions c))"
    by (simp add: FromMap_def get)
  have vs: "VersionsSeen (FromMap jx prs m) = parse_seen (json_object (\<lambda>im. GMap (json_object
      (\<lambda>n. GFloat (f64_round (of_int n))) im)) (VersionsSeen c))"
    by (simp add: FromMap_def get)
  have seen: "map_option map_of (map_of (VersionsSeen (FromMap jx prs m)) n) =
      map_option map_of (map_of (VersionsSeen c) n)" for n
  proof (cases "map_of (VersionsSeen c) n")
    case (Some a)
    then have "small_versions a"
      using e(6) by (auto dest: map_of_SomeD)
    then show ?thesis
      using Some by (simp add: vs parse_seen_json e(5,6) parse_versions_json fun_eq_iff)
  qed (simp add: vs parse_seen_json e(5,6))
  obtain vs' where "those (map (\<lambda>p. json_full jx (snd p)) (ToMap jx fmt c)) = Some vs'"
    using assms(1) by auto
  then obtain l where l: "those (map (json_full jx) (map (\<lambda>pw. GMap (write_map pw)) (PendingWrites c))) = Some l"
    by (auto simp: ToMap_def split: option.splits)
  then have "PendingWrites (FromMap jx prs m) = parse_writes l"
    by (simp add: FromMap_def get)
  then have "map (\<lambda>pw. (pw_Channel pw, pw_Overwrite pw, pw_Node pw)) (PendingWrites (FromMap jx prs m)) =
      map (\<lambda>pw. (pw_Channel pw, pw_Overwrite pw, pw_Node pw)) (PendingWrites c)"
    using parse_writes_json [OF l] assms(2) by (simp add: encodable_def)
  with w ids cv seen show ?thesis
    using parse_versions_json [OF e(4)] by (auto simp: fun_eq_iff)
qed

theorem FromMap_json_ToMap_witness:
  "\<exists>m. json_full (\<lambda>_. None) (GMap (ToMap (\<lambda>_. None) (\<lambda>_. ''now'')
       (IncrementChannel ''a'' (NewCheckpoint ''id'' 0 ''t'' 1)))) = Some (GMap m) \<and>
     map_of (ChannelVersions (FromMap (\<lambda>_. None) (\<lambda>_. None) m)) ''a'' = Some 1"
proof -
  let ?c = "IncrementChannel ''a'' (NewCheckpoint ''id'' 0 ''t'' 1)"
  have "encodable ?c"
    by (simp add: encodable_def IncrementChannel_def NewCheckpoint_def gm_incr_def gm_int_def
        small_versions_def json_keys_def to_valid_utf8_ascii)
  moreover obtain w where w: "json_full (\<lambda>_. None) (GMap (ToMap (\<lambda>_. None) (\<lambda>_. ''now'') ?c)) = Some w"
    by (simp add: ToMap_def IncrementChannel_def NewCheckpoint_def metadata_map_def json_rt_def
        gm_copy_into_def deepCopyMap_def)
  ultimately show ?thesis
    using FromMap_json_ToMap [OF w, of "\<lambda>_. None"]
    by (auto simp: IncrementChannel_def NewCheckpoint_def gm_incr_def gm_int_def)
qed

end
