(* ===== verification/StateMaps.thy ===== *)
theory StateMaps
  imports StateGraph
begin

text \<open>
  The helpers of \<^verbatim>\<open>pregel/engine.go\<close> that work on state maps: turning values into maps, merging states,
  routing fields along dotted paths, the encoding of the set of completed tasks, task paths, and
  writing the input of a run into the channels. Maps are values here. \<open>applyFieldMapping\<close> in the code
  shares nested maps between the node's output and its result, so a mapping whose target path runs
  through a map placed by an earlier mapping would also change the output; the model copies.
\<close>

section \<open>toMap and mergeStates\<close>

text \<open>
  Structs become maps of their exported fields, maps of other types become \<^verbatim>\<open>map[string]any\<close>, anything
  else goes under \<^verbatim>\<open>__root__\<close>. One pointer is followed; a nil pointer is not a struct.
\<close>

definition root_map :: "goval \<Rightarrow> gostate" where
  "root_map v = [(''__root__'', v)]"

definition toMap :: "goval \<Rightarrow> gerror + gostate" where
  "toMap val =
     (case val of
        GNil \<Rightarrow> Inl (PlainError ''nil value'' [])
      | GMap m \<Rightarrow> Inr m
      | GMissing \<Rightarrow> Inr []
      | GOverwrite v \<Rightarrow> Inr [(''Value'', v)]
      | _ \<Rightarrow>
          (case (case val of GPtr v \<Rightarrow> v | _ \<Rightarrow> val) of
             GMap m \<Rightarrow> Inr m
           | GBoolMap m \<Rightarrow> Inr (map (\<lambda>(k, b). (k, GBool b)) m)
           | GIntMap m \<Rightarrow> Inr (map (\<lambda>(k, n). (k, GInt (word_of_int n))) m)
           | GIntMapMap m \<Rightarrow> Inr (map (\<lambda>(k, im). (k, GIntMap im)) m)
           | GStruct t fs \<Rightarrow> Inr fs
           | GGetter v \<Rightarrow> Inr [(''Value'', v)]
           | _ \<Rightarrow> Inr (root_map val)))"

definition mergeStates :: "goval \<Rightarrow> goval \<Rightarrow> goval" where
  "mergeStates existing next =
     (if existing = GNil then next
      else if next = GNil then existing
      else (case (as_map existing, as_map next) of
              (Some em, Some nm) \<Rightarrow> GMap (gm_copy_into nm (gm_copy_into em []))
            | _ \<Rightarrow> next))"

section \<open>Fields along dotted paths\<close>

fun get_path :: "goval \<Rightarrow> string list \<Rightarrow> goval" where
  "get_path cur [] = cur"
| "get_path cur (part # parts) =
     (case as_map cur of
        None \<Rightarrow> GNil
      | Some cm \<Rightarrow> if gm_val cm part = GNil then GNil else get_path (gm_val cm part) parts)"

definition getNestedField :: "gostate \<Rightarrow> string \<Rightarrow> goval" where
  "getNestedField m path =
     (if path = [] then GMap m else get_path (GMap m) (split_on (CHR ''.'') path))"

text \<open>
  \<^verbatim>\<open>setNestedField\<close> walks down, making maps where there are none. Where the path meets a value that is
  no map, the failed assertion has already set the variable to a nil map when it is written to: the
  code panics.
\<close>

fun set_path :: "string list \<Rightarrow> goval \<Rightarrow> gostate \<Rightarrow> gerror + gostate" where
  "set_path [] v m = Inr m"
| "set_path [p] v m = Inr (gm_set p v m)"
| "set_path (p # q # ps) v m =
     (case map_of m p of
        None \<Rightarrow>
          (case set_path (q # ps) v [] of Inl e \<Rightarrow> Inl e | Inr sub \<Rightarrow> Inr (gm_set p (GMap sub) m))
      | Some w \<Rightarrow>
          (case as_map w of
             None \<Rightarrow> Inl (PanicError ''assignment to entry in nil map'')
           | Some sub \<Rightarrow>
               (case set_path (q # ps) v sub of Inl e \<Rightarrow> Inl e | Inr sub' \<Rightarrow> Inr (gm_set p (GMap sub') m))))"

definition setNestedField :: "gostate \<Rightarrow> string \<Rightarrow> goval \<Rightarrow> gerror + gostate" where
  "setNestedField m path v =
     (if path = [] then
        (case as_map v of
           Some vm \<Rightarrow> Inr (gm_copy_into vm m)
         | None \<Rightarrow> Inl (PanicError ''interface conversion''))
      else set_path (split_on (CHR ''.'') path) v m)"

fun mapping_loop :: "gostate \<Rightarrow> gostate \<Rightarrow> FieldMapping list \<Rightarrow> gerror + gostate" where
  "mapping_loop output' result [] = Inr result"
| "mapping_loop output' result (mp # mps) =
     (let val = getNestedField output' (fm_From mp)
      in if val \<noteq> GNil then
           (case setNestedField result (fm_To mp) val of
              Inl e \<Rightarrow> Inl e | Inr r \<Rightarrow> mapping_loop output' r mps)
         else mapping_loop output' result mps)"

definition applyFieldMapping :: "gostate \<Rightarrow> FieldMapping list \<Rightarrow> gerror + gostate" where
  "applyFieldMapping output' mappings =
     (if mappings = [] then Inr output' else mapping_loop output' [] mappings)"

text \<open>A path can be written unless it runs through a value that is not a map.\<close>

fun path_free :: "string list \<Rightarrow> gostate \<Rightarrow> bool" where
  "path_free (p # q # ps) m =
     (case map_of m p of
        None \<Rightarrow> True
      | Some w \<Rightarrow> (case as_map w of None \<Rightarrow> False | Some sub \<Rightarrow> path_free (q # ps) sub))"
| "path_free ps m = True"

lemma set_path_ok_iff: "is_ok (set_path ps v m) \<longleftrightarrow> path_free ps m"
proof (induction ps v m rule: set_path.induct)
  case (3 p q ps v m)
  have fresh: "is_ok (set_path (q # ps) v [])" if "map_of m p = None"
  proof -
    have "path_free xs []" for xs
      by (cases "(xs, [] :: gostate)" rule: path_free.cases) auto
    then show ?thesis
      using 3(1) [OF that] by (cases ps) auto
  qed
  show ?case
  proof (cases "map_of m p")
    case None
    then show ?thesis
      using fresh by (auto split: sum.split simp: is_ok_iff)
  next
    case (Some w)
    then show ?thesis
      using 3(2) [OF Some] by (auto split: option.split sum.split simp: is_ok_iff)
  qed
qed auto

lemma set_path_get:
  "set_path ps v m = Inr m' \<Longrightarrow> ps \<noteq> [] \<Longrightarrow> v \<noteq> GNil \<Longrightarrow> get_path (GMap m') ps = v"
proof (induction ps v m arbitrary: m' rule: set_path.induct)
  case (3 p q ps v m)
  show ?case
  proof (cases "map_of m p")
    case None
    then obtain sub where "set_path (q # ps) v [] = Inr sub" "m' = gm_set p (GMap sub) m"
      using 3(3) by (auto split: sum.splits)
    then show ?thesis
      using 3(1) [OF None] 3(5) by (simp add: as_map_def gm_val_def gomap_simps)
  next
    case (Some w)
    then obtain s sub where "as_map w = Some s" "set_path (q # ps) v s = Inr sub" "m' = gm_set p (GMap sub) m"
      using 3(3) by (auto split: sum.splits option.splits)
    then show ?thesis
      using 3(2) [OF Some] 3(5) by (simp add: as_map_def gm_val_def gomap_simps)
  qed
qed (auto simp: as_map_def gm_val_def gomap_simps)

lemma set_path_other:
  "set_path (p # ps) v m = Inr m' \<Longrightarrow> k \<noteq> p \<Longrightarrow> map_of m' k = map_of m k"
  by (cases ps) (auto simp: gomap_simps split: option.splits sum.splits)

text \<open>Writing a field along a dotted path succeeds exactly when the path does not run through a
  value that is not a map (there the code panics), and then reading the same path returns the value
  written, while the other top-level keys are as before.\<close>

theorem setNestedField_spec:
  assumes "path \<noteq> []" and "v \<noteq> GNil"
  shows "if path_free (split_on (CHR ''.'') path) m
    then \<exists>m'. setNestedField m path v = Inr m' \<and> getNestedField m' path = v \<and>
      (\<forall>k. k \<noteq> hd (split_on (CHR ''.'') path) \<longrightarrow> map_of m' k = map_of m k)
    else \<exists>r. setNestedField m path v = Inl (PanicError r)"
proof -
  let ?ps = "split_on (CHR ''.'') path"
  obtain p ps where ps: "?ps = p # ps"
    using split_on_nonempty by (cases ?ps) auto
  show ?thesis
  proof (cases "path_free ?ps m")
    case True
    then obtain m' where m': "set_path ?ps v m = Inr m'"
      using set_path_ok_iff [of ?ps v m] by (auto simp: is_ok_iff)
    then show ?thesis
      using True assms set_path_get [OF m'] set_path_other [of p ps v m m'] ps
      by (auto simp: setNestedField_def getNestedField_def)
  next
    case False
    have "\<exists>r. set_path xs v n = Inl (PanicError r)" if "\<not> path_free xs n" for xs n
      using that
    proof (induction xs v n rule: set_path.induct)
      case (3 p q ps v n)
      then obtain w where w: "map_of n p = Some w"
        by (auto split: option.splits)
      then show ?case
        using 3(2) [OF w] 3(3) by (cases "as_map w") auto
    qed auto
    from this [OF False] show ?thesis
      using False assms(1) by (simp add: setNestedField_def)
  qed
qed

theorem setNestedField_spec_witness:
  "setNestedField [(''a'', GInt 1)] ''a.b'' (GInt 2) = Inl (PanicError ''assignment to entry in nil map'') \<and>
   (\<exists>m'. setNestedField [(''a'', GMap [])] ''a.b'' (GInt 2) = Inr m' \<and> getNestedField m' ''a.b'' = GInt 2)"
  using setNestedField_spec [of "''a.b''" "GInt 2" "[(''a'', GInt 1)]"]
    setNestedField_spec [of "''a.b''" "GInt 2" "[(''a'', GMap [])]"]
  by (auto simp: as_map_def setNestedField_def)

section \<open>The set of completed tasks as a string\<close>

definition NUL :: char where "NUL = CHR 0x00"

definition serializeStringSet :: "bool gomap \<Rightarrow> string" where
  "serializeStringSet s = (if s = [] then [] else join_with [NUL] (sort (gm_keys s)))"

definition deserializeStringSet :: "string \<Rightarrow> bool gomap option" where
  "deserializeStringSet encoded =
     (if encoded = [] then None
      else Some (fold (\<lambda>part m. gm_set part True m) (split_on NUL encoded) []))"

lemma fold_set_true: "gm_true (fold (\<lambda>p m. gm_set p True m) ps m) k \<longleftrightarrow> k \<in> set ps \<or> gm_true m k"
  by (induction ps arbitrary: m) (auto simp: gomap_simps)

lemma deserialize_serialize:
  assumes "s \<noteq> []" and "\<forall>k \<in> set (gm_keys s). k \<noteq> [] \<and> NUL \<notin> set k"
  shows "\<exists>s'. deserializeStringSet (serializeStringSet s) = Some s' \<and>
    (\<forall>k. gm_true s' k \<longleftrightarrow> k \<in> set (gm_keys s))"
proof -
  let ?ks = "sort (gm_keys s)"
  have ks: "?ks \<noteq> []"
    using assms(1) by (metis Nil_is_map_conv set_empty set_sort)
  then have split: "split_on NUL (join_with [NUL] ?ks) = ?ks"
    using assms(2) by (intro split_join) auto
  have "join_with [NUL] ?ks \<noteq> []"
  proof
    assume "join_with [NUL] ?ks = []"
    with split have "?ks = [[]]" by simp
    then have "[] \<in> set (gm_keys s)"
      by (metis list.set_intros(1) set_sort)
    with assms(2) show False by auto
  qed
  then show ?thesis
    using assms(1) split by (simp add: serializeStringSet_def deserializeStringSet_def fold_set_true)
qed

text \<open>The set of completed tasks survives its encoding in a checkpoint, for non-empty sets of
  non-empty names without NUL bytes.\<close>

theorem string_set_roundtrip:
  assumes "s \<noteq> []" and "\<forall>k \<in> set (gm_keys s). k \<noteq> [] \<and> NUL \<notin> set k"
  shows "\<exists>s'. deserializeStringSet (serializeStringSet s) = Some s' \<and>
    (\<forall>k. gm_true s' k \<longleftrightarrow> k \<in> set (gm_keys s))"
  using deserialize_serialize [OF assms] .

theorem string_set_roundtrip_witness:
  "\<exists>s'. deserializeStringSet (serializeStringSet [(''b'', True), (''a'', True)]) = Some s' \<and>
     gm_true s' ''a'' \<and> \<not> gm_true s' ''c''"
proof -
  let ?s = "[(''b'', True), (''a'', True)]"
  have "?s \<noteq> []" "\<forall>k \<in> set (gm_keys ?s). k \<noteq> [] \<and> NUL \<notin> set k"
    by (simp_all add: NUL_def)
  from string_set_roundtrip [OF this] obtain s' where s': "deserializeStringSet (serializeStringSet ?s) = Some s'"
    "\<forall>k. gm_true s' k \<longleftrightarrow> k \<in> set (gm_keys ?s)"
    by blast
  have "gm_true s' ''a''" "\<not> gm_true s' ''c''"
    using s'(2) by simp_all
  with s'(1) show ?thesis by blast
qed

section \<open>Task paths\<close>

definition TaskPathStr :: "string list \<Rightarrow> string" where
  "TaskPathStr path = (if path = [] then [] else join_with ''/'' path)"

definition ParseTaskPath :: "string \<Rightarrow> string list" where
  "ParseTaskPath s = (if s = [] then [] else split_on (CHR ''/'') s)"

lemma ParseTaskPath_TaskPathStr:
  "path \<noteq> [[]] \<Longrightarrow> \<forall>p \<in> set path. CHR ''/'' \<notin> set p \<Longrightarrow> ParseTaskPath (TaskPathStr path) = path"
  using split_join [of path "CHR ''/''"] by (auto simp: ParseTaskPath_def TaskPathStr_def)

lemma TaskPathStr_ParseTaskPath: "TaskPathStr (ParseTaskPath s) = s"
  by (simp add: TaskPathStr_def ParseTaskPath_def join_split)

end
