(* ===== verification/Retry.thy ===== *)
theory Retry
  imports StateGraph
begin

text \<open>
  Retries: the backoff of \<^verbatim>\<open>types/types.go\<close>, the \<^verbatim>\<open>RetryExecutor\<close> of \<^verbatim>\<open>pregel/retry.go\<close> and the executor
  with several policies of \<^verbatim>\<open>pregel/retry_multi.go\<close>.

  The function that is retried is a sequence of calls: \<open>fn k\<close> is what the k-th call returns (an output
  and an error, as in Go, or a panic). \<open>done k\<close> says whether the context is cancelled while the
  executor waits after call \<open>k\<close>. The executors return their result with the number of calls made, so
  that theorems can bound it.
\<close>

section \<open>Backoff (types.go)\<close>

definition f64_is_neg :: "f64 \<Rightarrow> bool" where
  "f64_is_neg x = (case x of F64 r \<Rightarrow> r < 0 | F64_NegInf \<Rightarrow> True | _ \<Rightarrow> False)"

definition f64_mul :: "f64 \<Rightarrow> f64 \<Rightarrow> f64" where
  "f64_mul x y =
     (case (x, y) of
        (F64_NaN, _) \<Rightarrow> F64_NaN
      | (_, F64_NaN) \<Rightarrow> F64_NaN
      | (F64 a, F64 b) \<Rightarrow> f64_round (a * b)
      | _ \<Rightarrow>
          if x = F64 0 \<or> y = F64 0 then F64_NaN
          else if f64_is_neg x = f64_is_neg y then F64_PosInf else F64_NegInf)"

text \<open>
  \<^verbatim>\<open>time.Duration(f)\<close>: truncation to an int64. Go leaves the result for values outside the range to
  the implementation, so it is the argument \<open>ovf\<close>.
\<close>

definition to_duration :: "(f64 \<Rightarrow> int) \<Rightarrow> f64 \<Rightarrow> int" where
  "to_duration ovf x =
     (case x of
        F64 r \<Rightarrow>
          let n = (if 0 \<le> r then \<lfloor>r\<rfloor> else \<lceil>r\<rceil>)
          in if - (2 ^ 63) \<le> n \<and> n < 2 ^ 63 then n else ovf x
      | _ \<Rightarrow> ovf x)"

fun powFloat_loop :: "f64 \<Rightarrow> nat \<Rightarrow> f64 \<Rightarrow> f64" where
  "powFloat_loop base 0 result = result"
| "powFloat_loop base (Suc n) result = powFloat_loop base n (f64_mul result base)"

definition powFloat :: "f64 \<Rightarrow> int \<Rightarrow> f64" where
  "powFloat base e = powFloat_loop base (nat e) (F64 1)"

text \<open>The product whose integer part is the uncapped interval.\<close>

definition raw_backoff :: "RetryPolicy \<Rightarrow> int \<Rightarrow> f64" where
  "raw_backoff p attempt =
     f64_mul (f64_round (of_int (InitialInterval p))) (powFloat (BackoffFactor p) (attempt - 1))"

definition CalculateBackoff :: "(f64 \<Rightarrow> int) \<Rightarrow> f64 \<Rightarrow> RetryPolicy \<Rightarrow> int \<Rightarrow> int" where
  "CalculateBackoff ovf rnd p attempt =
     (let backoff = min (to_duration ovf (raw_backoff p attempt)) (MaxInterval p)
      in if Jitter p then
           let jitter = to_duration ovf
                 (f64_mul (f64_mul (f64_round (of_int backoff)) (F64 (1 / 2))) rnd)
           in max (backoff - jitter) 0
         else backoff)"

definition DefaultRetryOn :: "gerror \<Rightarrow> bool" where
  "DefaultRetryOn err = True"

definition DefaultRetryPolicy :: RetryPolicy where
  "DefaultRetryPolicy =
     \<lparr>InitialInterval = 500000000, BackoffFactor = F64 2, MaxInterval = 128000000000, MaxAttempts = 3,
      Jitter = True, RetryOn = Some DefaultRetryOn\<rparr>"

subsection \<open>The interval stays within its bounds\<close>

lemma round_half_even_bounds:
  assumes "0 \<le> x"
  shows "0 \<le> round_half_even x" "of_int (round_half_even x) \<le> 2 * x"
proof -
  have f: "of_int \<lfloor>x\<rfloor> \<le> x" "x < of_int \<lfloor>x\<rfloor> + 1" "0 \<le> \<lfloor>x\<rfloor>"
    using assms floor_correct [of x] by simp_all
  then have f0: "(0 :: rat) \<le> of_int \<lfloor>x\<rfloor>" by simp
  show "0 \<le> round_half_even x"
    using f(3) by (simp add: round_half_even_def Let_def)
  show "of_int (round_half_even x) \<le> 2 * x"
  proof -
    have "round_half_even x = \<lfloor>x\<rfloor> \<or> round_half_even x = \<lfloor>x\<rfloor> + 1 \<and> 1 / 2 \<le> x - of_int \<lfloor>x\<rfloor>"
      unfolding round_half_even_def Let_def by (simp only: not_less split: if_split) linarith
    then have "of_int (round_half_even x) = (of_int \<lfloor>x\<rfloor> :: rat) \<or>
        of_int (round_half_even x) = (of_int \<lfloor>x\<rfloor> + 1 :: rat) \<and> 1 / 2 \<le> x - of_int \<lfloor>x\<rfloor>"
      by auto
    then show ?thesis
      using f(1) f0 by linarith
  qed
qed

text \<open>Rounding a non-negative number keeps it non-negative and at most doubles it.\<close>

lemma f64_round_upto:
  assumes "0 \<le> x" and "x < 2 ^ 60"
  shows "\<exists>r. f64_round x = F64 r \<and> 0 \<le> r \<and> r \<le> 2 * x"
proof (cases "x = 0")
  case True
  then show ?thesis by (simp add: f64_round_def)
next
  case False
  define e where "e = max (- 1074) (ilog2 \<bar>x\<bar> - 52)"
  define y where "y = x / pow2 e"
  have y: "0 \<le> y" "y * pow2 e = x"
    using assms(1) pow2_pos [of e] by (simp_all add: y_def zero_le_divide_iff less_imp_le)
  define r where "r = of_int (round_half_even y) * pow2 e"
  have "0 \<le> r"
    using round_half_even_bounds(1) [OF y(1)] pow2_pos [of e] by (simp add: r_def less_imp_le)
  moreover have "r \<le> 2 * y * pow2 e"
    using round_half_even_bounds(2) [OF y(1)] pow2_pos [of e] unfolding r_def
    by (intro mult_right_mono) (simp_all add: less_imp_le)
  then have "r \<le> 2 * x"
    using y(2) by (simp add: mult.assoc)
  moreover have "(2 :: rat) * 2 ^ 60 \<le> f64_max"
    by (simp add: f64_max_def)
  then have "\<not> f64_max < r" "\<not> r < - f64_max"
    using calculation assms by linarith+
  then have "f64_round x = F64 r"
    using False by (simp add: f64_round_def Let_def flip: e_def y_def r_def)
  ultimately show ?thesis by blast
qed

lemma to_duration_nonneg: "0 \<le> r \<Longrightarrow> r < 2 ^ 63 \<Longrightarrow> 0 \<le> to_duration ovf (F64 r)"
  by (simp add: to_duration_def Let_def floor_less_iff)

text \<open>C40: for a non-negative product below \<open>2 ^ 63\<close> nanoseconds and a non-negative cap, the backoff is
  never negative and never above the cap; without jitter it is the integer part of the product,
  capped.\<close>

theorem CalculateBackoff_bounds:
  assumes "raw_backoff p attempt = F64 r" and "0 \<le> r" and "r < 2 ^ 63" and "0 \<le> MaxInterval p"
    and "MaxInterval p < 2 ^ 53" and "0 \<le> rnd" and "rnd < 1"
  shows "0 \<le> CalculateBackoff ovf (F64 rnd) p attempt \<and>
    CalculateBackoff ovf (F64 rnd) p attempt \<le> MaxInterval p \<and>
    (\<not> Jitter p \<longrightarrow> CalculateBackoff ovf (F64 rnd) p attempt = min \<lfloor>r\<rfloor> (MaxInterval p))"
proof -
  define b where "b = min (to_duration ovf (raw_backoff p attempt)) (MaxInterval p)"
  have b: "0 \<le> b" "b \<le> MaxInterval p"
    using to_duration_nonneg [OF assms(2,3)] assms(1,4) by (simp_all add: b_def)
  have dur: "to_duration ovf (F64 r) = \<lfloor>r\<rfloor>"
  proof -
    have "\<lfloor>r\<rfloor> < 2 ^ 63" "0 \<le> \<lfloor>r\<rfloor>"
      using assms(2,3) by (simp_all add: floor_less_iff)
    then show ?thesis using assms(2) by (simp add: to_duration_def Let_def)
  qed
  have "0 \<le> to_duration ovf (f64_mul (f64_mul (f64_round (of_int b)) (F64 (1 / 2))) (F64 rnd))"
  proof -
    have "of_int b < (of_int (2 ^ 53) :: rat)"
      using b assms(5) by (simp only: of_int_less_iff)
    then have b53: "of_int b < (2 ^ 53 :: rat)" "(0 :: rat) \<le> of_int b"
      using b by simp_all
    have "f64_round (of_int b) = F64 (of_int b)"
      using b assms(5) by (intro f64_round_exact) simp
    moreover obtain r1 where r1: "f64_round (of_int b / 2) = F64 r1" "0 \<le> r1" "r1 \<le> of_int b"
      using f64_round_upto [of "of_int b / 2"] b53 by auto
    moreover have "r1 * rnd \<le> r1 * 1"
      using r1(2) assms(7) by (intro mult_left_mono) simp_all
    then obtain r2 where "f64_round (r1 * rnd) = F64 r2" "0 \<le> r2" "r2 < 2 ^ 63"
      using f64_round_upto [of "r1 * rnd"] r1 assms(6) b53 by fastforce
    ultimately show ?thesis
      by (simp add: f64_mul_def to_duration_nonneg)
  qed
  then show ?thesis
    using b dur assms(1) by (auto simp: CalculateBackoff_def Let_def b_def [symmetric] b_def)
qed

theorem CalculateBackoff_bounds_witness:
  "CalculateBackoff (\<lambda>_. - (2 ^ 63)) (F64 0) (DefaultRetryPolicy\<lparr>Jitter := False\<rparr>) 2 = 1000000000"
proof -
  have "raw_backoff (DefaultRetryPolicy\<lparr>Jitter := False\<rparr>) 2 = F64 1000000000"
  proof -
    have "f64_round (of_int 500000000) = F64 (of_int 500000000)" "f64_round (of_int 2) = F64 (of_int 2)"
      "f64_round (of_int 1000000000) = F64 (of_int 1000000000)"
      by (rule f64_round_exact, simp)+
    then show ?thesis
      by (simp add: raw_backoff_def DefaultRetryPolicy_def powFloat_def f64_mul_def)
  qed
  from CalculateBackoff_bounds [OF this, of 0 "\<lambda>_. - (2 ^ 63)"] show ?thesis
    by (simp add: DefaultRetryPolicy_def)
qed

text \<open>With the default policy the uncapped interval of the 36th attempt no longer fits an int64;
  where the conversion of such a value gives the smallest int64, as on amd64, the executor then does
  not wait at all, although the cap is 128 seconds.\<close>

theorem default_backoff_overflows:
  "CalculateBackoff (\<lambda>_. - (2 ^ 63)) (F64 0) DefaultRetryPolicy 36 = 0"
proof -
  have r: "f64_round (2 ^ n) = F64 (2 ^ n)" if "n \<le> 40" for n :: nat
  proof -
    have "(2 :: int) ^ n \<le> 2 ^ 40"
      using that by (intro power_increasing) simp_all
    then have "f64_round (of_int (2 ^ n)) = F64 (of_int (2 ^ n))"
      by (intro f64_round_exact) simp
    then show ?thesis by simp
  qed
  have pow: "powFloat_loop (F64 2) n (F64 (2 ^ k)) = F64 (2 ^ (k + n))" if "k + n \<le> 40" for n k
    using that
  proof (induction n arbitrary: k)
    case (Suc n)
    then show ?case
      using r [of "Suc k"] Suc.IH [of "Suc k"] by (simp add: f64_mul_def mult.commute)
  qed simp
  have "powFloat (F64 2) 35 = F64 (2 ^ 35)"
    using pow [of 0 35] by (simp add: powFloat_def)
  moreover have "f64_round (500000000 :: rat) = F64 500000000"
    using f64_round_exact [of 500000000] by simp
  moreover have "f64_round (500000000 * 2 ^ 35 :: rat) = F64 (500000000 * 2 ^ 35)"
  proof -
    have "floorlog 2 17179869184000000000 = 64" "floorlog 2 (Suc 0) = 1"
      by (simp_all add: compute_floorlog)
    then have "ilog2 17179869184000000000 = 63"
      by (simp add: ilog2_def pow2_def)
    then show ?thesis
      by (simp add: f64_round_def Let_def pow2_def f64_max_def round_half_even_def)
  qed
  ultimately have "raw_backoff DefaultRetryPolicy 36 = F64 (500000000 * 2 ^ 35)"
    by (simp add: raw_backoff_def DefaultRetryPolicy_def f64_mul_def)
  then have dur: "to_duration (\<lambda>_. - (2 ^ 63)) (raw_backoff DefaultRetryPolicy 36) = - (2 ^ 63)"
    by (simp add: to_duration_def Let_def)
  define x where "x = f64_round (of_int (- (2 ^ 63)))"
  have "f64_mul (f64_mul x (F64 (1 / 2))) (F64 0) = F64 0 \<or>
      f64_mul (f64_mul x (F64 (1 / 2))) (F64 0) = F64_NaN"
    by (auto simp: f64_mul_def f64_round_def split: f64.split)
  then have "to_duration (\<lambda>_. - (2 ^ 63)) (f64_mul (f64_mul x (F64 (1 / 2))) (F64 0)) = 0 \<or>
      to_duration (\<lambda>_. - (2 ^ 63)) (f64_mul (f64_mul x (F64 (1 / 2))) (F64 0)) = - (2 ^ 63)"
    by (elim disjE) (simp_all add: to_duration_def)
  moreover have "MaxInterval DefaultRetryPolicy = 128000000000" "Jitter DefaultRetryPolicy"
    by (simp_all add: DefaultRetryPolicy_def)
  then have "CalculateBackoff (\<lambda>_. - (2 ^ 63)) (F64 0) DefaultRetryPolicy 36 =
      max (- (2 ^ 63) - to_duration (\<lambda>_. - (2 ^ 63)) (f64_mul (f64_mul x (F64 (1 / 2))) (F64 0))) 0"
    unfolding CalculateBackoff_def Let_def dur x_def by simp
  ultimately show ?thesis
    by (elim disjE) simp_all
qed

section \<open>RetryExecutor (retry.go)\<close>

record RetryExecutor =
  policy :: RetryPolicy

definition NewRetryExecutor :: "RetryPolicy option \<Rightarrow> RetryExecutor" where
  "NewRetryExecutor p = \<lparr>policy = (case p of None \<Rightarrow> DefaultRetryPolicy | Some q \<Rightarrow> q)\<rparr>"

definition refused_by :: "RetryPolicy \<Rightarrow> gerror \<Rightarrow> bool" where
  "refused_by p err = (case RetryOn p of None \<Rightarrow> False | Some f \<Rightarrow> \<not> f err)"

text \<open>The loop of \<^verbatim>\<open>Execute\<close> from call \<open>k\<close> on; a panic of the function is recovered into an error.\<close>

function retry_loop ::
  "RetryPolicy \<Rightarrow> string \<Rightarrow> (nat \<Rightarrow> call) \<Rightarrow> (nat \<Rightarrow> bool) \<Rightarrow> nat \<Rightarrow> int \<Rightarrow> gerror option \<Rightarrow> goval
     \<Rightarrow> nat \<times> (gerror + goval)" where
  "retry_loop p name fn done k attempt lastErr lastOutput =
     (if attempt > MaxAttempts p then
        (k, Inl (RetryExhaustedError name (MaxAttempts p) lastErr lastOutput))
      else (case fn k of
              CPanic r \<Rightarrow> (Suc k, Inl (PlainError ''node panicked'' [name, r]))
            | CRet output None \<Rightarrow> (Suc k, Inr output)
            | CRet output (Some err) \<Rightarrow>
                if IsGraphInterrupt (Some err) then (Suc k, Inl err)
                else if refused_by p err then
                  (Suc k, Inl (WrapError ''node failed with non-retryable error'' [name] err))
                else if attempt \<ge> MaxAttempts p then
                  (Suc k, Inl (RetryExhaustedError name (MaxAttempts p) (Some err) output))
                else if done k then
                  (Suc k, Inl (WrapError ''node cancelled during retry'' [name] CancelledError))
                else retry_loop p name fn done (Suc k) (attempt + 1) (Some err) output))"
  by pat_completeness auto
termination
  by (relation "measure (\<lambda>(p, name, fn, done, k, attempt, e, out). nat (MaxAttempts p + 1 - attempt))") auto

declare retry_loop.simps [simp del]

definition RetryExecutor_Execute ::
  "RetryExecutor \<Rightarrow> string \<Rightarrow> (nat \<Rightarrow> call) \<Rightarrow> (nat \<Rightarrow> bool) \<Rightarrow> nat \<Rightarrow> nat \<times> (gerror + goval)" where
  "RetryExecutor_Execute e name fn done k = retry_loop (policy e) name fn done k 1 None GNil"

text \<open>A call after which the executor tries again, if attempts are left.\<close>

definition retryable :: "RetryPolicy \<Rightarrow> call \<Rightarrow> bool" where
  "retryable p c =
     (case c of CRet out (Some err) \<Rightarrow> \<not> IsGraphInterrupt (Some err) \<and> \<not> refused_by p err | _ \<Rightarrow> False)"


definition exhausted_result :: "RetryPolicy \<Rightarrow> string \<Rightarrow> call \<Rightarrow> gerror + goval" where
  "exhausted_result p name c =
     (case c of
        CRet output err \<Rightarrow> Inl (RetryExhaustedError name (MaxAttempts p) err output)
      | CPanic r \<Rightarrow> Inl (PlainError ''node panicked'' [name, r]))"


lemma retry_loop_again:
  "attempt < MaxAttempts p \<Longrightarrow> retryable p (fn k) \<Longrightarrow> \<not> done k \<Longrightarrow>
   \<exists>e' out'. retry_loop p name fn done k attempt e out = retry_loop p name fn done (Suc k) (attempt + 1) e' out'"
  by (subst retry_loop.simps) (auto simp: retryable_def split: call.splits option.splits)

lemma retry_loop_last:
  "attempt = MaxAttempts p \<Longrightarrow> retryable p (fn k) \<Longrightarrow>
   retry_loop p name fn done k attempt e out = (Suc k, exhausted_result p name (fn k))"
  by (subst retry_loop.simps) (auto simp: retryable_def exhausted_result_def split: call.splits option.splits)

lemma retry_loop_steps:
  "attempt + int i \<le> MaxAttempts p \<Longrightarrow> \<forall>j < i. retryable p (fn (k + j)) \<and> \<not> done (k + j) \<Longrightarrow>
   \<exists>e' out'. retry_loop p name fn done k attempt e out =
     retry_loop p name fn done (k + i) (attempt + int i) e' out'"
proof (induction i arbitrary: k attempt e out)
  case (Suc i)
  obtain e1 out1 where "retry_loop p name fn done k attempt e out =
      retry_loop p name fn done (Suc k) (attempt + 1) e1 out1"
    using retry_loop_again [of attempt p fn k "done" name e out] Suc.prems by force
  moreover have "\<forall>j < i. retryable p (fn (Suc k + j)) \<and> \<not> done (Suc k + j)"
    using Suc.prems(2) by (metis Suc_less_eq add_Suc_shift)
  ultimately show ?case
    using Suc.IH [of "attempt + 1" "Suc k" e1 out1] Suc.prems(1) by (simp add: add.assoc)
qed auto



section \<open>Several policies (retry\_multi.go)\<close>

record MultiPolicyRetryExecutor =
  policies :: "RetryPolicy list"

definition findMatchingPolicy :: "MultiPolicyRetryExecutor \<Rightarrow> gerror \<Rightarrow> RetryPolicy option" where
  "findMatchingPolicy e err = List.find (\<lambda>p. \<not> refused_by p err) (policies e)"

text \<open>
  The loop of \<^verbatim>\<open>Execute\<close>. A panic of the function leaves this executor, except inside the delegated
  \<^verbatim>\<open>RetryExecutor\<close>, which recovers it.
\<close>

function multi_loop ::
  "MultiPolicyRetryExecutor \<Rightarrow> string \<Rightarrow> (nat \<Rightarrow> call) \<Rightarrow> (nat \<Rightarrow> bool) \<Rightarrow> nat \<Rightarrow> int
     \<Rightarrow> nat \<times> (gerror + goval)" where
  "multi_loop e name fn done k attempt =
     (case fn k of
        CPanic r \<Rightarrow> (Suc k, Inl (PanicError r))
      | CRet output None \<Rightarrow> (Suc k, Inr output)
      | CRet output (Some err) \<Rightarrow>
          (case findMatchingPolicy e err of
             None \<Rightarrow> (Suc k, Inl (WrapError ''node failed with non-retryable error'' [name] err))
           | Some p \<Rightarrow>
               if attempt + 1 \<ge> MaxAttempts p then
                 (Suc k, Inl (RetryExhaustedError name (attempt + 1) (Some err) output))
               else let remaining = MaxAttempts p - (attempt + 1);
                        ex = NewRetryExecutor (Some (p\<lparr>MaxAttempts := remaining + 1\<rparr>));
                        (k', res) = RetryExecutor_Execute ex name fn done (Suc k)
                    in (case res of
                          Inr out \<Rightarrow> (k', Inr out)
                        | Inl _ \<Rightarrow> multi_loop e name fn done k' (attempt + 1 + remaining))))"
  by pat_completeness auto

text \<open>Every round raises \<^verbatim>\<open>attempt\<close>, and a round only follows another below the largest \<^verbatim>\<open>MaxAttempts\<close>.\<close>

lemma findMatchingPolicy_mem: "findMatchingPolicy e err = Some p \<Longrightarrow> p \<in> set (policies e)"
  by (auto simp: findMatchingPolicy_def find_Some_iff)

definition max_attempts :: "MultiPolicyRetryExecutor \<Rightarrow> int" where
  "max_attempts e = Max (insert 0 (MaxAttempts ` set (policies e)))"

lemma max_attempts_ge: "p \<in> set (policies e) \<Longrightarrow> MaxAttempts p \<le> max_attempts e"
  by (simp add: max_attempts_def)

termination multi_loop
proof (relation "measure (\<lambda>(e, name, fn, done, k, attempt). nat (max_attempts e - attempt))", simp)
  fix e name fn k attempt outp y err p remaining ex x k' res u
  fix "done" :: "nat \<Rightarrow> bool"
  assume "findMatchingPolicy e err = Some p" and "\<not> MaxAttempts p \<le> attempt + 1"
    and "remaining = MaxAttempts p - (attempt + 1)"
  then show "((e, name, fn, done, k', attempt + 1 + remaining), e, name, fn, done, k, attempt)
      \<in> measure (\<lambda>(e, name, fn, done, k, attempt). nat (max_attempts e - attempt))"
    using max_attempts_ge [OF findMatchingPolicy_mem] by force
qed

declare multi_loop.simps [simp del]

definition MultiPolicy_Execute ::
  "MultiPolicyRetryExecutor \<Rightarrow> string \<Rightarrow> (nat \<Rightarrow> call) \<Rightarrow> (nat \<Rightarrow> bool) \<Rightarrow> nat \<times> (gerror + goval)" where
  "MultiPolicy_Execute e name fn done =
     (if policies e = [] then
        (1, case fn 0 of
              CPanic r \<Rightarrow> Inl (PanicError r) | CRet out None \<Rightarrow> Inr out | CRet out (Some err) \<Rightarrow> Inl err)
      else multi_loop e name fn done 0 0)"

text \<open>With one policy of \<open>MaxAttempts\<close> \<open>m\<close> (at least 2) and a function that keeps failing retryably,
  the multi-policy executor calls the function \<open>m + 2\<close> times and reports \<open>m + 1\<close> attempts, although
  the policy allows \<open>m\<close> including the first.\<close>

theorem MultiPolicy_extra_calls:
  assumes "2 \<le> MaxAttempts p" and "\<forall>k. fn k = CRet out (Some err)"
    and "\<not> refused_by p err" and "\<not> IsGraphInterrupt (Some err)" and "\<forall>k. \<not> done k"
  shows "MultiPolicy_Execute \<lparr>policies = [p]\<rparr> name fn done =
    (nat (MaxAttempts p) + 2, Inl (RetryExhaustedError name (MaxAttempts p + 1) (Some err) out))"
proof -
  let ?e = "\<lparr>policies = [p]\<rparr>" and ?m = "MaxAttempts p"
  have match: "findMatchingPolicy ?e err = Some p"
    using assms(3) by (simp add: findMatchingPolicy_def)
  have q: "refused_by (p\<lparr>MaxAttempts := ?m\<rparr>) err = refused_by p err"
    by (simp add: refused_by_def)
  have retry: "retryable (p\<lparr>MaxAttempts := ?m\<rparr>) (fn k)" for k
    using assms(2-4) q by (simp add: retryable_def)
  have "\<exists>e' out'. retry_loop (p\<lparr>MaxAttempts := ?m\<rparr>) name fn done 1 1 None GNil =
      retry_loop (p\<lparr>MaxAttempts := ?m\<rparr>) name fn done (1 + nat (?m - 1)) (1 + int (nat (?m - 1))) e' out'"
    using assms(1,5) retry by (intro retry_loop_steps) simp_all
  moreover have "retry_loop (p\<lparr>MaxAttempts := ?m\<rparr>) name fn done (nat ?m) ?m e' out' =
      (Suc (nat ?m), exhausted_result (p\<lparr>MaxAttempts := ?m\<rparr>) name (fn (nat ?m)))" for e' out'
    using retry by (intro retry_loop_last) simp_all
  moreover have "1 + nat (?m - 1) = nat ?m"
    using assms(1) by linarith
  ultimately have inner: "RetryExecutor_Execute (NewRetryExecutor (Some (p\<lparr>MaxAttempts := ?m\<rparr>))) name fn done 1 =
      (Suc (nat ?m), Inl (RetryExhaustedError name ?m (Some err) out))"
    using assms(1,2) by (auto simp: RetryExecutor_Execute_def NewRetryExecutor_def exhausted_result_def)
  have "multi_loop ?e name fn done (Suc (nat ?m)) ?m =
      (Suc (Suc (nat ?m)), Inl (RetryExhaustedError name (?m + 1) (Some err) out))"
    using assms(2) match by (subst multi_loop.simps) simp
  then have "multi_loop ?e name fn done 0 0 =
      (Suc (Suc (nat ?m)), Inl (RetryExhaustedError name (?m + 1) (Some err) out))"
    using assms(1,2) match inner by (subst multi_loop.simps) simp
  then show ?thesis
    by (simp add: MultiPolicy_Execute_def)
qed

theorem MultiPolicy_extra_calls_witness:
  "MultiPolicy_Execute \<lparr>policies = [DefaultRetryPolicy]\<rparr> ''n'' (\<lambda>_. CRet GNil (Some CancelledError)) (\<lambda>_. False)
   = (5, Inl (RetryExhaustedError ''n'' 4 (Some CancelledError) GNil))"
  using MultiPolicy_extra_calls [of DefaultRetryPolicy "\<lambda>_. CRet GNil (Some CancelledError)" GNil CancelledError
      "\<lambda>_. False" "''n''"]
  by (simp add: DefaultRetryPolicy_def refused_by_def DefaultRetryOn_def)

end
