(* ===== verification/Routing.thy ===== *)
theory Routing
  imports Checkpoint StateMaps Retry
begin

text \<open>
  The state of the Pregel engine (\<^verbatim>\<open>pregel/engine.go\<close>, \<^verbatim>\<open>Engine\<close>) with its options, and how it decides
  which nodes run next: the outgoing edges of the last completed node, the DAG mode in which a node
  waits for all its predecessors, and the checks for interrupts.

  The order in which the runtime walks through a Go map is the argument \<open>ord\<close>, a function that
  permutes the keys; \<open>fx\<close> prints values of user types; \<open>uid\<close> numbers the draws of \<^verbatim>\<open>uuid.New\<close>. The
  events, callbacks, cache and background executor of the engine are not part of its state here.
\<close>

section \<open>The engine and its options\<close>

record deferredCheckpoint =
  dc_ThreadID :: string
  dc_CheckpointID :: string
  dc_Step :: int
  dc_Checkpoint :: gostate

record 's Engine =
  graph :: stateGraph
  checkpointer :: "'s option"
  interrupts :: "bool gomap"
  interruptsAfter :: "bool gomap"
  recursionLimit :: int
  debug :: bool
  config :: RunnableConfig
  maxConcurrency :: int
  retryPolicy :: "RetryPolicy option"
  currentCheckpoint :: "Checkpoint option"
  channelVersions :: "int gomap"
  versionsSeen :: "int gomap gomap"
  deferredCheckpoints :: "deferredCheckpoint list"

type_synonym 's EngineOption = "'s Engine \<Rightarrow> 's Engine"

definition NewEngine :: "stateGraph \<Rightarrow> 's EngineOption list \<Rightarrow> 's Engine" where
  "NewEngine g opts =
     fold (\<lambda>opt e. opt e) opts
       \<lparr>graph = g, checkpointer = None, interrupts = [], interruptsAfter = [], recursionLimit = 25,
        debug = False, config = NewRunnableConfig, maxConcurrency = 10, retryPolicy = None,
        currentCheckpoint = None, channelVersions = [], versionsSeen = [], deferredCheckpoints = []\<rparr>"

definition Engine_WithCheckpointer :: "'s \<Rightarrow> 's EngineOption" where
  "Engine_WithCheckpointer cp e = e\<lparr>checkpointer := Some cp\<rparr>"

definition Engine_WithInterrupts :: "string list \<Rightarrow> 's EngineOption" where
  "Engine_WithInterrupts ns e = e\<lparr>interrupts := fold (\<lambda>n m. gm_set n True m) ns (interrupts e)\<rparr>"

definition Engine_WithInterruptsAfter :: "string list \<Rightarrow> 's EngineOption" where
  "Engine_WithInterruptsAfter ns e =
     e\<lparr>interruptsAfter := fold (\<lambda>n m. gm_set n True m) ns (interruptsAfter e)\<rparr>"

definition Engine_WithRecursionLimit :: "int \<Rightarrow> 's EngineOption" where
  "Engine_WithRecursionLimit n e = e\<lparr>recursionLimit := n\<rparr>"

definition Engine_WithDebug :: "bool \<Rightarrow> 's EngineOption" where
  "Engine_WithDebug b e = e\<lparr>debug := b\<rparr>"

definition Engine_WithConfig :: "RunnableConfig \<Rightarrow> 's EngineOption" where
  "Engine_WithConfig c e = e\<lparr>config := c\<rparr>"

definition Engine_WithMaxConcurrency :: "int \<Rightarrow> 's EngineOption" where
  "Engine_WithMaxConcurrency n e = (if n > 0 then e\<lparr>maxConcurrency := n\<rparr> else e)"

definition Engine_WithRetryPolicy :: "RetryPolicy option \<Rightarrow> 's EngineOption" where
  "Engine_WithRetryPolicy p e = e\<lparr>retryPolicy := p\<rparr>"

section \<open>Tasks\<close>

record Task =
  task_ID :: string
  task_Name :: string
  task_Func :: "NodeFunc option"
  task_Channels :: "string list"
  task_Path :: "string list"
  task_Triggers :: "string list"
  task_RetryPolicy :: "RetryPolicy option"

record TaskResult =
  res_Name :: string
  res_Output :: goval
  res_Err :: "gerror option"

definition getEntryPoint :: "'s Engine \<Rightarrow> string" where
  "getEntryPoint e = entryPoint (graph e)"

definition getNode :: "'s Engine \<Rightarrow> string \<Rightarrow> Node option" where
  "getNode e name = map_of (nodes (graph e)) name"

definition getTriggers :: "Node option \<Rightarrow> string list" where
  "getTriggers n = (case n of None \<Rightarrow> [] | Some n \<Rightarrow> Triggers n)"

definition resolveRetryPolicy :: "'s Engine \<Rightarrow> Task \<Rightarrow> RetryPolicy" where
  "resolveRetryPolicy e t =
     (case task_RetryPolicy t of
        Some p \<Rightarrow> p
      | None \<Rightarrow> (case retryPolicy e of Some p \<Rightarrow> p | None \<Rightarrow> DefaultRetryPolicy))"

definition createTask :: "string \<Rightarrow> Node \<Rightarrow> string list \<Rightarrow> string list \<Rightarrow> Task" where
  "createTask uid n chans triggers =
     \<lparr>task_ID = uid, task_Name = Name n, task_Func = Some (Function n), task_Channels = chans,
      task_Path = [], task_Triggers = remdups triggers, task_RetryPolicy = node_RetryPolicy n\<rparr>"

definition createTaskInfo :: "string \<Rightarrow> Node \<Rightarrow> string list \<Rightarrow> string list \<Rightarrow> Task" where
  "createTaskInfo uid n chans triggers =
     \<lparr>task_ID = uid, task_Name = Name n, task_Func = None, task_Channels = chans,
      task_Path = [], task_Triggers = remdups triggers, task_RetryPolicy = node_RetryPolicy n\<rparr>"

section \<open>The successors of a node (getNextNodes)\<close>

text \<open>
  The first part, over the conditional edges: the matched targets so far, or \<^const>\<open>None\<close> for the early
  return at the end node, in which case the targets so far are the result.
\<close>

fun cond_targets ::
  "(goval \<Rightarrow> string) \<Rightarrow> string \<Rightarrow> goval \<Rightarrow> ConditionalEdge list \<Rightarrow> string list \<Rightarrow> bool \<Rightarrow> string list \<times> bool \<times> bool" where
  "cond_targets fx node state [] acc has = (acc, has, False)"
| "cond_targets fx node state (ce # ces) acc has =
     (if ce_From ce \<noteq> node then cond_targets fx node state ces acc has
      else (case map_of (ce_Mapping ce) (go_sprint fx (fst (ce_Condition ce state))) of
              None \<Rightarrow> cond_targets fx node state ces acc True
            | Some t \<Rightarrow>
                if t = End_node then (acc, True, True)
                else cond_targets fx node state ces (List.insert t acc) True))"

fun edge_targets :: "string \<Rightarrow> Edge list \<Rightarrow> string list \<Rightarrow> string list \<times> bool" where
  "edge_targets node [] acc = (acc, False)"
| "edge_targets node (e # es) acc =
     (if e_From e = node then
        (if e_To e = End_node then (acc, True) else edge_targets node es (List.insert (e_To e) acc))
      else edge_targets node es acc)"

text \<open>The fallback to a \<^verbatim>\<open>_next\<close> value in the state.\<close>

definition next_fallback :: "stateGraph \<Rightarrow> goval \<Rightarrow> string list" where
  "next_fallback g state =
     (case as_map state of
        None \<Rightarrow> []
      | Some st \<Rightarrow>
          (case map_of st ''_next'' of
             Some (GStr tv) \<Rightarrow> if has_node g tv then [tv] else []
           | Some (GList (GStr s # _)) \<Rightarrow> if has_node g s then [s] else []
           | _ \<Rightarrow> []))"

fun branch_targets :: "string \<Rightarrow> goval \<Rightarrow> Branch list \<Rightarrow> string list \<Rightarrow> string list" where
  "branch_targets node state [] acc = acc"
| "branch_targets node state (b # bs) acc =
     (if br_From b = node \<and> snd (br_Condition b state) = None then
        branch_targets node state bs
          (fold (\<lambda>t acc. if t = End_node then acc else List.insert t acc) (br_Then b (fst (br_Condition b state))) acc)
      else branch_targets node state bs acc)"

definition getNextNodes :: "(goval \<Rightarrow> string) \<Rightarrow> 's Engine \<Rightarrow> string \<Rightarrow> goval \<Rightarrow> string list" where
  "getNextNodes fx e node state =
     (let g = graph e;
          (acc1, has, stop1) = cond_targets fx node state (conditionalEdges g) [] False
      in if stop1 then acc1
         else let (acc2, stop2) = (if \<not> has \<and> acc1 = [] then edge_targets node (edges g) acc1 else (acc1, False))
              in if stop2 then acc2
                 else let acc3 = (if acc2 = [] then next_fallback g state else acc2)
                      in branch_targets node state (branches g) acc3)"

section \<open>The tasks of the next step\<close>

definition buildIncomingEdges :: "'s Engine \<Rightarrow> string list gomap" where
  "buildIncomingEdges e = fold (\<lambda>edge adj. gm_app (e_To edge) (e_From edge) adj) (edges (graph e)) []"

definition preds_done :: "string list gomap \<Rightarrow> bool gomap \<Rightarrow> string \<Rightarrow> bool" where
  "preds_done incoming completed n =
     list_all (\<lambda>p. p = Start_node \<or> p = End_node \<or> gm_true completed p)
       (case map_of incoming n of None \<Rightarrow> [] | Some ps \<Rightarrow> ps)"

text \<open>The channels a task reads: its node's triggers, all channels where it has none.\<close>

definition task_for :: "bool \<Rightarrow> string \<Rightarrow> Node \<Rightarrow> string list \<Rightarrow> Task" where
  "task_for forExecution uid n triggers =
     (if forExecution then createTask uid n triggers [] else createTaskInfo uid n triggers [])"

definition dag_ready :: "'s Engine \<Rightarrow> bool gomap \<Rightarrow> string \<Rightarrow> bool" where
  "dag_ready e completed n = (\<not> gm_true completed n \<and> preds_done (buildIncomingEdges e) completed n)"

definition prepareNextTasksDAG ::
  "(string list \<Rightarrow> string list) \<Rightarrow> (nat \<Rightarrow> string) \<Rightarrow> 's Engine \<Rightarrow> bool gomap \<Rightarrow> bool \<Rightarrow> Task list \<times> string list" where
  "prepareNextTasksDAG ord uid e completed forExecution =
     (let names = filter (dag_ready e completed) (map Name (List.map_filter (getNode e) (ord (gm_keys (nodes (graph e))))));
          triggers = (\<lambda>n. if getTriggers (Some n) = [] then ord (gm_keys (channels (graph e))) else getTriggers (Some n));
          ns = List.map_filter (getNode e) names
      in (map (\<lambda>(i, n). task_for forExecution (uid i) n (triggers n)) (enumerate 0 ns),
          remdups (concat (map triggers ns))))"

definition prepareNextTasksWithMode ::
  "(goval \<Rightarrow> string) \<Rightarrow> (string list \<Rightarrow> string list) \<Rightarrow> (nat \<Rightarrow> string) \<Rightarrow> 's Engine \<Rightarrow> Registry \<Rightarrow> bool gomap
     \<Rightarrow> string \<Rightarrow> goval \<Rightarrow> bool \<Rightarrow> gerror + Task list \<times> string list" where
  "prepareNextTasksWithMode fx ord uid e reg completed lastCompletedNode state forExecution =
     (let triggers = (\<lambda>n. if getTriggers (Some n) = [] then ord (Registry_Names reg) else getTriggers (Some n))
      in if completed = [] then
           (if getEntryPoint e = [] then Inl (PlainError ''no entry point set'' [])
            else if getEntryPoint e = End_node then Inr ([], [])
            else (case getNode e (getEntryPoint e) of
                    None \<Rightarrow> Inl (NodeNotFoundError (getEntryPoint e))
                  | Some n \<Rightarrow> Inr ([createTask (uid 0) n (triggers n) []], [''__start__''])))
         else if graph_NodeTriggerMode (graph e) = NodeTriggerAllPredecessor then
           Inr (prepareNextTasksDAG ord uid e completed forExecution)
         else
           let ns = List.map_filter (getNode e) (ord (getNextNodes fx e lastCompletedNode state))
           in Inr (map (\<lambda>(i, n). task_for forExecution (uid i) n (triggers n)) (enumerate 0 ns),
                   remdups (concat (map triggers ns))))"

definition prepareNextTasks ::
  "(goval \<Rightarrow> string) \<Rightarrow> (string list \<Rightarrow> string list) \<Rightarrow> (nat \<Rightarrow> string) \<Rightarrow> 's Engine \<Rightarrow> Registry \<Rightarrow> bool gomap
     \<Rightarrow> string \<Rightarrow> goval \<Rightarrow> gerror + Task list \<times> string list" where
  "prepareNextTasks fx ord uid e reg completed lastCompletedNode state =
     prepareNextTasksWithMode fx ord uid e reg completed lastCompletedNode state True"

definition PrepareNextTasksForInspection ::
  "(goval \<Rightarrow> string) \<Rightarrow> (string list \<Rightarrow> string list) \<Rightarrow> (nat \<Rightarrow> string) \<Rightarrow> 's Engine \<Rightarrow> Registry \<Rightarrow> bool gomap
     \<Rightarrow> string \<Rightarrow> goval \<Rightarrow> gerror + Task list \<times> string list" where
  "PrepareNextTasksForInspection fx ord uid e reg completed lastCompletedNode state =
     prepareNextTasksWithMode fx ord uid e reg completed lastCompletedNode state False"

section \<open>Interrupts\<close>

definition shouldInterrupt :: "'s Engine \<Rightarrow> Task list \<Rightarrow> Task list" where
  "shouldInterrupt e tasks =
     (if interrupts e = [] then []
      else filter (\<lambda>t. gm_true (interrupts e) All_nodes \<or> gm_true (interrupts e) (task_Name t)) tasks)"

definition shouldInterruptAfter :: "'s Engine \<Rightarrow> TaskResult list \<Rightarrow> bool" where
  "shouldInterruptAfter e results =
     (if interruptsAfter e = [] then False
      else list_ex (\<lambda>r. res_Err r = None \<and>
             (gm_true (interruptsAfter e) All_nodes \<or> gm_true (interruptsAfter e) (res_Name r))) results)"

section \<open>DAG mode\<close>

lemma buildIncomingEdges_lookup:
  "map_of (buildIncomingEdges e) n =
     (let ps = map e_From (filter (\<lambda>x. e_To x = n) (edges (graph e))) in if ps = [] then None else Some ps)"
proof -
  have "map_of (fold (\<lambda>edge adj. gm_app (e_To edge) (e_From edge) adj) es adj) n =
      (let ps = map e_From (filter (\<lambda>x. e_To x = n) es)
       in if ps = [] then map_of adj n else Some ((case map_of adj n of None \<Rightarrow> [] | Some qs \<Rightarrow> qs) @ ps))" for es adj
    by (induction es arbitrary: adj) (auto simp: gomap_simps Let_def split: option.split)
  from this [of "edges (graph e)" "[]"] show ?thesis
    by (simp add: buildIncomingEdges_def Let_def)
qed

text \<open>The predecessors of a node that must have completed.\<close>

definition real_preds :: "stateGraph \<Rightarrow> string \<Rightarrow> string set" where
  "real_preds g n = e_From ` set (filter (\<lambda>x. e_To x = n) (edges g)) - {Start_node, End_node}"

lemma dag_ready_iff:
  "dag_ready e completed n \<longleftrightarrow> \<not> gm_true completed n \<and> (\<forall>p \<in> real_preds (graph e) n. gm_true completed p)"
  by (auto simp: dag_ready_def preds_done_def buildIncomingEdges_lookup real_preds_def list_all_iff Let_def
      filter_empty_conv)

lemma map_filter_mem: "y \<in> set (List.map_filter f xs) \<longleftrightarrow> (\<exists>x \<in> set xs. f x = Some y)"
  by (induction xs) (auto simp: List.map_filter_def split: option.splits)

lemma getNode_Name: "graph_wf (graph e) \<Longrightarrow> getNode e k = Some n \<Longrightarrow> Name n = k"
  by (auto simp: getNode_def graph_wf_def dest: map_of_SomeD)

lemma task_for_Name [simp]: "task_Name (task_for b u n ts) = Name n"
  by (simp add: task_for_def createTask_def createTaskInfo_def)

lemma enumerate_tasks: "map task_Name (map (\<lambda>(i, n). task_for b (uid i) n (ts n)) (enumerate k ns)) = map Name ns"
  by (induction ns arbitrary: k) simp_all

lemma nodes_by_name:
  assumes "graph_wf (graph e)"
  shows "Name ` set (List.map_filter (getNode e) ks) = {k \<in> set ks. has_node (graph e) k}"
proof (intro set_eqI iffI)
  fix k
  assume "k \<in> Name ` set (List.map_filter (getNode e) ks)"
  then obtain n j where "k = Name n" "j \<in> set ks" "getNode e j = Some n"
    by (auto simp: map_filter_mem)
  then show "k \<in> {k \<in> set ks. has_node (graph e) k}"
    using getNode_Name [OF assms] by (simp add: has_node_def getNode_def)
next
  fix k
  assume "k \<in> {k \<in> set ks. has_node (graph e) k}"
  then obtain n where "k \<in> set ks" "getNode e k = Some n"
    by (auto simp: has_node_def getNode_def)
  then show "k \<in> Name ` set (List.map_filter (getNode e) ks)"
    using getNode_Name [OF assms] by (force simp: map_filter_mem)
qed

lemma has_node_keys: "has_node g n \<longleftrightarrow> n \<in> set (gm_keys (nodes g))"
  by (simp add: has_node_def map_of_eq_None_iff)

lemma prepareNextTasksDAG_names:
  assumes "graph_wf (graph e)" and "\<And>xs. set (ord xs) = set xs"
  shows "task_Name ` set (fst (prepareNextTasksDAG ord uid e completed b)) =
    {n. has_node (graph e) n \<and> dag_ready e completed n}"
proof -
  let ?ns = "List.map_filter (getNode e) (filter (dag_ready e completed)
      (map Name (List.map_filter (getNode e) (ord (gm_keys (nodes (graph e)))))))"
  have "task_Name ` set (fst (prepareNextTasksDAG ord uid e completed b)) = Name ` set ?ns"
    unfolding prepareNextTasksDAG_def Let_def fst_conv set_map [symmetric] enumerate_tasks ..
  also have "\<dots> = {n. has_node (graph e) n \<and> dag_ready e completed n}"
    unfolding nodes_by_name [OF assms(1)]
    by (auto simp: nodes_by_name [OF assms(1)] assms(2) has_node_keys)
  finally show ?thesis .
qed

lemma prepareNextTasks_first:
  assumes "graph_wf (graph e)" and "getEntryPoint e \<noteq> []"
  shows "\<exists>tasks trig. prepareNextTasks fx ord uid e reg [] last_node state = Inr (tasks, trig) \<and>
    task_Name ` set tasks = {getEntryPoint e} - {End_node}"
proof (cases "getEntryPoint e = End_node")
  case False
  with assms obtain n where "getNode e (getEntryPoint e) = Some n"
    by (auto simp: graph_wf_def known_target_def has_node_def getNode_def getEntryPoint_def)
  with False assms getNode_Name [OF assms(1) this] show ?thesis
    by (simp add: prepareNextTasks_def prepareNextTasksWithMode_def createTask_def)
qed (use assms(2) in \<open>simp add: prepareNextTasks_def prepareNextTasksWithMode_def\<close>)

text \<open>C6: in DAG mode the first step schedules the entry point, and nothing if that is the end; every later step
  schedules exactly the nodes that have not completed and whose predecessors along regular edges, the virtual start
  and end aside, have all completed. The graph is well-formed, as the builder leaves it, and has an entry point.\<close>

theorem dag_schedules_exactly_ready:
  assumes "graph_wf (graph e)" and "\<And>xs. set (ord xs) = set xs" and "getEntryPoint e \<noteq> []"
    and "graph_NodeTriggerMode (graph e) = NodeTriggerAllPredecessor"
  shows "\<exists>tasks trig. prepareNextTasks fx ord uid e reg completed last_node state = Inr (tasks, trig) \<and>
    task_Name ` set tasks =
      (if completed = [] then {getEntryPoint e} - {End_node}
       else {n. has_node (graph e) n \<and> \<not> gm_true completed n \<and> (\<forall>p \<in> real_preds (graph e) n. gm_true completed p)})"
proof (cases "completed = []")
  case False
  have "task_Name ` set (fst (prepareNextTasksDAG ord uid e completed True)) =
      {n. has_node (graph e) n \<and> \<not> gm_true completed n \<and> (\<forall>p \<in> real_preds (graph e) n. gm_true completed p)}"
    by (simp add: prepareNextTasksDAG_names [OF assms(1,2)] dag_ready_iff)
  then show ?thesis
    using False assms(4) by (cases "prepareNextTasksDAG ord uid e completed True")
      (simp add: prepareNextTasks_def prepareNextTasksWithMode_def)
qed (use prepareNextTasks_first [OF assms(1,3)] in simp)

text \<open>A small graph: \<open>a\<close> and \<open>b\<close> both lead to \<open>c\<close>.\<close>

definition fan_in :: stateGraph where
  "fan_in = (NewStateGraph SNil)
     \<lparr>nodes := map (\<lambda>n. (n, new_node n (\<lambda>s. CRet s None))) [''a'', ''b'', ''c''],
      edges := [\<lparr>e_From = ''a'', e_To = ''c''\<rparr>, \<lparr>e_From = ''b'', e_To = ''c''\<rparr>], entryPoint := ''a'',
      graph_NodeTriggerMode := NodeTriggerAllPredecessor\<rparr>"

theorem dag_schedules_exactly_ready_witness:
  "\<exists>tasks trig. prepareNextTasks (\<lambda>_. []) id (\<lambda>_. []) (NewEngine fan_in [] :: unit Engine) NewRegistry
       [(''a'', True)] ''a'' GNil = Inr (tasks, trig) \<and> task_Name ` set tasks = {''b''}"
proof -
  let ?e = "NewEngine fan_in [] :: unit Engine"
  have g: "graph ?e = fan_in"
    by (simp add: NewEngine_def)
  have "graph_wf fan_in"
    by (simp add: graph_wf_def fan_in_def NewStateGraph_def new_node_def known_source_def known_target_def
        has_node_def)
  moreover have "{n. has_node fan_in n \<and> \<not> gm_true [(''a'', True)] n \<and>
      (\<forall>p \<in> real_preds fan_in n. gm_true [(''a'', True)] p)} = {''b''}"
    by (auto simp: fan_in_def has_node_def real_preds_def gm_true_def Start_node_def End_node_def
        split: if_splits)
  ultimately show ?thesis
    using dag_schedules_exactly_ready [of ?e id "\<lambda>_. []" "\<lambda>_. []" NewRegistry "[(''a'', True)]" "''a''" GNil] g
    by (simp add: fan_in_def getEntryPoint_def)
qed

section \<open>Routing by the last completed node\<close>

text \<open>The target a conditional edge selects in a state.\<close>

definition cond_target :: "(goval \<Rightarrow> string) \<Rightarrow> goval \<Rightarrow> ConditionalEdge \<Rightarrow> string option" where
  "cond_target fx state ce = map_of (ce_Mapping ce) (go_sprint fx (fst (ce_Condition ce state)))"

lemma cond_targets_sub:
  "set (fst (cond_targets fx node state ces acc has)) \<subseteq>
     set acc \<union> {t. \<exists>ce \<in> set ces. ce_From ce = node \<and> cond_target fx state ce = Some t}"
proof (induction ces arbitrary: acc has)
  case (Cons ce ces)
  show ?case
  proof (cases "ce_From ce = node")
    case True
    then show ?thesis
      using Cons [of acc True] Cons [of "List.insert (the (cond_target fx state ce)) acc" True]
      by (cases "cond_target fx state ce") (auto simp: cond_target_def)
  qed (use Cons [of acc has] in auto)
qed simp

lemma cond_targets_has:
  "\<exists>ce \<in> set ces. ce_From ce = node \<Longrightarrow> fst (snd (cond_targets fx node state ces acc has))"
proof -
  have mono: "has \<Longrightarrow> fst (snd (cond_targets fx node state ces acc has))" for has acc ces
    by (induction ces arbitrary: acc has) (auto split: option.splits)
  show "\<exists>ce \<in> set ces. ce_From ce = node \<Longrightarrow> fst (snd (cond_targets fx node state ces acc has))"
    by (induction ces arbitrary: acc has) (auto simp: mono split: option.splits)
qed

definition branch_target :: "stateGraph \<Rightarrow> string \<Rightarrow> goval \<Rightarrow> string \<Rightarrow> bool" where
  "branch_target g node state t \<longleftrightarrow>
     (\<exists>b \<in> set (branches g). br_From b = node \<and> t \<in> set (br_Then b (fst (br_Condition b state))))"

lemma fold_insert_sub:
  "set (fold (\<lambda>t acc. if t = End_node then acc else List.insert t acc) ts acc) \<subseteq> set acc \<union> set ts"
  by (rule fold_invariant') auto

lemma branch_targets_sub:
  "set (branch_targets node state bs acc) \<subseteq>
     set acc \<union> {t. \<exists>b \<in> set bs. br_From b = node \<and> t \<in> set (br_Then b (fst (br_Condition b state)))}"
proof (induction bs arbitrary: acc)
  case (Cons b bs)
  show ?case
    using Cons [of acc] fold_insert_sub [of "br_Then b (fst (br_Condition b state))" acc]
      Cons [of "fold (\<lambda>t acc. if t = End_node then acc else List.insert t acc) (br_Then b (fst (br_Condition b state))) acc"]
    by (auto split: if_splits)
qed simp

text \<open>The successors of a node with conditional edges: none comes from a regular edge.\<close>

lemma next_nodes_exclusive:
  assumes "ce \<in> set (conditionalEdges (graph e))" and "ce_From ce = node"
    and "n \<in> set (getNextNodes fx e node state)"
  shows "(\<exists>ce \<in> set (conditionalEdges (graph e)). ce_From ce = node \<and> cond_target fx state ce = Some n) \<or>
    n \<in> set (next_fallback (graph e) state) \<or> branch_target (graph e) node state n"
proof -
  obtain acc has stop where c: "cond_targets fx node state (conditionalEdges (graph e)) [] False = (acc, has, stop)"
    using prod_cases3 by blast
  have "has"
    using cond_targets_has [of "conditionalEdges (graph e)" node fx state "[]" False] assms(1,2) c by auto
  moreover have acc: "set acc \<subseteq> {t. \<exists>ce \<in> set (conditionalEdges (graph e)). ce_From ce = node \<and> cond_target fx state ce = Some t}"
    using cond_targets_sub [of fx node state "conditionalEdges (graph e)" "[]" False] c by simp
  ultimately have "n \<in> set acc \<or>
      n \<in> set (branch_targets node state (branches (graph e)) (if acc = [] then next_fallback (graph e) state else acc))"
    using assms(3) c by (auto simp: getNextNodes_def Let_def split: if_splits)
  then show ?thesis
    using acc branch_targets_sub [of node state "branches (graph e)" "if acc = [] then next_fallback (graph e) state else acc"]
    by (auto simp: branch_target_def split: if_splits)
qed

lemma any_mode_names:
  assumes "graph_wf (graph e)" and "\<And>xs. set (ord xs) = set xs" and "completed \<noteq> []"
    and "graph_NodeTriggerMode (graph e) \<noteq> NodeTriggerAllPredecessor"
  shows "\<exists>tasks trig. prepareNextTasks fx ord uid e reg completed last_node state = Inr (tasks, trig) \<and>
    task_Name ` set tasks = {n \<in> set (getNextNodes fx e last_node state). has_node (graph e) n}"
proof -
  let ?ns = "List.map_filter (getNode e) (ord (getNextNodes fx e last_node state))"
  have "task_Name ` set (map (\<lambda>(i, n). task_for True (uid i) n (ts n)) (enumerate 0 ?ns)) = Name ` set ?ns" for ts
    unfolding set_map [symmetric] enumerate_tasks ..
  then show ?thesis
    using assms(3,4) by (simp add: prepareNextTasks_def prepareNextTasksWithMode_def Let_def nodes_by_name [OF assms(1)] assms(2))
qed

text \<open>C7: in the default trigger mode, a node with conditional edges is not followed along its regular edges: every node
  that the step after it schedules is a target that its conditions select, the node named by \<^verbatim>\<open>_next\<close> in the state, or
  a target of one of its branches.\<close>

theorem conditional_routing_exclusive:
  assumes "graph_wf (graph e)" and "\<And>xs. set (ord xs) = set xs" and "completed \<noteq> []"
    and "graph_NodeTriggerMode (graph e) \<noteq> NodeTriggerAllPredecessor"
    and "ce \<in> set (conditionalEdges (graph e))" and "ce_From ce = last_node"
  shows "\<exists>tasks trig. prepareNextTasks fx ord uid e reg completed last_node state = Inr (tasks, trig) \<and>
    (\<forall>n \<in> task_Name ` set tasks. has_node (graph e) n \<and>
      ((\<exists>ce \<in> set (conditionalEdges (graph e)). ce_From ce = last_node \<and> cond_target fx state ce = Some n) \<or>
       n \<in> set (next_fallback (graph e) state) \<or> branch_target (graph e) last_node state n))"
proof -
  obtain tasks trig where t: "prepareNextTasks fx ord uid e reg completed last_node state = Inr (tasks, trig)"
    and names: "task_Name ` set tasks = {n \<in> set (getNextNodes fx e last_node state). has_node (graph e) n}"
    using any_mode_names [OF assms(1-4)] by metis
  show ?thesis
    by (rule exI [of _ tasks], rule exI [of _ trig], simp only: t names, use next_nodes_exclusive [OF assms(5,6)] in simp)
qed

definition switch_graph :: stateGraph where
  "switch_graph = (NewStateGraph SNil)
     \<lparr>nodes := map (\<lambda>n. (n, new_node n (\<lambda>s. CRet s None))) [''s'', ''x'', ''y''],
      edges := [\<lparr>e_From = ''s'', e_To = ''y''\<rparr>],
      conditionalEdges := [\<lparr>ce_From = ''s'', ce_Condition = (\<lambda>s. (GStr ''k'', None)), ce_Mapping = [(''k'', ''x'')]\<rparr>]\<rparr>"

theorem conditional_routing_exclusive_witness:
  "\<exists>tasks trig. prepareNextTasks (\<lambda>_. []) id (\<lambda>_. []) (NewEngine switch_graph [] :: unit Engine) NewRegistry
       [(''s'', True)] ''s'' GNil = Inr (tasks, trig) \<and> map task_Name tasks = [''x''] \<and>
     (\<exists>ce \<in> set (conditionalEdges switch_graph). ce_From ce = ''s'' \<and> cond_target (\<lambda>_. []) GNil ce = Some ''x'')"
proof -
  let ?e = "NewEngine switch_graph [] :: unit Engine"
  let ?r = "prepareNextTasks (\<lambda>_. []) id (\<lambda>_. []) ?e NewRegistry [(''s'', True)] ''s'' GNil"
  have g: "graph ?e = switch_graph"
    by (simp add: NewEngine_def)
  have "graph_wf switch_graph"
    by (simp add: graph_wf_def switch_graph_def NewStateGraph_def new_node_def known_source_def known_target_def has_node_def
        End_node_def)
  moreover have "\<not> branch_target switch_graph ''s'' GNil n" "next_fallback switch_graph GNil = []" for n
    by (simp_all add: branch_target_def switch_graph_def NewStateGraph_def next_fallback_def as_map_def)
  moreover have "\<exists>tasks trig. ?r = Inr (tasks, trig) \<and> map task_Name tasks = [''x'']"
    by (simp add: prepareNextTasks_def prepareNextTasksWithMode_def getNextNodes_def NewEngine_def switch_graph_def NewStateGraph_def
        End_node_def getNode_def List.map_filter_def Let_def new_node_def)
  ultimately show ?thesis
    using conditional_routing_exclusive [of ?e id "[(''s'', True)]" "hd (conditionalEdges switch_graph)" "''s''" "\<lambda>_. []" "\<lambda>_. []"
        NewRegistry GNil] g
    by (auto simp: switch_graph_def NewStateGraph_def)
qed

text \<open>In the default mode the next step depends on the last completed node only: the successors of
  the other nodes that completed in the same step are not scheduled.\<close>

theorem any_mode_follows_last_only:
  assumes "completed \<noteq> []" and "completed' \<noteq> []"
    and "graph_NodeTriggerMode (graph e) \<noteq> NodeTriggerAllPredecessor"
  shows "prepareNextTasks fx ord uid e reg completed last_node state =
    prepareNextTasks fx ord uid e reg completed' last_node state"
  using assms by (simp add: prepareNextTasks_def prepareNextTasksWithMode_def)

theorem any_mode_follows_last_only_witness:
  "prepareNextTasks (\<lambda>_. []) id (\<lambda>_. []) (NewEngine switch_graph [] :: unit Engine) NewRegistry
     [(''s'', True), (''x'', True)] ''x'' GNil =
   prepareNextTasks (\<lambda>_. []) id (\<lambda>_. []) (NewEngine switch_graph [] :: unit Engine) NewRegistry [(''x'', True)] ''x'' GNil"
  by (rule any_mode_follows_last_only)
    (simp_all add: NewEngine_def switch_graph_def NewStateGraph_def)

text \<open>A regular edge to the end hides the edges added after it and every branch of the node: nothing
  runs next, whatever these say.\<close>

theorem end_edge_hides_the_rest:
  assumes "edges (graph e) = before @ \<lparr>e_From = node, e_To = End_node\<rparr> # after"
    and "\<forall>x \<in> set before. e_From x \<noteq> node" and "\<forall>ce \<in> set (conditionalEdges (graph e)). ce_From ce \<noteq> node"
  shows "getNextNodes fx e node state = []"
proof -
  have "cond_targets fx node state ces [] False = ([], False, False)" if "\<forall>ce \<in> set ces. ce_From ce \<noteq> node" for ces
    using that by (induction ces) auto
  moreover have "edge_targets node (xs @ ys) acc = edge_targets node ys acc" if "\<forall>x \<in> set xs. e_From x \<noteq> node" for xs ys acc
    using that by (induction xs) auto
  ultimately show ?thesis
    using assms by (simp add: getNextNodes_def Let_def)
qed

theorem end_edge_hides_the_rest_witness:
  "getNextNodes (\<lambda>_. []) (NewEngine ((NewStateGraph SNil)\<lparr>edges := [\<lparr>e_From = ''a'', e_To = End_node\<rparr>,
      \<lparr>e_From = ''a'', e_To = ''b''\<rparr>], branches := [\<lparr>br_From = ''a'', br_Condition = (\<lambda>s. (GNil, None)),
      br_Then = (\<lambda>_. [''c''])\<rparr>]\<rparr>) [] :: unit Engine) ''a'' GNil = []"
  by (rule end_edge_hides_the_rest [of _ "[]" "''a''" "[\<lparr>e_From = ''a'', e_To = ''b''\<rparr>]"])
    (simp_all add: NewEngine_def NewStateGraph_def)

end
