(* ===== verification/Savers.thy ===== *)
theory Savers
  imports Checkpoint
begin

text \<open>
  The two stores of checkpoints: \<^verbatim>\<open>CheckpointManager\<close> (\<^verbatim>\<open>checkpoint/checkpoint.go\<close>), which keeps versioned
  \<^verbatim>\<open>Checkpoint\<close> structs per thread and refuses stale writers, and \<^verbatim>\<open>MemorySaver\<close> (\<^verbatim>\<open>checkpoint/memory.go\<close>),
  which the engine uses through \<^verbatim>\<open>BaseCheckpointer\<close>. Both keep a log of entries per thread; what a log
  promises is the locale \<open>thread_log\<close>, interpreted for both.
\<close>

section \<open>Logs per thread\<close>

locale thread_log =
  fixes hist :: "'s \<Rightarrow> string \<Rightarrow> 'c list"
    and app :: "'s \<Rightarrow> string \<Rightarrow> 'c \<Rightarrow> 's"
    and inv :: "'s \<Rightarrow> bool"
  assumes inv_app: "inv s \<Longrightarrow> inv (app s t c)"
    and hist_other: "t' \<noteq> t \<Longrightarrow> hist (app s t c) t' = hist s t'"
    and hist_suffix: "inv s \<Longrightarrow> \<exists>n < length (hist s t @ [c]). hist (app s t c) t = drop n (hist s t @ [c])"
begin

lemma latest_same: "inv s \<Longrightarrow> hist (app s t c) t \<noteq> [] \<and> last (hist (app s t c) t) = c"
  using hist_suffix [of s t c] by (fastforce simp: last_drop)

text \<open>The latest entry of a thread after a sequence of appends to any threads.\<close>

lemma latest_after:
  assumes "inv s"
  shows "(\<exists>c. (t, c) \<in> set ops) \<Longrightarrow>
    hist (foldl (\<lambda>s (t, c). app s t c) s ops) t \<noteq> [] \<and>
    last (hist (foldl (\<lambda>s (t, c). app s t c) s ops) t) = last (map snd (filter (\<lambda>(u, c). u = t) ops))"
    and "inv (foldl (\<lambda>s (t, c). app s t c) s ops)"
proof (induction ops rule: rev_induct)
  case (snoc p ops)
  obtain u c where p: "p = (u, c)" by force
  have inv: "inv (foldl (\<lambda>s (t, c). app s t c) s ops)"
    by (rule snoc(2))
  {
    case 1
    then show ?case
      using snoc(1) latest_same [OF inv, of t c] by (cases "u = t") (auto simp: p hist_other)
  next
    case 2
    then show ?case using inv by (simp add: p inv_app)
  }
qed (use assms in simp_all)

end

section \<open>CheckpointManager\<close>

record CheckpointManager =
  checkpoints :: "Checkpoint list gomap"
  maxVersions :: int

definition DefaultCheckpointMaxVersions :: int where "DefaultCheckpointMaxVersions = 100"

definition NewCheckpointManager :: "int \<Rightarrow> CheckpointManager" where
  "NewCheckpointManager n =
     \<lparr>checkpoints = [], maxVersions = (if n \<le> 0 then DefaultCheckpointMaxVersions else n)\<rparr>"

text \<open>\<open>cm.checkpoints[threadID]\<close>.\<close>

definition thread_cps :: "CheckpointManager \<Rightarrow> string \<Rightarrow> Checkpoint list" where
  "thread_cps cm t = (case map_of (checkpoints cm) t of None \<Rightarrow> [] | Some cs \<Rightarrow> cs)"

text \<open>Appending a checkpoint to its thread and trimming the oldest, the end of \<^verbatim>\<open>Save\<close>.\<close>

definition append_trim :: "CheckpointManager \<Rightarrow> string \<Rightarrow> Checkpoint \<Rightarrow> CheckpointManager" where
  "append_trim cm t c =
     (let cs = thread_cps cm t @ [c];
          cs' = (if int (length cs) > maxVersions cm then drop (nat (int (length cs) - maxVersions cm)) cs
                 else cs)
      in cm\<lparr>checkpoints := gm_set t cs' (checkpoints cm)\<rparr>)"

definition conflict_of :: "Checkpoint \<Rightarrow> Checkpoint \<Rightarrow> gerror" where
  "conflict_of latest c =
     VersionConflictError (cp_Version c) (cp_Version latest + 1) (cp_ID c) (md_ThreadID (cp_Metadata c))"

definition Save :: "CheckpointManager \<Rightarrow> Checkpoint \<Rightarrow> (gerror, CheckpointManager, unit) outcome" where
  "Save cm c =
     (let t = md_ThreadID (cp_Metadata c); cs = thread_cps cm t
      in if cs \<noteq> [] \<and> cp_ParentID c \<noteq> [] \<and> cp_ID (last cs) \<noteq> cp_ParentID c
         then (cm, Inl (conflict_of (last cs) c))
         else if cs \<noteq> [] \<and> cp_Version c > 0 \<and> cp_Version (last cs) \<noteq> cp_Version c - 1
         then (cm, Inl (conflict_of (last cs) c))
         else (append_trim cm t c, Inr ()))"

definition apply_write :: "PendingWrite \<Rightarrow> Checkpoint \<Rightarrow> Checkpoint" where
  "apply_write w c =
     IncrementChannel (pw_Channel w) (c\<lparr>State := gm_set (pw_Channel w) (pw_Value w) (State c)\<rparr>)"

definition PutWrites ::
  "(goval \<Rightarrow> goval option) \<Rightarrow> string \<Rightarrow> int \<Rightarrow> CheckpointManager \<Rightarrow> RunnableConfig \<Rightarrow> PendingWrite list
     \<Rightarrow> (gerror, CheckpointManager, unit) outcome" where
  "PutWrites jx uid now cm config writes =
     (let t = ThreadID config; cs = thread_cps cm t; current = last cs;
          callerID = GetOrEmpty config ''checkpoint_id''
      in if t = [] then (cm, Inl (PlainError ''thread ID is required for put_writes'' []))
         else if cs = [] then (cm, Inl (PlainError ''no checkpoint found for thread'' [t]))
         else if callerID = [] then
           (cm, Inl (PlainError ''checkpoint_id is required for put_writes on thread'' [t]))
         else if callerID \<noteq> cp_ID current then
           (cm, Inl (VersionConflictError (cp_Version current) (cp_Version current + 1) (cp_ID current) t))
         else
           let n = (Clone jx uid now current)\<lparr>cp_Version := cp_Version current + 1, cp_ParentID := cp_ID current\<rparr>;
               n' = fold apply_write writes n
           in (cm\<lparr>checkpoints := gm_set t (cs @ [n']) (checkpoints cm)\<rparr>, Inr ()))"

definition Load ::
  "(goval \<Rightarrow> goval option) \<Rightarrow> string \<Rightarrow> int \<Rightarrow> CheckpointManager \<Rightarrow> string \<Rightarrow> Checkpoint option" where
  "Load jx uid now cm t =
     (let cs = thread_cps cm t in if cs = [] then None else Some (Clone jx uid now (last cs)))"

definition LoadByCheckpointID ::
  "(goval \<Rightarrow> goval option) \<Rightarrow> string \<Rightarrow> int \<Rightarrow> CheckpointManager \<Rightarrow> string \<Rightarrow> gerror + Checkpoint" where
  "LoadByCheckpointID jx uid now cm cid =
     (case filter (\<lambda>c. cp_ID c = cid) (concat (map snd (checkpoints cm))) of
        c # _ \<Rightarrow> Inr (Clone jx uid now c)
      | [] \<Rightarrow> Inl (PlainError ''checkpoint not found'' [cid]))"

text \<open>The last \<open>limit\<close> entries, all of them where the limit is not positive or too large.\<close>

definition last_entries :: "int \<Rightarrow> 'a list \<Rightarrow> 'a list" where
  "last_entries limit xs =
     (let n = (if limit \<le> 0 \<or> limit > int (length xs) then length xs else nat limit)
      in drop (length xs - n) xs)"

definition CheckpointManager_List ::
  "(goval \<Rightarrow> goval option) \<Rightarrow> (nat \<Rightarrow> string) \<Rightarrow> int \<Rightarrow> CheckpointManager \<Rightarrow> string \<Rightarrow> int \<Rightarrow> Checkpoint list" where
  "CheckpointManager_List jx uid now cm t limit =
     map (\<lambda>(i, c). Clone jx (uid i) now c) (enumerate 0 (last_entries limit (thread_cps cm t)))"

record CheckpointTuple =
  ct_Config :: RunnableConfig
  ct_Checkpoint :: "Checkpoint option"
  ct_ParentConfig :: "RunnableConfig option"
  ct_Metadata :: gostate

text \<open>A \<^verbatim>\<open>time.Time\<close> as a value.\<close>

definition time_val :: "int \<Rightarrow> goval" where
  "time_val t = GStruct ''time.Time'' [(''ns'', GNum Int64 (word_of_int t))]"

definition NewCheckpointTuple ::
  "RunnableConfig option \<Rightarrow> Checkpoint option \<Rightarrow> RunnableConfig option \<Rightarrow> CheckpointTuple" where
  "NewCheckpointTuple config c parentConfig =
     \<lparr>ct_Config = EnsureConfig config, ct_Checkpoint = c, ct_ParentConfig = parentConfig,
      ct_Metadata =
        (case c of
           None \<Rightarrow> []
         | Some c \<Rightarrow>
             [(''id'', GStr (cp_ID c)), (''version'', GInt (word_of_int (cp_Version c))),
              (''thread_id'', GStr (md_ThreadID (cp_Metadata c))),
              (''step'', GInt (word_of_int (md_Step (cp_Metadata c)))),
              (''source'', GStr (md_Source (cp_Metadata c))),
              (''created_at'', time_val (md_CreatedAt (cp_Metadata c)))])\<rparr>"

definition config_for :: "string \<Rightarrow> string \<Rightarrow> RunnableConfig" where
  "config_for t cid = RunnableConfig_Set (NewRunnableConfig\<lparr>ThreadID := t\<rparr>) ''checkpoint_id'' (GStr cid)"

text \<open>The draws of \<^verbatim>\<open>uuid.New\<close> are numbered in the order of the \<^verbatim>\<open>Clone\<close> calls.\<close>

definition GetTuple ::
  "(goval \<Rightarrow> goval option) \<Rightarrow> (nat \<Rightarrow> string) \<Rightarrow> int \<Rightarrow> CheckpointManager \<Rightarrow> RunnableConfig
     \<Rightarrow> gerror + CheckpointTuple" where
  "GetTuple jx uid now cm config =
     (let t = ThreadID config; cs = thread_cps cm t
      in if t = [] then Inl (PlainError ''thread ID is required'' [])
         else if cs = [] then Inr (NewCheckpointTuple (Some config) None None)
         else let latest = Clone jx (uid 0) now (last cs);
                  parent = (if length cs > 1 then Some (Clone jx (uid 1) now (cs ! (length cs - 2))) else None)
              in Inr (NewCheckpointTuple (Some config) (Some latest)
                   (map_option (\<lambda>p. config_for t (cp_ID p)) parent)))"

text \<open>The first checkpoint of a version, with the one before it.\<close>

fun find_version :: "int \<Rightarrow> Checkpoint option \<Rightarrow> Checkpoint list \<Rightarrow> (Checkpoint \<times> Checkpoint option) option" where
  "find_version v prev [] = None"
| "find_version v prev (c # cs) =
     (if cp_Version c = v then Some (c, prev) else find_version v (Some c) cs)"

definition GetTupleByVersion ::
  "(goval \<Rightarrow> goval option) \<Rightarrow> (nat \<Rightarrow> string) \<Rightarrow> int \<Rightarrow> CheckpointManager \<Rightarrow> RunnableConfig \<Rightarrow> int
     \<Rightarrow> gerror + CheckpointTuple" where
  "GetTupleByVersion jx uid now cm config v =
     (let t = ThreadID config
      in if t = [] then Inl (PlainError ''thread ID is required'' [])
         else (case find_version v None (thread_cps cm t) of
                 None \<Rightarrow> Inl (PlainError ''version not found'' [show_int v])
               | Some (c, prev) \<Rightarrow>
                   Inr (NewCheckpointTuple (Some config) (Some (Clone jx (uid 0) now c))
                     (map_option (\<lambda>p. config_for t (cp_ID (Clone jx (uid 1) now p))) prev))))"

definition GetLineage ::
  "(goval \<Rightarrow> goval option) \<Rightarrow> (nat \<Rightarrow> string) \<Rightarrow> int \<Rightarrow> CheckpointManager \<Rightarrow> string \<Rightarrow> int \<Rightarrow> CheckpointTuple list" where
  "GetLineage jx uid now cm t limit =
     (let cs = thread_cps cm t; n = length (last_entries limit cs); start = length cs - n
      in map (\<lambda>j. let i = start + j; c = Clone jx (uid j) now (cs ! i)
                  in NewCheckpointTuple (Some (config_for t (cp_ID c))) (Some c)
                       (if i > 0 then Some (config_for t (cp_ID (cs ! (i - 1)))) else None))
           [0..<n])"

definition CheckpointManager_GetVersion ::
  "(goval \<Rightarrow> goval option) \<Rightarrow> string \<Rightarrow> int \<Rightarrow> CheckpointManager \<Rightarrow> string \<Rightarrow> int \<Rightarrow> gerror + Checkpoint" where
  "CheckpointManager_GetVersion jx uid now cm t v =
     (case filter (\<lambda>c. cp_Version c = v) (thread_cps cm t) of
        c # _ \<Rightarrow> Inr (Clone jx uid now c)
      | [] \<Rightarrow> Inl (PlainError ''version not found'' [show_int v]))"

text \<open>\<^verbatim>\<open>Delete\<close> removes the first checkpoint with the identifier, searching thread by thread.\<close>

fun remove_first :: "string \<Rightarrow> Checkpoint list \<Rightarrow> Checkpoint list option" where
  "remove_first cid [] = None"
| "remove_first cid (c # cs) =
     (if cp_ID c = cid then Some cs else map_option (Cons c) (remove_first cid cs))"

fun delete_loop :: "string \<Rightarrow> Checkpoint list gomap \<Rightarrow> Checkpoint list gomap option" where
  "delete_loop cid [] = None"
| "delete_loop cid ((t, cs) # m) =
     (case remove_first cid cs of
        Some cs' \<Rightarrow> Some ((t, cs') # m)
      | None \<Rightarrow> map_option (Cons (t, cs)) (delete_loop cid m))"

definition CheckpointManager_Delete ::
  "CheckpointManager \<Rightarrow> string \<Rightarrow> (gerror, CheckpointManager, unit) outcome" where
  "CheckpointManager_Delete cm cid =
     (case delete_loop cid (checkpoints cm) of
        Some m \<Rightarrow> (cm\<lparr>checkpoints := m\<rparr>, Inr ())
      | None \<Rightarrow> (cm, Inl (PlainError ''checkpoint not found'' [cid])))"

definition ClearThread :: "CheckpointManager \<Rightarrow> string \<Rightarrow> CheckpointManager" where
  "ClearThread cm t = cm\<lparr>checkpoints := gm_delete t (checkpoints cm)\<rparr>"

definition ClearAll :: "CheckpointManager \<Rightarrow> CheckpointManager" where
  "ClearAll cm = cm\<lparr>checkpoints := []\<rparr>"

definition RunnableConfigToMap :: "RunnableConfig option \<Rightarrow> gostate" where
  "RunnableConfigToMap cfg =
     (case cfg of
        None \<Rightarrow> []
      | Some c \<Rightarrow>
          [(''thread_id'', GStr (ThreadID c)),
           (''checkpoint_id'', GStr (GetOrEmpty c ''checkpoint_id'')),
           (''checkpoint_ns'', GStr (GetOrEmpty c ''checkpoint_ns''))])"

subsection \<open>The log of a thread\<close>

lemma thread_cps_set [simp]:
  "thread_cps (cm\<lparr>checkpoints := gm_set t cs (checkpoints cm)\<rparr>) t' = (if t' = t then cs else thread_cps cm t')"
  by (simp add: thread_cps_def gomap_simps)

lemma thread_cps_append_trim:
  "thread_cps (append_trim cm t c) t' =
     (if t' = t then drop (nat (int (length (thread_cps cm t @ [c])) - maxVersions cm)) (thread_cps cm t @ [c])
      else thread_cps cm t')"
  by (auto simp: append_trim_def Let_def)

lemma maxVersions_append_trim [simp]: "maxVersions (append_trim cm t c) = maxVersions cm"
  by (simp add: append_trim_def Let_def)

interpretation cm_log: thread_log thread_cps append_trim "\<lambda>cm. 1 \<le> maxVersions cm"
proof
  fix s :: CheckpointManager and t c
  assume "1 \<le> maxVersions s"
  then show "\<exists>n < length (thread_cps s t @ [c]). thread_cps (append_trim s t c) t = drop n (thread_cps s t @ [c])"
    by (intro exI [of _ "nat (int (length (thread_cps s t @ [c])) - maxVersions s)"])
      (auto simp: thread_cps_append_trim)
qed (auto simp: thread_cps_append_trim)

text \<open>The conditions under which \<^verbatim>\<open>Save\<close> accepts a checkpoint.\<close>

definition save_allowed :: "Checkpoint list \<Rightarrow> Checkpoint \<Rightarrow> bool" where
  "save_allowed cs c \<longleftrightarrow> cs = [] \<or>
     ((cp_ParentID c = [] \<or> cp_ParentID c = cp_ID (last cs)) \<and>
      (cp_Version c \<le> 0 \<or> cp_Version c = cp_Version (last cs) + 1))"

lemma Save_cases:
  "Save cm c =
     (if save_allowed (thread_cps cm (md_ThreadID (cp_Metadata c))) c
      then (append_trim cm (md_ThreadID (cp_Metadata c)) c, Inr ())
      else (cm, Inl (conflict_of (last (thread_cps cm (md_ThreadID (cp_Metadata c)))) c)))"
  by (auto simp: Save_def save_allowed_def Let_def)

text \<open>C36: \<^verbatim>\<open>Save\<close> accepts a checkpoint exactly when it names the latest checkpoint of its thread as its
  parent (or none) and carries the next version (or none); a refused one changes nothing. After an
  accepted one, \<^verbatim>\<open>Load\<close> returns a copy of it, the other threads are untouched, and its thread holds the
  newest checkpoints, as many as there are and at most the configured number, however many it held before.\<close>

theorem Save_spec:
  assumes "1 \<le> maxVersions cm" and "t = md_ThreadID (cp_Metadata c)"
  shows "if save_allowed (thread_cps cm t) c
    then \<exists>cm' old. Save cm c = (cm', Inr ()) \<and> Load jx uid now cm' t = Some (Clone jx uid now c) \<and>
      (\<forall>u. u \<noteq> t \<longrightarrow> thread_cps cm' u = thread_cps cm u) \<and>
      thread_cps cm t @ [c] = old @ thread_cps cm' t \<and>
      int (length (thread_cps cm' t)) = min (int (length (thread_cps cm t)) + 1) (maxVersions cm)
    else Save cm c = (cm, Inl (conflict_of (last (thread_cps cm t)) c))"
proof (cases "save_allowed (thread_cps cm t) c")
  case True
  let ?cm = "append_trim cm t c" and ?n = "nat (int (length (thread_cps cm t @ [c])) - maxVersions cm)"
  have "thread_cps ?cm t \<noteq> [] \<and> last (thread_cps ?cm t) = c"
    using assms(1) by (rule cm_log.latest_same)
  then have "Load jx uid now ?cm t = Some (Clone jx uid now c)"
    by (simp add: Load_def Let_def)
  moreover have "thread_cps ?cm t = drop ?n (thread_cps cm t @ [c])"
    by (simp add: thread_cps_append_trim)
  then have "thread_cps cm t @ [c] = take ?n (thread_cps cm t @ [c]) @ thread_cps ?cm t"
    "int (length (thread_cps ?cm t)) = min (int (length (thread_cps cm t)) + 1) (maxVersions cm)"
    using assms(1) by (simp_all only: append_take_drop_id length_drop length_append_singleton)
  moreover have "\<forall>u. u \<noteq> t \<longrightarrow> thread_cps ?cm u = thread_cps cm u"
    by (simp add: thread_cps_append_trim)
  ultimately show ?thesis
    using True assms(2) by (auto simp: Save_cases)
qed (use assms(2) in \<open>simp add: Save_cases\<close>)

lemma first_save: "thread_cps (fst (Save (NewCheckpointManager n) c)) (md_ThreadID (cp_Metadata c)) = [c]"
  by (simp add: Save_cases save_allowed_def append_trim_def NewCheckpointManager_def thread_cps_def
      DefaultCheckpointMaxVersions_def Let_def)

lemma config_for_simps [simp]:
  "ThreadID (config_for t cid) = t"
  "GetOrEmpty (config_for t cid) ''checkpoint_id'' = cid"
  by (simp_all add: config_for_def GetOrEmpty_def RunnableConfig_Set_def NewRunnableConfig_def as_string_def)

theorem Save_spec_witness:
  "\<exists>cm'. Save (NewCheckpointManager 2) (NewCheckpoint ''a'' 0 ''t'' 0) = (cm', Inr ()) \<and>
     Load (\<lambda>_. None) ''b'' 1 cm' ''t'' = Some (Clone (\<lambda>_. None) ''b'' 1 (NewCheckpoint ''a'' 0 ''t'' 0))"
proof -
  have "thread_cps (NewCheckpointManager 2) u = []" for u
    by (simp add: NewCheckpointManager_def thread_cps_def)
  moreover have "maxVersions (NewCheckpointManager 2) = 2"
    by (simp add: NewCheckpointManager_def)
  ultimately show ?thesis
    using Save_spec [of "NewCheckpointManager 2" "''t''" "NewCheckpoint ''a'' 0 ''t'' 0" "\<lambda>_. None" "''b''" 1]
    by (auto simp: save_allowed_def NewCheckpoint_def)
qed

subsection \<open>PutWrites\<close>

lemma fold_apply_write:
  "map_of (State (fold apply_write ws c)) k =
     (case map_of (rev (map (\<lambda>w. (pw_Channel w, pw_Value w)) ws)) k of
        Some v \<Rightarrow> Some v | None \<Rightarrow> map_of (State c) k)"
  "gm_int (ChannelVersions (fold apply_write ws c)) k =
     gm_int (ChannelVersions c) k + int (count_list (map pw_Channel ws) k)"
  "cp_ID (fold apply_write ws c) = cp_ID c \<and> cp_Version (fold apply_write ws c) = cp_Version c \<and>
   cp_ParentID (fold apply_write ws c) = cp_ParentID c"
  by (induction ws arbitrary: c)
    (auto simp: apply_write_def IncrementChannel_def gomap_simps map_add_def split: option.split)

text \<open>The writer's config names the latest checkpoint of its thread.\<close>

definition up_to_date :: "CheckpointManager \<Rightarrow> RunnableConfig \<Rightarrow> bool" where
  "up_to_date cm config \<longleftrightarrow> ThreadID config \<noteq> [] \<and> thread_cps cm (ThreadID config) \<noteq> [] \<and>
     GetOrEmpty config ''checkpoint_id'' \<noteq> [] \<and>
     GetOrEmpty config ''checkpoint_id'' = cp_ID (last (thread_cps cm (ThreadID config)))"

lemma PutWrites_accepted:
  assumes "up_to_date cm config"
  shows "PutWrites jx uid now cm config ws =
    (cm\<lparr>checkpoints := gm_set (ThreadID config) (thread_cps cm (ThreadID config) @
        [fold apply_write ws ((Clone jx uid now (last (thread_cps cm (ThreadID config))))
          \<lparr>cp_Version := cp_Version (last (thread_cps cm (ThreadID config))) + 1,
           cp_ParentID := cp_ID (last (thread_cps cm (ThreadID config)))\<rparr>)]) (checkpoints cm)\<rparr>, Inr ())"
  using assms by (auto simp: PutWrites_def up_to_date_def Let_def)

lemma PutWrites_refused: "\<not> up_to_date cm config \<Longrightarrow> \<exists>e. PutWrites jx uid now cm config ws = (cm, Inl e)"
  by (auto simp: PutWrites_def up_to_date_def Let_def)

text \<open>C37: \<^verbatim>\<open>PutWrites\<close> appends, for a writer that names the latest checkpoint, a checkpoint with the next
  version whose parent is that one; a channel then holds the last value written to it, or a copy of
  the old one, and its version has grown by the number of writes to it. Any other writer is refused
  and changes nothing.\<close>

theorem PutWrites_spec:
  "if up_to_date cm config
   then \<exists>cm' n. PutWrites jx uid now cm config ws = (cm', Inr ()) \<and>
     thread_cps cm' (ThreadID config) = thread_cps cm (ThreadID config) @ [n] \<and>
     (\<forall>u. u \<noteq> ThreadID config \<longrightarrow> thread_cps cm' u = thread_cps cm u) \<and>
     cp_ID n = uid \<and>
     cp_Version n = cp_Version (last (thread_cps cm (ThreadID config))) + 1 \<and>
     cp_ParentID n = cp_ID (last (thread_cps cm (ThreadID config))) \<and>
     (\<forall>k. map_of (State n) k =
        (case map_of (rev (map (\<lambda>w. (pw_Channel w, pw_Value w)) ws)) k of
           Some v \<Rightarrow> Some v
         | None \<Rightarrow> map_option (deepCopy jx) (map_of (State (last (thread_cps cm (ThreadID config)))) k))) \<and>
     (gm_ok (ChannelVersions (last (thread_cps cm (ThreadID config)))) \<longrightarrow>
        (\<forall>k. gm_int (ChannelVersions n) k =
           gm_int (ChannelVersions (last (thread_cps cm (ThreadID config)))) k + int (count_list (map pw_Channel ws) k)))
   else \<exists>e. PutWrites jx uid now cm config ws = (cm, Inl e)"
  by (simp add: PutWrites_accepted PutWrites_refused fold_apply_write Clone_def gomap_simps
      split: option.split)

text \<open>\<^verbatim>\<open>PutWrites\<close> does not trim: a thread with the configured number of checkpoints gets one more.\<close>

lemma PutWrites_outgrows:
  assumes "up_to_date cm config" and "int (length (thread_cps cm (ThreadID config))) = maxVersions cm"
  shows "int (length (thread_cps (fst (PutWrites jx uid now cm config ws)) (ThreadID config))) > maxVersions cm"
  using assms by (simp add: PutWrites_accepted)

theorem PutWrites_spec_witness:
  "\<exists>cm' n. PutWrites (\<lambda>_. None) ''b'' 1 (fst (Save (NewCheckpointManager 2) (NewCheckpoint ''a'' 0 ''t'' 0)))
      (config_for ''t'' ''a'') [NewPendingWrite 0 ''x'' (GInt 7) False ''n'' ''k''] = (cm', Inr ()) \<and>
     thread_cps cm' ''t'' = [NewCheckpoint ''a'' 0 ''t'' 0, n] \<and> cp_Version n = 1 \<and>
     map_of (State n) ''x'' = Some (GInt 7)"
proof -
  let ?cm = "fst (Save (NewCheckpointManager 2) (NewCheckpoint ''a'' 0 ''t'' 0))"
  have cps: "thread_cps ?cm ''t'' = [NewCheckpoint ''a'' 0 ''t'' 0]"
    using first_save [of 2 "NewCheckpoint ''a'' 0 ''t'' 0"] by (simp add: NewCheckpoint_def)
  have "ThreadID (config_for ''t'' ''a'') = ''t''" "GetOrEmpty (config_for ''t'' ''a'') ''checkpoint_id'' = ''a''"
    by simp_all
  then show ?thesis
    using PutWrites_spec [of ?cm "config_for ''t'' ''a''" "\<lambda>_. None" "''b''" 1
        "[NewPendingWrite 0 ''x'' (GInt 7) False ''n'' ''k'']"] cps
    by (fastforce simp: up_to_date_def NewPendingWrite_def NewCheckpoint_def)
qed

text \<open>Of two writers that loaded the same checkpoint only the first succeeds: once its write is in,
  the second is refused with a version conflict, as long as \<^verbatim>\<open>uuid.New\<close> did not return the old
  identifier again.\<close>

theorem PutWrites_stale_refused:
  assumes "snd (PutWrites jx uid now cm config ws) = Inr ()"
    and "uid \<noteq> GetOrEmpty config ''checkpoint_id''"
    and "ThreadID config' = ThreadID config"
    and "GetOrEmpty config' ''checkpoint_id'' = GetOrEmpty config ''checkpoint_id''"
  shows "\<exists>cur. PutWrites jx uid' now' (fst (PutWrites jx uid now cm config ws)) config' ws' =
    (fst (PutWrites jx uid now cm config ws),
     Inl (VersionConflictError cur (cur + 1) uid (ThreadID config)))"
proof -
  have ok: "up_to_date cm config"
    using assms(1) PutWrites_refused [of cm config jx uid now ws] by force
  then show ?thesis
    using assms(2-) by (auto simp: PutWrites_accepted PutWrites_def [of jx uid' now'] up_to_date_def Let_def
        fold_apply_write Clone_def)
qed

theorem PutWrites_stale_refused_witness:
  "\<exists>cur cm1. PutWrites (\<lambda>_. None) ''c'' 2 cm1 (config_for ''t'' ''a'') [] =
     (cm1, Inl (VersionConflictError cur (cur + 1) ''b'' ''t''))"
proof -
  let ?cm = "fst (Save (NewCheckpointManager 2) (NewCheckpoint ''a'' 0 ''t'' 0))"
  let ?cf = "config_for ''t'' ''a''"
  have cf: "ThreadID ?cf = ''t''" "GetOrEmpty ?cf ''checkpoint_id'' = ''a''"
    by simp_all
  have "thread_cps ?cm ''t'' = [NewCheckpoint ''a'' 0 ''t'' 0]"
    using first_save [of 2 "NewCheckpoint ''a'' 0 ''t'' 0"] by (simp add: NewCheckpoint_def)
  then have "snd (PutWrites (\<lambda>_. None) ''b'' 1 ?cm ?cf []) = Inr ()"
    by (simp add: PutWrites_accepted up_to_date_def cf NewCheckpoint_def)
  from PutWrites_stale_refused [OF this, of ?cf "''c''" 2 "[]"] cf show ?thesis
    by auto
qed

text \<open>A writer that follows the protocol literally, loading the latest checkpoint and naming the
  identifier of what it loaded, is always refused: \<^verbatim>\<open>Load\<close> returns a clone under a new identifier.\<close>

theorem PutWrites_with_loaded_id_refused:
  assumes "Load jx uid now cm t = Some c" and "uid \<noteq> cp_ID (last (thread_cps cm t))"
  shows "\<exists>e. PutWrites jx uid' now' cm (config_for t (cp_ID c)) ws = (cm, Inl e)"
proof (rule PutWrites_refused)
  have "cp_ID c = uid"
    using assms(1) by (auto simp: Load_def Let_def Clone_def split: if_splits)
  then show "\<not> up_to_date cm (config_for t (cp_ID c))"
    using assms(2) by (simp add: up_to_date_def)
qed

theorem PutWrites_with_loaded_id_refused_witness:
  "\<exists>e cm. Load (\<lambda>_. None) ''b'' 1 cm ''t'' \<noteq> None \<and>
     PutWrites (\<lambda>_. None) ''c'' 2 cm (config_for ''t'' ''b'') [] = (cm, Inl e)"
proof -
  let ?cm = "fst (Save (NewCheckpointManager 2) (NewCheckpoint ''a'' 0 ''t'' 0))"
  have cps: "thread_cps ?cm ''t'' = [NewCheckpoint ''a'' 0 ''t'' 0]"
    using first_save [of 2 "NewCheckpoint ''a'' 0 ''t'' 0"] by (simp add: NewCheckpoint_def)
  then have "Load (\<lambda>_. None) ''b'' 1 ?cm ''t'' = Some (Clone (\<lambda>_. None) ''b'' 1 (NewCheckpoint ''a'' 0 ''t'' 0))"
    by (simp add: Load_def)
  from PutWrites_with_loaded_id_refused [OF this, of "''c''" 2 "[]"] this cps show ?thesis
    by (auto simp: Clone_def NewCheckpoint_def)
qed

section \<open>MemorySaver\<close>

record checkpointEntry =
  ent_ID :: string
  ent_ThreadID :: string
  ent_Checkpoint :: gostate
  ent_Metadata :: gostate
  ent_CreatedAt :: int
  ent_ParentID :: string

record MemorySaver =
  ms_checkpoints :: "gostate gomap"
  versions :: "checkpointEntry list gomap"

definition NewMemorySaver :: MemorySaver where
  "NewMemorySaver = \<lparr>ms_checkpoints = [], versions = []\<rparr>"

definition ConfigKeyThreadID :: string where "ConfigKeyThreadID = ''thread_id''"
definition ConfigKeyCheckpointID :: string where "ConfigKeyCheckpointID = ''checkpoint_id''"

text \<open>\<open>s.versions[threadID]\<close>.\<close>

definition thread_entries :: "MemorySaver \<Rightarrow> string \<Rightarrow> checkpointEntry list" where
  "thread_entries s t = (case map_of (versions s) t of None \<Rightarrow> [] | Some es \<Rightarrow> es)"

text \<open>The result is \<^verbatim>\<open>(map, error)\<close>; a nil map without an error is \<^term>\<open>Inr None\<close>.\<close>

definition MemorySaver_Get ::
  "(goval \<Rightarrow> goval option) \<Rightarrow> MemorySaver \<Rightarrow> gostate \<Rightarrow> gerror + gostate option" where
  "MemorySaver_Get jx s config =
     (case as_string (gm_val config ConfigKeyThreadID) of
        None \<Rightarrow> Inl (PlainError ''thread_id is required'' [])
      | Some t \<Rightarrow>
          (case as_string (gm_val config ConfigKeyCheckpointID) of
             Some cid \<Rightarrow>
               (case filter (\<lambda>e. ent_ID e = cid) (thread_entries s t) of
                  e # _ \<Rightarrow> Inr (Some (deepCopyMap jx (ent_Checkpoint e)))
                | [] \<Rightarrow> Inl (PlainError ''checkpoint not found'' [cid]))
           | None \<Rightarrow>
               (if thread_entries s t = [] then Inr None
                else Inr (Some (deepCopyMap jx (ent_Checkpoint (last (thread_entries s t))))))))"

definition new_entry ::
  "(goval \<Rightarrow> goval option) \<Rightarrow> string \<Rightarrow> int \<Rightarrow> string \<Rightarrow> gostate \<Rightarrow> gostate \<Rightarrow> checkpointEntry" where
  "new_entry jx uid now t config cp =
     \<lparr>ent_ID = (case as_string (gm_val config ConfigKeyCheckpointID) of Some i \<Rightarrow> i | None \<Rightarrow> uid),
      ent_ThreadID = t, ent_Checkpoint = deepCopyMap jx cp, ent_Metadata = deepCopyMap jx config,
      ent_CreatedAt = now,
      ent_ParentID =
        (case as_string (gm_val config ''parent_checkpoint_id'') of Some i \<Rightarrow> i | None \<Rightarrow> [])\<rparr>"

definition append_entry :: "MemorySaver \<Rightarrow> string \<Rightarrow> checkpointEntry \<Rightarrow> MemorySaver" where
  "append_entry s t e = s\<lparr>versions := gm_set t (thread_entries s t @ [e]) (versions s)\<rparr>"

definition MemorySaver_Put ::
  "(goval \<Rightarrow> goval option) \<Rightarrow> string \<Rightarrow> int \<Rightarrow> MemorySaver \<Rightarrow> gostate \<Rightarrow> gostate
     \<Rightarrow> (gerror, MemorySaver, unit) outcome" where
  "MemorySaver_Put jx uid now s config cp =
     (case as_string (gm_val config ConfigKeyThreadID) of
        None \<Rightarrow> (s, Inl (PlainError ''thread_id is required'' []))
      | Some t \<Rightarrow>
          ((append_entry s t (new_entry jx uid now t config cp))
             \<lparr>ms_checkpoints := gm_set t (deepCopyMap jx cp) (ms_checkpoints s)\<rparr>, Inr ()))"

definition MemorySaver_List ::
  "(goval \<Rightarrow> goval option) \<Rightarrow> MemorySaver \<Rightarrow> gostate \<Rightarrow> int \<Rightarrow> gerror + gostate list" where
  "MemorySaver_List jx s config limit =
     (case as_string (gm_val config ConfigKeyThreadID) of
        None \<Rightarrow> Inl (PlainError ''thread_id is required'' [])
      | Some t \<Rightarrow>
          Inr (map (\<lambda>e. [(ConfigKeyCheckpointID, GStr (ent_ID e)), (ConfigKeyThreadID, GStr (ent_ThreadID e)),
                 (''metadata'', GMap (deepCopyMap jx (ent_Metadata e))),
                 (''created_at'', time_val (ent_CreatedAt e)), (''parent_id'', GStr (ent_ParentID e))])
               (rev (last_entries limit (thread_entries s t)))))"

definition MemorySaver_GetState ::
  "(goval \<Rightarrow> goval option) \<Rightarrow> MemorySaver \<Rightarrow> gostate \<Rightarrow> gerror + (gostate \<times> gostate) option" where
  "MemorySaver_GetState jx s config =
     (let state = (\<lambda>e. (deepCopyMap jx (ent_Checkpoint e), deepCopyMap jx (ent_Metadata e)))
      in case as_string (gm_val config ConfigKeyThreadID) of
        None \<Rightarrow> Inl (PlainError ''thread_id is required'' [])
      | Some t \<Rightarrow>
          (case as_string (gm_val config ConfigKeyCheckpointID) of
             None \<Rightarrow>
               (if thread_entries s t = [] then Inr None else Inr (Some (state (last (thread_entries s t)))))
           | Some cid \<Rightarrow>
               (case filter (\<lambda>e. ent_ID e = cid) (thread_entries s t) of
                  e # _ \<Rightarrow> Inr (Some (state e))
                | [] \<Rightarrow> Inl (PlainError ''checkpoint not found'' [cid]))))"

lemma thread_entries_append:
  "thread_entries (append_entry s t e) t' = (if t' = t then thread_entries s t @ [e] else thread_entries s t')"
  by (simp add: append_entry_def thread_entries_def gomap_simps)

interpretation ms_log: thread_log thread_entries append_entry "\<lambda>_. True"
  by unfold_locales (auto simp: thread_entries_append intro!: exI [of _ 0])

text \<open>Saving a sequence of checkpoints, each with its thread, as the engine does.\<close>

definition thread_config :: "string \<Rightarrow> gostate" where
  "thread_config t = [(ConfigKeyThreadID, GStr t)]"

definition save_all ::
  "(goval \<Rightarrow> goval option) \<Rightarrow> (string \<times> gostate \<Rightarrow> string) \<Rightarrow> MemorySaver \<Rightarrow> (string \<times> gostate) list \<Rightarrow> MemorySaver" where
  "save_all jx uid s ops =
     foldl (\<lambda>s p. fst (MemorySaver_Put jx (uid p) 0 s (thread_config (fst p)) (snd p))) s ops"

lemma thread_config_simps [simp]:
  "as_string (gm_val (thread_config t) ConfigKeyThreadID) = Some t"
  "as_string (gm_val (thread_config t) ConfigKeyCheckpointID) = None"
  by (simp_all add: thread_config_def gm_val_def assert_defs ConfigKeyThreadID_def ConfigKeyCheckpointID_def)

lemma save_all_entries:
  "thread_entries (save_all jx uid s ops) t =
     thread_entries (foldl (\<lambda>s (t, c). append_entry s t c) s
       (map (\<lambda>p. (fst p, new_entry jx (uid p) 0 (fst p) (thread_config (fst p)) (snd p))) ops)) t"
  unfolding save_all_def
proof (induction ops arbitrary: t rule: rev_induct)
  case (snoc p ops)
  have "thread_entries (s'\<lparr>ms_checkpoints := x\<rparr>) u = thread_entries s' u" for s' x u
    by (simp add: thread_entries_def)
  with snoc show ?case
    by (simp add: MemorySaver_Put_def thread_entries_append)
qed simp

text \<open>After any sequence of saves to any threads, \<^verbatim>\<open>Get\<close> for a thread returns the last checkpoint
  saved to it, unchanged if it holds JSON values only.\<close>

theorem MemorySaver_latest:
  assumes "(t, cp) \<in> set ops" and "\<forall>cp'. (t, cp') \<in> set ops \<longrightarrow> list_all (\<lambda>p. is_json (snd p)) cp'"
  shows "MemorySaver_Get jx (save_all jx uid s ops) (thread_config t) =
    Inr (Some (last (map snd (filter (\<lambda>(u, c). u = t) ops))))"
proof -
  let ?e = "\<lambda>p. new_entry jx (uid p) 0 (fst p) (thread_config (fst p)) (snd p)"
  let ?ops = "map (\<lambda>p. (fst p, ?e p)) ops" and ?mine = "filter (\<lambda>(u, c). u = t) ops"
  have mine: "filter (\<lambda>(u, c). u = t) ?ops = map (\<lambda>p. (fst p, ?e p)) ?mine"
    by (induction ops) auto
  have ne: "?mine \<noteq> []"
    using assms(1) by (auto simp: filter_empty_conv)
  have "\<exists>c. (t, c) \<in> set ?ops"
    using assms(1) by force
  from ms_log.latest_after(1) [OF TrueI this, of s] ne
  have entries: "thread_entries (save_all jx uid s ops) t \<noteq> []"
    "last (thread_entries (save_all jx uid s ops) t) = ?e (last ?mine)"
    by (simp_all add: save_all_entries mine last_map comp_def)
  have "last ?mine \<in> set ?mine"
    using ne by (rule last_in_set)
  then have "list_all (\<lambda>p. is_json (snd p)) (snd (last ?mine))"
    using assms(2) unfolding set_filter by (metis (mono_tags, lifting) mem_Collect_eq prod.collapse split_beta)
  then show ?thesis
    using entries ne by (simp add: MemorySaver_Get_def new_entry_def deepCopyMap_json last_map)
qed

theorem MemorySaver_latest_witness:
  "MemorySaver_Get (\<lambda>_. None) (save_all (\<lambda>_. None) fst NewMemorySaver
      [(''t'', [(''x'', GBool True)]), (''u'', []), (''t'', [(''x'', GBool False)]), (''u'', [])]) (thread_config ''t'')
   = Inr (Some [(''x'', GBool False)])"
  using MemorySaver_latest [of "''t''" "[(''x'', GBool False)]"
      "[(''t'', [(''x'', GBool True)]), (''u'', []), (''t'', [(''x'', GBool False)]), (''u'', [])]"
      "\<lambda>_. None" fst NewMemorySaver]
  by auto

text \<open>An integer counter does not survive a save and restore: it comes back as a \<^verbatim>\<open>float64\<close>, and
  from then on the aggregate ignores every integer written to it.\<close>

theorem restored_counter_frozen:
  "ch_Update (ch_FromCheckpoint (ChBinop (NewBinaryOperatorAggregate TInt IntAdd))
       (deepCopy jx (ch_Checkpoint (ChBinop ((NewBinaryOperatorAggregate TInt IntAdd)\<lparr>bo_value := GInt n\<rparr>)))))
     [GInt k]
   = (ChBinop ((NewBinaryOperatorAggregate TInt IntAdd)\<lparr>bo_value := GFloat (f64_round (of_int (sint n)))\<rparr>), Inr True)"
  by (simp add: chan_defs json_rt_def isOverwrite_def IntAdd_def out_map_def)

end
