(* ===== verification/EngineIO.thy ===== *)
theory EngineIO
  imports Routing Savers
begin

text \<open>
  How the engine moves data between its channels and the nodes (\<^verbatim>\<open>pregel/engine.go\<close>): writing the input
  of a run, reading the input of a task, running the tasks of a step, and applying what they return.
\<close>

section \<open>Input (applyInput, caseFoldKey)\<close>

text \<open>The type of a value, for the channels that are made on the fly; no method of \<^verbatim>\<open>LastValue\<close> uses it.\<close>

definition type_of_value :: "goval \<Rightarrow> gotype" where
  "type_of_value v =
     (case v of
        GNil \<Rightarrow> TNil | GBool b \<Rightarrow> TBool | GInt n \<Rightarrow> TInt | GNum k n \<Rightarrow> TNum k | GFloat x \<Rightarrow> TFloat64
      | GStr s \<Rightarrow> TString | GBytes b \<Rightarrow> TBytes | GList xs \<Rightarrow> TSliceAny | GMap m \<Rightarrow> TMapAny
      | GBoolMap m \<Rightarrow> TMapBool | GIntMap m \<Rightarrow> TMapInt | _ \<Rightarrow> TOther v)"

definition has_channel :: "Registry \<Rightarrow> string \<Rightarrow> bool" where
  "has_channel reg k = (Registry_Get reg k \<noteq> None)"

definition shift_char :: "int \<Rightarrow> char \<Rightarrow> char" where
  "shift_char d c = char_of (nat (int (of_char c :: nat) + d))"

text \<open>A registered channel whose name differs from the key in the case of the first letter, else empty.\<close>

definition caseFoldKey :: "Registry \<Rightarrow> string \<Rightarrow> string" where
  "caseFoldKey reg key =
     (case key of
        [] \<Rightarrow> []
      | c # cs \<Rightarrow>
          if CHR ''a'' \<le> c \<and> c \<le> CHR ''z'' \<and> has_channel reg (shift_char (- 32) c # cs)
          then shift_char (- 32) c # cs
          else if CHR ''A'' \<le> c \<and> c \<le> CHR ''Z'' \<and> has_channel reg (shift_char 32 c # cs)
          then shift_char 32 c # cs
          else [])"

text \<open>The loop over the input changes the input map and the registry.\<close>

fun input_loop :: "Registry \<Rightarrow> gostate \<Rightarrow> gostate \<Rightarrow> Registry \<times> gostate" where
  "input_loop reg im [] = (reg, im)"
| "input_loop reg im ((k, v) # rest) =
     (if has_channel reg k then input_loop reg im rest
      else if caseFoldKey reg k \<noteq> [] then input_loop reg (gm_set (caseFoldKey reg k) v (gm_delete k im)) rest
      else input_loop (Register reg k (ChLastValue (NewLastValue (type_of_value v)))) im rest)"

text \<open>
  The result has the registry, the input as the caller sees it afterwards (a \<^verbatim>\<open>map[string]any\<close> is
  changed in place), and the error.
\<close>

definition applyInput :: "Registry \<Rightarrow> goval \<Rightarrow> (gerror, Registry \<times> goval, unit) outcome" where
  "applyInput reg inp =
     (case toMap inp of
        Inl e \<Rightarrow> ((reg, inp), Inl e)
      | Inr m \<Rightarrow>
          let (reg1, im) = input_loop reg m m;
              inp' = (case as_map inp of None \<Rightarrow> inp | Some _ \<Rightarrow> GMap im);
              writes = map (\<lambda>(k, v). (k, [v])) im
          in if writes = [] then ((reg1, inp'), Inr ())
             else let (reg2, res) = UpdateChannels reg1 writes in ((reg2, inp'), res))"

section \<open>Reading the input of a task\<close>

fun read_loop :: "Registry \<Rightarrow> gostate \<Rightarrow> string list \<Rightarrow> (gerror, Registry, goval) outcome" where
  "read_loop reg vals [] = (reg, Inr (GMap vals))"
| "read_loop reg vals (name # names) =
     (case Registry_Get reg name of
        None \<Rightarrow> read_loop reg vals names
      | Some ch \<Rightarrow>
          (let (ch', res) = ch_Get ch; reg' = Register reg name ch'
           in (case res of
                 Inl e \<Rightarrow> if IsEmptyChannelError e then read_loop reg' vals names else (reg', Inl e)
               | Inr v \<Rightarrow> read_loop reg' (gm_set name v vals) names)))"

definition readTaskInput :: "Registry \<Rightarrow> Task \<Rightarrow> (gerror, Registry, goval) outcome" where
  "readTaskInput reg t =
     (if task_Channels t = [] then (reg, Inr (GMap [])) else read_loop reg [] (task_Channels t))"

text \<open>
  \<^verbatim>\<open>mapToStateSchema\<close>: where the schema is a struct, its exported fields are filled from the map.
  \<open>assign v t\<close> is the value stored in a field of type \<open>t\<close>, \<^const>\<open>None\<close> where \<open>v\<close> is neither assignable
  nor convertible to \<open>t\<close>. A nil value has no type, and asking for it panics.
\<close>

fun schema_elem :: "schema \<Rightarrow> schema" where
  "schema_elem (SPtr s) = schema_elem s"
| "schema_elem s = s"

fun fill_fields :: "(goval \<Rightarrow> gotype \<Rightarrow> goval option) \<Rightarrow> gostate \<Rightarrow> StructField list \<Rightarrow> gerror + gostate" where
  "fill_fields assign m [] = Inr []"
| "fill_fields assign m (f # fs) =
     (if PkgPath f \<noteq> [] then fill_fields assign m fs
      else (case (case map_of m (sf_Name f) of
                    None \<Rightarrow> Inr (zero_of (sf_Type f))
                  | Some GNil \<Rightarrow> Inl (PanicError ''reflect: call of Value.Type on zero Value'')
                  | Some v \<Rightarrow> Inr (case assign v (sf_Type f) of Some w \<Rightarrow> w | None \<Rightarrow> zero_of (sf_Type f))) of
              Inl e \<Rightarrow> Inl e
            | Inr w \<Rightarrow> (case fill_fields assign m fs of Inl e \<Rightarrow> Inl e | Inr ws \<Rightarrow> Inr ((sf_Name f, w) # ws))))"

definition mapToStateSchema ::
  "(goval \<Rightarrow> gotype \<Rightarrow> goval option) \<Rightarrow> stateGraph \<Rightarrow> goval \<Rightarrow> gerror + goval" where
  "mapToStateSchema assign g inp =
     (case as_map inp of
        None \<Rightarrow> Inr inp
      | Some m \<Rightarrow>
          (case schema_elem (stateSchema g) of
             SStruct fs \<Rightarrow>
               (case fill_fields assign m fs of
                  Inl e \<Rightarrow> Inl e
                | Inr ws \<Rightarrow>
                    Inr (case stateSchema g of SPtr s \<Rightarrow> GPtr (GStruct [] ws) | _ \<Rightarrow> GStruct [] ws))
           | _ \<Rightarrow> Inr inp))"

section \<open>Running the tasks of a step\<close>

text \<open>
  The tasks run concurrently; their results are stored by task, and the model reads the inputs in the
  order of the tasks. A panic of a node is recovered by the retry executor, one of the conversion of
  its input is not. The context is not cancelled while the tasks run.
\<close>

definition run_task ::
  "(goval \<Rightarrow> gotype \<Rightarrow> goval option) \<Rightarrow> 's Engine \<Rightarrow> Registry \<Rightarrow> Task \<Rightarrow> (gerror, Registry, TaskResult) outcome" where
  "run_task assign e reg t =
     (case readTaskInput reg t of
        (reg', Inl err) \<Rightarrow>
          (reg', Inr \<lparr>res_Name = task_Name t, res_Output = GNil,
                      res_Err = Some (WrapError ''failed to read task input'' [] err)\<rparr>)
      | (reg', Inr inp) \<Rightarrow>
          (case mapToStateSchema assign (graph e) inp of
             Inl p \<Rightarrow> (reg', Inl p)
           | Inr inp' \<Rightarrow>
               let fn = (\<lambda>k. case task_Func t of None \<Rightarrow> CPanic ''nil function'' | Some f \<Rightarrow> f inp');
                   r = RetryExecutor_Execute (NewRetryExecutor (Some (resolveRetryPolicy e t))) (task_Name t) fn
                         (\<lambda>_. False) 0
               in (reg', Inr (case snd r of
                    Inr out \<Rightarrow> \<lparr>res_Name = task_Name t, res_Output = out, res_Err = None\<rparr>
                  | Inl err \<Rightarrow> \<lparr>res_Name = task_Name t, res_Output = GNil, res_Err = Some err\<rparr>))))"

text \<open>The tasks of a step one after the other; the functions of nodes are total functions of their input, so a node that blocks or
  changes something outside is not covered.\<close>

fun executeTasksAsync ::
  "(goval \<Rightarrow> gotype \<Rightarrow> goval option) \<Rightarrow> 's Engine \<Rightarrow> Registry \<Rightarrow> Task list \<Rightarrow> (gerror, Registry, TaskResult list) outcome" where
  "executeTasksAsync assign e reg [] = (reg, Inr [])"
| "executeTasksAsync assign e reg (t # ts) =
     (case run_task assign e reg t of
        (reg', Inl p) \<Rightarrow> (reg', Inl p)
      | (reg', Inr r) \<Rightarrow>
          (case executeTasksAsync assign e reg' ts of
             (reg'', Inl p) \<Rightarrow> (reg'', Inl p)
           | (reg'', Inr rs) \<Rightarrow> (reg'', Inr (r # rs))))"

text \<open>The synchronous variant, which marks the error of exhausted retries.\<close>

definition executeTask ::
  "(goval \<Rightarrow> gotype \<Rightarrow> goval option) \<Rightarrow> 's Engine \<Rightarrow> Registry \<Rightarrow> Task \<Rightarrow> (gerror, Registry, TaskResult) outcome" where
  "executeTask assign e reg t =
     (case run_task assign e reg t of
        (reg', Inl p) \<Rightarrow> (reg', Inl p)
      | (reg', Inr r) \<Rightarrow>
          (reg', Inr (case res_Err r of
             None \<Rightarrow> r
           | Some err \<Rightarrow>
               if IsRetryExhausted err then r\<lparr>res_Err := Some (WrapError ''max retries exceeded'' [] err)\<rparr> else r)))"

fun executeTasks ::
  "(goval \<Rightarrow> gotype \<Rightarrow> goval option) \<Rightarrow> 's Engine \<Rightarrow> Registry \<Rightarrow> Task list \<Rightarrow> (gerror, Registry, TaskResult list) outcome" where
  "executeTasks assign e reg [] = (reg, Inr [])"
| "executeTasks assign e reg (t # ts) =
     (case executeTask assign e reg t of
        (reg', Inl p) \<Rightarrow> (reg', Inl p)
      | (reg', Inr r) \<Rightarrow>
          (case executeTasks assign e reg' ts of
             (reg'', Inl p) \<Rightarrow> (reg'', Inl p)
           | (reg'', Inr rs) \<Rightarrow> (reg'', Inr (r # rs))))"

section \<open>Versions seen by nodes\<close>

definition markSeen :: "string \<Rightarrow> string \<Rightarrow> 's Engine \<Rightarrow> 's Engine" where
  "markSeen node ch e =
     (let e1 = e\<lparr>versionsSeen := seen_set node ch (gm_int (channelVersions e) ch) (versionsSeen e)\<rparr>
      in e1\<lparr>currentCheckpoint := map_option (MarkSeen node ch) (currentCheckpoint e1)\<rparr>)"

definition hasSeen :: "string \<Rightarrow> string \<Rightarrow> 's Engine \<Rightarrow> bool" where
  "hasSeen node ch e =
     (case map_of (versionsSeen e) node of
        None \<Rightarrow> False
      | Some vs \<Rightarrow>
          (case map_of vs ch of None \<Rightarrow> False | Some v \<Rightarrow> v = gm_int (channelVersions e) ch))"

section \<open>Applying the writes of a step (applyWrites)\<close>

text \<open>The writes of one output map: values per channel, and the last pending write of each.\<close>

definition add_write ::
  "string \<Rightarrow> string \<times> goval \<Rightarrow> goval list gomap \<times> PendingWrite gomap \<Rightarrow> goval list gomap \<times> PendingWrite gomap" where
  "add_write node kv acc =
     (let (key, value) = kv
      in if value = GNil then acc
         else let (v, ow) = (case value of GOverwrite w \<Rightarrow> (w, True) | _ \<Rightarrow> (value, False))
              in (gm_app key v (fst acc),
                  gm_set key \<lparr>pw_Channel = key, pw_Value = v, pw_Overwrite = ow, pw_Node = node,
                              pw_Timestamp = 0, pw_TaskID = []\<rparr> (snd acc)))"

fun collect_writes ::
  "'s Engine \<Rightarrow> TaskResult list \<Rightarrow> goval list gomap \<times> PendingWrite gomap
     \<Rightarrow> gerror + goval list gomap \<times> PendingWrite gomap" where
  "collect_writes e [] acc = Inr acc"
| "collect_writes e (r # rs) acc =
     (if res_Err r \<noteq> None \<or> res_Output r = GNil then collect_writes e rs acc
      else (case toMap (res_Output r) of
              Inl err \<Rightarrow> Inl (WrapError ''failed to convert output to map'' [] err)
            | Inr om \<Rightarrow>
                (case (case getNode e (res_Name r) of
                         None \<Rightarrow> Inr om
                       | Some n \<Rightarrow> applyFieldMapping om (node_FieldMapping n)) of
                   Inl p \<Rightarrow> Inl p
                 | Inr om' \<Rightarrow> collect_writes e rs (fold (add_write (res_Name r)) om' acc))))"

text \<open>The values handed to a channel: no nils, and only the last unless the channel aggregates.\<close>

fun aggregates :: "channel \<Rightarrow> bool" where
  "aggregates (ChBinop c) = True"
| "aggregates (ChReducer c f) = True"
| "aggregates _ = False"

definition step_values :: "channel \<Rightarrow> goval list \<Rightarrow> goval list" where
  "step_values ch vs =
     (let filtered = filter (\<lambda>v. v \<noteq> GNil) vs
      in if length filtered > 1 \<and> \<not> aggregates ch then [last filtered] else filtered)"

text \<open>The channel written under a name: a missing one is made on the fly.\<close>

definition written_channel :: "Registry \<Rightarrow> string \<Rightarrow> channel" where
  "written_channel reg name =
     (case Registry_Get reg name of None \<Rightarrow> ChLastValue (NewLastValue TNil) | Some c \<Rightarrow> c)"

definition write_channel ::
  "string \<Rightarrow> goval list \<Rightarrow> 's Engine \<Rightarrow> Registry \<Rightarrow> (gerror, 's Engine \<times> Registry, bool) outcome" where
  "write_channel name vs e reg =
     (let ch = written_channel reg name;
          (ch1, res) = ch_Update ch (step_values ch vs)
      in (case res of
            Inl err \<Rightarrow> ((e, Register reg name ch1), Inl (WrapError ''failed to update channel'' [name] err))
          | Inr updated \<Rightarrow>
              if updated \<and> ch_IsAvailable ch1 then
                let vs' = gm_incr name (channelVersions e);
                    e1 = e\<lparr>channelVersions := vs',
                           currentCheckpoint := map_option (IncrementChannel name) (currentCheckpoint e)\<rparr>
                in ((e1, Register reg name (ch_SetVersion (gm_int vs' name) ch1)), Inr True)
              else ((e, Register reg name ch1), Inr False)))"

text \<open>The values collected for a channel.\<close>

definition writes_of :: "goval list gomap \<Rightarrow> string \<Rightarrow> goval list" where
  "writes_of ws name = (case map_of ws name of None \<Rightarrow> [] | Some vs \<Rightarrow> vs)"

fun write_loop ::
  "goval list gomap \<Rightarrow> string list \<Rightarrow> 's Engine \<Rightarrow> Registry \<Rightarrow> string list
     \<Rightarrow> (gerror, 's Engine \<times> Registry, string list) outcome" where
  "write_loop ws [] e reg updated = ((e, reg), Inr updated)"
| "write_loop ws (name # names) e reg updated =
     (case write_channel name (writes_of ws name) e reg of
        (st, Inl err) \<Rightarrow> (st, Inl err)
      | (st, Inr u) \<Rightarrow> write_loop ws names (fst st) (snd st) (if u then updated @ [name] else updated))"

definition applyWrites ::
  "(string list \<Rightarrow> string list) \<Rightarrow> 's Engine \<Rightarrow> Registry \<Rightarrow> TaskResult list \<Rightarrow> string list
     \<Rightarrow> (gerror, 's Engine \<times> Registry, string list) outcome" where
  "applyWrites ord e reg results triggers =
     (case collect_writes e (sort_key res_Name results) ([], []) of
        Inl err \<Rightarrow> ((e, reg), Inl err)
      | Inr (ws, pws) \<Rightarrow>
          (case write_loop ws (ord (gm_keys ws)) e reg [] of
             (st, Inl err) \<Rightarrow> (st, Inl err)
           | ((e1, reg1), Inr updated) \<Rightarrow>
               let e2 = e1\<lparr>currentCheckpoint := map_option (\<lambda>cp.
                          fold (\<lambda>k cp. case map_of pws k of
                                  None \<Rightarrow> cp
                                | Some pw \<Rightarrow> AddPendingWrite (pw_Channel pw) (pw_Value pw) (pw_Overwrite pw) (pw_Node pw) cp)
                            (ord (gm_keys pws)) cp) (currentCheckpoint e1)\<rparr>;
                   e3 = fold (\<lambda>n e. if n \<in> set triggers then fold (\<lambda>c e. markSeen n c e) updated e else e)
                          (ord (gm_keys ws)) e2
               in ((e3, reg1), Inr updated)))"

section \<open>What a step writes\<close>

definition step_update :: "Registry \<Rightarrow> string \<Rightarrow> goval list \<Rightarrow> (gerror, channel, bool) outcome" where
  "step_update reg name vs = ch_Update (written_channel reg name) (step_values (written_channel reg name) vs)"

definition bumped :: "Registry \<Rightarrow> string \<Rightarrow> goval list \<Rightarrow> bool" where
  "bumped reg name vs \<longleftrightarrow> snd (step_update reg name vs) = Inr True \<and> ch_IsAvailable (fst (step_update reg name vs))"

text \<open>The channel after the step, given its version before.\<close>

definition step_channel :: "Registry \<Rightarrow> int \<Rightarrow> string \<Rightarrow> goval list \<Rightarrow> channel" where
  "step_channel reg v name vs =
     (let ch = fst (step_update reg name vs) in if bumped reg name vs then ch_SetVersion (v + 1) ch else ch)"

lemma Registry_Get_Register [simp]:
  "Registry_Get (Register reg name c) k = (if k = name then Some c else Registry_Get reg k)"
  by (simp add: Registry_Get_def Register_def gomap_simps)

lemma write_channel_spec:
  "write_channel name vs e reg =
     (case snd (step_update reg name vs) of
        Inl err \<Rightarrow> ((e, Register reg name (fst (step_update reg name vs))),
                    Inl (WrapError ''failed to update channel'' [name] err))
      | Inr _ \<Rightarrow>
          ((if bumped reg name vs
            then e\<lparr>channelVersions := gm_incr name (channelVersions e),
                   currentCheckpoint := map_option (IncrementChannel name) (currentCheckpoint e)\<rparr>
            else e,
            Register reg name (step_channel reg (gm_int (channelVersions e) name) name vs)),
           Inr (bumped reg name vs)))"
  by (auto simp: write_channel_def step_update_def bumped_def step_channel_def Let_def split_beta gomap_simps
      split: sum.split)

lemma step_update_cong:
  "Registry_Get reg name = Registry_Get reg' name \<Longrightarrow> step_update reg name vs = step_update reg' name vs"
  by (simp add: step_update_def written_channel_def)

lemma bumped_cong: "Registry_Get reg name = Registry_Get reg' name \<Longrightarrow> bumped reg name vs = bumped reg' name vs"
  by (simp add: bumped_def step_update_cong [of reg name reg'])

lemma step_channel_cong:
  "Registry_Get reg name = Registry_Get reg' name \<Longrightarrow> step_channel reg v name vs = step_channel reg' v name vs"
  by (simp add: step_channel_def step_update_cong [of reg name reg'] bumped_cong [of reg name reg'])


text \<open>One round of the loop leaves the channels of the other names as they were.\<close>

definition after_write :: "goval list gomap \<Rightarrow> string \<Rightarrow> 's Engine \<Rightarrow> Registry \<Rightarrow> 's Engine \<times> Registry" where
  "after_write ws name e reg = fst (write_channel name (writes_of ws name) e reg)"

lemma after_write_other [simp]:
  "k \<noteq> name \<Longrightarrow> Registry_Get (snd (after_write ws name e reg)) k = Registry_Get reg k"
  "gm_int (channelVersions (fst (after_write ws name e reg))) k =
     gm_int (channelVersions e) k + (if k = name \<and> bumped reg name (writes_of ws name) then 1 else 0)"
  by (auto simp: after_write_def write_channel_spec gomap_simps bumped_def split: sum.split)

lemma write_loop_Cons:
  "write_loop ws (name # names) e reg upd =
     (case snd (step_update reg name (writes_of ws name)) of
        Inl err \<Rightarrow> (after_write ws name e reg, Inl (WrapError ''failed to update channel'' [name] err))
      | Inr _ \<Rightarrow> write_loop ws names (fst (after_write ws name e reg)) (snd (after_write ws name e reg))
          (if bumped reg name (writes_of ws name) then upd @ [name] else upd))"
  by (simp add: after_write_def write_channel_spec split: sum.split)

declare write_loop.simps(2) [simp del]

lemma write_loop_ok_iff:
  "distinct names \<Longrightarrow> is_ok (snd (write_loop ws names e reg upd)) \<longleftrightarrow>
     (\<forall>k \<in> set names. is_ok (snd (step_update reg k (writes_of ws k))))"
proof (induction names arbitrary: e reg upd)
  case (Cons name names)
  let ?reg = "snd (after_write ws name e reg)"
  have other: "Registry_Get ?reg k = Registry_Get reg k" if "k \<in> set names" for k
    using Cons.prems that by (intro after_write_other) auto
  have "(\<forall>k \<in> set names. is_ok (snd (step_update ?reg k (writes_of ws k)))) \<longleftrightarrow>
      (\<forall>k \<in> set names. is_ok (snd (step_update reg k (writes_of ws k))))"
    by (intro ball_cong) (simp_all add: step_update_cong [OF other])
  then show ?case
    using Cons by (simp add: write_loop_Cons split: sum.split)
qed simp

lemma write_loop_result:
  assumes "distinct names" and "write_loop ws names e reg upd = ((e', reg'), Inr updated)"
  shows "updated = upd @ filter (\<lambda>k. bumped reg k (writes_of ws k)) names \<and>
    (\<forall>k. Registry_Get reg' k = (if k \<in> set names
       then Some (step_channel reg (gm_int (channelVersions e) k) k (writes_of ws k)) else Registry_Get reg k)) \<and>
    (\<forall>k. gm_int (channelVersions e') k =
       gm_int (channelVersions e) k + (if k \<in> set names \<and> bumped reg k (writes_of ws k) then 1 else 0)) \<and>
    versionsSeen e' = versionsSeen e"
  using assms
proof (induction names arbitrary: e reg upd)
  case (Cons name names)
  let ?e = "fst (after_write ws name e reg)" and ?reg = "snd (after_write ws name e reg)"
  let ?upd = "if bumped reg name (writes_of ws name) then upd @ [name] else upd"
  obtain b where ok: "snd (step_update reg name (writes_of ws name)) = Inr b"
    using Cons.prems(2) by (cases "snd (step_update reg name (writes_of ws name))") (auto simp: write_loop_Cons)
  have other: "Registry_Get ?reg k = Registry_Get reg k" if "k \<in> set names" for k
    using Cons.prems(1) that by (intro after_write_other) auto
  have "write_loop ws names ?e ?reg ?upd = ((e', reg'), Inr updated)"
    using Cons.prems(2) ok by (simp add: write_loop_Cons)
  from Cons.IH [OF _ this] Cons.prems(1)
  have IH: "updated = ?upd @ filter (\<lambda>k. bumped ?reg k (writes_of ws k)) names"
    "Registry_Get reg' k = (if k \<in> set names
       then Some (step_channel ?reg (gm_int (channelVersions ?e) k) k (writes_of ws k)) else Registry_Get ?reg k)"
    "gm_int (channelVersions e') k =
       gm_int (channelVersions ?e) k + (if k \<in> set names \<and> bumped ?reg k (writes_of ws k) then 1 else 0)"
    "versionsSeen e' = versionsSeen ?e" for k
    by auto
  have "filter (\<lambda>k. bumped ?reg k (writes_of ws k)) names = filter (\<lambda>k. bumped reg k (writes_of ws k)) names"
    by (rule filter_cong) (simp_all add: bumped_cong [OF other])
  moreover have "Registry_Get ?reg name = Some (step_channel reg (gm_int (channelVersions e) name) name (writes_of ws name))"
    "versionsSeen ?e = versionsSeen e"
    using ok by (simp_all add: after_write_def write_channel_spec)
  ultimately show ?case
    using Cons.prems(1)
    by (auto simp: IH bumped_cong [OF other] step_channel_cong [OF other])
qed simp


lemma collect_writes_gm_ok:
  "collect_writes e rs acc = Inr acc' \<Longrightarrow> gm_ok (fst acc) \<Longrightarrow> gm_ok (fst acc')"
proof (induction rs arbitrary: acc)
  case (Cons r rs)
  have add: "gm_ok (fst (add_write node kv acc))" if "gm_ok (fst acc)" for node kv acc
    using that by (auto simp: add_write_def split_beta Let_def split: goval.split)
  have "gm_ok (fst (fold (add_write node) om acc))" for node om
    using Cons.prems(2) by (intro fold_invariant' [where P = "\<lambda>acc. gm_ok (fst acc)"] add)
  then show ?case
    using Cons by (auto split: if_splits sum.splits)
qed simp

lemma markSeen_keeps [simp]: "channelVersions (markSeen n c e) = channelVersions e"
  by (simp add: markSeen_def Let_def)

lemma markSeen_fold_keeps [simp]: "channelVersions (fold (markSeen n) cs e) = channelVersions e"
  by (induction cs arbitrary: e) simp_all

lemma mark_loop_keeps [simp]:
  "channelVersions (fold (\<lambda>n e. if n \<in> set triggers then fold (markSeen n) cs e else e) ns e) = channelVersions e"
  by (induction ns arbitrary: e) simp_all

text \<open>The writes of a step, by channel.\<close>

definition step_writes :: "'s Engine \<Rightarrow> TaskResult list \<Rightarrow> gerror + goval list gomap" where
  "step_writes e results = map_sum id fst (collect_writes e (sort_key res_Name results) ([], []))"

lemma step_writes_Inr:
  assumes "step_writes e results = Inr ws"
  obtains pws where "collect_writes e (sort_key res_Name results) ([], []) = Inr (ws, pws)" and "gm_ok ws"
proof -
  from assms obtain pws where *: "collect_writes e (sort_key res_Name results) ([], []) = Inr (ws, pws)"
    by (auto simp: step_writes_def map_sum_def split: sum.splits)
  show thesis
    using that [OF *] collect_writes_gm_ok [OF *] by simp
qed

lemma ord_perm: "mset (ord xs) = mset xs \<Longrightarrow> set (ord xs) = set xs \<and> distinct (ord xs) = distinct xs"
  by (metis mset_eq_setD mset_eq_imp_distinct_iff)

text \<open>C5: a step's writes are applied exactly when every written channel accepts its values, and then
  each channel is its own update with them, the others are untouched, and the version of exactly the
  updated channels is one higher: none of it depends on the order in which Go walks the map of writes.\<close>

theorem applyWrites_spec:
  assumes "step_writes e results = Inr ws" and "\<And>xs. mset (ord xs) = mset xs"
  shows "(is_ok (snd (applyWrites ord e reg results triggers)) \<longleftrightarrow>
      (\<forall>k \<in> set (gm_keys ws). is_ok (snd (step_update reg k (writes_of ws k))))) \<and>
    (\<forall>e' reg' updated. applyWrites ord e reg results triggers = ((e', reg'), Inr updated) \<longrightarrow>
      set updated = {k \<in> set (gm_keys ws). bumped reg k (writes_of ws k)} \<and>
      (\<forall>k. Registry_Get reg' k = (if k \<in> set (gm_keys ws)
        then Some (step_channel reg (gm_int (channelVersions e) k) k (writes_of ws k)) else Registry_Get reg k)) \<and>
      (\<forall>k. gm_int (channelVersions e') k = gm_int (channelVersions e) k + (if k \<in> set updated then 1 else 0)))"
proof -
  obtain pws where c: "collect_writes e (sort_key res_Name results) ([], []) = Inr (ws, pws)" and ok: "gm_ok ws"
    using step_writes_Inr [OF assms(1)] .
  have keys: "set (ord (gm_keys ws)) = set (gm_keys ws)" and dist: "distinct (ord (gm_keys ws))"
    using ord_perm [of ord "gm_keys ws", OF assms(2)] ok by simp_all
  have ok_iff: "is_ok (snd (applyWrites ord e reg results triggers)) \<longleftrightarrow>
      (\<forall>k \<in> set (gm_keys ws). is_ok (snd (step_update reg k (writes_of ws k))))"
    using write_loop_ok_iff [OF dist, of ws e reg "[]"] keys
    by (auto simp: applyWrites_def c Let_def split: prod.splits sum.splits)
  have "set updated = {k \<in> set (gm_keys ws). bumped reg k (writes_of ws k)} \<and>
      (\<forall>k. Registry_Get reg' k = (if k \<in> set (gm_keys ws)
        then Some (step_channel reg (gm_int (channelVersions e) k) k (writes_of ws k)) else Registry_Get reg k)) \<and>
      (\<forall>k. gm_int (channelVersions e') k = gm_int (channelVersions e) k + (if k \<in> set updated then 1 else 0))"
    if "applyWrites ord e reg results triggers = ((e', reg'), Inr updated)" for e' reg' updated
  proof -
    from that obtain e1 where w: "write_loop ws (ord (gm_keys ws)) e reg [] = ((e1, reg'), Inr updated)"
      and "channelVersions e' = channelVersions e1"
      by (auto simp: applyWrites_def c Let_def split: prod.splits sum.splits)
    then show ?thesis
      using write_loop_result [OF dist w] keys by auto
  qed
  with ok_iff show ?thesis by blast
qed


text \<open>What a node returns that writes one value to one channel, on an engine without nodes.\<close>

definition one_write :: "string \<Rightarrow> string \<Rightarrow> goval \<Rightarrow> TaskResult" where
  "one_write node name v = \<lparr>res_Name = node, res_Output = GMap [(name, v)], res_Err = None\<rparr>"

abbreviation empty_engine :: "unit Engine" where
  "empty_engine \<equiv> NewEngine (NewStateGraph SNil) []"

theorem applyWrites_spec_witness:
  "\<exists>e' reg' updated. applyWrites id empty_engine (Register NewRegistry ''n'' (ChBinop (NewBinaryOperatorAggregate TInt IntAdd)))
      [one_write ''b'' ''n'' (GInt 3), one_write ''a'' ''n'' (GInt 2)] [] = ((e', reg'), Inr updated) \<and>
    set updated = {''n''} \<and> gm_int (channelVersions e') ''n'' = 1 \<and>
    Registry_Get reg' ''n'' = Some (ChBinop ((NewBinaryOperatorAggregate TInt IntAdd)\<lparr>bo_value := GInt 5, Version := 1\<rparr>))"
proof -
  let ?e = "empty_engine" and ?reg = "Register NewRegistry ''n'' (ChBinop (NewBinaryOperatorAggregate TInt IntAdd))"
  let ?rs = "[one_write ''b'' ''n'' (GInt 3), one_write ''a'' ''n'' (GInt 2)]"
  have ws: "step_writes ?e ?rs = Inr [(''n'', [GInt 2, GInt 3])]"
    by (simp add: step_writes_def one_write_def toMap_def as_map_def add_write_def gm_app_def getNode_def NewEngine_def
        NewStateGraph_def)
  have u: "step_update ?reg ''n'' [GInt 2, GInt 3]
      = (ChBinop ((NewBinaryOperatorAggregate TInt IntAdd)\<lparr>bo_value := GInt 5\<rparr>), Inr True)"
    by (simp add: step_update_def written_channel_def step_values_def chan_defs createZeroValue_def isOverwrite_def
        IntAdd_def out_map_def)
  then have b: "bumped ?reg ''n'' [GInt 2, GInt 3]"
    by (simp add: bumped_def chan_defs)
  have vals: "writes_of [(''n'', [GInt 2, GInt 3])] ''n'' = [GInt 2, GInt 3]" "gm_int (channelVersions ?e) ''n'' = 0"
    by (simp_all add: writes_of_def NewEngine_def gm_int_def)
  from b u have c: "step_channel ?reg 0 ''n'' [GInt 2, GInt 3] =
      ChBinop ((NewBinaryOperatorAggregate TInt IntAdd)\<lparr>bo_value := GInt 5, Version := 1\<rparr>)"
    by (simp add: step_channel_def SetVersion_def)
  have "is_ok (snd (applyWrites id ?e ?reg ?rs []))"
    using applyWrites_spec [OF ws, of id ?reg "[]"] u vals by simp
  then obtain e' reg' updated where run: "applyWrites id ?e ?reg ?rs [] = ((e', reg'), Inr updated)"
    unfolding is_ok_iff by (metis prod.collapse)
  have "\<forall>e' reg' updated. applyWrites id ?e ?reg ?rs [] = ((e', reg'), Inr updated) \<longrightarrow>
      set updated = {''n''} \<and> gm_int (channelVersions e') ''n'' = 1 \<and>
      Registry_Get reg' ''n'' = Some (ChBinop ((NewBinaryOperatorAggregate TInt IntAdd)\<lparr>bo_value := GInt 5, Version := 1\<rparr>))"
    using applyWrites_spec [OF ws, of id ?reg "[]"] b c vals by fastforce
  with run show ?thesis by blast
qed

section \<open>Several writers of one channel\<close>

text \<open>A value that \<^const>\<open>add_write\<close> takes as it is.\<close>

definition plain_value :: "goval \<Rightarrow> bool" where
  "plain_value v \<longleftrightarrow> v \<noteq> GNil \<and> (\<forall>w. v \<noteq> GOverwrite w)"

lemma collect_one_write:
  assumes "plain_value v" and "\<forall>n. getNode e node = Some n \<longrightarrow> node_FieldMapping n = []"
  shows "collect_writes e (one_write node k v # rs) acc =
    collect_writes e rs (gm_app k v (fst acc),
      gm_set k \<lparr>pw_Channel = k, pw_Value = v, pw_Overwrite = False, pw_Node = node, pw_Timestamp = 0, pw_TaskID = []\<rparr>
        (snd acc))"
proof -
  have "add_write node (k, v) acc = (gm_app k v (fst acc),
      gm_set k \<lparr>pw_Channel = k, pw_Value = v, pw_Overwrite = False, pw_Node = node, pw_Timestamp = 0, pw_TaskID = []\<rparr>
        (snd acc))"
    using assms(1) by (cases v) (auto simp: add_write_def plain_value_def)
  then show ?thesis
    using assms(2) by (cases "getNode e node") (simp_all add: one_write_def toMap_def applyFieldMapping_def)
qed

lemma applyWrites_registry:
  "collect_writes e (sort_key res_Name results) ([], []) = Inr ([(k, vs)], pws) \<Longrightarrow> ord [k] = [k] \<Longrightarrow>
     snd (fst (applyWrites ord e reg results triggers)) = snd (fst (write_channel k vs e reg))"
  by (auto simp: applyWrites_def write_loop.simps writes_of_def Let_def split: prod.split sum.split)

text \<open>Of two nodes that write a channel in the same step, only the later by name counts unless the
  channel is a binary operator or a reducer: a topic loses a message, a barrier an arrival.\<close>

theorem concurrent_writes_keep_last:
  assumes "a < b" and "plain_value v" and "plain_value w" and "\<And>xs. mset (ord xs) = mset xs"
    and "\<forall>n. getNode e a = Some n \<or> getNode e b = Some n \<longrightarrow> node_FieldMapping n = []"
    and "\<not> aggregates (written_channel reg k)"
  shows "snd (fst (applyWrites ord e reg [one_write a k v, one_write b k w] triggers)) =
    snd (fst (applyWrites ord e reg [one_write b k w] triggers))"
proof -
  have "ord [k] = [k]"
    using assms(4) [of "[k]"] by simp
  moreover have "write_channel k [v, w] e reg = write_channel k [w] e reg"
    using assms(2,3,6) by (simp add: write_channel_def step_values_def plain_value_def)
  moreover have "res_Name (one_write a k v) \<le> res_Name (one_write b k w)"
    using assms(1) by (simp add: one_write_def less_imp_le)
  then have "\<exists>pws. collect_writes e (sort_key res_Name [one_write a k v, one_write b k w]) ([], []) = Inr ([(k, [v, w])], pws)"
    "\<exists>pws. collect_writes e (sort_key res_Name [one_write b k w]) ([], []) = Inr ([(k, [w])], pws)"
    using assms(2,3,5) by (simp_all add: collect_one_write gm_app_def del: collect_writes.simps(2))
  ultimately show ?thesis
    by (metis applyWrites_registry)
qed

theorem concurrent_writes_keep_last_witness:
  "snd (fst (applyWrites id empty_engine (Register NewRegistry ''t'' (ChTopic (NewTopic TString True)))
      [one_write ''a'' ''t'' (GStr ''x''), one_write ''b'' ''t'' (GStr ''y'')] [])) =
   snd (fst (applyWrites id empty_engine (Register NewRegistry ''t'' (ChTopic (NewTopic TString True)))
      [one_write ''b'' ''t'' (GStr ''y'')] []))"
  by (rule concurrent_writes_keep_last)
    (simp_all add: plain_value_def getNode_def NewEngine_def NewStateGraph_def written_channel_def)

section \<open>What counts as seen\<close>

lemma markSeen_versionsSeen [simp]:
  "map_of (versionsSeen (markSeen n c e)) m =
     (if m = n then Some (gm_set c (gm_int (channelVersions e) c)
        (case map_of (versionsSeen e) n of None \<Rightarrow> [] | Some vs \<Rightarrow> vs)) else map_of (versionsSeen e) m)"
  by (simp add: markSeen_def Let_def seen_set_def gomap_simps)

lemma markSeen_fold_other: "m \<noteq> n \<Longrightarrow> map_of (versionsSeen (fold (markSeen n) cs e)) m = map_of (versionsSeen e) m"
  by (induction cs arbitrary: e) simp_all

lemma mark_loop_other:
  "m \<notin> set ns \<or> m \<notin> set triggers \<Longrightarrow>
     map_of (versionsSeen (fold (\<lambda>n e. if n \<in> set triggers then fold (markSeen n) cs e else e) ns e)) m =
       map_of (versionsSeen e) m"
proof (induction ns arbitrary: e)
  case (Cons n ns)
  then have "n \<in> set triggers \<Longrightarrow> m \<noteq> n" by auto
  with Cons show ?case by (auto simp: markSeen_fold_other)
qed simp

text \<open>The versions recorded as seen after a step are filed under names of channels the step wrote:
  what a node has seen is unchanged unless a channel of the same name was written and is a trigger.\<close>

theorem seen_keyed_by_channel:
  assumes "step_writes e results = Inr ws" and "\<And>xs. mset (ord xs) = mset xs"
    and "applyWrites ord e reg results triggers = ((e', reg'), Inr updated)"
    and "node \<notin> set (gm_keys ws) \<or> node \<notin> set triggers"
  shows "map_of (versionsSeen e') node = map_of (versionsSeen e) node"
proof -
  obtain pws where c: "collect_writes e (sort_key res_Name results) ([], []) = Inr (ws, pws)" and ok: "gm_ok ws"
    using step_writes_Inr [OF assms(1)] .
  have keys: "set (ord (gm_keys ws)) = set (gm_keys ws)" and dist: "distinct (ord (gm_keys ws))"
    using ord_perm [of ord "gm_keys ws", OF assms(2)] ok by simp_all
  from assms(3) obtain e1 where w: "write_loop ws (ord (gm_keys ws)) e reg [] = ((e1, reg'), Inr updated)"
    and "map_of (versionsSeen e') node = map_of (versionsSeen e1) node"
    using assms(4) keys by (auto simp: applyWrites_def c Let_def mark_loop_other split: prod.splits sum.splits)
  then show ?thesis
    using write_loop_result [OF dist w] by simp
qed

theorem seen_keyed_by_channel_witness:
  "\<forall>e' reg' updated. applyWrites id empty_engine NewRegistry [one_write ''a'' ''n'' (GInt 3)] [''n''] =
      ((e', reg'), Inr updated) \<longrightarrow> map_of (versionsSeen e') ''a'' = None"
proof -
  have "step_writes empty_engine [one_write ''a'' ''n'' (GInt 3)] = Inr [(''n'', [GInt 3])]"
    by (simp add: step_writes_def one_write_def toMap_def add_write_def gm_app_def getNode_def NewEngine_def
        NewStateGraph_def)
  from seen_keyed_by_channel [OF this, of id NewRegistry "[''n'']" _ _ _ "''a''"] show ?thesis
    by (auto simp: NewEngine_def)
qed


end
