(* ===== verification/Engine.thy ===== *)
theory Engine
  imports EngineIO
begin

text \<open>
  One run of the Pregel engine (\<^verbatim>\<open>pregel/engine.go\<close>, \<^verbatim>\<open>Run\<close> and \<^verbatim>\<open>RunSync\<close>): reset, input, resume from a
  checkpoint, the loop of supersteps with its interrupts and failures, the checkpoints saved on the
  way by durability mode, and the output.

  What the run takes from outside is the record \<open>world\<close>: the checkpointer behind \<^verbatim>\<open>BaseCheckpointer\<close>,
  the identifiers drawn by \<^verbatim>\<open>uuid.New\<close>, the order of map iterations by step, the JSON codec, and at which
  steps the context is found cancelled. Events are those that the run's own goroutine emits, before
  the filter of the stream mode; callbacks are not modelled. In the asynchronous durability mode the
  save is modelled as done at once, its error ignored. The value a loop node saves for itself on an
  interrupt (\<^verbatim>\<open>__sub_state__\<close>) is saved, but nodes do not read it here, as they are functions of their input.
\<close>

section \<open>The world and the state of a run\<close>

record 's world =
  w_Get :: "'s \<Rightarrow> gostate \<Rightarrow> gerror + gostate option"
  w_Put :: "'s \<Rightarrow> gostate \<Rightarrow> gostate \<Rightarrow> (gerror, 's, unit) outcome"
  w_fx :: "goval \<Rightarrow> string"
  w_ord :: "int \<Rightarrow> string list \<Rightarrow> string list"
  w_uid :: "int \<Rightarrow> nat \<Rightarrow> string"
  w_cpid :: "int \<Rightarrow> string"
  w_thread :: string
  w_newid :: string
  w_now :: int
  w_assign :: "goval \<Rightarrow> gotype \<Rightarrow> goval option"
  w_jx :: "goval \<Rightarrow> goval option"
  w_prs :: "string \<Rightarrow> int option"
  w_enc :: "goval \<Rightarrow> string option"
  w_dec :: "string \<Rightarrow> gostate option"
  w_cancelled :: "int \<Rightarrow> bool"

datatype StreamEvent =
    EmitCheckpoint int gostate
  | EmitTaskStart int string string
  | EmitInterrupt int "string list"
  | EmitValues int gostate
  | EmitFinal int goval

record 's run_state =
  rs_engine :: "'s Engine"
  rs_reg :: Registry
  rs_thread :: string
  rs_completed :: "bool gomap"
  rs_last_node :: string
  rs_last_state :: goval
  rs_events :: "StreamEvent list"

definition emit :: "StreamEvent list \<Rightarrow> 's run_state \<Rightarrow> 's run_state" where
  "emit evs rs = rs\<lparr>rs_events := rs_events rs @ evs\<rparr>"

definition getThreadID :: "'s world \<Rightarrow> 's Engine \<Rightarrow> string" where
  "getThreadID w e =
     (case Configurable (config e) of
        None \<Rightarrow> w_thread w
      | Some c \<Rightarrow> (case map_of c ''thread_id'' of Some (GStr t) \<Rightarrow> t | _ \<Rightarrow> w_thread w))"

definition getGraphChannels :: "'s Engine \<Rightarrow> channel gomap" where
  "getGraphChannels e = channels (graph e)"

section \<open>Starting a run\<close>

text \<open>The per-run state of the engine is reset, and the channels of the graph are copied.\<close>

definition reset_engine :: "'s Engine \<Rightarrow> 's Engine" where
  "reset_engine e =
     e\<lparr>currentCheckpoint := None, channelVersions := [], versionsSeen := [], deferredCheckpoints := []\<rparr>"

definition init_registry :: "'s Engine \<Rightarrow> Registry" where
  "init_registry e = fold (\<lambda>(n, c) r. Register r n (ch_Copy c)) (getGraphChannels e) NewRegistry"

definition wrap_input :: "(gerror, Registry \<times> goval, unit) outcome \<Rightarrow> (gerror, Registry \<times> goval, unit) outcome" where
  "wrap_input r = (fst r, case snd r of Inl err \<Rightarrow> Inl (WrapError ''failed to apply input'' [] err) | Inr u \<Rightarrow> Inr u)"

text \<open>The requested checkpoint id, empty where there is none.\<close>

definition requested_id :: "'s Engine \<Rightarrow> string" where
  "requested_id e =
     (case Configurable (config e) of
        None \<Rightarrow> []
      | Some c \<Rightarrow> (case map_of c ConfigKeyCheckpointID of Some (GStr i) \<Rightarrow> i | _ \<Rightarrow> []))"

definition load_config :: "string \<Rightarrow> 's Engine \<Rightarrow> gostate" where
  "load_config thread e =
     (let c = thread_config thread
      in if requested_id e \<noteq> [] then gm_set ConfigKeyCheckpointID (GStr (requested_id e)) c else c)"

text \<open>What the checkpointer has for this run, if anything.\<close>

definition load_data :: "'s world \<Rightarrow> string \<Rightarrow> 's Engine \<Rightarrow> gerror + gostate option" where
  "load_data w thread e =
     (case checkpointer e of
        None \<Rightarrow> Inr None
      | Some s \<Rightarrow>
          (case w_Get w s (load_config thread e) of
             Inr (Some data) \<Rightarrow> Inr (Some data)
           | Inr None \<Rightarrow>
               if requested_id e \<noteq> [] then Inl (PlainError ''requested checkpoint_id: checkpoint not found'' [requested_id e])
               else Inr None
           | Inl err \<Rightarrow>
               if requested_id e \<noteq> [] then Inl (PlainError ''requested checkpoint_id'' [requested_id e])
               else Inr None))"

definition restored_completed :: "gostate \<Rightarrow> bool gomap" where
  "restored_completed data =
     (case map_of data ''__completed_tasks__'' of
        Some (GStr s) \<Rightarrow> (case deserializeStringSet s of None \<Rightarrow> [] | Some m \<Rightarrow> m)
      | _ \<Rightarrow> [])"

definition restored_last_node :: "gostate \<Rightarrow> string" where
  "restored_last_node data =
     (case map_of data ''__last_completed_node__'' of Some (GStr s) \<Rightarrow> s | _ \<Rightarrow> [])"

definition restored_last_state :: "'s world \<Rightarrow> gostate \<Rightarrow> goval" where
  "restored_last_state w data =
     (case (case map_of data ''__last_state__'' of Some (GStr s) \<Rightarrow> Some s | Some (GBytes b) \<Rightarrow> Some b | _ \<Rightarrow> None) of
        None \<Rightarrow> GNil
      | Some s \<Rightarrow> (case w_dec w s of None \<Rightarrow> GNil | Some m \<Rightarrow> GMap m))"

text \<open>Only the keys of registered channels are restored.\<close>

definition restore_channels :: "Registry \<Rightarrow> gostate \<Rightarrow> (gerror, Registry, unit) outcome" where
  "restore_channels reg data =
     (let filtered = filter (\<lambda>(k, v). has_channel reg k) data
      in if filtered = [] then (reg, Inr ())
         else let (reg', res) = RestoreFromCheckpoint reg filtered
              in (reg', case res of Inl err \<Rightarrow> Inl (WrapError ''failed to restore from checkpoint'' [] err) | Inr u \<Rightarrow> Inr u))"

definition new_run :: "'s Engine \<Rightarrow> Registry \<Rightarrow> string \<Rightarrow> 's run_state" where
  "new_run e reg thread =
     \<lparr>rs_engine = e, rs_reg = reg, rs_thread = thread, rs_completed = [], rs_last_node = [],
      rs_last_state = GNil, rs_events = []\<rparr>"

text \<open>Everything before the first superstep. The input is applied before the checkpoint is looked for,
  and once more when there is none.\<close>

definition start_run :: "'s world \<Rightarrow> 's Engine \<Rightarrow> goval \<Rightarrow> (gerror, 's run_state, unit) outcome" where
  "start_run w e input =
     (let thread = getThreadID w e; e1 = reset_engine e
      in case wrap_input (applyInput (init_registry e1) input) of
           ((reg1, inp1), Inl err) \<Rightarrow> (new_run e1 reg1 thread, Inl err)
         | ((reg1, inp1), Inr _) \<Rightarrow>
             (case load_data w thread e1 of
                Inl err \<Rightarrow> (new_run e1 reg1 thread, Inl err)
              | Inr (Some data) \<Rightarrow>
                  (case restore_channels reg1 data of
                     (reg2, Inl err) \<Rightarrow> (new_run e1 reg2 thread, Inl err)
                   | (reg2, Inr _) \<Rightarrow>
                       ((new_run (e1\<lparr>currentCheckpoint := Some (FromMap (w_jx w) (w_prs w) data)\<rparr>) reg2 thread)
                          \<lparr>rs_completed := restored_completed data, rs_last_node := restored_last_node data,
                           rs_last_state := restored_last_state w data\<rparr>, Inr ()))
              | Inr None \<Rightarrow>
                  (case wrap_input (applyInput reg1 inp1) of
                     ((reg2, inp2), Inl err) \<Rightarrow> (new_run e1 reg2 thread, Inl err)
                   | ((reg2, inp2), Inr _) \<Rightarrow>
                       ((new_run (e1\<lparr>currentCheckpoint := Some (NewCheckpoint (w_newid w) (w_now w) thread 0)\<rparr>) reg2 thread)
                          \<lparr>rs_last_state := inp2\<rparr>, Inr ()))))"

section \<open>Saving checkpoints\<close>

text \<open>\<^verbatim>\<open>checkpointer.Put\<close>; nothing happens without a checkpointer.\<close>

definition put_checkpoint ::
  "'s world \<Rightarrow> gostate \<Rightarrow> gostate \<Rightarrow> 's run_state \<Rightarrow> (gerror, 's run_state, unit) outcome" where
  "put_checkpoint w cfg data rs =
     (case checkpointer (rs_engine rs) of
        None \<Rightarrow> (rs, Inr ())
      | Some s \<Rightarrow>
          (let (s', res) = w_Put w s cfg data
           in (rs\<lparr>rs_engine := (rs_engine rs)\<lparr>checkpointer := Some s'\<rparr>\<rparr>, res)))"

text \<open>\<^verbatim>\<open>fmt.Errorf("<msg>: %w", err)\<close> where there is an error.\<close>

definition wrap_err :: "string \<Rightarrow> gerror + 'a \<Rightarrow> gerror + 'a" where
  "wrap_err msg res = (case res of Inl err \<Rightarrow> Inl (WrapError msg [] err) | Inr u \<Rightarrow> Inr u)"

definition save_config :: "string \<Rightarrow> string \<Rightarrow> int \<Rightarrow> gostate" where
  "save_config thread cpid step =
     [(ConfigKeyThreadID, GStr thread), (ConfigKeyCheckpointID, GStr cpid), (''step'', GInt (word_of_int step))]"

definition saveCheckpoint ::
  "'s world \<Rightarrow> string \<Rightarrow> string \<Rightarrow> int \<Rightarrow> gostate \<Rightarrow> 's run_state \<Rightarrow> (gerror, 's run_state, unit) outcome" where
  "saveCheckpoint w thread cpid step data rs =
     put_checkpoint w (save_config thread cpid step) data rs"

definition deferCheckpoint :: "string \<Rightarrow> string \<Rightarrow> int \<Rightarrow> gostate \<Rightarrow> 's Engine \<Rightarrow> 's Engine" where
  "deferCheckpoint thread cpid step data e =
     e\<lparr>deferredCheckpoints := deferredCheckpoints e @
        [\<lparr>dc_ThreadID = thread, dc_CheckpointID = cpid, dc_Step = step, dc_Checkpoint = data\<rparr>]\<rparr>"

text \<open>All deferred checkpoints are tried; the last error counts.\<close>

fun save_deferred_loop ::
  "'s world \<Rightarrow> deferredCheckpoint list \<Rightarrow> gerror option \<Rightarrow> 's run_state \<Rightarrow> (gerror, 's run_state, unit) outcome" where
  "save_deferred_loop w [] lastErr rs = (rs, case lastErr of None \<Rightarrow> Inr () | Some err \<Rightarrow> Inl err)"
| "save_deferred_loop w (dc # dcs) lastErr rs =
     (case saveCheckpoint w (dc_ThreadID dc) (dc_CheckpointID dc) (dc_Step dc) (dc_Checkpoint dc) rs of
        (rs', Inl err) \<Rightarrow> save_deferred_loop w dcs (Some err) rs'
      | (rs', Inr _) \<Rightarrow> save_deferred_loop w dcs lastErr rs')"

definition saveDeferredCheckpoints :: "'s world \<Rightarrow> 's run_state \<Rightarrow> (gerror, 's run_state, unit) outcome" where
  "saveDeferredCheckpoints w rs =
     (if checkpointer (rs_engine rs) = None \<or> deferredCheckpoints (rs_engine rs) = [] then (rs, Inr ())
      else let (rs', res) = save_deferred_loop w (deferredCheckpoints (rs_engine rs)) None rs
           in (rs'\<lparr>rs_engine := (rs_engine rs')\<lparr>deferredCheckpoints := []\<rparr>\<rparr>, res))"

text \<open>With asynchronous durability the code saves in a goroutine of its own; here it is saved at once.\<close>

definition save_step :: "'s world \<Rightarrow> int \<Rightarrow> 's run_state \<Rightarrow> (gerror, 's run_state, unit) outcome" where
  "save_step w step rs =
     (if checkpointer (rs_engine rs) = None then (rs, Inr ())
      else let data = CreateCheckpoint (rs_reg rs); cpid = w_cpid w step
           in case rc_Durability (config (rs_engine rs)) of
                DurabilityAsync \<Rightarrow> (fst (saveCheckpoint w (rs_thread rs) cpid step data rs), Inr ())
              | DurabilityExit \<Rightarrow>
                  (rs\<lparr>rs_engine := deferCheckpoint (rs_thread rs) cpid step data (rs_engine rs)\<rparr>, Inr ())
              | _ \<Rightarrow>
                  (let (rs', res) = saveCheckpoint w (rs_thread rs) cpid step data rs
                   in (rs', wrap_err ''failed to save checkpoint'' res)))"

section \<open>One superstep\<close>

definition interrupt_before :: "'s world \<Rightarrow> int \<Rightarrow> Task list \<Rightarrow> 's run_state \<Rightarrow> (gerror, 's run_state, bool) outcome" where
  "interrupt_before w step interrupted rs =
     (case put_checkpoint w (thread_config (rs_thread rs)) (CreateCheckpoint (rs_reg rs)) rs of
        (rs', Inl err) \<Rightarrow> (rs', Inl (WrapError ''failed to save checkpoint'' [] err))
      | (rs', Inr _) \<Rightarrow> (emit [EmitInterrupt step (map task_Name interrupted)] rs', Inl (GraphInterrupt [])))"

text \<open>The loop over the results; the names of the interrupted tasks are kept apart.\<close>

fun collect_results :: "TaskResult list \<Rightarrow> 's run_state \<Rightarrow> 's run_state" where
  "collect_results [] rs = rs"
| "collect_results (r # results) rs =
     collect_results results
       (if res_Err r = None
        then rs\<lparr>rs_completed := gm_set (res_Name r) True (rs_completed rs), rs_last_node := res_Name r,
                rs_last_state := mergeStates (rs_last_state rs) (res_Output r)\<rparr>
        else rs)"

definition interrupted_names :: "TaskResult list \<Rightarrow> string list" where
  "interrupted_names results = map res_Name (filter (\<lambda>r. IsGraphInterrupt (res_Err r)) results)"

definition all_failed :: "TaskResult list \<Rightarrow> bool" where
  "all_failed results = (results \<noteq> [] \<and> list_all (\<lambda>r. res_Err r \<noteq> None) results)"

text \<open>The first interrupt among the results that carries values.\<close>

fun first_interrupt :: "TaskResult list \<Rightarrow> goval list option" where
  "first_interrupt [] = None"
| "first_interrupt (r # results) =
     (case res_Err r of Some (GraphInterrupt (i # is)) \<Rightarrow> Some (i # is) | _ \<Rightarrow> first_interrupt results)"

text \<open>The value of a \<^verbatim>\<open>*types.Interrupt\<close>, if it is one with a value.\<close>

definition interrupt_value :: "goval \<Rightarrow> goval option" where
  "interrupt_value i =
     (case i of
        GPtr (GStruct t fs) \<Rightarrow>
          if t = ''types.Interrupt'' then (case map_of fs ''Value'' of None \<Rightarrow> None | Some GNil \<Rightarrow> None | Some v \<Rightarrow> Some v)
          else None
      | _ \<Rightarrow> None)"

definition set_opt :: "string \<Rightarrow> goval option \<Rightarrow> gostate \<Rightarrow> gostate" where
  "set_opt k v m = (case v of None \<Rightarrow> m | Some x \<Rightarrow> gm_set k x m)"

definition interrupt_payload :: "'s world \<Rightarrow> int \<Rightarrow> TaskResult list \<Rightarrow> 's run_state \<Rightarrow> gostate" where
  "interrupt_payload w step results rs =
     (let p1 = gm_set ''__completed_tasks__'' (GStr (serializeStringSet (rs_completed rs))) (CreateCheckpoint (rs_reg rs));
          p2 = gm_set ''__last_completed_node__'' (GStr (rs_last_node rs)) p1;
          p3 = gm_set ''__step__'' (GFloat (f64_round (of_int step))) p2;
          p4 = set_opt ''__last_state__''
                 (if rs_last_state rs = GNil then None else map_option GStr (w_enc w (rs_last_state rs))) p3
      in set_opt ''__sub_state__''
           (Option.bind (Option.bind (first_interrupt results) (\<lambda>is. interrupt_value (hd is)))
             (\<lambda>v. map_option GBytes (w_enc w v))) p4)"

definition interrupt_exit ::
  "'s world \<Rightarrow> int \<Rightarrow> TaskResult list \<Rightarrow> 's run_state \<Rightarrow> (gerror, 's run_state, bool) outcome" where
  "interrupt_exit w step results rs =
     (case put_checkpoint w (thread_config (rs_thread rs)) (interrupt_payload w step results rs) rs of
        (rs', Inl err) \<Rightarrow> (rs', Inl (WrapError ''failed to save checkpoint on interrupt'' [] err))
      | (rs', Inr _) \<Rightarrow>
          (emit [EmitInterrupt step (interrupted_names results)] rs',
           Inl (GraphInterrupt (case first_interrupt results of None \<Rightarrow> [] | Some is \<Rightarrow> is))))"

text \<open>Reading the channels for the values event, which empties the ephemeral ones.\<close>

definition emit_values :: "int \<Rightarrow> 's run_state \<Rightarrow> 's run_state" where
  "emit_values step rs =
     (case GetValues (rs_reg rs) of
        (reg, Inr vals) \<Rightarrow> emit [EmitValues step vals] (rs\<lparr>rs_reg := reg\<rparr>)
      | (reg, Inl _) \<Rightarrow> rs\<lparr>rs_reg := reg\<rparr>)"

text \<open>Applying the writes, emitting the values and saving.\<close>

definition commit_step ::
  "'s world \<Rightarrow> int \<Rightarrow> TaskResult list \<Rightarrow> string list \<Rightarrow> 's run_state \<Rightarrow> (gerror, 's run_state, bool) outcome" where
  "commit_step w step results triggers rs =
     (case applyWrites (w_ord w step) (rs_engine rs) (rs_reg rs) results triggers of
        ((e1, reg1), Inl err) \<Rightarrow>
          (rs\<lparr>rs_engine := e1, rs_reg := reg1\<rparr>, Inl (WrapError ''failed to apply writes'' [] err))
      | ((e1, reg1), Inr _) \<Rightarrow>
          (case save_step w step (emit_values step (rs\<lparr>rs_engine := e1, rs_reg := reg1\<rparr>)) of
             (rs', Inl err) \<Rightarrow> (rs', Inl err)
           | (rs', Inr _) \<Rightarrow>
               if shouldInterruptAfter (rs_engine rs') results then (rs', Inl (GraphInterrupt []))
               else (rs', Inr True)))"

text \<open>What follows the execution of the tasks: interrupts, failure of all tasks, or the commit.\<close>

definition settle_step ::
  "'s world \<Rightarrow> int \<Rightarrow> TaskResult list \<Rightarrow> string list \<Rightarrow> 's run_state \<Rightarrow> (gerror, 's run_state, bool) outcome" where
  "settle_step w step results triggers rs0 =
     (let rs = collect_results results rs0
      in if interrupted_names results \<noteq> [] then interrupt_exit w step results rs
         else if all_failed results then (rs, Inl (PlainError ''all tasks failed in step'' (map res_Name results)))
         else commit_step w step results triggers rs)"

text \<open>The body of the loop: whether to go on.\<close>

definition run_step :: "'s world \<Rightarrow> int \<Rightarrow> 's run_state \<Rightarrow> (gerror, 's run_state, bool) outcome" where
  "run_step w step rs0 =
     (let rs = emit [EmitCheckpoint step (CreateCheckpoint (rs_reg rs0))] rs0
      in case prepareNextTasks (w_fx w) (w_ord w step) (w_uid w step) (rs_engine rs) (rs_reg rs) (rs_completed rs)
                (rs_last_node rs) (rs_last_state rs) of
           Inl err \<Rightarrow> (rs, Inl (WrapError ''failed to prepare next tasks'' [] err))
         | Inr (tasks, triggers) \<Rightarrow>
             (let rs1 = emit (map (\<lambda>t. EmitTaskStart step (task_Name t) (task_ID t)) tasks) rs
              in if tasks = [] then (rs1, Inr False)
                 else if shouldInterrupt (rs_engine rs1) tasks \<noteq> []
                 then interrupt_before w step (shouldInterrupt (rs_engine rs1) tasks) rs1
                 else (case executeTasksAsync (w_assign w) (rs_engine rs1) (rs_reg rs1) tasks of
                         (reg', Inl p) \<Rightarrow> (rs1\<lparr>rs_reg := reg'\<rparr>, Inl p)
                       | (reg', Inr results) \<Rightarrow> settle_step w step results triggers (rs1\<lparr>rs_reg := reg'\<rparr>))))"

section \<open>The loop and the output\<close>

function run_loop :: "'s world \<Rightarrow> int \<Rightarrow> int \<Rightarrow> 's run_state \<Rightarrow> (gerror, 's run_state, int) outcome" where
  "run_loop w limit step rs =
     (if w_cancelled w step then (rs, Inl CancelledError)
      else if step \<ge> limit then (rs, Inl (GraphRecursionError limit))
      else (case run_step w step rs of
              (rs', Inl err) \<Rightarrow> (rs', Inl err)
            | (rs', Inr False) \<Rightarrow> (rs', Inr step)
            | (rs', Inr True) \<Rightarrow> run_loop w limit (step + 1) rs'))"
  by pat_completeness auto
termination by (relation "measure (\<lambda>(w, limit, step, rs). nat (limit - step))") auto

declare run_loop.simps [simp del]

definition buildOutput :: "Registry \<Rightarrow> goval \<Rightarrow> Registry \<times> goval" where
  "buildOutput reg lastState =
     (case GetValues reg of
        (reg', Inl _) \<Rightarrow> (reg', lastState)
      | (reg', Inr vals) \<Rightarrow> (reg', if vals \<noteq> [] then GMap vals else lastState))"

definition finish_run :: "'s world \<Rightarrow> int \<Rightarrow> 's run_state \<Rightarrow> (gerror, 's run_state, unit) outcome" where
  "finish_run w step rs =
     (let (reg, final) = buildOutput (rs_reg rs) (rs_last_state rs); rs1 = rs\<lparr>rs_reg := reg\<rparr>
      in case (if rc_Durability (config (rs_engine rs1)) = DurabilityExit then saveDeferredCheckpoints w rs1
               else (rs1, Inr ())) of
           (rs2, Inl err) \<Rightarrow> (rs2, Inl (WrapError ''failed to save deferred checkpoints'' [] err))
         | (rs2, Inr _) \<Rightarrow> (emit [EmitFinal step final] rs2, Inr ()))"

definition Engine_Run :: "'s world \<Rightarrow> 's Engine \<Rightarrow> goval \<Rightarrow> (gerror, 's run_state, unit) outcome" where
  "Engine_Run w e input =
     (case start_run w e input of
        (rs, Inl err) \<Rightarrow> (rs, Inl err)
      | (rs, Inr _) \<Rightarrow>
          (case run_loop w (recursionLimit e) 0 rs of
             (rs', Inl err) \<Rightarrow> (rs', Inl err)
           | (rs', Inr step) \<Rightarrow> finish_run w step rs'))"

text \<open>The state of the last final event, nil where there is none.\<close>

fun final_state :: "StreamEvent list \<Rightarrow> goval \<Rightarrow> goval" where
  "final_state [] acc = acc"
| "final_state (EmitFinal step v # evs) acc = final_state evs v"
| "final_state (_ # evs) acc = final_state evs acc"

definition RunSync :: "'s world \<Rightarrow> 's Engine \<Rightarrow> goval \<Rightarrow> (gerror, 's run_state, goval) outcome" where
  "RunSync w e input =
     (case Engine_Run w e input of
        (rs, Inl err) \<Rightarrow> (rs, Inl err)
      | (rs, Inr _) \<Rightarrow> (rs, Inr (final_state (rs_events rs) GNil)))"

section \<open>What a step keeps\<close>

text \<open>The part of an engine that writing channels does not change.\<close>

definition static :: "'s Engine \<Rightarrow> stateGraph \<times> 's option \<times> RunnableConfig" where
  "static e = (graph e, checkpointer e, config e)"

lemma write_loop_static: "static (fst (fst (write_loop ws names e reg upd))) = static e"
proof (induction names arbitrary: e reg upd)
  case (Cons name names)
  have "static (fst (after_write ws name e reg)) = static e"
    by (simp add: static_def after_write_def write_channel_spec split: sum.split)
  with Cons show ?case
    by (simp add: write_loop_Cons split: sum.split)
qed simp

lemma markSeen_fold_static [simp]: "static (fold (markSeen n) cs e) = static e"
  by (induction cs arbitrary: e) (simp_all add: static_def markSeen_def Let_def)

lemma mark_loop_static [simp]:
  "static (fold (\<lambda>n e. if n \<in> set triggers then fold (markSeen n) cs e else e) ns e) = static e"
  by (induction ns arbitrary: e) simp_all

lemma static_currentCheckpoint [simp]: "static (e\<lparr>currentCheckpoint := cp\<rparr>) = static e"
  by (simp add: static_def)

lemma applyWrites_static: "applyWrites ord e reg results triggers = ((e', reg'), res) \<Longrightarrow> static e' = static e"
  using write_loop_static [of _ _ e reg "[]"]
  by (auto simp: applyWrites_def Let_def split: sum.splits prod.splits) (metis fst_conv)+

lemma applyWrites_graph: "applyWrites ord e reg results triggers = ((e', reg'), res) \<Longrightarrow> graph e' = graph e"
  using applyWrites_static [of ord e reg results triggers e' reg' res] by (simp add: static_def)

text \<open>The part of the state of a run that saving a checkpoint does not change.\<close>

definition run_core :: "'s run_state \<Rightarrow> stateGraph \<times> bool gomap \<times> string \<times> goval" where
  "run_core rs = (graph (rs_engine rs), rs_completed rs, rs_last_node rs, rs_last_state rs)"

lemma emit_simps [simp]:
  "run_core (emit evs rs) = run_core rs" "rs_events (emit evs rs) = rs_events rs @ evs"
  "rs_engine (emit evs rs) = rs_engine rs" "rs_reg (emit evs rs) = rs_reg rs"
  "rs_completed (emit evs rs) = rs_completed rs" "rs_thread (emit evs rs) = rs_thread rs"
  "rs_last_node (emit evs rs) = rs_last_node rs" "rs_last_state (emit evs rs) = rs_last_state rs"
  by (simp_all add: emit_def run_core_def)

lemma put_checkpoint_keeps:
  "run_core (fst (put_checkpoint w cfg data rs)) = run_core rs"
  "rs_events (fst (put_checkpoint w cfg data rs)) = rs_events rs"
  by (auto simp: put_checkpoint_def run_core_def split: option.split prod.split)

lemma save_step_keeps:
  "run_core (fst (save_step w step rs)) = run_core rs"
  "rs_events (fst (save_step w step rs)) = rs_events rs"
  by (auto simp: save_step_def saveCheckpoint_def put_checkpoint_keeps deferCheckpoint_def run_core_def Let_def split_beta
      split: Durability.split)
    (auto simp: put_checkpoint_def split: option.split prod.split)


lemma collect_results_keeps [simp]:
  "rs_engine (collect_results results rs) = rs_engine rs" "rs_reg (collect_results results rs) = rs_reg rs"
  "rs_events (collect_results results rs) = rs_events rs" "rs_thread (collect_results results rs) = rs_thread rs"
  by (induction results arbitrary: rs) simp_all

lemma collect_results_completed:
  "gm_true (rs_completed (collect_results results rs)) n \<longleftrightarrow>
     gm_true (rs_completed rs) n \<or> (\<exists>r \<in> set results. res_Name r = n \<and> res_Err r = None)"
  by (induction results arbitrary: rs) (auto simp: gomap_simps)

lemma collect_results_nonempty:
  "rs_completed rs \<noteq> [] \<or> (\<exists>r \<in> set results. res_Err r = None) \<Longrightarrow> rs_completed (collect_results results rs) \<noteq> []"
  by (induction results arbitrary: rs) auto

lemma run_task_name: "run_task assign e reg t = (reg', Inr r) \<Longrightarrow> res_Name r = task_Name t"
  by (auto simp: run_task_def Let_def split: prod.splits sum.splits)

lemma executeTasksAsync_names:
  "executeTasksAsync assign e reg ts = (reg', Inr rs) \<Longrightarrow> map res_Name rs = map task_Name ts"
  by (induction ts arbitrary: reg rs) (auto split: prod.splits sum.splits dest: run_task_name)

lemma fill_fields_panics: "fill_fields assign m fs = Inl p \<Longrightarrow> \<exists>s. p = PanicError s"
  by (induction fs) (auto split: if_splits sum.splits option.splits goval.splits)

lemma run_task_panics: "run_task assign e reg t = (reg', Inl p) \<Longrightarrow> \<exists>s. p = PanicError s"
  by (auto simp: run_task_def mapToStateSchema_def Let_def dest!: fill_fields_panics
      split: prod.splits sum.splits option.splits schema.splits)

lemma executeTasksAsync_panics: "executeTasksAsync assign e reg ts = (reg', Inl p) \<Longrightarrow> \<exists>s. p = PanicError s"
  by (induction ts arbitrary: reg) (auto split: prod.splits sum.splits dest: run_task_panics)

text \<open>The number of supersteps that events tell of.\<close>

fun is_step :: "StreamEvent \<Rightarrow> bool" where
  "is_step (EmitCheckpoint n cp) = True"
| "is_step _ = False"

definition supersteps :: "'s run_state \<Rightarrow> nat" where
  "supersteps rs = length (filter is_step (rs_events rs))"

lemma filter_task_starts [simp]: "filter is_step (map (\<lambda>t. EmitTaskStart step (f t) (g t)) ts) = []"
  by (induction ts) simp_all

lemma supersteps_emit: "supersteps (emit evs rs) = supersteps rs + length (filter is_step evs)"
  by (simp add: supersteps_def)

lemma supersteps_cong: "rs_events rs = rs_events rs' \<Longrightarrow> supersteps rs = supersteps rs'"
  by (simp add: supersteps_def)

lemma emit_values_keeps [simp]:
  "run_core (emit_values step rs) = run_core rs" "supersteps (emit_values step rs) = supersteps rs"
  "rs_engine (emit_values step rs) = rs_engine rs"
  by (auto simp: emit_values_def supersteps_emit supersteps_def run_core_def split: prod.split sum.split)

lemma save_step_result:
  "save_step w step rs = (rs', res) \<Longrightarrow>
     run_core rs' = run_core rs \<and> supersteps rs' = supersteps rs \<and> res \<noteq> Inl (GraphRecursionError n)"
  using save_step_keeps [of w step rs]
  by (auto simp: supersteps_def) (auto simp: save_step_def wrap_err_def Let_def split_beta split: Durability.splits sum.splits if_splits)

lemma commit_step_keeps:
  assumes "commit_step w step results triggers rs = (rs', res)"
  shows "run_core rs' = run_core rs \<and> supersteps rs' = supersteps rs \<and> res \<noteq> Inl (GraphRecursionError n) \<and> res \<noteq> Inr False"
proof -
  obtain e1 reg1 r where w: "applyWrites (w_ord w step) (rs_engine rs) (rs_reg rs) results triggers = ((e1, reg1), r)"
    by (metis prod.exhaust)
  let ?rs = "rs\<lparr>rs_engine := e1, rs_reg := reg1\<rparr>"
  have rs: "run_core ?rs = run_core rs" "supersteps ?rs = supersteps rs"
    using applyWrites_graph [OF w] by (simp_all add: run_core_def supersteps_def)
  obtain rs2 r2 where s: "save_step w step (emit_values step ?rs) = (rs2, r2)" by force
  show ?thesis
    using assms rs save_step_result [OF s] by (auto simp: commit_step_def w s split: sum.splits if_splits)
qed

lemma interrupt_before_result:
  "interrupt_before w step ts rs = (rs', res) \<Longrightarrow>
     run_core rs' = run_core rs \<and> supersteps rs' = supersteps rs \<and> (\<forall>n. res \<noteq> Inl (GraphRecursionError n)) \<and> (\<forall>b. res \<noteq> Inr b)"
  using put_checkpoint_keeps [of w "thread_config (rs_thread rs)" "CreateCheckpoint (rs_reg rs)" rs]
  by (auto simp: interrupt_before_def supersteps_def split: prod.splits sum.splits)

lemma interrupt_exit_result:
  "interrupt_exit w step results rs = (rs', res) \<Longrightarrow>
     run_core rs' = run_core rs \<and> supersteps rs' = supersteps rs \<and> (\<forall>n. res \<noteq> Inl (GraphRecursionError n)) \<and> (\<forall>b. res \<noteq> Inr b)"
  using put_checkpoint_keeps [of w "thread_config (rs_thread rs)" "interrupt_payload w step results rs" rs]
  by (auto simp: interrupt_exit_def supersteps_def split: prod.splits sum.splits)

text \<open>A step that goes on ran a non-empty set of tasks, one of which succeeded.\<close>

definition progress :: "'s world \<Rightarrow> int \<Rightarrow> 's run_state \<Rightarrow> 's run_state \<Rightarrow> bool" where
  "progress w step rs rs' \<longleftrightarrow>
     (\<exists>tasks triggers results.
        prepareNextTasks (w_fx w) (w_ord w step) (w_uid w step) (rs_engine rs) (rs_reg rs) (rs_completed rs)
          (rs_last_node rs) (rs_last_state rs) = Inr (tasks, triggers) \<and>
        map res_Name results = map task_Name tasks \<and> (\<exists>r \<in> set results. res_Err r = None) \<and>
        rs_completed rs' = rs_completed (collect_results results rs))"

lemma collect_results_cong:
  "rs_completed rs = rs_completed rs' \<Longrightarrow> rs_completed (collect_results results rs) = rs_completed (collect_results results rs')"
  by (induction results arbitrary: rs rs') simp_all

lemma settle_step_result:
  assumes "settle_step w step results triggers rs = (rs', res)" and "results \<noteq> []"
  shows "graph (rs_engine rs') = graph (rs_engine rs) \<and> supersteps rs' = supersteps rs \<and>
    (\<forall>n. res \<noteq> Inl (GraphRecursionError n)) \<and> res \<noteq> Inr False \<and>
    (res = Inr True \<longrightarrow> (\<exists>r \<in> set results. res_Err r = None) \<and> rs_completed rs' = rs_completed (collect_results results rs))"
proof -
  let ?rs = "collect_results results rs"
  have rs: "supersteps ?rs = supersteps rs"
    by (simp add: supersteps_def)
  show ?thesis
    using assms rs interrupt_exit_result [of w step results ?rs rs' res]
      commit_step_keeps [of w step results triggers ?rs rs' res]
    by (auto simp: settle_step_def run_core_def all_failed_def list_all_iff Let_def split: if_splits)
qed

lemma run_step_result:
  assumes "run_step w step rs = (rs', res)"
  shows "graph (rs_engine rs') = graph (rs_engine rs) \<and> supersteps rs' = supersteps rs + 1 \<and>
    (\<forall>n. res \<noteq> Inl (GraphRecursionError n)) \<and> (res = Inr True \<longrightarrow> progress w step rs rs')"
proof (cases "prepareNextTasks (w_fx w) (w_ord w step) (w_uid w step) (rs_engine rs) (rs_reg rs) (rs_completed rs)
          (rs_last_node rs) (rs_last_state rs)")
  case (Inl err)
  then show ?thesis
    using assms by (auto simp: run_step_def supersteps_emit)
next
  case (Inr p)
  obtain tasks triggers where p: "p = (tasks, triggers)" by force
  let ?rs1 = "emit (map (\<lambda>t. EmitTaskStart step (task_Name t) (task_ID t)) tasks)
    (emit [EmitCheckpoint step (CreateCheckpoint (rs_reg rs))] rs)"
  have rs1: "supersteps ?rs1 = supersteps rs + 1"
    by (simp add: supersteps_emit)
  obtain reg' out where x: "executeTasksAsync (w_assign w) (rs_engine rs) (rs_reg rs) tasks = (reg', out)" by force
  consider (stop) "tasks = []" | (before) "tasks \<noteq> []" "shouldInterrupt (rs_engine rs) tasks \<noteq> []"
    | (panic) q where "tasks \<noteq> []" "shouldInterrupt (rs_engine rs) tasks = []" "out = Inl q"
    | (run) results where "tasks \<noteq> []" "shouldInterrupt (rs_engine rs) tasks = []" "out = Inr results"
    by (cases out) blast+
  then show ?thesis
  proof cases
    case stop
    then show ?thesis
      using assms rs1 by (auto simp: run_step_def Inr p)
  next
    case before
    then have "interrupt_before w step (shouldInterrupt (rs_engine rs) tasks) ?rs1 = (rs', res)"
      using assms by (simp add: run_step_def Inr p)
    from interrupt_before_result [OF this] show ?thesis
      using rs1 by (simp add: run_core_def)
  next
    case panic
    then show ?thesis
      using assms rs1 executeTasksAsync_panics [of "w_assign w" "rs_engine rs" "rs_reg rs" tasks reg' q] x
      by (auto simp: run_step_def Inr p supersteps_def)
  next
    case run
    have names: "map res_Name results = map task_Name tasks"
      using executeTasksAsync_names x run by blast
    have "settle_step w step results triggers (?rs1\<lparr>rs_reg := reg'\<rparr>) = (rs', res)"
      using assms run x by (simp add: run_step_def Inr p)
    moreover have "results \<noteq> []"
      using names run(1) by auto
    ultimately show ?thesis
      using settle_step_result [of w step results triggers "?rs1\<lparr>rs_reg := reg'\<rparr>" rs' res] rs1 names Inr p collect_results_cong [of "?rs1\<lparr>rs_reg := reg'\<rparr>" rs results]
      by (auto simp: progress_def supersteps_def)
  qed
qed


section \<open>The recursion limit\<close>

lemma run_loop_bound:
  assumes "run_loop w limit step rs = (rs', res)"
  shows "supersteps rs' \<le> supersteps rs + nat (limit - step) \<and>
    (res = Inl (GraphRecursionError n) \<longrightarrow> n = limit \<and> supersteps rs' = supersteps rs + nat (limit - step))"
  using assms
proof (induction w limit step rs rule: run_loop.induct)
  case (1 w limit step rs)
  obtain rs1 r where s: "run_step w step rs = (rs1, r)" by force
  show ?case
  proof (cases "w_cancelled w step \<or> step \<ge> limit \<or> r \<noteq> Inr True")
    case True
    then show ?thesis
      using 1(2) run_step_result [OF s]
      by (subst (asm) run_loop.simps) (auto simp: s split: if_splits sum.splits bool.splits)
  next
    case False
    then have "run_loop w limit (step + 1) rs1 = (rs', res)"
      using 1(2) by (subst (asm) run_loop.simps) (simp add: s)
    with 1(1) [OF _ _ s [symmetric]] False have "supersteps rs' \<le> supersteps rs1 + nat (limit - (step + 1)) \<and>
        (res = Inl (GraphRecursionError n) \<longrightarrow> n = limit \<and> supersteps rs' = supersteps rs1 + nat (limit - (step + 1)))"
      by auto
    then show ?thesis
      using run_step_result [OF s] False by auto
  qed
qed

lemma start_run_result:
  "start_run w e input = (rs, res) \<Longrightarrow>
     supersteps rs = 0 \<and> graph (rs_engine rs) = graph e \<and> (\<forall>n. res \<noteq> Inl (GraphRecursionError n))"
  by (auto simp: start_run_def new_run_def supersteps_def reset_engine_def wrap_input_def load_data_def restore_channels_def
      Let_def split_beta split: prod.splits sum.splits option.splits if_splits)

lemma save_deferred_loop_keeps:
  "rs_events (fst (save_deferred_loop w dcs err rs)) = rs_events rs"
proof (induction dcs arbitrary: err rs)
  case (Cons dc dcs)
  then show ?case
    using put_checkpoint_keeps(2) [of w "save_config (dc_ThreadID dc) (dc_CheckpointID dc) (dc_Step dc)" "dc_Checkpoint dc" rs]
    by (auto simp: saveCheckpoint_def split: prod.split sum.split)
qed (simp split: option.split)

lemma finish_run_result:
  "finish_run w step rs = (rs', res) \<Longrightarrow> supersteps rs' = supersteps rs \<and> (\<forall>n. res \<noteq> Inl (GraphRecursionError n))"
  using save_deferred_loop_keeps [of w "deferredCheckpoints (rs_engine rs)" None "rs\<lparr>rs_reg := fst (buildOutput (rs_reg rs) (rs_last_state rs))\<rparr>"]
  by (auto simp: finish_run_def saveDeferredCheckpoints_def supersteps_def Let_def split_beta
      split: prod.splits sum.splits if_splits)

lemma RunSync_bound:
  assumes "RunSync w e input = (rs, res)"
  shows "int (supersteps rs) \<le> max 0 (recursionLimit e) \<and>
    (res = Inl (GraphRecursionError n) \<longrightarrow> n = recursionLimit e \<and> int (supersteps rs) = max 0 n)"
proof -
  obtain rs0 r0 where s: "start_run w e input = (rs0, r0)" by force
  obtain rs1 r1 where l: "run_loop w (recursionLimit e) 0 rs0 = (rs1, r1)" by force
  show ?thesis
    using assms start_run_result [OF s] run_loop_bound [OF l, of n] finish_run_result [of w _ rs1 rs]
    by (fastforce simp: RunSync_def Engine_Run_def s l split: sum.splits prod.splits)
qed


section \<open>Runs in DAG mode\<close>

definition todo :: "'s run_state \<Rightarrow> string set" where
  "todo rs = {n. has_node (graph (rs_engine rs)) n \<and> \<not> gm_true (rs_completed rs) n}"

definition dag_graph :: "stateGraph \<Rightarrow> bool" where
  "dag_graph g \<longleftrightarrow> graph_wf g \<and> graph_NodeTriggerMode g = NodeTriggerAllPredecessor"

definition fair_world :: "'s world \<Rightarrow> bool" where
  "fair_world w \<longleftrightarrow> (\<forall>step xs. mset (w_ord w step xs) = mset xs)"

lemma fair_world_set: "fair_world w \<Longrightarrow> set (w_ord w step xs) = set xs"
  unfolding fair_world_def by (metis mset_eq_setD)

lemma finite_todo: "finite (todo rs)" and card_todo: "card (todo rs) \<le> length (nodes (graph (rs_engine rs)))"
proof -
  have sub: "todo rs \<subseteq> set (gm_keys (nodes (graph (rs_engine rs))))"
    by (auto simp: todo_def has_node_keys)
  then show "finite (todo rs)"
    by (rule finite_subset) simp
  have "card (todo rs) \<le> card (set (gm_keys (nodes (graph (rs_engine rs)))))"
    using sub by (intro card_mono) simp_all
  also have "\<dots> \<le> length (gm_keys (nodes (graph (rs_engine rs))))"
    by (rule card_length)
  finally show "card (todo rs) \<le> length (nodes (graph (rs_engine rs)))" by simp
qed

lemma dag_tasks_todo:
  assumes "dag_graph (graph (rs_engine rs))" and "fair_world w"
    and "prepareNextTasks fx (w_ord w step) uid (rs_engine rs) reg (rs_completed rs) node state = Inr (tasks, triggers)"
  shows "task_Name ` set tasks \<subseteq> todo rs"
proof (cases "rs_completed rs = []")
  case True
  then show ?thesis
    using assms(3) getNode_Name [of "rs_engine rs"] assms(1)
    by (auto simp: prepareNextTasks_def prepareNextTasksWithMode_def Let_def createTask_def todo_def has_node_def
        getNode_def dag_graph_def split: if_splits option.splits)
next
  case False
  have "tasks = fst (prepareNextTasksDAG (w_ord w step) uid (rs_engine rs) (rs_completed rs) True)"
    using assms(1,3) False by (simp add: prepareNextTasks_def prepareNextTasksWithMode_def dag_graph_def)
  then show ?thesis
    using prepareNextTasksDAG_names [of "rs_engine rs" "w_ord w step"] assms(1) fair_world_set [OF assms(2)]
    by (auto simp: todo_def dag_ready_def dag_graph_def)
qed

lemma progress_todo:
  assumes "dag_graph (graph (rs_engine rs))" and "fair_world w" and "progress w step rs rs'"
    and "graph (rs_engine rs') = graph (rs_engine rs)"
  shows "card (todo rs') < card (todo rs)"
proof -
  obtain tasks triggers results where p: "prepareNextTasks (w_fx w) (w_ord w step) (w_uid w step) (rs_engine rs) (rs_reg rs)
      (rs_completed rs) (rs_last_node rs) (rs_last_state rs) = Inr (tasks, triggers)"
    and names: "map res_Name results = map task_Name tasks" and ok: "\<exists>r \<in> set results. res_Err r = None"
    and c: "rs_completed rs' = rs_completed (collect_results results rs)"
    using assms(3) by (auto simp: progress_def)
  obtain r where r: "r \<in> set results" "res_Err r = None"
    using ok by blast
  have "res_Name r \<in> set (map task_Name tasks)"
    using r(1) names by (metis image_eqI list.set_map)
  then have "res_Name r \<in> todo rs"
    using dag_tasks_todo [OF assms(1,2) p] by auto
  moreover have "res_Name r \<notin> todo rs'"
    using r c by (auto simp: todo_def collect_results_completed)
  moreover have "todo rs' \<subseteq> todo rs"
    using c assms(4) by (auto simp: todo_def collect_results_completed)
  ultimately show ?thesis
    by (intro psubset_card_mono finite_todo) blast
qed

lemma run_loop_dag:
  assumes "run_loop w limit step rs = (rs', res)" and "dag_graph (graph (rs_engine rs))" and "fair_world w"
    and "int (card (todo rs)) < limit - step"
  shows "res \<noteq> Inl (GraphRecursionError n)"
  using assms
proof (induction w limit step rs rule: run_loop.induct)
  case (1 w limit step rs)
  obtain rs1 r where s: "run_step w step rs = (rs1, r)" by force
  note step = run_step_result [OF s]
  show ?case
  proof (cases "w_cancelled w step \<or> r \<noteq> Inr True")
    case True
    then show ?thesis
      using 1(2,5) step by (subst (asm) run_loop.simps) (auto simp: s split: if_splits sum.splits bool.splits)
  next
    case False
    have lim: "\<not> step \<ge> limit"
      using 1(5) by auto
    have "run_loop w limit (step + 1) rs1 = (rs', res)"
      using 1(2) False lim by (subst (asm) run_loop.simps) (simp add: s)
    moreover have "card (todo rs1) < card (todo rs)"
      using progress_todo [OF 1(3,4)] step False by blast
    ultimately show ?thesis
      using 1(1) [OF _ lim s [symmetric]] False 1(3,4,5) step by auto
  qed
qed

lemma RunSync_dag_no_limit:
  assumes "dag_graph (graph e)" and "fair_world w" and "int (length (nodes (graph e))) < recursionLimit e"
  shows "snd (RunSync w e input) \<noteq> Inl (GraphRecursionError n)"
proof -
  obtain rs0 r0 where s: "start_run w e input = (rs0, r0)" by force
  obtain rs1 r1 where l: "run_loop w (recursionLimit e) 0 rs0 = (rs1, r1)" by force
  have g: "graph (rs_engine rs0) = graph e"
    using start_run_result [OF s] by blast
  have "r1 \<noteq> Inl (GraphRecursionError n)"
    using assms g card_todo [of rs0] by (intro run_loop_dag [OF l]) simp_all
  then show ?thesis
    using start_run_result [OF s] finish_run_result [of w _ rs1]
    by (fastforce simp: RunSync_def Engine_Run_def s l split: sum.splits prod.splits)
qed


end
