(* ===== verification/EngineLaws.thy ===== *)
theory EngineLaws
  imports Engine
begin

text \<open>
  The theorems on whole runs of the engine: the recursion limit, runs in DAG mode, what becomes of the
  input, and resuming after an interrupt.
\<close>

definition edge_rel :: "stateGraph \<Rightarrow> (string \<times> string) set" where
  "edge_rel g = (\<lambda>x. (e_From x, e_To x)) ` set (edges g)"

section \<open>A concrete world and a concrete graph\<close>

definition mem_world :: "MemorySaver world" where
  "mem_world = \<lparr>w_Get = MemorySaver_Get (\<lambda>_. None), w_Put = MemorySaver_Put (\<lambda>_. None) ''id'' 0,
     w_fx = (\<lambda>_. []), w_ord = (\<lambda>_ xs. xs), w_uid = (\<lambda>_ _. ''task''), w_cpid = (\<lambda>_. ''cp''), w_thread = ''t'',
     w_newid = ''new'', w_now = 0, w_assign = (\<lambda>v _. Some v), w_jx = (\<lambda>_. None), w_prs = (\<lambda>_. None),
     w_enc = (\<lambda>_. None), w_dec = (\<lambda>_. None), w_cancelled = (\<lambda>_. False)\<rparr>"

text \<open>Node \<open>a\<close> sets a value, node \<open>b\<close> follows it and writes nothing.\<close>

definition chain :: stateGraph where
  "chain = (NewStateGraph SNil)
     \<lparr>nodes := [(''a'', new_node ''a'' (\<lambda>s. CRet (GMap [(''x'', GBool True)]) None)),
                (''b'', new_node ''b'' (\<lambda>s. CRet GNil None))],
      edges := [\<lparr>e_From = ''a'', e_To = ''b''\<rparr>], entryPoint := ''a'',
      graph_NodeTriggerMode := NodeTriggerAllPredecessor\<rparr>"

definition chain_engine :: "int \<Rightarrow> MemorySaver Engine" where
  "chain_engine limit = NewEngine chain [Engine_WithRecursionLimit limit]"

lemma chain_facts [simp]:
  "graph (chain_engine limit) = chain" "recursionLimit (chain_engine limit) = limit"
  "length (nodes chain) = 2" "entryPoint chain = ''a''" "has_node chain ''b''"
  by (simp_all add: chain_engine_def NewEngine_def Engine_WithRecursionLimit_def chain_def has_node_def)

lemma chain_dag: "dag_graph chain" and mem_world_fair: "fair_world mem_world" and chain_acyclic: "acyclic (edge_rel chain)"
proof -
  show "dag_graph chain"
    by (simp add: dag_graph_def graph_wf_def chain_def NewStateGraph_def new_node_def known_source_def known_target_def
        has_node_def)
  show "fair_world mem_world"
    by (simp add: fair_world_def mem_world_def)
  have "edge_rel chain = {(''a'', ''b'')}"
    by (simp add: edge_rel_def chain_def)
  moreover have "acyclic {(''a'', ''b'')}"
    by (simp add: acyclic_insert) (simp add: acyclic_def)
  ultimately show "acyclic (edge_rel chain)" by simp
qed

text \<open>Two runs, evaluated: with room for both nodes, and with a limit of one step.\<close>

lemma chain_run: "snd (RunSync mem_world (chain_engine 3) (GMap [])) = Inr (GMap [(''x'', GBool True)])"
  by code_simp

lemma chain_run_short: "snd (RunSync mem_world (chain_engine 1) (GMap [])) = Inl (GraphRecursionError 1)"
  by code_simp

section \<open>The recursion limit\<close>

text \<open>C2: a run makes at most \<^verbatim>\<open>recursionLimit\<close> supersteps, and it ends with a \<^verbatim>\<open>GraphRecursionError\<close> only
  after exactly that many. Node functions are total here: that they return is not part of the claim.\<close>

theorem recursion_limit_enforced:
  "int (supersteps (fst (RunSync w e input))) \<le> max 0 (recursionLimit e) \<and>
   (\<forall>n. snd (RunSync w e input) = Inl (GraphRecursionError n) \<longrightarrow>
      n = recursionLimit e \<and> int (supersteps (fst (RunSync w e input))) = max 0 n)"
  using RunSync_bound [of w e input "fst (RunSync w e input)" "snd (RunSync w e input)"] by auto

theorem recursion_limit_enforced_witness:
  "int (supersteps (fst (RunSync mem_world (chain_engine 1) (GMap [])))) = 1"
  using recursion_limit_enforced [of mem_world "chain_engine 1" "GMap []"] chain_run_short by simp

text \<open>C3: in DAG mode a recursion limit above the number of nodes is never reached: every step that goes on
  completes a node that had not completed before, cycles or not.\<close>

theorem dag_run_never_hits_limit:
  assumes "dag_graph (graph e)" and "fair_world w" and "int (length (nodes (graph e))) < recursionLimit e"
  shows "snd (RunSync w e input) \<noteq> Inl (GraphRecursionError n)"
  using RunSync_dag_no_limit [OF assms] .

theorem dag_run_never_hits_limit_witness:
  "snd (RunSync mem_world (chain_engine 3) (GMap [])) \<noteq> Inl (GraphRecursionError 3)"
  by (rule dag_run_never_hits_limit) (simp_all add: chain_dag mem_world_fair)

section \<open>A run in DAG mode that ends well\<close>

lemma run_step_stop:
  assumes "run_step w step rs = (rs', Inr False)"
  shows "\<exists>triggers. prepareNextTasks (w_fx w) (w_ord w step) (w_uid w step) (rs_engine rs') (rs_reg rs') (rs_completed rs')
    (rs_last_node rs') (rs_last_state rs') = Inr ([], triggers)"
proof (cases "prepareNextTasks (w_fx w) (w_ord w step) (w_uid w step) (rs_engine rs) (rs_reg rs) (rs_completed rs)
    (rs_last_node rs) (rs_last_state rs)")
  case (Inr p)
  obtain tasks triggers where p: "p = (tasks, triggers)" by force
  have "tasks = []"
  proof (rule ccontr)
    assume "tasks \<noteq> []"
    then show False
      using assms interrupt_before_result settle_step_result executeTasksAsync_names
      by (fastforce simp: run_step_def Inr p Let_def split: if_splits sum.splits prod.splits)
  qed
  then show ?thesis
    using assms Inr p by (auto simp: run_step_def)
qed (use assms in \<open>auto simp: run_step_def\<close>)

lemma run_loop_done:
  "run_loop w limit step rs = (rs', Inr k) \<Longrightarrow>
     graph (rs_engine rs') = graph (rs_engine rs) \<and> (\<exists>j rs0. run_step w j rs0 = (rs', Inr False))"
proof (induction w limit step rs rule: run_loop.induct)
  case (1 w limit step rs)
  obtain rs1 r where s: "run_step w step rs = (rs1, r)" by force
  show ?case
    using 1(1) [OF _ _ s [symmetric]] 1(2) [unfolded run_loop.simps [of w limit step rs]] run_step_result [OF s] s
    by (auto split: if_splits sum.splits bool.splits)
qed

lemma save_deferred_loop_core: "run_core (fst (save_deferred_loop w dcs err rs)) = run_core rs"
proof (induction dcs arbitrary: err rs)
  case (Cons dc dcs)
  then show ?case
    using put_checkpoint_keeps(1) [of w "save_config (dc_ThreadID dc) (dc_CheckpointID dc) (dc_Step dc)" "dc_Checkpoint dc" rs]
    by (auto simp: saveCheckpoint_def split: prod.split sum.split)
qed (simp split: option.split)

lemma finish_run_core: "run_core (fst (finish_run w step rs)) = run_core rs"
  using save_deferred_loop_core [of w "deferredCheckpoints (rs_engine rs)" None
      "rs\<lparr>rs_reg := fst (buildOutput (rs_reg rs) (rs_last_state rs))\<rparr>"]
  by (auto simp: finish_run_def saveDeferredCheckpoints_def run_core_def Let_def split_beta split: sum.split)

text \<open>A successful run ends where no task is left to prepare.\<close>

lemma RunSync_done:
  fixes w :: "'s world"
  assumes "RunSync w e input = (rs, Inr out)"
  shows "graph (rs_engine rs) = graph e \<and> (\<exists>j (rs' :: 's run_state) triggers.
    graph (rs_engine rs') = graph e \<and> rs_completed rs' = rs_completed rs \<and>
    prepareNextTasks (w_fx w) (w_ord w j) (w_uid w j) (rs_engine rs') (rs_reg rs') (rs_completed rs')
      (rs_last_node rs') (rs_last_state rs') = Inr ([], triggers))"
proof -
  obtain rs0 where s: "start_run w e input = (rs0, Inr ())"
    using assms by (auto simp: RunSync_def Engine_Run_def split: prod.splits sum.splits)
  obtain rs1 k where l: "run_loop w (recursionLimit e) 0 rs0 = (rs1, Inr k)"
    using assms by (auto simp: RunSync_def Engine_Run_def s split: prod.splits sum.splits)
  have "rs = fst (finish_run w k rs1)"
    using assms by (auto simp: RunSync_def Engine_Run_def s l split: prod.splits sum.splits)
  then have f: "run_core rs = run_core rs1"
    using finish_run_core [of w k rs1] by simp
  have g: "graph (rs_engine rs1) = graph e"
    using start_run_result [OF s] run_loop_done [OF l] by simp
  obtain j rs2 where "run_step w j rs2 = (rs1, Inr False)"
    using run_loop_done [OF l] by blast
  from run_step_stop [OF this] obtain triggers where "prepareNextTasks (w_fx w) (w_ord w j) (w_uid w j) (rs_engine rs1)
      (rs_reg rs1) (rs_completed rs1) (rs_last_node rs1) (rs_last_state rs1) = Inr ([], triggers)"
    by blast
  moreover have "rs_completed rs1 = rs_completed rs" "graph (rs_engine rs) = graph e"
    using f g by (simp_all add: run_core_def)
  ultimately show ?thesis
    using g by blast
qed

lemma no_ready_all_done:
  assumes "graph_wf g" and "acyclic (edge_rel g)" and "has_node g n"
    and ready: "\<And>n. has_node g n \<Longrightarrow> \<forall>p \<in> real_preds g n. P p \<Longrightarrow> P n"
  shows "P n"
proof -
  have "wf (edge_rel g)"
    using assms(2) by (intro finite_acyclic_wf) (simp_all add: edge_rel_def)
  then show ?thesis
    using assms(3)
  proof (induction n rule: wf_induct_rule)
    case (less n)
    have "P p" if "p \<in> real_preds g n" for p
    proof (rule less.IH)
      show "(p, n) \<in> edge_rel g"
        using that by (auto simp: real_preds_def edge_rel_def)
      show "has_node g p"
        using that assms(1) by (auto simp: real_preds_def graph_wf_def known_source_def)
    qed
    then show ?case
      using ready [OF less.prems] by blast
  qed
qed

text \<open>C1: on an acyclic graph in DAG mode, a run that returns a result has completed every node.\<close>

theorem dag_run_completes_all:
  fixes w :: "'s world"
  assumes "dag_graph (graph e)" and "fair_world w" and "acyclic (edge_rel (graph e))" and "entryPoint (graph e) \<noteq> End_node"
    and "RunSync w e input = (rs, Inr out)" and "has_node (graph e) n"
  shows "gm_true (rs_completed rs) n"
proof -
  obtain j and rs' :: "'s run_state" and triggers where g: "graph (rs_engine rs') = graph e" and c: "rs_completed rs' = rs_completed rs"
    and p: "prepareNextTasks (w_fx w) (w_ord w j) (w_uid w j) (rs_engine rs') (rs_reg rs') (rs_completed rs')
      (rs_last_node rs') (rs_last_state rs') = Inr ([], triggers)"
    using RunSync_done [OF assms(5)] by blast
  have "rs_completed rs' \<noteq> []"
    using p g assms(4) by (auto simp: prepareNextTasks_def prepareNextTasksWithMode_def getEntryPoint_def Let_def
        split: if_splits option.splits)
  then have "prepareNextTasksDAG (w_ord w j) (w_uid w j) (rs_engine rs') (rs_completed rs') True = ([], triggers)"
    using p g assms(1) by (simp add: prepareNextTasks_def prepareNextTasksWithMode_def dag_graph_def)
  then have none: "{n. has_node (graph e) n \<and> dag_ready (rs_engine rs') (rs_completed rs') n} = {}"
    using prepareNextTasksDAG_names [of "rs_engine rs'" "w_ord w j" "w_uid w j" "rs_completed rs'" True] g assms(1)
      fair_world_set [OF assms(2)] by (simp add: dag_graph_def)
  show ?thesis
  proof (rule no_ready_all_done [OF _ assms(3,6)])
    show "graph_wf (graph e)"
      using assms(1) by (simp add: dag_graph_def)
    show "gm_true (rs_completed rs) m" if "has_node (graph e) m" "\<forall>p \<in> real_preds (graph e) m. gm_true (rs_completed rs) p" for m
      using none that by (auto simp: dag_ready_iff g c)
  qed
qed

theorem dag_run_completes_all_witness:
  "gm_true (rs_completed (fst (RunSync mem_world (chain_engine 3) (GMap [])))) ''b''"
proof -
  have run: "RunSync mem_world (chain_engine 3) (GMap []) =
      (fst (RunSync mem_world (chain_engine 3) (GMap [])), Inr (GMap [(''x'', GBool True)]))"
    using chain_run by (metis prod.collapse)
  show ?thesis
    by (rule dag_run_completes_all [OF _ mem_world_fair _ _ run])
      (simp_all add: chain_dag chain_acyclic End_node_def)
qed

section \<open>What becomes of the input\<close>

lemma init_registry_Get:
  assumes "gm_ok (channels (graph e))"
  shows "Registry_Get (init_registry e) k = map_option ch_Copy (map_of (channels (graph e)) k)"
proof -
  have "Registry_Get (fold (\<lambda>(n, c) r. Register r n (ch_Copy c)) cs r) k =
      (case map_of cs k of None \<Rightarrow> Registry_Get r k | Some c \<Rightarrow> Some (ch_Copy c))" if "gm_ok cs" for cs r
    using that
  proof (induction cs arbitrary: r)
    case (Cons p cs)
    then have "map_of cs (fst p) = None"
      by (simp add: map_of_eq_None_iff)
    with Cons show ?case
      by (cases p) (auto split: option.split)
  qed simp
  from this [OF assms, of NewRegistry] show ?thesis
    by (simp add: init_registry_def getGraphChannels_def NewRegistry_def Registry_Get_def split: option.split)
qed

lemma applyInput_one:
  assumes "Registry_Get reg k = Some ch" and "ch_Update ch [v] = (ch', Inr b)"
  shows "\<exists>reg'. applyInput reg (GMap [(k, v)]) = ((reg', GMap [(k, v)]), Inr ()) \<and> Registry_Get reg' k = Some ch'"
proof -
  have "map_of (reg_channels reg) k = Some ch"
    using assms(1) by (simp add: Registry_Get_def)
  then show ?thesis
    using assms by (simp add: applyInput_def toMap_def as_map_def has_channel_def UpdateChannels_def update_loop_step
        Registry_Get_def gomap_simps)
qed

lemma counter_update:
  "operator c = IntAdd \<Longrightarrow> bo_value c = GInt v \<Longrightarrow>
     ch_Update (ChBinop c) [GInt n] = (ChBinop (c\<lparr>bo_value := GInt (v + n)\<rparr>), Inr True)"
  by (simp add: chan_defs isOverwrite_def IntAdd_def out_map_def assert_defs)

text \<open>Without a checkpointer a run applies its input twice before the first step: a counter channel
  starts from its initial value plus twice the number given.\<close>

theorem fresh_run_counts_input_twice:
  assumes "checkpointer e = None" and "gm_ok (channels (graph e))"
    and "map_of (channels (graph e)) k = Some (ChBinop c)" and "operator c = IntAdd" and "bo_value c = GInt v"
  shows "\<exists>rs ch. start_run w e (GMap [(k, GInt n)]) = (rs, Inr ()) \<and> Registry_Get (rs_reg rs) k = Some ch \<and>
    snd (ch_Get ch) = Inr (GInt (v + n + n))"
proof -
  let ?c = "BinaryOperatorAggregate_Copy c"
  have op: "operator ?c = IntAdd" "bo_value ?c = GInt v"
    using assms(4,5) by (simp_all add: chan_defs)
  have "Registry_Get (init_registry (reset_engine e)) k = Some (ChBinop ?c)"
    using assms(2,3) by (simp add: init_registry_Get reset_engine_def)
  from applyInput_one [OF this counter_update [OF op]] obtain reg1
    where a1: "applyInput (init_registry (reset_engine e)) (GMap [(k, GInt n)]) = ((reg1, GMap [(k, GInt n)]), Inr ())"
      and g1: "Registry_Get reg1 k = Some (ChBinop (?c\<lparr>bo_value := GInt (v + n)\<rparr>))"
    by blast
  have "ch_Update (ChBinop (?c\<lparr>bo_value := GInt (v + n)\<rparr>)) [GInt n] =
      (ChBinop (?c\<lparr>bo_value := GInt (v + n)\<rparr>\<lparr>bo_value := GInt (v + n + n)\<rparr>), Inr True)"
    using op by (intro counter_update) simp_all
  from applyInput_one [OF g1 this] obtain reg2
    where a2: "applyInput reg1 (GMap [(k, GInt n)]) = ((reg2, GMap [(k, GInt n)]), Inr ())"
      and g2: "Registry_Get reg2 k = Some (ChBinop (?c\<lparr>bo_value := GInt (v + n + n)\<rparr>))"
    by auto
  have "checkpointer (reset_engine e) = None"
    using assms(1) by (simp add: reset_engine_def)
  then show ?thesis
    using g2 by (simp add: start_run_def Let_def a1 a2 wrap_input_def load_data_def new_run_def chan_defs)
qed

definition counter_graph :: stateGraph where
  "counter_graph = (NewStateGraph SNil)\<lparr>channels := [(''n'', ChBinop (NewBinaryOperatorAggregate TInt IntAdd))]\<rparr>"

theorem fresh_run_counts_input_twice_witness:
  "\<exists>rs ch. start_run mem_world (NewEngine counter_graph []) (GMap [(''n'', GInt 5)]) = (rs, Inr ()) \<and>
     Registry_Get (rs_reg rs) ''n'' = Some ch \<and> snd (ch_Get ch) = Inr (GInt 10)"
proof -
  have "\<exists>rs ch. start_run mem_world (NewEngine counter_graph []) (GMap [(''n'', GInt 5)]) = (rs, Inr ()) \<and>
     Registry_Get (rs_reg rs) ''n'' = Some ch \<and> snd (ch_Get ch) = Inr (GInt (0 + 5 + 5))"
    by (rule fresh_run_counts_input_twice [where c = "NewBinaryOperatorAggregate TInt IntAdd"])
      (simp_all add: NewEngine_def counter_graph_def chan_defs createZeroValue_def)
  then show ?thesis by simp
qed

section \<open>Resuming from the checkpointer\<close>

text \<open>
  What the engine needs of a \<^verbatim>\<open>BaseCheckpointer\<close> to resume: a checkpoint put for a thread is the one got
  next, with the same keys and with its text values intact where they are valid UTF-8.
\<close>

definition keeps_text :: "gostate \<Rightarrow> gostate \<Rightarrow> bool" where
  "keeps_text data data' \<longleftrightarrow>
     (\<forall>k v. map_of data k = Some (GStr v) \<and> to_valid_utf8 v = v \<longrightarrow> map_of data' k = Some (GStr v)) \<and>
     (\<forall>k. map_of data k = None \<longrightarrow> map_of data' k = None)"

locale base_checkpointer =
  fixes get :: "'s \<Rightarrow> gostate \<Rightarrow> gerror + gostate option"
    and put :: "'s \<Rightarrow> gostate \<Rightarrow> gostate \<Rightarrow> (gerror, 's, unit) outcome"
  assumes get_put: "put s (thread_config t) data = (s', Inr ()) \<Longrightarrow>
    \<exists>data'. get s' (thread_config t) = Inr (Some data') \<and> keeps_text data data'"
begin

text \<open>A run on the thread of an earlier one starts from the data that was put there.\<close>

lemma start_after_put:
  assumes w: "w_Get w = get" "w_Put w = put"
    and put: "put_checkpoint w (thread_config t) data rs = (rs', Inr ())" "checkpointer (rs_engine rs) \<noteq> None"
    and e: "checkpointer e = checkpointer (rs_engine rs')" "getThreadID w e = t" "requested_id e = []"
    and start: "start_run w e input = (rs2, Inr ())"
  shows "\<exists>data'. keeps_text data data' \<and> rs_completed rs2 = restored_completed data' \<and>
    rs_last_node rs2 = restored_last_node data'"
proof -
  obtain s where s: "checkpointer (rs_engine rs) = Some s"
    using put(2) by blast
  obtain s' where p: "put s (thread_config t) data = (s', Inr ())" and s': "checkpointer (rs_engine rs') = Some s'"
    using put(1) by (auto simp: put_checkpoint_def s w(2) split: prod.splits)
  obtain data' where d: "get s' (thread_config t) = Inr (Some data')" "keeps_text data data'"
    using get_put [OF p] by blast
  have "load_data w t (reset_engine e) = Inr (Some data')"
    using d(1) e s' w(1) by (simp add: load_data_def load_config_def reset_engine_def requested_id_def)
  then show ?thesis
    using start e(2) d(2) by (auto simp: start_run_def Let_def new_run_def split: prod.splits sum.splits)
qed

end

lemma MemorySaver_keeps_text: "keeps_text data (deepCopyMap jx (deepCopyMap jx data))"
  by (auto simp: keeps_text_def gomap_simps json_rt_def)

interpretation mem: base_checkpointer "MemorySaver_Get jx" "MemorySaver_Put jx uid now" for jx uid now
proof
  fix s t data s'
  assume "MemorySaver_Put jx uid now s (thread_config t) data = (s', Inr ())"
  then have "thread_entries s' t = thread_entries s t @ [new_entry jx uid now t (thread_config t) data]"
    by (auto simp: MemorySaver_Put_def append_entry_def thread_entries_def gomap_simps)
  then show "\<exists>data'. MemorySaver_Get jx s' (thread_config t) = Inr (Some data') \<and> keeps_text data data'"
    using MemorySaver_keeps_text [of data jx] by (simp add: MemorySaver_Get_def new_entry_def)
qed

lemma interrupt_payload_lookup:
  "map_of (interrupt_payload w step results rs) ''__completed_tasks__'' = Some (GStr (serializeStringSet (rs_completed rs)))"
  "map_of (interrupt_payload w step results rs) ''__last_completed_node__'' = Some (GStr (rs_last_node rs))"
  by (simp_all add: interrupt_payload_def Let_def set_opt_def gomap_simps split: option.split)

text \<open>Names that survive the encoding of the completed tasks.\<close>

definition encodable_names :: "'s run_state \<Rightarrow> bool" where
  "encodable_names rs \<longleftrightarrow>
     (\<forall>k \<in> set (gm_keys (rs_completed rs)). k \<noteq> [] \<and> NUL \<notin> set k) \<and>
     to_valid_utf8 (serializeStringSet (rs_completed rs)) = serializeStringSet (rs_completed rs) \<and>
     to_valid_utf8 (rs_last_node rs) = rs_last_node rs"

text \<open>The engine of the next run on the thread of a run that stopped.\<close>

definition next_engine :: "'s world \<Rightarrow> 's run_state \<Rightarrow> 's Engine \<Rightarrow> bool" where
  "next_engine w rs e \<longleftrightarrow> checkpointer e = checkpointer (rs_engine rs) \<and> checkpointer (rs_engine rs) \<noteq> None \<and>
     getThreadID w e = rs_thread rs \<and> requested_id e = []"

lemma put_checkpoint_thread: "rs_thread (fst (put_checkpoint w cfg data rs)) = rs_thread rs"
  "checkpointer (rs_engine (fst (put_checkpoint w cfg data rs))) = None \<longleftrightarrow> checkpointer (rs_engine rs) = None"
  by (auto simp: put_checkpoint_def split: option.splits prod.splits)

lemma mem_start_after_put:
  assumes "w_Get w = MemorySaver_Get jx" and "w_Put w = MemorySaver_Put jx uid now"
    and "put_checkpoint w (thread_config (rs_thread rs)) data rs = (rs1, Inr ())"
    and "rs_engine rs' = rs_engine rs1" and "rs_thread rs' = rs_thread rs1"
    and "next_engine w rs' e" and "start_run w e input = (rs2, Inr ())"
  shows "\<exists>data'. keeps_text data data' \<and> rs_completed rs2 = restored_completed data' \<and>
    rs_last_node rs2 = restored_last_node data'"
  using assms(4-6) put_checkpoint_thread [of w "thread_config (rs_thread rs)" data rs] assms(3)
  by (intro mem.start_after_put [OF assms(1-3) _ _ _ _ assms(7)]) (auto simp: next_engine_def)

lemma interrupt_exit_put:
  assumes "interrupt_exit w step results rs = (rs', Inl (GraphInterrupt is))"
  obtains rs1 where "put_checkpoint w (thread_config (rs_thread rs)) (interrupt_payload w step results rs) rs = (rs1, Inr ())"
    and "rs_engine rs' = rs_engine rs1" and "rs_thread rs' = rs_thread rs1"
  using assms that by (auto simp: interrupt_exit_def split: prod.splits sum.splits)

lemma interrupt_before_put:
  assumes "interrupt_before w step ts rs = (rs', Inl (GraphInterrupt is))"
  obtains rs1 where "put_checkpoint w (thread_config (rs_thread rs)) (CreateCheckpoint (rs_reg rs)) rs = (rs1, Inr ())"
    and "rs_engine rs' = rs_engine rs1" and "rs_thread rs' = rs_thread rs1"
  using assms that by (auto simp: interrupt_before_def split: prod.splits sum.splits)

text \<open>C4: a run that a node interrupted is resumed by the next run on its thread: the new run starts with
  exactly the tasks completed before the interrupt and with the same last completed node.\<close>

theorem interrupt_resume_restores:
  assumes "w_Get w = MemorySaver_Get jx" and "w_Put w = MemorySaver_Put jx uid now"
    and "interrupt_exit w step results rs = (rs', Inl (GraphInterrupt is))"
    and "rs_completed rs \<noteq> []" and "encodable_names rs"
    and "next_engine w rs' e" and "start_run w e input = (rs2, Inr ())"
  shows "(\<forall>k. gm_true (rs_completed rs2) k \<longleftrightarrow> k \<in> set (gm_keys (rs_completed rs))) \<and> rs_last_node rs2 = rs_last_node rs"
proof -
  obtain rs1 where put: "put_checkpoint w (thread_config (rs_thread rs)) (interrupt_payload w step results rs) rs = (rs1, Inr ())"
    and rs': "rs_engine rs' = rs_engine rs1" "rs_thread rs' = rs_thread rs1"
    using interrupt_exit_put [OF assms(3)] .
  obtain data where data: "keeps_text (interrupt_payload w step results rs) data"
      "rs_completed rs2 = restored_completed data" "rs_last_node rs2 = restored_last_node data"
    using mem_start_after_put [OF assms(1,2) put rs' assms(6,7)] by blast
  then have "map_of data ''__completed_tasks__'' = Some (GStr (serializeStringSet (rs_completed rs)))"
    "map_of data ''__last_completed_node__'' = Some (GStr (rs_last_node rs))"
    using assms(5) interrupt_payload_lookup [of w step results rs] by (simp_all add: keeps_text_def encodable_names_def)
  moreover obtain m where "deserializeStringSet (serializeStringSet (rs_completed rs)) = Some m"
    "\<forall>k. gm_true m k \<longleftrightarrow> k \<in> set (gm_keys (rs_completed rs))"
    using deserialize_serialize [OF assms(4)] assms(5) by (auto simp: encodable_names_def)
  ultimately show ?thesis
    using data(2,3) by (simp add: restored_completed_def restored_last_node_def)
qed

text \<open>A run stopped in node \<open>b\<close> after node \<open>a\<close> has completed.\<close>

definition paused :: "MemorySaver run_state" where
  "paused = (new_run ((chain_engine 3)\<lparr>checkpointer := Some NewMemorySaver\<rparr>) NewRegistry ''t'')
     \<lparr>rs_completed := [(''a'', True)], rs_last_node := ''a''\<rparr>"

definition stopped :: "TaskResult list" where
  "stopped = [\<lparr>res_Name = ''b'', res_Output = GNil, res_Err = Some (GraphInterrupt [])\<rparr>]"

definition stopped_run :: "MemorySaver run_state" where
  "stopped_run = fst (interrupt_exit mem_world 1 stopped paused)"

lemma start_run_empty:
  assumes "channels (graph e) = []" and "requested_id e = []"
  shows "snd (start_run w e (GMap [])) = Inr ()"
proof -
  have reg: "init_registry (reset_engine e) = NewRegistry"
    using assms(1) by (simp add: init_registry_def getGraphChannels_def reset_engine_def)
  have inp: "applyInput NewRegistry (GMap []) = ((NewRegistry, GMap []), Inr ())"
    by (simp add: applyInput_def toMap_def as_map_def)
  have "restore_channels NewRegistry data = (NewRegistry, Inr ())" for data
    by (simp add: restore_channels_def has_channel_def NewRegistry_def Registry_Get_def filter_empty_conv)
  moreover have "\<exists>d. load_data w (getThreadID w e) (reset_engine e) = Inr d"
    using assms(2) by (auto simp: load_data_def requested_id_def reset_engine_def split: option.split sum.split)
  ultimately show ?thesis
    by (auto simp: start_run_def Let_def reg inp wrap_input_def split: option.split)
qed

lemma stopped_facts:
  "interrupt_exit mem_world 1 stopped paused = (stopped_run, Inl (GraphInterrupt []))"
  "next_engine mem_world stopped_run (rs_engine stopped_run)"
  "snd (start_run mem_world (rs_engine stopped_run) (GMap [])) = Inr ()"
  "encodable_names paused"
proof -
  have "snd (interrupt_exit mem_world 1 stopped paused) = Inl (GraphInterrupt [])"
    by (simp add: interrupt_exit_def put_checkpoint_def paused_def new_run_def mem_world_def MemorySaver_Put_def stopped_def)
  then show "interrupt_exit mem_world 1 stopped paused = (stopped_run, Inl (GraphInterrupt []))"
    by (simp add: stopped_run_def prod_eq_iff)
  obtain s where "rs_engine stopped_run = (chain_engine 3)\<lparr>checkpointer := Some s\<rparr>" "rs_thread stopped_run = ''t''"
    by (simp add: stopped_run_def interrupt_exit_def put_checkpoint_def paused_def new_run_def mem_world_def MemorySaver_Put_def)
  then have "next_engine mem_world stopped_run (rs_engine stopped_run)" and "channels (graph (rs_engine stopped_run)) = []"
    by (simp_all add: next_engine_def getThreadID_def requested_id_def chain_engine_def NewEngine_def Engine_WithRecursionLimit_def
        NewRunnableConfig_def mem_world_def chain_def NewStateGraph_def)
  then show "next_engine mem_world stopped_run (rs_engine stopped_run)"
    "snd (start_run mem_world (rs_engine stopped_run) (GMap [])) = Inr ()"
    by (auto simp: next_engine_def intro: start_run_empty)
  show "encodable_names paused"
    unfolding encodable_names_def by code_simp
qed

theorem interrupt_resume_restores_witness:
  "gm_true (rs_completed (fst (start_run mem_world (rs_engine stopped_run) (GMap [])))) ''a'' \<and>
   rs_last_node (fst (start_run mem_world (rs_engine stopped_run) (GMap []))) = ''a''"
proof -
  let ?r = "start_run mem_world (rs_engine stopped_run) (GMap [])"
  have "?r = (fst ?r, Inr ())"
    using stopped_facts(3) by (simp add: prod_eq_iff)
  moreover have "rs_completed paused = [(''a'', True)]" "rs_last_node paused = ''a''"
    by (simp_all add: paused_def)
  ultimately show ?thesis
    using interrupt_resume_restores [OF _ _ stopped_facts(1) _ stopped_facts(4,2), of "\<lambda>_. None" "''id''" 0 "GMap []" "fst ?r"]
    by (simp add: mem_world_def)
qed

text \<open>A run stopped before a node restarts from nothing: the checkpoint it leaves does not say which tasks
  have completed, so the next run on the thread begins at the entry point again.\<close>

theorem interrupt_before_forgets:
  assumes "w_Get w = MemorySaver_Get jx" and "w_Put w = MemorySaver_Put jx uid now"
    and "interrupt_before w step ts rs = (rs', Inl (GraphInterrupt is))" and "reg_ok (rs_reg rs)"
    and "\<not> has_channel (rs_reg rs) ''__completed_tasks__''" and "\<not> has_channel (rs_reg rs) ''__last_completed_node__''"
    and "next_engine w rs' e" and "start_run w e input = (rs2, Inr ())"
  shows "rs_completed rs2 = [] \<and> rs_last_node rs2 = []"
proof -
  obtain rs1 where put: "put_checkpoint w (thread_config (rs_thread rs)) (CreateCheckpoint (rs_reg rs)) rs = (rs1, Inr ())"
    and rs': "rs_engine rs' = rs_engine rs1" "rs_thread rs' = rs_thread rs1"
    using interrupt_before_put [OF assms(3)] .
  obtain data where data: "keeps_text (CreateCheckpoint (rs_reg rs)) data"
      "rs_completed rs2 = restored_completed data" "rs_last_node rs2 = restored_last_node data"
    using mem_start_after_put [OF assms(1,2) put rs' assms(7,8)] by blast
  then show ?thesis
    using assms(4,5,6) by (simp add: keeps_text_def CreateCheckpoint_lookup has_channel_def restored_completed_def
        restored_last_node_def)
qed

text \<open>In the exit durability mode a step writes nothing to the checkpointer, also when the run is then
  interrupted after a node: the deferred checkpoints are saved by a run that finishes, and by no other.\<close>

theorem exit_mode_step_saves_nothing:
  assumes "rc_Durability (config (rs_engine rs)) = DurabilityExit"
    and "commit_step w step results triggers rs = (rs', res)"
  shows "checkpointer (rs_engine rs') = checkpointer (rs_engine rs)"
proof -
  obtain e1 reg1 r where w: "applyWrites (w_ord w step) (rs_engine rs) (rs_reg rs) results triggers = ((e1, reg1), r)"
    by (metis prod.exhaust)
  have e1: "checkpointer e1 = checkpointer (rs_engine rs)" "config e1 = config (rs_engine rs)"
    using applyWrites_static [OF w] by (simp_all add: static_def)
  then have "checkpointer (rs_engine (fst (save_step w step (emit_values step (rs\<lparr>rs_engine := e1, rs_reg := reg1\<rparr>))))) =
      checkpointer (rs_engine rs)"
    using assms(1) by (simp add: save_step_def deferCheckpoint_def Let_def)
  then show ?thesis
    using assms(2) e1 by (auto simp: commit_step_def w split: sum.splits prod.splits if_splits)
qed

end
