(* ===== verification/Interrupts.thy ===== *)
theory Interrupts
  imports GraphErrors
begin

text \<open>
  Interrupts raised inside a node (\<^verbatim>\<open>interrupt/interrupt.go\<close>): the resume values of a request, handed out one
  per call, and the \<^verbatim>\<open>GraphInterrupt\<close> when there are none left. A request without a context of its own shares
  the global one. The first eight bytes of SHA-256 in hexadecimal are the argument \<open>sha\<close>; \<open>fx\<close> prints values of
  user types. A mutex guards each access, so calls are single steps here.
\<close>

section \<open>Contexts\<close>

record interruptContext =
  resumeValues :: "goval list"
  ic_index :: int
  nullResume :: goval

definition new_context :: interruptContext where
  "new_context = \<lparr>resumeValues = [], ic_index = 0, nullResume = GNil\<rparr>"

text \<open>The context of the request, if it has one, the global context, and the counter of interrupts.\<close>

record interrupts_state =
  ctx_ic :: "interruptContext option"
  globalContext :: interruptContext
  interruptIDCounter :: i64

definition WithInterruptContext :: "interrupts_state \<Rightarrow> interrupts_state" where
  "WithInterruptContext s = s\<lparr>ctx_ic := Some new_context\<rparr>"

definition GetInterruptContext :: "interrupts_state \<Rightarrow> interruptContext option" where
  "GetInterruptContext s = ctx_ic s"

definition IsInterruptContext :: "interrupts_state \<Rightarrow> bool" where
  "IsInterruptContext s = (GetInterruptContext s \<noteq> None)"

text \<open>The context in force: the request's, or the global one.\<close>

definition the_context :: "interrupts_state \<Rightarrow> interruptContext" where
  "the_context s = (case GetInterruptContext s of Some ic \<Rightarrow> ic | None \<Rightarrow> globalContext s)"

definition put_context :: "interruptContext \<Rightarrow> interrupts_state \<Rightarrow> interrupts_state" where
  "put_context ic s =
     (case GetInterruptContext s of Some _ \<Rightarrow> s\<lparr>ctx_ic := Some ic\<rparr> | None \<Rightarrow> s\<lparr>globalContext := ic\<rparr>)"

definition consumeNextResumeValue :: "interruptContext \<Rightarrow> interruptContext \<times> goval option" where
  "consumeNextResumeValue ic =
     (if ic_index ic < int (length (resumeValues ic))
      then (ic\<lparr>ic_index := ic_index ic + 1\<rparr>, Some (resumeValues ic ! nat (ic_index ic)))
      else (ic, None))"

definition appendResumeValue :: "goval \<Rightarrow> interruptContext \<Rightarrow> interruptContext" where
  "appendResumeValue v ic = ic\<lparr>resumeValues := resumeValues ic @ [v]\<rparr>"

definition setNullResume :: "goval \<Rightarrow> interruptContext \<Rightarrow> interruptContext" where
  "setNullResume v ic = ic\<lparr>nullResume := v\<rparr>"

definition setResumeValues :: "goval list \<Rightarrow> interruptContext \<Rightarrow> interruptContext" where
  "setResumeValues vs ic = ic\<lparr>resumeValues := vs\<rparr>"

definition ic_reset :: "interruptContext \<Rightarrow> interruptContext" where
  "ic_reset ic = new_context"

section \<open>Raising an interrupt\<close>

text \<open>A \<^verbatim>\<open>*types.Interrupt\<close> as a value.\<close>

definition NewInterrupt :: "goval \<Rightarrow> string \<Rightarrow> goval" where
  "NewInterrupt value i = GPtr (GStruct ''types.Interrupt'' [(''Value'', value), (''ID'', GStr i)])"

definition generateInterruptID ::
  "(goval \<Rightarrow> string) \<Rightarrow> (string \<Rightarrow> string) \<Rightarrow> goval \<Rightarrow> interrupts_state \<Rightarrow> interrupts_state \<times> string" where
  "generateInterruptID fx sha value s =
     (let n = interruptIDCounter s + 1
      in (s\<lparr>interruptIDCounter := n\<rparr>, sha (go_sprint fx value) @ ''_'' @ show_int (sint n)))"

definition Interrupt ::
  "(goval \<Rightarrow> string) \<Rightarrow> (string \<Rightarrow> string) \<Rightarrow> goval \<Rightarrow> interrupts_state \<Rightarrow> (gerror, interrupts_state, goval) outcome" where
  "Interrupt fx sha value s =
     (let ic = the_context s
      in case consumeNextResumeValue ic of
           (ic', Some v) \<Rightarrow> (put_context ic' s, Inr v)
         | (ic', None) \<Rightarrow>
             if nullResume ic \<noteq> GNil
             then (put_context (appendResumeValue (nullResume ic) (setNullResume GNil ic)) s, Inr (nullResume ic))
             else (let (s', i) = generateInterruptID fx sha value s
                   in (s', Inl (GraphInterrupt [NewInterrupt value i]))))"

definition GetResumeValues :: "interrupts_state \<Rightarrow> goval list" where
  "GetResumeValues s = resumeValues (the_context s)"

definition GetInterruptIndex :: "interrupts_state \<Rightarrow> int" where
  "GetInterruptIndex s = ic_index (the_context s)"

definition AppendResumeValue :: "goval \<Rightarrow> interrupts_state \<Rightarrow> interrupts_state" where
  "AppendResumeValue v s = put_context (appendResumeValue v (the_context s)) s"

definition GetNullResume :: "bool \<Rightarrow> interrupts_state \<Rightarrow> interrupts_state \<times> goval" where
  "GetNullResume consume s =
     (if consume then put_context (setNullResume GNil (the_context s)) s else s, nullResume (the_context s))"

definition SetResumeValues :: "goval list \<Rightarrow> interrupts_state \<Rightarrow> interrupts_state" where
  "SetResumeValues vs s = put_context (setResumeValues vs (the_context s)) s"

definition Reset :: "interrupts_state \<Rightarrow> interrupts_state" where
  "Reset s = put_context (ic_reset (the_context s)) s"

definition IsInterrupt :: "gerror option \<Rightarrow> bool" where
  "IsInterrupt err = IsGraphInterrupt err"

definition GetInterruptValue :: "gerror option \<Rightarrow> goval option" where
  "GetInterruptValue err =
     (case err of
        Some (GraphInterrupt (i # _)) \<Rightarrow>
          (case i of
             GPtr (GStruct t fs) \<Rightarrow>
               if t = ''types.Interrupt'' then Some (case map_of fs ''Value'' of None \<Rightarrow> GNil | Some v \<Rightarrow> v) else Some i
           | _ \<Rightarrow> Some i)
      | _ \<Rightarrow> None)"

section \<open>Resume values are handed out in order\<close>

lemma the_context_put [simp]: "the_context (put_context ic s) = ic"
  by (simp add: the_context_def put_context_def GetInterruptContext_def split: option.split)

lemma put_context_twice [simp]: "put_context ic' (put_context ic s) = put_context ic' s"
  by (simp add: put_context_def GetInterruptContext_def split: option.split)

text \<open>The calls a node makes, one after the other, whatever they return.\<close>

fun calls ::
  "(goval \<Rightarrow> string) \<Rightarrow> (string \<Rightarrow> string) \<Rightarrow> goval list \<Rightarrow> interrupts_state \<Rightarrow> (gerror + goval) list" where
  "calls fx sha [] s = []"
| "calls fx sha (v # vs) s = snd (Interrupt fx sha v s) # calls fx sha vs (fst (Interrupt fx sha v s))"

definition waiting :: "goval list \<Rightarrow> interrupts_state \<Rightarrow> bool" where
  "waiting vs s \<longleftrightarrow> nullResume (the_context s) = GNil \<and> 0 \<le> ic_index (the_context s) \<and>
     vs = drop (nat (ic_index (the_context s))) (resumeValues (the_context s))"

lemma Interrupt_resumed:
  assumes "waiting (r # rs) s"
  shows "snd (Interrupt fx sha v s) = Inr r \<and> waiting rs (fst (Interrupt fx sha v s))"
proof -
  let ?ic = "the_context s"
  have d: "drop (nat (ic_index ?ic)) (resumeValues ?ic) = r # rs" and pos: "0 \<le> ic_index ?ic"
    using assms by (simp_all add: waiting_def)
  then have lt: "nat (ic_index ?ic) < length (resumeValues ?ic)"
    by (metis drop_all list.distinct(1) not_le)
  then have "consumeNextResumeValue ?ic = (?ic\<lparr>ic_index := ic_index ?ic + 1\<rparr>, Some (resumeValues ?ic ! nat (ic_index ?ic)))"
    using pos by (simp add: consumeNextResumeValue_def nat_less_iff)
  moreover have "resumeValues ?ic ! nat (ic_index ?ic) = r" "drop (nat (ic_index ?ic + 1)) (resumeValues ?ic) = rs"
    using d lt pos by (metis Cons_nth_drop_Suc list.inject, metis Cons_nth_drop_Suc Suc_nat_eq_nat_zadd1 add.commute list.inject)
  ultimately show ?thesis
    using assms by (simp add: Interrupt_def Let_def waiting_def)
qed

lemma Interrupt_raised:
  assumes "waiting [] s"
  shows "(\<exists>i. snd (Interrupt fx sha v s) = Inl (GraphInterrupt [NewInterrupt v i])) \<and> waiting [] (fst (Interrupt fx sha v s))"
proof -
  have "\<not> ic_index (the_context s) < int (length (resumeValues (the_context s)))"
    using assms by (auto simp: waiting_def nat_le_iff)
  moreover have "the_context (s\<lparr>interruptIDCounter := n\<rparr>) = the_context s" for n
    by (simp add: the_context_def GetInterruptContext_def split: option.split)
  ultimately show ?thesis
    using assms by (auto simp: Interrupt_def consumeNextResumeValue_def waiting_def generateInterruptID_def Let_def)
qed

lemma calls_from:
  "waiting rs s \<Longrightarrow> i < length vs \<Longrightarrow>
     (if i < length rs then calls fx sha vs s ! i = Inr (rs ! i)
      else \<exists>n. calls fx sha vs s ! i = Inl (GraphInterrupt [NewInterrupt (vs ! i) n]))"
proof (induction vs arbitrary: rs s i)
  case (Cons v vs)
  obtain rs' where next_state: "waiting rs' (fst (Interrupt fx sha v s))" and rs: "rs' = tl rs"
    using Cons.prems(1) Interrupt_resumed [of _ _ s fx sha v] Interrupt_raised [of s fx sha v] by (cases rs) auto
  show ?case
  proof (cases i)
    case 0
    then show ?thesis
      using Cons.prems(1) Interrupt_resumed [of _ _ s fx sha v] Interrupt_raised [of s fx sha v] by (cases rs) auto
  next
    case (Suc j)
    have "j < length rs' \<longleftrightarrow> i < length rs" "j < length rs' \<Longrightarrow> rs' ! j = rs ! i"
      using rs Suc by (cases rs; simp)+
    then show ?thesis
      using Cons.IH [OF next_state, of j] Cons.prems(2) Suc by simp
  qed
qed simp

text \<open>The calls of \<^verbatim>\<open>Interrupt\<close> in a node that is resumed with a list of values return these values in
  order, each once, and every call after them raises an interrupt that carries its own value.\<close>

theorem resume_values_in_order:
  assumes "resumeValues (the_context s) = rs" and "ic_index (the_context s) = 0" and "nullResume (the_context s) = GNil"
    and "i < length vs"
  shows "if i < length rs then calls fx sha vs s ! i = Inr (rs ! i)
    else GetInterruptValue (case calls fx sha vs s ! i of Inl e \<Rightarrow> Some e | Inr _ \<Rightarrow> None) = Some (vs ! i)"
proof -
  have "waiting rs s"
    using assms by (simp add: waiting_def)
  from calls_from [OF this assms(4), of fx sha] show ?thesis
    by (auto simp: GetInterruptValue_def NewInterrupt_def split: if_splits)
qed

definition request :: "goval list \<Rightarrow> interrupts_state" where
  "request vs = SetResumeValues vs (WithInterruptContext
     \<lparr>ctx_ic = None, globalContext = new_context, interruptIDCounter = 0\<rparr>)"

theorem resume_values_in_order_witness:
  "calls (\<lambda>_. []) id [GStr ''first?'', GStr ''second?''] (request [GStr ''yes'']) ! 0 = Inr (GStr ''yes'') \<and>
   GetInterruptValue (case calls (\<lambda>_. []) id [GStr ''first?'', GStr ''second?''] (request [GStr ''yes'']) ! 1 of
     Inl e \<Rightarrow> Some e | Inr _ \<Rightarrow> None) = Some (GStr ''second?'')"
  using resume_values_in_order [of "request [GStr ''yes'']" "[GStr ''yes'']" 0 "[GStr ''first?'', GStr ''second?'']" "\<lambda>_. []" id]
    resume_values_in_order [of "request [GStr ''yes'']" "[GStr ''yes'']" 1 "[GStr ''first?'', GStr ''second?'']" "\<lambda>_. []" id]
  by (simp add: request_def SetResumeValues_def WithInterruptContext_def setResumeValues_def the_context_def put_context_def
      GetInterruptContext_def new_context_def)

text \<open>A null resume value answers two calls: it is appended to the resume values behind the index, so the next
  call finds it there again.\<close>

theorem null_resume_answers_twice:
  assumes "nullResume (the_context s) = v" and "v \<noteq> GNil"
    and "ic_index (the_context s) = int (length (resumeValues (the_context s)))"
  shows "take 2 (calls fx sha [a, b] s) = [Inr v, Inr v]"
  using assms by (simp add: Interrupt_def Let_def consumeNextResumeValue_def appendResumeValue_def setNullResume_def)

text \<open>Interrupts of one process have different identifiers, also for equal values: the counter is part of them.\<close>

lemma interrupt_counter:
  "snd (Interrupt fx sha v s) = Inl (GraphInterrupt [NewInterrupt v i]) \<Longrightarrow>
     interruptIDCounter (fst (Interrupt fx sha v s)) = interruptIDCounter s + 1 \<and>
     i = sha (go_sprint fx v) @ ''_'' @ show_int (sint (interruptIDCounter s + 1))"
  by (auto simp: Interrupt_def generateInterruptID_def NewInterrupt_def Let_def split: prod.splits option.splits if_splits)

end
