(* ===== verification/Loops.thy ===== *)
theory Loops
  imports Interrupts
begin

text \<open>
  The two macros that run a compiled sub-graph inside one node: \<^verbatim>\<open>graph/loop.go\<close> (repeat until a condition
  holds) and \<^verbatim>\<open>graph/parallel.go\<close> (once per item of a list). The sub-graph is an argument, a function of its
  input and its thread id on the state of the interrupts; so are the JSON codec and the quit condition.
\<close>

section \<open>Loop nodes\<close>

type_synonym subgraph = "goval \<Rightarrow> string \<Rightarrow> interrupts_state \<Rightarrow> (gerror, interrupts_state, goval) outcome"

type_synonym LoopCondition = "int \<Rightarrow> goval \<Rightarrow> goval \<Rightarrow> gerror + bool"

record loopOptions =
  maxIterations :: int
  checkpointIDPrefix :: string

type_synonym LoopOption = "loopOptions \<Rightarrow> loopOptions"

definition WithLoopMaxIterations :: "int \<Rightarrow> LoopOption" where
  "WithLoopMaxIterations n o' = (if n \<ge> 0 then o'\<lparr>maxIterations := n\<rparr> else o')"

definition WithLoopCheckpointIDPrefix :: "string \<Rightarrow> LoopOption" where
  "WithLoopCheckpointIDPrefix p o' = (if p \<noteq> [] then o'\<lparr>checkpointIDPrefix := p\<rparr> else o')"

definition getLoopOptions :: "LoopOption list \<Rightarrow> loopOptions" where
  "getLoopOptions opts = fold (\<lambda>opt o'. opt o') opts \<lparr>maxIterations = 1024, checkpointIDPrefix = []\<rparr>"

text \<open>The state saved on an interrupt; the raw messages are JSON texts, empty where absent.\<close>

record loopInterruptState =
  Iteration :: int
  CurrentInput :: string
  UserFillUpValue :: string

definition loop_state_value :: "loopInterruptState \<Rightarrow> goval" where
  "loop_state_value st =
     GStruct ''graph.loopInterruptState'' [(''Iteration'', GInt (word_of_int (Iteration st))),
       (''CurrentInput'', GBytes (CurrentInput st)), (''UserFillUpValue'', GBytes (UserFillUpValue st))]"

text \<open>What the loop takes from outside: printing, hashing, and JSON.\<close>

record loop_env =
  le_fx :: "goval \<Rightarrow> string"
  le_sha :: "string \<Rightarrow> string"
  le_enc :: "goval \<Rightarrow> string option"
  le_dec :: "string \<Rightarrow> goval option"
  le_dec_state :: "string \<Rightarrow> loopInterruptState option"

text \<open>The snapshot of an earlier run: the engine's sub-state (\<open>sub\<close>), else a resume value.\<close>

definition valid_snapshot :: "loop_env \<Rightarrow> string \<Rightarrow> loopInterruptState option" where
  "valid_snapshot env text =
     (case le_dec_state env text of Some st \<Rightarrow> if Iteration st > 0 then Some st else None | None \<Rightarrow> None)"

fun first_snapshot :: "loop_env \<Rightarrow> goval list \<Rightarrow> loopInterruptState option" where
  "first_snapshot env [] = None"
| "first_snapshot env (v # vs) =
     (case (case v of GBytes b \<Rightarrow> valid_snapshot env b | GStr s \<Rightarrow> valid_snapshot env s | _ \<Rightarrow> None) of
        Some st \<Rightarrow> Some st
      | None \<Rightarrow> first_snapshot env vs)"

definition loadLoopSnapshot :: "loop_env \<Rightarrow> goval \<Rightarrow> interrupts_state \<Rightarrow> loopInterruptState option" where
  "loadLoopSnapshot env sub_state s =
     (case (case sub_state of GBytes b \<Rightarrow> valid_snapshot env b | _ \<Rightarrow> None) of
        Some st \<Rightarrow> Some st
      | None \<Rightarrow> first_snapshot env (GetResumeValues s))"

text \<open>The input of the first iteration of this run and its number.\<close>

definition loop_start :: "loop_env \<Rightarrow> loopInterruptState option \<Rightarrow> goval \<Rightarrow> gerror + goval \<times> int" where
  "loop_start env snap input =
     map_sum id (\<lambda>(current, i). (if current = GNil then GMap [] else current, i))
       (case snap of
          None \<Rightarrow> Inr (input, 1)
        | Some st \<Rightarrow>
            if CurrentInput st = [] then Inr (input, Iteration st)
            else (case le_dec env (CurrentInput st) of
                    None \<Rightarrow> Inl (PlainError ''graph: loop resume state invalid: decode current input'' [])
                  | Some v \<Rightarrow> Inr (v, Iteration st)))"

definition subCheckpointID :: "loopOptions \<Rightarrow> string \<Rightarrow> int \<Rightarrow> string" where
  "subCheckpointID o' key i = checkpointIDPrefix o' @ '':loop:'' @ key @ '':iter:'' @ show_int i"

text \<open>A sub-graph that was interrupted: the loop saves its state with an interrupt of its own. Should a resume
  value be pending, \<^const>\<open>Interrupt\<close> returns it and no error, and the loop returns nil.\<close>

definition loop_interrupted ::
  "loop_env \<Rightarrow> int \<Rightarrow> goval \<Rightarrow> gerror \<Rightarrow> interrupts_state \<Rightarrow> (gerror, interrupts_state, goval) outcome" where
  "loop_interrupted env i current err s =
     (case le_enc env current of
        None \<Rightarrow> (s, Inl (PlainError ''graph: loop marshal state'' []))
      | Some cj \<Rightarrow>
          (let fill = (case GetInterruptValue (Some err) of
                         None \<Rightarrow> [] | Some v \<Rightarrow> if v = GNil then [] else (case le_enc env v of None \<Rightarrow> [] | Some j \<Rightarrow> j));
               st = \<lparr>Iteration = i, CurrentInput = cj, UserFillUpValue = fill\<rparr>;
               (s', r) = Interrupt (le_fx env) (le_sha env) (loop_state_value st) s
           in (s', case r of Inl e \<Rightarrow> Inl e | Inr _ \<Rightarrow> Inr GNil)))"

function loop_from ::
  "loop_env \<Rightarrow> string \<Rightarrow> subgraph \<Rightarrow> LoopCondition \<Rightarrow> loopOptions \<Rightarrow> int \<Rightarrow> goval \<Rightarrow> interrupts_state
     \<Rightarrow> (gerror, interrupts_state, goval) outcome" where
  "loop_from env key sub shouldQuit o' i current s =
     (case sub current (subCheckpointID o' key i) s of
        (s', Inl err) \<Rightarrow>
          if IsInterrupt (Some err) then loop_interrupted env i current err s'
          else (s', Inl (WrapError ''graph: loop iteration'' [show_int i] err))
      | (s', Inr nxt) \<Rightarrow>
          (case shouldQuit i current nxt of
             Inl err \<Rightarrow> (s', Inl (WrapError ''graph: loop condition iteration'' [show_int i] err))
           | Inr True \<Rightarrow> (s', Inr nxt)
           | Inr False \<Rightarrow>
               if i \<ge> maxIterations o'
               then (s', Inl (PlainError ''graph: loop max iterations exceeded'' [show_int (maxIterations o')]))
               else loop_from env key sub shouldQuit o' (i + 1) nxt s'))"
  by pat_completeness auto
termination by (relation "measure (\<lambda>(env, key, sub, q, o', i, c, s). nat (maxIterations o' - i))") auto

declare loop_from.simps [simp del]

definition runLoop ::
  "loop_env \<Rightarrow> goval \<Rightarrow> string \<Rightarrow> subgraph \<Rightarrow> goval \<Rightarrow> LoopCondition \<Rightarrow> loopOptions \<Rightarrow> interrupts_state
     \<Rightarrow> (gerror, interrupts_state, goval) outcome" where
  "runLoop env sub_state key sub input shouldQuit o' s =
     (case loop_start env (loadLoopSnapshot env sub_state s) input of
        Inl err \<Rightarrow> (s, Inl err)
      | Inr (current, i) \<Rightarrow> loop_from env key sub shouldQuit o' i current s)"

definition NewLoopNodeFunc ::
  "string \<Rightarrow> subgraph option \<Rightarrow> LoopCondition option \<Rightarrow> LoopOption list
     \<Rightarrow> gerror + (loop_env \<Rightarrow> goval \<Rightarrow> goval \<Rightarrow> interrupts_state \<Rightarrow> (gerror, interrupts_state, goval) outcome)" where
  "NewLoopNodeFunc key sub shouldQuit opts =
     (if key = [] then Inl (PlainError ''graph: loop key is empty'' [])
      else (case (sub, shouldQuit) of
              (None, _) \<Rightarrow> Inl (PlainError ''graph: loop sub-graph is nil'' [])
            | (_, None) \<Rightarrow> Inl (PlainError ''graph: loop shouldQuit is nil'' [])
            | (Some g, Some q) \<Rightarrow>
                (let o' = getLoopOptions opts;
                     o'' = (if checkpointIDPrefix o' = [] then o'\<lparr>checkpointIDPrefix := key\<rparr> else o')
                 in Inr (\<lambda>env sub_state input s. runLoop env sub_state key g input q o'' s))))"

section \<open>What a loop returns\<close>

text \<open>A sub-graph that always succeeds, as a function.\<close>

definition computes :: "subgraph \<Rightarrow> (goval \<Rightarrow> goval) \<Rightarrow> bool" where
  "computes sub f \<longleftrightarrow> (\<forall>c t s. sub c t s = (s, Inr (f c)))"

definition decides :: "LoopCondition \<Rightarrow> (int \<Rightarrow> goval \<Rightarrow> goval \<Rightarrow> bool) \<Rightarrow> bool" where
  "decides q p \<longleftrightarrow> (\<forall>i a b. q i a b = Inr (p i a b))"

lemma loop_from_step:
  assumes "computes sub f" and "decides q p"
  shows "loop_from env key sub q o' i c s =
    (if p i c (f c) then (s, Inr (f c))
     else if i \<ge> maxIterations o'
     then (s, Inl (PlainError ''graph: loop max iterations exceeded'' [show_int (maxIterations o')]))
     else loop_from env key sub q o' (i + 1) (f c) s)"
  using assms by (subst loop_from.simps) (simp add: computes_def decides_def split: bool.split)

text \<open>The loop gives up after iteration \<open>max i maxIterations\<close>; until then it stops at the first one that quits.\<close>

lemma loop_from_quits:
  assumes "computes sub f" and "decides q p"
  shows "i + int k \<le> max i (maxIterations o') \<Longrightarrow> p (i + int k) ((f ^^ k) c) ((f ^^ Suc k) c) \<Longrightarrow>
      (\<forall>j < k. \<not> p (i + int j) ((f ^^ j) c) ((f ^^ Suc j) c)) \<Longrightarrow>
      loop_from env key sub q o' i c s = (s, Inr ((f ^^ Suc k) c))"
proof (induction k arbitrary: i c)
  case 0
  then show ?case
    by (simp add: loop_from_step [OF assms])
next
  case (Suc k)
  have "\<not> p i c (f c)"
    using Suc.prems(3) by force
  moreover have lim: "\<not> i \<ge> maxIterations o'"
    using Suc.prems(1) by auto
  moreover have "loop_from env key sub q o' (i + 1) (f c) s = (s, Inr ((f ^^ Suc k) (f c)))"
  proof (rule Suc.IH)
    show "i + 1 + int k \<le> max (i + 1) (maxIterations o')"
      using Suc.prems(1) lim by simp
    show "p (i + 1 + int k) ((f ^^ k) (f c)) ((f ^^ Suc k) (f c))"
      using Suc.prems(2) by (simp add: funpow_swap1 ac_simps)
    show "\<forall>j < k. \<not> p (i + 1 + int j) ((f ^^ j) (f c)) ((f ^^ Suc j) (f c))"
    proof (intro allI impI)
      fix j
      assume "j < k"
      then have "\<not> p (i + int (Suc j)) ((f ^^ Suc j) c) ((f ^^ Suc (Suc j)) c)"
        using Suc.prems(3) by blast
      then show "\<not> p (i + 1 + int j) ((f ^^ j) (f c)) ((f ^^ Suc j) (f c))"
        by (simp add: funpow_swap1 ac_simps)
    qed
  qed
  ultimately show ?case
    by (subst loop_from_step [OF assms]) (simp add: funpow_swap1)
qed

lemma loop_from_exhausted:
  assumes "computes sub f" and "decides q p"
  shows "\<forall>j. i + int j \<le> max i (maxIterations o') \<longrightarrow> \<not> p (i + int j) ((f ^^ j) c) ((f ^^ Suc j) c) \<Longrightarrow>
    loop_from env key sub q o' i c s =
      (s, Inl (PlainError ''graph: loop max iterations exceeded'' [show_int (maxIterations o')]))"
proof (induction "nat (maxIterations o' - i)" arbitrary: i c rule: less_induct)
  case less
  have "\<not> p i c (f c)"
    using less.prems by (auto dest!: spec [of _ 0])
  moreover have "loop_from env key sub q o' (i + 1) (f c) s =
      (s, Inl (PlainError ''graph: loop max iterations exceeded'' [show_int (maxIterations o')]))" if lim: "i < maxIterations o'"
  proof (rule less.hyps)
    show "nat (maxIterations o' - (i + 1)) < nat (maxIterations o' - i)"
      using lim by simp
    show "\<forall>j. i + 1 + int j \<le> max (i + 1) (maxIterations o') \<longrightarrow>
        \<not> p (i + 1 + int j) ((f ^^ j) (f c)) ((f ^^ Suc j) (f c))"
    proof (intro allI impI)
      fix j
      assume "i + 1 + int j \<le> max (i + 1) (maxIterations o')"
      then have "i + int (Suc j) \<le> max i (maxIterations o')"
        using lim by simp
      then have "\<not> p (i + int (Suc j)) ((f ^^ Suc j) c) ((f ^^ Suc (Suc j)) c)"
        using less.prems by blast
      then show "\<not> p (i + 1 + int j) ((f ^^ j) (f c)) ((f ^^ Suc j) (f c))"
        by (simp add: funpow_swap1 ac_simps)
    qed
  qed
  ultimately show ?case
    by (subst loop_from_step [OF assms]) simp
qed

text \<open>A fresh loop over a sub-graph that succeeds runs it on its own output until the first iteration the
  condition accepts, and returns that output; if none of the first \<open>maxIterations\<close> iterations (at least one) is
  accepted, it returns the error.\<close>

theorem runLoop_spec:
  assumes "computes sub f" and "decides q p" and "loadLoopSnapshot env sub_state s = None" and "input \<noteq> GNil"
  shows "(\<forall>k. int (Suc k) \<le> max 1 (maxIterations o') \<and> p (int (Suc k)) ((f ^^ k) input) ((f ^^ Suc k) input) \<and>
      (\<forall>j < k. \<not> p (int (Suc j)) ((f ^^ j) input) ((f ^^ Suc j) input)) \<longrightarrow>
      runLoop env sub_state key sub input q o' s = (s, Inr ((f ^^ Suc k) input))) \<and>
    ((\<forall>j. int (Suc j) \<le> max 1 (maxIterations o') \<longrightarrow> \<not> p (int (Suc j)) ((f ^^ j) input) ((f ^^ Suc j) input)) \<longrightarrow>
      runLoop env sub_state key sub input q o' s =
        (s, Inl (PlainError ''graph: loop max iterations exceeded'' [show_int (maxIterations o')])))"
proof -
  have run: "runLoop env sub_state key sub input q o' s = loop_from env key sub q o' 1 input s"
    using assms(3,4) by (simp add: runLoop_def loop_start_def)
  show ?thesis
    using loop_from_quits [OF assms(1,2), of 1 _ o' input env key s]
      loop_from_exhausted [OF assms(1,2), of 1 o' input env key s] by (simp add: run)
qed

definition plain_env :: loop_env where
  "plain_env = \<lparr>le_fx = (\<lambda>_. []), le_sha = id, le_enc = (\<lambda>_. Some ''{}''), le_dec = (\<lambda>_. None), le_dec_state = (\<lambda>_. None)\<rparr>"

definition push_item :: "goval \<Rightarrow> goval" where
  "push_item c = (case c of GList xs \<Rightarrow> GList (GNil # xs) | _ \<Rightarrow> GList [])"

theorem runLoop_spec_witness:
  "runLoop plain_env GNil ''k'' (\<lambda>c t s. (s, Inr (push_item c))) (GList []) (\<lambda>i a b. Inr (i = 2))
     \<lparr>maxIterations = 5, checkpointIDPrefix = ''k''\<rparr> (request []) = (request [], Inr (GList [GNil, GNil]))"
proof -
  have "computes (\<lambda>c t s. (s, Inr (push_item c))) push_item" "decides (\<lambda>i a b. Inr (i = 2)) (\<lambda>i a b. i = 2)"
    by (simp_all add: computes_def decides_def)
  moreover have "loadLoopSnapshot plain_env GNil (request []) = None"
    by (simp add: loadLoopSnapshot_def GetResumeValues_def request_def SetResumeValues_def setResumeValues_def)
  ultimately have "runLoop plain_env GNil ''k'' (\<lambda>c t s. (s, Inr (push_item c))) (GList []) (\<lambda>i a b. Inr (i = 2))
      \<lparr>maxIterations = 5, checkpointIDPrefix = ''k''\<rparr> (request []) = (request [], Inr ((push_item ^^ Suc 1) (GList [])))"
    using runLoop_spec [of "\<lambda>c t s. (s, Inr (push_item c))" push_item "\<lambda>i a b. Inr (i = 2)" "\<lambda>i a b. i = 2" plain_env GNil
        "request []" "GList []" "\<lparr>maxIterations = 5, checkpointIDPrefix = ''k''\<rparr>" "''k''"]
    by auto
  then show ?thesis
    by (simp add: push_item_def)
qed

text \<open>A loop whose sub-graph is interrupted while a resume value is pending returns nil and no error: the
  interrupt is lost.\<close>

theorem pending_resume_hides_interrupt:
  assumes "sub current (subCheckpointID o' key i) s = (s', Inl (GraphInterrupt is))" and "le_enc env current = Some cj"
    and "waiting (r # rs) s'"
  shows "snd (loop_from env key sub q o' i current s) = Inr GNil"
  using assms(1,2) Interrupt_resumed [OF assms(3)]
  by (subst loop_from.simps) (simp add: IsInterrupt_def loop_interrupted_def Let_def split_beta)

section \<open>Parallel nodes\<close>

text \<open>
  The sub-graph is invoked once per item and may panic. With a concurrency of at most one the items run in their
  order; otherwise the first item runs before the goroutines of the others are started, and these run in some
  order, the argument \<open>arr\<close>, each invocation as a whole. Nothing in the repository writes to the item checkpoints,
  which are carried along.
\<close>

record parallelOptions =
  maxConcurrency :: int

definition WithParallelMaxConcurrency :: "int \<Rightarrow> parallelOptions \<Rightarrow> parallelOptions" where
  "WithParallelMaxConcurrency n o' = (if n \<ge> 0 then o'\<lparr>maxConcurrency := n\<rparr> else o')"

definition getParallelOptions :: "(parallelOptions \<Rightarrow> parallelOptions) list \<Rightarrow> parallelOptions" where
  "getParallelOptions opts = fold (\<lambda>opt o'. opt o') opts \<lparr>maxConcurrency = 0\<rparr>"

record parallelInterruptState =
  OriginalInputsJSON :: string
  CompletedResults :: "(int \<times> goval) list"
  InterruptedIndices :: "int list"
  TotalCount :: int
  ItemCheckpoints :: "string gomap"

definition parallel_state_value :: "parallelInterruptState \<Rightarrow> goval" where
  "parallel_state_value st =
     GStruct ''graph.parallelInterruptState''
       [(''OriginalInputsJSON'', GBytes (OriginalInputsJSON st)),
        (''CompletedResults'', GMap (map (\<lambda>(i, v). (show_int i, v)) (CompletedResults st))),
        (''InterruptedIndices'', GList (map (\<lambda>i. GInt (word_of_int i)) (InterruptedIndices st))),
        (''TotalCount'', GInt (word_of_int (TotalCount st))),
        (''ItemCheckpoints'', GMap (map (\<lambda>(k, b). (k, GBytes b)) (ItemCheckpoints st)))]"

record parallelItemResult =
  pr_index :: int
  pr_output :: goval
  pr_err :: "gerror option"

datatype invocation = Returned goval | Failed gerror | Panicked string

type_synonym item_graph = "goval \<Rightarrow> string \<Rightarrow> interrupts_state \<Rightarrow> interrupts_state \<times> invocation"

type_synonym arrival = "int list \<Rightarrow> int list"

definition itemCheckpointID :: "string \<Rightarrow> int \<Rightarrow> string" where
  "itemCheckpointID key idx = ''parallel:'' @ key @ '':item:'' @ show_int idx"

definition runOne :: "string \<Rightarrow> item_graph \<Rightarrow> goval list \<Rightarrow> int \<Rightarrow> interrupts_state \<Rightarrow> interrupts_state \<times> parallelItemResult" where
  "runOne key sub items idx s =
     (if idx < 0 \<or> idx \<ge> int (length items)
      then (s, \<lparr>pr_index = idx, pr_output = GNil, pr_err = Some (PlainError ''parallel item index out of bounds'' [show_int idx])\<rparr>)
      else (case sub (items ! nat idx) (itemCheckpointID key idx) s of
              (s', Returned v) \<Rightarrow> (s', \<lparr>pr_index = idx, pr_output = v, pr_err = None\<rparr>)
            | (s', Failed e) \<Rightarrow> (s', \<lparr>pr_index = idx, pr_output = GNil, pr_err = Some e\<rparr>)
            | (s', Panicked m) \<Rightarrow>
                (s', \<lparr>pr_index = idx, pr_output = GNil, pr_err = Some (PlainError ''parallel item panic'' [show_int idx, m])\<rparr>)))"

fun run_indices ::
  "string \<Rightarrow> item_graph \<Rightarrow> goval list \<Rightarrow> int list \<Rightarrow> interrupts_state \<Rightarrow> interrupts_state \<times> parallelItemResult list" where
  "run_indices key sub items [] s = (s, [])"
| "run_indices key sub items (i # is) s =
     (let (s1, r) = runOne key sub items i s; (s2, rs) = run_indices key sub items is s1 in (s2, r # rs))"

definition run_order :: "parallelOptions \<Rightarrow> arrival \<Rightarrow> arrival" where
  "run_order o' arr indices =
     (if maxConcurrency o' \<le> 1 then indices else (case indices of [] \<Rightarrow> [] | i # is \<Rightarrow> i # arr is))"

definition fanOutItems ::
  "parallelOptions \<Rightarrow> arrival \<Rightarrow> string \<Rightarrow> item_graph \<Rightarrow> goval list \<Rightarrow> int list \<Rightarrow> interrupts_state
     \<Rightarrow> interrupts_state \<times> parallelItemResult list" where
  "fanOutItems o' arr key sub items indices s = run_indices key sub items (run_order o' arr indices) s"

text \<open>The loop that collects the results: the outputs, the first error, whether an item was interrupted, and
  the results completed in this run.\<close>

fun collect_items ::
  "parallelItemResult list \<Rightarrow> goval list \<times> gerror option \<times> bool \<times> (int \<times> goval) list
     \<Rightarrow> goval list \<times> gerror option \<times> bool \<times> (int \<times> goval) list" where
  "collect_items [] acc = acc"
| "collect_items (r # rs) (outputs, err, intr, completed) =
     (case pr_err r of
        None \<Rightarrow>
          collect_items rs
            (if pr_index r \<ge> 0 \<and> pr_index r < int (length outputs) then outputs[nat (pr_index r) := pr_output r] else outputs,
             err, intr, AList.update (pr_index r) (pr_output r) completed)
      | Some e \<Rightarrow>
          if IsInterrupt (Some e) then collect_items rs (outputs, err, True, completed)
          else collect_items rs
            (outputs, (case err of None \<Rightarrow> Some (WrapError ''graph: parallel item failed'' [show_int (pr_index r)] e) | Some _ \<Rightarrow> err),
             intr, completed))"

definition replay :: "(int \<times> goval) list \<Rightarrow> goval list \<Rightarrow> goval list" where
  "replay results outputs =
     fold (\<lambda>(i, v) out. if i \<ge> 0 \<and> i < int (length out) then out[nat i := v] else out) results outputs"

text \<open>The snapshot of an earlier run, from the resume values.\<close>

fun loadParallelSnapshot :: "(string \<Rightarrow> parallelInterruptState option) \<Rightarrow> goval list \<Rightarrow> parallelInterruptState option" where
  "loadParallelSnapshot dec [] = None"
| "loadParallelSnapshot dec (v # vs) =
     (case (case v of GBytes b \<Rightarrow> dec b | GStr t \<Rightarrow> dec t | _ \<Rightarrow> None) of
        Some st \<Rightarrow> if TotalCount st > 0 then Some st else loadParallelSnapshot dec vs
      | None \<Rightarrow> loadParallelSnapshot dec vs)"

definition raise_parallel ::
  "loop_env \<Rightarrow> goval list \<Rightarrow> int \<Rightarrow> string gomap \<Rightarrow> (int \<times> goval) list \<Rightarrow> interrupts_state \<Rightarrow> (gerror, interrupts_state, goval) outcome" where
  "raise_parallel env items totalCount cps completed s =
     (case le_enc env (GList items) of
        None \<Rightarrow> (s, Inl (PlainError ''graph: parallel marshal inputs'' []))
      | Some ij \<Rightarrow>
          (let st = \<lparr>OriginalInputsJSON = ij, CompletedResults = completed,
                 InterruptedIndices = filter (\<lambda>i. map_of completed i = None) (map int [0..<nat totalCount]),
                 TotalCount = totalCount, ItemCheckpoints = cps\<rparr>;
               (s', r) = Interrupt (le_fx env) (le_sha env) (parallel_state_value st) s
           in (s', case r of Inl e \<Rightarrow> Inl e | Inr _ \<Rightarrow> Inr GNil)))"

definition runParallel ::
  "loop_env \<Rightarrow> (string \<Rightarrow> parallelInterruptState option) \<Rightarrow> arrival \<Rightarrow> parallelOptions \<Rightarrow> string \<Rightarrow> item_graph
     \<Rightarrow> goval list \<Rightarrow> interrupts_state \<Rightarrow> (gerror, interrupts_state, goval) outcome" where
  "runParallel env dec arr o' key sub items s =
     (let prev = loadParallelSnapshot dec (GetResumeValues s);
          totalCount = (case prev of None \<Rightarrow> int (length items) | Some p \<Rightarrow> TotalCount p);
          outputs0 = (case prev of
                        None \<Rightarrow> replicate (length items) GNil
                      | Some p \<Rightarrow> replay (CompletedResults p) (replicate (nat (TotalCount p)) GNil));
          indices = (case prev of None \<Rightarrow> map int [0..<length items] | Some p \<Rightarrow> InterruptedIndices p);
          cps = (case prev of None \<Rightarrow> [] | Some p \<Rightarrow> ItemCheckpoints p)
      in if indices = [] then (s, Inr (GList outputs0))
         else (let (s', results) = fanOutItems o' arr key sub items indices s
               in (case collect_items results (outputs0, None, False, []) of
                     (outputs, Some e, _, _) \<Rightarrow> (s', Inl e)
                   | (outputs, None, False, _) \<Rightarrow> (s', Inr (GList outputs))
                   | (outputs, None, True, completed) \<Rightarrow> raise_parallel env items totalCount cps completed s')))"

text \<open>How the node finds its list in the state.\<close>

definition parallel_items :: "goval \<Rightarrow> gerror + goval list" where
  "parallel_items state =
     (case state of
        GList xs \<Rightarrow> Inr xs
      | GMap m \<Rightarrow>
          (case (case map_of m ''__input__'' of
                   Some (GList xs) \<Rightarrow> Some xs
                 | _ \<Rightarrow> (case map_of m ''items'' of Some (GList xs) \<Rightarrow> Some xs | _ \<Rightarrow> None)) of
             Some xs \<Rightarrow> Inr xs
           | None \<Rightarrow> Inl (PlainError ''graph: parallel node cannot extract []interface{}'' []))
      | _ \<Rightarrow> Inl (PlainError ''graph: parallel node expects []interface{} input'' []))"

definition NewParallelNodeFunc ::
  "string \<Rightarrow> item_graph option \<Rightarrow> (parallelOptions \<Rightarrow> parallelOptions) list
     \<Rightarrow> gerror + (loop_env \<Rightarrow> (string \<Rightarrow> parallelInterruptState option) \<Rightarrow> arrival \<Rightarrow> goval \<Rightarrow> interrupts_state
       \<Rightarrow> (gerror, interrupts_state, goval) outcome)" where
  "NewParallelNodeFunc key sub opts =
     (if key = [] then Inl (PlainError ''graph: parallel key is empty'' [])
      else (case sub of
              None \<Rightarrow> Inl (PlainError ''graph: parallel sub-graph is nil'' [])
            | Some g \<Rightarrow>
                Inr (\<lambda>env dec arr state s.
                  case parallel_items state of
                    Inl e \<Rightarrow> (s, Inl e)
                  | Inr items \<Rightarrow> runParallel env dec arr (getParallelOptions opts) key g items s)))"

section \<open>What a parallel node returns\<close>

definition place :: "parallelItemResult \<Rightarrow> goval list \<Rightarrow> goval list" where
  "place r out = (if pr_index r \<ge> 0 \<and> pr_index r < int (length out) then out[nat (pr_index r) := pr_output r] else out)"

lemma collect_items_ok:
  "\<forall>r \<in> set rs. pr_err r = None \<Longrightarrow>
     collect_items rs (out, e, b, c) =
       (fold place rs out, e, b, fold (\<lambda>r c. AList.update (pr_index r) (pr_output r) c) rs c)"
  by (induction rs arbitrary: out c) (simp_all add: place_def)

lemma place_length [simp]: "length (place r out) = length out" "length (fold place rs out) = length out"
proof -
  show one: "length (place r out) = length out" for r out
    by (simp add: place_def)
  show "length (fold place rs out) = length out"
    by (induction rs arbitrary: out) (simp_all add: one)
qed

lemma fold_place:
  "\<forall>r \<in> set rs. 0 \<le> pr_index r \<and> pr_index r < int (length out) \<and> pr_output r = g (nat (pr_index r)) \<Longrightarrow> j < length out \<Longrightarrow>
     fold place rs out ! j = (if int j \<in> pr_index ` set rs then g j else out ! j)"
proof (induction rs arbitrary: out)
  case (Cons r rs)
  have "fold place rs (place r out) ! j = (if int j \<in> pr_index ` set rs then g j else place r out ! j)"
    using Cons.prems by (intro Cons.IH) auto
  moreover have "place r out ! j = (if int j = pr_index r then g j else out ! j)"
    using Cons.prems by (auto simp: place_def nth_list_update)
  ultimately show ?case
    by auto
qed simp

lemma collect_items_error:
  "fst (snd (collect_items rs (out, err, b, c))) = None \<Longrightarrow>
     err = None \<and> (\<forall>r \<in> set rs. pr_err r = None \<or> IsInterrupt (pr_err r))"
proof (induction rs arbitrary: out err b c)
  case (Cons r rs)
  from Cons.prems show ?case
    by (auto split: option.splits if_splits dest!: Cons.IH)
qed simp

lemma run_indices_index: "map pr_index (snd (run_indices key sub items is s)) = is"
  by (induction "is" arbitrary: s) (simp_all add: runOne_def split_beta Let_def split: invocation.split)

lemma run_indices_results:
  assumes "r \<in> set (snd (run_indices key sub items is s))"
  shows "\<exists>s'. r = snd (runOne key sub items (pr_index r) s')"
  using assms
proof (induction "is" arbitrary: s)
  case (Cons i "is")
  have "pr_index (snd (runOne key sub items i s')) = i" for s'
    by (simp add: runOne_def split_beta split: invocation.split)
  with Cons show ?case
    by (auto simp: split_beta Let_def)
qed simp

lemma set_run_order: "\<forall>xs. mset (arr xs) = mset xs \<Longrightarrow> set (run_order o' arr is) = set is"
  by (cases "is") (auto simp: run_order_def dest: mset_eq_setD)

text \<open>What the results of a fan-out look like: one per index, each a result of its item in some state.\<close>

lemma fanOutItems_results:
  assumes "\<forall>xs. mset (arr xs) = mset xs"
  shows "pr_index ` set (snd (fanOutItems o' arr key sub items is s)) = set is"
    and "r \<in> set (snd (fanOutItems o' arr key sub items is s)) \<Longrightarrow> \<exists>s'. r = snd (runOne key sub items (pr_index r) s')"
  using set_run_order [OF assms] run_indices_index [of key sub items "run_order o' arr is" s] run_indices_results
  by (auto simp: fanOutItems_def simp flip: set_map)

text \<open>A parallel node whose items all succeed returns their results in the order of the items, in whatever
  order they run; and if an item fails or panics, the node fails.\<close>

theorem runParallel_spec:
  assumes "\<forall>xs. mset (arr xs) = mset xs" and "loadParallelSnapshot dec (GetResumeValues s) = None"
  shows "((\<forall>i < length items. \<forall>s. snd (sub (items ! i) (itemCheckpointID key (int i)) s) = Returned (g i)) \<longrightarrow>
      snd (runParallel env dec arr o' key sub items s) = Inr (GList (map g [0..<length items]))) \<and>
    ((\<exists>i < length items. \<forall>s. case snd (sub (items ! i) (itemCheckpointID key (int i)) s) of
          Returned _ \<Rightarrow> False | Failed e \<Rightarrow> \<not> IsInterrupt (Some e) | Panicked m \<Rightarrow> True) \<longrightarrow>
      (\<exists>e. snd (runParallel env dec arr o' key sub items s) = Inl e))"
proof -
  let ?rs = "snd (fanOutItems o' arr key sub items (map int [0..<length items]) s)"
  note run = runParallel_def assms(2) Let_def split_beta
  have idx: "pr_index ` set ?rs = int ` {0..<length items}"
    using fanOutItems_results(1) [OF assms(1)] by simp
  have in_range: "\<exists>i < length items. pr_index r = int i \<and> (\<exists>s'. r = snd (runOne key sub items (int i) s'))" if "r \<in> set ?rs" for r
  proof -
    have "pr_index r \<in> int ` {0..<length items}"
      using that idx by blast
    then show ?thesis
      using fanOutItems_results(2) [OF assms(1) that] by auto
  qed
  have ok: "snd (runParallel env dec arr o' key sub items s) = Inr (GList (map g [0..<length items]))"
    if sub: "\<forall>i < length items. \<forall>s. snd (sub (items ! i) (itemCheckpointID key (int i)) s) = Returned (g i)"
  proof (cases "items = []")
    case False
    have one: "snd (runOne key sub items (int i) s') = \<lparr>pr_index = int i, pr_output = g i, pr_err = None\<rparr>"
      if "i < length items" for i s'
      using sub that by (simp add: runOne_def split_beta)
    have res: "r = \<lparr>pr_index = int i, pr_output = g i, pr_err = None\<rparr>" if "r \<in> set ?rs" "pr_index r = int i" for r i
      using in_range [OF that(1)] that(2) one by auto
    have out: "fold place ?rs (replicate (length items) GNil) = map g [0..<length items]"
    proof (rule nth_equalityI)
      fix j
      assume j: "j < length (fold place ?rs (replicate (length items) GNil))"
      have "fold place ?rs (replicate (length items) GNil) ! j =
          (if int j \<in> pr_index ` set ?rs then g j else replicate (length items) GNil ! j)"
        using j in_range res by (intro fold_place) fastforce+
      then show "fold place ?rs (replicate (length items) GNil) ! j = map g [0..<length items] ! j"
        using j unfolding idx by simp
    qed simp
    have "\<forall>r \<in> set ?rs. pr_err r = None"
      using in_range res by fastforce
    then show ?thesis
      using False out by (simp add: run collect_items_ok)
  qed (simp add: run)
  have "\<exists>e. snd (runParallel env dec arr o' key sub items s) = Inl e"
    if "i < length items" and bad: "\<forall>s. case snd (sub (items ! i) (itemCheckpointID key (int i)) s) of
          Returned _ \<Rightarrow> False | Failed e \<Rightarrow> \<not> IsInterrupt (Some e) | Panicked m \<Rightarrow> True" for i
  proof -
    have "int i \<in> pr_index ` set ?rs"
      unfolding idx using that(1) by simp
    then obtain r where r: "r \<in> set ?rs" "pr_index r = int i"
      by force
    obtain s' where "r = snd (runOne key sub items (int i) s')"
      using in_range [OF r(1)] r(2) by auto
    then have "pr_err r \<noteq> None \<and> \<not> IsInterrupt (pr_err r)"
      using that(1) bad [rule_format, of s'] by (auto simp: runOne_def IsInterrupt_def split: prod.splits invocation.splits)
    then have "fst (snd (collect_items ?rs (replicate (length items) GNil, None, False, []))) \<noteq> None"
      using r(1) by (metis collect_items_error)
    moreover have "items \<noteq> []"
      using that(1) by auto
    ultimately show ?thesis
      by (auto simp: run split: option.split)
  qed
  with ok show ?thesis by blast
qed

theorem runParallel_spec_witness:
  "snd (runParallel plain_env (\<lambda>_. None) rev \<lparr>maxConcurrency = 4\<rparr> ''k'' (\<lambda>v t s. (s, Returned (GList [v]))) [GInt 1, GInt 2] (request [])) =
     Inr (GList [GList [GInt 1], GList [GInt 2]])"
proof -
  have "loadParallelSnapshot (\<lambda>_. None) (GetResumeValues (request [])) = None"
    by (simp add: GetResumeValues_def request_def SetResumeValues_def setResumeValues_def)
  with runParallel_spec [of rev "\<lambda>_. None" "request []" "[GInt 1, GInt 2]" "\<lambda>v t s. (s, Returned (GList [v]))" "''k''"
      "\<lambda>i. GList [[GInt 1, GInt 2] ! i]" plain_env "\<lparr>maxConcurrency = 4\<rparr>"] show ?thesis
    by (simp add: upt_rec)
qed

text \<open>A parallel node that is interrupted a second time forgets what the first run completed: the new state
  counts an item as done only if it was done in the second run, so the third run does the others again.\<close>

lemma fst_set_update: "fst ` set (AList.update i v c) = insert i (fst ` set c)"
  by (induction c) auto

lemma collect_items_completed:
  "fst ` set (snd (snd (snd (collect_items rs (out, err, b, c))))) \<subseteq> fst ` set c \<union> pr_index ` set rs"
proof (induction rs arbitrary: out err b c)
  case (Cons r rs)
  obtain out' err' b' c' where s: "collect_items (r # rs) (out, err, b, c) = collect_items rs (out', err', b', c')"
    and c: "c' = c \<or> c' = AList.update (pr_index r) (pr_output r) c"
    by (cases "pr_err r"; cases "IsInterrupt (pr_err r)") auto
  have "fst ` set c' \<subseteq> insert (pr_index r) (fst ` set c)"
    using c fst_set_update [of "pr_index r" "pr_output r" c] by blast
  then show ?case
    using Cons.IH [of out' err' b' c'] unfolding s by (simp only: list.set image_insert) blast
qed simp

theorem second_interrupt_forgets:
  assumes "\<forall>xs. mset (arr xs) = mset xs" and "i \<notin> set (InterruptedIndices p)"
  shows "map_of (snd (snd (snd (collect_items (snd (fanOutItems o' arr key sub items (InterruptedIndices p) s))
    (replay (CompletedResults p) out, None, False, []))))) i = None"
  using collect_items_completed [of "snd (fanOutItems o' arr key sub items (InterruptedIndices p) s)"
      "replay (CompletedResults p) out" None False "[]"] fanOutItems_results(1) [OF assms(1)] assms(2)
  by (auto simp: map_of_eq_None_iff)

end
