(* ===== verification/TaskQueue.thy ===== *)
theory TaskQueue
  imports Engine
begin

text \<open>
  Priorities and queues of tasks (\<^verbatim>\<open>pregel/optimized.go\<close>): the queue ordered by path length, the priority of a
  task, the optimised engine's bookkeeping (steps, dependencies, seen channels) and its own way of applying
  writes. \<^verbatim>\<open>sort.Slice\<close> is the argument \<open>srt\<close>: it permutes, and sorts when the comparison is a strict weak
  order (\<open>sorts\<close>); the order of equal elements is left open, as its documentation does.
\<close>

section \<open>The queue ordered by path length\<close>

record PriorityTaskQueue =
  tasks :: "Task list"

definition NewPriorityTaskQueue :: PriorityTaskQueue where
  "NewPriorityTaskQueue = \<lparr>tasks = []\<rparr>"

text \<open>The loop of \<^verbatim>\<open>Push\<close>: the task at index \<open>i\<close> moves towards the front while it is shorter than the one
  before it.\<close>

fun sift :: "Task list \<Rightarrow> nat \<Rightarrow> Task list" where
  "sift ts 0 = ts"
| "sift ts (Suc i) =
     (if length (task_Path (ts ! Suc i)) < length (task_Path (ts ! i))
      then sift (ts[Suc i := ts ! i, i := ts ! Suc i]) i
      else ts)"

definition Push :: "Task \<Rightarrow> PriorityTaskQueue \<Rightarrow> PriorityTaskQueue" where
  "Push t pq = (let ts = tasks pq @ [t] in pq\<lparr>tasks := sift ts (length ts - 1)\<rparr>)"

definition Pop :: "PriorityTaskQueue \<Rightarrow> PriorityTaskQueue \<times> Task option" where
  "Pop pq = (case tasks pq of [] \<Rightarrow> (pq, None) | t # ts \<Rightarrow> (pq\<lparr>tasks := ts\<rparr>, Some t))"

definition Len :: "PriorityTaskQueue \<Rightarrow> nat" where
  "Len pq = length (tasks pq)"

section \<open>Priorities\<close>

record TaskPriority =
  tp_Name :: string
  tp_Path :: "string list"
  tp_Priority :: i64

definition NewTaskPriority :: "string \<Rightarrow> string list \<Rightarrow> i64 \<Rightarrow> TaskPriority" where
  "NewTaskPriority name path priority = \<lparr>tp_Name = name, tp_Path = path, tp_Priority = priority\<rparr>"

text \<open>The first position at which two paths of the same length differ decides.\<close>

fun compare_paths :: "string list \<Rightarrow> string list \<Rightarrow> i64" where
  "compare_paths (a # as) (b # bs) = (if a \<noteq> b then (if a < b then - 1 else 1) else compare_paths as bs)"
| "compare_paths _ _ = 0"

definition Compare :: "TaskPriority \<Rightarrow> TaskPriority \<Rightarrow> i64" where
  "Compare tp other =
     (if tp_Priority tp \<noteq> tp_Priority other then tp_Priority tp - tp_Priority other
      else if length (tp_Path tp) \<noteq> length (tp_Path other)
      then of_nat (length (tp_Path tp)) - of_nat (length (tp_Path other))
      else compare_paths (tp_Path tp) (tp_Path other))"

definition compareTaskPriority :: "Task \<Rightarrow> Task \<Rightarrow> i64" where
  "compareTaskPriority t1 t2 =
     (if length (task_Path t1) \<noteq> length (task_Path t2)
      then of_nat (length (task_Path t1)) - of_nat (length (task_Path t2))
      else if compare_paths (task_Path t1) (task_Path t2) \<noteq> 0 then compare_paths (task_Path t1) (task_Path t2)
      else if task_Name t1 \<noteq> task_Name t2 then (if task_Name t1 < task_Name t2 then - 1 else 1)
      else 0)"

section \<open>Sorting\<close>

type_synonym 'a sorter = "('a \<Rightarrow> 'a \<Rightarrow> bool) \<Rightarrow> 'a list \<Rightarrow> 'a list"

text \<open>What is documented of \<^verbatim>\<open>sort.Slice\<close>.\<close>

definition strict_weak_on :: "'a set \<Rightarrow> ('a \<Rightarrow> 'a \<Rightarrow> bool) \<Rightarrow> bool" where
  "strict_weak_on A lt \<longleftrightarrow>
     (\<forall>a \<in> A. \<not> lt a a) \<and>
     (\<forall>a \<in> A. \<forall>b \<in> A. \<forall>c \<in> A. lt a b \<longrightarrow> lt b c \<longrightarrow> lt a c) \<and>
     (\<forall>a \<in> A. \<forall>b \<in> A. \<forall>c \<in> A. lt a c \<longrightarrow> lt a b \<or> lt b c)"

definition sorts :: "'a sorter \<Rightarrow> bool" where
  "sorts srt \<longleftrightarrow>
     (\<forall>lt xs. mset (srt lt xs) = mset xs \<and>
        (strict_weak_on (set xs) lt \<longrightarrow> sorted_wrt (\<lambda>a b. \<not> lt b a) (srt lt xs)))"

text \<open>An instance: the insertion sort that Go uses for short slices.\<close>

fun insert_back :: "('a \<Rightarrow> 'a \<Rightarrow> bool) \<Rightarrow> 'a \<Rightarrow> 'a list \<Rightarrow> 'a list" where
  "insert_back lt x [] = [x]"
| "insert_back lt x (y # ys) = (if lt x y then x # y # ys else y # insert_back lt x ys)"

definition insertion_sort :: "'a sorter" where
  "insertion_sort lt xs = fold (insert_back lt) xs []"

section \<open>The optimised engine\<close>

record OptimizedEngineConfig =
  oc_BumpStep :: bool
  oc_FinishNotification :: bool
  oc_TaskPriority :: bool

record TaskWithPriority =
  twp_Task :: Task
  twp_Priority :: i64
  twp_Namespace :: string
  twp_Path :: "string list"

record 's PregelOptimizedEngine =
  oe_Engine :: "'s Engine"
  oe_config :: OptimizedEngineConfig
  taskPriorityQueue :: "TaskWithPriority list"
  stepQueue :: "(int \<times> string list) list"
  seenChannels :: "bool gomap gomap"
  readyChannels :: "bool gomap"
  finishedTasks :: "bool gomap"
  taskDependencies :: "string list gomap"
  oe_channelVersions :: "int gomap"

definition NewPregelOptimizedEngine :: "'s Engine \<Rightarrow> OptimizedEngineConfig option \<Rightarrow> 's PregelOptimizedEngine" where
  "NewPregelOptimizedEngine base cfg =
     \<lparr>oe_Engine = base,
      oe_config = (case cfg of
          None \<Rightarrow> \<lparr>oc_BumpStep = True, oc_FinishNotification = True, oc_TaskPriority = True\<rparr> | Some c \<Rightarrow> c),
      taskPriorityQueue = [], stepQueue = [], seenChannels = [], readyChannels = [], finishedTasks = [],
      taskDependencies = [], oe_channelVersions = []\<rparr>"

text \<open>\<open>q[step] = append(q[step], t)\<close>\<close>

definition step_append :: "int \<Rightarrow> string \<Rightarrow> (int \<times> string list) list \<Rightarrow> (int \<times> string list) list" where
  "step_append step t q = AList.update step ((case map_of q step of None \<Rightarrow> [] | Some ts \<Rightarrow> ts) @ [t]) q"

text \<open>A dependent that has no set of seen channels, or has seen all the updated ones, goes to the next step.\<close>

definition bump_ready :: "bool gomap gomap \<Rightarrow> string list \<Rightarrow> string \<Rightarrow> bool" where
  "bump_ready seen updated dep =
     (case map_of seen dep of None \<Rightarrow> True | Some m \<Rightarrow> list_all (\<lambda>ch. gm_true m ch) updated)"

definition bump_dependent ::
  "int \<Rightarrow> string list \<Rightarrow> string \<Rightarrow> 's PregelOptimizedEngine \<Rightarrow> 's PregelOptimizedEngine" where
  "bump_dependent step updated dep e =
     (if bump_ready (seenChannels e) updated dep
      then e\<lparr>stepQueue := step_append (step + 1) dep (stepQueue e),
             seenChannels := gm_set dep
               (fold (\<lambda>ch m. gm_set ch True m) updated (case map_of (seenChannels e) dep of None \<Rightarrow> [] | Some m \<Rightarrow> m))
               (seenChannels e)\<rparr>
      else e)"

definition BumpStep ::
  "string \<Rightarrow> int \<Rightarrow> string list \<Rightarrow> 's PregelOptimizedEngine \<Rightarrow> 's PregelOptimizedEngine" where
  "BumpStep taskName completedStep updatedChannels e =
     (let e1 = e\<lparr>finishedTasks := gm_set taskName True (finishedTasks e)\<rparr>
      in (case map_of (taskDependencies e1) taskName of
            None \<Rightarrow> e1
          | Some deps \<Rightarrow> fold (bump_dependent completedStep updatedChannels) deps e1))"

definition AddTaskDependency :: "string \<Rightarrow> string \<Rightarrow> 's PregelOptimizedEngine \<Rightarrow> 's PregelOptimizedEngine" where
  "AddTaskDependency fromTask toTask e = e\<lparr>taskDependencies := gm_app toTask fromTask (taskDependencies e)\<rparr>"

definition GetTaskDependencies :: "'s PregelOptimizedEngine \<Rightarrow> string \<Rightarrow> string list" where
  "GetTaskDependencies e t = (case map_of (taskDependencies e) t of None \<Rightarrow> [] | Some deps \<Rightarrow> deps)"

definition IsTaskReady :: "'s PregelOptimizedEngine \<Rightarrow> string \<Rightarrow> bool" where
  "IsTaskReady e t = list_all (\<lambda>dep. gm_true (finishedTasks e) dep) (GetTaskDependencies e t)"

definition hasSeenChannel :: "'s PregelOptimizedEngine \<Rightarrow> string \<Rightarrow> string \<Rightarrow> bool" where
  "hasSeenChannel e t ch = (case map_of (seenChannels e) t of None \<Rightarrow> False | Some m \<Rightarrow> gm_true m ch)"

definition ClearFinishedTasks :: "'s PregelOptimizedEngine \<Rightarrow> 's PregelOptimizedEngine" where
  "ClearFinishedTasks e = e\<lparr>finishedTasks := []\<rparr>"

definition GetFinishedTasks :: "'s PregelOptimizedEngine \<Rightarrow> string list" where
  "GetFinishedTasks e = gm_keys (finishedTasks e)"

definition OptimizedEngine_Reset :: "'s PregelOptimizedEngine \<Rightarrow> 's PregelOptimizedEngine" where
  "OptimizedEngine_Reset e =
     e\<lparr>taskPriorityQueue := [], stepQueue := [], seenChannels := [], readyChannels := [], finishedTasks := []\<rparr>"

text \<open>Running a task at once, after noting it in the queue; the function gets no state.\<close>

definition ExecuteTaskWithPriority ::
  "Task \<Rightarrow> i64 \<Rightarrow> string \<Rightarrow> 's PregelOptimizedEngine \<Rightarrow> (gerror, 's PregelOptimizedEngine, TaskResult) outcome" where
  "ExecuteTaskWithPriority t priority ns e =
     (e\<lparr>taskPriorityQueue := taskPriorityQueue e @
          [\<lparr>twp_Task = t, twp_Priority = priority, twp_Namespace = ns, twp_Path = [ns, task_Name t]\<rparr>]\<rparr>,
      case task_Func t of
        None \<Rightarrow> Inl (PanicError ''nil function'')
      | Some f \<Rightarrow>
          (case f GNil of
             CPanic m \<Rightarrow> Inl (PanicError m)
           | CRet out err \<Rightarrow> Inr \<lparr>res_Name = task_Name t, res_Output = out, res_Err = err\<rparr>))"

definition priority_of :: "TaskWithPriority \<Rightarrow> TaskPriority" where
  "priority_of t = \<lparr>tp_Name = task_Name (twp_Task t), tp_Path = twp_Path t, tp_Priority = twp_Priority t\<rparr>"

definition before :: "TaskWithPriority \<Rightarrow> TaskWithPriority \<Rightarrow> bool" where
  "before a b = (sint (Compare (priority_of a) (priority_of b)) < 0)"

definition GetNextPriorityTask ::
  "TaskWithPriority sorter \<Rightarrow> 's PregelOptimizedEngine \<Rightarrow> 's PregelOptimizedEngine \<times> TaskWithPriority option" where
  "GetNextPriorityTask srt e =
     (case taskPriorityQueue e of
        [] \<Rightarrow> (e, None)
      | _ \<Rightarrow>
          (case srt before (taskPriorityQueue e) of
             [] \<Rightarrow> (e\<lparr>taskPriorityQueue := []\<rparr>, None)
           | t # ts \<Rightarrow> (e\<lparr>taskPriorityQueue := ts\<rparr>, Some t)))"

definition getTriggersForNode :: "'s PregelOptimizedEngine \<Rightarrow> string \<Rightarrow> string list" where
  "getTriggersForNode e n = (case getNode (oe_Engine e) n of None \<Rightarrow> [] | Some nd \<Rightarrow> remdups (getTriggers (Some nd)))"

definition getCurrentNamespace :: "'s PregelOptimizedEngine \<Rightarrow> string" where
  "getCurrentNamespace e =
     (case RunnableConfig_Get (config (oe_Engine e)) ''namespace'' of Some (GStr s) \<Rightarrow> s | _ \<Rightarrow> [])"

definition OptimizedRun :: "'s world \<Rightarrow> 's PregelOptimizedEngine \<Rightarrow> goval \<Rightarrow> (gerror, 's run_state, goval) outcome" where
  "OptimizedRun w e input = RunSync w (oe_Engine e) input"

definition PrepareNextTasksOptimized ::
  "(goval \<Rightarrow> string) \<Rightarrow> (string list \<Rightarrow> string list) \<Rightarrow> (nat \<Rightarrow> string) \<Rightarrow> 's PregelOptimizedEngine \<Rightarrow> Registry \<Rightarrow> bool gomap
     \<Rightarrow> string \<Rightarrow> goval \<Rightarrow> gerror + Task list \<times> string list" where
  "PrepareNextTasksOptimized fx ord uid e reg visited trigger state =
     prepareNextTasks fx ord uid (oe_Engine e) reg visited trigger state"

section \<open>Applying the writes of a step\<close>

text \<open>Results with their paths, which the engine itself does not set.\<close>

record PathResult = TaskResult +
  res_Path :: "string list"

fun path_less :: "string list \<Rightarrow> string list \<Rightarrow> bool option" where
  "path_less (a # as) (b # bs) = (if a \<noteq> b then Some (a < b) else path_less as bs)"
| "path_less _ _ = None"

definition result_less :: "PathResult \<Rightarrow> PathResult \<Rightarrow> bool" where
  "result_less a b =
     (if length (res_Path a) \<noteq> length (res_Path b) then length (res_Path a) < length (res_Path b)
      else (case path_less (res_Path a) (res_Path b) of Some l \<Rightarrow> l | None \<Rightarrow> res_Name a < res_Name b))"

fun group_writes :: "PathResult list \<Rightarrow> goval list gomap \<Rightarrow> gerror + goval list gomap" where
  "group_writes [] ws = Inr ws"
| "group_writes (r # rs) ws =
     (if res_Err r \<noteq> None then group_writes rs ws
      else (case toMap (res_Output r) of
              Inl err \<Rightarrow> Inl (WrapError ''failed to convert output to map'' [] err)
            | Inr m \<Rightarrow> group_writes rs (fold (\<lambda>(k, v) ws. if v = GNil then ws else gm_app k v ws) m ws)))"

definition note_update :: "string \<Rightarrow> 's PregelOptimizedEngine \<Rightarrow> 's PregelOptimizedEngine" where
  "note_update name e =
     (let e1 = e\<lparr>readyChannels := gm_set name True (readyChannels e)\<rparr>
      in if oc_BumpStep (oe_config e1)
         then e1\<lparr>oe_channelVersions := gm_incr name (oe_channelVersions e1),
                 oe_Engine := (oe_Engine e1)\<lparr>currentCheckpoint := map_option (IncrementChannel name) (currentCheckpoint (oe_Engine e1))\<rparr>\<rparr>
         else e1)"

fun apply_groups ::
  "goval list gomap \<Rightarrow> string list \<Rightarrow> 's PregelOptimizedEngine \<Rightarrow> Registry \<Rightarrow> string list
     \<Rightarrow> (gerror, 's PregelOptimizedEngine \<times> Registry, string list) outcome" where
  "apply_groups ws [] e reg updated = ((e, reg), Inr updated)"
| "apply_groups ws (name # names) e reg updated =
     (case Registry_Get reg name of
        None \<Rightarrow> apply_groups ws names e reg updated
      | Some ch \<Rightarrow>
          (let (ch', res) = ch_Update ch (filter (\<lambda>v. v \<noteq> GNil) (writes_of ws name)); reg' = Register reg name ch'
           in (case res of
                 Inl err \<Rightarrow> ((e, reg'), Inl (WrapError ''failed to update channel'' [name] err))
               | Inr True \<Rightarrow> apply_groups ws names (note_update name e) reg' (updated @ [name])
               | Inr False \<Rightarrow> apply_groups ws names e reg' updated)))"

definition finish_all :: "Registry \<Rightarrow> Registry" where
  "finish_all reg =
     fold (\<lambda>name reg. case Registry_Get reg name of None \<Rightarrow> reg | Some ch \<Rightarrow> Register reg name (fst (ch_Finish ch)))
       (Registry_List reg) reg"

definition OptimizedApplyWrites ::
  "PathResult sorter \<Rightarrow> (string list \<Rightarrow> string list) \<Rightarrow> 's PregelOptimizedEngine \<Rightarrow> Registry \<Rightarrow> PathResult list \<Rightarrow> string list
     \<Rightarrow> (gerror, 's PregelOptimizedEngine \<times> Registry, string list) outcome" where
  "OptimizedApplyWrites srt ord e reg results triggers =
     (case group_writes (srt result_less results) [] of
        Inl err \<Rightarrow> ((e, reg), Inl err)
      | Inr ws \<Rightarrow>
          (case apply_groups ws (ord (gm_keys ws)) e reg [] of
             (st, Inl err) \<Rightarrow> (st, Inl err)
           | ((e', reg'), Inr updated) \<Rightarrow>
               ((e', if oc_FinishNotification (oe_config e') \<and> updated \<noteq> [] \<and> set triggers \<subseteq> set updated
                     then finish_all reg' else reg'),
                Inr updated)))"

section \<open>A stable priority queue\<close>

text \<open>The contract of a queue that serves the least key first and equal keys in the order of arrival: it behaves
  like the list of the arrivals, from which the first of the least is taken. \<open>repr\<close> is the queue that the arrivals
  \<open>xs\<close> have built.\<close>

definition first_min :: "('a \<Rightarrow> nat) \<Rightarrow> 'a list \<Rightarrow> 'a list \<times> 'a option" where
  "first_min key xs =
     (if xs = [] then ([], None)
      else (let t = hd (filter (\<lambda>x. key x = Min (key ` set xs)) xs) in (remove1 t xs, Some t)))"

datatype 'a queue_op = PushOp 'a | PopOp

text \<open>The answers of a queue to a sequence of calls.\<close>

fun drive :: "('a \<Rightarrow> 'q \<Rightarrow> 'q) \<Rightarrow> ('q \<Rightarrow> 'q \<times> 'a option) \<Rightarrow> 'a queue_op list \<Rightarrow> 'q \<Rightarrow> 'a option list" where
  "drive push pop [] q = []"
| "drive push pop (PushOp x # ops) q = drive push pop ops (push x q)"
| "drive push pop (PopOp # ops) q = (let (q', r) = pop q in r # drive push pop ops q')"

locale stable_queue =
  fixes push :: "'a \<Rightarrow> 'q \<Rightarrow> 'q" and pop :: "'q \<Rightarrow> 'q \<times> 'a option" and size :: "'q \<Rightarrow> nat"
    and key :: "'a \<Rightarrow> nat" and repr :: "'a list \<Rightarrow> 'q"
  assumes push_repr: "push x (repr xs) = repr (xs @ [x])"
    and pop_repr: "pop (repr xs) = map_prod repr id (first_min key xs)"
    and size_repr: "size (repr xs) = length xs"
begin

lemma drive_repr: "drive push pop ops (repr xs) = drive (\<lambda>x ys. ys @ [x]) (first_min key) ops xs"
proof (induction ops arbitrary: xs)
  case (Cons op ops)
  then show ?case
    by (cases op) (simp_all add: push_repr pop_repr split_beta)
qed simp

lemma size_pop: "size (fst (pop (repr xs))) = length xs - 1"
proof (cases "xs = []")
  case False
  define m where "m = Min (key ` set xs)"
  have "m \<in> key ` set xs"
    unfolding m_def using False by (intro Min_in) auto
  then have "filter (\<lambda>x. key x = m) xs \<noteq> []"
    by (auto simp: filter_empty_conv)
  then have "hd (filter (\<lambda>x. key x = m) xs) \<in> set xs"
    by (meson hd_in_set filter_is_subset subsetD)
  then show ?thesis
    using False by (simp add: pop_repr size_repr first_min_def Let_def m_def [symmetric] length_remove1)
qed (simp add: pop_repr size_repr first_min_def)

end

text \<open>The code's queue is the stable sort of its arrivals.\<close>

abbreviation path_len :: "Task \<Rightarrow> nat" where
  "path_len t \<equiv> length (task_Path t)"

lemma sift_spec:
  "sorted (map path_len xs) \<Longrightarrow>
     sift (xs @ t # ys) (length xs) = filter (\<lambda>x. path_len x \<le> path_len t) xs @ t # filter (\<lambda>x. path_len t < path_len x) xs @ ys"
proof (induction xs arbitrary: ys rule: rev_induct)
  case (snoc x xs)
  show ?case
  proof (cases "path_len t < path_len x")
    case True
    have "(xs @ x # t # ys)[Suc (length xs) := x, length xs := t] = xs @ t # x # ys"
      by (simp add: list_update_append)
    then have "sift ((xs @ [x]) @ t # ys) (length (xs @ [x])) = sift (xs @ t # x # ys) (length xs)"
      using True by (simp add: nth_append)
    with snoc True show ?thesis
      by (simp add: sorted_append)
  next
    case False
    have "\<forall>y \<in> set xs. path_len y \<le> path_len t"
      using False snoc.prems by (auto simp: sorted_append intro: le_trans)
    then have "filter (\<lambda>y. path_len y \<le> path_len t) xs = xs" "filter (\<lambda>y. path_len t < path_len y) xs = []"
      by (auto simp: filter_id_conv filter_empty_conv not_less)
    with False show ?thesis
      by (simp add: nth_append)
  qed
qed simp

lemma sort_key_snoc:
  fixes f :: "'a \<Rightarrow> nat"
  shows "sort_key f (xs @ [t]) =
    filter (\<lambda>x. f x \<le> f t) (sort_key f xs) @ t # filter (\<lambda>x. f t < f x) (sort_key f xs)" (is "_ = ?ys")
proof (rule properties_for_sort_key)
  have "mset (filter (\<lambda>x. f x \<le> f t) zs) + mset (filter (\<lambda>x. f t < f x) zs) = mset zs" for zs
    by (induction zs) auto
  from this [of "sort_key f xs"] show "mset ?ys = mset (xs @ [t])"
    by simp
  show "filter (\<lambda>x. f k = f x) ?ys = filter (\<lambda>x. f k = f x) (xs @ [t])" for k
  proof -
    have "filter (\<lambda>x. f k = f x) (sort_key f xs) = filter (\<lambda>x. f k = f x) xs"
      using sort_key_stable [of f "f k" xs] by (simp add: eq_commute)
    moreover have "filter (\<lambda>x. f x \<le> f t \<and> f k = f x) zs = (if f k \<le> f t then filter (\<lambda>x. f k = f x) zs else [])"
      "filter (\<lambda>x. f t < f x \<and> f k = f x) zs = (if f t < f k then filter (\<lambda>x. f k = f x) zs else [])" for zs
      by (induction zs) auto
    ultimately show ?thesis
      by auto
  qed
  have "sorted (map f (filter P (sort_key f xs)))" for P
    by (rule sorted_filter) simp
  then show "sorted (map f ?ys)"
    by (auto simp: sorted_append intro: less_imp_le le_trans)
qed

lemma hd_sort_key:
  fixes f :: "'a \<Rightarrow> nat"
  assumes "xs \<noteq> []"
  shows "hd (sort_key f xs) = hd (filter (\<lambda>x. f x = Min (f ` set xs)) xs)"
proof -
  obtain y ys where s: "sort_key f xs = y # ys"
    using assms by (metis length_0_conv length_sort list.exhaust)
  have "sorted (map f (y # ys))" and set: "set (y # ys) = set xs"
    unfolding s [symmetric] by simp_all
  then have "f y = Min (f ` set xs)"
    unfolding set [symmetric] by (intro Min_eqI [symmetric]) auto
  with sort_key_stable [of f "f y" xs] show ?thesis
    by (simp add: s) (metis list.sel(1))
qed

lemma tl_sort_key:
  fixes f :: "'a \<Rightarrow> nat"
  assumes "xs \<noteq> []"
  shows "tl (sort_key f xs) = sort_key f (remove1 (hd (sort_key f xs)) xs)"
proof (rule properties_for_sort_key [symmetric])
  obtain y ys where s: "sort_key f xs = y # ys"
    using assms by (metis length_0_conv length_sort list.exhaust)
  have m: "mset xs = mset (y # ys)"
    unfolding s [symmetric] by simp
  then show "mset (tl (sort_key f xs)) = mset (remove1 (hd (sort_key f xs)) xs)"
    by (simp add: s)
  show "filter (\<lambda>x. f k = f x) (tl (sort_key f xs)) = filter (\<lambda>x. f k = f x) (remove1 (hd (sort_key f xs)) xs)" for k
  proof -
    have "filter (\<lambda>x. f k = f x) xs = filter (\<lambda>x. f k = f x) (y # ys)"
      using sort_key_stable [of f "f k" xs] by (simp add: s eq_commute)
    then show ?thesis
      by (auto simp: s filter_remove1 simp del: filter.simps)
         (auto simp: remove1_idem)
  qed
  show "sorted (map f (tl (sort_key f xs)))"
    by (metis map_tl sorted_sort_key sorted_tl)
qed

interpretation pq: stable_queue Push Pop Len path_len "\<lambda>xs. \<lparr>tasks = sort_key path_len xs\<rparr>"
proof
  show "Push x \<lparr>tasks = sort_key path_len xs\<rparr> = \<lparr>tasks = sort_key path_len (xs @ [x])\<rparr>" for x xs
    using sift_spec [of "sort_key path_len xs" x "[]"] by (simp add: Push_def sort_key_snoc)
  show "Pop \<lparr>tasks = sort_key path_len xs\<rparr> = map_prod (\<lambda>xs. \<lparr>tasks = sort_key path_len xs\<rparr>) id (first_min path_len xs)" for xs
  proof (cases "xs = []")
    case False
    then obtain t ts where s: "sort_key path_len xs = t # ts"
      by (metis length_0_conv length_sort list.exhaust)
    with False tl_sort_key [of xs path_len] show ?thesis
      by (simp add: Pop_def first_min_def hd_sort_key [symmetric])
  qed (simp add: Pop_def first_min_def)
qed (simp add: Len_def)

text \<open>The queue of tasks answers every sequence of \<^verbatim>\<open>Push\<close> and \<^verbatim>\<open>Pop\<close> like the list of the tasks that wait
  in the order they came, from which the earliest of those with the shortest path is taken.\<close>

theorem task_queue_refines:
  "drive Push Pop ops NewPriorityTaskQueue = drive (\<lambda>t waiting. waiting @ [t]) (first_min path_len) ops []"
  using pq.drive_repr [of ops "[]"] by (simp add: NewPriorityTaskQueue_def)

section \<open>The order of priorities\<close>

text \<open>The order that \<^verbatim>\<open>Compare\<close> is meant to decide: priority, then path length, then the paths.\<close>

definition prio_less :: "TaskWithPriority \<Rightarrow> TaskWithPriority \<Rightarrow> bool" where
  "prio_less a b \<longleftrightarrow>
     sint (twp_Priority a) < sint (twp_Priority b) \<or>
     twp_Priority a = twp_Priority b \<and>
       (length (twp_Path a) < length (twp_Path b) \<or>
        length (twp_Path a) = length (twp_Path b) \<and> twp_Path a < twp_Path b)"

text \<open>Sizes for which the subtractions of \<^verbatim>\<open>Compare\<close> do not overflow.\<close>

definition moderate :: "TaskWithPriority \<Rightarrow> bool" where
  "moderate t \<longleftrightarrow> \<bar>sint (twp_Priority t)\<bar> < 2 ^ 62 \<and> length (twp_Path t) < 2 ^ 62"

lemma compare_paths_sign:
  "length as = length bs \<Longrightarrow> (sint (compare_paths as bs) < 0) = (as < bs)"
  by (induction as bs rule: list_induct2) auto

lemma sint_of_range: "- (2 ^ 63) \<le> k \<Longrightarrow> k < 2 ^ 63 \<Longrightarrow> sint (word_of_int k :: i64) = k"
  by (simp add: sint_sbintrunc' signed_take_bit_int_eq_self)

lemma sint_minus_small:
  fixes a b :: i64
  assumes "\<bar>sint a\<bar> < 2 ^ 62" and "\<bar>sint b\<bar> < 2 ^ 62"
  shows "sint (a - b) = sint a - sint b"
proof -
  have "a - b = word_of_int (sint a - sint b)"
    by simp
  then show ?thesis
    using assms by (simp only:) (rule sint_of_range, simp_all)
qed

lemma sint_of_small_nat: "n < 2 ^ 62 \<Longrightarrow> sint (of_nat n :: i64) = int n"
  using sint_of_range [of "int n"] by simp

lemma sint_inject64: "sint (a :: i64) = sint b \<longleftrightarrow> a = b"
  by (rule word_eq_iff_signed [symmetric])

lemma before_iff: "moderate a \<Longrightarrow> moderate b \<Longrightarrow> before a b = prio_less a b"
  by (auto simp: before_def prio_less_def moderate_def Compare_def priority_of_def compare_paths_sign
      sint_minus_small sint_of_small_nat sint_inject64)

lemma prio_less_trans: "prio_less a b \<Longrightarrow> prio_less b c \<Longrightarrow> prio_less a c"
  by (auto simp: prio_less_def)

lemma prio_less_weak: "prio_less a c \<Longrightarrow> prio_less a b \<or> prio_less b c"
  using less_linear [of "twp_Path a" "twp_Path b"] less_linear [of "twp_Path b" "twp_Path c"]
  by (auto simp: prio_less_def sint_inject64 [symmetric])

lemma before_strict_weak: "list_all moderate q \<Longrightarrow> strict_weak_on (set q) before"
  unfolding strict_weak_on_def
  by (auto simp: list_all_iff before_iff dest: prio_less_trans prio_less_weak)
     (simp add: prio_less_def)

text \<open>Taking the next task from the queue of an optimised engine returns a task than which none in the queue
  comes earlier (by priority, path length and path), and leaves the others, as long as priorities and lengths are
  below two to the power of 62 in size.\<close>

theorem GetNextPriorityTask_min:
  assumes "sorts srt" and "list_all moderate (taskPriorityQueue e)" and "taskPriorityQueue e \<noteq> []"
  shows "\<exists>t rest. GetNextPriorityTask srt e = (e\<lparr>taskPriorityQueue := rest\<rparr>, Some t) \<and>
    mset (taskPriorityQueue e) = add_mset t (mset rest) \<and> (\<forall>u \<in> set (taskPriorityQueue e). \<not> prio_less u t)"
proof -
  let ?q = "taskPriorityQueue e"
  have m: "mset (srt before ?q) = mset ?q" and sorted: "sorted_wrt (\<lambda>a b. \<not> before b a) (srt before ?q)"
    using assms(1) before_strict_weak [OF assms(2)] by (auto simp: sorts_def)
  obtain t rest where s: "srt before ?q = t # rest"
    using m assms(3) by (metis list.exhaust mset_zero_iff)
  have set: "set ?q = insert t (set rest)"
    using mset_eq_setD [OF m] by (simp add: s)
  have "\<not> prio_less t t"
    by (simp add: prio_less_def)
  moreover have "\<not> prio_less u t" if "u \<in> set rest" for u
    using that sorted assms(2) set by (auto simp: s list_all_iff simp flip: before_iff)
  ultimately have "\<forall>u \<in> set ?q. \<not> prio_less u t"
    unfolding set by blast
  moreover have "mset ?q = add_mset t (mset rest)"
    using m by (simp add: s)
  moreover have "GetNextPriorityTask srt e = (e\<lparr>taskPriorityQueue := rest\<rparr>, Some t)"
    using assms(3) s by (cases ?q) (simp_all add: GetNextPriorityTask_def)
  ultimately show ?thesis
    by blast
qed

text \<open>The instance of \<^verbatim>\<open>sort.Slice\<close> keeps its contract.\<close>

lemma mset_insert_back [simp]: "mset (insert_back lt x ys) = add_mset x (mset ys)"
  by (induction ys) auto

lemma set_insert_back [simp]: "set (insert_back lt x ys) = insert x (set ys)"
  using mset_eq_setD [of "insert_back lt x ys" "x # ys"] by simp

lemma strict_weak_onD:
  assumes "strict_weak_on A lt"
  shows "a \<in> A \<Longrightarrow> \<not> lt a a"
    and "a \<in> A \<Longrightarrow> b \<in> A \<Longrightarrow> c \<in> A \<Longrightarrow> lt a b \<Longrightarrow> lt b c \<Longrightarrow> lt a c"
  using assms unfolding strict_weak_on_def by blast+

lemma strict_weak_on_subset: "strict_weak_on A lt \<Longrightarrow> B \<subseteq> A \<Longrightarrow> strict_weak_on B lt"
  unfolding strict_weak_on_def by (meson subsetD)

lemma insert_back_sorted:
  assumes "strict_weak_on (insert x (set ys)) lt" and "sorted_wrt (\<lambda>a b. \<not> lt b a) ys"
  shows "sorted_wrt (\<lambda>a b. \<not> lt b a) (insert_back lt x ys)"
  using assms
proof (induction ys)
  case (Cons y ys)
  have "strict_weak_on (insert x (set ys)) lt"
    by (rule strict_weak_on_subset [OF Cons.prems(1)]) auto
  then have IH: "sorted_wrt (\<lambda>a b. \<not> lt b a) (insert_back lt x ys)"
    using Cons by simp
  show ?case
  proof (cases "lt x y")
    case True
    have "\<not> lt b x" if b: "b \<in> set (y # ys)" for b
    proof
      assume "lt b x"
      then have "lt b y"
        using strict_weak_onD(2) [OF Cons.prems(1), of b x y] b True by simp
      then show False
        using b Cons.prems(2) strict_weak_onD(1) [OF Cons.prems(1), of y] by auto
    qed
    with True Cons.prems(2) show ?thesis
      by auto
  next
    case False
    with IH Cons.prems(2) show ?thesis
      by auto
  qed
qed simp

lemma sorts_insertion_sort: "sorts insertion_sort"
proof -
  have "mset (fold (insert_back lt) xs ys) = mset xs + mset ys" for lt and xs ys :: "'b list"
    by (induction xs arbitrary: ys) auto
  moreover have "strict_weak_on (set xs \<union> set ys) lt \<Longrightarrow> sorted_wrt (\<lambda>a b. \<not> lt b a) ys \<Longrightarrow>
      sorted_wrt (\<lambda>a b. \<not> lt b a) (fold (insert_back lt) xs ys)" for lt and xs ys :: "'b list"
  proof (induction xs arbitrary: ys)
    case (Cons x xs)
    have "strict_weak_on (insert x (set ys)) lt"
      by (rule strict_weak_on_subset [OF Cons.prems(1)]) auto
    then have "sorted_wrt (\<lambda>a b. \<not> lt b a) (insert_back lt x ys)"
      by (rule insert_back_sorted [OF _ Cons.prems(2)])
    with Cons show ?case
      by simp
  qed simp
  ultimately show ?thesis
    unfolding sorts_def insertion_sort_def by (metis add_0_right empty_set mset.simps(1) sorted_wrt.simps(1) sup_bot_right)
qed

definition sample_task :: "string \<Rightarrow> i64 \<Rightarrow> TaskWithPriority" where
  "sample_task name p =
     \<lparr>twp_Task = \<lparr>task_ID = [], task_Name = name, task_Func = None, task_Channels = [], task_Path = [], task_Triggers = [],
        task_RetryPolicy = None\<rparr>, twp_Priority = p, twp_Namespace = [], twp_Path = [[], name]\<rparr>"

definition sample_engine :: "TaskWithPriority list \<Rightarrow> unit PregelOptimizedEngine" where
  "sample_engine q = (NewPregelOptimizedEngine (NewEngine (NewStateGraph (SStruct [])) []) None)\<lparr>taskPriorityQueue := q\<rparr>"

theorem GetNextPriorityTask_min_witness:
  "\<exists>t rest. GetNextPriorityTask insertion_sort (sample_engine [sample_task ''b'' 2, sample_task ''a'' 1]) =
      ((sample_engine [sample_task ''b'' 2, sample_task ''a'' 1])\<lparr>taskPriorityQueue := rest\<rparr>, Some t) \<and>
    add_mset t (mset rest) = {#sample_task ''b'' 2, sample_task ''a'' 1#} \<and> \<not> prio_less (sample_task ''a'' 1) t"
proof -
  have "list_all moderate [sample_task ''b'' 2, sample_task ''a'' 1]"
    by (simp add: moderate_def sample_task_def)
  then show ?thesis
    using GetNextPriorityTask_min [OF sorts_insertion_sort, of "sample_engine [sample_task ''b'' 2, sample_task ''a'' 1]"]
    by (auto simp: sample_engine_def)
qed

text \<open>Beyond that size the difference wraps around: the largest priority comes before \<open>-1\<close>.\<close>

theorem Compare_overflows:
  "sint (Compare \<lparr>tp_Name = a, tp_Path = p, tp_Priority = 2 ^ 63 - 1\<rparr> \<lparr>tp_Name = b, tp_Path = q, tp_Priority = - 1\<rparr>) < 0 \<and>
   sint (2 ^ 63 - 1 :: i64) > sint (- 1 :: i64)"
  by (simp add: Compare_def)

section \<open>Dependencies\<close>

text \<open>The list kept for a task holds the tasks that depend on it. \<^verbatim>\<open>BumpStep\<close> reads it so; \<^verbatim>\<open>IsTaskReady\<close> takes it for
  the tasks it depends on: a task whose prerequisite has not finished counts as ready, and a task on which
  another depends never is before that one has finished.\<close>

theorem IsTaskReady_reads_dependents:
  assumes "a \<noteq> b"
  shows "IsTaskReady (AddTaskDependency a b (NewPregelOptimizedEngine base cfg)) a \<and>
    \<not> IsTaskReady (AddTaskDependency a b (NewPregelOptimizedEngine base cfg)) b"
  using assms
  by (simp add: IsTaskReady_def GetTaskDependencies_def AddTaskDependency_def NewPregelOptimizedEngine_def gomap_simps)

text \<open>A dependent that was bumped once is bumped again only by channels it has seen before, although it is to be
  bumped when it has not seen the latest values.\<close>

theorem BumpStep_skips_unseen:
  assumes "map_of (seenChannels e) dep = Some m" and "ch \<in> set updated" and "\<not> gm_true m ch"
  shows "bump_dependent step updated dep e = e"
  using assms by (auto simp: bump_dependent_def bump_ready_def list_all_iff)

section \<open>The order of the results\<close>

text \<open>Results are compared by path length, path and name: a strict order, and a total one where these differ.\<close>

definition result_key :: "PathResult \<Rightarrow> nat \<times> string list \<times> string" where
  "result_key r = (length (res_Path r), res_Path r, res_Name r)"

definition key_less :: "nat \<times> string list \<times> string \<Rightarrow> nat \<times> string list \<times> string \<Rightarrow> bool" where
  "key_less a b \<longleftrightarrow>
     fst a < fst b \<or> fst a = fst b \<and> (fst (snd a) < fst (snd b) \<or> fst (snd a) = fst (snd b) \<and> snd (snd a) < snd (snd b))"

lemma key_less_props:
  "\<not> key_less a a" "key_less a b \<Longrightarrow> key_less b c \<Longrightarrow> key_less a c" "key_less a b \<or> a = b \<or> key_less b a"
  unfolding key_less_def by (auto simp: prod_eq_iff)

lemma path_less_order:
  "length as = length bs \<Longrightarrow> path_less as bs = (if as = bs then None else Some (as < bs))"
  by (induction as bs rule: list_induct2) auto

lemma result_less_key: "result_less a b = key_less (result_key a) (result_key b)"
  by (auto simp: result_less_def key_less_def result_key_def path_less_order)

lemma key_less_weak: "key_less a c \<Longrightarrow> key_less a b \<or> key_less b c"
  using key_less_props(2) [of b a c] key_less_props(3) [of a b] by blast

lemma result_less_strict_weak: "strict_weak_on A result_less"
  unfolding strict_weak_on_def result_less_key
  by (auto intro: key_less_props(2) dest: key_less_weak simp: key_less_props(1))

lemma sorted_wrt_unique:
  assumes "sorted_wrt R xs" and "sorted_wrt R ys" and "mset xs = mset ys"
    and "\<And>a b. a \<in> set xs \<Longrightarrow> b \<in> set xs \<Longrightarrow> R a b \<Longrightarrow> R b a \<Longrightarrow> a = b"
  shows "xs = ys"
  using assms
proof (induction xs arbitrary: ys)
  case (Cons x xs)
  obtain y ys' where ys: "ys = y # ys'"
    using Cons.prems(3) by (cases ys) auto
  have set: "set (x # xs) = set (y # ys')"
    using mset_eq_setD [OF Cons.prems(3)] by (simp add: ys)
  have "x = y"
  proof (rule ccontr)
    assume "x \<noteq> y"
    then have "x \<in> set ys'" "y \<in> set xs"
      using set by auto
    then have "R x y" "R y x"
      using Cons.prems(1,2) by (auto simp: ys)
    with \<open>x \<noteq> y\<close> \<open>y \<in> set xs\<close> Cons.prems(4) show False
      by auto
  qed
  moreover have "xs = ys'"
    using Cons.prems \<open>x = y\<close> by (intro Cons.IH) (auto simp: ys)
  ultimately show ?case
    by (simp add: ys)
qed simp

lemma sorted_results_unique:
  assumes "sorts srt" and "mset rs = mset rs'" and "inj_on result_key (set rs)"
  shows "srt result_less rs = srt result_less rs'"
proof (rule sorted_wrt_unique)
  show "sorted_wrt (\<lambda>a b. \<not> result_less b a) (srt result_less rs)" "sorted_wrt (\<lambda>a b. \<not> result_less b a) (srt result_less rs')"
    using assms(1) result_less_strict_weak unfolding sorts_def by blast+
  have m: "mset (srt result_less rs) = mset rs" "mset (srt result_less rs') = mset rs'"
    using assms(1) unfolding sorts_def by blast+
  then show "mset (srt result_less rs) = mset (srt result_less rs')"
    using assms(2) by simp
  show "a = b" if "a \<in> set (srt result_less rs)" "b \<in> set (srt result_less rs)" "\<not> result_less b a" "\<not> result_less a b" for a b
    using that mset_eq_setD [OF m(1)] assms(3) key_less_props(3) [of "result_key a" "result_key b"]
    by (auto simp: result_less_key inj_on_def)
qed

text \<open>The optimised way of applying the writes of a step does not depend on the order in which the tasks
  finished, as long as no two of them share both path and name.\<close>

theorem OptimizedApplyWrites_order_free:
  assumes "sorts srt" and "mset rs = mset rs'" and "inj_on result_key (set rs)"
  shows "OptimizedApplyWrites srt ord e reg rs triggers = OptimizedApplyWrites srt ord e reg rs' triggers"
  using sorted_results_unique [OF assms] by (simp add: OptimizedApplyWrites_def)

definition sample_result :: "string \<Rightarrow> goval \<Rightarrow> PathResult" where
  "sample_result name v = \<lparr>res_Name = name, res_Output = GMap [(''x'', v)], res_Err = None, res_Path = [name]\<rparr>"

theorem OptimizedApplyWrites_order_free_witness:
  "OptimizedApplyWrites insertion_sort id (sample_engine []) NewRegistry [sample_result ''b'' (GInt 1), sample_result ''a'' (GInt 2)] [] =
   OptimizedApplyWrites insertion_sort id (sample_engine []) NewRegistry [sample_result ''a'' (GInt 2), sample_result ''b'' (GInt 1)] []"
  by (rule OptimizedApplyWrites_order_free [OF sorts_insertion_sort]) (auto simp: sample_result_def result_key_def)

end
