(* ===== verification/Cache.thy ===== *)
theory Cache
  imports GraphErrors
begin

text \<open>
  Caches of node outputs (\<^verbatim>\<open>pregel/cache.go\<close>, \<^verbatim>\<open>pregel/cache_async.go\<close>): the cache in memory with its three eviction
  policies, the cache that stores nothing, the executor that asks a cache before it calls a function, and the
  cache whose operations are carried out by workers. Times are nanoseconds; \<open>clock\<close> holds the two readings that a
  call takes from the clock. The order in which a map is walked is the argument \<open>ord\<close>, a permutation of its entries.
\<close>

section \<open>The cache in memory\<close>

datatype EvictionPolicy = EvictLRU | EvictLFU | EvictRandom

type_synonym clock = "int \<times> int"

record cacheEntry =
  ce_value :: goval
  expiration :: "int option"
  lastAccess :: int
  hits :: int

record MemoryCache =
  mc_data :: "cacheEntry gomap"
  maxSize :: int
  eviction :: EvictionPolicy

type_synonym walk = "cacheEntry gomap \<Rightarrow> cacheEntry gomap"

definition NewMemoryCache :: "int \<Rightarrow> EvictionPolicy \<Rightarrow> MemoryCache" where
  "NewMemoryCache n policy = \<lparr>mc_data = [], maxSize = n, eviction = policy\<rparr>"

definition live :: "int \<Rightarrow> cacheEntry \<Rightarrow> bool" where
  "live now entry = (case expiration entry of None \<Rightarrow> True | Some x \<Rightarrow> \<not> now > x)"

definition MemoryCache_Get :: "clock \<Rightarrow> string \<Rightarrow> MemoryCache \<Rightarrow> MemoryCache \<times> goval option" where
  "MemoryCache_Get t key c =
     (case map_of (mc_data c) key of
        None \<Rightarrow> (c, None)
      | Some entry \<Rightarrow>
          if live (fst t) entry
          then (c\<lparr>mc_data := gm_set key (entry\<lparr>hits := hits entry + 1, lastAccess := snd t\<rparr>) (mc_data c)\<rparr>, Some (ce_value entry))
          else (c, None))"

text \<open>The loops of \<^verbatim>\<open>evict\<close>: the oldest access so far, or the fewest hits, with its key.\<close>

fun oldest_key :: "cacheEntry gomap \<Rightarrow> int option \<Rightarrow> string \<Rightarrow> string" where
  "oldest_key [] oldest key = key"
| "oldest_key ((k, v) # m) oldest key =
     (if (case oldest of None \<Rightarrow> True | Some t \<Rightarrow> lastAccess v < t) then oldest_key m (Some (lastAccess v)) k
      else oldest_key m oldest key)"

fun fewest_key :: "cacheEntry gomap \<Rightarrow> int \<Rightarrow> string \<Rightarrow> string" where
  "fewest_key [] minHits key = key"
| "fewest_key ((k, v) # m) minHits key =
     (if minHits = - 1 \<or> hits v < minHits then fewest_key m (hits v) k else fewest_key m minHits key)"

definition keyToDelete :: "walk \<Rightarrow> MemoryCache \<Rightarrow> string" where
  "keyToDelete ord c =
     (case eviction c of
        EvictLRU \<Rightarrow> oldest_key (ord (mc_data c)) None []
      | EvictLFU \<Rightarrow> fewest_key (ord (mc_data c)) (- 1) []
      | EvictRandom \<Rightarrow> (case ord (mc_data c) of [] \<Rightarrow> [] | (k, v) # _ \<Rightarrow> k))"

definition evict :: "walk \<Rightarrow> MemoryCache \<Rightarrow> MemoryCache" where
  "evict ord c =
     (if mc_data c = [] then c
      else if keyToDelete ord c \<noteq> [] then c\<lparr>mc_data := gm_delete (keyToDelete ord c) (mc_data c)\<rparr> else c)"

definition MemoryCache_Set :: "walk \<Rightarrow> clock \<Rightarrow> string \<Rightarrow> goval \<Rightarrow> int \<Rightarrow> MemoryCache \<Rightarrow> MemoryCache" where
  "MemoryCache_Set ord t key v ttl c =
     (let c1 = (if int (length (mc_data c)) \<ge> maxSize c then evict ord c else c)
      in c1\<lparr>mc_data := gm_set key
            \<lparr>ce_value = v, expiration = (if ttl > 0 then Some (fst t + ttl) else None), lastAccess = snd t, hits = 0\<rparr>
            (mc_data c1)\<rparr>)"

definition MemoryCache_Delete :: "string \<Rightarrow> MemoryCache \<Rightarrow> MemoryCache" where
  "MemoryCache_Delete key c = c\<lparr>mc_data := gm_delete key (mc_data c)\<rparr>"

definition MemoryCache_Clear :: "MemoryCache \<Rightarrow> MemoryCache" where
  "MemoryCache_Clear c = c\<lparr>mc_data := []\<rparr>"

section \<open>The cache that stores nothing\<close>

definition NoopCache_Get :: "clock \<Rightarrow> string \<Rightarrow> unit \<Rightarrow> unit \<times> goval option" where
  "NoopCache_Get t key c = (c, None)"

definition NoopCache_Set :: "clock \<Rightarrow> string \<Rightarrow> goval \<Rightarrow> int \<Rightarrow> unit \<Rightarrow> unit" where
  "NoopCache_Set t key v ttl c = c"

definition NoopCache_Delete :: "string \<Rightarrow> unit \<Rightarrow> unit" where
  "NoopCache_Delete key c = c"

definition NoopCache_Clear :: "unit \<Rightarrow> unit" where
  "NoopCache_Clear c = c"

section \<open>The executor\<close>

text \<open>JSON (\<open>enc\<close>), SHA-256 in hexadecimal (\<open>sha\<close>) and the names of types (\<open>ty\<close>) come from outside.\<close>

record cache_env =
  ca_enc :: "goval \<Rightarrow> string option"
  ca_sha :: "string \<Rightarrow> string"
  ca_ty :: "goval \<Rightarrow> string"

record CachePolicy =
  KeyFunc :: "(goval \<Rightarrow> string) option"
  TTL :: "int option"

definition GenerateCacheKey :: "cache_env \<Rightarrow> string \<Rightarrow> goval \<Rightarrow> string" where
  "GenerateCacheKey env nodeName input =
     (case ca_enc env input of
        None \<Rightarrow> nodeName @ '':'' @ ca_ty env input
      | Some d \<Rightarrow> nodeName @ '':'' @ ca_sha env d)"

definition cache_key :: "cache_env \<Rightarrow> CachePolicy option \<Rightarrow> string \<Rightarrow> goval \<Rightarrow> string" where
  "cache_key env policy nodeName input =
     (case policy of
        None \<Rightarrow> GenerateCacheKey env nodeName input
      | Some p \<Rightarrow> (case KeyFunc p of None \<Rightarrow> GenerateCacheKey env nodeName input | Some f \<Rightarrow> f input))"

definition policy_ttl :: "CachePolicy option \<Rightarrow> int" where
  "policy_ttl policy = (case policy of None \<Rightarrow> 0 | Some p \<Rightarrow> (case TTL p of None \<Rightarrow> 0 | Some ttl \<Rightarrow> ttl))"

text \<open>The methods of the cache are arguments; the executor is the same for all caches. The clock is read when the
  cache is asked (\<open>t\<close>) and again when the result is stored (\<open>t'\<close>).\<close>

definition CachedExecutor_Execute ::
  "(clock \<Rightarrow> string \<Rightarrow> 'c \<Rightarrow> 'c \<times> goval option) \<Rightarrow> (clock \<Rightarrow> string \<Rightarrow> goval \<Rightarrow> int \<Rightarrow> 'c \<Rightarrow> 'c) \<Rightarrow> cache_env \<Rightarrow> CachePolicy option
     \<Rightarrow> clock \<Rightarrow> clock \<Rightarrow> string \<Rightarrow> goval \<Rightarrow> (goval \<Rightarrow> gerror + goval) \<Rightarrow> 'c \<Rightarrow> (gerror, 'c, goval) outcome" where
  "CachedExecutor_Execute get put env policy t t' nodeName input fn c =
     (let key = cache_key env policy nodeName input; (c1, cached) = get t key c
      in (case cached of
            Some v \<Rightarrow> (c1, Inr v)
          | None \<Rightarrow>
              (case fn input of
                 Inl err \<Rightarrow> (c1, Inl err)
               | Inr v \<Rightarrow> (put t' key v (policy_ttl policy) c1, Inr v))))"

section \<open>Eviction\<close>

definition permutes :: "walk \<Rightarrow> bool" where
  "permutes ord \<longleftrightarrow> (\<forall>m. mset (ord m) = mset m)"

lemma permutes_set: "permutes ord \<Longrightarrow> set (ord m) = set m"
  unfolding permutes_def by (metis set_mset_mset)

lemma oldest_key_from:
  "\<exists>x. (oldest_key m (Some t) key = key \<and> x = t \<or> (\<exists>v. (oldest_key m (Some t) key, v) \<in> set m \<and> lastAccess v = x)) \<and>
     x \<le> t \<and> (\<forall>(k, v) \<in> set m. x \<le> lastAccess v)"
proof (induction m arbitrary: t key)
  case (Cons kv m)
  obtain k v where kv: "kv = (k, v)"
    by force
  show ?case
  proof (cases "lastAccess v < t")
    case True
    with Cons.IH [of "lastAccess v" k] show ?thesis
      by (fastforce simp: kv)
  next
    case False
    with Cons.IH [of t key] show ?thesis
      by (fastforce simp: kv)
  qed
qed simp

lemma oldest_key_least:
  assumes "m \<noteq> []"
  shows "\<exists>e. (oldest_key m None key, e) \<in> set m \<and> (\<forall>(k, v) \<in> set m. lastAccess e \<le> lastAccess v)"
proof -
  obtain k v m' where m: "m = (k, v) # m'"
    using assms by (metis list.exhaust surj_pair)
  show ?thesis
    using oldest_key_from [of m' "lastAccess v" k] by (fastforce simp: m)
qed

lemma fewest_key_from:
  "n \<ge> 0 \<Longrightarrow> \<forall>(k, v) \<in> set m. hits v \<ge> 0 \<Longrightarrow>
     \<exists>x. (fewest_key m n key = key \<and> x = n \<or> (\<exists>v. (fewest_key m n key, v) \<in> set m \<and> hits v = x)) \<and>
       x \<le> n \<and> (\<forall>(k, v) \<in> set m. x \<le> hits v)"
proof (induction m arbitrary: n key)
  case (Cons kv m)
  obtain k v where kv: "kv = (k, v)"
    by force
  show ?case
  proof (cases "hits v < n")
    case True
    obtain x where "fewest_key m (hits v) k = k \<and> x = hits v \<or> (\<exists>w. (fewest_key m (hits v) k, w) \<in> set m \<and> hits w = x)"
      "x \<le> hits v" "\<forall>(k, w) \<in> set m. x \<le> hits w"
      using Cons.IH [of "hits v" k] Cons.prems by (auto simp: kv)
    with True show ?thesis
      by (intro exI [of _ x]) (auto simp: kv)
  next
    case False
    obtain x where "fewest_key m n key = key \<and> x = n \<or> (\<exists>w. (fewest_key m n key, w) \<in> set m \<and> hits w = x)"
      "x \<le> n" "\<forall>(k, w) \<in> set m. x \<le> hits w"
      using Cons.IH [of n key] Cons.prems by (auto simp: kv)
    with False Cons.prems(1) show ?thesis
      by (intro exI [of _ x]) (auto simp: kv)
  qed
qed simp

lemma fewest_key_least:
  assumes "m \<noteq> []" and "\<forall>(k, v) \<in> set m. hits v \<ge> 0"
  shows "\<exists>e. (fewest_key m (- 1) key, e) \<in> set m \<and> (\<forall>(k, v) \<in> set m. hits e \<le> hits v)"
proof -
  obtain k v m' where m: "m = (k, v) # m'"
    using assms(1) by (metis list.exhaust surj_pair)
  show ?thesis
    using fewest_key_from [of "hits v" m' k] assms(2) by (fastforce simp: m)
qed

text \<open>What a cache keeps: distinct keys, none of them empty, counts that are not negative, and the bound.\<close>

definition cache_inv :: "MemoryCache \<Rightarrow> bool" where
  "cache_inv c \<longleftrightarrow> gm_ok (mc_data c) \<and> [] \<notin> set (gm_keys (mc_data c)) \<and> (\<forall>(k, v) \<in> set (mc_data c). hits v \<ge> 0) \<and>
     int (length (mc_data c)) \<le> max 1 (maxSize c)"

text \<open>The entry that makes room.\<close>

definition is_victim :: "MemoryCache \<Rightarrow> string \<Rightarrow> bool" where
  "is_victim c k \<longleftrightarrow>
     (\<exists>e. map_of (mc_data c) k = Some e \<and>
        (eviction c = EvictLRU \<longrightarrow> (\<forall>k' e'. map_of (mc_data c) k' = Some e' \<longrightarrow> lastAccess e \<le> lastAccess e')) \<and>
        (eviction c = EvictLFU \<longrightarrow> (\<forall>k' e'. map_of (mc_data c) k' = Some e' \<longrightarrow> hits e \<le> hits e')))"

lemma keyToDelete_victim:
  assumes "cache_inv c" and "permutes ord" and "mc_data c \<noteq> []"
  shows "is_victim c (keyToDelete ord c)"
proof -
  have ok: "gm_ok (mc_data c)" and h: "\<forall>(k, v) \<in> set (mc_data c). hits v \<ge> 0"
    using assms(1) by (auto simp: cache_inv_def)
  have s: "set (ord (mc_data c)) = set (mc_data c)"
    by (rule permutes_set [OF assms(2)])
  then have ne: "ord (mc_data c) \<noteq> []"
    using assms(3) by (metis set_empty)
  show ?thesis
  proof (cases "eviction c")
    case EvictLRU
    with oldest_key_least [OF ne, of "[]"] ok show ?thesis
      by (fastforce simp: s is_victim_def keyToDelete_def dest: map_of_SomeD)
  next
    case EvictLFU
    with fewest_key_least [OF ne, of "[]"] ok h show ?thesis
      by (fastforce simp: s is_victim_def keyToDelete_def dest: map_of_SomeD)
  next
    case EvictRandom
    obtain k v m where m: "ord (mc_data c) = (k, v) # m"
      using ne by (metis list.exhaust surj_pair)
    then have "(k, v) \<in> set (mc_data c)"
      using s by (metis list.set_intros(1))
    with EvictRandom ok m show ?thesis
      by (auto simp: is_victim_def keyToDelete_def)
  qed
qed

lemma victim_key: "cache_inv c \<Longrightarrow> is_victim c k \<Longrightarrow> k \<noteq> [] \<and> k \<in> set (gm_keys (mc_data c))"
  by (force simp: is_victim_def cache_inv_def dest: map_of_SomeD)

lemma gm_size_delete: "gm_ok m \<Longrightarrow> k \<in> set (gm_keys m) \<Longrightarrow> length (gm_delete k m) = length m - 1"
proof (induction m)
  case (Cons p m)
  then show ?case
    by (cases p; cases "fst p = k") (auto intro!: Suc_pred dest: length_pos_if_in_set)
qed simp

lemma gm_size_set: "gm_ok m \<Longrightarrow> length (gm_set k v m) = (if k \<in> set (gm_keys m) then length m else Suc (length m))"
  by (induction m) auto

lemma evict_spec:
  assumes "cache_inv c" and "permutes ord" and "mc_data c \<noteq> []"
  shows "evict ord c = c\<lparr>mc_data := gm_delete (keyToDelete ord c) (mc_data c)\<rparr>"
    and "length (mc_data (evict ord c)) = length (mc_data c) - 1"
proof -
  note v = victim_key [OF assms(1) keyToDelete_victim [OF assms]]
  show e: "evict ord c = c\<lparr>mc_data := gm_delete (keyToDelete ord c) (mc_data c)\<rparr>"
    using v assms(3) by (simp add: evict_def)
  show "length (mc_data (evict ord c)) = length (mc_data c) - 1"
    using gm_size_delete [OF _ conjunct2 [OF v]] assms(1) by (simp add: e cache_inv_def)
qed

lemma cache_inv_delete: "cache_inv c \<Longrightarrow> cache_inv (c\<lparr>mc_data := gm_delete k (mc_data c)\<rparr>)"
proof -
  assume c: "cache_inv c"
  have "set (gm_delete k m) \<subseteq> set m" for m :: "cacheEntry gomap"
    by (induction m) auto
  then have "\<forall>x \<in> set (gm_delete k (mc_data c)). x \<in> set (mc_data c)"
    by blast
  moreover have "int (length (gm_delete k (mc_data c))) \<le> int (length (mc_data c))"
    by (simp add: length_delete_le)
  ultimately show ?thesis
    using c dom_delete_subset [of k "mc_data c"] by (auto simp: cache_inv_def)
qed

lemma cache_inv_put:
  assumes "cache_inv c" and "k \<noteq> []" and "hits e \<ge> 0"
    and "k \<in> set (gm_keys (mc_data c)) \<or> int (length (mc_data c)) < max 1 (maxSize c)"
  shows "cache_inv (c\<lparr>mc_data := gm_set k e (mc_data c)\<rparr>)"
proof -
  have "\<forall>x \<in> set (gm_set k e (mc_data c)). x = (k, e) \<or> x \<in> set (mc_data c)"
    using gm_set_entries [of k e "mc_data c"] by blast
  then have "\<forall>(k', v) \<in> set (gm_set k e (mc_data c)). hits v \<ge> 0"
    using assms(1,3) by (auto simp: cache_inv_def)
  then show ?thesis
    using assms gm_size_set [of "mc_data c" k e] by (auto simp: cache_inv_def)
qed

text \<open>Room for one more entry.\<close>

definition make_room :: "walk \<Rightarrow> MemoryCache \<Rightarrow> MemoryCache" where
  "make_room ord c = (if int (length (mc_data c)) \<ge> maxSize c then evict ord c else c)"

lemma make_room_inv:
  assumes "cache_inv c" and "permutes ord"
  shows "cache_inv (make_room ord c) \<and> int (length (mc_data (make_room ord c))) < max 1 (maxSize (make_room ord c))"
proof (cases "mc_data c = []")
  case True
  with assms(1) show ?thesis
    by (simp add: make_room_def evict_def)
next
  case False
  have "cache_inv (evict ord c)"
    using evict_spec(1) [OF assms False] cache_inv_delete [OF assms(1)] by simp
  moreover have "int (length (mc_data (evict ord c))) < max 1 (maxSize (evict ord c))"
    using evict_spec [OF assms False] assms(1) False by (cases "mc_data c") (simp_all add: cache_inv_def)
  ultimately show ?thesis
    using assms(1) by (simp add: make_room_def)
qed

lemma MemoryCache_Set_room:
  "MemoryCache_Set ord t key v ttl c =
     (make_room ord c)\<lparr>mc_data := gm_set key
        \<lparr>ce_value = v, expiration = (if ttl > 0 then Some (fst t + ttl) else None), lastAccess = snd t, hits = 0\<rparr>
        (mc_data (make_room ord c))\<rparr>"
  by (simp add: MemoryCache_Set_def make_room_def Let_def)

lemma MemoryCache_Get_inv: "cache_inv c \<Longrightarrow> cache_inv (fst (MemoryCache_Get t k c))"
proof -
  assume c: "cache_inv c"
  show ?thesis
  proof (cases "map_of (mc_data c) k")
    case (Some e)
    then have "(k, e) \<in> set (mc_data c)"
      by (rule map_of_SomeD)
    with c have "k \<noteq> []" "hits e \<ge> 0" "k \<in> set (gm_keys (mc_data c))"
      by (force simp: cache_inv_def)+
    with c Some show ?thesis
      by (simp add: MemoryCache_Get_def cache_inv_put)
  qed (simp add: MemoryCache_Get_def c)
qed

section \<open>A cache never outgrows its bound\<close>

datatype cache_op =
  OpGet clock string
| OpSet clock string goval int
| OpDelete string
| OpClear

fun cache_do :: "walk \<Rightarrow> cache_op \<Rightarrow> MemoryCache \<Rightarrow> MemoryCache" where
  "cache_do ord (OpGet t k) c = fst (MemoryCache_Get t k c)"
| "cache_do ord (OpSet t k v ttl) c = MemoryCache_Set ord t k v ttl c"
| "cache_do ord (OpDelete k) c = MemoryCache_Delete k c"
| "cache_do ord OpClear c = MemoryCache_Clear c"

fun op_key_ok :: "cache_op \<Rightarrow> bool" where
  "op_key_ok (OpSet t k v ttl) = (k \<noteq> [])"
| "op_key_ok _ = True"

lemma cache_do_inv: "cache_inv c \<Longrightarrow> permutes ord \<Longrightarrow> op_key_ok op \<Longrightarrow> cache_inv (cache_do ord op c)"
proof (cases op)
  case OpClear
  then show "cache_inv c \<Longrightarrow> ?thesis"
    by (simp add: MemoryCache_Clear_def cache_inv_def)
qed (simp_all add: make_room_inv MemoryCache_Get_inv MemoryCache_Set_room cache_inv_put MemoryCache_Delete_def cache_inv_delete)

lemma cache_run_inv:
  "cache_inv c \<Longrightarrow> permutes ord \<Longrightarrow> list_all op_key_ok ops \<Longrightarrow> cache_inv (fold (cache_do ord) ops c)"
  by (induction ops arbitrary: c) (simp_all add: cache_do_inv)

lemma cache_do_static: "maxSize (cache_do ord op c) = maxSize c \<and> eviction (cache_do ord op c) = eviction c"
  by (cases op)
     (auto simp: MemoryCache_Get_def MemoryCache_Set_def evict_def MemoryCache_Delete_def MemoryCache_Clear_def Let_def
       split: option.split)

lemma cache_run_static: "maxSize (fold (cache_do ord) ops c) = maxSize c"
  by (induction ops arbitrary: c) (simp_all add: cache_do_static)

text \<open>C12: whatever operations are run on a new cache, it never holds more entries than its maximum, or one where
  the maximum is not positive, as long as no value is stored under the empty key.\<close>

theorem cache_size_bounded:
  assumes "permutes ord" and "list_all op_key_ok ops"
  shows "int (length (mc_data (fold (cache_do ord) ops (NewMemoryCache n policy)))) \<le> max 1 n"
proof -
  have "cache_inv (NewMemoryCache n policy)"
    by (simp add: cache_inv_def NewMemoryCache_def)
  then have "cache_inv (fold (cache_do ord) ops (NewMemoryCache n policy))"
    using assms by (rule cache_run_inv)
  then show ?thesis
    using cache_run_static [of ord ops "NewMemoryCache n policy"] by (simp add: cache_inv_def NewMemoryCache_def)
qed

theorem cache_size_bounded_witness:
  "int (length (mc_data (fold (cache_do rev)
     [OpSet (1, 2) ''a'' GNil 0, OpSet (3, 4) ''b'' GNil 0, OpGet (5, 6) ''a'', OpSet (7, 8) ''c'' GNil 9]
     (NewMemoryCache 2 EvictLRU)))) \<le> max 1 2"
  by (rule cache_size_bounded) (simp_all add: permutes_def)

text \<open>The empty key is what \<^verbatim>\<open>evict\<close> takes for no key at all: an entry under it that is the oldest is never evicted,
  nothing else is, and the cache grows beyond its maximum.\<close>

theorem empty_key_blocks_eviction:
  "length (mc_data (fold (cache_do id)
     [OpSet (1, 1) [] GNil 0, OpSet (2, 2) ''a'' GNil 0, OpSet (3, 3) ''b'' GNil 0, OpSet (4, 4) ''c'' GNil 0]
     (NewMemoryCache 1 EvictLRU))) = 4"
  by code_simp

text \<open>An entry is evicted even when the value stored replaces one that is there.\<close>

theorem overwrite_evicts:
  "map_of (mc_data (fold (cache_do id) [OpSet (1, 1) ''a'' GNil 0, OpSet (2, 2) ''b'' GNil 0, OpSet (3, 3) ''b'' (GBool True) 0]
     (NewMemoryCache 2 EvictLRU))) ''a'' = None"
  by code_simp

text \<open>Storing a value in a cache that is full removes exactly one entry, one that was used least recently or
  least often as the policy says, and adds the new one; the value is found until it expires.\<close>

theorem MemoryCache_Set_full:
  assumes "cache_inv c" and "permutes ord" and "mc_data c \<noteq> []" and "int (length (mc_data c)) \<ge> maxSize c" and "key \<noteq> []"
  shows "\<exists>victim e. is_victim c victim \<and> ce_value e = v \<and>
      map_of (mc_data (MemoryCache_Set ord t key v ttl c)) = (map_of (mc_data c))(victim := None, key \<mapsto> e) \<and>
      snd (MemoryCache_Get t' key (MemoryCache_Set ord t key v ttl c)) = (if ttl \<le> 0 \<or> fst t' \<le> fst t + ttl then Some v else None)"
proof -
  let ?e = "\<lparr>ce_value = v, expiration = (if ttl > 0 then Some (fst t + ttl) else None), lastAccess = snd t, hits = 0\<rparr>"
  have m: "map_of (mc_data (MemoryCache_Set ord t key v ttl c)) = (map_of (mc_data c))(keyToDelete ord c := None, key \<mapsto> ?e)"
    using assms(4) evict_spec(1) [OF assms(1-3)] by (simp add: MemoryCache_Set_room make_room_def gomap_simps)
  then have "snd (MemoryCache_Get t' key (MemoryCache_Set ord t key v ttl c)) = (if ttl \<le> 0 \<or> fst t' \<le> fst t + ttl then Some v else None)"
    by (auto simp: MemoryCache_Get_def live_def)
  with m keyToDelete_victim [OF assms(1-3)] show ?thesis
    by (intro exI [of _ "keyToDelete ord c"] exI [of _ ?e]) simp
qed

definition one_entry :: MemoryCache where
  "one_entry = MemoryCache_Set id (1, 2) ''a'' (GInt 1) 0 (NewMemoryCache 1 EvictLFU)"

theorem MemoryCache_Set_full_witness:
  "\<exists>victim e. is_victim one_entry victim \<and> ce_value e = GInt 2 \<and>
     map_of (mc_data (MemoryCache_Set id (3, 4) ''b'' (GInt 2) 10 one_entry)) = (map_of (mc_data one_entry))(victim := None, ''b'' \<mapsto> e) \<and>
     snd (MemoryCache_Get (20, 20) ''b'' (MemoryCache_Set id (3, 4) ''b'' (GInt 2) 10 one_entry)) = None"
proof -
  have "cache_inv one_entry" "mc_data one_entry \<noteq> []" "int (length (mc_data one_entry)) \<ge> maxSize one_entry"
    by (simp_all add: one_entry_def NewMemoryCache_def MemoryCache_Set_def evict_def cache_inv_def)
  then show ?thesis
    using MemoryCache_Set_full [of one_entry id "''b''" "GInt 2" "(3, 4)" 10 "(20, 20)"] by (simp add: permutes_def)
qed

section \<open>An executor with a cache computes what the function computes\<close>

text \<open>What the executor relies on: a cache answers only with what was stored under the key and not replaced since;
  it may forget at any time. \<open>contents\<close> is what it may answer.\<close>

locale output_cache =
  fixes get :: "clock \<Rightarrow> string \<Rightarrow> 'c \<Rightarrow> 'c \<times> goval option" and put :: "clock \<Rightarrow> string \<Rightarrow> goval \<Rightarrow> int \<Rightarrow> 'c \<Rightarrow> 'c"
    and contents :: "'c \<Rightarrow> string \<Rightarrow> goval option"
  assumes get_sound: "snd (get t k c) = Some v \<Longrightarrow> contents c k = Some v"
    and get_keeps: "contents (fst (get t k c)) = contents c"
    and put_sound: "contents (put t k v ttl c) \<subseteq>\<^sub>m (contents c)(k \<mapsto> v)"
begin

text \<open>Every answer is right for every call with that key.\<close>

definition right :: "(string \<Rightarrow> goval \<Rightarrow> string) \<Rightarrow> (string \<times> goval) set \<Rightarrow> (string \<Rightarrow> goval \<Rightarrow> gerror + goval) \<Rightarrow> 'c \<Rightarrow> bool" where
  "right key calls f c \<longleftrightarrow> (\<forall>(n, i) \<in> calls. \<forall>v. contents c (key n i) = Some v \<longrightarrow> f n i = Inr v)"

lemma Execute_right:
  assumes "right (cache_key env policy) calls f c" and "(n, i) \<in> calls"
    and "\<And>n' i'. (n', i') \<in> calls \<Longrightarrow> cache_key env policy n' i' = cache_key env policy n i \<Longrightarrow> f n' i' = f n i"
  shows "snd (CachedExecutor_Execute get put env policy t t' n i (f n) c) = f n i \<and>
    right (cache_key env policy) calls f (fst (CachedExecutor_Execute get put env policy t t' n i (f n) c))"
proof -
  let ?k = "cache_key env policy n i"
  obtain c1 r where g: "get t ?k c = (c1, r)"
    by force
  have c1: "right (cache_key env policy) calls f c1"
    using assms(1) get_keeps [of t ?k c] by (simp add: g right_def)
  show ?thesis
  proof (cases r)
    case (Some v)
    then have "f n i = Inr v"
      using get_sound [of t ?k c v] assms(1,2) by (auto simp: g right_def)
    with c1 Some show ?thesis
      by (simp add: CachedExecutor_Execute_def g)
  next
    case None
    show ?thesis
    proof (cases "f n i")
      case (Inr v)
      have "right (cache_key env policy) calls f (put t' ?k v (policy_ttl policy) c1)"
        unfolding right_def
      proof clarify
        fix n' i' w
        assume call: "(n', i') \<in> calls" and "contents (put t' ?k v (policy_ttl policy) c1) (cache_key env policy n' i') = Some w"
        then have "((contents c1)(?k \<mapsto> v)) (cache_key env policy n' i') = Some w"
          using put_sound [of t' ?k v "policy_ttl policy" c1] by (auto simp: map_le_def dom_def)
        then show "f n' i' = Inr w"
          using c1 call assms(3) [OF call] Inr by (auto simp: right_def split: if_splits)
      qed
      with None Inr show ?thesis
        by (simp add: CachedExecutor_Execute_def g)
    qed (use None c1 in \<open>simp add: CachedExecutor_Execute_def g\<close>)
  qed
qed

end

definition cached_values :: "MemoryCache \<Rightarrow> string \<Rightarrow> goval option" where
  "cached_values c k = map_option ce_value (map_of (mc_data c) k)"

interpretation mem_cache: output_cache MemoryCache_Get "MemoryCache_Set ord" cached_values for ord
proof
  show "snd (MemoryCache_Get t k c) = Some v \<Longrightarrow> cached_values c k = Some v" for t k c v
    by (auto simp: MemoryCache_Get_def cached_values_def split: option.splits if_splits)
  show "cached_values (fst (MemoryCache_Get t k c)) = cached_values c" for t k c
    by (auto simp: MemoryCache_Get_def cached_values_def gomap_simps fun_eq_iff split: option.split)
  show "cached_values (MemoryCache_Set ord t k v ttl c) \<subseteq>\<^sub>m (cached_values c)(k \<mapsto> v)" for ord t k v ttl c
    by (auto simp: MemoryCache_Set_def evict_def cached_values_def gomap_simps map_le_def Let_def)
qed

interpretation noop_cache: output_cache NoopCache_Get NoopCache_Set "\<lambda>_ _. None"
  by unfold_locales (simp_all add: NoopCache_Get_def NoopCache_Set_def)

text \<open>A sequence of calls through an executor: the clock readings, the node and the input of each.\<close>

fun execute_all ::
  "walk \<Rightarrow> cache_env \<Rightarrow> CachePolicy option \<Rightarrow> (string \<Rightarrow> goval \<Rightarrow> gerror + goval) \<Rightarrow> (clock \<times> clock \<times> string \<times> goval) list \<Rightarrow> MemoryCache
     \<Rightarrow> (gerror + goval) list" where
  "execute_all ord env policy f [] c = []"
| "execute_all ord env policy f ((t, t', n, i) # calls) c =
     (let (c', r) = CachedExecutor_Execute MemoryCache_Get (MemoryCache_Set ord) env policy t t' n i (f n) c
      in r # execute_all ord env policy f calls c')"

text \<open>C35: calls that go through a cache in memory return what the function returns for them, errors included,
  whatever the size, policy, times and lifetimes, provided that calls with the same key have the same result.\<close>

theorem cached_calls_transparent:
  assumes "\<forall>(t, t', n, i) \<in> set calls. \<forall>(s, s', m, j) \<in> set calls.
      cache_key env policy n i = cache_key env policy m j \<longrightarrow> f n i = f m j"
  shows "execute_all ord env policy f calls (NewMemoryCache size0 pol) = map (\<lambda>(t, t', n, i). f n i) calls"
proof -
  define all_calls where "all_calls = (\<lambda>(t, t', n, i). (n, i)) ` set calls"
  have step: "execute_all ord env policy f cs c = map (\<lambda>(t, t', n, i). f n i) cs"
    if "set cs \<subseteq> set calls" and "mem_cache.right (cache_key env policy) all_calls f c" for cs c
    using that
  proof (induction cs arbitrary: c)
    case (Cons call cs)
    obtain t t' n i where call: "call = (t, t', n, i)"
      by (cases call)
    have mem: "(t, t', n, i) \<in> set calls"
      using Cons.prems(1) by (simp add: call)
    then have all: "(n, i) \<in> all_calls"
      by (force simp: all_calls_def)
    have same: "f n' i' = f n i" if other: "(n', i') \<in> all_calls" and key: "cache_key env policy n' i' = cache_key env policy n i" for n' i'
    proof -
      obtain s s' where "(s, s', n', i') \<in> set calls"
        using other by (auto simp: all_calls_def)
      with assms mem key show ?thesis
        by fastforce
    qed
    have "snd (CachedExecutor_Execute MemoryCache_Get (MemoryCache_Set ord) env policy t t' n i (f n) c) = f n i"
      "mem_cache.right (cache_key env policy) all_calls f
         (fst (CachedExecutor_Execute MemoryCache_Get (MemoryCache_Set ord) env policy t t' n i (f n) c))"
      using mem_cache.Execute_right [OF Cons.prems(2) all same, of ord t t'] by simp_all
    with Cons show ?case
      by (simp add: call split_beta Let_def)
  qed simp
  have "mem_cache.right (cache_key env policy) all_calls f (NewMemoryCache size0 pol)"
    by (simp add: mem_cache.right_def cached_values_def NewMemoryCache_def)
  with step [of calls] show ?thesis
    by simp
qed

definition sample_env :: cache_env where
  "sample_env = \<lparr>ca_enc = (\<lambda>v. case v of GStr s \<Rightarrow> Some s | _ \<Rightarrow> None), ca_sha = id, ca_ty = (\<lambda>_. ''T'')\<rparr>"

theorem cached_calls_transparent_witness:
  "execute_all id sample_env None (\<lambda>n i. Inr (GList [i])) [((1, 1), (2, 2), ''n'', GStr ''a''), ((3, 3), (4, 4), ''n'', GStr ''a'')]
     (NewMemoryCache 2 EvictLRU) = [Inr (GList [GStr ''a'']), Inr (GList [GStr ''a''])]"
  using cached_calls_transparent [of "[((1, 1), (2, 2), ''n'', GStr ''a''), ((3, 3), (4, 4), ''n'', GStr ''a'')]" sample_env None
      "\<lambda>n i. Inr (GList [i])" id 2 EvictLRU]
  by simp

text \<open>Inputs that have no JSON form share the key of their type, so that a node called with two of them gets the
  first result twice.\<close>

theorem unencodable_inputs_collide:
  assumes "ca_enc env a = None" and "ca_enc env b = None" and "ca_ty env a = ca_ty env b"
  shows "execute_all ord env None (\<lambda>n i. Inr i) [((1, 1), (1, 1), node, a), ((1, 1), (1, 1), node, b)] (NewMemoryCache 1 pol) =
    [Inr a, Inr a]"
  using assms
  by (simp add: CachedExecutor_Execute_def cache_key_def GenerateCacheKey_def MemoryCache_Get_def MemoryCache_Set_def
      NewMemoryCache_def evict_def live_def policy_ttl_def)

section \<open>The cache with workers\<close>

text \<open>
  Operations are sent to a channel of a thousand places and carried out by workers, each as a whole but in no
  particular order once two workers have taken one each. An answer goes to the channel of the call, here numbered.
  A caller whose context is done before there is room answers itself.
\<close>

datatype asyncCacheOp = AGetOp clock string | ASetOp clock string goval int | ADeleteOp string

datatype CacheResult = CacheValue "goval option" | CacheDone | CacheError gerror

record AsyncMemoryCache =
  am_cache :: MemoryCache
  workerCh :: "(nat \<times> asyncCacheOp) list"
  taken :: "(nat \<times> asyncCacheOp) list"
  replies :: "(nat \<times> CacheResult) list"

definition NewAsyncMemoryCache :: "int \<Rightarrow> EvictionPolicy \<Rightarrow> AsyncMemoryCache" where
  "NewAsyncMemoryCache n policy = \<lparr>am_cache = NewMemoryCache n policy, workerCh = [], taken = [], replies = []\<rparr>"

fun processOp :: "walk \<Rightarrow> asyncCacheOp \<Rightarrow> MemoryCache \<Rightarrow> MemoryCache \<times> CacheResult" where
  "processOp ord (AGetOp t key) c = (let (c', v) = MemoryCache_Get t key c in (c', CacheValue v))"
| "processOp ord (ASetOp t key v ttl) c = (MemoryCache_Set ord t key v ttl c, CacheDone)"
| "processOp ord (ADeleteOp key) c = (MemoryCache_Delete key c, CacheDone)"

inductive cache_step :: "walk \<Rightarrow> nat \<Rightarrow> AsyncMemoryCache \<Rightarrow> AsyncMemoryCache \<Rightarrow> bool" for ord and numWorkers where
  send: "length (workerCh c) < 1000 \<Longrightarrow> call \<notin> fst ` set (workerCh c @ taken c) \<union> fst ` set (replies c) \<Longrightarrow>
    cache_step ord numWorkers c (c\<lparr>workerCh := workerCh c @ [(call, op)]\<rparr>)"
| give_up: "call \<notin> fst ` set (workerCh c @ taken c) \<union> fst ` set (replies c) \<Longrightarrow>
    cache_step ord numWorkers c (c\<lparr>replies := replies c @ [(call, CacheError CancelledError)]\<rparr>)"
| take: "workerCh c = (call, op) # ops \<Longrightarrow> length (taken c) < numWorkers \<Longrightarrow>
    cache_step ord numWorkers c (c\<lparr>workerCh := ops, taken := taken c @ [(call, op)]\<rparr>)"
| process: "taken c = xs @ (call, op) # ys \<Longrightarrow> processOp ord op (am_cache c) = (mc, r) \<Longrightarrow>
    cache_step ord numWorkers c (c\<lparr>taken := xs @ ys, am_cache := mc, replies := replies c @ [(call, r)]\<rparr>)"

inductive_cases cache_stepE: "cache_step ord n c c'"

lemma async_step_inv:
  assumes "cache_step ord numWorkers c c'"
    and "distinct (map fst (workerCh c @ taken c) @ map fst (replies c))" and "length (workerCh c) \<le> 1000" and "length (taken c) \<le> numWorkers"
  shows "distinct (map fst (workerCh c' @ taken c') @ map fst (replies c')) \<and> length (workerCh c') \<le> 1000 \<and> length (taken c') \<le> numWorkers"
  using assms by (cases rule: cache_step.cases) (auto simp: image_Un)

text \<open>Every call that was accepted is waiting, in the hands of one of the workers, or answered, and answered once.\<close>

theorem async_cache_answers_once:
  assumes "(cache_step ord numWorkers)\<^sup>*\<^sup>* (NewAsyncMemoryCache n policy) c"
  shows "distinct (map fst (workerCh c @ taken c) @ map fst (replies c)) \<and> length (workerCh c) \<le> 1000 \<and> length (taken c) \<le> numWorkers"
  using assms
proof (induction rule: rtranclp_induct)
  case (step c c')
  then show ?case
    using async_step_inv by blast
qed (simp add: NewAsyncMemoryCache_def)

end
