(* ===== verification/AsyncPool.thy ===== *)
theory AsyncPool
  imports GraphErrors
begin

text \<open>
  The asynchronous executor and what surrounds it (\<^verbatim>\<open>pregel/async.go\<close>): tasks that wait for a worker slot, the
  pipeline with its bounded channels of events, the limiter of single nodes, and the executor of prioritised tasks.

  A task is one goroutine; its steps are the transitions of the relation \<open>task_step\<close>, whose interleaving is open.
  The goroutine ends by the deferred calls in reverse order: give back the slot, leave the table of active tasks,
  close the channel of the result. That channel has room for one result, so sending never blocks. The tasks are
  numbered in the order of their start, which stands for their random ids.
\<close>

section \<open>The executor\<close>

datatype phase = Waiting | Acquired | Running | Sent | Released | Unregistered | Closed

record asyncTask =
  at_phase :: phase
  at_slot :: bool
  at_cancelled :: bool
  at_active :: bool
  at_result :: "(gerror + goval) option"

record AsyncExecutor =
  ax_maxConcurrency :: nat
  workerPool :: nat
  ax_tasks :: "asyncTask list"

definition NewAsyncExecutor :: "int \<Rightarrow> AsyncExecutor" where
  "NewAsyncExecutor maxConcurrency =
     (let n = (if maxConcurrency \<le> 0 then 10 else nat maxConcurrency)
      in \<lparr>ax_maxConcurrency = n, workerPool = n, ax_tasks = []\<rparr>)"

text \<open>Starting a task; its context may be done already.\<close>

definition AsyncExecutor_Execute :: "bool \<Rightarrow> AsyncExecutor \<Rightarrow> AsyncExecutor" where
  "AsyncExecutor_Execute cancelled e =
     e\<lparr>ax_tasks := ax_tasks e @
        [\<lparr>at_phase = Waiting, at_slot = False, at_cancelled = cancelled, at_active = True, at_result = None\<rparr>]\<rparr>"

definition AsyncExecutor_Cancel :: "AsyncExecutor \<Rightarrow> AsyncExecutor" where
  "AsyncExecutor_Cancel e =
     e\<lparr>ax_tasks := map (\<lambda>t. if at_active t then t\<lparr>at_cancelled := True, at_active := False\<rparr> else t) (ax_tasks e)\<rparr>"

definition GetActiveTaskCount :: "AsyncExecutor \<Rightarrow> nat" where
  "GetActiveTaskCount e = length (filter at_active (ax_tasks e))"

text \<open>One look of \<^verbatim>\<open>Wait\<close> at the ticker: it returns when no task is active.\<close>

definition Wait_returns :: "AsyncExecutor \<Rightarrow> bool" where
  "Wait_returns e = (GetActiveTaskCount e = 0)"

definition put_task :: "nat \<Rightarrow> asyncTask \<Rightarrow> AsyncExecutor \<Rightarrow> AsyncExecutor" where
  "put_task i t e = e\<lparr>ax_tasks := (ax_tasks e)[i := t]\<rparr>"

abbreviation in_phase :: "AsyncExecutor \<Rightarrow> nat \<Rightarrow> phase \<Rightarrow> asyncTask \<Rightarrow> bool" where
  "in_phase e i p t \<equiv> i < length (ax_tasks e) \<and> ax_tasks e ! i = t \<and> at_phase t = p"

text \<open>The steps of the goroutines. A task counts as running from its last look at the cancellation, under the mutex: that and the call
  of its function are one step.\<close>

inductive task_step :: "AsyncExecutor \<Rightarrow> AsyncExecutor \<Rightarrow> bool" where
  acquire: "in_phase e i Waiting t \<Longrightarrow> workerPool e > 0 \<Longrightarrow>
    task_step e (put_task i (t\<lparr>at_phase := Acquired, at_slot := True\<rparr>) (e\<lparr>workerPool := workerPool e - 1\<rparr>))"
| refuse: "in_phase e i Waiting t \<Longrightarrow> at_cancelled t \<Longrightarrow>
    task_step e (put_task i (t\<lparr>at_phase := Sent, at_result := Some (Inl CancelledError)\<rparr>) e)"
| check_ok: "in_phase e i Acquired t \<Longrightarrow> \<not> at_cancelled t \<Longrightarrow> task_step e (put_task i (t\<lparr>at_phase := Running\<rparr>) e)"
| check_cancelled: "in_phase e i Acquired t \<Longrightarrow> at_cancelled t \<Longrightarrow>
    task_step e (put_task i (t\<lparr>at_phase := Sent, at_result := Some (Inl CancelledError)\<rparr>) e)"
| finish: "in_phase e i Running t \<Longrightarrow> task_step e (put_task i (t\<lparr>at_phase := Sent, at_result := Some r\<rparr>) e)"
| release: "in_phase e i Sent t \<Longrightarrow> at_slot t \<Longrightarrow> workerPool e < ax_maxConcurrency e \<Longrightarrow>
    task_step e (put_task i (t\<lparr>at_phase := Released, at_slot := False\<rparr>) (e\<lparr>workerPool := workerPool e + 1\<rparr>))"
| no_release: "in_phase e i Sent t \<Longrightarrow> \<not> at_slot t \<Longrightarrow> task_step e (put_task i (t\<lparr>at_phase := Released\<rparr>) e)"
| unregister: "in_phase e i Released t \<Longrightarrow> task_step e (put_task i (t\<lparr>at_phase := Unregistered, at_active := False\<rparr>) e)"
| close_result: "in_phase e i Unregistered t \<Longrightarrow> task_step e (put_task i (t\<lparr>at_phase := Closed\<rparr>) e)"

text \<open>All that can happen to an executor: a step of a task, a call of \<^verbatim>\<open>Execute\<close> or \<^verbatim>\<open>Cancel\<close>, and the end of the
  context that a task was started with.\<close>

inductive pool_step :: "AsyncExecutor \<Rightarrow> AsyncExecutor \<Rightarrow> bool" where
  of_task: "task_step e e' \<Longrightarrow> pool_step e e'"
| start: "pool_step e (AsyncExecutor_Execute cancelled e)"
| cancel_all: "pool_step e (AsyncExecutor_Cancel e)"
| context_done: "i < length (ax_tasks e) \<Longrightarrow> pool_step e (put_task i ((ax_tasks e ! i)\<lparr>at_cancelled := True\<rparr>) e)"

inductive_cases task_stepE: "task_step e e'"

section \<open>Slots and results\<close>

definition slots_held :: "AsyncExecutor \<Rightarrow> nat" where
  "slots_held e = sum_list (map (\<lambda>t. of_bool (at_slot t)) (ax_tasks e))"

text \<open>The phases in which a task holds its slot and has a result.\<close>

definition task_ok :: "asyncTask \<Rightarrow> bool" where
  "task_ok t \<longleftrightarrow>
     (at_phase t \<in> {Acquired, Running} \<longrightarrow> at_slot t) \<and> (at_slot t \<longrightarrow> at_phase t \<in> {Acquired, Running, Sent}) \<and>
     (at_result t = None \<longleftrightarrow> at_phase t \<in> {Waiting, Acquired, Running})"

definition pool_inv :: "AsyncExecutor \<Rightarrow> bool" where
  "pool_inv e \<longleftrightarrow> workerPool e + slots_held e = ax_maxConcurrency e \<and> list_all task_ok (ax_tasks e)"

lemma sum_list_map_update:
  fixes f :: "'a \<Rightarrow> nat"
  shows "i < length xs \<Longrightarrow> sum_list (map f (xs[i := x])) + f (xs ! i) = sum_list (map f xs) + f x"
proof -
  assume i: "i < length xs"
  have "sum_list (map f xs) \<ge> f (xs ! i)"
    using i by (intro member_le_sum_list) auto
  then show ?thesis
    using i by (simp add: map_update sum_list_update)
qed

lemma slots_put:
  "i < length (ax_tasks e) \<Longrightarrow>
     slots_held (put_task i t e) + of_bool (at_slot (ax_tasks e ! i)) = slots_held e + of_bool (at_slot t)"
  using sum_list_map_update [of i "ax_tasks e" "\<lambda>t. of_bool (at_slot t)" t] by (simp add: slots_held_def put_task_def)

lemma put_task_fields [simp]:
  "workerPool (put_task i t e) = workerPool e" "ax_maxConcurrency (put_task i t e) = ax_maxConcurrency e"
  "ax_tasks (put_task i t e) = (ax_tasks e)[i := t]" "slots_held (e\<lparr>workerPool := n\<rparr>) = slots_held e"
  by (simp_all add: put_task_def slots_held_def)

lemma put_task_inv:
  assumes "pool_inv e" and "i < length (ax_tasks e)" and "task_ok t"
    and "n + of_bool (at_slot t) = workerPool e + of_bool (at_slot (ax_tasks e ! i))"
  shows "pool_inv (put_task i t (e\<lparr>workerPool := n\<rparr>))"
proof -
  have "slots_held (put_task i t (e\<lparr>workerPool := n\<rparr>)) + of_bool (at_slot (ax_tasks e ! i)) = slots_held e + of_bool (at_slot t)"
    using slots_put [of i "e\<lparr>workerPool := n\<rparr>" t] assms(2) by simp
  moreover have "list_all task_ok ((ax_tasks e)[i := t])"
    using assms(1,3) by (auto simp: pool_inv_def list_all_iff dest!: set_update_subset_insert [THEN subsetD])
  ultimately show ?thesis
    using assms by (simp add: pool_inv_def)
qed

lemma put_task_inv_same:
  assumes "pool_inv e" and "i < length (ax_tasks e)" and "task_ok t" and "at_slot t = at_slot (ax_tasks e ! i)"
  shows "pool_inv (put_task i t e)"
  using put_task_inv [OF assms(1-3), of "workerPool e"] assms(4) by simp

lemma task_ok_nth: "pool_inv e \<Longrightarrow> i < length (ax_tasks e) \<Longrightarrow> task_ok (ax_tasks e ! i)"
  by (simp add: pool_inv_def list_all_length)

lemma task_step_inv:
  assumes "task_step e e'" and "pool_inv e"
  shows "pool_inv e'"
  using assms
proof (cases rule: task_step.cases)
  case (acquire i t)
  with task_ok_nth [OF assms(2), of i] show ?thesis
    by (auto simp: task_ok_def intro!: put_task_inv assms(2))
next
  case (release i t)
  with task_ok_nth [OF assms(2), of i] show ?thesis
    by (auto simp: task_ok_def intro!: put_task_inv assms(2))
qed (use task_ok_nth [OF assms(2)] in \<open>force simp: task_ok_def intro!: put_task_inv_same assms(2)\<close>)+

lemma pool_step_inv:
  assumes "pool_step e e'" and "pool_inv e"
  shows "pool_inv e'"
  using assms
proof (cases rule: pool_step.cases)
  case of_task
  then show ?thesis
    using task_step_inv assms(2) by blast
next
  case (start cancelled)
  with assms(2) show ?thesis
    by (simp add: AsyncExecutor_Execute_def pool_inv_def slots_held_def task_ok_def)
next
  case cancel_all
  have "slots_held (AsyncExecutor_Cancel e) = slots_held e"
    unfolding slots_held_def AsyncExecutor_Cancel_def by (auto intro!: arg_cong [of _ _ sum_list])
  with cancel_all assms(2) show ?thesis
    by (auto simp: AsyncExecutor_Cancel_def pool_inv_def list_all_iff task_ok_def)
next
  case (context_done i)
  with task_ok_nth [OF assms(2), of i] show ?thesis
    by (auto simp: task_ok_def intro!: put_task_inv_same assms(2))
qed

lemma pool_step_max: "pool_step e e' \<Longrightarrow> ax_maxConcurrency e' = ax_maxConcurrency e"
  by (induction rule: pool_step.induct)
     (auto simp: AsyncExecutor_Execute_def AsyncExecutor_Cancel_def elim!: task_stepE)

lemma pool_reachable:
  assumes "pool_step\<^sup>*\<^sup>* (NewAsyncExecutor m) e"
  shows "pool_inv e \<and> ax_maxConcurrency e = (if m \<le> 0 then 10 else nat m)"
  using assms
proof (induction rule: rtranclp_induct)
  case (step e e')
  then show ?case
    using pool_step_inv pool_step_max by simp
qed (simp add: NewAsyncExecutor_def Let_def pool_inv_def slots_held_def)

text \<open>What happens to one task in a step: its result is never changed, and it does not start once cancelled.\<close>

definition task_kept :: "asyncTask \<Rightarrow> asyncTask \<Rightarrow> bool" where
  "task_kept t t' \<longleftrightarrow>
     (at_result t \<noteq> None \<longrightarrow> at_result t' = at_result t) \<and> (at_cancelled t \<longrightarrow> at_cancelled t') \<and>
     (at_phase t \<noteq> Waiting \<longrightarrow> at_phase t' \<noteq> Waiting) \<and>
     (at_cancelled t \<and> at_phase t \<noteq> Running \<longrightarrow> at_phase t' \<noteq> Running)"

lemma pool_step_kept:
  assumes "pool_step e e'" and "pool_inv e" and "i < length (ax_tasks e)"
  shows "i < length (ax_tasks e') \<and> task_kept (ax_tasks e ! i) (ax_tasks e' ! i)"
  using assms(1)
proof (cases rule: pool_step.cases)
  case of_task
  then show ?thesis
    using assms(3) task_ok_nth [OF assms(2)]
    by (cases rule: task_step.cases) (auto simp: task_kept_def task_ok_def nth_list_update)
qed (use assms(3) in \<open>auto simp: task_kept_def AsyncExecutor_Execute_def AsyncExecutor_Cancel_def nth_append nth_list_update\<close>)

lemma task_kept_trans: "task_kept t t' \<Longrightarrow> task_kept t' t'' \<Longrightarrow> task_kept t t''"
  by (auto simp: task_kept_def)

lemma pool_steps_kept:
  assumes "pool_step\<^sup>*\<^sup>* e e'" and "pool_inv e" and "i < length (ax_tasks e)"
  shows "pool_inv e' \<and> i < length (ax_tasks e') \<and> task_kept (ax_tasks e ! i) (ax_tasks e' ! i)"
  using assms(1)
proof (induction rule: rtranclp_induct)
  case base
  show ?case
    using assms(2,3) by (simp add: task_kept_def)
next
  case (step e' e'')
  then show ?case
    using pool_step_inv pool_step_kept [of e' e'' i] task_kept_trans by blast
qed

lemma running_slots: "pool_inv e \<Longrightarrow> length (filter (\<lambda>t. at_phase t = Running) (ax_tasks e)) \<le> slots_held e"
proof -
  have "list_all task_ok ts \<Longrightarrow>
      length (filter (\<lambda>t. at_phase t = Running) ts) \<le> sum_list (map (\<lambda>t. of_bool (at_slot t)) ts)" for ts
    by (induction ts) (auto simp: task_ok_def)
  then show "pool_inv e \<Longrightarrow> ?thesis"
    by (simp add: pool_inv_def slots_held_def)
qed

text \<open>C11: whatever the order in which tasks are started, cancelled and scheduled, never more of them run than the
  executor was made for; a result that was sent stays the result of the task; and a task that was cancelled before
  it ran never runs.\<close>

theorem pool_limit_respected:
  assumes "pool_step\<^sup>*\<^sup>* (NewAsyncExecutor m) e" and "pool_step\<^sup>*\<^sup>* e e'"
  shows "length (filter (\<lambda>t. at_phase t = Running) (ax_tasks e)) \<le> (if m \<le> 0 then 10 else nat m) \<and>
    (\<forall>i < length (ax_tasks e).
       (at_result (ax_tasks e ! i) \<noteq> None \<longrightarrow> at_result (ax_tasks e' ! i) = at_result (ax_tasks e ! i)) \<and>
       (at_cancelled (ax_tasks e ! i) \<and> at_phase (ax_tasks e ! i) \<noteq> Running \<longrightarrow> at_phase (ax_tasks e' ! i) \<noteq> Running))"
  using pool_reachable [OF assms(1)] running_slots [of e] pool_steps_kept [OF assms(2)]
  by (auto simp: pool_inv_def task_kept_def)

definition running_task :: asyncTask where
  "running_task = \<lparr>at_phase = Running, at_slot = True, at_cancelled = False, at_active = True, at_result = None\<rparr>"

definition one_running :: AsyncExecutor where
  "one_running = \<lparr>ax_maxConcurrency = 1, workerPool = 0, ax_tasks = [running_task]\<rparr>"

lemma one_running_reachable: "pool_step\<^sup>*\<^sup>* (NewAsyncExecutor 1) one_running"
proof -
  let ?e = "AsyncExecutor_Execute False (NewAsyncExecutor 1)"
  let ?w = "ax_tasks ?e ! 0"
  let ?e1 = "put_task 0 (?w\<lparr>at_phase := Acquired, at_slot := True\<rparr>) (?e\<lparr>workerPool := workerPool ?e - 1\<rparr>)"
  have "pool_step (NewAsyncExecutor 1) ?e"
    by (rule pool_step.start)
  moreover have "task_step ?e ?e1"
    by (rule task_step.acquire) (simp_all add: AsyncExecutor_Execute_def NewAsyncExecutor_def)
  moreover have "task_step ?e1 (put_task 0 ((ax_tasks ?e1 ! 0)\<lparr>at_phase := Running\<rparr>) ?e1)"
    by (rule task_step.check_ok) (simp_all add: AsyncExecutor_Execute_def NewAsyncExecutor_def)
  moreover have "put_task 0 ((ax_tasks ?e1 ! 0)\<lparr>at_phase := Running\<rparr>) ?e1 = one_running"
    by (simp add: AsyncExecutor_Execute_def NewAsyncExecutor_def put_task_def one_running_def running_task_def)
  ultimately show ?thesis
    by (metis (no_types, lifting) pool_step.of_task rtranclp.simps)
qed

theorem pool_limit_respected_witness:
  "length (filter (\<lambda>t. at_phase t = Running) (ax_tasks one_running)) \<le> 1 \<and> at_phase (ax_tasks one_running ! 0) = Running"
  using pool_limit_respected [OF one_running_reachable rtranclp.rtrancl_refl]
  by (simp add: one_running_def running_task_def)

section \<open>The executor drains\<close>

text \<open>The steps a task has still to make.\<close>

fun steps_left :: "phase \<Rightarrow> nat" where
  "steps_left Waiting = 6"
| "steps_left Acquired = 5"
| "steps_left Running = 4"
| "steps_left Sent = 3"
| "steps_left Released = 2"
| "steps_left Unregistered = 1"
| "steps_left Closed = 0"

definition pool_measure :: "AsyncExecutor \<Rightarrow> nat" where
  "pool_measure e = sum_list (map (\<lambda>t. steps_left (at_phase t)) (ax_tasks e))"

lemma pool_measure_put:
  assumes "i < length (ax_tasks e)" and "steps_left (at_phase t) < steps_left (at_phase (ax_tasks e ! i))"
  shows "pool_measure (put_task i t e) < pool_measure e" and "pool_measure (put_task i t (e\<lparr>workerPool := n\<rparr>)) < pool_measure e"
  using sum_list_map_update [of i "ax_tasks e" "\<lambda>t. steps_left (at_phase t)" t] assms
  by (simp_all add: pool_measure_def put_task_def)

lemma task_step_decreases: "task_step e e' \<Longrightarrow> pool_measure e' < pool_measure e"
  by (induction rule: task_step.induct) (auto intro!: pool_measure_put)

lemma task_steps_bounded: "(task_step ^^ n) e e' \<Longrightarrow> n + pool_measure e' \<le> pool_measure e"
proof (induction n arbitrary: e')
  case (Suc n)
  then obtain e1 where "(task_step ^^ n) e e1" "task_step e1 e'"
    by auto
  with Suc.IH [of e1] task_step_decreases [of e1 e'] show ?case
    by simp
qed simp

lemma pool_measure_bound: "pool_measure e \<le> 6 * length (ax_tasks e)"
proof -
  have "steps_left p \<le> 6" for p
    by (cases p) simp_all
  then have "sum_list (map (\<lambda>t. steps_left (at_phase t)) ts) \<le> 6 * length ts" for ts
    by (induction ts) (auto intro: add_mono)
  then show ?thesis
    by (simp add: pool_measure_def)
qed

text \<open>While a task is not closed, some task can move: one that has its slot or its result always can, and if all
  wait, all slots are free.\<close>

lemma no_slot_held: "\<forall>t \<in> set (ax_tasks e). \<not> at_slot t \<Longrightarrow> slots_held e = 0"
  by (simp add: slots_held_def)

lemma slot_held: "t \<in> set (ax_tasks e) \<Longrightarrow> at_slot t \<Longrightarrow> slots_held e \<ge> 1"
  unfolding slots_held_def by (rule order_trans [OF _ member_le_sum_list]) auto

lemma task_can_move:
  assumes "pool_inv e" and "i < length (ax_tasks e)" and "at_phase (ax_tasks e ! i) \<notin> {Waiting, Closed}"
  shows "\<exists>e'. task_step e e'"
proof (cases "at_phase (ax_tasks e ! i)")
  case Sent
  show ?thesis
  proof (cases "at_slot (ax_tasks e ! i)")
    case True
    then have "workerPool e < ax_maxConcurrency e"
      using slot_held [of "ax_tasks e ! i" e] assms(1,2) by (simp add: pool_inv_def)
    with Sent True assms(2) show ?thesis
      using task_step.release by blast
  qed (use Sent assms(2) task_step.no_release in blast)
qed (use assms in \<open>blast intro: task_step.intros\<close>)+

lemma pool_progress:
  assumes "pool_inv e" and "ax_maxConcurrency e > 0" and "t \<in> set (ax_tasks e)" and "at_phase t \<noteq> Closed"
  shows "\<exists>e'. task_step e e'"
proof (cases "\<exists>i < length (ax_tasks e). at_phase (ax_tasks e ! i) \<notin> {Waiting, Closed}")
  case True
  then show ?thesis
    using task_can_move [OF assms(1)] by blast
next
  case False
  then have "\<forall>u \<in> set (ax_tasks e). at_phase u \<in> {Waiting, Closed}"
    by (auto simp: in_set_conv_nth)
  then have "\<forall>u \<in> set (ax_tasks e). \<not> at_slot u"
    using assms(1) by (fastforce simp: pool_inv_def list_all_iff task_ok_def)
  then have "workerPool e > 0"
    using no_slot_held [of e] assms(1,2) by (simp add: pool_inv_def)
  moreover obtain i where "i < length (ax_tasks e)" "ax_tasks e ! i = t"
    using assms(3) by (auto simp: in_set_conv_nth)
  ultimately show ?thesis
    using \<open>\<forall>u \<in> set (ax_tasks e). at_phase u \<in> {Waiting, Closed}\<close> assms(3,4) task_step.acquire by blast
qed

lemma task_steps_pool: "task_step\<^sup>*\<^sup>* e e' \<Longrightarrow> pool_step\<^sup>*\<^sup>* e e'"
  by (rule mono_rtranclp [rule_format, of task_step pool_step]) (rule pool_step.of_task)

text \<open>C34: from every state that an executor can reach, the tasks make at most six steps each, and where they can
  make no more, every task has closed its channel and left one result in it: no task is stuck and no slot is lost.\<close>

theorem pool_drains:
  assumes "pool_step\<^sup>*\<^sup>* (NewAsyncExecutor m) e"
  shows "(\<forall>n e'. (task_step ^^ n) e e' \<longrightarrow> n \<le> 6 * length (ax_tasks e)) \<and>
    (\<forall>e'. task_step\<^sup>*\<^sup>* e e' \<and> (\<nexists>e''. task_step e' e'') \<longrightarrow>
       workerPool e' = ax_maxConcurrency e' \<and> (\<forall>t \<in> set (ax_tasks e'). at_phase t = Closed \<and> at_result t \<noteq> None))"
proof (intro conjI allI impI)
  fix n e'
  assume "(task_step ^^ n) e e'"
  then show "n \<le> 6 * length (ax_tasks e)"
    using task_steps_bounded pool_measure_bound [of e] by (meson add_leE order_trans)
next
  fix e'
  assume "task_step\<^sup>*\<^sup>* e e' \<and> (\<nexists>e''. task_step e' e'')"
  then have "pool_step\<^sup>*\<^sup>* (NewAsyncExecutor m) e'" and stuck: "\<nexists>e''. task_step e' e''"
    using task_steps_pool assms by (auto intro: rtranclp_trans)
  from pool_reachable [OF this(1)] have inv: "pool_inv e'" "ax_maxConcurrency e' > 0"
    by auto
  with stuck have closed: "\<forall>t \<in> set (ax_tasks e'). at_phase t = Closed"
    using pool_progress by blast
  with inv have "\<forall>t \<in> set (ax_tasks e'). \<not> at_slot t \<and> at_result t \<noteq> None"
    by (auto simp: pool_inv_def list_all_iff task_ok_def)
  then show "workerPool e' = ax_maxConcurrency e'" "\<forall>t \<in> set (ax_tasks e'). at_phase t = Closed \<and> at_result t \<noteq> None"
    using closed inv no_slot_held [of e'] by (auto simp: pool_inv_def)
qed

definition one_closed :: AsyncExecutor where
  "one_closed = \<lparr>ax_maxConcurrency = 1, workerPool = 1,
     ax_tasks = [\<lparr>at_phase = Closed, at_slot = False, at_cancelled = False, at_active = False, at_result = Some (Inr GNil)\<rparr>]\<rparr>"

lemma one_running_closes: "task_step\<^sup>*\<^sup>* one_running one_closed"
proof -
  let ?e1 = "put_task 0 (running_task\<lparr>at_phase := Sent, at_result := Some (Inr GNil)\<rparr>) one_running"
  let ?e2 = "put_task 0 ((ax_tasks ?e1 ! 0)\<lparr>at_phase := Released, at_slot := False\<rparr>) (?e1\<lparr>workerPool := workerPool ?e1 + 1\<rparr>)"
  let ?e3 = "put_task 0 ((ax_tasks ?e2 ! 0)\<lparr>at_phase := Unregistered, at_active := False\<rparr>) ?e2"
  note d = one_running_def running_task_def put_task_def
  have "task_step one_running ?e1"
    by (rule task_step.finish) (simp add: d)
  moreover have "task_step ?e1 ?e2"
    by (rule task_step.release) (simp_all add: d)
  moreover have "task_step ?e2 ?e3"
    by (rule task_step.unregister) (simp add: d)
  moreover have "task_step ?e3 (put_task 0 ((ax_tasks ?e3 ! 0)\<lparr>at_phase := Closed\<rparr>) ?e3)"
    by (rule task_step.close_result) (simp add: d)
  moreover have "put_task 0 ((ax_tasks ?e3 ! 0)\<lparr>at_phase := Closed\<rparr>) ?e3 = one_closed"
    by (simp add: d one_closed_def)
  ultimately show ?thesis
    by (metis (no_types, lifting) rtranclp.simps)
qed

theorem pool_drains_witness:
  "task_step\<^sup>*\<^sup>* one_running one_closed \<and> (\<nexists>e. task_step one_closed e) \<and>
     workerPool one_closed = 1 \<and> at_result (ax_tasks one_closed ! 0) \<noteq> None"
proof -
  have "\<nexists>e. task_step one_closed e"
    by (auto simp: one_closed_def elim!: task_stepE)
  moreover have "workerPool one_closed = ax_maxConcurrency one_closed \<and>
      (\<forall>t \<in> set (ax_tasks one_closed). at_phase t = Closed \<and> at_result t \<noteq> None)"
    using pool_drains [OF one_running_reachable] one_running_closes calculation by blast
  ultimately show ?thesis
    using one_running_closes by (simp add: one_closed_def)
qed

text \<open>After \<^verbatim>\<open>Cancel\<close> the table of active tasks is empty at once: \<^verbatim>\<open>Wait\<close> returns although the task still runs.\<close>

theorem Wait_after_Cancel_returns_early:
  "\<exists>e. pool_step\<^sup>*\<^sup>* (NewAsyncExecutor 1) e \<and> Wait_returns e \<and> at_phase (ax_tasks e ! 0) = Running"
proof (intro exI conjI)
  show "pool_step\<^sup>*\<^sup>* (NewAsyncExecutor 1) (AsyncExecutor_Cancel one_running)"
    using one_running_reachable pool_step.cancel_all by (rule rtranclp.rtrancl_into_rtrancl)
qed (simp_all add: AsyncExecutor_Cancel_def Wait_returns_def GetActiveTaskCount_def one_running_def running_task_def)

section \<open>The limiter of nodes\<close>

text \<open>For each limited node the capacity of its channel and the tokens in it. Making a channel of negative size
  panics. \<^verbatim>\<open>Acquire\<close> blocks where there is no token and the context is not done.\<close>

record ConcurrencyLimiter =
  limits :: "(nat \<times> nat) gomap"

definition NewConcurrencyLimiter :: ConcurrencyLimiter where
  "NewConcurrencyLimiter = \<lparr>limits = []\<rparr>"

definition SetLimit :: "string \<Rightarrow> int \<Rightarrow> ConcurrencyLimiter \<Rightarrow> (gerror, ConcurrencyLimiter, unit) outcome" where
  "SetLimit node limit l =
     (if limit < 0 then (l, Inl (PanicError ''makechan: size out of range''))
      else (l\<lparr>limits := gm_set node (nat limit, nat limit) (limits l)\<rparr>, Inr ()))"

datatype acquire_result = Acquired_slot | Context_done | Blocked

definition Limiter_Acquire :: "bool \<Rightarrow> string \<Rightarrow> ConcurrencyLimiter \<Rightarrow> (ConcurrencyLimiter \<times> acquire_result) set" where
  "Limiter_Acquire ctx_done node l =
     (case map_of (limits l) node of
        None \<Rightarrow> {(l, Acquired_slot)}
      | Some (cap, n) \<Rightarrow>
          (if n > 0 then {(l\<lparr>limits := gm_set node (cap, n - 1) (limits l)\<rparr>, Acquired_slot)} else {}) \<union>
          (if ctx_done then {(l, Context_done)} else {}) \<union>
          (if n = 0 \<and> \<not> ctx_done then {(l, Blocked)} else {}))"

definition Limiter_Release :: "string \<Rightarrow> ConcurrencyLimiter \<Rightarrow> ConcurrencyLimiter" where
  "Limiter_Release node l =
     (case map_of (limits l) node of
        None \<Rightarrow> l
      | Some (cap, n) \<Rightarrow> if n < cap then l\<lparr>limits := gm_set node (cap, n + 1) (limits l)\<rparr> else l)"

definition limiter_ok :: "ConcurrencyLimiter \<Rightarrow> bool" where
  "limiter_ok l \<longleftrightarrow> (\<forall>node cap n. map_of (limits l) node = Some (cap, n) \<longrightarrow> n \<le> cap)"

lemma limiter_ok_ops:
  assumes "limiter_ok l"
  shows "limiter_ok (fst (SetLimit node limit l))" and "limiter_ok (Limiter_Release node l)"
    and "(l', r) \<in> Limiter_Acquire d node l \<Longrightarrow> limiter_ok l'"
  using assms unfolding limiter_ok_def SetLimit_def Limiter_Release_def Limiter_Acquire_def
  by (auto simp: gomap_simps split: option.splits if_splits) (metis Suc_pred diff_le_self le_trans)+

text \<open>A slot that was taken and given back leaves the tokens as they were.\<close>

lemma acquire_release:
  assumes "limiter_ok l" and "(l', Acquired_slot) \<in> Limiter_Acquire d node l"
  shows "map_of (limits (Limiter_Release node l')) = map_of (limits l)"
proof (cases "map_of (limits l) node")
  case (Some cn)
  obtain cap n where cn: "cn = (cap, n)"
    by force
  then have "n \<le> cap"
    using assms(1) Some by (simp add: limiter_ok_def)
  with assms(2) Some cn show ?thesis
    by (auto simp: Limiter_Acquire_def Limiter_Release_def gomap_simps fun_eq_iff split: if_splits)
qed (use assms(2) in \<open>simp add: Limiter_Acquire_def Limiter_Release_def\<close>)

text \<open>Setting the limit again fills the channel, whatever slots are taken: with a limit of one, two callers get in.\<close>

theorem SetLimit_forgets_holders:
  assumes "(l1, Acquired_slot) \<in> Limiter_Acquire False node (fst (SetLimit node 1 l))"
  shows "\<exists>l2. (l2, Acquired_slot) \<in> Limiter_Acquire False node (fst (SetLimit node 1 l1))"
  by (simp add: SetLimit_def Limiter_Acquire_def gomap_simps)

section \<open>The pipeline\<close>

text \<open>The channels of events and errors, with their capacities of 100 and 10, and whether they are closed. Sending on
  a closed channel would panic. A stopped pipeline cancels its executor.\<close>

record AsyncPipeline =
  ap_executor :: AsyncExecutor
  ap_events :: "goval list"
  ap_errors :: "gerror list"
  ap_closed :: bool
  ap_running :: bool

definition NewAsyncPipeline :: "int \<Rightarrow> AsyncPipeline" where
  "NewAsyncPipeline maxConcurrency =
     \<lparr>ap_executor = NewAsyncExecutor maxConcurrency, ap_events = [], ap_errors = [], ap_closed = False, ap_running = False\<rparr>"

definition Pipeline_Start :: "AsyncPipeline \<Rightarrow> AsyncPipeline" where
  "Pipeline_Start p =
     (if ap_running p then p else p\<lparr>ap_events := [], ap_errors := [], ap_closed := False, ap_running := True\<rparr>)"

definition Pipeline_Stop :: "AsyncPipeline \<Rightarrow> AsyncPipeline" where
  "Pipeline_Stop p =
     (if \<not> ap_running p then p
      else p\<lparr>ap_executor := AsyncExecutor_Cancel (ap_executor p), ap_closed := True, ap_running := False\<rparr>)"

text \<open>A non-blocking send: dropped when the channel is full, a panic when it is closed.\<close>

definition try_send :: "bool \<Rightarrow> nat \<Rightarrow> 'a \<Rightarrow> 'a list \<Rightarrow> gerror + 'a list" where
  "try_send cl cap x xs =
     (if cl then Inl (PanicError ''send on closed channel'') else Inr (if length xs < cap then xs @ [x] else xs))"

definition EmitEvent :: "goval \<Rightarrow> AsyncPipeline \<Rightarrow> gerror + AsyncPipeline" where
  "EmitEvent ev p =
     (if ap_running p then map_sum id (\<lambda>evs. p\<lparr>ap_events := evs\<rparr>) (try_send (ap_closed p) 100 ev (ap_events p)) else Inr p)"

definition EmitError :: "gerror \<Rightarrow> AsyncPipeline \<Rightarrow> gerror + AsyncPipeline" where
  "EmitError err p =
     (if ap_running p then map_sum id (\<lambda>es. p\<lparr>ap_errors := es\<rparr>) (try_send (ap_closed p) 10 err (ap_errors p)) else Inr p)"

definition ExecuteNode :: "bool \<Rightarrow> AsyncPipeline \<Rightarrow> AsyncPipeline" where
  "ExecuteNode cancelled p = p\<lparr>ap_executor := AsyncExecutor_Execute cancelled (ap_executor p)\<rparr>"

definition receive_event :: "AsyncPipeline \<Rightarrow> AsyncPipeline \<times> goval option" where
  "receive_event p = (case ap_events p of [] \<Rightarrow> (p, None) | ev # evs \<Rightarrow> (p\<lparr>ap_events := evs\<rparr>, Some ev))"

datatype pipeline_op = StartOp | StopOp | EventOp goval | ErrorOp gerror | NodeOp bool | ReceiveOp

fun pipeline_do :: "pipeline_op \<Rightarrow> AsyncPipeline \<Rightarrow> gerror + AsyncPipeline" where
  "pipeline_do StartOp p = Inr (Pipeline_Start p)"
| "pipeline_do StopOp p = Inr (Pipeline_Stop p)"
| "pipeline_do (EventOp ev) p = EmitEvent ev p"
| "pipeline_do (ErrorOp e) p = EmitError e p"
| "pipeline_do (NodeOp b) p = Inr (ExecuteNode b p)"
| "pipeline_do ReceiveOp p = Inr (fst (receive_event p))"

definition pipeline_ok :: "AsyncPipeline \<Rightarrow> bool" where
  "pipeline_ok p \<longleftrightarrow> (ap_running p \<longrightarrow> \<not> ap_closed p) \<and> length (ap_events p) \<le> 100 \<and> length (ap_errors p) \<le> 10"

fun pipeline_run :: "pipeline_op list \<Rightarrow> AsyncPipeline \<Rightarrow> gerror + AsyncPipeline" where
  "pipeline_run [] p = Inr p"
| "pipeline_run (op # ops) p = (case pipeline_do op p of Inl e \<Rightarrow> Inl e | Inr p' \<Rightarrow> pipeline_run ops p')"

lemma pipeline_do_ok: "pipeline_ok p \<Longrightarrow> \<exists>p'. pipeline_do op p = Inr p' \<and> pipeline_ok p'"
  by (cases op)
     (auto simp: pipeline_ok_def Pipeline_Start_def Pipeline_Stop_def EmitEvent_def EmitError_def try_send_def ExecuteNode_def
       receive_event_def split: list.split)

text \<open>No sequence of calls sends on a closed channel, and the channels stay within their capacities.\<close>

theorem pipeline_never_panics:
  "\<exists>p. pipeline_run ops (NewAsyncPipeline m) = Inr p \<and> pipeline_ok p"
proof -
  have "pipeline_ok p \<Longrightarrow> \<exists>p'. pipeline_run ops p = Inr p' \<and> pipeline_ok p'" for p
  proof (induction ops arbitrary: p)
    case (Cons op ops)
    then show ?case
      using pipeline_do_ok [of p op] by auto
  qed simp
  moreover have "pipeline_ok (NewAsyncPipeline m)"
    by (simp add: pipeline_ok_def NewAsyncPipeline_def)
  ultimately show ?thesis
    by blast
qed

section \<open>The executor of prioritised tasks\<close>

record PriorityTask =
  pt_Func :: "gerror + goval"
  pt_Priority :: int

definition Submit :: "nat \<Rightarrow> PriorityTask \<Rightarrow> PriorityTask list \<Rightarrow> (gerror, PriorityTask list, unit) outcome" where
  "Submit bufferSize t q = (if length q < bufferSize then (q @ [t], Inr ()) else (q, Inl (PlainError ''task queue full'' [])))"

text \<open>The loop of \<^verbatim>\<open>Execute\<close> until the channel is empty: what it sends, with the priority of the task.\<close>

fun PriorityExecutor_Execute :: "PriorityTask list \<Rightarrow> ((gerror + goval) \<times> int) list" where
  "PriorityExecutor_Execute [] = []"
| "PriorityExecutor_Execute (t # q) = (pt_Func t, pt_Priority t) # PriorityExecutor_Execute q"

text \<open>The tasks run in the order of their submission; priorities have no influence.\<close>

theorem priorities_ignored: "map snd (PriorityExecutor_Execute q) = map pt_Priority q"
  by (induction q) simp_all

end
