(* ===== verification/Store.thy ===== *)
theory Store
  imports GraphErrors
begin

text \<open>
  The store in memory (\<^verbatim>\<open>store/memory.go\<close>): values under a namespace and a key, with times to live. Namespaces
  are kept under their parts joined by a bar, times to live under that and the key joined by a colon. Each call
  holds the lock of the store, so calls are single steps; \<open>now\<close> is the clock at the call. Lower case and regular
  expressions are the arguments \<open>lower\<close> and \<open>re\<close>, and \<open>peq\<close> compares structs and pointers. The vector indexes and
  the search by embedding are left out.
\<close>

section \<open>The store and its keys\<close>

record InMemoryStore =
  st_data :: "gostate gomap gomap"
  st_ttl :: "int gomap"
  st_closed :: bool

definition NewInMemoryStore :: InMemoryStore where
  "NewInMemoryStore = \<lparr>st_data = [], st_ttl = [], st_closed = False\<rparr>"

definition nsKey :: "string list \<Rightarrow> string" where
  "nsKey namespace = join_with ''|'' namespace"

definition fullKey :: "string \<Rightarrow> string \<Rightarrow> string" where
  "fullKey ns key = ns @ '':'' @ key"

definition checkTTL :: "int \<Rightarrow> InMemoryStore \<Rightarrow> string \<Rightarrow> bool" where
  "checkTTL now s fk = (case map_of (st_ttl s) fk of None \<Rightarrow> True | Some expiry \<Rightarrow> now < expiry)"

definition copyValue :: "gostate \<Rightarrow> gostate" where
  "copyValue v = gm_copy_into v []"

definition store_closed :: gerror where
  "store_closed = StoreError ''store is closed''"

section \<open>Single values\<close>

text \<open>The lookup that \<^verbatim>\<open>Get\<close>, \<^verbatim>\<open>GetItem\<close> and \<^verbatim>\<open>Batch\<close> share.\<close>

definition lookup_value :: "int \<Rightarrow> InMemoryStore \<Rightarrow> string list \<Rightarrow> string \<Rightarrow> gostate option" where
  "lookup_value now s namespace key =
     (case map_of (st_data s) (nsKey namespace) of
        None \<Rightarrow> None
      | Some nsData \<Rightarrow>
          if \<not> checkTTL now s (fullKey (nsKey namespace) key) then None
          else map_option copyValue (map_of nsData key))"

definition Store_Get :: "int \<Rightarrow> InMemoryStore \<Rightarrow> string list \<Rightarrow> string \<Rightarrow> gerror + gostate option" where
  "Store_Get now s namespace key = (if st_closed s then Inl store_closed else Inr (lookup_value now s namespace key))"

definition put_value :: "string list \<Rightarrow> string \<Rightarrow> gostate \<Rightarrow> InMemoryStore \<Rightarrow> InMemoryStore" where
  "put_value namespace key v s =
     (let ns = nsKey namespace; nsData = (case map_of (st_data s) ns of None \<Rightarrow> [] | Some d \<Rightarrow> d)
      in s\<lparr>st_data := gm_set ns (gm_set key (copyValue v) nsData) (st_data s)\<rparr>)"

definition Store_Put :: "string list \<Rightarrow> string \<Rightarrow> gostate \<Rightarrow> InMemoryStore \<Rightarrow> (gerror, InMemoryStore, unit) outcome" where
  "Store_Put namespace key v s = (if st_closed s then (s, Inl store_closed) else (put_value namespace key v s, Inr ()))"

definition Store_Delete :: "string list \<Rightarrow> string \<Rightarrow> InMemoryStore \<Rightarrow> (gerror, InMemoryStore, unit) outcome" where
  "Store_Delete namespace key s =
     (if st_closed s then (s, Inl store_closed)
      else (case map_of (st_data s) (nsKey namespace) of
              None \<Rightarrow> (s, Inr ())
            | Some nsData \<Rightarrow>
                (s\<lparr>st_data := gm_set (nsKey namespace) (gm_delete key nsData) (st_data s),
                   st_ttl := gm_delete (fullKey (nsKey namespace) key) (st_ttl s)\<rparr>, Inr ())))"

definition SetTTL :: "int \<Rightarrow> string list \<Rightarrow> string \<Rightarrow> int \<Rightarrow> InMemoryStore \<Rightarrow> (gerror, InMemoryStore, unit) outcome" where
  "SetTTL now namespace key ttl s =
     (if st_closed s then (s, Inl store_closed)
      else if ttl \<le> 0 then (s, Inr ())
      else (s\<lparr>st_ttl := gm_set (fullKey (nsKey namespace) key) (now + ttl) (st_ttl s)\<rparr>, Inr ()))"

text \<open>\<^verbatim>\<open>PutItem\<close>, without the vector index; a time to live that is given is stored whatever its sign.\<close>

definition put_item :: "int \<Rightarrow> string list \<Rightarrow> string \<Rightarrow> gostate \<Rightarrow> int option \<Rightarrow> InMemoryStore \<Rightarrow> InMemoryStore" where
  "put_item now namespace key v ttl s =
     (let s1 = put_value namespace key v s
      in (case ttl of
            None \<Rightarrow> s1
          | Some d \<Rightarrow> s1\<lparr>st_ttl := gm_set (fullKey (nsKey namespace) key) (now + d) (st_ttl s1)\<rparr>))"

definition PutItem ::
  "int \<Rightarrow> string list \<Rightarrow> string \<Rightarrow> gostate \<Rightarrow> int option \<Rightarrow> InMemoryStore \<Rightarrow> (gerror, InMemoryStore, unit) outcome" where
  "PutItem now namespace key v ttl s =
     (if st_closed s then (s, Inl store_closed) else (put_item now namespace key v ttl s, Inr ()))"

record Item =
  it_Value :: gostate
  it_Key :: string
  it_Namespace :: "string list"
  it_CreatedAt :: int
  it_UpdatedAt :: int
  it_ExpiresAt :: "int option"

definition make_item :: "int \<Rightarrow> InMemoryStore \<Rightarrow> string list \<Rightarrow> string \<Rightarrow> gostate \<Rightarrow> Item" where
  "make_item now s namespace key v =
     \<lparr>it_Value = v, it_Key = key, it_Namespace = namespace, it_CreatedAt = now, it_UpdatedAt = now,
      it_ExpiresAt = map_of (st_ttl s) (fullKey (nsKey namespace) key)\<rparr>"

definition GetItem :: "int \<Rightarrow> InMemoryStore \<Rightarrow> string list \<Rightarrow> string \<Rightarrow> gerror + Item option" where
  "GetItem now s namespace key =
     (if st_closed s then Inl store_closed
      else Inr (map_option (make_item now s namespace key) (lookup_value now s namespace key)))"

definition BatchPut :: "(string list \<times> string \<times> gostate) list \<Rightarrow> InMemoryStore \<Rightarrow> (gerror, InMemoryStore, unit) outcome" where
  "BatchPut ops s =
     (if st_closed s then (s, Inl store_closed) else (fold (\<lambda>(ns, k, v) s. put_value ns k v s) ops s, Inr ()))"

definition Store_Clear :: "InMemoryStore \<Rightarrow> InMemoryStore" where
  "Store_Clear s = s\<lparr>st_data := [], st_ttl := []\<rparr>"

definition Store_Close :: "InMemoryStore \<Rightarrow> InMemoryStore" where
  "Store_Close s = s\<lparr>st_closed := True\<rparr>"

text \<open>The sweep of expired entries: the full key is taken apart at its colons, and only where there is one colon is
  the value removed.\<close>

definition sweep_entry :: "string \<Rightarrow> InMemoryStore \<Rightarrow> InMemoryStore" where
  "sweep_entry fk s =
     (let s1 = (case split_on (CHR '':'') fk of
                  [ns, key] \<Rightarrow>
                    (case map_of (st_data s) ns of
                       None \<Rightarrow> s
                     | Some nsData \<Rightarrow>
                         (let d = gm_delete key nsData
                          in s\<lparr>st_data := (if d = [] then gm_delete ns (st_data s) else gm_set ns d (st_data s))\<rparr>))
                | _ \<Rightarrow> s)
      in s1\<lparr>st_ttl := gm_delete fk (st_ttl s1)\<rparr>)"

definition cleanupExpired :: "int \<Rightarrow> InMemoryStore \<Rightarrow> InMemoryStore" where
  "cleanupExpired now s = fold (\<lambda>(fk, expiry) s. if now > expiry then sweep_entry fk s else s) (st_ttl s) s"

section \<open>Queries and filters\<close>

definition contains :: "string \<Rightarrow> string \<Rightarrow> bool" where
  "contains s sub = list_ex (\<lambda>i. take (length sub) (drop i s) = sub) [0..<Suc (length s)]"

definition matchQuery :: "(string \<Rightarrow> string) \<Rightarrow> gostate \<Rightarrow> string \<Rightarrow> bool" where
  "matchQuery lower v query =
     list_ex (\<lambda>(k, x). case x of GStr s \<Rightarrow> contains (lower s) (lower query) | _ \<Rightarrow> False) v"

text \<open>Go's \<^verbatim>\<open>==\<close> on interface values: a panic for two slices or two maps of the same type.\<close>

definition uncomparable_type :: "goval \<Rightarrow> string option" where
  "uncomparable_type v =
     (case v of
        GBytes _ \<Rightarrow> Some ''[]byte'' | GList _ \<Rightarrow> Some ''[]interface{}'' | GSlice t _ \<Rightarrow> Some (''[]'' @ t)
      | GMap _ \<Rightarrow> Some ''map[string]interface{}'' | GBoolMap _ \<Rightarrow> Some ''map[string]bool''
      | GIntMap _ \<Rightarrow> Some ''map[string]int'' | GIntMapMap _ \<Rightarrow> Some ''map[string]map[string]int'' | _ \<Rightarrow> None)"

definition by_identity :: "goval \<Rightarrow> bool" where
  "by_identity v = (case v of GOverwrite _ \<Rightarrow> True | GGetter _ \<Rightarrow> True | GStruct _ _ \<Rightarrow> True | GPtr _ \<Rightarrow> True | _ \<Rightarrow> False)"

definition go_equal :: "(goval \<Rightarrow> goval \<Rightarrow> bool) \<Rightarrow> goval \<Rightarrow> goval \<Rightarrow> gerror + bool" where
  "go_equal peq a b =
     (if uncomparable_type a \<noteq> None \<and> uncomparable_type a = uncomparable_type b
      then Inl (PanicError ''comparing uncomparable type'')
      else if by_identity a then Inr (peq a b)
      else Inr (a = b \<and> a \<noteq> GFloat F64_NaN))"

fun f64_less :: "f64 \<Rightarrow> f64 \<Rightarrow> bool" where
  "f64_less F64_NaN _ = False"
| "f64_less _ F64_NaN = False"
| "f64_less F64_NegInf y = (y \<noteq> F64_NegInf)"
| "f64_less _ F64_NegInf = False"
| "f64_less F64_PosInf _ = False"
| "f64_less _ F64_PosInf = True"
| "f64_less (F64 a) (F64 b) = (a < b)"

definition lessThan :: "goval \<Rightarrow> goval \<Rightarrow> bool" where
  "lessThan a b =
     (case a of
        GInt x \<Rightarrow> (case b of GInt y \<Rightarrow> sint x < sint y | _ \<Rightarrow> False)
      | GNum k x \<Rightarrow> (case b of GNum l y \<Rightarrow> k = Int64 \<and> l = Int64 \<and> sint x < sint y | _ \<Rightarrow> False)
      | GFloat x \<Rightarrow> (case b of GFloat y \<Rightarrow> f64_less x y | _ \<Rightarrow> False)
      | GStr x \<Rightarrow> (case b of GStr y \<Rightarrow> x < y | _ \<Rightarrow> False)
      | _ \<Rightarrow> False)"

definition greaterThan :: "goval \<Rightarrow> goval \<Rightarrow> bool" where
  "greaterThan a b = lessThan b a"

fun in_list :: "(goval \<Rightarrow> goval \<Rightarrow> bool) \<Rightarrow> goval \<Rightarrow> goval list \<Rightarrow> gerror + bool" where
  "in_list peq v [] = Inr False"
| "in_list peq v (x # xs) = (case go_equal peq v x of Inl e \<Rightarrow> Inl e | Inr True \<Rightarrow> Inr True | Inr False \<Rightarrow> in_list peq v xs)"

definition inArray :: "(goval \<Rightarrow> goval \<Rightarrow> bool) \<Rightarrow> goval \<Rightarrow> goval \<Rightarrow> gerror + bool" where
  "inArray peq v arr = (case arr of GList xs \<Rightarrow> in_list peq v xs | _ \<Rightarrow> Inr False)"

definition regexMatch :: "(string \<Rightarrow> string \<Rightarrow> bool option) \<Rightarrow> goval \<Rightarrow> goval \<Rightarrow> bool" where
  "regexMatch re v pat =
     (case (v, pat) of (GStr s, GStr p) \<Rightarrow> (case re p s of None \<Rightarrow> False | Some b \<Rightarrow> b) | _ \<Rightarrow> False)"

record store_env =
  se_lower :: "string \<Rightarrow> string"
  se_re :: "string \<Rightarrow> string \<Rightarrow> bool option"
  se_peq :: "goval \<Rightarrow> goval \<Rightarrow> bool"

definition compare :: "store_env \<Rightarrow> goval \<Rightarrow> string \<Rightarrow> goval \<Rightarrow> gerror + bool" where
  "compare env v op x =
     (let eq = go_equal (se_peq env) v x
      in if op = ''$eq'' then eq
         else if op = ''$ne'' then map_sum id Not eq
         else if op = ''$gt'' then Inr (greaterThan v x)
         else if op = ''$gte'' then (if greaterThan v x then Inr True else eq)
         else if op = ''$lt'' then Inr (lessThan v x)
         else if op = ''$lte'' then (if lessThan v x then Inr True else eq)
         else if op = ''$in'' then inArray (se_peq env) v x
         else if op = ''$nin'' then map_sum id Not (inArray (se_peq env) v x)
         else if op = ''$regex'' then Inr (regexMatch (se_re env) v x)
         else Inr False)"

text \<open>All conditions in turn, until one fails or panics.\<close>

fun all_hold :: "('a \<Rightarrow> gerror + bool) \<Rightarrow> 'a list \<Rightarrow> gerror + bool" where
  "all_hold p [] = Inr True"
| "all_hold p (x # xs) = (case p x of Inl e \<Rightarrow> Inl e | Inr False \<Rightarrow> Inr False | Inr True \<Rightarrow> all_hold p xs)"

definition matchFilter :: "store_env \<Rightarrow> gostate \<Rightarrow> gostate \<Rightarrow> gerror + bool" where
  "matchFilter env v filt =
     all_hold (\<lambda>(field, cond).
       case map_of v field of
         None \<Rightarrow> Inr False
       | Some x \<Rightarrow>
           (case cond of
              GMap m \<Rightarrow> all_hold (\<lambda>(op, y). compare env x op y) m
            | _ \<Rightarrow> compare env x ''$eq'' cond)) filt"

section \<open>Searching and listing\<close>

text \<open>The loop over the values of a namespace, until the limit is reached: the pairs that satisfy \<open>p\<close>.\<close>

fun collect_values ::
  "int \<Rightarrow> InMemoryStore \<Rightarrow> string \<Rightarrow> (gostate \<Rightarrow> gerror + bool) \<Rightarrow> int \<Rightarrow> gostate gomap \<Rightarrow> (string \<times> gostate) list
     \<Rightarrow> gerror + (string \<times> gostate) list" where
  "collect_values now s ns p limit [] acc = Inr acc"
| "collect_values now s ns p limit ((key, v) # rest) acc =
     (if \<not> checkTTL now s (fullKey ns key) then collect_values now s ns p limit rest acc
      else (case p v of
              Inl e \<Rightarrow> Inl e
            | Inr False \<Rightarrow> collect_values now s ns p limit rest acc
            | Inr True \<Rightarrow>
                let acc' = acc @ [(key, copyValue v)]
                in if limit > 0 \<and> int (length acc') \<ge> limit then Inr acc'
                   else collect_values now s ns p limit rest acc'))"

definition search_in ::
  "int \<Rightarrow> InMemoryStore \<Rightarrow> string list \<Rightarrow> (gostate \<Rightarrow> gerror + bool) \<Rightarrow> int \<Rightarrow> gerror + (string \<times> gostate) list" where
  "search_in now s namespace p limit =
     (case map_of (st_data s) (nsKey namespace) of
        None \<Rightarrow> Inr []
      | Some nsData \<Rightarrow> collect_values now s (nsKey namespace) p limit nsData [])"

definition Store_Search ::
  "store_env \<Rightarrow> int \<Rightarrow> InMemoryStore \<Rightarrow> string list \<Rightarrow> string \<Rightarrow> int \<Rightarrow> gerror + gostate list" where
  "Store_Search env now s namespace query limit =
     (if st_closed s then Inl store_closed
      else map_sum id (map snd)
        (search_in now s namespace (\<lambda>v. Inr (query = [] \<or> matchQuery (se_lower env) v query)) limit))"

definition Store_List :: "int \<Rightarrow> InMemoryStore \<Rightarrow> string list \<Rightarrow> int \<Rightarrow> gerror + string list" where
  "Store_List now s namespace limit =
     (if st_closed s then Inl store_closed else map_sum id (map fst) (search_in now s namespace (\<lambda>_. Inr True) limit))"

text \<open>The conditions of \<^verbatim>\<open>SearchItems\<close> and of the search in a batch; the offset comes after the limit.\<close>

definition item_matches :: "store_env \<Rightarrow> string option \<Rightarrow> gostate option \<Rightarrow> gostate \<Rightarrow> gerror + bool" where
  "item_matches env query filt v =
     (if (case query of None \<Rightarrow> False | Some q \<Rightarrow> q \<noteq> [] \<and> \<not> matchQuery (se_lower env) v q) then Inr False
      else (case filt of None \<Rightarrow> Inr True | Some f \<Rightarrow> matchFilter env v f))"

definition apply_offset :: "int \<Rightarrow> 'a list \<Rightarrow> 'a list" where
  "apply_offset offset xs = (if offset > 0 \<and> offset < int (length xs) then drop (nat offset) xs else xs)"

definition SearchItems ::
  "store_env \<Rightarrow> int \<Rightarrow> InMemoryStore \<Rightarrow> string list \<Rightarrow> string option \<Rightarrow> gostate option \<Rightarrow> int \<Rightarrow> int \<Rightarrow> gerror + Item list" where
  "SearchItems env now s namespace query filt limit offset =
     (if st_closed s then Inl store_closed
      else map_sum id (\<lambda>kvs. apply_offset offset (map (\<lambda>(k, v). make_item now s namespace k v) kvs))
        (search_in now s namespace (item_matches env query filt) limit))"

datatype match_type = MatchPrefix | MatchSuffix | MatchOther

text \<open>The loop over the conditions: the first of a known type decides.\<close>

fun match_conditions :: "string list \<Rightarrow> (match_type \<times> string list) list \<Rightarrow> bool" where
  "match_conditions ns [] = False"
| "match_conditions ns ((MatchPrefix, path) # cs) = (length ns \<ge> length path \<and> take (length path) ns = path)"
| "match_conditions ns ((MatchSuffix, path) # cs) = (length ns \<ge> length path \<and> drop (length ns - length path) ns = path)"
| "match_conditions ns ((MatchOther, path) # cs) = match_conditions ns cs"

definition matchNamespaceConditions :: "string list \<Rightarrow> (match_type \<times> string list) list \<Rightarrow> bool" where
  "matchNamespaceConditions ns cs = (if cs = [] then True else match_conditions ns cs)"

text \<open>The prefixes of all namespaces, each once; \<open>ord\<close> is the order of the map they are kept in.\<close>

definition namespace_set :: "InMemoryStore \<Rightarrow> string list list" where
  "namespace_set s =
     remdups (concat (map (\<lambda>(ns, _). map (\<lambda>i. take i (split_on (CHR ''|'') ns)) [1..<Suc (length (split_on (CHR ''|'') ns))]) (st_data s)))"

definition ListNamespaces ::
  "(string list list \<Rightarrow> string list list) \<Rightarrow> InMemoryStore \<Rightarrow> (match_type \<times> string list) list \<Rightarrow> int option \<Rightarrow> int \<Rightarrow> int
     \<Rightarrow> gerror + string list list" where
  "ListNamespaces ord s conditions maxDepth limit offset =
     (if st_closed s then Inl store_closed
      else let filtered = filter (\<lambda>ns. matchNamespaceConditions ns conditions) (ord (namespace_set s));
               shallow = (case maxDepth of None \<Rightarrow> filtered | Some d \<Rightarrow> filter (\<lambda>ns. int (length ns) \<le> d) filtered)
           in if offset > int (length shallow) then Inl (PanicError ''slice bounds out of range'')
              else let rest = (if offset > 0 then drop (nat offset) shallow else shallow)
                   in Inr (if limit > 0 \<and> limit < int (length rest) then take (nat limit) rest else rest))"

section \<open>Batches\<close>

datatype store_op =
  GetOp "string list" string
| PutOp "string list" string gostate "int option"
| SearchOp "string list" "gostate option" int int "string option"
| ListNamespacesOp "(match_type \<times> string list) list" "int option" int int
| UnknownOp

datatype store_result = NoValue | OneValue gostate | ManyValues "gostate list" | OpError gerror

text \<open>
  A batch holds the lock of the store for writing while \<^verbatim>\<open>ListNamespaces\<close> asks for it again: such a batch never
  returns, \<^const>\<open>None\<close>. A panic in a filter ends it too.
\<close>

fun batch_loop ::
  "store_env \<Rightarrow> int \<Rightarrow> store_op list \<Rightarrow> InMemoryStore \<Rightarrow> store_result list \<Rightarrow> (gerror, InMemoryStore, store_result list) outcome option" where
  "batch_loop env now [] s acc = Some (s, Inr acc)"
| "batch_loop env now (GetOp namespace key # ops) s acc =
     batch_loop env now ops s (acc @ [case lookup_value now s namespace key of None \<Rightarrow> NoValue | Some v \<Rightarrow> OneValue v])"
| "batch_loop env now (PutOp namespace key v ttl # ops) s acc =
     batch_loop env now ops (put_item now namespace key v ttl s) (acc @ [NoValue])"
| "batch_loop env now (SearchOp namespace filt limit offset query # ops) s acc =
     (case map_of (st_data s) (nsKey namespace) of
        None \<Rightarrow> batch_loop env now ops s (acc @ [NoValue])
      | Some _ \<Rightarrow>
          (case search_in now s namespace (item_matches env query filt) limit of
             Inl e \<Rightarrow> Some (s, Inl e)
           | Inr kvs \<Rightarrow> batch_loop env now ops s (acc @ [ManyValues (apply_offset offset (map snd kvs))])))"
| "batch_loop env now (ListNamespacesOp conds depth limit offset # ops) s acc = None"
| "batch_loop env now (UnknownOp # ops) s acc = batch_loop env now ops s (acc @ [OpError (StoreError ''unknown operation type'')])"

definition Batch ::
  "store_env \<Rightarrow> int \<Rightarrow> store_op list \<Rightarrow> InMemoryStore \<Rightarrow> (gerror, InMemoryStore, store_result list) outcome option" where
  "Batch env now ops s = (if st_closed s then Some (s, Inl store_closed) else batch_loop env now ops s [])"

section \<open>The store as a map\<close>

text \<open>What a client relies on: a table under pairs of a namespace and a key in which the last write counts.\<close>

fun last_write :: "('k \<times> 'v option) list \<Rightarrow> 'k \<Rightarrow> 'v option \<Rightarrow> 'v option" where
  "last_write [] j v = v"
| "last_write ((k, w) # ops) j v = last_write ops j (if j = k then w else v)"

locale value_store =
  fixes get :: "'s \<Rightarrow> 'k \<Rightarrow> 'v option" and put :: "'k \<Rightarrow> 'v \<Rightarrow> 's \<Rightarrow> 's" and remove :: "'k \<Rightarrow> 's \<Rightarrow> 's"
    and invar :: "'s \<Rightarrow> bool" and good :: "'k \<Rightarrow> bool" and valid :: "'v \<Rightarrow> bool"
  assumes get_put: "invar s \<Longrightarrow> good k \<Longrightarrow> good j \<Longrightarrow> valid v \<Longrightarrow> get (put k v s) j = (if j = k then Some v else get s j)"
    and get_remove: "invar s \<Longrightarrow> good k \<Longrightarrow> good j \<Longrightarrow> get (remove k s) j = (if j = k then None else get s j)"
    and invar_put: "invar s \<Longrightarrow> invar (put k v s)"
    and invar_remove: "invar s \<Longrightarrow> invar (remove k s)"
begin

text \<open>A sequence of writes: a value to store, or none to remove.\<close>

definition perform :: "'k \<times> 'v option \<Rightarrow> 's \<Rightarrow> 's" where
  "perform kv s = (case snd kv of Some v \<Rightarrow> put (fst kv) v s | None \<Rightarrow> remove (fst kv) s)"

lemma get_writes:
  "invar s \<Longrightarrow> \<forall>(k, w) \<in> set ops. good k \<and> pred_option valid w \<Longrightarrow> good j \<Longrightarrow> get (fold perform ops s) j = last_write ops j (get s j)"
proof (induction ops arbitrary: s)
  case (Cons kv ops)
  obtain k w where kv: "kv = (k, w)"
    by force
  have "invar (perform kv s)"
    using Cons.prems(1) by (auto simp: perform_def invar_put invar_remove split: option.split)
  moreover have "get (perform kv s) j = (if j = k then w else get s j)"
    using Cons.prems by (cases w) (auto simp: kv perform_def get_put get_remove)
  ultimately show ?case
    using Cons.IH [of "perform kv s"] Cons.prems by (simp add: kv)
qed simp

end

text \<open>Names that the joined keys keep apart.\<close>

definition plain_name :: "string list \<times> string \<Rightarrow> bool" where
  "plain_name nk \<longleftrightarrow> fst nk \<noteq> [] \<and> (\<forall>p \<in> set (fst nk). CHR ''|'' \<notin> set p)"

lemma nsKey_inject:
  assumes "plain_name (n, k)" and "plain_name (m, j)"
  shows "nsKey n = nsKey m \<longleftrightarrow> n = m"
proof
  have split: "split_on (CHR ''|'') (nsKey n) = n" if "plain_name (n, k)" for n k
    using that split_join [of n "CHR ''|''"] by (simp add: plain_name_def nsKey_def)
  assume "nsKey n = nsKey m"
  then show "n = m"
    using split [OF assms(1)] split [OF assms(2)] by metis
qed simp

lemma copy_into_append:
  "distinct (map fst v) \<Longrightarrow> fst ` set v \<inter> fst ` set acc = {} \<Longrightarrow> gm_copy_into v acc = acc @ v"
proof (induction v arbitrary: acc)
  case (Cons p v)
  have new: "fst p \<notin> fst ` set acc"
    using Cons.prems(2) by auto
  then have "gm_set (fst p) (snd p) acc = acc @ [p]"
    by (induction acc) auto
  moreover have "gm_copy_into v (acc @ [p]) = (acc @ [p]) @ v"
    using Cons.prems by (intro Cons.IH) auto
  ultimately show ?case
    by (simp add: gm_copy_into_def split_beta)
qed (simp add: gm_copy_into_def)

lemma copyValue_id [simp]: "gm_ok v \<Longrightarrow> copyValue v = v"
  using copy_into_append [of v "[]"] by (simp add: copyValue_def)

text \<open>A store that is open and has no times to live.\<close>

definition plain_store :: "InMemoryStore \<Rightarrow> bool" where
  "plain_store s \<longleftrightarrow> \<not> st_closed s \<and> st_ttl s = []"

abbreviation store_get :: "InMemoryStore \<Rightarrow> string list \<times> string \<Rightarrow> gostate option" where
  "store_get s nk \<equiv> lookup_value 0 s (fst nk) (snd nk)"

abbreviation store_put :: "string list \<times> string \<Rightarrow> gostate \<Rightarrow> InMemoryStore \<Rightarrow> InMemoryStore" where
  "store_put nk v s \<equiv> fst (Store_Put (fst nk) (snd nk) v s)"

abbreviation store_remove :: "string list \<times> string \<Rightarrow> InMemoryStore \<Rightarrow> InMemoryStore" where
  "store_remove nk s \<equiv> fst (Store_Delete (fst nk) (snd nk) s)"

lemma checkTTL_data [simp]: "checkTTL now (s\<lparr>st_data := d\<rparr>) = checkTTL now s"
  by (simp add: checkTTL_def fun_eq_iff)

lemma checkTTL_none [simp]: "st_ttl s = [] \<Longrightarrow> checkTTL now s fk"
  by (simp add: checkTTL_def)

lemma lookup_put:
  "lookup_value now (put_value n k v s) m j =
     (if nsKey m = nsKey n \<and> j = k then if checkTTL now s (fullKey (nsKey n) k) then Some (copyValue (copyValue v)) else None
      else lookup_value now s m j)"
proof (cases "nsKey m = nsKey n")
  case True
  then show ?thesis
    by (cases "map_of (st_data s) (nsKey n)") (simp_all add: put_value_def lookup_value_def gomap_simps Let_def)
next
  case False
  then show ?thesis
    by (simp add: put_value_def lookup_value_def gomap_simps Let_def split: option.split)
qed

lemma lookup_delete:
  assumes "\<not> st_closed s" and "st_ttl s = []"
  shows "lookup_value now (fst (Store_Delete n k s)) m j = (if nsKey m = nsKey n \<and> j = k then None else lookup_value now s m j)"
proof (cases "map_of (st_data s) (nsKey n)")
  case (Some d)
  with assms show ?thesis
    by (cases "nsKey m = nsKey n") (simp_all add: Store_Delete_def lookup_value_def gomap_simps split: option.split)
qed (use assms in \<open>auto simp: Store_Delete_def lookup_value_def\<close>)

interpretation ms: value_store store_get store_put store_remove plain_store plain_name gm_ok
proof
  fix s :: InMemoryStore and k j :: "string list \<times> string" and v :: gostate
  show "plain_store s \<Longrightarrow> plain_store (store_put k v s)" "plain_store s \<Longrightarrow> plain_store (store_remove k s)"
    by (auto simp: plain_store_def Store_Put_def put_value_def Store_Delete_def Let_def split: option.split)
  assume s: "plain_store s" and names: "plain_name k" "plain_name j"
  have inj: "nsKey (fst j) = nsKey (fst k) \<and> snd j = snd k \<longleftrightarrow> j = k"
    using names nsKey_inject [of "fst j" "snd j" "fst k" "snd k"] by (simp add: prod_eq_iff)
  show "store_get (store_remove k s) j = (if j = k then None else store_get s j)"
    using s by (simp add: plain_store_def lookup_delete inj)
  assume "gm_ok v"
  then show "store_get (store_put k v s) j = (if j = k then Some v else store_get s j)"
    using s by (simp add: plain_store_def Store_Put_def lookup_put checkTTL_def inj)
qed

text \<open>A store into which values are only put and from which they are deleted answers like a table in which the
  last operation on a name counts, for names whose namespaces have at least one part and no bar in any.\<close>

theorem store_is_a_table:
  assumes "\<forall>(nk, w) \<in> set ops. plain_name nk \<and> pred_option gm_ok w" and "plain_name (namespace, key)"
  shows "Store_Get now
      (fold (\<lambda>(nk, w) s. case w of Some v \<Rightarrow> fst (Store_Put (fst nk) (snd nk) v s) | None \<Rightarrow> fst (Store_Delete (fst nk) (snd nk) s))
        ops NewInMemoryStore) namespace key =
    Inr (last_write ops (namespace, key) None)"
proof -
  let ?s = "fold ms.perform ops NewInMemoryStore"
  have perform: "ms.perform = (\<lambda>(nk, w) s. case w of Some v \<Rightarrow> fst (Store_Put (fst nk) (snd nk) v s)
      | None \<Rightarrow> fst (Store_Delete (fst nk) (snd nk) s))"
    by (auto simp: ms.perform_def fun_eq_iff split: option.split)
  have new: "plain_store NewInMemoryStore"
    by (simp add: plain_store_def NewInMemoryStore_def)
  have "plain_store (fold ms.perform ops s)" if "plain_store s" for s
    using that
  proof (induction ops arbitrary: s)
    case (Cons kv ops)
    then show ?case
      using ms.invar_put ms.invar_remove by (cases "snd kv") (simp_all add: ms.perform_def)
  qed simp
  with new have s: "\<not> st_closed ?s" "st_ttl ?s = []"
    by (auto simp: plain_store_def)
  have "lookup_value now ?s namespace key = lookup_value 0 ?s namespace key"
    using s by (simp add: lookup_value_def split: option.split)
  also have "\<dots> = last_write ops (namespace, key) (store_get NewInMemoryStore (namespace, key))"
    using ms.get_writes [OF new assms] by simp
  also have "store_get NewInMemoryStore (namespace, key) = None"
    by (simp add: lookup_value_def NewInMemoryStore_def)
  finally show ?thesis
    using s by (simp add: Store_Get_def perform)
qed

theorem store_is_a_table_witness:
  "Store_Get 7 (fst (Store_Put [''u'', ''v''] ''k'' [(''x'', GInt 2)] (fst (Store_Put [''u''] ''k'' [(''x'', GInt 1)] NewInMemoryStore)))) [''u''] ''k'' =
     Inr (Some [(''x'', GInt 1)])"
  using store_is_a_table [of "[(([''u''], ''k''), Some [(''x'', GInt 1)]), (([''u'', ''v''], ''k''), Some [(''x'', GInt 2)])]" "[''u'']" "''k''" 7]
  by (simp add: plain_name_def)

text \<open>Names that are joined to the same key share their value.\<close>

theorem namespaces_collide:
  "Store_Get now (fst (Store_Put [''a|b''] k v (fst (Store_Put [''a'', ''b''] k w NewInMemoryStore)))) [''a'', ''b''] k = Inr (Some (copyValue (copyValue v)))"
proof -
  have "nsKey [''a'', ''b''] = nsKey [''a|b'']"
    by (simp add: nsKey_def)
  then show ?thesis
    by (simp add: Store_Get_def Store_Put_def lookup_put checkTTL_def NewInMemoryStore_def)
      (simp add: put_value_def Let_def)
qed

section \<open>Times to live\<close>

text \<open>A value that is stored again keeps the time to live of the old one.\<close>

theorem Put_keeps_old_ttl:
  assumes "\<not> st_closed s" and "map_of (st_ttl s) (fullKey (nsKey n) k) = Some x" and "x \<le> now"
  shows "Store_Get now (fst (Store_Put n k v s)) n k = Inr None"
proof -
  have "\<not> st_closed (put_value n k v s)"
    using assms(1) by (simp add: put_value_def Let_def)
  then show ?thesis
    using assms by (simp add: Store_Get_def Store_Put_def lookup_put checkTTL_def)
qed

text \<open>The sweep, one entry at a time: it never adds a value, and a name loses its time to live only together with
  its value where the full key has one colon.\<close>

definition gone :: "int \<Rightarrow> InMemoryStore \<Rightarrow> string \<Rightarrow> string \<Rightarrow> bool" where
  "gone now s ns key \<longleftrightarrow>
     (case map_of (st_data s) ns of None \<Rightarrow> True | Some d \<Rightarrow> map_of d key = None) \<or>
     \<not> checkTTL now s (fullKey ns key)"

lemma split_fullKey:
  assumes "CHR '':'' \<notin> set ns" and "CHR '':'' \<notin> set key"
  shows "split_on (CHR '':'') (fullKey ns key) = [ns, key]"
  using split_join [of "[ns, key]" "CHR '':''"] assms by (simp add: fullKey_def)

lemma sweep_entry_gone:
  assumes "CHR '':'' \<notin> set ns" and "CHR '':'' \<notin> set key" and "gone now s ns key"
  shows "gone now (sweep_entry fk s) ns key"
proof (cases "fk = fullKey ns key")
  case True
  then show ?thesis
    using split_fullKey [OF assms(1,2)]
    by (cases "map_of (st_data s) ns") (auto simp: sweep_entry_def gone_def gomap_simps Let_def)
next
  case False
  have ttl: "map_of (st_ttl (sweep_entry fk s)) (fullKey ns key) = map_of (st_ttl s) (fullKey ns key)"
    using False by (auto simp: sweep_entry_def gomap_simps Let_def split: list.split option.split)
  have "(case map_of (st_data (sweep_entry fk s)) ns of None \<Rightarrow> True | Some d \<Rightarrow> map_of d key = None)"
    if "case map_of (st_data s) ns of None \<Rightarrow> True | Some d \<Rightarrow> map_of d key = None"
    using that by (auto simp: sweep_entry_def gomap_simps Let_def split: list.split option.splits)
  with assms(3) ttl show ?thesis
    by (auto simp: gone_def checkTTL_def)
qed

lemma cleanup_gone:
  assumes "CHR '':'' \<notin> set ns" and "CHR '':'' \<notin> set key" and "gone now s ns key"
  shows "gone now (cleanupExpired t s) ns key"
proof -
  have "gone now s ns key \<Longrightarrow> gone now (fold (\<lambda>(fk, x) s. if t > x then sweep_entry fk s else s) m s) ns key" for m
    using sweep_entry_gone [OF assms(1,2)] by (induction m arbitrary: s) auto
  then show ?thesis
    using assms(3) by (simp add: cleanupExpired_def)
qed

lemma sweeps_gone:
  assumes "CHR '':'' \<notin> set ns" and "CHR '':'' \<notin> set key"
  shows "gone now s ns key \<Longrightarrow> gone now (fold cleanupExpired sweeps s) ns key"
  by (induction sweeps arbitrary: s) (simp_all add: cleanup_gone [OF assms])

lemma sweep_closed: "st_closed (sweep_entry fk s) = st_closed s"
  by (simp add: sweep_entry_def Let_def split: list.split option.split)

lemma cleanup_closed: "st_closed (cleanupExpired t s) = st_closed s"
proof -
  have "st_closed (fold (\<lambda>(fk, y) s. if t > y then sweep_entry fk s else s) m s) = st_closed s" for m
  proof (induction m arbitrary: s)
    case (Cons p m)
    then show ?case
      by (cases p) (simp add: sweep_closed)
  qed simp
  then show ?thesis
    by (simp add: cleanupExpired_def)
qed

lemma sweeps_closed: "st_closed (fold cleanupExpired sweeps s) = st_closed s"
  by (induction sweeps arbitrary: s) (simp_all add: cleanup_closed)

text \<open>Once its time to live is over a value is not found any more, however often the sweep runs, as long as
  neither the namespace nor the key has a colon.\<close>

theorem expired_stays_expired:
  assumes "CHR '':'' \<notin> set (nsKey n)" and "CHR '':'' \<notin> set k"
    and "\<not> st_closed s" and "map_of (st_ttl s) (fullKey (nsKey n) k) = Some x" and "x \<le> now"
  shows "Store_Get now (fold cleanupExpired sweeps s) n k = Inr None"
proof -
  have "\<not> st_closed (fold cleanupExpired sweeps s)"
    using assms(3) by (simp add: sweeps_closed)
  moreover have "gone now s (nsKey n) k"
    using assms(4,5) by (simp add: gone_def checkTTL_def)
  then have "gone now (fold cleanupExpired sweeps s) (nsKey n) k"
    by (rule sweeps_gone [OF assms(1,2)])
  ultimately show ?thesis
    by (auto simp: Store_Get_def lookup_value_def gone_def split: option.splits)
qed

theorem expired_stays_expired_witness:
  "Store_Get 20 (fold cleanupExpired [16, 18] (fst (PutItem 5 [''u''] ''k'' [] (Some 10) NewInMemoryStore))) [''u''] ''k'' = Inr None"
  by (rule expired_stays_expired [where x = 15])
     (simp_all add: PutItem_def put_item_def put_value_def NewInMemoryStore_def nsKey_def Let_def)

text \<open>With a colon in the key the sweep forgets the time to live and keeps the value, which is found again.\<close>

theorem sweep_revives_expired:
  "Store_Get 20 (fst (PutItem 5 [''u''] ''a:b'' [] (Some 10) NewInMemoryStore)) [''u''] ''a:b'' = Inr None \<and>
   Store_Get 20 (cleanupExpired 16 (fst (PutItem 5 [''u''] ''a:b'' [] (Some 10) NewInMemoryStore))) [''u''] ''a:b'' = Inr (Some [])"
  by code_simp

text \<open>A batch with a listing of namespaces never returns.\<close>

theorem Batch_listing_blocks:
  "\<not> st_closed s \<Longrightarrow> Batch env now (ListNamespacesOp conds depth limit offset # ops) s = None"
  by (simp add: Batch_def)

text \<open>Only the first condition of a known type counts.\<close>

theorem second_condition_ignored:
  "matchNamespaceConditions ns [(MatchPrefix, p), (MatchSuffix, q)] = matchNamespaceConditions ns [(MatchPrefix, p)]"
  by (simp add: matchNamespaceConditions_def)

end
