(* ===== verification/ChannelIO.thy ===== *)
theory ChannelIO
  imports Registry
begin

text \<open>
  Reading from and writing to channels as operations of their own (\<^verbatim>\<open>pregel/read.go\<close>, \<^verbatim>\<open>pregel/write.go\<close>): selectors and
  transformers of a reader, triggers, entries, transformers and validators of a writer, batches of writes. Readers and
  writers share one registry, which is passed along. The names of types are the argument \<open>ty\<close>.
\<close>

section \<open>Writers\<close>

record ChannelWriteEntry =
  we_Channel :: string
  we_Value :: goval
  we_Overwrite :: bool
  we_Node :: string
  we_Metadata :: gostate

type_synonym WriteTransformer = "ChannelWriteEntry \<Rightarrow> gerror + ChannelWriteEntry"
type_synonym WriteValidator = "ChannelWriteEntry \<Rightarrow> gerror option"

definition IdentityWriteTransformer :: WriteTransformer where
  "IdentityWriteTransformer entry = Inr entry"

definition MappingWriteTransformer :: "string gomap \<Rightarrow> WriteTransformer" where
  "MappingWriteTransformer mappings entry =
     Inr (case map_of mappings (we_Channel entry) of None \<Rightarrow> entry | Some n \<Rightarrow> entry\<lparr>we_Channel := n\<rparr>)"

definition PrefixWriteTransformer :: "string \<Rightarrow> WriteTransformer" where
  "PrefixWriteTransformer prefix entry = Inr (entry\<lparr>we_Channel := prefix @ we_Channel entry\<rparr>)"

text \<open>The metadata are added to the entry that is passed on; where the entry has a metadata map the code adds to that
  very map, so that the caller's entry shows them too, which the model leaves out.\<close>

definition MetadataWriteTransformer :: "gostate \<Rightarrow> WriteTransformer" where
  "MetadataWriteTransformer metadata entry = Inr (entry\<lparr>we_Metadata := gm_copy_into metadata (we_Metadata entry)\<rparr>)"

definition NodeWriteTransformer :: "string \<Rightarrow> WriteTransformer" where
  "NodeWriteTransformer node entry = Inr (if we_Node entry = [] then entry\<lparr>we_Node := node\<rparr> else entry)"

definition FilterWriteTransformer :: "(ChannelWriteEntry \<Rightarrow> bool) option \<Rightarrow> WriteTransformer" where
  "FilterWriteTransformer predicate entry =
     (case predicate of
        Some p \<Rightarrow> if \<not> p entry then Inl (WriteSkipError (we_Channel entry)) else Inr entry
      | None \<Rightarrow> Inr entry)"

definition NoOpValidator :: WriteValidator where
  "NoOpValidator entry = None"

definition TypeWriteValidator :: "(goval \<Rightarrow> string) \<Rightarrow> gostate \<Rightarrow> WriteValidator" where
  "TypeWriteValidator ty types entry =
     (case map_of types (we_Channel entry) of
        Some expected \<Rightarrow>
          if we_Value entry \<noteq> GNil \<and> ty (we_Value entry) \<noteq> ty expected
          then Some (WriteValidationError (we_Channel entry)
                 (''expected type '' @ ty expected @ '', got '' @ ty (we_Value entry)))
          else None
      | None \<Rightarrow> None)"

definition NonNullWriteValidator :: "string list \<Rightarrow> WriteValidator" where
  "NonNullWriteValidator whitelist entry =
     (if we_Channel entry \<in> set whitelist then None
      else if we_Value entry = GNil then Some (WriteValidationError (we_Channel entry) ''value cannot be nil'')
      else None)"

definition value_length :: "goval \<Rightarrow> int option" where
  "value_length v =
     (case v of GList xs \<Rightarrow> Some (int (length xs)) | GStr s \<Rightarrow> Some (int (length s)) | GMap m \<Rightarrow> Some (int (length m)) | _ \<Rightarrow> None)"

definition LengthWriteValidator :: "int gomap \<Rightarrow> int gomap \<Rightarrow> WriteValidator" where
  "LengthWriteValidator minLengths maxLengths entry =
     (case value_length (we_Value entry) of
        None \<Rightarrow> None
      | Some n \<Rightarrow>
          (let ch = we_Channel entry
           in if (case map_of minLengths ch of None \<Rightarrow> False | Some m \<Rightarrow> n < m)
              then Some (WriteValidationError ch (''length '' @ show_int n @ '' is less than minimum '' @ show_int (gm_int minLengths ch)))
              else if (case map_of maxLengths ch of None \<Rightarrow> False | Some m \<Rightarrow> n > m)
              then Some (WriteValidationError ch (''length '' @ show_int n @ '' exceeds maximum '' @ show_int (gm_int maxLengths ch)))
              else None))"

record ChannelWrite =
  cw_entries :: "ChannelWriteEntry list"
  cw_transformer :: "WriteTransformer option"
  cw_validator :: "WriteValidator option"

definition NewChannelWrite :: "(ChannelWrite \<Rightarrow> ChannelWrite) list \<Rightarrow> ChannelWrite" where
  "NewChannelWrite opts =
     fold (\<lambda>opt cw. opt cw) opts
       \<lparr>cw_entries = [], cw_transformer = Some IdentityWriteTransformer, cw_validator = Some NoOpValidator\<rparr>"

definition WithWriteTransformer :: "WriteTransformer option \<Rightarrow> ChannelWrite \<Rightarrow> ChannelWrite" where
  "WithWriteTransformer t cw = cw\<lparr>cw_transformer := t\<rparr>"

definition WithValidator :: "WriteValidator option \<Rightarrow> ChannelWrite \<Rightarrow> ChannelWrite" where
  "WithValidator v cw = cw\<lparr>cw_validator := v\<rparr>"

definition AddEntry :: "ChannelWriteEntry \<Rightarrow> ChannelWrite \<Rightarrow> ChannelWrite" where
  "AddEntry entry cw = cw\<lparr>cw_entries := cw_entries cw @ [entry]\<rparr>"

definition AddEntries :: "ChannelWriteEntry list \<Rightarrow> ChannelWrite \<Rightarrow> ChannelWrite" where
  "AddEntries entries cw = cw\<lparr>cw_entries := cw_entries cw @ entries\<rparr>"

definition plain_entry :: "string \<Rightarrow> goval \<Rightarrow> ChannelWriteEntry" where
  "plain_entry channel v = \<lparr>we_Channel = channel, we_Value = v, we_Overwrite = False, we_Node = [], we_Metadata = []\<rparr>"

definition WriteTo :: "string \<Rightarrow> goval \<Rightarrow> ChannelWrite \<Rightarrow> ChannelWrite" where
  "WriteTo channel v = AddEntry (plain_entry channel v)"

definition Overwrite :: "string \<Rightarrow> goval \<Rightarrow> ChannelWrite \<Rightarrow> ChannelWrite" where
  "Overwrite channel v = AddEntry ((plain_entry channel v)\<lparr>we_Overwrite := True\<rparr>)"

definition WriteNode :: "string \<Rightarrow> string \<Rightarrow> goval \<Rightarrow> ChannelWrite \<Rightarrow> ChannelWrite" where
  "WriteNode node channel v = AddEntry ((plain_entry channel v)\<lparr>we_Node := node\<rparr>)"

text \<open>What is handed to the channel.\<close>

definition entry_value :: "ChannelWriteEntry \<Rightarrow> goval" where
  "entry_value entry = (if we_Overwrite entry then GOverwrite (we_Value entry) else we_Value entry)"

definition check_entry :: "ChannelWrite \<Rightarrow> ChannelWriteEntry \<Rightarrow> gerror + ChannelWriteEntry" where
  "check_entry cw entry =
     (case (case cw_validator cw of None \<Rightarrow> None | Some v \<Rightarrow> v entry) of
        Some err \<Rightarrow> Inl (WrapError ''validation failed for channel'' [we_Channel entry] err)
      | None \<Rightarrow>
          (case cw_transformer cw of
             None \<Rightarrow> Inr entry
           | Some t \<Rightarrow>
               (case t entry of
                  Inl err \<Rightarrow> Inl (WrapError ''transformation failed for channel'' [we_Channel entry] err)
                | Inr e \<Rightarrow> Inr e)))"

fun write_entries ::
  "ChannelWrite \<Rightarrow> ChannelWriteEntry list \<Rightarrow> Registry \<Rightarrow> bool gomap \<Rightarrow> (gerror, Registry, bool gomap) outcome" where
  "write_entries cw [] reg updated = (reg, Inr updated)"
| "write_entries cw (entry # entries) reg updated =
     (case check_entry cw entry of
        Inl err \<Rightarrow> (reg, Inl err)
      | Inr e \<Rightarrow>
          (case Registry_Get reg (we_Channel e) of
             None \<Rightarrow> (reg, Inl (PlainError ''channel not found'' [we_Channel e]))
           | Some ch \<Rightarrow>
               (let (ch', res) = ch_Update ch [entry_value e]; reg' = Register reg (we_Channel e) ch'
                in (case res of
                      Inl err \<Rightarrow> (reg', Inl (WrapError ''failed to update channel'' [we_Channel e] err))
                    | Inr was \<Rightarrow>
                        write_entries cw entries reg' (if was then gm_set (we_Channel e) True updated else updated)))))"

definition Write :: "ChannelWrite \<Rightarrow> Registry \<Rightarrow> (gerror, ChannelWrite \<times> Registry, bool gomap) outcome" where
  "Write cw reg =
     (case write_entries cw (cw_entries cw) reg [] of
        (reg', Inl err) \<Rightarrow> ((cw, reg'), Inl err)
      | (reg', Inr updated) \<Rightarrow> ((cw\<lparr>cw_entries := []\<rparr>, reg'), Inr updated))"

definition Write_Clear :: "ChannelWrite \<Rightarrow> ChannelWrite" where
  "Write_Clear cw = cw\<lparr>cw_entries := []\<rparr>"

definition GetEntries :: "ChannelWrite \<Rightarrow> ChannelWriteEntry list" where
  "GetEntries cw = cw_entries cw"

definition EntryCount :: "ChannelWrite \<Rightarrow> nat" where
  "EntryCount cw = length (cw_entries cw)"

text \<open>Batches: lists of entries under a name, moved to the writer by \<^verbatim>\<open>Flush\<close>.\<close>

record WriteContext =
  wc_Node :: string
  wc_Step :: int
  Writer :: ChannelWrite
  Batches :: "ChannelWriteEntry list gomap"

definition NewWriteContext :: "string \<Rightarrow> int \<Rightarrow> ChannelWrite \<Rightarrow> WriteContext" where
  "NewWriteContext node step writer = \<lparr>wc_Node = node, wc_Step = step, Writer = writer, Batches = []\<rparr>"

definition CreateBatch :: "string \<Rightarrow> WriteContext \<Rightarrow> WriteContext" where
  "CreateBatch name wc = wc\<lparr>Batches := gm_set name [] (Batches wc)\<rparr>"

text \<open>Adding an entry through the pointer that \<^verbatim>\<open>GetBatch\<close> returns; nil where there is no batch, which panics.\<close>

definition Batch_Add :: "string \<Rightarrow> ChannelWriteEntry \<Rightarrow> WriteContext \<Rightarrow> gerror + WriteContext" where
  "Batch_Add name entry wc =
     (case map_of (Batches wc) name of
        None \<Rightarrow> Inl (PanicError ''nil pointer dereference'')
      | Some es \<Rightarrow> Inr (wc\<lparr>Batches := gm_set name (es @ [entry]) (Batches wc)\<rparr>))"

definition Batch_WriteTo :: "string \<Rightarrow> string \<Rightarrow> goval \<Rightarrow> WriteContext \<Rightarrow> gerror + WriteContext" where
  "Batch_WriteTo name channel v = Batch_Add name (plain_entry channel v)"

definition Batch_Overwrite :: "string \<Rightarrow> string \<Rightarrow> goval \<Rightarrow> WriteContext \<Rightarrow> gerror + WriteContext" where
  "Batch_Overwrite name channel v = Batch_Add name ((plain_entry channel v)\<lparr>we_Overwrite := True\<rparr>)"

definition Batch_Clear :: "string \<Rightarrow> WriteContext \<Rightarrow> gerror + WriteContext" where
  "Batch_Clear name wc =
     (case map_of (Batches wc) name of
        None \<Rightarrow> Inl (PanicError ''nil pointer dereference'')
      | Some es \<Rightarrow> Inr (wc\<lparr>Batches := gm_set name [] (Batches wc)\<rparr>))"

definition Flush :: "(string list \<Rightarrow> string list) \<Rightarrow> WriteContext \<Rightarrow> Registry \<Rightarrow> (gerror, WriteContext \<times> Registry, bool gomap) outcome" where
  "Flush ord wc reg =
     (let es = concat (map (\<lambda>name. case map_of (Batches wc) name of None \<Rightarrow> [] | Some es \<Rightarrow> es) (ord (gm_keys (Batches wc))));
          ((cw, reg'), res) = Write (AddEntries es (Writer wc)) reg
      in ((wc\<lparr>Writer := cw\<rparr>, reg'), res))"

section \<open>Readers\<close>

type_synonym ChannelSelector = "Registry \<Rightarrow> gerror + string list"
type_synonym ChannelTransformer = "gostate \<Rightarrow> gerror + gostate"

definition AllChannelsSelector :: ChannelSelector where
  "AllChannelsSelector reg = Inr (Registry_List reg)"

definition SpecificChannelsSelector :: "string list \<Rightarrow> ChannelSelector" where
  "SpecificChannelsSelector channels reg = Inr (filter (\<lambda>n. Registry_Get reg n \<noteq> None) channels)"

definition PrefixChannelsSelector :: "string \<Rightarrow> ChannelSelector" where
  "PrefixChannelsSelector prefix reg =
     Inr (filter (\<lambda>n. length n \<ge> length prefix \<and> take (length prefix) n = prefix) (Registry_List reg))"

definition available :: "Registry \<Rightarrow> string \<Rightarrow> bool" where
  "available reg n = (case Registry_Get reg n of None \<Rightarrow> False | Some ch \<Rightarrow> ch_IsAvailable ch)"

definition AvailableChannelsSelector :: ChannelSelector where
  "AvailableChannelsSelector reg = Inr (filter (available reg) (Registry_List reg))"

definition IdentityTransformer :: ChannelTransformer where
  "IdentityTransformer vals = Inr vals"

definition MappingTransformer :: "string gomap \<Rightarrow> ChannelTransformer" where
  "MappingTransformer mappings vals =
     Inr (fold (\<lambda>(n, v) m. gm_set (case map_of mappings n of None \<Rightarrow> n | Some n' \<Rightarrow> n') v m) vals [])"

definition FilterTransformer :: "string list \<Rightarrow> ChannelTransformer" where
  "FilterTransformer keep vals = Inr (filter (\<lambda>(n, v). n \<in> set keep) vals)"

definition DefaultTransformer :: "gostate \<Rightarrow> ChannelTransformer" where
  "DefaultTransformer defaults vals =
     (let m = fold (\<lambda>(n, d) m. gm_set n (case map_of vals n of Some v \<Rightarrow> v | None \<Rightarrow> d) m) defaults []
      in Inr (fold (\<lambda>(n, v) m. if map_of m n = None then gm_set n v m else m) vals m))"

definition MergingTransformer :: "string \<Rightarrow> (goval list \<Rightarrow> gerror + goval) \<Rightarrow> ChannelTransformer" where
  "MergingTransformer target merger vals = map_sum id (\<lambda>v. [(target, v)]) (merger (map snd vals))"

record ChannelRead =
  cr_selector :: ChannelSelector
  cr_transformer :: "ChannelTransformer option"

definition NewChannelRead :: "(ChannelRead \<Rightarrow> ChannelRead) list \<Rightarrow> ChannelRead" where
  "NewChannelRead opts =
     fold (\<lambda>opt cr. opt cr) opts \<lparr>cr_selector = AllChannelsSelector, cr_transformer = Some IdentityTransformer\<rparr>"

definition WithSelector :: "ChannelSelector \<Rightarrow> ChannelRead \<Rightarrow> ChannelRead" where
  "WithSelector sel cr = cr\<lparr>cr_selector := sel\<rparr>"

definition WithTransformer :: "ChannelTransformer option \<Rightarrow> ChannelRead \<Rightarrow> ChannelRead" where
  "WithTransformer t cr = cr\<lparr>cr_transformer := t\<rparr>"

text \<open>The loop of \<^verbatim>\<open>Read\<close>: a channel that has no value is skipped.\<close>

fun read_names :: "string list \<Rightarrow> Registry \<Rightarrow> gostate \<Rightarrow> Registry \<times> gostate" where
  "read_names [] reg vals = (reg, vals)"
| "read_names (name # names) reg vals =
     (case Registry_Get reg name of
        None \<Rightarrow> read_names names reg vals
      | Some ch \<Rightarrow>
          (let (ch', res) = ch_Get ch; reg' = Register reg name ch'
           in (case res of
                 Inl _ \<Rightarrow> read_names names reg' vals
               | Inr v \<Rightarrow> read_names names reg' (gm_set name v vals))))"

definition Read :: "ChannelRead \<Rightarrow> Registry \<Rightarrow> (gerror, Registry, gostate) outcome" where
  "Read cr reg =
     (case cr_selector cr reg of
        Inl err \<Rightarrow> (reg, Inl (WrapError ''channel selection failed'' [] err))
      | Inr names \<Rightarrow>
          (let (reg', vals) = read_names names reg []
           in (reg', case cr_transformer cr of
                       None \<Rightarrow> Inr vals
                     | Some t \<Rightarrow>
                         (case t vals of
                            Inl err \<Rightarrow> Inl (WrapError ''channel transformation failed'' [] err)
                          | Inr vals' \<Rightarrow> Inr vals'))))"

definition ReadChannel :: "string \<Rightarrow> Registry \<Rightarrow> (gerror, Registry, goval) outcome" where
  "ReadChannel name reg =
     (case Registry_Get reg name of
        None \<Rightarrow> (reg, Inl (PlainError ''channel not found'' [name]))
      | Some ch \<Rightarrow> (let (ch', res) = ch_Get ch in (Register reg name ch', res)))"

definition ListChannels :: "Registry \<Rightarrow> string list" where
  "ListChannels reg = Registry_List reg"

definition HasChannel :: "string \<Rightarrow> Registry \<Rightarrow> bool" where
  "HasChannel name reg = (Registry_Get reg name \<noteq> None)"

text \<open>Triggers; the one for changes remembers the version it saw last.\<close>

datatype Trigger =
  AlwaysTrigger
| AnyAvailableTrigger "string list"
| AllAvailableTrigger "string list"
| ChannelChangedTrigger string int

definition NewChannelChangedTrigger :: "string \<Rightarrow> Trigger" where
  "NewChannelChangedTrigger channel = ChannelChangedTrigger channel (- 1)"

fun ShouldTrigger :: "Registry \<Rightarrow> Trigger \<Rightarrow> Trigger \<times> bool" where
  "ShouldTrigger reg AlwaysTrigger = (AlwaysTrigger, True)"
| "ShouldTrigger reg (AnyAvailableTrigger channels) = (AnyAvailableTrigger channels, list_ex (available reg) channels)"
| "ShouldTrigger reg (AllAvailableTrigger channels) = (AllAvailableTrigger channels, list_all (available reg) channels)"
| "ShouldTrigger reg (ChannelChangedTrigger channel lastVersion) =
     (case Registry_Get reg channel of
        None \<Rightarrow> (ChannelChangedTrigger channel lastVersion, False)
      | Some ch \<Rightarrow>
          (let version = ch_GetVersion ch
           in if version \<ge> 0 \<and> version \<noteq> lastVersion then (ChannelChangedTrigger channel version, True)
              else (ChannelChangedTrigger channel lastVersion, version < 0 \<and> ch_IsAvailable ch)))"

record ReadContext =
  rc_Node :: string
  rc_Step :: int
  Triggers :: "Trigger list"
  Readers :: "ChannelRead gomap"

definition NewReadContext :: "string \<Rightarrow> int \<Rightarrow> ReadContext" where
  "NewReadContext node step = \<lparr>rc_Node = node, rc_Step = step, Triggers = [], Readers = []\<rparr>"

definition AddReader :: "string \<Rightarrow> ChannelRead \<Rightarrow> ReadContext \<Rightarrow> ReadContext" where
  "AddReader name reader rc = rc\<lparr>Readers := gm_set name reader (Readers rc)\<rparr>"

definition GetReader :: "string \<Rightarrow> ReadContext \<Rightarrow> ChannelRead option" where
  "GetReader name rc = map_of (Readers rc) name"

text \<open>The loop over the triggers ends at the first that fires; those after it are not asked.\<close>

fun fire_first :: "Registry \<Rightarrow> Trigger list \<Rightarrow> Trigger list \<times> bool" where
  "fire_first reg [] = ([], False)"
| "fire_first reg (t # ts) =
     (let (t', b) = ShouldTrigger reg t
      in if b then (t' # ts, True) else (let (ts', r) = fire_first reg ts in (t' # ts', r)))"

definition ShouldExecute :: "Registry \<Rightarrow> ReadContext \<Rightarrow> ReadContext \<times> bool" where
  "ShouldExecute reg rc =
     (if Triggers rc = [] then (rc, True)
      else (let (ts, b) = fire_first reg (Triggers rc) in (rc\<lparr>Triggers := ts\<rparr>, b)))"

fun read_all :: "(string \<times> ChannelRead) list \<Rightarrow> Registry \<Rightarrow> gostate \<Rightarrow> (gerror, Registry, gostate) outcome" where
  "read_all [] reg combined = (reg, Inr combined)"
| "read_all ((name, reader) # readers) reg combined =
     (case Read reader reg of
        (reg', Inl err) \<Rightarrow> (reg', Inl (WrapError ''reader failed'' [name] err))
      | (reg', Inr vals) \<Rightarrow>
          read_all readers reg' (fold (\<lambda>(k, v) m. gm_set (name @ ''.'' @ k) v m) vals combined))"

definition ReadAll :: "ReadContext \<Rightarrow> Registry \<Rightarrow> (gerror, Registry, gostate) outcome" where
  "ReadAll rc reg = read_all (Readers rc) reg []"

section \<open>What a write does to each channel\<close>

text \<open>The values that the entries hold for a channel, and the channel after them.\<close>

definition values_for :: "string \<Rightarrow> ChannelWriteEntry list \<Rightarrow> goval list" where
  "values_for name es = map entry_value (filter (\<lambda>e. we_Channel e = name) es)"

definition after_updates :: "channel \<Rightarrow> goval list \<Rightarrow> channel" where
  "after_updates ch vs = fold (\<lambda>v c. fst (ch_Update c [v])) vs ch"

text \<open>The entries as they are written: checked and transformed.\<close>

fun checked :: "ChannelWrite \<Rightarrow> ChannelWriteEntry list \<Rightarrow> gerror + ChannelWriteEntry list" where
  "checked cw [] = Inr []"
| "checked cw (e # es) =
     (case check_entry cw e of
        Inl err \<Rightarrow> Inl err
      | Inr e' \<Rightarrow> (case checked cw es of Inl err \<Rightarrow> Inl err | Inr es' \<Rightarrow> Inr (e' # es')))"

lemma Registry_Get_reg [simp]: "Registry_Get (Register reg name c) k = (if k = name then Some c else Registry_Get reg k)"
  by (simp add: Registry_Get_def Register_def gomap_simps)

lemma write_entries_ok:
  assumes "write_entries cw es reg upd = (reg', Inr upd')"
  shows "\<exists>es'. checked cw es = Inr es' \<and> (\<forall>e \<in> set es'. Registry_Get reg (we_Channel e) \<noteq> None) \<and>
    (\<forall>name. Registry_Get reg' name = map_option (\<lambda>ch. after_updates ch (values_for name es')) (Registry_Get reg name))"
  using assms
proof (induction es arbitrary: reg upd)
  case (Cons e es)
  obtain e' where e': "check_entry cw e = Inr e'"
    using Cons.prems by (cases "check_entry cw e") auto
  obtain ch where ch: "Registry_Get reg (we_Channel e') = Some ch"
    using Cons.prems by (cases "Registry_Get reg (we_Channel e')") (auto simp: e')
  obtain ch' r where u: "ch_Update ch [entry_value e'] = (ch', r)"
    by force
  obtain was where r: "r = Inr was"
    using Cons.prems by (cases r) (auto simp: e' ch u)
  let ?reg = "Register reg (we_Channel e') ch'"
  obtain es' where es': "checked cw es = Inr es'"
    "\<forall>e \<in> set es'. Registry_Get ?reg (we_Channel e) \<noteq> None"
    "\<forall>name. Registry_Get reg' name = map_option (\<lambda>ch. after_updates ch (values_for name es')) (Registry_Get ?reg name)"
    using Cons.prems Cons.IH [of ?reg "if was then gm_set (we_Channel e') True upd else upd"] by (auto simp: e' ch u r)
  have "Registry_Get reg' name = map_option (\<lambda>ch. after_updates ch (values_for name (e' # es'))) (Registry_Get reg name)" for name
    using es'(3) u ch by (simp add: values_for_def after_updates_def)
  moreover have "\<forall>e \<in> set (e' # es'). Registry_Get reg (we_Channel e) \<noteq> None"
    using es'(2) ch by (auto split: if_splits)
  moreover have "checked cw (e # es) = Inr (e' # es')"
    using e' es'(1) by simp
  ultimately show ?case
    by blast
qed (auto simp: values_for_def after_updates_def option.map_id)

lemma Register_ok [simp]: "reg_ok reg \<Longrightarrow> reg_ok (Register reg n c)"
  by (simp add: reg_ok_def Register_def)

lemma write_entries_reg_ok: "reg_ok reg \<Longrightarrow> reg_ok (fst (write_entries cw es reg upd))"
proof (induction es arbitrary: reg upd)
  case (Cons e es)
  then show ?case
    by (simp add: split_beta Let_def split: sum.split option.split)
qed simp

lemma read_names_spec:
  "distinct names \<Longrightarrow>
     map_of (snd (read_names names reg vals)) k =
       (if k \<in> set names then (case Option.bind (Registry_Get reg k) ch_value of None \<Rightarrow> map_of vals k | Some v \<Rightarrow> Some v) else map_of vals k)"
proof (induction names arbitrary: reg vals)
  case (Cons n names)
  show ?case
  proof (cases "Registry_Get reg n")
    case None
    with Cons show ?thesis
      by auto
  next
    case (Some ch)
    obtain ch' r where g: "ch_Get ch = (ch', r)"
      by force
    have "ch_value ch = (case r of Inl _ \<Rightarrow> None | Inr v \<Rightarrow> Some v)"
      by (simp add: ch_value_def g)
    then show ?thesis
      using Cons.prems Cons.IH [of "Register reg n ch'"]
      by (cases r) (auto simp: Some g gomap_simps split: option.split)
  qed
qed simp

lemma Read_all_channels:
  assumes "reg_ok reg"
  shows "\<exists>reg' vals. Read (NewChannelRead []) reg = (reg', Inr vals) \<and>
    (\<forall>k. map_of vals k = Option.bind (Registry_Get reg k) ch_value)"
proof -
  let ?r = "read_names (Registry_List reg) reg []"
  have names: "distinct (Registry_List reg)" "k \<in> set (Registry_List reg) \<longleftrightarrow> Registry_Get reg k \<noteq> None" for k
    using assms by (auto simp: reg_ok_def Registry_List_def Registry_Names_def Registry_Get_def map_of_eq_None_iff)
  have "map_of (snd ?r) k = Option.bind (Registry_Get reg k) ch_value" for k
    using read_names_spec [OF names(1), of reg "[]" k] names(2) [of k] by (auto split: option.splits)
  then show ?thesis
    by (auto simp: Read_def NewChannelRead_def AllChannelsSelector_def IdentityTransformer_def split_beta)
qed

text \<open>A write that succeeds hands every channel the values of its own entries, as checked and transformed, one
  after the other and in their order, and leaves no entry behind; reading all channels then gives their values.\<close>

theorem write_then_read:
  assumes "reg_ok reg" and "Write cw reg = ((cw', reg'), Inr updated)"
  shows "\<exists>es reg'' vals. checked cw (cw_entries cw) = Inr es \<and> cw_entries cw' = [] \<and>
    Read (NewChannelRead []) reg' = (reg'', Inr vals) \<and>
    (\<forall>name. map_of vals name = Option.bind (Registry_Get reg name) (\<lambda>ch. ch_value (after_updates ch (values_for name es))))"
proof -
  have w: "write_entries cw (cw_entries cw) reg [] = (reg', Inr updated)" and cw': "cw_entries cw' = []"
    using assms(2) by (auto simp: Write_def split: prod.splits sum.splits)
  obtain es where es: "checked cw (cw_entries cw) = Inr es"
    "\<forall>name. Registry_Get reg' name = map_option (\<lambda>ch. after_updates ch (values_for name es)) (Registry_Get reg name)"
    using write_entries_ok [OF w] by blast
  have "reg_ok reg'"
    using write_entries_reg_ok [OF assms(1), of cw "cw_entries cw" "[]"] by (simp add: w)
  from Read_all_channels [OF this] obtain reg'' vals where r: "Read (NewChannelRead []) reg' = (reg'', Inr vals)"
    "\<forall>k. map_of vals k = Option.bind (Registry_Get reg' k) ch_value"
    by blast
  have "map_of vals name = Option.bind (Registry_Get reg name) (\<lambda>ch. ch_value (after_updates ch (values_for name es)))" for name
    using r(2) es(2) by (cases "Registry_Get reg name") simp_all
  with es(1) cw' r(1) show ?thesis
    by blast
qed

definition two_channels :: Registry where
  "two_channels = \<lparr>reg_channels = [(''a'', ChLastValue (NewLastValue TNil)), (''b'', ChLastValue (NewLastValue TNil))]\<rparr>"

theorem write_then_read_witness:
  "\<exists>cw' reg' updated. Write (WriteTo ''a'' (GInt 2) (WriteTo ''b'' (GInt 3) (WriteTo ''a'' (GInt 1) (NewChannelWrite [])))) two_channels =
      ((cw', reg'), Inr updated) \<and>
    (\<exists>reg'' vals. Read (NewChannelRead []) reg' = (reg'', Inr vals) \<and> map_of vals ''a'' = Some (GInt 2))"
proof -
  let ?cw = "WriteTo ''a'' (GInt 2) (WriteTo ''b'' (GInt 3) (WriteTo ''a'' (GInt 1) (NewChannelWrite [])))"
  note d = WriteTo_def AddEntry_def plain_entry_def NewChannelWrite_def IdentityWriteTransformer_def NoOpValidator_def check_entry_def
  obtain cw' reg' updated where w: "Write ?cw two_channels = ((cw', reg'), Inr updated)"
    by (simp add: Write_def d two_channels_def Registry_Get_def Register_def entry_value_def chan_defs out_map_def)
  have "reg_ok two_channels"
    by (simp add: reg_ok_def two_channels_def)
  from write_then_read [OF this w] obtain reg'' vals where "Read (NewChannelRead []) reg' = (reg'', Inr vals)"
    "map_of vals ''a'' = Some (GInt 2)"
    by (auto simp: d two_channels_def Registry_Get_def values_for_def entry_value_def after_updates_def ch_value_def chan_defs out_map_def)
  with w show ?thesis
    by blast
qed

section \<open>Writes keep the types of the channels\<close>

text \<open>A channel for last values that has a declared type holds nothing, nil, or a value of that type.\<close>

definition well_typed :: "(goval \<Rightarrow> string) \<Rightarrow> gostate \<Rightarrow> Registry \<Rightarrow> bool" where
  "well_typed ty types reg \<longleftrightarrow>
     (\<forall>name expected c. map_of types name = Some expected \<and> Registry_Get reg name = Some (ChLastValue c) \<longrightarrow>
        lv_value c \<in> {GMissing, GNil} \<or> ty (lv_value c) = ty expected)"

lemma ch_Update_LastValue: "fst (ch_Update ch [v]) = ChLastValue c \<Longrightarrow> \<exists>c0. ch = ChLastValue c0 \<and> lv_value c = v"
  by (cases ch) (auto simp: chan_defs split: prod.splits)

lemma well_typed_update:
  assumes "well_typed ty types reg" and "Registry_Get reg name = Some ch"
    and "\<And>expected. map_of types name = Some expected \<Longrightarrow> v = GNil \<or> ty v = ty expected"
  shows "well_typed ty types (Register reg name (fst (ch_Update ch [v])))"
  using assms ch_Update_LastValue [of ch v] by (auto simp: well_typed_def split: if_splits)

text \<open>C14: a writer with the validator of types, the identity as transformer and no entry that is an overwrite keeps a
  well-typed registry well-typed: it stores no value of another type in a channel for last values, whether the write
  succeeds or fails on the way.\<close>

theorem typed_writes_keep_types:
  assumes "cw_validator cw = Some (TypeWriteValidator ty types)" and "cw_transformer cw = Some IdentityWriteTransformer"
    and "\<forall>e \<in> set (cw_entries cw). \<not> we_Overwrite e" and "well_typed ty types reg"
  shows "well_typed ty types (snd (fst (Write cw reg)))"
proof -
  have "well_typed ty types (fst (write_entries cw es reg upd))"
    if "\<forall>e \<in> set es. \<not> we_Overwrite e" "well_typed ty types reg" for es reg upd
    using that
  proof (induction es arbitrary: reg upd)
    case (Cons e es)
    show ?case
    proof (cases "TypeWriteValidator ty types e")
      case None
      then have ok: "check_entry cw e = Inr e"
        by (simp add: check_entry_def assms(1,2) IdentityWriteTransformer_def)
      have "well_typed ty types (Register reg (we_Channel e) (fst (ch_Update ch [entry_value e])))"
        if "Registry_Get reg (we_Channel e) = Some ch" for ch
        using Cons.prems None that
        by (intro well_typed_update) (auto simp: entry_value_def TypeWriteValidator_def split: if_splits)
      with Cons ok show ?thesis
        by (simp add: split_beta Let_def split: sum.split option.split)
    qed (use Cons.prems in \<open>simp add: check_entry_def assms(1)\<close>)
  qed simp
  then show ?thesis
    using assms(3,4) by (simp add: Write_def split: prod.split sum.split) (metis fst_conv)
qed


definition str_type :: "goval \<Rightarrow> string" where
  "str_type v = (case v of GStr _ \<Rightarrow> ''string'' | GInt _ \<Rightarrow> ''int'' | _ \<Rightarrow> ''other'')"

theorem typed_writes_keep_types_witness:
  "well_typed str_type [(''a'', GStr [])]
     (snd (fst (Write (WriteTo ''a'' (GInt 3) (WriteTo ''a'' (GStr ''x'')
       (NewChannelWrite [WithValidator (Some (TypeWriteValidator str_type [(''a'', GStr [])]))]))) two_channels)))"
  by (rule typed_writes_keep_types)
    (simp_all add: NewChannelWrite_def WithValidator_def WriteTo_def AddEntry_def plain_entry_def well_typed_def two_channels_def
      Registry_Get_def chan_defs)

section \<open>Failed and repeated writes\<close>

lemmas write_defs = NewChannelWrite_def WithWriteTransformer_def WriteTo_def Overwrite_def AddEntry_def AddEntries_def plain_entry_def
  IdentityWriteTransformer_def NoOpValidator_def FilterWriteTransformer_def check_entry_def entry_value_def
  Write_def Registry_Get_def Register_def

text \<open>The error of a filter is documented to mean that the entry is to be skipped; it ends the whole write.\<close>

theorem filter_aborts_write:
  "snd (Write (WriteTo ''a'' (GInt 1) (WriteTo ''b'' (GInt 2)
     (NewChannelWrite [WithWriteTransformer (Some (FilterWriteTransformer (Some (\<lambda>e. we_Channel e \<noteq> ''b''))))]))) two_channels) =
   Inl (WrapError ''transformation failed for channel'' [''b''] (WriteSkipError ''b''))"
  by (simp add: write_defs two_channels_def)

text \<open>A write that fails keeps all its entries, those already applied included.\<close>

theorem failed_write_keeps_entries:
  "snd (Write cw reg) = Inl err \<Longrightarrow> fst (fst (Write cw reg)) = cw"
  by (auto simp: Write_def split: prod.splits sum.splits)

text \<open>Flushing leaves the batches as they are: the same entries are written again by the next flush.\<close>

theorem Flush_keeps_batches:
  "Batches (fst (fst (Flush ord wc reg))) = Batches wc"
  by (simp add: Flush_def split_beta Let_def)

text \<open>An overwriting entry stores the wrapper itself in a channel for last values.\<close>

theorem overwrite_stores_wrapper:
  "snd (ReadChannel ''a'' (snd (fst (Write (Overwrite ''a'' (GInt 1) (NewChannelWrite [])) two_channels)))) = Inr (GOverwrite (GInt 1))"
  by (simp add: write_defs two_channels_def ReadChannel_def chan_defs out_map_def)

end
