(* ===== verification/Messages.thy ===== *)
theory Messages
  imports StateGraph Registry
begin

text \<open>
  Conversations (\<^verbatim>\<open>graph/message.go\<close>): messages with identifiers, the reducer that adds messages to a conversation,
  filters, the message graph and the conversions to and from the chat format. A \<^verbatim>\<open>*Message\<close> is never nil here: the
  code dereferences every message. As a dynamic value a message is a pointer to a struct and a conversation a slice
  of such pointers; the names of types in error texts are the argument \<open>ty\<close>.
\<close>

section \<open>Messages as Go values\<close>

record Message =
  msg_ID :: string
  msg_Role :: string
  msg_Content :: string
  msg_Extra :: gostate

definition NewMessage :: "string \<Rightarrow> string \<Rightarrow> Message" where
  "NewMessage role content = \<lparr>msg_ID = [], msg_Role = role, msg_Content = content, msg_Extra = []\<rparr>"

definition NewMessageWithID :: "string \<Rightarrow> string \<Rightarrow> string \<Rightarrow> Message" where
  "NewMessageWithID i role content = \<lparr>msg_ID = i, msg_Role = role, msg_Content = content, msg_Extra = []\<rparr>"

definition of_Message :: "Message \<Rightarrow> goval" where
  "of_Message m = GPtr (GStruct ''graph.Message''
     [(''ID'', GStr (msg_ID m)), (''Role'', GStr (msg_Role m)), (''Content'', GStr (msg_Content m)), (''Extra'', GMap (msg_Extra m))])"

definition of_Messages :: "Message list \<Rightarrow> goval" where
  "of_Messages ms = GSlice ''*graph.Message'' (map of_Message ms)"

definition str_field :: "gostate \<Rightarrow> string \<Rightarrow> string" where
  "str_field fs k = (case as_string (gm_val fs k) of None \<Rightarrow> [] | Some s \<Rightarrow> s)"

definition message_of_fields :: "gostate \<Rightarrow> Message" where
  "message_of_fields fs = \<lparr>msg_ID = str_field fs ''ID'', msg_Role = str_field fs ''Role'', msg_Content = str_field fs ''Content'',
     msg_Extra = (case as_map (gm_val fs ''Extra'') of None \<Rightarrow> [] | Some m \<Rightarrow> m)\<rparr>"

text \<open>The type assertions \<^verbatim>\<open>v.(*Message)\<close> and \<^verbatim>\<open>v.([]*Message)\<close>.\<close>

definition as_Message :: "goval \<Rightarrow> Message option" where
  "as_Message v =
     (case v of
        GPtr w \<Rightarrow> (case w of GStruct n fs \<Rightarrow> if n = ''graph.Message'' then Some (message_of_fields fs) else None | _ \<Rightarrow> None)
      | _ \<Rightarrow> None)"

definition as_Messages :: "goval \<Rightarrow> Message list option" where
  "as_Messages v =
     (case v of GSlice n vs \<Rightarrow> if n = ''*graph.Message'' then those (map as_Message vs) else None | _ \<Rightarrow> None)"

lemma as_of_Message [simp]: "as_Message (of_Message m) = Some m"
  by (simp add: as_Message_def of_Message_def message_of_fields_def str_field_def gm_val_def assert_defs)

lemma those_map_Some [simp]: "(\<And>x. f (g x) = Some (h x)) \<Longrightarrow> those (map (\<lambda>x. f (g x)) xs) = Some (map h xs)"
  by (induction xs) auto

lemma as_of_Messages [simp]: "as_Messages (of_Messages ms) = Some ms"
  using those_map_Some [of as_Message of_Message "\<lambda>m. m" ms] by (simp add: as_Messages_def of_Messages_def comp_def)

lemma of_Messages_neq [simp]: "of_Messages ms \<noteq> GNil" "as_Message (of_Messages ms) = None"
  by (simp_all add: of_Messages_def as_Message_def)

section \<open>The state of a message graph\<close>

record MessagesState =
  ms_Messages :: "Message list"
  ms_Extra :: gostate

definition AddMessages :: "Message list \<Rightarrow> MessagesState \<Rightarrow> MessagesState" where
  "AddMessages msgs s = s\<lparr>ms_Messages := ms_Messages s @ msgs\<rparr>"

definition GetLastMessage :: "MessagesState \<Rightarrow> Message option" where
  "GetLastMessage s = (if ms_Messages s = [] then None else Some (last (ms_Messages s)))"

definition GetMessagesByRole :: "string \<Rightarrow> MessagesState \<Rightarrow> Message list" where
  "GetMessagesByRole role s = filter (\<lambda>m. msg_Role m = role) (ms_Messages s)"

section \<open>The reducer\<close>

text \<open>The map of the existing messages by their identifiers; later messages replace earlier ones.\<close>

definition existing_map :: "Message list \<Rightarrow> Message gomap" where
  "existing_map existing = fold (\<lambda>m acc. if msg_ID m \<noteq> [] then gm_set (msg_ID m) m acc else acc) existing []"

text \<open>The inner loop: the first update with the identifier.\<close>

definition update_for :: "Message list \<Rightarrow> string \<Rightarrow> Message option" where
  "update_for msgs i = find (\<lambda>u. msg_ID u = i) msgs"

text \<open>The pass over the existing messages, with the identifiers that have been updated.\<close>

fun keep_existing :: "Message list \<Rightarrow> Message list \<Rightarrow> Message list \<Rightarrow> bool gomap \<Rightarrow> Message list \<times> bool gomap" where
  "keep_existing msgs [] result processedIDs = (result, processedIDs)"
| "keep_existing msgs (m # existing) result processedIDs =
     (if msg_ID m = [] then keep_existing msgs existing (result @ [m]) processedIDs
      else (case update_for msgs (msg_ID m) of
              Some u \<Rightarrow> keep_existing msgs existing (result @ [u]) (gm_set (msg_ID m) True processedIDs)
            | None \<Rightarrow> keep_existing msgs existing (result @ [m]) processedIDs))"

definition is_new :: "bool gomap \<Rightarrow> Message gomap \<Rightarrow> Message \<Rightarrow> bool" where
  "is_new processedIDs existingMap m \<longleftrightarrow>
     msg_ID m = [] \<or> \<not> gm_true processedIDs (msg_ID m) \<and> map_of existingMap (msg_ID m) = None"

definition merge_messages :: "Message list \<Rightarrow> Message list \<Rightarrow> Message list" where
  "merge_messages existing msgs =
     (let (result, processedIDs) = keep_existing msgs existing [] []
      in result @ filter (is_new processedIDs (existing_map existing)) msgs)"

definition AddMessagesReducer :: "(goval \<Rightarrow> string) \<Rightarrow> goval \<Rightarrow> goval \<Rightarrow> gerror + goval" where
  "AddMessagesReducer ty existing updates =
     (case (case as_Messages updates of Some ms \<Rightarrow> Some ms | None \<Rightarrow> map_option (\<lambda>m. [m]) (as_Message updates)) of
        None \<Rightarrow> Inl (GraphError (''cannot add messages of type '' @ ty updates))
      | Some msgs \<Rightarrow>
          if existing = GNil then Inr (of_Messages msgs)
          else (case as_Messages existing of
                  None \<Rightarrow> Inl (GraphError (''existing messages is not []*Message, got '' @ ty existing))
                | Some existingMsgs \<Rightarrow> Inr (of_Messages (merge_messages existingMsgs msgs))))"

section \<open>Messages of a state\<close>

fun messages_of_list :: "(goval \<Rightarrow> string) \<Rightarrow> nat \<Rightarrow> goval list \<Rightarrow> gerror + Message list" where
  "messages_of_list ty i [] = Inr []"
| "messages_of_list ty i (v # vs) =
     (case as_Message v of
        Some m \<Rightarrow> map_sum (\<lambda>e. e) (\<lambda>ms. m # ms) (messages_of_list ty (Suc i) vs)
      | None \<Rightarrow> Inl (GraphError (''message at index '' @ show_nat i @ '' is not *Message, got '' @ ty v)))"

definition GetMessagesFromState :: "(goval \<Rightarrow> string) \<Rightarrow> gostate \<Rightarrow> gerror + Message list" where
  "GetMessagesFromState ty state =
     (case map_of state ''messages'' of
        None \<Rightarrow> Inr []
      | Some v \<Rightarrow>
          (case as_Messages v of
             Some msgs \<Rightarrow> Inr msgs
           | None \<Rightarrow>
               (case as_list v of
                  Some vs \<Rightarrow> messages_of_list ty 0 vs
                | None \<Rightarrow> Inl (GraphError (''messages is not []*Message, got '' @ ty v)))))"

definition AddMessagesToState :: "(goval \<Rightarrow> string) \<Rightarrow> Message list \<Rightarrow> gostate \<Rightarrow> (gerror, gostate, unit) outcome" where
  "AddMessagesToState ty msgs state =
     (case GetMessagesFromState ty state of
        Inl err \<Rightarrow> (state, Inl err)
      | Inr existing \<Rightarrow> (gm_set ''messages'' (of_Messages (existing @ msgs)) state, Inr ()))"

section \<open>Roles\<close>

definition HumanMessage :: "string \<Rightarrow> Message" where
  "HumanMessage content = NewMessage ''user'' content"

definition AIMessage :: "string \<Rightarrow> Message" where
  "AIMessage content = NewMessage ''assistant'' content"

definition SystemMessage :: "string \<Rightarrow> Message" where
  "SystemMessage content = NewMessage ''system'' content"

definition ToolMessage :: "string \<Rightarrow> string \<Rightarrow> Message" where
  "ToolMessage content toolCallID =
     (NewMessage ''tool'' content)\<lparr>msg_Extra := gm_set ''tool_call_id'' (GStr toolCallID) []\<rparr>"

definition FunctionMessage :: "string \<Rightarrow> string \<Rightarrow> Message" where
  "FunctionMessage content name = (NewMessage ''function'' content)\<lparr>msg_Extra := gm_set ''name'' (GStr name) []\<rparr>"

definition FormatMessages :: "Message list \<Rightarrow> string list" where
  "FormatMessages msgs = map (\<lambda>m. msg_Role m @ '': '' @ msg_Content m) msgs"

definition GetLastUserMessage :: "Message list \<Rightarrow> Message option" where
  "GetLastUserMessage msgs = find (\<lambda>m. msg_Role m = ''user'') (rev msgs)"

definition GetLastAIMessage :: "Message list \<Rightarrow> Message option" where
  "GetLastAIMessage msgs = find (\<lambda>m. msg_Role m = ''assistant'') (rev msgs)"

definition FilterMessagesByRole :: "string list \<Rightarrow> Message list \<Rightarrow> Message list" where
  "FilterMessagesByRole roles msgs = filter (\<lambda>m. msg_Role m \<in> set roles) msgs"

section \<open>Filters\<close>

record MessagesFilter =
  mf_roles :: "string list"
  mf_limit :: int
  mf_offset :: int
  mf_reverse :: bool
  mf_predicate :: "(Message \<Rightarrow> bool) option"

definition NewMessagesFilter :: MessagesFilter where
  "NewMessagesFilter = \<lparr>mf_roles = [], mf_limit = 0, mf_offset = 0, mf_reverse = False, mf_predicate = None\<rparr>"

definition WithRole :: "string list \<Rightarrow> MessagesFilter \<Rightarrow> MessagesFilter" where
  "WithRole roles f = f\<lparr>mf_roles := roles\<rparr>"

definition WithLimit :: "int \<Rightarrow> MessagesFilter \<Rightarrow> MessagesFilter" where
  "WithLimit n f = f\<lparr>mf_limit := n\<rparr>"

definition WithOffset :: "int \<Rightarrow> MessagesFilter \<Rightarrow> MessagesFilter" where
  "WithOffset n f = f\<lparr>mf_offset := n\<rparr>"

definition WithReverse :: "MessagesFilter \<Rightarrow> MessagesFilter" where
  "WithReverse f = f\<lparr>mf_reverse := True\<rparr>"

definition WithPredicate :: "(Message \<Rightarrow> bool) \<Rightarrow> MessagesFilter \<Rightarrow> MessagesFilter" where
  "WithPredicate p f = f\<lparr>mf_predicate := Some p\<rparr>"

definition passes :: "MessagesFilter \<Rightarrow> Message \<Rightarrow> bool" where
  "passes f m \<longleftrightarrow> (mf_roles f = [] \<or> msg_Role m \<in> set (mf_roles f)) \<and> (case mf_predicate f of None \<Rightarrow> True | Some p \<Rightarrow> p m)"

text \<open>The loop that reverses a slice in place, from both ends.\<close>

function swap_ends :: "'a list \<Rightarrow> nat \<Rightarrow> nat \<Rightarrow> 'a list" where
  "swap_ends xs i j = (if i < j then swap_ends (xs[i := xs ! j, j := xs ! i]) (i + 1) (j - 1) else xs)"
  by pat_completeness auto
termination
  by (relation "measure (\<lambda>(xs, i, j). j - i)") auto

declare swap_ends.simps [simp del]

definition Filter :: "MessagesFilter \<Rightarrow> Message list \<Rightarrow> Message list" where
  "Filter f msgs =
     (let result = filter (passes f) msgs;
          result = (if mf_offset f > 0 \<and> mf_offset f < int (length result) then drop (nat (mf_offset f)) result else result);
          result = (if mf_limit f > 0 \<and> mf_limit f < int (length result) then take (nat (mf_limit f)) result else result)
      in if mf_reverse f then swap_ends result 0 (length result - 1) else result)"

section \<open>The chat format\<close>

record OpenAIChatMessage =
  oa_Role :: string
  oa_Content :: string
  oa_Name :: string

definition ToOpenAIChatMessage :: "Message \<Rightarrow> OpenAIChatMessage" where
  "ToOpenAIChatMessage m = \<lparr>oa_Role = msg_Role m, oa_Content = msg_Content m, oa_Name = []\<rparr>"

definition MessagesToOpenAIFormat :: "Message list \<Rightarrow> OpenAIChatMessage list" where
  "MessagesToOpenAIFormat messages = map ToOpenAIChatMessage messages"

definition OpenAIFormatToMessages :: "OpenAIChatMessage list \<Rightarrow> Message list" where
  "OpenAIFormatToMessages messages =
     map (\<lambda>m. \<lparr>msg_ID = [], msg_Role = oa_Role m, msg_Content = oa_Content m,
               msg_Extra = (if oa_Name m \<noteq> [] then [(''name'', GStr (oa_Name m))] else [])\<rparr>) messages"

section \<open>The message graph\<close>

record MessageGraph =
  mg_graph :: stateGraph
  mg_channel :: string

definition NewMessageGraph :: MessageGraph where
  "NewMessageGraph =
     \<lparr>mg_graph = AddChannel ''messages'' (Some (ChLastValue (NewLastValue (TSlice ''*graph.Message'')))) (NewStateGraph (SMap KString)),
      mg_channel = ''messages''\<rparr>"

definition MG_AddNode :: "string \<Rightarrow> NodeFunc \<Rightarrow> MessageGraph \<Rightarrow> MessageGraph" where
  "MG_AddNode name action g = g\<lparr>mg_graph := AddNode name action (mg_graph g)\<rparr>"

definition on_graph :: "(stateGraph \<Rightarrow> (gerror, stateGraph, 'a) outcome) \<Rightarrow> MessageGraph \<Rightarrow> (gerror, MessageGraph, 'a) outcome" where
  "on_graph f g = (let (sg, r) = f (mg_graph g) in (g\<lparr>mg_graph := sg\<rparr>, r))"

definition MG_AddEdge :: "string \<Rightarrow> string \<Rightarrow> MessageGraph \<Rightarrow> (gerror, MessageGraph, unit) outcome" where
  "MG_AddEdge startKey endKey = on_graph (AddEdge startKey endKey)"

definition MG_AddConditionalEdge ::
  "string \<Rightarrow> EdgeFunc \<Rightarrow> string gomap \<Rightarrow> MessageGraph \<Rightarrow> (gerror, MessageGraph, unit) outcome" where
  "MG_AddConditionalEdge source condition edgeMap = on_graph (AddConditionalEdges source condition edgeMap)"

definition MG_SetEntryPoint :: "string \<Rightarrow> MessageGraph \<Rightarrow> (gerror, MessageGraph, unit) outcome" where
  "MG_SetEntryPoint n = on_graph (SetEntryPoint n)"

definition MG_Build :: "MessageGraph \<Rightarrow> (gerror, MessageGraph, 'cp compiledGraph) outcome" where
  "MG_Build = on_graph (Compile [])"

definition MG_GetState :: "MessageGraph \<Rightarrow> gostate" where
  "MG_GetState g = [(''messages'', GList [])]"

definition MG_GetMessages :: "MessageGraph \<Rightarrow> Registry \<Rightarrow> Registry \<times> Message list" where
  "MG_GetMessages g reg =
     (case Registry_Get reg (mg_channel g) of
        None \<Rightarrow> (reg, [])
      | Some ch \<Rightarrow>
          (let (ch', r) = ch_Get ch
           in (Register reg (mg_channel g) ch',
               case r of Inl _ \<Rightarrow> [] | Inr v \<Rightarrow> (case as_Messages v of None \<Rightarrow> [] | Some msgs \<Rightarrow> msgs))))"

section \<open>What the reducer does\<close>

abbreviation IDs :: "Message list \<Rightarrow> string set" where
  "IDs ms \<equiv> msg_ID ` set ms"

definition updated :: "Message list \<Rightarrow> Message \<Rightarrow> Message" where
  "updated msgs m = (if msg_ID m = [] then m else (case update_for msgs (msg_ID m) of None \<Rightarrow> m | Some u \<Rightarrow> u))"

lemma update_for_Some: "update_for msgs i = Some u \<Longrightarrow> u \<in> set msgs \<and> msg_ID u = i"
  by (auto simp: update_for_def find_Some_iff)

lemma update_for_None: "update_for msgs i = None \<longleftrightarrow> i \<notin> IDs msgs"
  by (auto simp: update_for_def find_None_iff)

lemma updated_ID [simp]: "msg_ID (updated msgs m) = msg_ID m"
  by (auto simp: updated_def dest: update_for_Some split: option.split)

lemma keep_existing_fst: "fst (keep_existing msgs existing result p) = result @ map (updated msgs) existing"
  by (induction existing arbitrary: result p) (auto simp: updated_def split: option.split)

lemma keep_existing_snd:
  "gm_true (snd (keep_existing msgs existing result p)) i \<longleftrightarrow>
     gm_true p i \<or> i \<noteq> [] \<and> i \<in> IDs existing \<and> i \<in> IDs msgs"
proof (induction existing arbitrary: result p)
  case (Cons m existing)
  have "update_for msgs (msg_ID m) = None \<longleftrightarrow> msg_ID m \<notin> IDs msgs"
    by (rule update_for_None)
  then show ?case
    by (cases "update_for msgs (msg_ID m)") (simp_all add: Cons.IH gomap_simps, blast+)
qed simp

lemma existing_map_None: "map_of (existing_map existing) i = None \<longleftrightarrow> i = [] \<or> i \<notin> IDs existing"
proof -
  have "map_of (fold (\<lambda>m acc. if msg_ID m \<noteq> [] then gm_set (msg_ID m) m acc else acc) existing acc) i = None \<longleftrightarrow>
      map_of acc i = None \<and> (i = [] \<or> i \<notin> IDs existing)" for acc
    by (induction existing arbitrary: acc) (auto simp: gomap_simps)
  then show ?thesis
    by (simp add: existing_map_def)
qed

lemma merge_messages_eq:
  "merge_messages existing msgs =
     map (updated msgs) existing @ filter (\<lambda>m. msg_ID m = [] \<or> msg_ID m \<notin> IDs existing) msgs"
proof -
  have "is_new (snd (keep_existing msgs existing [] [])) (existing_map existing) m \<longleftrightarrow> msg_ID m = [] \<or> msg_ID m \<notin> IDs existing" for m
    by (auto simp: is_new_def keep_existing_snd existing_map_None)
  then show ?thesis
    by (simp add: merge_messages_def split_beta keep_existing_fst cong: filter_cong)
qed

lemma AddMessagesReducer_ok:
  "AddMessagesReducer ty (of_Messages existing) (of_Messages msgs) = Inr (of_Messages (merge_messages existing msgs))"
  by (simp add: AddMessagesReducer_def)

lemma update_for_append: "update_for (xs @ ys) i = (case update_for xs i of None \<Rightarrow> update_for ys i | Some m \<Rightarrow> Some m)"
  by (induction xs) (auto simp: update_for_def)

lemma update_for_map_updated:
  "i \<noteq> [] \<Longrightarrow> update_for (map (updated msgs) ms) i = map_option (updated msgs) (update_for ms i)"
  by (induction ms) (auto simp: update_for_def)

lemma update_for_filter: "(\<And>m. msg_ID m = i \<Longrightarrow> P m) \<Longrightarrow> update_for (filter P ms) i = update_for ms i"
  by (induction ms) (auto simp: update_for_def)

lemma merge_messages_lookup:
  assumes "i \<noteq> []"
  shows "update_for (merge_messages existing msgs) i =
    (case update_for msgs i of None \<Rightarrow> update_for existing i | Some m \<Rightarrow> Some m)"
proof (cases "update_for existing i")
  case None
  moreover from None have "i \<notin> IDs existing"
    by (simp add: update_for_None)
  ultimately show ?thesis
    using assms update_for_filter [of i "\<lambda>m. msg_ID m = [] \<or> msg_ID m \<notin> IDs existing" msgs]
    by (auto simp: merge_messages_eq update_for_append update_for_map_updated split: option.split)
next
  case (Some m)
  then have "msg_ID m = i"
    by (auto dest: update_for_Some)
  then show ?thesis
    using assms Some by (auto simp: merge_messages_eq update_for_append update_for_map_updated updated_def split: option.split)
qed

definition keyed :: "Message list \<Rightarrow> bool" where
  "keyed ms \<longleftrightarrow> distinct (map msg_ID (filter (\<lambda>m. msg_ID m \<noteq> []) ms))"

lemma filter_updated: "filter (\<lambda>m. P (msg_ID m)) (map (updated msgs) ms) = map (updated msgs) (filter (\<lambda>m. P (msg_ID m)) ms)"
  by (induction ms) auto

lemma merge_messages_keyed:
  assumes "keyed existing" and "keyed msgs"
  shows "keyed (merge_messages existing msgs)"
proof -
  let ?new = "filter (\<lambda>m. msg_ID m = [] \<or> msg_ID m \<notin> IDs existing) msgs"
  have "keyed ?new"
    using assms(2) unfolding keyed_def by (induction msgs) auto
  then show ?thesis
    using assms(1) by (auto simp: keyed_def merge_messages_eq filter_updated [of "\<lambda>i. i \<noteq> []"] comp_def) (metis image_eqI)
qed

lemma update_for_distinct: "distinct (map msg_ID ms) \<Longrightarrow> m \<in> set ms \<Longrightarrow> update_for ms (msg_ID m) = Some m"
  by (induction ms) (auto simp: update_for_def rev_image_eqI)

lemma merge_messages_IDs: "IDs (merge_messages existing msgs) = IDs existing \<union> IDs msgs"
proof -
  have "IDs (map (updated msgs) existing) = IDs existing"
    by (simp add: image_image)
  then show ?thesis
    unfolding merge_messages_eq by (auto simp: image_Un)
qed

lemma merge_messages_again:
  assumes "distinct (map msg_ID msgs)" and "[] \<notin> IDs msgs"
  shows "merge_messages (merge_messages existing msgs) msgs = merge_messages existing msgs"
proof -
  have "updated msgs (updated msgs m) = updated msgs m" for m
    using update_for_Some [of msgs "msg_ID m"] by (cases "update_for msgs (msg_ID m)") (simp_all add: updated_def)
  moreover have "updated msgs m = m" if "m \<in> set msgs" for m
    using update_for_distinct [OF assms(1) that] by (simp add: updated_def)
  ultimately have "map (updated msgs) (merge_messages existing msgs) = merge_messages existing msgs"
    by (auto simp: merge_messages_eq intro: map_idI)
  moreover have "filter (\<lambda>m. msg_ID m = [] \<or> msg_ID m \<notin> IDs (merge_messages existing msgs)) msgs = []"
    using assms(2) by (auto simp: filter_empty_conv merge_messages_IDs image_iff)
  ultimately show ?thesis
    by (simp add: merge_messages_eq [of "merge_messages existing msgs"])
qed

text \<open>C18: where identifiers that are not empty are distinct in the conversation and in the update, adding messages keeps the order and the identifiers of those that are there, replaces each
  by the first update with its identifier, and appends the updates with new identifiers; looking up an identifier
  afterwards gives the update if there is one. Identifiers stay unique, and updates that all carry one can be applied
  again without any effect.\<close>

theorem add_messages_spec:
  assumes "keyed existing" and "keyed msgs"
  shows "\<exists>result. AddMessagesReducer ty (of_Messages existing) (of_Messages msgs) = Inr (of_Messages result) \<and> keyed result \<and>
    map msg_ID (take (length existing) result) = map msg_ID existing \<and>
    (\<forall>i. i \<noteq> [] \<longrightarrow> update_for result i = (case update_for msgs i of None \<Rightarrow> update_for existing i | Some m \<Rightarrow> Some m)) \<and>
    filter (\<lambda>m. msg_ID m = []) result = filter (\<lambda>m. msg_ID m = []) existing @ filter (\<lambda>m. msg_ID m = []) msgs \<and>
    ([] \<notin> IDs msgs \<longrightarrow> AddMessagesReducer ty (of_Messages result) (of_Messages msgs) = Inr (of_Messages result))"
proof -
  let ?r = "merge_messages existing msgs"
  have again: "merge_messages ?r msgs = ?r" if "[] \<notin> IDs msgs"
  proof (rule merge_messages_again)
    have "filter (\<lambda>m. msg_ID m \<noteq> []) msgs = msgs"
      using that by (metis (mono_tags, lifting) filter_True image_eqI)
    then show "distinct (map msg_ID msgs)"
      using assms(2) by (simp add: keyed_def)
  qed (use that in auto)
  have "filter (\<lambda>m. msg_ID m = []) (map (updated msgs) existing) = filter (\<lambda>m. msg_ID m = []) existing"
    unfolding filter_updated [of "\<lambda>i. i = []"] by (rule map_idI) (simp add: updated_def)
  then have "filter (\<lambda>m. msg_ID m = []) ?r = filter (\<lambda>m. msg_ID m = []) existing @ filter (\<lambda>m. msg_ID m = []) msgs"
    by (simp add: merge_messages_eq conj_commute cong: conj_cong)
  moreover have "map msg_ID (take (length existing) ?r) = map msg_ID existing"
    by (simp add: merge_messages_eq comp_def)
  ultimately show ?thesis
    using merge_messages_keyed [OF assms] again by (intro exI [of _ ?r]) (auto simp: AddMessagesReducer_ok merge_messages_lookup)
qed

theorem add_messages_spec_witness:
  "\<exists>result. AddMessagesReducer (\<lambda>_. []) (of_Messages [NewMessageWithID ''1'' ''user'' ''a'', HumanMessage ''b''])
      (of_Messages [NewMessageWithID ''2'' ''user'' ''c'', NewMessageWithID ''1'' ''user'' ''d'']) = Inr (of_Messages result) \<and>
    update_for result ''1'' = Some (NewMessageWithID ''1'' ''user'' ''d'') \<and> update_for result ''2'' = Some (NewMessageWithID ''2'' ''user'' ''c'') \<and>
    AddMessagesReducer (\<lambda>_. []) (of_Messages result)
      (of_Messages [NewMessageWithID ''2'' ''user'' ''c'', NewMessageWithID ''1'' ''user'' ''d'']) = Inr (of_Messages result)"
  using add_messages_spec [of "[NewMessageWithID ''1'' ''user'' ''a'', HumanMessage ''b'']"
      "[NewMessageWithID ''2'' ''user'' ''c'', NewMessageWithID ''1'' ''user'' ''d'']" "\<lambda>_. []"]
  by (auto simp: keyed_def NewMessageWithID_def HumanMessage_def NewMessage_def update_for_def)

section \<open>Filters as a pipeline\<close>

lemma swap_ends_nth:
  "j < length xs \<or> j \<le> i \<Longrightarrow> length (swap_ends xs i j) = length xs \<and>
     (\<forall>k < length xs. swap_ends xs i j ! k = (if i \<le> k \<and> k \<le> j then xs ! (i + j - k) else xs ! k))"
proof (induction xs i j rule: swap_ends.induct)
  case (1 xs i j)
  show ?case
  proof (cases "i < j")
    case True
    let ?ys = "xs[i := xs ! j, j := xs ! i]"
    have j: "j < length xs"
      using 1(2) True by simp
    then have "j - 1 < length ?ys \<or> j - 1 \<le> i + 1" and eq: "i + 1 + (j - 1) = i + j"
      using True by auto
    from 1(1) [OF True this(1)] have IH: "length (swap_ends ?ys (i + 1) (j - 1)) = length xs"
      "\<forall>k < length xs. swap_ends ?ys (i + 1) (j - 1) ! k = (if i + 1 \<le> k \<and> k \<le> j - 1 then ?ys ! (i + j - k) else ?ys ! k)"
      unfolding eq by auto
    have "swap_ends xs i j = swap_ends ?ys (i + 1) (j - 1)"
      using True by (simp add: swap_ends.simps [of xs i j])
    then show ?thesis
      using IH True j by (auto simp: nth_list_update)
  next
    case False
    then show ?thesis
      by (auto simp: swap_ends.simps [of xs i j] intro!: arg_cong [where f = "(!) xs"])
  qed
qed

lemma swap_ends_rev: "swap_ends xs 0 (length xs - 1) = rev xs"
proof (cases "xs = []")
  case False
  then have "length xs - 1 < length xs \<or> length xs - 1 \<le> 0"
    by simp
  from swap_ends_nth [OF this] show ?thesis
    by (intro nth_equalityI) (auto simp: rev_nth)
qed (simp add: swap_ends.simps)

text \<open>A filter whose offset is smaller than the number of matching messages keeps the matching messages, leaves out
  the offset, cuts at the limit where one is given, and then turns the order round if asked to.\<close>

theorem Filter_spec:
  assumes "0 \<le> mf_offset f" and "mf_offset f < int (length (filter (passes f) msgs))"
  shows "Filter f msgs =
    (if mf_reverse f then rev else (\<lambda>ms. ms))
      ((if mf_limit f > 0 then take (nat (mf_limit f)) else (\<lambda>ms. ms)) (drop (nat (mf_offset f)) (filter (passes f) msgs)))"
proof -
  have "nat (mf_limit f) \<ge> length ms" if "\<not> mf_limit f < int (length ms)" for ms :: "Message list"
    using that by linarith
  then show ?thesis
    using assms unfolding Filter_def Let_def swap_ends_rev by auto
qed

theorem Filter_spec_witness:
  "Filter (WithReverse (WithLimit 1 (WithOffset 1 (WithRole [''user''] NewMessagesFilter)))) [HumanMessage ''a'', AIMessage ''b'', HumanMessage ''c''] =
     [HumanMessage ''c'']"
  using Filter_spec [of "WithReverse (WithLimit 1 (WithOffset 1 (WithRole [''user''] NewMessagesFilter)))" "[HumanMessage ''a'', AIMessage ''b'', HumanMessage ''c'']"]
  by (simp add: WithReverse_def WithLimit_def WithOffset_def WithRole_def NewMessagesFilter_def passes_def HumanMessage_def AIMessage_def NewMessage_def)

text \<open>An offset of at least the number of matching messages is ignored: every message is returned instead of none.\<close>

theorem large_offset_ignored:
  "int (length msgs) \<le> n \<Longrightarrow> Filter (WithOffset n NewMessagesFilter) msgs = msgs"
  by (simp add: Filter_def WithOffset_def NewMessagesFilter_def passes_def)

section \<open>Conversations of a state and chat messages\<close>

text \<open>Messages added to a state are read back after those that were there; a state whose messages are of another
  type is refused and left as it is.\<close>

theorem messages_in_state:
  "(case GetMessagesFromState ty state of
      Inr ms \<Rightarrow> snd (AddMessagesToState ty msgs state) = Inr () \<and>
        GetMessagesFromState ty (fst (AddMessagesToState ty msgs state)) = Inr (ms @ msgs)
    | Inl err \<Rightarrow> AddMessagesToState ty msgs state = (state, Inl err))"
proof (cases "GetMessagesFromState ty state")
  case (Inr ms)
  have "GetMessagesFromState ty (gm_set ''messages'' (of_Messages (ms @ msgs)) state) = Inr (ms @ msgs)"
    by (simp add: GetMessagesFromState_def gomap_simps)
  with Inr show ?thesis
    by (simp add: AddMessagesToState_def)
qed (simp add: AddMessagesToState_def)

text \<open>Roles and contents survive the chat format, identifiers and extra fields do not.\<close>

theorem openai_roundtrip:
  "OpenAIFormatToMessages (MessagesToOpenAIFormat msgs) = map (\<lambda>m. NewMessage (msg_Role m) (msg_Content m)) msgs"
  by (simp add: OpenAIFormatToMessages_def MessagesToOpenAIFormat_def ToOpenAIChatMessage_def NewMessage_def comp_def)

section \<open>Where deduplication is missing\<close>

text \<open>Two new messages with one identifier are both appended, and the first update of an empty conversation is not
  looked at.\<close>

theorem duplicate_updates_kept:
  "AddMessagesReducer ty (of_Messages []) (of_Messages [m, m]) = Inr (of_Messages [m, m])"
  "AddMessagesReducer ty GNil (of_Messages [m, m]) = Inr (of_Messages [m, m])"
  by (simp_all add: AddMessagesReducer_def merge_messages_eq)

text \<open>The channel of a message graph keeps the last value: messages written later replace the conversation.\<close>

theorem message_graph_forgets:
  "\<exists>ch. map_of (channels (mg_graph NewMessageGraph)) ''messages'' = Some ch \<and>
     snd (ch_Get (fst (ch_Update (fst (ch_Update ch [of_Messages old])) [of_Messages new]))) = Inr (of_Messages new)"
  by (simp add: NewMessageGraph_def AddChannel_def NewStateGraph_def chan_defs out_map_def of_Messages_def SetKey_def)

end
