(* ===== verification/StreamManager.thy ===== *)
theory StreamManager
  imports Engine "HOL-Library.Sublist"
begin

text \<open>
  The events of a run on their way to the caller (\<^verbatim>\<open>pregel/stream.go\<close> and the forwarding goroutine of \<^verbatim>\<open>Run\<close> in
  \<^verbatim>\<open>pregel/engine.go\<close>): the stream manager with its filter by mode and its bounded channel, from which a full channel
  drops events but never the final one; the event stream and the stream processor. Time stamps are left out. The run,
  the forwarding goroutine and the caller are a step relation, so that every schedule of the three is covered, and so is
  the moment at which the context is done.
\<close>

section \<open>Events and modes\<close>

datatype StreamEventType =
  EventTypeCheckpoint | EventTypeTaskStart | EventTypeTaskEnd | EventTypeUpdate | EventTypeValues | EventTypeInterrupt
| EventTypeError | EventTypeFinal | EventTypeDebug

datatype StreamMode =
  StreamModeValues | StreamModeUpdates | StreamModeCustom | StreamModeMessages | StreamModeCheckpoints | StreamModeTasks
| StreamModeDebug | StreamModeOther string

record stream_event =
  ev_Type :: StreamEventType
  ev_Step :: int
  ev_Node :: string
  ev_TaskID :: string
  ev_Data :: goval
  ev_Error :: "gerror option"

definition NewStreamEvent :: "StreamEventType \<Rightarrow> int \<Rightarrow> stream_event" where
  "NewStreamEvent eventType step =
     \<lparr>ev_Type = eventType, ev_Step = step, ev_Node = [], ev_TaskID = [], ev_Data = GMap [], ev_Error = None\<rparr>"

section \<open>The manager\<close>

record StreamManager =
  sm_mode :: StreamMode
  eventCh :: "stream_event list"
  bufferSize :: int
  includeFilter :: "(StreamEventType \<times> bool) list"
  sm_closed :: bool

definition setupIncludeFilter :: "StreamManager \<Rightarrow> StreamManager" where
  "setupIncludeFilter sm = sm\<lparr>includeFilter := fold (\<lambda>t m. AList.update t True m)
     (case sm_mode sm of
        StreamModeValues \<Rightarrow> [EventTypeValues, EventTypeFinal]
      | StreamModeUpdates \<Rightarrow> [EventTypeUpdate, EventTypeFinal]
      | StreamModeTasks \<Rightarrow> [EventTypeTaskStart, EventTypeTaskEnd, EventTypeError, EventTypeFinal]
      | StreamModeCheckpoints \<Rightarrow> [EventTypeCheckpoint, EventTypeFinal]
      | StreamModeDebug \<Rightarrow>
          [EventTypeCheckpoint, EventTypeTaskStart, EventTypeTaskEnd, EventTypeUpdate, EventTypeValues, EventTypeInterrupt,
           EventTypeError, EventTypeDebug, EventTypeFinal]
      | _ \<Rightarrow> [EventTypeValues, EventTypeFinal]) (includeFilter sm)\<rparr>"

definition NewStreamManager :: "StreamMode \<Rightarrow> int \<Rightarrow> StreamManager" where
  "NewStreamManager mode n =
     setupIncludeFilter \<lparr>sm_mode = mode, eventCh = [], bufferSize = (if n \<le> 0 then 100 else n), includeFilter = [], sm_closed = False\<rparr>"

definition shouldEmit :: "StreamManager \<Rightarrow> StreamEventType \<Rightarrow> bool" where
  "shouldEmit sm t = (map_of (includeFilter sm) t = Some True)"

definition has_room :: "StreamManager \<Rightarrow> bool" where
  "has_room sm \<longleftrightarrow> int (length (eventCh sm)) < bufferSize sm"

text \<open>\<^verbatim>\<open>emit\<close>: nothing on a closed manager, and the event is dropped where the channel is full.\<close>

definition sm_emit :: "stream_event \<Rightarrow> StreamManager \<Rightarrow> StreamManager" where
  "sm_emit event sm = (if sm_closed sm then sm else if has_room sm then sm\<lparr>eventCh := eventCh sm @ [event]\<rparr> else sm)"

definition filtered_emit :: "stream_event \<Rightarrow> StreamManager \<Rightarrow> StreamManager" where
  "filtered_emit event sm = (if \<not> shouldEmit sm (ev_Type event) then sm else sm_emit event sm)"

definition checkpoint_event :: "int \<Rightarrow> gostate \<Rightarrow> stream_event" where
  "checkpoint_event step checkpoint = (NewStreamEvent EventTypeCheckpoint step)\<lparr>ev_Data := GMap [(''checkpoint'', GMap checkpoint)]\<rparr>"

definition sm_EmitCheckpoint :: "int \<Rightarrow> gostate \<Rightarrow> StreamManager \<Rightarrow> StreamManager" where
  "sm_EmitCheckpoint step checkpoint = filtered_emit (checkpoint_event step checkpoint)"

definition task_start_event :: "int \<Rightarrow> string \<Rightarrow> string \<Rightarrow> stream_event" where
  "task_start_event step node taskID =
     (NewStreamEvent EventTypeTaskStart step)\<lparr>ev_Node := node, ev_TaskID := taskID,
       ev_Data := GMap [(''node'', GStr node), (''task_id'', GStr taskID)]\<rparr>"

definition sm_EmitTaskStart :: "int \<Rightarrow> string \<Rightarrow> string \<Rightarrow> StreamManager \<Rightarrow> StreamManager" where
  "sm_EmitTaskStart step node taskID = filtered_emit (task_start_event step node taskID)"

text \<open>The duration of a task comes as its text.\<close>

definition sm_EmitTaskEnd ::
  "int \<Rightarrow> string \<Rightarrow> string \<Rightarrow> goval \<Rightarrow> string \<Rightarrow> gerror option \<Rightarrow> StreamManager \<Rightarrow> StreamManager" where
  "sm_EmitTaskEnd step node taskID out duration err =
     filtered_emit ((NewStreamEvent EventTypeTaskEnd step)\<lparr>ev_Node := node, ev_TaskID := taskID, ev_Error := err,
       ev_Data := GMap [(''node'', GStr node), (''task_id'', GStr taskID), (''output'', out), (''duration'', GStr duration)]\<rparr>)"

definition sm_EmitUpdate :: "int \<Rightarrow> string \<Rightarrow> goval \<Rightarrow> StreamManager \<Rightarrow> StreamManager" where
  "sm_EmitUpdate step node out =
     filtered_emit ((NewStreamEvent EventTypeUpdate step)\<lparr>ev_Node := node, ev_Data := GMap [(''node'', GStr node), (''output'', out)]\<rparr>)"

definition values_event :: "int \<Rightarrow> gostate \<Rightarrow> stream_event" where
  "values_event step vals = (NewStreamEvent EventTypeValues step)\<lparr>ev_Data := GMap [(''values'', GMap vals)]\<rparr>"

definition sm_EmitValues :: "int \<Rightarrow> gostate \<Rightarrow> StreamManager \<Rightarrow> StreamManager" where
  "sm_EmitValues step vals = filtered_emit (values_event step vals)"

definition interrupt_event :: "int \<Rightarrow> string list \<Rightarrow> stream_event" where
  "interrupt_event step names =
     (NewStreamEvent EventTypeInterrupt step)\<lparr>ev_Data := GMap [(''interrupts'', GSlice ''string'' (map GStr names))]\<rparr>"

definition sm_EmitInterrupt :: "int \<Rightarrow> string list \<Rightarrow> StreamManager \<Rightarrow> StreamManager" where
  "sm_EmitInterrupt step names = filtered_emit (interrupt_event step names)"

text \<open>The text of an error is the argument \<open>txt\<close>.\<close>

definition sm_EmitError :: "(gerror \<Rightarrow> string) \<Rightarrow> int \<Rightarrow> gerror \<Rightarrow> string \<Rightarrow> StreamManager \<Rightarrow> StreamManager" where
  "sm_EmitError txt step err node =
     filtered_emit ((NewStreamEvent EventTypeError step)\<lparr>ev_Node := node, ev_Error := Some err,
       ev_Data := GMap [(''node'', GStr node), (''error'', GStr (txt err))]\<rparr>)"

definition sm_EmitDebug :: "int \<Rightarrow> string \<Rightarrow> goval \<Rightarrow> StreamManager \<Rightarrow> StreamManager" where
  "sm_EmitDebug step message data =
     filtered_emit ((NewStreamEvent EventTypeDebug step)\<lparr>ev_Data := GMap [(''message'', GStr message), (''data'', data)]\<rparr>)"

definition final_event :: "int \<Rightarrow> goval \<Rightarrow> stream_event" where
  "final_event step state = (NewStreamEvent EventTypeFinal step)\<lparr>ev_Data := GMap [(''state'', state)]\<rparr>"

text \<open>The final event is sent without asking whether the manager is closed, and waits for room (\<^const>\<open>None\<close>).\<close>

definition send_final :: "stream_event \<Rightarrow> StreamManager \<Rightarrow> (gerror, StreamManager, unit) outcome option" where
  "send_final event sm =
     (if \<not> shouldEmit sm EventTypeFinal then Some (sm, Inr ())
      else if sm_closed sm then Some (sm, Inl (PanicError ''send on closed channel''))
      else if has_room sm then Some (sm\<lparr>eventCh := eventCh sm @ [event]\<rparr>, Inr ())
      else None)"

definition sm_EmitFinal :: "int \<Rightarrow> goval \<Rightarrow> StreamManager \<Rightarrow> (gerror, StreamManager, unit) outcome option" where
  "sm_EmitFinal step state = send_final (final_event step state)"

definition sm_Close :: "StreamManager \<Rightarrow> StreamManager" where
  "sm_Close sm = (if sm_closed sm then sm else sm\<lparr>sm_closed := True\<rparr>)"

text \<open>\<^verbatim>\<open>StreamWriter\<close>, handed to nodes; \<open>enc\<close> is the encoder of JSON.\<close>

record StreamWriter =
  sw_step :: int
  sw_node :: string

definition StreamWriter_Write :: "goval \<Rightarrow> StreamWriter \<Rightarrow> StreamManager \<Rightarrow> StreamManager" where
  "StreamWriter_Write data w = sm_EmitDebug (sw_step w) (''custom output from node '' @ sw_node w) data"

definition StreamWriter_WriteJSON ::
  "(goval \<Rightarrow> gerror + string) \<Rightarrow> goval \<Rightarrow> StreamWriter \<Rightarrow> StreamManager \<Rightarrow> (gerror, StreamManager, unit) outcome" where
  "StreamWriter_WriteJSON enc data w sm =
     (case enc data of Inl err \<Rightarrow> (sm, Inl err) | Inr bytes \<Rightarrow> (StreamWriter_Write (GBytes bytes) w sm, Inr ()))"

section \<open>The event stream\<close>

text \<open>\<^verbatim>\<open>EventStream\<close>: a channel of 100 events and one of 10 errors with a context. Where a \<^verbatim>\<open>select\<close> finds both of its cases
  ready the runtime picks one, which is the argument \<open>pick_done\<close>; \<^const>\<open>None\<close> is a call that waits.\<close>

record EventStream =
  es_events :: "stream_event list"
  es_errors :: "gerror list"
  es_done :: bool
  es_closed :: bool

definition NewEventStream :: "bool \<Rightarrow> EventStream" where
  "NewEventStream parent_done = \<lparr>es_events = [], es_errors = [], es_done = parent_done, es_closed = False\<rparr>"

definition EventStream_Cancel :: "EventStream \<Rightarrow> (gerror, EventStream, unit) outcome" where
  "EventStream_Cancel es =
     (if es_closed es then (es\<lparr>es_done := True\<rparr>, Inl (PanicError ''close of closed channel''))
      else (es\<lparr>es_done := True, es_closed := True\<rparr>, Inr ()))"

definition EventStream_Emit :: "bool \<Rightarrow> stream_event \<Rightarrow> EventStream \<Rightarrow> (gerror, EventStream, unit) outcome option" where
  "EventStream_Emit pick_done event es =
     (let ready = es_closed es \<or> length (es_events es) < 100
      in if es_done es \<and> (pick_done \<or> \<not> ready) then Some (es, Inr ())
         else if es_closed es then Some (es, Inl (PanicError ''send on closed channel''))
         else if ready then Some (es\<lparr>es_events := es_events es @ [event]\<rparr>, Inr ())
         else None)"

definition EventStream_EmitError :: "bool \<Rightarrow> gerror \<Rightarrow> EventStream \<Rightarrow> (gerror, EventStream, unit) outcome option" where
  "EventStream_EmitError pick_done err es =
     (let ready = es_closed es \<or> length (es_errors es) < 10
      in if es_done es \<and> (pick_done \<or> \<not> ready) then Some (es, Inr ())
         else if es_closed es then Some (es, Inl (PanicError ''send on closed channel''))
         else if ready then Some (es\<lparr>es_errors := es_errors es @ [err]\<rparr>, Inr ())
         else None)"

section \<open>The processor\<close>

text \<open>The handler changes a state of its own.\<close>

record 'h StreamProcessor =
  sp_filter :: "stream_event \<Rightarrow> bool"
  sp_transform :: "stream_event \<Rightarrow> gerror + stream_event"
  sp_handler :: "stream_event \<Rightarrow> 'h \<Rightarrow> 'h"

definition NewStreamProcessor :: "'h StreamProcessor" where
  "NewStreamProcessor = \<lparr>sp_filter = (\<lambda>e. True), sp_transform = Inr, sp_handler = (\<lambda>e h. h)\<rparr>"

definition WithFilter :: "(stream_event \<Rightarrow> bool) \<Rightarrow> 'h StreamProcessor \<Rightarrow> 'h StreamProcessor" where
  "WithFilter p sp = sp\<lparr>sp_filter := p\<rparr>"

definition WithTransform :: "(stream_event \<Rightarrow> gerror + stream_event) \<Rightarrow> 'h StreamProcessor \<Rightarrow> 'h StreamProcessor" where
  "WithTransform t sp = sp\<lparr>sp_transform := t\<rparr>"

definition WithHandler :: "(stream_event \<Rightarrow> 'h \<Rightarrow> 'h) \<Rightarrow> 'h StreamProcessor \<Rightarrow> 'h StreamProcessor" where
  "WithHandler fn sp = sp\<lparr>sp_handler := fn\<rparr>"

definition Process :: "'h StreamProcessor \<Rightarrow> stream_event \<Rightarrow> 'h \<Rightarrow> (gerror, 'h, unit) outcome" where
  "Process sp event h =
     (if \<not> sp_filter sp event then (h, Inr ())
      else (case sp_transform sp event of Inl err \<Rightarrow> (h, Inl err) | Inr event' \<Rightarrow> (sp_handler sp event' h, Inr ())))"

text \<open>\<^verbatim>\<open>ProcessStream\<close> on the events of a channel that is closed after them, with a context that is never done.\<close>

fun ProcessStream :: "'h StreamProcessor \<Rightarrow> stream_event list \<Rightarrow> 'h \<Rightarrow> (gerror, 'h, unit) outcome" where
  "ProcessStream sp [] h = (h, Inr ())"
| "ProcessStream sp (event # events) h =
     (case Process sp event h of (h', Inl err) \<Rightarrow> (h', Inl err) | (h', Inr _) \<Rightarrow> ProcessStream sp events h')"

section \<open>A run, the forwarding goroutine and the caller\<close>

text \<open>The state of the three: the events the run has still to emit, the manager, the event the forwarder holds and whether
  it still runs, the channel of 100 events to the caller, what the caller has read, whether that channel is closed, and
  whether the context is done. A run that a done context ends early is one with fewer events to emit.\<close>

record pipeline =
  to_emit :: "stream_event list"
  manager :: StreamManager
  held :: "stream_event option"
  forwarding :: bool
  outputCh :: "stream_event list"
  received :: "stream_event list"
  out_closed :: bool
  ctx_done :: bool

definition start_pipeline :: "StreamMode \<Rightarrow> stream_event list \<Rightarrow> pipeline" where
  "start_pipeline mode evs =
     \<lparr>to_emit = evs, manager = NewStreamManager mode 100, held = None, forwarding = True, outputCh = [], received = [],
      out_closed = False, ctx_done = False\<rparr>"

abbreviation is_final :: "stream_event \<Rightarrow> bool" where
  "is_final e \<equiv> ev_Type e = EventTypeFinal"

text \<open>The forwarder's \<^verbatim>\<open>select\<close> is \<open>put\<close> or, where the context is done, \<open>quit\<close>, with which the event it holds is lost;
  \<open>drained\<close> is the end of its loop over the closed channel. The output is closed when the forwarder has ended.\<close>

inductive pipe_step :: "pipeline \<Rightarrow> pipeline \<Rightarrow> bool" where
  emit: "to_emit p = e # es \<Longrightarrow> \<not> is_final e \<Longrightarrow>
    pipe_step p (p\<lparr>to_emit := es, manager := filtered_emit e (manager p)\<rparr>)"
| emit_final: "to_emit p = e # es \<Longrightarrow> is_final e \<Longrightarrow> send_final e (manager p) = Some (sm, Inr ()) \<Longrightarrow>
    pipe_step p (p\<lparr>to_emit := es, manager := sm\<rparr>)"
| take: "eventCh (manager p) = e # es \<Longrightarrow> held p = None \<Longrightarrow> forwarding p \<Longrightarrow>
    pipe_step p (p\<lparr>manager := (manager p)\<lparr>eventCh := es\<rparr>, held := Some e\<rparr>)"
| put: "held p = Some e \<Longrightarrow> length (outputCh p) < 100 \<Longrightarrow>
    pipe_step p (p\<lparr>held := None, outputCh := outputCh p @ [e]\<rparr>)"
| quit: "held p = Some e \<Longrightarrow> ctx_done p \<Longrightarrow>
    pipe_step p (p\<lparr>held := None, forwarding := False\<rparr>)"
| drained: "sm_closed (manager p) \<Longrightarrow> eventCh (manager p) = [] \<Longrightarrow> held p = None \<Longrightarrow> forwarding p \<Longrightarrow>
    pipe_step p (p\<lparr>forwarding := False\<rparr>)"
| read: "outputCh p = e # es \<Longrightarrow> pipe_step p (p\<lparr>outputCh := es, received := received p @ [e]\<rparr>)"
| close_manager: "to_emit p = [] \<Longrightarrow> \<not> sm_closed (manager p) \<Longrightarrow>
    pipe_step p (p\<lparr>manager := sm_Close (manager p)\<rparr>)"
| close_output: "sm_closed (manager p) \<Longrightarrow> \<not> forwarding p \<Longrightarrow> \<not> out_closed p \<Longrightarrow>
    pipe_step p (p\<lparr>out_closed := True\<rparr>)"

text \<open>A step of the three, or the context is done.\<close>

inductive pipe_ctx_step :: "pipeline \<Rightarrow> pipeline \<Rightarrow> bool" where
  step: "pipe_step p p' \<Longrightarrow> pipe_ctx_step p p'"
| cancel: "\<not> ctx_done p \<Longrightarrow> pipe_ctx_step p (p\<lparr>ctx_done := True\<rparr>)"

inductive_cases pipe_ctx_stepE: "pipe_ctx_step p p'"

text \<open>The loop of \<^verbatim>\<open>RunSync\<close> over the events it reads.\<close>

definition event_state :: "stream_event \<Rightarrow> goval option" where
  "event_state e = (if is_final e then Option.bind (as_map (ev_Data e)) (\<lambda>d. map_of d ''state'') else None)"

fun sync_state :: "stream_event list \<Rightarrow> goval \<Rightarrow> goval" where
  "sync_state [] acc = acc"
| "sync_state (e # es) acc = sync_state es (case event_state e of None \<Rightarrow> acc | Some v \<Rightarrow> v)"


text \<open>The calls of the run's own goroutine as events.\<close>

fun engine_event :: "StreamEvent \<Rightarrow> stream_event" where
  "engine_event (EmitCheckpoint step cp) = checkpoint_event step cp"
| "engine_event (EmitTaskStart step node taskID) = task_start_event step node taskID"
| "engine_event (EmitInterrupt step names) = interrupt_event step names"
| "engine_event (EmitValues step vals) = values_event step vals"
| "engine_event (EmitFinal step v) = final_event step v"

section \<open>Nothing but full channels drops events, and nothing drops the final one\<close>

definition included :: "StreamMode \<Rightarrow> stream_event \<Rightarrow> bool" where
  "included mode e = shouldEmit (NewStreamManager mode 100) (ev_Type e)"

lemma final_included [simp]: "shouldEmit (NewStreamManager mode n) EventTypeFinal"
  by (cases mode) (simp_all add: shouldEmit_def NewStreamManager_def setupIncludeFilter_def)

lemma shouldEmit_cong: "includeFilter sm = includeFilter sm' \<Longrightarrow> shouldEmit sm = shouldEmit sm'"
  by (simp add: shouldEmit_def fun_eq_iff)

definition in_flight :: "pipeline \<Rightarrow> stream_event list" where
  "in_flight p = received p @ outputCh p @ (case held p of None \<Rightarrow> [] | Some e \<Rightarrow> [e]) @ eventCh (manager p)"

definition set_up :: "StreamMode \<Rightarrow> pipeline \<Rightarrow> bool" where
  "set_up mode p \<longleftrightarrow> includeFilter (manager p) = includeFilter (NewStreamManager mode 100) \<and> bufferSize (manager p) = 100 \<and>
     length (eventCh (manager p)) \<le> 100 \<and> (sm_closed (manager p) \<longrightarrow> to_emit p = []) \<and> (\<not> forwarding p \<longrightarrow> held p = None) \<and>
     (\<not> forwarding p \<longrightarrow> \<not> ctx_done p \<longrightarrow> sm_closed (manager p) \<and> eventCh (manager p) = [])"

definition carries :: "StreamMode \<Rightarrow> stream_event list \<Rightarrow> pipeline \<Rightarrow> bool" where
  "carries mode evs p \<longleftrightarrow>
     (\<exists>sent. evs = sent @ to_emit p \<and> subseq (in_flight p) (filter (included mode) sent) \<and>
        (\<not> ctx_done p \<longrightarrow> filter is_final (in_flight p) = filter is_final sent))"

lemma set_up_emit:
  assumes "set_up mode p"
  shows "shouldEmit (manager p) t = shouldEmit (NewStreamManager mode 100) t"
  using assms shouldEmit_cong [of "manager p" "NewStreamManager mode 100"] by (simp add: set_up_def)

lemma filtered_emit_fields [simp]:
  "includeFilter (filtered_emit e sm) = includeFilter sm" "bufferSize (filtered_emit e sm) = bufferSize sm"
  "sm_closed (filtered_emit e sm) = sm_closed sm"
  by (simp_all add: filtered_emit_def sm_emit_def)

lemma send_final_fields:
  "send_final e sm = Some (sm', r) \<Longrightarrow>
     includeFilter sm' = includeFilter sm \<and> bufferSize sm' = bufferSize sm \<and> sm_closed sm' = sm_closed sm"
  by (auto simp: send_final_def split: if_splits)

lemma filtered_emit_length: "length (eventCh sm) \<le> n \<Longrightarrow> bufferSize sm = int n \<Longrightarrow> length (eventCh (filtered_emit e sm)) \<le> n"
  by (auto simp: filtered_emit_def sm_emit_def has_room_def)

lemma send_final_length:
  "send_final e sm = Some (sm', r) \<Longrightarrow> length (eventCh sm) \<le> n \<Longrightarrow> bufferSize sm = int n \<Longrightarrow> length (eventCh sm') \<le> n"
  by (auto simp: send_final_def has_room_def split: if_splits)

lemma set_up_step: "pipe_step p p' \<Longrightarrow> set_up mode p \<Longrightarrow> set_up mode p'"
proof (induction rule: pipe_step.induct)
  case (emit p e es)
  then show ?case
    using filtered_emit_length [of "manager p" 100 e] by (auto simp: set_up_def)
next
  case (emit_final p e es sm)
  then show ?case
    using send_final_length [of e "manager p" sm "Inr ()" 100] by (auto simp: set_up_def dest!: send_final_fields)
qed (auto simp: set_up_def sm_Close_def)

lemma subseq_snoc: "subseq xs ys \<Longrightarrow> subseq (xs @ [x]) (ys @ [x])"
  by (simp add: list_emb_append_mono)

lemma subseq_snoc_right: "subseq xs ys \<Longrightarrow> subseq xs (ys @ [x])"
  by (simp add: subseq_rev_drop_many)

lemma subseq_drop_middle: "subseq (xs @ ys @ zs) (xs @ ys @ e # zs)"
  by (intro list_emb_append_mono) auto

lemma carries_emit:
  assumes "carries mode evs p" and "set_up mode p" and "to_emit p = e # es" and "\<not> is_final e"
  shows "carries mode evs (p\<lparr>to_emit := es, manager := filtered_emit e (manager p)\<rparr>)"
proof -
  let ?p = "p\<lparr>to_emit := es, manager := filtered_emit e (manager p)\<rparr>"
  obtain sent where s: "evs = sent @ to_emit p" "subseq (in_flight p) (filter (included mode) sent)"
    "\<not> ctx_done p \<longrightarrow> filter is_final (in_flight p) = filter is_final sent"
    using assms(1) by (auto simp: carries_def)
  have "in_flight ?p = in_flight p \<or> in_flight ?p = in_flight p @ [e] \<and> included mode e"
    using set_up_emit [OF assms(2), of "ev_Type e"] by (auto simp: in_flight_def filtered_emit_def sm_emit_def included_def)
  then have "subseq (in_flight ?p) (filter (included mode) (sent @ [e]))"
    using s(2) by (auto intro: subseq_snoc subseq_snoc_right)
  moreover have "\<not> ctx_done ?p \<longrightarrow> filter is_final (in_flight ?p) = filter is_final (sent @ [e])"
    using \<open>in_flight ?p = _ \<or> _\<close> s(3) assms(4) by auto
  ultimately show ?thesis
    using s(1) assms(3) unfolding carries_def by (intro exI [of _ "sent @ [e]"]) auto
qed

lemma carries_final:
  assumes "carries mode evs p" and "set_up mode p" and "to_emit p = e # es" and "is_final e"
    and "send_final e (manager p) = Some (sm, Inr ())"
  shows "carries mode evs (p\<lparr>to_emit := es, manager := sm\<rparr>)"
proof -
  let ?p = "p\<lparr>to_emit := es, manager := sm\<rparr>"
  obtain sent where s: "evs = sent @ to_emit p" "subseq (in_flight p) (filter (included mode) sent)"
    "\<not> ctx_done p \<longrightarrow> filter is_final (in_flight p) = filter is_final sent"
    using assms(1) by (auto simp: carries_def)
  have "in_flight ?p = in_flight p @ [e]"
    using assms(5) by (auto simp: in_flight_def send_final_def set_up_emit [OF assms(2)] split: if_splits)
  moreover have "included mode e"
    using assms(4) by (simp add: included_def)
  ultimately show ?thesis
    using s assms(3,4) unfolding carries_def by (intro exI [of _ "sent @ [e]"]) (auto intro: subseq_snoc)
qed

lemma carries_step:
  assumes "pipe_step p p'" and "carries mode evs p" and "set_up mode p"
  shows "carries mode evs p'"
  using assms
proof (induction rule: pipe_step.induct)
  case (emit p e es)
  then show ?case
    using carries_emit by blast
next
  case (emit_final p e es sm)
  then show ?case
    using carries_final by blast
next
  case (quit p e)
  then show ?case
    by (auto simp: carries_def in_flight_def intro: subseq_order.trans [OF subseq_drop_middle])
qed (auto simp: carries_def in_flight_def sm_Close_def)

lemma carries_ctx_step:
  assumes "pipe_ctx_step p p'" and "carries mode evs p" and "set_up mode p"
  shows "carries mode evs p' \<and> set_up mode p'"
  using assms by (auto elim!: pipe_ctx_stepE intro: carries_step set_up_step) (auto simp: carries_def set_up_def in_flight_def)

text \<open>The work that is left: an event moves over at most four places.\<close>

definition pipe_work :: "pipeline \<Rightarrow> nat" where
  "pipe_work p = 4 * length (to_emit p) + 3 * length (eventCh (manager p)) + (if held p = None then 0 else 2) + length (outputCh p) +
     (if sm_closed (manager p) then 0 else 1) + (if out_closed p then 0 else 1) + (if forwarding p then 1 else 0) +
     (if ctx_done p then 0 else 1)"

lemma pipe_work_step: "pipe_step p p' \<Longrightarrow> pipe_work p' < pipe_work p"
  by (induction rule: pipe_step.induct)
    (auto simp: pipe_work_def filtered_emit_def sm_emit_def send_final_def sm_Close_def split: if_splits)

lemma pipe_work_ctx_step: "pipe_ctx_step p p' \<Longrightarrow> pipe_work p' < pipe_work p"
  by (auto elim!: pipe_ctx_stepE intro: pipe_work_step) (simp add: pipe_work_def)

text \<open>Where nothing moves, all is done, or the run waits for room for a final event that nobody forwards.\<close>

definition run_blocked :: "pipeline \<Rightarrow> bool" where
  "run_blocked p \<longleftrightarrow> ctx_done p \<and> \<not> forwarding p \<and> length (eventCh (manager p)) = 100 \<and>
     (\<exists>e es. to_emit p = e # es \<and> is_final e)"

lemma pipe_not_stuck:
  assumes "set_up mode p" and "\<nexists>p'. pipe_step p p'"
  shows "outputCh p = [] \<and> held p = None \<and> \<not> forwarding p \<and> (to_emit p = [] \<and> out_closed p \<or> run_blocked p)"
proof -
  have out: "outputCh p = []"
    using assms(2) pipe_step.read [of p] by (cases "outputCh p") auto
  have held: "held p = None"
    using assms(2) pipe_step.put [of p] out by (cases "held p") auto
  have ev: "eventCh (manager p) = []" if "forwarding p"
    using assms(2) pipe_step.take [of p] held that by (cases "eventCh (manager p)") auto
  have emit: "length (eventCh (manager p)) = 100 \<and> is_final e" if "to_emit p = e # es" for e es
  proof -
    have "\<not> sm_closed (manager p)"
      using assms(1) that by (auto simp: set_up_def)
    moreover have "is_final e"
      using assms(2) pipe_step.emit [OF that] by auto
    ultimately have "\<not> has_room (manager p)"
      using assms(2) pipe_step.emit_final [OF that] by (auto simp: send_final_def set_up_emit [OF assms(1)])
    then show ?thesis
      using assms(1) \<open>is_final e\<close> by (auto simp: has_room_def set_up_def)
  qed
  have fw: "\<not> forwarding p"
  proof
    assume fw: "forwarding p"
    then have "to_emit p = []"
      using ev emit by (cases "to_emit p") auto
    then have "sm_closed (manager p)"
      using assms(2) pipe_step.close_manager [of p] by auto
    then show False
      using assms(2) pipe_step.drained [OF _ ev [OF fw] held fw] by auto
  qed
  show ?thesis
  proof (cases "to_emit p")
    case Nil
    then have "sm_closed (manager p)"
      using assms(2) pipe_step.close_manager [of p] by auto
    then have "out_closed p"
      using assms(2) pipe_step.close_output [OF _ fw] by auto
    with Nil out held fw show ?thesis
      by simp
  next
    case (Cons e es)
    then have "ctx_done p"
      using assms(1) fw by (auto simp: set_up_def)
    with Cons emit [OF Cons] out held fw show ?thesis
      by (simp add: run_blocked_def)
  qed
qed

lemma sync_state_filter: "sync_state (filter is_final evs) acc = sync_state evs acc"
  by (induction evs arbitrary: acc) (auto simp: event_state_def)

lemma event_state_simps [simp]:
  "event_state (final_event step v) = Some v" "event_state (checkpoint_event step cp) = None"
  "event_state (task_start_event step node i) = None" "event_state (interrupt_event step names) = None"
  "event_state (values_event step vals) = None"
  by (simp_all add: event_state_def final_event_def checkpoint_event_def task_start_event_def interrupt_event_def values_event_def
      NewStreamEvent_def as_map_def)

lemma sync_state_engine: "sync_state (map engine_event evs) acc = final_state evs acc"
proof (induction evs arbitrary: acc)
  case (Cons e evs)
  then show ?case
    by (cases e) simp_all
qed simp

lemma pipe_steps:
  "(pipe_ctx_step ^^ n) p p' \<Longrightarrow> carries mode evs p \<Longrightarrow> set_up mode p \<Longrightarrow>
     carries mode evs p' \<and> set_up mode p' \<and> n + pipe_work p' \<le> pipe_work p"
proof (induction n arbitrary: p')
  case (Suc n)
  then obtain q where q: "(pipe_ctx_step ^^ n) p q" "pipe_ctx_step q p'"
    by auto
  with Suc have "carries mode evs q" "set_up mode q" "n + pipe_work q \<le> pipe_work p"
    by auto
  with q(2) carries_ctx_step [OF q(2)] pipe_work_ctx_step [OF q(2)] show ?case
    by auto
qed auto

lemma start_pipeline_carries: "carries mode evs (start_pipeline mode evs)" "set_up mode (start_pipeline mode evs)"
  "pipe_work (start_pipeline mode evs) = 4 * length evs + 4"
  by (simp_all add: start_pipeline_def carries_def in_flight_def set_up_def pipe_work_def NewStreamManager_def setupIncludeFilter_def)

text \<open>Without a done context, where nothing moves everything has been delivered.\<close>

lemma pipe_delivered:
  assumes "carries mode evs p" and "set_up mode p" and "\<nexists>p'. pipe_step p p'" and "\<not> ctx_done p"
  shows "to_emit p = [] \<and> out_closed p \<and> filter is_final (received p) = filter is_final evs"
proof -
  have stuck: "outputCh p = []" "held p = None" "\<not> forwarding p" "to_emit p = []" "out_closed p"
    using pipe_not_stuck [OF assms(2,3)] assms(4) by (auto simp: run_blocked_def)
  then have "in_flight p = received p"
    using assms(2,4) by (simp add: in_flight_def set_up_def)
  then show ?thesis
    using assms(1,4) stuck by (auto simp: carries_def)
qed

lemma carries_received: "carries mode evs p \<Longrightarrow> subseq (received p) (filter (included mode) evs)"
proof -
  assume "carries mode evs p"
  then obtain sent where "evs = sent @ to_emit p" "subseq (in_flight p) (filter (included mode) sent)"
    by (auto simp: carries_def)
  moreover have "subseq (received p) (in_flight p)"
    unfolding in_flight_def by (rule list_emb_prefix) simp
  ultimately have "subseq (received p) (filter (included mode) sent)"
    using subseq_order.trans by blast
  then show ?thesis
    using \<open>evs = sent @ to_emit p\<close> by (simp add: list_emb_prefix)
qed

text \<open>C13: however the run, the forwarding goroutine and the caller are scheduled, and whenever the context is done, they
  make at most four steps for each event and four more, and the caller reads events of its mode only, in their order.
  As long as the context is not done they do not block each other, and when nothing is left to do the output is closed and
  the caller has read every final event: the state it ends with is the one of the last final event of the run, whatever a
  full channel has dropped. Once the context is done, they stop with the output closed, or, the forwarder having returned,
  with the run waiting for ever to send a final event into a full channel.\<close>

theorem run_events_delivered:
  assumes "(pipe_ctx_step ^^ n) (start_pipeline mode evs) p"
  shows "n \<le> 4 * length evs + 4 \<and> subseq (received p) (filter (included mode) evs) \<and>
    ((\<exists>p'. pipe_step p p') \<or> to_emit p = [] \<and> out_closed p \<or> run_blocked p) \<and>
    (\<not> ctx_done p \<longrightarrow> (\<exists>p'. pipe_step p p') \<or>
     out_closed p \<and> filter is_final (received p) = filter is_final evs \<and>
     (\<forall>run_evs. filter is_final evs = filter is_final (map engine_event run_evs) \<longrightarrow>
        sync_state (received p) GNil = final_state run_evs GNil))"
proof -
  note start = start_pipeline_carries
  have p: "carries mode evs p" "set_up mode p" "n \<le> 4 * length evs + 4"
    using pipe_steps [OF assms start(1,2)] start(3) [of mode evs] by auto
  have "out_closed p \<and> filter is_final (received p) = filter is_final evs \<and>
     (\<forall>run_evs. filter is_final evs = filter is_final (map engine_event run_evs) \<longrightarrow>
        sync_state (received p) GNil = final_state run_evs GNil)" if nd: "\<not> ctx_done p" "\<nexists>p'. pipe_step p p'"
  proof -
    have out: "out_closed p" and final: "filter is_final (received p) = filter is_final evs"
      using pipe_delivered [OF p(1,2) nd(2,1)] by auto
    have "sync_state (received p) GNil = final_state run_evs GNil"
      if "filter is_final evs = filter is_final (map engine_event run_evs)" for run_evs
      using final that sync_state_filter [of "received p"] sync_state_filter [of "map engine_event run_evs"] sync_state_engine [of run_evs]
      by metis
    with out final show ?thesis
      by blast
  qed
  then show ?thesis
    using p(3) carries_received [OF p(1)] pipe_not_stuck [OF p(2)] by blast
qed

text \<open>A run of one final event, step by step.\<close>

definition demo_final :: stream_event where
  "demo_final = final_event 1 (GInt 7)"

lemmas pipe_example_defs = start_pipeline_def NewStreamManager_def setupIncludeFilter_def demo_final_def final_event_def NewStreamEvent_def

lemma demo_sent:
  "pipe_ctx_step (start_pipeline StreamModeValues [demo_final])
     ((start_pipeline StreamModeValues [])\<lparr>manager := (NewStreamManager StreamModeValues 100)\<lparr>eventCh := [demo_final]\<rparr>\<rparr>)"
proof -
  let ?p = "start_pipeline StreamModeValues [demo_final]"
  have "pipe_step ?p (?p\<lparr>to_emit := [], manager := (manager ?p)\<lparr>eventCh := [demo_final]\<rparr>\<rparr>)"
    by (rule pipe_step.emit_final) (simp_all add: pipe_example_defs send_final_def shouldEmit_def has_room_def)
  then show ?thesis
    by (intro pipe_ctx_step.step) (simp add: start_pipeline_def)
qed

lemma demo_taken:
  "pipe_ctx_step ((start_pipeline StreamModeValues [])\<lparr>manager := (NewStreamManager StreamModeValues 100)\<lparr>eventCh := [demo_final]\<rparr>\<rparr>)
     ((start_pipeline StreamModeValues [])\<lparr>held := Some demo_final\<rparr>)"
proof -
  let ?p = "(start_pipeline StreamModeValues [])\<lparr>manager := (NewStreamManager StreamModeValues 100)\<lparr>eventCh := [demo_final]\<rparr>\<rparr>"
  have "pipe_step ?p (?p\<lparr>manager := (manager ?p)\<lparr>eventCh := []\<rparr>, held := Some demo_final\<rparr>)"
    by (rule pipe_step.take) (simp_all add: start_pipeline_def)
  then show ?thesis
    by (intro pipe_ctx_step.step) (simp add: start_pipeline_def NewStreamManager_def setupIncludeFilter_def)
qed

theorem run_events_delivered_witness:
  "\<exists>p. (pipe_ctx_step ^^ 7) (start_pipeline StreamModeValues [demo_final]) p \<and> out_closed p \<and> sync_state (received p) GNil = GInt 7 \<and>
     7 \<le> 4 * length [demo_final] + 4 \<and> subseq (received p) [demo_final]"
proof -
  let ?p0 = "start_pipeline StreamModeValues []"
  let ?p2 = "?p0\<lparr>held := Some demo_final\<rparr>"
  let ?p3 = "?p0\<lparr>outputCh := [demo_final]\<rparr>"
  let ?p4 = "?p0\<lparr>received := [demo_final]\<rparr>"
  let ?p5 = "?p4\<lparr>manager := sm_Close (manager ?p0)\<rparr>"
  let ?p6 = "?p5\<lparr>forwarding := False\<rparr>"
  let ?p7 = "?p6\<lparr>out_closed := True\<rparr>"
  have "pipe_ctx_step ?p2 ?p3"
    using pipe_step.put [of ?p2 demo_final] by (intro pipe_ctx_step.step) (simp add: start_pipeline_def)
  moreover have "pipe_ctx_step ?p3 ?p4"
    using pipe_step.read [of ?p3 demo_final "[]"] by (intro pipe_ctx_step.step) (simp add: start_pipeline_def)
  moreover have "pipe_ctx_step ?p4 ?p5"
    using pipe_step.close_manager [of ?p4] by (intro pipe_ctx_step.step) (simp add: pipe_example_defs)
  moreover have "pipe_ctx_step ?p5 ?p6"
    using pipe_step.drained [of ?p5] by (intro pipe_ctx_step.step) (simp add: pipe_example_defs sm_Close_def)
  moreover have "pipe_ctx_step ?p6 ?p7"
    using pipe_step.close_output [of ?p6] by (intro pipe_ctx_step.step) (simp add: pipe_example_defs sm_Close_def)
  ultimately have "(pipe_ctx_step ^^ 7) (start_pipeline StreamModeValues [demo_final]) ?p7"
    using demo_sent demo_taken by (simp add: eval_nat_numeral relcompp_apply) blast
  from this run_events_delivered [OF this] show ?thesis
    by (intro exI [of _ ?p7]) (simp add: start_pipeline_def demo_final_def)
qed

section \<open>Where events go missing\<close>

text \<open>A context that is done while the forwarder holds the final event may lose it: the output is closed, the run has sent all
  its events without an error, and the caller has read nothing.\<close>

theorem cancelled_run_loses_final:
  "\<exists>p. pipe_ctx_step\<^sup>*\<^sup>* (start_pipeline StreamModeValues [demo_final]) p \<and> to_emit p = [] \<and> out_closed p \<and> received p = [] \<and>
     (\<nexists>p'. pipe_step p p')"
proof -
  let ?p0 = "start_pipeline StreamModeValues []"
  let ?p2 = "?p0\<lparr>held := Some demo_final\<rparr>"
  let ?p3 = "?p2\<lparr>ctx_done := True\<rparr>"
  let ?p4 = "?p0\<lparr>forwarding := False, ctx_done := True\<rparr>"
  let ?p5 = "?p4\<lparr>manager := sm_Close (manager ?p0)\<rparr>"
  let ?p6 = "?p5\<lparr>out_closed := True\<rparr>"
  have "pipe_ctx_step ?p2 ?p3"
    using pipe_ctx_step.cancel [of ?p2] by (simp add: start_pipeline_def)
  moreover have "pipe_ctx_step ?p3 ?p4"
    using pipe_step.quit [of ?p3 demo_final] by (intro pipe_ctx_step.step) (simp add: start_pipeline_def)
  moreover have "pipe_ctx_step ?p4 ?p5"
    using pipe_step.close_manager [of ?p4] by (intro pipe_ctx_step.step) (simp add: pipe_example_defs)
  moreover have "pipe_ctx_step ?p5 ?p6"
    using pipe_step.close_output [of ?p5] by (intro pipe_ctx_step.step) (simp add: pipe_example_defs sm_Close_def)
  ultimately have "pipe_ctx_step\<^sup>*\<^sup>* (start_pipeline StreamModeValues [demo_final]) ?p6"
    using demo_sent demo_taken by (meson converse_rtranclp_into_rtranclp rtranclp.rtrancl_refl)
  moreover have "\<nexists>p'. pipe_step ?p6 p'"
    by (auto simp: pipe_step.simps pipe_example_defs sm_Close_def)
  ultimately show ?thesis
    by (intro exI [of _ ?p6]) (simp add: start_pipeline_def)
qed

text \<open>The mode of custom data shows values and drops what a stream writer writes; so does the mode for messages.\<close>

theorem custom_mode_drops_writes:
  "StreamWriter_Write data w (NewStreamManager StreamModeCustom n) = NewStreamManager StreamModeCustom n"
  by (simp add: StreamWriter_Write_def sm_EmitDebug_def filtered_emit_def shouldEmit_def NewStreamManager_def setupIncludeFilter_def NewStreamEvent_def)

text \<open>The mode of values, documented to include interrupts, drops them.\<close>

theorem values_mode_drops_interrupts:
  "sm_EmitInterrupt step names (NewStreamManager StreamModeValues n) = NewStreamManager StreamModeValues n"
  by (simp add: sm_EmitInterrupt_def interrupt_event_def filtered_emit_def shouldEmit_def NewStreamManager_def setupIncludeFilter_def NewStreamEvent_def)

text \<open>An emission on a cancelled event stream may panic, and so does cancelling it twice.\<close>

theorem cancelled_stream_panics:
  assumes "EventStream_Cancel (NewEventStream b) = (es, Inr ())"
  shows "EventStream_Emit False event es = Some (es, Inl (PanicError ''send on closed channel''))"
    and "snd (EventStream_Cancel es) = Inl (PanicError ''close of closed channel'')"
  using assms by (auto simp: EventStream_Cancel_def NewEventStream_def EventStream_Emit_def)

end
