(* ===== verification/Streams.thy ===== *)
theory Streams
  imports GraphErrors "HOL-Library.Sublist"
begin

text \<open>
  Streams of chunks (\<^verbatim>\<open>types/stream.go\<close>): the stream over a Go channel, its iterators, the filtering and mapping streams
  built on another stream, and the loop of the duplex stream that forwards the chunks of its sources. \<^verbatim>\<open>Emit\<close> asks whether the stream is
  closed and sends in a second step, without the lock; emitters, readers, \<^verbatim>\<open>Close\<close> and the context are a step
  relation. The filters and maps are modelled as calls on a stream that nobody else uses meanwhile.
\<close>

section \<open>Chunks and channel streams\<close>

record StreamChunk =
  sc_Mode :: string
  sc_Data :: goval
  sc_Step :: int
  sc_Node :: string
  sc_Metadata :: gostate
  sc_Timestamp :: int
  sc_Index :: int

record ChannelStream =
  cs_mode :: string
  cs_ch :: "StreamChunk list"
  cs_cap :: nat
  cs_closed :: bool

definition NewChannelStream :: "string \<Rightarrow> nat \<Rightarrow> ChannelStream" where
  "NewChannelStream mode size_of_buffer = \<lparr>cs_mode = mode, cs_ch = [], cs_cap = size_of_buffer, cs_closed = False\<rparr>"

text \<open>The chunk as it is sent: its mode is replaced by that of the stream.\<close>

definition stamp :: "int \<Rightarrow> ChannelStream \<Rightarrow> StreamChunk \<Rightarrow> StreamChunk" where
  "stamp now s chunk = chunk\<lparr>sc_Mode := cs_mode s, sc_Timestamp := now\<rparr>"

text \<open>A call of \<^verbatim>\<open>Emit\<close> that nobody interferes with; \<^const>\<open>None\<close> waits for room. Where the context is done as well, the
  runtime picks a case of the \<^verbatim>\<open>select\<close>: the argument \<open>pick_done\<close>.\<close>

definition ChannelStream_Emit ::
  "int \<Rightarrow> bool \<Rightarrow> bool \<Rightarrow> StreamChunk \<Rightarrow> ChannelStream \<Rightarrow> (gerror, ChannelStream, unit) outcome option" where
  "ChannelStream_Emit now ctx_done pick_done chunk s =
     (if cs_closed s then Some (s, Inl (StreamError ''stream is closed''))
      else let ready = length (cs_ch s) < cs_cap s
           in if ctx_done \<and> (pick_done \<or> \<not> ready) then Some (s, Inl CancelledError)
              else if ready then Some (s\<lparr>cs_ch := cs_ch s @ [stamp now s chunk]\<rparr>, Inr ())
              else None)"

definition ChannelStream_Close :: "ChannelStream \<Rightarrow> ChannelStream" where
  "ChannelStream_Close s = (if cs_closed s then s else s\<lparr>cs_closed := True\<rparr>)"

definition ChannelStream_IsClosed :: "ChannelStream \<Rightarrow> bool" where
  "ChannelStream_IsClosed s = cs_closed s"

section \<open>Filters, maps and their iterators\<close>

datatype StreamProtocol =
  PChannel ChannelStream
| PFilter StreamProtocol "(StreamChunk \<Rightarrow> bool) option"
| PMap StreamProtocol "(StreamChunk \<Rightarrow> StreamChunk) option"

primrec Stream_Emit :: "int \<Rightarrow> StreamChunk \<Rightarrow> StreamProtocol \<Rightarrow> (gerror, StreamProtocol, unit) outcome option" where
  "Stream_Emit now chunk (PChannel s) = map_option (\<lambda>(s', r). (PChannel s', r)) (ChannelStream_Emit now False False chunk s)"
| "Stream_Emit now chunk (PFilter src p) =
     (if (case p of None \<Rightarrow> True | Some f \<Rightarrow> f chunk)
      then map_option (\<lambda>(src', r). (PFilter src' p, r)) (Stream_Emit now chunk src)
      else Some (PFilter src p, Inr ()))"
| "Stream_Emit now chunk (PMap src f) =
     map_option (\<lambda>(src', r). (PMap src' f, r)) (Stream_Emit now (case f of None \<Rightarrow> chunk | Some g \<Rightarrow> g chunk) src)"

primrec base :: "StreamProtocol \<Rightarrow> ChannelStream" where
  "base (PChannel s) = s"
| "base (PFilter src p) = base src"
| "base (PMap src f) = base src"

definition Stream_Close :: "StreamProtocol \<Rightarrow> ChannelStream" where
  "Stream_Close p = ChannelStream_Close (base p)"

definition Stream_IsClosed :: "StreamProtocol \<Rightarrow> bool" where
  "Stream_IsClosed p = cs_closed (base p)"

definition Stream_Mode :: "StreamProtocol \<Rightarrow> string" where
  "Stream_Mode p = cs_mode (base p)"

text \<open>Iterators read from the channel of the stream they were made for; the flag of a channel iterator says that it is
  closed, and a filtering iterator remembers the error it has met. Its field \<^verbatim>\<open>peeked\<close> is never set by the code and left
  out.\<close>

datatype StreamIterator =
  IChannel bool
| IFilter StreamIterator "(StreamChunk \<Rightarrow> bool) option" "gerror option"
| IMap StreamIterator "(StreamChunk \<Rightarrow> StreamChunk) option"

primrec Iterator :: "StreamProtocol \<Rightarrow> StreamIterator" where
  "Iterator (PChannel s) = IChannel False"
| "Iterator (PFilter src p) = IFilter (Iterator src) p None"
| "Iterator (PMap src f) = IMap (Iterator src) f"

text \<open>A call of \<^verbatim>\<open>Next\<close>: it returns a chunk, fails, or waits on an empty open channel.\<close>

datatype next_result = Got StreamChunk | Fails gerror | Waits

definition EOF :: gerror where
  "EOF = PlainError ''EOF'' []"

definition channel_Next :: "bool \<Rightarrow> ChannelStream \<Rightarrow> bool \<times> ChannelStream \<times> next_result" where
  "channel_Next it_closed s =
     (if it_closed then (it_closed, s, Fails EOF)
      else (case cs_ch s of
              c # cs \<Rightarrow> (it_closed, s\<lparr>cs_ch := cs\<rparr>, Got c)
            | [] \<Rightarrow> if cs_closed s then (True, s, Fails EOF) else (it_closed, s, Waits)))"

text \<open>The loop of a filtering iterator over its source, with as much fuel as the channel holds chunks, and one more:
  each round takes a chunk out of the channel.\<close>

fun filter_loop ::
  "nat \<Rightarrow> (StreamChunk \<Rightarrow> bool) \<Rightarrow> (StreamIterator \<Rightarrow> ChannelStream \<Rightarrow> StreamIterator \<times> ChannelStream \<times> next_result) \<Rightarrow>
   StreamIterator \<Rightarrow> ChannelStream \<Rightarrow> StreamIterator \<times> ChannelStream \<times> next_result" where
  "filter_loop 0 p nxt it s = (it, s, Waits)"
| "filter_loop (Suc n) p nxt it s =
     (case nxt it s of
        (it', s', Got c) \<Rightarrow> if p c then (it', s', Got c) else filter_loop n p nxt it' s'
      | (it', s', r) \<Rightarrow> (it', s', r))"

fun wrap_filter :: "(StreamChunk \<Rightarrow> bool) option \<Rightarrow> StreamIterator \<times> ChannelStream \<times> next_result \<Rightarrow> StreamIterator \<times> ChannelStream \<times> next_result" where
  "wrap_filter p (it, s, Fails e) = (IFilter it p (Some e), s, Fails e)"
| "wrap_filter p (it, s, r) = (IFilter it p None, s, r)"

fun wrap_map :: "(StreamChunk \<Rightarrow> StreamChunk) option \<Rightarrow> StreamIterator \<times> ChannelStream \<times> next_result \<Rightarrow> StreamIterator \<times> ChannelStream \<times> next_result" where
  "wrap_map f (it, s, Got c) = (IMap it f, s, Got (case f of None \<Rightarrow> c | Some g \<Rightarrow> g c))"
| "wrap_map f (it, s, r) = (IMap it f, s, r)"

text \<open>The nesting depth bounds the calls of the iterators within each other.\<close>

primrec depth :: "StreamIterator \<Rightarrow> nat" where
  "depth (IChannel c) = 0"
| "depth (IFilter it p e) = Suc (depth it)"
| "depth (IMap it f) = Suc (depth it)"

fun Next :: "nat \<Rightarrow> StreamIterator \<Rightarrow> ChannelStream \<Rightarrow> StreamIterator \<times> ChannelStream \<times> next_result" where
  "Next d (IChannel c) s = (let (c', s', r) = channel_Next c s in (IChannel c', s', r))"
| "Next (Suc d) (IFilter it p err) s =
     (case err of
        Some e \<Rightarrow> (IFilter it p err, s, Fails e)
      | None \<Rightarrow>
          wrap_filter p (filter_loop (Suc (length (cs_ch s))) (case p of None \<Rightarrow> (\<lambda>c. True) | Some f \<Rightarrow> f) (Next d) it s))"
| "Next (Suc d) (IMap it f) s = wrap_map f (Next d it s)"
| "Next 0 it s = (it, s, Waits)"

definition Iterator_Next :: "StreamIterator \<Rightarrow> ChannelStream \<Rightarrow> StreamIterator \<times> ChannelStream \<times> next_result" where
  "Iterator_Next it s = Next (depth it) it s"

primrec HasMore :: "StreamIterator \<Rightarrow> ChannelStream \<Rightarrow> bool" where
  "HasMore (IChannel c) s = (\<not> c \<and> cs_ch s \<noteq> [])"
| "HasMore (IFilter it p err) s = (err = None \<and> HasMore it s)"
| "HasMore (IMap it f) s = HasMore it s"

primrec Iterator_Close :: "StreamIterator \<Rightarrow> StreamIterator" where
  "Iterator_Close (IChannel c) = IChannel True"
| "Iterator_Close (IFilter it p err) = IFilter (Iterator_Close it) p err"
| "Iterator_Close (IMap it f) = IMap (Iterator_Close it) f"

section \<open>The duplex stream\<close>

text \<open>One round of the forwarding loop for the source with the given index, while its context is not done: the chunk gets
  its source, and the output stream its own mode. The result says whether the loop goes on.\<close>

definition multiplex :: "int \<Rightarrow> nat \<Rightarrow> StreamChunk \<Rightarrow> ChannelStream \<Rightarrow> (ChannelStream \<times> bool) option" where
  "multiplex now index chunk out =
     map_option (\<lambda>(out', r). (out', is_ok r))
       (ChannelStream_Emit now False False (chunk\<lparr>sc_Metadata := gm_set ''source'' (GInt (of_nat index)) (sc_Metadata chunk)\<rparr>) out)"

definition duplex_output :: ChannelStream where
  "duplex_output = NewChannelStream ''values'' 100"

section \<open>Emitters and readers of one stream\<close>

text \<open>The phases of a call of \<^verbatim>\<open>Emit\<close>: before the question whether the stream is closed, before the \<^verbatim>\<open>select\<close>, and its ends.\<close>

datatype emit_phase = Asking StreamChunk | Sending StreamChunk | Returned "gerror option" StreamChunk | Panicked

record stream_system =
  ss_stream :: ChannelStream
  ss_calls :: "emit_phase list"
  ss_read :: "StreamChunk list"
  ss_done :: bool

inductive stream_step :: "stream_system \<Rightarrow> stream_system \<Rightarrow> bool" where
  ask_closed: "i < length (ss_calls q) \<Longrightarrow> ss_calls q ! i = Asking c \<Longrightarrow> cs_closed (ss_stream q) \<Longrightarrow>
    stream_step q (q\<lparr>ss_calls := (ss_calls q)[i := Returned (Some (StreamError ''stream is closed'')) c]\<rparr>)"
| ask_open: "i < length (ss_calls q) \<Longrightarrow> ss_calls q ! i = Asking c \<Longrightarrow> \<not> cs_closed (ss_stream q) \<Longrightarrow>
    stream_step q (q\<lparr>ss_calls := (ss_calls q)[i := Sending (stamp now (ss_stream q) c)]\<rparr>)"
| send: "i < length (ss_calls q) \<Longrightarrow> ss_calls q ! i = Sending c \<Longrightarrow> \<not> cs_closed (ss_stream q) \<Longrightarrow>
    length (cs_ch (ss_stream q)) < cs_cap (ss_stream q) \<Longrightarrow>
    stream_step q (q\<lparr>ss_stream := (ss_stream q)\<lparr>cs_ch := cs_ch (ss_stream q) @ [c]\<rparr>, ss_calls := (ss_calls q)[i := Returned None c]\<rparr>)"
| hand_over: "i < length (ss_calls q) \<Longrightarrow> ss_calls q ! i = Sending c \<Longrightarrow> \<not> cs_closed (ss_stream q) \<Longrightarrow>
    cs_cap (ss_stream q) = 0 \<Longrightarrow>
    stream_step q (q\<lparr>ss_read := ss_read q @ [c], ss_calls := (ss_calls q)[i := Returned None c]\<rparr>)"
| send_closed: "i < length (ss_calls q) \<Longrightarrow> ss_calls q ! i = Sending c \<Longrightarrow> cs_closed (ss_stream q) \<Longrightarrow>
    stream_step q (q\<lparr>ss_calls := (ss_calls q)[i := Panicked]\<rparr>)"
| give_up: "i < length (ss_calls q) \<Longrightarrow> ss_calls q ! i = Sending c \<Longrightarrow> ss_done q \<Longrightarrow>
    stream_step q (q\<lparr>ss_calls := (ss_calls q)[i := Returned (Some CancelledError) c]\<rparr>)"
| receive: "cs_ch (ss_stream q) = c # cs \<Longrightarrow>
    stream_step q (q\<lparr>ss_stream := (ss_stream q)\<lparr>cs_ch := cs\<rparr>, ss_read := ss_read q @ [c]\<rparr>)"
| close: "stream_step q (q\<lparr>ss_stream := ChannelStream_Close (ss_stream q)\<rparr>)"
| cancel: "stream_step q (q\<lparr>ss_done := True\<rparr>)"
| call: "stream_step q (q\<lparr>ss_calls := ss_calls q @ [Asking c]\<rparr>)"

definition new_system :: "string \<Rightarrow> nat \<Rightarrow> stream_system" where
  "new_system mode cap = \<lparr>ss_stream = NewChannelStream mode cap, ss_calls = [], ss_read = [], ss_done = False\<rparr>"


section \<open>What is emitted is read once, in order\<close>

fun taken :: "emit_phase \<Rightarrow> StreamChunk multiset" where
  "taken (Returned None c) = {#c#}"
| "taken _ = {#}"

definition accepted :: "emit_phase list \<Rightarrow> StreamChunk multiset" where
  "accepted calls = sum_list (map taken calls)"

abbreviation through :: "stream_system \<Rightarrow> StreamChunk list" where
  "through q \<equiv> ss_read q @ cs_ch (ss_stream q)"

lemma accepted_update:
  "i < length calls \<Longrightarrow> taken (calls ! i) = {#} \<Longrightarrow> accepted (calls[i := ph]) = accepted calls + taken ph"
proof (induction calls arbitrary: i)
  case (Cons c calls)
  then show ?case
    by (cases i) (auto simp: accepted_def)
qed simp

fun phase_ok :: "string \<Rightarrow> emit_phase \<Rightarrow> bool" where
  "phase_ok mode (Sending c) \<longleftrightarrow> sc_Mode c = mode"
| "phase_ok mode _ \<longleftrightarrow> True"

definition stream_inv :: "string \<Rightarrow> stream_system \<Rightarrow> bool" where
  "stream_inv mode q \<longleftrightarrow> mset (through q) = accepted (ss_calls q) \<and> length (cs_ch (ss_stream q)) \<le> cs_cap (ss_stream q) \<and>
     cs_mode (ss_stream q) = mode \<and> (\<forall>ph \<in> set (ss_calls q). phase_ok mode ph) \<and> (\<forall>c \<in> set (through q). sc_Mode c = mode)"

lemma sending_mode: "\<forall>ph \<in> set calls. phase_ok mode ph \<Longrightarrow> i < length calls \<Longrightarrow> calls ! i = Sending c \<Longrightarrow> sc_Mode c = mode"
  by (metis nth_mem phase_ok.simps(1))

lemma stream_inv_step:
  assumes "stream_step q q'" and "stream_inv mode q"
  shows "stream_inv mode q' \<and> prefix (through q) (through q')"
  using assms
proof (induction rule: stream_step.induct)
  case (send i q c)
  then have "sc_Mode c = mode"
    using sending_mode [of "ss_calls q" mode i c] by (simp add: stream_inv_def)
  with send show ?case
    by (auto simp: stream_inv_def accepted_update dest!: set_update_subset_insert [THEN subsetD])
next
  case (hand_over i q c)
  then have "sc_Mode c = mode"
    using sending_mode [of "ss_calls q" mode i c] by (simp add: stream_inv_def)
  with hand_over show ?case
    by (auto simp: stream_inv_def accepted_update dest!: set_update_subset_insert [THEN subsetD])
next
  case (call q c)
  then show ?case
    by (auto simp: stream_inv_def accepted_def)
qed (auto simp: stream_inv_def accepted_update stamp_def ChannelStream_Close_def dest!: set_update_subset_insert [THEN subsetD])

lemma stream_inv_steps: "stream_step\<^sup>*\<^sup>* q q' \<Longrightarrow> stream_inv mode q \<Longrightarrow> stream_inv mode q' \<and> prefix (through q) (through q')"
proof (induction rule: rtranclp_induct)
  case (step q' q'')
  then show ?case
    using stream_inv_step [OF step(2)] by (auto intro: prefix_order.trans)
qed simp

lemma new_system_inv: "stream_inv mode (new_system mode cap)"
  by (simp add: stream_inv_def new_system_def NewChannelStream_def accepted_def)

text \<open>C15: however emitters, readers, closing and cancelling are interleaved, the chunks that have been read or wait in the
  channel are exactly those whose emission returned without an error, each of them once and with the mode of the
  stream; at most the capacity waits, and chunks are read in the order in which they were accepted.\<close>

theorem stream_exactly_once:
  assumes "stream_step\<^sup>*\<^sup>* (new_system mode cap) q" and "stream_step\<^sup>*\<^sup>* q q'"
  shows "mset (through q) = accepted (ss_calls q) \<and> length (cs_ch (ss_stream q)) \<le> cs_cap (ss_stream q) \<and>
    (\<forall>c \<in> set (through q). sc_Mode c = mode) \<and> prefix (through q) (through q')"
  using stream_inv_steps [OF assms(1) new_system_inv] stream_inv_steps [OF assms(2), of mode] by (simp add: stream_inv_def)

definition some_chunk :: StreamChunk where
  "some_chunk = \<lparr>sc_Mode = [], sc_Data = GNil, sc_Step = 0, sc_Node = ''n'', sc_Metadata = [], sc_Timestamp = 0, sc_Index = 0\<rparr>"

lemma emit_path:
  assumes "0 < cap"
  shows "stream_step\<^sup>*\<^sup>* (new_system mode cap)
    \<lparr>ss_stream = \<lparr>cs_mode = mode, cs_ch = [c\<lparr>sc_Mode := mode, sc_Timestamp := t\<rparr>], cs_cap = cap, cs_closed = False\<rparr>,
     ss_calls = [Returned None (c\<lparr>sc_Mode := mode, sc_Timestamp := t\<rparr>)], ss_read = [], ss_done = False\<rparr>"
proof -
  let ?q0 = "new_system mode cap"
  let ?q1 = "?q0\<lparr>ss_calls := ss_calls ?q0 @ [Asking c]\<rparr>"
  let ?q2 = "?q1\<lparr>ss_calls := (ss_calls ?q1)[0 := Sending (stamp t (ss_stream ?q1) c)]\<rparr>"
  note d = new_system_def NewChannelStream_def stamp_def
  have "stream_step ?q0 ?q1"
    by (rule stream_step.call)
  moreover have "stream_step ?q1 ?q2"
    by (rule stream_step.ask_open [of 0 _ c]) (simp_all add: d)
  moreover have "stream_step ?q2 (?q2\<lparr>ss_stream := (ss_stream ?q2)\<lparr>cs_ch := cs_ch (ss_stream ?q2) @ [stamp t (ss_stream ?q1) c]\<rparr>,
      ss_calls := (ss_calls ?q2)[0 := Returned None (stamp t (ss_stream ?q1) c)]\<rparr>)"
    using assms by (intro stream_step.send) (simp_all add: d)
  ultimately show ?thesis
    by (simp add: d)
qed

theorem stream_exactly_once_witness:
  "\<exists>q. stream_step\<^sup>*\<^sup>* (new_system ''updates'' 1) q \<and> length (through q) = 1 \<and> mset (through q) = accepted (ss_calls q)"
proof -
  from emit_path [where cap = 1 and mode = "''updates''" and c = some_chunk and t = 0] obtain q
    where q: "stream_step\<^sup>*\<^sup>* (new_system ''updates'' 1) q" "length (through q) = 1"
    by auto
  with stream_exactly_once [OF q(1) rtranclp.rtrancl_refl] show ?thesis
    by auto
qed

section \<open>Iterators read the filtered and mapped channel\<close>

abbreviation pred_of :: "(StreamChunk \<Rightarrow> bool) option \<Rightarrow> StreamChunk \<Rightarrow> bool" where
  "pred_of p \<equiv> (case p of None \<Rightarrow> (\<lambda>c. True) | Some f \<Rightarrow> f)"

primrec iview :: "StreamIterator \<Rightarrow> StreamChunk list \<Rightarrow> StreamChunk list" where
  "iview (IChannel c) cs = cs"
| "iview (IFilter it p err) cs = filter (pred_of p) (iview it cs)"
| "iview (IMap it f) cs = map (\<lambda>c. case f of None \<Rightarrow> c | Some g \<Rightarrow> g c) (iview it cs)"

primrec fresh :: "StreamIterator \<Rightarrow> bool" where
  "fresh (IChannel c) = (\<not> c)"
| "fresh (IFilter it p err) = (err = None \<and> fresh it)"
| "fresh (IMap it f) = fresh it"

definition reads :: "(StreamIterator \<Rightarrow> ChannelStream \<Rightarrow> StreamIterator \<times> ChannelStream \<times> next_result) \<Rightarrow> StreamIterator \<Rightarrow> (StreamChunk list \<Rightarrow> StreamChunk list) \<Rightarrow> bool" where
  "reads nxt it vw \<longleftrightarrow>
     (\<forall>s. case vw (cs_ch s) of
        c # cs \<Rightarrow> \<exists>buf. nxt it s = (it, s\<lparr>cs_ch := buf\<rparr>, Got c) \<and> vw buf = cs \<and> length buf < length (cs_ch s)
      | [] \<Rightarrow> \<exists>it'. nxt it s = (it', s\<lparr>cs_ch := []\<rparr>, if cs_closed s then Fails EOF else Waits))"

lemma reads_Nil:
  "reads nxt it vw \<Longrightarrow> vw (cs_ch s) = [] \<Longrightarrow> \<exists>it'. nxt it s = (it', s\<lparr>cs_ch := []\<rparr>, if cs_closed s then Fails EOF else Waits)"
  unfolding reads_def by (drule spec [of _ s]) simp

lemma reads_Cons:
  "reads nxt it vw \<Longrightarrow> vw (cs_ch s) = c # cs \<Longrightarrow>
     \<exists>buf. nxt it s = (it, s\<lparr>cs_ch := buf\<rparr>, Got c) \<and> vw buf = cs \<and> length buf < length (cs_ch s)"
  unfolding reads_def by (drule spec [of _ s]) simp

lemma readsI:
  assumes "\<And>s. vw (cs_ch s) = [] \<Longrightarrow> \<exists>it'. nxt it s = (it', s\<lparr>cs_ch := []\<rparr>, if cs_closed s then Fails EOF else Waits)"
    and "\<And>s c cs. vw (cs_ch s) = c # cs \<Longrightarrow>
      \<exists>buf. nxt it s = (it, s\<lparr>cs_ch := buf\<rparr>, Got c) \<and> vw buf = cs \<and> length buf < length (cs_ch s)"
  shows "reads nxt it vw"
  unfolding reads_def
proof
  fix s
  show "case vw (cs_ch s) of
      c # cs \<Rightarrow> \<exists>buf. nxt it s = (it, s\<lparr>cs_ch := buf\<rparr>, Got c) \<and> vw buf = cs \<and> length buf < length (cs_ch s)
    | [] \<Rightarrow> \<exists>it'. nxt it s = (it', s\<lparr>cs_ch := []\<rparr>, if cs_closed s then Fails EOF else Waits)"
    using assms(1) [of s] assms(2) [of s] by (cases "vw (cs_ch s)") simp_all
qed

lemma filter_loop_reads:
  assumes "reads nxt it vw" and "length (cs_ch s) < n"
  shows "case filter p (vw (cs_ch s)) of
      c # cs \<Rightarrow> \<exists>buf. filter_loop n p nxt it s = (it, s\<lparr>cs_ch := buf\<rparr>, Got c) \<and> filter p (vw buf) = cs \<and> length buf < length (cs_ch s)
    | [] \<Rightarrow> \<exists>it'. filter_loop n p nxt it s = (it', s\<lparr>cs_ch := []\<rparr>, if cs_closed s then Fails EOF else Waits)"
  using assms(2)
proof (induction n arbitrary: s)
  case (Suc n)
  show ?case
  proof (cases "vw (cs_ch s)")
    case Nil
    then obtain it' where "nxt it s = (it', s\<lparr>cs_ch := []\<rparr>, if cs_closed s then Fails EOF else Waits)"
      using reads_Nil [OF assms(1)] by blast
    with Nil show ?thesis
      by auto
  next
    case (Cons c cs)
    then obtain buf where buf: "nxt it s = (it, s\<lparr>cs_ch := buf\<rparr>, Got c)" "vw buf = cs" "length buf < length (cs_ch s)"
      using reads_Cons [OF assms(1)] by blast
    show ?thesis
    proof (cases "p c")
      case False
      then show ?thesis
        using Suc.IH [of "s\<lparr>cs_ch := buf\<rparr>"] Suc.prems buf Cons by (auto split: list.splits)
    qed (use buf Cons in auto)
  qed
qed simp

lemma Next_reads: "fresh it \<Longrightarrow> depth it \<le> d \<Longrightarrow> reads (Next d) it (iview it)"
proof (induction it arbitrary: d)
  case (IChannel c)
  then show ?case
    by (auto simp: reads_def channel_Next_def split: list.split)
next
  case (IFilter it p err)
  then obtain d' where d: "d = Suc d'" "depth it \<le> d'"
    by (cases d) auto
  have "reads (Next d') it (iview it)"
    using IFilter d by simp
  note loop = filter_loop_reads [OF this, of _ "Suc (length (cs_ch _))" "pred_of p"]
  show ?case
    unfolding reads_def
  proof
    fix s
    show "case iview (IFilter it p err) (cs_ch s) of
        c # cs \<Rightarrow> \<exists>buf. Next d (IFilter it p err) s = (IFilter it p err, s\<lparr>cs_ch := buf\<rparr>, Got c) \<and>
          iview (IFilter it p err) buf = cs \<and> length buf < length (cs_ch s)
      | [] \<Rightarrow> \<exists>it'. Next d (IFilter it p err) s = (it', s\<lparr>cs_ch := []\<rparr>, if cs_closed s then Fails EOF else Waits)"
      using loop [of s s] IFilter.prems(1) by (auto simp: d split: list.splits)
  qed
next
  case (IMap it f)
  then obtain d' where d: "d = Suc d'" "depth it \<le> d'"
    by (cases d) auto
  then have sub: "reads (Next d') it (iview it)"
    using IMap by simp
  show ?case
  proof (rule readsI)
    fix s :: ChannelStream
    assume "iview (IMap it f) (cs_ch s) = []"
    then show "\<exists>it'. Next d (IMap it f) s = (it', s\<lparr>cs_ch := []\<rparr>, if cs_closed s then Fails EOF else Waits)"
      using reads_Nil [OF sub, of s] by (auto simp: d)
  next
    fix s :: ChannelStream and c cs
    assume "iview (IMap it f) (cs_ch s) = c # cs"
    then show "\<exists>buf. Next d (IMap it f) s = (IMap it f, s\<lparr>cs_ch := buf\<rparr>, Got c) \<and> iview (IMap it f) buf = cs \<and>
        length buf < length (cs_ch s)"
      using reads_Cons [OF sub, of s] by (fastforce simp: d Cons_eq_map_conv eq_commute [of _ "_ # _"])
  qed
qed

text \<open>Reading until nothing more comes.\<close>

fun drain :: "nat \<Rightarrow> StreamIterator \<Rightarrow> ChannelStream \<Rightarrow> StreamChunk list \<times> next_result" where
  "drain 0 it s = ([], Waits)"
| "drain (Suc n) it s =
     (case Iterator_Next it s of
        (it', s', Got c) \<Rightarrow> (let (cs, r) = drain n it' s' in (c # cs, r))
      | (it', s', r) \<Rightarrow> ([], r))"

lemma drain_fresh:
  "fresh it \<Longrightarrow> length (cs_ch s) < n \<Longrightarrow> drain n it s = (iview it (cs_ch s), if cs_closed s then Fails EOF else Waits)"
proof (induction n arbitrary: s)
  case (Suc n)
  have sub: "reads (Next (depth it)) it (iview it)"
    using Suc.prems by (intro Next_reads) simp_all
  show ?case
  proof (cases "iview it (cs_ch s)")
    case Nil
    then show ?thesis
      using reads_Nil [OF sub Nil] by (auto simp: Iterator_Next_def)
  next
    case (Cons c cs)
    then show ?thesis
      using reads_Cons [OF sub Cons] Suc.IH Suc.prems by (auto simp: Iterator_Next_def)
  qed
qed simp

text \<open>What a stream shows of the chunks in its channel.\<close>

primrec view :: "StreamProtocol \<Rightarrow> StreamChunk list \<Rightarrow> StreamChunk list" where
  "view (PChannel s) cs = cs"
| "view (PFilter src p) cs = filter (pred_of p) (view src cs)"
| "view (PMap src f) cs = map (\<lambda>c. case f of None \<Rightarrow> c | Some g \<Rightarrow> g c) (view src cs)"

lemma fresh_Iterator [simp]: "fresh (Iterator p)" "iview (Iterator p) cs = view p cs"
  by (induction p) auto

text \<open>Reading from the iterator of a stream built by filters and maps, in any nesting, gives the chunks of the
  underlying channel filtered and mapped in that order, and then the end of the stream if it is closed; the filtering
  loops never run out of chunks too early.\<close>

theorem iterator_reads_view:
  assumes "length (cs_ch (base p)) < n"
  shows "drain n (Iterator p) (base p) = (view p (cs_ch (base p)), if Stream_IsClosed p then Fails EOF else Waits)"
  using drain_fresh [OF fresh_Iterator(1) assms] by (simp add: Stream_IsClosed_def)

definition two_chunks :: StreamProtocol where
  "two_chunks = PFilter (PMap (PChannel \<lparr>cs_mode = [], cs_ch = [some_chunk, some_chunk\<lparr>sc_Step := 1\<rparr>], cs_cap = 2, cs_closed = True\<rparr>)
     (Some (\<lambda>c. c\<lparr>sc_Step := sc_Step c + 1\<rparr>))) (Some (\<lambda>c. sc_Step c > 1))"

theorem iterator_reads_view_witness:
  "drain 3 (Iterator two_chunks) (base two_chunks) = ([some_chunk\<lparr>sc_Step := 2\<rparr>], Fails EOF)"
  using iterator_reads_view [of two_chunks 3] by (simp add: two_chunks_def Stream_IsClosed_def some_chunk_def)

section \<open>Races and surprises\<close>

text \<open>A call of \<^verbatim>\<open>Emit\<close> that has found the stream open panics when the stream is closed before it sends.\<close>

theorem close_races_with_emit:
  "\<exists>q. stream_step\<^sup>*\<^sup>* (new_system mode cap) q \<and> Panicked \<in> set (ss_calls q)"
proof -
  let ?q0 = "new_system mode cap"
  let ?q1 = "?q0\<lparr>ss_calls := ss_calls ?q0 @ [Asking some_chunk]\<rparr>"
  let ?q2 = "?q1\<lparr>ss_calls := (ss_calls ?q1)[0 := Sending (stamp 0 (ss_stream ?q1) some_chunk)]\<rparr>"
  let ?q3 = "?q2\<lparr>ss_stream := ChannelStream_Close (ss_stream ?q2)\<rparr>"
  let ?q4 = "?q3\<lparr>ss_calls := (ss_calls ?q3)[0 := Panicked]\<rparr>"
  note d = new_system_def NewChannelStream_def stamp_def ChannelStream_Close_def
  have "stream_step ?q0 ?q1"
    by (rule stream_step.call)
  moreover have "stream_step ?q1 ?q2"
    by (rule stream_step.ask_open [of 0 _ some_chunk]) (simp_all add: d)
  moreover have "stream_step ?q2 ?q3"
    by (rule stream_step.close)
  moreover have "stream_step ?q3 ?q4"
    by (rule stream_step.send_closed) (simp_all add: d)
  moreover have "Panicked \<in> set (ss_calls ?q4)"
    by (simp add: d)
  ultimately show ?thesis
    by (meson converse_rtranclp_into_rtranclp rtranclp.rtrancl_refl)
qed

text \<open>A mapping stream maps a chunk when it is emitted and again when it is read.\<close>

theorem map_applied_twice:
  assumes "0 < cap"
  shows "\<exists>p. Stream_Emit now chunk (PMap (PChannel (NewChannelStream mode cap)) (Some f)) = Some (p, Inr ()) \<and>
    snd (snd (Iterator_Next (Iterator p) (base p))) = Got (f (stamp now (NewChannelStream mode cap) (f chunk)))"
  using assms(1) by (simp add: ChannelStream_Emit_def NewChannelStream_def Iterator_Next_def channel_Next_def stamp_def)

text \<open>A filtering iterator says that there is more although the next call waits.\<close>

theorem HasMore_overpromises:
  "\<exists>p. HasMore (Iterator p) (base p) \<and> snd (snd (Iterator_Next (Iterator p) (base p))) = Waits"
proof -
  let ?p = "PFilter (PChannel ((NewChannelStream [] 1)\<lparr>cs_ch := [some_chunk]\<rparr>)) (Some (\<lambda>c. False))"
  have "HasMore (Iterator ?p) (base ?p) \<and> snd (snd (Iterator_Next (Iterator ?p) (base ?p))) = Waits"
    by (simp add: NewChannelStream_def Iterator_Next_def channel_Next_def)
  then show ?thesis
    by blast
qed

text \<open>The chunks that a duplex stream forwards lose the mode of their source.\<close>

theorem duplex_loses_mode:
  "\<exists>out. multiplex now i chunk duplex_output = Some (out, True) \<and> map sc_Mode (cs_ch out) = [''values'']"
  by (simp add: multiplex_def duplex_output_def NewChannelStream_def ChannelStream_Emit_def stamp_def)

end
