(* ===== verification/MessageStream.thy ===== *)
theory MessageStream
  imports Routing Streams
begin

text \<open>
  Streaming of messages from nodes (\<^verbatim>\<open>pregel/messages.go\<close>): chunks of text are gathered into messages, one stream per
  node, and an aggregator hands complete messages to its emitters. An emitter acts on the world \<open>'w\<close> outside; the
  world is passed along. A call of the handler holds its lock, so calls are single steps.
\<close>

section \<open>Chunks and streams\<close>

record ToolCall =
  tc_ID :: string
  tc_Name :: string
  tc_Arguments :: gostate

record MessageChunk =
  mc_Index :: int
  mc_Content :: string
  mc_Metadata :: gostate
  mc_IsComplete :: bool
  mc_Role :: string
  mc_ToolCalls :: "ToolCall list"

record MessageStream =
  mst_node :: string
  mst_chunks :: "MessageChunk list"
  mst_current :: "MessageChunk option"
  mst_closed :: bool

datatype FlushTrigger = FlushOnComplete | FlushImmediate | FlushOnEnd

type_synonym 'w MessageEmitter = "string \<Rightarrow> MessageChunk \<Rightarrow> 'w \<Rightarrow> gerror option \<times> 'w"

record 'w MessageAggregator =
  ag_messages :: "MessageChunk list gomap"
  ag_emitters :: "'w MessageEmitter list"

record 'w StreamMessagesHandler =
  h_streams :: "MessageStream gomap"
  h_aggregator :: "'w MessageAggregator"
  h_flushTrigger :: FlushTrigger

section \<open>The aggregator\<close>

definition NewMessageAggregator :: "'w MessageAggregator" where
  "NewMessageAggregator = \<lparr>ag_messages = [], ag_emitters = []\<rparr>"

definition AddMessage :: "string \<Rightarrow> MessageChunk \<Rightarrow> 'w MessageAggregator \<Rightarrow> 'w MessageAggregator" where
  "AddMessage node chunk a = a\<lparr>ag_messages := gm_app node chunk (ag_messages a)\<rparr>"

definition Agg_AddEmitter :: "'w MessageEmitter \<Rightarrow> 'w MessageAggregator \<Rightarrow> 'w MessageAggregator" where
  "Agg_AddEmitter em a = a\<lparr>ag_emitters := ag_emitters a @ [em]\<rparr>"

text \<open>The two inner loops of \<^verbatim>\<open>Flush\<close>.\<close>

fun emit_to :: "'w MessageEmitter list \<Rightarrow> string \<Rightarrow> MessageChunk \<Rightarrow> 'w \<Rightarrow> gerror option \<times> 'w" where
  "emit_to [] node chunk w = (None, w)"
| "emit_to (em # ems) node chunk w =
     (case em node chunk w of (Some err, w') \<Rightarrow> (Some err, w') | (None, w') \<Rightarrow> emit_to ems node chunk w')"

fun emit_chunks :: "'w MessageEmitter list \<Rightarrow> string \<Rightarrow> MessageChunk list \<Rightarrow> 'w \<Rightarrow> gerror option \<times> 'w" where
  "emit_chunks ems node [] w = (None, w)"
| "emit_chunks ems node (c # cs) w =
     (case emit_to ems node c w of (Some err, w') \<Rightarrow> (Some err, w') | (None, w') \<Rightarrow> emit_chunks ems node cs w')"

text \<open>The loop over the map: the messages of a node are removed once all of them have been emitted.\<close>

fun flush_nodes :: "'w MessageEmitter list \<Rightarrow> MessageChunk list gomap \<Rightarrow> 'w \<Rightarrow> gerror option \<times> MessageChunk list gomap \<times> 'w" where
  "flush_nodes ems [] w = (None, [], w)"
| "flush_nodes ems ((node, cs) # m) w =
     (case emit_chunks ems node cs w of
        (Some err, w') \<Rightarrow> (Some err, (node, cs) # m, w')
      | (None, w') \<Rightarrow> flush_nodes ems m w')"

definition Agg_Flush :: "'w MessageAggregator \<Rightarrow> 'w \<Rightarrow> gerror option \<times> 'w MessageAggregator \<times> 'w" where
  "Agg_Flush a w = (let (err, m, w') = flush_nodes (ag_emitters a) (ag_messages a) w in (err, a\<lparr>ag_messages := m\<rparr>, w'))"

section \<open>The handler\<close>

definition NewStreamMessagesHandler ::
  "('w StreamMessagesHandler \<Rightarrow> 'w StreamMessagesHandler) list \<Rightarrow> 'w StreamMessagesHandler" where
  "NewStreamMessagesHandler opts =
     fold (\<lambda>opt h. opt h) opts \<lparr>h_streams = [], h_aggregator = NewMessageAggregator, h_flushTrigger = FlushOnComplete\<rparr>"

definition WithFlushTrigger :: "FlushTrigger \<Rightarrow> 'w StreamMessagesHandler \<Rightarrow> 'w StreamMessagesHandler" where
  "WithFlushTrigger trigger h = h\<lparr>h_flushTrigger := trigger\<rparr>"

definition Handler_AddEmitter :: "'w MessageEmitter \<Rightarrow> 'w StreamMessagesHandler \<Rightarrow> 'w StreamMessagesHandler" where
  "Handler_AddEmitter em h = h\<lparr>h_aggregator := Agg_AddEmitter em (h_aggregator h)\<rparr>"

definition Handler_Flush :: "'w StreamMessagesHandler \<Rightarrow> 'w \<Rightarrow> gerror option \<times> 'w StreamMessagesHandler \<times> 'w" where
  "Handler_Flush h w = (let (err, a, w') = Agg_Flush (h_aggregator h) w in (err, h\<lparr>h_aggregator := a\<rparr>, w'))"

definition new_stream :: "string \<Rightarrow> MessageStream" where
  "new_stream node = \<lparr>mst_node = node, mst_chunks = [], mst_current = None, mst_closed = False\<rparr>"

definition stream_of :: "'w StreamMessagesHandler \<Rightarrow> string \<Rightarrow> MessageStream" where
  "stream_of h node = (case map_of (h_streams h) node of None \<Rightarrow> new_stream node | Some ms \<Rightarrow> ms)"

definition put_stream :: "string \<Rightarrow> MessageStream \<Rightarrow> 'w StreamMessagesHandler \<Rightarrow> 'w StreamMessagesHandler" where
  "put_stream node ms h = h\<lparr>h_streams := gm_set node ms (h_streams h)\<rparr>"

definition open_chunk :: "MessageStream \<Rightarrow> MessageChunk" where
  "open_chunk ms =
     (case mst_current ms of
        Some c \<Rightarrow> if mc_IsComplete c then \<lparr>mc_Index = int (length (mst_chunks ms)), mc_Content = [], mc_Metadata = [], mc_IsComplete = False,
                     mc_Role = [], mc_ToolCalls = []\<rparr> else c
      | None \<Rightarrow> \<lparr>mc_Index = int (length (mst_chunks ms)), mc_Content = [], mc_Metadata = [], mc_IsComplete = False,
                  mc_Role = [], mc_ToolCalls = []\<rparr>)"

definition merge_chunk :: "MessageChunk \<Rightarrow> MessageChunk \<Rightarrow> MessageChunk" where
  "merge_chunk cur chunk =
     cur\<lparr>mc_Content := mc_Content cur @ mc_Content chunk, mc_Metadata := gm_copy_into (mc_Metadata chunk) (mc_Metadata cur),
       mc_Role := (if mc_Role chunk \<noteq> [] then mc_Role chunk else mc_Role cur), mc_ToolCalls := mc_ToolCalls cur @ mc_ToolCalls chunk\<rparr>"

text \<open>Completing the current chunk of a node: it is added to the messages of the stream and of the aggregator.\<close>

definition complete_chunk :: "string \<Rightarrow> MessageStream \<Rightarrow> MessageChunk \<Rightarrow> 'w StreamMessagesHandler \<Rightarrow> 'w StreamMessagesHandler" where
  "complete_chunk node ms cur h =
     (let c = cur\<lparr>mc_IsComplete := True\<rparr>
      in (put_stream node (ms\<lparr>mst_chunks := mst_chunks ms @ [c], mst_current := None\<rparr>) h)
           \<lparr>h_aggregator := AddMessage node c (h_aggregator h)\<rparr>)"

definition OnChunk :: "string \<Rightarrow> MessageChunk \<Rightarrow> 'w StreamMessagesHandler \<Rightarrow> 'w \<Rightarrow> gerror option \<times> 'w StreamMessagesHandler \<times> 'w" where
  "OnChunk node chunk h w =
     (let ms = stream_of h node
      in if mst_closed ms then (Some (PlainError ''stream is closed for node'' [node]), h, w)
         else let cur = merge_chunk (open_chunk ms) chunk
              in if mc_IsComplete chunk then
                   (let h' = complete_chunk node ms cur h
                    in if h_flushTrigger h = FlushOnComplete then Handler_Flush h' w else (None, h', w))
                 else
                   (let h' = put_stream node (ms\<lparr>mst_current := Some cur\<rparr>) h
                    in if h_flushTrigger h = FlushImmediate then Handler_Flush h' w else (None, h', w)))"

definition OnComplete :: "string \<Rightarrow> 'w StreamMessagesHandler \<Rightarrow> 'w \<Rightarrow> gerror option \<times> 'w StreamMessagesHandler \<times> 'w" where
  "OnComplete node h w =
     (case map_of (h_streams h) node of
        None \<Rightarrow> (None, h, w)
      | Some ms \<Rightarrow>
          if mst_closed ms then (None, h, w)
          else let ms' = ms\<lparr>mst_closed := True\<rparr>;
                   h' = (case mst_current ms of None \<Rightarrow> put_stream node ms' h | Some cur \<Rightarrow> complete_chunk node ms' cur h)
               in if h_flushTrigger h = FlushOnEnd then Handler_Flush h' w else (None, h', w))"

definition GetMessages :: "'w StreamMessagesHandler \<Rightarrow> string \<Rightarrow> MessageChunk list" where
  "GetMessages h node = (case map_of (h_streams h) node of None \<Rightarrow> [] | Some ms \<Rightarrow> mst_chunks ms)"

definition GetAllMessages :: "'w StreamMessagesHandler \<Rightarrow> MessageChunk list gomap" where
  "GetAllMessages h = map (\<lambda>(node, ms). (node, mst_chunks ms)) (h_streams h)"

definition Handler_Close :: "'w StreamMessagesHandler \<Rightarrow> 'w \<Rightarrow> gerror option \<times> 'w StreamMessagesHandler \<times> 'w" where
  "Handler_Close h w =
     (let (h', w') = fold (\<lambda>node (h, w). snd (OnComplete node h w)) (gm_keys (h_streams h)) (h, w)
      in Handler_Flush h' w')"

section \<open>Emitters\<close>

definition CollectToMap :: "MessageChunk list gomap MessageEmitter" where
  "CollectToMap node chunk target = (None, gm_app node chunk target)"

text \<open>\<^verbatim>\<open>StreamToWriter\<close>: the world is the text written; \<open>quote\<close> is the verb \<^verbatim>\<open>%q\<close>, and the writer never fails.\<close>

definition StreamToWriter :: "(string \<Rightarrow> string) \<Rightarrow> string \<Rightarrow> string MessageEmitter" where
  "StreamToWriter quote format node chunk out =
     (let dq = [CHR 0x22]
      in (None, out @
           (if format = ''json'' then
              ''{'' @ dq @ ''node'' @ dq @ '':'' @ dq @ node @ dq @ '','' @ dq @ ''role'' @ dq @ '':'' @ dq @ mc_Role chunk @ dq @ '','' @
                dq @ ''content'' @ dq @ '':'' @ quote (mc_Content chunk) @ ''}''
            else if format = ''compact'' then ''['' @ node @ '':'' @ mc_Role chunk @ ''] '' @ mc_Content chunk
            else mc_Role chunk @ '': '' @ mc_Content chunk) @ [CHR 0x0A]))"

definition of_ToolCall :: "ToolCall \<Rightarrow> goval" where
  "of_ToolCall t = GPtr (GStruct ''pregel.ToolCall''
     [(''ID'', GStr (tc_ID t)), (''Name'', GStr (tc_Name t)), (''Arguments'', GMap (tc_Arguments t))])"

text \<open>\<^verbatim>\<open>StreamToChannel\<close>: the world is the channel stream, with room and a context that is not done; without room the call
  waits, which is \<^const>\<open>None\<close>.\<close>

definition StreamToChannel :: "int \<Rightarrow> string \<Rightarrow> MessageChunk \<Rightarrow> ChannelStream \<Rightarrow> (gerror, ChannelStream, unit) outcome option" where
  "StreamToChannel now node chunk ch =
     (let d0 = [(''node'', GStr node), (''role'', GStr (mc_Role chunk)), (''content'', GStr (mc_Content chunk)),
                (''index'', GInt (of_int (mc_Index chunk))), (''complete'', GBool (mc_IsComplete chunk))];
          d1 = (if mc_ToolCalls chunk \<noteq> [] then d0 @ [(''tool_calls'', GSlice ''*pregel.ToolCall'' (map of_ToolCall (mc_ToolCalls chunk)))] else d0);
          d2 = (if mc_Metadata chunk \<noteq> [] then d1 @ [(''metadata'', GMap (mc_Metadata chunk))] else d1)
      in ChannelStream_Emit now False False
           \<lparr>sc_Mode = ''messages'', sc_Data = GMap d2, sc_Step = 0, sc_Node = node, sc_Metadata = [], sc_Timestamp = 0, sc_Index = 0\<rparr> ch)"

section \<open>Messages and task results\<close>

definition of_Chunk :: "MessageChunk \<Rightarrow> goval" where
  "of_Chunk c = GPtr (GStruct ''pregel.MessageChunk''
     [(''Index'', GInt (of_int (mc_Index c))), (''Content'', GStr (mc_Content c)), (''Metadata'', GMap (mc_Metadata c)),
      (''IsComplete'', GBool (mc_IsComplete c)), (''Role'', GStr (mc_Role c)),
      (''ToolCalls'', GSlice ''*pregel.ToolCall'' (map of_ToolCall (mc_ToolCalls c)))])"

text \<open>The type assertions on chunks are the arguments \<open>as_chunk\<close> and \<open>as_chunks\<close>, the name of a type \<open>ty\<close>.\<close>

definition ExtractMessagesFromOutput ::
  "(goval \<Rightarrow> MessageChunk option) \<Rightarrow> (goval \<Rightarrow> MessageChunk list option) \<Rightarrow> (goval \<Rightarrow> string) \<Rightarrow> goval \<Rightarrow> gerror + MessageChunk list" where
  "ExtractMessagesFromOutput as_chunk as_chunks ty out =
     (case as_chunk out of
        Some c \<Rightarrow> Inr [c]
      | None \<Rightarrow>
          (case as_chunks out of
             Some cs \<Rightarrow> Inr cs
           | None \<Rightarrow>
               (case Option.bind (as_map out) (\<lambda>m. Option.bind (map_of m ''content'') (\<lambda>v. map_option (Pair m) (as_string v))) of
                  Some (m, content) \<Rightarrow>
                    Inr [\<lparr>mc_Index = 0, mc_Content = content, mc_Metadata = [], mc_IsComplete = False,
                          mc_Role = (case Option.bind (map_of m ''role'') as_string of None \<Rightarrow> ''assistant'' | Some r \<Rightarrow> r), mc_ToolCalls = []\<rparr>]
                | None \<Rightarrow> Inl (PlainError ''cannot extract messages from output of type'' [ty out]))))"

definition merged_chunks :: "MessageChunk list \<Rightarrow> MessageChunk" where
  "merged_chunks chunks =
     foldl merge_chunk \<lparr>mc_Index = 0, mc_Content = [], mc_Metadata = [], mc_IsComplete = False, mc_Role = [], mc_ToolCalls = []\<rparr> chunks"

definition ConvertToTaskResult :: "string \<Rightarrow> MessageChunk list \<Rightarrow> TaskResult" where
  "ConvertToTaskResult node chunks =
     \<lparr>res_Name = node,
      res_Output =
        (if chunks = [] then GNil
         else let m = merged_chunks chunks;
                  d = [(''messages'', GSlice ''*pregel.MessageChunk'' [of_Chunk m]), (''content'', GStr (mc_Content m)), (''role'', GStr (mc_Role m))]
              in GMap (if mc_ToolCalls m \<noteq> [] then d @ [(''tool_calls'', GSlice ''*pregel.ToolCall'' (map of_ToolCall (mc_ToolCalls m)))] else d)),
      res_Err = None\<rparr>"

section \<open>Every message is emitted once\<close>

abbreviation entries :: "'v list gomap \<Rightarrow> string \<Rightarrow> 'v list" where
  "entries m k \<equiv> (case map_of m k of None \<Rightarrow> [] | Some vs \<Rightarrow> vs)"

text \<open>The calls of a client, and the texts that were accepted, by node.\<close>

datatype stream_op = Chunk string MessageChunk | Complete string | FlushAll

type_synonym client = "MessageChunk list gomap StreamMessagesHandler \<times> MessageChunk list gomap \<times> (string \<times> string) list"

fun client_op :: "stream_op \<Rightarrow> client \<Rightarrow> client" where
  "client_op (Chunk node chunk) (h, w, lg) =
     (let (err, h', w') = OnChunk node chunk h w in (h', w', if err = None then lg @ [(node, mc_Content chunk)] else lg))"
| "client_op (Complete node) (h, w, lg) = (let (err, h', w') = OnComplete node h w in (h', w', lg))"
| "client_op FlushAll (h, w, lg) = (let (err, h', w') = Handler_Flush h w in (h', w', lg))"

definition new_client :: "FlushTrigger \<Rightarrow> client" where
  "new_client trigger = (Handler_AddEmitter CollectToMap (NewStreamMessagesHandler [WithFlushTrigger trigger]), [], [])"

definition said :: "(string \<times> string) list \<Rightarrow> string \<Rightarrow> string" where
  "said lg node = concat (map snd (filter (\<lambda>p. fst p = node) lg))"

definition pending :: "'w StreamMessagesHandler \<Rightarrow> string \<Rightarrow> MessageChunk list" where
  "pending h node = entries (ag_messages (h_aggregator h)) node"

definition stream_ok :: "string \<Rightarrow> MessageStream \<Rightarrow> bool" where
  "stream_ok words ms \<longleftrightarrow>
     concat (map mc_Content (mst_chunks ms)) @ (case mst_current ms of None \<Rightarrow> [] | Some c \<Rightarrow> mc_Content c) = words \<and>
     map mc_Index (mst_chunks ms) = map int [0..<length (mst_chunks ms)] \<and> list_all mc_IsComplete (mst_chunks ms) \<and>
     (\<forall>c. mst_current ms = Some c \<longrightarrow> \<not> mc_IsComplete c \<and> mc_Index c = int (length (mst_chunks ms)) \<and> \<not> mst_closed ms)"

fun client_inv :: "client \<Rightarrow> bool" where
  "client_inv (h, w, lg) \<longleftrightarrow>
     gm_ok (ag_messages (h_aggregator h)) \<and> ag_emitters (h_aggregator h) = [CollectToMap] \<and>
     (\<forall>node. entries w node @ pending h node = mst_chunks (stream_of h node) \<and> stream_ok (said lg node) (stream_of h node))"

lemma emit_chunks_collect: "fst (emit_chunks [CollectToMap] node cs w) = None"
  "entries (snd (emit_chunks [CollectToMap] node cs w)) k = entries w k @ (if k = node then cs else [])"
  by (induction cs arbitrary: w) (auto simp: CollectToMap_def gomap_simps split: option.split)

lemma flush_nodes_collect:
  "gm_ok m \<Longrightarrow> \<exists>w'. flush_nodes [CollectToMap] m w = (None, [], w') \<and> (\<forall>k. entries w' k = entries w k @ entries m k)"
proof (induction m arbitrary: w)
  case (Cons p m)
  obtain node cs where p: "p = (node, cs)"
    by force
  obtain w1 where w1: "emit_chunks [CollectToMap] node cs w = (None, w1)"
    using emit_chunks_collect(1) [of node cs w] by (cases "emit_chunks [CollectToMap] node cs w") auto
  have k: "entries w1 k = entries w k @ (if k = node then cs else [])" for k
    using emit_chunks_collect(2) [of node cs w k] by (simp add: w1)
  have "map_of m node = None"
    using Cons.prems by (simp add: p map_of_eq_None_iff)
  moreover obtain w2 where "flush_nodes [CollectToMap] m w1 = (None, [], w2)" "\<forall>k. entries w2 k = entries w1 k @ entries m k"
    using Cons.IH [of w1] Cons.prems by auto
  ultimately show ?case
    using k by (auto simp: p w1)
qed simp

lemma Flush_inv:
  assumes "client_inv (h, w, lg)"
  shows "\<exists>h' w'. Handler_Flush h w = (None, h', w') \<and> client_inv (h', w', lg) \<and> h_streams h' = h_streams h \<and>
    h_flushTrigger h' = h_flushTrigger h \<and> (\<forall>node. pending h' node = [])"
proof -
  obtain w' where w': "flush_nodes [CollectToMap] (ag_messages (h_aggregator h)) w = (None, [], w')"
    "\<forall>k. entries w' k = entries w k @ entries (ag_messages (h_aggregator h)) k"
    using flush_nodes_collect assms by fastforce
  then show ?thesis
    using assms by (simp add: Handler_Flush_def Agg_Flush_def pending_def stream_of_def)
qed

lemma complete_chunk_inv:
  assumes "client_inv (h, w, lg)" and "entries w node @ pending h node = mst_chunks ms"
    and "stream_ok words (ms\<lparr>mst_chunks := mst_chunks ms @ [cur\<lparr>mc_IsComplete := True\<rparr>], mst_current := None\<rparr>)"
    and "\<And>k. said lg' k = (if k = node then words else said lg k)"
  shows "client_inv (complete_chunk node ms cur h, w, lg')"
  using assms
  by (auto simp: complete_chunk_def Let_def put_stream_def AddMessage_def stream_of_def pending_def gomap_simps split: option.splits)

lemma put_stream_inv:
  assumes "client_inv (h, w, lg)" and "entries w node @ pending h node = mst_chunks ms" and "stream_ok words ms"
    and "\<And>k. said lg' k = (if k = node then words else said lg k)"
  shows "client_inv (put_stream node ms h, w, lg')"
  using assms by (auto simp: put_stream_def stream_of_def pending_def gomap_simps split: option.splits)

lemma merge_chunk_simps [simp]:
  "mc_Content (merge_chunk a b) = mc_Content a @ mc_Content b" "mc_IsComplete (merge_chunk a b) = mc_IsComplete a"
  "mc_Index (merge_chunk a b) = mc_Index a"
  by (simp_all add: merge_chunk_def)

lemma said_snoc: "said (lg @ [(node, words)]) k = (if k = node then said lg node @ words else said lg k)"
  by (simp add: said_def)

lemma stream_ok_open:
  assumes "stream_ok words ms"
  shows "concat (map mc_Content (mst_chunks ms)) @ mc_Content (open_chunk ms) = words \<and> \<not> mc_IsComplete (open_chunk ms) \<and>
    mc_Index (open_chunk ms) = int (length (mst_chunks ms))"
  using assms by (cases "mst_current ms") (auto simp: stream_ok_def open_chunk_def)

lemma OnChunk_inv:
  assumes inv: "client_inv (h, w, lg)"
  shows "client_inv (client_op (Chunk node chunk) (h, w, lg))"
proof -
  let ?ms = "stream_of h node" and ?lg = "lg @ [(node, mc_Content chunk)]"
  let ?cur = "merge_chunk (open_chunk ?ms) chunk"
  have ms: "entries w node @ pending h node = mst_chunks ?ms" "stream_ok (said lg node) ?ms"
    using inv by auto
  have lg: "said ?lg k = (if k = node then said lg node @ mc_Content chunk else said lg k)" for k
    by (rule said_snoc)
  have full: "client_inv (complete_chunk node ?ms ?cur h, w, ?lg)"
    using stream_ok_open [OF ms(2)] ms(2)
    by (intro complete_chunk_inv [OF inv ms(1) _ lg]) (auto simp: stream_ok_def)
  have more: "client_inv (put_stream node (?ms\<lparr>mst_current := Some ?cur\<rparr>) h, w, ?lg)" if "\<not> mst_closed ?ms"
    using stream_ok_open [OF ms(2)] ms that
    by (intro put_stream_inv [OF inv _ _ lg]) (auto simp: stream_ok_def)
  show ?thesis
  proof (cases "mst_closed ?ms")
    case False
    then show ?thesis
      using Flush_inv [OF full] Flush_inv [OF more] full more by (auto simp: OnChunk_def Let_def)
  qed (use inv in \<open>simp add: OnChunk_def\<close>)
qed

lemma OnComplete_inv:
  assumes inv: "client_inv (h, w, lg)"
  shows "\<exists>err h' w'. OnComplete node h w = (err, h', w') \<and> client_inv (h', w', lg) \<and> mst_current (stream_of h' node) = None \<and>
    (\<forall>k. k \<noteq> node \<longrightarrow> stream_of h' k = stream_of h k)"
proof (cases "map_of (h_streams h) node")
  case (Some ms)
  then have of_node: "stream_of h node = ms"
    by (simp add: stream_of_def)
  then have ms: "entries w node @ pending h node = mst_chunks ms" "stream_ok (said lg node) ms"
    using inv by auto
  define h' where "h' = (case mst_current ms of None \<Rightarrow> put_stream node (ms\<lparr>mst_closed := True\<rparr>) h
    | Some cur \<Rightarrow> complete_chunk node (ms\<lparr>mst_closed := True\<rparr>) cur h)"
  show ?thesis
  proof (cases "mst_closed ms")
    case True
    then show ?thesis
      using inv Some ms(2) of_node by (cases "mst_current ms") (auto simp: OnComplete_def stream_ok_def)
  next
    case False
    have inv': "client_inv (h', w, lg)"
    proof (cases "mst_current ms")
      case None
      then have "client_inv (put_stream node (ms\<lparr>mst_closed := True\<rparr>) h, w, lg)"
        using ms by (intro put_stream_inv [OF inv, where words = "said lg node"]) (auto simp: stream_ok_def)
      with None show ?thesis
        by (simp add: h'_def)
    next
      case (Some cur)
      then have "client_inv (complete_chunk node (ms\<lparr>mst_closed := True\<rparr>) cur h, w, lg)"
        using ms by (intro complete_chunk_inv [OF inv, where words = "said lg node"]) (auto simp: stream_ok_def)
      with Some show ?thesis
        by (simp add: h'_def)
    qed
    have keep: "mst_current (stream_of h' node) = None" "\<forall>k. k \<noteq> node \<longrightarrow> stream_of h' k = stream_of h k"
      by (auto simp: h'_def put_stream_def complete_chunk_def Let_def stream_of_def gomap_simps split: option.split)
    have eq: "OnComplete node h w = (if h_flushTrigger h = FlushOnEnd then Handler_Flush h' w else (None, h', w))"
      by (simp add: OnComplete_def Some False h'_def Let_def)
    obtain h2 w2 where f: "Handler_Flush h' w = (None, h2, w2)" "client_inv (h2, w2, lg)" "h_streams h2 = h_streams h'"
      using Flush_inv [OF inv'] by blast
    then have "stream_of h2 = stream_of h'"
      by (simp add: stream_of_def fun_eq_iff)
    with eq f inv' keep show ?thesis
      by auto
  qed
qed (use inv in \<open>simp add: OnComplete_def stream_of_def new_stream_def\<close>)

lemma complete_all_inv:
  assumes "client_inv (h, w, lg)"
  shows "\<exists>h' w'. fold (\<lambda>node (h, w). snd (OnComplete node h w)) ns (h, w) = (h', w') \<and> client_inv (h', w', lg) \<and>
    (\<forall>k. k \<in> set ns \<or> mst_current (stream_of h k) = None \<longrightarrow> mst_current (stream_of h' k) = None)"
  using assms
proof (induction ns arbitrary: h w)
  case (Cons n ns)
  obtain err h1 w1 where 1: "OnComplete n h w = (err, h1, w1)" "client_inv (h1, w1, lg)" "mst_current (stream_of h1 n) = None"
    "\<forall>k. k \<noteq> n \<longrightarrow> stream_of h1 k = stream_of h k"
    using OnComplete_inv [OF Cons.prems] by blast
  obtain h' w' where 2: "fold (\<lambda>node (h, w). snd (OnComplete node h w)) ns (h1, w1) = (h', w')" "client_inv (h', w', lg)"
    "\<forall>k. k \<in> set ns \<or> mst_current (stream_of h1 k) = None \<longrightarrow> mst_current (stream_of h' k) = None"
    using Cons.IH [OF 1(2)] by blast
  have "mst_current (stream_of h' k) = None" if "k \<in> set (n # ns) \<or> mst_current (stream_of h k) = None" for k
    using that 1(3,4) 2(3) by (cases "k = n") auto
  with 1(1) 2(1,2) show ?case
    by auto
qed auto

lemma client_op_inv:
  assumes "client_inv (h, w, lg)"
  shows "client_inv (client_op op (h, w, lg))"
proof (cases op)
  case (Chunk node chunk)
  then show ?thesis
    using OnChunk_inv [OF assms] by blast
next
  case (Complete node)
  then show ?thesis
    using OnComplete_inv [OF assms, of node] by auto
next
  case FlushAll
  then show ?thesis
    using Flush_inv [OF assms] by auto
qed

lemma new_client_inv: "client_inv (new_client trigger)"
  by (simp add: new_client_def NewStreamMessagesHandler_def WithFlushTrigger_def Handler_AddEmitter_def Agg_AddEmitter_def
      NewMessageAggregator_def pending_def stream_of_def new_stream_def stream_ok_def said_def)

lemma client_run_inv: "client_inv (fold client_op ops (new_client trigger))"
proof (rule fold_invariant')
  show "client_inv (client_op op c)" if "client_inv c" for c op
    using that client_op_inv by (cases c) blast
qed (rule new_client_inv)

text \<open>C16: for a handler whose only emitter is the collecting one, which never fails: whatever chunks, completions and
  flushes the nodes send, and whenever the handler flushes, closing it succeeds and leaves with the emitter, for every node, its messages exactly once, in order and numbered from zero,
  and their contents put together are the texts of the chunks that were accepted.\<close>

theorem messages_emitted_once:
  assumes "fold client_op ops (new_client trigger) = (h, w, lg)"
  shows "\<exists>h' w'. Handler_Close h w = (None, h', w') \<and>
    (\<forall>node. entries w' node = GetMessages h' node \<and>
       concat (map mc_Content (entries w' node)) = concat (map snd (filter (\<lambda>p. fst p = node) lg)) \<and>
       map mc_Index (entries w' node) = map int [0..<length (entries w' node)] \<and> list_all mc_IsComplete (entries w' node))"
proof -
  have "client_inv (h, w, lg)"
    using client_run_inv [of ops trigger] by (simp add: assms)
  then obtain h1 w1 where 1: "fold (\<lambda>node (h, w). snd (OnComplete node h w)) (gm_keys (h_streams h)) (h, w) = (h1, w1)"
    "client_inv (h1, w1, lg)" "\<forall>k. k \<in> set (gm_keys (h_streams h)) \<or> mst_current (stream_of h k) = None \<longrightarrow> mst_current (stream_of h1 k) = None"
    using complete_all_inv by blast
  have "mst_current (stream_of h k) = None" if "k \<notin> set (gm_keys (h_streams h))" for k
  proof -
    have "map_of (h_streams h) k = None"
      using that by (simp add: map_of_eq_None_iff)
    then show ?thesis
      by (simp add: stream_of_def new_stream_def)
  qed
  with 1(3) have none: "mst_current (stream_of h1 k) = None" for k
    by blast
  obtain h' w' where 2: "Handler_Flush h1 w1 = (None, h', w')" "client_inv (h', w', lg)" "h_streams h' = h_streams h1"
    "\<forall>node. pending h' node = []"
    using Flush_inv [OF 1(2)] by blast
  have eq: "stream_of h' node = stream_of h1 node" "mst_chunks (stream_of h' node) = GetMessages h' node" for node
    using 2(3) by (simp_all add: stream_of_def GetMessages_def new_stream_def split: option.split)
  have "entries w' node = GetMessages h' node \<and> stream_ok (said lg node) (stream_of h1 node)" for node
    using 2(2,4) eq by (auto dest: spec [of _ node])
  with 1(1) 2(1) none eq show ?thesis
    by (fastforce simp: Handler_Close_def stream_ok_def said_def)
qed

definition token :: "string \<Rightarrow> bool \<Rightarrow> MessageChunk" where
  "token words fin = \<lparr>mc_Index = 0, mc_Content = words, mc_Metadata = [], mc_IsComplete = fin, mc_Role = [], mc_ToolCalls = []\<rparr>"

theorem messages_emitted_once_witness:
  "\<exists>h w lg h' w'. fold client_op [Chunk ''n'' (token ''ab'' False), Chunk ''n'' (token ''c'' True), Chunk ''n'' (token ''d'' False)]
      (new_client FlushOnComplete) = (h, w, lg) \<and>
     Handler_Close h w = (None, h', w') \<and> concat (map mc_Content (entries w' ''n'')) = ''abcd''"
proof -
  let ?ops = "[Chunk ''n'' (token ''ab'' False), Chunk ''n'' (token ''c'' True), Chunk ''n'' (token ''d'' False)]"
  obtain h w where run: "fold client_op ?ops (new_client FlushOnComplete) = (h, w, [(''n'', ''ab''), (''n'', ''c''), (''n'', ''d'')])"
    by (simp add: new_client_def NewStreamMessagesHandler_def WithFlushTrigger_def Handler_AddEmitter_def Agg_AddEmitter_def
        NewMessageAggregator_def OnChunk_def stream_of_def new_stream_def open_chunk_def merge_chunk_def put_stream_def complete_chunk_def
        Handler_Flush_def Agg_Flush_def AddMessage_def gm_app_def CollectToMap_def token_def Let_def)
  from messages_emitted_once [OF run] obtain h' w' where close: "Handler_Close h w = (None, h', w')"
    and sum: "concat (map mc_Content (entries w' ''n'')) =
      concat (map snd (filter (\<lambda>p. fst p = ''n'') [(''n'', ''ab''), (''n'', ''c''), (''n'', ''d'')]))"
    by blast
  have "concat (map mc_Content (entries w' ''n'')) = ''abcd''"
    unfolding sum by simp
  with run close show ?thesis
    by blast
qed

section \<open>Merging chunks into an output\<close>

lemma foldl_merge_content: "mc_Content (foldl merge_chunk c cs) = mc_Content c @ concat (map mc_Content cs)"
  by (induction cs arbitrary: c) auto

text \<open>The output made of some chunks is read back as one message with their contents put together; metadata and tool calls
  are not read back.\<close>

theorem output_roundtrip:
  assumes "chunks \<noteq> []" and "\<And>m. as_chunk (GMap m) = None" and "\<And>m. as_chunks (GMap m) = None"
  shows "\<exists>c. ExtractMessagesFromOutput as_chunk as_chunks ty (res_Output (ConvertToTaskResult node chunks)) = Inr [c] \<and>
    mc_Content c = concat (map mc_Content chunks) \<and> mc_Metadata c = [] \<and> mc_ToolCalls c = []"
  using assms by (simp add: ExtractMessagesFromOutput_def ConvertToTaskResult_def Let_def merged_chunks_def foldl_merge_content as_map_def as_string_def)

section \<open>Flushing too late\<close>

text \<open>With the trigger \<^const>\<open>FlushImmediate\<close> a message that is complete is not emitted at once: the flush happens only with
  a chunk that does not complete its message, before anything new is there to emit.\<close>

theorem immediate_flush_is_late:
  "snd (snd (OnChunk node (token words True) (Handler_AddEmitter CollectToMap (NewStreamMessagesHandler [WithFlushTrigger FlushImmediate])) [])) = []"
  by (simp add: OnChunk_def stream_of_def new_stream_def NewStreamMessagesHandler_def WithFlushTrigger_def Handler_AddEmitter_def token_def
      NewMessageAggregator_def Let_def)

text \<open>With the trigger \<^const>\<open>FlushOnComplete\<close> the message that the end of a stream completes is not emitted.\<close>

theorem completed_at_end_not_flushed:
  "h_flushTrigger h = FlushOnComplete \<Longrightarrow> fst (OnComplete node h w) = None \<and> snd (snd (OnComplete node h w)) = w"
  by (simp add: OnComplete_def Let_def split: option.split)

text \<open>When an emitter fails, the messages of the node are kept, those already emitted included: the next flush emits them
  again.\<close>

theorem failed_flush_emits_again:
  "\<exists>em :: string list MessageEmitter. \<exists>a w1 a1 w2. a = \<lparr>ag_messages = [(''n'', [token ''a'' True, token ''b'' True])], ag_emitters = [em]\<rparr> \<and>
     Agg_Flush a [] = (Some CancelledError, a1, w1) \<and> snd (snd (Agg_Flush a1 w1)) = [''a'', ''a'', ''b'']"
proof -
  let ?em = "\<lambda>node chunk w. if w = [''a''] \<and> mc_Content chunk = ''b'' then (Some CancelledError, w) else (None, w @ [mc_Content chunk])"
  let ?a = "\<lparr>ag_messages = [(''n'', [token ''a'' True, token ''b'' True])], ag_emitters = [?em]\<rparr>"
  have "Agg_Flush ?a [] = (Some CancelledError, ?a, [''a''])" "snd (snd (Agg_Flush ?a [''a''])) = [''a'', ''a'', ''b'']"
    by (simp_all add: Agg_Flush_def token_def)
  then show ?thesis
    by blast
qed

end
