(* ===== verification/Scratchpad.thy ===== *)
theory Scratchpad
  imports GraphErrors
begin

text \<open>
  The scratchpad of an execution (\<^verbatim>\<open>types/scratchpad.go\<close>): data, counters of 64 bits and metadata, stacks and node contexts
  that are kept behind pointers, snapshots, merging and expiry. Stacks and node contexts are shared objects: they live
  in a heap, and a scratchpad holds their addresses. Every method takes the scratchpad's lock for its whole duration
  (a stack in a scratchpad takes it once per access), so methods are single steps; \<open>now\<close> is the clock.
\<close>

section \<open>Values, heap and scratchpad\<close>

datatype pad_value =
  PVal goval
| PStack nat
| PNode nat
| PDuration int
| PTime int

record pad_heap =
  hp_stacks :: "goval list list"
  hp_nodes :: "gostate list"

record PregelScratchpad =
  pad_data :: "pad_value gomap"
  pad_counters :: "i64 gomap"
  pad_metadata :: "pad_value gomap"
  pad_createdAt :: int
  pad_lastAccess :: int
  pad_step :: i64
  pad_stop :: bool
  pad_callCounter :: i64
  pad_interruptCounter :: i64
  pad_resume :: bool
  pad_subgraphCounter :: i64

definition NewPregelScratchpad :: "int \<Rightarrow> PregelScratchpad" where
  "NewPregelScratchpad now =
     \<lparr>pad_data = [], pad_counters = [], pad_metadata = [], pad_createdAt = now, pad_lastAccess = now, pad_step = 0, pad_stop = False,
      pad_callCounter = 0, pad_interruptCounter = 0, pad_resume = False, pad_subgraphCounter = 0\<rparr>"

definition touch :: "int \<Rightarrow> PregelScratchpad \<Rightarrow> PregelScratchpad" where
  "touch now p = p\<lparr>pad_lastAccess := now\<rparr>"

definition Pad_Get :: "int \<Rightarrow> string \<Rightarrow> PregelScratchpad \<Rightarrow> PregelScratchpad \<times> pad_value option" where
  "Pad_Get now key p = (touch now p, map_of (pad_data p) key)"

definition Pad_Set :: "int \<Rightarrow> string \<Rightarrow> pad_value \<Rightarrow> PregelScratchpad \<Rightarrow> PregelScratchpad" where
  "Pad_Set now key v p = touch now (p\<lparr>pad_data := gm_set key v (pad_data p)\<rparr>)"

definition Pad_Delete :: "int \<Rightarrow> string \<Rightarrow> PregelScratchpad \<Rightarrow> PregelScratchpad" where
  "Pad_Delete now key p = touch now (p\<lparr>pad_data := gm_delete key (pad_data p)\<rparr>)"

definition Pad_Has :: "string \<Rightarrow> PregelScratchpad \<Rightarrow> bool" where
  "Pad_Has key p = (map_of (pad_data p) key \<noteq> None)"

definition Pad_GetAll :: "PregelScratchpad \<Rightarrow> pad_value gomap" where
  "Pad_GetAll p = gm_copy_into (pad_data p) []"

definition Pad_Clear :: "int \<Rightarrow> PregelScratchpad \<Rightarrow> PregelScratchpad" where
  "Pad_Clear now p = touch now (p\<lparr>pad_data := [], pad_counters := []\<rparr>)"

section \<open>Counters and metadata\<close>

definition GetCounter :: "string \<Rightarrow> PregelScratchpad \<Rightarrow> i64" where
  "GetCounter key p = (case map_of (pad_counters p) key of None \<Rightarrow> 0 | Some n \<Rightarrow> n)"

definition SetCounter :: "int \<Rightarrow> string \<Rightarrow> i64 \<Rightarrow> PregelScratchpad \<Rightarrow> PregelScratchpad" where
  "SetCounter now key n p = touch now (p\<lparr>pad_counters := gm_set key n (pad_counters p)\<rparr>)"

definition IncrementCounter :: "int \<Rightarrow> string \<Rightarrow> PregelScratchpad \<Rightarrow> PregelScratchpad \<times> i64" where
  "IncrementCounter now key p = (let p' = SetCounter now key (GetCounter key p + 1) p in (p', GetCounter key p'))"

definition DecrementCounter :: "int \<Rightarrow> string \<Rightarrow> PregelScratchpad \<Rightarrow> PregelScratchpad \<times> i64" where
  "DecrementCounter now key p = (let p' = SetCounter now key (GetCounter key p - 1) p in (p', GetCounter key p'))"

definition ResetCounter :: "int \<Rightarrow> string \<Rightarrow> PregelScratchpad \<Rightarrow> PregelScratchpad" where
  "ResetCounter now key p = touch now (p\<lparr>pad_counters := gm_delete key (pad_counters p)\<rparr>)"

definition ListCounters :: "PregelScratchpad \<Rightarrow> i64 gomap" where
  "ListCounters p = gm_copy_into (pad_counters p) []"

definition SetMetadata :: "int \<Rightarrow> string \<Rightarrow> pad_value \<Rightarrow> PregelScratchpad \<Rightarrow> PregelScratchpad" where
  "SetMetadata now key v p = touch now (p\<lparr>pad_metadata := gm_set key v (pad_metadata p)\<rparr>)"

definition GetMetadata :: "string \<Rightarrow> PregelScratchpad \<Rightarrow> pad_value option" where
  "GetMetadata key p = map_of (pad_metadata p) key"

definition GetAllMetadata :: "PregelScratchpad \<Rightarrow> pad_value gomap" where
  "GetAllMetadata p = gm_copy_into (pad_metadata p) []"

definition SetStep :: "int \<Rightarrow> i64 \<Rightarrow> PregelScratchpad \<Rightarrow> PregelScratchpad" where
  "SetStep now n p = touch now (p\<lparr>pad_step := n\<rparr>)"

definition SetStop :: "int \<Rightarrow> bool \<Rightarrow> PregelScratchpad \<Rightarrow> PregelScratchpad" where
  "SetStop now b p = touch now (p\<lparr>pad_stop := b\<rparr>)"

definition SetResume :: "int \<Rightarrow> bool \<Rightarrow> PregelScratchpad \<Rightarrow> PregelScratchpad" where
  "SetResume now b p = touch now (p\<lparr>pad_resume := b\<rparr>)"

definition IncrementCallCounter :: "int \<Rightarrow> PregelScratchpad \<Rightarrow> PregelScratchpad \<times> i64" where
  "IncrementCallCounter now p = (let p' = touch now (p\<lparr>pad_callCounter := pad_callCounter p + 1\<rparr>) in (p', pad_callCounter p'))"

definition IncrementInterruptCounter :: "int \<Rightarrow> PregelScratchpad \<Rightarrow> PregelScratchpad \<times> i64" where
  "IncrementInterruptCounter now p = (let p' = touch now (p\<lparr>pad_interruptCounter := pad_interruptCounter p + 1\<rparr>) in (p', pad_interruptCounter p'))"

definition IncrementSubgraphCounter :: "int \<Rightarrow> PregelScratchpad \<Rightarrow> PregelScratchpad \<times> i64" where
  "IncrementSubgraphCounter now p = (let p' = touch now (p\<lparr>pad_subgraphCounter := pad_subgraphCounter p + 1\<rparr>) in (p', pad_subgraphCounter p'))"

record ScratchpadStats =
  DataSize :: nat
  CountersCount :: nat
  MetadataSize :: nat
  NodeContexts :: nat
  CreatedAt :: int
  LastAccess :: int

definition Stats :: "PregelScratchpad \<Rightarrow> ScratchpadStats" where
  "Stats p = \<lparr>DataSize = length (pad_data p), CountersCount = length (pad_counters p), MetadataSize = length (pad_metadata p),
     NodeContexts = 0, CreatedAt = pad_createdAt p, LastAccess = pad_lastAccess p\<rparr>"

section \<open>Stacks\<close>

definition NewStack :: "goval list" where
  "NewStack = []"

definition Stack_Push :: "goval \<Rightarrow> goval list \<Rightarrow> goval list" where
  "Stack_Push v items = items @ [v]"

definition Stack_Pop :: "goval list \<Rightarrow> goval list \<times> goval option" where
  "Stack_Pop items = (if items = [] then (items, None) else (butlast items, Some (last items)))"

definition Stack_Peek :: "goval list \<Rightarrow> goval option" where
  "Stack_Peek items = (if items = [] then None else Some (last items))"

definition Stack_Size :: "goval list \<Rightarrow> nat" where
  "Stack_Size items = length items"

definition Stack_IsEmpty :: "goval list \<Rightarrow> bool" where
  "Stack_IsEmpty items \<longleftrightarrow> length items = 0"

text \<open>Stacks in a scratchpad: the address of the stack under a key, where there is one.\<close>

definition stack_at :: "pad_heap \<Rightarrow> nat \<Rightarrow> goval list" where
  "stack_at hp a = (if a < length (hp_stacks hp) then hp_stacks hp ! a else [])"

definition set_stack :: "nat \<Rightarrow> goval list \<Rightarrow> pad_heap \<Rightarrow> pad_heap" where
  "set_stack a items hp = hp\<lparr>hp_stacks := (hp_stacks hp)[a := items]\<rparr>"

definition stack_addr :: "string \<Rightarrow> PregelScratchpad \<Rightarrow> nat option" where
  "stack_addr key p = (case map_of (pad_data p) key of Some (PStack a) \<Rightarrow> Some a | _ \<Rightarrow> None)"

definition SStack_Push :: "int \<Rightarrow> string \<Rightarrow> goval \<Rightarrow> PregelScratchpad \<times> pad_heap \<Rightarrow> PregelScratchpad \<times> pad_heap" where
  "SStack_Push now key v = (\<lambda>(p, hp).
     (case stack_addr key p of
        Some a \<Rightarrow> (Pad_Set now key (PStack a) p, set_stack a (Stack_Push v (stack_at hp a)) hp)
      | None \<Rightarrow>
          (let a = length (hp_stacks hp)
           in (Pad_Set now key (PStack a) p, hp\<lparr>hp_stacks := hp_stacks hp @ [Stack_Push v NewStack]\<rparr>))))"

definition SStack_Pop :: "int \<Rightarrow> string \<Rightarrow> PregelScratchpad \<times> pad_heap \<Rightarrow> (PregelScratchpad \<times> pad_heap) \<times> goval option" where
  "SStack_Pop now key = (\<lambda>(p, hp).
     (case stack_addr key p of
        None \<Rightarrow> ((touch now p, hp), None)
      | Some a \<Rightarrow>
          (let (items, v) = Stack_Pop (stack_at hp a); hp' = set_stack a items hp
           in ((if Stack_IsEmpty items then Pad_Delete now key p else Pad_Set now key (PStack a) p, hp'), v))))"

definition SStack_Peek :: "int \<Rightarrow> string \<Rightarrow> PregelScratchpad \<times> pad_heap \<Rightarrow> (PregelScratchpad \<times> pad_heap) \<times> goval option" where
  "SStack_Peek now key = (\<lambda>(p, hp).
     ((touch now p, hp), case stack_addr key p of None \<Rightarrow> None | Some a \<Rightarrow> Stack_Peek (stack_at hp a)))"

definition SStack_Size :: "int \<Rightarrow> string \<Rightarrow> PregelScratchpad \<times> pad_heap \<Rightarrow> (PregelScratchpad \<times> pad_heap) \<times> nat" where
  "SStack_Size now key = (\<lambda>(p, hp).
     ((touch now p, hp), case stack_addr key p of None \<Rightarrow> 0 | Some a \<Rightarrow> Stack_Size (stack_at hp a)))"

definition SStack_IsEmpty :: "int \<Rightarrow> string \<Rightarrow> PregelScratchpad \<times> pad_heap \<Rightarrow> (PregelScratchpad \<times> pad_heap) \<times> bool" where
  "SStack_IsEmpty now key s = (let (s', n) = SStack_Size now key s in (s', n = 0))"

definition SStack_Clear :: "int \<Rightarrow> string \<Rightarrow> PregelScratchpad \<times> pad_heap \<Rightarrow> PregelScratchpad \<times> pad_heap" where
  "SStack_Clear now key = (\<lambda>(p, hp). (Pad_Delete now key p, hp))"

section \<open>Node contexts\<close>

definition ctx_key :: "string \<Rightarrow> string" where
  "ctx_key nodeName = ''_node_ctx:'' @ nodeName"

definition is_ctx_key :: "string \<Rightarrow> bool" where
  "is_ctx_key k \<longleftrightarrow> length k > 10 \<and> take 10 k = ''_node_ctx:''"

definition NodeContext :: "string \<Rightarrow> PregelScratchpad \<times> pad_heap \<Rightarrow> (PregelScratchpad \<times> pad_heap) \<times> nat" where
  "NodeContext nodeName = (\<lambda>(p, hp).
     (case map_of (pad_data p) (ctx_key nodeName) of
        Some (PNode a) \<Rightarrow> ((p, hp), a)
      | _ \<Rightarrow>
          (let a = length (hp_nodes hp)
           in ((p\<lparr>pad_data := gm_set (ctx_key nodeName) (PNode a) (pad_data p)\<rparr>, hp\<lparr>hp_nodes := hp_nodes hp @ [[]]\<rparr>), a))))"

definition node_at :: "pad_heap \<Rightarrow> nat \<Rightarrow> gostate" where
  "node_at hp a = (if a < length (hp_nodes hp) then hp_nodes hp ! a else [])"

definition NC_Get :: "nat \<Rightarrow> string \<Rightarrow> pad_heap \<Rightarrow> goval option" where
  "NC_Get a key hp = map_of (node_at hp a) key"

definition NC_Set :: "nat \<Rightarrow> string \<Rightarrow> goval \<Rightarrow> pad_heap \<Rightarrow> pad_heap" where
  "NC_Set a key v hp = hp\<lparr>hp_nodes := (hp_nodes hp)[a := gm_set key v (node_at hp a)]\<rparr>"

definition NC_Delete :: "nat \<Rightarrow> string \<Rightarrow> pad_heap \<Rightarrow> pad_heap" where
  "NC_Delete a key hp = hp\<lparr>hp_nodes := (hp_nodes hp)[a := gm_delete key (node_at hp a)]\<rparr>"

definition NC_Clear :: "nat \<Rightarrow> pad_heap \<Rightarrow> pad_heap" where
  "NC_Clear a hp = hp\<lparr>hp_nodes := (hp_nodes hp)[a := []]\<rparr>"

definition NC_GetAll :: "nat \<Rightarrow> pad_heap \<Rightarrow> gostate" where
  "NC_GetAll a hp = gm_copy_into (node_at hp a) []"

definition ClearNodeContext :: "string \<Rightarrow> PregelScratchpad \<Rightarrow> PregelScratchpad" where
  "ClearNodeContext nodeName p = p\<lparr>pad_data := gm_delete (ctx_key nodeName) (pad_data p)\<rparr>"

definition ClearAllNodeContexts :: "PregelScratchpad \<Rightarrow> PregelScratchpad" where
  "ClearAllNodeContexts p = p\<lparr>pad_data := filter (\<lambda>(k, v). \<not> is_ctx_key k) (pad_data p)\<rparr>"

section \<open>Snapshots and merging\<close>

fun deepCopyValue :: "goval \<Rightarrow> goval" where
  "deepCopyValue (GMap m) = GMap (map (\<lambda>(k, v). (k, deepCopyValue v)) m)"
| "deepCopyValue (GList xs) = GList (map deepCopyValue xs)"
| "deepCopyValue v = v"

fun copy_pad_value :: "pad_value \<Rightarrow> pad_value" where
  "copy_pad_value (PVal v) = PVal (deepCopyValue v)"
| "copy_pad_value v = v"

definition copy_pad_map :: "pad_value gomap \<Rightarrow> pad_value gomap" where
  "copy_pad_map m = gm_copy_into (map (\<lambda>(k, v). (k, copy_pad_value v)) m) []"

record ScratchpadSnapshot =
  sn_Data :: "pad_value gomap"
  sn_Counters :: "i64 gomap"
  sn_Metadata :: "pad_value gomap"
  sn_Step :: i64
  sn_CallCount :: i64
  sn_Interrupts :: i64
  sn_SubGraphs :: i64

definition Snapshot :: "PregelScratchpad \<Rightarrow> ScratchpadSnapshot" where
  "Snapshot p =
     \<lparr>sn_Data = copy_pad_map (filter (\<lambda>(k, v). \<not> is_ctx_key k) (pad_data p)), sn_Counters = gm_copy_into (pad_counters p) [],
      sn_Metadata = copy_pad_map (pad_metadata p), sn_Step = pad_step p, sn_CallCount = pad_callCounter p,
      sn_Interrupts = pad_interruptCounter p, sn_SubGraphs = pad_subgraphCounter p\<rparr>"

definition Restore :: "ScratchpadSnapshot option \<Rightarrow> PregelScratchpad \<Rightarrow> PregelScratchpad" where
  "Restore snap p =
     (case snap of
        None \<Rightarrow> p
      | Some s \<Rightarrow>
          (let nodeCtxs = filter (\<lambda>(k, v). is_ctx_key k) (pad_data p)
           in p\<lparr>pad_data := gm_copy_into nodeCtxs (copy_pad_map (sn_Data s)), pad_counters := gm_copy_into (sn_Counters s) [],
                pad_metadata := gm_copy_into (sn_Metadata s) [], pad_step := sn_Step s, pad_callCounter := sn_CallCount s,
                pad_interruptCounter := sn_Interrupts s, pad_subgraphCounter := sn_SubGraphs s\<rparr>))"

definition add_counter :: "string \<times> i64 \<Rightarrow> i64 gomap \<Rightarrow> i64 gomap" where
  "add_counter = (\<lambda>(k, n) m. gm_set k ((case map_of m k of None \<Rightarrow> 0 | Some x \<Rightarrow> x) + n) m)"

definition MergeFrom :: "int \<Rightarrow> PregelScratchpad option \<Rightarrow> PregelScratchpad \<Rightarrow> PregelScratchpad" where
  "MergeFrom now other p =
     (case other of
        None \<Rightarrow> p
      | Some q \<Rightarrow>
          (let s = Snapshot q
           in touch now (p\<lparr>pad_data := gm_copy_into (sn_Data s) (pad_data p), pad_counters := fold add_counter (sn_Counters s) (pad_counters p),
                pad_metadata := gm_copy_into (sn_Metadata s) (pad_metadata p),
                pad_step := (if sint (sn_Step s) > sint (pad_step p) then sn_Step s else pad_step p),
                pad_callCounter := pad_callCounter p + sn_CallCount s, pad_interruptCounter := pad_interruptCounter p + sn_Interrupts s,
                pad_subgraphCounter := pad_subgraphCounter p + sn_SubGraphs s\<rparr>)))"

section \<open>Expiry\<close>

definition SetTimeout :: "int \<Rightarrow> int \<Rightarrow> PregelScratchpad \<Rightarrow> PregelScratchpad" where
  "SetTimeout now d p = p\<lparr>pad_metadata := gm_set ''_timeout_start'' (PTime now) (gm_set ''_timeout_ttl'' (PDuration d) (pad_metadata p))\<rparr>"

definition IsExpired :: "int \<Rightarrow> PregelScratchpad \<Rightarrow> bool" where
  "IsExpired now p =
     (case map_of (pad_metadata p) ''_timeout_ttl'' of
        Some (PDuration ttl) \<Rightarrow>
          if ttl \<le> 0 then False
          else (case map_of (pad_metadata p) ''_timeout_start'' of Some (PTime start) \<Rightarrow> now - start > ttl | _ \<Rightarrow> False)
      | _ \<Rightarrow> False)"

text \<open>The second question under the write lock repeats the first at a later time.\<close>

definition ClearExpired :: "int \<Rightarrow> int \<Rightarrow> PregelScratchpad \<Rightarrow> PregelScratchpad \<times> bool" where
  "ClearExpired now later p =
     (if \<not> IsExpired now p then (p, False)
      else if \<not> IsExpired later p then (p, False)
      else (touch later (p\<lparr>pad_data := [], pad_counters := [],
              pad_metadata := gm_delete ''_timeout_start'' (gm_delete ''_timeout_ttl'' (pad_metadata p))\<rparr>), True))"

section \<open>Stacks as lists\<close>

text \<open>A family of stacks under keys, and the calls of a client on it.\<close>

datatype stack_op = Push_op string goval | Pop_op string

fun run_stack_ops ::
  "(string \<Rightarrow> goval \<Rightarrow> 's \<Rightarrow> 's) \<Rightarrow> (string \<Rightarrow> 's \<Rightarrow> 's \<times> goval option) \<Rightarrow> stack_op list \<Rightarrow> 's \<Rightarrow> 's \<times> goval option list" where
  "run_stack_ops push pop [] s = (s, [])"
| "run_stack_ops push pop (Push_op k v # ops) s = run_stack_ops push pop ops (push k v s)"
| "run_stack_ops push pop (Pop_op k # ops) s =
     (let (s1, v) = pop k s; (s2, vs) = run_stack_ops push pop ops s1 in (s2, v # vs))"

definition list_push :: "string \<Rightarrow> goval \<Rightarrow> (string \<Rightarrow> goval list) \<Rightarrow> string \<Rightarrow> goval list" where
  "list_push k v m = m(k := m k @ [v])"

definition list_pop :: "string \<Rightarrow> (string \<Rightarrow> goval list) \<Rightarrow> (string \<Rightarrow> goval list) \<times> goval option" where
  "list_pop k m = (m(k := butlast (m k)), if m k = [] then None else Some (last (m k)))"

locale stack_store =
  fixes contents :: "'s \<Rightarrow> string \<Rightarrow> goval list"
    and push :: "string \<Rightarrow> goval \<Rightarrow> 's \<Rightarrow> 's"
    and pop :: "string \<Rightarrow> 's \<Rightarrow> 's \<times> goval option"
    and ok :: "'s \<Rightarrow> bool"
  assumes push_ok: "ok s \<Longrightarrow> ok (push k v s)"
    and push_contents: "ok s \<Longrightarrow> contents (push k v s) = list_push k v (contents s)"
    and pop_ok: "ok s \<Longrightarrow> ok (fst (pop k s))"
    and pop_contents: "ok s \<Longrightarrow> (contents (fst (pop k s)), snd (pop k s)) = list_pop k (contents s)"
begin

lemma run_simulates:
  "ok s \<Longrightarrow> ok (fst (run_stack_ops push pop ops s)) \<and>
     (contents (fst (run_stack_ops push pop ops s)), snd (run_stack_ops push pop ops s)) = run_stack_ops list_push list_pop ops (contents s)"
proof (induction ops arbitrary: s)
  case (Cons op ops)
  show ?case
  proof (cases op)
    case (Push_op k v)
    then show ?thesis
      using Cons.IH [OF push_ok [OF Cons.prems]] by (simp add: push_contents [OF Cons.prems])
  next
    case (Pop_op k)
    have "list_pop k (contents s) = (contents (fst (pop k s)), snd (pop k s))"
      by (rule pop_contents [OF Cons.prems, symmetric])
    then show ?thesis
      using Cons.IH [OF pop_ok [OF Cons.prems, of k]] by (auto simp: Pop_op split_beta prod_eq_iff)
  qed
qed simp

end

definition pad_contents :: "PregelScratchpad \<times> pad_heap \<Rightarrow> string \<Rightarrow> goval list" where
  "pad_contents = (\<lambda>(p, hp) key. case stack_addr key p of None \<Rightarrow> [] | Some a \<Rightarrow> stack_at hp a)"

text \<open>Every stack that a scratchpad refers to is in the heap, and no two keys refer to one stack.\<close>

definition pad_ok :: "PregelScratchpad \<times> pad_heap \<Rightarrow> bool" where
  "pad_ok = (\<lambda>(p, hp). (\<forall>k a. stack_addr k p = Some a \<longrightarrow> a < length (hp_stacks hp)) \<and>
     (\<forall>k k' a. stack_addr k p = Some a \<longrightarrow> stack_addr k' p = Some a \<longrightarrow> k = k'))"

lemma stack_addr_simps [simp]:
  "stack_addr k (touch now p) = stack_addr k p"
  "stack_addr k (Pad_Set now key (PStack a) p) = (if k = key then Some a else stack_addr k p)"
  "stack_addr k (Pad_Delete now key p) = (if k = key then None else stack_addr k p)"
  by (simp_all add: stack_addr_def touch_def Pad_Set_def Pad_Delete_def gomap_simps)

lemma set_stack_simps [simp]:
  "length (hp_stacks (set_stack a items hp)) = length (hp_stacks hp)"
  "a < length (hp_stacks hp) \<Longrightarrow> stack_at (set_stack a items hp) b = (if b = a then items else stack_at hp b)"
  by (simp_all add: set_stack_def stack_at_def)

lemma SStack_Push_ok: "pad_ok s \<Longrightarrow> pad_ok (SStack_Push now k v s)"
  by (cases s) (fastforce simp: pad_ok_def SStack_Push_def Let_def split: option.splits if_splits)

lemma pad_okD:
  assumes "pad_ok (p, hp)"
  shows "stack_addr j p = Some a \<Longrightarrow> a < length (hp_stacks hp)"
    and "stack_addr j p = Some a \<Longrightarrow> stack_addr k p = Some b \<Longrightarrow> a = b \<longleftrightarrow> j = k"
  using assms by (auto simp: pad_ok_def)

lemma SStack_Push_contents:
  assumes "pad_ok s"
  shows "pad_contents (SStack_Push now k v s) = list_push k v (pad_contents s)"
proof
  fix j
  obtain p hp where s: "s = (p, hp)"
    by force
  note ok = pad_okD(1) [OF assms [unfolded s], where j = j] pad_okD(2) [OF assms [unfolded s], where j = j and k = k]
  note d = s pad_contents_def list_push_def SStack_Push_def Stack_Push_def
  show "pad_contents (SStack_Push now k v s) j = list_push k v (pad_contents s) j"
  proof (cases "stack_addr k p")
    case None
    then show ?thesis
      using ok(1) by (cases "stack_addr j p") (simp_all add: d Let_def NewStack_def stack_at_def nth_append)
  next
    case (Some a)
    then have "a < length (hp_stacks hp)"
      by (rule pad_okD(1) [OF assms [unfolded s]])
    with Some ok(2) show ?thesis
      by (cases "stack_addr j p") (auto simp: d)
  qed
qed

lemma SStack_Pop_ok: "pad_ok s \<Longrightarrow> pad_ok (fst (SStack_Pop now k s))"
  by (cases s) (fastforce simp: pad_ok_def SStack_Pop_def Let_def split_beta split: option.splits if_splits)

lemma SStack_Pop_contents:
  assumes "pad_ok s"
  shows "(pad_contents (fst (SStack_Pop now k s)), snd (SStack_Pop now k s)) = list_pop k (pad_contents s)"
proof -
  obtain p hp where s: "s = (p, hp)"
    by force
  note d = s pad_contents_def list_pop_def SStack_Pop_def Stack_Pop_def Stack_IsEmpty_def Let_def
  have "pad_contents (fst (SStack_Pop now k s)) j = fst (list_pop k (pad_contents s)) j" for j
  proof (cases "stack_addr k p")
    case None
    then show ?thesis
      by (simp add: d)
  next
    case (Some a)
    then have "a < length (hp_stacks hp)"
      by (rule pad_okD(1) [OF assms [unfolded s]])
    then show ?thesis
      using Some pad_okD(2) [OF assms [unfolded s], where j = j and k = k] by (cases "stack_addr j p") (auto simp: d)
  qed
  moreover have "snd (SStack_Pop now k s) = snd (list_pop k (pad_contents s))"
    by (simp add: d split: option.split)
  ultimately show ?thesis
    by (simp add: prod_eq_iff fun_eq_iff)
qed

interpretation pad_stacks: stack_store pad_contents "SStack_Push now" "SStack_Pop now" pad_ok for now
  by unfold_locales (simp_all add: SStack_Push_ok SStack_Push_contents SStack_Pop_ok SStack_Pop_contents)

text \<open>C17: the stacks kept in a scratchpad answer every sequence of pushes and pops under any keys like separate lists that
  grow and shrink at their ends, although each is a shared object that is changed in place.\<close>

theorem scratchpad_stacks_refine:
  "snd (run_stack_ops (SStack_Push now) (SStack_Pop now) ops (NewPregelScratchpad now, \<lparr>hp_stacks = [], hp_nodes = []\<rparr>)) =
   snd (run_stack_ops list_push list_pop ops (\<lambda>k. []))"
proof -
  let ?s = "(NewPregelScratchpad now, \<lparr>hp_stacks = [], hp_nodes = []\<rparr>)"
  have "pad_ok ?s" and "pad_contents ?s = (\<lambda>k. [])"
    by (auto simp: pad_ok_def pad_contents_def stack_addr_def NewPregelScratchpad_def)
  with pad_stacks.run_simulates [of ?s now ops] show ?thesis
    by (metis snd_conv)
qed

section \<open>Snapshots\<close>

lemma deepCopyValue_id [simp]: "deepCopyValue v = v"
proof (induction v rule: deepCopyValue.induct)
  case (1 m)
  then show ?case
    by (auto intro!: map_idI)
next
  case (2 xs)
  then show ?case
    by (auto intro!: map_idI)
qed auto

lemma copy_pad_value_id [simp]: "copy_pad_value v = v"
  by (cases v) auto

lemma copy_pad_map_id [simp]: "gm_ok m \<Longrightarrow> copy_pad_map m = m"
  by (simp add: copy_pad_map_def)

definition pad_maps_ok :: "PregelScratchpad \<Rightarrow> bool" where
  "pad_maps_ok p \<longleftrightarrow> gm_ok (pad_data p) \<and> gm_ok (pad_counters p) \<and> gm_ok (pad_metadata p)"

lemma Snapshot_data:
  assumes "pad_maps_ok p"
  shows "map_of (sn_Data (Snapshot p)) k = (if is_ctx_key k then None else map_of (pad_data p) k)"
  using assms map_of_filter_key [of "pad_data p" "\<lambda>k v. \<not> is_ctx_key k" k]
  by (auto simp: Snapshot_def pad_maps_ok_def split: option.splits)

text \<open>Restoring a snapshot of one scratchpad in another brings back its data, counters, metadata, step and call counts, and
  keeps the node contexts of the scratchpad it is restored in.\<close>

theorem snapshot_restores:
  assumes "pad_maps_ok p" and "pad_maps_ok q"
  shows "(let r = Restore (Some (Snapshot p)) q
    in (\<forall>k. map_of (pad_data r) k = (if is_ctx_key k then map_of (pad_data q) k else map_of (pad_data p) k)) \<and>
       pad_counters r = pad_counters p \<and> pad_metadata r = pad_metadata p \<and> pad_step r = pad_step p \<and>
       pad_callCounter r = pad_callCounter p \<and> pad_interruptCounter r = pad_interruptCounter p \<and>
       pad_subgraphCounter r = pad_subgraphCounter p \<and> pad_maps_ok r)"
proof -
  let ?r = "Restore (Some (Snapshot p)) q"
  have sn: "gm_ok (sn_Data (Snapshot p))" "sn_Counters (Snapshot p) = pad_counters p" "sn_Metadata (Snapshot p) = pad_metadata p"
    using assms(1) by (auto simp: Snapshot_def pad_maps_ok_def)
  have "map_of (pad_data ?r) k = (if is_ctx_key k then map_of (pad_data q) k else map_of (pad_data p) k)" for k
    using assms sn Snapshot_data [OF assms(1), of k] map_of_filter_key [of "pad_data q" "\<lambda>k v. is_ctx_key k" k]
    by (auto simp: Restore_def Let_def pad_maps_ok_def gomap_simps map_add_def split: option.splits)
  moreover have "pad_maps_ok ?r"
    using assms sn by (auto simp: Restore_def Let_def pad_maps_ok_def)
  ultimately show ?thesis
    using assms sn by (simp add: Let_def) (simp add: Restore_def Let_def pad_maps_ok_def Snapshot_def)
qed

definition some_pad :: PregelScratchpad where
  "some_pad = fst (IncrementCounter 1 ''c'' (Pad_Set 1 ''k'' (PVal (GInt 5)) (NewPregelScratchpad 0)))"

theorem snapshot_restores_witness:
  "map_of (pad_data (Restore (Some (Snapshot some_pad)) (Pad_Set 2 ''k'' (PVal GNil) some_pad))) ''k'' = Some (PVal (GInt 5))"
  using snapshot_restores [of some_pad "Pad_Set 2 ''k'' (PVal GNil) some_pad"]
  by (simp add: Let_def is_ctx_key_def some_pad_def IncrementCounter_def SetCounter_def GetCounter_def Pad_Set_def touch_def NewPregelScratchpad_def pad_maps_ok_def)

section \<open>Merging\<close>

lemma add_counters_lookup:
  "gm_ok cs \<Longrightarrow> (case map_of (fold add_counter cs m) k of None \<Rightarrow> 0 | Some n \<Rightarrow> n) =
     (case map_of m k of None \<Rightarrow> 0 | Some n \<Rightarrow> n) + (case map_of cs k of None \<Rightarrow> 0 | Some n \<Rightarrow> n)"
proof (induction cs arbitrary: m)
  case (Cons c cs)
  obtain j n where c: "c = (j, n)"
    by force
  have "map_of cs j = None"
    using Cons.prems by (simp add: c map_of_eq_None_iff)
  then show ?case
    using Cons by (auto simp: c add_counter_def gomap_simps)
qed simp

text \<open>Merging another scratchpad takes over its data and metadata where both have a key, never its node contexts, adds
  the counters, with wrap-around, and keeps the larger step.\<close>

theorem MergeFrom_spec:
  assumes "pad_maps_ok p" and "pad_maps_ok q"
  shows "(let r = MergeFrom now (Some q) p
    in (\<forall>k. map_of (pad_data r) k =
          (if is_ctx_key k \<or> map_of (pad_data q) k = None then map_of (pad_data p) k else map_of (pad_data q) k)) \<and>
       (\<forall>k. GetCounter k r = GetCounter k p + GetCounter k q) \<and>
       map_of (pad_metadata r) = map_of (pad_metadata p) ++ map_of (pad_metadata q) \<and>
       sint (pad_step r) = max (sint (pad_step p)) (sint (pad_step q)) \<and>
       pad_callCounter r = pad_callCounter p + pad_callCounter q)"
proof -
  let ?r = "MergeFrom now (Some q) p"
  have sn: "gm_ok (sn_Data (Snapshot q))" "sn_Counters (Snapshot q) = pad_counters q" "sn_Metadata (Snapshot q) = pad_metadata q"
    "sn_Step (Snapshot q) = pad_step q" "sn_CallCount (Snapshot q) = pad_callCounter q"
    using assms(2) by (auto simp: Snapshot_def pad_maps_ok_def)
  have "map_of (pad_data ?r) k = (if is_ctx_key k \<or> map_of (pad_data q) k = None then map_of (pad_data p) k else map_of (pad_data q) k)" for k
    using sn(1) Snapshot_data [OF assms(2), of k] by (auto simp: MergeFrom_def Let_def touch_def gomap_simps map_add_def split: option.splits)
  moreover have "GetCounter k ?r = GetCounter k p + GetCounter k q" for k
    using assms(2) add_counters_lookup [of "pad_counters q" "pad_counters p" k]
    by (simp add: MergeFrom_def Let_def touch_def GetCounter_def sn pad_maps_ok_def)
  ultimately show ?thesis
    using assms(2) by (simp add: Let_def) (auto simp: MergeFrom_def Let_def touch_def sn gomap_simps pad_maps_ok_def)
qed

theorem MergeFrom_spec_witness: "GetCounter ''c'' (MergeFrom 3 (Some some_pad) some_pad) = 2"
  using MergeFrom_spec [of some_pad some_pad 3]
  by (simp add: Let_def some_pad_def IncrementCounter_def SetCounter_def GetCounter_def Pad_Set_def touch_def NewPregelScratchpad_def pad_maps_ok_def)

section \<open>Expiry\<close>

text \<open>After its time to live a scratchpad is expired at every later time, until it is cleared; then it is empty and no longer
  expired.\<close>

theorem expiry_spec:
  assumes "0 < d" and "start + d < now" and "now \<le> later"
  shows "IsExpired now (SetTimeout start d p) \<and> IsExpired later (SetTimeout start d p) \<and>
    snd (ClearExpired now later (SetTimeout start d p)) \<and> pad_data (fst (ClearExpired now later (SetTimeout start d p))) = [] \<and>
    \<not> IsExpired t (fst (ClearExpired now later (SetTimeout start d p)))"
  using assms by (simp add: IsExpired_def SetTimeout_def ClearExpired_def touch_def gomap_simps)

section \<open>What a snapshot does not hold\<close>

text \<open>A snapshot refers to the stacks of the scratchpad: what is pushed after it was taken is still there when it is
  restored.\<close>

theorem snapshot_shares_stacks:
  "\<exists>s p hp p' hp'. s = SStack_Push now ''k'' (GInt 1) (NewPregelScratchpad now, \<lparr>hp_stacks = [], hp_nodes = []\<rparr>) \<and> s = (p, hp) \<and>
     SStack_Push now ''k'' (GInt 2) s = (p', hp') \<and>
     pad_contents s ''k'' = [GInt 1] \<and> pad_contents (Restore (Some (Snapshot p)) p', hp') ''k'' = [GInt 1, GInt 2]"
  by (simp add: SStack_Push_def stack_addr_def NewPregelScratchpad_def Let_def Pad_Set_def touch_def Stack_Push_def NewStack_def
      pad_contents_def stack_at_def set_stack_def Restore_def Snapshot_def is_ctx_key_def copy_pad_map_def gm_copy_into_def)

text \<open>The context of a node whose name is empty is taken for data: it is part of snapshots and survives clearing all
  contexts.\<close>

theorem empty_name_context_kept:
  "map_of (sn_Data (Snapshot (fst (fst (NodeContext [] (NewPregelScratchpad now, \<lparr>hp_stacks = [], hp_nodes = []\<rparr>)))))) (ctx_key []) = Some (PNode 0)"
  "map_of (pad_data (ClearAllNodeContexts (fst (fst (NodeContext [] (NewPregelScratchpad now, \<lparr>hp_stacks = [], hp_nodes = []\<rparr>)))))) (ctx_key []) = Some (PNode 0)"
  by (simp_all add: NodeContext_def ctx_key_def NewPregelScratchpad_def Let_def Snapshot_def is_ctx_key_def copy_pad_map_def gm_copy_into_def
      ClearAllNodeContexts_def)

text \<open>The flags to stop and to resume are not part of a snapshot.\<close>

theorem snapshot_without_flags:
  "pad_stop (Restore (Some (Snapshot p)) q) = pad_stop q" "pad_resume (Restore (Some (Snapshot p)) q) = pad_resume q"
  by (simp_all add: Restore_def Let_def)

end
