(* ===== verification/Managed.thy ===== *)
theory Managed
  imports GraphErrors
begin

text \<open>
  Managed values (\<^verbatim>\<open>managed/managed.go\<close>): values a node reads from the scratchpad of the runtime, the runtime record with
  cloning, merging and overriding, the patches of a configuration, and checkpoint namespaces. A map that may be nil is
  an option. The functions that hand out stream writers, format values for debugging or walk the fields of a struct by
  reflection are left out.
\<close>

section \<open>Managed values\<close>

datatype ManagedValue =
  IsLastStep bool
| CurrentStep i64
| ConfigValue string goval
| TaskID string
| NodeName string

definition NewIsLastStep :: ManagedValue where
  "NewIsLastStep = IsLastStep False"

definition NewCurrentStep :: ManagedValue where
  "NewCurrentStep = CurrentStep 0"

definition NewConfigValue :: "string \<Rightarrow> goval \<Rightarrow> ManagedValue" where
  "NewConfigValue key defaultValue = ConfigValue key defaultValue"

definition NewTaskID :: ManagedValue where
  "NewTaskID = TaskID []"

definition NewNodeName :: ManagedValue where
  "NewNodeName = NodeName []"

text \<open>A field of the scratchpad that has the wanted type; the scratchpad has to be of type \<^verbatim>\<open>map[string]interface{}\<close>.\<close>

definition pad_field :: "(goval \<Rightarrow> 'a option) \<Rightarrow> goval \<Rightarrow> string \<Rightarrow> 'a option" where
  "pad_field as scratchpad key = Option.bind (as_map scratchpad) (\<lambda>sd. Option.bind (map_of sd key) as)"

text \<open>\<^verbatim>\<open>Get\<close> of the five types: four of them remember what they have found.\<close>

definition IsLastStep_Get :: "goval \<Rightarrow> bool \<Rightarrow> bool" where
  "IsLastStep_Get sp b = (case pad_field as_bool sp ''is_last_step'' of None \<Rightarrow> b | Some x \<Rightarrow> x)"

definition CurrentStep_Get :: "goval \<Rightarrow> i64 \<Rightarrow> i64" where
  "CurrentStep_Get sp n = (case pad_field as_int sp ''current_step'' of None \<Rightarrow> n | Some x \<Rightarrow> x)"

definition ConfigValue_Get :: "goval \<Rightarrow> string \<Rightarrow> goval \<Rightarrow> goval" where
  "ConfigValue_Get sp key d = (case Option.bind (pad_field as_map sp ''configurable'') (\<lambda>c. map_of c key) of None \<Rightarrow> d | Some v \<Rightarrow> v)"

definition TaskID_Get :: "goval \<Rightarrow> string \<Rightarrow> string" where
  "TaskID_Get sp s = (case pad_field as_string sp ''task_id'' of None \<Rightarrow> s | Some x \<Rightarrow> x)"

definition NodeName_Get :: "goval \<Rightarrow> string \<Rightarrow> string" where
  "NodeName_Get sp s = (case pad_field as_string sp ''node_name'' of None \<Rightarrow> s | Some x \<Rightarrow> x)"

fun MV_Get :: "goval \<Rightarrow> ManagedValue \<Rightarrow> ManagedValue \<times> goval" where
  "MV_Get sp (IsLastStep b) = (let b' = IsLastStep_Get sp b in (IsLastStep b', GBool b'))"
| "MV_Get sp (CurrentStep n) = (let n' = CurrentStep_Get sp n in (CurrentStep n', GInt n'))"
| "MV_Get sp (ConfigValue key d) = (ConfigValue key d, ConfigValue_Get sp key d)"
| "MV_Get sp (TaskID s) = (let s' = TaskID_Get sp s in (TaskID s', GStr s'))"
| "MV_Get sp (NodeName s) = (let s' = NodeName_Get sp s in (NodeName s', GStr s'))"

fun MV_Name :: "ManagedValue \<Rightarrow> string" where
  "MV_Name (IsLastStep b) = ''IsLastStep''"
| "MV_Name (CurrentStep n) = ''CurrentStep''"
| "MV_Name (ConfigValue key d) = ''ConfigValue['' @ key @ '']''"
| "MV_Name (TaskID s) = ''TaskID''"
| "MV_Name (NodeName s) = ''NodeName''"

definition MV_Copy :: "ManagedValue \<Rightarrow> ManagedValue" where
  "MV_Copy v = v"

fun CurrentStep_Increment :: "ManagedValue \<Rightarrow> ManagedValue" where
  "CurrentStep_Increment (CurrentStep n) = CurrentStep (n + 1)"
| "CurrentStep_Increment v = v"

record ManagedValueSpec =
  mvs_Name :: string
  mvs_Factory :: "(unit \<Rightarrow> ManagedValue) option"
  mvs_Default :: goval

definition Spec_Create :: "ManagedValueSpec \<Rightarrow> ManagedValue option" where
  "Spec_Create s = map_option (\<lambda>f. f ()) (mvs_Factory s)"

definition Spec_GetValue :: "ManagedValueSpec \<Rightarrow> goval \<Rightarrow> goval" where
  "Spec_GetValue s scratchpad =
     (if scratchpad \<noteq> GNil then (case mvs_Factory s of Some f \<Rightarrow> snd (MV_Get scratchpad (f ())) | None \<Rightarrow> mvs_Default s) else mvs_Default s)"

type_synonym ManagedValueMapping = "ManagedValue gomap"

definition Mapping_Register :: "string \<Rightarrow> ManagedValue \<Rightarrow> ManagedValueMapping \<Rightarrow> ManagedValueMapping" where
  "Mapping_Register name v m = gm_set name v m"

definition Mapping_Get :: "string \<Rightarrow> ManagedValueMapping \<Rightarrow> ManagedValue option" where
  "Mapping_Get name m = map_of m name"

definition Mapping_Contains :: "string \<Rightarrow> ManagedValueMapping \<Rightarrow> bool" where
  "Mapping_Contains name m = (map_of m name \<noteq> None)"

definition Mapping_Names :: "ManagedValueMapping \<Rightarrow> string list" where
  "Mapping_Names m = gm_keys m"

section \<open>The scratchpad of the package\<close>

text \<open>The type \<^verbatim>\<open>PregelScratchpad\<close> is a map of its own: as a dynamic value it is not a \<^verbatim>\<open>map[string]interface{}\<close>.\<close>

type_synonym MPregelScratchpad = gostate

definition scratchpad_value :: "MPregelScratchpad \<Rightarrow> goval" where
  "scratchpad_value p = GStruct ''managed.PregelScratchpad'' p"

definition pad_counter :: "string \<Rightarrow> MPregelScratchpad \<Rightarrow> i64" where
  "pad_counter key p = (case as_int (gm_val p key) of None \<Rightarrow> 0 | Some n \<Rightarrow> n)"

definition GetCallCounter :: "MPregelScratchpad \<Rightarrow> i64" where
  "GetCallCounter p = pad_counter ''call_counter'' p"

definition M_IncrementCallCounter :: "MPregelScratchpad \<Rightarrow> MPregelScratchpad" where
  "M_IncrementCallCounter p = gm_set ''call_counter'' (GInt (GetCallCounter p + 1)) p"

definition SetCallCounter :: "i64 \<Rightarrow> MPregelScratchpad \<Rightarrow> MPregelScratchpad" where
  "SetCallCounter n p = gm_set ''call_counter'' (GInt n) p"

definition GetInterruptCounter :: "MPregelScratchpad \<Rightarrow> i64" where
  "GetInterruptCounter p = pad_counter ''interrupt_counter'' p"

definition M_IncrementInterruptCounter :: "MPregelScratchpad \<Rightarrow> MPregelScratchpad" where
  "M_IncrementInterruptCounter p = gm_set ''interrupt_counter'' (GInt (GetInterruptCounter p + 1)) p"

definition GetSubgraphCounter :: "MPregelScratchpad \<Rightarrow> i64" where
  "GetSubgraphCounter p = pad_counter ''subgraph_counter'' p"

definition M_IncrementSubgraphCounter :: "MPregelScratchpad \<Rightarrow> MPregelScratchpad" where
  "M_IncrementSubgraphCounter p = gm_set ''subgraph_counter'' (GInt (GetSubgraphCounter p + 1)) p"

definition M_Get :: "string \<Rightarrow> MPregelScratchpad \<Rightarrow> goval option" where
  "M_Get key p = map_of p key"

definition M_Set :: "string \<Rightarrow> goval \<Rightarrow> MPregelScratchpad \<Rightarrow> MPregelScratchpad" where
  "M_Set key v p = gm_set key v p"

definition M_Delete :: "string \<Rightarrow> MPregelScratchpad \<Rightarrow> MPregelScratchpad" where
  "M_Delete key p = gm_delete key p"

definition M_Clear :: "MPregelScratchpad \<Rightarrow> MPregelScratchpad" where
  "M_Clear p = fold (\<lambda>(k, v) m. gm_delete k m) p p"

definition M_Clone :: "MPregelScratchpad \<Rightarrow> MPregelScratchpad" where
  "M_Clone p = gm_copy_into p []"

section \<open>The runtime\<close>

text \<open>The function that writes to the stream is of a type \<open>'f\<close> that is only passed on.\<close>

record 'f Runtime =
  rt_TaskID :: string
  rt_NodeName :: string
  rt_Step :: i64
  rt_Configurable :: "gostate option"
  rt_CheckpointNS :: string
  rt_Context :: goval
  rt_Store :: goval
  rt_StreamWriter :: "'f option"
  rt_Previous :: goval

definition NewRuntime :: "'f Runtime" where
  "NewRuntime =
     \<lparr>rt_TaskID = [], rt_NodeName = [], rt_Step = 0, rt_Configurable = Some [], rt_CheckpointNS = [], rt_Context = GNil, rt_Store = GNil,
      rt_StreamWriter = None, rt_Previous = GNil\<rparr>"

definition cloneMap :: "gostate option \<Rightarrow> gostate option" where
  "cloneMap src = map_option (\<lambda>m. gm_copy_into m []) src"

definition RT_Clone :: "'f Runtime \<Rightarrow> 'f Runtime" where
  "RT_Clone r = r\<lparr>rt_Configurable := cloneMap (rt_Configurable r)\<rparr>"

definition merge_fields :: "'f Runtime \<Rightarrow> 'f Runtime \<Rightarrow> 'f Runtime" where
  "merge_fields other m =
     \<lparr>rt_TaskID = (if rt_TaskID other \<noteq> [] then rt_TaskID other else rt_TaskID m),
      rt_NodeName = (if rt_NodeName other \<noteq> [] then rt_NodeName other else rt_NodeName m),
      rt_Step = (if rt_Step other \<noteq> 0 then rt_Step other else rt_Step m),
      rt_Configurable = rt_Configurable m,
      rt_CheckpointNS = (if rt_CheckpointNS other \<noteq> [] then rt_CheckpointNS other else rt_CheckpointNS m),
      rt_Context = (if rt_Context other \<noteq> GNil then rt_Context other else rt_Context m),
      rt_Store = (if rt_Store other \<noteq> GNil then rt_Store other else rt_Store m),
      rt_StreamWriter = (if rt_StreamWriter other \<noteq> None then rt_StreamWriter other else rt_StreamWriter m),
      rt_Previous = (if rt_Previous other \<noteq> GNil then rt_Previous other else rt_Previous m)\<rparr>"

text \<open>Writing into the nil map of a receiver panics.\<close>

definition RT_Merge :: "'f Runtime option \<Rightarrow> 'f Runtime \<Rightarrow> gerror + 'f Runtime" where
  "RT_Merge other r =
     (case other of
        None \<Rightarrow> Inr (RT_Clone r)
      | Some q \<Rightarrow>
          (let m = merge_fields q (RT_Clone r)
           in (case rt_Configurable q of
                 None \<Rightarrow> Inr m
               | Some qc \<Rightarrow>
                   if qc = [] then Inr m
                   else (case rt_Configurable m of
                           None \<Rightarrow> Inl (PanicError ''assignment to entry in nil map'')
                         | Some mc \<Rightarrow> Inr (m\<lparr>rt_Configurable := Some (gm_copy_into qc mc)\<rparr>)))))"

definition RT_Set :: "string \<Rightarrow> goval \<Rightarrow> 'f Runtime \<Rightarrow> 'f Runtime" where
  "RT_Set key v r = r\<lparr>rt_Configurable := Some (gm_set key v (case rt_Configurable r of None \<Rightarrow> [] | Some c \<Rightarrow> c))\<rparr>"

definition RT_Get :: "string \<Rightarrow> 'f Runtime \<Rightarrow> goval option" where
  "RT_Get key r = Option.bind (rt_Configurable r) (\<lambda>c. map_of c key)"

text \<open>\<^verbatim>\<open>Override\<close>; \<open>as_writer\<close> is the type assertion to a stream writer.\<close>

definition RT_Override :: "(goval \<Rightarrow> 'f option) \<Rightarrow> gostate \<Rightarrow> 'f Runtime \<Rightarrow> 'f Runtime" where
  "RT_Override as_writer overrides r =
     (let n = RT_Clone r; str = (\<lambda>key old. case Option.bind (map_of overrides key) as_string of None \<Rightarrow> old | Some s \<Rightarrow> s);
          any = (\<lambda>key old. case map_of overrides key of None \<Rightarrow> old | Some v \<Rightarrow> v)
      in \<lparr>rt_TaskID = str ''task_id'' (rt_TaskID n), rt_NodeName = str ''node_name'' (rt_NodeName n),
          rt_Step = (case Option.bind (map_of overrides ''step'') as_int of None \<Rightarrow> rt_Step n | Some s \<Rightarrow> s),
          rt_Configurable = rt_Configurable n, rt_CheckpointNS = str ''checkpoint_ns'' (rt_CheckpointNS n),
          rt_Context = any ''context'' (rt_Context n), rt_Store = any ''store'' (rt_Store n),
          rt_StreamWriter = (case Option.bind (map_of overrides ''stream_writer'') as_writer of None \<Rightarrow> rt_StreamWriter n | Some w \<Rightarrow> Some w),
          rt_Previous = any ''previous'' (rt_Previous n)\<rparr>)"

section \<open>Configurations\<close>

definition GetTaskID :: "gostate option \<Rightarrow> string" where
  "GetTaskID config = (case Option.bind (Option.bind config (\<lambda>c. map_of c ''__task_id__'')) as_string of None \<Rightarrow> [] | Some s \<Rightarrow> s)"

definition get_entry :: "string \<Rightarrow> gostate option \<Rightarrow> goval" where
  "get_entry key config = (case config of None \<Rightarrow> GNil | Some c \<Rightarrow> gm_val c key)"

definition set_entry :: "string \<Rightarrow> goval \<Rightarrow> gostate option \<Rightarrow> gostate option" where
  "set_entry key v config = map_option (gm_set key v) config"

definition M_GetReader :: "gostate option \<Rightarrow> goval" where
  "M_GetReader config = get_entry ''__read__'' config"

definition M_SetReader :: "goval \<Rightarrow> gostate option \<Rightarrow> gostate option" where
  "M_SetReader v config = set_entry ''__read__'' v config"

definition M_GetWriter :: "gostate option \<Rightarrow> goval" where
  "M_GetWriter config = get_entry ''__writer__'' config"

definition M_SetWriter :: "goval \<Rightarrow> gostate option \<Rightarrow> gostate option" where
  "M_SetWriter v config = set_entry ''__writer__'' v config"

definition M_PatchConfig :: "gostate option \<Rightarrow> gostate option \<Rightarrow> gostate" where
  "M_PatchConfig cfg updates =
     (let b = (case cfg of None \<Rightarrow> [] | Some b \<Rightarrow> b)
      in (case updates of None \<Rightarrow> b | Some u \<Rightarrow> gm_copy_into u (gm_copy_into b [])))"

definition PatchConfigurable :: "gostate option \<Rightarrow> gostate option \<Rightarrow> gostate" where
  "PatchConfigurable cfg updates =
     (let b = (case cfg of None \<Rightarrow> [] | Some b \<Rightarrow> b)
      in (case updates of
            None \<Rightarrow> b
          | Some u \<Rightarrow>
              (let old = (case Option.bind (map_of b ''__configurable__'') as_map of None \<Rightarrow> [] | Some m \<Rightarrow> gm_copy_into m [])
               in gm_set ''__configurable__'' (GMap (gm_copy_into u old)) (gm_copy_into b []))))"

definition GetConfigurable :: "gostate option \<Rightarrow> gostate option" where
  "GetConfigurable config = Option.bind config (\<lambda>c. Option.bind (map_of c ''__configurable__'') as_map)"

definition GetCheckpointNS :: "gostate option \<Rightarrow> string" where
  "GetCheckpointNS config = (case Option.bind (Option.bind config (\<lambda>c. map_of c ''__checkpoint_ns__'')) as_string of None \<Rightarrow> [] | Some s \<Rightarrow> s)"

definition SetCheckpointNS :: "string \<Rightarrow> gostate option \<Rightarrow> gostate option" where
  "SetCheckpointNS ns config = set_entry ''__checkpoint_ns__'' (GStr ns) config"

section \<open>Checkpoint namespaces\<close>

definition splitCheckpointNS :: "string \<Rightarrow> string list" where
  "splitCheckpointNS ns = split_on (CHR ''|'') ns"

fun join_rest :: "string \<Rightarrow> string list \<Rightarrow> string" where
  "join_rest result [] = result"
| "join_rest result (p # ps) = join_rest (result @ ''|'' @ p) ps"

definition joinCheckpointNS :: "string list \<Rightarrow> string" where
  "joinCheckpointNS parts = (case parts of [] \<Rightarrow> [] | p # ps \<Rightarrow> join_rest p ps)"

definition ParseCheckpointNS :: "string \<Rightarrow> string list" where
  "ParseCheckpointNS ns = (if ns = [] then [] else splitCheckpointNS ns)"

text \<open>The regular expression for a UUID in lower case: groups of 8, 4, 4, 4 and 12 hexadecimal digits.\<close>

definition hex_group :: "nat \<Rightarrow> string \<Rightarrow> bool" where
  "hex_group n s \<longleftrightarrow> length s = n \<and> list_all (\<lambda>c. c \<in> set ''0123456789abcdef'') s"

definition isTaskID :: "string \<Rightarrow> bool" where
  "isTaskID s = (case split_on (CHR ''-'') s of
     [a, b, c, d, e] \<Rightarrow> hex_group 8 a \<and> hex_group 4 b \<and> hex_group 4 c \<and> hex_group 4 d \<and> hex_group 12 e | _ \<Rightarrow> False)"

definition RecastCheckpointNS :: "string \<Rightarrow> string" where
  "RecastCheckpointNS ns =
     (let parts = splitCheckpointNS ns
      in if parts = [] then [] else if isTaskID (last parts) then joinCheckpointNS (butlast parts) else ns)"

section \<open>Namespaces without task identifiers\<close>

lemma joinCheckpointNS_eq: "joinCheckpointNS parts = join_with ''|'' parts"
proof -
  have "join_rest r ps = join_with ''|'' (r # ps)" for r ps
  proof (induction ps arbitrary: r)
    case (Cons p ps)
    show ?case
      using Cons.IH [of "r @ ''|'' @ p"] by (cases ps) auto
  qed simp
  then show ?thesis
    by (auto simp: joinCheckpointNS_def split: list.split)
qed

text \<open>A namespace is read back as the levels it was made of; recasting it drops its last level exactly if that is a
  task identifier, and nothing more when it is done again.\<close>

theorem namespace_roundtrip:
  assumes "parts \<noteq> []" and "parts \<noteq> [[]]" and "\<forall>p \<in> set parts. CHR ''|'' \<notin> set p"
  shows "ParseCheckpointNS (joinCheckpointNS parts) = parts \<and>
    RecastCheckpointNS (joinCheckpointNS parts) = (if isTaskID (last parts) then joinCheckpointNS (butlast parts) else joinCheckpointNS parts)"
proof -
  have split: "splitCheckpointNS (joinCheckpointNS parts) = parts"
    using assms(1,3) by (simp add: splitCheckpointNS_def joinCheckpointNS_eq split_join)
  moreover have "joinCheckpointNS parts \<noteq> []"
  proof
    assume "joinCheckpointNS parts = []"
    then have "splitCheckpointNS [] = parts"
      using split by simp
    with assms(2) show False
      by (simp add: splitCheckpointNS_def)
  qed
  ultimately show ?thesis
    using assms(1) by (simp add: ParseCheckpointNS_def RecastCheckpointNS_def Let_def)
qed

definition some_task :: string where
  "some_task = ''01234567-89ab-cdef-0123-456789abcdef''"

theorem namespace_roundtrip_witness:
  "ParseCheckpointNS (joinCheckpointNS [''a'', ''b'', some_task]) = [''a'', ''b'', some_task] \<and>
   RecastCheckpointNS (joinCheckpointNS [''a'', ''b'', some_task]) = ''a|b''"
  using namespace_roundtrip [of "[''a'', ''b'', some_task]"]
  by (simp add: some_task_def isTaskID_def hex_group_def joinCheckpointNS_def)

text \<open>A task identifier after a colon, where the constants place it, is not dropped.\<close>

theorem recast_keeps_task_after_colon:
  "RecastCheckpointNS (''node:'' @ some_task) = ''node:'' @ some_task"
  by (simp add: RecastCheckpointNS_def splitCheckpointNS_def Let_def some_task_def isTaskID_def hex_group_def)

section \<open>Patches and runtimes\<close>

lemma as_map_Some: "as_map v = Some m \<longleftrightarrow> v = GMap m"
  by (cases v) (simp_all add: as_map_def)

text \<open>A patch of the configurable section overrides the entries it names and keeps the others, and leaves the rest of the
  configuration alone.\<close>

theorem PatchConfigurable_spec:
  assumes "gm_ok cfg" and "gm_ok u" and "\<forall>m. map_of cfg ''__configurable__'' = Some (GMap m) \<longrightarrow> gm_ok m"
  shows "(\<exists>c. GetConfigurable (Some (PatchConfigurable (Some cfg) (Some u))) = Some c \<and>
      (\<forall>k. map_of c k = (case map_of u k of Some v \<Rightarrow> Some v | None \<Rightarrow> Option.bind (GetConfigurable (Some cfg)) (\<lambda>m. map_of m k)))) \<and>
    (\<forall>k. k = ''__configurable__'' \<or> map_of (PatchConfigurable (Some cfg) (Some u)) k = map_of cfg k)"
proof -
  obtain old where old: "(case Option.bind (map_of cfg ''__configurable__'') as_map of None \<Rightarrow> [] | Some m \<Rightarrow> gm_copy_into m []) = old"
    "\<And>k. Option.bind (GetConfigurable (Some cfg)) (\<lambda>m. map_of m k) = map_of old k"
  proof (cases "GetConfigurable (Some cfg)")
    case None
    then show ?thesis
      by (intro that [of "[]"]) (simp_all add: GetConfigurable_def)
  next
    case (Some m)
    then have m: "map_of cfg ''__configurable__'' = Some (GMap m)"
      by (auto simp: GetConfigurable_def bind_eq_Some_conv as_map_Some)
    with assms(3) Some show ?thesis
      by (intro that [of m]) (simp_all add: as_map_def)
  qed
  have "PatchConfigurable (Some cfg) (Some u) = gm_set ''__configurable__'' (GMap (gm_copy_into u old)) cfg"
    using assms(1) by (simp add: PatchConfigurable_def Let_def old(1))
  then show ?thesis
    using assms(2) old(2) by (auto simp: GetConfigurable_def gomap_simps as_map_def map_add_def split: option.split)
qed

theorem PatchConfigurable_spec_witness:
  "\<exists>c. GetConfigurable (Some (PatchConfigurable (Some [(''__configurable__'', GMap [(''a'', GInt 1), (''b'', GInt 2)])]) (Some [(''a'', GInt 3)]))) = Some c \<and>
     map_of c ''a'' = Some (GInt 3) \<and> map_of c ''b'' = Some (GInt 2)"
  using PatchConfigurable_spec [of "[(''__configurable__'', GMap [(''a'', GInt 1), (''b'', GInt 2)])]" "[(''a'', GInt 3)]"]
  by (auto simp: GetConfigurable_def as_map_def)

text \<open>Merging a runtime takes every field the other one sets and keeps the rest; keys of the configurable section are
  merged. It panics exactly if the receiver's section is nil and the other one's is not empty.\<close>

theorem RT_Merge_spec:
  assumes "\<forall>c. rt_Configurable r = Some c \<longrightarrow> gm_ok c" and "\<forall>c. rt_Configurable q = Some c \<longrightarrow> gm_ok c"
  shows "(case RT_Merge (Some q) r of
      Inl e \<Rightarrow> rt_Configurable r = None \<and> rt_Configurable q \<notin> {None, Some []}
    | Inr m \<Rightarrow>
        (rt_Configurable r \<noteq> None \<or> rt_Configurable q \<in> {None, Some []}) \<and>
        (\<forall>k. RT_Get k m = (case RT_Get k q of None \<Rightarrow> RT_Get k r | Some v \<Rightarrow> Some v)) \<and>
        rt_TaskID m = (if rt_TaskID q = [] then rt_TaskID r else rt_TaskID q) \<and>
        rt_Step m = (if rt_Step q = 0 then rt_Step r else rt_Step q) \<and>
        rt_Previous m = (if rt_Previous q = GNil then rt_Previous r else rt_Previous q))"
  using assms
  by (cases "rt_Configurable r"; cases "rt_Configurable q")
    (simp_all add: RT_Merge_def Let_def merge_fields_def RT_Clone_def cloneMap_def RT_Get_def gomap_simps map_add_def split: option.split)

theorem RT_Merge_spec_witness:
  "\<exists>m. RT_Merge (Some ((NewRuntime :: unit Runtime)\<lparr>rt_Step := 2, rt_Configurable := Some [(''k'', GInt 1)]\<rparr>)) NewRuntime = Inr m \<and>
     RT_Get ''k'' m = Some (GInt 1)"
proof -
  let ?q = "(NewRuntime :: unit Runtime)\<lparr>rt_Step := 2, rt_Configurable := Some [(''k'', GInt 1)]\<rparr>"
  have "is_ok (RT_Merge (Some ?q) NewRuntime)"
    by (simp add: RT_Merge_def NewRuntime_def merge_fields_def RT_Clone_def cloneMap_def Let_def)
  then obtain m where m: "RT_Merge (Some ?q) NewRuntime = Inr m"
    by (auto simp: is_ok_iff)
  with RT_Merge_spec [of NewRuntime ?q] show ?thesis
    by (auto simp: NewRuntime_def RT_Get_def split: option.splits)
qed

text \<open>Managed values do not see the package's own scratchpad type.\<close>

theorem own_scratchpad_not_read: "MV_Get (scratchpad_value p) NewCurrentStep = (NewCurrentStep, GInt 0)"
  by (simp add: scratchpad_value_def CurrentStep_Get_def pad_field_def as_map_def NewCurrentStep_def)

text \<open>A value that has been read keeps what it found for scratchpads that do not have it.\<close>

theorem managed_value_remembers:
  "as_map sp = Some sd \<Longrightarrow> map_of sd ''current_step'' = Some (GInt n) \<Longrightarrow> map_of sd' ''current_step'' = None \<Longrightarrow>
     snd (MV_Get (GMap sd') (fst (MV_Get sp NewCurrentStep))) = GInt n"
  by (simp add: NewCurrentStep_def CurrentStep_Get_def pad_field_def as_map_def as_int_def)

end
