(* ===== verification/PriorityHeap.thy ===== *)
theory PriorityHeap
  imports GraphErrors
begin

text \<open>
  Background tasks and their priority queue (\<^verbatim>\<open>pregel/background.go\<close>): a binary heap in an array whose root has
  the highest priority. The loops of \<^verbatim>\<open>heapifyUp\<close> and \<^verbatim>\<open>heapifyDown\<close> run on indices of the array; each keeps the
  order of the heap everywhere except around the index it stands at. What a client may rely on is the locale
  \<open>max_queue\<close>. Priorities are only compared, so they are integers.
\<close>

section \<open>Tasks\<close>

text \<open>The function of a task is given whether its context is done when it is called. The channel for its result and
  its cancel function belong to the executor.\<close>

record BackgroundTask =
  bt_ID :: string
  bt_Name :: string
  bt_Func :: "bool \<Rightarrow> goval \<times> gerror option"
  bt_Priority :: int

definition PriorityLow :: int where "PriorityLow = 0"

definition PriorityNormal :: int where "PriorityNormal = 5"

definition PriorityHigh :: int where "PriorityHigh = 10"

definition PriorityCritical :: int where "PriorityCritical = 20"

section \<open>The heap\<close>

record PriorityQueue =
  pq_tasks :: "BackgroundTask list"

definition NewPriorityQueue :: PriorityQueue where
  "NewPriorityQueue = \<lparr>pq_tasks = []\<rparr>"

definition heap_swap :: "nat \<Rightarrow> nat \<Rightarrow> 'a list \<Rightarrow> 'a list" where
  "heap_swap i j ts = ts[i := ts ! j, j := ts ! i]"

definition heap_parent :: "nat \<Rightarrow> nat" where
  "heap_parent index = (index - 1) div 2"

lemma heap_parent_0 [simp]: "heap_parent 0 = 0"
  by (simp add: heap_parent_def)

lemma parent_less: "0 < j \<Longrightarrow> heap_parent j < j"
  unfolding heap_parent_def by linarith

lemma parent_bound [simp, intro]: "i < n \<Longrightarrow> heap_parent i < n"
  unfolding heap_parent_def by linarith

lemma parent_iff: "0 < j \<Longrightarrow> heap_parent j = i \<longleftrightarrow> j = 2 * i + 1 \<or> j = 2 * i + 2"
  unfolding heap_parent_def by presburger

lemma length_heap_swap [simp]: "length (heap_swap i j ts) = length ts"
  by (simp add: heap_swap_def)

function heapifyUp :: "BackgroundTask list \<Rightarrow> nat \<Rightarrow> BackgroundTask list" where
  "heapifyUp ts index =
     (if index > 0 then
        (let parent = heap_parent index
         in if bt_Priority (ts ! parent) \<ge> bt_Priority (ts ! index) then ts
            else heapifyUp (heap_swap parent index ts) parent)
      else ts)"
  by auto
termination
  by (relation "measure snd") (auto intro: parent_less)

text \<open>The index of the largest among a task and its children.\<close>

definition heap_largest :: "BackgroundTask list \<Rightarrow> nat \<Rightarrow> nat" where
  "heap_largest ts index =
     (let left = 2 * index + 1;
          right = 2 * index + 2;
          l = (if left < length ts \<and> bt_Priority (ts ! left) > bt_Priority (ts ! index) then left else index)
      in if right < length ts \<and> bt_Priority (ts ! right) > bt_Priority (ts ! l) then right else l)"

lemma heap_largest_cases:
  "heap_largest ts i = i \<or> i < heap_largest ts i \<and> heap_largest ts i < length ts \<and> heap_parent (heap_largest ts i) = i"
  by (auto simp: heap_largest_def Let_def parent_iff)

function heapifyDown :: "BackgroundTask list \<Rightarrow> nat \<Rightarrow> BackgroundTask list" where
  "heapifyDown ts index =
     (if heap_largest ts index = index then ts
      else heapifyDown (heap_swap index (heap_largest ts index) ts) (heap_largest ts index))"
  by auto
termination
proof (relation "measure (\<lambda>(ts, i). length ts - i)")
  fix ts and index :: nat
  assume "heap_largest ts index \<noteq> index"
  then show "((heap_swap index (heap_largest ts index) ts, heap_largest ts index), (ts, index)) \<in> measure (\<lambda>(ts, i). length ts - i)"
    using heap_largest_cases [of ts index] by auto
qed simp

declare heapifyUp.simps [simp del] heapifyDown.simps [simp del]

definition PQ_Push :: "BackgroundTask \<Rightarrow> PriorityQueue \<Rightarrow> PriorityQueue" where
  "PQ_Push task pq =
     (let ts = pq_tasks pq @ [task] in pq\<lparr>pq_tasks := heapifyUp ts (length ts - 1)\<rparr>)"

definition PQ_Pop :: "PriorityQueue \<Rightarrow> PriorityQueue \<times> BackgroundTask option" where
  "PQ_Pop pq =
     (if pq_tasks pq = [] then (pq, None)
      else (let task = pq_tasks pq ! 0;
                ts = butlast ((pq_tasks pq)[0 := last (pq_tasks pq)])
            in (pq\<lparr>pq_tasks := (if ts \<noteq> [] then heapifyDown ts 0 else ts)\<rparr>, Some task)))"

definition PQ_Len :: "PriorityQueue \<Rightarrow> nat" where
  "PQ_Len pq = length (pq_tasks pq)"

section \<open>The order of the heap\<close>

abbreviation above :: "BackgroundTask list \<Rightarrow> nat \<Rightarrow> nat \<Rightarrow> bool" where
  "above ts i j \<equiv> bt_Priority (ts ! j) \<le> bt_Priority (ts ! i)"

definition heap_ordered :: "BackgroundTask list \<Rightarrow> bool" where
  "heap_ordered ts \<longleftrightarrow> (\<forall>j. 0 < j \<longrightarrow> j < length ts \<longrightarrow> above ts (heap_parent j) j)"

text \<open>The order except between \<open>i\<close> and its parent, and except between \<open>i\<close> and its children; in both cases the parent
  of \<open>i\<close> is above the children of \<open>i\<close>.\<close>

definition bridged :: "BackgroundTask list \<Rightarrow> nat \<Rightarrow> bool" where
  "bridged ts i \<longleftrightarrow> (\<forall>j. 0 < i \<longrightarrow> 0 < j \<longrightarrow> j < length ts \<longrightarrow> heap_parent j = i \<longrightarrow> above ts (heap_parent i) j)"

definition ordered_but_up :: "BackgroundTask list \<Rightarrow> nat \<Rightarrow> bool" where
  "ordered_but_up ts i \<longleftrightarrow>
     (\<forall>j. 0 < j \<longrightarrow> j < length ts \<longrightarrow> j \<noteq> i \<longrightarrow> above ts (heap_parent j) j) \<and> bridged ts i"

definition ordered_but_down :: "BackgroundTask list \<Rightarrow> nat \<Rightarrow> bool" where
  "ordered_but_down ts i \<longleftrightarrow>
     (\<forall>j. 0 < j \<longrightarrow> j < length ts \<longrightarrow> heap_parent j \<noteq> i \<longrightarrow> above ts (heap_parent j) j) \<and> bridged ts i"

lemma mset_heap_swap [simp]: "i < length ts \<Longrightarrow> j < length ts \<Longrightarrow> mset (heap_swap i j ts) = mset ts"
  by (simp add: heap_swap_def mset_swap)

lemma nth_heap_swap:
  "i < length ts \<Longrightarrow> j < length ts \<Longrightarrow> k < length ts \<Longrightarrow>
     heap_swap i j ts ! k = (if k = j then ts ! i else if k = i then ts ! j else ts ! k)"
  by (auto simp: heap_swap_def nth_list_update)

lemma heapifyUp_mset: "i < length ts \<Longrightarrow> mset (heapifyUp ts i) = mset ts"
proof (induction ts i rule: heapifyUp.induct)
  case (1 ts i)
  then show ?case
    by (subst heapifyUp.simps) (auto simp: Let_def)
qed

lemma heapifyDown_mset: "i < length ts \<Longrightarrow> mset (heapifyDown ts i) = mset ts"
proof (induction ts i rule: heapifyDown.induct)
  case (1 ts i)
  then show ?case
    using heap_largest_cases [of ts i] by (subst heapifyDown.simps) auto
qed

text \<open>One turn of each loop.\<close>

lemma swap_up:
  assumes "ordered_but_up ts i" and "0 < i" and "i < length ts" and "\<not> above ts (heap_parent i) i"
  shows "ordered_but_up (heap_swap (heap_parent i) i ts) (heap_parent i)"
proof -
  let ?p = "heap_parent i"
  have p: "?p < i"
    using assms(2) by (rule parent_less)
  have ord: "above ts (heap_parent j) j" if "0 < j" "j < length ts" "j \<noteq> i" for j
    using assms(1) that by (simp add: ordered_but_up_def)
  have bri: "above ts ?p j" if "0 < j" "j < length ts" "heap_parent j = i" for j
    using assms(1,2) that by (simp add: ordered_but_up_def bridged_def)
  have n: "heap_swap ?p i ts ! k = (if k = i then ts ! ?p else if k = ?p then ts ! i else ts ! k)" if "k < length ts" for k
    using p assms(3) that by (simp add: nth_heap_swap)
  have one: "above (heap_swap ?p i ts) (heap_parent j) j" if j: "0 < j" "j < length ts" "j \<noteq> ?p" for j
  proof -
    have q: "heap_parent j < length ts"
      using parent_less [OF j(1)] j(2) by simp
    consider "j = i" | "j \<noteq> i" "heap_parent j = i" | "j \<noteq> i" "heap_parent j = ?p" | "j \<noteq> i" "heap_parent j \<noteq> i" "heap_parent j \<noteq> ?p"
      by blast
    then show ?thesis
      using ord [OF j(1,2)] bri [OF j(1,2)] n [OF j(2)] n [OF q] assms(4) p j(3) by cases auto
  qed
  have two: "above (heap_swap ?p i ts) (heap_parent ?p) j" if j: "0 < ?p" "0 < j" "j < length ts" "heap_parent j = ?p" for j
  proof -
    have pp: "heap_parent ?p < ?p"
      using j(1) by (rule parent_less)
    have "above ts (heap_parent ?p) ?p"
      using ord [of ?p] j(1) p assms(3) by simp
    moreover have "above ts ?p j" if "j \<noteq> i"
      using ord [OF j(2,3) that] j(4) by simp
    moreover have "j \<noteq> ?p"
      using parent_less [OF j(2)] j(4) by simp
    ultimately show ?thesis
      using n [OF j(3)] n [of "heap_parent ?p"] pp p assms(3) by auto
  qed
  from one two show ?thesis
    unfolding ordered_but_up_def bridged_def by auto
qed

lemma heapifyUp_ordered: "ordered_but_up ts i \<Longrightarrow> i < length ts \<Longrightarrow> heap_ordered (heapifyUp ts i)"
proof (induction ts i rule: heapifyUp.induct)
  case (1 ts i)
  show ?case
  proof (cases "0 < i \<and> \<not> above ts (heap_parent i) i")
    case True
    then have "heap_ordered (heapifyUp (heap_swap (heap_parent i) i ts) (heap_parent i))"
      using "1.prems" by (intro "1.IH" swap_up) auto
    with True show ?thesis
      by (subst heapifyUp.simps) (simp add: Let_def)
  next
    case False
    moreover have "heap_ordered ts"
      using False "1.prems" by (auto simp: heap_ordered_def ordered_but_up_def)
    ultimately show ?thesis
      by (subst heapifyUp.simps) (auto simp: Let_def)
  qed
qed

text \<open>The largest is above the task and its children.\<close>

lemma heap_largest_above:
  assumes "i < length ts"
  shows "above ts (heap_largest ts i) i"
    and "0 < j \<Longrightarrow> j < length ts \<Longrightarrow> heap_parent j = i \<Longrightarrow> above ts (heap_largest ts i) j"
proof -
  show "above ts (heap_largest ts i) i"
    and "0 < j \<Longrightarrow> j < length ts \<Longrightarrow> heap_parent j = i \<Longrightarrow> above ts (heap_largest ts i) j"
    by (auto simp: heap_largest_def Let_def parent_iff)
qed

lemma swap_down:
  assumes "ordered_but_down ts i" and "i < length ts" and "heap_largest ts i \<noteq> i"
  shows "ordered_but_down (heap_swap i (heap_largest ts i) ts) (heap_largest ts i)"
proof -
  let ?l = "heap_largest ts i"
  have l: "i < ?l" "?l < length ts" "heap_parent ?l = i"
    using assms(3) heap_largest_cases [of ts i] by auto
  have ord: "above ts (heap_parent j) j" if "0 < j" "j < length ts" "heap_parent j \<noteq> i" for j
    using assms(1) that by (simp add: ordered_but_down_def)
  have bri: "above ts (heap_parent i) ?l" if "0 < i"
    using assms(1) that l by (simp add: ordered_but_down_def bridged_def)
  have n: "heap_swap i ?l ts ! k = (if k = ?l then ts ! i else if k = i then ts ! ?l else ts ! k)" if "k < length ts" for k
    using l assms(2) that by (simp add: nth_heap_swap)
  have one: "above (heap_swap i ?l ts) (heap_parent j) j" if j: "0 < j" "j < length ts" "heap_parent j \<noteq> ?l" for j
  proof -
    have q: "heap_parent j < length ts"
      using parent_less [OF j(1)] j(2) by simp
    consider "j = i" | "j \<noteq> i" "heap_parent j = i" | "j \<noteq> i" "heap_parent j \<noteq> i"
      by blast
    then show ?thesis
    proof cases
      case 1
      then show ?thesis
        using n [OF j(2)] n [OF q] bri j l parent_less [OF j(1)] by auto
    next
      case 2
      then show ?thesis
        using n [OF j(2)] n [OF q] heap_largest_above [OF assms(2)] j l by auto
    next
      case 3
      then show ?thesis
        using n [OF j(2)] n [OF q] ord [OF j(1,2)] j l by auto
    qed
  qed
  have two: "above (heap_swap i ?l ts) (heap_parent ?l) j" if j: "0 < j" "j < length ts" "heap_parent j = ?l" for j
  proof -
    have "above ts ?l j"
      using ord [OF j(1,2)] j(3) l by simp
    moreover have "j \<noteq> ?l" "j \<noteq> i"
      using parent_less [OF j(1)] j(3) l by auto
    ultimately show ?thesis
      using n [OF j(2)] n [of i] l assms(2) by simp
  qed
  show ?thesis
    unfolding ordered_but_down_def bridged_def length_heap_swap
    using one two by (intro conjI allI impI)
qed

lemma heapifyDown_ordered: "ordered_but_down ts i \<Longrightarrow> i < length ts \<Longrightarrow> heap_ordered (heapifyDown ts i)"
proof (induction ts i rule: heapifyDown.induct)
  case (1 ts i)
  show ?case
  proof (cases "heap_largest ts i = i")
    case True
    have "above ts (heap_parent j) j" if "0 < j" "j < length ts" for j
      using "1.prems" heap_largest_above(2) [OF "1.prems"(2) that] that True
      by (cases "heap_parent j = i") (simp_all add: ordered_but_down_def)
    then have "heap_ordered ts"
      by (simp add: heap_ordered_def)
    with True show ?thesis
      by (subst heapifyDown.simps) simp
  next
    case False
    then have "heap_ordered (heapifyDown (heap_swap i (heap_largest ts i) ts) (heap_largest ts i))"
      using "1.prems" heap_largest_cases [of ts i] by (intro "1.IH" swap_down) auto
    with False show ?thesis
      by (subst heapifyDown.simps) simp
  qed
qed

lemma heap_root_max:
  assumes "heap_ordered ts"
  shows "i < length ts \<Longrightarrow> above ts 0 i"
proof (induction i rule: less_induct)
  case (less i)
  show ?case
  proof (cases "i = 0")
    case False
    then have "above ts (heap_parent i) i" "above ts 0 (heap_parent i)"
      using assms less parent_less [of i] by (auto simp: heap_ordered_def)
    then show ?thesis
      by simp
  qed simp
qed


section \<open>Queues that answer with a maximum\<close>

datatype 'a queue_op = PushItem 'a | PopItem

text \<open>A sequence of operations, with the answers of its pops.\<close>

fun run_queue :: "('a \<Rightarrow> 'q \<Rightarrow> 'q) \<Rightarrow> ('q \<Rightarrow> 'q \<times> 'a option) \<Rightarrow> 'a queue_op list \<Rightarrow> 'q \<Rightarrow> 'a option list" where
  "run_queue push pop [] q = []"
| "run_queue push pop (PushItem x # ops) q = run_queue push pop ops (push x q)"
| "run_queue push pop (PopItem # ops) q = snd (pop q) # run_queue push pop ops (fst (pop q))"

text \<open>The answers that are allowed when the items of \<open>M\<close> wait: a pop fails when nothing waits, and otherwise removes a
  waiting item that none exceeds.\<close>

fun max_answers :: "('a \<Rightarrow> int) \<Rightarrow> 'a queue_op list \<Rightarrow> 'a multiset \<Rightarrow> 'a option list \<Rightarrow> bool" where
  "max_answers prio [] M as \<longleftrightarrow> as = []"
| "max_answers prio (PushItem x # ops) M as \<longleftrightarrow> max_answers prio ops (add_mset x M) as"
| "max_answers prio (PopItem # ops) M [] \<longleftrightarrow> False"
| "max_answers prio (PopItem # ops) M (None # as) \<longleftrightarrow> M = {#} \<and> max_answers prio ops M as"
| "max_answers prio (PopItem # ops) M (Some x # as) \<longleftrightarrow>
     x \<in># M \<and> (\<forall>y \<in># M. prio y \<le> prio x) \<and> max_answers prio ops (M - {#x#}) as"

text \<open>
  What a client of such a queue may rely on: a push adds its item, a pop removes an item of the highest priority,
  and fails only on an empty queue.
\<close>

locale max_queue =
  fixes good :: "'q \<Rightarrow> bool"
    and waiting :: "'q \<Rightarrow> 'a multiset"
    and push :: "'a \<Rightarrow> 'q \<Rightarrow> 'q"
    and pop :: "'q \<Rightarrow> 'q \<times> 'a option"
    and prio :: "'a \<Rightarrow> int"
  assumes push_good: "good q \<Longrightarrow> good (push x q)"
    and push_waiting: "good q \<Longrightarrow> waiting (push x q) = add_mset x (waiting q)"
    and pop_empty: "good q \<Longrightarrow> waiting q = {#} \<Longrightarrow> pop q = (q, None)"
    and pop_max: "good q \<Longrightarrow> waiting q \<noteq> {#} \<Longrightarrow>
      \<exists>x q'. pop q = (q', Some x) \<and> good q' \<and> waiting q = add_mset x (waiting q') \<and>
        (\<forall>y \<in># waiting q. prio y \<le> prio x)"
begin

lemma answers_max: "good q \<Longrightarrow> max_answers prio ops (waiting q) (run_queue push pop ops q)"
proof (induction ops arbitrary: q)
  case (Cons op ops)
  show ?case
  proof (cases op)
    case (PushItem x)
    with Cons.IH [OF push_good [OF Cons.prems]] show ?thesis
      by (simp add: push_waiting Cons.prems)
  next
    case PopItem
    show ?thesis
    proof (cases "waiting q = {#}")
      case True
      with PopItem pop_empty [OF Cons.prems] Cons.IH [OF Cons.prems] show ?thesis
        by simp
    next
      case False
      then obtain x q' where "pop q = (q', Some x)" "good q'" "waiting q = add_mset x (waiting q')"
          "\<forall>y \<in># waiting q. prio y \<le> prio x"
        using pop_max [OF Cons.prems] by blast
      with PopItem Cons.IH [of q'] show ?thesis
        by simp
    qed
  qed
qed simp

text \<open>Popping everything that waits is sorting.\<close>

lemma drain_sorts:
  "good q \<Longrightarrow> \<exists>xs. run_queue push pop (replicate (size (waiting q)) PopItem) q = map Some xs \<and>
     mset xs = waiting q \<and> sorted_wrt (\<lambda>x y. prio y \<le> prio x) xs"
proof (induction "size (waiting q)" arbitrary: q)
  case (Suc n)
  then have "waiting q \<noteq> {#}"
    by auto
  then obtain x q' where p: "pop q = (q', Some x)" "good q'" "waiting q = add_mset x (waiting q')"
      "\<forall>y \<in># waiting q. prio y \<le> prio x"
    using pop_max [OF Suc.prems] by blast
  then obtain xs where xs: "run_queue push pop (replicate (size (waiting q')) PopItem) q' = map Some xs"
      "mset xs = waiting q'" "sorted_wrt (\<lambda>x y. prio y \<le> prio x) xs"
    using Suc.hyps(1) [of q'] Suc.hyps(2) by auto
  have "\<forall>y \<in> set xs. prio y \<le> prio x"
    using p(3,4) xs(2) by (simp flip: set_mset_mset)
  with p xs show ?case
    by (intro exI [of _ "x # xs"]) simp
qed simp

end

lemma heap_push:
  assumes "heap_ordered (pq_tasks q)"
  shows "heap_ordered (pq_tasks (PQ_Push x q))" and "mset (pq_tasks (PQ_Push x q)) = add_mset x (mset (pq_tasks q))"
proof -
  let ?ts = "pq_tasks q @ [x]"
  have "above ?ts (heap_parent j) j" if "0 < j" "j < length ?ts" "j \<noteq> length ?ts - 1" for j
    using assms that parent_bound [of j "length (pq_tasks q)"] by (simp add: heap_ordered_def nth_append)
  moreover have "heap_parent j \<noteq> length ?ts - 1" if "0 < j" "j < length ?ts" for j
    using parent_less [OF that(1)] that(2) by simp
  then have "bridged ?ts (length ?ts - 1)"
    by (simp add: bridged_def)
  ultimately have "ordered_but_up ?ts (length ?ts - 1)"
    by (simp add: ordered_but_up_def)
  then show "heap_ordered (pq_tasks (PQ_Push x q))"
    by (simp add: PQ_Push_def heapifyUp_ordered Let_def)
  show "mset (pq_tasks (PQ_Push x q)) = add_mset x (mset (pq_tasks q))"
    by (simp add: PQ_Push_def heapifyUp_mset Let_def)
qed

lemma heap_cut:
  assumes "ts \<noteq> []"
  shows "add_mset (ts ! 0) (mset (butlast (ts[0 := last ts]))) = mset ts"
  using assms by (cases ts rule: rev_cases; cases "butlast ts") (auto simp: nth_append)

lemma heap_ordered_down: "ordered_but_down ts 0 \<Longrightarrow> heap_ordered (if ts \<noteq> [] then heapifyDown ts 0 else ts)"
  using heapifyDown_ordered [of ts 0] by (cases ts) (simp_all add: heap_ordered_def)

lemma mset_down: "mset (if ts \<noteq> [] then heapifyDown ts 0 else ts) = mset ts"
  by (simp add: heapifyDown_mset)

lemma heap_pop:
  assumes "heap_ordered (pq_tasks q)" and "pq_tasks q \<noteq> []"
  shows "\<exists>x q'. PQ_Pop q = (q', Some x) \<and> heap_ordered (pq_tasks q') \<and>
    mset (pq_tasks q) = add_mset x (mset (pq_tasks q')) \<and> (\<forall>y \<in># mset (pq_tasks q). bt_Priority y \<le> bt_Priority x)"
proof -
  let ?ts = "pq_tasks q"
  let ?us = "butlast (?ts[0 := last ?ts])"
  let ?vs = "if ?us \<noteq> [] then heapifyDown ?us 0 else ?us"
  have "above ?us (heap_parent j) j" if j: "0 < j" "j < length ?us" "heap_parent j \<noteq> 0" for j
    using assms(1) j parent_bound [of j "length ?us"] by (simp add: heap_ordered_def nth_butlast)
  then have "ordered_but_down ?us 0"
    by (simp add: ordered_but_down_def bridged_def)
  then have "heap_ordered ?vs"
    by (rule heap_ordered_down)
  moreover have "mset ?vs = mset ?us"
    by (rule mset_down)
  moreover have "\<forall>y \<in> set ?ts. bt_Priority y \<le> bt_Priority (?ts ! 0)"
    using heap_root_max [OF assms(1)] by (auto simp: in_set_conv_nth)
  ultimately show ?thesis
    using heap_cut [OF assms(2)] assms(2) by (auto simp: PQ_Pop_def Let_def)
qed

interpretation heap_queue: max_queue "\<lambda>q. heap_ordered (pq_tasks q)" "\<lambda>q. mset (pq_tasks q)" PQ_Push PQ_Pop bt_Priority
proof unfold_locales
  fix q :: PriorityQueue and x :: BackgroundTask
  assume q: "heap_ordered (pq_tasks q)"
  show "heap_ordered (pq_tasks (PQ_Push x q))" "mset (pq_tasks (PQ_Push x q)) = add_mset x (mset (pq_tasks q))"
    using heap_push [OF q] by simp_all
  show "mset (pq_tasks q) = {#} \<Longrightarrow> PQ_Pop q = (q, None)"
    by (simp add: PQ_Pop_def)
  show "mset (pq_tasks q) \<noteq> {#} \<Longrightarrow> \<exists>x q'. PQ_Pop q = (q', Some x) \<and> heap_ordered (pq_tasks q') \<and>
      mset (pq_tasks q) = add_mset x (mset (pq_tasks q')) \<and> (\<forall>y \<in># mset (pq_tasks q). bt_Priority y \<le> bt_Priority x)"
    using heap_pop [OF q] by simp
qed

lemma heap_ordered_New [simp]: "heap_ordered []" "pq_tasks NewPriorityQueue = []"
  by (simp_all add: NewPriorityQueue_def heap_ordered_def)

text \<open>C20: Whatever is pushed to and popped from a new priority queue, a pop finds nothing exactly when nothing waits, and
  otherwise returns a waiting task whose priority no waiting task exceeds, and removes it alone.\<close>

theorem priority_queue_max:
  "max_answers bt_Priority ops {#} (run_queue PQ_Push PQ_Pop ops NewPriorityQueue)"
  using heap_queue.answers_max [of NewPriorityQueue ops] by simp

text \<open>Pushing tasks and popping as many returns them all, in the order of falling priority.\<close>

theorem priority_queue_sorts:
  "\<exists>us. run_queue PQ_Push PQ_Pop (replicate (length ts) PopItem) (fold PQ_Push ts NewPriorityQueue) = map Some us \<and>
     mset us = mset ts \<and> sorted_wrt (\<lambda>x y. bt_Priority y \<le> bt_Priority x) us"
proof -
  have "heap_ordered (pq_tasks (fold PQ_Push ts p)) \<and> mset (pq_tasks (fold PQ_Push ts p)) = mset (pq_tasks p) + mset ts"
    if "heap_ordered (pq_tasks p)" for p
    using that by (induction ts arbitrary: p) (simp_all add: heap_push)
  from this [of NewPriorityQueue]
  have "heap_ordered (pq_tasks (fold PQ_Push ts NewPriorityQueue))"
    and m: "mset (pq_tasks (fold PQ_Push ts NewPriorityQueue)) = mset ts"
    by simp_all
  from heap_queue.drain_sorts [OF this(1)] show ?thesis
    by (simp add: m del: size_mset) (simp add: size_mset)
qed

end
