(* ===== verification/Background.thy ===== *)
theory Background
  imports PriorityHeap
begin

text \<open>
  The background executor (\<^verbatim>\<open>pregel/background.go\<close>): a queue of tasks, a pool of workers, the map of active tasks and the
  channels for the results. A call of \<^verbatim>\<open>Submit\<close>, a call of \<^verbatim>\<open>Stop\<close> and a worker each run in their own goroutine
  and take the executor's lock for parts of their work only; the parts are operations on the state, and \<open>bg_step\<close>
  interleaves them in every order. A select with a time-out may take the time-out whenever the other cases
  are not ready; a send on a closed channel, or closing one twice, is a panic, which ends the process. Identifiers
  of tasks come from \<^verbatim>\<open>uuid.New\<close> and are taken to be fresh. The creation time of a task is never read.
\<close>

section \<open>State\<close>

record BackgroundTaskResult =
  btr_TaskID :: string
  btr_Name :: string
  btr_Output :: goval
  btr_Err :: "gerror option"
  btr_Duration :: int

text \<open>Where a worker stands: at the head of its loop, in its select on a stop channel and the queue, in the task's
  function, before and after taking the task off the map, between the two sends of the result, or at its end.\<close>

datatype backgroundWorker =
  AtLoop
| Selecting nat
| Working BackgroundTask
| Computed BackgroundTask BackgroundTaskResult
| Unlisted BackgroundTask BackgroundTaskResult
| Reported BackgroundTaskResult
| Exited

text \<open>Where a call of \<^verbatim>\<open>Submit\<close> stands: past its check, past its entry into the map, or returned.\<close>

datatype submit_phase = Checked | Registered | Returned "gerror option"

record submit_call =
  sc_task :: BackgroundTask
  sc_phase :: submit_phase

record BackgroundExecutor =
  be_maxWorkers :: nat
  be_queueSize :: nat
  be_taskQueue :: "BackgroundTask list"
  be_queueClosed :: bool
  be_results :: "BackgroundTaskResult list"
  be_resultsClosed :: bool
  be_workers :: "backgroundWorker list"
  be_running :: bool
  be_stopCh :: nat
  be_stopped :: "nat list"
  be_stopping :: nat
  be_activeTasks :: "BackgroundTask gomap"
  be_cancelled :: "string list"
  be_sent :: "BackgroundTaskResult list"
  be_calls :: "submit_call list"
  be_panic :: bool

text \<open>Stop channels are numbered; \<open>be_stopped\<close> holds the closed ones. \<open>be_sent\<close> is what was sent on the tasks' own
  channels, which have room for one result each.\<close>

definition NewBackgroundExecutor :: "int \<Rightarrow> int \<Rightarrow> BackgroundExecutor" where
  "NewBackgroundExecutor maxWorkers queueSize =
     \<lparr>be_maxWorkers = (if maxWorkers \<le> 0 then 10 else nat maxWorkers),
      be_queueSize = (if queueSize \<le> 0 then 100 else nat queueSize),
      be_taskQueue = [], be_queueClosed = False, be_results = [], be_resultsClosed = False, be_workers = [],
      be_running = False, be_stopCh = 0, be_stopped = [], be_stopping = 0, be_activeTasks = [], be_cancelled = [],
      be_sent = [], be_calls = [], be_panic = False\<rparr>"

section \<open>Operations\<close>

definition BG_Start :: "BackgroundExecutor \<Rightarrow> BackgroundExecutor" where
  "BG_Start e =
     (if be_running e then e
      else e\<lparr>be_workers := be_workers e @ replicate (be_maxWorkers e) AtLoop, be_running := True,
             be_stopCh := be_stopCh e + 1\<rparr>)"

text \<open>\<^verbatim>\<open>Stop\<close> up to the end of its critical section, and from the end of its wait.\<close>

definition Stop_begin :: "BackgroundExecutor \<Rightarrow> BackgroundExecutor" where
  "Stop_begin e =
     (if be_running e
      then e\<lparr>be_running := False, be_stopped := be_stopCh e # be_stopped e, be_stopping := be_stopping e + 1\<rparr>
      else e)"

definition Stop_close :: "BackgroundExecutor \<Rightarrow> BackgroundExecutor" where
  "Stop_close e =
     (if be_queueClosed e then e\<lparr>be_panic := True\<rparr>
      else if be_resultsClosed e then e\<lparr>be_queueClosed := True, be_panic := True\<rparr>
      else e\<lparr>be_queueClosed := True, be_resultsClosed := True, be_stopping := be_stopping e - 1\<rparr>)"

definition workers_done :: "BackgroundExecutor \<Rightarrow> bool" where
  "workers_done e \<longleftrightarrow> list_all (\<lambda>w. w = Exited) (be_workers e)"

definition not_running_error :: gerror where
  "not_running_error = PlainError ''executor not running'' []"

definition queue_full_error :: gerror where
  "queue_full_error = PlainError ''task queue full'' []"

text \<open>\<^verbatim>\<open>Submit\<close>: the check under the read lock, the entry into the map, the send, and giving up.\<close>

definition Submit_check :: "BackgroundTask \<Rightarrow> BackgroundExecutor \<Rightarrow> gerror + BackgroundExecutor" where
  "Submit_check task e =
     (if \<not> be_running e then Inl not_running_error
      else Inr (e\<lparr>be_calls := be_calls e @ [\<lparr>sc_task = task, sc_phase = Checked\<rparr>]\<rparr>))"

definition set_call :: "nat \<Rightarrow> submit_phase \<Rightarrow> BackgroundExecutor \<Rightarrow> BackgroundExecutor" where
  "set_call i p e = e\<lparr>be_calls := (be_calls e)[i := (be_calls e ! i)\<lparr>sc_phase := p\<rparr>]\<rparr>"

definition Submit_register :: "nat \<Rightarrow> BackgroundExecutor \<Rightarrow> BackgroundExecutor" where
  "Submit_register i e =
     (let t = sc_task (be_calls e ! i)
      in set_call i Registered (e\<lparr>be_activeTasks := gm_set (bt_ID t) t (be_activeTasks e)\<rparr>))"

definition Submit_send :: "nat \<Rightarrow> BackgroundExecutor \<Rightarrow> BackgroundExecutor" where
  "Submit_send i e =
     (if be_queueClosed e then e\<lparr>be_panic := True\<rparr>
      else set_call i (Returned None) (e\<lparr>be_taskQueue := be_taskQueue e @ [sc_task (be_calls e ! i)]\<rparr>))"

definition Submit_fail :: "nat \<Rightarrow> gerror \<Rightarrow> BackgroundExecutor \<Rightarrow> BackgroundExecutor" where
  "Submit_fail i err e =
     set_call i (Returned (Some err)) (e\<lparr>be_cancelled := bt_ID (sc_task (be_calls e ! i)) # be_cancelled e\<rparr>)"

definition CancelTask :: "string \<Rightarrow> BackgroundExecutor \<Rightarrow> BackgroundExecutor \<times> bool" where
  "CancelTask taskID e =
     (case map_of (be_activeTasks e) taskID of
        Some task \<Rightarrow> (e\<lparr>be_cancelled := bt_ID task # be_cancelled e\<rparr>, True)
      | None \<Rightarrow> (e, False))"

definition GetActiveTasks :: "BackgroundExecutor \<Rightarrow> string list" where
  "GetActiveTasks e = gm_keys (be_activeTasks e)"

text \<open>Receiving from the channel that \<^verbatim>\<open>GetResult\<close> returns.\<close>

definition receive_result :: "BackgroundExecutor \<Rightarrow> BackgroundExecutor" where
  "receive_result e = e\<lparr>be_results := tl (be_results e)\<rparr>"

subsection \<open>Workers\<close>

definition set_worker :: "nat \<Rightarrow> backgroundWorker \<Rightarrow> BackgroundExecutor \<Rightarrow> BackgroundExecutor" where
  "set_worker i w e = e\<lparr>be_workers := (be_workers e)[i := w]\<rparr>"

definition worker_take :: "nat \<Rightarrow> BackgroundExecutor \<Rightarrow> BackgroundExecutor" where
  "worker_take i e = set_worker i (Working (hd (be_taskQueue e))) (e\<lparr>be_taskQueue := tl (be_taskQueue e)\<rparr>)"

definition task_result :: "int \<Rightarrow> bool \<Rightarrow> BackgroundTask \<Rightarrow> BackgroundTaskResult" where
  "task_result d ctx_done task =
     \<lparr>btr_TaskID = bt_ID task, btr_Name = bt_Name task, btr_Output = fst (bt_Func task ctx_done),
      btr_Err = snd (bt_Func task ctx_done), btr_Duration = d\<rparr>"

definition worker_unlist :: "nat \<Rightarrow> BackgroundTask \<Rightarrow> BackgroundTaskResult \<Rightarrow> BackgroundExecutor \<Rightarrow> BackgroundExecutor" where
  "worker_unlist i task r e = set_worker i (Unlisted task r) (e\<lparr>be_activeTasks := gm_delete (bt_ID task) (be_activeTasks e)\<rparr>)"

definition worker_report :: "nat \<Rightarrow> BackgroundTaskResult \<Rightarrow> BackgroundExecutor \<Rightarrow> BackgroundExecutor" where
  "worker_report i r e = set_worker i (Reported r) (e\<lparr>be_sent := be_sent e @ [r]\<rparr>)"

definition worker_publish :: "nat \<Rightarrow> BackgroundTaskResult \<Rightarrow> BackgroundExecutor \<Rightarrow> BackgroundExecutor" where
  "worker_publish i r e =
     (if be_resultsClosed e then e\<lparr>be_panic := True\<rparr>
      else set_worker i AtLoop (e\<lparr>be_results := be_results e @ [r]\<rparr>))"

abbreviation worker_at :: "BackgroundExecutor \<Rightarrow> nat \<Rightarrow> backgroundWorker \<Rightarrow> bool" where
  "worker_at e i w \<equiv> i < length (be_workers e) \<and> be_workers e ! i = w"

abbreviation call_at :: "BackgroundExecutor \<Rightarrow> nat \<Rightarrow> submit_phase \<Rightarrow> bool" where
  "call_at e i p \<equiv> i < length (be_calls e) \<and> sc_phase (be_calls e ! i) = p"

definition call_ids :: "BackgroundExecutor \<Rightarrow> string list" where
  "call_ids e = map (\<lambda>c. bt_ID (sc_task c)) (be_calls e)"

section \<open>Interleavings\<close>

text \<open>One step of a worker: the select chooses among the ready cases, and the function of a task sees a done context
  when the task was cancelled or the context given to \<^verbatim>\<open>Submit\<close> has ended meanwhile (\<open>c\<close>).\<close>

inductive worker_step :: "BackgroundExecutor \<Rightarrow> BackgroundExecutor \<Rightarrow> bool" where
  w_select: "worker_at e i AtLoop \<Longrightarrow> worker_step e (set_worker i (Selecting (be_stopCh e)) e)"
| w_stop: "worker_at e i (Selecting g) \<Longrightarrow> g \<in> set (be_stopped e) \<Longrightarrow> worker_step e (set_worker i Exited e)"
| w_take: "worker_at e i (Selecting g) \<Longrightarrow> be_taskQueue e \<noteq> [] \<Longrightarrow> worker_step e (worker_take i e)"
| w_closed: "worker_at e i (Selecting g) \<Longrightarrow> be_taskQueue e = [] \<Longrightarrow> be_queueClosed e \<Longrightarrow>
    worker_step e (set_worker i Exited e)"
| w_compute: "worker_at e i (Working t) \<Longrightarrow> (bt_ID t \<in> set (be_cancelled e) \<longrightarrow> c) \<Longrightarrow>
    worker_step e (set_worker i (Computed t (task_result d c t)) e)"
| w_unlist: "worker_at e i (Computed t r) \<Longrightarrow> worker_step e (worker_unlist i t r e)"
| w_report: "worker_at e i (Unlisted t r) \<Longrightarrow> bt_ID t \<notin> btr_TaskID ` set (be_sent e) \<Longrightarrow> worker_step e (worker_report i r e)"
| w_report_blocked: "worker_at e i (Unlisted t r) \<Longrightarrow> bt_ID t \<in> btr_TaskID ` set (be_sent e) \<Longrightarrow>
    worker_step e (set_worker i (Reported r) e)"
| w_publish: "worker_at e i (Reported r) \<Longrightarrow> be_resultsClosed e \<or> length (be_results e) < be_queueSize e \<Longrightarrow>
    worker_step e (worker_publish i r e)"
| w_publish_blocked: "worker_at e i (Reported r) \<Longrightarrow> \<not> be_resultsClosed e \<Longrightarrow> length (be_results e) \<ge> be_queueSize e \<Longrightarrow>
    worker_step e (set_worker i AtLoop e)"

text \<open>All that can happen to an executor while the process lives. The wait of \<^verbatim>\<open>Stop\<close> ends when all workers have
  returned or, after the shutdown time-out, anyway (\<open>b_force\<close>); \<open>ctx_err\<close> is the error of the context given to \<^verbatim>\<open>Submit\<close>.\<close>

inductive bg_step :: "BackgroundExecutor \<Rightarrow> BackgroundExecutor \<Rightarrow> bool" where
  b_worker: "\<not> be_panic e \<Longrightarrow> worker_step e e' \<Longrightarrow> bg_step e e'"
| b_start: "\<not> be_panic e \<Longrightarrow> bg_step e (BG_Start e)"
| b_stop: "\<not> be_panic e \<Longrightarrow> bg_step e (Stop_begin e)"
| b_close: "\<not> be_panic e \<Longrightarrow> be_stopping e > 0 \<Longrightarrow> workers_done e \<Longrightarrow> bg_step e (Stop_close e)"
| b_force: "\<not> be_panic e \<Longrightarrow> be_stopping e > 0 \<Longrightarrow> \<not> workers_done e \<Longrightarrow> bg_step e (Stop_close e)"
| b_check: "\<not> be_panic e \<Longrightarrow> bt_ID t \<notin> set (call_ids e) \<Longrightarrow> Submit_check t e = Inr e' \<Longrightarrow> bg_step e e'"
| b_register: "\<not> be_panic e \<Longrightarrow> call_at e i Checked \<Longrightarrow> bg_step e (Submit_register i e)"
| b_send: "\<not> be_panic e \<Longrightarrow> call_at e i Registered \<Longrightarrow> be_queueClosed e \<or> length (be_taskQueue e) < be_queueSize e \<Longrightarrow>
    bg_step e (Submit_send i e)"
| b_fail: "\<not> be_panic e \<Longrightarrow> call_at e i Registered \<Longrightarrow> length (be_taskQueue e) \<ge> be_queueSize e \<Longrightarrow>
    bg_step e (Submit_fail i queue_full_error e)"
| b_ctx_done: "\<not> be_panic e \<Longrightarrow> call_at e i Registered \<Longrightarrow> bg_step e (Submit_fail i ctx_err e)"
| b_cancel: "\<not> be_panic e \<Longrightarrow> bg_step e (fst (CancelTask taskID e))"
| b_receive: "\<not> be_panic e \<Longrightarrow> bg_step e (receive_result e)"

inductive_cases worker_stepE: "worker_step e e'"

lemmas bg_defs = BG_Start_def Stop_begin_def Stop_close_def Submit_check_def set_call_def Submit_register_def
  Submit_send_def Submit_fail_def CancelTask_def receive_result_def set_worker_def worker_take_def worker_unlist_def
  worker_report_def worker_publish_def

section \<open>Every task once\<close>

text \<open>The tasks that \<^verbatim>\<open>Submit\<close> has accepted, and those a worker has taken and not yet reported.\<close>

definition accepted_ids :: "submit_call list \<Rightarrow> string list" where
  "accepted_ids cs = concat (map (\<lambda>c. if sc_phase c = Returned None then [bt_ID (sc_task c)] else []) cs)"

fun held_by :: "backgroundWorker \<Rightarrow> BackgroundTask list" where
  "held_by (Working t) = [t]"
| "held_by (Computed t r) = [t]"
| "held_by (Unlisted t r) = [t]"
| "held_by _ = []"

fun unlisted_by :: "backgroundWorker \<Rightarrow> string list" where
  "unlisted_by (Unlisted t r) = [bt_ID t]"
| "unlisted_by _ = []"

definition result_of :: "BackgroundTask \<Rightarrow> BackgroundTaskResult \<Rightarrow> bool" where
  "result_of t r \<longleftrightarrow> btr_TaskID r = bt_ID t \<and> btr_Name r = bt_Name t \<and> (\<exists>c. (btr_Output r, btr_Err r) = bt_Func t c)"

fun worker_good :: "backgroundWorker \<Rightarrow> bool" where
  "worker_good (Computed t r) = result_of t r"
| "worker_good (Unlisted t r) = result_of t r"
| "worker_good _ = True"

definition call_tasks :: "BackgroundExecutor \<Rightarrow> BackgroundTask set" where
  "call_tasks e = sc_task ` set (be_calls e)"

definition held_tasks :: "backgroundWorker list \<Rightarrow> BackgroundTask list" where
  "held_tasks ws = concat (map held_by ws)"

definition bg_balance :: "BackgroundExecutor \<Rightarrow> bool" where
  "bg_balance e \<longleftrightarrow>
     mset (accepted_ids (be_calls e)) =
       mset (map bt_ID (be_taskQueue e)) + mset (map bt_ID (held_tasks (be_workers e))) + mset (map btr_TaskID (be_sent e))"

definition bg_results :: "BackgroundExecutor \<Rightarrow> bool" where
  "bg_results e \<longleftrightarrow>
     list_all worker_good (be_workers e) \<and>
     set (be_taskQueue e) \<union> set (held_tasks (be_workers e)) \<subseteq> call_tasks e \<and>
     (\<forall>r \<in> set (be_sent e). \<exists>t \<in> call_tasks e. result_of t r)"

definition bg_inv :: "BackgroundExecutor \<Rightarrow> bool" where
  "bg_inv e \<longleftrightarrow> distinct (call_ids e) \<and> bg_balance e \<and> bg_results e"

lemma mset_concat_update:
  "i < length xs \<Longrightarrow> mset (concat (map f (xs[i := x]))) + mset (f (xs ! i)) = mset (concat (map f xs)) + mset (f x)"
  by (induction xs arbitrary: i) (auto split: nat.split)

lemma held_tasks_update:
  "i < length ws \<Longrightarrow> mset (held_tasks (ws[i := w])) + mset (held_by (ws ! i)) = mset (held_tasks ws) + mset (held_by w)"
  unfolding held_tasks_def by (rule mset_concat_update)

text \<open>A worker that keeps the tasks it holds changes nothing in the balance.\<close>

lemma held_tasks_same: "i < length ws \<Longrightarrow> held_by (ws ! i) = held_by w \<Longrightarrow> mset (held_tasks (ws[i := w])) = mset (held_tasks ws)"
  using held_tasks_update [of i ws w] by simp

lemma set_held_tasks: "set (held_tasks ws) = (\<Union>w \<in> set ws. set (held_by w))"
  by (simp add: held_tasks_def)

lemma accepted_ids_update:
  "i < length cs \<Longrightarrow> sc_phase (cs ! i) \<noteq> Returned None \<Longrightarrow>
     mset (accepted_ids (cs[i := (cs ! i)\<lparr>sc_phase := p\<rparr>])) =
       mset (accepted_ids cs) + (if p = Returned None then {#bt_ID (sc_task (cs ! i))#} else {#})"
  unfolding accepted_ids_def
  using mset_concat_update [of i cs "\<lambda>c. if sc_phase c = Returned None then [bt_ID (sc_task c)] else []"] by simp

lemma set_call_tasks [simp]:
  "i < length cs \<Longrightarrow> sc_task ` set (cs[i := (cs ! i)\<lparr>sc_phase := p\<rparr>]) = sc_task ` set cs"
proof -
  assume "i < length cs"
  then have "map sc_task (cs[i := (cs ! i)\<lparr>sc_phase := p\<rparr>]) = map sc_task cs"
    by (simp add: map_update list_update_same_conv)
  then show ?thesis
    by (metis set_map)
qed

lemma call_ids_update [simp]:
  "i < length cs \<Longrightarrow> map (\<lambda>c. bt_ID (sc_task c)) (cs[i := (cs ! i)\<lparr>sc_phase := p\<rparr>]) = map (\<lambda>c. bt_ID (sc_task c)) cs"
  by (simp add: map_update list_update_same_conv)

lemma worker_update_good:
  "list_all worker_good ws \<Longrightarrow> worker_good w \<Longrightarrow> list_all worker_good (ws[i := w])"
  using set_update_subset_insert [of ws i w] by (auto simp: list_all_iff)

text \<open>A step in which worker \<open>i\<close> goes on with the task it has.\<close>

lemma set_worker_inv:
  assumes "bg_inv e" and "i < length (be_workers e)" and "held_by (be_workers e ! i) = held_by w" and "worker_good w"
  shows "bg_inv (set_worker i w e)"
proof -
  have "mset (held_tasks ((be_workers e)[i := w])) = mset (held_tasks (be_workers e))"
    using assms(2,3) by (rule held_tasks_same)
  moreover from this have "set (held_tasks ((be_workers e)[i := w])) = set (held_tasks (be_workers e))"
    by (rule mset_eq_setD)
  ultimately show ?thesis
    using assms(1,4)
    by (simp add: bg_inv_def bg_balance_def bg_results_def call_ids_def call_tasks_def set_worker_def worker_update_good)
qed

lemma worker_good_nth: "bg_inv e \<Longrightarrow> i < length (be_workers e) \<Longrightarrow> worker_good (be_workers e ! i)"
  by (simp add: bg_inv_def bg_results_def list_all_length)

lemma held_by_nth: "i < length ws \<Longrightarrow> t \<in> set (held_by (ws ! i)) \<Longrightarrow> t \<in> set (held_tasks ws)"
  by (auto simp: set_held_tasks)

lemma worker_take_inv:
  assumes "bg_inv e" and "worker_at e i (Selecting g)" and "be_taskQueue e \<noteq> []"
  shows "bg_inv (worker_take i e)"
proof -
  obtain t q where q: "be_taskQueue e = t # q"
    using assms(3) by (cases "be_taskQueue e") auto
  let ?ws = "(be_workers e)[i := Working t]"
  have h: "mset (held_tasks ?ws) = add_mset t (mset (held_tasks (be_workers e)))"
    using held_tasks_update [of i "be_workers e" "Working t"] assms(2) by simp
  then have "set (held_tasks ?ws) = insert t (set (held_tasks (be_workers e)))"
    by (metis set_mset_add_mset_insert set_mset_mset)
  with assms(1) h q show ?thesis
    by (simp add: bg_inv_def bg_balance_def bg_results_def call_ids_def call_tasks_def worker_take_def set_worker_def
        worker_update_good)
qed

lemma worker_report_inv:
  assumes "bg_inv e" and "worker_at e i (Unlisted t r)"
  shows "bg_inv (worker_report i r e)"
proof -
  let ?ws = "(be_workers e)[i := Reported r]"
  have h: "add_mset t (mset (held_tasks ?ws)) = mset (held_tasks (be_workers e))"
    using held_tasks_update [of i "be_workers e" "Reported r"] assms(2) by simp
  then have s: "insert t (set (held_tasks ?ws)) = set (held_tasks (be_workers e))"
    by (metis set_mset_add_mset_insert set_mset_mset)
  have r: "result_of t r"
    using worker_good_nth [OF assms(1), of i] assms(2) by simp
  have "mset (map bt_ID (held_tasks (be_workers e))) = add_mset (bt_ID t) (mset (map bt_ID (held_tasks ?ws)))"
    using h by (metis image_mset_add_mset mset_map)
  moreover have "t \<in> call_tasks e"
    using assms(1) s by (auto simp: bg_inv_def bg_results_def)
  ultimately show ?thesis
    using assms(1) s r
    by (auto simp: bg_inv_def bg_balance_def bg_results_def call_ids_def call_tasks_def worker_report_def set_worker_def
        worker_update_good result_of_def)
qed

lemma bg_inv_other [simp]:
  "bg_inv (e\<lparr>be_activeTasks := m\<rparr>) = bg_inv e" "bg_inv (e\<lparr>be_cancelled := cs\<rparr>) = bg_inv e"
  "bg_inv (e\<lparr>be_results := rs\<rparr>) = bg_inv e" "bg_inv (e\<lparr>be_panic := b\<rparr>) = bg_inv e"
  "bg_inv (e\<lparr>be_running := b\<rparr>) = bg_inv e" "bg_inv (e\<lparr>be_stopCh := n\<rparr>) = bg_inv e"
  "bg_inv (e\<lparr>be_stopped := l\<rparr>) = bg_inv e" "bg_inv (e\<lparr>be_stopping := n\<rparr>) = bg_inv e"
  "bg_inv (e\<lparr>be_queueClosed := b\<rparr>) = bg_inv e" "bg_inv (e\<lparr>be_resultsClosed := b\<rparr>) = bg_inv e"
  by (simp_all add: bg_inv_def bg_balance_def bg_results_def call_ids_def call_tasks_def)

text \<open>The channel of a task is empty when its worker reports: the identifiers of accepted tasks are distinct.\<close>

lemma accepted_subset: "set (accepted_ids cs) \<subseteq> (\<lambda>c. bt_ID (sc_task c)) ` set cs"
  by (auto simp: accepted_ids_def split: if_splits)

lemma accepted_distinct: "distinct (map (\<lambda>c. bt_ID (sc_task c)) cs) \<Longrightarrow> distinct (accepted_ids cs)"
proof (induction cs)
  case (Cons c cs)
  then show ?case
    using accepted_subset [of cs] by (auto simp: accepted_ids_def)
qed (simp add: accepted_ids_def)

lemma bg_places_distinct:
  assumes "bg_inv e"
  shows "distinct (map bt_ID (be_taskQueue e) @ map bt_ID (held_tasks (be_workers e)) @ map btr_TaskID (be_sent e))"
proof -
  have "mset (map bt_ID (be_taskQueue e) @ map bt_ID (held_tasks (be_workers e)) @ map btr_TaskID (be_sent e)) =
      mset (accepted_ids (be_calls e))"
    using assms by (simp add: bg_inv_def bg_balance_def)
  from mset_eq_imp_distinct_iff [OF this] show ?thesis
    using accepted_distinct [of "be_calls e"] assms by (simp only: bg_inv_def call_ids_def)
qed

lemma report_never_blocked:
  assumes "bg_inv e" and "worker_at e i (Unlisted t r)"
  shows "bt_ID t \<notin> btr_TaskID ` set (be_sent e)"
  using bg_places_distinct [OF assms(1)] held_by_nth [of i "be_workers e" t] assms(2) by auto

lemma worker_step_inv:
  assumes "worker_step e e'" and "bg_inv e"
  shows "bg_inv e'"
  using assms
proof (cases rule: worker_step.cases)
  case (w_take i g)
  with assms(2) show ?thesis
    using worker_take_inv by simp
next
  case (w_report i t r)
  with assms(2) show ?thesis
    using worker_report_inv by simp
next
  case (w_report_blocked i t r)
  with assms(2) show ?thesis
    using report_never_blocked by blast
next
  case (w_compute i t c d)
  then have "result_of t (task_result d c t)"
    by (auto simp: result_of_def task_result_def)
  with w_compute assms(2) show ?thesis
    by (simp add: set_worker_inv)
next
  case (w_unlist i t r)
  with assms(2) worker_good_nth [OF assms(2), of i] show ?thesis
    by (simp add: worker_unlist_def set_worker_inv)
qed (use assms(2) in \<open>simp_all add: set_worker_inv worker_publish_def\<close>)

lemma set_call_inv:
  assumes "bg_inv e" and "i < length (be_calls e)" and "sc_phase (be_calls e ! i) \<noteq> Returned None" and "p \<noteq> Returned None"
  shows "bg_inv (set_call i p e)"
  using assms accepted_ids_update [OF assms(2,3), of p]
  by (simp add: bg_inv_def bg_balance_def bg_results_def call_ids_def call_tasks_def set_call_def)

lemma Submit_send_inv:
  assumes "bg_inv e" and "call_at e i Registered"
  shows "bg_inv (Submit_send i e)"
proof (cases "be_queueClosed e")
  case False
  have "sc_task (be_calls e ! i) \<in> call_tasks e"
    using assms(2) by (simp add: call_tasks_def)
  with False assms accepted_ids_update [of i "be_calls e" "Returned None"] show ?thesis
    by (simp add: bg_inv_def bg_balance_def bg_results_def call_ids_def call_tasks_def Submit_send_def set_call_def)
qed (use assms in \<open>simp add: Submit_send_def\<close>)

lemma Submit_check_inv:
  assumes "bg_inv e" and "bt_ID t \<notin> set (call_ids e)" and "Submit_check t e = Inr e'"
  shows "bg_inv e'"
  using assms
  by (auto simp: Submit_check_def bg_inv_def bg_balance_def bg_results_def call_ids_def call_tasks_def accepted_ids_def
      split: if_splits)

lemma BG_Start_inv: "bg_inv e \<Longrightarrow> bg_inv (BG_Start e)"
proof -
  have "held_by AtLoop = []" "worker_good AtLoop"
    by simp_all
  then have "held_tasks (ws @ replicate n AtLoop) = held_tasks ws" "list_all worker_good (replicate n AtLoop)" for ws n
    by (induction n) (simp_all add: held_tasks_def)
  then show "bg_inv e \<Longrightarrow> bg_inv (BG_Start e)"
    by (simp add: BG_Start_def bg_inv_def bg_balance_def bg_results_def call_ids_def call_tasks_def)
qed

lemma Stop_inv: "bg_inv e \<Longrightarrow> bg_inv (Stop_begin e)" "bg_inv e \<Longrightarrow> bg_inv (Stop_close e)"
  by (simp_all add: Stop_begin_def Stop_close_def)

lemma Submit_register_inv: "bg_inv e \<Longrightarrow> call_at e i Checked \<Longrightarrow> bg_inv (Submit_register i e)"
  by (simp add: Submit_register_def Let_def set_call_inv)

lemma Submit_fail_inv: "bg_inv e \<Longrightarrow> call_at e i Registered \<Longrightarrow> bg_inv (Submit_fail i err e)"
  by (simp add: Submit_fail_def set_call_inv)

lemma bg_step_inv:
  assumes "bg_step e e'" and "bg_inv e"
  shows "bg_inv e'"
  using assms(1)
proof (cases rule: bg_step.cases)
  case b_worker
  then show ?thesis
    using worker_step_inv assms(2) by blast
next
  case (b_check t)
  then show ?thesis
    using Submit_check_inv assms(2) by blast
next
  case (b_cancel taskID)
  with assms(2) show ?thesis
    by (simp add: CancelTask_def split: option.split)
next
  case b_receive
  with assms(2) show ?thesis
    by (simp add: receive_result_def)
qed (use assms(2) in \<open>simp_all only: BG_Start_inv Stop_inv Submit_register_inv Submit_send_inv Submit_fail_inv\<close>)

lemma bg_reachable:
  assumes "bg_step\<^sup>*\<^sup>* (NewBackgroundExecutor m n) e"
  shows "bg_inv e"
  using assms
proof (induction rule: rtranclp_induct)
  case (step e e')
  then show ?case
    using bg_step_inv by simp
qed (simp add: NewBackgroundExecutor_def bg_inv_def bg_balance_def bg_results_def call_ids_def call_tasks_def
      accepted_ids_def held_tasks_def)

section \<open>Active tasks\<close>

text \<open>The identifiers in the map are those of the calls past their entry whose task was not taken off by its worker.\<close>

definition entered_ids :: "submit_call list \<Rightarrow> string set" where
  "entered_ids cs = set (concat (map (\<lambda>c. if sc_phase c = Checked then [] else [bt_ID (sc_task c)]) cs))"

definition taken_off :: "BackgroundExecutor \<Rightarrow> string set" where
  "taken_off e = set (concat (map unlisted_by (be_workers e))) \<union> btr_TaskID ` set (be_sent e)"

definition active_exact :: "BackgroundExecutor \<Rightarrow> bool" where
  "active_exact e \<longleftrightarrow> gm_ok (be_activeTasks e) \<and> fst ` set (be_activeTasks e) = entered_ids (be_calls e) - taken_off e"

lemma set_concat_update:
  "i < length xs \<Longrightarrow> set (concat (map f (xs[i := x]))) \<union> set (f (xs ! i)) = set (concat (map f xs)) \<union> set (f x)"
  using arg_cong [OF mset_concat_update [of i xs f x], of set_mset] by simp

lemma entered_nth: "i < length cs \<Longrightarrow> sc_phase (cs ! i) \<noteq> Checked \<Longrightarrow> bt_ID (sc_task (cs ! i)) \<in> entered_ids cs"
  by (auto simp: entered_ids_def intro!: bexI [of _ "cs ! i"])

lemma entered_checked [simp]: "entered_ids (cs @ [\<lparr>sc_task = t, sc_phase = Checked\<rparr>]) = entered_ids cs"
  by (simp add: entered_ids_def)

lemma gm_keys_delete: "fst ` set (gm_delete k m) = fst ` set m - {k}"
  by (induction m) auto

lemma entered_set_call:
  assumes "i < length (be_calls e)" and "p \<noteq> Checked"
  shows "entered_ids (be_calls (set_call i p e)) = insert (bt_ID (sc_task (be_calls e ! i))) (entered_ids (be_calls e))"
proof -
  let ?f = "\<lambda>c. if sc_phase c = Checked then [] else [bt_ID (sc_task c)]"
  let ?c = "(be_calls e ! i)\<lparr>sc_phase := p\<rparr>"
  have "bt_ID (sc_task (be_calls e ! i)) \<in> entered_ids (be_calls (set_call i p e))"
    using entered_nth [of i "(be_calls e)[i := ?c]"] assms by (simp add: set_call_def)
  then show ?thesis
    using set_concat_update [OF assms(1), of ?f ?c] assms(2)
    by (auto simp: entered_ids_def set_call_def split: if_splits)
qed

lemma not_accepted:
  assumes "distinct (map (\<lambda>c. bt_ID (sc_task c)) cs)" and "i < length cs" and "sc_phase (cs ! i) \<noteq> Returned None"
  shows "bt_ID (sc_task (cs ! i)) \<notin> set (accepted_ids cs)"
proof
  assume "bt_ID (sc_task (cs ! i)) \<in> set (accepted_ids cs)"
  then obtain j where j: "j < length cs" "sc_phase (cs ! j) = Returned None" "bt_ID (sc_task (cs ! j)) = bt_ID (sc_task (cs ! i))"
    by (auto simp: accepted_ids_def in_set_conv_nth split: if_splits)
  then have "j = i"
    using assms(1,2) nth_eq_iff_index_eq [OF assms(1), of j i] by simp
  with j(2) assms(3) show False
    by simp
qed

lemma taken_off_accepted:
  assumes "bg_inv e"
  shows "taken_off e \<subseteq> set (accepted_ids (be_calls e))"
proof -
  have "set (unlisted_by w) \<subseteq> bt_ID ` set (held_by w)" for w
    by (cases w) auto
  then have "taken_off e \<subseteq> bt_ID ` set (held_tasks (be_workers e)) \<union> btr_TaskID ` set (be_sent e)"
    by (fastforce simp: taken_off_def set_held_tasks)
  moreover have "set_mset (mset (accepted_ids (be_calls e))) =
      bt_ID ` set (be_taskQueue e) \<union> bt_ID ` set (held_tasks (be_workers e)) \<union> btr_TaskID ` set (be_sent e)"
    using assms unfolding bg_inv_def bg_balance_def by simp
  ultimately show ?thesis
    by auto
qed

lemma set_worker_active:
  assumes "active_exact e" and "i < length (be_workers e)" and "unlisted_by (be_workers e ! i) = unlisted_by w"
  shows "active_exact (set_worker i w e)"
proof -
  have "map unlisted_by ((be_workers e)[i := w]) = map unlisted_by (be_workers e)"
    using assms(2,3) by (simp add: map_update list_update_same_conv)
  with assms(1) show ?thesis
    by (simp add: active_exact_def taken_off_def set_worker_def)
qed

lemma active_exact_other [simp]:
  "active_exact (e\<lparr>be_taskQueue := q\<rparr>) = active_exact e" "active_exact (e\<lparr>be_cancelled := cs\<rparr>) = active_exact e"
  "active_exact (e\<lparr>be_results := rs\<rparr>) = active_exact e" "active_exact (e\<lparr>be_panic := b\<rparr>) = active_exact e"
  "active_exact (e\<lparr>be_running := b\<rparr>) = active_exact e" "active_exact (e\<lparr>be_stopCh := n\<rparr>) = active_exact e"
  "active_exact (e\<lparr>be_stopped := l\<rparr>) = active_exact e" "active_exact (e\<lparr>be_stopping := n\<rparr>) = active_exact e"
  "active_exact (e\<lparr>be_queueClosed := b\<rparr>) = active_exact e" "active_exact (e\<lparr>be_resultsClosed := b\<rparr>) = active_exact e"
  by (simp_all add: active_exact_def taken_off_def)

lemma worker_unlist_active:
  assumes "active_exact e" and "worker_at e i (Computed t r)"
  shows "active_exact (worker_unlist i t r e)"
proof -
  have "set (concat (map unlisted_by ((be_workers e)[i := Unlisted t r]))) = insert (bt_ID t) (set (concat (map unlisted_by (be_workers e))))"
    using set_concat_update [of i "be_workers e" unlisted_by "Unlisted t r"] assms(2) by simp
  then have "taken_off (worker_unlist i t r e) = insert (bt_ID t) (taken_off e)"
    by (simp add: taken_off_def worker_unlist_def set_worker_def)
  with assms(1) show ?thesis
    by (auto simp: active_exact_def gm_keys_delete worker_unlist_def set_worker_def)
qed

lemma worker_report_active:
  assumes "active_exact e" and "worker_at e i (Unlisted t r)" and "btr_TaskID r = bt_ID t"
  shows "active_exact (worker_report i r e)"
proof -
  have "insert (bt_ID t) (set (concat (map unlisted_by ((be_workers e)[i := Reported r])))) = set (concat (map unlisted_by (be_workers e)))"
    using set_concat_update [of i "be_workers e" unlisted_by "Reported r"] assms(2) by simp
  with assms(1,3) show ?thesis
    unfolding active_exact_def taken_off_def worker_report_def set_worker_def by auto
qed

lemma Submit_active:
  assumes "bg_inv e" and "active_exact e"
  shows "call_at e i Checked \<Longrightarrow> active_exact (Submit_register i e)"
    and "call_at e i Registered \<Longrightarrow> active_exact (Submit_send i e)"
    and "call_at e i Registered \<Longrightarrow> active_exact (Submit_fail i err e)"
    and "Submit_check t e = Inr e' \<Longrightarrow> active_exact e'"
proof -
  assume "call_at e i Checked"
  moreover from this have "bt_ID (sc_task (be_calls e ! i)) \<notin> taken_off e"
    using not_accepted [of "be_calls e" i] taken_off_accepted [OF assms(1)] assms(1) by (auto simp: bg_inv_def call_ids_def)
  ultimately show "active_exact (Submit_register i e)"
    using assms(2) entered_set_call [of i e Registered]
    by (auto simp: active_exact_def Submit_register_def set_call_def taken_off_def Let_def)
next
  assume c: "call_at e i Registered"
  then have "bt_ID (sc_task (be_calls e ! i)) \<in> entered_ids (be_calls e)"
    using entered_nth [of i "be_calls e"] by simp
  then have "active_exact (set_call i (Returned r) e)" for r
    using assms(2) entered_set_call [of i e "Returned r"] c
    by (simp add: active_exact_def set_call_def taken_off_def insert_absorb)
  then show "active_exact (Submit_send i e)" "active_exact (Submit_fail i err e)"
    using assms(2) by (auto simp: Submit_send_def Submit_fail_def set_call_def active_exact_def taken_off_def)
next
  assume "Submit_check t e = Inr e'"
  then have "e' = e\<lparr>be_calls := be_calls e @ [\<lparr>sc_task = t, sc_phase = Checked\<rparr>]\<rparr>"
    by (simp add: Submit_check_def split: if_splits)
  with assms(2) show "active_exact e'"
    by (simp add: active_exact_def taken_off_def)
qed

lemma worker_step_active:
  assumes "worker_step e e'" and "bg_inv e" and "active_exact e"
  shows "active_exact e'"
  using assms(1)
proof (cases rule: worker_step.cases)
  case (w_unlist i t r)
  with assms(3) show ?thesis
    using worker_unlist_active by simp
next
  case (w_report i t r)
  with assms(2,3) worker_good_nth [of e i] worker_report_active [of e i t r] show ?thesis
    by (simp add: result_of_def)
next
  case (w_report_blocked i t r)
  with assms(2) show ?thesis
    using report_never_blocked by blast
qed (use assms(3) in \<open>simp_all add: set_worker_active worker_take_def worker_publish_def\<close>)

lemma bg_step_active:
  assumes "bg_step e e'" and "bg_inv e" and "active_exact e"
  shows "active_exact e'"
  using assms(1)
proof (cases rule: bg_step.cases)
  case b_worker
  then show ?thesis
    using worker_step_active assms(2,3) by blast
next
  case b_start
  have "concat (map unlisted_by (replicate n AtLoop)) = []" for n
    by (induction n) simp_all
  with b_start assms(3) show ?thesis
    by (simp add: BG_Start_def active_exact_def taken_off_def)
next
  case (b_check t)
  then show ?thesis
    using Submit_active(4) assms(2,3) by blast
next
  case (b_cancel taskID)
  with assms(3) show ?thesis
    by (simp add: CancelTask_def split: option.split)
qed (use assms(2,3) in \<open>simp_all add: Stop_begin_def Stop_close_def receive_result_def Submit_active\<close>)

lemma bg_reachable_active:
  assumes "bg_step\<^sup>*\<^sup>* (NewBackgroundExecutor m n) e"
  shows "active_exact e"
  using assms
proof (induction rule: rtranclp_induct)
  case (step e e')
  then show ?case
    using bg_step_active bg_reachable by blast
qed (simp add: NewBackgroundExecutor_def active_exact_def taken_off_def entered_ids_def)

text \<open>C19: However calls and workers interleave, every task that \<^verbatim>\<open>Submit\<close> accepted is in exactly one place: in the queue,
  with one worker, or reported once on its own channel. What is reported is the result of its function.\<close>

theorem background_tasks_once:
  assumes "bg_step\<^sup>*\<^sup>* (NewBackgroundExecutor m n) e"
  shows "distinct (map bt_ID (be_taskQueue e) @ map bt_ID (held_tasks (be_workers e)) @ map btr_TaskID (be_sent e)) \<and>
    set (map bt_ID (be_taskQueue e) @ map bt_ID (held_tasks (be_workers e)) @ map btr_TaskID (be_sent e)) =
      set (accepted_ids (be_calls e)) \<and>
    (\<forall>r \<in> set (be_sent e). \<exists>t \<in> call_tasks e. result_of t r)"
proof (intro conjI)
  have inv: "bg_inv e"
    using assms(1) by (rule bg_reachable)
  show "distinct (map bt_ID (be_taskQueue e) @ map bt_ID (held_tasks (be_workers e)) @ map btr_TaskID (be_sent e))"
    using inv by (rule bg_places_distinct)
  have "mset (map bt_ID (be_taskQueue e) @ map bt_ID (held_tasks (be_workers e)) @ map btr_TaskID (be_sent e)) =
      mset (accepted_ids (be_calls e))"
    using inv by (simp add: bg_inv_def bg_balance_def)
  then show "set (map bt_ID (be_taskQueue e) @ map bt_ID (held_tasks (be_workers e)) @ map btr_TaskID (be_sent e)) =
      set (accepted_ids (be_calls e))"
    by (rule mset_eq_setD)
  show "\<forall>r \<in> set (be_sent e). \<exists>t \<in> call_tasks e. result_of t r"
    using inv by (simp add: bg_inv_def bg_results_def)
qed

text \<open>A run: one task is submitted, executed and reported.\<close>

definition demo_task :: BackgroundTask where
  "demo_task = \<lparr>bt_ID = ''t'', bt_Name = ''n'', bt_Func = (\<lambda>c. (GBool c, None)), bt_Priority = PriorityNormal\<rparr>"

definition demo_checked :: BackgroundExecutor where
  "demo_checked = (BG_Start (NewBackgroundExecutor 1 1))\<lparr>be_calls := [\<lparr>sc_task = demo_task, sc_phase = Checked\<rparr>]\<rparr>"

definition demo_reported :: BackgroundExecutor where
  "demo_reported =
     (let e = set_worker 0 (Selecting 1) (Submit_send 0 (Submit_register 0 demo_checked)); r = task_result 0 False demo_task
      in worker_report 0 r (worker_unlist 0 demo_task r (set_worker 0 (Computed demo_task r) (worker_take 0 e))))"

lemmas demo_defs = demo_task_def demo_checked_def demo_reported_def NewBackgroundExecutor_def call_ids_def bg_defs
  task_result_def Let_def

lemma demo_checked_reached: "bg_step\<^sup>*\<^sup>* (NewBackgroundExecutor 1 1) demo_checked"
proof -
  have "bg_step (NewBackgroundExecutor 1 1) (BG_Start (NewBackgroundExecutor 1 1))"
    by (rule b_start) (simp add: demo_defs)
  moreover have "bg_step (BG_Start (NewBackgroundExecutor 1 1)) demo_checked"
    by (rule b_check [of _ demo_task]) (simp_all add: demo_defs)
  ultimately show ?thesis
    by simp
qed

lemma demo_reported_reached: "bg_step\<^sup>*\<^sup>* (NewBackgroundExecutor 1 1) demo_reported"
proof -
  let ?r = "task_result 0 False demo_task"
  let ?e1 = "Submit_register 0 demo_checked"
  let ?e2 = "Submit_send 0 ?e1"
  let ?e3 = "set_worker 0 (Selecting 1) ?e2"
  let ?e4 = "worker_take 0 ?e3"
  let ?e5 = "set_worker 0 (Computed demo_task ?r) ?e4"
  let ?e6 = "worker_unlist 0 demo_task ?r ?e5"
  have "bg_step demo_checked ?e1"
    by (rule b_register) (simp_all add: demo_defs)
  moreover have "bg_step ?e1 ?e2"
    by (rule b_send) (simp_all add: demo_defs)
  moreover have "worker_step ?e2 ?e3"
    using w_select [of 0 ?e2] by (simp add: demo_defs)
  then have "bg_step ?e2 ?e3"
    by (rule b_worker [rotated]) (simp add: demo_defs)
  moreover have "worker_step ?e3 ?e4"
    by (rule w_take [of _ _ 1]) (simp_all add: demo_defs)
  then have "bg_step ?e3 ?e4"
    by (rule b_worker [rotated]) (simp add: demo_defs)
  moreover have "worker_step ?e4 ?e5"
    by (rule w_compute) (simp_all add: demo_defs)
  then have "bg_step ?e4 ?e5"
    by (rule b_worker [rotated]) (simp add: demo_defs)
  moreover have "worker_step ?e5 ?e6"
    by (rule w_unlist) (simp_all add: demo_defs)
  then have "bg_step ?e5 ?e6"
    by (rule b_worker [rotated]) (simp add: demo_defs)
  moreover have "worker_step ?e6 demo_reported"
    unfolding demo_reported_def Let_def by (rule w_report [of _ _ demo_task]) (simp_all add: demo_defs)
  then have "bg_step ?e6 demo_reported"
    by (rule b_worker [rotated]) (simp add: demo_defs)
  ultimately show ?thesis
    using demo_checked_reached by (meson rtranclp.rtrancl_into_rtrancl)
qed

theorem background_tasks_once_witness:
  "bg_step\<^sup>*\<^sup>* (NewBackgroundExecutor 1 1) demo_reported \<and> accepted_ids (be_calls demo_reported) = [''t''] \<and>
   map btr_TaskID (be_sent demo_reported) = [''t''] \<and> be_taskQueue demo_reported = [] \<and>
   distinct (map btr_TaskID (be_sent demo_reported)) \<and>
   result_of demo_task (hd (be_sent demo_reported))"
  using background_tasks_once [OF demo_reported_reached] demo_reported_reached
  by (auto simp: demo_defs accepted_ids_def result_of_def)

text \<open>The tasks a worker has in hand and has not taken off the map, and the calls that wait or failed after the entry.\<close>

fun listed_by :: "backgroundWorker \<Rightarrow> string list" where
  "listed_by (Working t) = [bt_ID t]"
| "listed_by (Computed t r) = [bt_ID t]"
| "listed_by _ = []"

definition pending_or_failed :: "submit_call list \<Rightarrow> string set" where
  "pending_or_failed cs = {bt_ID (sc_task c) | c. c \<in> set cs \<and> (sc_phase c = Registered \<or> (\<exists>err. sc_phase c = Returned (Some err)))}"

lemma entered_split: "entered_ids cs = pending_or_failed cs \<union> set (accepted_ids cs)"
proof -
  have "sc_phase c = Checked \<or> sc_phase c = Registered \<or> (\<exists>err. sc_phase c = Returned (Some err)) \<or> sc_phase c = Returned None" for c
    by (metis not_None_eq submit_phase.exhaust)
  then show ?thesis
    by (fastforce simp: entered_ids_def pending_or_failed_def accepted_ids_def split: if_splits)
qed

lemma pending_not_accepted: "bg_inv e \<Longrightarrow> pending_or_failed (be_calls e) \<inter> set (accepted_ids (be_calls e)) = {}"
  using not_accepted [of "be_calls e"]
  by (fastforce simp: bg_inv_def call_ids_def pending_or_failed_def in_set_conv_nth)

lemma held_split: "mset (map bt_ID (held_tasks ws)) = mset (concat (map listed_by ws)) + mset (concat (map unlisted_by ws))"
proof (induction ws)
  case (Cons w ws)
  then show ?case
    by (cases w) (simp_all add: held_tasks_def)
qed (simp add: held_tasks_def)

text \<open>\<^verbatim>\<open>GetActiveTasks\<close> lists, without repetition, the tasks that wait in the queue or run, those whose \<^verbatim>\<open>Submit\<close> is still
  sending, and every task whose \<^verbatim>\<open>Submit\<close> failed after the entry: these are never taken off the map.\<close>

theorem GetActiveTasks_spec:
  assumes "bg_step\<^sup>*\<^sup>* (NewBackgroundExecutor m n) e"
  shows "distinct (GetActiveTasks e) \<and> set (GetActiveTasks e) =
    bt_ID ` set (be_taskQueue e) \<union> set (concat (map listed_by (be_workers e))) \<union> pending_or_failed (be_calls e)"
proof (intro conjI)
  have inv: "bg_inv e" and act: "active_exact e"
    using bg_reachable [OF assms] bg_reachable_active [OF assms] by simp_all
  let ?Q = "bt_ID ` set (be_taskQueue e)" and ?S = "btr_TaskID ` set (be_sent e)"
  let ?L = "set (concat (map listed_by (be_workers e)))" and ?U = "set (concat (map unlisted_by (be_workers e)))"
  have bal: "mset (accepted_ids (be_calls e)) = mset (map bt_ID (be_taskQueue e) @ concat (map listed_by (be_workers e)) @
      concat (map unlisted_by (be_workers e)) @ map btr_TaskID (be_sent e))"
    using inv held_split [of "be_workers e"] by (simp only: bg_inv_def bg_balance_def mset_append) (simp add: add.assoc)
  have acc: "set (accepted_ids (be_calls e)) = ?Q \<union> ?L \<union> ?U \<union> ?S"
    using mset_eq_setD [OF bal] by auto
  have "distinct (accepted_ids (be_calls e))"
    using inv accepted_distinct by (simp add: bg_inv_def call_ids_def)
  then have "(?Q \<union> ?L) \<inter> (?U \<union> ?S) = {}"
    unfolding mset_eq_imp_distinct_iff [OF bal] distinct_append set_append set_map by blast
  moreover have "set (GetActiveTasks e) = (pending_or_failed (be_calls e) \<union> (?Q \<union> ?L \<union> ?U \<union> ?S)) - (?U \<union> ?S)"
    using act unfolding active_exact_def taken_off_def entered_split acc by (simp add: GetActiveTasks_def)
  moreover have "pending_or_failed (be_calls e) \<inter> (?U \<union> ?S) = {}"
    using pending_not_accepted [OF inv] unfolding acc by blast
  ultimately show "set (GetActiveTasks e) = ?Q \<union> ?L \<union> pending_or_failed (be_calls e)"
    by blast
  show "distinct (GetActiveTasks e)"
    using act by (simp add: GetActiveTasks_def active_exact_def)
qed

definition demo_refused :: BackgroundExecutor where
  "demo_refused = Submit_fail 0 CancelledError (Submit_register 0 demo_checked)"

lemma demo_refused_reached: "bg_step\<^sup>*\<^sup>* (NewBackgroundExecutor 1 1) demo_refused"
proof -
  have "bg_step demo_checked (Submit_register 0 demo_checked)"
    by (rule b_register) (simp_all add: demo_defs)
  moreover have "bg_step (Submit_register 0 demo_checked) demo_refused"
    unfolding demo_refused_def by (rule b_ctx_done) (simp_all add: demo_defs)
  ultimately show ?thesis
    using demo_checked_reached by (meson rtranclp.rtrancl_into_rtrancl)
qed

theorem GetActiveTasks_spec_witness:
  "bg_step\<^sup>*\<^sup>* (NewBackgroundExecutor 1 1) demo_refused \<and> be_taskQueue demo_refused = [] \<and>
   be_workers demo_refused = [AtLoop] \<and> set (GetActiveTasks demo_refused) = {''t''}"
  using GetActiveTasks_spec [OF demo_refused_reached] demo_refused_reached
  by (simp add: demo_refused_def demo_defs pending_or_failed_def)

section \<open>Closed channels\<close>

definition close_ok :: "BackgroundExecutor \<Rightarrow> bool" where
  "close_ok e \<longleftrightarrow> (be_panic e \<longrightarrow> be_queueClosed e) \<and> (be_resultsClosed e \<longrightarrow> be_queueClosed e)"

lemma bg_step_closed:
  "bg_step e e' \<Longrightarrow> close_ok e \<Longrightarrow> close_ok e' \<and> (be_queueClosed e \<longrightarrow> be_queueClosed e')"
proof (induction rule: bg_step.induct)
  case (b_worker e e')
  then show ?case
    by (auto simp: close_ok_def bg_defs elim!: worker_stepE)
qed (auto simp: close_ok_def bg_defs Let_def split: option.split if_splits)

lemma bg_steps_closed:
  "bg_step\<^sup>*\<^sup>* e e' \<Longrightarrow> close_ok e \<Longrightarrow> close_ok e' \<and> (be_queueClosed e \<longrightarrow> be_queueClosed e')"
  by (induction rule: rtranclp_induct) (use bg_step_closed in auto)

text \<open>An executor panics only after a \<^verbatim>\<open>Stop\<close> has closed its queue; and once that happened no later start revives it:
  every \<^verbatim>\<open>Submit\<close> that gets to its send panics.\<close>

theorem panics_only_after_Stop:
  assumes "bg_step\<^sup>*\<^sup>* (NewBackgroundExecutor m n) e"
  shows "(be_panic e \<longrightarrow> be_queueClosed e) \<and>
    (be_queueClosed e \<longrightarrow> (\<forall>e' i. bg_step\<^sup>*\<^sup>* e e' \<longrightarrow> be_panic (Submit_send i e')))"
proof -
  have "close_ok e"
    using bg_steps_closed [OF assms] by (simp add: NewBackgroundExecutor_def close_ok_def)
  moreover from this have "be_queueClosed e' \<or> \<not> be_queueClosed e" if "bg_step\<^sup>*\<^sup>* e e'" for e'
    using bg_steps_closed [OF that] by blast
  ultimately show ?thesis
    by (auto simp: close_ok_def Submit_send_def)
qed

text \<open>A run in which \<^verbatim>\<open>Stop\<close> waits for all workers and still overtakes a \<^verbatim>\<open>Submit\<close>.\<close>

definition demo_stopping :: BackgroundExecutor where
  "demo_stopping = set_worker 0 Exited (set_worker 0 (Selecting 1) (Stop_begin (Submit_register 0 demo_checked)))"

lemma demo_stopping_reached: "bg_step\<^sup>*\<^sup>* (NewBackgroundExecutor 1 1) demo_stopping"
proof -
  let ?e1 = "Submit_register 0 demo_checked"
  let ?e2 = "Stop_begin ?e1"
  let ?e3 = "set_worker 0 (Selecting 1) ?e2"
  have "bg_step demo_checked ?e1"
    by (rule b_register) (simp_all add: demo_defs)
  moreover have "bg_step ?e1 ?e2"
    by (rule b_stop) (simp add: demo_defs)
  moreover have "worker_step ?e2 ?e3"
    using w_select [of 0 ?e2] by (simp add: demo_defs)
  then have "bg_step ?e2 ?e3"
    by (rule b_worker [rotated]) (simp add: demo_defs)
  moreover have "worker_step ?e3 demo_stopping"
    unfolding demo_stopping_def by (rule w_stop [of _ _ 1]) (simp_all add: demo_defs)
  then have "bg_step ?e3 demo_stopping"
    by (rule b_worker [rotated]) (simp add: demo_defs)
  ultimately show ?thesis
    using demo_checked_reached by (meson rtranclp.rtrancl_into_rtrancl)
qed

lemma demo_closed_reached: "bg_step\<^sup>*\<^sup>* (NewBackgroundExecutor 1 1) (Stop_close demo_stopping)"
proof -
  have "bg_step demo_stopping (Stop_close demo_stopping)"
    by (rule b_close) (simp_all add: demo_stopping_def demo_defs workers_done_def)
  with demo_stopping_reached show ?thesis
    by (rule rtranclp.rtrancl_into_rtrancl)
qed

theorem panics_only_after_Stop_witness:
  "bg_step\<^sup>*\<^sup>* (NewBackgroundExecutor 1 1) (Stop_close demo_stopping) \<and> workers_done demo_stopping \<and>
   \<not> be_panic (Stop_close demo_stopping) \<and> call_at (Stop_close demo_stopping) 0 Registered \<and>
   be_panic (Submit_send 0 (Stop_close demo_stopping))"
proof (intro conjI)
  show "bg_step\<^sup>*\<^sup>* (NewBackgroundExecutor 1 1) (Stop_close demo_stopping)"
    by (rule demo_closed_reached)
  have "be_queueClosed (Stop_close demo_stopping)"
    by (simp add: Stop_close_def)
  with panics_only_after_Stop [OF demo_closed_reached] show "be_panic (Submit_send 0 (Stop_close demo_stopping))"
    by blast
qed (simp_all add: demo_stopping_def demo_defs workers_done_def)

text \<open>An executor after an orderly \<^verbatim>\<open>Stop\<close>: no call is pending and all workers have returned.\<close>

definition bg_quiet :: "BackgroundExecutor \<Rightarrow> bool" where
  "bg_quiet e \<longleftrightarrow> \<not> be_running e \<and> be_stopping e = 0 \<and> \<not> be_panic e \<and> workers_done e \<and>
     (\<forall>c \<in> set (be_calls e). \<exists>r. sc_phase c = Returned r)"

lemma quiet_step:
  assumes "bg_step e e'" and "bg_quiet e" and "\<not> be_running e'"
  shows "bg_quiet e' \<and> be_taskQueue e' = be_taskQueue e \<and> be_sent e' = be_sent e"
proof -
  have w: "be_workers e ! i = Exited" if "i < length (be_workers e)" for i
    using assms(2) that by (simp add: bg_quiet_def workers_done_def list_all_length)
  have c: "\<not> call_at e i Checked \<and> \<not> call_at e i Registered" for i
  proof -
    have "\<forall>c \<in> set (be_calls e). sc_phase c \<noteq> Checked \<and> sc_phase c \<noteq> Registered"
      using assms(2) by (auto simp: bg_quiet_def dest: bspec)
    then show ?thesis
      by (simp add: in_set_conv_nth Ball_def) metis
  qed
  from assms(1) show ?thesis
  proof (cases rule: bg_step.cases)
    case b_worker
    then show ?thesis
      using w by (auto elim!: worker_stepE)
  next
    case (b_cancel taskID)
    with assms(2) show ?thesis
      by (auto simp: CancelTask_def bg_quiet_def workers_done_def split: option.split)
  next
    case b_start
    with assms(2,3) show ?thesis
      by (simp add: BG_Start_def bg_quiet_def)
  next
    case (b_check t)
    with assms(2) show ?thesis
      by (simp add: Submit_check_def bg_quiet_def)
  qed (use assms(2) c in \<open>simp_all add: bg_quiet_def workers_done_def Stop_begin_def receive_result_def\<close>)
qed

text \<open>After an orderly stop the executor never panics while it is not started again; the tasks left in the queue stay
  there and get no result.\<close>

theorem stopped_executor_quiet:
  assumes "bg_quiet e" and "(\<lambda>a b. bg_step a b \<and> \<not> be_running b)\<^sup>*\<^sup>* e e'"
  shows "\<not> be_panic e' \<and> be_taskQueue e' = be_taskQueue e \<and> be_sent e' = be_sent e"
proof -
  from assms(2,1) have "bg_quiet e' \<and> be_taskQueue e' = be_taskQueue e \<and> be_sent e' = be_sent e"
  proof (induction rule: rtranclp_induct)
    case (step a b)
    then show ?case
      using quiet_step [of a b] by simp
  qed simp
  then show ?thesis
    by (simp add: bg_quiet_def)
qed

theorem stopped_executor_quiet_witness:
  "bg_quiet (NewBackgroundExecutor 1 1) \<and> be_sent (receive_result (NewBackgroundExecutor 1 1)) = []"
proof
  show q: "bg_quiet (NewBackgroundExecutor 1 1)"
    by (simp add: demo_defs bg_quiet_def workers_done_def)
  have "bg_step (NewBackgroundExecutor 1 1) (receive_result (NewBackgroundExecutor 1 1))"
    by (rule b_receive) (simp add: demo_defs)
  then have "(\<lambda>a b. bg_step a b \<and> \<not> be_running b)\<^sup>*\<^sup>* (NewBackgroundExecutor 1 1) (receive_result (NewBackgroundExecutor 1 1))"
    by (intro r_into_rtranclp) (simp add: demo_defs)
  from stopped_executor_quiet [OF q this] show "be_sent (receive_result (NewBackgroundExecutor 1 1)) = []"
    by (simp add: demo_defs)
qed

end
