(* ===== verification/Subgraph.thy ===== *)
theory Subgraph
  imports Engine
begin

text \<open>
  Sub-graphs (\<^verbatim>\<open>pregel/subgraph.go\<close>): the manager with its stack of namespaces, executing a node of a sub-graph, moving
  checkpoints between a graph and its sub-graphs, and registries that see the channels of one namespace of a
  shared registry. An entry of the manager is the parent engine itself or an engine of its own. The stack
  belongs to the manager and not to a call: calls that run at the same time push and pop the same one. The values
  of \<^verbatim>\<open>uuid.New\<close> are arguments. A node of the model always has a function, so the error for a missing one does
  not arise.
\<close>

section \<open>The manager\<close>

datatype 's engine_ref = TheParent | OwnEngine "'s Engine"

record 's SubgraphManager =
  parentEngine :: "'s Engine"
  subgraphs :: "'s engine_ref gomap"
  namespaceStack :: "string list"
  checkpointNS :: "string gomap"

text \<open>The fields of the configuration that are read; a graph that is not a state graph counts as none.\<close>

record SubgraphConfig =
  sgc_Name :: string
  sgc_Graph :: "stateGraph option"

definition NewSubgraphManager :: "'s Engine \<Rightarrow> 's SubgraphManager" where
  "NewSubgraphManager e = \<lparr>parentEngine = e, subgraphs = [], namespaceStack = [], checkpointNS = []\<rparr>"

definition engine_of :: "'s SubgraphManager \<Rightarrow> 's engine_ref \<Rightarrow> 's Engine" where
  "engine_of m r = (case r of TheParent \<Rightarrow> parentEngine m | OwnEngine e \<Rightarrow> e)"

definition subgraph_options :: "'s Engine \<Rightarrow> 's EngineOption list" where
  "subgraph_options p =
     (case checkpointer p of None \<Rightarrow> [] | Some cp \<Rightarrow> [Engine_WithCheckpointer cp]) @ [Engine_WithConfig (config p)]"

definition CreateSubgraph ::
  "SubgraphConfig \<Rightarrow> 's SubgraphManager \<Rightarrow> (gerror, 's SubgraphManager, 's engine_ref) outcome" where
  "CreateSubgraph c m =
     (if map_of (subgraphs m) (sgc_Name c) \<noteq> None
      then (m, Inl (PlainError ''subgraph already exists'' [sgc_Name c]))
      else (let r = (case sgc_Graph c of
                       Some g \<Rightarrow> OwnEngine (NewEngine g (subgraph_options (parentEngine m)))
                     | None \<Rightarrow> TheParent)
            in (m\<lparr>subgraphs := gm_set (sgc_Name c) r (subgraphs m)\<rparr>, Inr r)))"

definition GetSubgraph :: "string \<Rightarrow> 's SubgraphManager \<Rightarrow> 's engine_ref option" where
  "GetSubgraph name m = map_of (subgraphs m) name"

definition PushNamespace :: "string \<Rightarrow> 's SubgraphManager \<Rightarrow> 's SubgraphManager" where
  "PushNamespace ns m = m\<lparr>namespaceStack := namespaceStack m @ [ns]\<rparr>"

definition PopNamespace :: "'s SubgraphManager \<Rightarrow> 's SubgraphManager" where
  "PopNamespace m = (if namespaceStack m \<noteq> [] then m\<lparr>namespaceStack := butlast (namespaceStack m)\<rparr> else m)"

definition CurrentNamespace :: "'s SubgraphManager \<Rightarrow> string" where
  "CurrentNamespace m = (if namespaceStack m \<noteq> [] then last (namespaceStack m) else [])"

definition BuildNamespacePath :: "'s SubgraphManager \<Rightarrow> string" where
  "BuildNamespacePath m = (if namespaceStack m = [] then [] else join_with NSSep (namespaceStack m))"

text \<open>The manager after the call and what the call does. The namespace is popped by a deferred call, so also when the node
  panics; the context is passed on unchanged, as \<^verbatim>\<open>withCheckpointNamespace\<close> drops the path it builds.\<close>

definition ExecuteInSubgraph :: "string \<Rightarrow> string \<Rightarrow> goval \<Rightarrow> 's SubgraphManager \<Rightarrow> 's SubgraphManager \<times> call" where
  "ExecuteInSubgraph subgraphName nodeName inp m =
     (case GetSubgraph subgraphName m of
        None \<Rightarrow> (m, CRet GNil (Some (PlainError ''subgraph not found'' [subgraphName])))
      | Some r \<Rightarrow>
          (let m1 = PushNamespace subgraphName m
           in (case getNode (engine_of m1 r) nodeName of
                 None \<Rightarrow> (PopNamespace m1, CRet GNil (Some (PlainError ''node not found in subgraph'' [nodeName, subgraphName])))
               | Some n \<Rightarrow> (PopNamespace m1, Function n inp))))"

section \<open>Moving checkpoints\<close>

definition MigrateToSubgraph ::
  "string \<Rightarrow> string \<Rightarrow> string \<Rightarrow> string \<Rightarrow> 's SubgraphManager \<Rightarrow> 's SubgraphManager \<times> string" where
  "MigrateToSubgraph uid threadID parentCheckpointID subgraphName m =
     (let subgraphNS = BuildNamespacePath m @ NSSep @ subgraphName
      in (m\<lparr>checkpointNS := gm_set threadID subgraphNS (checkpointNS m)\<rparr>, uid))"

text \<open>The parent's namespace is computed and not used.\<close>

definition MigrateFromSubgraph :: "string \<Rightarrow> string \<Rightarrow> 's SubgraphManager \<Rightarrow> 's SubgraphManager" where
  "MigrateFromSubgraph threadID subgraphCheckpointID m = m\<lparr>checkpointNS := gm_delete threadID (checkpointNS m)\<rparr>"

definition Parent :: string where "Parent = ''__parent__''"

record Command =
  cmd_Graph :: string
  cmd_Update :: goval
  cmd_Resume :: goval
  cmd_Goto :: goval

definition ResolveParentCommand :: "Command \<Rightarrow> 's SubgraphManager \<Rightarrow> gerror + Command" where
  "ResolveParentCommand cmd m =
     (if namespaceStack m = [] then Inl (PlainError ''no parent graph to resolve to'' [])
      else Inr \<lparr>cmd_Graph = cmd_Graph cmd, cmd_Update = cmd_Update cmd, cmd_Resume = cmd_Resume cmd, cmd_Goto = GStr Parent\<rparr>)"

section \<open>Registries with a namespace\<close>

text \<open>The base registry is shared; it is passed beside the namespace.\<close>

record NamespaceIsolatedRegistry =
  nir_namespace :: string
  nir_prefix :: string

definition NewNamespaceIsolatedRegistry :: "string \<Rightarrow> NamespaceIsolatedRegistry" where
  "NewNamespaceIsolatedRegistry namespace =
     \<lparr>nir_namespace = namespace, nir_prefix = (if namespace \<noteq> [] then namespace @ NSSep else namespace)\<rparr>"

definition NIR_Get :: "NamespaceIsolatedRegistry \<Rightarrow> Registry \<Rightarrow> string \<Rightarrow> channel option" where
  "NIR_Get r base name = Registry_Get base (nir_prefix r @ name)"

text \<open>A value that is not a channel (\<open>None\<close>) is ignored without an error.\<close>

definition NIR_Register :: "NamespaceIsolatedRegistry \<Rightarrow> Registry \<Rightarrow> string \<Rightarrow> channel option \<Rightarrow> Registry" where
  "NIR_Register r base name ch =
     (case ch of Some c \<Rightarrow> Register base (nir_prefix r @ name) c | None \<Rightarrow> base)"

definition NIR_CreateCheckpoint :: "NamespaceIsolatedRegistry \<Rightarrow> Registry \<Rightarrow> gostate" where
  "NIR_CreateCheckpoint r base =
     gm_set ''prefix'' (GStr (nir_prefix r)) (gm_set ''namespace'' (GStr (nir_namespace r)) (CreateCheckpoint base))"

definition trim_keys :: "string \<Rightarrow> gostate \<Rightarrow> gostate" where
  "trim_keys prefix vals =
     fold (\<lambda>(k, v) m. if take (length prefix) k = prefix then gm_set (drop (length prefix) k) v m else m) vals []"

definition NIR_GetValues :: "NamespaceIsolatedRegistry \<Rightarrow> Registry \<Rightarrow> (gerror, Registry, gostate) outcome" where
  "NIR_GetValues r base =
     (case GetValues base of
        (base', Inl err) \<Rightarrow> (base', Inl err)
      | (base', Inr vals) \<Rightarrow> (base', Inr (trim_keys (nir_prefix r) vals)))"

section \<open>Recursion\<close>

record RecursiveSubgraphExecutor =
  rse_maxDepth :: int

definition NewRecursiveSubgraphExecutor :: "int \<Rightarrow> RecursiveSubgraphExecutor" where
  "NewRecursiveSubgraphExecutor d = \<lparr>rse_maxDepth = d\<rparr>"

definition depth_error :: "int \<Rightarrow> int \<Rightarrow> gerror" where
  "depth_error depth limit = PlainError ''recursion depth limit exceeded'' []"

definition ExecuteRecursive ::
  "RecursiveSubgraphExecutor \<Rightarrow> string \<Rightarrow> string \<Rightarrow> goval \<Rightarrow> int \<Rightarrow> 's SubgraphManager \<Rightarrow>
     's SubgraphManager \<times> call" where
  "ExecuteRecursive e subgraphName nodeName inp depth m =
     (if depth > rse_maxDepth e then (m, CRet GNil (Some (depth_error depth (rse_maxDepth e))))
      else ExecuteInSubgraph subgraphName nodeName inp m)"

definition executeRecursive_unexported :: "RecursiveSubgraphExecutor \<Rightarrow> goval \<Rightarrow> int \<Rightarrow> gerror + goval" where
  "executeRecursive_unexported e inp depth =
     (if depth > rse_maxDepth e then Inl (depth_error depth (rse_maxDepth e)) else Inr GNil)"

section \<open>The stack of namespaces\<close>

lemma Pop_Push [simp]: "PopNamespace (PushNamespace ns m) = m"
  by (simp add: PopNamespace_def PushNamespace_def)

text \<open>Creating a sub-graph under a new name adds exactly it; its engine keeps the parent's checkpointer and configuration,
  or is the parent itself where no graph is given. Executing a node runs exactly the function found there, reports
  a missing sub-graph or node, and leaves the manager as it was on every path.\<close>

theorem CreateSubgraph_Execute:
  assumes "GetSubgraph (sgc_Name c) m = None"
  shows "\<exists>m' r. CreateSubgraph c m = (m', Inr r) \<and> namespaceStack m' = namespaceStack m \<and>
    checkpointer (engine_of m' r) = checkpointer (parentEngine m) \<and> config (engine_of m' r) = config (parentEngine m) \<and>
    graph (engine_of m' r) = (case sgc_Graph c of None \<Rightarrow> graph (parentEngine m) | Some g \<Rightarrow> g) \<and>
    (\<forall>s. GetSubgraph s m' = (if s = sgc_Name c then Some r else GetSubgraph s m)) \<and>
    (\<forall>s n inp. ExecuteInSubgraph s n inp m' = (m',
       case GetSubgraph s m' of
         None \<Rightarrow> CRet GNil (Some (PlainError ''subgraph not found'' [s]))
       | Some q \<Rightarrow> (case map_of (nodes (graph (engine_of m' q))) n of
             None \<Rightarrow> CRet GNil (Some (PlainError ''node not found in subgraph'' [n, s]))
           | Some nd \<Rightarrow> Function nd inp)))"
proof -
  have ex: "ExecuteInSubgraph s n inp m' = (m',
       case GetSubgraph s m' of
         None \<Rightarrow> CRet GNil (Some (PlainError ''subgraph not found'' [s]))
       | Some q \<Rightarrow> (case map_of (nodes (graph (engine_of m' q))) n of
             None \<Rightarrow> CRet GNil (Some (PlainError ''node not found in subgraph'' [n, s]))
           | Some nd \<Rightarrow> Function nd inp))" for s n inp and m' :: "'a SubgraphManager"
  proof -
    have "engine_of (PushNamespace s m') = engine_of m'"
      by (simp add: fun_eq_iff engine_of_def PushNamespace_def split: engine_ref.split)
    then show ?thesis
      by (simp add: ExecuteInSubgraph_def Let_def getNode_def split: option.split)
  qed
  show ?thesis
    using assms
    by (auto simp: CreateSubgraph_def GetSubgraph_def Let_def ex engine_of_def subgraph_options_def NewEngine_def
        Engine_WithCheckpointer_def Engine_WithConfig_def gomap_simps split: option.split)
qed

theorem CreateSubgraph_Execute_witness:
  "\<exists>m r. CreateSubgraph \<lparr>sgc_Name = ''s'', sgc_Graph = Some fan_in\<rparr> (NewSubgraphManager (NewEngine fan_in [] :: unit Engine)) = (m, Inr r) \<and>
     graph (engine_of m r) = fan_in \<and> ExecuteInSubgraph ''x'' ''a'' GNil m = (m, CRet GNil (Some (PlainError ''subgraph not found'' [''x''])))"
  using CreateSubgraph_Execute [of "\<lparr>sgc_Name = ''s'', sgc_Graph = Some fan_in\<rparr>" "NewSubgraphManager (NewEngine fan_in [] :: unit Engine)"]
  by (force simp: NewSubgraphManager_def GetSubgraph_def)

text \<open>Calls that run at the same time: their pushes and pops in the order they happen.\<close>

datatype ns_op = Enter string | Leave

fun ns_do :: "ns_op \<Rightarrow> 's SubgraphManager \<Rightarrow> 's SubgraphManager" where
  "ns_do (Enter ns) m = PushNamespace ns m"
| "ns_do Leave m = PopNamespace m"

text \<open>Every call pops after it has pushed: at no time have more calls left than entered.\<close>

fun open_calls :: "nat \<Rightarrow> ns_op list \<Rightarrow> nat option" where
  "open_calls n [] = Some n"
| "open_calls n (Enter ns # ops) = open_calls (Suc n) ops"
| "open_calls 0 (Leave # ops) = None"
| "open_calls (Suc n) (Leave # ops) = open_calls n ops"

lemma ns_do_open:
  "open_calls (length xs) ops = Some k \<Longrightarrow> namespaceStack m = base @ xs \<Longrightarrow>
     \<exists>ys. fold ns_do ops m = m\<lparr>namespaceStack := base @ ys\<rparr> \<and> length ys = k"
proof (induction "length xs" ops arbitrary: xs m rule: open_calls.induct)
  case 1
  then show ?case
    by (intro exI [of _ xs]) (simp add: 1(2) [symmetric])
next
  case (2 ns ops)
  from "2.hyps"(1) [of "xs @ [ns]" "PushNamespace ns m"] "2.prems" show ?case
    by (simp add: PushNamespace_def)
next
  case (4 n ops)
  then obtain x zs where xs: "xs = zs @ [x]"
    by (metis length_0_conv nat.distinct(1) rev_exhaust)
  with 4 have "PopNamespace m = m\<lparr>namespaceStack := base @ zs\<rparr>"
    by (simp add: PopNamespace_def butlast_append)
  with "4.hyps"(1) [of zs "PopNamespace m"] "4.hyps"(2) "4.prems"(1) xs show ?case
    by simp
qed simp

text \<open>However the calls of a manager interleave, its stack always has one entry per open call above those it had before,
  and is as before once they have all returned.\<close>

theorem namespaces_balanced:
  assumes "open_calls 0 ops = Some k"
  shows "\<exists>ys. fold ns_do ops m = m\<lparr>namespaceStack := namespaceStack m @ ys\<rparr> \<and> length ys = k \<and> (k = 0 \<longrightarrow> fold ns_do ops m = m)"
proof -
  obtain ys where "fold ns_do ops m = m\<lparr>namespaceStack := namespaceStack m @ ys\<rparr>" "length ys = k"
    using ns_do_open [of "[]" ops k m "namespaceStack m"] assms by auto
  then show ?thesis
    by (intro exI [of _ ys]) auto
qed

theorem namespaces_balanced_witness:
  "open_calls 0 [Enter ''a'', Enter ''b'', Leave, Leave] = Some 0 \<and>
   fold ns_do [Enter ''a'', Enter ''b'', Leave, Leave] (NewSubgraphManager (NewEngine fan_in [] :: unit Engine)) =
     NewSubgraphManager (NewEngine fan_in [])"
  using namespaces_balanced [of "[Enter ''a'', Enter ''b'', Leave, Leave]" 0 "NewSubgraphManager (NewEngine fan_in [] :: unit Engine)"]
  by simp

text \<open>When two calls overlap and one of them returns, the current namespace is that of the call that entered first, whichever
  of them is still open: a pop does not know whose entry it removes.\<close>

theorem overlapping_calls_share_stack: "CurrentNamespace (fold ns_do [Enter a, Enter b, Leave] m) = a"
proof -
  have "fold ns_do [Enter a, Enter b, Leave] m = PushNamespace a m"
    by simp
  then show ?thesis
    by (simp add: PushNamespace_def CurrentNamespace_def)
qed

text \<open>The path of a stack of names without the separator is read back as that stack; the namespace recorded for a
  checkpoint moved from the top level has an empty first level instead.\<close>

theorem namespace_path_roundtrip:
  assumes "\<forall>n \<in> set (namespaceStack m). CHR ''|'' \<notin> set n" and "CHR ''|'' \<notin> set name"
  shows "(namespaceStack m \<noteq> [] \<longrightarrow> split_on (CHR ''|'') (BuildNamespacePath m) = namespaceStack m) \<and>
    (\<exists>ns. map_of (checkpointNS (fst (MigrateToSubgraph uid thread cp name m))) thread = Some ns \<and>
       split_on (CHR ''|'') ns = (if namespaceStack m = [] then [[]] else namespaceStack m) @ [name]) \<and>
    map_of (checkpointNS (MigrateFromSubgraph thread cp' (fst (MigrateToSubgraph uid thread cp name m)))) thread = None"
proof -
  let ?ws = "(if namespaceStack m = [] then [[]] else namespaceStack m) @ [name]"
  have "join_with ''|'' (ws @ [w]) = join_with ''|'' ws @ ''|'' @ w" if "ws \<noteq> []" for ws w
    using that by (induction ws rule: induct_list012) auto
  from this [of "if namespaceStack m = [] then [[]] else namespaceStack m" name]
  have "BuildNamespacePath m @ NSSep @ name = join_with ''|'' ?ws"
    by (auto simp: BuildNamespacePath_def NSSep_def)
  moreover have "split_on (CHR ''|'') (join_with ''|'' ?ws) = ?ws"
    using assms by (intro split_join) auto
  moreover have "split_on (CHR ''|'') (BuildNamespacePath m) = namespaceStack m" if "namespaceStack m \<noteq> []"
    using split_join [OF that, of "CHR ''|''"] assms(1) that by (simp add: BuildNamespacePath_def NSSep_def)
  ultimately show ?thesis
    by (simp add: MigrateToSubgraph_def MigrateFromSubgraph_def Let_def gomap_simps)
qed

theorem namespace_path_roundtrip_witness:
  "\<exists>ns. map_of (checkpointNS (fst (MigrateToSubgraph ''u'' ''t'' ''c'' ''s'' (NewSubgraphManager (NewEngine fan_in [] :: unit Engine))))) ''t'' = Some ns \<and>
     split_on (CHR ''|'') ns = [[], ''s'']"
  using namespace_path_roundtrip [of "NewSubgraphManager (NewEngine fan_in [] :: unit Engine)" "''s''" "''u''" "''t''" "''c''" "''c''"]
  by (simp add: NewSubgraphManager_def)

section \<open>Isolation\<close>

lemma trim_keys_lookup: "gm_ok vals \<Longrightarrow> map_of (trim_keys p vals) k = map_of vals (p @ k)"
proof -
  have "map_of (fold (\<lambda>(k, v) m. if take (length p) k = p then gm_set (drop (length p) k) v m else m) vals acc) k =
      (case map_of vals (p @ k) of None \<Rightarrow> map_of acc k | Some v \<Rightarrow> Some v)" if "gm_ok vals" for acc
    using that
  proof (induction vals arbitrary: acc)
    case (Cons kv vals)
    obtain j v where kv: "kv = (j, v)" by force
    have fresh: "map_of vals j = None" and "gm_ok vals"
      using Cons.prems by (simp_all add: kv map_of_eq_None_iff)
    moreover have "take (length p) j = p \<longleftrightarrow> j = p @ drop (length p) j"
      by (metis append_eq_conv_conj append_take_drop_id)
    moreover have "take (length p) j = p \<Longrightarrow> drop (length p) j = k \<longleftrightarrow> p @ k = j"
      by (metis append_eq_conv_conj append_take_drop_id)
    ultimately show ?case
      using Cons.IH by (auto simp: kv gomap_simps split: option.split)
  qed simp
  then show "gm_ok vals \<Longrightarrow> map_of (trim_keys p vals) k = map_of vals (p @ k)"
    by (simp add: trim_keys_def split: option.split)
qed

lemma values_loop_gm_ok: "gm_ok vals \<Longrightarrow> snd (values_loop chans rest vals) = Inr vals' \<Longrightarrow> gm_ok vals'"
proof (induction rest arbitrary: chans vals)
  case (Cons p rest)
  obtain name c where p: "p = (name, c)" by force
  show ?case
    using Cons.prems Cons.IH [of vals] Cons.IH [OF gm_ok_set [OF Cons.prems(1)]]
    by (auto simp: p Let_def split_beta split: sum.splits if_splits)
qed simp

text \<open>The channels of a namespace seen by its registry.\<close>

lemma NIR_GetValues_spec:
  assumes "reg_ok base"
  shows "\<exists>base' vals. NIR_GetValues r base = (base', Inr vals) \<and>
    (\<forall>k. map_of vals k = Option.bind (NIR_Get r base k) ch_value) \<and>
    (\<forall>k. Registry_Get base' k = map_option (fst \<circ> ch_Get) (Registry_Get base k))"
proof -
  obtain base' vals where g: "GetValues base = (base', Inr vals)"
      "\<forall>k. map_of vals k = Option.bind (Registry_Get base k) ch_value"
      "\<forall>k. Registry_Get base' k = map_option (fst \<circ> ch_Get) (Registry_Get base k)"
    using GetValues_spec [OF assms] by blast
  have "gm_ok vals"
    using g(1) values_loop_gm_ok [of "[]" "reg_channels base" "reg_channels base" vals]
    by (auto simp: GetValues_def split: prod.splits)
  with g show ?thesis
    by (simp add: NIR_GetValues_def trim_keys_lookup NIR_Get_def)
qed

text \<open>What the users of one shared table with named scopes rely on: a scope sees what is put into it and nothing of the
  others.\<close>

locale scoped_table =
  fixes good :: "'n \<Rightarrow> bool"
    and lookup :: "'n \<Rightarrow> 'r \<Rightarrow> 'k \<Rightarrow> 'c option"
    and put :: "'n \<Rightarrow> 'k \<Rightarrow> 'c \<Rightarrow> 'r \<Rightarrow> 'r"
  assumes lookup_same: "lookup n (put n k c r) j = (if j = k then Some c else lookup n r j)"
    and lookup_other: "good n \<Longrightarrow> good n' \<Longrightarrow> n \<noteq> n' \<Longrightarrow> lookup n (put n' k c r) j = lookup n r j"
begin

lemma lookup_puts:
  "good n \<Longrightarrow> \<forall>(n', k, c) \<in> set ps. good n' \<Longrightarrow>
     lookup n (fold (\<lambda>(n', k, c). put n' k c) ps r) j =
       (case map_of (rev (map snd (filter (\<lambda>p. fst p = n) ps))) j of None \<Rightarrow> lookup n r j | Some c \<Rightarrow> Some c)"
proof (induction ps arbitrary: r)
  case (Cons p ps)
  obtain n' k c where p: "p = (n', k, c)"
    by (cases p)
  have IH: "lookup n (fold (\<lambda>(n', k, c). put n' k c) ps (put n' k c r)) j =
      (case map_of (rev (map snd (filter (\<lambda>p. fst p = n) ps))) j of None \<Rightarrow> lookup n (put n' k c r) j | Some c \<Rightarrow> Some c)"
    using Cons by simp
  have "good n'"
    using Cons.prems(2) by (simp add: p)
  then have "lookup n (put n' k c r) j = (if n' = n \<and> j = k then Some c else lookup n r j)"
    using lookup_same [of n k c r j] lookup_other [OF Cons.prems(1), of n' k c r j] by (cases "n' = n") auto
  with IH show ?case
    by (auto simp: p map_add_def split: option.split)
qed simp

end

definition plain_namespace :: "string \<Rightarrow> bool" where
  "plain_namespace ns \<longleftrightarrow> ns \<noteq> [] \<and> CHR ''|'' \<notin> set ns"

lemma prefix_disjoint:
  assumes "plain_namespace a" and "plain_namespace b"
    and "nir_prefix (NewNamespaceIsolatedRegistry a) @ j = nir_prefix (NewNamespaceIsolatedRegistry b) @ k"
  shows "a = b"
proof -
  have "a @ CHR ''|'' # j = b @ CHR ''|'' # k"
    using assms by (simp add: plain_namespace_def NewNamespaceIsolatedRegistry_def NSSep_def)
  then have "split_on (CHR ''|'') (a @ CHR ''|'' # j) = split_on (CHR ''|'') (b @ CHR ''|'' # k)"
    by simp
  then show ?thesis
    using assms(1,2) by (simp add: plain_namespace_def split_on_append_sep)
qed

abbreviation ns_get :: "string \<Rightarrow> Registry \<Rightarrow> string \<Rightarrow> channel option" where
  "ns_get ns \<equiv> NIR_Get (NewNamespaceIsolatedRegistry ns)"

abbreviation ns_register :: "string \<Rightarrow> string \<Rightarrow> channel \<Rightarrow> Registry \<Rightarrow> Registry" where
  "ns_register ns name c base \<equiv> NIR_Register (NewNamespaceIsolatedRegistry ns) base name (Some c)"

interpretation ns_table: scoped_table plain_namespace ns_get ns_register
proof unfold_locales
  show "ns_get n (ns_register n k c r) j = (if j = k then Some c else ns_get n r j)" for n k c r j
    by (simp add: NIR_Get_def NIR_Register_def Registry_Get_def Register_def gomap_simps)
  show "ns_get n (ns_register n' k c r) j = ns_get n r j"
    if "plain_namespace n" "plain_namespace n'" "n \<noteq> n'" for n n' k c r j
    using prefix_disjoint [OF that(1,2), of j k] that(3)
    by (auto simp: NIR_Get_def NIR_Register_def Registry_Get_def Register_def gomap_simps)
qed

lemma ns_register_ok: "reg_ok base \<Longrightarrow> reg_ok (fold (\<lambda>(n, k, c). ns_register n k c) ps base)"
proof (induction ps arbitrary: base)
  case (Cons p ps)
  obtain n k c where "p = (n, k, c)"
    by (cases p)
  with Cons show ?case
    by (simp add: NIR_Register_def Register_def reg_ok_def)
qed simp

text \<open>C21: Registries for different plain namespaces, that is not empty and not nested, on one base do not see each other's channels: whatever is registered through
  them, each finds under a name the channel last registered in its own namespace, and its values are those of
  exactly these channels. Reading them reads every channel of the base, whatever its namespace.\<close>

theorem namespaces_isolated:
  assumes "plain_namespace ns" and "\<forall>(n, k, c) \<in> set regs. plain_namespace n"
    and "base = fold (\<lambda>(n, k, c). ns_register n k c) regs NewRegistry"
  shows "\<exists>base' vals. NIR_GetValues (NewNamespaceIsolatedRegistry ns) base = (base', Inr vals) \<and>
    (\<forall>k. ns_get ns base k = map_of (rev (map snd (filter (\<lambda>p. fst p = ns) regs))) k \<and>
       map_of vals k = Option.bind (ns_get ns base k) ch_value \<and>
       Registry_Get base' k = map_option (fst \<circ> ch_Get) (Registry_Get base k))"
proof -
  have "ns_get ns NewRegistry k = None" for k
    by (simp add: NIR_Get_def Registry_Get_def NewRegistry_def)
  then have "ns_get ns base k = map_of (rev (map snd (filter (\<lambda>p. fst p = ns) regs))) k" for k
    unfolding assms(3) using ns_table.lookup_puts [OF assms(1,2), of NewRegistry k] by (simp split: option.splits)
  moreover have "reg_ok base"
    unfolding assms(3) by (rule ns_register_ok) (simp add: reg_ok_def NewRegistry_def)
  ultimately show ?thesis
    using NIR_GetValues_spec [of base "NewNamespaceIsolatedRegistry ns"] by auto
qed

theorem namespaces_isolated_witness:
  "\<exists>base' vals. NIR_GetValues (NewNamespaceIsolatedRegistry ''a'')
       (ns_register ''b'' ''x'' (ChEphemeral ((NewEphemeralValue TNil True)\<lparr>ev_value := GBool True\<rparr>)) NewRegistry) = (base', Inr vals) \<and>
     map_of vals ''x'' = None \<and> ns_get ''b'' base' ''x'' = Some (ChEphemeral (NewEphemeralValue TNil True))"
proof -
  let ?c = "ChEphemeral ((NewEphemeralValue TNil True)\<lparr>ev_value := GBool True\<rparr>)"
  have "ns_get ''b'' base' ''x'' = Registry_Get base' ''b|x''" for base'
    by (simp add: NIR_Get_def NewNamespaceIsolatedRegistry_def NSSep_def)
  moreover have "Registry_Get (ns_register ''b'' ''x'' ?c NewRegistry) ''b|x'' = Some ?c"
    by (simp add: NIR_Register_def Registry_Get_def Register_def NewRegistry_def NewNamespaceIsolatedRegistry_def NSSep_def)
  ultimately show ?thesis
    using namespaces_isolated [of "''a''" "[(''b'', ''x'', ?c)]" "ns_register ''b'' ''x'' ?c NewRegistry"] by (force simp: plain_namespace_def chan_defs)
qed

text \<open>The empty namespace is no scope of its own: it sees every channel under its full name.\<close>

theorem empty_namespace_sees_all: "ns_get [] (ns_register ns name c base) (nir_prefix (NewNamespaceIsolatedRegistry ns) @ name) = Some c"
  by (simp add: NIR_Get_def NIR_Register_def Registry_Get_def Register_def gomap_simps NewNamespaceIsolatedRegistry_def)

end
