(* ===== verification/Events.thy ===== *)
theory Events
  imports GraphErrors
begin

text \<open>
  Event sourcing (\<^verbatim>\<open>internal/harness/events\<close>): events with a logical clock and a hash, filters, iterators, the store in memory with
  its subscribers, the clock and the recorder. Events are handed over by pointer: appending an event sets its
  clock and its hash, so an append also returns the events as it leaves them. Clocks are unsigned 64-bit words. The
  hash function and the JSON codec are arguments (\<open>codec\<close>); a decoder returns the struct as it is left and whether it
  succeeded, an encoder nothing where it fails, as the callers ignore the error.
\<close>

section \<open>Events\<close>

type_synonym u64 = "64 word"
type_synonym EventID = string

datatype EventType =
  EventGraphStart | EventGraphEnd | EventStepStart | EventStepEnd | EventNodeStart | EventNodeEnd
| EventStateRead | EventStateWrite
| EventToolCallStart | EventToolCallResult | EventToolCallError
| EventLLMCallStart | EventLLMCallChunk | EventLLMCallEnd
| EventMemoryRead | EventMemoryWrite
| EventApprovalRequest | EventApprovalGranted | EventApprovalDenied
| EventCheckpointCreated | EventCheckpointRestored
| EventInterrupt | EventResume | EventError | EventRetry | EventFork
| EventSubAgentCallStart | EventSubAgentCallEnd | EventSessionValueSet | EventSessionTransfer

record Event =
  ev_ID :: EventID
  ev_Type :: EventType
  ev_Timestamp :: int
  ev_Clock :: u64
  ev_TraceID :: string
  ev_ParentID :: EventID
  ev_CausedBy :: "EventID list"
  ev_ThreadID :: string
  ev_Step :: int
  ev_Node :: string
  ev_TaskID :: string
  ev_Payload :: "string option"
  ev_Metadata :: "gostate option"
  ev_Deterministic :: bool
  ev_Hash :: string

text \<open>The identifier is printed from the clock and the time; it is drawn outside.\<close>

definition NewEvent :: "EventID \<Rightarrow> int \<Rightarrow> EventType \<Rightarrow> u64 \<Rightarrow> Event" where
  "NewEvent uid now typ clock =
     \<lparr>ev_ID = uid, ev_Type = typ, ev_Timestamp = now, ev_Clock = clock, ev_TraceID = [], ev_ParentID = [], ev_CausedBy = [],
      ev_ThreadID = [], ev_Step = 0, ev_Node = [], ev_TaskID = [], ev_Payload = None, ev_Metadata = Some [],
      ev_Deterministic = False, ev_Hash = []\<rparr>"

section \<open>Payloads\<close>

record ToolCallPayload =
  tcp_ToolName :: string
  tcp_Arguments :: gostate
  tcp_Result :: goval
  tcp_DurationMs :: int
  tcp_Error :: string
  tcp_RetryCount :: int

record TokenUsage =
  tu_PromptTokens :: int
  tu_CompletionTokens :: int
  tu_TotalTokens :: int

record LLMCallPayload =
  lcp_Model :: string
  lcp_Provider :: string
  lcp_Messages :: "goval list"
  lcp_Tokens :: TokenUsage
  lcp_Content :: string
  lcp_Chunks :: int
  lcp_DurationMs :: int
  lcp_Cost :: f64

record StateTransitionPayload =
  stp_Channel :: string
  stp_OldValue :: goval
  stp_NewValue :: goval
  stp_Reducer :: string

record MemoryWritePayload =
  mwp_Store :: string
  mwp_Operation :: string
  mwp_Key :: string
  mwp_Value :: goval
  mwp_Score :: f64

record ApprovalPayload =
  ap_RequestID :: string
  ap_Action :: string
  ap_Context :: goval
  ap_Decision :: string
  ap_LatencyMs :: int

record SubAgentCallPayload =
  sap_SubAgentName :: string
  sap_Input :: goval
  sap_Output :: goval
  sap_Depth :: int
  sap_DurationMs :: int
  sap_Error :: string

record SessionValuePayload =
  svp_Key :: string
  svp_Value :: goval

record SessionTransferPayload =
  stf_FromAgent :: string
  stf_ToAgent :: string
  stf_Reason :: string
  stf_Input :: goval

datatype payload =
  PTool ToolCallPayload
| PLLM LLMCallPayload
| PState StateTransitionPayload
| PMemory MemoryWritePayload
| PApproval ApprovalPayload
| PSubAgent SubAgentCallPayload
| PSessionValue SessionValuePayload
| PTransfer SessionTransferPayload

record codec =
  cx_sha :: "string \<Rightarrow> string"
  cx_meta :: "gostate \<Rightarrow> string"
  cx_enc :: "payload \<Rightarrow> string option"
  cx_llm :: "string \<Rightarrow> LLMCallPayload \<times> bool"
  cx_tool :: "string \<Rightarrow> ToolCallPayload \<times> bool"
  cx_state :: "string \<Rightarrow> StateTransitionPayload \<times> bool"

definition computeHash :: "codec \<Rightarrow> Event \<Rightarrow> string" where
  "computeHash cx e =
     cx_sha cx ((case ev_Payload e of None \<Rightarrow> [] | Some p \<Rightarrow> p) @ (case ev_Metadata e of None \<Rightarrow> [] | Some m \<Rightarrow> cx_meta cx m))"

definition Seal :: "codec \<Rightarrow> Event \<Rightarrow> Event" where
  "Seal cx e = e\<lparr>ev_Hash := computeHash cx e\<rparr>"

section \<open>Filters and iterators\<close>

text \<open>A zero time bound is \<open>None\<close>.\<close>

record EventFilter =
  f_TraceID :: string
  f_ThreadID :: string
  f_Types :: "EventType list"
  f_Node :: string
  f_FromClock :: u64
  f_ToClock :: u64
  f_FromTime :: "int option"
  f_ToTime :: "int option"
  f_Limit :: int

definition trace_filter :: "string \<Rightarrow> u64 \<Rightarrow> u64 \<Rightarrow> EventFilter" where
  "trace_filter traceID from to =
     \<lparr>f_TraceID = traceID, f_ThreadID = [], f_Types = [], f_Node = [], f_FromClock = from, f_ToClock = to, f_FromTime = None,
      f_ToTime = None, f_Limit = 0\<rparr>"

definition Matches :: "EventFilter \<Rightarrow> Event \<Rightarrow> bool" where
  "Matches f e =
     (if f_TraceID f \<noteq> [] \<and> ev_TraceID e \<noteq> f_TraceID f then False
      else if f_ThreadID f \<noteq> [] \<and> ev_ThreadID e \<noteq> f_ThreadID f then False
      else if length (f_Types f) > 0 \<and> ev_Type e \<notin> set (f_Types f) then False
      else if f_Node f \<noteq> [] \<and> ev_Node e \<noteq> f_Node f then False
      else if f_FromClock f > 0 \<and> ev_Clock e < f_FromClock f then False
      else if f_ToClock f > 0 \<and> ev_Clock e > f_ToClock f then False
      else if (case f_FromTime f of None \<Rightarrow> False | Some t \<Rightarrow> ev_Timestamp e < t) then False
      else if (case f_ToTime f of None \<Rightarrow> False | Some t \<Rightarrow> ev_Timestamp e > t) then False
      else True)"

record sliceIterator =
  it_events :: "Event list"
  it_pos :: nat

definition Iter_Next :: "sliceIterator \<Rightarrow> sliceIterator \<times> Event option" where
  "Iter_Next it =
     (if it_pos it \<ge> length (it_events it) then (it, None)
      else (it\<lparr>it_pos := it_pos it + 1\<rparr>, Some (it_events it ! it_pos it)))"

definition Iter_Close :: "sliceIterator \<Rightarrow> sliceIterator" where
  "Iter_Close it = it\<lparr>it_events := []\<rparr>"

text \<open>The loop with which an iterator is read to its end.\<close>

function read_loop :: "sliceIterator \<Rightarrow> Event list" where
  "read_loop it = (case Iter_Next it of (it', None) \<Rightarrow> [] | (it', Some ev) \<Rightarrow> ev # read_loop it')"
  by pat_completeness auto
termination
  by (relation "measure (\<lambda>it. length (it_events it) - it_pos it)") (auto simp: Iter_Next_def split: if_splits)

declare read_loop.simps [simp del]

lemma read_loop_all: "read_loop it = drop (it_pos it) (it_events it)"
proof (induction it rule: read_loop.induct)
  case (1 it)
  show ?case
  proof (cases "it_pos it \<ge> length (it_events it)")
    case True
    then show ?thesis
      by (subst read_loop.simps) (simp add: Iter_Next_def)
  next
    case False
    then have n: "Iter_Next it = (it\<lparr>it_pos := it_pos it + 1\<rparr>, Some (it_events it ! it_pos it))"
      by (simp add: Iter_Next_def)
    have "read_loop (it\<lparr>it_pos := it_pos it + 1\<rparr>) = drop (it_pos it + 1) (it_events it)"
      using 1 [OF n [symmetric] refl] by simp
    with False show ?thesis
      by (subst read_loop.simps) (simp add: n Cons_nth_drop_Suc)
  qed
qed

section \<open>The store in memory\<close>

text \<open>A subscriber's channel holds at most 256 events; the filter given to \<^verbatim>\<open>Subscribe\<close> is not used.\<close>

record MemoryEventStore =
  ms_events :: "Event list"
  ms_byID :: "Event gomap"
  ms_clock :: u64
  ms_subs :: "(int \<times> Event list) list"
  ms_subID :: int

definition NewMemoryEventStore :: MemoryEventStore where
  "NewMemoryEventStore = \<lparr>ms_events = [], ms_byID = [], ms_clock = 0, ms_subs = [], ms_subID = 0\<rparr>"

definition sub_send :: "Event \<Rightarrow> Event list \<Rightarrow> Event list" where
  "sub_send ev ch = (if length ch < 256 then ch @ [ev] else ch)"

definition MS_append_one :: "codec \<Rightarrow> Event \<Rightarrow> MemoryEventStore \<Rightarrow> MemoryEventStore \<times> Event" where
  "MS_append_one cx ev s =
     (let (s1, ev1) = (if ev_Clock ev = 0 then (s\<lparr>ms_clock := ms_clock s + 1\<rparr>, ev\<lparr>ev_Clock := ms_clock s + 1\<rparr>) else (s, ev));
          ev2 = Seal cx ev1
      in (s1\<lparr>ms_events := ms_events s1 @ [ev2], ms_byID := gm_set (ev_ID ev2) ev2 (ms_byID s1),
             ms_subs := map (\<lambda>(i, ch). (i, sub_send ev2 ch)) (ms_subs s1)\<rparr>, ev2))"

fun MS_Append :: "codec \<Rightarrow> Event list \<Rightarrow> MemoryEventStore \<Rightarrow> MemoryEventStore \<times> Event list" where
  "MS_Append cx [] s = (s, [])"
| "MS_Append cx (ev # evs) s =
     (let (s1, ev1) = MS_append_one cx ev s; (s2, evs1) = MS_Append cx evs s1 in (s2, ev1 # evs1))"

definition MS_Stream :: "EventFilter \<Rightarrow> MemoryEventStore \<Rightarrow> sliceIterator" where
  "MS_Stream f s = \<lparr>it_events = filter (Matches f) (ms_events s), it_pos = 0\<rparr>"

definition MS_Get :: "EventID \<Rightarrow> MemoryEventStore \<Rightarrow> Event option" where
  "MS_Get evid s = map_of (ms_byID s) evid"

definition MS_Range :: "u64 \<Rightarrow> u64 \<Rightarrow> EventFilter \<Rightarrow> MemoryEventStore \<Rightarrow> Event list" where
  "MS_Range from to f s =
     filter (\<lambda>ev. \<not> ev_Clock ev < from \<and> \<not> (to > 0 \<and> ev_Clock ev > to) \<and> Matches f ev) (ms_events s)"

text \<open>From the first event that is not before the clock.\<close>

definition MS_Seek :: "u64 \<Rightarrow> MemoryEventStore \<Rightarrow> sliceIterator" where
  "MS_Seek clock s = \<lparr>it_events = dropWhile (\<lambda>ev. \<not> ev_Clock ev \<ge> clock) (ms_events s), it_pos = 0\<rparr>"

definition MS_Length :: "MemoryEventStore \<Rightarrow> u64" where
  "MS_Length s = of_nat (length (ms_events s))"

record Snapshot =
  sn_ID :: string
  sn_TraceID :: string
  sn_Clock :: u64
  sn_CreatedAt :: int
  sn_Data :: string

text \<open>The identifier is printed from the trace and the clock (\<open>snap_id\<close>), the data by the encoder of all events.\<close>

definition MS_CreateSnapshot ::
  "(Event list \<Rightarrow> string option) \<Rightarrow> (string \<Rightarrow> u64 \<Rightarrow> string) \<Rightarrow> int \<Rightarrow> string \<Rightarrow> MemoryEventStore \<Rightarrow> gerror + Snapshot" where
  "MS_CreateSnapshot enc snap_id now traceID s =
     (case enc (ms_events s) of
        None \<Rightarrow> Inl (PlainError ''marshal snapshot'' [])
      | Some d \<Rightarrow> Inr \<lparr>sn_ID = snap_id traceID (ms_clock s), sn_TraceID = traceID, sn_Clock = ms_clock s, sn_CreatedAt = now, sn_Data = d\<rparr>)"

definition MS_RestoreSnapshot :: "string \<Rightarrow> MemoryEventStore \<Rightarrow> sliceIterator" where
  "MS_RestoreSnapshot snapshotID s = MS_Seek 0 s"

definition MS_Subscribe :: "EventFilter \<Rightarrow> MemoryEventStore \<Rightarrow> MemoryEventStore \<times> int" where
  "MS_Subscribe f s =
     (let n = ms_subID s + 1 in (s\<lparr>ms_subID := n, ms_subs := AList.update n [] (ms_subs s)\<rparr>, n))"

text \<open>The goroutine of a subscription, when its context ends.\<close>

definition MS_Unsubscribe :: "int \<Rightarrow> MemoryEventStore \<Rightarrow> MemoryEventStore" where
  "MS_Unsubscribe n s = s\<lparr>ms_subs := AList.delete n (ms_subs s)\<rparr>"

definition MS_GC :: "int \<Rightarrow> int \<Rightarrow> MemoryEventStore \<Rightarrow> MemoryEventStore" where
  "MS_GC now retention s =
     (let cutoff = now - retention
      in s\<lparr>ms_events := filter (\<lambda>ev. ev_Timestamp ev > cutoff) (ms_events s),
           ms_byID := fold (\<lambda>ev m. if ev_Timestamp ev > cutoff then m else gm_delete (ev_ID ev) m) (ms_events s) (ms_byID s)\<rparr>)"

section \<open>The interface of an event log\<close>

text \<open>The methods of \<^verbatim>\<open>EventLog\<close> that its clients call; an iterator is given by the events it returns.\<close>

record 'l EventLog =
  el_Append :: "Event list \<Rightarrow> 'l \<Rightarrow> (gerror, 'l, Event list) outcome"
  el_Stream :: "EventFilter \<Rightarrow> 'l \<Rightarrow> Event list"
  el_Get :: "EventID \<Rightarrow> 'l \<Rightarrow> Event option"

definition memory_log :: "codec \<Rightarrow> MemoryEventStore EventLog" where
  "memory_log cx =
     \<lparr>el_Append = (\<lambda>evs s. let (s', evs') = MS_Append cx evs s in (s', Inr evs')),
      el_Stream = (\<lambda>f s. read_loop (MS_Stream f s)), el_Get = MS_Get\<rparr>"

section \<open>The logical clock and the recorder\<close>

record LogicalClock =
  lc_value :: u64

definition NewLogicalClock :: LogicalClock where
  "NewLogicalClock = \<lparr>lc_value = 0\<rparr>"

definition Tick :: "LogicalClock \<Rightarrow> LogicalClock \<times> u64" where
  "Tick c = (c\<lparr>lc_value := lc_value c + 1\<rparr>, lc_value c + 1)"

definition Clock_Now :: "LogicalClock \<Rightarrow> u64" where
  "Clock_Now c = lc_value c"

definition Clock_Reset :: "LogicalClock \<Rightarrow> LogicalClock" where
  "Clock_Reset c = c\<lparr>lc_value := 0\<rparr>"

record 'l EventRecorder =
  er_store :: 'l
  er_clock :: LogicalClock
  er_traceID :: string
  er_threadID :: string

record recorderOptions =
  ro_traceID :: string
  ro_threadID :: string

definition WithTraceID :: "string \<Rightarrow> recorderOptions \<Rightarrow> recorderOptions" where
  "WithTraceID t ro = ro\<lparr>ro_traceID := t\<rparr>"

definition WithThreadID :: "string \<Rightarrow> recorderOptions \<Rightarrow> recorderOptions" where
  "WithThreadID t ro = ro\<lparr>ro_threadID := t\<rparr>"

definition NewEventRecorder :: "'l \<Rightarrow> (recorderOptions \<Rightarrow> recorderOptions) list \<Rightarrow> 'l EventRecorder" where
  "NewEventRecorder store opts =
     (let ro = fold (\<lambda>f r. f r) opts \<lparr>ro_traceID = [], ro_threadID = []\<rparr>
      in \<lparr>er_store = store, er_clock = NewLogicalClock, er_traceID = ro_traceID ro, er_threadID = ro_threadID ro\<rparr>)"

text \<open>The identifier and the time of each event (\<open>uid\<close>, \<open>now\<close>) are functions of its clock. The error of the append is ignored.
  The tick of the clock and the append are one step, so the events of one goroutine are in order; calls of several goroutines at once,
  whose appends may come in another order than their ticks, are not covered.\<close>

record 'l rec_env =
  re_cx :: codec
  re_log :: "'l EventLog"
  re_uid :: "u64 \<Rightarrow> EventID"
  re_now :: "u64 \<Rightarrow> int"

definition record_event :: "'l rec_env \<Rightarrow> EventType \<Rightarrow> (Event \<Rightarrow> Event) \<Rightarrow> 'l EventRecorder \<Rightarrow> 'l EventRecorder" where
  "record_event env typ fn r =
     (let (c, t) = Tick (er_clock r);
          ev = Seal (re_cx env) (fn ((NewEvent (re_uid env t) (re_now env t) typ t)\<lparr>ev_TraceID := er_traceID r, ev_ThreadID := er_threadID r\<rparr>))
      in r\<lparr>er_clock := c, er_store := fst (el_Append (re_log env) [ev] (er_store r))\<rparr>)"

definition with_payload :: "codec \<Rightarrow> payload \<Rightarrow> Event \<Rightarrow> Event" where
  "with_payload cx p ev = ev\<lparr>ev_Payload := cx_enc cx p\<rparr>"

definition with_meta :: "string \<Rightarrow> goval \<Rightarrow> Event \<Rightarrow> Event" where
  "with_meta k v ev = ev\<lparr>ev_Metadata := map_option (gm_set k v) (ev_Metadata ev)\<rparr>"

subsection \<open>What is recorded\<close>

definition RecordModelCall ::
  "'l rec_env \<Rightarrow> string \<Rightarrow> string \<Rightarrow> goval list \<Rightarrow> string \<Rightarrow> TokenUsage \<Rightarrow> int \<Rightarrow> f64 \<Rightarrow> 'l EventRecorder \<Rightarrow> 'l EventRecorder" where
  "RecordModelCall env model provider messages content tokens durationMs cost r =
     record_event env EventLLMCallEnd
       (\<lambda>ev. with_payload (re_cx env)
          (PLLM \<lparr>lcp_Model = model, lcp_Provider = provider, lcp_Messages = messages, lcp_Tokens = tokens, lcp_Content = content,
                 lcp_Chunks = 0, lcp_DurationMs = durationMs, lcp_Cost = cost\<rparr>) (ev\<lparr>ev_Deterministic := False\<rparr>))
       (record_event env EventLLMCallStart
          (\<lambda>ev. with_meta ''provider'' (GStr provider) (with_meta ''model'' (GStr model) (ev\<lparr>ev_Deterministic := False\<rparr>))) r)"

definition RecordLLMChunk :: "'l rec_env \<Rightarrow> string \<Rightarrow> string \<Rightarrow> 'l EventRecorder \<Rightarrow> 'l EventRecorder" where
  "RecordLLMChunk env model chunk =
     record_event env EventLLMCallChunk
       (\<lambda>ev. with_meta ''chunk'' (GStr chunk) (with_meta ''model'' (GStr model) (ev\<lparr>ev_Deterministic := False\<rparr>)))"

definition RecordToolCall ::
  "'l rec_env \<Rightarrow> string \<Rightarrow> gostate \<Rightarrow> goval \<Rightarrow> int \<Rightarrow> int \<Rightarrow> string \<Rightarrow> 'l EventRecorder \<Rightarrow> 'l EventRecorder" where
  "RecordToolCall env toolName arguments result durationMs retryCount errStr r =
     record_event env EventToolCallResult
       (\<lambda>ev. let ev1 = with_payload (re_cx env)
                (PTool \<lparr>tcp_ToolName = toolName, tcp_Arguments = arguments, tcp_Result = result, tcp_DurationMs = durationMs,
                        tcp_Error = errStr, tcp_RetryCount = retryCount\<rparr>) ev
             in if errStr \<noteq> [] then ev1\<lparr>ev_Deterministic := False\<rparr> else ev1)
       (record_event env EventToolCallStart (with_meta ''tool'' (GStr toolName)) r)"

definition RecordSubAgentCall ::
  "'l rec_env \<Rightarrow> string \<Rightarrow> goval \<Rightarrow> goval \<Rightarrow> int \<Rightarrow> int \<Rightarrow> string \<Rightarrow> 'l EventRecorder \<Rightarrow> 'l EventRecorder" where
  "RecordSubAgentCall env subAgentName inp outp depth durationMs errStr r =
     record_event env EventSubAgentCallEnd
       (\<lambda>ev. let ev1 = with_payload (re_cx env)
                (PSubAgent \<lparr>sap_SubAgentName = subAgentName, sap_Input = GNil, sap_Output = outp, sap_Depth = depth,
                            sap_DurationMs = durationMs, sap_Error = errStr\<rparr>) ev
             in if errStr \<noteq> [] then ev1\<lparr>ev_Deterministic := False\<rparr> else ev1)
       (record_event env EventSubAgentCallStart
          (with_payload (re_cx env)
             (PSubAgent \<lparr>sap_SubAgentName = subAgentName, sap_Input = inp, sap_Output = GNil, sap_Depth = depth,
                         sap_DurationMs = 0, sap_Error = []\<rparr>)) r)"

definition RecordSessionValue :: "'l rec_env \<Rightarrow> string \<Rightarrow> goval \<Rightarrow> 'l EventRecorder \<Rightarrow> 'l EventRecorder" where
  "RecordSessionValue env key v =
     record_event env EventSessionValueSet (with_payload (re_cx env) (PSessionValue \<lparr>svp_Key = key, svp_Value = v\<rparr>))"

definition RecordSessionTransfer ::
  "'l rec_env \<Rightarrow> string \<Rightarrow> string \<Rightarrow> string \<Rightarrow> goval \<Rightarrow> 'l EventRecorder \<Rightarrow> 'l EventRecorder" where
  "RecordSessionTransfer env fromAgent toAgent reason inp =
     record_event env EventSessionTransfer
       (with_payload (re_cx env)
          (PTransfer \<lparr>stf_FromAgent = fromAgent, stf_ToAgent = toAgent, stf_Reason = reason, stf_Input = inp\<rparr>))"

definition RecordStateWrite ::
  "'l rec_env \<Rightarrow> string \<Rightarrow> goval \<Rightarrow> goval \<Rightarrow> string \<Rightarrow> 'l EventRecorder \<Rightarrow> 'l EventRecorder" where
  "RecordStateWrite env channel oldValue newValue reducer =
     record_event env EventStateWrite
       (with_payload (re_cx env)
          (PState \<lparr>stp_Channel = channel, stp_OldValue = oldValue, stp_NewValue = newValue, stp_Reducer = reducer\<rparr>))"

definition RecordMemoryWrite ::
  "'l rec_env \<Rightarrow> string \<Rightarrow> string \<Rightarrow> string \<Rightarrow> goval \<Rightarrow> f64 \<Rightarrow> 'l EventRecorder \<Rightarrow> 'l EventRecorder" where
  "RecordMemoryWrite env store operation key v score =
     record_event env EventMemoryWrite
       (with_payload (re_cx env)
          (PMemory \<lparr>mwp_Store = store, mwp_Operation = operation, mwp_Key = key, mwp_Value = v, mwp_Score = score\<rparr>))"

definition RecordMemoryRead :: "'l rec_env \<Rightarrow> string \<Rightarrow> string \<Rightarrow> f64 \<Rightarrow> 'l EventRecorder \<Rightarrow> 'l EventRecorder" where
  "RecordMemoryRead env store key score =
     record_event env EventMemoryRead
       (with_payload (re_cx env)
          (PMemory \<lparr>mwp_Store = store, mwp_Operation = [], mwp_Key = key, mwp_Value = GNil, mwp_Score = score\<rparr>))"

definition RecordApproval ::
  "'l rec_env \<Rightarrow> string \<Rightarrow> string \<Rightarrow> goval \<Rightarrow> string \<Rightarrow> int \<Rightarrow> 'l EventRecorder \<Rightarrow> 'l EventRecorder" where
  "RecordApproval env requestID action ctxt decision latencyMs =
     record_event env EventApprovalRequest
       (with_payload (re_cx env)
          (PApproval \<lparr>ap_RequestID = requestID, ap_Action = action, ap_Context = ctxt, ap_Decision = decision, ap_LatencyMs = latencyMs\<rparr>))"

definition RecordError :: "'l rec_env \<Rightarrow> string \<Rightarrow> 'l EventRecorder \<Rightarrow> 'l EventRecorder" where
  "RecordError env errMsg = record_event env EventError (with_meta ''error'' (GStr errMsg))"

definition RecordRetry :: "'l rec_env \<Rightarrow> string \<Rightarrow> 'l EventRecorder \<Rightarrow> 'l EventRecorder" where
  "RecordRetry env detail = record_event env EventRetry (with_meta ''detail'' (GStr detail))"

subsection \<open>The callbacks of a run\<close>

text \<open>An error is given by its text.\<close>

definition with_error :: "string option \<Rightarrow> Event \<Rightarrow> Event" where
  "with_error err ev = (case err of None \<Rightarrow> ev | Some m \<Rightarrow> with_meta ''error'' (GStr m) ev)"

definition Rec_OnRunStart :: "'l rec_env \<Rightarrow> string \<Rightarrow> string \<Rightarrow> 'l EventRecorder \<Rightarrow> 'l EventRecorder" where
  "Rec_OnRunStart env graphName threadID = record_event env EventGraphStart (with_meta ''graph_name'' (GStr graphName))"

definition Rec_OnRunEnd :: "'l rec_env \<Rightarrow> string \<Rightarrow> string \<Rightarrow> string option \<Rightarrow> 'l EventRecorder \<Rightarrow> 'l EventRecorder" where
  "Rec_OnRunEnd env graphName threadID err =
     record_event env EventGraphEnd (\<lambda>ev. with_error err (with_meta ''graph_name'' (GStr graphName) ev))"

definition Rec_OnStepStart :: "'l rec_env \<Rightarrow> int \<Rightarrow> int \<Rightarrow> 'l EventRecorder \<Rightarrow> 'l EventRecorder" where
  "Rec_OnStepStart env step taskCount =
     record_event env EventStepStart (\<lambda>ev. with_meta ''task_count'' (GInt (word_of_int taskCount)) (ev\<lparr>ev_Step := step\<rparr>))"

definition Rec_OnStepEnd :: "'l rec_env \<Rightarrow> int \<Rightarrow> string option \<Rightarrow> 'l EventRecorder \<Rightarrow> 'l EventRecorder" where
  "Rec_OnStepEnd env step err = record_event env EventStepEnd (\<lambda>ev. with_error err (ev\<lparr>ev_Step := step\<rparr>))"

definition Rec_OnNodeStart :: "'l rec_env \<Rightarrow> string \<Rightarrow> int \<Rightarrow> 'l EventRecorder \<Rightarrow> 'l EventRecorder" where
  "Rec_OnNodeStart env nodeName step = record_event env EventNodeStart (\<lambda>ev. ev\<lparr>ev_Node := nodeName, ev_Step := step\<rparr>)"

definition Rec_OnNodeEnd :: "'l rec_env \<Rightarrow> string \<Rightarrow> int \<Rightarrow> goval \<Rightarrow> string option \<Rightarrow> 'l EventRecorder \<Rightarrow> 'l EventRecorder" where
  "Rec_OnNodeEnd env nodeName step outp err =
     record_event env EventNodeEnd (\<lambda>ev. with_error err (ev\<lparr>ev_Node := nodeName, ev_Step := step\<rparr>))"

definition Rec_OnCheckpointSave :: "'l rec_env \<Rightarrow> string \<Rightarrow> string \<Rightarrow> int \<Rightarrow> 'l EventRecorder \<Rightarrow> 'l EventRecorder" where
  "Rec_OnCheckpointSave env threadID checkpointID step =
     record_event env EventCheckpointCreated
       (\<lambda>ev. with_meta ''checkpoint_id'' (GStr checkpointID) (ev\<lparr>ev_ThreadID := threadID, ev_Step := step\<rparr>))"

definition Rec_OnCheckpointLoad :: "'l rec_env \<Rightarrow> string \<Rightarrow> string \<Rightarrow> int \<Rightarrow> 'l EventRecorder \<Rightarrow> 'l EventRecorder" where
  "Rec_OnCheckpointLoad env threadID checkpointID step =
     record_event env EventCheckpointRestored
       (\<lambda>ev. with_meta ''checkpoint_id'' (GStr checkpointID) (ev\<lparr>ev_ThreadID := threadID, ev_Step := step\<rparr>))"

definition Rec_OnCheckpointUpdate :: "'l rec_env \<Rightarrow> string \<Rightarrow> string \<Rightarrow> 'l EventRecorder \<Rightarrow> 'l EventRecorder" where
  "Rec_OnCheckpointUpdate env threadID asNode =
     record_event env EventStateWrite (\<lambda>ev. ev\<lparr>ev_ThreadID := threadID, ev_Node := asNode\<rparr>)"

definition Rec_OnInterrupt :: "'l rec_env \<Rightarrow> string list \<Rightarrow> int \<Rightarrow> 'l EventRecorder \<Rightarrow> 'l EventRecorder" where
  "Rec_OnInterrupt env nodeNames step =
     record_event env EventInterrupt
       (\<lambda>ev. with_meta ''interrupt_nodes'' (GSlice ''string'' (map GStr nodeNames)) (ev\<lparr>ev_Step := step\<rparr>))"

definition Rec_OnResume :: "'l rec_env \<Rightarrow> string \<Rightarrow> 'l EventRecorder \<Rightarrow> 'l EventRecorder" where
  "Rec_OnResume env threadID = record_event env EventResume (\<lambda>ev. ev\<lparr>ev_ThreadID := threadID\<rparr>)"

lemmas recorder_defs = RecordModelCall_def RecordLLMChunk_def RecordToolCall_def RecordSubAgentCall_def RecordSessionValue_def
  RecordSessionTransfer_def RecordStateWrite_def RecordMemoryWrite_def RecordMemoryRead_def RecordApproval_def RecordError_def
  RecordRetry_def Rec_OnRunStart_def Rec_OnRunEnd_def Rec_OnStepStart_def Rec_OnStepEnd_def Rec_OnNodeStart_def
  Rec_OnNodeEnd_def Rec_OnCheckpointSave_def Rec_OnCheckpointLoad_def Rec_OnCheckpointUpdate_def Rec_OnInterrupt_def
  Rec_OnResume_def

end
