(* ===== verification/EventLaws.thy ===== *)
theory EventLaws
  imports Events
begin

text \<open>
  Laws of event logs: what a client may rely on (the locale \<open>event_log\<close>), its interpretation by the store in memory, the
  trace that a recorder leaves in any such log, the ordered reading of a log, and garbage collection.
\<close>

section \<open>The calls of a recorder\<close>

datatype rec_op =
  ModelCallOp string string "goval list" string TokenUsage int f64
| LLMChunkOp string string
| ToolCallOp string gostate goval int int string
| SubAgentOp string goval goval int int string
| SessionValueOp string goval
| TransferOp string string string goval
| StateWriteOp string goval goval string
| MemoryWriteOp string string string goval f64
| MemoryReadOp string string f64
| ApprovalOp string string goval string int
| ErrorOp string
| RetryOp string
| RunStartOp string string
| RunEndOp string string "string option"
| StepStartOp int int
| StepEndOp int "string option"
| NodeStartOp string int
| NodeEndOp string int goval "string option"
| CheckpointSaveOp string string int
| CheckpointLoadOp string string int
| CheckpointUpdateOp string string
| InterruptOp "string list" int
| ResumeOp string

fun rec_do :: "'l rec_env \<Rightarrow> rec_op \<Rightarrow> 'l EventRecorder \<Rightarrow> 'l EventRecorder" where
  "rec_do env (ModelCallOp m p ms c tk d k) = RecordModelCall env m p ms c tk d k"
| "rec_do env (LLMChunkOp m c) = RecordLLMChunk env m c"
| "rec_do env (ToolCallOp n a v d k e) = RecordToolCall env n a v d k e"
| "rec_do env (SubAgentOp n i v d k e) = RecordSubAgentCall env n i v d k e"
| "rec_do env (SessionValueOp k v) = RecordSessionValue env k v"
| "rec_do env (TransferOp a b c v) = RecordSessionTransfer env a b c v"
| "rec_do env (StateWriteOp c v w k) = RecordStateWrite env c v w k"
| "rec_do env (MemoryWriteOp a b c v k) = RecordMemoryWrite env a b c v k"
| "rec_do env (MemoryReadOp a b k) = RecordMemoryRead env a b k"
| "rec_do env (ApprovalOp a b v d l) = RecordApproval env a b v d l"
| "rec_do env (ErrorOp m) = RecordError env m"
| "rec_do env (RetryOp m) = RecordRetry env m"
| "rec_do env (RunStartOp g t) = Rec_OnRunStart env g t"
| "rec_do env (RunEndOp g t e) = Rec_OnRunEnd env g t e"
| "rec_do env (StepStartOp s n) = Rec_OnStepStart env s n"
| "rec_do env (StepEndOp s e) = Rec_OnStepEnd env s e"
| "rec_do env (NodeStartOp n s) = Rec_OnNodeStart env n s"
| "rec_do env (NodeEndOp n s v e) = Rec_OnNodeEnd env n s v e"
| "rec_do env (CheckpointSaveOp t c s) = Rec_OnCheckpointSave env t c s"
| "rec_do env (CheckpointLoadOp t c s) = Rec_OnCheckpointLoad env t c s"
| "rec_do env (CheckpointUpdateOp t n) = Rec_OnCheckpointUpdate env t n"
| "rec_do env (InterruptOp ns s) = Rec_OnInterrupt env ns s"
| "rec_do env (ResumeOp t) = Rec_OnResume env t"

text \<open>The types of the events of a call.\<close>

fun op_types :: "rec_op \<Rightarrow> EventType list" where
  "op_types (ModelCallOp _ _ _ _ _ _ _) = [EventLLMCallStart, EventLLMCallEnd]"
| "op_types (LLMChunkOp _ _) = [EventLLMCallChunk]"
| "op_types (ToolCallOp _ _ _ _ _ _) = [EventToolCallStart, EventToolCallResult]"
| "op_types (SubAgentOp _ _ _ _ _ _) = [EventSubAgentCallStart, EventSubAgentCallEnd]"
| "op_types (SessionValueOp _ _) = [EventSessionValueSet]"
| "op_types (TransferOp _ _ _ _) = [EventSessionTransfer]"
| "op_types (StateWriteOp _ _ _ _) = [EventStateWrite]"
| "op_types (MemoryWriteOp _ _ _ _ _) = [EventMemoryWrite]"
| "op_types (MemoryReadOp _ _ _) = [EventMemoryRead]"
| "op_types (ApprovalOp _ _ _ _ _) = [EventApprovalRequest]"
| "op_types (ErrorOp _) = [EventError]"
| "op_types (RetryOp _) = [EventRetry]"
| "op_types (RunStartOp _ _) = [EventGraphStart]"
| "op_types (RunEndOp _ _ _) = [EventGraphEnd]"
| "op_types (StepStartOp _ _) = [EventStepStart]"
| "op_types (StepEndOp _ _) = [EventStepEnd]"
| "op_types (NodeStartOp _ _) = [EventNodeStart]"
| "op_types (NodeEndOp _ _ _ _) = [EventNodeEnd]"
| "op_types (CheckpointSaveOp _ _ _) = [EventCheckpointCreated]"
| "op_types (CheckpointLoadOp _ _ _) = [EventCheckpointRestored]"
| "op_types (CheckpointUpdateOp _ _) = [EventStateWrite]"
| "op_types (InterruptOp _ _) = [EventInterrupt]"
| "op_types (ResumeOp _) = [EventResume]"

text \<open>What the functions given to \<^verbatim>\<open>record\<close> leave alone.\<close>

definition keeps_identity :: "(Event \<Rightarrow> Event) \<Rightarrow> bool" where
  "keeps_identity f \<longleftrightarrow>
     (\<forall>ev. ev_ID (f ev) = ev_ID ev \<and> ev_Type (f ev) = ev_Type ev \<and> ev_Clock (f ev) = ev_Clock ev \<and> ev_TraceID (f ev) = ev_TraceID ev)"

lemma rec_do_records:
  "\<exists>fs. map fst fs = op_types op \<and> (\<forall>p \<in> set fs. keeps_identity (snd p)) \<and>
     rec_do env op r = fold (\<lambda>(t, f). record_event env t f) fs r"
proof -
  note defs = keeps_identity_def with_meta_def with_payload_def with_error_def Let_def
  have one: "\<exists>fs. map fst fs = [t] \<and> (\<forall>p \<in> set fs. keeps_identity (snd p)) \<and>
      record_event env t f r = fold (\<lambda>(t, f). record_event env t f) fs r" if "keeps_identity f" for t f
    using that by (intro exI [of _ "[(t, f)]"]) simp
  have two: "\<exists>fs. map fst fs = [t, u] \<and> (\<forall>p \<in> set fs. keeps_identity (snd p)) \<and>
      record_event env u g (record_event env t f r) = fold (\<lambda>(t, f). record_event env t f) fs r"
    if "keeps_identity f" "keeps_identity g" for t u f g
    using that by (intro exI [of _ "[(t, f), (u, g)]"]) simp
  show ?thesis
    by (cases op) (auto simp: recorder_defs intro!: one two, auto simp: defs split: option.split)
qed

section \<open>Logs\<close>

lemma u64_Suc: "Suc (unat x) < 2 ^ 64 \<Longrightarrow> unat (x + 1) = Suc (unat x)" for x :: u64
  by (simp add: unat_word_ariths)

text \<open>
  A log has a content, a list that only grows at its end: an accepted event gets a clock if it had none and is sealed. A
  stream returns the matching events in the order of the log, and an event is found by its identifier.
\<close>

locale event_log =
  fixes cx :: codec
    and ops :: "'l EventLog"
    and good :: "'l \<Rightarrow> bool"
    and content :: "'l \<Rightarrow> Event list"
    and accepts :: "Event \<Rightarrow> bool"
  assumes append_one: "good s \<Longrightarrow> accepts ev \<Longrightarrow>
      \<exists>s' c. el_Append ops [ev] s = (s', Inr [Seal cx (if ev_Clock ev = 0 then ev\<lparr>ev_Clock := c\<rparr> else ev)]) \<and> good s' \<and>
        content s' = content s @ [Seal cx (if ev_Clock ev = 0 then ev\<lparr>ev_Clock := c\<rparr> else ev)]"
    and stream_content: "good s \<Longrightarrow> el_Stream ops f s = filter (Matches f) (content s)"
    and get_found: "good s \<Longrightarrow> el_Get ops i s = Some ev \<Longrightarrow> ev \<in> set (content s) \<and> ev_ID ev = i"
    and get_missing: "good s \<Longrightarrow> el_Get ops i s = None \<Longrightarrow> i \<notin> ev_ID ` set (content s)"
begin

lemma get_unique:
  assumes "good s" and "distinct (map ev_ID (content s))" and "ev \<in> set (content s)"
  shows "el_Get ops (ev_ID ev) s = Some ev"
proof (cases "el_Get ops (ev_ID ev) s")
  case None
  then show ?thesis
    using get_missing [OF assms(1)] assms(3) by blast
next
  case (Some ev')
  then show ?thesis
    using get_found [OF assms(1) Some] assms(2,3) by (metis distinct_map inj_onD)
qed

lemma record_appends:
  assumes "good (er_store r)" and "keeps_identity f" and "re_cx env = cx" and "re_log env = ops"
    and "\<And>ev. ev_TraceID ev = er_traceID r \<Longrightarrow> accepts ev" and "lc_value (er_clock r) + 1 \<noteq> 0"
  shows "\<exists>ev. content (er_store (record_event env t f r)) = content (er_store r) @ [ev] \<and> good (er_store (record_event env t f r)) \<and>
    lc_value (er_clock (record_event env t f r)) = lc_value (er_clock r) + 1 \<and> er_traceID (record_event env t f r) = er_traceID r \<and>
    ev_Clock ev = lc_value (er_clock r) + 1 \<and> ev_TraceID ev = er_traceID r \<and> ev_Type ev = t \<and> ev_Hash ev = computeHash cx ev"
proof -
  let ?k = "lc_value (er_clock r) + 1"
  let ?e = "f ((NewEvent (re_uid env ?k) (re_now env ?k) t ?k)\<lparr>ev_TraceID := er_traceID r, ev_ThreadID := er_threadID r\<rparr>)"
  have e: "ev_Clock ?e = ?k" "ev_TraceID ?e = er_traceID r" "ev_Type ?e = t"
    using assms(2) by (simp_all add: keeps_identity_def NewEvent_def)
  have "accepts (Seal cx ?e)"
    using e(2) by (intro assms(5)) (simp add: Seal_def)
  then obtain s' where "el_Append ops [Seal cx ?e] (er_store r) = (s', Inr [Seal cx (Seal cx ?e)])" "good s'"
      "content s' = content (er_store r) @ [Seal cx (Seal cx ?e)]"
    using append_one [OF assms(1), of "Seal cx ?e"] e(1) assms(6) by (auto simp: Seal_def)
  with e show ?thesis
    by (simp add: record_event_def Tick_def assms(3,4) Seal_def computeHash_def)
qed

text \<open>The trace left by a recorder: consecutive clocks, one trace, intact hashes.\<close>

lemma record_fold:
  assumes "re_cx env = cx" and "re_log env = ops" and "\<And>ev. ev_TraceID ev = er_traceID r \<Longrightarrow> accepts ev"
    and "good (er_store r)" and "\<forall>p \<in> set fs. keeps_identity (snd p)"
    and "unat (lc_value (er_clock r)) + length fs < 2 ^ 64"
  shows "\<exists>evs. content (er_store (fold (\<lambda>(t, f). record_event env t f) fs r)) = content (er_store r) @ evs \<and>
    good (er_store (fold (\<lambda>(t, f). record_event env t f) fs r)) \<and>
    map ev_Type evs = map fst fs \<and> map ev_Clock evs = map (\<lambda>i. lc_value (er_clock r) + of_nat (Suc i)) [0..<length fs] \<and>
    (\<forall>ev \<in> set evs. ev_TraceID ev = er_traceID r \<and> ev_Hash ev = computeHash cx ev)"
  using assms(3-6)
proof (induction fs arbitrary: r)
  case (Cons p fs)
  obtain t f where p: "p = (t, f)" by force
  let ?r = "record_event env t f r"
  have suc: "unat (lc_value (er_clock r) + 1) = Suc (unat (lc_value (er_clock r)))"
    using Cons.prems(4) by (intro u64_Suc) simp
  then have nz: "lc_value (er_clock r) + 1 \<noteq> 0"
    by (metis nat.distinct(1) unat_0)
  obtain ev where ev: "content (er_store ?r) = content (er_store r) @ [ev]" "good (er_store ?r)"
      "lc_value (er_clock ?r) = lc_value (er_clock r) + 1" "er_traceID ?r = er_traceID r"
      "ev_Clock ev = lc_value (er_clock r) + 1" "ev_TraceID ev = er_traceID r" "ev_Type ev = t" "ev_Hash ev = computeHash cx ev"
    using record_appends [OF Cons.prems(2) _ assms(1,2) Cons.prems(1) nz, of f t] Cons.prems(3) by (auto simp: p)
  have "unat (lc_value (er_clock ?r)) + length fs < 2 ^ 64"
    using Cons.prems(4) by (simp add: ev(3) suc)
  then obtain evs where evs: "content (er_store (fold (\<lambda>(t, f). record_event env t f) fs ?r)) = content (er_store ?r) @ evs"
      "good (er_store (fold (\<lambda>(t, f). record_event env t f) fs ?r))" "map ev_Type evs = map fst fs"
      "map ev_Clock evs = map (\<lambda>i. lc_value (er_clock ?r) + of_nat (Suc i)) [0..<length fs]"
      "\<forall>ev \<in> set evs. ev_TraceID ev = er_traceID ?r \<and> ev_Hash ev = computeHash cx ev"
    using Cons.IH [of ?r] Cons.prems(1,3) ev(2,4) by auto
  have "map (\<lambda>i. lc_value (er_clock r) + of_nat (Suc i)) [0..<length (p # fs)] =
      (lc_value (er_clock r) + 1) # map (\<lambda>i. lc_value (er_clock ?r) + of_nat (Suc i)) [0..<length fs]"
    by (simp add: ev(3) upt_conv_Cons map_Suc_upt [symmetric] comp_def add.assoc del: upt_Suc)
  with ev evs show ?case
    by (intro exI [of _ "ev # evs"]) (simp add: p)
qed simp

end

section \<open>The store in memory is a log\<close>

definition store_ok :: "MemoryEventStore \<Rightarrow> bool" where
  "store_ok s \<longleftrightarrow> gm_ok (ms_byID s) \<and> map_of (ms_byID s) = map_of (rev (map (\<lambda>ev. (ev_ID ev, ev)) (ms_events s)))"

lemma append_one_events:
  "\<exists>c. MS_append_one cx ev s = (s', ev') \<longrightarrow>
     ev' = Seal cx (if ev_Clock ev = 0 then ev\<lparr>ev_Clock := c\<rparr> else ev) \<and> ms_events s' = ms_events s @ [ev'] \<and>
     ms_byID s' = gm_set (ev_ID ev') ev' (ms_byID s)"
  by (intro exI [of _ "ms_clock s + 1"]) (auto simp: MS_append_one_def Let_def split: if_splits)

lemma store_ok_append:
  assumes "MS_append_one cx ev s = (s', ev')" and "store_ok s"
  shows "store_ok s'"
  using append_one_events [of cx ev s s' ev'] assms by (auto simp: store_ok_def gomap_simps)

interpretation memory: event_log cx "memory_log cx" store_ok ms_events "\<lambda>ev. True"
proof unfold_locales
  fix s ev
  assume ok: "store_ok s"
  obtain s' ev' where a: "MS_append_one cx ev s = (s', ev')" by force
  with append_one_events [of cx ev s s' ev'] store_ok_append [OF a ok]
  show "\<exists>s' c. el_Append (memory_log cx) [ev] s = (s', Inr [Seal cx (if ev_Clock ev = 0 then ev\<lparr>ev_Clock := c\<rparr> else ev)]) \<and> store_ok s' \<and>
      ms_events s' = ms_events s @ [Seal cx (if ev_Clock ev = 0 then ev\<lparr>ev_Clock := c\<rparr> else ev)]"
    by (auto simp: memory_log_def)
next
  fix s f
  show "el_Stream (memory_log cx) f s = filter (Matches f) (ms_events s)"
    by (simp add: memory_log_def MS_Stream_def read_loop_all)
next
  fix s i and ev :: Event
  assume "store_ok s" and "el_Get (memory_log cx) i s = Some ev"
  then have "map_of (rev (map (\<lambda>ev. (ev_ID ev, ev)) (ms_events s))) i = Some ev"
    by (simp add: memory_log_def MS_Get_def store_ok_def)
  then show "ev \<in> set (ms_events s) \<and> ev_ID ev = i"
    by (auto dest!: map_of_SomeD)
next
  fix s i
  assume "store_ok s" and "el_Get (memory_log cx) i s = None"
  then have "map_of (rev (map (\<lambda>ev. (ev_ID ev, ev)) (ms_events s))) i = None"
    by (simp add: memory_log_def MS_Get_def store_ok_def)
  then show "i \<notin> ev_ID ` set (ms_events s)"
    by (auto simp: map_of_eq_None_iff image_iff)
qed

lemma rec_ops_fold:
  "\<exists>fs. map fst fs = concat (map op_types opl) \<and> (\<forall>p \<in> set fs. keeps_identity (snd p)) \<and>
     fold (rec_do env) opl r = fold (\<lambda>(t, f). record_event env t f) fs r"
proof (induction opl arbitrary: r)
  case (Cons op opl)
  obtain fs where "map fst fs = op_types op" "\<forall>p \<in> set fs. keeps_identity (snd p)"
      "rec_do env op r = fold (\<lambda>(t, f). record_event env t f) fs r"
    using rec_do_records by blast
  moreover obtain gs where "map fst gs = concat (map op_types opl)" "\<forall>p \<in> set gs. keeps_identity (snd p)"
      "fold (rec_do env) opl (rec_do env op r) = fold (\<lambda>(t, f). record_event env t f) gs (rec_do env op r)"
    using Cons.IH by blast
  ultimately show ?case
    by (intro exI [of _ "fs @ gs"]) auto
qed simp

lemma store_ok_New [simp]: "store_ok NewMemoryEventStore" "ms_events NewMemoryEventStore = []"
  by (simp_all add: store_ok_def NewMemoryEventStore_def)

text \<open>C30: Whatever is recorded through a recorder on a new store, the store holds exactly the events of the calls, in their order and
  with the clocks 1, 2, and so on, all under the recorder's trace, each with a hash that fits its content; streaming the
  trace returns them all.\<close>

theorem recorded_trace_ordered:
  assumes "n = length (concat (map op_types opl))" and "n < 2 ^ 64" and "re_log env = memory_log (re_cx env)"
    and "s = er_store (fold (rec_do env) opl (NewEventRecorder NewMemoryEventStore [WithTraceID t]))"
  shows "map ev_Type (ms_events s) = concat (map op_types opl) \<and> map ev_Clock (ms_events s) = map of_nat [1..<Suc n] \<and>
    (\<forall>ev \<in> set (ms_events s). ev_TraceID ev = t \<and> ev_Hash ev = computeHash (re_cx env) ev) \<and>
    el_Stream (memory_log (re_cx env)) (trace_filter t 0 0) s = ms_events s"
proof -
  let ?r = "NewEventRecorder NewMemoryEventStore [WithTraceID t]"
  have r: "er_store ?r = NewMemoryEventStore" "lc_value (er_clock ?r) = 0" "er_traceID ?r = t"
    by (simp_all add: NewEventRecorder_def NewLogicalClock_def WithTraceID_def)
  obtain fs where fs: "map fst fs = concat (map op_types opl)" "\<forall>p \<in> set fs. keeps_identity (snd p)"
      "fold (rec_do env) opl ?r = fold (\<lambda>(t, f). record_event env t f) fs ?r"
    using rec_ops_fold by blast
  have len: "length fs = n"
    using arg_cong [OF fs(1), of length] assms(1) by simp
  obtain evs where evs: "ms_events s = evs" "store_ok s" "map ev_Type evs = map fst fs"
      "map ev_Clock evs = map (\<lambda>i. of_nat (Suc i)) [0..<n]"
      "\<forall>ev \<in> set evs. ev_TraceID ev = t \<and> ev_Hash ev = computeHash (re_cx env) ev"
    using memory.record_fold [of env "re_cx env" ?r fs] fs(2) r assms(2,3,4) fs(3) len by auto
  moreover have "map (\<lambda>i. of_nat (Suc i)) [0..<n] = map (of_nat :: nat \<Rightarrow> u64) [1..<Suc n]"
    by (simp only: map_Suc_upt [symmetric] map_map comp_def One_nat_def)
  moreover have "filter (Matches (trace_filter t 0 0)) evs = evs"
    using evs(5) by (auto simp: filter_id_conv Matches_def trace_filter_def)
  ultimately show ?thesis
    using memory.stream_content [OF evs(2)] fs(1) by simp
qed

definition plain_codec :: codec where
  "plain_codec = \<lparr>cx_sha = (\<lambda>x. x), cx_meta = (\<lambda>m. concat (gm_keys m)), cx_enc = (\<lambda>p. None),
     cx_llm = (\<lambda>x. (\<lparr>lcp_Model = [], lcp_Provider = [], lcp_Messages = [], lcp_Tokens = \<lparr>tu_PromptTokens = 0, tu_CompletionTokens = 0, tu_TotalTokens = 0\<rparr>,
        lcp_Content = x, lcp_Chunks = 0, lcp_DurationMs = 0, lcp_Cost = f64_round 0\<rparr>, True)),
     cx_tool = (\<lambda>x. (\<lparr>tcp_ToolName = x, tcp_Arguments = [], tcp_Result = GNil, tcp_DurationMs = 0, tcp_Error = [], tcp_RetryCount = 0\<rparr>, True)),
     cx_state = (\<lambda>x. (\<lparr>stp_Channel = x, stp_OldValue = GNil, stp_NewValue = GStr x, stp_Reducer = []\<rparr>, True))\<rparr>"

definition plain_env :: "MemoryEventStore rec_env" where
  "plain_env = \<lparr>re_cx = plain_codec, re_log = memory_log plain_codec, re_uid = (\<lambda>c. replicate (unat c) (CHR ''e'')), re_now = (\<lambda>c. 0)\<rparr>"

theorem recorded_trace_ordered_witness:
  "map ev_Clock (ms_events (er_store (fold (rec_do plain_env) [RunStartOp ''g'' ''th'', NodeStartOp ''a'' 0, RetryOp ''x'']
      (NewEventRecorder NewMemoryEventStore [WithTraceID ''t''])))) = [1, 2, 3]"
proof -
  have "map of_nat [1..<Suc 3] = [1, 2, 3 :: u64]"
    by (simp add: upt_rec)
  then show ?thesis
    using recorded_trace_ordered [of 3 "[RunStartOp ''g'' ''th'', NodeStartOp ''a'' 0, RetryOp ''x'']" plain_env _ "''t''", OF _ _ _ refl]
    by (simp add: plain_env_def)
qed

section \<open>Reading in the order of the clock\<close>

lemma Matches_trace_filter:
  "Matches (trace_filter t a b) ev \<longleftrightarrow>
     (t = [] \<or> ev_TraceID ev = t) \<and> (a = 0 \<or> a \<le> ev_Clock ev) \<and> (b = 0 \<or> ev_Clock ev \<le> b)"
  by (auto simp: Matches_def trace_filter_def not_less word_gt_0)

lemma dropWhile_sorted:
  fixes f :: "'a \<Rightarrow> 'b :: linorder"
  shows "sorted (map f xs) \<Longrightarrow> dropWhile (\<lambda>x. \<not> f x \<ge> c) xs = filter (\<lambda>x. f x \<ge> c) xs"
proof (induction xs)
  case (Cons x xs)
  have "filter (\<lambda>x. f x \<ge> c) xs = xs" if "f x \<ge> c"
    using Cons.prems that by (intro filter_True) (auto intro: order.trans)
  with Cons show ?case
    by auto
qed simp

text \<open>On a store whose events are in the order of their clocks, seeking a clock, the range from it, and the stream with it as lower
  bound return the same events: those not before it.\<close>

theorem Seek_Range_Stream:
  assumes "sorted (map ev_Clock (ms_events s))" and "0 < c"
  shows "read_loop (MS_Seek c s) = filter (\<lambda>ev. ev_Clock ev \<ge> c) (ms_events s) \<and>
    MS_Range c 0 (trace_filter [] 0 0) s = read_loop (MS_Seek c s) \<and>
    read_loop (MS_Stream (trace_filter [] c 0) s) = read_loop (MS_Seek c s)"
  using dropWhile_sorted [OF assms(1), of c] assms(2)
  by (auto simp: MS_Seek_def MS_Range_def MS_Stream_def read_loop_all Matches_trace_filter not_less intro!: filter_cong)

definition two_events :: MemoryEventStore where
  "two_events = fst (MS_Append plain_codec [NewEvent ''a'' 5 EventFork 0, NewEvent ''b'' 9 EventFork 0] NewMemoryEventStore)"

lemma two_events_eval: "map (\<lambda>ev. (ev_ID ev, ev_Clock ev)) (ms_events two_events) = [(''a'', 1), (''b'', 2)]"
  by (simp add: two_events_def MS_append_one_def NewMemoryEventStore_def NewEvent_def Seal_def Let_def)

theorem Seek_Range_Stream_witness:
  "sorted (map ev_Clock (ms_events two_events)) \<and> map ev_ID (read_loop (MS_Stream (trace_filter [] 2 0) two_events)) = [''b''] \<and>
   read_loop (MS_Stream (trace_filter [] 2 0) two_events) = read_loop (MS_Seek 2 two_events)"
proof -
  have "map snd (map (\<lambda>ev. (ev_ID ev, ev_Clock ev)) (ms_events two_events)) = [1, 2]"
    by (simp only: two_events_eval) simp
  then have s: "sorted (map ev_Clock (ms_events two_events))"
    by (simp add: comp_def)
  have "map ev_ID (filter (\<lambda>ev. ev_Clock ev \<ge> 2) (ms_events two_events)) =
      map fst (filter (\<lambda>p. snd p \<ge> 2) (map (\<lambda>ev. (ev_ID ev, ev_Clock ev)) (ms_events two_events)))"
    by (simp add: filter_map comp_def)
  also have "\<dots> = [''b'']"
    by (simp only: two_events_eval) (simp add: word_le_nat_alt)
  finally show ?thesis
    using Seek_Range_Stream [OF s, of 2] s by simp
qed

section \<open>Garbage collection and subscribers\<close>

lemma option_extensional: "(\<And>x. a = Some x \<longleftrightarrow> b = Some x) \<Longrightarrow> a = b"
  by (cases a; cases b) auto

lemma fold_delete_lookup:
  "map_of (fold (\<lambda>ev m. if P ev then m else gm_delete (ev_ID ev) m) evs m) i =
     (if \<exists>ev \<in> set evs. ev_ID ev = i \<and> \<not> P ev then None else map_of m i)"
  by (induction evs arbitrary: m) (auto simp: gomap_simps)

lemma fold_delete_ok: "gm_ok m \<Longrightarrow> gm_ok (fold (\<lambda>ev m. if P ev then m else gm_delete (ev_ID ev) m) evs m)"
  by (induction evs arbitrary: m) auto

lemma map_of_events:
  assumes "distinct (map ev_ID evs)"
  shows "map_of (rev (map (\<lambda>ev. (ev_ID ev, ev)) evs)) i = Some ev \<longleftrightarrow> ev \<in> set evs \<and> ev_ID ev = i"
proof -
  have "distinct (map fst (rev (map (\<lambda>ev. (ev_ID ev, ev)) evs)))"
    using assms by (simp add: rev_map [symmetric] comp_def)
  then show ?thesis
    by (auto simp: map_of_eq_Some_iff)
qed

text \<open>Garbage collection keeps exactly the events younger than the retention period and the table of identifiers
  consistent with them, as long as identifiers are unique.\<close>

theorem GC_spec:
  assumes "store_ok s" and "distinct (map ev_ID (ms_events s))"
  shows "store_ok (MS_GC now retention s) \<and>
    ms_events (MS_GC now retention s) = filter (\<lambda>ev. ev_Timestamp ev > now - retention) (ms_events s) \<and>
    (\<forall>i ev. MS_Get i (MS_GC now retention s) = Some ev \<longleftrightarrow> MS_Get i s = Some ev \<and> ev_Timestamp ev > now - retention)"
proof -
  let ?P = "\<lambda>ev. ev_Timestamp ev > now - retention"
  let ?s = "MS_GC now retention s"
  have e: "ms_events ?s = filter ?P (ms_events s)"
    by (simp add: MS_GC_def Let_def)
  have found: "MS_Get i s = Some ev \<longleftrightarrow> ev \<in> set (ms_events s) \<and> ev_ID ev = i" for i ev
    using assms map_of_events [OF assms(2)] by (simp add: MS_Get_def store_ok_def)
  have "MS_Get i ?s = (if \<exists>ev \<in> set (ms_events s). ev_ID ev = i \<and> \<not> ?P ev then None else MS_Get i s)" for i
    by (auto simp: MS_GC_def MS_Get_def Let_def fold_delete_lookup)
  moreover have "ev = ev'" if "ev \<in> set (ms_events s)" "ev' \<in> set (ms_events s)" "ev_ID ev = ev_ID ev'" for ev ev'
    using assms(2) that by (meson distinct_map inj_onD)
  ultimately have get: "MS_Get i ?s = Some ev \<longleftrightarrow> MS_Get i s = Some ev \<and> ?P ev" for i ev
    by (auto simp: found)
  have "distinct (map ev_ID (filter ?P (ms_events s)))"
    using assms(2) by (simp add: distinct_map_filter)
  then have "map_of (ms_byID ?s) i = Some ev \<longleftrightarrow> map_of (rev (map (\<lambda>ev. (ev_ID ev, ev)) (ms_events ?s))) i = Some ev" for i ev
    using get [of i ev] found [of i ev] map_of_events [of "ms_events ?s" i ev] unfolding e by (auto simp: MS_Get_def)
  then have "map_of (ms_byID ?s) i = map_of (rev (map (\<lambda>ev. (ev_ID ev, ev)) (ms_events ?s))) i" for i
    by (rule option_extensional)
  moreover have "gm_ok (ms_byID ?s)"
    using assms(1) by (simp add: MS_GC_def Let_def fold_delete_ok store_ok_def)
  ultimately show ?thesis
    using e get by (simp add: store_ok_def fun_eq_iff)
qed

theorem GC_spec_witness:
  "store_ok two_events \<and> map ev_ID (ms_events (MS_GC 10 3 two_events)) = [''b''] \<and> MS_Get ''a'' (MS_GC 10 3 two_events) = None"
proof -
  have ok: "store_ok two_events"
    using store_ok_append [OF prod.collapse [symmetric]] unfolding two_events_def
    by (simp add: Let_def split_beta)
  have ids: "map ev_ID (ms_events two_events) = [''a'', ''b'']" "map ev_Timestamp (ms_events two_events) = [5, 9]"
    by (simp_all add: two_events_def MS_append_one_def NewMemoryEventStore_def NewEvent_def Seal_def Let_def)
  then obtain x y where e: "ms_events two_events = [x, y]" "ev_ID x = ''a''" "ev_ID y = ''b''" "ev_Timestamp x = 5" "ev_Timestamp y = 9"
    by (auto simp: map_eq_Cons_conv)
  have g: "store_ok (MS_GC 10 3 two_events) \<and> ms_events (MS_GC 10 3 two_events) = filter (\<lambda>ev. ev_Timestamp ev > 10 - 3) (ms_events two_events)"
    using GC_spec [of two_events 10 3] ok ids(1) by simp
  then have "MS_Get ''a'' (MS_GC 10 3 two_events) = None"
    using e by (auto simp: store_ok_def MS_Get_def)
  with ok g e show ?thesis
    by simp
qed

text \<open>A subscriber gets every event, whatever the filter of its subscription, until its channel is full.\<close>

theorem Subscribe_ignores_filter:
  assumes "map_of (ms_subs s) n = Some ch" and "length ch < 256"
  shows "map_of (ms_subs (fst (MS_append_one cx ev s))) n = Some (ch @ [snd (MS_append_one cx ev s)])"
proof -
  have "map_of (map (\<lambda>(i, ch). (i, sub_send e ch)) subs) n = map_option (sub_send e) (map_of subs n)" for e subs
    by (induction subs) auto
  then show ?thesis
    using assms by (simp add: MS_append_one_def Let_def split_beta sub_send_def)
qed

text \<open>The limit of a filter has no effect, and restoring a snapshot returns the whole log.\<close>

theorem limit_and_snapshot_ignored:
  "read_loop (MS_Stream (f\<lparr>f_Limit := n\<rparr>) s) = read_loop (MS_Stream f s) \<and> read_loop (MS_RestoreSnapshot i s) = ms_events s"
proof -
  have "Matches (f\<lparr>f_Limit := n\<rparr>) = Matches f"
    by (simp add: fun_eq_iff Matches_def)
  then show ?thesis
    by (simp add: MS_Stream_def MS_RestoreSnapshot_def MS_Seek_def read_loop_all dropWhile_eq_self_iff)
qed

text \<open>Clocks are not shared: the store's own clock does not move when an event brings a clock, so an event without one gets a clock
  that is already taken.\<close>

theorem explicit_clocks_collide:
  assumes "MS_Append cx [ev, ev'] NewMemoryEventStore = (s, evs)" and "ev_Clock ev = 1" and "ev_Clock ev' = 0"
  shows "map ev_Clock (ms_events s) = [1, 1]"
  using assms by (auto simp: MS_append_one_def NewMemoryEventStore_def Seal_def Let_def)

end
