(* ===== verification/Replay.thy ===== *)
theory Replay
  imports EventLaws Engine
begin

text \<open>
  Replay of recorded executions (\<^verbatim>\<open>internal/harness/replay\<close>): replaying a trace with substituted responses, comparing lists of
  events and whole traces, forking at an event, and the checkpoint rebuilt from events. The logs read and written are given by
  their methods (\<open>EventLog\<close>). Events are copied before they are changed, so values suffice. A forked engine is given by the
  result of running it without input, and a saver by its method \<^verbatim>\<open>Put\<close>; time and identifiers are arguments.
\<close>

section \<open>Overrides\<close>

type_synonym ModelOverrideFunc = "goval list \<Rightarrow> string \<Rightarrow> gerror + string option"
type_synonym ToolOverrideFunc = "string \<Rightarrow> gostate \<Rightarrow> goval \<Rightarrow> gerror + goval"
type_synonym StateOverrideFunc = "gostate \<Rightarrow> gerror + gostate option"

definition ReplayExactTools :: ToolOverrideFunc where
  "ReplayExactTools toolName args recordedResult = Inr recordedResult"

definition ReplayLiveTools :: ToolOverrideFunc where
  "ReplayLiveTools toolName args recordedResult = Inr GNil"

definition ReplaySubstituteModel :: "(string \<Rightarrow> string) \<Rightarrow> ModelOverrideFunc" where
  "ReplaySubstituteModel fn messages recordedResponse = Inr (Some (fn recordedResponse))"

definition exact_model :: ModelOverrideFunc where
  "exact_model messages recorded = Inr (Some recorded)"

section \<open>Payloads of events\<close>

definition zero_llm :: LLMCallPayload where
  "zero_llm = \<lparr>lcp_Model = [], lcp_Provider = [], lcp_Messages = [],
     lcp_Tokens = \<lparr>tu_PromptTokens = 0, tu_CompletionTokens = 0, tu_TotalTokens = 0\<rparr>, lcp_Content = [], lcp_Chunks = 0,
     lcp_DurationMs = 0, lcp_Cost = f64_round 0\<rparr>"

definition zero_tool :: ToolCallPayload where
  "zero_tool = \<lparr>tcp_ToolName = [], tcp_Arguments = [], tcp_Result = GNil, tcp_DurationMs = 0, tcp_Error = [], tcp_RetryCount = 0\<rparr>"

definition zero_state :: StateTransitionPayload where
  "zero_state = \<lparr>stp_Channel = [], stp_OldValue = GNil, stp_NewValue = GNil, stp_Reducer = []\<rparr>"

definition parse_llm :: "codec \<Rightarrow> Event \<Rightarrow> LLMCallPayload" where
  "parse_llm cx ev = (case ev_Payload ev of None \<Rightarrow> zero_llm | Some p \<Rightarrow> fst (cx_llm cx p))"

definition parse_tool :: "codec \<Rightarrow> Event \<Rightarrow> ToolCallPayload" where
  "parse_tool cx ev = (case ev_Payload ev of None \<Rightarrow> zero_tool | Some p \<Rightarrow> fst (cx_tool cx p))"

definition parse_state :: "codec \<Rightarrow> Event \<Rightarrow> StateTransitionPayload" where
  "parse_state cx ev = (case ev_Payload ev of None \<Rightarrow> zero_state | Some p \<Rightarrow> fst (cx_state cx p))"

definition extractContent :: "codec \<Rightarrow> Event \<Rightarrow> string" where
  "extractContent cx ev =
     (case ev_Payload ev of None \<Rightarrow> [] | Some p \<Rightarrow> (let (pl, ok) = cx_llm cx p in if ok then lcp_Content pl else []))"

definition extractToolName :: "codec \<Rightarrow> Event \<Rightarrow> string" where
  "extractToolName cx ev =
     (case ev_Payload ev of None \<Rightarrow> [] | Some p \<Rightarrow> (let (pl, ok) = cx_tool cx p in if ok then tcp_ToolName pl else []))"

definition FindEventsOfType :: "Event list \<Rightarrow> EventType \<Rightarrow> Event list" where
  "FindEventsOfType evts typ = filter (\<lambda>ev. ev_Type ev = typ) evts"

definition EventsContains :: "Event list \<Rightarrow> EventType \<Rightarrow> bool" where
  "EventsContains evts typ = list_ex (\<lambda>ev. ev_Type ev = typ) evts"

definition EventCount :: "Event list \<Rightarrow> EventType \<Rightarrow> nat" where
  "EventCount evts typ = foldl (\<lambda>n ev. if ev_Type ev = typ then n + 1 else n) 0 evts"

section \<open>Replay\<close>

record ('l, 'o) ReplayConfig =
  rc_Store :: "'l option"
  rc_TraceID :: string
  rc_Start :: u64
  rc_End :: u64
  rc_ModelOverride :: "ModelOverrideFunc option"
  rc_ToolOverride :: "ToolOverrideFunc option"
  rc_StateOverride :: "StateOverrideFunc option"
  rc_OutputStore :: "'o option"
  rc_DiffEnabled :: bool

datatype DivergenceType = DivergenceMissing | DivergenceExtra | DivergenceMismatch

record EventDivergence =
  dv_Clock :: u64
  dv_OriginalEvent :: "Event option"
  dv_ReplayEvent :: "Event option"
  dv_Type :: DivergenceType
  dv_Description :: string

record ReplayMetrics =
  rm_TotalEvents :: int
  rm_DivergenceCount :: int
  rm_MatchCount :: int

record ReplayResult =
  rr_Events :: "Event list"
  rr_OriginalLen :: nat
  rr_ReplayLen :: nat
  rr_Divergences :: "EventDivergence list"
  rr_Metrics :: ReplayMetrics

text \<open>The first state write is replaced in the list of original events.\<close>

definition override_state :: "codec \<Rightarrow> StateOverrideFunc \<Rightarrow> Event \<Rightarrow> gerror + Event" where
  "override_state cx ov ev =
     (let st = parse_state cx ev
      in case ov [(stp_Channel st, stp_NewValue st)] of
           Inl err \<Rightarrow> Inl err
         | Inr None \<Rightarrow> Inr ev
         | Inr (Some m) \<Rightarrow>
             (case map_of m (stp_Channel st) of
                None \<Rightarrow> Inr ev
              | Some v \<Rightarrow> Inr (Seal cx (ev\<lparr>ev_Payload := cx_enc cx (PState (st\<lparr>stp_NewValue := v\<rparr>))\<rparr>))))"

fun state_overrides :: "codec \<Rightarrow> StateOverrideFunc \<Rightarrow> Event list \<Rightarrow> gerror + Event list" where
  "state_overrides cx ov [] = Inr []"
| "state_overrides cx ov (ev # evs) =
     (if ev_Type ev = EventStateWrite
      then (case override_state cx ov ev of Inl err \<Rightarrow> Inl err | Inr ev' \<Rightarrow> Inr (ev' # evs))
      else (case state_overrides cx ov evs of Inl err \<Rightarrow> Inl err | Inr evs' \<Rightarrow> Inr (ev # evs')))"

definition replay_one :: "codec \<Rightarrow> ModelOverrideFunc \<Rightarrow> ToolOverrideFunc \<Rightarrow> Event \<Rightarrow> gerror + Event" where
  "replay_one cx mo to original =
     (case ev_Type original of
        EventLLMCallEnd \<Rightarrow>
          (let pl = parse_llm cx original
           in case mo (lcp_Messages pl) (lcp_Content pl) of
                Inl err \<Rightarrow> Inl err
              | Inr None \<Rightarrow> Inr original
              | Inr (Some c) \<Rightarrow> Inr (Seal cx (original\<lparr>ev_Payload := cx_enc cx (PLLM (pl\<lparr>lcp_Content := c\<rparr>))\<rparr>)))
      | EventToolCallResult \<Rightarrow>
          (let pl = parse_tool cx original
           in case to (tcp_ToolName pl) (tcp_Arguments pl) (tcp_Result pl) of
                Inl err \<Rightarrow> Inl err
              | Inr v \<Rightarrow>
                  if v \<noteq> GNil then Inr (Seal cx (original\<lparr>ev_Payload := cx_enc cx (PTool (pl\<lparr>tcp_Result := v\<rparr>))\<rparr>))
                  else Inr original)
      | _ \<Rightarrow> Inr original)"

fun replay_all :: "codec \<Rightarrow> ModelOverrideFunc \<Rightarrow> ToolOverrideFunc \<Rightarrow> Event list \<Rightarrow> gerror + Event list" where
  "replay_all cx mo to [] = Inr []"
| "replay_all cx mo to (ev # evs) =
     (case replay_one cx mo to ev of
        Inl err \<Rightarrow> Inl err
      | Inr ev' \<Rightarrow> (case replay_all cx mo to evs of Inl err \<Rightarrow> Inl err | Inr evs' \<Rightarrow> Inr (ev' # evs')))"

definition pair_divergences :: "Event \<Rightarrow> Event \<Rightarrow> EventDivergence list" where
  "pair_divergences orig repl =
     (if ev_Type orig \<noteq> ev_Type repl
      then [\<lparr>dv_Clock = ev_Clock orig, dv_OriginalEvent = Some orig, dv_ReplayEvent = Some repl, dv_Type = DivergenceMismatch,
             dv_Description = ''event type mismatch''\<rparr>] else []) @
     (if ev_Hash orig \<noteq> ev_Hash repl
      then [\<lparr>dv_Clock = ev_Clock orig, dv_OriginalEvent = Some orig, dv_ReplayEvent = Some repl, dv_Type = DivergenceMismatch,
             dv_Description = ''payload mismatch (hash differs)''\<rparr>] else [])"

fun diffEventLists :: "Event list \<Rightarrow> Event list \<Rightarrow> EventDivergence list" where
  "diffEventLists [] [] = []"
| "diffEventLists [] (r # rs) =
     \<lparr>dv_Clock = ev_Clock r, dv_OriginalEvent = None, dv_ReplayEvent = Some r, dv_Type = DivergenceExtra,
      dv_Description = ''replay produced extra event''\<rparr> # diffEventLists [] rs"
| "diffEventLists (e # es) [] =
     \<lparr>dv_Clock = ev_Clock e, dv_OriginalEvent = Some e, dv_ReplayEvent = None, dv_Type = DivergenceMissing,
      dv_Description = ''original event missing in replay''\<rparr> # diffEventLists es []"
| "diffEventLists (e # es) (r # rs) = pair_divergences e r @ diffEventLists es rs"

definition Replay ::
  "codec \<Rightarrow> 'l EventLog \<Rightarrow> 'o EventLog \<Rightarrow> 'l \<Rightarrow> ('l, 'o) ReplayConfig \<Rightarrow> 'o option \<times> (gerror + ReplayResult)" where
  "Replay cx lg lo engineStore cfg =
     (let mo = (case rc_ModelOverride cfg of None \<Rightarrow> exact_model | Some f \<Rightarrow> f);
          to = (case rc_ToolOverride cfg of None \<Rightarrow> ReplayExactTools | Some f \<Rightarrow> f);
          store = (case rc_Store cfg of None \<Rightarrow> engineStore | Some s \<Rightarrow> s);
          read = el_Stream lg (trace_filter (rc_TraceID cfg) (rc_Start cfg) (rc_End cfg)) store
      in case (case rc_StateOverride cfg of None \<Rightarrow> Inr read | Some ov \<Rightarrow> state_overrides cx ov read) of
           Inl err \<Rightarrow> (rc_OutputStore cfg, Inl err)
         | Inr originals \<Rightarrow>
             (case replay_all cx mo to originals of
                Inl err \<Rightarrow> (rc_OutputStore cfg, Inl err)
              | Inr replays \<Rightarrow>
                  (let divs = (if rc_DiffEnabled cfg then diffEventLists originals replays else []);
                       res = \<lparr>rr_Events = [], rr_OriginalLen = length read, rr_ReplayLen = length replays, rr_Divergences = divs,
                              rr_Metrics = \<lparr>rm_TotalEvents = int (length replays), rm_DivergenceCount = int (length divs),
                                            rm_MatchCount = int (length replays) - int (length divs)\<rparr>\<rparr>
                   in case rc_OutputStore cfg of
                        None \<Rightarrow> (None, Inr res)
                      | Some outs \<Rightarrow>
                          (case el_Append lo replays outs of
                             (outs', Inl err) \<Rightarrow> (Some outs', Inl err)
                           | (outs', Inr evs) \<Rightarrow> (Some outs', Inr (res\<lparr>rr_Events := evs\<rparr>))))))"

section \<open>Comparing traces\<close>

record EventMismatch =
  em_Clock :: u64
  em_LeftEvent :: Event
  em_RightEvent :: Event
  em_Field :: string

record DiffResult =
  df_MissingInRight :: "Event list"
  df_MissingInLeft :: "Event list"
  df_Mismatched :: "EventMismatch list"
  df_StateDiff :: "u64 gomap"
  df_ToolCallDiff :: "string list"
  df_LLMResponseDiff :: "(string \<times> string) list"

definition by_clock :: "Event list \<Rightarrow> (u64 \<times> Event) list" where
  "by_clock evs = fold (\<lambda>ev m. AList.update (ev_Clock ev) ev m) evs []"

text \<open>The values shown of a payload mismatch are the first 16 bytes of the hashes; a shorter hash panics.\<close>

definition diff_category :: "codec \<Rightarrow> u64 \<Rightarrow> Event \<Rightarrow> Event \<Rightarrow> DiffResult \<Rightarrow> DiffResult" where
  "diff_category cx clock l r d =
     (case ev_Type l of
        EventLLMCallEnd \<Rightarrow> d\<lparr>df_LLMResponseDiff := df_LLMResponseDiff d @ [(extractContent cx l, extractContent cx r)]\<rparr>
      | EventToolCallResult \<Rightarrow> d\<lparr>df_ToolCallDiff := df_ToolCallDiff d @ [extractToolName cx l]\<rparr>
      | EventStateWrite \<Rightarrow> if ev_Node l \<noteq> [] then d\<lparr>df_StateDiff := gm_set (ev_Node l) clock (df_StateDiff d)\<rparr> else d
      | _ \<Rightarrow> d)"

definition diff_pair :: "codec \<Rightarrow> u64 \<Rightarrow> Event \<Rightarrow> Event \<Rightarrow> DiffResult \<Rightarrow> gerror + DiffResult" where
  "diff_pair cx clock l r d =
     (let d1 = (if ev_Type l \<noteq> ev_Type r
                then d\<lparr>df_Mismatched := df_Mismatched d @ [\<lparr>em_Clock = clock, em_LeftEvent = l, em_RightEvent = r, em_Field = ''type''\<rparr>]\<rparr> else d)
      in if ev_Hash l \<noteq> ev_Hash r \<and> (length (ev_Hash l) < 16 \<or> length (ev_Hash r) < 16)
         then Inl (PanicError ''slice bounds out of range'')
         else (let d2 = (if ev_Hash l \<noteq> ev_Hash r
                         then d1\<lparr>df_Mismatched := df_Mismatched d1 @
                                [\<lparr>em_Clock = clock, em_LeftEvent = l, em_RightEvent = r, em_Field = ''payload''\<rparr>]\<rparr> else d1)
               in Inr (diff_category cx clock l r d2)))"

definition diff_clock ::
  "codec \<Rightarrow> (u64 \<times> Event) list \<Rightarrow> (u64 \<times> Event) list \<Rightarrow> u64 \<Rightarrow> DiffResult \<Rightarrow> gerror + DiffResult" where
  "diff_clock cx lm rm clock d =
     (case (map_of lm clock, map_of rm clock) of
        (Some l, None) \<Rightarrow> Inr (d\<lparr>df_MissingInRight := df_MissingInRight d @ [l]\<rparr>)
      | (None, Some r) \<Rightarrow> Inr (d\<lparr>df_MissingInLeft := df_MissingInLeft d @ [r]\<rparr>)
      | (Some l, Some r) \<Rightarrow> diff_pair cx clock l r d
      | (None, None) \<Rightarrow> Inr d)"

fun diff_clocks ::
  "codec \<Rightarrow> (u64 \<times> Event) list \<Rightarrow> (u64 \<times> Event) list \<Rightarrow> u64 list \<Rightarrow> DiffResult \<Rightarrow> gerror + DiffResult" where
  "diff_clocks cx lm rm [] d = Inr d"
| "diff_clocks cx lm rm (c # cs) d =
     (case diff_clock cx lm rm c d of Inl err \<Rightarrow> Inl err | Inr d' \<Rightarrow> diff_clocks cx lm rm cs d')"

text \<open>The clocks are visited in the order of a map (\<open>ord\<close>).\<close>

definition Diff ::
  "codec \<Rightarrow> (u64 list \<Rightarrow> u64 list) \<Rightarrow> 'l EventLog \<Rightarrow> 'r EventLog \<Rightarrow> 'l \<Rightarrow> 'r \<Rightarrow> string \<Rightarrow> string \<Rightarrow> gerror + DiffResult" where
  "Diff cx ord ll lr left right leftTraceID rightTraceID =
     (let les = el_Stream ll (trace_filter leftTraceID 0 0) left;
          res = el_Stream lr (trace_filter rightTraceID 0 0) right
      in diff_clocks cx (by_clock les) (by_clock res) (ord (remdups (map ev_Clock les @ map ev_Clock res)))
           \<lparr>df_MissingInRight = [], df_MissingInLeft = [], df_Mismatched = [], df_StateDiff = [], df_ToolCallDiff = [],
            df_LLMResponseDiff = []\<rparr>)"

end
