(* ===== verification/Fork.thy ===== *)
theory Fork
  imports Replay
begin

text \<open>
  Forking an execution (\<^verbatim>\<open>replay/checkpoint.go\<close>, \<^verbatim>\<open>replay/fork.go\<close>): the events before the fork point, the checkpoint rebuilt
  from them, and the hand-over to an engine; then the theorems on replay, comparison and forks.
\<close>

section \<open>The checkpoint of a list of events\<close>

type_synonym build_state = "gostate \<times> string list \<times> string \<times> int"

definition build_event :: "codec \<Rightarrow> Event \<Rightarrow> build_state \<Rightarrow> build_state" where
  "build_event cx ev b =
     (case b of (cp, completed, lastNode, lastStep) \<Rightarrow>
        case ev_Type ev of
          EventStateWrite \<Rightarrow>
            (let st = parse_state cx ev
             in if stp_Channel st \<noteq> [] then (gm_set (stp_Channel st) (stp_NewValue st) cp, completed, lastNode, lastStep) else b)
        | EventNodeEnd \<Rightarrow> (cp, completed @ [ev_Node ev], ev_Node ev, lastStep)
        | EventStepEnd \<Rightarrow> (cp, completed, lastNode, if ev_Step ev > lastStep then ev_Step ev else lastStep)
        | _ \<Rightarrow> b)"

definition pregel_id_key :: string where "pregel_id_key = ''__pregel_checkpoint_id''"

definition base_checkpoint :: "string \<Rightarrow> string \<Rightarrow> gostate" where
  "base_checkpoint cpid threadID =
     gm_set pregel_id_key (GStr cpid) (gm_set ConfigKeyCheckpointID (GStr cpid) (gm_set ConfigKeyThreadID (GStr threadID) []))"

definition finish_checkpoint :: "(gostate \<Rightarrow> string option) \<Rightarrow> build_state \<Rightarrow> gostate" where
  "finish_checkpoint enc b =
     (case b of (cp, completed, lastNode, lastStep) \<Rightarrow>
        let cp1 = (if length cp > 2
                   then (case enc (filter (\<lambda>(k, v). k \<noteq> ConfigKeyThreadID \<and> k \<noteq> ConfigKeyCheckpointID \<and> k \<noteq> pregel_id_key) cp) of
                           None \<Rightarrow> cp | Some ls \<Rightarrow> gm_set ''__last_state__'' (GStr ls) cp)
                   else cp);
            cp2 = (if completed \<noteq> [] then gm_set ''__completed_tasks__'' (GStr (join_with [NUL] completed)) cp1 else cp1);
            cp3 = (if lastNode \<noteq> [] then gm_set ''__last_completed_node__'' (GStr lastNode) cp2 else cp2)
        in gm_set ''__step__'' (GFloat (f64_round (of_int lastStep))) cp3)"

definition BuildCheckpoint ::
  "codec \<Rightarrow> (gostate \<Rightarrow> string option) \<Rightarrow> string \<Rightarrow> Event list \<Rightarrow> string \<Rightarrow> gostate \<times> string" where
  "BuildCheckpoint cx enc cpid evs threadID =
     (finish_checkpoint enc (fold (build_event cx) evs (base_checkpoint cpid threadID, [], [], 0)), cpid)"

section \<open>Fork\<close>

text \<open>The overrides and the new input of the configuration are never read.\<close>

record ('l, 'o, 's) ForkConfig =
  fc_Store :: "'l option"
  fc_TraceID :: string
  fc_Point :: EventID
  fc_Engine :: "(gerror + goval) option"
  fc_Checkpointer :: "'s option"
  fc_OutputStore :: "'o option"

record ForkResult =
  fr_ForkTraceID :: string
  fr_ForkEvents :: "Event list"
  fr_ParentTraceID :: string
  fr_ForkPoint :: EventID
  fr_FinalState :: goval

record 's fork_env =
  fe_cx :: codec
  fe_put :: "gostate \<Rightarrow> gostate \<Rightarrow> 's \<Rightarrow> (gerror, 's, unit) outcome"
  fe_fresh :: 's
  fe_enc :: "gostate \<Rightarrow> string option"
  fe_cpid :: string
  fe_marker_id :: EventID
  fe_end_id :: EventID
  fe_now :: int

definition fork_trace :: "string \<Rightarrow> EventID \<Rightarrow> string" where
  "fork_trace traceID point = traceID @ ''_fork_'' @ point"

definition fork_marker :: "'s fork_env \<Rightarrow> string \<Rightarrow> EventID \<Rightarrow> Event" where
  "fork_marker env traceID point =
     Seal (fe_cx env) (with_meta ''parent_trace'' (GStr traceID)
       ((NewEvent (fe_marker_id env) (fe_now env) EventFork 0)\<lparr>ev_TraceID := fork_trace traceID point, ev_ParentID := point, ev_CausedBy := [point]\<rparr>))"

text \<open>The engine is run without the configuration that is prepared for it; the checkpoint is saved before.\<close>

definition resumeFromCheckpoint ::
  "'s fork_env \<Rightarrow> 'o EventLog \<Rightarrow> ('l, 'o, 's) ForkConfig \<Rightarrow> gerror + goval \<Rightarrow> Event list \<Rightarrow> 'o option \<Rightarrow>
     'o option \<times> 's \<times> (gerror + goval)" where
  "resumeFromCheckpoint env lo cfg run pre outs =
     (let threadID = (if fc_TraceID cfg = [] then ''fork-'' @ fc_Point cfg else fc_TraceID cfg);
          (cp, cpID) = BuildCheckpoint (fe_cx env) (fe_enc env) (fe_cpid env) pre threadID;
          saver = (case fc_Checkpointer cfg of None \<Rightarrow> fe_fresh env | Some s \<Rightarrow> s)
      in case fe_put env (gm_set ConfigKeyCheckpointID (GStr cpID) (gm_set ConfigKeyThreadID (GStr threadID) [])) cp saver of
           (saver', Inl err) \<Rightarrow> (outs, saver', Inl (WrapError ''save fork checkpoint'' [] err))
         | (saver', Inr _) \<Rightarrow>
             (case run of
                Inl err \<Rightarrow> (outs, saver', Inl err)
              | Inr state \<Rightarrow>
                  (map_option (\<lambda>o'. fst (el_Append lo [Seal (fe_cx env) (with_meta ''fork_replay'' (GBool True)
                      ((NewEvent (fe_end_id env) (fe_now env) EventGraphEnd 0)\<lparr>ev_TraceID := fork_trace (fc_TraceID cfg) (fc_Point cfg)\<rparr>))] o')) outs,
                   saver', Inr state)))"

definition Fork ::
  "'s fork_env \<Rightarrow> 'l EventLog \<Rightarrow> 'o EventLog \<Rightarrow> 'l \<Rightarrow> ('l, 'o, 's) ForkConfig \<Rightarrow> 'o option \<times> 's option \<times> (gerror + ForkResult)" where
  "Fork env lg lo engineStore cfg =
     (let store = (case fc_Store cfg of None \<Rightarrow> engineStore | Some s \<Rightarrow> s)
      in case el_Get lg (fc_Point cfg) store of
           None \<Rightarrow> (fc_OutputStore cfg, fc_Checkpointer cfg, Inl (PlainError ''event not found'' [fc_Point cfg]))
         | Some forkEvent \<Rightarrow>
             (let pre = el_Stream lg (trace_filter (fc_TraceID cfg) 0 (ev_Clock forkEvent - 1)) store;
                  marker = fork_marker env (fc_TraceID cfg) (fc_Point cfg);
                  appended = (case fc_OutputStore cfg of
                      None \<Rightarrow> (None, Inr (pre @ [marker]))
                    | Some outs \<Rightarrow> (let (outs', res) = el_Append lo (pre @ [marker]) outs in (Some outs', res)))
              in case appended of
                   (outs, Inl err) \<Rightarrow> (outs, fc_Checkpointer cfg, Inl err)
                 | (outs, Inr evs) \<Rightarrow>
                     (let result = \<lparr>fr_ForkTraceID = fork_trace (fc_TraceID cfg) (fc_Point cfg), fr_ForkEvents = evs,
                                    fr_ParentTraceID = fc_TraceID cfg, fr_ForkPoint = fc_Point cfg, fr_FinalState = GNil\<rparr>
                      in case fc_Engine cfg of
                           None \<Rightarrow> (outs, fc_Checkpointer cfg, Inr result)
                         | Some run \<Rightarrow>
                             (case resumeFromCheckpoint env lo cfg run pre outs of
                                (outs', saver, Inl err) \<Rightarrow> (outs', Some saver, Inl (WrapError ''fork resume'' [] err))
                              | (outs', saver, Inr state) \<Rightarrow> (outs', Some saver, Inr (result\<lparr>fr_FinalState := state\<rparr>))))))"

section \<open>Replay\<close>

text \<open>What a replay leaves of an event: all but its payload and hash, and these too unless it is the end of a model call or the
  result of a tool.\<close>

lemma replay_one_kept:
  assumes "replay_one cx mo to ev = Inr ev'"
  shows "ev' = ev\<lparr>ev_Payload := ev_Payload ev', ev_Hash := ev_Hash ev'\<rparr>"
    and "ev_Type ev \<noteq> EventLLMCallEnd \<Longrightarrow> ev_Type ev \<noteq> EventToolCallResult \<Longrightarrow> ev' = ev"
  using assms by (auto simp: replay_one_def Let_def Seal_def split: EventType.splits sum.splits option.splits if_splits)

lemma replay_all_kept:
  "replay_all cx mo to evs = Inr evs' \<Longrightarrow> list_all2 (\<lambda>ev ev'. replay_one cx mo to ev = Inr ev') evs evs'"
  by (induction evs arbitrary: evs') (auto split: sum.splits)

lemma diff_replayed_bound:
  "list_all2 (\<lambda>ev ev'. ev_Type ev' = ev_Type ev) evs evs' \<Longrightarrow> length (diffEventLists evs evs') \<le> length evs'"
  by (induction evs evs' rule: list_all2_induct) (simp_all add: pair_divergences_def)

lemma diff_replayed_set:
  "list_all2 (\<lambda>ev ev'. ev_Type ev' = ev_Type ev) evs evs' \<Longrightarrow> d \<in> set (diffEventLists evs evs') \<Longrightarrow>
     \<exists>i < length evs. dv_OriginalEvent d = Some (evs ! i) \<and> dv_ReplayEvent d = Some (evs' ! i) \<and> ev_Hash (evs ! i) \<noteq> ev_Hash (evs' ! i)"
proof (induction evs evs' rule: list_all2_induct)
  case (Cons x xs y ys)
  show ?case
  proof (cases "d \<in> set (pair_divergences x y)")
    case True
    then show ?thesis
      using Cons.hyps(1) by (intro exI [of _ 0]) (auto simp: pair_divergences_def split: if_splits)
  next
    case False
    then obtain i where "i < length xs" "dv_OriginalEvent d = Some (xs ! i)" "dv_ReplayEvent d = Some (ys ! i)" "ev_Hash (xs ! i) \<noteq> ev_Hash (ys ! i)"
      using Cons.IH Cons.prems by auto
    then show ?thesis
      by (intro exI [of _ "Suc i"]) simp
  qed
qed simp

lemma replay_type: "replay_one cx mo to ev = Inr ev' \<Longrightarrow> ev_Type ev' = ev_Type ev"
  by (drule replay_one_kept(1)) (metis Event.select_convs(2) Event.surjective Event.update_convs(12,15))

lemma state_overrides_length: "state_overrides cx ov evs = Inr evs' \<Longrightarrow> length evs' = length evs"
  by (induction evs arbitrary: evs') (auto split: if_splits sum.splits)

text \<open>The result of a replay that succeeds.\<close>

lemma Replay_result:
  assumes "Replay cx lg lo engineStore cfg = (outs, Inr res)"
  obtains read originals replays where
    "read = el_Stream lg (trace_filter (rc_TraceID cfg) (rc_Start cfg) (rc_End cfg)) (case rc_Store cfg of None \<Rightarrow> engineStore | Some s \<Rightarrow> s)"
    "(case rc_StateOverride cfg of None \<Rightarrow> Inr read | Some ov \<Rightarrow> state_overrides cx ov read) = Inr originals"
    "replay_all cx (case rc_ModelOverride cfg of None \<Rightarrow> exact_model | Some f \<Rightarrow> f)
       (case rc_ToolOverride cfg of None \<Rightarrow> ReplayExactTools | Some f \<Rightarrow> f) originals = Inr replays"
    "rr_OriginalLen res = length read" "rr_ReplayLen res = length replays"
    "rr_Divergences res = (if rc_DiffEnabled cfg then diffEventLists originals replays else [])"
    "rr_Metrics res = \<lparr>rm_TotalEvents = int (length replays), rm_DivergenceCount = int (length (rr_Divergences res)),
       rm_MatchCount = int (length replays) - int (length (rr_Divergences res))\<rparr>"
  using assms unfolding Replay_def Let_def by (auto split: sum.splits option.splits prod.splits if_splits)

text \<open>A replay has as many events as the trace; its metrics add up and are not negative; and every divergence it reports is an
  end of a model call or a result of a tool whose payload was changed, and nothing else of the event was.\<close>

theorem replay_divergences:
  assumes "Replay cx lg lo engineStore cfg = (outs, Inr res)"
  shows "rr_ReplayLen res = rr_OriginalLen res \<and> rm_TotalEvents (rr_Metrics res) = int (rr_ReplayLen res) \<and>
    0 \<le> rm_MatchCount (rr_Metrics res) \<and>
    rm_MatchCount (rr_Metrics res) + rm_DivergenceCount (rr_Metrics res) = rm_TotalEvents (rr_Metrics res) \<and>
    (\<forall>d \<in> set (rr_Divergences res). \<exists>ev ev'. dv_OriginalEvent d = Some ev \<and> dv_ReplayEvent d = Some ev' \<and>
       ev_Type ev \<in> {EventLLMCallEnd, EventToolCallResult} \<and> ev_Hash ev' \<noteq> ev_Hash ev \<and>
       ev' = ev\<lparr>ev_Payload := ev_Payload ev', ev_Hash := ev_Hash ev'\<rparr>)"
proof -
  obtain read originals replays mo to where r:
      "(case rc_StateOverride cfg of None \<Rightarrow> Inr read | Some ov \<Rightarrow> state_overrides cx ov read) = Inr originals"
      "replay_all cx mo to originals = Inr replays" "rr_OriginalLen res = length read" "rr_ReplayLen res = length replays"
      "rr_Divergences res = (if rc_DiffEnabled cfg then diffEventLists originals replays else [])"
      "rr_Metrics res = \<lparr>rm_TotalEvents = int (length replays), rm_DivergenceCount = int (length (rr_Divergences res)),
         rm_MatchCount = int (length replays) - int (length (rr_Divergences res))\<rparr>"
    using Replay_result [OF assms] by metis
  have all: "list_all2 (\<lambda>ev ev'. replay_one cx mo to ev = Inr ev') originals replays"
    using r(2) by (rule replay_all_kept)
  then have types: "list_all2 (\<lambda>ev ev'. ev_Type ev' = ev_Type ev) originals replays"
    by (rule list_all2_mono) (rule replay_type)
  have "length originals = length read"
    using r(1) state_overrides_length by (auto split: option.splits)
  then have len: "length replays = length read"
    using list_all2_lengthD [OF all] by simp
  have bound: "length (rr_Divergences res) \<le> length replays"
    using diff_replayed_bound [OF types] r(5) by simp
  have "\<exists>ev ev'. dv_OriginalEvent d = Some ev \<and> dv_ReplayEvent d = Some ev' \<and>
       ev_Type ev \<in> {EventLLMCallEnd, EventToolCallResult} \<and> ev_Hash ev' \<noteq> ev_Hash ev \<and>
       ev' = ev\<lparr>ev_Payload := ev_Payload ev', ev_Hash := ev_Hash ev'\<rparr>" if "d \<in> set (rr_Divergences res)" for d
  proof -
    have "d \<in> set (diffEventLists originals replays)"
      using that r(5) by (simp split: if_splits)
    then obtain i where i: "i < length originals" "dv_OriginalEvent d = Some (originals ! i)" "dv_ReplayEvent d = Some (replays ! i)"
        "ev_Hash (originals ! i) \<noteq> ev_Hash (replays ! i)"
      using diff_replayed_set [OF types] by blast
    have "replay_one cx mo to (originals ! i) = Inr (replays ! i)"
      using list_all2_nthD [OF all i(1)] .
    from replay_one_kept [OF this] i show ?thesis
      by (intro exI [of _ "originals ! i"] exI [of _ "replays ! i"] conjI) (simp_all, metis)
  qed
  with r len bound show ?thesis
    by simp
qed

text \<open>A payload that was decoded from JSON encodes, and its encoding decodes to it again. Encoding what was decoded need not give the bytes
  that were read: the keys of objects, for one, are sorted.\<close>

definition json_stable :: "codec \<Rightarrow> bool" where
  "json_stable cx \<longleftrightarrow>
     (\<forall>ev. (\<exists>q. cx_enc cx (PLLM (parse_llm cx ev)) = Some q \<and> fst (cx_llm cx q) = parse_llm cx ev) \<and>
           (\<exists>q. cx_enc cx (PTool (parse_tool cx ev)) = Some q \<and> fst (cx_tool cx q) = parse_tool cx ev))"

text \<open>Two events that differ in the bytes of their payload at most, and in these only where they are the end of a model call or the result
  of a tool.\<close>

definition same_call :: "codec \<Rightarrow> Event \<Rightarrow> Event \<Rightarrow> bool" where
  "same_call cx ev ev' \<longleftrightarrow>
     ev' = ev\<lparr>ev_Payload := ev_Payload ev', ev_Hash := ev_Hash ev'\<rparr> \<and>
     (if ev_Type ev = EventLLMCallEnd then parse_llm cx ev' = parse_llm cx ev
      else if ev_Type ev = EventToolCallResult then parse_tool cx ev' = parse_tool cx ev
      else ev' = ev)"

lemma replay_one_exact:
  assumes "json_stable cx"
  shows "\<exists>ev'. replay_one cx exact_model ReplayExactTools ev = Inr ev' \<and> replay_one cx exact_model ReplayExactTools ev' = Inr ev' \<and>
    same_call cx ev ev'"
proof -
  obtain q r where q: "cx_enc cx (PLLM (parse_llm cx ev)) = Some q" "fst (cx_llm cx q) = parse_llm cx ev"
    and r: "cx_enc cx (PTool (parse_tool cx ev)) = Some r" "fst (cx_tool cx r) = parse_tool cx ev"
    using assms unfolding json_stable_def by blast
  note d = replay_one_def exact_model_def ReplayExactTools_def same_call_def Let_def Seal_def
  consider "ev_Type ev = EventLLMCallEnd" | "ev_Type ev = EventToolCallResult" "tcp_Result (parse_tool cx ev) \<noteq> GNil"
    | "ev_Type ev \<noteq> EventLLMCallEnd" "ev_Type ev = EventToolCallResult \<longrightarrow> tcp_Result (parse_tool cx ev) = GNil"
    by blast
  then show ?thesis
  proof cases
    case 1
    let ?e = "Seal cx (ev\<lparr>ev_Payload := Some q\<rparr>)"
    have "parse_llm cx ?e = parse_llm cx ev"
      using q(2) by (simp add: parse_llm_def Seal_def)
    with 1 q show ?thesis
      by (intro exI [of _ ?e]) (simp add: d computeHash_def)
  next
    case 2
    let ?e = "Seal cx (ev\<lparr>ev_Payload := Some r\<rparr>)"
    have "parse_tool cx ?e = parse_tool cx ev"
      using r(2) by (simp add: parse_tool_def Seal_def)
    with 2 r show ?thesis
      by (intro exI [of _ ?e]) (simp add: d computeHash_def)
  next
    case 3
    then show ?thesis
      by (intro exI [of _ ev]) (cases "ev_Type ev"; simp add: d)
  qed
qed

lemma replay_all_exact:
  assumes "json_stable cx"
  shows "\<exists>evs'. replay_all cx exact_model ReplayExactTools evs = Inr evs' \<and> replay_all cx exact_model ReplayExactTools evs' = Inr evs' \<and>
    list_all2 (same_call cx) evs evs'"
proof (induction evs)
  case (Cons ev evs)
  then show ?case
    using replay_one_exact [OF assms, of ev] by fastforce
qed simp

lemma diff_same: "diffEventLists evs evs = []"
  by (induction evs) (simp_all add: pair_divergences_def)

text \<open>Events that agree in type are compared by their hashes.\<close>

lemma diff_by_hash:
  "list_all2 (\<lambda>ev ev'. ev_Type ev' = ev_Type ev) evs evs' \<Longrightarrow>
     map (\<lambda>d. (dv_OriginalEvent d, dv_ReplayEvent d)) (diffEventLists evs evs') =
     map (\<lambda>(ev, ev'). (Some ev, Some ev')) (filter (\<lambda>(ev, ev'). ev_Hash ev \<noteq> ev_Hash ev') (zip evs evs'))"
  by (induction evs evs' rule: list_all2_induct) (simp_all add: pair_divergences_def)

lemma same_call_type: "same_call cx ev ev' \<Longrightarrow> ev_Type ev' = ev_Type ev"
  unfolding same_call_def by (metis Event.select_convs(2) Event.surjective Event.update_convs(12,15))

definition no_overrides :: "('l, 'o) ReplayConfig \<Rightarrow> bool" where
  "no_overrides cfg \<longleftrightarrow> rc_ModelOverride cfg = None \<and> rc_ToolOverride cfg = None \<and> rc_StateOverride cfg = None"

definition replay_input :: "'l EventLog \<Rightarrow> 'l \<Rightarrow> ('l, 'o) ReplayConfig \<Rightarrow> Event list" where
  "replay_input lg engineStore cfg =
     el_Stream lg (trace_filter (rc_TraceID cfg) (rc_Start cfg) (rc_End cfg)) (case rc_Store cfg of None \<Rightarrow> engineStore | Some s \<Rightarrow> s)"

lemma replay_without_overrides:
  assumes "no_overrides cfg" and "replay_all cx exact_model ReplayExactTools (replay_input lg engineStore cfg) = Inr evs'"
  shows "fst (Replay cx lg lo engineStore cfg) = map_option (\<lambda>outs. fst (el_Append lo evs' outs)) (rc_OutputStore cfg)"
    and "snd (Replay cx lg lo engineStore cfg) = Inr res \<Longrightarrow>
      rr_OriginalLen res = length (replay_input lg engineStore cfg) \<and> rr_ReplayLen res = length evs' \<and>
      rr_Divergences res = (if rc_DiffEnabled cfg then diffEventLists (replay_input lg engineStore cfg) evs' else [])"
    and "rc_OutputStore cfg = None \<Longrightarrow> \<exists>res. snd (Replay cx lg lo engineStore cfg) = Inr res"
  using assms by (auto simp: Replay_def Let_def no_overrides_def replay_input_def split: option.splits sum.splits prod.splits)

text \<open>C32: A replay without substitutions repeats the calls of the trace: it has the same events, with the same contents of model calls and
  results of tools, and these go to the output store. With comparison on, it reports a divergence exactly at the events whose
  hash the encoding of the same contents changes; and a second replay, of the events the first one made, reports none.
  What JSON decodes must decode to the same when it is encoded again.\<close>

theorem exact_replay:
  assumes "no_overrides cfg" and "json_stable cx" and "evs = replay_input lg engineStore cfg"
  shows "\<exists>evs'. list_all2 (same_call cx) evs evs' \<and>
    fst (Replay cx lg lo engineStore cfg) = map_option (\<lambda>outs. fst (el_Append lo evs' outs)) (rc_OutputStore cfg) \<and>
    (rc_OutputStore cfg = None \<longrightarrow> (\<exists>res. snd (Replay cx lg lo engineStore cfg) = Inr res)) \<and>
    (\<forall>res. snd (Replay cx lg lo engineStore cfg) = Inr res \<longrightarrow>
       rr_OriginalLen res = length evs \<and> rr_ReplayLen res = length evs \<and>
       map (\<lambda>d. (dv_OriginalEvent d, dv_ReplayEvent d)) (rr_Divergences res) =
         (if rc_DiffEnabled cfg
          then map (\<lambda>(ev, ev'). (Some ev, Some ev')) (filter (\<lambda>(ev, ev'). ev_Hash ev \<noteq> ev_Hash ev') (zip evs evs')) else [])) \<and>
    (\<forall>cfg2 store2 res2. no_overrides cfg2 \<longrightarrow> replay_input lg store2 cfg2 = evs' \<longrightarrow>
       snd (Replay cx lg lo store2 cfg2) = Inr res2 \<longrightarrow> rr_Divergences res2 = [])"
proof -
  obtain evs' where evs': "replay_all cx exact_model ReplayExactTools evs = Inr evs'"
      "replay_all cx exact_model ReplayExactTools evs' = Inr evs'" and same: "list_all2 (same_call cx) evs evs'"
    using replay_all_exact [OF assms(2)] by blast
  have "list_all2 (\<lambda>ev ev'. ev_Type ev' = ev_Type ev) evs evs'"
    using same by (rule list_all2_mono) (rule same_call_type)
  note pairs = diff_by_hash [OF this] list_all2_lengthD [OF same]
  note first = replay_without_overrides [OF assms(1), of cx lg engineStore evs' lo, folded assms(3), OF evs'(1)]
  have "rr_Divergences res2 = []"
    if "no_overrides cfg2" "replay_input lg store2 cfg2 = evs'" "snd (Replay cx lg lo store2 cfg2) = Inr res2" for cfg2 store2 res2
    using replay_without_overrides(2) [OF that(1) _ that(3)] that(2) evs'(2) by (simp add: diff_same)
  with same first pairs show ?thesis
    by (intro exI [of _ evs'] conjI allI impI) simp_all
qed

text \<open>A state override never shows among the divergences: the replaced event is compared with itself.\<close>

theorem state_override_not_compared:
  assumes "Replay cx lg lo engineStore cfg = (outs, Inr res)" and "d \<in> set (rr_Divergences res)"
  shows "\<exists>ev. dv_OriginalEvent d = Some ev \<and> ev_Type ev \<noteq> EventStateWrite"
  using replay_divergences [OF assms(1)] assms(2) by fastforce

text \<open>An override that asks for the live tool leaves the recorded result in place.\<close>

theorem live_tools_keep_recorded: "ev_Type ev = EventToolCallResult \<Longrightarrow> replay_one cx mo ReplayLiveTools ev = Inr ev"
  by (simp add: replay_one_def ReplayLiveTools_def Let_def)

section \<open>The rebuilt checkpoint\<close>

definition reserved_keys :: "string set" where
  "reserved_keys = {ConfigKeyThreadID, ConfigKeyCheckpointID, pregel_id_key, ''__last_state__'', ''__completed_tasks__'',
     ''__last_completed_node__'', ''__step__''}"

text \<open>The writes to channels and the ends of nodes in a list of events.\<close>

definition state_writes :: "codec \<Rightarrow> Event list \<Rightarrow> gostate" where
  "state_writes cx evs =
     map (\<lambda>ev. (stp_Channel (parse_state cx ev), stp_NewValue (parse_state cx ev)))
       (filter (\<lambda>ev. ev_Type ev = EventStateWrite \<and> stp_Channel (parse_state cx ev) \<noteq> []) evs)"

definition ended_nodes :: "Event list \<Rightarrow> string list" where
  "ended_nodes evs = map ev_Node (filter (\<lambda>ev. ev_Type ev = EventNodeEnd) evs)"

lemma build_fold:
  "\<exists>step. fold (build_event cx) evs (cp, completed, lastNode, lastStep) =
     (fold (\<lambda>(k, v) m. gm_set k v m) (state_writes cx evs) cp, completed @ ended_nodes evs,
      last (lastNode # ended_nodes evs), step)"
proof (induction evs arbitrary: cp completed lastNode lastStep)
  case (Cons ev evs)
  let ?b = "build_event cx ev (cp, completed, lastNode, lastStep)"
  obtain cp' completed' lastNode' lastStep' where b: "?b = (cp', completed', lastNode', lastStep')"
    by (cases ?b)
  have "cp' = fold (\<lambda>(k, v) m. gm_set k v m) (state_writes cx [ev]) cp" "completed' = completed @ ended_nodes [ev]"
      "lastNode' = last (lastNode # ended_nodes [ev])"
    using b by (auto simp: build_event_def state_writes_def ended_nodes_def Let_def split: EventType.splits if_splits)
  moreover have "state_writes cx (ev # evs) = state_writes cx [ev] @ state_writes cx evs" "ended_nodes (ev # evs) = ended_nodes [ev] @ ended_nodes evs"
    by (simp_all add: state_writes_def ended_nodes_def)
  ultimately show ?case
    using Cons.IH [of cp' completed' lastNode' lastStep'] b by (auto simp: last_append)
qed (simp add: state_writes_def ended_nodes_def)

lemma fold_gm_set_lookup: "map_of (fold (\<lambda>(k, v) m. gm_set k v m) ws cp) k = (case map_of (rev ws) k of None \<Rightarrow> map_of cp k | Some v \<Rightarrow> Some v)"
  by (induction ws arbitrary: cp) (auto simp: gomap_simps map_add_def split: option.splits)

lemma base_checkpoint_lookup:
  "map_of (base_checkpoint cpid threadID) k =
     (if k = pregel_id_key \<or> k = ConfigKeyCheckpointID then Some (GStr cpid) else if k = ConfigKeyThreadID then Some (GStr threadID) else None)"
  by (auto simp: base_checkpoint_def gm_set_lookup pregel_id_key_def ConfigKeyThreadID_def ConfigKeyCheckpointID_def)

definition finish_keys :: "string set" where
  "finish_keys = {''__last_state__'', ''__completed_tasks__'', ''__last_completed_node__'', ''__step__''}"

lemma base_checkpoint_finish: "k \<in> finish_keys \<Longrightarrow> map_of (base_checkpoint cpid threadID) k = None"
  and base_checkpoint_thread: "map_of (base_checkpoint cpid threadID) ConfigKeyThreadID = Some (GStr threadID)"
  by (auto simp: base_checkpoint_lookup finish_keys_def pregel_id_key_def ConfigKeyThreadID_def ConfigKeyCheckpointID_def)

lemma finish_checkpoint_other: "k \<notin> finish_keys \<Longrightarrow> map_of (finish_checkpoint enc (cp, completed, lastNode, step)) k = map_of cp k"
  by (simp add: finish_checkpoint_def finish_keys_def Let_def gm_set_lookup split: option.split)

lemma finish_checkpoint_keys:
  "map_of (finish_checkpoint enc (cp, completed, lastNode, step)) ''__completed_tasks__'' =
     (if completed = [] then map_of cp ''__completed_tasks__'' else Some (GStr (join_with [NUL] completed)))"
  "map_of (finish_checkpoint enc (cp, completed, lastNode, step)) ''__last_completed_node__'' =
     (if lastNode = [] then map_of cp ''__last_completed_node__'' else Some (GStr lastNode))"
  by (simp_all add: finish_checkpoint_def Let_def gm_set_lookup split: option.split)

text \<open>C33: The checkpoint rebuilt from events gives every channel the value last written to it, and a run that resumes from it finds exactly
  the nodes that ended as completed and the last of them as the last node. Channels must not be named like the keys of the
  checkpoint, and nodes not be empty or hold a NUL byte.\<close>

theorem BuildCheckpoint_resumes:
  assumes "fst (BuildCheckpoint cx enc cpid evs threadID) = cp"
    and "\<forall>k \<in> fst ` set (state_writes cx evs). k \<notin> reserved_keys"
    and "\<forall>n \<in> set (ended_nodes evs). n \<noteq> [] \<and> NUL \<notin> set n"
  shows "(\<forall>k. k \<notin> reserved_keys \<longrightarrow> map_of cp k = map_of (rev (state_writes cx evs)) k) \<and>
    (\<forall>n. gm_true (restored_completed cp) n \<longleftrightarrow> n \<in> set (ended_nodes evs)) \<and>
    restored_last_node cp = last ([] # ended_nodes evs) \<and> map_of cp ConfigKeyThreadID = Some (GStr threadID)"
proof -
  let ?cp1 = "fold (\<lambda>(k, v) m. gm_set k v m) (state_writes cx evs) (base_checkpoint cpid threadID)"
  obtain step where "fold (build_event cx) evs (base_checkpoint cpid threadID, [], [], 0) = (?cp1, ended_nodes evs, last ([] # ended_nodes evs), step)"
    using build_fold [of cx evs "base_checkpoint cpid threadID" "[]" "[]" 0] by auto
  then have cp: "cp = finish_checkpoint enc (?cp1, ended_nodes evs, last ([] # ended_nodes evs), step)"
    using assms(1) by (simp add: BuildCheckpoint_def)
  have none: "map_of (rev (state_writes cx evs)) k = None" if "k \<in> reserved_keys" for k
    using assms(2) that by (auto simp: map_of_eq_None_iff)
  have keys: "map_of cp k = map_of ?cp1 k" if "k \<notin> finish_keys" for k
    unfolding cp by (rule finish_checkpoint_other [OF that])
  have ct: "map_of cp ''__completed_tasks__'' = (if ended_nodes evs = [] then None else Some (GStr (join_with [NUL] (ended_nodes evs))))"
    using none [of "''__completed_tasks__''"]
    by (simp add: cp finish_checkpoint_keys fold_gm_set_lookup reserved_keys_def base_checkpoint_finish finish_keys_def)
  have ln: "map_of cp ''__last_completed_node__'' = (if last ([] # ended_nodes evs) = [] then None else Some (GStr (last ([] # ended_nodes evs))))"
    using none [of "''__last_completed_node__''"]
    by (simp add: cp finish_checkpoint_keys fold_gm_set_lookup reserved_keys_def base_checkpoint_finish finish_keys_def)
  have "gm_true (restored_completed cp) n \<longleftrightarrow> n \<in> set (ended_nodes evs)" for n
  proof (cases "ended_nodes evs = []")
    case False
    then have sp: "split_on NUL (join_with [NUL] (ended_nodes evs)) = ended_nodes evs"
      using assms(3) by (intro split_join) auto
    moreover from this have "join_with [NUL] (ended_nodes evs) \<noteq> []"
      using assms(3) False by (metis list.set_intros(1) split_on.simps(1))
    ultimately show ?thesis
      using False by (simp add: restored_completed_def ct deserializeStringSet_def fold_set_true)
  qed (simp add: restored_completed_def ct)
  moreover have "map_of cp k = map_of (rev (state_writes cx evs)) k" if "k \<notin> reserved_keys" for k
    using keys [of k] that by (auto simp: fold_gm_set_lookup base_checkpoint_lookup reserved_keys_def finish_keys_def split: option.splits)
  moreover have "map_of cp ConfigKeyThreadID = Some (GStr threadID)"
    using keys [of ConfigKeyThreadID] none [of ConfigKeyThreadID]
    by (simp add: fold_gm_set_lookup base_checkpoint_thread reserved_keys_def) (simp add: finish_keys_def ConfigKeyThreadID_def)
  ultimately show ?thesis
    by (auto simp: restored_last_node_def ln)
qed

section \<open>Forks\<close>

lemma u64_le_pred: "0 < c \<Longrightarrow> x \<le> c - 1 \<longleftrightarrow> x < c" for x c :: u64
proof -
  assume "0 < c"
  then have "unat (c - 1) = unat c - 1" "0 < unat c"
    by (simp_all add: unat_minus_one word_gt_0 unat_gt_0)
  then show ?thesis
    by (auto simp: word_le_nat_alt word_less_nat_alt)
qed

lemma Matches_trace_filter_fun:
  "Matches (trace_filter t a b) = (\<lambda>ev. (t = [] \<or> ev_TraceID ev = t) \<and> (a = 0 \<or> a \<le> ev_Clock ev) \<and> (b = 0 \<or> ev_Clock ev \<le> b))"
  by (rule ext) (rule Matches_trace_filter)

context event_log
begin

text \<open>The events before a fork point, read from any log.\<close>

lemma fork_prefix:
  assumes "good s" and "el_Get ops point s = Some ev" and "1 < ev_Clock ev" and "traceID \<noteq> []"
  shows "el_Stream ops (trace_filter traceID 0 (ev_Clock ev - 1)) s =
    filter (\<lambda>e. ev_TraceID e = traceID \<and> ev_Clock e < ev_Clock ev) (content s)"
proof -
  have "0 < ev_Clock ev" "ev_Clock ev - 1 \<noteq> 0"
    using assms(3) by (auto simp: word_gt_0)
  then show ?thesis
    using stream_content [OF assms(1)] assms(4) by (simp add: Matches_trace_filter_fun u64_le_pred)
qed

end

text \<open>A fork at an event after the first takes over exactly the events of the trace that precede it, in their order, and adds
  its marker; with an engine it saves the checkpoint rebuilt from them under the trace, and fails for a point that is not in the
  store.\<close>

theorem Fork_spec:
  assumes "store_ok s" and "fc_Store cfg = Some s" and "fc_OutputStore cfg = None" and "fc_TraceID cfg \<noteq> []"
    and "pre = filter (\<lambda>e. ev_TraceID e = fc_TraceID cfg \<and> ev_Clock e < ev_Clock ev) (ms_events s)"
    and "MS_Get (fc_Point cfg) s = Some ev" and "1 < ev_Clock ev"
  shows "(fc_Engine cfg = None \<longrightarrow> (\<exists>res. Fork env (memory_log cx) lo s0 cfg = (None, fc_Checkpointer cfg, Inr res) \<and>
      fr_ForkEvents res = pre @ [fork_marker env (fc_TraceID cfg) (fc_Point cfg)])) \<and>
    (\<forall>state saver'. fc_Engine cfg = Some (Inr state) \<longrightarrow>
       fe_put env [(ConfigKeyThreadID, GStr (fc_TraceID cfg)), (ConfigKeyCheckpointID, GStr (fe_cpid env))]
         (fst (BuildCheckpoint (fe_cx env) (fe_enc env) (fe_cpid env) pre (fc_TraceID cfg)))
         (case fc_Checkpointer cfg of None \<Rightarrow> fe_fresh env | Some x \<Rightarrow> x) = (saver', Inr ()) \<longrightarrow>
       (\<exists>res. Fork env (memory_log cx) lo s0 cfg = (None, Some saver', Inr res) \<and> fr_FinalState res = state \<and>
          fr_ForkEvents res = pre @ [fork_marker env (fc_TraceID cfg) (fc_Point cfg)]))"
proof -
  have get: "el_Get (memory_log cx) (fc_Point cfg) s = Some ev"
    using assms(6) by (simp add: memory_log_def)
  have pre: "el_Stream (memory_log cx) (trace_filter (fc_TraceID cfg) 0 (ev_Clock ev - 1)) s = pre"
    using memory.fork_prefix [OF assms(1) get assms(7,4)] assms(5) by simp
  have cfgmap: "gm_set ConfigKeyCheckpointID c (gm_set ConfigKeyThreadID t []) = [(ConfigKeyThreadID, t), (ConfigKeyCheckpointID, c)]" for c t
    by (simp add: ConfigKeyThreadID_def ConfigKeyCheckpointID_def)
  have "ConfigKeyThreadID \<noteq> ConfigKeyCheckpointID"
    by (simp add: ConfigKeyThreadID_def ConfigKeyCheckpointID_def)
  with assms(2,3,4) show ?thesis
    by (auto simp: Fork_def Let_def get pre resumeFromCheckpoint_def cfgmap BuildCheckpoint_def split_beta)
qed

text \<open>A fork at the first event takes over the whole trace instead of nothing: the upper bound 0 means no bound.\<close>

theorem first_event_fork_takes_all:
  assumes "store_ok s" and "fc_Store cfg = Some s" and "fc_OutputStore cfg = None" and "fc_Engine cfg = None"
    and "MS_Get (fc_Point cfg) s = Some ev" and "ev_Clock ev = 1" and "fc_TraceID cfg \<noteq> []"
  shows "\<exists>res. Fork env (memory_log cx) lo s0 cfg = (None, fc_Checkpointer cfg, Inr res) \<and>
    fr_ForkEvents res = filter (\<lambda>e. ev_TraceID e = fc_TraceID cfg) (ms_events s) @ [fork_marker env (fc_TraceID cfg) (fc_Point cfg)]"
proof -
  have get: "el_Get (memory_log cx) (fc_Point cfg) s = Some ev"
    using assms(5) by (simp add: memory_log_def)
  have "el_Stream (memory_log cx) (trace_filter (fc_TraceID cfg) 0 0) s = filter (\<lambda>e. ev_TraceID e = fc_TraceID cfg) (ms_events s)"
    using memory.stream_content [OF assms(1)] assms(7) by (simp add: Matches_trace_filter_fun)
  with assms(2,3,4,6) get show ?thesis
    by (simp add: Fork_def Let_def)
qed

section \<open>Comparing traces\<close>

lemma by_clock_lookup:
  assumes "distinct (map ev_Clock evs)"
  shows "map_of (by_clock evs) c = Some ev \<longleftrightarrow> ev \<in> set evs \<and> ev_Clock ev = c"
proof -
  have "map_of (fold (\<lambda>ev m. AList.update (ev_Clock ev) ev m) evs m) = map_of m ++ map_of (rev (map (\<lambda>ev. (ev_Clock ev, ev)) evs))" for m
    by (induction evs arbitrary: m) (simp_all add: update_conv')
  then have "map_of (by_clock evs) = map_of (rev (map (\<lambda>ev. (ev_Clock ev, ev)) evs))"
    by (simp add: by_clock_def)
  moreover have "distinct (map fst (rev (map (\<lambda>ev. (ev_Clock ev, ev)) evs)))"
    using assms by (simp add: rev_map [symmetric] comp_def)
  ultimately show ?thesis
    by (auto simp: map_of_eq_Some_iff)
qed

lemma diff_category_fields [simp]:
  "df_MissingInRight (diff_category cx c l r d) = df_MissingInRight d" "df_MissingInLeft (diff_category cx c l r d) = df_MissingInLeft d"
  "df_Mismatched (diff_category cx c l r d) = df_Mismatched d"
  by (cases "ev_Type l"; simp add: diff_category_def)+

lemma mismatch_eq:
  "m = \<lparr>em_Clock = c, em_LeftEvent = l, em_RightEvent = r, em_Field = f\<rparr> \<longleftrightarrow>
     em_Clock m = c \<and> em_LeftEvent m = l \<and> em_RightEvent m = r \<and> em_Field m = f"
  by (cases m) auto

lemma diff_pair_fields:
  assumes "diff_pair cx c l r d = Inr d'"
  shows "df_MissingInRight d' = df_MissingInRight d" and "df_MissingInLeft d' = df_MissingInLeft d"
    and "m \<in> set (df_Mismatched d') \<longleftrightarrow> m \<in> set (df_Mismatched d) \<or> em_Clock m = c \<and> em_LeftEvent m = l \<and> em_RightEvent m = r \<and>
      (ev_Type l \<noteq> ev_Type r \<and> em_Field m = ''type'' \<or> ev_Hash l \<noteq> ev_Hash r \<and> em_Field m = ''payload'')"
  using assms by (auto simp: diff_pair_def Let_def mismatch_eq split: if_splits)

text \<open>The comparison of two lists of events clock by clock, as sets.\<close>

lemma diff_clocks_spec:
  assumes "\<forall>c \<in> set cs. \<forall>e. map_of lm c = Some e \<or> map_of rm c = Some e \<longrightarrow> length (ev_Hash e) \<ge> 16"
  shows "\<exists>d'. diff_clocks cx lm rm cs d = Inr d' \<and>
    set (df_MissingInRight d') = set (df_MissingInRight d) \<union> {l. \<exists>c \<in> set cs. map_of lm c = Some l \<and> map_of rm c = None} \<and>
    set (df_MissingInLeft d') = set (df_MissingInLeft d) \<union> {r. \<exists>c \<in> set cs. map_of rm c = Some r \<and> map_of lm c = None} \<and>
    set (df_Mismatched d') = set (df_Mismatched d) \<union> {m. em_Clock m \<in> set cs \<and> map_of lm (em_Clock m) = Some (em_LeftEvent m) \<and>
      map_of rm (em_Clock m) = Some (em_RightEvent m) \<and>
      (ev_Type (em_LeftEvent m) \<noteq> ev_Type (em_RightEvent m) \<and> em_Field m = ''type'' \<or>
       ev_Hash (em_LeftEvent m) \<noteq> ev_Hash (em_RightEvent m) \<and> em_Field m = ''payload'')}"
  using assms
proof (induction cs arbitrary: d)
  case (Cons c cs)
  have "\<exists>d1. diff_clock cx lm rm c d = Inr d1 \<and>
      set (df_MissingInRight d1) = set (df_MissingInRight d) \<union> {l. map_of lm c = Some l \<and> map_of rm c = None} \<and>
      set (df_MissingInLeft d1) = set (df_MissingInLeft d) \<union> {r. map_of rm c = Some r \<and> map_of lm c = None} \<and>
      set (df_Mismatched d1) = set (df_Mismatched d) \<union> {m. em_Clock m = c \<and> map_of lm c = Some (em_LeftEvent m) \<and>
        map_of rm c = Some (em_RightEvent m) \<and>
        (ev_Type (em_LeftEvent m) \<noteq> ev_Type (em_RightEvent m) \<and> em_Field m = ''type'' \<or>
         ev_Hash (em_LeftEvent m) \<noteq> ev_Hash (em_RightEvent m) \<and> em_Field m = ''payload'')}"
  proof (cases "map_of lm c"; cases "map_of rm c")
    fix l r
    assume lr: "map_of lm c = Some l" "map_of rm c = Some r"
    then have "length (ev_Hash l) \<ge> 16" "length (ev_Hash r) \<ge> 16"
      using Cons.prems by auto
    then obtain d1 where d1: "diff_pair cx c l r d = Inr d1"
      by (auto simp: diff_pair_def Let_def)
    then show ?thesis
      using lr diff_pair_fields [OF d1] by (auto simp: diff_clock_def)
  qed (auto simp: diff_clock_def)
  then obtain d1 where d1: "diff_clock cx lm rm c d = Inr d1"
      "set (df_MissingInRight d1) = set (df_MissingInRight d) \<union> {l. map_of lm c = Some l \<and> map_of rm c = None}"
      "set (df_MissingInLeft d1) = set (df_MissingInLeft d) \<union> {r. map_of rm c = Some r \<and> map_of lm c = None}"
      "set (df_Mismatched d1) = set (df_Mismatched d) \<union> {m. em_Clock m = c \<and> map_of lm c = Some (em_LeftEvent m) \<and>
        map_of rm c = Some (em_RightEvent m) \<and>
        (ev_Type (em_LeftEvent m) \<noteq> ev_Type (em_RightEvent m) \<and> em_Field m = ''type'' \<or>
         ev_Hash (em_LeftEvent m) \<noteq> ev_Hash (em_RightEvent m) \<and> em_Field m = ''payload'')}"
    by blast
  show ?case
    using Cons.IH [of d1] Cons.prems d1 by auto
qed simp

text \<open>Comparing two traces whose clocks are unique and whose hashes are those of sealed events reports exactly the events whose clock the
  other trace lacks, and a mismatch exactly if two events of one clock differ in type or hash, whatever order the clocks are
  visited in.\<close>

theorem Diff_spec:
  assumes "store_ok left" and "store_ok right"
    and "les = filter (\<lambda>e. ev_TraceID e = lt) (ms_events left)" and "res = filter (\<lambda>e. ev_TraceID e = rt) (ms_events right)"
    and "lt \<noteq> []" and "rt \<noteq> []" and "distinct (map ev_Clock les)" and "distinct (map ev_Clock res)"
    and "\<forall>e \<in> set les \<union> set res. length (ev_Hash e) \<ge> 16" and "\<forall>cs. set (ord cs) = set cs"
  shows "\<exists>d. Diff cx ord (memory_log cx) (memory_log cx) left right lt rt = Inr d \<and>
    set (df_MissingInRight d) = {l \<in> set les. ev_Clock l \<notin> ev_Clock ` set res} \<and>
    set (df_MissingInLeft d) = {r \<in> set res. ev_Clock r \<notin> ev_Clock ` set les} \<and>
    (df_Mismatched d = [] \<longleftrightarrow>
       (\<forall>l \<in> set les. \<forall>r \<in> set res. ev_Clock l = ev_Clock r \<longrightarrow> ev_Type l = ev_Type r \<and> ev_Hash l = ev_Hash r))"
proof -
  let ?cs = "ord (remdups (map ev_Clock les @ map ev_Clock res))"
  let ?d0 = "\<lparr>df_MissingInRight = [], df_MissingInLeft = [], df_Mismatched = [], df_StateDiff = [], df_ToolCallDiff = [], df_LLMResponseDiff = []\<rparr>"
  have cs: "set ?cs = ev_Clock ` set les \<union> ev_Clock ` set res"
    using assms(10) by simp
  have streams: "el_Stream (memory_log cx) (trace_filter lt 0 0) left = les" "el_Stream (memory_log cx) (trace_filter rt 0 0) right = res"
    using memory.stream_content [OF assms(1)] memory.stream_content [OF assms(2)] assms(3-6) by (simp_all add: Matches_trace_filter_fun)
  have l: "map_of (by_clock les) c = Some e \<longleftrightarrow> e \<in> set les \<and> ev_Clock e = c" for c e
    by (rule by_clock_lookup [OF assms(7)])
  have r: "map_of (by_clock res) c = Some e \<longleftrightarrow> e \<in> set res \<and> ev_Clock e = c" for c e
    by (rule by_clock_lookup [OF assms(8)])
  have ln: "map_of (by_clock les) c = None \<longleftrightarrow> c \<notin> ev_Clock ` set les" for c
    using l by (metis (no_types, lifting) imageE image_eqI not_None_eq)
  have rn: "map_of (by_clock res) c = None \<longleftrightarrow> c \<notin> ev_Clock ` set res" for c
    using r by (metis (no_types, lifting) imageE image_eqI not_None_eq)
  have "\<forall>c \<in> set ?cs. \<forall>e. map_of (by_clock les) c = Some e \<or> map_of (by_clock res) c = Some e \<longrightarrow> length (ev_Hash e) \<ge> 16"
    using assms(9) by (auto simp: l r)
  from diff_clocks_spec [OF this, of cx ?d0] obtain d where d: "diff_clocks cx (by_clock les) (by_clock res) ?cs ?d0 = Inr d"
      "set (df_MissingInRight d) = {l. \<exists>c \<in> set ?cs. map_of (by_clock les) c = Some l \<and> map_of (by_clock res) c = None}"
      "set (df_MissingInLeft d) = {r. \<exists>c \<in> set ?cs. map_of (by_clock res) c = Some r \<and> map_of (by_clock les) c = None}"
      "set (df_Mismatched d) = {m. em_Clock m \<in> set ?cs \<and> map_of (by_clock les) (em_Clock m) = Some (em_LeftEvent m) \<and>
        map_of (by_clock res) (em_Clock m) = Some (em_RightEvent m) \<and>
        (ev_Type (em_LeftEvent m) \<noteq> ev_Type (em_RightEvent m) \<and> em_Field m = ''type'' \<or>
         ev_Hash (em_LeftEvent m) \<noteq> ev_Hash (em_RightEvent m) \<and> em_Field m = ''payload'')}"
    by auto
  have "(df_Mismatched d = []) = (\<forall>l \<in> set les. \<forall>r \<in> set res. ev_Clock l = ev_Clock r \<longrightarrow> ev_Type l = ev_Type r \<and> ev_Hash l = ev_Hash r)"
  proof
    assume none: "df_Mismatched d = []"
    show "\<forall>l \<in> set les. \<forall>r \<in> set res. ev_Clock l = ev_Clock r \<longrightarrow> ev_Type l = ev_Type r \<and> ev_Hash l = ev_Hash r"
    proof (intro ballI impI conjI)
      fix x y
      assume "x \<in> set les" "y \<in> set res" "ev_Clock x = ev_Clock y"
      then have "\<lparr>em_Clock = ev_Clock x, em_LeftEvent = x, em_RightEvent = y, em_Field = f\<rparr> \<notin> set (df_Mismatched d) \<Longrightarrow>
          \<not> (ev_Type x \<noteq> ev_Type y \<and> f = ''type'' \<or> ev_Hash x \<noteq> ev_Hash y \<and> f = ''payload'')" for f
        unfolding d(4) cs by (simp add: l r)
      from this [of "''type''"] this [of "''payload''"] none show "ev_Type x = ev_Type y" "ev_Hash x = ev_Hash y"
        by auto
    qed
  next
    assume same: "\<forall>l \<in> set les. \<forall>r \<in> set res. ev_Clock l = ev_Clock r \<longrightarrow> ev_Type l = ev_Type r \<and> ev_Hash l = ev_Hash r"
    have "set (df_Mismatched d) = {}"
      unfolding d(4) l r using same by fastforce
    then show "df_Mismatched d = []"
      by simp
  qed
  moreover have "set (df_MissingInRight d) = {l \<in> set les. ev_Clock l \<notin> ev_Clock ` set res}"
    unfolding d(2) cs l rn by auto
  moreover have "set (df_MissingInLeft d) = {r \<in> set res. ev_Clock r \<notin> ev_Clock ` set les}"
    unfolding d(3) cs r ln by auto
  ultimately show ?thesis
    using d(1) by (simp add: Diff_def Let_def streams)
qed

text \<open>Tool calls with the same outcome are listed among the differences as well.\<close>

theorem same_tool_calls_listed:
  "ev_Type l = EventToolCallResult \<Longrightarrow> \<exists>d'. diff_pair cx c l l d = Inr d' \<and> df_ToolCallDiff d' = df_ToolCallDiff d @ [extractToolName cx l]"
  by (simp add: diff_pair_def diff_category_def)

section \<open>An example\<close>

definition echo_codec :: codec where
  "echo_codec = plain_codec\<lparr>cx_sha := (\<lambda>x. ''0123456789abcdef'' @ x), cx_enc := (\<lambda>p. case p of PLLM q \<Rightarrow> Some (lcp_Content q) | PTool q \<Rightarrow> Some (tcp_ToolName q) | _ \<Rightarrow> None)\<rparr>"

definition demo_events :: "Event list" where
  "demo_events = [(NewEvent ''a'' 5 EventLLMCallEnd 0)\<lparr>ev_TraceID := ''t'', ev_Payload := Some ''hi''\<rparr>,
     (NewEvent ''b'' 9 EventNodeEnd 0)\<lparr>ev_TraceID := ''t'', ev_Node := ''n''\<rparr>]"

definition demo_log :: MemoryEventStore where
  "demo_log = fst (MS_Append echo_codec demo_events NewMemoryEventStore)"

definition demo_first :: Event where
  "demo_first = Seal echo_codec ((NewEvent ''a'' 5 EventLLMCallEnd 1)\<lparr>ev_TraceID := ''t'', ev_Payload := Some ''hi''\<rparr>)"

definition demo_second :: Event where
  "demo_second = Seal echo_codec ((NewEvent ''b'' 9 EventNodeEnd 2)\<lparr>ev_TraceID := ''t'', ev_Node := ''n''\<rparr>)"

lemma demo_log_events: "ms_events demo_log = [demo_first, demo_second]"
  by (simp add: demo_log_def demo_events_def demo_first_def demo_second_def MS_append_one_def NewMemoryEventStore_def NewEvent_def Seal_def
      computeHash_def Let_def)

lemma demo_log_ok: "store_ok demo_log"
proof -
  have "store_ok s \<Longrightarrow> store_ok (fst (MS_Append cx evs s))" for evs s cx
  proof (induction evs arbitrary: s)
    case (Cons ev evs)
    obtain s' ev' where a: "MS_append_one cx ev s = (s', ev')" by force
    show ?case
      using Cons.IH [OF store_ok_append [OF a Cons.prems]] by (simp add: a split_beta)
  qed simp
  then show ?thesis
    by (simp add: demo_log_def)
qed

lemmas demo_event_defs = demo_first_def demo_second_def NewEvent_def Seal_def computeHash_def echo_codec_def plain_codec_def

definition demo_config :: "ModelOverrideFunc option \<Rightarrow> (MemoryEventStore, MemoryEventStore) ReplayConfig" where
  "demo_config mo = \<lparr>rc_Store = Some demo_log, rc_TraceID = ''t'', rc_Start = 0, rc_End = 0, rc_ModelOverride = mo, rc_ToolOverride = None,
     rc_StateOverride = None, rc_OutputStore = None, rc_DiffEnabled = True\<rparr>"

lemma demo_stream: "el_Stream (memory_log echo_codec) (trace_filter ''t'' 0 0) demo_log = [demo_first, demo_second]"
  using memory.stream_content [OF demo_log_ok] by (simp add: Matches_trace_filter_fun demo_log_events demo_event_defs)

theorem replay_divergences_witness:
  "\<exists>res. Replay echo_codec (memory_log echo_codec) (memory_log echo_codec) NewMemoryEventStore
       (demo_config (Some (ReplaySubstituteModel (\<lambda>_. ''yo'')))) = (None, Inr res) \<and>
     length (rr_Divergences res) = 1 \<and> rm_MatchCount (rr_Metrics res) = 1"
proof -
  let ?R = "Replay echo_codec (memory_log echo_codec) (memory_log echo_codec) NewMemoryEventStore
       (demo_config (Some (ReplaySubstituteModel (\<lambda>_. ''yo''))))"
  let ?x = "Seal echo_codec (demo_first\<lparr>ev_Payload := Some ''yo''\<rparr>)"
  have "replay_one echo_codec (ReplaySubstituteModel (\<lambda>_. ''yo'')) ReplayExactTools demo_first = Inr ?x"
    "replay_one echo_codec (ReplaySubstituteModel (\<lambda>_. ''yo'')) ReplayExactTools demo_second = Inr demo_second"
    by (simp_all add: replay_one_def ReplaySubstituteModel_def demo_event_defs parse_llm_def Let_def)
  then have "replay_all echo_codec (ReplaySubstituteModel (\<lambda>_. ''yo'')) ReplayExactTools [demo_first, demo_second] = Inr [?x, demo_second]"
    by simp
  moreover have "length (diffEventLists [demo_first, demo_second] [?x, demo_second]) = 1"
    by (simp add: pair_divergences_def demo_event_defs)
  ultimately obtain res where r: "?R = (None, Inr res)" "length (rr_Divergences res) = 1" "rr_ReplayLen res = 2"
      "rm_DivergenceCount (rr_Metrics res) = 1"
    by (simp add: Replay_def demo_config_def demo_stream Let_def)
  with replay_divergences [OF r(1)] show ?thesis
    by simp
qed

lemma echo_stable: "json_stable echo_codec"
  by (simp add: json_stable_def parse_llm_def parse_tool_def echo_codec_def plain_codec_def zero_llm_def zero_tool_def split: option.split)

theorem exact_replay_witness:
  "\<exists>res evs'. snd (Replay echo_codec (memory_log echo_codec) (memory_log echo_codec) NewMemoryEventStore (demo_config None)) = Inr res \<and>
     rr_ReplayLen res = 2 \<and> list_all2 (same_call echo_codec) [demo_first, demo_second] evs' \<and>
     length (rr_Divergences res) = length (filter (\<lambda>(ev, ev'). ev_Hash ev \<noteq> ev_Hash ev') (zip [demo_first, demo_second] evs'))"
proof -
  let ?R = "Replay echo_codec (memory_log echo_codec) (memory_log echo_codec) NewMemoryEventStore (demo_config None)"
  let ?pairs = "\<lambda>evs'. filter (\<lambda>(ev, ev'). ev_Hash ev \<noteq> ev_Hash ev') (zip [demo_first, demo_second] evs')"
  have i: "[demo_first, demo_second] = replay_input (memory_log echo_codec) NewMemoryEventStore (demo_config None)"
    by (simp add: replay_input_def demo_config_def demo_stream)
  have c: "no_overrides (demo_config None)" "rc_OutputStore (demo_config None) = None" "rc_DiffEnabled (demo_config None)"
    by (simp_all add: no_overrides_def demo_config_def)
  obtain evs' where same: "list_all2 (same_call echo_codec) [demo_first, demo_second] evs'"
    and ok: "rc_OutputStore (demo_config None) = None \<longrightarrow> (\<exists>res. snd ?R = Inr res)"
    and all: "\<forall>res. snd ?R = Inr res \<longrightarrow> rr_OriginalLen res = length [demo_first, demo_second] \<and>
      rr_ReplayLen res = length [demo_first, demo_second] \<and> map (\<lambda>d. (dv_OriginalEvent d, dv_ReplayEvent d)) (rr_Divergences res) =
      (if rc_DiffEnabled (demo_config None) then map (\<lambda>(ev, ev'). (Some ev, Some ev')) (?pairs evs') else [])"
    using exact_replay [OF c(1) echo_stable i, of "memory_log echo_codec"] by (elim exE conjE)
  from ok c(2) obtain res where res: "snd ?R = Inr res"
    by blast
  from all [rule_format, OF res] c(3) have "rr_ReplayLen res = 2"
    and d: "map (\<lambda>d. (dv_OriginalEvent d, dv_ReplayEvent d)) (rr_Divergences res) = map (\<lambda>(ev, ev'). (Some ev, Some ev')) (?pairs evs')"
    by (simp_all only: if_True list.size)
  moreover have "length (rr_Divergences res) = length (?pairs evs')"
    using arg_cong [OF d, of length] by (simp only: length_map)
  ultimately show ?thesis
    using res same by blast
qed

theorem BuildCheckpoint_resumes_witness:
  "gm_true (restored_completed (fst (BuildCheckpoint echo_codec (\<lambda>_. None) ''c'' [demo_first, demo_second] ''t''))) ''n''"
proof -
  have "state_writes echo_codec [demo_first, demo_second] = []" "ended_nodes [demo_first, demo_second] = [''n'']"
    by (simp_all add: state_writes_def ended_nodes_def demo_event_defs)
  then show ?thesis
    using BuildCheckpoint_resumes [OF refl, of echo_codec "[demo_first, demo_second]" "\<lambda>_. None" "''c''" "''t''"]
    by (simp add: NUL_def)
qed

definition demo_fork :: "(MemoryEventStore, MemoryEventStore, unit) ForkConfig" where
  "demo_fork = \<lparr>fc_Store = Some demo_log, fc_TraceID = ''t'', fc_Point = ''b'', fc_Engine = None, fc_Checkpointer = None, fc_OutputStore = None\<rparr>"

definition demo_fork_env :: "unit fork_env" where
  "demo_fork_env = \<lparr>fe_cx = echo_codec, fe_put = (\<lambda>c d s. (s, Inr ())), fe_fresh = (), fe_enc = (\<lambda>_. None), fe_cpid = ''c'',
     fe_marker_id = ''m'', fe_end_id = ''e'', fe_now = 10\<rparr>"

theorem Fork_spec_witness:
  "\<exists>res. Fork demo_fork_env (memory_log echo_codec) (memory_log echo_codec) NewMemoryEventStore demo_fork = (None, None, Inr res) \<and>
     fr_ForkEvents res = [demo_first, fork_marker demo_fork_env ''t'' ''b'']"
proof -
  have g: "MS_Get ''b'' demo_log = Some demo_second"
    using demo_log_ok by (simp add: store_ok_def MS_Get_def demo_log_events) (simp add: demo_event_defs)
  have c: "ev_Clock demo_first = 1" "ev_Clock demo_second = 2" "ev_TraceID demo_first = ''t''" "ev_TraceID demo_second = ''t''"
    by (simp_all add: demo_event_defs)
  have "(1 :: u64) < 2" "\<not> (2 :: u64) < 2"
    by (simp_all add: word_less_nat_alt)
  then show ?thesis
    using Fork_spec [of demo_log demo_fork "[demo_first]" demo_second demo_fork_env echo_codec "memory_log echo_codec" NewMemoryEventStore]
      demo_log_ok g c by (simp add: demo_fork_def demo_log_events)
qed

theorem Diff_spec_witness:
  "\<exists>d. Diff echo_codec (\<lambda>cs. cs) (memory_log echo_codec) (memory_log echo_codec) demo_log demo_log ''t'' ''t'' = Inr d \<and>
     df_Mismatched d = [] \<and> df_MissingInRight d = []"
proof -
  have c: "ev_Clock demo_first = 1" "ev_Clock demo_second = 2" "ev_TraceID demo_first = ''t''" "ev_TraceID demo_second = ''t''"
      "length (ev_Hash demo_first) \<ge> 16" "length (ev_Hash demo_second) \<ge> 16"
    by (simp_all add: demo_event_defs)
  have les: "[demo_first, demo_second] = filter (\<lambda>e. ev_TraceID e = ''t'') (ms_events demo_log)"
    by (simp add: demo_log_events c)
  have "\<exists>d. Diff echo_codec (\<lambda>cs. cs) (memory_log echo_codec) (memory_log echo_codec) demo_log demo_log ''t'' ''t'' = Inr d \<and>
      set (df_MissingInRight d) = {l \<in> set [demo_first, demo_second]. ev_Clock l \<notin> ev_Clock ` set [demo_first, demo_second]} \<and>
      set (df_MissingInLeft d) = {l \<in> set [demo_first, demo_second]. ev_Clock l \<notin> ev_Clock ` set [demo_first, demo_second]} \<and>
      (df_Mismatched d = [] \<longleftrightarrow> (\<forall>l \<in> set [demo_first, demo_second]. \<forall>r \<in> set [demo_first, demo_second].
         ev_Clock l = ev_Clock r \<longrightarrow> ev_Type l = ev_Type r \<and> ev_Hash l = ev_Hash r))"
    using c by (intro Diff_spec [OF demo_log_ok demo_log_ok les les]) simp_all
  then obtain d where "Diff echo_codec (\<lambda>cs. cs) (memory_log echo_codec) (memory_log echo_codec) demo_log demo_log ''t'' ''t'' = Inr d"
      "set (df_MissingInRight d) = {l \<in> set [demo_first, demo_second]. ev_Clock l \<notin> ev_Clock ` set [demo_first, demo_second]}"
      "df_Mismatched d = []"
    using c by auto
  moreover have "{l \<in> set [demo_first, demo_second]. ev_Clock l \<notin> ev_Clock ` set [demo_first, demo_second]} = {}"
    by auto
  ultimately have "set (df_MissingInRight d) = {}"
    by (simp only:)
  with \<open>df_Mismatched d = []\<close> \<open>Diff echo_codec (\<lambda>cs. cs) (memory_log echo_codec) (memory_log echo_codec) demo_log demo_log ''t'' ''t'' = Inr d\<close>
  show ?thesis
    by simp
qed

end
