(* ===== verification/EventFile.thy ===== *)
theory EventFile
  imports EventLaws StateGraph Checkpoint
begin

text \<open>
  The event store in files (\<^verbatim>\<open>events/localfile.go\<close>): one JSON line per event in segment files named after the trace, a cache of all
  events, rotation by size, and loading a directory. The directory is a map from paths below it to contents, and operations on it
  succeed, except that a file may refuse to open: \<open>opens\<close> tells by its path. The codec of lines is an argument too: \<open>enc\<close> and \<open>dec\<close>;
  what the theorems ask of it is that decoding an encoded event gives \<open>json_event\<close>, the event as \<^verbatim>\<open>encoding/json\<close> documents it.
\<close>

section \<open>The store\<close>

record LocalFileEventStore =
  lf_disk :: "string gomap"
  lf_segment :: nat
  lf_maxSize :: nat
  lf_cached :: "Event list"
  lf_clock :: u64

definition newline :: char where "newline = CHR 0x0A"

definition pad4 :: "nat \<Rightarrow> string" where
  "pad4 n = replicate (4 - length (show_nat n)) (CHR ''0'') @ show_nat n"

text \<open>\<^verbatim>\<open>filepath.Join\<close> of the directory and a name: the path below the directory, cleaned. It leaves the directory where it starts
  with two dots.\<close>

fun clean_elems :: "string list \<Rightarrow> string list \<Rightarrow> string list" where
  "clean_elems st [] = rev st"
| "clean_elems st (x # xs) =
     (if x = [] \<or> x = ''.'' then clean_elems st xs
      else if x = ''..'' then
        (case st of
           [] \<Rightarrow> clean_elems [''..''] xs
         | y # ys \<Rightarrow> if y = ''..'' then clean_elems (''..'' # st) xs else clean_elems ys xs)
      else clean_elems (x # st) xs)"

definition path_below :: "string \<Rightarrow> string" where
  "path_below name = join_with ''/'' (clean_elems [] (split_on (CHR ''/'') name))"

definition seg_name :: "string \<Rightarrow> nat \<Rightarrow> string" where
  "seg_name traceID segment = path_below (''events_'' @ traceID @ ''_'' @ pad4 segment @ ''.jsonl'')"

text \<open>A directory entry that is read: reading a directory gives the names in it, not those below its subdirectories.\<close>

definition is_segment :: "string \<Rightarrow> bool" where
  "is_segment name = (CHR ''/'' \<notin> set name \<and> take 7 name = ''events_'' \<and> drop (length name - 6) name = ''.jsonl'')"

text \<open>A line of more than a megabyte makes the scanner fail.\<close>

fun read_lines :: "(string \<Rightarrow> Event option) \<Rightarrow> string list \<Rightarrow> gerror + Event list" where
  "read_lines dec [] = Inr []"
| "read_lines dec (l # ls) =
     (if length l \<ge> 1048576 then Inl (PlainError ''token too long'' [])
      else let line = TrimSpace l
           in if line = [] then read_lines dec ls
              else case dec line of
                     None \<Rightarrow> Inl (PlainError ''unmarshal event'' [])
                   | Some ev \<Rightarrow> (case read_lines dec ls of Inl err \<Rightarrow> Inl err | Inr evs \<Rightarrow> Inr (ev # evs)))"

definition readSegmentFile :: "(string \<Rightarrow> Event option) \<Rightarrow> string \<Rightarrow> gerror + Event list" where
  "readSegmentFile dec content = read_lines dec (split_on newline content)"

fun read_segments :: "(string \<Rightarrow> Event option) \<Rightarrow> string gomap \<Rightarrow> string list \<Rightarrow> gerror + Event list" where
  "read_segments dec disk [] = Inr []"
| "read_segments dec disk (n # ns) =
     (case readSegmentFile dec (case map_of disk n of None \<Rightarrow> [] | Some c \<Rightarrow> c) of
        Inl err \<Rightarrow> Inl (WrapError ''read segment'' [n] err)
      | Inr evs \<Rightarrow> (case read_segments dec disk ns of Inl err \<Rightarrow> Inl err | Inr evs' \<Rightarrow> Inr (evs @ evs')))"

definition loadExisting :: "(string \<Rightarrow> Event option) \<Rightarrow> LocalFileEventStore \<Rightarrow> gerror + LocalFileEventStore" where
  "loadExisting dec s =
     (case read_segments dec (lf_disk s) (sort (filter is_segment (gm_keys (lf_disk s)))) of
        Inl err \<Rightarrow> Inl err
      | Inr evs \<Rightarrow>
          (let maxClock = fold (\<lambda>ev m. if ev_Clock ev > m then ev_Clock ev else m) evs 0
           in Inr (s\<lparr>lf_cached := evs, lf_clock := (if maxClock > 0 then maxClock else lf_clock s)\<rparr>)))"

definition NewLocalFileEventStore :: "(string \<Rightarrow> Event option) \<Rightarrow> string gomap \<Rightarrow> gerror + LocalFileEventStore" where
  "NewLocalFileEventStore dec disk =
     (case loadExisting dec \<lparr>lf_disk = disk, lf_segment = 0, lf_maxSize = 67108864, lf_cached = [], lf_clock = 0\<rparr> of
        Inl err \<Rightarrow> Inl (WrapError ''load existing segments'' [] err)
      | Inr s \<Rightarrow> Inr s)"

definition write_file :: "string \<Rightarrow> string \<Rightarrow> LocalFileEventStore \<Rightarrow> LocalFileEventStore" where
  "write_file name data s =
     s\<lparr>lf_disk := gm_set name ((case map_of (lf_disk s) name of None \<Rightarrow> [] | Some c \<Rightarrow> c) @ data) (lf_disk s)\<rparr>"

definition rotate :: "string \<Rightarrow> LocalFileEventStore \<Rightarrow> LocalFileEventStore" where
  "rotate traceID s =
     (case map_of (lf_disk s) (seg_name traceID (lf_segment s)) of
        Some c \<Rightarrow> if length c > lf_maxSize s then s\<lparr>lf_segment := lf_segment s + 1\<rparr> else s
      | None \<Rightarrow> s)"

definition appendToFileLocked ::
  "(string \<Rightarrow> bool) \<Rightarrow> (Event \<Rightarrow> string option) \<Rightarrow> Event \<Rightarrow> LocalFileEventStore \<Rightarrow> (gerror, LocalFileEventStore, unit) outcome" where
  "appendToFileLocked opens enc ev s =
     (let s1 = rotate (ev_TraceID ev) s; name = seg_name (ev_TraceID ev) (lf_segment s1)
      in if \<not> opens name then (s1, Inl (PlainError ''open segment file'' []))
         else case enc ev of
                None \<Rightarrow> (write_file name [] s1, Inl (PlainError ''marshal event'' []))
              | Some data \<Rightarrow> (write_file name [newline] (write_file name data s1), Inr ()))"

definition LF_append_one ::
  "codec \<Rightarrow> (string \<Rightarrow> bool) \<Rightarrow> (Event \<Rightarrow> string option) \<Rightarrow> Event \<Rightarrow> LocalFileEventStore \<Rightarrow> (gerror, LocalFileEventStore, Event) outcome" where
  "LF_append_one cx opens enc ev s =
     (let (s1, ev1) = (if ev_Clock ev = 0 then (s\<lparr>lf_clock := lf_clock s + 1\<rparr>, ev\<lparr>ev_Clock := lf_clock s + 1\<rparr>) else (s, ev));
          ev2 = Seal cx ev1
      in case appendToFileLocked opens enc ev2 (s1\<lparr>lf_cached := lf_cached s1 @ [ev2]\<rparr>) of
           (s2, Inl err) \<Rightarrow> (s2, Inl err)
         | (s2, Inr _) \<Rightarrow> (s2, Inr ev2))"

fun LF_Append ::
  "codec \<Rightarrow> (string \<Rightarrow> bool) \<Rightarrow> (Event \<Rightarrow> string option) \<Rightarrow> Event list \<Rightarrow> LocalFileEventStore \<Rightarrow> (gerror, LocalFileEventStore, Event list) outcome" where
  "LF_Append cx opens enc [] s = (s, Inr [])"
| "LF_Append cx opens enc (ev # evs) s =
     (case LF_append_one cx opens enc ev s of
        (s1, Inl err) \<Rightarrow> (s1, Inl err)
      | (s1, Inr ev1) \<Rightarrow>
          (case LF_Append cx opens enc evs s1 of (s2, Inl err) \<Rightarrow> (s2, Inl err) | (s2, Inr evs1) \<Rightarrow> (s2, Inr (ev1 # evs1))))"

definition LF_Stream :: "EventFilter \<Rightarrow> LocalFileEventStore \<Rightarrow> sliceIterator" where
  "LF_Stream f s = \<lparr>it_events = filter (Matches f) (lf_cached s), it_pos = 0\<rparr>"

definition LF_Get :: "EventID \<Rightarrow> LocalFileEventStore \<Rightarrow> Event option" where
  "LF_Get evid s = find (\<lambda>ev. ev_ID ev = evid) (lf_cached s)"

definition LF_Range :: "u64 \<Rightarrow> u64 \<Rightarrow> EventFilter \<Rightarrow> LocalFileEventStore \<Rightarrow> Event list" where
  "LF_Range from to f s =
     filter (\<lambda>ev. \<not> ev_Clock ev < from \<and> \<not> (to > 0 \<and> ev_Clock ev > to) \<and> Matches f ev) (lf_cached s)"

definition LF_Seek :: "u64 \<Rightarrow> LocalFileEventStore \<Rightarrow> sliceIterator" where
  "LF_Seek clock s = \<lparr>it_events = dropWhile (\<lambda>ev. \<not> ev_Clock ev \<ge> clock) (lf_cached s), it_pos = 0\<rparr>"

definition LF_Length :: "LocalFileEventStore \<Rightarrow> u64" where
  "LF_Length s = of_nat (length (lf_cached s))"

definition LF_CreateSnapshot ::
  "(Event list \<Rightarrow> string option) \<Rightarrow> (string \<Rightarrow> u64 \<Rightarrow> string) \<Rightarrow> int \<Rightarrow> string \<Rightarrow> LocalFileEventStore \<Rightarrow> gerror + Snapshot" where
  "LF_CreateSnapshot encs snap_id now traceID s =
     (case encs (lf_cached s) of
        None \<Rightarrow> Inl (PlainError ''marshal snapshot'' [])
      | Some d \<Rightarrow> Inr \<lparr>sn_ID = snap_id traceID (lf_clock s), sn_TraceID = traceID, sn_Clock = lf_clock s, sn_CreatedAt = now, sn_Data = d\<rparr>)"

definition LF_RestoreSnapshot :: "string \<Rightarrow> LocalFileEventStore \<Rightarrow> sliceIterator" where
  "LF_RestoreSnapshot snapshotID s = LF_Seek 0 s"

text \<open>The channel of a subscription is closed at once: there is nothing to receive.\<close>

definition LF_Subscribe :: "EventFilter \<Rightarrow> LocalFileEventStore \<Rightarrow> Event list" where
  "LF_Subscribe f s = []"

fun rewrite_all :: "(string \<Rightarrow> bool) \<Rightarrow> (Event \<Rightarrow> string option) \<Rightarrow> Event list \<Rightarrow> LocalFileEventStore \<Rightarrow> (gerror, LocalFileEventStore, unit) outcome" where
  "rewrite_all opens enc [] s = (s, Inr ())"
| "rewrite_all opens enc (ev # evs) s =
     (case appendToFileLocked opens enc ev s of (s1, Inl err) \<Rightarrow> (s1, Inl err) | (s1, Inr _) \<Rightarrow> rewrite_all opens enc evs s1)"

definition LF_GC ::
  "(string \<Rightarrow> bool) \<Rightarrow> (Event \<Rightarrow> string option) \<Rightarrow> int \<Rightarrow> int \<Rightarrow> LocalFileEventStore \<Rightarrow> (gerror, LocalFileEventStore, unit) outcome" where
  "LF_GC opens enc now retention s =
     (let keep = filter (\<lambda>ev. ev_Timestamp ev > now - retention) (lf_cached s)
      in rewrite_all opens enc keep
           (s\<lparr>lf_cached := keep, lf_segment := 0, lf_disk := filter (\<lambda>(n, c). \<not> is_segment n) (lf_disk s)\<rparr>))"

definition file_log :: "codec \<Rightarrow> (string \<Rightarrow> bool) \<Rightarrow> (Event \<Rightarrow> string option) \<Rightarrow> LocalFileEventStore EventLog" where
  "file_log cx opens enc = \<lparr>el_Append = LF_Append cx opens enc, el_Stream = (\<lambda>f s. read_loop (LF_Stream f s)), el_Get = LF_Get\<rparr>"

section \<open>Names of segments\<close>

lemma show_nat_digits:
  assumes "\<And>k :: nat. k < 10 \<Longrightarrow> char_of (48 + k) \<in> D"
  shows "set (show_nat n) \<subseteq> D"
proof (induction n rule: show_nat.induct)
  case (1 n)
  then show ?case
    using assms [of n] assms [of "n mod 10"] by (auto simp: show_nat.simps [of n])
qed

lemma pad4_no_slash: "CHR ''/'' \<notin> set (pad4 n)"
proof -
  have "(char_of (48 + k) :: char) \<in> - {CHR ''/''}" if "k < 10" for k :: nat
  proof
    assume "char_of (48 + k) \<in> {CHR ''/''}"
    then have "of_char (char_of (48 + k) :: char) = (of_char (CHR ''/'') :: nat)"
      by simp
    then show False
      using that by simp
  qed
  from show_nat_digits [of "- {CHR ''/''}" n, OF this] show ?thesis
    by (auto simp: pad4_def)
qed

text \<open>A name without a slash is a path of one element; a trace without one names a file in the directory.\<close>

lemma seg_name_plain:
  "CHR ''/'' \<notin> set t \<Longrightarrow> seg_name t k = ''events_'' @ t @ ''_'' @ pad4 k @ ''.jsonl''"
  by (simp add: seg_name_def path_below_def split_on_no_sep pad4_no_slash)

lemma seg_name_segment: "CHR ''/'' \<notin> set t \<Longrightarrow> is_segment (seg_name t k)"
  by (simp add: is_segment_def seg_name_plain pad4_no_slash)

section \<open>The store is a log\<close>

definition file_accepts :: "codec \<Rightarrow> (string \<Rightarrow> bool) \<Rightarrow> (Event \<Rightarrow> string option) \<Rightarrow> Event \<Rightarrow> bool" where
  "file_accepts cx opens enc ev \<longleftrightarrow>
     (\<forall>k. opens (seg_name (ev_TraceID ev) k)) \<and> (\<forall>c. enc (Seal cx (if ev_Clock ev = 0 then ev\<lparr>ev_Clock := c\<rparr> else ev)) \<noteq> None)"

lemma rotate_fields [simp]:
  "lf_disk (rotate t s) = lf_disk s" "lf_cached (rotate t s) = lf_cached s" "lf_clock (rotate t s) = lf_clock s" "lf_maxSize (rotate t s) = lf_maxSize s"
  by (simp_all add: rotate_def split: option.split)

lemma appendToFile_ok:
  assumes "\<And>k. opens (seg_name (ev_TraceID ev) k)" and "enc ev = Some data"
  shows "appendToFileLocked opens enc ev s =
    (let s1 = rotate (ev_TraceID ev) s; name = seg_name (ev_TraceID ev) (lf_segment s1)
     in (write_file name (data @ [newline]) s1, Inr ()))"
  using assms by (simp add: appendToFileLocked_def write_file_def Let_def gm_set_lookup update_triv)

lemma LF_append_accepted:
  assumes "file_accepts cx opens enc ev"
  shows "\<exists>s' c. LF_append_one cx opens enc ev s = (s', Inr (Seal cx (if ev_Clock ev = 0 then ev\<lparr>ev_Clock := c\<rparr> else ev))) \<and>
    lf_cached s' = lf_cached s @ [Seal cx (if ev_Clock ev = 0 then ev\<lparr>ev_Clock := c\<rparr> else ev)]"
proof -
  let ?e = "Seal cx (if ev_Clock ev = 0 then ev\<lparr>ev_Clock := lf_clock s + 1\<rparr> else ev)"
  have t: "opens (seg_name (ev_TraceID ?e) k)" for k
    using assms by (simp add: file_accepts_def Seal_def)
  obtain data where d: "enc ?e = Some data"
    using assms unfolding file_accepts_def by blast
  show ?thesis
    using appendToFile_ok [of opens ?e enc data, OF t d]
    by (intro exI [of _ "fst (LF_append_one cx opens enc ev s)"] exI [of _ "lf_clock s + 1"])
       (auto simp: LF_append_one_def Let_def write_file_def split: if_splits)
qed

interpretation file_store: event_log cx "file_log cx opens enc" "\<lambda>s. True" lf_cached "file_accepts cx opens enc"
proof unfold_locales
  fix s ev
  assume "file_accepts cx opens enc ev"
  from LF_append_accepted [OF this, of s] obtain s' c where
      "LF_append_one cx opens enc ev s = (s', Inr (Seal cx (if ev_Clock ev = 0 then ev\<lparr>ev_Clock := c\<rparr> else ev)))"
      "lf_cached s' = lf_cached s @ [Seal cx (if ev_Clock ev = 0 then ev\<lparr>ev_Clock := c\<rparr> else ev)]"
    by blast
  then show "\<exists>s' c. el_Append (file_log cx opens enc) [ev] s = (s', Inr [Seal cx (if ev_Clock ev = 0 then ev\<lparr>ev_Clock := c\<rparr> else ev)]) \<and> True \<and>
      lf_cached s' = lf_cached s @ [Seal cx (if ev_Clock ev = 0 then ev\<lparr>ev_Clock := c\<rparr> else ev)]"
    by (intro exI [of _ s'] exI [of _ c]) (simp add: file_log_def)
next
  show "el_Stream (file_log cx opens enc) f s = filter (Matches f) (lf_cached s)" for f s
    by (simp add: file_log_def LF_Stream_def read_loop_all)
next
  show "el_Get (file_log cx opens enc) i s = Some ev \<Longrightarrow> ev \<in> set (lf_cached s) \<and> ev_ID ev = i" for i s ev
    by (auto simp: file_log_def LF_Get_def find_Some_iff)
next
  show "el_Get (file_log cx opens enc) i s = None \<Longrightarrow> i \<notin> ev_ID ` set (lf_cached s)" for i s
    by (auto simp: file_log_def LF_Get_def find_None_iff)
qed

section \<open>Reading back what was written\<close>

text \<open>What \<^verbatim>\<open>json.Marshal\<close> and \<^verbatim>\<open>json.Unmarshal\<close> make of an event, by the tags of its fields: text becomes valid UTF-8; an empty
  payload or map of metadata is left out and comes back nil; metadata come back as a JSON object, with numbers as float64
  (\<^const>\<open>json_full\<close>, \<open>jx\<close> for user types); and the payload, which is JSON text already, is written in compact form (\<open>jp\<close>, nothing
  for text that is not JSON). \<^const>\<open>None\<close> is a marshalling error.\<close>

definition json_payload :: "(string \<Rightarrow> string option) \<Rightarrow> string option \<Rightarrow> string option option" where
  "json_payload jp p = (case p of None \<Rightarrow> Some None | Some t \<Rightarrow> if t = [] then Some None else map_option Some (jp t))"

definition json_metadata :: "(goval \<Rightarrow> goval option) \<Rightarrow> gostate option \<Rightarrow> gostate option option" where
  "json_metadata jx m =
     (case m of
        None \<Rightarrow> Some None
      | Some m \<Rightarrow> if m = [] then Some None else Option.bind (json_full jx (GMap m)) (\<lambda>v. map_option Some (as_map v)))"

definition json_event :: "(goval \<Rightarrow> goval option) \<Rightarrow> (string \<Rightarrow> string option) \<Rightarrow> Event \<Rightarrow> Event option" where
  "json_event jx jp ev =
     (case (json_payload jp (ev_Payload ev), json_metadata jx (ev_Metadata ev)) of
        (Some p, Some m) \<Rightarrow>
          Some (ev\<lparr>ev_ID := to_valid_utf8 (ev_ID ev), ev_TraceID := to_valid_utf8 (ev_TraceID ev), ev_ParentID := to_valid_utf8 (ev_ParentID ev),
            ev_CausedBy := map to_valid_utf8 (ev_CausedBy ev), ev_ThreadID := to_valid_utf8 (ev_ThreadID ev),
            ev_Node := to_valid_utf8 (ev_Node ev), ev_TaskID := to_valid_utf8 (ev_TaskID ev), ev_Payload := p, ev_Metadata := m,
            ev_Hash := to_valid_utf8 (ev_Hash ev)\<rparr>)
      | _ \<Rightarrow> None)"

text \<open>The law of the codec for an event: its encoding is one line, without white space around it, and decodes to what JSON keeps of
  the event.\<close>

definition json_law ::
  "(goval \<Rightarrow> goval option) \<Rightarrow> (string \<Rightarrow> string option) \<Rightarrow> (Event \<Rightarrow> string option) \<Rightarrow> (string \<Rightarrow> Event option) \<Rightarrow> Event \<Rightarrow> bool" where
  "json_law jx jp enc dec ev =
     (case enc ev of
        None \<Rightarrow> json_event jx jp ev = None
      | Some l \<Rightarrow> newline \<notin> set l \<and> TrimSpace l = l \<and> l \<noteq> [] \<and> dec l = json_event jx jp ev \<and> json_event jx jp ev \<noteq> None)"

text \<open>An event whose texts are valid UTF-8, whose trace is the name of a file and whose line is shorter than the scanner's buffer.\<close>

definition plain_event :: "(Event \<Rightarrow> string option) \<Rightarrow> Event \<Rightarrow> bool" where
  "plain_event enc ev \<longleftrightarrow>
     (\<forall>t \<in> {ev_ID ev, ev_TraceID ev, ev_ParentID ev, ev_ThreadID ev, ev_Node ev, ev_TaskID ev, ev_Hash ev} \<union> set (ev_CausedBy ev).
        to_valid_utf8 t = t) \<and>
     CHR ''/'' \<notin> set (ev_TraceID ev) \<and> (\<forall>l. enc ev = Some l \<longrightarrow> length l < 1048576)"

lemma json_event_plain:
  assumes "plain_event enc ev" and "json_event jx jp ev = Some ev'"
  shows "ev' = ev\<lparr>ev_Payload := ev_Payload ev', ev_Metadata := ev_Metadata ev'\<rparr>"
proof -
  have "map to_valid_utf8 (ev_CausedBy ev) = ev_CausedBy ev"
    using assms(1) by (intro map_idI) (simp add: plain_event_def)
  then show ?thesis
    using assms by (auto simp: json_event_def plain_event_def split: option.splits)
qed

text \<open>A line that the scanner returns and the decoder reads, and what it reads.\<close>

definition line_ok :: "(Event \<Rightarrow> string option) \<Rightarrow> (string \<Rightarrow> Event option) \<Rightarrow> Event \<Rightarrow> bool" where
  "line_ok enc dec ev =
     (case enc ev of
        None \<Rightarrow> False
      | Some l \<Rightarrow> newline \<notin> set l \<and> TrimSpace l = l \<and> l \<noteq> [] \<and> length l < 1048576 \<and> dec l \<noteq> None \<and> CHR ''/'' \<notin> set (ev_TraceID ev))"

definition read_back :: "(Event \<Rightarrow> string option) \<Rightarrow> (string \<Rightarrow> Event option) \<Rightarrow> Event \<Rightarrow> Event" where
  "read_back enc dec ev = the (dec (the (enc ev)))"

lemma json_law_line:
  assumes "json_law jx jp enc dec ev" and "plain_event enc ev" and "enc ev \<noteq> None"
  shows "line_ok enc dec ev" and "json_event jx jp ev = Some (read_back enc dec ev)"
  using assms by (auto simp: json_law_def plain_event_def line_ok_def read_back_def split: option.splits)

definition file_text :: "(Event \<Rightarrow> string option) \<Rightarrow> Event list \<Rightarrow> string" where
  "file_text enc evs = concat (map (\<lambda>ev. the (enc ev) @ [newline]) evs)"

lemma split_on_line: "c \<notin> set l \<Longrightarrow> split_on c (l @ c # rest) = l # split_on c rest"
  by (induction l) auto

lemma readSegmentFile_text:
  assumes "\<forall>ev \<in> set evs. line_ok enc dec ev"
  shows "readSegmentFile dec (file_text enc evs) = Inr (map (read_back enc dec) evs)"
  using assms
proof (induction evs)
  case Nil
  then show ?case
    by (simp add: readSegmentFile_def file_text_def) code_simp
next
  case (Cons ev evs)
  then obtain l where "enc ev = Some l" "newline \<notin> set l" "TrimSpace l = l" "l \<noteq> []" "length l < 1048576"
      "dec l = Some (read_back enc dec ev)"
    by (auto simp: line_ok_def read_back_def split: option.splits)
  with Cons show ?case
    by (simp add: readSegmentFile_def file_text_def split_on_line Let_def)
qed

text \<open>The segment files hold the given events, each once.\<close>

definition files_of :: "(Event \<Rightarrow> string option) \<Rightarrow> Event list gomap \<Rightarrow> string gomap" where
  "files_of enc G = map (\<lambda>(n, evs). (n, file_text enc evs)) G"

definition stored :: "(Event \<Rightarrow> string option) \<Rightarrow> (string \<Rightarrow> Event option) \<Rightarrow> string gomap \<Rightarrow> Event list gomap \<Rightarrow> bool" where
  "stored enc dec disk G \<longleftrightarrow>
     gm_ok disk \<and> filter (\<lambda>(n, c). is_segment n) disk = files_of enc G \<and> (\<forall>ev \<in> set (concat (map snd G)). line_ok enc dec ev)"

lemma update_files_of: "AList.update n (file_text enc evs) (files_of enc G) = files_of enc (AList.update n evs G)"
  by (induction G) (auto simp: files_of_def)

lemma filter_update: "P k \<Longrightarrow> filter (\<lambda>(n, c). P n) (AList.update k v m) = AList.update k v (filter (\<lambda>(n, c). P n) m)"
  by (induction m) auto

lemma map_of_files_of: "map_of (files_of enc G) n = map_option (file_text enc) (map_of G n)"
  by (induction G) (auto simp: files_of_def)

lemma map_of_segments: "P n \<Longrightarrow> map_of (filter (\<lambda>(n, c). P n) m) n = map_of m n"
  by (induction m) auto

lemma mset_gm_app: "mset (concat (map snd (gm_app n ev G))) = add_mset ev (mset (concat (map snd G)))"
  unfolding gm_app_def by (induction G) auto

lemma stored_write:
  assumes "stored enc dec (lf_disk s) G" and "is_segment n" and "line_ok enc dec ev" and "enc ev = Some l"
  shows "stored enc dec (lf_disk (write_file n (l @ [newline]) s)) (gm_app n ev G)"
proof -
  have "map_of (lf_disk s) n = map_option (file_text enc) (map_of G n)"
    using assms(1,2) map_of_segments [of is_segment n "lf_disk s"] by (simp add: stored_def map_of_files_of)
  then have "(case map_of (lf_disk s) n of None \<Rightarrow> [] | Some c \<Rightarrow> c) @ l @ [newline] =
      file_text enc ((case map_of G n of None \<Rightarrow> [] | Some es \<Rightarrow> es) @ [ev])"
    by (simp add: file_text_def assms(4) split: option.split)
  moreover have "set (concat (map snd (gm_app n ev G))) = insert ev (set (concat (map snd G)))"
    by (metis mset_gm_app set_mset_add_mset_insert set_mset_mset)
  ultimately show ?thesis
    using assms by (simp add: stored_def write_file_def filter_update update_files_of gm_app_def)
qed

lemma gm_keys_found: "n \<in> set (gm_keys G) \<Longrightarrow> \<exists>v. map_of G n = Some v"
  by (induction G) auto

lemma read_segments_files:
  assumes "stored enc dec disk G" and "set ns \<subseteq> set (gm_keys G)"
  shows "read_segments dec disk ns = Inr (map (read_back enc dec) (concat (map (\<lambda>n. the (map_of G n)) ns)))"
  using assms(2)
proof (induction ns)
  case (Cons n ns)
  then obtain evs where g: "map_of G n = Some evs"
    using gm_keys_found by (metis list.set_intros(1) subsetD)
  have "(n, file_text enc evs) \<in> set (files_of enc G)"
    using map_of_SomeD [OF g] by (force simp: files_of_def)
  then have seg: "is_segment n"
    using assms(1) unfolding stored_def by (metis (no_types, lifting) case_prod_conv filter_set mem_Collect_eq set_filter)
  have "map_of disk n = Some (file_text enc evs)"
    using assms(1) map_of_segments [of is_segment n disk, OF seg] by (simp add: stored_def map_of_files_of g)
  moreover have "\<forall>ev \<in> set evs. line_ok enc dec ev"
    using assms(1) map_of_SomeD [OF g] by (force simp: stored_def)
  ultimately show ?case
    using Cons by (simp add: readSegmentFile_text g)
qed simp

lemma keys_files_of [simp]: "gm_keys (files_of enc G) = gm_keys G"
  by (induction G) (auto simp: files_of_def)

lemma stored_keys:
  assumes "stored enc dec disk G"
  shows "filter is_segment (gm_keys disk) = gm_keys G" and "distinct (gm_keys G)"
proof -
  have "filter is_segment (gm_keys disk) = gm_keys (filter (\<lambda>(n, c). is_segment n) disk)"
    by (induction disk) auto
  with assms show k: "filter is_segment (gm_keys disk) = gm_keys G"
    by (simp add: stored_def)
  have "distinct (gm_keys disk)"
    using assms by (simp add: stored_def)
  then show "distinct (gm_keys G)"
    unfolding k [symmetric] by (rule distinct_filter)
qed

lemma concat_lookup:
  assumes "distinct (gm_keys G)"
  shows "mset (concat (map (\<lambda>n. the (map_of G n)) (sort (gm_keys G)))) = mset (concat (map snd G))"
proof -
  have "map (\<lambda>n. the (map_of G n)) (gm_keys G) = map snd G"
    using assms by (auto simp: map_of_eq_Some_iff intro!: map_cong)
  then have "mset (concat (map (\<lambda>n. the (map_of G n)) (gm_keys G))) = mset (concat (map snd G))"
    by (rule arg_cong)
  then show ?thesis
    by (simp add: mset_concat image_mset.compositionality o_assoc flip: sum_mset_sum_list)
qed

lemma max_clock_bound:
  fixes evs :: "Event list"
  shows "m \<le> fold (\<lambda>ev m. if ev_Clock ev > m then ev_Clock ev else m) evs m \<and>
    (\<forall>ev \<in> set evs. ev_Clock ev \<le> fold (\<lambda>ev m. if ev_Clock ev > m then ev_Clock ev else m) evs m)"
proof (induction evs arbitrary: m)
  case (Cons e evs)
  from Cons [of "if ev_Clock e > m then ev_Clock e else m"] show ?case
    by (auto split: if_splits)
qed simp

lemma reopen_stored:
  assumes "stored enc dec disk G"
  shows "\<exists>s. NewLocalFileEventStore dec disk = Inr s \<and>
    lf_cached s = map (read_back enc dec) (concat (map (\<lambda>n. the (map_of G n)) (sort (gm_keys G)))) \<and>
    (\<forall>ev \<in> set (lf_cached s). ev_Clock ev \<le> lf_clock s)"
proof -
  let ?evs = "map (read_back enc dec) (concat (map (\<lambda>n. the (map_of G n)) (sort (gm_keys G))))"
  have "read_segments dec disk (sort (filter is_segment (gm_keys disk))) = Inr ?evs"
    using read_segments_files [OF assms, of "sort (gm_keys G)"] stored_keys [OF assms] by simp
  moreover define mc where "mc = fold (\<lambda>ev m. if ev_Clock ev > m then ev_Clock ev else m) ?evs 0"
  ultimately have "NewLocalFileEventStore dec disk =
      Inr \<lparr>lf_disk = disk, lf_segment = 0, lf_maxSize = 67108864, lf_cached = ?evs, lf_clock = mc\<rparr>"
    by (simp add: NewLocalFileEventStore_def loadExisting_def Let_def word_gt_0)
  moreover have "\<forall>ev \<in> set ?evs. ev_Clock ev \<le> mc"
    using max_clock_bound [of 0 ?evs] unfolding mc_def by (rule conjunct2)
  ultimately show ?thesis
    by (intro exI conjI) (assumption, simp_all only: LocalFileEventStore.simps)
qed

section \<open>The events of a trace\<close>

definition events_in :: "Event list gomap \<Rightarrow> string \<Rightarrow> Event list" where
  "events_in G n = (case map_of G n of None \<Rightarrow> [] | Some evs \<Rightarrow> evs)"

abbreviation no_slash :: "string \<Rightarrow> bool" where
  "no_slash t \<equiv> CHR ''/'' \<notin> set t"

definition by_trace :: "Event list gomap \<Rightarrow> Event list \<Rightarrow> bool" where
  "by_trace G evs \<longleftrightarrow>
     (\<forall>n \<in> set (gm_keys G). \<exists>t. no_slash t \<and> n = seg_name t 0) \<and>
     (\<forall>t. no_slash t \<longrightarrow> events_in G (seg_name t 0) = filter (\<lambda>ev. ev_TraceID ev = t) evs)"

lemma seg_name_inj: "no_slash t \<Longrightarrow> no_slash u \<Longrightarrow> seg_name t 0 = seg_name u 0 \<longleftrightarrow> t = u"
  by (simp add: seg_name_plain)

lemma events_in_app: "events_in (gm_app n ev G) m = (if m = n then events_in G n @ [ev] else events_in G m)"
  by (simp add: events_in_def gm_app_def gm_set_lookup)

lemma gm_keys_app: "(n', v) \<in> set (gm_app n ev G) \<Longrightarrow> n' = n \<or> n' \<in> set (gm_keys G)"
  using gm_set_entries [of n _ G] unfolding gm_app_def by force

lemma by_trace_app:
  assumes "by_trace G evs" and "no_slash (ev_TraceID ev)"
  shows "by_trace (gm_app (seg_name (ev_TraceID ev) 0) ev G) (evs @ [ev])"
  using assms by (auto simp: by_trace_def events_in_app seg_name_inj) (use gm_keys_app in fastforce)

lemma filter_concat_key:
  assumes "distinct ks" and "\<And>k. k \<in> set ks \<Longrightarrow> filter P (f k) = (if k = k0 then f k else [])"
  shows "filter P (concat (map f ks)) = (if k0 \<in> set ks then f k0 else [])"
  using assms by (induction ks) auto

lemma by_trace_read:
  assumes "by_trace G evs" and "distinct (gm_keys G)" and "no_slash t"
  shows "filter (\<lambda>ev. ev_TraceID ev = t) (concat (map (\<lambda>n. the (map_of G n)) (sort (gm_keys G)))) =
    filter (\<lambda>ev. ev_TraceID ev = t) evs"
proof -
  let ?P = "\<lambda>ev. ev_TraceID ev = t"
  have "filter ?P (the (map_of G n)) = (if n = seg_name t 0 then the (map_of G n) else [])" if n: "n \<in> set (sort (gm_keys G))" for n
  proof -
    obtain u where u: "no_slash u" "n = seg_name u 0"
      using bspec [OF conjunct1 [OF assms(1) [unfolded by_trace_def]], of n] n by auto
    obtain es where es: "map_of G n = Some es"
      using gm_keys_found [of n G] n by auto
    have "events_in G (seg_name u 0) = filter (\<lambda>ev. ev_TraceID ev = u) evs"
      using assms(1) u(1) unfolding by_trace_def by blast
    then have "es = filter (\<lambda>ev. ev_TraceID ev = u) evs"
      using es u by (simp add: events_in_def)
    moreover have "n = seg_name t 0 \<longleftrightarrow> u = t"
      by (simp add: u seg_name_inj assms(3))
    ultimately show ?thesis
      using es by (cases "u = t") (simp_all add: filter_empty_conv)
  qed
  from filter_concat_key [where f = "\<lambda>n. the (map_of G n)" and P = ?P and ks = "sort (gm_keys G)", OF _ this] assms(2)
  have "filter ?P (concat (map (\<lambda>n. the (map_of G n)) (sort (gm_keys G)))) =
      (if seg_name t 0 \<in> set (gm_keys G) then the (map_of G (seg_name t 0)) else [])"
    by simp
  also have "\<dots> = events_in G (seg_name t 0)"
    using gm_keys_found [of "seg_name t 0" G] map_of_eq_None_iff [of G "seg_name t 0"] by (auto simp: events_in_def split: option.split)
  finally show ?thesis
    using assms(1,3) by (simp add: by_trace_def)
qed

section \<open>Durability\<close>

definition durable :: "(Event \<Rightarrow> string option) \<Rightarrow> (string \<Rightarrow> Event option) \<Rightarrow> Event list \<Rightarrow> LocalFileEventStore \<Rightarrow> bool" where
  "durable enc dec evs s \<longleftrightarrow>
     (\<exists>G. stored enc dec (lf_disk s) G \<and> mset (concat (map snd G)) = mset evs \<and> (lf_segment s = 0 \<longrightarrow> by_trace G evs))"

lemma durable_write:
  assumes "durable enc dec evs s" and "appendToFileLocked opens enc ev s = (s', Inr ())" and "line_ok enc dec ev"
  shows "durable enc dec (evs @ [ev]) s'"
proof -
  obtain l where l: "enc ev = Some l"
    using assms(3) by (auto simp: line_ok_def split: option.splits)
  have slash: "no_slash (ev_TraceID ev)"
    using assms(3) by (auto simp: line_ok_def split: option.splits)
  let ?r = "rotate (ev_TraceID ev) s"
  let ?n = "seg_name (ev_TraceID ev) (lf_segment ?r)"
  from assms(1) obtain G where G: "stored enc dec (lf_disk s) G" "mset (concat (map snd G)) = mset evs"
      "lf_segment s = 0 \<longrightarrow> by_trace G evs"
    by (auto simp: durable_def)
  have s': "s' = write_file ?n (l @ [newline]) ?r"
    using assms(2) l by (auto simp: appendToFileLocked_def Let_def write_file_def gm_set_lookup split: if_splits)
  have "stored enc dec (lf_disk s') (gm_app ?n ev G)"
    unfolding s' by (rule stored_write) (use G(1) assms(3) l slash in \<open>simp_all add: seg_name_segment\<close>)
  moreover have "by_trace (gm_app ?n ev G) (evs @ [ev])" if "lf_segment s' = 0"
  proof -
    have "lf_segment ?r = 0" "lf_segment s = 0"
      using that by (auto simp: s' write_file_def rotate_def split: option.splits if_splits)
    then show ?thesis
      using G(3) by_trace_app [of G evs ev] slash by simp
  qed
  ultimately show ?thesis
    using G(2) mset_gm_app [of ?n ev G] by (auto simp: durable_def)
qed

lemma durable_append:
  assumes "durable enc dec (lf_cached s) s" and "LF_Append cx opens enc evs s = (s', Inr evs')" and "\<forall>ev \<in> set evs'. line_ok enc dec ev"
  shows "durable enc dec (lf_cached s') s' \<and> lf_cached s' = lf_cached s @ evs'"
  using assms
proof (induction evs arbitrary: s evs')
  case (Cons ev evs)
  obtain s1 e1 es where one: "LF_append_one cx opens enc ev s = (s1, Inr e1)" and rest: "LF_Append cx opens enc evs s1 = (s', Inr es)"
      and evs': "evs' = e1 # es"
    using Cons.prems(2) by (auto split: prod.splits sum.splits)
  define r where "r = (if ev_Clock ev = 0 then s\<lparr>lf_clock := lf_clock s + 1\<rparr> else s)\<lparr>lf_cached := lf_cached s @ [e1]\<rparr>"
  have w: "appendToFileLocked opens enc e1 r = (s1, Inr ())"
    using one by (auto simp: LF_append_one_def r_def Let_def split: if_splits prod.splits sum.splits)
  then have c: "lf_cached s1 = lf_cached s @ [e1]"
    by (auto simp: appendToFileLocked_def r_def Let_def write_file_def split: if_splits option.splits)
  have "durable enc dec (lf_cached s) r"
    using Cons.prems(1) by (simp add: durable_def r_def)
  from durable_write [OF this w] have "durable enc dec (lf_cached s1) s1"
    using Cons.prems(3) by (simp add: evs' c)
  from Cons.IH [OF this rest] Cons.prems(3) show ?case
    by (metis append_Cons append_Nil append_assoc c evs' list.set_intros(2))
qed simp

lemma LF_Append_encoded: "LF_Append cx opens enc evs s = (s', Inr evs') \<Longrightarrow> \<forall>ev \<in> set evs'. enc ev \<noteq> None"
  by (induction evs arbitrary: s evs')
     (auto simp: LF_append_one_def appendToFileLocked_def Let_def split: prod.splits sum.splits if_splits option.splits)

lemma rewrite_all_encoded: "rewrite_all opens enc evs s = (s', Inr ()) \<Longrightarrow> \<forall>ev \<in> set evs. enc ev \<noteq> None"
  by (induction evs arbitrary: s) (auto simp: appendToFileLocked_def Let_def split: prod.splits sum.splits if_splits option.splits)

lemma durable_rewrite:
  assumes "durable enc dec evs0 s" and "rewrite_all opens enc evs s = (s', Inr ())" and "\<forall>ev \<in> set evs. line_ok enc dec ev"
  shows "durable enc dec (evs0 @ evs) s'"
  using assms
proof (induction evs arbitrary: s evs0)
  case (Cons ev evs)
  then obtain s1 where "appendToFileLocked opens enc ev s = (s1, Inr ())" "rewrite_all opens enc evs s1 = (s', Inr ())"
    by (auto split: prod.splits sum.splits)
  with Cons durable_write [of enc dec evs0 s opens ev s1] show ?case
    by fastforce
qed simp

lemma durable_empty:
  assumes "gm_ok disk" and "\<forall>n \<in> set (gm_keys disk). \<not> is_segment n"
  shows "stored enc dec disk []" and "lf_disk s = disk \<Longrightarrow> durable enc dec [] s"
proof -
  show "stored enc dec disk []"
    using assms by (auto simp: stored_def files_of_def filter_empty_conv)
  then show "durable enc dec [] s" if "lf_disk s = disk"
    using that by (auto simp: durable_def by_trace_def events_in_def intro!: exI [of _ "[]"])
qed

lemma durable_lines: "durable enc dec evs s \<Longrightarrow> ev \<in> set evs \<Longrightarrow> line_ok enc dec ev"
proof -
  assume "durable enc dec evs s" and e: "ev \<in> set evs"
  then obtain G where "stored enc dec (lf_disk s) G" and m: "mset (concat (map snd G)) = mset evs"
    by (auto simp: durable_def)
  moreover have "ev \<in> set (concat (map snd G))"
    using mset_eq_setD [OF m] e by simp
  ultimately show ?thesis
    unfolding stored_def by blast
qed

text \<open>Opening the directory again, for events whose lines keep clock and trace.\<close>

lemma durable_reopen:
  assumes "durable enc dec evs s"
    and "\<forall>ev \<in> set evs. ev_Clock (read_back enc dec ev) = ev_Clock ev \<and> ev_TraceID (read_back enc dec ev) = ev_TraceID ev"
  shows "\<exists>s'. NewLocalFileEventStore dec (lf_disk s) = Inr s' \<and> mset (lf_cached s') = mset (map (read_back enc dec) evs) \<and>
    (\<forall>ev \<in> set evs. ev_Clock ev \<le> lf_clock s') \<and>
    (lf_segment s = 0 \<longrightarrow> (\<forall>t. filter (\<lambda>ev. ev_TraceID ev = t) (lf_cached s') =
       map (read_back enc dec) (filter (\<lambda>ev. ev_TraceID ev = t) evs)))"
proof -
  from assms(1) obtain G where G: "stored enc dec (lf_disk s) G" "mset (concat (map snd G)) = mset evs"
      "lf_segment s = 0 \<longrightarrow> by_trace G evs"
    by (auto simp: durable_def)
  define all where "all = concat (map (\<lambda>n. the (map_of G n)) (sort (gm_keys G)))"
  from reopen_stored [OF G(1)] obtain s' where s': "NewLocalFileEventStore dec (lf_disk s) = Inr s'"
      "lf_cached s' = map (read_back enc dec) all" "\<forall>ev \<in> set (lf_cached s'). ev_Clock ev \<le> lf_clock s'"
    unfolding all_def by blast
  have m: "mset all = mset evs"
    using concat_lookup [OF stored_keys(2) [OF G(1)]] by (simp only: all_def G(2))
  then have set: "set all = set evs"
    by (rule mset_eq_setD)
  have "mset (lf_cached s') = mset (map (read_back enc dec) evs)"
    using m by (simp add: s'(2))
  moreover have "\<forall>ev \<in> set evs. ev_Clock ev \<le> lf_clock s'"
    using s'(3) assms(2) set by (force simp: s'(2))
  moreover have "filter (\<lambda>ev. ev_TraceID ev = t) (lf_cached s') = map (read_back enc dec) (filter (\<lambda>ev. ev_TraceID ev = t) evs)"
    if "lf_segment s = 0" for t
  proof -
    have "filter (\<lambda>ev. ev_TraceID ev = t) (lf_cached s') = map (read_back enc dec) (filter (\<lambda>ev. ev_TraceID ev = t) all)"
      unfolding s'(2) filter_map using assms(2) set by (auto intro!: arg_cong [of _ _ "map _"] filter_cong)
    moreover have "filter (\<lambda>ev. ev_TraceID ev = t) all = filter (\<lambda>ev. ev_TraceID ev = t) evs"
    proof (cases "no_slash t")
      case True
      then show ?thesis
        using G(3) that by_trace_read [OF _ stored_keys(2) [OF G(1)] True, of evs] unfolding all_def by blast
    next
      case False
      then have "ev_TraceID ev \<noteq> t" if "ev \<in> set evs" for ev
        using durable_lines [OF assms(1) that] by (auto simp: line_ok_def split: option.splits)
      then show ?thesis
        using set by (metis (mono_tags, lifting) filter_False)
    qed
    ultimately show ?thesis
      by simp
  qed
  ultimately show ?thesis
    using s'(1) by blast
qed

text \<open>The same, by the law of the codec.\<close>

lemma json_reopen:
  assumes "durable enc dec evs s" and "\<forall>ev \<in> set evs. json_law jx jp enc dec ev \<and> plain_event enc ev"
  shows "\<exists>s'. NewLocalFileEventStore dec (lf_disk s) = Inr s' \<and>
    mset (map Some (lf_cached s')) = mset (map (json_event jx jp) evs) \<and>
    (\<forall>ev' \<in> set (lf_cached s'). \<exists>ev \<in> set evs. ev' = ev\<lparr>ev_Payload := ev_Payload ev', ev_Metadata := ev_Metadata ev'\<rparr>) \<and>
    (\<forall>ev \<in> set evs. ev_Clock ev \<le> lf_clock s') \<and>
    (lf_segment s = 0 \<longrightarrow> (\<forall>t. map Some (filter (\<lambda>ev. ev_TraceID ev = t) (lf_cached s')) =
       map (json_event jx jp) (filter (\<lambda>ev. ev_TraceID ev = t) evs)))"
proof -
  have j: "json_event jx jp ev = Some (read_back enc dec ev)" if "ev \<in> set evs" for ev
    using json_law_line(2) assms(2) durable_lines [OF assms(1) that] that by (force simp: line_ok_def)
  have k: "read_back enc dec ev = ev\<lparr>ev_Payload := ev_Payload (read_back enc dec ev), ev_Metadata := ev_Metadata (read_back enc dec ev)\<rparr>"
    if "ev \<in> set evs" for ev
    using json_event_plain [OF _ j [OF that]] assms(2) that by blast
  have "\<forall>ev \<in> set evs. ev_Clock (read_back enc dec ev) = ev_Clock ev \<and> ev_TraceID (read_back enc dec ev) = ev_TraceID ev"
    using k by (metis Event.select_convs(4,5) Event.surjective Event.update_convs(12,13))
  from durable_reopen [OF assms(1) this] obtain s' where s': "NewLocalFileEventStore dec (lf_disk s) = Inr s'"
      "mset (lf_cached s') = mset (map (read_back enc dec) evs)" "\<forall>ev \<in> set evs. ev_Clock ev \<le> lf_clock s'"
      "lf_segment s = 0 \<longrightarrow> (\<forall>t. filter (\<lambda>ev. ev_TraceID ev = t) (lf_cached s') =
         map (read_back enc dec) (filter (\<lambda>ev. ev_TraceID ev = t) evs))"
    by (elim exE conjE)
  have "map Some (map (read_back enc dec) (filter P evs)) = map (json_event jx jp) (filter P evs)" for P
    using j by auto
  note keep = this
  have "map Some (map (read_back enc dec) evs) = map (json_event jx jp) evs"
    using keep [of "\<lambda>_. True"] by simp
  then have "image_mset Some (mset (map (read_back enc dec) evs)) = mset (map (json_event jx jp) evs)"
    by (simp only: mset_map [symmetric])
  then have "mset (map Some (lf_cached s')) = mset (map (json_event jx jp) evs)"
    by (simp only: mset_map s'(2))
  moreover have "map Some (filter (\<lambda>ev. ev_TraceID ev = t) (lf_cached s')) =
       map (json_event jx jp) (filter (\<lambda>ev. ev_TraceID ev = t) evs)" if "lf_segment s = 0" for t
    using s'(4) that keep [of "\<lambda>ev. ev_TraceID ev = t"] by (simp only: simp_thms)
  moreover have "\<forall>ev' \<in> set (lf_cached s'). \<exists>ev \<in> set evs. ev' = ev\<lparr>ev_Payload := ev_Payload ev', ev_Metadata := ev_Metadata ev'\<rparr>"
    using k mset_eq_setD [OF s'(2)] by auto
  ultimately show ?thesis
    using s'(1,3) by blast
qed

text \<open>Events named by their identifier, as they are made with an empty map of metadata, and lines that hold it.\<close>

definition ev_named :: "string \<Rightarrow> Event" where
  "ev_named i = (NewEvent i 5 EventRetry (of_nat (length i)))\<lparr>ev_TraceID := ''t'', ev_Deterministic := True\<rparr>"

abbreviation id_enc :: "Event \<Rightarrow> string option" where
  "id_enc \<equiv> \<lambda>ev. Some (ev_ID ev)"

abbreviation id_dec :: "string \<Rightarrow> Event option" where
  "id_dec \<equiv> \<lambda>l. Some ((ev_named l)\<lparr>ev_Metadata := None\<rparr>)"

lemma ev_named_simps [simp]:
  "Seal plain_codec (ev_named i) = ev_named i" "ev_ID (ev_named i) = i" "ev_TraceID (ev_named i) = ''t''"
  "ev_Clock (ev_named i) = of_nat (length i)" "ev_Timestamp (ev_named i) = 5"
  by (simp_all add: ev_named_def NewEvent_def Seal_def computeHash_def plain_codec_def)

lemma named_json:
  assumes "\<forall>c \<in> set i. of_char c < (128 :: nat)"
  shows "json_event jx jp (ev_named i) = Some ((ev_named i)\<lparr>ev_Metadata := None\<rparr>)"
proof -
  have "to_valid_utf8 ''t'' = ''t''" "to_valid_utf8 [] = []" "to_valid_utf8 i = i"
    using assms by (intro to_valid_utf8_ascii; simp)+
  then show ?thesis
    by (simp add: json_event_def json_payload_def json_metadata_def ev_named_def NewEvent_def)
qed

lemma named_law:
  assumes "i = ''a'' \<or> i = ''bb''"
  shows "json_law jx jp id_enc id_dec (ev_named i)" and "plain_event id_enc (ev_named i)"
proof -
  have trim: "TrimSpace ''a'' = ''a''" "TrimSpace ''bb'' = ''bb''"
    by code_simp+
  have ascii: "\<forall>c \<in> set i. of_char c < (128 :: nat)"
    using assms by auto
  show "json_law jx jp id_enc id_dec (ev_named i)"
    using assms trim by (auto simp: json_law_def named_json [OF ascii] newline_def)
  have "to_valid_utf8 ''t'' = ''t''" "to_valid_utf8 [] = []" "to_valid_utf8 i = i"
    using ascii by (intro to_valid_utf8_ascii; simp)+
  then show "plain_event id_enc (ev_named i)"
    using assms by (auto simp: plain_event_def ev_named_def NewEvent_def)
qed

definition empty_dir :: LocalFileEventStore where
  "empty_dir = \<lparr>lf_disk = [], lf_segment = 0, lf_maxSize = 67108864, lf_cached = [], lf_clock = 0\<rparr>"

text \<open>C31: Events survive a restart as JSON keeps them. What was appended to a directory without segments is found again when the
  directory is opened: for each event what JSON keeps of it, that is the event with at most its payload written compactly and its
  metadata changed, and nothing lost or added; the clock continues after the largest clock found. If no segment was rotated, the
  events of each trace come back in the order they were appended. The texts of the events are valid UTF-8, their traces have
  no slash in their names, and their lines are shorter than a megabyte.
\<close>

theorem reopen_finds_all:
  assumes "gm_ok disk" and "\<forall>n \<in> set (gm_keys disk). \<not> is_segment n"
    and "NewLocalFileEventStore dec disk = Inr s0"
    and "LF_Append cx opens enc evs s0 = (s, Inr evs')"
    and "\<forall>ev \<in> set evs'. json_law jx jp enc dec ev \<and> plain_event enc ev"
  shows "lf_cached s = evs' \<and>
    (\<exists>s'. NewLocalFileEventStore dec (lf_disk s) = Inr s' \<and>
      mset (map Some (lf_cached s')) = mset (map (json_event jx jp) evs') \<and>
      (\<forall>ev' \<in> set (lf_cached s'). \<exists>ev \<in> set evs'. ev' = ev\<lparr>ev_Payload := ev_Payload ev', ev_Metadata := ev_Metadata ev'\<rparr>) \<and>
      (\<forall>ev \<in> set evs'. ev_Clock ev \<le> lf_clock s') \<and>
      (lf_segment s = 0 \<longrightarrow> (\<forall>t. map Some (filter (\<lambda>ev. ev_TraceID ev = t) (lf_cached s')) =
         map (json_event jx jp) (filter (\<lambda>ev. ev_TraceID ev = t) evs'))))"
proof -
  have lines: "\<forall>ev \<in> set evs'. line_ok enc dec ev"
    using assms(5) LF_Append_encoded [OF assms(4)] json_law_line(1) by blast
  from reopen_stored [OF durable_empty(1) [OF assms(1,2), of enc dec]] assms(3) have e: "lf_cached s0 = []"
    by simp
  have "lf_disk s0 = disk"
    using assms(3) by (auto simp: NewLocalFileEventStore_def loadExisting_def Let_def split: sum.splits)
  then have "durable enc dec (lf_cached s0) s0"
    using durable_empty(2) [OF assms(1,2)] e by simp
  from durable_append [OF this assms(4) lines] have "durable enc dec evs' s" "lf_cached s = evs'"
    unfolding e by (metis append_Nil)+
  then show ?thesis
    using json_reopen [OF _ assms(5)] by blast
qed

theorem reopen_finds_all_witness:
  "\<exists>s s'. LF_Append plain_codec (\<lambda>n. True) id_enc [ev_named ''a'', ev_named ''bb''] empty_dir = (s, Inr [ev_named ''a'', ev_named ''bb'']) \<and>
    NewLocalFileEventStore id_dec (lf_disk s) = Inr s' \<and>
    mset (map Some (lf_cached s')) = {#json_event (\<lambda>v. None) Some (ev_named ''a''), json_event (\<lambda>v. None) Some (ev_named ''bb'')#}"
proof -
  let ?evs = "[ev_named ''a'', ev_named ''bb'']"
  obtain s where s: "LF_Append plain_codec (\<lambda>n. True) id_enc ?evs empty_dir = (s, Inr ?evs)"
    by (simp add: LF_append_one_def appendToFile_ok Let_def)
  have o: "NewLocalFileEventStore id_dec [] = Inr empty_dir"
    by (simp add: NewLocalFileEventStore_def loadExisting_def empty_dir_def)
  have "\<forall>ev \<in> set ?evs. json_law (\<lambda>v. None) Some id_enc id_dec ev \<and> plain_event id_enc ev"
    using named_law by simp
  from reopen_finds_all [OF _ _ o s this] s show ?thesis
    by auto
qed

text \<open>
  Garbage collection loses nothing that it keeps: after it, the cache holds the events after the cutoff in their order, and
  opening the directory again finds what JSON keeps of exactly these events, in their order for each trace if no segment was
  rotated.
\<close>

theorem file_GC_durable:
  assumes "gm_ok (lf_disk s)" and "LF_GC opens enc now retention s = (s', Inr ())"
    and "\<forall>ev \<in> set (lf_cached s). json_law jx jp enc dec ev \<and> plain_event enc ev"
    and "keep = filter (\<lambda>ev. ev_Timestamp ev > now - retention) (lf_cached s)"
  shows "\<exists>s2. NewLocalFileEventStore dec (lf_disk s') = Inr s2 \<and> mset (map Some (lf_cached s2)) = mset (map (json_event jx jp) keep) \<and>
    (lf_segment s' = 0 \<longrightarrow> (\<forall>t. map Some (filter (\<lambda>ev. ev_TraceID ev = t) (lf_cached s2)) =
      map (json_event jx jp) (filter (\<lambda>ev. ev_TraceID ev = t) keep)))"
proof -
  let ?disk = "filter (\<lambda>(n, c). \<not> is_segment n) (lf_disk s)"
  let ?r = "s\<lparr>lf_cached := keep, lf_segment := 0, lf_disk := ?disk\<rparr>"
  have "distinct (gm_keys ?disk)"
    using assms(1) distinct_map_filter by blast
  moreover have "\<forall>n \<in> set (gm_keys ?disk). \<not> is_segment n"
    by auto
  ultimately have empty: "durable enc dec [] ?r"
    by (rule durable_empty(2)) simp
  have r: "rewrite_all opens enc keep ?r = (s', Inr ())"
    using assms(2,4) by (simp add: LF_GC_def Let_def)
  have keep: "\<forall>ev \<in> set keep. json_law jx jp enc dec ev \<and> plain_event enc ev"
    using assms(3,4) by simp
  have "\<forall>ev \<in> set keep. line_ok enc dec ev"
    using keep rewrite_all_encoded [OF r] json_law_line(1) by blast
  with durable_rewrite [OF empty r] have "durable enc dec keep s'"
    by (simp only: append_Nil)
  from json_reopen [OF this keep] show ?thesis
    by (elim exE conjE) (intro exI conjI)
qed

theorem file_GC_durable_witness:
  "\<exists>s' s2. LF_GC (\<lambda>n. True) id_enc 10 8 (empty_dir\<lparr>lf_cached := [ev_named ''a'']\<rparr>) = (s', Inr ()) \<and>
    NewLocalFileEventStore id_dec (lf_disk s') = Inr s2 \<and> mset (map Some (lf_cached s2)) = {#json_event (\<lambda>v. None) Some (ev_named ''a'')#}"
proof -
  let ?s = "empty_dir\<lparr>lf_cached := [ev_named ''a'']\<rparr>"
  obtain s' where s': "LF_GC (\<lambda>n. True) id_enc 10 8 ?s = (s', Inr ())"
    by (simp add: LF_GC_def appendToFile_ok Let_def)
  have "\<forall>ev \<in> set (lf_cached ?s). json_law (\<lambda>v. None) Some id_enc id_dec ev \<and> plain_event id_enc ev"
    using named_law by (simp add: empty_dir_def)
  from file_GC_durable [OF _ s' this refl] s' show ?thesis
    by (auto simp: empty_dir_def)
qed

section \<open>What is not found again\<close>

text \<open>The file of a trace with a slash in its name is not in the directory: where it can be opened, its events are written and not found
  again.\<close>

theorem slash_trace_lost:
  assumes "ev = (ev_named ''a'')\<lparr>ev_TraceID := ''x/y''\<rparr>"
  shows "\<exists>s s'. LF_Append plain_codec (\<lambda>n. True) id_enc [ev] empty_dir = (s, Inr [ev]) \<and> lf_cached s = [ev] \<and>
    NewLocalFileEventStore id_dec (lf_disk s) = Inr s' \<and> lf_cached s' = []"
proof -
  have seal: "Seal plain_codec ev = ev" "ev_Clock ev = 1" "ev_TraceID ev = ''x/y''" "ev_ID ev = ''a''"
    using assms by (simp_all add: ev_named_def NewEvent_def Seal_def computeHash_def plain_codec_def)
  let ?n = "seg_name ''x/y'' 0"
  have n: "\<not> is_segment ?n"
    by code_simp
  let ?s = "empty_dir\<lparr>lf_cached := [ev], lf_disk := [(?n, [CHR ''a'', newline])]\<rparr>"
  have "LF_Append plain_codec (\<lambda>n. True) id_enc [ev] empty_dir = (?s, Inr [ev])"
    by (simp add: LF_append_one_def appendToFile_ok Let_def seal rotate_def empty_dir_def write_file_def)
  moreover have "NewLocalFileEventStore id_dec (lf_disk ?s) = Inr (empty_dir\<lparr>lf_disk := lf_disk ?s\<rparr>)"
    using n by (simp add: NewLocalFileEventStore_def loadExisting_def empty_dir_def)
  ultimately show ?thesis
    by (intro exI [of _ ?s] exI [of _ "empty_dir\<lparr>lf_disk := lf_disk ?s\<rparr>"]) (simp add: empty_dir_def)
qed

text \<open>The hash of an event made with an empty map of metadata is over its payload and the empty object; read back without the
  map, the event no longer has the hash of its contents.\<close>

theorem reopened_hash_stale:
  assumes "ev_Metadata ev = Some []" and "ev_Payload ev = Some p" and "p \<noteq> []" and "jp p = Some p"
    and "json_event jx jp (Seal cx ev) = Some ev'" and "to_valid_utf8 (computeHash cx ev) = computeHash cx ev"
    and "cx_sha cx (p @ cx_meta cx []) \<noteq> cx_sha cx p"
  shows "ev_Hash ev' \<noteq> computeHash cx ev'"
  using assms by (auto simp: json_event_def json_payload_def json_metadata_def Seal_def computeHash_def)

end
