(* ===== verification/CliTokens.thy ===== *)
theory CliTokens
  imports GraphErrors
begin

text \<open>
  Tokens and commands of the command line client (\<^verbatim>\<open>cli/types.go\<close>): the token types, numbered as \<^verbatim>\<open>iota\<close> numbers them, and the
  keywords that the lexer recognises (\<^verbatim>\<open>lookupIdent\<close> in \<^verbatim>\<open>cli/lexer.go\<close>).
\<close>

section \<open>Token types\<close>

abbreviation (input) TokenLogin :: nat where "TokenLogin \<equiv> 0"
abbreviation (input) TokenLogout :: nat where "TokenLogout \<equiv> 1"
abbreviation (input) TokenRegister :: nat where "TokenRegister \<equiv> 2"
abbreviation (input) TokenList :: nat where "TokenList \<equiv> 3"
abbreviation (input) TokenServices :: nat where "TokenServices \<equiv> 4"
abbreviation (input) TokenShow :: nat where "TokenShow \<equiv> 5"
abbreviation (input) TokenCreate :: nat where "TokenCreate \<equiv> 6"
abbreviation (input) TokenService :: nat where "TokenService \<equiv> 7"
abbreviation (input) TokenShutdown :: nat where "TokenShutdown \<equiv> 8"
abbreviation (input) TokenRestart :: nat where "TokenRestart \<equiv> 9"
abbreviation (input) TokenUsers :: nat where "TokenUsers \<equiv> 10"
abbreviation (input) TokenDrop :: nat where "TokenDrop \<equiv> 11"
abbreviation (input) TokenUser :: nat where "TokenUser \<equiv> 12"
abbreviation (input) TokenAlter :: nat where "TokenAlter \<equiv> 13"
abbreviation (input) TokenActive :: nat where "TokenActive \<equiv> 14"
abbreviation (input) TokenInactive :: nat where "TokenInactive \<equiv> 15"
abbreviation (input) TokenAdmin :: nat where "TokenAdmin \<equiv> 16"
abbreviation (input) TokenServer :: nat where "TokenServer \<equiv> 17"
abbreviation (input) TokenAPI :: nat where "TokenAPI \<equiv> 18"
abbreviation (input) TokenAdd :: nat where "TokenAdd \<equiv> 19"
abbreviation (input) TokenLive :: nat where "TokenLive \<equiv> 20"
abbreviation (input) TokenHealth :: nat where "TokenHealth \<equiv> 21"
abbreviation (input) TokenHost :: nat where "TokenHost \<equiv> 22"
abbreviation (input) TokenDelete :: nat where "TokenDelete \<equiv> 23"
abbreviation (input) TokenPassword :: nat where "TokenPassword \<equiv> 24"
abbreviation (input) TokenDataset :: nat where "TokenDataset \<equiv> 25"
abbreviation (input) TokenDatasets :: nat where "TokenDatasets \<equiv> 26"
abbreviation (input) TokenChunkStore :: nat where "TokenChunkStore \<equiv> 27"
abbreviation (input) TokenOf :: nat where "TokenOf \<equiv> 28"
abbreviation (input) TokenAgents :: nat where "TokenAgents \<equiv> 29"
abbreviation (input) TokenSearches :: nat where "TokenSearches \<equiv> 30"
abbreviation (input) TokenRole :: nat where "TokenRole \<equiv> 31"
abbreviation (input) TokenRoles :: nat where "TokenRoles \<equiv> 32"
abbreviation (input) TokenDescription :: nat where "TokenDescription \<equiv> 33"
abbreviation (input) TokenGrant :: nat where "TokenGrant \<equiv> 34"
abbreviation (input) TokenRevoke :: nat where "TokenRevoke \<equiv> 35"
abbreviation (input) TokenAll :: nat where "TokenAll \<equiv> 36"
abbreviation (input) TokenPermission :: nat where "TokenPermission \<equiv> 37"
abbreviation (input) TokenTo :: nat where "TokenTo \<equiv> 38"
abbreviation (input) TokenFrom :: nat where "TokenFrom \<equiv> 39"
abbreviation (input) TokenFor :: nat where "TokenFor \<equiv> 40"
abbreviation (input) TokenResources :: nat where "TokenResources \<equiv> 41"
abbreviation (input) TokenOn :: nat where "TokenOn \<equiv> 42"
abbreviation (input) TokenSet :: nat where "TokenSet \<equiv> 43"
abbreviation (input) TokenReset :: nat where "TokenReset \<equiv> 44"
abbreviation (input) TokenVersion :: nat where "TokenVersion \<equiv> 45"
abbreviation (input) TokenVar :: nat where "TokenVar \<equiv> 46"
abbreviation (input) TokenVars :: nat where "TokenVars \<equiv> 47"
abbreviation (input) TokenConfigs :: nat where "TokenConfigs \<equiv> 48"
abbreviation (input) TokenConfig :: nat where "TokenConfig \<equiv> 49"
abbreviation (input) TokenEnvs :: nat where "TokenEnvs \<equiv> 50"
abbreviation (input) TokenKey :: nat where "TokenKey \<equiv> 51"
abbreviation (input) TokenKeys :: nat where "TokenKeys \<equiv> 52"
abbreviation (input) TokenGenerate :: nat where "TokenGenerate \<equiv> 53"
abbreviation (input) TokenAvailable :: nat where "TokenAvailable \<equiv> 54"
abbreviation (input) TokenSupported :: nat where "TokenSupported \<equiv> 55"
abbreviation (input) TokenModel :: nat where "TokenModel \<equiv> 56"
abbreviation (input) TokenModels :: nat where "TokenModels \<equiv> 57"
abbreviation (input) TokenProvider :: nat where "TokenProvider \<equiv> 58"
abbreviation (input) TokenProviders :: nat where "TokenProviders \<equiv> 59"
abbreviation (input) TokenDefault :: nat where "TokenDefault \<equiv> 60"
abbreviation (input) TokenChats :: nat where "TokenChats \<equiv> 61"
abbreviation (input) TokenChat :: nat where "TokenChat \<equiv> 62"
abbreviation (input) TokenMessage :: nat where "TokenMessage \<equiv> 63"
abbreviation (input) TokenImage :: nat where "TokenImage \<equiv> 64"
abbreviation (input) TokenVideo :: nat where "TokenVideo \<equiv> 65"
abbreviation (input) TokenAudio :: nat where "TokenAudio \<equiv> 66"
abbreviation (input) TokenStream :: nat where "TokenStream \<equiv> 67"
abbreviation (input) TokenFiles :: nat where "TokenFiles \<equiv> 68"
abbreviation (input) TokenAs :: nat where "TokenAs \<equiv> 69"
abbreviation (input) TokenParse :: nat where "TokenParse \<equiv> 70"
abbreviation (input) TokenImport :: nat where "TokenImport \<equiv> 71"
abbreviation (input) TokenInto :: nat where "TokenInto \<equiv> 72"
abbreviation (input) TokenIn :: nat where "TokenIn \<equiv> 73"
abbreviation (input) TokenWith :: nat where "TokenWith \<equiv> 74"
abbreviation (input) TokenParser :: nat where "TokenParser \<equiv> 75"
abbreviation (input) TokenPipeline :: nat where "TokenPipeline \<equiv> 76"
abbreviation (input) TokenSearch :: nat where "TokenSearch \<equiv> 77"
abbreviation (input) TokenAgent :: nat where "TokenAgent \<equiv> 78"
abbreviation (input) TokenMemories :: nat where "TokenMemories \<equiv> 79"
abbreviation (input) TokenMemory :: nat where "TokenMemory \<equiv> 80"
abbreviation (input) TokenCores :: nat where "TokenCores \<equiv> 81"
abbreviation (input) TokenConcurrency :: nat where "TokenConcurrency \<equiv> 82"
abbreviation (input) TokenRetrieve :: nat where "TokenRetrieve \<equiv> 83"
abbreviation (input) TokenCurrent :: nat where "TokenCurrent \<equiv> 84"
abbreviation (input) TokenSoft :: nat where "TokenSoft \<equiv> 85"
abbreviation (input) TokenFingerprint :: nat where "TokenFingerprint \<equiv> 86"
abbreviation (input) TokenLicense :: nat where "TokenLicense \<equiv> 87"
abbreviation (input) TokenVision :: nat where "TokenVision \<equiv> 88"
abbreviation (input) TokenEmbedding :: nat where "TokenEmbedding \<equiv> 89"
abbreviation (input) TokenRerank :: nat where "TokenRerank \<equiv> 90"
abbreviation (input) TokenASR :: nat where "TokenASR \<equiv> 91"
abbreviation (input) TokenTTS :: nat where "TokenTTS \<equiv> 92"
abbreviation (input) TokenOCR :: nat where "TokenOCR \<equiv> 93"
abbreviation (input) TokenDocParse :: nat where "TokenDocParse \<equiv> 94"
abbreviation (input) TokenEmbed :: nat where "TokenEmbed \<equiv> 95"
abbreviation (input) TokenText :: nat where "TokenText \<equiv> 96"
abbreviation (input) TokenQuery :: nat where "TokenQuery \<equiv> 97"
abbreviation (input) TokenFormat :: nat where "TokenFormat \<equiv> 98"
abbreviation (input) TokenParam :: nat where "TokenParam \<equiv> 99"
abbreviation (input) TokenPlay :: nat where "TokenPlay \<equiv> 100"
abbreviation (input) TokenSave :: nat where "TokenSave \<equiv> 101"
abbreviation (input) TokenTop :: nat where "TokenTop \<equiv> 102"
abbreviation (input) TokenDimension :: nat where "TokenDimension \<equiv> 103"
abbreviation (input) TokenAsync :: nat where "TokenAsync \<equiv> 104"
abbreviation (input) TokenSync :: nat where "TokenSync \<equiv> 105"
abbreviation (input) TokenSyncLogs :: nat where "TokenSyncLogs \<equiv> 106"
abbreviation (input) TokenBenchmark :: nat where "TokenBenchmark \<equiv> 107"
abbreviation (input) TokenPing :: nat where "TokenPing \<equiv> 108"
abbreviation (input) TokenToken :: nat where "TokenToken \<equiv> 109"
abbreviation (input) TokenTokens :: nat where "TokenTokens \<equiv> 110"
abbreviation (input) TokenUnset :: nat where "TokenUnset \<equiv> 111"
abbreviation (input) TokenIndex :: nat where "TokenIndex \<equiv> 112"
abbreviation (input) TokenVector :: nat where "TokenVector \<equiv> 113"
abbreviation (input) TokenSize :: nat where "TokenSize \<equiv> 114"
abbreviation (input) TokenStore :: nat where "TokenStore \<equiv> 115"
abbreviation (input) TokenEngine :: nat where "TokenEngine \<equiv> 116"
abbreviation (input) TokenName :: nat where "TokenName \<equiv> 117"
abbreviation (input) TokenBalance :: nat where "TokenBalance \<equiv> 118"
abbreviation (input) TokenInstance :: nat where "TokenInstance \<equiv> 119"
abbreviation (input) TokenInstances :: nat where "TokenInstances \<equiv> 120"
abbreviation (input) TokenDisable :: nat where "TokenDisable \<equiv> 121"
abbreviation (input) TokenEnable :: nat where "TokenEnable \<equiv> 122"
abbreviation (input) TokenUse :: nat where "TokenUse \<equiv> 123"
abbreviation (input) TokenCheck :: nat where "TokenCheck \<equiv> 124"
abbreviation (input) TokenThink :: nat where "TokenThink \<equiv> 125"
abbreviation (input) TokenEffort :: nat where "TokenEffort \<equiv> 126"
abbreviation (input) TokenVerbosity :: nat where "TokenVerbosity \<equiv> 127"
abbreviation (input) TokenNone :: nat where "TokenNone \<equiv> 128"
abbreviation (input) TokenMinimal :: nat where "TokenMinimal \<equiv> 129"
abbreviation (input) TokenLow :: nat where "TokenLow \<equiv> 130"
abbreviation (input) TokenMedium :: nat where "TokenMedium \<equiv> 131"
abbreviation (input) TokenHigh :: nat where "TokenHigh \<equiv> 132"
abbreviation (input) TokenMax :: nat where "TokenMax \<equiv> 133"
abbreviation (input) TokenLS :: nat where "TokenLS \<equiv> 134"
abbreviation (input) TokenCat :: nat where "TokenCat \<equiv> 135"
abbreviation (input) TokenFile :: nat where "TokenFile \<equiv> 136"
abbreviation (input) TokenMetadata :: nat where "TokenMetadata \<equiv> 137"
abbreviation (input) TokenTable :: nat where "TokenTable \<equiv> 138"
abbreviation (input) TokenGet :: nat where "TokenGet \<equiv> 139"
abbreviation (input) TokenUpdate :: nat where "TokenUpdate \<equiv> 140"
abbreviation (input) TokenRemove :: nat where "TokenRemove \<equiv> 141"
abbreviation (input) TokenExplain :: nat where "TokenExplain \<equiv> 142"
abbreviation (input) TokenChunk :: nat where "TokenChunk \<equiv> 143"
abbreviation (input) TokenChunks :: nat where "TokenChunks \<equiv> 144"
abbreviation (input) TokenDocument :: nat where "TokenDocument \<equiv> 145"
abbreviation (input) TokenDocuments :: nat where "TokenDocuments \<equiv> 146"
abbreviation (input) TokenRegion :: nat where "TokenRegion \<equiv> 147"
abbreviation (input) TokenURL :: nat where "TokenURL \<equiv> 148"
abbreviation (input) TokenTask :: nat where "TokenTask \<equiv> 149"
abbreviation (input) TokenTasks :: nat where "TokenTasks \<equiv> 150"
abbreviation (input) TokenIngestor :: nat where "TokenIngestor \<equiv> 151"
abbreviation (input) TokenIngestors :: nat where "TokenIngestors \<equiv> 152"
abbreviation (input) TokenStart :: nat where "TokenStart \<equiv> 153"
abbreviation (input) TokenStop :: nat where "TokenStop \<equiv> 154"
abbreviation (input) TokenIngestion :: nat where "TokenIngestion \<equiv> 155"
abbreviation (input) TokenCache :: nat where "TokenCache \<equiv> 156"
abbreviation (input) TokenMQ :: nat where "TokenMQ \<equiv> 157"
abbreviation (input) TokenPublish :: nat where "TokenPublish \<equiv> 158"
abbreviation (input) TokenPull :: nat where "TokenPull \<equiv> 159"
abbreviation (input) TokenPending :: nat where "TokenPending \<equiv> 160"
abbreviation (input) TokenNoACK :: nat where "TokenNoACK \<equiv> 161"
abbreviation (input) TokenAnalyze :: nat where "TokenAnalyze \<equiv> 162"
abbreviation (input) TokenSummary :: nat where "TokenSummary \<equiv> 163"
abbreviation (input) TokenStats :: nat where "TokenStats \<equiv> 164"
abbreviation (input) TokenStorage :: nat where "TokenStorage \<equiv> 165"
abbreviation (input) TokenQuota :: nat where "TokenQuota \<equiv> 166"
abbreviation (input) TokenTree :: nat where "TokenTree \<equiv> 167"
abbreviation (input) TokenOrphan :: nat where "TokenOrphan \<equiv> 168"
abbreviation (input) TokenHour :: nat where "TokenHour \<equiv> 169"
abbreviation (input) TokenDay :: nat where "TokenDay \<equiv> 170"
abbreviation (input) TokenMonth :: nat where "TokenMonth \<equiv> 171"
abbreviation (input) TokenDays :: nat where "TokenDays \<equiv> 172"
abbreviation (input) TokenWindow :: nat where "TokenWindow \<equiv> 173"
abbreviation (input) TokenActivity :: nat where "TokenActivity \<equiv> 174"
abbreviation (input) TokenHardware :: nat where "TokenHardware \<equiv> 175"
abbreviation (input) TokenData :: nat where "TokenData \<equiv> 176"
abbreviation (input) TokenPurge :: nat where "TokenPurge \<equiv> 177"
abbreviation (input) TokenPlan :: nat where "TokenPlan \<equiv> 178"
abbreviation (input) TokenPreview :: nat where "TokenPreview \<equiv> 179"
abbreviation (input) TokenOpenaiChat :: nat where "TokenOpenaiChat \<equiv> 180"
abbreviation (input) TokenLog :: nat where "TokenLog \<equiv> 181"
abbreviation (input) TokenLogs :: nat where "TokenLogs \<equiv> 182"
abbreviation (input) TokenLevel :: nat where "TokenLevel \<equiv> 183"
abbreviation (input) TokenDebug :: nat where "TokenDebug \<equiv> 184"
abbreviation (input) TokenInfo :: nat where "TokenInfo \<equiv> 185"
abbreviation (input) TokenWarn :: nat where "TokenWarn \<equiv> 186"
abbreviation (input) TokenError :: nat where "TokenError \<equiv> 187"
abbreviation (input) TokenFatal :: nat where "TokenFatal \<equiv> 188"
abbreviation (input) TokenPanic :: nat where "TokenPanic \<equiv> 189"
abbreviation (input) TokenBy :: nat where "TokenBy \<equiv> 190"
abbreviation (input) TokenDate :: nat where "TokenDate \<equiv> 191"
abbreviation (input) TokenGroup :: nat where "TokenGroup \<equiv> 192"
abbreviation (input) TokenGroups :: nat where "TokenGroups \<equiv> 193"
abbreviation (input) TokenIdentifier :: nat where "TokenIdentifier \<equiv> 194"
abbreviation (input) TokenQuotedString :: nat where "TokenQuotedString \<equiv> 195"
abbreviation (input) TokenInteger :: nat where "TokenInteger \<equiv> 196"
abbreviation (input) TokenFloat :: nat where "TokenFloat \<equiv> 197"
abbreviation (input) TokenNumber :: nat where "TokenNumber \<equiv> 196"
abbreviation (input) TokenSemicolon :: nat where "TokenSemicolon \<equiv> 200"
abbreviation (input) TokenComma :: nat where "TokenComma \<equiv> 201"
abbreviation (input) TokenSlash :: nat where "TokenSlash \<equiv> 202"
abbreviation (input) TokenEOF :: nat where "TokenEOF \<equiv> 203"
abbreviation (input) TokenDash :: nat where "TokenDash \<equiv> 204"
abbreviation (input) TokenIllegal :: nat where "TokenIllegal \<equiv> 205"
abbreviation (input) TokenLBracket :: nat where "TokenLBracket \<equiv> 206"
abbreviation (input) TokenRBracket :: nat where "TokenRBracket \<equiv> 207"

record Token =
  tk_Type :: nat
  tk_Value :: string

record CliCommand =
  cmd_Type :: string
  cmd_Params :: gostate

definition NewCommand :: "string \<Rightarrow> CliCommand" where
  "NewCommand cmdType = \<lparr>cmd_Type = cmdType, cmd_Params = []\<rparr>"

text \<open>\<^verbatim>\<open>cmd.Params[k] = v\<close>\<close>

definition set_param :: "string \<Rightarrow> goval \<Rightarrow> CliCommand \<Rightarrow> CliCommand" where
  "set_param k v cmd = cmd\<lparr>cmd_Params := gm_set k v (cmd_Params cmd)\<rparr>"

definition get_param :: "string \<Rightarrow> CliCommand \<Rightarrow> goval" where
  "get_param k cmd = (case map_of (cmd_Params cmd) k of None \<Rightarrow> GNil | Some v \<Rightarrow> v)"

lemma NewCommand_Type [simp]: "cmd_Type (NewCommand t) = t"
  by (simp add: NewCommand_def)

lemma set_param_Type [simp]: "cmd_Type (set_param k v cmd) = cmd_Type cmd"
  by (simp add: set_param_def)

lemma get_set_param [simp]: "get_param k (set_param k' v cmd) = (if k = k' then v else get_param k cmd)"
  by (simp add: get_param_def set_param_def gm_set_lookup)

section \<open>Keywords\<close>

definition keywords1 :: "(string \<times> nat) list" where
  "keywords1 = [
    (''LOGIN'', TokenLogin), (''LOGOUT'', TokenLogout), (''REGISTER'', TokenRegister), (''LIST'', TokenList), (''SERVICES'', TokenServices),
    (''SHOW'', TokenShow), (''CREATE'', TokenCreate), (''SERVICE'', TokenService), (''SHUTDOWN'', TokenShutdown),
    (''RESTART'', TokenRestart), (''USERS'', TokenUsers), (''DROP'', TokenDrop), (''USER'', TokenUser), (''ALTER'', TokenAlter),
    (''ACTIVE'', TokenActive), (''INACTIVE'', TokenInactive), (''ADMIN'', TokenAdmin), (''SERVER'', TokenServer), (''API'', TokenAPI),
    (''ADD'', TokenAdd), (''LIVE'', TokenLive), (''HEALTH'', TokenHealth), (''HOST'', TokenHost), (''DELETE'', TokenDelete),
    (''PASSWORD'', TokenPassword), (''DATASET'', TokenDataset), (''DATASETS'', TokenDatasets), (''OF'', TokenOf), (''AGENTS'', TokenAgents),
    (''SEARCHES'', TokenSearches), (''ROLE'', TokenRole), (''ROLES'', TokenRoles), (''DESCRIPTION'', TokenDescription),
    (''GRANT'', TokenGrant), (''REVOKE'', TokenRevoke), (''ALL'', TokenAll), (''PERMISSION'', TokenPermission), (''TO'', TokenTo),
    (''FROM'', TokenFrom), (''FOR'', TokenFor), (''RESOURCES'', TokenResources), (''ON'', TokenOn), (''SET'', TokenSet),
    (''UNSET'', TokenUnset), (''RESET'', TokenReset), (''VERSION'', TokenVersion), (''VAR'', TokenVar), (''VARS'', TokenVars),
    (''CONFIGS'', TokenConfigs), (''CONFIG'', TokenConfig), (''ENVS'', TokenEnvs), (''KEY'', TokenKey), (''KEYS'', TokenKeys),
    (''GENERATE'', TokenGenerate), (''MODEL'', TokenModel), (''MODELS'', TokenModels), (''PROVIDER'', TokenProvider),
    (''PROVIDERS'', TokenProviders), (''DEFAULT'', TokenDefault), (''CHATS'', TokenChats), (''CHAT'', TokenChat),
    (''OPENAI_CHAT'', TokenOpenaiChat), (''MESSAGE'', TokenMessage), (''IMAGE'', TokenImage)]"

definition keywords2 :: "(string \<times> nat) list" where
  "keywords2 = [
    (''VIDEO'', TokenVideo), (''AUDIO'', TokenAudio), (''THINK'', TokenThink), (''EFFORT'', TokenEffort), (''VERBOSITY'', TokenVerbosity),
    (''NONE'', TokenNone), (''MINIMAL'', TokenMinimal), (''LOW'', TokenLow), (''MEDIUM'', TokenMedium), (''HIGH'', TokenHigh),
    (''MAX'', TokenMax), (''STORE'', TokenStore), (''ENGINE'', TokenEngine), (''STREAM'', TokenStream), (''LS'', TokenLS),
    (''CAT'', TokenCat), (''FILES'', TokenFiles), (''AS'', TokenAs), (''PARSE'', TokenParse), (''IMPORT'', TokenImport),
    (''INTO'', TokenInto), (''WITH'', TokenWith), (''PARSER'', TokenParser), (''PIPELINE'', TokenPipeline), (''GET'', TokenGet),
    (''SEARCH'', TokenSearch), (''AGENT'', TokenAgent), (''CORES'', TokenCores), (''CONCURRENCY'', TokenConcurrency),
    (''MEMORY'', TokenMemory), (''MEMORIES'', TokenMemories), (''RETRIEVE'', TokenRetrieve), (''CURRENT'', TokenCurrent),
    (''SOFT'', TokenSoft), (''FINGERPRINT'', TokenFingerprint), (''LICENSE'', TokenLicense), (''VISION'', TokenVision),
    (''EMBEDDING'', TokenEmbedding), (''RERANK'', TokenRerank), (''ASR'', TokenASR), (''TTS'', TokenTTS), (''EMBED'', TokenEmbed),
    (''TEXT'', TokenText), (''QUERY'', TokenQuery), (''TOP'', TokenTop), (''DIMENSION'', TokenDimension), (''OCR'', TokenOCR),
    (''DOC_PARSE'', TokenDocParse), (''ASYNC'', TokenAsync), (''SYNC'', TokenSync), (''SYNC_LOGS'', TokenSyncLogs),
    (''BENCHMARK'', TokenBenchmark), (''PING'', TokenPing), (''TOKEN'', TokenToken), (''TOKENS'', TokenTokens), (''INDEX'', TokenIndex),
    (''VECTOR'', TokenVector), (''SIZE'', TokenSize), (''METADATA'', TokenMetadata), (''TABLE'', TokenTable),
    (''AVAILABLE'', TokenAvailable), (''SUPPORTED'', TokenSupported), (''NAME'', TokenName), (''BALANCE'', TokenBalance)]"

definition keywords3 :: "(string \<times> nat) list" where
  "keywords3 = [
    (''INSTANCE'', TokenInstance), (''INSTANCES'', TokenInstances), (''DISABLE'', TokenDisable), (''ENABLE'', TokenEnable),
    (''FILE'', TokenFile), (''USE'', TokenUse), (''CHECK'', TokenCheck), (''UPDATE'', TokenUpdate), (''REMOVE'', TokenRemove),
    (''EXPLAIN'', TokenExplain), (''CHUNKS'', TokenChunks), (''DOCUMENT'', TokenDocument), (''DOCUMENTS'', TokenDocuments),
    (''REGION'', TokenRegion), (''URL'', TokenURL), (''TASK'', TokenTask), (''TASKS'', TokenTasks), (''START'', TokenStart),
    (''STOP'', TokenStop), (''INGESTOR'', TokenIngestor), (''INGESTORS'', TokenIngestors), (''INGESTION'', TokenIngestion),
    (''CACHE'', TokenCache), (''MQ'', TokenMQ), (''PUBLISH'', TokenPublish), (''PULL'', TokenPull), (''PENDING'', TokenPending),
    (''NOACK'', TokenNoACK), (''ANALYZE'', TokenAnalyze), (''SUMMARY'', TokenSummary), (''STATS'', TokenStats), (''STORAGE'', TokenStorage),
    (''QUOTA'', TokenQuota), (''TREE'', TokenTree), (''ORPHAN'', TokenOrphan), (''DAYS'', TokenDays), (''HOUR'', TokenHour),
    (''DAY'', TokenDay), (''MONTH'', TokenMonth), (''WINDOW'', TokenWindow), (''ACTIVITY'', TokenActivity), (''HARDWARE'', TokenHardware),
    (''PURGE'', TokenPurge), (''PREVIEW'', TokenPreview), (''PLAN'', TokenPlan), (''DATA'', TokenData), (''LOG'', TokenLog),
    (''LOGS'', TokenLogs), (''LEVEL'', TokenLevel), (''DEBUG'', TokenDebug), (''INFO'', TokenInfo), (''IN'', TokenIn), (''WARN'', TokenWarn),
    (''ERROR'', TokenError), (''FATAL'', TokenFatal), (''PANIC'', TokenPanic), (''GROUP'', TokenGroup), (''GROUPS'', TokenGroups),
    (''BY'', TokenBy), (''DATE'', TokenDate), (''PARAM'', TokenParam), (''PLAY'', TokenPlay), (''FORMAT'', TokenFormat),
    (''SAVE'', TokenSave)]"

definition keyword :: "string \<Rightarrow> nat option" where
  "keyword upper = map_of (keywords1 @ keywords2 @ keywords3) upper"

end
