(* ===== verification/CliLexer.thy ===== *)
theory CliLexer
  imports CliTokens
begin

text \<open>
  The lexer of the command line client (\<^verbatim>\<open>cli/lexer.go\<close>), with the positions it keeps and the slices it takes: a slice out of range is a
  panic. Letters are those of Latin-1, as the code looks at single bytes. The second part shows that the lexer reads the rest of its
  input like a function on lists, and where it panics.
\<close>

section \<open>The lexer\<close>

record Lexer =
  lx_input :: string
  lx_pos :: nat
  lx_readPos :: nat
  lx_ch :: char

abbreviation NULL :: char where "NULL \<equiv> CHR 0x00"

definition go_slice :: "string \<Rightarrow> nat \<Rightarrow> nat \<Rightarrow> gerror + string" where
  "go_slice s a b = (if a \<le> b \<and> b \<le> length s then Inr (take (b - a) (drop a s)) else Inl (PanicError ''slice bounds out of range''))"

definition readChar :: "Lexer \<Rightarrow> Lexer" where
  "readChar l =
     l\<lparr>lx_ch := (if lx_readPos l \<ge> length (lx_input l) then NULL else lx_input l ! lx_readPos l),
       lx_pos := lx_readPos l, lx_readPos := lx_readPos l + 1\<rparr>"

definition NewLexer :: "string \<Rightarrow> Lexer" where
  "NewLexer inp = readChar \<lparr>lx_input = inp, lx_pos = 0, lx_readPos = 0, lx_ch = NULL\<rparr>"

definition peekChar :: "Lexer \<Rightarrow> char" where
  "peekChar l = (if lx_readPos l \<ge> length (lx_input l) then NULL else lx_input l ! lx_readPos l)"

text \<open>\<^verbatim>\<open>unicode.IsLetter\<close> and \<^verbatim>\<open>unicode.IsDigit\<close> on a byte.\<close>

definition isLetter :: "char \<Rightarrow> bool" where
  "isLetter c = (let n = of_char c :: nat in
     65 \<le> n \<and> n \<le> 90 \<or> 97 \<le> n \<and> n \<le> 122 \<or> n = 170 \<or> n = 181 \<or> n = 186 \<or> 192 \<le> n \<and> n \<noteq> 215 \<and> n \<noteq> 247)"

definition isDigit :: "char \<Rightarrow> bool" where
  "isDigit c = (let n = of_char c :: nat in 48 \<le> n \<and> n \<le> 57)"

definition is_ws :: "char \<Rightarrow> bool" where
  "is_ws c \<longleftrightarrow> c = CHR '' '' \<or> c = CHR 0x09 \<or> c = CHR 0x0A \<or> c = CHR 0x0D"

definition is_ident :: "char \<Rightarrow> bool" where
  "is_ident c \<longleftrightarrow> isLetter c \<or> isDigit c \<or> c = CHR ''_'' \<or> c = CHR ''-'' \<or> c = CHR ''.''"

text \<open>
  A loop that reads on while the current character satisfies a condition. The conditions of the code are false of the zero byte
  that stands for the end of the input.
\<close>

function read_while :: "(char \<Rightarrow> bool) \<Rightarrow> Lexer \<Rightarrow> Lexer" where
  "read_while P l = (if lx_ch l \<noteq> NULL \<and> P (lx_ch l) then read_while P (readChar l) else l)"
  by pat_completeness auto
termination
  by (relation "measure (\<lambda>(P, l). (length (lx_input l) - lx_readPos l) + (if lx_ch l \<noteq> NULL then 1 else 0))") (auto simp: readChar_def)

declare read_while.simps [simp del]

definition skipWhitespace :: "Lexer \<Rightarrow> Lexer" where
  "skipWhitespace l = read_while is_ws l"

definition readMetaCommand :: "Lexer \<Rightarrow> gerror + string \<times> Lexer" where
  "readMetaCommand l =
     (let l1 = read_while (\<lambda>c. isLetter c \<or> c = CHR ''?'') (readChar l)
      in case go_slice (lx_input l) (lx_pos l) (lx_pos l1) of Inl err \<Rightarrow> Inl err | Inr s \<Rightarrow> Inr (s, l1))"

definition readIdentifier :: "Lexer \<Rightarrow> gerror + string \<times> Lexer" where
  "readIdentifier l =
     (let l1 = read_while is_ident l
      in case go_slice (lx_input l) (lx_pos l) (lx_pos l1) of Inl err \<Rightarrow> Inl err | Inr s \<Rightarrow> Inr (s, l1))"

definition readNumber :: "Lexer \<Rightarrow> gerror + Token \<times> Lexer" where
  "readNumber l =
     (let l1 = read_while isDigit l;
          (tokenType, l2) = (if lx_ch l1 = CHR ''.'' \<and> isDigit (peekChar l1) then (TokenFloat, read_while isDigit (readChar l1))
                             else (TokenInteger, l1))
      in case go_slice (lx_input l) (lx_pos l) (lx_pos l2) of
           Inl err \<Rightarrow> Inl err
         | Inr s \<Rightarrow> Inr (\<lparr>tk_Type = tokenType, tk_Value = s\<rparr>, l2))"

definition readQuotedString :: "char \<Rightarrow> Lexer \<Rightarrow> gerror + string \<times> Lexer" where
  "readQuotedString quote l =
     (let l1 = readChar l;
          l2 = read_while (\<lambda>c. c \<noteq> quote) l1
      in case go_slice (lx_input l) (lx_pos l1) (lx_pos l2) of
           Inl err \<Rightarrow> Inl err
         | Inr str \<Rightarrow> Inr (str, if lx_ch l2 = quote then readChar l2 else l2))"

text \<open>The next word, from the character after the current one; the lexer stays where it is.\<close>

definition lx_peekToken :: "Lexer \<Rightarrow> gerror + string" where
  "lx_peekToken l =
     (let start = lx_readPos l + length (takeWhile is_ws (drop (lx_readPos l) (lx_input l)))
      in go_slice (lx_input l) start (start + length (takeWhile is_ident (drop start (lx_input l)))))"

text \<open>Upper case of bytes; keywords are words of ASCII letters, which no other character has as its upper case here.\<close>

definition to_upper :: "char \<Rightarrow> char" where
  "to_upper c = (let n = of_char c :: nat in if 97 \<le> n \<and> n \<le> 122 then char_of (n - 32) else c)"

definition ToUpper :: "string \<Rightarrow> string" where
  "ToUpper s = map to_upper s"

definition lookupIdent :: "string \<Rightarrow> Lexer \<Rightarrow> gerror + Token \<times> Lexer" where
  "lookupIdent ident l =
     (if ToUpper ident = ''CHUNK''
      then case lx_peekToken l of
             Inl err \<Rightarrow> Inl err
           | Inr next_word \<Rightarrow>
               if ToUpper next_word = ''STORE''
               then Inr (\<lparr>tk_Type = TokenChunkStore, tk_Value = ''CHUNK STORE''\<rparr>, read_while is_ident (read_while is_ws l))
               else Inr (\<lparr>tk_Type = TokenChunk, tk_Value = ident\<rparr>, l)
      else case keyword (ToUpper ident) of
             Some t \<Rightarrow> Inr (\<lparr>tk_Type = t, tk_Value = ident\<rparr>, l)
           | None \<Rightarrow> Inr (\<lparr>tk_Type = TokenIdentifier, tk_Value = ident\<rparr>, l))"

text \<open>Tokens of one character; \<^verbatim>\<open>string(ch)\<close> of a byte is the character with that number, in UTF-8.\<close>

definition byte_string :: "char \<Rightarrow> string" where
  "byte_string c = (let n = of_char c :: nat in if n < 128 then [c] else [char_of (192 + n div 64), char_of (128 + n mod 64)])"

definition newToken :: "nat \<Rightarrow> char \<Rightarrow> Token" where
  "newToken tokenType c = \<lparr>tk_Type = tokenType, tk_Value = byte_string c\<rparr>"

definition punctuation :: "char \<Rightarrow> nat option" where
  "punctuation c =
     (if c = CHR '';'' then Some TokenSemicolon else if c = CHR '','' then Some TokenComma else if c = CHR ''/'' then Some TokenSlash
      else if c = CHR ''-'' then Some TokenDash else if c = CHR ''['' then Some TokenLBracket else if c = CHR '']'' then Some TokenRBracket
      else None)"

definition NextToken :: "Lexer \<Rightarrow> gerror + Token \<times> Lexer" where
  "NextToken l0 =
     (let l = skipWhitespace l0; c = lx_ch l
      in case punctuation c of
           Some t \<Rightarrow> Inr (newToken t c, readChar l)
         | None \<Rightarrow>
             if c = CHR 0x27 \<or> c = CHR 0x22
             then case readQuotedString c l of
                    Inl err \<Rightarrow> Inl err
                  | Inr (s, l1) \<Rightarrow> Inr (\<lparr>tk_Type = TokenQuotedString, tk_Value = s\<rparr>, l1)
             else if c = CHR 0x5C
             then case readMetaCommand l of
                    Inl err \<Rightarrow> Inl err
                  | Inr (s, l1) \<Rightarrow> Inr (\<lparr>tk_Type = TokenIdentifier, tk_Value = s\<rparr>, l1)
             else if c = NULL then Inr (\<lparr>tk_Type = TokenEOF, tk_Value = []\<rparr>, l)
             else if isLetter c \<or> c = CHR ''_''
             then case readIdentifier l of Inl err \<Rightarrow> Inl err | Inr (ident, l1) \<Rightarrow> lookupIdent ident l1
             else if isDigit c then readNumber l
             else Inr (newToken TokenIllegal c, readChar l))"

section \<open>Reading the rest of the input\<close>

definition lx_rest :: "Lexer \<Rightarrow> string" where
  "lx_rest l = drop (lx_pos l) (lx_input l)"

definition lx_ok :: "Lexer \<Rightarrow> bool" where
  "lx_ok l \<longleftrightarrow> lx_readPos l = lx_pos l + 1 \<and> lx_pos l \<le> length (lx_input l) \<and> lx_ch l = (case lx_rest l of [] \<Rightarrow> NULL | c # cs \<Rightarrow> c)"

lemma NewLexer_ok: "lx_ok (NewLexer inp)" "lx_rest (NewLexer inp) = inp"
  by (cases inp; simp add: lx_ok_def NewLexer_def readChar_def lx_rest_def)+

lemma readChar_input [simp]: "lx_input (readChar l) = lx_input l"
  by (simp add: readChar_def)

lemma readChar_ok:
  assumes "lx_ok l" and "lx_rest l = c # cs"
  shows "lx_ok (readChar l)" "lx_rest (readChar l) = cs" "lx_pos (readChar l) = lx_pos l + 1"
proof -
  have d: "drop (Suc (lx_pos l)) (lx_input l) = cs" and p: "lx_pos l < length (lx_input l)"
    using assms(2) unfolding lx_rest_def by (metis drop_Suc list.sel(3) tl_drop) (metis assms(2) drop_eq_Nil leI list.distinct(1) lx_rest_def)
  show "lx_pos (readChar l) = lx_pos l + 1" "lx_rest (readChar l) = cs"
    using assms(1) d by (simp_all add: lx_ok_def readChar_def lx_rest_def)
  show "lx_ok (readChar l)"
    using assms(1) d p by (cases cs) (auto simp: lx_ok_def readChar_def lx_rest_def nth_via_drop)
qed

lemma read_while_ok:
  assumes "lx_ok l"
  shows "lx_ok (read_while P l) \<and> lx_rest (read_while P l) = dropWhile (\<lambda>c. c \<noteq> NULL \<and> P c) (lx_rest l) \<and>
    lx_pos (read_while P l) = lx_pos l + length (takeWhile (\<lambda>c. c \<noteq> NULL \<and> P c) (lx_rest l)) \<and> lx_input (read_while P l) = lx_input l"
  using assms
proof (induction P l rule: read_while.induct)
  case (1 P l)
  show ?case
  proof (cases "lx_rest l")
    case Nil
    with 1(2) show ?thesis
      by (simp add: read_while.simps [of P l] lx_ok_def)
  next
    case (Cons c cs)
    then have c: "lx_ch l = c"
      using 1(2) by (simp add: lx_ok_def)
    show ?thesis
    proof (cases "c \<noteq> NULL \<and> P c")
      case True
      with 1(1) readChar_ok [OF 1(2) Cons] show ?thesis
        by (simp add: read_while.simps [of P l] c Cons)
    next
      case False
      then show ?thesis
        using 1(2) by (auto simp: read_while.simps [of P l] c Cons)
    qed
  qed
qed

lemma slice_prefix:
  assumes "lx_ok l" and "lx_rest l = w @ r"
  shows "go_slice (lx_input l) (lx_pos l) (lx_pos l + length w) = Inr w"
proof -
  have "length (lx_input l) - lx_pos l = length w + length r"
    using arg_cong [OF assms(2), of length] by (simp add: lx_rest_def)
  moreover have "lx_pos l \<le> length (lx_input l)"
    using assms(1) by (simp add: lx_ok_def)
  ultimately have "lx_pos l + length w \<le> length (lx_input l)"
    by linarith
  moreover have "take (length w) (drop (lx_pos l) (lx_input l)) = w"
    using assms(2) by (simp add: lx_rest_def)
  ultimately show ?thesis
    by (simp add: go_slice_def)
qed

lemma slice_rest:
  assumes "lx_ok l"
  shows "go_slice (lx_input l) (lx_pos l) (lx_pos l + length (takeWhile Q (lx_rest l))) = Inr (takeWhile Q (lx_rest l))"
  using slice_prefix [OF assms, of "takeWhile Q (lx_rest l)" "dropWhile Q (lx_rest l)"] by simp

text \<open>What the lexer does to the rest of its input.\<close>

definition scan_ident :: "string \<Rightarrow> string \<Rightarrow> gerror + Token \<times> string" where
  "scan_ident ident rest =
     (if ToUpper ident = ''CHUNK''
      then if rest = [] then Inl (PanicError ''slice bounds out of range'')
           else if ToUpper (takeWhile is_ident (dropWhile is_ws (tl rest))) = ''STORE''
           then Inr (\<lparr>tk_Type = TokenChunkStore, tk_Value = ''CHUNK STORE''\<rparr>, dropWhile is_ident (dropWhile is_ws rest))
           else Inr (\<lparr>tk_Type = TokenChunk, tk_Value = ident\<rparr>, rest)
      else Inr (\<lparr>tk_Type = (case keyword (ToUpper ident) of Some t \<Rightarrow> t | None \<Rightarrow> TokenIdentifier), tk_Value = ident\<rparr>, rest))"

definition scan_number :: "string \<Rightarrow> Token \<times> string" where
  "scan_number s =
     (let ds = takeWhile isDigit s
      in case dropWhile isDigit s of
           [] \<Rightarrow> (\<lparr>tk_Type = TokenInteger, tk_Value = ds\<rparr>, [])
         | c # cs \<Rightarrow>
             if c = CHR ''.'' \<and> takeWhile isDigit cs \<noteq> []
             then (\<lparr>tk_Type = TokenFloat, tk_Value = ds @ CHR ''.'' # takeWhile isDigit cs\<rparr>, dropWhile isDigit cs)
             else (\<lparr>tk_Type = TokenInteger, tk_Value = ds\<rparr>, c # cs))"

definition scan_quoted :: "char \<Rightarrow> string \<Rightarrow> Token \<times> string" where
  "scan_quoted q s =
     (\<lparr>tk_Type = TokenQuotedString, tk_Value = takeWhile (\<lambda>c. c \<noteq> NULL \<and> c \<noteq> q) s\<rparr>,
      case dropWhile (\<lambda>c. c \<noteq> NULL \<and> c \<noteq> q) s of [] \<Rightarrow> [] | c # cs \<Rightarrow> if c = q then cs else c # cs)"

definition scan :: "string \<Rightarrow> gerror + Token \<times> string" where
  "scan s0 =
     (case dropWhile is_ws s0 of
        [] \<Rightarrow> Inr (\<lparr>tk_Type = TokenEOF, tk_Value = []\<rparr>, [])
      | c # cs \<Rightarrow>
          (case punctuation c of
             Some t \<Rightarrow> Inr (newToken t c, cs)
           | None \<Rightarrow>
               if c = CHR 0x27 \<or> c = CHR 0x22 then Inr (scan_quoted c cs)
               else if c = CHR 0x5C
               then Inr (\<lparr>tk_Type = TokenIdentifier, tk_Value = c # takeWhile (\<lambda>c. isLetter c \<or> c = CHR ''?'') cs\<rparr>,
                         dropWhile (\<lambda>c. isLetter c \<or> c = CHR ''?'') cs)
               else if c = NULL then Inr (\<lparr>tk_Type = TokenEOF, tk_Value = []\<rparr>, c # cs)
               else if isLetter c \<or> c = CHR ''_'' then scan_ident (takeWhile is_ident (c # cs)) (dropWhile is_ident (c # cs))
               else if isDigit c then Inr (scan_number (c # cs))
               else Inr (newToken TokenIllegal c, cs)))"

lemma not_NULL [simp]: "\<not> isLetter NULL" "\<not> isDigit NULL" "\<not> is_ws NULL" "\<not> is_ident NULL"
  by (simp_all add: isLetter_def isDigit_def is_ws_def is_ident_def)

lemma while_not_NULL:
  assumes "\<not> P NULL"
  shows "takeWhile (\<lambda>c. c \<noteq> NULL \<and> P c) s = takeWhile P s" "dropWhile (\<lambda>c. c \<noteq> NULL \<and> P c) s = dropWhile P s"
  using assms by (induction s) auto

lemmas read_plain = read_while_ok [of _ is_ws, unfolded while_not_NULL [of is_ws, OF not_NULL(3)]]
  read_while_ok [of _ is_ident, unfolded while_not_NULL [of is_ident, OF not_NULL(4)]]
  read_while_ok [of _ isDigit, unfolded while_not_NULL [of isDigit, OF not_NULL(2)]]

lemma lx_ok_ch: "lx_ok l \<Longrightarrow> lx_ch l = (case lx_rest l of [] \<Rightarrow> NULL | c # cs \<Rightarrow> c)"
  by (simp add: lx_ok_def)

lemma peekChar_rest:
  assumes "lx_ok l" and "lx_rest l = c # cs"
  shows "peekChar l = (case cs of [] \<Rightarrow> NULL | c # _ \<Rightarrow> c)"
proof -
  have "peekChar l = lx_ch (readChar l)"
    by (simp add: peekChar_def readChar_def)
  then show ?thesis
    using lx_ok_ch [OF readChar_ok(1) [OF assms]] readChar_ok(2) [OF assms] by simp
qed

text \<open>The lexer agrees with \<open>scan\<close> on the rest of its input.\<close>

definition agrees :: "gerror + Token \<times> Lexer \<Rightarrow> gerror + Token \<times> string \<Rightarrow> bool" where
  "agrees r r' =
     (case r' of
        Inl err \<Rightarrow> r = Inl err
      | Inr (t, s) \<Rightarrow> (case r of Inl err \<Rightarrow> False | Inr (t', l) \<Rightarrow> t' = t \<and> lx_ok l \<and> lx_rest l = s))"

lemma agrees_simps [simp]:
  "agrees r (Inl err) \<longleftrightarrow> r = Inl err"
  "agrees (Inr (t', l)) (Inr (t, s)) \<longleftrightarrow> t' = t \<and> lx_ok l \<and> lx_rest l = s"
  by (simp_all add: agrees_def)

lemma lookupIdent_scan:
  assumes "lx_ok l"
  shows "agrees (lookupIdent ident l) (scan_ident ident (lx_rest l))"
proof -
  have peek: "lx_peekToken l = (if lx_rest l = [] then Inl (PanicError ''slice bounds out of range'')
      else Inr (takeWhile is_ident (dropWhile is_ws (tl (lx_rest l)))))"
  proof (cases "lx_rest l")
    case Nil
    then show ?thesis
      using assms by (auto simp: lx_peekToken_def go_slice_def lx_ok_def lx_rest_def)
  next
    case (Cons c cs)
    have d: "drop (lx_readPos l) (lx_input l) = cs"
      using assms Cons unfolding lx_ok_def lx_rest_def by (metis add.commute drop_Suc plus_1_eq_Suc list.sel(3) tl_drop)
    have len: "lx_readPos l + length cs = length (lx_input l)"
      using assms Cons d by (auto simp: lx_ok_def lx_rest_def dest!: arg_cong [where f = length])
    let ?s = "lx_readPos l + length (takeWhile is_ws cs)"
    have ds: "drop ?s (lx_input l) = dropWhile is_ws cs"
      by (metis add.commute d drop_drop dropWhile_eq_drop)
    have "length (takeWhile is_ws cs) + length (takeWhile is_ident (dropWhile is_ws cs)) \<le> length cs"
      using length_takeWhile_le [of is_ident "dropWhile is_ws cs"] by (metis add_le_cancel_left length_append takeWhile_dropWhile_id)
    moreover have "take (length (takeWhile is_ident (dropWhile is_ws cs))) (dropWhile is_ws cs) = takeWhile is_ident (dropWhile is_ws cs)"
      by (metis append_eq_conv_conj takeWhile_dropWhile_id)
    ultimately show ?thesis
      using len by (simp add: lx_peekToken_def d ds go_slice_def Cons)
  qed
  show ?thesis
    using read_plain(2) [of "read_while is_ws l"] read_plain(1) [OF assms] assms
    by (auto simp: lookupIdent_def scan_ident_def peek split: option.split)
qed

lemma readNumber_scan:
  assumes "lx_ok l"
  shows "agrees (readNumber l) (Inr (scan_number (lx_rest l)))"
proof -
  let ?l1 = "read_while isDigit l"
  note l1 = read_plain(3) [OF assms]
  show ?thesis
  proof (cases "lx_ch ?l1 = CHR ''.'' \<and> isDigit (peekChar ?l1)")
    case True
    then obtain cs where r: "lx_rest ?l1 = CHR ''.'' # cs"
      using lx_ok_ch [OF conjunct1 [OF l1]] by (cases "lx_rest ?l1") auto
    note r2 = readChar_ok [OF conjunct1 [OF l1] r]
    have pk: "peekChar ?l1 = (case cs of [] \<Rightarrow> NULL | c # _ \<Rightarrow> c)"
      by (rule peekChar_rest [OF conjunct1 [OF l1] r])
    have cs: "takeWhile isDigit cs \<noteq> []"
      using True pk by (cases cs) simp_all
    note l2 = read_plain(3) [OF r2(1)]
    have sl: "go_slice (lx_input l) (lx_pos l) (lx_pos (read_while isDigit (readChar ?l1))) =
        Inr (takeWhile isDigit (lx_rest l) @ CHR ''.'' # takeWhile isDigit cs)"
    proof -
      have w: "lx_rest l = (takeWhile isDigit (lx_rest l) @ CHR ''.'' # takeWhile isDigit cs) @ dropWhile isDigit cs"
        using l1 r by (metis append.assoc append_Cons takeWhile_dropWhile_id)
      have e: "lx_pos (read_while isDigit (readChar ?l1)) = lx_pos l + length (takeWhile isDigit (lx_rest l) @ CHR ''.'' # takeWhile isDigit cs)"
        using l1 l2 r2 by simp
      show ?thesis
        unfolding e by (rule slice_prefix [OF assms w])
    qed
    have "scan_number (lx_rest l) = (\<lparr>tk_Type = TokenFloat, tk_Value = takeWhile isDigit (lx_rest l) @ CHR ''.'' # takeWhile isDigit cs\<rparr>,
        dropWhile isDigit cs)"
      unfolding scan_number_def using conjunct1 [OF conjunct2 [OF l1], symmetric] cs by (simp add: r)
    then show ?thesis
      using True l2 r2(2) sl by (simp add: readNumber_def Let_def)
  next
    case False
    have "scan_number (lx_rest l) = (\<lparr>tk_Type = TokenInteger, tk_Value = takeWhile isDigit (lx_rest l)\<rparr>, lx_rest ?l1)"
    proof (cases "lx_rest ?l1")
      case (Cons c cs)
      have "peekChar ?l1 = (case cs of [] \<Rightarrow> NULL | c # _ \<Rightarrow> c)" "lx_ch ?l1 = c"
        using peekChar_rest [OF conjunct1 [OF l1] Cons] lx_ok_ch [OF conjunct1 [OF l1]] Cons by simp_all
      then have "\<not> (c = CHR ''.'' \<and> takeWhile isDigit cs \<noteq> [])"
        using False by (cases cs) auto
      then show ?thesis
        unfolding scan_number_def using conjunct1 [OF conjunct2 [OF l1], symmetric] by (simp add: Cons Let_def)
    next
      case Nil
      then show ?thesis
        unfolding scan_number_def conjunct1 [OF conjunct2 [OF l1], symmetric] Nil by simp
    qed
    moreover have "(if lx_ch ?l1 = CHR ''.'' \<and> isDigit (peekChar ?l1) then (TokenFloat, read_while isDigit (readChar ?l1)) else (TokenInteger, ?l1)) = (TokenInteger, ?l1)"
      using False by (simp only: if_False)
    ultimately show ?thesis
      using l1 slice_rest [OF assms, of isDigit] by (simp add: readNumber_def Let_def)
  qed
qed

lemma readQuotedString_scan:
  assumes "lx_ok l" and "lx_rest l = q # cs" and "q \<noteq> NULL"
  shows "agrees (case readQuotedString q l of Inl err \<Rightarrow> Inl err | Inr (s, l1) \<Rightarrow> Inr (\<lparr>tk_Type = TokenQuotedString, tk_Value = s\<rparr>, l1))
    (Inr (scan_quoted q cs))"
proof -
  note r = readChar_ok [OF assms(1,2)]
  let ?Q = "\<lambda>c. c \<noteq> NULL \<and> c \<noteq> q"
  let ?l2 = "read_while (\<lambda>c. c \<noteq> q) (readChar l)"
  note w = read_while_ok [OF r(1), of "\<lambda>c. c \<noteq> q"]
  have sl: "go_slice (lx_input l) (lx_pos (readChar l)) (lx_pos ?l2) = Inr (takeWhile ?Q cs)"
    using slice_rest [OF r(1), of ?Q] w r(2) by simp
  have rest: "lx_rest ?l2 = dropWhile ?Q cs"
    using w r(2) by simp
  have st: "readQuotedString q l = Inr (takeWhile ?Q cs, if lx_ch ?l2 = q then readChar ?l2 else ?l2)"
    by (simp add: readQuotedString_def Let_def sl)
  show ?thesis
  proof (cases "dropWhile ?Q cs")
    case Nil
    then have "lx_ch ?l2 \<noteq> q"
      using lx_ok_ch [OF conjunct1 [OF w]] assms(3) unfolding rest Nil by simp
    then show ?thesis
      unfolding scan_quoted_def Nil using conjunct1 [OF w] trans [OF rest Nil] by (simp add: st)
  next
    case (Cons d ds)
    have "lx_ch ?l2 = d"
      using lx_ok_ch [OF conjunct1 [OF w]] rest Cons by simp
    then show ?thesis
      using conjunct1 [OF w] rest Cons readChar_ok [OF conjunct1 [OF w] trans [OF rest Cons]] by (simp add: st scan_quoted_def)
  qed
qed

lemma readMetaCommand_scan:
  assumes "lx_ok l" and "lx_rest l = c # cs"
  shows "agrees (case readMetaCommand l of Inl err \<Rightarrow> Inl err | Inr (s, l1) \<Rightarrow> Inr (\<lparr>tk_Type = TokenIdentifier, tk_Value = s\<rparr>, l1))
    (Inr (\<lparr>tk_Type = TokenIdentifier, tk_Value = c # takeWhile (\<lambda>c. isLetter c \<or> c = CHR ''?'') cs\<rparr>,
      dropWhile (\<lambda>c. isLetter c \<or> c = CHR ''?'') cs))"
proof -
  let ?P = "\<lambda>c. isLetter c \<or> c = CHR ''?''"
  note r = readChar_ok [OF assms]
  have P: "\<not> ?P NULL"
    by simp
  note w = read_while_ok [OF r(1), of ?P, unfolded while_not_NULL [of ?P, OF P]]
  have "lx_rest l = (c # takeWhile ?P cs) @ dropWhile ?P cs"
    using assms(2) by simp
  from slice_prefix [OF assms(1) this] w r(2,3) show ?thesis
    by (simp add: readMetaCommand_def Let_def)
qed

theorem NextToken_scan:
  assumes "lx_ok l"
  shows "agrees (NextToken l) (scan (lx_rest l))"
proof -
  let ?l = "skipWhitespace l"
  have ok: "lx_ok ?l" and rest: "lx_rest ?l = dropWhile is_ws (lx_rest l)"
    using read_plain(1) [OF assms] by (simp_all add: skipWhitespace_def)
  show ?thesis
  proof (cases "dropWhile is_ws (lx_rest l)")
    case Nil
    have "lx_ch ?l = NULL"
      using lx_ok_ch [OF ok] unfolding rest Nil by simp
    then show ?thesis
      unfolding scan_def NextToken_def Nil using ok trans [OF rest Nil] by (simp add: punctuation_def)
  next
    case (Cons c cs)
    have r: "lx_rest ?l = c # cs"
      by (rule trans [OF rest Cons])
    have c: "lx_ch ?l = c"
      using lx_ok_ch [OF ok] r by simp
    note rc = readChar_ok [OF ok r]
    have q: "agrees (case readQuotedString c ?l of Inl err \<Rightarrow> Inl err | Inr (s, l1) \<Rightarrow> Inr (\<lparr>tk_Type = TokenQuotedString, tk_Value = s\<rparr>, l1))
        (Inr (scan_quoted c cs))" if "c = CHR 0x27 \<or> c = CHR 0x22"
      by (rule readQuotedString_scan [OF ok r]) (use that in auto)
    have n: "agrees (readNumber ?l) (Inr (scan_number (c # cs)))"
      using readNumber_scan [OF ok] r by simp
    have i: "agrees (case readIdentifier ?l of Inl err \<Rightarrow> Inl err | Inr (ident, l1) \<Rightarrow> lookupIdent ident l1)
        (scan_ident (takeWhile is_ident (c # cs)) (dropWhile is_ident (c # cs)))"
      using lookupIdent_scan [OF conjunct1 [OF read_plain(2) [OF ok]], of "takeWhile is_ident (c # cs)"] read_plain(2) [OF ok]
        slice_rest [OF ok, of is_ident] unfolding r by (simp add: readIdentifier_def Let_def)
    show ?thesis
      unfolding scan_def NextToken_def Let_def c Cons
      using q n i rc readMetaCommand_scan [OF ok r] ok r
      by (cases "punctuation c") (auto split: if_split)
  qed
qed

end
