(* ===== verification/CliParser.thy ===== *)
theory CliParser
  imports CliLexer StateGraph
begin

text \<open>
  The parser of the command line client (\<^verbatim>\<open>cli/parser.go\<close>): its state of two tokens and the lexer, the helpers that the parsers of
  commands share. A panic of the lexer passes through every parser. The loops of the parsers run under \<open>ploop\<close>: its fuel is the number of
  characters and tokens left, and running out of it is an error that no parser makes itself, which the theorems exclude.
\<close>

section \<open>Strings and numbers\<close>

text \<open>Lower case is that of ASCII, which is all that the words of commands have.\<close>

definition to_lower :: "char \<Rightarrow> char" where
  "to_lower c = (let n = of_char c :: nat in if 65 \<le> n \<and> n \<le> 90 then char_of (n + 32) else c)"

definition ToLower :: "string \<Rightarrow> string" where
  "ToLower s = map to_lower s"

text \<open>\<^verbatim>\<open>strings.EqualFold\<close>, folding the letters of ASCII. The code compares identifiers with words of ASCII letters, for which this
  is enough: the two other characters that fold to such a letter, U+017F and U+212A, have a byte that is not a letter for
  the lexer, so they are not in an identifier.\<close>

definition EqualFold :: "string \<Rightarrow> string \<Rightarrow> bool" where
  "EqualFold s t \<longleftrightarrow> ToLower s = ToLower t"

text \<open>\<^verbatim>\<open>strings.Trim\<close> with a set of ASCII characters, \<^verbatim>\<open>strings.Fields\<close>.\<close>

definition Trim :: "string \<Rightarrow> string \<Rightarrow> string" where
  "Trim cutset s = rev (dropWhile (\<lambda>c. c \<in> set cutset) (rev (dropWhile (\<lambda>c. c \<in> set cutset) s)))"

function fields_from :: "string \<Rightarrow> string \<Rightarrow> string list" where
  "fields_from w [] = (if w = [] then [] else [rev w])"
| "fields_from w (c # cs) =
     (case find (\<lambda>r. take (length r) (c # cs) = r) space_runes of
        Some r \<Rightarrow> (if w = [] then [] else [rev w]) @ fields_from [] (drop (length r - 1) cs)
      | None \<Rightarrow> fields_from (c # w) cs)"
  by pat_completeness auto
termination
  by (relation "measure (\<lambda>(w, s). length s)") auto

definition Fields :: "string \<Rightarrow> string list" where
  "Fields s = fields_from [] s"

definition digits_val :: "string \<Rightarrow> nat" where
  "digits_val ds = foldl (\<lambda>n c. 10 * n + (of_char c - 48)) 0 ds"

definition is_digits :: "string \<Rightarrow> bool" where
  "is_digits ds \<longleftrightarrow> ds \<noteq> [] \<and> list_all isDigit ds"

definition Atoi :: "string \<Rightarrow> gerror + int" where
  "Atoi s =
     (let neg = (take 1 s = ''-''); ds = (if neg \<or> take 1 s = ''+'' then drop 1 s else s);
          n = (if neg then - int (digits_val ds) else int (digits_val ds))
      in if \<not> is_digits ds then Inl (PlainError ''strconv.Atoi: parsing %q: invalid syntax'' [s])
         else if - (2 ^ 63) \<le> n \<and> n < 2 ^ 63 then Inr n
         else Inl (PlainError ''strconv.Atoi: parsing %q: value out of range'' [s]))"

text \<open>\<^verbatim>\<open>strconv.ParseFloat\<close> on the numbers of the lexer.\<close>

definition ParseFloat :: "string \<Rightarrow> gerror + f64" where
  "ParseFloat s =
     (let a = takeWhile isDigit s; b = drop 1 (dropWhile isDigit s);
          x = f64_round (of_nat (digits_val (a @ b)) / 10 ^ length b)
      in if x = F64_PosInf then Inl (PlainError ''strconv.ParseFloat: parsing %q: value out of range'' [s]) else Inr x)"

text \<open>Values of parameters. A path is built from strings only; \<open>show_val\<close> prints them.\<close>

definition strings_val :: "string list \<Rightarrow> goval" where
  "strings_val xs = GSlice ''string'' (map GStr xs)"

definition ints_val :: "int list \<Rightarrow> goval" where
  "ints_val xs = GSlice ''int'' (map (\<lambda>n. GInt (of_int n)) xs)"

definition command_val :: "CliCommand \<Rightarrow> goval" where
  "command_val cmd = GPtr (GStruct ''Command'' [(''Type'', GStr (cmd_Type cmd)), (''Params'', GMap (cmd_Params cmd))])"

definition show_val :: "goval \<Rightarrow> string" where
  "show_val v = go_sprint (\<lambda>_. []) v"

text \<open>\<^verbatim>\<open>common/format.go\<close> and \<^verbatim>\<open>common/task.go\<close>\<close>

definition IsCompositeModelName :: "string \<Rightarrow> bool" where
  "IsCompositeModelName modelName =
     (let parts = split_on (CHR ''@'') modelName in if length parts \<noteq> 3 then False else [] \<notin> set parts)"

definition IsUUID :: "string \<Rightarrow> bool" where
  "IsUUID uuid = (if length uuid \<noteq> 32 then False
     else list_all (\<lambda>c. let n = of_char c :: nat in 97 \<le> n \<and> n \<le> 122 \<or> 48 \<le> n \<and> n \<le> 57) uuid)"

definition MaxManualPullMessages :: int where
  "MaxManualPullMessages = 100"

text \<open>\<^verbatim>\<open>cli.go\<close>\<close>

definition parseHostPort :: "string \<Rightarrow> gerror + string \<times> int" where
  "parseHostPort hostPort =
     (if hostPort = [] then Inr ([], - 1)
      else let parts = split_on (CHR '':'') hostPort
           in if length parts \<noteq> 2 then Inl (PlainError ''invalid host format, expected host:port, got: %s'' [hostPort])
              else case Atoi (parts ! 1) of
                     Inl err \<Rightarrow> Inl (PlainError ''invalid port number: %s'' [parts ! 1])
                   | Inr port \<Rightarrow> Inr (parts ! 0, port))"

section \<open>The parser\<close>

record Parser =
  ps_lexer :: Lexer
  ps_cur :: Token
  ps_peek :: Token
  ps_original :: string

abbreviation curT :: "Parser \<Rightarrow> nat" where "curT p \<equiv> tk_Type (ps_cur p)"
abbreviation curV :: "Parser \<Rightarrow> string" where "curV p \<equiv> tk_Value (ps_cur p)"
abbreviation peekT :: "Parser \<Rightarrow> nat" where "peekT p \<equiv> tk_Type (ps_peek p)"
abbreviation peekV :: "Parser \<Rightarrow> string" where "peekV p \<equiv> tk_Value (ps_peek p)"

definition nextToken :: "Parser \<Rightarrow> gerror + Parser" where
  "nextToken p =
     (case NextToken (ps_lexer p) of
        Inl err \<Rightarrow> Inl err
      | Inr (t, l) \<Rightarrow> Inr (p\<lparr>ps_cur := ps_peek p, ps_peek := t, ps_lexer := l\<rparr>))"

definition NewParser :: "string \<Rightarrow> gerror + Parser" where
  "NewParser inp =
     (let t0 = \<lparr>tk_Type = 0, tk_Value = []\<rparr>
      in case nextToken \<lparr>ps_lexer = NewLexer inp, ps_cur = t0, ps_peek = t0, ps_original = inp\<rparr> of
           Inl err \<Rightarrow> Inl err
         | Inr p \<Rightarrow> nextToken p)"

definition psize :: "Parser \<Rightarrow> nat" where
  "psize p = length (lx_rest (ps_lexer p)) + (if curT p = TokenEOF then 0 else 1) + (if peekT p = TokenEOF then 0 else 1)"

definition fuel_error :: gerror where
  "fuel_error = GraphRecursionError 0"

fun ploop_n ::
  "nat \<Rightarrow> ('a \<Rightarrow> Parser \<Rightarrow> gerror + bool \<times> 'a \<times> Parser) \<Rightarrow> 'a \<Rightarrow> Parser \<Rightarrow> gerror + 'a \<times> Parser" where
  "ploop_n 0 body x p = Inl fuel_error"
| "ploop_n (Suc n) body x p =
     (case body x p of
        Inl err \<Rightarrow> Inl err
      | Inr (go, x', p') \<Rightarrow> if go then ploop_n n body x' p' else Inr (x', p'))"

definition ploop :: "('a \<Rightarrow> Parser \<Rightarrow> gerror + bool \<times> 'a \<times> Parser) \<Rightarrow> 'a \<Rightarrow> Parser \<Rightarrow> gerror + 'a \<times> Parser" where
  "ploop body x p = ploop_n (Suc (psize p)) body x p"

text \<open>Going on after a call that succeeds, returning its error otherwise; replacing that error.\<close>

definition andThen :: "gerror + 'a \<Rightarrow> ('a \<Rightarrow> gerror + 'b) \<Rightarrow> gerror + 'b" where
  "andThen r f = (case r of Inl err \<Rightarrow> Inl err | Inr x \<Rightarrow> f x)"

definition orError :: "(gerror \<Rightarrow> gerror) \<Rightarrow> gerror + 'a \<Rightarrow> gerror + 'a" where
  "orError g r = (case r of Inl err \<Rightarrow> Inl (g err) | Inr x \<Rightarrow> Inr x)"

text \<open>An error of a callee that the caller replaces, unless it is a panic.\<close>

definition unless_panic :: "gerror \<Rightarrow> gerror \<Rightarrow> gerror" where
  "unless_panic err err' = (case err of PanicError m \<Rightarrow> err | _ \<Rightarrow> err')"

definition tokenTypeToString :: "nat \<Rightarrow> string" where
  "tokenTypeToString t =
     (if t = TokenEOF then ''end of input'' else if t = TokenIdentifier then ''identifier'' else if t = TokenInteger then ''integer''
      else if t = TokenFloat then ''float'' else if t = TokenQuotedString then ''quoted string''
      else if t = TokenLBracket then [CHR 0x27] @ ''['' @ [CHR 0x27] else if t = TokenRBracket then [CHR 0x27] @ '']'' @ [CHR 0x27]
      else if t = TokenComma then [CHR 0x27] @ '','' @ [CHR 0x27] else if t = TokenSemicolon then [CHR 0x27] @ '';'' @ [CHR 0x27]
      else ''token('' @ show_nat t @ '')'')"

text \<open>\<^verbatim>\<open>%q\<close> is left to the argument of the message.\<close>

definition tokenTypeDescription :: "nat \<Rightarrow> Token \<Rightarrow> string" where
  "tokenTypeDescription t tok =
     (if tk_Type tok = t \<and> tk_Value tok \<noteq> [] then tokenTypeToString t @ '' '' @ [CHR 0x22] @ tk_Value tok @ [CHR 0x22] else tokenTypeToString t)"

definition expectPeek :: "nat \<Rightarrow> Parser \<Rightarrow> gerror + Parser" where
  "expectPeek tokenType p =
     (if peekT p \<noteq> tokenType then Inl (PlainError ''expected %s, got %s'' [tokenTypeToString tokenType, peekV p]) else nextToken p)"

definition expectSemicolon :: "Parser \<Rightarrow> gerror + Parser" where
  "expectSemicolon p =
     (if curT p = TokenSemicolon then Inr p else if peekT p = TokenSemicolon then nextToken p else Inl (PlainError ''expected semicolon'' []))"

text \<open>The optional semicolon at the end of a command.\<close>

definition optSemicolon :: "Parser \<Rightarrow> gerror + Parser" where
  "optSemicolon p = (if curT p = TokenSemicolon then nextToken p else Inr p)"

definition isKeyword :: "nat \<Rightarrow> bool" where
  "isKeyword tokenType \<longleftrightarrow> TokenLogin \<le> tokenType \<and> tokenType \<le> TokenPanic"

definition isCECommand :: "string \<Rightarrow> bool" where
  "isCECommand s = (ToUpper s \<in> {''LS'', ''LIST'', ''SEARCH''})"

definition parseQuotedString :: "Parser \<Rightarrow> gerror + string" where
  "parseQuotedString p =
     (if curT p \<noteq> TokenQuotedString then Inl (PlainError ''expected quoted string, got %s'' [curV p]) else Inr (curV p))"

definition parseIdentifier :: "Parser \<Rightarrow> gerror + string" where
  "parseIdentifier p = (if curT p \<noteq> TokenIdentifier then Inl (PlainError ''expected identifier, got %s'' [curV p]) else Inr (curV p))"

definition parseVariableValue :: "Parser \<Rightarrow> gerror + string" where
  "parseVariableValue p =
     (if curT p \<in> {TokenIdentifier, TokenQuotedString, TokenInteger, TokenFloat} then Inr (curV p)
      else Inl (PlainError ''expected variable value, got %s'' [curV p]))"

definition parseNumber :: "Parser \<Rightarrow> gerror + int" where
  "parseNumber p = (if curT p \<noteq> TokenInteger then Inl (PlainError ''expected number, got %s'' [curV p]) else Atoi (curV p))"

definition parseFloat :: "Parser \<Rightarrow> gerror + f64" where
  "parseFloat p =
     (if curT p \<noteq> TokenInteger \<and> curT p \<noteq> TokenFloat then Inl (PlainError ''expected number, got %s'' [curV p]) else ParseFloat (curV p))"

definition parseQuotedStringList :: "Parser \<Rightarrow> gerror + string list \<times> Parser" where
  "parseQuotedStringList p =
     (if curT p \<noteq> TokenLBracket then Inl (PlainError ''expected '[', got %s'' [curV p]) else
      andThen (nextToken p) (\<lambda>p.
      if curT p = TokenRBracket then andThen (nextToken p) (\<lambda>p. Inr ([], p)) else
      ploop (\<lambda>list1 p.
        andThen (orError (\<lambda>err. WrapError ''expected quoted string in list: %w'' [] err) (parseQuotedString p)) (\<lambda>s.
        andThen (nextToken p) (\<lambda>p.
        if curT p = TokenComma then andThen (nextToken p) (\<lambda>p. Inr (True, list1 @ [s], p))
        else if curT p = TokenRBracket then andThen (nextToken p) (\<lambda>p. Inr (False, list1 @ [s], p))
        else Inl (PlainError ''expected ',' or ']' in list, got %s'' [curV p])))) [] p))"

text \<open>Helpers of \<^verbatim>\<open>user_parser.go\<close>. Whether a text is JSON is the argument \<open>json_ok\<close>.\<close>

fun first_duplicate :: "string list \<Rightarrow> string list \<Rightarrow> string option" where
  "first_duplicate seen [] = None"
| "first_duplicate seen (n # ns) = (if n \<in> set seen then Some n else first_duplicate (n # seen) ns)"

definition parseModelNames :: "string \<Rightarrow> gerror + string list" where
  "parseModelNames raw =
     (let modelNames = Fields raw
      in if modelNames = [] then Inl (PlainError ''model name is required'' [])
         else case first_duplicate [] modelNames of
                Some n \<Rightarrow> Inl (PlainError ''duplicate model name: %s'' [n])
              | None \<Rightarrow> Inr modelNames)"

definition dedup_types :: "string list \<Rightarrow> string list" where
  "dedup_types ts = fold (\<lambda>t seen. let t' = TrimSpace t in if t' = [] \<or> t' \<in> set seen then seen else seen @ [t']) ts []"

definition markSet :: "CliCommand \<Rightarrow> string \<Rightarrow> CliCommand" where
  "markSet cmd name = (case get_param ''_set'' cmd of GBoolMap s \<Rightarrow> set_param ''_set'' (GBoolMap (gm_set name True s)) cmd | _ \<Rightarrow> cmd)"

definition isSet :: "CliCommand \<Rightarrow> string \<Rightarrow> bool" where
  "isSet cmd name = (case get_param ''_set'' cmd of GBoolMap s \<Rightarrow> gm_true s name | _ \<Rightarrow> False)"

definition parseJSONLiteral :: "(string \<Rightarrow> bool) \<Rightarrow> Parser \<Rightarrow> gerror + string" where
  "parseJSONLiteral json_ok p =
     (if curT p \<noteq> TokenQuotedString then Inl (PlainError ''expected JSON literal in single/double quotes, got %s'' [curV p])
      else if json_ok (curV p) then Inr (curV p)
      else Inl (WrapError ''invalid JSON literal %q: %w'' [curV p] (PlainError ''invalid JSON'' [])))"

end
