(* ===== verification/CliDev.thy ===== *)
theory CliDev
  imports CliParser
begin

text \<open>
  The commands for developers (\<^verbatim>\<open>cli/dev_parser.go\<close>): chunk and metadata stores, chunks and their metadata.
\<close>

definition parseGetChunk :: "Parser \<Rightarrow> gerror + CliCommand \<times> Parser" where
  "parseGetChunk p =
     (andThen (nextToken p) (\<lambda>p.
      andThen (orError (\<lambda>err. WrapError ''expected chunk_id: %w'' [] err) (parseQuotedString p)) (\<lambda>chunkID.
      let cmd = NewCommand ''dev_get_chunk'' in
      let cmd = set_param ''chunk_id'' (GStr chunkID) cmd in
      andThen (nextToken p) (\<lambda>p.
      if curT p \<noteq> TokenOf then Inl (PlainError ''expected OF after chunk_id'' []) else
      andThen (nextToken p) (\<lambda>p.
      if curT p \<noteq> TokenDocument then Inl (PlainError ''expected DOCUMENT after OF'' []) else
      andThen (nextToken p) (\<lambda>p.
      andThen (orError (\<lambda>err. WrapError ''expected doc_id: %w'' [] err) (parseQuotedString p)) (\<lambda>docID.
      let cmd = set_param ''doc_id'' (GStr docID) cmd in
      andThen (nextToken p) (\<lambda>p.
      if curT p \<noteq> TokenIn then Inl (PlainError ''expected IN after doc_id'' []) else
      andThen (nextToken p) (\<lambda>p.
      if curT p \<noteq> TokenDataset then Inl (PlainError ''expected DATASET after IN'' []) else
      andThen (nextToken p) (\<lambda>p.
      andThen (orError (\<lambda>err. WrapError ''expected dataset_id: %w'' [] err) (parseQuotedString p)) (\<lambda>datasetID.
      let cmd = set_param ''dataset_id'' (GStr datasetID) cmd in
      andThen (nextToken p) (\<lambda>p.
      andThen (optSemicolon p) (\<lambda>p.
      Inr (cmd, p))))))))))))))"

definition parseGetMetadata :: "Parser \<Rightarrow> gerror + CliCommand \<times> Parser" where
  "parseGetMetadata p =
     (andThen (nextToken p) (\<lambda>p.
      if curT p \<noteq> TokenOf then Inl (PlainError ''expected OF after METADATA'' []) else
      andThen (nextToken p) (\<lambda>p.
      if curT p \<noteq> TokenDataset then Inl (PlainError ''expected DATASET after OF'' []) else
      andThen (nextToken p) (\<lambda>p.
      let datasetNames = ([] :: string list) in
      andThen (ploop (\<lambda>datasetNames p.
        andThen (orError (\<lambda>err. WrapError ''expected dataset name: %w'' [] err) (parseQuotedString p)) (\<lambda>name.
        let datasetNames = datasetNames @ [name] in
        andThen (nextToken p) (\<lambda>p.
        if curT p = TokenComma then
          Inl (PlainError ''syntax error: dataset names must be space-separated, not comma-separated (got %q after %q)'' [[CHR 0x27], name])
        else
          if curT p = TokenSemicolon then Inr (False, datasetNames, p) else
          if curT p \<noteq> TokenQuotedString then Inr (False, datasetNames, p) else Inr (True, datasetNames, p)))) datasetNames p) (\<lambda>(datasetNames, p).
      let cmd = NewCommand ''dev_get_metadata'' in
      let cmd = set_param ''dataset_names'' (strings_val datasetNames) cmd in
      andThen (optSemicolon p) (\<lambda>p.
      Inr (cmd, p)))))))"

definition parseDevGetCommand :: "Parser \<Rightarrow> gerror + CliCommand \<times> Parser" where
  "parseDevGetCommand p =
     (andThen (nextToken p) (\<lambda>p.
      if curT p = TokenChunk then parseGetChunk p else
      if curT p = TokenMetadata then parseGetMetadata p else Inl (PlainError ''unknown GET target: %s'' [curV p])))"

definition parseUpdateChunk :: "Parser \<Rightarrow> gerror + CliCommand \<times> Parser" where
  "parseUpdateChunk p =
     (andThen (nextToken p) (\<lambda>p.
      andThen (orError (\<lambda>err. WrapError ''expected chunk_id: %w'' [] err) (parseQuotedString p)) (\<lambda>chunkID.
      let cmd = NewCommand ''dev_update_chunk'' in
      let cmd = set_param ''chunk_id'' (GStr chunkID) cmd in
      andThen (nextToken p) (\<lambda>p.
      if curT p \<noteq> TokenOf then Inl (PlainError ''expected OF after chunk_id'' []) else
      andThen (nextToken p) (\<lambda>p.
      if curT p \<noteq> TokenDocument then Inl (PlainError ''expected DOCUMENT after OF'' []) else
      andThen (nextToken p) (\<lambda>p.
      andThen (orError (\<lambda>err. WrapError ''expected doc_id: %w'' [] err) (parseQuotedString p)) (\<lambda>docID.
      let cmd = set_param ''doc_id'' (GStr docID) cmd in
      andThen (nextToken p) (\<lambda>p.
      if curT p \<noteq> TokenIn then Inl (PlainError ''expected IN after doc_id'' []) else
      andThen (nextToken p) (\<lambda>p.
      if curT p \<noteq> TokenDataset then Inl (PlainError ''expected DATASET after IN'' []) else
      andThen (nextToken p) (\<lambda>p.
      andThen (orError (\<lambda>err. WrapError ''expected dataset_name: %w'' [] err) (parseQuotedString p)) (\<lambda>datasetName.
      let cmd = set_param ''dataset_name'' (GStr datasetName) cmd in
      andThen (nextToken p) (\<lambda>p.
      if curT p \<noteq> TokenSet then Inl (PlainError ''expected SET after dataset_name'' []) else
      andThen (nextToken p) (\<lambda>p.
      andThen (orError (\<lambda>err. WrapError ''expected JSON body: %w'' [] err) (parseQuotedString p)) (\<lambda>jsonBody.
      let cmd = set_param ''json_body'' (GStr jsonBody) cmd in
      andThen (nextToken p) (\<lambda>p.
      andThen (optSemicolon p) (\<lambda>p.
      Inr (cmd, p)))))))))))))))))"

definition parseDevUpdateCommand :: "Parser \<Rightarrow> gerror + CliCommand \<times> Parser" where
  "parseDevUpdateCommand p =
     (andThen (nextToken p) (\<lambda>p.
      if curT p = TokenChunk then parseUpdateChunk p else Inl (PlainError ''unknown UPDATE target: %s'' [curV p])))"

definition parseDevSetMeta :: "Parser \<Rightarrow> gerror + CliCommand \<times> Parser" where
  "parseDevSetMeta p =
     (andThen (nextToken p) (\<lambda>p.
      if curT p \<noteq> TokenOf then Inl (PlainError ''expected OF after SET METADATA'' []) else
      andThen (nextToken p) (\<lambda>p.
      if curT p \<noteq> TokenDocument then Inl (PlainError ''expected DOCUMENT after SET METADATA OF'' []) else
      andThen (nextToken p) (\<lambda>p.
      andThen (orError (\<lambda>err. WrapError ''expected doc_id: %w'' [] err) (parseQuotedString p)) (\<lambda>docID.
      let cmd = NewCommand ''dev_set_meta'' in
      let cmd = set_param ''doc_id'' (GStr docID) cmd in
      andThen (nextToken p) (\<lambda>p.
      if curT p \<noteq> TokenTo then Inl (PlainError ''expected TO after doc_id'' []) else
      andThen (nextToken p) (\<lambda>p.
      andThen (orError (\<lambda>err. WrapError ''expected meta JSON: %w'' [] err) (parseQuotedString p)) (\<lambda>meta.
      let cmd = set_param ''meta'' (GStr meta) cmd in
      andThen (nextToken p) (\<lambda>p.
      andThen (optSemicolon p) (\<lambda>p.
      Inr (cmd, p)))))))))))"

definition parseDevDeleteMeta :: "Parser \<Rightarrow> gerror + CliCommand \<times> Parser" where
  "parseDevDeleteMeta p =
     (andThen (nextToken p) (\<lambda>p.
      if curT p \<noteq> TokenOf then Inl (PlainError ''expected OF after DELETE METADATA'' []) else
      andThen (nextToken p) (\<lambda>p.
      if curT p \<noteq> TokenDocument then Inl (PlainError ''expected DOCUMENT after DELETE METADATA OF'' []) else
      andThen (nextToken p) (\<lambda>p.
      andThen (orError (\<lambda>err. WrapError ''expected doc_id: %w'' [] err) (parseQuotedString p)) (\<lambda>docID.
      let cmd = NewCommand ''dev_delete_meta'' in
      let cmd = set_param ''doc_id'' (GStr docID) cmd in
      andThen (nextToken p) (\<lambda>p.
      if curT p \<noteq> TokenKeys then
        if curT p = TokenSemicolon then
          andThen (nextToken p) (\<lambda>p.
          Inr (cmd, p))
        else
          if curT p = TokenEOF then Inr (cmd, p) else Inl (PlainError ''expected KEYS or end of command after doc_id'' [])
      else
        andThen (nextToken p) (\<lambda>p.
        andThen (orError (\<lambda>err. WrapError ''expected keys JSON array: %w'' [] err) (parseQuotedString p)) (\<lambda>keys.
        let cmd = set_param ''keys'' (GStr keys) cmd in
        andThen (nextToken p) (\<lambda>p.
        if curT p = TokenSemicolon then
          andThen (nextToken p) (\<lambda>p.
          Inr (cmd, p))
        else
          if curT p \<noteq> TokenEOF then Inl (PlainError ''expected end of command after KEYS'' []) else Inr (cmd, p))))))))))"

definition parseDevRemoveChunk :: "Parser \<Rightarrow> gerror + CliCommand \<times> Parser" where
  "parseDevRemoveChunk p =
     (let cmd = NewCommand ''dev_remove_chunks'' in
      andThen (
        if curT p = TokenAll then
          andThen (nextToken p) (\<lambda>p.
          if curT p \<noteq> TokenChunks then Inl (PlainError ''expected CHUNKS after ALL'' []) else
          andThen (nextToken p) (\<lambda>p.
          let cmd = set_param ''delete_all'' (GBool True) cmd in
          Inr (cmd, p)))
        else
          andThen (nextToken p) (\<lambda>p.
          andThen (orError (\<lambda>err. WrapError ''expected chunk_id: %w'' [] err) (parseQuotedString p)) (\<lambda>chunkID.
          let chunkIDs = [chunkID] in
          andThen (ploop (\<lambda>chunkIDs p.
            andThen (nextToken p) (\<lambda>p.
            if curT p = TokenFrom \<or> curT p \<noteq> TokenQuotedString then Inr (False, chunkIDs, p) else
            andThen (orError (\<lambda>err. WrapError ''expected chunk_id: %w'' [] err) (parseQuotedString p)) (\<lambda>chunkID.
            let chunkIDs = chunkIDs @ [chunkID] in
            Inr (True, chunkIDs, p)))) chunkIDs p) (\<lambda>(chunkIDs, p).
          let cmd = set_param ''chunk_ids'' (strings_val chunkIDs) cmd in
          Inr (cmd, p))))) (\<lambda>(cmd, p).
      if curT p \<noteq> TokenFrom then Inl (PlainError ''expected FROM after chunk(s)'' []) else
      andThen (nextToken p) (\<lambda>p.
      if curT p \<noteq> TokenDocument then Inl (PlainError ''expected DOCUMENT after FROM'' []) else
      andThen (nextToken p) (\<lambda>p.
      andThen (orError (\<lambda>err. WrapError ''expected doc_id: %w'' [] err) (parseQuotedString p)) (\<lambda>docID.
      let cmd = set_param ''doc_id'' (GStr docID) cmd in
      andThen (nextToken p) (\<lambda>p.
      if curT p \<noteq> TokenIn then Inl (PlainError ''expected IN after doc_id'' []) else
      andThen (nextToken p) (\<lambda>p.
      if curT p \<noteq> TokenDataset then Inl (PlainError ''expected DATASET after IN'' []) else
      andThen (nextToken p) (\<lambda>p.
      andThen (orError (\<lambda>err. WrapError ''expected dataset_name: %w'' [] err) (parseQuotedString p)) (\<lambda>datasetName.
      let cmd = set_param ''dataset_name'' (GStr datasetName) cmd in
      andThen (nextToken p) (\<lambda>p.
      andThen (optSemicolon p) (\<lambda>p.
      Inr (cmd, p))))))))))))"

definition parseDevDropChunkStore :: "Parser \<Rightarrow> gerror + CliCommand \<times> Parser" where
  "parseDevDropChunkStore p =
     (andThen (nextToken p) (\<lambda>p.
      if curT p \<noteq> TokenFor then Inl (PlainError ''expected FOR after CHUNK STORE, got %s'' [curV p]) else
      andThen (nextToken p) (\<lambda>p.
      if curT p \<noteq> TokenDataset then Inl (PlainError ''expected Dataset after FOR, got %s'' [curV p]) else
      andThen (nextToken p) (\<lambda>p.
      andThen (orError (\<lambda>err. PlainError ''expected dataset name, got %s'' [curV p]) (parseQuotedString p)) (\<lambda>datasetName.
      andThen (nextToken p) (\<lambda>p.
      andThen (optSemicolon p) (\<lambda>p.
      let cmd = NewCommand ''dev_drop_chunk_store'' in
      let cmd = set_param ''dataset_name'' (GStr datasetName) cmd in
      Inr (cmd, p))))))))"

definition parseDevDropMetadataStore :: "Parser \<Rightarrow> gerror + CliCommand \<times> Parser" where
  "parseDevDropMetadataStore p =
     (andThen (nextToken p) (\<lambda>p.
      if curT p \<noteq> TokenStore then Inl (PlainError ''expected STORE after METADATA, got %s'' [curV p]) else
      andThen (nextToken p) (\<lambda>p.
      andThen (optSemicolon p) (\<lambda>p.
      let cmd = NewCommand ''dev_drop_metadata_store'' in
      Inr (cmd, p)))))"

definition parseDevCreateChunkStore :: "Parser \<Rightarrow> gerror + CliCommand \<times> Parser" where
  "parseDevCreateChunkStore p =
     (andThen (nextToken p) (\<lambda>p.
      if curT p \<noteq> TokenFor then Inl (PlainError ''expected FOR after CHUNK STORE, got %s'' [curV p]) else
      andThen (nextToken p) (\<lambda>p.
      if curT p \<noteq> TokenDataset then Inl (PlainError ''expected Dataset after FOR, got %s'' [curV p]) else
      andThen (nextToken p) (\<lambda>p.
      andThen (orError (\<lambda>err. PlainError ''expected dataset name, got %s'' [curV p]) (parseQuotedString p)) (\<lambda>datasetName.
      andThen (nextToken p) (\<lambda>p.
      if curT p \<noteq> TokenVector then Inl (PlainError ''expected VECTOR after dataset name, got %s'' [curV p]) else
      andThen (nextToken p) (\<lambda>p.
      if curT p \<noteq> TokenSize then Inl (PlainError ''expected SIZE after VECTOR, got %s'' [curV p]) else
      andThen (nextToken p) (\<lambda>p.
      if curT p \<noteq> TokenInteger then Inl (PlainError ''expected vector size number, got %s'' [curV p]) else
      andThen (orError (\<lambda>err. PlainError ''invalid vector size: %s'' [curV p]) (Atoi (curV p))) (\<lambda>vectorSize.
      andThen (nextToken p) (\<lambda>p.
      andThen (optSemicolon p) (\<lambda>p.
      let cmd = NewCommand ''dev_create_chunk_store'' in
      let cmd = set_param ''dataset_name'' (GStr datasetName) cmd in
      let cmd = set_param ''vector_size'' (GInt (of_int vectorSize)) cmd in
      Inr (cmd, p))))))))))))"

definition parseDevCreateMetadataStore :: "Parser \<Rightarrow> gerror + CliCommand \<times> Parser" where
  "parseDevCreateMetadataStore p =
     (andThen (nextToken p) (\<lambda>p.
      if curT p \<noteq> TokenStore then Inl (PlainError ''expected STORE after METADATA, got %s'' [curV p]) else
      andThen (nextToken p) (\<lambda>p.
      andThen (optSemicolon p) (\<lambda>p.
      Inr (NewCommand ''dev_create_metadata_store'', p)))))"

definition parseCreateRole :: "Parser \<Rightarrow> gerror + CliCommand \<times> Parser" where
  "parseCreateRole p =
     (andThen (nextToken p) (\<lambda>p.
      andThen (parseIdentifier p) (\<lambda>roleName.
      let cmd = NewCommand ''create_role'' in
      let cmd = set_param ''role_name'' (GStr roleName) cmd in
      andThen (nextToken p) (\<lambda>p.
      andThen (
        if curT p = TokenDescription then
          andThen (nextToken p) (\<lambda>p.
          andThen (parseQuotedString p) (\<lambda>description.
          let cmd = set_param ''description'' (GStr description) cmd in
          andThen (nextToken p) (\<lambda>p.
          Inr (cmd, p))))
        else Inr (cmd, p)) (\<lambda>(cmd, p).
      andThen (optSemicolon p) (\<lambda>p.
      Inr (cmd, p)))))))"

definition parseDevChunk :: "bool \<Rightarrow> Parser \<Rightarrow> gerror + CliCommand \<times> Parser" where
  "parseDevChunk explain p =
     (andThen (nextToken p) (\<lambda>p.
      andThen (orError (\<lambda>err. WrapError ''expected filename: %w'' [] err) (parseQuotedString p)) (\<lambda>filename.
      andThen (nextToken p) (\<lambda>p.
      if curT p \<noteq> TokenWith then Inl (PlainError ''expected WITH after filename'' []) else
      andThen (nextToken p) (\<lambda>p.
      andThen (orError (\<lambda>err. WrapError ''expected chunk options file: %w'' [] err) (parseQuotedString p)) (\<lambda>dsl.
      andThen (optSemicolon p) (\<lambda>p.
      andThen (nextToken p) (\<lambda>p.
      let cmd = NewCommand ''dev_chunk'' in
      let cmd = set_param ''dsl'' (GStr dsl) cmd in
      let cmd = set_param ''filename'' (GStr filename) cmd in
      let cmd = set_param ''explain'' (GBool explain) cmd in
      Inr (cmd, p)))))))))"

definition parseDevExplain :: "Parser \<Rightarrow> gerror + CliCommand \<times> Parser" where
  "parseDevExplain p =
     (andThen (nextToken p) (\<lambda>p.
      if curT p = TokenChunk then parseDevChunk True p else Inl (PlainError ''expected CHUNK after EXPLAIN'' [])))"

end
