(* ===== verification/CliUserList.thy ===== *)
theory CliUserList
  imports CliDev
begin

text \<open>
  The commands LOGIN, LOGOUT, PING, REGISTER, LIST and SHOW of the user (\<^verbatim>\<open>cli/user_parser.go\<close>).
\<close>

definition parseAPILoginUser :: "Parser \<Rightarrow> gerror + CliCommand \<times> Parser" where
  "parseAPILoginUser p =
     (let cmd = NewCommand ''api_login_user'' in
      andThen (nextToken p) (\<lambda>p.
      if curT p \<noteq> TokenUser then Inl (PlainError ''expected USER after LOGIN'' []) else
      andThen (nextToken p) (\<lambda>p.
      andThen (parseQuotedString p) (\<lambda>email.
      let cmd = set_param ''email'' (GStr email) cmd in
      andThen (nextToken p) (\<lambda>p.
      andThen (
        if curT p = TokenPassword then
          andThen (nextToken p) (\<lambda>p.
          let password = ([] :: string) in
          andThen (parseQuotedString p) (\<lambda>password.
          let cmd = set_param ''password'' (GStr password) cmd in
          andThen (nextToken p) (\<lambda>p.
          Inr (cmd, p))))
        else Inr (cmd, p)) (\<lambda>(cmd, p).
      andThen (optSemicolon p) (\<lambda>p.
      Inr (cmd, p))))))))"

definition parseAPILogout :: "Parser \<Rightarrow> gerror + CliCommand \<times> Parser" where
  "parseAPILogout p =
     (let cmd = NewCommand ''api_logout'' in
      andThen (nextToken p) (\<lambda>p.
      andThen (optSemicolon p) (\<lambda>p.
      Inr (cmd, p))))"

definition parseAPIPingServer :: "Parser \<Rightarrow> gerror + CliCommand \<times> Parser" where
  "parseAPIPingServer p =
     (let cmd = NewCommand ''api_ping_server'' in
      andThen (nextToken p) (\<lambda>p.
      andThen (optSemicolon p) (\<lambda>p.
      Inr (cmd, p))))"

definition parseAPIRegister :: "Parser \<Rightarrow> gerror + CliCommand \<times> Parser" where
  "parseAPIRegister p =
     (let cmd = NewCommand ''api_register_user'' in
      andThen (expectPeek TokenUser p) (\<lambda>p.
      andThen (nextToken p) (\<lambda>p.
      andThen (parseQuotedString p) (\<lambda>userName.
      let cmd = set_param ''user_name'' (GStr userName) cmd in
      andThen (nextToken p) (\<lambda>p.
      if curT p \<noteq> TokenAs then Inl (PlainError ''expected AS'' []) else
      andThen (nextToken p) (\<lambda>p.
      andThen (parseQuotedString p) (\<lambda>nickname.
      let cmd = set_param ''nickname'' (GStr nickname) cmd in
      andThen (nextToken p) (\<lambda>p.
      if curT p \<noteq> TokenPassword then Inl (PlainError ''expected PASSWORD'' []) else
      andThen (nextToken p) (\<lambda>p.
      andThen (parseQuotedString p) (\<lambda>password.
      let cmd = set_param ''password'' (GStr password) cmd in
      andThen (nextToken p) (\<lambda>p.
      andThen (optSemicolon p) (\<lambda>p.
      Inr (cmd, p)))))))))))))"

definition parseAPIListModelGroups :: "Parser \<Rightarrow> gerror + CliCommand \<times> Parser" where
  "parseAPIListModelGroups p =
     (let cmd = NewCommand ''api_list_model_groups'' in
      andThen (nextToken p) (\<lambda>p.
      andThen (optSemicolon p) (\<lambda>p.
      Inr (cmd, p))))"

definition parseAPIListDatasets :: "Parser \<Rightarrow> gerror + CliCommand \<times> Parser" where
  "parseAPIListDatasets p =
     (let cmd = NewCommand ''api_list_datasets'' in
      andThen (nextToken p) (\<lambda>p.
      andThen (optSemicolon p) (\<lambda>p.
      Inr (cmd, p))))"

definition parseAPIListDatasetDocuments :: "string \<Rightarrow> Parser \<Rightarrow> gerror + CliCommand \<times> Parser" where
  "parseAPIListDatasetDocuments datasetID p =
     (andThen (nextToken p) (\<lambda>p.
      andThen (optSemicolon p) (\<lambda>p.
      let cmd = NewCommand ''api_list_dataset_documents'' in
      let cmd = set_param ''dataset_id'' (GStr datasetID) cmd in
      Inr (cmd, p))))"

definition parseAPIListDatasetFiles :: "string \<Rightarrow> Parser \<Rightarrow> gerror + CliCommand \<times> Parser" where
  "parseAPIListDatasetFiles datasetName p =
     (andThen (nextToken p) (\<lambda>p.
      andThen (optSemicolon p) (\<lambda>p.
      let cmd = NewCommand ''api_list_dataset_files'' in
      let cmd = set_param ''dataset_name'' (GStr datasetName) cmd in
      Inr (cmd, p))))"

definition parseAPIListDatasetIngestionTasks :: "string \<Rightarrow> Parser \<Rightarrow> gerror + CliCommand \<times> Parser" where
  "parseAPIListDatasetIngestionTasks datasetName p =
     (andThen (nextToken p) (\<lambda>p.
      if curT p \<noteq> TokenTasks then Inl (PlainError ''expected TASKS'' []) else
      andThen (optSemicolon p) (\<lambda>p.
      let cmd = NewCommand ''api_list_ingestion_tasks'' in
      let cmd = set_param ''dataset_name'' (GStr datasetName) cmd in
      Inr (cmd, p))))"

definition parseSyncLogsWithOptions :: "CliCommand \<Rightarrow> Parser \<Rightarrow> gerror + CliCommand \<times> Parser" where
  "parseSyncLogsWithOptions cmd p =
     (if curT p \<noteq> TokenWith \<and> \<not> (curT p = TokenIdentifier \<and> EqualFold (curV p) ''with'') then Inr (cmd, p) else
      andThen (nextToken p) (\<lambda>p.
      ploop (\<lambda>cmd p.
        if curT p \<noteq> TokenEOF \<and> curT p \<noteq> TokenSemicolon then
          if curT p = TokenComma then Inl (PlainError ''syntax error: WITH options must be space-separated, not comma-separated'' []) else
          if curT p \<noteq> TokenIdentifier then Inr (False, cmd, p) else
          let paramName = ToLower (curV p) in
          andThen (nextToken p) (\<lambda>p.
          if curT p \<noteq> TokenInteger then
            if curT p = TokenEOF \<or> curT p = TokenSemicolon then Inl (PlainError ''WITH option %q is missing a value'' [paramName]) else
            Inl (PlainError ''WITH option %q must be an integer, got %s'' [paramName, tokenTypeDescription (curT p) (ps_cur p)])
          else
            andThen (parseNumber p) (\<lambda>value.
            andThen (nextToken p) (\<lambda>p.
            if paramName = ''page'' \<or> paramName = ''page_size'' then
              let cmd = set_param paramName (GInt (of_int value)) cmd in
              Inr (True, cmd, p)
            else Inl (PlainError ''unknown WITH option %q'' [paramName]))))
        else Inr (False, cmd, p)) cmd p))"

definition parseAPIListDatasetSyncLogs :: "string \<Rightarrow> Parser \<Rightarrow> gerror + CliCommand \<times> Parser" where
  "parseAPIListDatasetSyncLogs datasetName p =
     (andThen (nextToken p) (\<lambda>p.
      let cmd = NewCommand ''api_list_sync_logs'' in
      let cmd = set_param ''dataset_name'' (GStr datasetName) cmd in
      andThen (parseSyncLogsWithOptions cmd p) (\<lambda>(cmd, p).
      andThen (optSemicolon p) (\<lambda>p.
      Inr (cmd, p)))))"

definition parseAPIListDatasetCommands :: "Parser \<Rightarrow> gerror + CliCommand \<times> Parser" where
  "parseAPIListDatasetCommands p =
     (andThen (nextToken p) (\<lambda>p.
      andThen (parseQuotedString p) (\<lambda>datasetID.
      andThen (nextToken p) (\<lambda>p.
      if curT p = TokenDocuments then parseAPIListDatasetDocuments datasetID p
      else if curT p = TokenFiles then parseAPIListDatasetFiles datasetID p
      else if curT p = TokenIngestion then parseAPIListDatasetIngestionTasks datasetID p
      else if curT p = TokenSyncLogs then parseAPIListDatasetSyncLogs datasetID p
      else Inl (PlainError ''unknown LIST target: %s'' [curV p])))))"

definition parseAPIListSyncLogs :: "Parser \<Rightarrow> gerror + CliCommand \<times> Parser" where
  "parseAPIListSyncLogs p =
     (andThen (nextToken p) (\<lambda>p.
      let cmd = NewCommand ''api_list_sync_logs'' in
      andThen (
        if curT p = TokenFrom then
          andThen (nextToken p) (\<lambda>p.
          andThen (parseQuotedString p) (\<lambda>datasetID.
          let cmd = set_param ''dataset_id'' (GStr datasetID) cmd in
          andThen (nextToken p) (\<lambda>p.
          Inr (cmd, p))))
        else Inr (cmd, p)) (\<lambda>(cmd, p).
      andThen (parseSyncLogsWithOptions cmd p) (\<lambda>(cmd, p).
      andThen (optSemicolon p) (\<lambda>p.
      Inr (cmd, p))))))"

definition parseAPIListAgents :: "Parser \<Rightarrow> gerror + CliCommand \<times> Parser" where
  "parseAPIListAgents p =
     (andThen (nextToken p) (\<lambda>p.
      andThen (optSemicolon p) (\<lambda>p.
      Inr (NewCommand ''api_list_agents'', p))))"

definition parseAPIListChats :: "Parser \<Rightarrow> gerror + CliCommand \<times> Parser" where
  "parseAPIListChats p =
     (andThen (nextToken p) (\<lambda>p.
      andThen (optSemicolon p) (\<lambda>p.
      Inr (NewCommand ''api_list_chats'', p))))"

definition parseAPIListSearches :: "Parser \<Rightarrow> gerror + CliCommand \<times> Parser" where
  "parseAPIListSearches p =
     (andThen (nextToken p) (\<lambda>p.
      andThen (optSemicolon p) (\<lambda>p.
      Inr (NewCommand ''api_list_searches'', p))))"

definition parseAPIListMemories :: "Parser \<Rightarrow> gerror + CliCommand \<times> Parser" where
  "parseAPIListMemories p =
     (andThen (nextToken p) (\<lambda>p.
      andThen (optSemicolon p) (\<lambda>p.
      Inr (NewCommand ''api_list_memories'', p))))"

definition parseAPIListAPIKeys :: "Parser \<Rightarrow> gerror + CliCommand \<times> Parser" where
  "parseAPIListAPIKeys p =
     (andThen (nextToken p) (\<lambda>p.
      let cmd = NewCommand ''api_list_api_keys'' in
      andThen (optSemicolon p) (\<lambda>p.
      Inr (cmd, p))))"

definition parseAPIListProviders :: "Parser \<Rightarrow> gerror + CliCommand \<times> Parser" where
  "parseAPIListProviders p =
     (andThen (nextToken p) (\<lambda>p.
      andThen (optSemicolon p) (\<lambda>p.
      Inr (NewCommand ''api_list_providers'', p))))"

definition parseListProviderInstances :: "string \<Rightarrow> Parser \<Rightarrow> gerror + CliCommand \<times> Parser" where
  "parseListProviderInstances providerName p =
     (andThen (nextToken p) (\<lambda>p.
      andThen (optSemicolon p) (\<lambda>p.
      let cmd = NewCommand ''api_list_provider_instances'' in
      let cmd = set_param ''provider_name'' (GStr providerName) cmd in
      Inr (cmd, p))))"

definition parseListProviderInstanceModels :: "string \<Rightarrow> string \<Rightarrow> Parser \<Rightarrow> gerror + CliCommand \<times> Parser" where
  "parseListProviderInstanceModels providerName instanceName p =
     (andThen (nextToken p) (\<lambda>p.
      let cmd = NewCommand ''api_list_provider_instance_models'' in
      let cmd = (if curT p = TokenSync then NewCommand ''api_list_provider_instance_models_sync'' else cmd) in
      andThen (optSemicolon p) (\<lambda>p.
      let cmd = set_param ''provider_name'' (GStr providerName) cmd in
      let cmd = set_param ''instance_name'' (GStr instanceName) cmd in
      Inr (cmd, p))))"

definition parseListProviderInstanceTasks :: "string \<Rightarrow> string \<Rightarrow> Parser \<Rightarrow> gerror + CliCommand \<times> Parser" where
  "parseListProviderInstanceTasks providerName instanceName p =
     (andThen (nextToken p) (\<lambda>p.
      andThen (optSemicolon p) (\<lambda>p.
      let cmd = NewCommand ''api_list_provider_instance_tasks'' in
      let cmd = set_param ''provider_name'' (GStr providerName) cmd in
      let cmd = set_param ''instance_name'' (GStr instanceName) cmd in
      Inr (cmd, p))))"

definition parseListProviderInstanceCommands :: "string \<Rightarrow> Parser \<Rightarrow> gerror + CliCommand \<times> Parser" where
  "parseListProviderInstanceCommands providerName p =
     (andThen (nextToken p) (\<lambda>p.
      andThen (parseQuotedString p) (\<lambda>instanceName.
      andThen (nextToken p) (\<lambda>p.
      if curT p = TokenModels then parseListProviderInstanceModels providerName instanceName p
      else if curT p = TokenTasks then parseListProviderInstanceTasks providerName instanceName p
      else Inl (PlainError ''unknown LIST target: %s'' [curV p])))))"

definition parseListProviderModels :: "string \<Rightarrow> Parser \<Rightarrow> gerror + CliCommand \<times> Parser" where
  "parseListProviderModels providerName p =
     (andThen (nextToken p) (\<lambda>p.
      let cmd = NewCommand ''api_list_provider_models'' in
      andThen (optSemicolon p) (\<lambda>p.
      let cmd = set_param ''provider_name'' (GStr providerName) cmd in
      Inr (cmd, p))))"

definition parseAPIListProviderCommands :: "Parser \<Rightarrow> gerror + CliCommand \<times> Parser" where
  "parseAPIListProviderCommands p =
     (andThen (nextToken p) (\<lambda>p.
      andThen (parseQuotedString p) (\<lambda>providerName.
      andThen (nextToken p) (\<lambda>p.
      if curT p = TokenInstances then parseListProviderInstances providerName p
      else if curT p = TokenInstance then parseListProviderInstanceCommands providerName p
      else if curT p = TokenModels then parseListProviderModels providerName p
      else Inl (PlainError ''unknown LIST target: %s'' [curV p])))))"

definition parseAPIListAllModels :: "Parser \<Rightarrow> gerror + CliCommand \<times> Parser" where
  "parseAPIListAllModels p =
     (andThen (nextToken p) (\<lambda>p.
      let cmd = NewCommand ''api_list_all_models'' in
      andThen (optSemicolon p) (\<lambda>p.
      Inr (cmd, p))))"

definition parseAPIListIngestionTasks :: "Parser \<Rightarrow> gerror + CliCommand \<times> Parser" where
  "parseAPIListIngestionTasks p =
     (andThen (nextToken p) (\<lambda>p.
      if curT p \<noteq> TokenTasks then Inl (PlainError ''expected TASKS'' []) else
      andThen (nextToken p) (\<lambda>p.
      let cmd = NewCommand ''api_list_ingestion_tasks'' in
      andThen (
        if curT p = TokenFrom then
          andThen (nextToken p) (\<lambda>p.
          andThen (parseQuotedString p) (\<lambda>datasetID.
          let cmd = set_param ''dataset_id'' (GStr datasetID) cmd in
          Inr (cmd, p)))
        else Inr (cmd, p)) (\<lambda>(cmd, p).
      andThen (optSemicolon p) (\<lambda>p.
      Inr (cmd, p))))))"

definition parseAPIListDefaultModels :: "Parser \<Rightarrow> gerror + CliCommand \<times> Parser" where
  "parseAPIListDefaultModels p =
     (andThen (nextToken p) (\<lambda>p.
      if curT p \<noteq> TokenModels then Inl (PlainError ''expected MODELS'' []) else
      andThen (nextToken p) (\<lambda>p.
      andThen (optSemicolon p) (\<lambda>p.
      Inr (NewCommand ''api_list_default_models'', p)))))"

definition parseAPIListAvailableProviders :: "Parser \<Rightarrow> gerror + CliCommand \<times> Parser" where
  "parseAPIListAvailableProviders p =
     (andThen (nextToken p) (\<lambda>p.
      if curT p \<noteq> TokenProviders then Inl (PlainError ''expected PROVIDERS'' []) else Inr (NewCommand ''api_list_available_providers'', p)))"

definition parseAPIListAPIServers :: "Parser \<Rightarrow> gerror + CliCommand \<times> Parser" where
  "parseAPIListAPIServers p =
     (andThen (nextToken p) (\<lambda>p.
      if curT p = TokenServer then
        andThen (nextToken p) (\<lambda>p.
        let cmd = NewCommand ''api_list_api_servers'' in
        andThen (optSemicolon p) (\<lambda>p.
        Inr (cmd, p)))
      else Inl (PlainError ''expected SERVER after API'' [])))"

definition parseAPIListEnvironments :: "Parser \<Rightarrow> gerror + CliCommand \<times> Parser" where
  "parseAPIListEnvironments p =
     (andThen (nextToken p) (\<lambda>p.
      let cmd = NewCommand ''api_list_environments'' in
      andThen (optSemicolon p) (\<lambda>p.
      Inr (cmd, p))))"

definition parseAPIListCommands :: "Parser \<Rightarrow> gerror + CliCommand \<times> Parser" where
  "parseAPIListCommands p =
     (andThen (nextToken p) (\<lambda>p.
      if curT p = TokenDatasets then parseAPIListDatasets p
      else if curT p = TokenDataset then parseAPIListDatasetCommands p
      else if curT p = TokenAgents then parseAPIListAgents p
      else if curT p = TokenChats then parseAPIListChats p
      else if curT p = TokenSearches then parseAPIListSearches p
      else if curT p = TokenMemories then parseAPIListMemories p
      else if curT p = TokenKeys then parseAPIListAPIKeys p
      else if curT p = TokenProviders then parseAPIListProviders p
      else if curT p = TokenProvider then parseAPIListProviderCommands p
      else if curT p = TokenModels then parseAPIListAllModels p
      else if curT p = TokenIngestion then parseAPIListIngestionTasks p
      else if curT p = TokenSyncLogs then parseAPIListSyncLogs p
      else if curT p = TokenDefault then parseAPIListDefaultModels p
      else if curT p = TokenAvailable then parseAPIListAvailableProviders p
      else if curT p = TokenAPI then parseAPIListAPIServers p
      else if curT p = TokenEnvs then parseAPIListEnvironments p
      else if curT p = TokenGroups then parseAPIListModelGroups p
      else Inl (PlainError ''unknown LIST target: %s'' [curV p])))"

definition parseAPIShowVersion :: "Parser \<Rightarrow> gerror + CliCommand \<times> Parser" where
  "parseAPIShowVersion p =
     (andThen (nextToken p) (\<lambda>p.
      andThen (optSemicolon p) (\<lambda>p.
      Inr (NewCommand ''api_show_version'', p))))"

definition parseAPIShowKey :: "Parser \<Rightarrow> gerror + CliCommand \<times> Parser" where
  "parseAPIShowKey p =
     (andThen (nextToken p) (\<lambda>p.
      andThen (optSemicolon p) (\<lambda>p.
      Inr (NewCommand ''api_show_api_key'', p))))"

definition parseAPIShowCurrent :: "Parser \<Rightarrow> gerror + CliCommand \<times> Parser" where
  "parseAPIShowCurrent p =
     (andThen (nextToken p) (\<lambda>p.
      andThen (optSemicolon p) (\<lambda>p.
      Inr (NewCommand ''api_show_current'', p))))"

definition parseAPIShowProviderInstanceBalance :: "string \<Rightarrow> string \<Rightarrow> Parser \<Rightarrow> gerror + CliCommand \<times> Parser" where
  "parseAPIShowProviderInstanceBalance providerName instanceName p =
     (andThen (nextToken p) (\<lambda>p.
      let cmd = NewCommand ''api_show_provider_instance_balance'' in
      let cmd = set_param ''instance_name'' (GStr instanceName) cmd in
      let cmd = set_param ''provider_name'' (GStr providerName) cmd in
      andThen (optSemicolon p) (\<lambda>p.
      Inr (cmd, p))))"

definition parseAPIShowProviderInstanceTask :: "string \<Rightarrow> string \<Rightarrow> Parser \<Rightarrow> gerror + CliCommand \<times> Parser" where
  "parseAPIShowProviderInstanceTask providerName instanceName p =
     (andThen (nextToken p) (\<lambda>p.
      andThen (orError (\<lambda>err. WrapError ''expected task id: %w'' [] err) (parseQuotedString p)) (\<lambda>taskID.
      andThen (nextToken p) (\<lambda>p.
      let cmd = NewCommand ''api_show_provider_instance_task'' in
      let cmd = set_param ''instance_name'' (GStr instanceName) cmd in
      let cmd = set_param ''provider_name'' (GStr providerName) cmd in
      let cmd = set_param ''task_id'' (GStr taskID) cmd in
      andThen (optSemicolon p) (\<lambda>p.
      Inr (cmd, p))))))"

definition parseAPIShowProviderInstance :: "string \<Rightarrow> Parser \<Rightarrow> gerror + CliCommand \<times> Parser" where
  "parseAPIShowProviderInstance providerName p =
     (andThen (nextToken p) (\<lambda>p.
      andThen (orError (\<lambda>err. WrapError ''expected instance name: %w'' [] err) (parseQuotedString p)) (\<lambda>instanceName.
      andThen (nextToken p) (\<lambda>p.
      if curT p = TokenBalance then parseAPIShowProviderInstanceBalance providerName instanceName p
      else if curT p = TokenTask then parseAPIShowProviderInstanceTask providerName instanceName p
      else if curT p = TokenSemicolon \<or> curT p = TokenEOF then
        andThen (nextToken p) (\<lambda>p.
        let cmd = NewCommand ''api_show_provider_instance'' in
        let cmd = set_param ''instance_name'' (GStr instanceName) cmd in
        let cmd = set_param ''provider_name'' (GStr providerName) cmd in
        Inr (cmd, p))
      else Inl (PlainError ''unknown SHOW target: %s'' [curV p])))))"

definition parseAPIShowProviderModel :: "string \<Rightarrow> Parser \<Rightarrow> gerror + CliCommand \<times> Parser" where
  "parseAPIShowProviderModel providerName p =
     (andThen (nextToken p) (\<lambda>p.
      andThen (orError (\<lambda>err. WrapError ''expected model name: %w'' [] err) (parseQuotedString p)) (\<lambda>modelName.
      andThen (nextToken p) (\<lambda>p.
      let cmd = NewCommand ''api_show_provider_model'' in
      let cmd = set_param ''model_name'' (GStr modelName) cmd in
      let cmd = set_param ''provider_name'' (GStr providerName) cmd in
      andThen (optSemicolon p) (\<lambda>p.
      Inr (cmd, p))))))"

definition parseAPIShowProviderCommands :: "Parser \<Rightarrow> gerror + CliCommand \<times> Parser" where
  "parseAPIShowProviderCommands p =
     (andThen (nextToken p) (\<lambda>p.
      andThen (orError (\<lambda>err. WrapError ''expected provider name: %w'' [] err) (parseQuotedString p)) (\<lambda>providerName.
      andThen (nextToken p) (\<lambda>p.
      if curT p = TokenInstance then parseAPIShowProviderInstance providerName p
      else if curT p = TokenModel then parseAPIShowProviderModel providerName p
      else if curT p = TokenSemicolon \<or> curT p = TokenEOF then
        andThen (nextToken p) (\<lambda>p.
        let cmd = NewCommand ''api_show_provider'' in
        let cmd = set_param ''provider_name'' (GStr providerName) cmd in
        Inr (cmd, p))
      else Inl (PlainError ''unknown SHOW target: %s'' [curV p])))))"

definition parseAPIShowModelStats :: "Parser \<Rightarrow> gerror + CliCommand \<times> Parser" where
  "parseAPIShowModelStats p =
     (andThen (nextToken p) (\<lambda>p.
      let cmd = NewCommand ''api_show_model_stats'' in
      andThen (
        if curT p = TokenDays then
          andThen (nextToken p) (\<lambda>p.
          andThen (orError (\<lambda>err. WrapError ''expected number of days after DAYS: %w'' [] err) (parseNumber p)) (\<lambda>days.
          let cmd = set_param ''days'' (GInt (of_int days)) cmd in
          andThen (nextToken p) (\<lambda>p.
          Inr (cmd, p))))
        else if curT p = TokenFrom then
          andThen (nextToken p) (\<lambda>p.
          andThen (orError (\<lambda>err. WrapError ''expected start date after FROM: %w'' [] err) (parseQuotedString p)) (\<lambda>start.
          andThen (nextToken p) (\<lambda>p.
          if curT p \<noteq> TokenTo then Inl (PlainError ''expected TO after FROM start, got %s'' [curV p]) else
          andThen (nextToken p) (\<lambda>p.
          andThen (orError (\<lambda>err. WrapError ''expected end date after TO: %w'' [] err) (parseQuotedString p)) (\<lambda>end1.
          andThen (nextToken p) (\<lambda>p.
          let cmd = set_param ''start'' (GStr start) cmd in
          let cmd = set_param ''end'' (GStr end1) cmd in
          Inr (cmd, p)))))))
        else if curT p = TokenSemicolon \<or> curT p = TokenEOF then Inr (cmd, p)
        else Inr (cmd, p)) (\<lambda>(cmd, p).
      andThen (
        if curT p = TokenQuotedString then
          andThen (parseQuotedString p) (\<lambda>provider.
          andThen (nextToken p) (\<lambda>p.
          let cmd = set_param ''provider'' (GStr provider) cmd in
          if curT p = TokenQuotedString then
            let instance = ([] :: string) in
            andThen (parseQuotedString p) (\<lambda>instance.
            andThen (nextToken p) (\<lambda>p.
            let cmd = set_param ''instance'' (GStr instance) cmd in
            if curT p = TokenQuotedString then
              let model = ([] :: string) in
              andThen (parseQuotedString p) (\<lambda>model.
              andThen (nextToken p) (\<lambda>p.
              let cmd = set_param ''model'' (GStr model) cmd in
              Inr (cmd, p)))
            else Inr (cmd, p)))
          else Inr (cmd, p)))
        else Inr (cmd, p)) (\<lambda>(cmd, p).
      andThen (
        if curT p = TokenBy then
          andThen (nextToken p) (\<lambda>p.
          andThen (
            if curT p = TokenModel then
              let cmd = set_param ''by'' (GStr ''model'') cmd in
              Inr cmd
            else if curT p = TokenInstance then
              let cmd = set_param ''by'' (GStr ''instance'') cmd in
              Inr cmd
            else if curT p = TokenProvider then
              let cmd = set_param ''by'' (GStr ''provider'') cmd in
              Inr cmd
            else if curT p = TokenDate then
              let cmd = set_param ''by'' (GStr ''date'') cmd in
              Inr cmd
            else Inl (PlainError ''unknown MODEL STATS dimension: %s'' [curV p])) (\<lambda>cmd.
          andThen (nextToken p) (\<lambda>p.
          Inr (cmd, p))))
        else Inr (cmd, p)) (\<lambda>(cmd, p).
      andThen (optSemicolon p) (\<lambda>p.
      Inr (cmd, p)))))))"

definition parseAPIShowModel :: "Parser \<Rightarrow> gerror + CliCommand \<times> Parser" where
  "parseAPIShowModel p =
     (andThen (nextToken p) (\<lambda>p.
      if curT p = TokenStats then parseAPIShowModelStats p else
      andThen (orError (\<lambda>err. WrapError ''expected model name: %w'' [] err) (parseQuotedString p)) (\<lambda>modelName.
      andThen (nextToken p) (\<lambda>p.
      andThen (optSemicolon p) (\<lambda>p.
      let cmd = NewCommand ''api_show_model'' in
      let cmd = set_param ''model_name'' (GStr modelName) cmd in
      Inr (cmd, p))))))"

definition parseAPIShowAdmin :: "Parser \<Rightarrow> gerror + CliCommand \<times> Parser" where
  "parseAPIShowAdmin p =
     (andThen (nextToken p) (\<lambda>p.
      if curT p = TokenServer then
        andThen (nextToken p) (\<lambda>p.
        let cmd = NewCommand ''api_show_admin_server'' in
        andThen (optSemicolon p) (\<lambda>p.
        Inr (cmd, p)))
      else Inl (PlainError ''expected SERVER after ADMIN'' [])))"

definition parseAPIShowAPI :: "Parser \<Rightarrow> gerror + CliCommand \<times> Parser" where
  "parseAPIShowAPI p =
     (andThen (nextToken p) (\<lambda>p.
      if curT p = TokenServer then
        andThen (nextToken p) (\<lambda>p.
        let cmd = NewCommand ''api_show_api_server'' in
        andThen (orError (\<lambda>err. WrapError ''expected API server name: %w'' [] err) (parseQuotedString p)) (\<lambda>serverName.
        let cmd = set_param ''api_server_name'' (GStr serverName) cmd in
        andThen (nextToken p) (\<lambda>p.
        andThen (optSemicolon p) (\<lambda>p.
        Inr (cmd, p)))))
      else Inl (PlainError ''expected SERVER after API'' [])))"

definition parseShowLogLevel :: "Parser \<Rightarrow> gerror + CliCommand \<times> Parser" where
  "parseShowLogLevel p =
     (andThen (nextToken p) (\<lambda>p.
      let cmd = NewCommand ''api_show_log_level'' in
      andThen (optSemicolon p) (\<lambda>p.
      Inr (cmd, p))))"

definition parseAPIShowLogCommands :: "Parser \<Rightarrow> gerror + CliCommand \<times> Parser" where
  "parseAPIShowLogCommands p =
     (andThen (nextToken p) (\<lambda>p.
      if curT p = TokenLevel then parseShowLogLevel p else Inl (PlainError ''expected LEVEL after LOG'' [])))"

definition parseAPIShowHardware :: "Parser \<Rightarrow> gerror + CliCommand \<times> Parser" where
  "parseAPIShowHardware p =
     (andThen (nextToken p) (\<lambda>p.
      let cmd = NewCommand ''api_show_hardware'' in
      andThen (optSemicolon p) (\<lambda>p.
      Inr (cmd, p))))"

definition parseAPIShowCores :: "Parser \<Rightarrow> gerror + CliCommand \<times> Parser" where
  "parseAPIShowCores p =
     (andThen (nextToken p) (\<lambda>p.
      let cmd = NewCommand ''api_show_cores'' in
      andThen (optSemicolon p) (\<lambda>p.
      Inr (cmd, p))))"

definition parseAPIShowMemory :: "Parser \<Rightarrow> gerror + CliCommand \<times> Parser" where
  "parseAPIShowMemory p =
     (andThen (nextToken p) (\<lambda>p.
      let cmd = NewCommand ''api_show_memory'' in
      andThen (optSemicolon p) (\<lambda>p.
      Inr (cmd, p))))"

definition parseAPIShowConcurrency :: "Parser \<Rightarrow> gerror + CliCommand \<times> Parser" where
  "parseAPIShowConcurrency p =
     (andThen (nextToken p) (\<lambda>p.
      let cmd = NewCommand ''api_show_concurrency'' in
      andThen (optSemicolon p) (\<lambda>p.
      Inr (cmd, p))))"

definition parseAPIShowQuota :: "Parser \<Rightarrow> gerror + CliCommand \<times> Parser" where
  "parseAPIShowQuota p =
     (andThen (nextToken p) (\<lambda>p.
      let cmd = NewCommand ''api_show_quota'' in
      andThen (optSemicolon p) (\<lambda>p.
      Inr (cmd, p))))"

definition parseAPIShowGroupStats :: "Parser \<Rightarrow> gerror + CliCommand \<times> Parser" where
  "parseAPIShowGroupStats p =
     (andThen (nextToken p) (\<lambda>p.
      let cmd = NewCommand ''api_show_group_stats'' in
      andThen (
        if curT p = TokenDays then
          andThen (nextToken p) (\<lambda>p.
          andThen (orError (\<lambda>err. WrapError ''expected number of days after DAYS: %w'' [] err) (parseNumber p)) (\<lambda>days.
          let cmd = set_param ''days'' (GInt (of_int days)) cmd in
          andThen (nextToken p) (\<lambda>p.
          Inr (cmd, p))))
        else if curT p = TokenFrom then
          andThen (nextToken p) (\<lambda>p.
          andThen (orError (\<lambda>err. WrapError ''expected start date after FROM: %w'' [] err) (parseQuotedString p)) (\<lambda>start.
          andThen (nextToken p) (\<lambda>p.
          if curT p \<noteq> TokenTo then Inl (PlainError ''expected TO after FROM start, got %s'' [curV p]) else
          andThen (nextToken p) (\<lambda>p.
          andThen (orError (\<lambda>err. WrapError ''expected end date after TO: %w'' [] err) (parseQuotedString p)) (\<lambda>end1.
          andThen (nextToken p) (\<lambda>p.
          let cmd = set_param ''start'' (GStr start) cmd in
          let cmd = set_param ''end'' (GStr end1) cmd in
          Inr (cmd, p)))))))
        else if curT p = TokenSemicolon \<or> curT p = TokenEOF then Inr (cmd, p)
        else Inr (cmd, p)) (\<lambda>(cmd, p).
      andThen (
        if curT p = TokenQuotedString then
          andThen (parseQuotedString p) (\<lambda>group.
          andThen (nextToken p) (\<lambda>p.
          let cmd = set_param ''group'' (GStr group) cmd in
          Inr (cmd, p)))
        else Inr (cmd, p)) (\<lambda>(cmd, p).
      andThen (
        if curT p = TokenBy then
          andThen (nextToken p) (\<lambda>p.
          andThen (
            if curT p = TokenDate then
              let cmd = set_param ''by'' (GStr ''date'') cmd in
              Inr cmd
            else if curT p = TokenModel then
              let cmd = set_param ''by'' (GStr ''model'') cmd in
              Inr cmd
            else if curT p = TokenGroup then
              let cmd = set_param ''by'' (GStr ''group'') cmd in
              Inr cmd
            else Inl (PlainError ''unknown GROUP STATS dimension: %s'' [curV p])) (\<lambda>cmd.
          andThen (nextToken p) (\<lambda>p.
          Inr (cmd, p))))
        else Inr (cmd, p)) (\<lambda>(cmd, p).
      andThen (optSemicolon p) (\<lambda>p.
      Inr (cmd, p)))))))"

definition parseAPIShowGroup :: "Parser \<Rightarrow> gerror + CliCommand \<times> Parser" where
  "parseAPIShowGroup p =
     (andThen (nextToken p) (\<lambda>p.
      if curT p = TokenStats then parseAPIShowGroupStats p else
      andThen (orError (\<lambda>err. WrapError ''expected group name: %w'' [] err) (parseQuotedString p)) (\<lambda>groupName.
      andThen (nextToken p) (\<lambda>p.
      andThen (optSemicolon p) (\<lambda>p.
      let cmd = NewCommand ''api_show_model_group'' in
      let cmd = set_param ''group_name'' (GStr groupName) cmd in
      Inr (cmd, p))))))"

definition parseAPIShowCommands :: "Parser \<Rightarrow> gerror + CliCommand \<times> Parser" where
  "parseAPIShowCommands p =
     (andThen (nextToken p) (\<lambda>p.
      if curT p = TokenVersion then parseAPIShowVersion p
      else if curT p = TokenKey then parseAPIShowKey p
      else if curT p = TokenCurrent then parseAPIShowCurrent p
      else if curT p = TokenProvider then parseAPIShowProviderCommands p
      else if curT p = TokenModel then parseAPIShowModel p
      else if curT p = TokenAdmin then parseAPIShowAdmin p
      else if curT p = TokenAPI then parseAPIShowAPI p
      else if curT p = TokenLog then parseAPIShowLogCommands p
      else if curT p = TokenHardware then parseAPIShowHardware p
      else if curT p = TokenCores then parseAPIShowCores p
      else if curT p = TokenMemory then parseAPIShowMemory p
      else if curT p = TokenConcurrency then parseAPIShowConcurrency p
      else if curT p = TokenQuota then parseAPIShowQuota p
      else if curT p = TokenGroup then parseAPIShowGroup p
      else Inl (PlainError ''unknown SHOW target: %s'' [curV p])))"

definition parseAPIAddGroupModel :: "Parser \<Rightarrow> gerror + CliCommand \<times> Parser" where
  "parseAPIAddGroupModel p =
     (andThen (orError (\<lambda>err. WrapError ''expected model identifier in format 'model@instance@provider': %w'' [] err) (parseQuotedString p)) (\<lambda>modelNameOrID.
      andThen (nextToken p) (\<lambda>p.
      if curT p \<noteq> TokenGroup then Inl (PlainError ''expected GROUP after model identifier, got %s'' [curV p]) else
      andThen (nextToken p) (\<lambda>p.
      andThen (orError (\<lambda>err. WrapError ''expected group name: %w'' [] err) (parseQuotedString p)) (\<lambda>groupName.
      andThen (nextToken p) (\<lambda>p.
      andThen (optSemicolon p) (\<lambda>p.
      let cmd = NewCommand ''api_add_group_model'' in
      andThen (
        if IsCompositeModelName modelNameOrID then
          let cmd = set_param ''composite_model_name'' (GStr modelNameOrID) cmd in
          Inr cmd
        else if IsUUID modelNameOrID then
          let cmd = set_param ''model_id'' (GStr modelNameOrID) cmd in
          Inr cmd
        else Inl (PlainError ''invalid format of model name or ID: %s'' [modelNameOrID])) (\<lambda>cmd.
      let cmd = set_param ''group_name'' (GStr groupName) cmd in
      Inr (cmd, p)))))))))"

definition parseAPIDeleteGroupModel :: "Parser \<Rightarrow> gerror + CliCommand \<times> Parser" where
  "parseAPIDeleteGroupModel p =
     (andThen (orError (\<lambda>err. WrapError ''expected model identifier in format 'model@instance@provider': %w'' [] err) (parseQuotedString p)) (\<lambda>modelNameOrID.
      andThen (nextToken p) (\<lambda>p.
      if curT p \<noteq> TokenGroup then Inl (PlainError ''expected GROUP after model identifier, got %s'' [curV p]) else
      andThen (nextToken p) (\<lambda>p.
      andThen (orError (\<lambda>err. WrapError ''expected group name: %w'' [] err) (parseQuotedString p)) (\<lambda>groupName.
      andThen (nextToken p) (\<lambda>p.
      andThen (optSemicolon p) (\<lambda>p.
      let cmd = NewCommand ''api_delete_group_model'' in
      andThen (
        if IsCompositeModelName modelNameOrID then
          let cmd = set_param ''composite_model_name'' (GStr modelNameOrID) cmd in
          Inr cmd
        else if IsUUID modelNameOrID then
          let cmd = set_param ''model_id'' (GStr modelNameOrID) cmd in
          Inr cmd
        else Inl (PlainError ''invalid format of model name or ID: %s'' [modelNameOrID])) (\<lambda>cmd.
      let cmd = set_param ''group_name'' (GStr groupName) cmd in
      Inr (cmd, p)))))))))"

end
