(* ===== verification/CliUserEdit.thy ===== *)
theory CliUserEdit
  imports CliUserList
begin

text \<open>
  The commands CREATE, DROP, ADD, DELETE, ALTER, SET, RESET and IMPORT of the user (\<^verbatim>\<open>cli/user_parser.go\<close>).
\<close>

definition parseAPIModelCreateGroup :: "Parser \<Rightarrow> gerror + CliCommand \<times> Parser" where
  "parseAPIModelCreateGroup p =
     (andThen (nextToken p) (\<lambda>p.
      andThen (parseQuotedString p) (\<lambda>groupName.
      andThen (nextToken p) (\<lambda>p.
      andThen (optSemicolon p) (\<lambda>p.
      let cmd = NewCommand ''api_create_model_group'' in
      let cmd = set_param ''group_name'' (GStr groupName) cmd in
      Inr (cmd, p))))))"

definition parseAPICreateDataset :: "Parser \<Rightarrow> gerror + CliCommand \<times> Parser" where
  "parseAPICreateDataset p =
     (andThen (nextToken p) (\<lambda>p.
      andThen (parseQuotedString p) (\<lambda>datasetName.
      andThen (nextToken p) (\<lambda>p.
      andThen (optSemicolon p) (\<lambda>p.
      let cmd = NewCommand ''api_create_dataset'' in
      let cmd = set_param ''dataset_name'' (GStr datasetName) cmd in
      Inr (cmd, p))))))"

definition parseAPICreateChat :: "Parser \<Rightarrow> gerror + CliCommand \<times> Parser" where
  "parseAPICreateChat p =
     (andThen (nextToken p) (\<lambda>p.
      andThen (parseQuotedString p) (\<lambda>chatName.
      andThen (nextToken p) (\<lambda>p.
      andThen (optSemicolon p) (\<lambda>p.
      let cmd = NewCommand ''api_create_chat'' in
      let cmd = set_param ''chat_name'' (GStr chatName) cmd in
      Inr (cmd, p))))))"

definition parseAPICreateSearch :: "Parser \<Rightarrow> gerror + CliCommand \<times> Parser" where
  "parseAPICreateSearch p =
     (andThen (nextToken p) (\<lambda>p.
      andThen (parseQuotedString p) (\<lambda>searchName.
      andThen (nextToken p) (\<lambda>p.
      andThen (optSemicolon p) (\<lambda>p.
      let cmd = NewCommand ''api_create_search'' in
      let cmd = set_param ''search_name'' (GStr searchName) cmd in
      Inr (cmd, p))))))"

definition parseAPICreateAgent :: "Parser \<Rightarrow> gerror + CliCommand \<times> Parser" where
  "parseAPICreateAgent p =
     (andThen (nextToken p) (\<lambda>p.
      andThen (parseQuotedString p) (\<lambda>agentName.
      andThen (nextToken p) (\<lambda>p.
      andThen (optSemicolon p) (\<lambda>p.
      let cmd = NewCommand ''api_create_agent'' in
      let cmd = set_param ''agent_name'' (GStr agentName) cmd in
      Inr (cmd, p))))))"

definition parseAPICreateMemory :: "Parser \<Rightarrow> gerror + CliCommand \<times> Parser" where
  "parseAPICreateMemory p =
     (andThen (nextToken p) (\<lambda>p.
      andThen (parseQuotedString p) (\<lambda>memoryName.
      andThen (nextToken p) (\<lambda>p.
      andThen (optSemicolon p) (\<lambda>p.
      let cmd = NewCommand ''api_create_memory'' in
      let cmd = set_param ''memory_name'' (GStr memoryName) cmd in
      Inr (cmd, p))))))"

definition parseAPICreateKey :: "Parser \<Rightarrow> gerror + CliCommand \<times> Parser" where
  "parseAPICreateKey p =
     (andThen (nextToken p) (\<lambda>p.
      andThen (optSemicolon p) (\<lambda>p.
      Inr (NewCommand ''api_create_api_key'', p))))"

definition parseAPICreateProviderInstance :: "Parser \<Rightarrow> gerror + CliCommand \<times> Parser" where
  "parseAPICreateProviderInstance p =
     (andThen (nextToken p) (\<lambda>p.
      andThen (orError (\<lambda>err. WrapError ''expected provider name: %w'' [] err) (parseQuotedString p)) (\<lambda>providerName.
      andThen (nextToken p) (\<lambda>p.
      if curT p \<noteq> TokenInstance then Inl (PlainError ''expected INSTANCE after provider name'' []) else
      andThen (nextToken p) (\<lambda>p.
      andThen (orError (\<lambda>err. WrapError ''expected instance name: %w'' [] err) (parseQuotedString p)) (\<lambda>instanceName.
      andThen (nextToken p) (\<lambda>p.
      if curT p \<noteq> TokenKey then Inl (PlainError ''expected KEY after instance name'' []) else
      andThen (nextToken p) (\<lambda>p.
      andThen (orError (\<lambda>err. WrapError ''expected API key: %w'' [] err) (parseQuotedString p)) (\<lambda>apiKey.
      andThen (nextToken p) (\<lambda>p.
      let baseURL = ([] :: string) in
      let region = ([] :: string) in
      andThen (ploop (\<lambda>(baseURL, region) p.
        if curT p = TokenRegion then
          andThen (nextToken p) (\<lambda>p.
          andThen (orError (\<lambda>err. WrapError ''expected region: %w'' [] err) (parseQuotedString p)) (\<lambda>region.
          andThen (nextToken p) (\<lambda>p.
          Inr (True, (baseURL, region), p))))
        else if curT p = TokenURL then
          andThen (nextToken p) (\<lambda>p.
          andThen (orError (\<lambda>err. WrapError ''expected base URL: %w'' [] err) (parseQuotedString p)) (\<lambda>baseURL.
          andThen (nextToken p) (\<lambda>p.
          Inr (True, (baseURL, region), p))))
        else Inr (False, (baseURL, region), p)) (baseURL, region) p) (\<lambda>((baseURL, region), p).
      let cmd = NewCommand ''api_create_provider_instance'' in
      let cmd = set_param ''provider_name'' (GStr providerName) cmd in
      let cmd = set_param ''instance_name'' (GStr instanceName) cmd in
      let cmd = set_param ''api_key'' (GStr apiKey) cmd in
      let cmd = (if baseURL \<noteq> [] then set_param ''base_url'' (GStr baseURL) cmd else cmd) in
      let cmd = (if region \<noteq> [] then set_param ''region'' (GStr region) cmd else cmd) in
      andThen (nextToken p) (\<lambda>p.
      andThen (optSemicolon p) (\<lambda>p.
      Inr (cmd, p))))))))))))))"

definition parseAPICreateCommands :: "Parser \<Rightarrow> gerror + CliCommand \<times> Parser" where
  "parseAPICreateCommands p =
     (andThen (nextToken p) (\<lambda>p.
      if curT p = TokenDataset then parseAPICreateDataset p
      else if curT p = TokenChat then parseAPICreateChat p
      else if curT p = TokenSearch then parseAPICreateSearch p
      else if curT p = TokenAgent then parseAPICreateAgent p
      else if curT p = TokenMemory then parseAPICreateMemory p
      else if curT p = TokenKey then parseAPICreateKey p
      else if curT p = TokenChunkStore then parseDevCreateChunkStore p
      else if curT p = TokenMetadata then parseDevCreateMetadataStore p
      else if curT p = TokenProvider then parseAPICreateProviderInstance p
      else if curT p = TokenGroup then parseAPIModelCreateGroup p
      else Inl (PlainError ''unknown CREATE target: %s'' [curV p])))"

definition parseAPIDropDataset :: "Parser \<Rightarrow> gerror + CliCommand \<times> Parser" where
  "parseAPIDropDataset p =
     (andThen (nextToken p) (\<lambda>p.
      andThen (parseQuotedString p) (\<lambda>datasetName.
      andThen (nextToken p) (\<lambda>p.
      let cmd = NewCommand ''api_drop_dataset'' in
      let cmd = set_param ''dataset_name'' (GStr datasetName) cmd in
      andThen (optSemicolon p) (\<lambda>p.
      Inr (cmd, p))))))"

definition parseAPIDropChat :: "Parser \<Rightarrow> gerror + CliCommand \<times> Parser" where
  "parseAPIDropChat p =
     (andThen (nextToken p) (\<lambda>p.
      andThen (parseQuotedString p) (\<lambda>chatName.
      let cmd = NewCommand ''api_drop_chat'' in
      let cmd = set_param ''chat_name'' (GStr chatName) cmd in
      andThen (nextToken p) (\<lambda>p.
      andThen (optSemicolon p) (\<lambda>p.
      Inr (cmd, p))))))"

definition parseAPIDropSearch :: "Parser \<Rightarrow> gerror + CliCommand \<times> Parser" where
  "parseAPIDropSearch p =
     (andThen (nextToken p) (\<lambda>p.
      andThen (parseQuotedString p) (\<lambda>searchName.
      andThen (nextToken p) (\<lambda>p.
      let cmd = NewCommand ''api_drop_search'' in
      let cmd = set_param ''search_name'' (GStr searchName) cmd in
      andThen (optSemicolon p) (\<lambda>p.
      Inr (cmd, p))))))"

definition parseAPIDropMemory :: "Parser \<Rightarrow> gerror + CliCommand \<times> Parser" where
  "parseAPIDropMemory p =
     (andThen (nextToken p) (\<lambda>p.
      andThen (parseQuotedString p) (\<lambda>memoryName.
      let cmd = NewCommand ''api_drop_memory'' in
      let cmd = set_param ''memory_name'' (GStr memoryName) cmd in
      andThen (nextToken p) (\<lambda>p.
      andThen (optSemicolon p) (\<lambda>p.
      Inr (cmd, p))))))"

definition parseAPIDropAgent :: "Parser \<Rightarrow> gerror + CliCommand \<times> Parser" where
  "parseAPIDropAgent p =
     (andThen (nextToken p) (\<lambda>p.
      andThen (parseQuotedString p) (\<lambda>agentName.
      let cmd = NewCommand ''api_drop_agent'' in
      let cmd = set_param ''agent_name'' (GStr agentName) cmd in
      andThen (nextToken p) (\<lambda>p.
      andThen (optSemicolon p) (\<lambda>p.
      Inr (cmd, p))))))"

definition parseAPIDropAPIKey :: "Parser \<Rightarrow> gerror + CliCommand \<times> Parser" where
  "parseAPIDropAPIKey p =
     (andThen (nextToken p) (\<lambda>p.
      andThen (parseQuotedString p) (\<lambda>apiKey.
      andThen (nextToken p) (\<lambda>p.
      let cmd = NewCommand ''api_delete_api_key'' in
      let cmd = set_param ''api_key'' (GStr apiKey) cmd in
      andThen (optSemicolon p) (\<lambda>p.
      Inr (cmd, p))))))"

definition parseAPIDropCommands :: "Parser \<Rightarrow> gerror + CliCommand \<times> Parser" where
  "parseAPIDropCommands p =
     (andThen (nextToken p) (\<lambda>p.
      if curT p = TokenDataset then parseAPIDropDataset p
      else if curT p = TokenChat then parseAPIDropChat p
      else if curT p = TokenSearch then parseAPIDropSearch p
      else if curT p = TokenMemory then parseAPIDropMemory p
      else if curT p = TokenAgent then parseAPIDropAgent p
      else if curT p = TokenKey then parseAPIDropAPIKey p
      else if curT p = TokenChunkStore then parseDevDropChunkStore p
      else if curT p = TokenMetadata then parseDevDropMetadataStore p
      else Inl (PlainError ''unknown DROP target: %s'' [curV p])))"

definition parseAddProviderInstance :: "string \<Rightarrow> Parser \<Rightarrow> gerror + CliCommand \<times> Parser" where
  "parseAddProviderInstance providerName p =
     (andThen (nextToken p) (\<lambda>p.
      andThen (orError (\<lambda>err. WrapError ''expected instance name: %w'' [] err) (parseQuotedString p)) (\<lambda>instanceName.
      andThen (nextToken p) (\<lambda>p.
      if curT p \<noteq> TokenKey then Inl (PlainError ''expected KEY after instance name'' []) else
      andThen (nextToken p) (\<lambda>p.
      andThen (orError (\<lambda>err. WrapError ''expected API key: %w'' [] err) (parseQuotedString p)) (\<lambda>apiKey.
      andThen (nextToken p) (\<lambda>p.
      let baseURL = ([] :: string) in
      let region = ([] :: string) in
      andThen (ploop (\<lambda>(baseURL, region) p.
        if curT p = TokenRegion then
          andThen (nextToken p) (\<lambda>p.
          andThen (orError (\<lambda>err. WrapError ''expected region: %w'' [] err) (parseQuotedString p)) (\<lambda>region.
          andThen (nextToken p) (\<lambda>p.
          Inr (True, (baseURL, region), p))))
        else if curT p = TokenURL then
          andThen (nextToken p) (\<lambda>p.
          andThen (orError (\<lambda>err. WrapError ''expected base URL: %w'' [] err) (parseQuotedString p)) (\<lambda>baseURL.
          andThen (nextToken p) (\<lambda>p.
          Inr (True, (baseURL, region), p))))
        else Inr (False, (baseURL, region), p)) (baseURL, region) p) (\<lambda>((baseURL, region), p).
      let cmd = NewCommand ''api_add_provider_instance'' in
      let cmd = set_param ''provider_name'' (GStr providerName) cmd in
      let cmd = set_param ''instance_name'' (GStr instanceName) cmd in
      let cmd = set_param ''api_key'' (GStr apiKey) cmd in
      let cmd = (if baseURL \<noteq> [] then set_param ''base_url'' (GStr baseURL) cmd else cmd) in
      let cmd = (if region \<noteq> [] then set_param ''region'' (GStr region) cmd else cmd) in
      andThen (nextToken p) (\<lambda>p.
      andThen (optSemicolon p) (\<lambda>p.
      Inr (cmd, p)))))))))))"

definition parseAPIAddProvider :: "Parser \<Rightarrow> gerror + CliCommand \<times> Parser" where
  "parseAPIAddProvider p =
     (andThen (nextToken p) (\<lambda>p.
      andThen (orError (\<lambda>err. WrapError ''expected provider name: %w'' [] err) (parseQuotedString p)) (\<lambda>providerName.
      andThen (nextToken p) (\<lambda>p.
      if curT p = TokenInstance then parseAddProviderInstance providerName p
      else if curT p = TokenEOF \<or> curT p = TokenSemicolon then
        andThen (nextToken p) (\<lambda>p.
        let cmd = NewCommand ''api_add_provider'' in
        let cmd = set_param ''provider_name'' (GStr providerName) cmd in
        andThen (nextToken p) (\<lambda>p.
        Inr (cmd, p)))
      else Inl (PlainError ''unknown ADD PROVIDER target: %s'' [curV p])))))"

definition parseAPIAddModel :: "Parser \<Rightarrow> gerror + CliCommand \<times> Parser" where
  "parseAPIAddModel p =
     (andThen (nextToken p) (\<lambda>p.
      if curT p \<noteq> TokenQuotedString then Inl (PlainError ''expected model name'' []) else
      andThen (parseQuotedString p) (\<lambda>rawModelNames.
      andThen (parseModelNames rawModelNames) (\<lambda>modelNames.
      andThen (nextToken p) (\<lambda>p.
      if curT p \<noteq> TokenTo then Inl (PlainError ''expected TO'' []) else
      andThen (nextToken p) (\<lambda>p.
      if curT p \<noteq> TokenProvider then Inl (PlainError ''expected PROVIDER'' []) else
      andThen (nextToken p) (\<lambda>p.
      if curT p \<noteq> TokenQuotedString then Inl (PlainError ''expected provider name'' []) else
      andThen (parseQuotedString p) (\<lambda>providerName.
      andThen (nextToken p) (\<lambda>p.
      if curT p \<noteq> TokenInstance then Inl (PlainError ''expected INSTANCE'' []) else
      andThen (nextToken p) (\<lambda>p.
      if curT p \<noteq> TokenQuotedString then Inl (PlainError ''expected provider name'' []) else
      andThen (parseQuotedString p) (\<lambda>instanceName.
      andThen (nextToken p) (\<lambda>p.
      let modelIndex = (0 :: int) in
      let modelTypes = ([] :: string list) in
      let supportThink = (None :: bool option) in
      let maxTokens = (0 :: int) in
      let maxDimension = (None :: int option) in
      let dimensions = ([] :: int list) in
      let models = [] in
      andThen (ploop (\<lambda>(dimensions, maxDimension, maxTokens, modelIndex, modelTypes, models, supportThink) p.
        if modelIndex \<ge> int (length modelNames) then Inl (PlainError ''too many model configs: got more configs than model names'' []) else
        let currentModelName = modelNames ! nat modelIndex in
        if curT p = TokenThink then
          if supportThink \<noteq> None then Inl (PlainError ''think model is already set for model %s'' [currentModelName]) else
          let value = True in
          let supportThink = Some value in
          andThen (nextToken p) (\<lambda>p.
          Inr (True, (dimensions, maxDimension, maxTokens, modelIndex, modelTypes, models, supportThink), p))
        else if curT p = TokenVision then
          let modelTypes = modelTypes @ [''vision''] in
          andThen (nextToken p) (\<lambda>p.
          Inr (True, (dimensions, maxDimension, maxTokens, modelIndex, modelTypes, models, supportThink), p))
        else if curT p = TokenChat then
          let modelTypes = modelTypes @ [''chat''] in
          andThen (nextToken p) (\<lambda>p.
          Inr (True, (dimensions, maxDimension, maxTokens, modelIndex, modelTypes, models, supportThink), p))
        else if curT p = TokenEmbedding then
          let modelTypes = modelTypes @ [''embedding''] in
          andThen (nextToken p) (\<lambda>p.
          andThen (
            if curT p = TokenInteger then
              andThen (parseNumber p) (\<lambda>val.
              let maxDimension = Some val in
              andThen (nextToken p) (\<lambda>p.
              let dimensions = ([] :: int list) in
              andThen (ploop (\<lambda>dimensions p.
                if curT p = TokenInteger then
                  andThen (parseNumber p) (\<lambda>dim.
                  let dimensions = dimensions @ [dim] in
                  andThen (nextToken p) (\<lambda>p.
                  Inr (True, dimensions, p)))
                else Inr (False, dimensions, p)) dimensions p) (\<lambda>(dimensions, p).
              Inr (dimensions, maxDimension, p))))
            else Inr (dimensions, maxDimension, p)) (\<lambda>(dimensions, maxDimension, p).
          Inr (True, (dimensions, maxDimension, maxTokens, modelIndex, modelTypes, models, supportThink), p)))
        else if curT p = TokenRerank then
          let modelTypes = modelTypes @ [''rerank''] in
          andThen (nextToken p) (\<lambda>p.
          Inr (True, (dimensions, maxDimension, maxTokens, modelIndex, modelTypes, models, supportThink), p))
        else if curT p = TokenOCR then
          let modelTypes = modelTypes @ [''ocr''] in
          andThen (nextToken p) (\<lambda>p.
          Inr (True, (dimensions, maxDimension, maxTokens, modelIndex, modelTypes, models, supportThink), p))
        else if curT p = TokenDocParse then
          let modelTypes = modelTypes @ [''doc_parse''] in
          andThen (nextToken p) (\<lambda>p.
          Inr (True, (dimensions, maxDimension, maxTokens, modelIndex, modelTypes, models, supportThink), p))
        else if curT p = TokenTTS then
          let modelTypes = modelTypes @ [''tts''] in
          andThen (nextToken p) (\<lambda>p.
          Inr (True, (dimensions, maxDimension, maxTokens, modelIndex, modelTypes, models, supportThink), p))
        else if curT p = TokenASR then
          let modelTypes = modelTypes @ [''asr''] in
          andThen (nextToken p) (\<lambda>p.
          Inr (True, (dimensions, maxDimension, maxTokens, modelIndex, modelTypes, models, supportThink), p))
        else if curT p = TokenToken \<or> curT p = TokenTokens then
          andThen (nextToken p) (\<lambda>p.
          if maxTokens \<noteq> 0 then Inl (PlainError ''max tokens is already given %d for model %s'' [show_int maxTokens, currentModelName]) else
          if curT p \<noteq> TokenInteger then Inl (PlainError ''expected integer'' []) else
          andThen (parseNumber p) (\<lambda>maxTokens.
          andThen (nextToken p) (\<lambda>p.
          Inr (True, (dimensions, maxDimension, maxTokens, modelIndex, modelTypes, models, supportThink), p))))
        else if curT p = TokenComma \<or> curT p = TokenSemicolon \<or> curT p = TokenEOF then
          if int (length modelTypes) = 0 then Inl (PlainError ''model type is required for model %s'' [currentModelName]) else
          let modelTypes = dedup_types modelTypes in
          if int (length modelTypes) = 0 then Inl (PlainError ''model type is required for model %s'' [currentModelName]) else
          let model = [(''model_name'', GStr currentModelName), (''model_types'', strings_val modelTypes), (''max_tokens'', GInt (of_int maxTokens))] in
          let model = (if supportThink \<noteq> None then gm_set ''thinking'' (GBool (the supportThink)) model else model) in
          let model = (
            if maxDimension \<noteq> None then
              let model = gm_set ''max_dimension'' (GInt (of_int (the maxDimension))) model in
              gm_set ''dimensions'' (ints_val dimensions) model
            else model) in
          let models = models @ [model] in
          let modelIndex = modelIndex + 1 in
          let modelTypes = ([] :: string list) in
          let supportThink = (None :: bool option) in
          let maxTokens = (0 :: int) in
          let maxDimension = (None :: int option) in
          let dimensions = ([] :: int list) in
          if curT p = TokenComma then
            andThen (nextToken p) (\<lambda>p.
            Inr (True, (dimensions, maxDimension, maxTokens, modelIndex, modelTypes, models, supportThink), p))
          else
            andThen (optSemicolon p) (\<lambda>p.
            Inr (False, (dimensions, maxDimension, maxTokens, modelIndex, modelTypes, models, supportThink), p))
        else Inl (PlainError ''unexpected token type: %s'' [curV p])) (dimensions, maxDimension, maxTokens, modelIndex, modelTypes, models, supportThink) p) (\<lambda>((dimensions, maxDimension, maxTokens, modelIndex, modelTypes, models, supportThink), p).
      if int (length models) \<noteq> int (length modelNames) then
        Inl (PlainError ''model config count %d does not match model name count %d'' [show_int (int (length models)), show_int (int (length modelNames))])
      else
        let cmd = NewCommand ''api_add_custom_model'' in
        let cmd = set_param ''provider_name'' (GStr providerName) cmd in
        let cmd = set_param ''instance_name'' (GStr instanceName) cmd in
        let cmd = set_param ''models'' (GSlice ''map[string]interface {}'' (map GMap models)) cmd in
        Inr (cmd, p))))))))))))))"

definition parseAddAPIServer :: "Parser \<Rightarrow> gerror + CliCommand \<times> Parser" where
  "parseAddAPIServer p =
     (andThen (nextToken p) (\<lambda>p.
      andThen (parseQuotedString p) (\<lambda>serverName.
      andThen (nextToken p) (\<lambda>p.
      if curT p \<noteq> TokenHost then Inl (PlainError ''expected HOST'' []) else
      andThen (nextToken p) (\<lambda>p.
      andThen (parseQuotedString p) (\<lambda>host.
      andThen (nextToken p) (\<lambda>p.
      andThen (parseHostPort host) (\<lambda>(ip, port).
      let cmd = NewCommand ''api_add_api_server'' in
      let cmd = set_param ''server_name'' (GStr serverName) cmd in
      let cmd = set_param ''server_ip'' (GStr ip) cmd in
      let cmd = set_param ''server_port'' (GInt (of_int port)) cmd in
      Inr (cmd, p)))))))))"

definition parseAddAdminServer :: "Parser \<Rightarrow> gerror + CliCommand \<times> Parser" where
  "parseAddAdminServer p =
     (andThen (nextToken p) (\<lambda>p.
      if curT p \<noteq> TokenHost then Inl (PlainError ''expected HOST'' []) else
      andThen (nextToken p) (\<lambda>p.
      andThen (parseQuotedString p) (\<lambda>host.
      andThen (nextToken p) (\<lambda>p.
      andThen (parseHostPort host) (\<lambda>(ip, port).
      let cmd = NewCommand ''api_add_admin_server'' in
      let cmd = set_param ''server_ip'' (GStr ip) cmd in
      let cmd = set_param ''server_port'' (GInt (of_int port)) cmd in
      Inr (cmd, p)))))))"

definition parseAPIAddCommands :: "Parser \<Rightarrow> gerror + CliCommand \<times> Parser" where
  "parseAPIAddCommands p =
     (andThen (nextToken p) (\<lambda>p.
      if curT p = TokenProvider then parseAPIAddProvider p
      else if curT p = TokenModel then parseAPIAddModel p
      else if curT p = TokenAPI then parseAddAPIServer p
      else if curT p = TokenAdmin then parseAddAdminServer p
      else if curT p = TokenQuotedString then parseAPIAddGroupModel p
      else Inl (PlainError ''unknown ADD target: %s'' [curV p])))"

definition parseAPIDeleteProviderInstanceModels :: "string \<Rightarrow> string \<Rightarrow> Parser \<Rightarrow> gerror + CliCommand \<times> Parser" where
  "parseAPIDeleteProviderInstanceModels providerName instanceName p =
     (andThen (nextToken p) (\<lambda>p.
      andThen (orError (\<lambda>err. WrapError ''expected model name: %w'' [] err) (parseQuotedString p)) (\<lambda>rawModels.
      andThen (nextToken p) (\<lambda>p.
      let modelNames = split_on (CHR '' '') rawModels in
      let cmd = NewCommand ''api_delete_provider_instance_model'' in
      let cmd = set_param ''instance_name'' (GStr instanceName) cmd in
      let cmd = set_param ''provider_name'' (GStr providerName) cmd in
      let cmd = set_param ''model_names'' (strings_val modelNames) cmd in
      andThen (nextToken p) (\<lambda>p.
      andThen (optSemicolon p) (\<lambda>p.
      Inr (cmd, p)))))))"

definition parseAPIDeleteProviderInstance :: "string \<Rightarrow> Parser \<Rightarrow> gerror + CliCommand \<times> Parser" where
  "parseAPIDeleteProviderInstance providerName p =
     (andThen (nextToken p) (\<lambda>p.
      andThen (orError (\<lambda>err. WrapError ''expected instance name: %w'' [] err) (parseQuotedString p)) (\<lambda>instanceName.
      andThen (nextToken p) (\<lambda>p.
      let cmd = NewCommand ''api_delete_provider_instance'' in
      let cmd = set_param ''provider_name'' (GStr providerName) cmd in
      let cmd = set_param ''instance_name'' (GStr instanceName) cmd in
      if curT p = TokenModels then parseAPIDeleteProviderInstanceModels providerName instanceName p
      else if curT p = TokenEOF \<or> curT p = TokenSemicolon then
        andThen (nextToken p) (\<lambda>p.
        andThen (optSemicolon p) (\<lambda>p.
        Inr (cmd, p)))
      else Inl (PlainError ''unknown DELETE target: %s'' [curV p])))))"

definition parseAPIDeleteProvider :: "Parser \<Rightarrow> gerror + CliCommand \<times> Parser" where
  "parseAPIDeleteProvider p =
     (andThen (nextToken p) (\<lambda>p.
      andThen (orError (\<lambda>err. WrapError ''expected provider name: %w'' [] err) (parseQuotedString p)) (\<lambda>providerName.
      andThen (nextToken p) (\<lambda>p.
      if curT p = TokenInstance then parseAPIDeleteProviderInstance providerName p
      else if curT p = TokenEOF \<or> curT p = TokenSemicolon then
        andThen (nextToken p) (\<lambda>p.
        let cmd = NewCommand ''api_delete_provider'' in
        let cmd = set_param ''provider_name'' (GStr providerName) cmd in
        andThen (optSemicolon p) (\<lambda>p.
        Inr (cmd, p)))
      else Inl (PlainError ''unknown DELETE target: %s'' [curV p])))))"

definition parseAPIDeleteGroup :: "Parser \<Rightarrow> gerror + CliCommand \<times> Parser" where
  "parseAPIDeleteGroup p =
     (andThen (nextToken p) (\<lambda>p.
      andThen (orError (\<lambda>err. WrapError ''expected group name: %w'' [] err) (parseQuotedString p)) (\<lambda>groupName.
      andThen (nextToken p) (\<lambda>p.
      andThen (optSemicolon p) (\<lambda>p.
      let cmd = NewCommand ''api_delete_model_group'' in
      let cmd = set_param ''group_name'' (GStr groupName) cmd in
      Inr (cmd, p))))))"

definition parseAPIDeleteAPIServer :: "Parser \<Rightarrow> gerror + CliCommand \<times> Parser" where
  "parseAPIDeleteAPIServer p =
     (andThen (nextToken p) (\<lambda>p.
      andThen (parseQuotedString p) (\<lambda>serverName.
      andThen (nextToken p) (\<lambda>p.
      let cmd = NewCommand ''api_delete_api_server'' in
      let cmd = set_param ''server_name'' (GStr serverName) cmd in
      andThen (optSemicolon p) (\<lambda>p.
      Inr (cmd, p))))))"

definition parseAPIDeleteAdminServer :: "Parser \<Rightarrow> gerror + CliCommand \<times> Parser" where
  "parseAPIDeleteAdminServer p =
     (andThen (nextToken p) (\<lambda>p.
      let cmd = NewCommand ''api_delete_admin_server'' in
      andThen (optSemicolon p) (\<lambda>p.
      Inr (cmd, p))))"

definition parseAPIDeleteCommands :: "Parser \<Rightarrow> gerror + CliCommand \<times> Parser" where
  "parseAPIDeleteCommands p =
     (andThen (nextToken p) (\<lambda>p.
      if curT p = TokenProvider then parseAPIDeleteProvider p
      else if curT p = TokenMetadata then parseDevDeleteMeta p
      else if curT p = TokenAdmin then parseAPIDeleteAdminServer p
      else if curT p = TokenAPI then parseAPIDeleteAPIServer p
      else if curT p = TokenGroup then parseAPIDeleteGroup p
      else if curT p = TokenQuotedString then parseAPIDeleteGroupModel p
      else Inl (PlainError ''unknown DELETE target: %s'' [curV p])))"

definition parseAPIAlterInstance :: "Parser \<Rightarrow> gerror + CliCommand \<times> Parser" where
  "parseAPIAlterInstance p =
     (andThen (nextToken p) (\<lambda>p.
      andThen (orError (\<lambda>err. WrapError ''expected provider name: %w'' [] err) (parseQuotedString p)) (\<lambda>providerName.
      andThen (nextToken p) (\<lambda>p.
      if curT p \<noteq> TokenInstance then Inl (PlainError ''expected INSTANCE after provider name'' []) else
      andThen (nextToken p) (\<lambda>p.
      andThen (orError (\<lambda>err. WrapError ''expected instance name: %w'' [] err) (parseQuotedString p)) (\<lambda>instanceName.
      andThen (nextToken p) (\<lambda>p.
      let newInstanceName = ([] :: string) in
      let newAPIKey = ([] :: string) in
      andThen (ploop (\<lambda>(newAPIKey, newInstanceName) p.
        if curT p = TokenName then
          andThen (nextToken p) (\<lambda>p.
          andThen (orError (\<lambda>err. WrapError ''expected model name: %w'' [] err) (parseQuotedString p)) (\<lambda>newInstanceName.
          andThen (nextToken p) (\<lambda>p.
          Inr (True, (newAPIKey, newInstanceName), p))))
        else if curT p = TokenKey then
          andThen (nextToken p) (\<lambda>p.
          andThen (orError (\<lambda>err. WrapError ''expected API key: %w'' [] err) (parseQuotedString p)) (\<lambda>newAPIKey.
          andThen (nextToken p) (\<lambda>p.
          Inr (True, (newAPIKey, newInstanceName), p))))
        else Inr (False, (newAPIKey, newInstanceName), p)) (newAPIKey, newInstanceName) p) (\<lambda>((newAPIKey, newInstanceName), p).
      if newInstanceName = [] \<and> newAPIKey = [] then Inl (PlainError ''expected NAME or KEY after INSTANCE'' []) else
      let cmd = NewCommand ''api_alter_provider_instance'' in
      let cmd = set_param ''provider_name'' (GStr providerName) cmd in
      let cmd = set_param ''instance_name'' (GStr instanceName) cmd in
      let cmd = set_param ''new_instance_name'' (GStr newInstanceName) cmd in
      let cmd = set_param ''new_api_key'' (GStr newAPIKey) cmd in
      andThen (nextToken p) (\<lambda>p.
      andThen (optSemicolon p) (\<lambda>p.
      Inr (cmd, p)))))))))))"

definition parseAPIAlterCommands :: "Parser \<Rightarrow> gerror + CliCommand \<times> Parser" where
  "parseAPIAlterCommands p =
     (andThen (nextToken p) (\<lambda>p.
      if curT p = TokenProvider then parseAPIAlterInstance p else Inl (PlainError ''unknown ALTER target: %s'' [curV p])))"

definition parseIdentifierList :: "Parser \<Rightarrow> gerror + string list \<times> Parser" where
  "parseIdentifierList p =
     (let list1 = ([] :: string list) in
      andThen (parseIdentifier p) (\<lambda>ident.
      let list1 = list1 @ [ident] in
      andThen (nextToken p) (\<lambda>p.
      andThen (ploop (\<lambda>(ident, list1) p.
        if curT p = TokenComma then
          andThen (nextToken p) (\<lambda>p.
          andThen (parseIdentifier p) (\<lambda>ident.
          let list1 = list1 @ [ident] in
          andThen (nextToken p) (\<lambda>p.
          Inr (True, (ident, list1), p))))
        else Inr (False, (ident, list1), p)) (ident, list1) p) (\<lambda>((ident, list1), p).
      Inr (list1, p)))))"

definition parseAPISetDefault :: "Parser \<Rightarrow> gerror + CliCommand \<times> Parser" where
  "parseAPISetDefault p =
     (andThen (nextToken p) (\<lambda>p.
      let modelType = ([] :: string) in
      let modelNameOrID = ([] :: string) in
      andThen (
        if curT p = TokenChat then
          let modelType = ''chat'' in
          Inr modelType
        else if curT p = TokenVision then
          let modelType = ''vision'' in
          Inr modelType
        else if curT p = TokenEmbedding then
          let modelType = ''embedding'' in
          Inr modelType
        else if curT p = TokenRerank then
          let modelType = ''rerank'' in
          Inr modelType
        else if curT p = TokenASR then
          let modelType = ''asr'' in
          Inr modelType
        else if curT p = TokenTTS then
          let modelType = ''tts'' in
          Inr modelType
        else if curT p = TokenOCR then
          let modelType = ''ocr'' in
          Inr modelType
        else Inl (PlainError ''unknown model type: %s'' [curV p])) (\<lambda>modelType.
      andThen (nextToken p) (\<lambda>p.
      if curT p \<noteq> TokenModel then Inl (PlainError ''expected MODEL'' []) else
      andThen (nextToken p) (\<lambda>p.
      if curT p \<noteq> TokenQuotedString then Inl (PlainError ''expected quoted string with format model@instance@provider'' []) else
      andThen (parseQuotedString p) (\<lambda>modelNameOrID.
      andThen (nextToken p) (\<lambda>p.
      let cmd = NewCommand ''api_set_default_model'' in
      let cmd = set_param ''model_type'' (GStr modelType) cmd in
      andThen (
        if IsCompositeModelName modelNameOrID then
          let cmd = set_param ''composite_model_name'' (GStr modelNameOrID) cmd in
          Inr cmd
        else if IsUUID modelNameOrID then
          let cmd = set_param ''model_id'' (GStr modelNameOrID) cmd in
          Inr cmd
        else Inl (PlainError ''invalid format of model name or ID: %s'' [modelNameOrID])) (\<lambda>cmd.
      andThen (nextToken p) (\<lambda>p.
      andThen (optSemicolon p) (\<lambda>p.
      Inr (cmd, p)))))))))))"

definition parseAPISetAPIKey :: "Parser \<Rightarrow> gerror + CliCommand \<times> Parser" where
  "parseAPISetAPIKey p =
     (andThen (nextToken p) (\<lambda>p.
      andThen (parseQuotedString p) (\<lambda>apiKey.
      andThen (nextToken p) (\<lambda>p.
      let cmd = NewCommand ''api_set_api_key'' in
      let cmd = set_param ''api_key'' (GStr apiKey) cmd in
      andThen (optSemicolon p) (\<lambda>p.
      Inr (cmd, p))))))"

definition parseAPISetLogLevel :: "Parser \<Rightarrow> gerror + CliCommand \<times> Parser" where
  "parseAPISetLogLevel p =
     (andThen (nextToken p) (\<lambda>p.
      let cmd = NewCommand ''api_set_log_level'' in
      andThen (
        if curT p = TokenDebug then
          let cmd = set_param ''level'' (GStr ''debug'') cmd in
          Inr cmd
        else if curT p = TokenInfo then
          let cmd = set_param ''level'' (GStr ''info'') cmd in
          Inr cmd
        else if curT p = TokenWarn then
          let cmd = set_param ''level'' (GStr ''warn'') cmd in
          Inr cmd
        else if curT p = TokenError then
          let cmd = set_param ''level'' (GStr ''error'') cmd in
          Inr cmd
        else if curT p = TokenFatal then
          let cmd = set_param ''level'' (GStr ''fatal'') cmd in
          Inr cmd
        else if curT p = TokenPanic then
          let cmd = set_param ''level'' (GStr ''panic'') cmd in
          Inr cmd
        else Inl (PlainError ''unknown log level: %s'' [curV p])) (\<lambda>cmd.
      andThen (nextToken p) (\<lambda>p.
      andThen (optSemicolon p) (\<lambda>p.
      Inr (cmd, p))))))"

definition parseAPISetLog :: "Parser \<Rightarrow> gerror + CliCommand \<times> Parser" where
  "parseAPISetLog p =
     (andThen (nextToken p) (\<lambda>p.
      if curT p = TokenLevel then parseAPISetLogLevel p else Inl (PlainError ''unknown log target: %s'' [curV p])))"

definition parseAPISetCores :: "Parser \<Rightarrow> gerror + CliCommand \<times> Parser" where
  "parseAPISetCores p =
     (andThen (nextToken p) (\<lambda>p.
      let cmd = NewCommand ''api_set_cores'' in
      andThen (orError (\<lambda>err. WrapError ''expected cores: %w'' [] err) (parseNumber p)) (\<lambda>cores.
      let cmd = set_param ''cores'' (GInt (of_int cores)) cmd in
      andThen (nextToken p) (\<lambda>p.
      andThen (optSemicolon p) (\<lambda>p.
      Inr (cmd, p))))))"

definition parseAPISetMemory :: "Parser \<Rightarrow> gerror + CliCommand \<times> Parser" where
  "parseAPISetMemory p =
     (andThen (nextToken p) (\<lambda>p.
      let cmd = NewCommand ''api_set_memory'' in
      andThen (orError (\<lambda>err. WrapError ''expected memory size: %w'' [] err) (parseNumber p)) (\<lambda>memorySize.
      let cmd = set_param ''memory_size'' (GInt (of_int memorySize)) cmd in
      andThen (nextToken p) (\<lambda>p.
      andThen (optSemicolon p) (\<lambda>p.
      Inr (cmd, p))))))"

definition parseAPISetConcurrency :: "Parser \<Rightarrow> gerror + CliCommand \<times> Parser" where
  "parseAPISetConcurrency p =
     (andThen (nextToken p) (\<lambda>p.
      let cmd = NewCommand ''api_set_concurrency'' in
      andThen (orError (\<lambda>err. WrapError ''expected concurrency: %w'' [] err) (parseNumber p)) (\<lambda>concurrency.
      let cmd = set_param ''concurrency'' (GInt (of_int concurrency)) cmd in
      andThen (nextToken p) (\<lambda>p.
      andThen (optSemicolon p) (\<lambda>p.
      Inr (cmd, p))))))"

definition parseAPISetCommands :: "Parser \<Rightarrow> gerror + CliCommand \<times> Parser" where
  "parseAPISetCommands p =
     (andThen (nextToken p) (\<lambda>p.
      if curT p = TokenDefault then parseAPISetDefault p
      else if curT p = TokenKey then parseAPISetAPIKey p
      else if curT p = TokenLog then parseAPISetLog p
      else if curT p = TokenMetadata then parseDevSetMeta p
      else if curT p = TokenCores then parseAPISetCores p
      else if curT p = TokenMemory then parseAPISetMemory p
      else if curT p = TokenConcurrency then parseAPISetConcurrency p
      else Inl (PlainError ''unknown SET target: %s'' [curV p])))"

definition parseAPIResetDefaultModel :: "Parser \<Rightarrow> gerror + CliCommand \<times> Parser" where
  "parseAPIResetDefaultModel p =
     (andThen (nextToken p) (\<lambda>p.
      let modelType = ([] :: string) in
      andThen (
        if curT p = TokenChat then
          let modelType = ''chat'' in
          Inr modelType
        else if curT p = TokenVision then
          let modelType = ''vision'' in
          Inr modelType
        else if curT p = TokenEmbedding then
          let modelType = ''embedding'' in
          Inr modelType
        else if curT p = TokenRerank then
          let modelType = ''rerank'' in
          Inr modelType
        else if curT p = TokenASR then
          let modelType = ''asr'' in
          Inr modelType
        else if curT p = TokenTTS then
          let modelType = ''tts'' in
          Inr modelType
        else if curT p = TokenOCR then
          let modelType = ''ocr'' in
          Inr modelType
        else Inl (PlainError ''unknown model type: %s'' [curV p])) (\<lambda>modelType.
      let cmd = NewCommand ''reset_default_model'' in
      let cmd = set_param ''model_type'' (GStr modelType) cmd in
      andThen (nextToken p) (\<lambda>p.
      if curT p \<noteq> TokenModel then Inl (PlainError ''expected MODEL'' []) else
      andThen (nextToken p) (\<lambda>p.
      andThen (optSemicolon p) (\<lambda>p.
      Inr (cmd, p)))))))"

definition parseAPIResetKey :: "Parser \<Rightarrow> gerror + CliCommand \<times> Parser" where
  "parseAPIResetKey p =
     (andThen (nextToken p) (\<lambda>p.
      andThen (optSemicolon p) (\<lambda>p.
      Inr (NewCommand ''api_unset_api_key'', p))))"

definition parseAPIResetCommands :: "Parser \<Rightarrow> gerror + CliCommand \<times> Parser" where
  "parseAPIResetCommands p =
     (andThen (nextToken p) (\<lambda>p.
      if curT p = TokenDefault then parseAPIResetDefaultModel p
      else if curT p = TokenKey then parseAPIResetKey p
      else Inl (PlainError ''unknown RESET target: %s'' [curV p])))"

definition parseAPIImport :: "Parser \<Rightarrow> gerror + CliCommand \<times> Parser" where
  "parseAPIImport p =
     (andThen (nextToken p) (\<lambda>p.
      andThen (parseQuotedString p) (\<lambda>documentPaths.
      andThen (nextToken p) (\<lambda>p.
      if curT p \<noteq> TokenInto then Inl (PlainError ''expected INTO'' []) else
      andThen (nextToken p) (\<lambda>p.
      if curT p \<noteq> TokenDataset then Inl (PlainError ''expected DATASET'' []) else
      andThen (nextToken p) (\<lambda>p.
      andThen (parseQuotedString p) (\<lambda>datasetName.
      let cmd = NewCommand ''import_docs_into_dataset'' in
      let cmd = set_param ''document_paths'' (GStr documentPaths) cmd in
      let cmd = set_param ''dataset_name'' (GStr datasetName) cmd in
      andThen (nextToken p) (\<lambda>p.
      andThen (optSemicolon p) (\<lambda>p.
      Inr (cmd, p))))))))))"

end
