(* ===== verification/CliUserRun.thy ===== *)
theory CliUserRun
  imports CliUserEdit
begin

text \<open>
  The commands of the user that retrieve, parse, chat and call models (\<^verbatim>\<open>cli/user_parser.go\<close>), and the
  choice among the commands of the user (\<^verbatim>\<open>parseUserCommand\<close>).
\<close>

definition parseAPIRetrieve :: "Parser \<Rightarrow> gerror + CliCommand \<times> Parser" where
  "parseAPIRetrieve p =
     (andThen (nextToken p) (\<lambda>p.
      if curT p = TokenDash then
        let dashCount = (0 :: int) in
        andThen (ploop (\<lambda>dashCount p.
          if curT p = TokenDash then
            let dashCount = dashCount + 1 in
            andThen (nextToken p) (\<lambda>p.
            Inr (True, dashCount, p))
          else Inr (False, dashCount, p)) dashCount p) (\<lambda>(dashCount, p).
        if dashCount > 0 \<and> curT p = TokenIdentifier then
          if ToLower (curV p) = ''h'' \<or> ToLower (curV p) = ''help'' then Inr (NewCommand ''search_help'', p) else
          Inl (PlainError ''expected quoted string or identifier'' [])
        else Inl (PlainError ''expected quoted string or identifier'' []))
      else
        let question = ([] :: string) in
        andThen (
          if curT p = TokenQuotedString then parseQuotedString p
          else if curT p = TokenIdentifier then parseIdentifier p
          else Inl (PlainError ''expected quoted string or identifier'' [])) (\<lambda>question.
        andThen (nextToken p) (\<lambda>p.
        if curT p = TokenOn then
          andThen (nextToken p) (\<lambda>p.
          if curT p \<noteq> TokenDatasets then Inl (PlainError ''expected DATASETS'' []) else
          andThen (nextToken p) (\<lambda>p.
          andThen (parseQuotedString p) (\<lambda>datasets.
          let cmd = NewCommand ''search_on_datasets'' in
          let cmd = set_param ''question'' (GStr question) cmd in
          let cmd = set_param ''datasets'' (GStr datasets) cmd in
          andThen (nextToken p) (\<lambda>p.
          andThen (
            if curT p = TokenWith \<or> curT p = TokenIdentifier \<and> ToLower (curV p) = ''with'' then
              andThen (if curT p = TokenWith then nextToken p else nextToken p) (\<lambda>p.
              ploop (\<lambda>cmd p.
                if curT p \<noteq> TokenEOF \<and> curT p \<noteq> TokenSemicolon then
                  if curT p = TokenComma then Inl (PlainError ''syntax error: WITH options must be space-separated, not comma-separated'' []) else
                  if curT p \<noteq> TokenIdentifier then Inr (False, cmd, p) else
                  let paramName = ToLower (curV p) in
                  andThen (nextToken p) (\<lambda>p.
                  let paramValue = GNil in
                  let valueToken = curT p in
                  andThen (
                    if curT p = TokenInteger then
                      andThen (parseNumber p) (\<lambda>v.
                      let paramValue = GInt (of_int v) in
                      andThen (nextToken p) (\<lambda>p.
                      Inr (paramValue, p)))
                    else if curT p = TokenFloat then
                      andThen (parseFloat p) (\<lambda>v.
                      let paramValue = GFloat v in
                      andThen (nextToken p) (\<lambda>p.
                      Inr (paramValue, p)))
                    else if curT p = TokenQuotedString then
                      andThen (parseQuotedString p) (\<lambda>v.
                      let paramValue = GStr v in
                      andThen (nextToken p) (\<lambda>p.
                      Inr (paramValue, p)))
                    else if curT p = TokenIdentifier then
                      let paramValue = GStr (curV p) in
                      andThen (nextToken p) (\<lambda>p.
                      Inr (paramValue, p))
                    else if curT p = TokenLBracket then
                      let paramValue = GNil in
                      Inr (paramValue, p)
                    else Inl (PlainError ''WITH option %q is missing a value'' [paramName])) (\<lambda>(paramValue, p).
                  andThen (
                    if paramName = ''top_k'' \<or> paramName = ''page_size'' \<or> paramName = ''page'' then
                      if valueToken \<noteq> TokenInteger then
                        Inl (PlainError ''WITH option %q must be an integer, got %s'' [paramName, tokenTypeDescription valueToken (ps_cur p)])
                      else
                        let cmd = set_param paramName (paramValue) cmd in
                        Inr (cmd, p)
                    else if paramName = ''similarity_threshold'' \<or> paramName = ''vector_similarity_weight'' then
                      andThen (case paramValue of
                        GInt n \<Rightarrow>
                          let cmd = set_param paramName (GFloat (f64_round (of_int (sint n)))) cmd in
                          Inr cmd
                        | GFloat n \<Rightarrow>
                          let cmd = set_param paramName (GFloat n) cmd in
                          Inr cmd
                        | _ \<Rightarrow>
                          Inl (PlainError ''WITH option %q must be a number, got %s'' [paramName, tokenTypeDescription valueToken (ps_cur p)])) (\<lambda>cmd.
                      Inr (cmd, p))
                    else if paramName = ''keyword'' \<or> paramName = ''use_kg'' then
                      case as_string paramValue of None \<Rightarrow> Inl (PlainError ''WITH option %q must be true or false, got %s'' [paramName, tokenTypeDescription valueToken (ps_cur p)]) | Some s \<Rightarrow> (
                      andThen (
                        if ToLower s = ''true'' then
                          let cmd = set_param paramName (GBool True) cmd in
                          Inr cmd
                        else if ToLower s = ''false'' then
                          let cmd = set_param paramName (GBool False) cmd in
                          Inr cmd
                        else Inl (PlainError ''WITH option %q must be true or false, got %q'' [paramName, s])) (\<lambda>cmd.
                      Inr (cmd, p)))
                    else if paramName = ''rerank_id'' \<or> paramName = ''search_id'' then
                      if valueToken \<noteq> TokenQuotedString then
                        Inl (PlainError ''WITH option %q must be a quoted string, got %s'' [paramName, tokenTypeDescription valueToken (ps_cur p)])
                      else
                        let cmd = set_param paramName (paramValue) cmd in
                        Inr (cmd, p)
                    else if paramName = ''metadata_condition'' then
                      if valueToken \<noteq> TokenQuotedString then
                        Inl (PlainError ''WITH option %q must be a quoted string, got %s'' [paramName, tokenTypeDescription valueToken (ps_cur p)])
                      else
                        let cmd = set_param paramName (paramValue) cmd in
                        Inr (cmd, p)
                    else if paramName = ''cross_languages'' \<or> paramName = ''document_ids'' then
                      if curT p \<noteq> TokenLBracket then
                        Inl (PlainError ''WITH option %q must be a list, e.g. %q ['a', 'b']'' [paramName, paramName])
                      else
                        andThen (parseQuotedStringList p) (\<lambda>(list1, p).
                        let cmd = set_param paramName (strings_val list1) cmd in
                        Inr (cmd, p))
                    else Inl (PlainError ''unknown WITH option %q'' [paramName])) (\<lambda>(cmd, p).
                  Inr (True, cmd, p))))
                else Inr (False, cmd, p)) cmd p)
            else Inr (cmd, p)) (\<lambda>(cmd, p).
          andThen (optSemicolon p) (\<lambda>p.
          Inr (cmd, p)))))))
        else
          let cmd = NewCommand ''ce_search'' in
          let cmd = set_param ''query'' (GStr question) cmd in
          if curT p = TokenEOF then
            let cmd = set_param ''path'' (GStr ''.'') cmd in
            Inr (cmd, p)
          else
            ploop (\<lambda>cmd p.
              if curT p \<noteq> TokenEOF then
                if curT p = TokenDash then
                  andThen (nextToken p) (\<lambda>p.
                  if curT p \<noteq> TokenIdentifier then Inl (PlainError ''expect identifier'' []) else
                  if ToLower (curV p) = ''n'' then
                    andThen (nextToken p) (\<lambda>p.
                    if curT p \<noteq> TokenInteger then Inl (PlainError ''expect number'' []) else
                    andThen (parseNumber p) (\<lambda>v.
                    let cmd = set_param ''number'' (GInt (of_int v)) cmd in
                    andThen (nextToken p) (\<lambda>p.
                    Inr (True, cmd, p))))
                  else Inl (PlainError ''unknown parameter: %s'' [curV p]))
                else if curT p = TokenIdentifier then
                  let cmd = (
                    if get_param ''path'' cmd = GNil then set_param ''path'' (GStr (curV p)) cmd else
                    set_param ''path'' (GStr (show_val (get_param ''path'' cmd) @ (curV p))) cmd) in
                  andThen (nextToken p) (\<lambda>p.
                  Inr (True, cmd, p))
                else if curT p = TokenSlash then
                  let cmd = (
                    if get_param ''path'' cmd = GNil then set_param ''path'' (GStr ''/'') cmd else
                    set_param ''path'' (GStr (show_val (get_param ''path'' cmd) @ ''/'')) cmd) in
                  andThen (nextToken p) (\<lambda>p.
                  andThen (
                    if curT p = TokenIdentifier then
                      let cmd = set_param ''path'' (GStr (show_val (get_param ''path'' cmd) @ (curV p))) cmd in
                      andThen (nextToken p) (\<lambda>p.
                      Inr (cmd, p))
                    else Inr (cmd, p)) (\<lambda>(cmd, p).
                  Inr (True, cmd, p)))
                else if curT p = TokenIllegal \<and> curV p = ''.'' then
                  let cmd = (
                    if get_param ''path'' cmd = GNil then set_param ''path'' (GStr ''.'') cmd else
                    set_param ''path'' (GStr (show_val (get_param ''path'' cmd) @ ''.'')) cmd) in
                  andThen (nextToken p) (\<lambda>p.
                  Inr (True, cmd, p))
                else Inl (PlainError ''unexpected token %q in search path'' [curV p])
              else Inr (False, cmd, p)) cmd p))))"

definition parseAPIParseDataset :: "Parser \<Rightarrow> gerror + CliCommand \<times> Parser" where
  "parseAPIParseDataset p =
     (andThen (nextToken p) (\<lambda>p.
      andThen (parseQuotedString p) (\<lambda>datasetName.
      andThen (nextToken p) (\<lambda>p.
      let method = ([] :: string) in
      andThen (
        if curT p = TokenSync then
          let method = ''sync'' in
          Inr method
        else if curT p = TokenAsync then
          let method = ''async'' in
          Inr method
        else Inl (PlainError ''expected SYNC or ASYNC'' [])) (\<lambda>method.
      andThen (nextToken p) (\<lambda>p.
      let cmd = NewCommand ''parse_dataset'' in
      let cmd = set_param ''dataset_name'' (GStr datasetName) cmd in
      let cmd = set_param ''method'' (GStr method) cmd in
      andThen (optSemicolon p) (\<lambda>p.
      Inr (cmd, p))))))))"

definition parseAPIModelParse :: "Parser \<Rightarrow> gerror + CliCommand \<times> Parser" where
  "parseAPIModelParse p =
     (andThen (nextToken p) (\<lambda>p.
      andThen (parseQuotedString p) (\<lambda>modelNameOrID.
      andThen (nextToken p) (\<lambda>p.
      let cmd = NewCommand ''api_model_parse_file'' in
      andThen (
        if curT p = TokenFile then
          andThen (nextToken p) (\<lambda>p.
          let file = ([] :: string) in
          andThen (parseQuotedString p) (\<lambda>file.
          let cmd = set_param ''file'' (GStr file) cmd in
          andThen (nextToken p) (\<lambda>p.
          Inr (cmd, p))))
        else if curT p = TokenURL then
          andThen (nextToken p) (\<lambda>p.
          let url = ([] :: string) in
          andThen (parseQuotedString p) (\<lambda>url.
          let cmd = set_param ''url'' (GStr url) cmd in
          andThen (nextToken p) (\<lambda>p.
          Inr (cmd, p))))
        else Inl (PlainError ''expected FILE or URL'' [])) (\<lambda>(cmd, p).
      andThen (
        if IsCompositeModelName modelNameOrID then
          let cmd = set_param ''composite_model_name'' (GStr modelNameOrID) cmd in
          Inr cmd
        else if IsUUID modelNameOrID then
          let cmd = set_param ''model_id'' (GStr modelNameOrID) cmd in
          Inr cmd
        else Inl (PlainError ''invalid format of model name or ID: %s'' [modelNameOrID])) (\<lambda>cmd.
      andThen (optSemicolon p) (\<lambda>p.
      Inr (cmd, p))))))))"

definition parseAPIParseDocs :: "Parser \<Rightarrow> gerror + CliCommand \<times> Parser" where
  "parseAPIParseDocs p =
     (andThen (nextToken p) (\<lambda>p.
      andThen (parseQuotedString p) (\<lambda>documentsStr.
      andThen (nextToken p) (\<lambda>p.
      if curT p \<noteq> TokenFrom then Inl (PlainError ''expected FROM'' []) else
      andThen (nextToken p) (\<lambda>p.
      andThen (parseQuotedString p) (\<lambda>datasetID.
      andThen (nextToken p) (\<lambda>p.
      let cmd = NewCommand ''api_parse_documents'' in
      let documents = split_on (CHR '' '') documentsStr in
      let cmd = set_param ''documents'' (strings_val documents) cmd in
      let cmd = set_param ''dataset_id'' (GStr datasetID) cmd in
      andThen (optSemicolon p) (\<lambda>p.
      Inr (cmd, p)))))))))"

definition parseAPIParseLocalFile :: "Parser \<Rightarrow> gerror + CliCommand \<times> Parser" where
  "parseAPIParseLocalFile p =
     (andThen (nextToken p) (\<lambda>p.
      andThen (parseQuotedString p) (\<lambda>filename.
      andThen (nextToken p) (\<lambda>p.
      let cmd = NewCommand ''user_parse_local_file_command'' in
      let cmd = set_param ''filename'' (GStr filename) cmd in
      ploop (\<lambda>cmd p.
        if curT p = TokenVision then
          andThen (nextToken p) (\<lambda>p.
          let visionModel = ([] :: string) in
          andThen (parseQuotedString p) (\<lambda>visionModel.
          let cmd = set_param ''vision_model'' (GStr visionModel) cmd in
          andThen (nextToken p) (\<lambda>p.
          Inr (True, cmd, p))))
        else if curT p = TokenASR then
          andThen (nextToken p) (\<lambda>p.
          let asrModel = ([] :: string) in
          andThen (parseQuotedString p) (\<lambda>asrModel.
          let cmd = set_param ''asr_model'' (GStr asrModel) cmd in
          andThen (nextToken p) (\<lambda>p.
          Inr (True, cmd, p))))
        else if curT p = TokenOCR then
          andThen (nextToken p) (\<lambda>p.
          let ocrModel = ([] :: string) in
          andThen (parseQuotedString p) (\<lambda>ocrModel.
          let cmd = set_param ''ocr_model'' (GStr ocrModel) cmd in
          andThen (nextToken p) (\<lambda>p.
          Inr (True, cmd, p))))
        else if curT p = TokenChat then
          andThen (nextToken p) (\<lambda>p.
          let chatModel = ([] :: string) in
          andThen (parseQuotedString p) (\<lambda>chatModel.
          let cmd = set_param ''chat_model'' (GStr chatModel) cmd in
          andThen (nextToken p) (\<lambda>p.
          Inr (True, cmd, p))))
        else if curT p = TokenEmbed then
          andThen (nextToken p) (\<lambda>p.
          let embedModel = ([] :: string) in
          andThen (parseQuotedString p) (\<lambda>embedModel.
          let cmd = set_param ''embedding_model'' (GStr embedModel) cmd in
          andThen (nextToken p) (\<lambda>p.
          Inr (True, cmd, p))))
        else if curT p = TokenDocParse then
          andThen (nextToken p) (\<lambda>p.
          let docParseModel = ([] :: string) in
          andThen (parseQuotedString p) (\<lambda>docParseModel.
          let cmd = set_param ''doc_parse_model'' (GStr docParseModel) cmd in
          andThen (nextToken p) (\<lambda>p.
          Inr (True, cmd, p))))
        else if curT p = TokenSemicolon then
          andThen (nextToken p) (\<lambda>p.
          Inr (False, cmd, p))
        else Inr (False, cmd, p)) cmd p))))"

definition parseParseCommands :: "Parser \<Rightarrow> gerror + CliCommand \<times> Parser" where
  "parseParseCommands p =
     (andThen (nextToken p) (\<lambda>p.
      if curT p = TokenDataset then parseAPIParseDataset p
      else if curT p = TokenWith then parseAPIModelParse p
      else if curT p = TokenDocument then parseAPIParseDocs p
      else if curT p = TokenFile then parseAPIParseLocalFile p
      else Inl (PlainError ''expected DATASET, WITH, or DOCUMENT'' [])))"

definition parseUserStatement :: "Parser \<Rightarrow> gerror + CliCommand \<times> Parser" where
  "parseUserStatement p =
     (if curT p = TokenPing then parseAPIPingServer p
      else if curT p = TokenShow then parseAPIShowCommands p
      else if curT p = TokenList then parseAPIListCommands p
      else if curT p = TokenImport then parseAPIImport p
      else if curT p = TokenRetrieve then parseAPIRetrieve p
      else Inl (PlainError ''invalid user statement: %s'' [curV p]))"

definition parseBenchmarkCommand :: "Parser \<Rightarrow> gerror + CliCommand \<times> Parser" where
  "parseBenchmarkCommand p =
     (let cmd = NewCommand ''benchmark'' in
      andThen (nextToken p) (\<lambda>p.
      andThen (parseNumber p) (\<lambda>concurrency.
      let cmd = set_param ''concurrency'' (GInt (of_int concurrency)) cmd in
      andThen (nextToken p) (\<lambda>p.
      andThen (parseNumber p) (\<lambda>iterations.
      let cmd = set_param ''iterations'' (GInt (of_int iterations)) cmd in
      andThen (nextToken p) (\<lambda>p.
      andThen (parseUserStatement p) (\<lambda>(nestedCmd, p).
      let cmd = set_param ''command'' (command_val nestedCmd) cmd in
      Inr (cmd, p))))))))"

definition parseAPIEnable :: "Parser \<Rightarrow> gerror + CliCommand \<times> Parser" where
  "parseAPIEnable p =
     (andThen (nextToken p) (\<lambda>p.
      if curT p \<noteq> TokenModel then Inl (PlainError ''expected MODEL'' []) else
      andThen (nextToken p) (\<lambda>p.
      andThen (parseQuotedString p) (\<lambda>modelName.
      andThen (nextToken p) (\<lambda>p.
      if curT p \<noteq> TokenFrom then Inl (PlainError ''expected FROM'' []) else
      andThen (nextToken p) (\<lambda>p.
      andThen (parseQuotedString p) (\<lambda>modelProvider.
      andThen (nextToken p) (\<lambda>p.
      andThen (parseQuotedString p) (\<lambda>modelInstance.
      andThen (nextToken p) (\<lambda>p.
      andThen (optSemicolon p) (\<lambda>p.
      let cmd = NewCommand ''enable_model'' in
      let cmd = set_param ''model_name'' (GStr modelName) cmd in
      let cmd = set_param ''instance_name'' (GStr modelInstance) cmd in
      let cmd = set_param ''provider_name'' (GStr modelProvider) cmd in
      Inr (cmd, p))))))))))))"

definition parseAPIDisable :: "Parser \<Rightarrow> gerror + CliCommand \<times> Parser" where
  "parseAPIDisable p =
     (andThen (nextToken p) (\<lambda>p.
      if curT p \<noteq> TokenModel then Inl (PlainError ''expected MODEL'' []) else
      andThen (nextToken p) (\<lambda>p.
      andThen (parseQuotedString p) (\<lambda>modelName.
      andThen (nextToken p) (\<lambda>p.
      if curT p \<noteq> TokenFrom then Inl (PlainError ''expected FROM'' []) else
      andThen (nextToken p) (\<lambda>p.
      andThen (parseQuotedString p) (\<lambda>modelProvider.
      andThen (nextToken p) (\<lambda>p.
      andThen (parseQuotedString p) (\<lambda>modelInstance.
      andThen (nextToken p) (\<lambda>p.
      andThen (optSemicolon p) (\<lambda>p.
      let cmd = NewCommand ''disable_model'' in
      let cmd = set_param ''model_name'' (GStr modelName) cmd in
      let cmd = set_param ''instance_name'' (GStr modelInstance) cmd in
      let cmd = set_param ''provider_name'' (GStr modelProvider) cmd in
      Inr (cmd, p))))))))))))"

definition parseBool :: "Parser \<Rightarrow> gerror + bool \<times> Parser" where
  "parseBool p =
     (if ToLower (curV p) = ''true'' then
        andThen (nextToken p) (\<lambda>p.
        Inr (True, p))
      else if ToLower (curV p) = ''false'' then
        andThen (nextToken p) (\<lambda>p.
        Inr (False, p))
      else Inl (PlainError ''expected true or false, got %q'' [curV p]))"

definition parseChatCompletionsBody_option :: "string \<Rightarrow> CliCommand \<Rightarrow> Parser \<Rightarrow> gerror + CliCommand \<times> Parser" where
  "parseChatCompletionsBody_option name cmd p =
     (if name = ''chat_id'' \<or> name = ''session'' \<or> name = ''llm'' \<or> name = ''system'' then
        andThen (orError (\<lambda>err. PlainError ''CHAT COMPLETIONS %s: expected quoted string, got %s'' [name, curV p]) (parseQuotedString p)) (\<lambda>v.
        let cmd = set_param name (GStr v) cmd in
        andThen (nextToken p) (\<lambda>p.
        let cmd = markSet cmd name in
        Inr (cmd, p)))
      else if name = ''temperature'' \<or> name = ''top_p'' \<or> name = ''frequency_penalty'' \<or> name = ''presence_penalty'' then
        andThen (orError (\<lambda>err. PlainError ''CHAT COMPLETIONS %s: expected number, got %s'' [name, curV p]) (parseFloat p)) (\<lambda>v.
        let cmd = set_param name (GFloat v) cmd in
        andThen (nextToken p) (\<lambda>p.
        let cmd = markSet cmd name in
        Inr (cmd, p)))
      else if name = ''max_tokens'' then
        andThen (orError (\<lambda>err. PlainError ''CHAT COMPLETIONS max_tokens: expected integer, got %s'' [curV p]) (parseNumber p)) (\<lambda>v.
        let cmd = set_param ''max_tokens'' (GInt (of_int v)) cmd in
        andThen (nextToken p) (\<lambda>p.
        let cmd = markSet cmd ''max_tokens'' in
        Inr (cmd, p)))
      else if name = ''stream'' \<or> name = ''legacy'' then
        andThen (orError (\<lambda>err. unless_panic err (PlainError ''CHAT COMPLETIONS %s: expected true|false, got %s'' [name, curV p])) (parseBool p)) (\<lambda>(v, p).
        let cmd = set_param name (GBool v) cmd in
        let cmd = markSet cmd name in
        Inr (cmd, p))
      else if name = ''history'' then
        andThen (orError (\<lambda>err. PlainError ''CHAT COMPLETIONS history: expected quoted string, got %s'' [curV p]) (parseQuotedString p)) (\<lambda>raw.
        let cmd = set_param ''history_raw'' (GStr raw) cmd in
        andThen (nextToken p) (\<lambda>p.
        Inr (cmd, p)))
      else if name = ''history_delimiter'' then
        andThen (orError (\<lambda>err. PlainError ''CHAT COMPLETIONS history_delimiter: expected quoted string, got %s'' [curV p]) (parseQuotedString p)) (\<lambda>v.
        let cmd = set_param ''history_delimiter'' (GStr v) cmd in
        andThen (nextToken p) (\<lambda>p.
        Inr (cmd, p)))
      else
        Inl (PlainError ''CHAT COMPLETIONS: unknown option %q (valid: chat_id, session, llm, system, history, history_delimiter, temperature, max_tokens, stream, top_p, frequency_penalty, presence_penalty, legacy)'' [name]))"

definition parseChatCompletionsBody :: "Parser \<Rightarrow> gerror + CliCommand \<times> Parser" where
  "parseChatCompletionsBody p =
     (if curT p = TokenDash then
        let dashCount = (0 :: int) in
        andThen (ploop (\<lambda>dashCount p.
          if curT p = TokenDash then
            let dashCount = dashCount + 1 in
            andThen (nextToken p) (\<lambda>p.
            Inr (True, dashCount, p))
          else Inr (False, dashCount, p)) dashCount p) (\<lambda>(dashCount, p).
        if dashCount > 0 \<and> curT p = TokenIdentifier then
          if ToLower (curV p) = ''h'' \<or> ToLower (curV p) = ''help'' then Inr (NewCommand ''chat completions help'', p) else
          Inl (PlainError ''CHAT COMPLETIONS: only -h/--help takes no args; otherwise expected question'' [])
        else Inl (PlainError ''CHAT COMPLETIONS: only -h/--help takes no args; otherwise expected question'' []))
      else
        let cmd = NewCommand ''chat completions'' in
        let cmd = set_param ''chat_id'' (GStr []) cmd in
        let cmd = set_param ''temperature'' (GFloat (f64_round 0)) cmd in
        let cmd = set_param ''max_tokens'' (GInt (of_int 0)) cmd in
        let cmd = set_param ''stream'' (GBool False) cmd in
        let cmd = set_param ''_set'' ((GBoolMap [])) cmd in
        andThen (orError (\<lambda>err. WrapError ''CHAT COMPLETIONS: expected question: %w'' [] err) (parseQuotedString p)) (\<lambda>question.
        let cmd = set_param ''question'' (GStr question) cmd in
        andThen (nextToken p) (\<lambda>p.
        ploop (\<lambda>cmd p.
          if curT p = TokenSemicolon then
            andThen (nextToken p) (\<lambda>p.
            Inr (False, cmd, p))
          else if curT p = TokenEOF then Inr (False, cmd, p)
          else if curT p = TokenIdentifier \<or> curT p = TokenQuotedString then
            let name = curV p in
            let name = (if curT p = TokenQuotedString then Trim ([CHR 0x27, CHR 0x22]) name else name) in
            andThen (nextToken p) (\<lambda>p.
            andThen (parseChatCompletionsBody_option name cmd p) (\<lambda>(cmd, p).
            Inr (True, cmd, p)))
          else
            if \<not> isKeyword (curT p) then
              Inl (PlainError ''CHAT COMPLETIONS: unexpected token %q in option list (valid options: chat_id, session, llm, system, history, history_delimiter, temperature, max_tokens, stream, top_p, frequency_penalty, presence_penalty, legacy)'' [curV p])
            else
              let name = curV p in
              andThen (nextToken p) (\<lambda>p.
              andThen (parseChatCompletionsBody_option name cmd p) (\<lambda>(cmd, p).
              Inr (True, cmd, p)))) cmd p)))"

definition parseAPIChat :: "Parser \<Rightarrow> gerror + CliCommand \<times> Parser" where
  "parseAPIChat p =
     (andThen (nextToken p) (\<lambda>p.
      if curT p = TokenIdentifier \<and> (EqualFold (curV p) ''completion'' \<or> EqualFold (curV p) ''completions'') then
        andThen (nextToken p) (\<lambda>p.
        parseChatCompletionsBody p)
      else
        let modelNameOrID = ([] :: string) in
        let messages = ([] :: string list) in
        let images = ([] :: string list) in
        let videos = ([] :: string list) in
        let audios = ([] :: string list) in
        let files = ([] :: string list) in
        let effort = ''default'' in
        let verbosity = ''low'' in
        andThen (ploop (\<lambda>(audios, effort, files, images, messages, modelNameOrID, verbosity, videos) p.
          if curT p = TokenWith then
            andThen (nextToken p) (\<lambda>p.
            if modelNameOrID \<noteq> [] then Inl (PlainError ''model name or ID is already set'' []) else
            andThen (parseQuotedString p) (\<lambda>modelNameOrID.
            andThen (nextToken p) (\<lambda>p.
            Inr (True, (audios, effort, files, images, messages, modelNameOrID, verbosity, videos), p))))
          else if curT p = TokenMessage then
            andThen (nextToken p) (\<lambda>p.
            if int (length messages) \<noteq> 0 then Inl (PlainError ''message is already set'' []) else
            andThen (ploop (\<lambda>messages p.
              if curT p \<noteq> TokenQuotedString then Inr (False, messages, p) else
              let message = ([] :: string) in
              andThen (parseQuotedString p) (\<lambda>message.
              let message = TrimSpace message in
              let messages = messages @ [message] in
              andThen (nextToken p) (\<lambda>p.
              Inr (True, messages, p)))) messages p) (\<lambda>(messages, p).
            Inr (True, (audios, effort, files, images, messages, modelNameOrID, verbosity, videos), p)))
          else if curT p = TokenImage then
            andThen (nextToken p) (\<lambda>p.
            if int (length images) \<noteq> 0 then Inl (PlainError ''image is already set'' []) else
            andThen (ploop (\<lambda>images p.
              if curT p \<noteq> TokenQuotedString then Inr (False, images, p) else
              let image = ([] :: string) in
              andThen (parseQuotedString p) (\<lambda>image.
              let images = images @ [image] in
              andThen (nextToken p) (\<lambda>p.
              Inr (True, images, p)))) images p) (\<lambda>(images, p).
            Inr (True, (audios, effort, files, images, messages, modelNameOrID, verbosity, videos), p)))
          else if curT p = TokenVideo then
            andThen (nextToken p) (\<lambda>p.
            if int (length videos) \<noteq> 0 then Inl (PlainError ''video is already set'' []) else
            andThen (ploop (\<lambda>videos p.
              if curT p \<noteq> TokenQuotedString then Inr (False, videos, p) else
              let video = ([] :: string) in
              andThen (parseQuotedString p) (\<lambda>video.
              let videos = videos @ [video] in
              andThen (nextToken p) (\<lambda>p.
              Inr (True, videos, p)))) videos p) (\<lambda>(videos, p).
            Inr (True, (audios, effort, files, images, messages, modelNameOrID, verbosity, videos), p)))
          else if curT p = TokenAudio then
            andThen (nextToken p) (\<lambda>p.
            if int (length audios) \<noteq> 0 then Inl (PlainError ''video is already set'' []) else
            andThen (ploop (\<lambda>audios p.
              if curT p \<noteq> TokenQuotedString then Inr (False, audios, p) else
              let audio = ([] :: string) in
              andThen (parseQuotedString p) (\<lambda>audio.
              let audios = audios @ [audio] in
              andThen (nextToken p) (\<lambda>p.
              Inr (True, audios, p)))) audios p) (\<lambda>(audios, p).
            Inr (True, (audios, effort, files, images, messages, modelNameOrID, verbosity, videos), p)))
          else if curT p = TokenFile then
            andThen (nextToken p) (\<lambda>p.
            if int (length files) \<noteq> 0 then Inl (PlainError ''video is already set'' []) else
            andThen (ploop (\<lambda>files p.
              if curT p \<noteq> TokenQuotedString then Inr (False, files, p) else
              let file = ([] :: string) in
              andThen (parseQuotedString p) (\<lambda>file.
              let files = files @ [file] in
              andThen (nextToken p) (\<lambda>p.
              Inr (True, files, p)))) files p) (\<lambda>(files, p).
            Inr (True, (audios, effort, files, images, messages, modelNameOrID, verbosity, videos), p)))
          else if curT p = TokenEffort then
            andThen (nextToken p) (\<lambda>p.
            andThen (
              if curT p = TokenNone then
                let effort = ''none'' in
                Inr effort
              else if curT p = TokenMinimal then
                let effort = ''minimal'' in
                Inr effort
              else if curT p = TokenLow then
                let effort = ''low'' in
                Inr effort
              else if curT p = TokenMedium then
                let effort = ''medium'' in
                Inr effort
              else if curT p = TokenHigh then
                let effort = ''high'' in
                Inr effort
              else if curT p = TokenMax then
                let effort = ''max'' in
                Inr effort
              else Inl (PlainError ''invalid effort level'' [])) (\<lambda>effort.
            andThen (nextToken p) (\<lambda>p.
            Inr (False, (audios, effort, files, images, messages, modelNameOrID, verbosity, videos), p))))
          else if curT p = TokenVerbosity then
            andThen (nextToken p) (\<lambda>p.
            andThen (
              if curT p = TokenLow then
                let verbosity = ''low'' in
                Inr verbosity
              else if curT p = TokenMedium then
                let verbosity = ''median'' in
                Inr verbosity
              else if curT p = TokenHigh then
                let verbosity = ''high'' in
                Inr verbosity
              else Inl (PlainError ''invalid verbosity level'' [])) (\<lambda>verbosity.
            andThen (nextToken p) (\<lambda>p.
            Inr (False, (audios, effort, files, images, messages, modelNameOrID, verbosity, videos), p))))
          else if curT p = TokenSemicolon then
            andThen (nextToken p) (\<lambda>p.
            Inr (False, (audios, effort, files, images, messages, modelNameOrID, verbosity, videos), p))
          else Inr (False, (audios, effort, files, images, messages, modelNameOrID, verbosity, videos), p)) (audios, effort, files, images, messages, modelNameOrID, verbosity, videos) p) (\<lambda>((audios, effort, files, images, messages, modelNameOrID, verbosity, videos), p).
        let cmd = NewCommand ''api_chat_to_model'' in
        andThen (
          if modelNameOrID \<noteq> [] then
            if IsCompositeModelName modelNameOrID then
              let cmd = set_param ''composite_model_name'' (GStr modelNameOrID) cmd in
              Inr cmd
            else if IsUUID modelNameOrID then
              let cmd = set_param ''model_id'' (GStr modelNameOrID) cmd in
              Inr cmd
            else Inl (PlainError ''invalid format of model name or ID: %s'' [modelNameOrID])
          else Inr cmd) (\<lambda>cmd.
        let cmd = set_param ''messages'' (strings_val messages) cmd in
        let cmd = set_param ''images'' (strings_val images) cmd in
        let cmd = set_param ''videos'' (strings_val videos) cmd in
        let cmd = set_param ''audios'' (strings_val audios) cmd in
        let cmd = set_param ''files'' (strings_val files) cmd in
        let cmd = set_param ''thinking'' (GBool False) cmd in
        let cmd = set_param ''stream'' (GBool False) cmd in
        let cmd = set_param ''effort'' (GStr effort) cmd in
        let cmd = set_param ''verbosity'' (GStr verbosity) cmd in
        Inr (cmd, p)))))"

definition parseAPIThink :: "Parser \<Rightarrow> gerror + CliCommand \<times> Parser" where
  "parseAPIThink p =
     (andThen (nextToken p) (\<lambda>p.
      if curT p \<noteq> TokenChat then Inl (PlainError ''expected CHAT after THINK'' []) else
      andThen (parseAPIChat p) (\<lambda>(command, p).
      let command = set_param ''thinking'' (GBool True) command in
      Inr (command, p))))"

definition parseAPIASR :: "Parser \<Rightarrow> gerror + CliCommand \<times> Parser" where
  "parseAPIASR p =
     (andThen (nextToken p) (\<lambda>p.
      if curT p \<noteq> TokenWith then Inl (PlainError ''expected WITH after ASR'' []) else
      andThen (nextToken p) (\<lambda>p.
      andThen (parseQuotedString p) (\<lambda>modelNameOrID.
      andThen (nextToken p) (\<lambda>p.
      if curT p \<noteq> TokenAudio then Inl (PlainError ''expected AUDIO to ASR'' []) else
      andThen (nextToken p) (\<lambda>p.
      andThen (parseQuotedString p) (\<lambda>audioFile.
      andThen (nextToken p) (\<lambda>p.
      let cmd = NewCommand ''asr_user_command'' in
      andThen (
        if IsCompositeModelName modelNameOrID then
          let cmd = set_param ''composite_model_name'' (GStr modelNameOrID) cmd in
          Inr cmd
        else if IsUUID modelNameOrID then
          let cmd = set_param ''model_id'' (GStr modelNameOrID) cmd in
          Inr cmd
        else Inl (PlainError ''invalid format of model name or ID: %s'' [modelNameOrID])) (\<lambda>cmd.
      let cmd = set_param ''audio_file'' (GStr audioFile) cmd in
      andThen (ploop (\<lambda>cmd p.
        if curT p \<noteq> TokenEOF \<and> curT p \<noteq> TokenSemicolon then
          if curT p = TokenParam then
            andThen (nextToken p) (\<lambda>p.
            if curT p \<noteq> TokenQuotedString then Inl (PlainError (''expect quoted string after '' @ [CHR 0x27] @ ''param'' @ [CHR 0x27]) []) else
            let cmd = set_param ''param_str'' (GStr (Trim ([CHR 0x22, CHR 0x27]) (curV p))) cmd in
            andThen (nextToken p) (\<lambda>p.
            Inr (True, cmd, p)))
          else Inl (PlainError ''unexpected token in asr command: %s'' [curV p])
        else Inr (False, cmd, p)) cmd p) (\<lambda>(cmd, p).
      andThen (optSemicolon p) (\<lambda>p.
      Inr (cmd, p))))))))))))"

definition parseAPITTS :: "Parser \<Rightarrow> gerror + CliCommand \<times> Parser" where
  "parseAPITTS p =
     (andThen (nextToken p) (\<lambda>p.
      let cmd = NewCommand ''tts_user_command'' in
      if curT p \<noteq> TokenWith then Inl (PlainError ''expect 'with' after tts'' []) else
      andThen (nextToken p) (\<lambda>p.
      if curT p \<noteq> TokenQuotedString \<and> curT p \<noteq> TokenIdentifier then
        Inl (PlainError (''expect model name after '' @ [CHR 0x27] @ ''with'' @ [CHR 0x27]) [])
      else
        let modelNameOrID = Trim ([CHR 0x22, CHR 0x27]) (curV p) in
        andThen (nextToken p) (\<lambda>p.
        andThen (
          if IsCompositeModelName modelNameOrID then
            let cmd = set_param ''composite_model_name'' (GStr modelNameOrID) cmd in
            Inr cmd
          else if IsUUID modelNameOrID then
            let cmd = set_param ''model_id'' (GStr modelNameOrID) cmd in
            Inr cmd
          else Inl (PlainError ''invalid format of model name or ID: %s'' [modelNameOrID])) (\<lambda>cmd.
        if curT p \<noteq> TokenText then Inl (PlainError ''expect 'text' parameter'' []) else
        andThen (nextToken p) (\<lambda>p.
        if curT p \<noteq> TokenQuotedString then Inl (PlainError (''expect quoted string after '' @ [CHR 0x27] @ ''text'' @ [CHR 0x27]) []) else
        let cmd = set_param ''text'' (GStr (Trim ([CHR 0x22, CHR 0x27]) (curV p))) cmd in
        andThen (nextToken p) (\<lambda>p.
        andThen (ploop (\<lambda>cmd p.
          if curT p \<noteq> TokenEOF \<and> curT p \<noteq> TokenSemicolon then
            andThen (
              if curT p = TokenPlay then
                andThen (nextToken p) (\<lambda>p.
                let cmd = set_param ''play'' (GBool True) cmd in
                Inr (cmd, p))
              else if curT p = TokenParam then
                andThen (nextToken p) (\<lambda>p.
                if curT p \<noteq> TokenQuotedString then Inl (PlainError (''expect quoted string after '' @ [CHR 0x27] @ ''param'' @ [CHR 0x27]) []) else
                let cmd = set_param ''param_str'' (GStr (Trim ([CHR 0x22, CHR 0x27]) (curV p))) cmd in
                andThen (nextToken p) (\<lambda>p.
                andThen (nextToken p) (\<lambda>p.
                Inr (cmd, p))))
              else if curT p = TokenSave then
                andThen (nextToken p) (\<lambda>p.
                if curT p \<noteq> TokenQuotedString \<and> curT p \<noteq> TokenIdentifier then
                  Inl (PlainError (''expect directory path after '' @ [CHR 0x27] @ ''save'' @ [CHR 0x27]) [])
                else
                  let cmd = set_param ''save'' (GBool True) cmd in
                  let cmd = set_param ''save_path'' (GStr (Trim ([CHR 0x22, CHR 0x27]) (curV p))) cmd in
                  andThen (nextToken p) (\<lambda>p.
                  Inr (cmd, p)))
              else if curT p = TokenFormat then
                andThen (nextToken p) (\<lambda>p.
                if curT p \<noteq> TokenQuotedString \<and> curT p \<noteq> TokenIdentifier then
                  Inl (PlainError (''expect format string (e.g. '' @ [CHR 0x27] @ ''wav'' @ [CHR 0x27] @ '') after '' @ [CHR 0x27] @ ''format'' @ [CHR 0x27]) [])
                else
                  let cmd = set_param ''format'' (GStr (Trim ([CHR 0x22, CHR 0x27]) (curV p))) cmd in
                  andThen (nextToken p) (\<lambda>p.
                  Inr (cmd, p)))
              else Inl (PlainError ''unexpected token: %s'' [curV p])) (\<lambda>(cmd, p).
            Inr (True, cmd, p))
          else Inr (False, cmd, p)) cmd p) (\<lambda>(cmd, p).
        andThen (optSemicolon p) (\<lambda>p.
        Inr (cmd, p))))))))))"

definition parseAPIStream :: "Parser \<Rightarrow> gerror + CliCommand \<times> Parser" where
  "parseAPIStream p =
     (andThen (nextToken p) (\<lambda>p.
      andThen (
        if curT p = TokenChat then parseAPIChat p
        else if curT p = TokenThink then parseAPIThink p
        else if curT p = TokenASR then parseAPIASR p
        else if curT p = TokenTTS then parseAPITTS p
        else Inl (PlainError ''expected CHAT, THINK, ASR, or TTS after STREAM'' [])) (\<lambda>(command, p).
      let command = set_param ''stream'' (GBool True) command in
      Inr (command, p))))"

definition parseAPIEmbed :: "Parser \<Rightarrow> gerror + CliCommand \<times> Parser" where
  "parseAPIEmbed p =
     (andThen (nextToken p) (\<lambda>p.
      if curT p \<noteq> TokenText then Inl (PlainError ''expected WITH after EMBED'' []) else
      andThen (nextToken p) (\<lambda>p.
      let texts = ([] :: string list) in
      andThen (ploop (\<lambda>texts p.
        if curT p \<noteq> TokenQuotedString then Inr (False, texts, p) else
        andThen (parseQuotedString p) (\<lambda>text.
        let text = TrimSpace text in
        let texts = texts @ [text] in
        andThen (nextToken p) (\<lambda>p.
        Inr (True, texts, p)))) texts p) (\<lambda>(texts, p).
      if curT p \<noteq> TokenWith then Inl (PlainError ''expected WITH after EMBED'' []) else
      andThen (nextToken p) (\<lambda>p.
      andThen (parseQuotedString p) (\<lambda>modelNameOrID.
      andThen (nextToken p) (\<lambda>p.
      let dimension = (0 :: int) in
      andThen (
        if curT p = TokenDimension then
          andThen (nextToken p) (\<lambda>p.
          if curT p \<noteq> TokenInteger then Inl (PlainError ''expected integer after DIMENSION'' []) else
          andThen (parseNumber p) (\<lambda>dimension.
          andThen (nextToken p) (\<lambda>p.
          Inr (dimension, p))))
        else Inr (dimension, p)) (\<lambda>(dimension, p).
      andThen (optSemicolon p) (\<lambda>p.
      if curT p \<noteq> TokenEOF then Inl (PlainError ''unexpected token after embed command: %s'' [curV p]) else
      let cmd = NewCommand ''api_embed_user_text'' in
      andThen (
        if IsCompositeModelName modelNameOrID then
          let cmd = set_param ''composite_model_name'' (GStr modelNameOrID) cmd in
          Inr cmd
        else if IsUUID modelNameOrID then
          let cmd = set_param ''model_id'' (GStr modelNameOrID) cmd in
          Inr cmd
        else Inl (PlainError ''invalid format of model name or ID: %s'' [modelNameOrID])) (\<lambda>cmd.
      let cmd = set_param ''texts'' (strings_val texts) cmd in
      let cmd = (if dimension > 0 then set_param ''dimension'' (GInt (of_int dimension)) cmd else cmd) in
      Inr (cmd, p)))))))))))"

definition parseAPIRerank :: "Parser \<Rightarrow> gerror + CliCommand \<times> Parser" where
  "parseAPIRerank p =
     (andThen (nextToken p) (\<lambda>p.
      if curT p \<noteq> TokenQuery then Inl (PlainError ''expected WITH after EMBED'' []) else
      andThen (nextToken p) (\<lambda>p.
      andThen (parseQuotedString p) (\<lambda>query.
      let query = TrimSpace query in
      andThen (nextToken p) (\<lambda>p.
      if curT p \<noteq> TokenDocument then Inl (PlainError ''expected DOCUMENT after query'' []) else
      andThen (nextToken p) (\<lambda>p.
      let documents = ([] :: string list) in
      andThen (ploop (\<lambda>documents p.
        if curT p \<noteq> TokenQuotedString then Inr (False, documents, p) else
        let document = ([] :: string) in
        andThen (parseQuotedString p) (\<lambda>document.
        let document = TrimSpace document in
        let documents = documents @ [document] in
        andThen (nextToken p) (\<lambda>p.
        Inr (True, documents, p)))) documents p) (\<lambda>(documents, p).
      if curT p \<noteq> TokenWith then Inl (PlainError ''expected WITH after EMBED'' []) else
      andThen (nextToken p) (\<lambda>p.
      andThen (parseQuotedString p) (\<lambda>modelNameOrID.
      andThen (nextToken p) (\<lambda>p.
      if curT p \<noteq> TokenTop then Inl (PlainError ''expected TOP after model'' []) else
      andThen (nextToken p) (\<lambda>p.
      andThen (parseNumber p) (\<lambda>topN.
      andThen (nextToken p) (\<lambda>p.
      let cmd = NewCommand ''api_rarank_user_document'' in
      andThen (
        if IsCompositeModelName modelNameOrID then
          let cmd = set_param ''composite_model_name'' (GStr modelNameOrID) cmd in
          Inr cmd
        else if IsUUID modelNameOrID then
          let cmd = set_param ''model_id'' (GStr modelNameOrID) cmd in
          Inr cmd
        else Inl (PlainError ''invalid format of model name or ID: %s'' [modelNameOrID])) (\<lambda>cmd.
      let cmd = set_param ''query'' (GStr query) cmd in
      let cmd = set_param ''documents'' (strings_val documents) cmd in
      let cmd = set_param ''top_n'' (GInt (of_int topN)) cmd in
      Inr (cmd, p)))))))))))))))"

definition parseAPIOCR :: "Parser \<Rightarrow> gerror + CliCommand \<times> Parser" where
  "parseAPIOCR p =
     (andThen (nextToken p) (\<lambda>p.
      if curT p \<noteq> TokenWith then Inl (PlainError ''expected WITH after OCR'' []) else
      andThen (nextToken p) (\<lambda>p.
      andThen (parseQuotedString p) (\<lambda>modelNameOrID.
      andThen (nextToken p) (\<lambda>p.
      let cmd = NewCommand ''ocr_user_command'' in
      andThen (
        if curT p = TokenFile then
          andThen (nextToken p) (\<lambda>p.
          let file = ([] :: string) in
          andThen (parseQuotedString p) (\<lambda>file.
          let cmd = set_param ''file'' (GStr file) cmd in
          andThen (nextToken p) (\<lambda>p.
          Inr (cmd, p))))
        else if curT p = TokenURL then
          andThen (nextToken p) (\<lambda>p.
          let url = ([] :: string) in
          andThen (parseQuotedString p) (\<lambda>url.
          let cmd = set_param ''url'' (GStr url) cmd in
          andThen (nextToken p) (\<lambda>p.
          Inr (cmd, p))))
        else Inl (PlainError ''expected FILE or URL'' [])) (\<lambda>(cmd, p).
      andThen (
        if IsCompositeModelName modelNameOrID then
          let cmd = set_param ''composite_model_name'' (GStr modelNameOrID) cmd in
          Inr cmd
        else if IsUUID modelNameOrID then
          let cmd = set_param ''model_id'' (GStr modelNameOrID) cmd in
          Inr cmd
        else Inl (PlainError ''invalid format of model name or ID: %s'' [modelNameOrID])) (\<lambda>cmd.
      andThen (optSemicolon p) (\<lambda>p.
      Inr (cmd, p)))))))))"

definition parseCheckInstanceCommand :: "Parser \<Rightarrow> gerror + CliCommand \<times> Parser" where
  "parseCheckInstanceCommand p =
     (if curT p \<noteq> TokenInstance then Inl (PlainError ''expected INSTANCE after CHECK'' []) else
      andThen (nextToken p) (\<lambda>p.
      if curT p \<noteq> TokenQuotedString then Inl (PlainError ''expected instance name after INSTANCE'' []) else
      let instanceName = curV p in
      andThen (nextToken p) (\<lambda>p.
      if curT p \<noteq> TokenFrom then Inl (PlainError ''expected FROM after instance name'' []) else
      andThen (nextToken p) (\<lambda>p.
      if curT p \<noteq> TokenQuotedString then Inl (PlainError ''expected provider name after FROM'' []) else
      let providerName = curV p in
      andThen (nextToken p) (\<lambda>p.
      andThen (optSemicolon p) (\<lambda>p.
      let cmd = NewCommand ''check_provider_connection'' in
      let cmd = set_param ''provider_name'' (GStr providerName) cmd in
      let cmd = set_param ''instance_name'' (GStr instanceName) cmd in
      Inr (cmd, p)))))))"

definition parseCheckProviderByKeyCommand :: "Parser \<Rightarrow> gerror + CliCommand \<times> Parser" where
  "parseCheckProviderByKeyCommand p =
     (if curT p \<noteq> TokenProvider then Inl (PlainError ''expected PROVIDER after CHECK'' []) else
      andThen (nextToken p) (\<lambda>p.
      if curT p \<noteq> TokenQuotedString then Inl (PlainError ''expected provider name after PROVIDER'' []) else
      let providerName = curV p in
      andThen (nextToken p) (\<lambda>p.
      if curT p \<noteq> TokenRegion then Inl (PlainError ''expected REGION after provider name'' []) else
      andThen (nextToken p) (\<lambda>p.
      if curT p \<noteq> TokenQuotedString then Inl (PlainError ''expected region name after REGION'' []) else
      let regionName = curV p in
      andThen (nextToken p) (\<lambda>p.
      if curT p \<noteq> TokenKey then Inl (PlainError ''expected KEY after region name'' []) else
      andThen (nextToken p) (\<lambda>p.
      if curT p \<noteq> TokenQuotedString then Inl (PlainError ''expected API key after KEY'' []) else
      let apiKey = curV p in
      andThen (nextToken p) (\<lambda>p.
      let baseURL = ([] :: string) in
      andThen (
        if curT p = TokenURL then
          andThen (nextToken p) (\<lambda>p.
          if curT p \<noteq> TokenQuotedString then Inl (PlainError ''expected base URL after URL'' []) else
          let baseURL = curV p in
          andThen (nextToken p) (\<lambda>p.
          Inr (baseURL, p)))
        else Inr (baseURL, p)) (\<lambda>(baseURL, p).
      andThen (optSemicolon p) (\<lambda>p.
      if curT p \<noteq> TokenEOF then Inl (PlainError ''unexpected token: %s'' [curV p]) else
      let cmd = NewCommand ''check_provider_with_key'' in
      let cmd = set_param ''provider_name'' (GStr providerName) cmd in
      let cmd = set_param ''region'' (GStr regionName) cmd in
      let cmd = set_param ''api_key'' (GStr apiKey) cmd in
      let cmd = (if baseURL \<noteq> [] then set_param ''base_url'' (GStr baseURL) cmd else cmd) in
      Inr (cmd, p))))))))))"

definition parseAPICheck :: "Parser \<Rightarrow> gerror + CliCommand \<times> Parser" where
  "parseAPICheck p =
     (andThen (nextToken p) (\<lambda>p.
      if curT p = TokenInstance then parseCheckInstanceCommand p
      else if curT p = TokenProvider then parseCheckProviderByKeyCommand p
      else Inl (PlainError ''expected INSTANCE or PROVIDER after CHECK'' [])))"

definition parseUserStartIngestion :: "Parser \<Rightarrow> gerror + CliCommand \<times> Parser" where
  "parseUserStartIngestion p =
     (andThen (nextToken p) (\<lambda>p.
      if curT p \<noteq> TokenIngestion then Inl (PlainError ''expect INGESTION'' []) else
      andThen (nextToken p) (\<lambda>p.
      andThen (parseQuotedString p) (\<lambda>documentID.
      andThen (nextToken p) (\<lambda>p.
      if curT p \<noteq> TokenFrom then Inl (PlainError ''expect FROM'' []) else
      andThen (nextToken p) (\<lambda>p.
      andThen (parseQuotedString p) (\<lambda>datasetID.
      let cmd = NewCommand ''api_start_ingestion'' in
      let cmd = set_param ''document_id'' (GStr documentID) cmd in
      let cmd = set_param ''dataset_id'' (GStr datasetID) cmd in
      andThen (nextToken p) (\<lambda>p.
      andThen (optSemicolon p) (\<lambda>p.
      Inr (cmd, p))))))))))"

definition parseUserStopIngestion :: "Parser \<Rightarrow> gerror + CliCommand \<times> Parser" where
  "parseUserStopIngestion p =
     (andThen (nextToken p) (\<lambda>p.
      if curT p \<noteq> TokenIngestion then Inl (PlainError ''expect INGESTION'' []) else
      andThen (nextToken p) (\<lambda>p.
      if curT p \<noteq> TokenTasks then Inl (PlainError ''expect TASKS'' []) else
      andThen (nextToken p) (\<lambda>p.
      andThen (parseQuotedString p) (\<lambda>taskStr.
      let tasks = split_on (CHR '' '') taskStr in
      let cmd = NewCommand ''api_stop_ingestion'' in
      let cmd = set_param ''tasks'' (strings_val tasks) cmd in
      andThen (nextToken p) (\<lambda>p.
      andThen (optSemicolon p) (\<lambda>p.
      Inr (cmd, p))))))))"

definition parseAPISaveConfig :: "Parser \<Rightarrow> gerror + CliCommand \<times> Parser" where
  "parseAPISaveConfig p =
     (andThen (nextToken p) (\<lambda>p.
      if curT p \<noteq> TokenAs then Inl (PlainError ''expected AS after CONFIG'' []) else
      andThen (nextToken p) (\<lambda>p.
      andThen (parseQuotedString p) (\<lambda>path.
      let cmd = NewCommand ''api_save_config_command'' in
      let cmd = set_param ''path'' (GStr path) cmd in
      andThen (optSemicolon p) (\<lambda>p.
      Inr (cmd, p))))))"

definition parseAPISave :: "Parser \<Rightarrow> gerror + CliCommand \<times> Parser" where
  "parseAPISave p =
     (andThen (nextToken p) (\<lambda>p.
      if curT p = TokenConfig then parseAPISaveConfig p else Inl (PlainError ''unknown ADD target: %s'' [curV p])))"

definition parseAPIUseModel :: "Parser \<Rightarrow> gerror + CliCommand \<times> Parser" where
  "parseAPIUseModel p =
     (andThen (nextToken p) (\<lambda>p.
      andThen (orError (\<lambda>err. WrapError ''expected model identifier in format 'model@instance@provider': %w'' [] err) (parseQuotedString p)) (\<lambda>modelNameOrID.
      andThen (nextToken p) (\<lambda>p.
      andThen (optSemicolon p) (\<lambda>p.
      let cmd = NewCommand ''api_use_model'' in
      andThen (
        if IsCompositeModelName modelNameOrID then
          let cmd = set_param ''composite_model_name'' (GStr modelNameOrID) cmd in
          Inr cmd
        else if IsUUID modelNameOrID then
          let cmd = set_param ''model_id'' (GStr modelNameOrID) cmd in
          Inr cmd
        else Inl (PlainError ''invalid format of model name or ID: %s'' [modelNameOrID])) (\<lambda>cmd.
      Inr (cmd, p)))))))"

definition parseAPIUseAPIServer :: "Parser \<Rightarrow> gerror + CliCommand \<times> Parser" where
  "parseAPIUseAPIServer p =
     (andThen (nextToken p) (\<lambda>p.
      andThen (parseQuotedString p) (\<lambda>serverName.
      andThen (nextToken p) (\<lambda>p.
      let cmd = NewCommand ''api_use_api_server'' in
      let cmd = set_param ''server_name'' (GStr serverName) cmd in
      andThen (optSemicolon p) (\<lambda>p.
      Inr (cmd, p))))))"

definition parseAPIUseAdminServer :: "Parser \<Rightarrow> gerror + CliCommand \<times> Parser" where
  "parseAPIUseAdminServer p =
     (andThen (nextToken p) (\<lambda>p.
      let cmd = NewCommand ''api_use_admin_server'' in
      andThen (optSemicolon p) (\<lambda>p.
      Inr (cmd, p))))"

definition parseAPIUseCommands :: "Parser \<Rightarrow> gerror + CliCommand \<times> Parser" where
  "parseAPIUseCommands p =
     (andThen (nextToken p) (\<lambda>p.
      if curT p = TokenModel then parseAPIUseModel p
      else if curT p = TokenAPI then parseAPIUseAPIServer p
      else if curT p = TokenAdmin then parseAPIUseAdminServer p
      else Inl (PlainError ''expected MODEL or SKILL after USE'' [])))"

definition parseAPIRemoveTask :: "Parser \<Rightarrow> gerror + CliCommand \<times> Parser" where
  "parseAPIRemoveTask p =
     (andThen (nextToken p) (\<lambda>p.
      if curT p \<noteq> TokenTasks then Inl (PlainError ''expected TASKS'' []) else
      andThen (nextToken p) (\<lambda>p.
      andThen (parseQuotedString p) (\<lambda>taskStr.
      let cmd = NewCommand ''api_remove_task'' in
      let tasks = split_on (CHR '' '') taskStr in
      let cmd = set_param ''tasks'' (strings_val tasks) cmd in
      andThen (optSemicolon p) (\<lambda>p.
      Inr (cmd, p))))))"

definition parseAPIRemove :: "Parser \<Rightarrow> gerror + CliCommand \<times> Parser" where
  "parseAPIRemove p =
     (andThen (nextToken p) (\<lambda>p.
      if curT p = TokenIngestion then parseAPIRemoveTask p
      else if curT p = TokenChunks \<or> curT p = TokenAll then parseDevRemoveChunk p
      else Inl (PlainError ''unknown REMOVE target: %s'' [curV p])))"

definition parseOpenaiChat_option :: "(string \<Rightarrow> bool) \<Rightarrow> string \<Rightarrow> CliCommand \<Rightarrow> Parser \<Rightarrow> gerror + CliCommand \<times> Parser" where
  "parseOpenaiChat_option json_ok name cmd p =
     (if name = ''model'' \<or> name = ''system'' then
        andThen (orError (\<lambda>err. PlainError ''OPENAI_CHAT %s: expected quoted string, got %s'' [name, curV p]) (parseQuotedString p)) (\<lambda>v.
        let cmd = set_param name (GStr v) cmd in
        andThen (nextToken p) (\<lambda>p.
        Inr (cmd, p)))
      else if name = ''temperature'' \<or> name = ''top_p'' \<or> name = ''frequency_penalty'' \<or> name = ''presence_penalty'' then
        andThen (orError (\<lambda>err. PlainError ''OPENAI_CHAT %s: expected number, got %s'' [name, curV p]) (parseFloat p)) (\<lambda>v.
        let cmd = set_param name (GFloat v) cmd in
        andThen (nextToken p) (\<lambda>p.
        Inr (cmd, p)))
      else if name = ''max_tokens'' then
        andThen (orError (\<lambda>err. PlainError ''OPENAI_CHAT max_tokens: expected integer, got %s'' [curV p]) (parseNumber p)) (\<lambda>v.
        let cmd = set_param ''max_tokens'' (GInt (of_int v)) cmd in
        andThen (nextToken p) (\<lambda>p.
        Inr (cmd, p)))
      else if name = ''stream'' then
        andThen (orError (\<lambda>err. unless_panic err (PlainError ''OPENAI_CHAT %s: expected true|false, got %s'' [name, curV p])) (parseBool p)) (\<lambda>(v, p).
        let cmd = set_param name (GBool v) cmd in
        Inr (cmd, p))
      else if name = ''extra_body'' then
        andThen (orError (\<lambda>err. WrapError ''OPENAI_CHAT %s: %w'' [name] err) (parseJSONLiteral json_ok p)) (\<lambda>raw.
        let cmd = set_param name (GStr raw) cmd in
        andThen (nextToken p) (\<lambda>p.
        Inr (cmd, p)))
      else if name = ''history'' then
        andThen (orError (\<lambda>err. PlainError ''OPENAI_CHAT history: expected quoted string, got %s'' [curV p]) (parseQuotedString p)) (\<lambda>raw.
        let cmd = set_param ''history_raw'' (GStr raw) cmd in
        andThen (nextToken p) (\<lambda>p.
        Inr (cmd, p)))
      else if name = ''history_delimiter'' then
        andThen (orError (\<lambda>err. PlainError ''OPENAI_CHAT history_delimiter: expected quoted string, got %s'' [curV p]) (parseQuotedString p)) (\<lambda>v.
        let cmd = set_param ''history_delimiter'' (GStr v) cmd in
        andThen (nextToken p) (\<lambda>p.
        Inr (cmd, p)))
      else
        Inl (PlainError ''OPENAI_CHAT: unknown option %q (valid: model, system, history, history_delimiter, temperature, max_tokens, stream, top_p, frequency_penalty, presence_penalty, extra_body)'' [name]))"

definition parseOpenaiChat :: "(string \<Rightarrow> bool) \<Rightarrow> Parser \<Rightarrow> gerror + CliCommand \<times> Parser" where
  "parseOpenaiChat json_ok p =
     (andThen (nextToken p) (\<lambda>p.
      if curT p = TokenDash then
        let dashCount = (0 :: int) in
        andThen (ploop (\<lambda>dashCount p.
          if curT p = TokenDash then
            let dashCount = dashCount + 1 in
            andThen (nextToken p) (\<lambda>p.
            Inr (True, dashCount, p))
          else Inr (False, dashCount, p)) dashCount p) (\<lambda>(dashCount, p).
        if dashCount > 0 \<and> curT p = TokenIdentifier then
          if ToLower (curV p) = ''h'' \<or> ToLower (curV p) = ''help'' then Inr (NewCommand ''openai_chat_help'', p) else
          Inl (PlainError ''OPENAI_CHAT: only -h/--help takes no args; otherwise expected chat_id and message'' [])
        else Inl (PlainError ''OPENAI_CHAT: only -h/--help takes no args; otherwise expected chat_id and message'' []))
      else
        let cmd = NewCommand ''api_openai_chat'' in
        let cmd = set_param ''model'' (GStr ''model'') cmd in
        let cmd = set_param ''temperature'' (GFloat (f64_round 0)) cmd in
        let cmd = set_param ''max_tokens'' (GInt (of_int 0)) cmd in
        let cmd = set_param ''stream'' (GBool False) cmd in
        andThen (orError (\<lambda>err. WrapError ''OPENAI_CHAT: expected chat_id as first argument: %w'' [] err) (parseQuotedString p)) (\<lambda>chatID.
        let cmd = set_param ''chat_id'' (GStr chatID) cmd in
        andThen (nextToken p) (\<lambda>p.
        andThen (orError (\<lambda>err. WrapError ''OPENAI_CHAT: expected message as second argument: %w'' [] err) (parseQuotedString p)) (\<lambda>message.
        let cmd = set_param ''message'' (GStr message) cmd in
        andThen (nextToken p) (\<lambda>p.
        ploop (\<lambda>cmd p.
          if curT p = TokenSemicolon then
            andThen (nextToken p) (\<lambda>p.
            Inr (False, cmd, p))
          else if curT p = TokenEOF then Inr (False, cmd, p)
          else if curT p = TokenIdentifier \<or> curT p = TokenQuotedString then
            let name = curV p in
            let name = (if curT p = TokenQuotedString then Trim ([CHR 0x27, CHR 0x22]) name else name) in
            andThen (nextToken p) (\<lambda>p.
            andThen (parseOpenaiChat_option json_ok name cmd p) (\<lambda>(cmd, p).
            Inr (True, cmd, p)))
          else
            if \<not> isKeyword (curT p) then
              Inl (PlainError ''OPENAI_CHAT: unexpected token %q in option list (valid options: model, system, history, history_delimiter, temperature, max_tokens, stream, top_p, frequency_penalty, presence_penalty, extra_body)'' [curV p])
            else
              let name = curV p in
              andThen (nextToken p) (\<lambda>p.
              andThen (parseOpenaiChat_option json_ok name cmd p) (\<lambda>(cmd, p).
              Inr (True, cmd, p)))) cmd p))))))"

definition parseFileSystemCommands :: "Parser \<Rightarrow> gerror + CliCommand \<times> Parser" where
  "parseFileSystemCommands p =
     (andThen (nextToken p) (\<lambda>p.
      let cmd = NewCommand ''file_system_command'' in
      let cmd = set_param ''command'' (GStr (ps_original p)) cmd in
      Inr (cmd, p)))"

definition parseUserCommand :: "(string \<Rightarrow> bool) \<Rightarrow> Parser \<Rightarrow> gerror + CliCommand \<times> Parser" where
  "parseUserCommand json_ok p =
     (if curT p = TokenLogin then parseAPILoginUser p
      else if curT p = TokenLogout then parseAPILogout p
      else if curT p = TokenPing then parseAPIPingServer p
      else if curT p = TokenRegister then parseAPIRegister p
      else if curT p = TokenList then parseAPIListCommands p
      else if curT p = TokenShow then parseAPIShowCommands p
      else if curT p = TokenCreate then parseAPICreateCommands p
      else if curT p = TokenDrop then parseAPIDropCommands p
      else if curT p = TokenAdd then parseAPIAddCommands p
      else if curT p = TokenDelete then parseAPIDeleteCommands p
      else if curT p = TokenAlter then parseAPIAlterCommands p
      else if curT p = TokenSet then parseAPISetCommands p
      else if curT p = TokenReset then parseAPIResetCommands p
      else if curT p = TokenImport then parseAPIImport p
      else if curT p = TokenRetrieve then parseAPIRetrieve p
      else if curT p = TokenParse then parseParseCommands p
      else if curT p = TokenBenchmark then parseBenchmarkCommand p
      else if curT p = TokenEnable then parseAPIEnable p
      else if curT p = TokenDisable then parseAPIDisable p
      else if curT p = TokenChat then parseAPIChat p
      else if curT p = TokenStream then parseAPIStream p
      else if curT p = TokenThink then parseAPIThink p
      else if curT p = TokenEmbed then parseAPIEmbed p
      else if curT p = TokenRerank then parseAPIRerank p
      else if curT p = TokenASR then parseAPIASR p
      else if curT p = TokenTTS then parseAPITTS p
      else if curT p = TokenOCR then parseAPIOCR p
      else if curT p = TokenCheck then parseAPICheck p
      else if curT p = TokenStart then parseUserStartIngestion p
      else if curT p = TokenStop then parseUserStopIngestion p
      else if curT p = TokenSave then parseAPISave p
      else if curT p = TokenUse then parseAPIUseCommands p
      else if curT p = TokenUpdate then parseDevUpdateCommand p
      else if curT p = TokenRemove then parseAPIRemove p
      else if curT p = TokenGet then parseDevGetCommand p
      else if curT p = TokenExplain then parseDevExplain p
      else if curT p = TokenChunk then parseDevChunk False p
      else if curT p = TokenOpenaiChat then parseOpenaiChat json_ok p
      else if curT p = TokenLS \<or> curT p = TokenCat \<or> curT p = TokenSearch then parseFileSystemCommands p
      else Inl (PlainError ''unknown command: %s'' [curV p]))"

end
