(* ===== verification/CliAdmin.thy ===== *)
theory CliAdmin
  imports CliUserRun
begin

text \<open>
  The commands of the administrator (\<^verbatim>\<open>cli/admin_parser.go\<close>), first part: LOGIN to DROP.
\<close>

definition parseAdminListUserAgentsEE :: "string \<Rightarrow> Parser \<Rightarrow> gerror + CliCommand \<times> Parser" where
  "parseAdminListUserAgentsEE userName p =
     (Inl (PlainError ''listing user agents is only available in the enterprise edition'' []))"

definition parseAdminListUserDatasetsEE :: "string \<Rightarrow> Parser \<Rightarrow> gerror + CliCommand \<times> Parser" where
  "parseAdminListUserDatasetsEE userName p =
     (Inl (PlainError ''listing user datasets is only available in the enterprise edition'' []))"

definition parseAdminListIngestionTasks :: "Parser \<Rightarrow> gerror + CliCommand \<times> Parser" where
  "parseAdminListIngestionTasks p =
     (Inl (PlainError ''listing admin ingestion tasks is not supported in the open-source edition'' []))"

definition parseAdminShowIngestionLog :: "Parser \<Rightarrow> gerror + CliCommand \<times> Parser" where
  "parseAdminShowIngestionLog p =
     (Inl (PlainError ''ingestion logs are only available in the enterprise edition'' []))"

definition parseAdminListUserIngestionTasks :: "string \<Rightarrow> Parser \<Rightarrow> gerror + CliCommand \<times> Parser" where
  "parseAdminListUserIngestionTasks userName p =
     (Inl (PlainError ''listing user ingestion tasks in admin mode is not supported in the open-source edition'' []))"

definition parseAdminStopIngestionTasks :: "Parser \<Rightarrow> gerror + CliCommand \<times> Parser" where
  "parseAdminStopIngestionTasks p =
     (Inl (PlainError ''stopping admin ingestion tasks is not supported in the open-source edition'' []))"

definition parseAdminRemoveIngestionTasks :: "Parser \<Rightarrow> gerror + CliCommand \<times> Parser" where
  "parseAdminRemoveIngestionTasks p =
     (Inl (PlainError ''removing admin ingestion tasks is not supported in the open-source edition'' []))"

definition parseAdminStopUserIngestionTasks :: "string \<Rightarrow> Parser \<Rightarrow> gerror + CliCommand \<times> Parser" where
  "parseAdminStopUserIngestionTasks userName p =
     (Inl (PlainError ''stopping user ingestion tasks in admin mode is not supported in the open-source edition'' []))"

definition parseAdminRemoveUserIngestionTasks :: "string \<Rightarrow> Parser \<Rightarrow> gerror + CliCommand \<times> Parser" where
  "parseAdminRemoveUserIngestionTasks userName p =
     (Inl (PlainError ''removing user ingestion tasks in admin mode is not supported in the open-source edition'' []))"

definition parseAdminLoginUser :: "Parser \<Rightarrow> gerror + CliCommand \<times> Parser" where
  "parseAdminLoginUser p =
     (let cmd = NewCommand ''admin_login_user'' in
      andThen (nextToken p) (\<lambda>p.
      if curT p \<noteq> TokenAdmin then Inl (PlainError ''expected ADMIN after LOGIN'' []) else
      andThen (nextToken p) (\<lambda>p.
      andThen (parseQuotedString p) (\<lambda>email.
      let cmd = set_param ''email'' (GStr email) cmd in
      andThen (nextToken p) (\<lambda>p.
      andThen (
        if curT p = TokenPassword then
          andThen (nextToken p) (\<lambda>p.
          let password = ([] :: string) in
          andThen (parseQuotedString p) (\<lambda>password.
          let cmd = set_param ''password'' (GStr password) cmd in
          andThen (nextToken p) (\<lambda>p.
          Inr (cmd, p))))
        else Inr (cmd, p)) (\<lambda>(cmd, p).
      andThen (optSemicolon p) (\<lambda>p.
      Inr (cmd, p))))))))"

definition parseAdminLogout :: "Parser \<Rightarrow> gerror + CliCommand \<times> Parser" where
  "parseAdminLogout p =
     (let cmd = NewCommand ''admin_logout'' in
      andThen (nextToken p) (\<lambda>p.
      andThen (optSemicolon p) (\<lambda>p.
      Inr (cmd, p))))"

definition parseAdminPingServer :: "Parser \<Rightarrow> gerror + CliCommand \<times> Parser" where
  "parseAdminPingServer p =
     (andThen (nextToken p) (\<lambda>p.
      if curT p = TokenStore then
        andThen (nextToken p) (\<lambda>p.
        let cmd = NewCommand ''admin_ping_store'' in
        Inr (cmd, p))
      else if curT p = TokenEngine then
        andThen (nextToken p) (\<lambda>p.
        let cmd = NewCommand ''admin_ping_engine'' in
        Inr (cmd, p))
      else if curT p = TokenMQ then
        andThen (nextToken p) (\<lambda>p.
        let cmd = NewCommand ''admin_ping_mq'' in
        Inr (cmd, p))
      else if curT p = TokenCache then
        andThen (nextToken p) (\<lambda>p.
        let cmd = NewCommand ''admin_ping_cache'' in
        Inr (cmd, p))
      else if curT p = TokenSemicolon \<or> curT p = TokenEOF then
        andThen (nextToken p) (\<lambda>p.
        let cmd = NewCommand ''admin_ping_server'' in
        Inr (cmd, p))
      else Inl (PlainError ''expected semicolon after PING'' [])))"

definition parseAdminLiveServer :: "Parser \<Rightarrow> gerror + CliCommand \<times> Parser" where
  "parseAdminLiveServer p =
     (andThen (nextToken p) (\<lambda>p.
      let cmd = NewCommand ''admin_live_server'' in
      Inr (cmd, p)))"

definition parseAdminHealthServer :: "Parser \<Rightarrow> gerror + CliCommand \<times> Parser" where
  "parseAdminHealthServer p =
     (andThen (nextToken p) (\<lambda>p.
      let cmd = NewCommand ''admin_health_server'' in
      Inr (cmd, p)))"

definition parseAdminListServices :: "Parser \<Rightarrow> gerror + CliCommand \<times> Parser" where
  "parseAdminListServices p =
     (andThen (nextToken p) (\<lambda>p.
      andThen (optSemicolon p) (\<lambda>p.
      Inr (NewCommand ''admin_list_services'', p))))"

definition parseAdminListRoles :: "Parser \<Rightarrow> gerror + CliCommand \<times> Parser" where
  "parseAdminListRoles p =
     (andThen (nextToken p) (\<lambda>p.
      andThen (optSemicolon p) (\<lambda>p.
      Inr (NewCommand ''admin_list_roles_command'', p))))"

definition parseAdminListResources :: "Parser \<Rightarrow> gerror + CliCommand \<times> Parser" where
  "parseAdminListResources p =
     (andThen (nextToken p) (\<lambda>p.
      andThen (optSemicolon p) (\<lambda>p.
      Inr (NewCommand ''admin_list_resources_command'', p))))"

definition parseAdminListVariables :: "Parser \<Rightarrow> gerror + CliCommand \<times> Parser" where
  "parseAdminListVariables p =
     (andThen (nextToken p) (\<lambda>p.
      andThen (optSemicolon p) (\<lambda>p.
      Inr (NewCommand ''admin_list_variables'', p))))"

definition parseAdminListConfigs :: "Parser \<Rightarrow> gerror + CliCommand \<times> Parser" where
  "parseAdminListConfigs p =
     (andThen (nextToken p) (\<lambda>p.
      andThen (optSemicolon p) (\<lambda>p.
      Inr (NewCommand ''admin_list_configs'', p))))"

definition parseAdminListEnvironments :: "Parser \<Rightarrow> gerror + CliCommand \<times> Parser" where
  "parseAdminListEnvironments p =
     (andThen (nextToken p) (\<lambda>p.
      andThen (optSemicolon p) (\<lambda>p.
      Inr (NewCommand ''admin_list_environments'', p))))"

definition parseAdminListAvailableProviders :: "Parser \<Rightarrow> gerror + CliCommand \<times> Parser" where
  "parseAdminListAvailableProviders p =
     (andThen (nextToken p) (\<lambda>p.
      if curT p \<noteq> TokenProviders then Inl (PlainError ''expected PROVIDERS'' []) else Inr (NewCommand ''admin_list_available_providers'', p)))"

definition parseAdminListIngestors :: "Parser \<Rightarrow> gerror + CliCommand \<times> Parser" where
  "parseAdminListIngestors p =
     (andThen (nextToken p) (\<lambda>p.
      let cmd = NewCommand ''admin_list_ingestors'' in
      Inr (cmd, p)))"

definition parseAdminListProviderInstance :: "string \<Rightarrow> Parser \<Rightarrow> gerror + CliCommand \<times> Parser" where
  "parseAdminListProviderInstance providerName p =
     (andThen (nextToken p) (\<lambda>p.
      andThen (parseQuotedString p) (\<lambda>instanceName.
      andThen (nextToken p) (\<lambda>p.
      if curT p \<noteq> TokenModels then Inl (PlainError ''expected MODELS'' []) else
      andThen (nextToken p) (\<lambda>p.
      let cmd = NewCommand ''admin_list_provider_instance_models'' in
      let cmd = set_param ''provider_name'' (GStr providerName) cmd in
      let cmd = set_param ''instance_name'' (GStr instanceName) cmd in
      andThen (optSemicolon p) (\<lambda>p.
      Inr (cmd, p)))))))"

definition parseAdminListProviderInstances :: "string \<Rightarrow> Parser \<Rightarrow> gerror + CliCommand \<times> Parser" where
  "parseAdminListProviderInstances providerName p =
     (andThen (nextToken p) (\<lambda>p.
      let cmd = NewCommand ''admin_list_provider_instances'' in
      let cmd = set_param ''provider_name'' (GStr providerName) cmd in
      andThen (optSemicolon p) (\<lambda>p.
      Inr (cmd, p))))"

definition parseAdminListProviderModels :: "string \<Rightarrow> Parser \<Rightarrow> gerror + CliCommand \<times> Parser" where
  "parseAdminListProviderModels providerName p =
     (andThen (nextToken p) (\<lambda>p.
      let cmd = NewCommand ''admin_list_provider_models'' in
      let cmd = set_param ''provider_name'' (GStr providerName) cmd in
      andThen (optSemicolon p) (\<lambda>p.
      Inr (cmd, p))))"

definition parseAdminListProviderCommands :: "Parser \<Rightarrow> gerror + CliCommand \<times> Parser" where
  "parseAdminListProviderCommands p =
     (andThen (nextToken p) (\<lambda>p.
      andThen (parseQuotedString p) (\<lambda>providerName.
      andThen (nextToken p) (\<lambda>p.
      if curT p = TokenInstances then parseAdminListProviderInstances providerName p
      else if curT p = TokenInstance then parseAdminListProviderInstance providerName p
      else if curT p = TokenModels then parseAdminListProviderModels providerName p
      else Inl (PlainError ''unknown LIST target: %s'' [curV p])))))"

definition parseAdminListProviders :: "Parser \<Rightarrow> gerror + CliCommand \<times> Parser" where
  "parseAdminListProviders p =
     (andThen (nextToken p) (\<lambda>p.
      andThen (optSemicolon p) (\<lambda>p.
      Inr (NewCommand ''admin_list_providers'', p))))"

definition parseAdminListModels :: "Parser \<Rightarrow> gerror + CliCommand \<times> Parser" where
  "parseAdminListModels p =
     (andThen (nextToken p) (\<lambda>p.
      let cmd = NewCommand ''admin_list_all_models'' in
      andThen (optSemicolon p) (\<lambda>p.
      Inr (cmd, p))))"

definition parseAdminListAPIServers :: "Parser \<Rightarrow> gerror + CliCommand \<times> Parser" where
  "parseAdminListAPIServers p =
     (andThen (nextToken p) (\<lambda>p.
      if curT p = TokenServer then
        andThen (nextToken p) (\<lambda>p.
        let cmd = NewCommand ''admin_list_api_servers'' in
        andThen (optSemicolon p) (\<lambda>p.
        Inr (cmd, p)))
      else Inl (PlainError ''expected SERVER after API'' [])))"

definition parseAdminListUsersCommand :: "Parser \<Rightarrow> gerror + CliCommand \<times> Parser" where
  "parseAdminListUsersCommand p =
     (andThen (nextToken p) (\<lambda>p.
      let orderBy = ([] :: string) in
      let userStatus = ([] :: string) in
      let top1 = (None :: int option) in
      let plan = (None :: string option) in
      let quota = (None :: int option) in
      let days = (None :: int option) in
      let condition = False in
      andThen (ploop (\<lambda>(condition, days, orderBy, plan, quota, top1, userStatus) p.
        if curT p = TokenTop then
          let condition = True in
          andThen (nextToken p) (\<lambda>p.
          andThen (parseNumber p) (\<lambda>topInt.
          if topInt < 0 then Inl (PlainError ''invalid number of TOP'' []) else
          andThen (nextToken p) (\<lambda>p.
          let top1 = Some topInt in
          Inr (True, (condition, days, orderBy, plan, quota, top1, userStatus), p))))
        else if curT p = TokenDays then
          let condition = True in
          andThen (nextToken p) (\<lambda>p.
          andThen (parseNumber p) (\<lambda>daysInt.
          if daysInt < 0 then Inl (PlainError ''invalid number of DAYS'' []) else
          andThen (nextToken p) (\<lambda>p.
          let days = Some daysInt in
          Inr (True, (condition, days, orderBy, plan, quota, top1, userStatus), p))))
        else if curT p = TokenPlan then
          let condition = True in
          andThen (nextToken p) (\<lambda>p.
          andThen (parseQuotedString p) (\<lambda>planStr.
          if planStr = [] then Inl (PlainError ''invalid plan'' []) else
          let plan = Some planStr in
          andThen (nextToken p) (\<lambda>p.
          Inr (True, (condition, days, orderBy, plan, quota, top1, userStatus), p))))
        else if curT p = TokenQuota then
          let condition = True in
          andThen (nextToken p) (\<lambda>p.
          andThen (parseNumber p) (\<lambda>quotaInt.
          if quotaInt < 0 then Inl (PlainError ''invalid number of QUOTA'' []) else
          let quota = Some quotaInt in
          andThen (nextToken p) (\<lambda>p.
          Inr (True, (condition, days, orderBy, plan, quota, top1, userStatus), p))))
        else if curT p = TokenDocuments \<or> curT p = TokenIndex \<or> curT p = TokenStorage then
          let condition = True in
          if orderBy \<noteq> [] then Inl (PlainError ''order by already set'' []) else
          let orderBy = curV p in
          andThen (nextToken p) (\<lambda>p.
          Inr (True, (condition, days, orderBy, plan, quota, top1, userStatus), p))
        else if curT p = TokenActive \<or> curT p = TokenInactive then
          let condition = True in
          let userStatus = curV p in
          andThen (nextToken p) (\<lambda>p.
          Inr (True, (condition, days, orderBy, plan, quota, top1, userStatus), p))
        else if curT p = TokenSemicolon then
          andThen (nextToken p) (\<lambda>p.
          Inr (False, (condition, days, orderBy, plan, quota, top1, userStatus), p))
        else Inr (False, (condition, days, orderBy, plan, quota, top1, userStatus), p)) (condition, days, orderBy, plan, quota, top1, userStatus) p) (\<lambda>((condition, days, orderBy, plan, quota, top1, userStatus), p).
      andThen (optSemicolon p) (\<lambda>p.
      if \<not> condition then Inr (NewCommand ''admin_list_users_command'', p) else
      let cmd = NewCommand ''admin_list_users_condition_command'' in
      let cmd = (if orderBy \<noteq> [] then set_param ''order_by'' (GStr orderBy) cmd else cmd) in
      let cmd = (if userStatus \<noteq> [] then set_param ''user_status'' (GStr userStatus) cmd else cmd) in
      let cmd = (if top1 \<noteq> None then set_param ''top'' (GInt (of_int (the top1))) cmd else cmd) in
      let cmd = (if plan \<noteq> None then set_param ''plan'' (GStr (the plan)) cmd else cmd) in
      let cmd = (if quota \<noteq> None then set_param ''quota'' (GInt (of_int (the quota))) cmd else cmd) in
      let cmd = (if days \<noteq> None then set_param ''days'' (GInt (of_int (the days))) cmd else cmd) in
      Inr (cmd, p)))))"

definition parseAdminListUserProviderInstanceModels :: "string \<Rightarrow> Parser \<Rightarrow> gerror + CliCommand \<times> Parser" where
  "parseAdminListUserProviderInstanceModels userName p =
     (andThen (nextToken p) (\<lambda>p.
      andThen (parseQuotedString p) (\<lambda>providerName.
      andThen (nextToken p) (\<lambda>p.
      if curT p = TokenInstances then
        andThen (nextToken p) (\<lambda>p.
        let cmd = NewCommand ''admin_list_user_provider_instances'' in
        let cmd = set_param ''user_name'' (GStr userName) cmd in
        let cmd = set_param ''provider_name'' (GStr providerName) cmd in
        andThen (optSemicolon p) (\<lambda>p.
        Inr (cmd, p)))
      else
        if curT p \<noteq> TokenInstance then Inl (PlainError ''expected INSTANCE after PROVIDER'' []) else
        andThen (nextToken p) (\<lambda>p.
        andThen (parseQuotedString p) (\<lambda>instanceName.
        andThen (nextToken p) (\<lambda>p.
        if curT p \<noteq> TokenModels then Inl (PlainError ''expected MODELS after INSTANCE'' []) else
        andThen (nextToken p) (\<lambda>p.
        let cmd = NewCommand ''admin_list_user_provider_instance_models'' in
        let cmd = set_param ''user_name'' (GStr userName) cmd in
        let cmd = set_param ''provider_name'' (GStr providerName) cmd in
        let cmd = set_param ''instance_name'' (GStr instanceName) cmd in
        andThen (optSemicolon p) (\<lambda>p.
        Inr (cmd, p))))))))))"

definition parseAdminListUserDefaultModels :: "string \<Rightarrow> Parser \<Rightarrow> gerror + CliCommand \<times> Parser" where
  "parseAdminListUserDefaultModels userName p =
     (andThen (nextToken p) (\<lambda>p.
      if curT p \<noteq> TokenModels then Inl (PlainError ''expected MODELS after INSTANCE'' []) else
      andThen (nextToken p) (\<lambda>p.
      let cmd = NewCommand ''admin_list_user_default_models'' in
      let cmd = set_param ''user_name'' (GStr userName) cmd in
      andThen (optSemicolon p) (\<lambda>p.
      Inr (cmd, p)))))"

definition parseAdminListUserLogs :: "string \<Rightarrow> Parser \<Rightarrow> gerror + CliCommand \<times> Parser" where
  "parseAdminListUserLogs userName p =
     (andThen (nextToken p) (\<lambda>p.
      let dayCount = (7 :: int) in
      let cmd = NewCommand ''admin_list_user_operation_logs'' in
      andThen (
        if curT p = TokenNumber then
          andThen (parseNumber p) (\<lambda>dayCount.
          andThen (nextToken p) (\<lambda>p.
          Inr (dayCount, p)))
        else Inr (dayCount, p)) (\<lambda>(dayCount, p).
      let cmd = set_param ''user_name'' (GStr userName) cmd in
      let cmd = set_param ''days'' (GInt (of_int dayCount)) cmd in
      andThen (optSemicolon p) (\<lambda>p.
      Inr (cmd, p)))))"

definition parseAdminListUserCommand :: "Parser \<Rightarrow> gerror + CliCommand \<times> Parser" where
  "parseAdminListUserCommand p =
     (andThen (nextToken p) (\<lambda>p.
      andThen (parseQuotedString p) (\<lambda>userName.
      andThen (nextToken p) (\<lambda>p.
      if curT p = TokenIngestion then parseAdminListUserIngestionTasks userName p
      else if curT p = TokenDatasets then parseAdminListUserDatasetsEE userName p
      else if curT p = TokenAgents then parseAdminListUserAgentsEE userName p
      else if curT p = TokenChats then
        andThen (nextToken p) (\<lambda>p.
        let cmd = NewCommand ''admin_list_user_chats'' in
        andThen (optSemicolon p) (\<lambda>p.
        let cmd = set_param ''user_name'' (GStr userName) cmd in
        Inr (cmd, p)))
      else if curT p = TokenSearches then
        andThen (nextToken p) (\<lambda>p.
        let cmd = NewCommand ''admin_list_user_searches'' in
        andThen (optSemicolon p) (\<lambda>p.
        let cmd = set_param ''user_name'' (GStr userName) cmd in
        Inr (cmd, p)))
      else if curT p = TokenModels then
        andThen (nextToken p) (\<lambda>p.
        let cmd = NewCommand ''admin_list_user_models'' in
        andThen (optSemicolon p) (\<lambda>p.
        let cmd = set_param ''user_name'' (GStr userName) cmd in
        Inr (cmd, p)))
      else if curT p = TokenFiles then
        andThen (nextToken p) (\<lambda>p.
        let cmd = NewCommand ''admin_list_user_files'' in
        andThen (optSemicolon p) (\<lambda>p.
        let cmd = set_param ''user_name'' (GStr userName) cmd in
        Inr (cmd, p)))
      else if curT p = TokenKeys then
        andThen (nextToken p) (\<lambda>p.
        let cmd = NewCommand ''admin_list_user_keys'' in
        andThen (optSemicolon p) (\<lambda>p.
        let cmd = set_param ''user_name'' (GStr userName) cmd in
        Inr (cmd, p)))
      else if curT p = TokenProvider then parseAdminListUserProviderInstanceModels userName p
      else if curT p = TokenProviders then
        andThen (nextToken p) (\<lambda>p.
        let cmd = NewCommand ''admin_list_user_providers'' in
        andThen (optSemicolon p) (\<lambda>p.
        let cmd = set_param ''user_name'' (GStr userName) cmd in
        Inr (cmd, p)))
      else if curT p = TokenLogs then parseAdminListUserLogs userName p
      else if curT p = TokenDefault then parseAdminListUserDefaultModels userName p
      else Inl (PlainError ''expected INGESTION or DATASETS or AGENTS or CHATS or SEARCHES or MODELS or FILES or KEYS or LOGS after USER'' [])))))"

definition parseAdminListCommands :: "Parser \<Rightarrow> gerror + CliCommand \<times> Parser" where
  "parseAdminListCommands p =
     (andThen (nextToken p) (\<lambda>p.
      if curT p = TokenServices then parseAdminListServices p
      else if curT p = TokenUsers then parseAdminListUsersCommand p
      else if curT p = TokenRoles then parseAdminListRoles p
      else if curT p = TokenResources then parseAdminListResources p
      else if curT p = TokenVars then parseAdminListVariables p
      else if curT p = TokenConfigs then parseAdminListConfigs p
      else if curT p = TokenEnvs then parseAdminListEnvironments p
      else if curT p = TokenAvailable then parseAdminListAvailableProviders p
      else if curT p = TokenProvider then parseAdminListProviderCommands p
      else if curT p = TokenProviders then parseAdminListProviders p
      else if curT p = TokenModels then parseAdminListModels p
      else if curT p = TokenUser then parseAdminListUserCommand p
      else if curT p = TokenIngestors then parseAdminListIngestors p
      else if curT p = TokenIngestion then parseAdminListIngestionTasks p
      else if curT p = TokenAPI then parseAdminListAPIServers p
      else Inl (PlainError ''unknown LIST target: %s'' [curV p])))"

definition parseAdminListFiles :: "Parser \<Rightarrow> gerror + CliCommand \<times> Parser" where
  "parseAdminListFiles p =
     (andThen (nextToken p) (\<lambda>p.
      if curT p \<noteq> TokenOf then Inl (PlainError ''expected OF'' []) else
      andThen (nextToken p) (\<lambda>p.
      if curT p \<noteq> TokenDataset then Inl (PlainError ''expected DATASET'' []) else
      andThen (nextToken p) (\<lambda>p.
      andThen (parseQuotedString p) (\<lambda>datasetName.
      let cmd = NewCommand ''list_user_dataset_files'' in
      let cmd = set_param ''dataset_name'' (GStr datasetName) cmd in
      andThen (nextToken p) (\<lambda>p.
      andThen (optSemicolon p) (\<lambda>p.
      Inr (cmd, p))))))))"

definition parseAdminShowService :: "Parser \<Rightarrow> gerror + CliCommand \<times> Parser" where
  "parseAdminShowService p =
     (andThen (nextToken p) (\<lambda>p.
      andThen (parseQuotedString p) (\<lambda>serviceName.
      let cmd = NewCommand ''admin_show_service'' in
      let cmd = set_param ''service_name'' (GStr serviceName) cmd in
      andThen (nextToken p) (\<lambda>p.
      andThen (optSemicolon p) (\<lambda>p.
      Inr (cmd, p))))))"

definition parseAdminShowUser :: "string \<Rightarrow> Parser \<Rightarrow> gerror + CliCommand \<times> Parser" where
  "parseAdminShowUser userName p =
     (andThen (optSemicolon p) (\<lambda>p.
      let cmd = NewCommand ''admin_show_user'' in
      let cmd = set_param ''user_name'' (GStr userName) cmd in
      Inr (cmd, p)))"

definition parseAdminShowActivityCommand :: "string \<Rightarrow> Parser \<Rightarrow> gerror + CliCommand \<times> Parser" where
  "parseAdminShowActivityCommand userName p =
     (andThen (nextToken p) (\<lambda>p.
      let days = (0 :: int) in
      andThen (
        if curT p = TokenDays then
          andThen (nextToken p) (\<lambda>p.
          andThen (parseNumber p) (\<lambda>days.
          if days < 1 then Inl (PlainError ''invalid number of DAYS'' []) else
          andThen (nextToken p) (\<lambda>p.
          Inr (days, p))))
        else
          let days = (7 :: int) in
          Inr (days, p)) (\<lambda>(days, p).
      andThen (optSemicolon p) (\<lambda>p.
      let cmd = NewCommand ''admin_show_user_activity_command'' in
      let cmd = set_param ''user_name'' (GStr userName) cmd in
      let cmd = set_param ''days'' (GInt (of_int days)) cmd in
      Inr (cmd, p)))))"

definition parseAdminShowUserSummaryCommand :: "string \<Rightarrow> Parser \<Rightarrow> gerror + CliCommand \<times> Parser" where
  "parseAdminShowUserSummaryCommand userName p =
     (andThen (nextToken p) (\<lambda>p.
      let cmd = NewCommand ''admin_show_user_summary_command'' in
      let cmd = set_param ''user_name'' (GStr userName) cmd in
      andThen (optSemicolon p) (\<lambda>p.
      Inr (cmd, p))))"

definition parseAdminShowUserDataSetCommand :: "string \<Rightarrow> Parser \<Rightarrow> gerror + CliCommand \<times> Parser" where
  "parseAdminShowUserDataSetCommand userName p =
     (andThen (nextToken p) (\<lambda>p.
      let tree = False in
      let datasetName = ([] :: string) in
      andThen (parseQuotedString p) (\<lambda>datasetName.
      andThen (nextToken p) (\<lambda>p.
      andThen (
        if curT p = TokenTree then
          let tree = True in
          andThen (nextToken p) (\<lambda>p.
          Inr (tree, p))
        else Inr (tree, p)) (\<lambda>(tree, p).
      let cmd = NewCommand ''admin_show_user_dataset_command'' in
      let cmd = set_param ''user_name'' (GStr userName) cmd in
      let cmd = (if datasetName \<noteq> [] then set_param ''dataset_name'' (GStr datasetName) cmd else cmd) in
      let cmd = (if tree then set_param ''tree'' (GBool True) cmd else cmd) in
      andThen (optSemicolon p) (\<lambda>p.
      Inr (cmd, p)))))))"

definition parseAdminShowUserStorageCommand :: "string \<Rightarrow> Parser \<Rightarrow> gerror + CliCommand \<times> Parser" where
  "parseAdminShowUserStorageCommand userName p =
     (andThen (nextToken p) (\<lambda>p.
      let cmd = NewCommand ''admin_show_user_storage_command'' in
      let cmd = set_param ''user_name'' (GStr userName) cmd in
      andThen (optSemicolon p) (\<lambda>p.
      Inr (cmd, p))))"

definition parseAdminShowUserQuotaCommand :: "string \<Rightarrow> Parser \<Rightarrow> gerror + CliCommand \<times> Parser" where
  "parseAdminShowUserQuotaCommand userName p =
     (andThen (nextToken p) (\<lambda>p.
      let cmd = NewCommand ''admin_show_user_quota_command'' in
      let cmd = set_param ''user_name'' (GStr userName) cmd in
      andThen (optSemicolon p) (\<lambda>p.
      Inr (cmd, p))))"

definition parseAdminShowUserIndexCommand :: "string \<Rightarrow> Parser \<Rightarrow> gerror + CliCommand \<times> Parser" where
  "parseAdminShowUserIndexCommand userName p =
     (andThen (nextToken p) (\<lambda>p.
      let cmd = NewCommand ''admin_show_user_index_command'' in
      let cmd = set_param ''user_name'' (GStr userName) cmd in
      andThen (optSemicolon p) (\<lambda>p.
      Inr (cmd, p))))"

definition parseAdminShowUserPermissionCommand :: "string \<Rightarrow> Parser \<Rightarrow> gerror + CliCommand \<times> Parser" where
  "parseAdminShowUserPermissionCommand userName p =
     (andThen (nextToken p) (\<lambda>p.
      let cmd = NewCommand ''admin_show_user_permission_command'' in
      let cmd = set_param ''user_name'' (GStr userName) cmd in
      andThen (optSemicolon p) (\<lambda>p.
      Inr (cmd, p))))"

definition parseAdminShowUserCommands :: "Parser \<Rightarrow> gerror + CliCommand \<times> Parser" where
  "parseAdminShowUserCommands p =
     (andThen (nextToken p) (\<lambda>p.
      andThen (parseQuotedString p) (\<lambda>userName.
      andThen (nextToken p) (\<lambda>p.
      if curT p = TokenActivity then parseAdminShowActivityCommand userName p
      else if curT p = TokenSummary then parseAdminShowUserSummaryCommand userName p
      else if curT p = TokenDataset then parseAdminShowUserDataSetCommand userName p
      else if curT p = TokenStorage then parseAdminShowUserStorageCommand userName p
      else if curT p = TokenQuota then parseAdminShowUserQuotaCommand userName p
      else if curT p = TokenIndex then parseAdminShowUserIndexCommand userName p
      else if curT p = TokenPermission then parseAdminShowUserPermissionCommand userName p
      else parseAdminShowUser userName p))))"

definition parseAdminShowRole :: "Parser \<Rightarrow> gerror + CliCommand \<times> Parser" where
  "parseAdminShowRole p =
     (andThen (nextToken p) (\<lambda>p.
      andThen (parseQuotedString p) (\<lambda>roleName.
      andThen (nextToken p) (\<lambda>p.
      if curT p = TokenPermission then
        andThen (nextToken p) (\<lambda>p.
        let cmd = NewCommand ''admin_show_role_permission'' in
        let cmd = set_param ''role_name'' (GStr roleName) cmd in
        Inr (cmd, p))
      else if curT p = TokenDefault then
        andThen (nextToken p) (\<lambda>p.
        if curT p \<noteq> TokenModels then Inl (PlainError ''expect MODELS after DEFAULT'' []) else
        andThen (nextToken p) (\<lambda>p.
        let cmd = NewCommand ''admin_show_role_default_models'' in
        let cmd = set_param ''role_name'' (GStr roleName) cmd in
        Inr (cmd, p)))
      else if curT p = TokenSemicolon then
        andThen (nextToken p) (\<lambda>p.
        let cmd = NewCommand ''admin_show_role'' in
        let cmd = set_param ''role_name'' (GStr roleName) cmd in
        Inr (cmd, p))
      else Inl (PlainError ''invalid command %s'' [tokenTypeToString (curT p)])))))"

definition parseAdminShowVersion :: "Parser \<Rightarrow> gerror + CliCommand \<times> Parser" where
  "parseAdminShowVersion p =
     (andThen (nextToken p) (\<lambda>p.
      andThen (optSemicolon p) (\<lambda>p.
      Inr (NewCommand ''admin_show_version_command'', p))))"

definition parseAdminShowVariable :: "Parser \<Rightarrow> gerror + CliCommand \<times> Parser" where
  "parseAdminShowVariable p =
     (andThen (nextToken p) (\<lambda>p.
      andThen (parseQuotedString p) (\<lambda>varName.
      let cmd = NewCommand ''admin_show_variable'' in
      let cmd = set_param ''var_name'' (GStr varName) cmd in
      andThen (nextToken p) (\<lambda>p.
      andThen (optSemicolon p) (\<lambda>p.
      Inr (cmd, p))))))"

definition parseAdminShowCurrent :: "Parser \<Rightarrow> gerror + CliCommand \<times> Parser" where
  "parseAdminShowCurrent p =
     (andThen (nextToken p) (\<lambda>p.
      andThen (optSemicolon p) (\<lambda>p.
      Inr (NewCommand ''admin_show_current'', p))))"

definition parseAdminShowFingerprint :: "Parser \<Rightarrow> gerror + CliCommand \<times> Parser" where
  "parseAdminShowFingerprint p =
     (andThen (nextToken p) (\<lambda>p.
      andThen (optSemicolon p) (\<lambda>p.
      Inr (NewCommand ''admin_show_fingerprint'', p))))"

definition parseAdminShowSoftFingerprint :: "Parser \<Rightarrow> gerror + CliCommand \<times> Parser" where
  "parseAdminShowSoftFingerprint p =
     (andThen (nextToken p) (\<lambda>p.
      if curT p \<noteq> TokenFingerprint then Inl (PlainError ''expected FINGERPRINT'' []) else
      andThen (nextToken p) (\<lambda>p.
      andThen (optSemicolon p) (\<lambda>p.
      Inr (NewCommand ''admin_show_soft_fingerprint'', p)))))"

definition parseAdminShowLicense :: "Parser \<Rightarrow> gerror + CliCommand \<times> Parser" where
  "parseAdminShowLicense p =
     (andThen (nextToken p) (\<lambda>p.
      andThen (optSemicolon p) (\<lambda>p.
      Inr (NewCommand ''admin_show_license'', p))))"

definition parseAdminShowProviderInstanceBalance :: "string \<Rightarrow> string \<Rightarrow> Parser \<Rightarrow> gerror + CliCommand \<times> Parser" where
  "parseAdminShowProviderInstanceBalance providerName instanceName p =
     (andThen (nextToken p) (\<lambda>p.
      let cmd = NewCommand ''admin_show_provider_instance_balance'' in
      let cmd = set_param ''instance_name'' (GStr instanceName) cmd in
      let cmd = set_param ''provider_name'' (GStr providerName) cmd in
      andThen (optSemicolon p) (\<lambda>p.
      Inr (cmd, p))))"

definition parseAdminShowProviderInstance :: "string \<Rightarrow> Parser \<Rightarrow> gerror + CliCommand \<times> Parser" where
  "parseAdminShowProviderInstance providerName p =
     (andThen (nextToken p) (\<lambda>p.
      andThen (orError (\<lambda>err. WrapError ''expected instance name: %w'' [] err) (parseQuotedString p)) (\<lambda>instanceName.
      andThen (nextToken p) (\<lambda>p.
      if curT p = TokenBalance then parseAdminShowProviderInstanceBalance providerName instanceName p else
      let cmd = NewCommand ''admin_show_provider_instance'' in
      let cmd = set_param ''instance_name'' (GStr instanceName) cmd in
      let cmd = set_param ''provider_name'' (GStr providerName) cmd in
      andThen (optSemicolon p) (\<lambda>p.
      Inr (cmd, p))))))"

definition parseAdminShowProviderModel :: "string \<Rightarrow> Parser \<Rightarrow> gerror + CliCommand \<times> Parser" where
  "parseAdminShowProviderModel providerName p =
     (andThen (nextToken p) (\<lambda>p.
      andThen (orError (\<lambda>err. WrapError ''expected model name: %w'' [] err) (parseQuotedString p)) (\<lambda>modelName.
      andThen (nextToken p) (\<lambda>p.
      let cmd = NewCommand ''admin_show_provider_model'' in
      let cmd = set_param ''model_name'' (GStr modelName) cmd in
      let cmd = set_param ''provider_name'' (GStr providerName) cmd in
      andThen (optSemicolon p) (\<lambda>p.
      Inr (cmd, p))))))"

definition parseAdminShowProvider :: "Parser \<Rightarrow> gerror + CliCommand \<times> Parser" where
  "parseAdminShowProvider p =
     (andThen (nextToken p) (\<lambda>p.
      andThen (orError (\<lambda>err. WrapError ''expected provider name: %w'' [] err) (parseQuotedString p)) (\<lambda>providerName.
      andThen (nextToken p) (\<lambda>p.
      if curT p = TokenInstance then parseAdminShowProviderInstance providerName p
      else if curT p = TokenModel then parseAdminShowProviderModel providerName p
      else
        andThen (nextToken p) (\<lambda>p.
        let cmd = NewCommand ''admin_show_provider'' in
        let cmd = set_param ''provider_name'' (GStr providerName) cmd in
        Inr (cmd, p))))))"

definition parseAdminShowModel :: "Parser \<Rightarrow> gerror + CliCommand \<times> Parser" where
  "parseAdminShowModel p =
     (andThen (nextToken p) (\<lambda>p.
      andThen (orError (\<lambda>err. WrapError ''expected model name: %w'' [] err) (parseQuotedString p)) (\<lambda>modelName.
      andThen (nextToken p) (\<lambda>p.
      andThen (optSemicolon p) (\<lambda>p.
      let cmd = NewCommand ''admin_show_model'' in
      let cmd = set_param ''model_name'' (GStr modelName) cmd in
      Inr (cmd, p))))))"

definition parseAdminShowAdminServer :: "Parser \<Rightarrow> gerror + CliCommand \<times> Parser" where
  "parseAdminShowAdminServer p =
     (andThen (nextToken p) (\<lambda>p.
      if curT p = TokenServer then
        andThen (nextToken p) (\<lambda>p.
        let cmd = NewCommand ''admin_show_admin_server'' in
        andThen (optSemicolon p) (\<lambda>p.
        Inr (cmd, p)))
      else Inl (PlainError ''expected SERVER after ADMIN'' [])))"

definition parseAdminShowAPI :: "Parser \<Rightarrow> gerror + CliCommand \<times> Parser" where
  "parseAdminShowAPI p =
     (andThen (nextToken p) (\<lambda>p.
      if curT p = TokenServer then
        andThen (nextToken p) (\<lambda>p.
        let cmd = NewCommand ''admin_show_api_server'' in
        andThen (orError (\<lambda>err. WrapError ''expected API server name: %w'' [] err) (parseQuotedString p)) (\<lambda>serverName.
        let cmd = set_param ''api_server_name'' (GStr serverName) cmd in
        andThen (nextToken p) (\<lambda>p.
        andThen (optSemicolon p) (\<lambda>p.
        Inr (cmd, p)))))
      else Inl (PlainError ''expected SERVER after API'' [])))"

definition parseAdminShowUsersActivity :: "Parser \<Rightarrow> gerror + CliCommand \<times> Parser" where
  "parseAdminShowUsersActivity p =
     (andThen (nextToken p) (\<lambda>p.
      let days = (0 :: int) in
      let windowSize = (0 :: int) in
      andThen (ploop (\<lambda>(days, windowSize) p.
        if curT p = TokenDays then
          andThen (nextToken p) (\<lambda>p.
          andThen (parseNumber p) (\<lambda>days.
          if days < 1 then Inl (PlainError ''invalid number of DAYS'' []) else
          andThen (nextToken p) (\<lambda>p.
          Inr (True, (days, windowSize), p))))
        else if curT p = TokenWindow then
          andThen (nextToken p) (\<lambda>p.
          andThen (parseNumber p) (\<lambda>windowSize.
          if windowSize < 0 then Inl (PlainError ''invalid number of WINDOWS'' []) else
          andThen (nextToken p) (\<lambda>p.
          Inr (True, (days, windowSize), p))))
        else if curT p = TokenSemicolon then
          andThen (nextToken p) (\<lambda>p.
          Inr (False, (days, windowSize), p))
        else Inr (False, (days, windowSize), p)) (days, windowSize) p) (\<lambda>((days, windowSize), p).
      andThen (optSemicolon p) (\<lambda>p.
      let cmd = NewCommand ''admin_show_users_activity_command'' in
      let cmd = set_param ''days'' (GInt (of_int days)) cmd in
      let cmd = set_param ''window'' (GInt (of_int windowSize)) cmd in
      Inr (cmd, p)))))"

definition parseAdminShowUsersPlan :: "Parser \<Rightarrow> gerror + CliCommand \<times> Parser" where
  "parseAdminShowUsersPlan p =
     (andThen (nextToken p) (\<lambda>p.
      andThen (
        if curT p = TokenSummary then
          andThen (nextToken p) (\<lambda>p.
          let cmd = NewCommand ''admin_show_users_plan_summary'' in
          Inr (cmd, p))
        else if curT p = TokenQuota then
          andThen (nextToken p) (\<lambda>p.
          let cmd = NewCommand ''admin_show_users_plan_quota'' in
          if curT p \<noteq> TokenNumber then Inl (PlainError ''expected QUOTA'' []) else
          andThen (parseNumber p) (\<lambda>quotaInt.
          andThen (nextToken p) (\<lambda>p.
          if quotaInt < 0 \<or> quotaInt > 100 then Inl (PlainError ''invalid quota value'' []) else
          let cmd = set_param ''quota'' (GInt (of_int quotaInt)) cmd in
          Inr (cmd, p))))
        else Inl (PlainError ''expected SUMMARY or QUOTA'' [])) (\<lambda>(cmd, p).
      andThen (optSemicolon p) (\<lambda>p.
      Inr (cmd, p)))))"

definition parseAdminShowUsersCommands :: "Parser \<Rightarrow> gerror + CliCommand \<times> Parser" where
  "parseAdminShowUsersCommands p =
     (andThen (nextToken p) (\<lambda>p.
      if curT p = TokenSummary then
        andThen (nextToken p) (\<lambda>p.
        let cmd = NewCommand ''admin_show_users_summary_command'' in
        Inr (cmd, p))
      else if curT p = TokenActivity then parseAdminShowUsersActivity p
      else if curT p = TokenPlan then parseAdminShowUsersPlan p
      else Inl (PlainError ''invalid command'' [])))"

definition parseAdminShowData :: "Parser \<Rightarrow> gerror + CliCommand \<times> Parser" where
  "parseAdminShowData p =
     (andThen (nextToken p) (\<lambda>p.
      andThen (
        if curT p = TokenSummary then
          andThen (nextToken p) (\<lambda>p.
          let cmd = NewCommand ''admin_show_data_summary'' in
          Inr (cmd, p))
        else if curT p = TokenOrphan then
          andThen (nextToken p) (\<lambda>p.
          let cmd = NewCommand ''admin_show_data_orphan'' in
          Inr (cmd, p))
        else if curT p = TokenStorage then
          andThen (nextToken p) (\<lambda>p.
          let cmd = NewCommand ''admin_show_data_storage'' in
          Inr (cmd, p))
        else if curT p = TokenIndex then
          andThen (nextToken p) (\<lambda>p.
          let cmd = NewCommand ''admin_show_data_index'' in
          Inr (cmd, p))
        else Inl (PlainError ''expected SUMMARY, ORPHAN, STORAGE, INDEX after DATA'' [])) (\<lambda>(cmd, p).
      andThen (optSemicolon p) (\<lambda>p.
      Inr (cmd, p)))))"

definition parseAdminShowQuota :: "Parser \<Rightarrow> gerror + CliCommand \<times> Parser" where
  "parseAdminShowQuota p =
     (andThen (nextToken p) (\<lambda>p.
      if curT p = TokenSummary then
        andThen (nextToken p) (\<lambda>p.
        let cmd = NewCommand ''admin_show_quota_summary'' in
        andThen (optSemicolon p) (\<lambda>p.
        Inr (cmd, p)))
      else Inl (PlainError ''expected SUMMARY after QUOTA'' [])))"

definition parseAdminShowTasks :: "Parser \<Rightarrow> gerror + CliCommand \<times> Parser" where
  "parseAdminShowTasks p =
     (andThen (nextToken p) (\<lambda>p.
      if curT p = TokenSummary then
        andThen (nextToken p) (\<lambda>p.
        let cmd = NewCommand ''admin_show_tasks_summary'' in
        andThen (optSemicolon p) (\<lambda>p.
        Inr (cmd, p)))
      else Inl (PlainError ''expected SUMMARY after TASKS'' [])))"

definition parseAdminShowLogLevel :: "Parser \<Rightarrow> gerror + CliCommand \<times> Parser" where
  "parseAdminShowLogLevel p =
     (andThen (nextToken p) (\<lambda>p.
      let cmd = NewCommand ''admin_show_log_level'' in
      andThen (optSemicolon p) (\<lambda>p.
      Inr (cmd, p))))"

definition parseAdminShowLogCommands :: "Parser \<Rightarrow> gerror + CliCommand \<times> Parser" where
  "parseAdminShowLogCommands p =
     (andThen (nextToken p) (\<lambda>p.
      if curT p = TokenLevel then parseAdminShowLogLevel p else Inl (PlainError ''expected LEVEL after LOG'' [])))"

definition parseAdminShowHardware :: "Parser \<Rightarrow> gerror + CliCommand \<times> Parser" where
  "parseAdminShowHardware p =
     (andThen (nextToken p) (\<lambda>p.
      let cmd = NewCommand ''admin_show_hardware'' in
      andThen (optSemicolon p) (\<lambda>p.
      Inr (cmd, p))))"

definition parseAdminShowCommands :: "Parser \<Rightarrow> gerror + CliCommand \<times> Parser" where
  "parseAdminShowCommands p =
     (andThen (nextToken p) (\<lambda>p.
      if curT p = TokenService then parseAdminShowService p
      else if curT p = TokenUser then parseAdminShowUserCommands p
      else if curT p = TokenRole then parseAdminShowRole p
      else if curT p = TokenVersion then parseAdminShowVersion p
      else if curT p = TokenVar then parseAdminShowVariable p
      else if curT p = TokenCurrent then parseAdminShowCurrent p
      else if curT p = TokenFingerprint then parseAdminShowFingerprint p
      else if curT p = TokenSoft then parseAdminShowSoftFingerprint p
      else if curT p = TokenLicense then parseAdminShowLicense p
      else if curT p = TokenProvider then parseAdminShowProvider p
      else if curT p = TokenModel then parseAdminShowModel p
      else if curT p = TokenAdmin then parseAdminShowAdminServer p
      else if curT p = TokenAPI then parseAdminShowAPI p
      else if curT p = TokenUsers then parseAdminShowUsersCommands p
      else if curT p = TokenData then parseAdminShowData p
      else if curT p = TokenQuota then parseAdminShowQuota p
      else if curT p = TokenTasks then parseAdminShowTasks p
      else if curT p = TokenIngestion then parseAdminShowIngestionLog p
      else if curT p = TokenLog then parseAdminShowLogCommands p
      else if curT p = TokenHardware then parseAdminShowHardware p
      else Inl (PlainError ''unknown SHOW target: %s'' [curV p])))"

definition parseCommonShowPoolModel :: "Parser \<Rightarrow> gerror + CliCommand \<times> Parser" where
  "parseCommonShowPoolModel p =
     (andThen (nextToken p) (\<lambda>p.
      if curT p = TokenProvider then
        andThen (nextToken p) (\<lambda>p.
        andThen (parseQuotedString p) (\<lambda>providerName.
        let cmd = NewCommand ''show_pool_provider'' in
        let cmd = set_param ''provider_name'' (GStr providerName) cmd in
        andThen (nextToken p) (\<lambda>p.
        andThen (optSemicolon p) (\<lambda>p.
        Inr (cmd, p)))))
      else if curT p = TokenModel then
        andThen (nextToken p) (\<lambda>p.
        andThen (parseQuotedString p) (\<lambda>modelName.
        andThen (nextToken p) (\<lambda>p.
        if curT p \<noteq> TokenFrom then Inl (PlainError ''expected FROM'' []) else
        andThen (nextToken p) (\<lambda>p.
        andThen (parseQuotedString p) (\<lambda>providerName.
        andThen (nextToken p) (\<lambda>p.
        let cmd = NewCommand ''show_pool_model'' in
        let cmd = set_param ''provider_name'' (GStr providerName) cmd in
        let cmd = set_param ''model_name'' (GStr modelName) cmd in
        andThen (optSemicolon p) (\<lambda>p.
        Inr (cmd, p))))))))
      else Inl (PlainError ''expected PROVIDERS or MODELS'' [])))"

definition parseAdminStatsUser :: "Parser \<Rightarrow> gerror + CliCommand \<times> Parser" where
  "parseAdminStatsUser p =
     (andThen (nextToken p) (\<lambda>p.
      let cmd = NewCommand ''admin_stats_user'' in
      andThen (parseQuotedString p) (\<lambda>userName.
      let cmd = set_param ''user_name'' (GStr userName) cmd in
      andThen (nextToken p) (\<lambda>p.
      andThen (
        if curT p = TokenFrom then
          andThen (nextToken p) (\<lambda>p.
          andThen (parseQuotedString p) (\<lambda>v.
          let cmd = set_param ''from'' (GStr v) cmd in
          andThen (nextToken p) (\<lambda>p.
          Inr (cmd, p))))
        else Inr (cmd, p)) (\<lambda>(cmd, p).
      andThen (
        if curT p = TokenTo then
          andThen (nextToken p) (\<lambda>p.
          andThen (parseQuotedString p) (\<lambda>v.
          let cmd = set_param ''to'' (GStr v) cmd in
          andThen (nextToken p) (\<lambda>p.
          Inr (cmd, p))))
        else Inr (cmd, p)) (\<lambda>(cmd, p).
      andThen (
        if curT p = TokenHour then
          andThen (nextToken p) (\<lambda>p.
          let cmd = set_param ''granularity'' (GStr ''HOUR'') cmd in
          Inr (cmd, p))
        else if curT p = TokenDay then
          andThen (nextToken p) (\<lambda>p.
          let cmd = set_param ''granularity'' (GStr ''DAY'') cmd in
          Inr (cmd, p))
        else if curT p = TokenMonth then
          andThen (nextToken p) (\<lambda>p.
          let cmd = set_param ''granularity'' (GStr ''MONTH'') cmd in
          Inr (cmd, p))
        else
          andThen (nextToken p) (\<lambda>p.
          let cmd = set_param ''granularity'' (GStr ''HOUR'') cmd in
          Inr (cmd, p))) (\<lambda>(cmd, p).
      andThen (optSemicolon p) (\<lambda>p.
      Inr (cmd, p)))))))))"

definition parseAdminStatsUsers :: "Parser \<Rightarrow> gerror + CliCommand \<times> Parser" where
  "parseAdminStatsUsers p =
     (andThen (nextToken p) (\<lambda>p.
      let cmd = NewCommand ''admin_stats_users'' in
      let cmd = set_param ''top'' (GInt (of_int 10)) cmd in
      andThen (
        if curT p = TokenTop then
          andThen (nextToken p) (\<lambda>p.
          andThen (parseNumber p) (\<lambda>v.
          let cmd = set_param ''top'' (GInt (of_int v)) cmd in
          andThen (nextToken p) (\<lambda>p.
          Inr (cmd, p))))
        else Inr (cmd, p)) (\<lambda>(cmd, p).
      andThen (
        if curT p = TokenFrom then
          andThen (nextToken p) (\<lambda>p.
          andThen (parseQuotedString p) (\<lambda>v.
          let cmd = set_param ''from'' (GStr v) cmd in
          andThen (nextToken p) (\<lambda>p.
          Inr (cmd, p))))
        else Inr (cmd, p)) (\<lambda>(cmd, p).
      andThen (
        if curT p = TokenTo then
          andThen (nextToken p) (\<lambda>p.
          andThen (parseQuotedString p) (\<lambda>v.
          let cmd = set_param ''to'' (GStr v) cmd in
          andThen (nextToken p) (\<lambda>p.
          Inr (cmd, p))))
        else Inr (cmd, p)) (\<lambda>(cmd, p).
      andThen (optSemicolon p) (\<lambda>p.
      Inr (cmd, p)))))))"

definition parseAdminStatsSummary :: "Parser \<Rightarrow> gerror + CliCommand \<times> Parser" where
  "parseAdminStatsSummary p =
     (andThen (nextToken p) (\<lambda>p.
      let cmd = NewCommand ''admin_stats_summary'' in
      andThen (
        if curT p = TokenFrom then
          andThen (nextToken p) (\<lambda>p.
          andThen (parseQuotedString p) (\<lambda>v.
          let cmd = set_param ''from'' (GStr v) cmd in
          andThen (nextToken p) (\<lambda>p.
          Inr (cmd, p))))
        else Inr (cmd, p)) (\<lambda>(cmd, p).
      andThen (
        if curT p = TokenTo then
          andThen (nextToken p) (\<lambda>p.
          andThen (parseQuotedString p) (\<lambda>v.
          let cmd = set_param ''to'' (GStr v) cmd in
          andThen (nextToken p) (\<lambda>p.
          Inr (cmd, p))))
        else Inr (cmd, p)) (\<lambda>(cmd, p).
      andThen (optSemicolon p) (\<lambda>p.
      Inr (cmd, p))))))"

definition parseAdminStatsCommands :: "Parser \<Rightarrow> gerror + CliCommand \<times> Parser" where
  "parseAdminStatsCommands p =
     (andThen (nextToken p) (\<lambda>p.
      if curT p = TokenUser then parseAdminStatsUser p
      else if curT p = TokenUsers then parseAdminStatsUsers p
      else if curT p = TokenSummary then parseAdminStatsSummary p
      else Inl (PlainError ''expected USER or MODEL or SUMMARY after STATS'' [])))"

definition parseAdminCheckLicense :: "Parser \<Rightarrow> gerror + CliCommand \<times> Parser" where
  "parseAdminCheckLicense p =
     (andThen (nextToken p) (\<lambda>p.
      if curT p = TokenSemicolon then
        andThen (nextToken p) (\<lambda>p.
        Inr (NewCommand ''admin_check_license'', p))
      else if curT p = TokenEOF then Inr (NewCommand ''admin_check_license'', p)
      else if curT p = TokenQuotedString then
        andThen (parseQuotedString p) (\<lambda>licenseStr.
        let cmd = NewCommand ''admin_verify_license'' in
        let cmd = set_param ''license'' (GStr licenseStr) cmd in
        andThen (nextToken p) (\<lambda>p.
        andThen (optSemicolon p) (\<lambda>p.
        Inr (cmd, p))))
      else Inl (PlainError ''error check license command'' [])))"

definition parseAdminCheckProviderInstance :: "string \<Rightarrow> Parser \<Rightarrow> gerror + CliCommand \<times> Parser" where
  "parseAdminCheckProviderInstance providerName p =
     (if curT p \<noteq> TokenInstance then Inl (PlainError ''expected PROVIDER after CHECK'' []) else
      andThen (nextToken p) (\<lambda>p.
      andThen (parseQuotedString p) (\<lambda>instanceName.
      let cmd = NewCommand ''admin_check_provider_instance'' in
      let cmd = set_param ''provider_name'' (GStr providerName) cmd in
      let cmd = set_param ''instance_name'' (GStr instanceName) cmd in
      Inr (cmd, p))))"

definition parseAdminCheckProvider :: "Parser \<Rightarrow> gerror + CliCommand \<times> Parser" where
  "parseAdminCheckProvider p =
     (if curT p \<noteq> TokenProvider then Inl (PlainError ''expected PROVIDER after CHECK'' []) else
      andThen (nextToken p) (\<lambda>p.
      if curT p \<noteq> TokenQuotedString then Inl (PlainError ''expected provider name after PROVIDER'' []) else
      let providerName = curV p in
      andThen (nextToken p) (\<lambda>p.
      if curT p = TokenInstance then parseAdminCheckProviderInstance providerName p else
      if curT p \<noteq> TokenRegion then Inl (PlainError ''expected REGION after provider name'' []) else
      andThen (nextToken p) (\<lambda>p.
      if curT p \<noteq> TokenQuotedString then Inl (PlainError ''expected region name after REGION'' []) else
      let regionName = curV p in
      andThen (nextToken p) (\<lambda>p.
      if curT p \<noteq> TokenKey then Inl (PlainError ''expected KEY after region name'' []) else
      andThen (nextToken p) (\<lambda>p.
      if curT p \<noteq> TokenQuotedString then Inl (PlainError ''expected API key after KEY'' []) else
      let apiKey = curV p in
      andThen (nextToken p) (\<lambda>p.
      let baseURL = ([] :: string) in
      andThen (
        if curT p = TokenURL then
          andThen (nextToken p) (\<lambda>p.
          if curT p \<noteq> TokenQuotedString then Inl (PlainError ''expected base URL after URL'' []) else
          let baseURL = curV p in
          andThen (nextToken p) (\<lambda>p.
          Inr (baseURL, p)))
        else Inr (baseURL, p)) (\<lambda>(baseURL, p).
      andThen (optSemicolon p) (\<lambda>p.
      if curT p \<noteq> TokenEOF then Inl (PlainError ''unexpected token: %s'' [curV p]) else
      let cmd = NewCommand ''admin_check_provider_with_key'' in
      let cmd = set_param ''provider_name'' (GStr providerName) cmd in
      let cmd = set_param ''region'' (GStr regionName) cmd in
      let cmd = set_param ''api_key'' (GStr apiKey) cmd in
      let cmd = (if baseURL \<noteq> [] then set_param ''base_url'' (GStr baseURL) cmd else cmd) in
      Inr (cmd, p))))))))))"

definition parseAdminCheck :: "Parser \<Rightarrow> gerror + CliCommand \<times> Parser" where
  "parseAdminCheck p =
     (andThen (nextToken p) (\<lambda>p.
      if curT p = TokenLicense then parseAdminCheckLicense p
      else if curT p = TokenProvider then parseAdminCheckProvider p
      else Inl (PlainError ''unknown CHECK target: %s'' [curV p])))"

definition parseAdminStopUserCommand :: "Parser \<Rightarrow> gerror + CliCommand \<times> Parser" where
  "parseAdminStopUserCommand p =
     (andThen (nextToken p) (\<lambda>p.
      andThen (parseQuotedString p) (\<lambda>userName.
      andThen (nextToken p) (\<lambda>p.
      if curT p = TokenIngestion then parseAdminStopUserIngestionTasks userName p else Inl (PlainError ''expected INGESTION after USER'' [])))))"

definition parseAdminStopCommands :: "Parser \<Rightarrow> gerror + CliCommand \<times> Parser" where
  "parseAdminStopCommands p =
     (andThen (nextToken p) (\<lambda>p.
      if curT p = TokenIngestion then parseAdminStopIngestionTasks p
      else if curT p = TokenUser then parseAdminStopUserCommand p
      else Inl (PlainError ''expected USER or INGESTION'' [])))"

definition parseAdminCreateUserAPIKeyCommand :: "string \<Rightarrow> Parser \<Rightarrow> gerror + CliCommand \<times> Parser" where
  "parseAdminCreateUserAPIKeyCommand userName p =
     (andThen (nextToken p) (\<lambda>p.
      andThen (optSemicolon p) (\<lambda>p.
      let cmd = NewCommand ''admin_create_user_api_key'' in
      let cmd = set_param ''user_name'' (GStr userName) cmd in
      Inr (cmd, p))))"

definition parseAdminCreateUser :: "Parser \<Rightarrow> gerror + CliCommand \<times> Parser" where
  "parseAdminCreateUser p =
     (andThen (nextToken p) (\<lambda>p.
      andThen (parseQuotedString p) (\<lambda>userName.
      andThen (nextToken p) (\<lambda>p.
      if curT p = TokenQuotedString then
        let password = ([] :: string) in
        andThen (parseQuotedString p) (\<lambda>password.
        andThen (nextToken p) (\<lambda>p.
        let cmd = NewCommand ''admin_create_user'' in
        let cmd = set_param ''user_name'' (GStr userName) cmd in
        let cmd = set_param ''password'' (GStr password) cmd in
        let cmd = set_param ''role'' (GStr ''user'') cmd in
        andThen (optSemicolon p) (\<lambda>p.
        Inr (cmd, p))))
      else if curT p = TokenKey then parseAdminCreateUserAPIKeyCommand userName p
      else Inl (PlainError ''expected password or KEY after USER, got %s'' [curV p])))))"

definition parseAdminCreateRole :: "Parser \<Rightarrow> gerror + CliCommand \<times> Parser" where
  "parseAdminCreateRole p =
     (andThen (nextToken p) (\<lambda>p.
      andThen (parseQuotedString p) (\<lambda>roleName.
      let cmd = NewCommand ''admin_create_role'' in
      let cmd = set_param ''role_name'' (GStr roleName) cmd in
      andThen (nextToken p) (\<lambda>p.
      andThen (
        if curT p = TokenDescription then
          andThen (nextToken p) (\<lambda>p.
          let description = ([] :: string) in
          andThen (parseQuotedString p) (\<lambda>description.
          let cmd = set_param ''description'' (GStr description) cmd in
          andThen (nextToken p) (\<lambda>p.
          Inr (cmd, p))))
        else Inr (cmd, p)) (\<lambda>(cmd, p).
      andThen (optSemicolon p) (\<lambda>p.
      Inr (cmd, p)))))))"

definition parseAdminCreateCommand :: "Parser \<Rightarrow> gerror + CliCommand \<times> Parser" where
  "parseAdminCreateCommand p =
     (andThen (nextToken p) (\<lambda>p.
      if curT p = TokenUser then parseAdminCreateUser p
      else if curT p = TokenRole then parseAdminCreateRole p
      else Inl (PlainError ''unknown CREATE target: %s'' [curV p])))"

definition parseAdminDropUserAPIKey :: "string \<Rightarrow> Parser \<Rightarrow> gerror + CliCommand \<times> Parser" where
  "parseAdminDropUserAPIKey userName p =
     (andThen (nextToken p) (\<lambda>p.
      andThen (parseQuotedString p) (\<lambda>apiKey.
      andThen (optSemicolon p) (\<lambda>p.
      let cmd = NewCommand ''admin_drop_user_api_key'' in
      let cmd = set_param ''user_name'' (GStr userName) cmd in
      let cmd = set_param ''api_key'' (GStr apiKey) cmd in
      Inr (cmd, p)))))"

definition parseAdminDropUser :: "Parser \<Rightarrow> gerror + CliCommand \<times> Parser" where
  "parseAdminDropUser p =
     (andThen (nextToken p) (\<lambda>p.
      if curT p \<noteq> TokenQuotedString then Inl (PlainError ''expected USER name, got %s'' [curV p]) else
      andThen (parseQuotedString p) (\<lambda>userName.
      andThen (nextToken p) (\<lambda>p.
      if curT p = TokenKey then parseAdminDropUserAPIKey userName p else
      andThen (nextToken p) (\<lambda>p.
      let cmd = NewCommand ''admin_drop_user'' in
      let cmd = set_param ''user_name'' (GStr userName) cmd in
      Inr (cmd, p))))))"

definition parseAdminDropRole :: "Parser \<Rightarrow> gerror + CliCommand \<times> Parser" where
  "parseAdminDropRole p =
     (andThen (nextToken p) (\<lambda>p.
      andThen (parseQuotedString p) (\<lambda>roleName.
      let cmd = NewCommand ''admin_drop_role'' in
      let cmd = set_param ''role_name'' (GStr roleName) cmd in
      andThen (nextToken p) (\<lambda>p.
      andThen (optSemicolon p) (\<lambda>p.
      Inr (cmd, p))))))"

definition parseAdminDropCommands :: "Parser \<Rightarrow> gerror + CliCommand \<times> Parser" where
  "parseAdminDropCommands p =
     (andThen (nextToken p) (\<lambda>p.
      if curT p = TokenUser then parseAdminDropUser p
      else if curT p = TokenRole then parseAdminDropRole p
      else Inl (PlainError ''unknown DROP target: %s'' [curV p])))"

end
