(* ===== verification/CliAdminEdit.thy ===== *)
theory CliAdminEdit
  imports CliAdmin
begin

text \<open>
  The commands of the administrator (\<^verbatim>\<open>cli/admin_parser.go\<close>), second part, and the choice among them
  (\<^verbatim>\<open>parseAdminCommand\<close>).
\<close>

definition parseAdminActivateUser :: "Parser \<Rightarrow> gerror + CliCommand \<times> Parser" where
  "parseAdminActivateUser p =
     (andThen (nextToken p) (\<lambda>p.
      andThen (parseQuotedString p) (\<lambda>userName.
      andThen (nextToken p) (\<lambda>p.
      let status = curV p in
      if status \<noteq> ''on'' \<and> status \<noteq> ''off'' then Inl (PlainError ''expected 'on' or 'off', got %s'' [curV p]) else
      andThen (nextToken p) (\<lambda>p.
      let cmd = NewCommand ''admin_activate_user'' in
      let cmd = set_param ''user_name'' (GStr userName) cmd in
      let cmd = set_param ''activate_status'' (GStr status) cmd in
      andThen (optSemicolon p) (\<lambda>p.
      Inr (cmd, p)))))))"

definition parseAdminAlterUser :: "Parser \<Rightarrow> gerror + CliCommand \<times> Parser" where
  "parseAdminAlterUser p =
     (andThen (nextToken p) (\<lambda>p.
      if curT p = TokenActive then parseAdminActivateUser p else
      if curT p = TokenPassword then
        andThen (nextToken p) (\<lambda>p.
        andThen (parseQuotedString p) (\<lambda>userName.
        andThen (nextToken p) (\<lambda>p.
        andThen (parseQuotedString p) (\<lambda>password.
        let cmd = NewCommand ''admin_alter_user'' in
        let cmd = set_param ''user_name'' (GStr userName) cmd in
        let cmd = set_param ''password'' (GStr password) cmd in
        andThen (nextToken p) (\<lambda>p.
        andThen (optSemicolon p) (\<lambda>p.
        Inr (cmd, p)))))))
      else
        andThen (parseQuotedString p) (\<lambda>userName.
        andThen (nextToken p) (\<lambda>p.
        if curT p \<noteq> TokenSet then Inl (PlainError ''expected SET'' []) else
        andThen (nextToken p) (\<lambda>p.
        if curT p \<noteq> TokenRole then Inl (PlainError ''expected ROLE'' []) else
        andThen (nextToken p) (\<lambda>p.
        andThen (parseIdentifier p) (\<lambda>roleName.
        let cmd = NewCommand ''alter_user_role'' in
        let cmd = set_param ''user_name'' (GStr userName) cmd in
        let cmd = set_param ''role_name'' (GStr roleName) cmd in
        andThen (nextToken p) (\<lambda>p.
        andThen (optSemicolon p) (\<lambda>p.
        Inr (cmd, p))))))))))"

definition parseAdminAlterRole :: "Parser \<Rightarrow> gerror + CliCommand \<times> Parser" where
  "parseAdminAlterRole p =
     (andThen (nextToken p) (\<lambda>p.
      andThen (parseQuotedString p) (\<lambda>roleName.
      andThen (nextToken p) (\<lambda>p.
      if curT p \<noteq> TokenSet then Inl (PlainError ''expected SET'' []) else
      andThen (nextToken p) (\<lambda>p.
      if curT p \<noteq> TokenDescription then Inl (PlainError ''expected DESCRIPTION'' []) else
      andThen (nextToken p) (\<lambda>p.
      andThen (parseQuotedString p) (\<lambda>description.
      andThen (nextToken p) (\<lambda>p.
      let cmd = NewCommand ''admin_alter_role'' in
      let cmd = set_param ''role_name'' (GStr roleName) cmd in
      let cmd = set_param ''description'' (GStr description) cmd in
      andThen (optSemicolon p) (\<lambda>p.
      Inr (cmd, p))))))))))"

definition parseAdminAlterProvider :: "Parser \<Rightarrow> gerror + CliCommand \<times> Parser" where
  "parseAdminAlterProvider p =
     (andThen (nextToken p) (\<lambda>p.
      andThen (parseQuotedString p) (\<lambda>providerName.
      andThen (nextToken p) (\<lambda>p.
      if curT p \<noteq> TokenInstance then Inl (PlainError ''expected INSTANCE'' []) else
      andThen (nextToken p) (\<lambda>p.
      andThen (parseQuotedString p) (\<lambda>instanceName.
      andThen (nextToken p) (\<lambda>p.
      let newInstanceName = ([] :: string) in
      let newAPIKey = ([] :: string) in
      andThen (ploop (\<lambda>(newAPIKey, newInstanceName) p.
        if curT p = TokenName then
          andThen (nextToken p) (\<lambda>p.
          andThen (orError (\<lambda>err. WrapError ''expected model name: %w'' [] err) (parseQuotedString p)) (\<lambda>newInstanceName.
          andThen (nextToken p) (\<lambda>p.
          Inr (True, (newAPIKey, newInstanceName), p))))
        else if curT p = TokenKey then
          andThen (nextToken p) (\<lambda>p.
          andThen (orError (\<lambda>err. WrapError ''expected API key: %w'' [] err) (parseQuotedString p)) (\<lambda>newAPIKey.
          andThen (nextToken p) (\<lambda>p.
          Inr (True, (newAPIKey, newInstanceName), p))))
        else Inr (False, (newAPIKey, newInstanceName), p)) (newAPIKey, newInstanceName) p) (\<lambda>((newAPIKey, newInstanceName), p).
      if newInstanceName = [] \<and> newAPIKey = [] then Inl (PlainError ''expected NAME or KEY after INSTANCE'' []) else
      let cmd = NewCommand ''admin_alter_provider_instance'' in
      let cmd = set_param ''provider_name'' (GStr providerName) cmd in
      let cmd = set_param ''instance_name'' (GStr instanceName) cmd in
      let cmd = set_param ''new_instance_name'' (GStr newInstanceName) cmd in
      let cmd = set_param ''new_api_key'' (GStr newAPIKey) cmd in
      andThen (nextToken p) (\<lambda>p.
      andThen (optSemicolon p) (\<lambda>p.
      Inr (cmd, p)))))))))))"

definition parseAdminAlterCommands :: "Parser \<Rightarrow> gerror + CliCommand \<times> Parser" where
  "parseAdminAlterCommands p =
     (andThen (nextToken p) (\<lambda>p.
      if curT p = TokenUser then parseAdminAlterUser p
      else if curT p = TokenRole then parseAdminAlterRole p
      else if curT p = TokenProvider then parseAdminAlterProvider p
      else Inl (PlainError ''unknown ALTER target: %s'' [curV p])))"

definition parseAdminGrantAdmin :: "Parser \<Rightarrow> gerror + CliCommand \<times> Parser" where
  "parseAdminGrantAdmin p =
     (andThen (nextToken p) (\<lambda>p.
      andThen (parseQuotedString p) (\<lambda>userName.
      let cmd = NewCommand ''admin_grant_user_admin'' in
      let cmd = set_param ''user_name'' (GStr userName) cmd in
      andThen (nextToken p) (\<lambda>p.
      andThen (optSemicolon p) (\<lambda>p.
      Inr (cmd, p))))))"

definition parseAdminGrantPermission :: "Parser \<Rightarrow> gerror + CliCommand \<times> Parser" where
  "parseAdminGrantPermission p =
     (andThen (parseQuotedString p) (\<lambda>actionListStr.
      let actions = split_on (CHR '','') actionListStr in
      andThen (nextToken p) (\<lambda>p.
      let actions = map TrimSpace actions in
      if curT p \<noteq> TokenOn then Inl (PlainError ''expected ON'' []) else
      andThen (nextToken p) (\<lambda>p.
      andThen (parseQuotedString p) (\<lambda>resource.
      andThen (nextToken p) (\<lambda>p.
      if curT p \<noteq> TokenTo then Inl (PlainError ''expected TO'' []) else
      andThen (nextToken p) (\<lambda>p.
      if curT p \<noteq> TokenRole then Inl (PlainError ''expected ROLE'' []) else
      andThen (nextToken p) (\<lambda>p.
      andThen (parseQuotedString p) (\<lambda>roleName.
      let cmd = NewCommand ''admin_grant_role_permission'' in
      let cmd = set_param ''actions'' (strings_val actions) cmd in
      let cmd = set_param ''resource'' (GStr resource) cmd in
      let cmd = set_param ''role_name'' (GStr roleName) cmd in
      andThen (nextToken p) (\<lambda>p.
      andThen (optSemicolon p) (\<lambda>p.
      Inr (cmd, p))))))))))))"

definition parseAdminGrantCommands :: "Parser \<Rightarrow> gerror + CliCommand \<times> Parser" where
  "parseAdminGrantCommands p =
     (andThen (nextToken p) (\<lambda>p.
      if curT p = TokenAdmin then parseAdminGrantAdmin p else parseAdminGrantPermission p))"

definition parseAdminRevokeAdmin :: "Parser \<Rightarrow> gerror + CliCommand \<times> Parser" where
  "parseAdminRevokeAdmin p =
     (andThen (nextToken p) (\<lambda>p.
      andThen (parseQuotedString p) (\<lambda>userName.
      let cmd = NewCommand ''admin_revoke_user_admin'' in
      let cmd = set_param ''user_name'' (GStr userName) cmd in
      andThen (nextToken p) (\<lambda>p.
      andThen (optSemicolon p) (\<lambda>p.
      Inr (cmd, p))))))"

definition parseAdminRevokePermission :: "Parser \<Rightarrow> gerror + CliCommand \<times> Parser" where
  "parseAdminRevokePermission p =
     (andThen (parseQuotedString p) (\<lambda>actionListStr.
      let actions = split_on (CHR '','') actionListStr in
      andThen (nextToken p) (\<lambda>p.
      let actions = map TrimSpace actions in
      if curT p \<noteq> TokenOn then Inl (PlainError ''expected ON'' []) else
      andThen (nextToken p) (\<lambda>p.
      andThen (parseQuotedString p) (\<lambda>resource.
      andThen (nextToken p) (\<lambda>p.
      if curT p \<noteq> TokenFrom then Inl (PlainError ''expected FROM'' []) else
      andThen (nextToken p) (\<lambda>p.
      if curT p \<noteq> TokenRole then Inl (PlainError ''expected ROLE'' []) else
      andThen (nextToken p) (\<lambda>p.
      andThen (parseQuotedString p) (\<lambda>roleName.
      let cmd = NewCommand ''admin_revoke_role_permission'' in
      let cmd = set_param ''actions'' (strings_val actions) cmd in
      let cmd = set_param ''resource'' (GStr resource) cmd in
      let cmd = set_param ''role_name'' (GStr roleName) cmd in
      andThen (nextToken p) (\<lambda>p.
      andThen (optSemicolon p) (\<lambda>p.
      Inr (cmd, p))))))))))))"

definition parseAdminRevokeCommands :: "Parser \<Rightarrow> gerror + CliCommand \<times> Parser" where
  "parseAdminRevokeCommands p =
     (andThen (nextToken p) (\<lambda>p.
      if curT p = TokenAdmin then parseAdminRevokeAdmin p else parseAdminRevokePermission p))"

definition parseAdminIdentifierList :: "Parser \<Rightarrow> gerror + string list \<times> Parser" where
  "parseAdminIdentifierList p =
     (let list1 = ([] :: string list) in
      andThen (parseIdentifier p) (\<lambda>ident.
      let list1 = list1 @ [ident] in
      andThen (nextToken p) (\<lambda>p.
      ploop (\<lambda>list1 p.
        if curT p = TokenComma then
          andThen (nextToken p) (\<lambda>p.
          andThen (parseIdentifier p) (\<lambda>ident.
          let list1 = list1 @ [ident] in
          andThen (nextToken p) (\<lambda>p.
          Inr (True, list1, p))))
        else Inr (False, list1, p)) list1 p)))"

definition parseAdminSetLicense :: "Parser \<Rightarrow> gerror + CliCommand \<times> Parser" where
  "parseAdminSetLicense p =
     (andThen (nextToken p) (\<lambda>p.
      if curT p = TokenConfig then
        andThen (nextToken p) (\<lambda>p.
        let cmd = NewCommand ''admin_set_license_config'' in
        andThen (parseNumber p) (\<lambda>number1.
        andThen (nextToken p) (\<lambda>p.
        andThen (parseNumber p) (\<lambda>number2.
        andThen (nextToken p) (\<lambda>p.
        let cmd = set_param ''number1'' (GInt (of_int number1)) cmd in
        let cmd = set_param ''number2'' (GInt (of_int number2)) cmd in
        Inr (cmd, p))))))
      else
        andThen (parseQuotedString p) (\<lambda>license.
        andThen (nextToken p) (\<lambda>p.
        let cmd = NewCommand ''admin_set_license'' in
        let cmd = set_param ''license'' (GStr license) cmd in
        andThen (optSemicolon p) (\<lambda>p.
        Inr (cmd, p))))))"

definition parseAdminSetSoftFingerprint :: "Parser \<Rightarrow> gerror + CliCommand \<times> Parser" where
  "parseAdminSetSoftFingerprint p =
     (andThen (nextToken p) (\<lambda>p.
      if curT p \<noteq> TokenFingerprint then Inl (PlainError ''expected FINGERPRINT'' []) else
      andThen (nextToken p) (\<lambda>p.
      andThen (parseQuotedString p) (\<lambda>softFingerprint.
      andThen (nextToken p) (\<lambda>p.
      let cmd = NewCommand ''admin_set_soft_fingerprint'' in
      let cmd = set_param ''soft_fingerprint'' (GStr softFingerprint) cmd in
      andThen (optSemicolon p) (\<lambda>p.
      Inr (cmd, p)))))))"

definition parseAdminSetVariable :: "Parser \<Rightarrow> gerror + CliCommand \<times> Parser" where
  "parseAdminSetVariable p =
     (andThen (nextToken p) (\<lambda>p.
      andThen (parseQuotedString p) (\<lambda>varName.
      andThen (nextToken p) (\<lambda>p.
      andThen (parseVariableValue p) (\<lambda>varValue.
      let cmd = NewCommand ''admin_set_variable'' in
      let cmd = set_param ''var_name'' (GStr varName) cmd in
      let cmd = set_param ''var_value'' (GStr varValue) cmd in
      andThen (nextToken p) (\<lambda>p.
      andThen (optSemicolon p) (\<lambda>p.
      Inr (cmd, p))))))))"

definition parseAdminSetRoleDefaultModel :: "Parser \<Rightarrow> gerror + CliCommand \<times> Parser" where
  "parseAdminSetRoleDefaultModel p =
     (andThen (nextToken p) (\<lambda>p.
      andThen (parseQuotedString p) (\<lambda>roleName.
      andThen (nextToken p) (\<lambda>p.
      if curT p \<noteq> TokenDefault then Inl (PlainError ''expected DEFAULT'' []) else
      andThen (nextToken p) (\<lambda>p.
      let modelType = ([] :: string) in
      andThen (
        if curT p = TokenChat then
          let modelType = ''chat'' in
          Inr modelType
        else if curT p = TokenVision then
          let modelType = ''vision'' in
          Inr modelType
        else if curT p = TokenEmbedding then
          let modelType = ''embedding'' in
          Inr modelType
        else if curT p = TokenRerank then
          let modelType = ''rerank'' in
          Inr modelType
        else if curT p = TokenASR then
          let modelType = ''asr'' in
          Inr modelType
        else if curT p = TokenTTS then
          let modelType = ''tts'' in
          Inr modelType
        else if curT p = TokenOCR then
          let modelType = ''ocr'' in
          Inr modelType
        else Inl (PlainError ''unknown model type: %s'' [curV p])) (\<lambda>modelType.
      andThen (nextToken p) (\<lambda>p.
      andThen (parseQuotedString p) (\<lambda>modelNameOrID.
      let cmd = NewCommand ''admin_set_role_default_model'' in
      let cmd = set_param ''role_name'' (GStr roleName) cmd in
      let cmd = set_param ''model_type'' (GStr modelType) cmd in
      andThen (
        if IsCompositeModelName modelNameOrID then
          let cmd = set_param ''composite_model_name'' (GStr modelNameOrID) cmd in
          Inr cmd
        else if IsUUID modelNameOrID then
          let cmd = set_param ''model_id'' (GStr modelNameOrID) cmd in
          Inr cmd
        else Inl (PlainError ''invalid format of model name or ID: %s'' [modelNameOrID])) (\<lambda>cmd.
      andThen (nextToken p) (\<lambda>p.
      andThen (optSemicolon p) (\<lambda>p.
      Inr (cmd, p))))))))))))"

definition parseAdminSetLogLevel :: "Parser \<Rightarrow> gerror + CliCommand \<times> Parser" where
  "parseAdminSetLogLevel p =
     (andThen (nextToken p) (\<lambda>p.
      let cmd = NewCommand ''admin_set_log_level'' in
      andThen (
        if curT p = TokenDebug then
          let cmd = set_param ''level'' (GStr ''debug'') cmd in
          Inr cmd
        else if curT p = TokenInfo then
          let cmd = set_param ''level'' (GStr ''info'') cmd in
          Inr cmd
        else if curT p = TokenWarn then
          let cmd = set_param ''level'' (GStr ''warn'') cmd in
          Inr cmd
        else if curT p = TokenError then
          let cmd = set_param ''level'' (GStr ''error'') cmd in
          Inr cmd
        else if curT p = TokenFatal then
          let cmd = set_param ''level'' (GStr ''fatal'') cmd in
          Inr cmd
        else if curT p = TokenPanic then
          let cmd = set_param ''level'' (GStr ''panic'') cmd in
          Inr cmd
        else Inl (PlainError ''unknown log level: %s'' [curV p])) (\<lambda>cmd.
      andThen (nextToken p) (\<lambda>p.
      andThen (optSemicolon p) (\<lambda>p.
      Inr (cmd, p))))))"

definition parseAdminSetLog :: "Parser \<Rightarrow> gerror + CliCommand \<times> Parser" where
  "parseAdminSetLog p =
     (andThen (nextToken p) (\<lambda>p.
      if curT p = TokenLevel then parseAdminSetLogLevel p else Inl (PlainError ''unknown log target: %s'' [curV p])))"

definition parseAdminSetCommand :: "Parser \<Rightarrow> gerror + CliCommand \<times> Parser" where
  "parseAdminSetCommand p =
     (andThen (nextToken p) (\<lambda>p.
      if curT p = TokenLicense then parseAdminSetLicense p
      else if curT p = TokenSoft then parseAdminSetSoftFingerprint p
      else if curT p = TokenVar then parseAdminSetVariable p
      else if curT p = TokenRole then parseAdminSetRoleDefaultModel p
      else if curT p = TokenLog then parseAdminSetLog p
      else Inl (PlainError ''unknown SET target: %s'' [curV p])))"

definition parseAdminResetCommand :: "Parser \<Rightarrow> gerror + CliCommand \<times> Parser" where
  "parseAdminResetCommand p =
     (andThen (nextToken p) (\<lambda>p.
      if curT p \<noteq> TokenRole then Inl (PlainError ''expected ROLE'' []) else
      andThen (nextToken p) (\<lambda>p.
      andThen (parseQuotedString p) (\<lambda>roleName.
      andThen (nextToken p) (\<lambda>p.
      if curT p \<noteq> TokenDefault then Inl (PlainError ''expected DEFAULT'' []) else
      andThen (nextToken p) (\<lambda>p.
      let modelType = ([] :: string) in
      andThen (
        if curT p = TokenChat then
          let modelType = ''chat'' in
          Inr modelType
        else if curT p = TokenVision then
          let modelType = ''vision'' in
          Inr modelType
        else if curT p = TokenEmbedding then
          let modelType = ''embedding'' in
          Inr modelType
        else if curT p = TokenRerank then
          let modelType = ''rerank'' in
          Inr modelType
        else if curT p = TokenASR then
          let modelType = ''asr'' in
          Inr modelType
        else if curT p = TokenTTS then
          let modelType = ''tts'' in
          Inr modelType
        else if curT p = TokenOCR then
          let modelType = ''ocr'' in
          Inr modelType
        else Inl (PlainError ''unknown model type: %s'' [curV p])) (\<lambda>modelType.
      andThen (nextToken p) (\<lambda>p.
      let cmd = NewCommand ''admin_reset_role_default_model'' in
      let cmd = set_param ''role_name'' (GStr roleName) cmd in
      let cmd = set_param ''model_type'' (GStr modelType) cmd in
      andThen (optSemicolon p) (\<lambda>p.
      Inr (cmd, p))))))))))"

definition parseAdminBenchmarkCommand :: "Parser \<Rightarrow> gerror + CliCommand \<times> Parser" where
  "parseAdminBenchmarkCommand p =
     (let cmd = NewCommand ''benchmark'' in
      andThen (nextToken p) (\<lambda>p.
      andThen (parseNumber p) (\<lambda>concurrency.
      let cmd = set_param ''concurrency'' (GInt (of_int concurrency)) cmd in
      andThen (nextToken p) (\<lambda>p.
      andThen (parseNumber p) (\<lambda>iterations.
      let cmd = set_param ''iterations'' (GInt (of_int iterations)) cmd in
      andThen (nextToken p) (\<lambda>p.
      andThen (parseUserStatement p) (\<lambda>(nestedCmd, p).
      let cmd = set_param ''command'' (command_val nestedCmd) cmd in
      Inr (cmd, p))))))))"

definition parseAdminStartService :: "Parser \<Rightarrow> gerror + CliCommand \<times> Parser" where
  "parseAdminStartService p =
     (andThen (nextToken p) (\<lambda>p.
      if curT p \<noteq> TokenService then Inl (PlainError ''expected SERVICE'' []) else
      andThen (nextToken p) (\<lambda>p.
      andThen (parseQuotedString p) (\<lambda>serviceName.
      let cmd = NewCommand ''admin_start_service'' in
      let cmd = set_param ''service_name'' (GStr serviceName) cmd in
      andThen (nextToken p) (\<lambda>p.
      andThen (optSemicolon p) (\<lambda>p.
      Inr (cmd, p)))))))"

definition parseAdminShutdownService :: "Parser \<Rightarrow> gerror + CliCommand \<times> Parser" where
  "parseAdminShutdownService p =
     (andThen (nextToken p) (\<lambda>p.
      andThen (parseQuotedString p) (\<lambda>serviceName.
      let cmd = NewCommand ''admin_shutdown_service'' in
      let cmd = set_param ''service_name'' (GStr serviceName) cmd in
      andThen (nextToken p) (\<lambda>p.
      andThen (optSemicolon p) (\<lambda>p.
      Inr (cmd, p))))))"

definition parseAdminShutdownIngestor :: "Parser \<Rightarrow> gerror + CliCommand \<times> Parser" where
  "parseAdminShutdownIngestor p =
     (andThen (nextToken p) (\<lambda>p.
      andThen (parseQuotedString p) (\<lambda>ingestorName.
      let cmd = NewCommand ''admin_shutdown_ingestor_command'' in
      let cmd = set_param ''ingestor_name'' (GStr ingestorName) cmd in
      andThen (nextToken p) (\<lambda>p.
      andThen (optSemicolon p) (\<lambda>p.
      Inr (cmd, p))))))"

definition parseAdminShutdownCommands :: "Parser \<Rightarrow> gerror + CliCommand \<times> Parser" where
  "parseAdminShutdownCommands p =
     (andThen (nextToken p) (\<lambda>p.
      if curT p = TokenService then parseAdminShutdownService p
      else if curT p = TokenIngestor then parseAdminShutdownIngestor p
      else Inl (PlainError ''expected SERVICE or INGESTOR'' [])))"

definition parseAdminRestart :: "Parser \<Rightarrow> gerror + CliCommand \<times> Parser" where
  "parseAdminRestart p =
     (andThen (nextToken p) (\<lambda>p.
      if curT p \<noteq> TokenService then Inl (PlainError ''expected SERVICE'' []) else
      andThen (nextToken p) (\<lambda>p.
      andThen (parseQuotedString p) (\<lambda>serviceName.
      let cmd = NewCommand ''admin_restart_service'' in
      let cmd = set_param ''service_name'' (GStr serviceName) cmd in
      andThen (nextToken p) (\<lambda>p.
      andThen (optSemicolon p) (\<lambda>p.
      Inr (cmd, p)))))))"

definition parseAdminAddModel :: "string \<Rightarrow> string \<Rightarrow> Parser \<Rightarrow> gerror + CliCommand \<times> Parser" where
  "parseAdminAddModel providerName instanceName p =
     (andThen (nextToken p) (\<lambda>p.
      andThen (orError (\<lambda>err. WrapError ''expected model name: %w'' [] err) (parseQuotedString p)) (\<lambda>modelName.
      andThen (nextToken p) (\<lambda>p.
      let cmd = NewCommand ''admin_add_models'' in
      let cmd = set_param ''provider_name'' (GStr providerName) cmd in
      let cmd = set_param ''instance_name'' (GStr instanceName) cmd in
      let cmd = set_param ''model_names'' (strings_val ([modelName])) cmd in
      andThen (optSemicolon p) (\<lambda>p.
      Inr (cmd, p))))))"

definition parseAdminAddModelInstance :: "string \<Rightarrow> Parser \<Rightarrow> gerror + CliCommand \<times> Parser" where
  "parseAdminAddModelInstance providerName p =
     (andThen (nextToken p) (\<lambda>p.
      andThen (orError (\<lambda>err. WrapError ''expected model instance name: %w'' [] err) (parseQuotedString p)) (\<lambda>instanceName.
      andThen (nextToken p) (\<lambda>p.
      if curT p = TokenModel then parseAdminAddModel providerName instanceName p else
      let cmd = NewCommand ''admin_add_model_instance'' in
      let cmd = set_param ''provider_name'' (GStr providerName) cmd in
      let cmd = set_param ''instance_name'' (GStr instanceName) cmd in
      andThen (optSemicolon p) (\<lambda>p.
      Inr (cmd, p))))))"

definition parseAdminAddModelProvider :: "Parser \<Rightarrow> gerror + CliCommand \<times> Parser" where
  "parseAdminAddModelProvider p =
     (andThen (nextToken p) (\<lambda>p.
      andThen (orError (\<lambda>err. WrapError ''expected provider name: %w'' [] err) (parseQuotedString p)) (\<lambda>providerName.
      andThen (nextToken p) (\<lambda>p.
      if curT p = TokenInstance then parseAdminAddModelInstance providerName p else
      let cmd = NewCommand ''admin_add_provider'' in
      let cmd = set_param ''provider_name'' (GStr providerName) cmd in
      andThen (optSemicolon p) (\<lambda>p.
      Inr (cmd, p))))))"

definition parseAdminAddCommand :: "Parser \<Rightarrow> gerror + CliCommand \<times> Parser" where
  "parseAdminAddCommand p =
     (andThen (nextToken p) (\<lambda>p.
      if curT p = TokenAPI then parseAddAPIServer p
      else if curT p = TokenAdmin then parseAddAdminServer p
      else if curT p = TokenProvider then parseAdminAddModelProvider p
      else Inl (PlainError ''unknown ADD target: %s'' [curV p])))"

definition parseAdminDeleteModel :: "string \<Rightarrow> string \<Rightarrow> Parser \<Rightarrow> gerror + CliCommand \<times> Parser" where
  "parseAdminDeleteModel providerName instanceName p =
     (andThen (nextToken p) (\<lambda>p.
      andThen (orError (\<lambda>err. WrapError ''expected model name: %w'' [] err) (parseQuotedString p)) (\<lambda>modelName.
      andThen (nextToken p) (\<lambda>p.
      let cmd = NewCommand ''admin_delete_model'' in
      let cmd = set_param ''provider_name'' (GStr providerName) cmd in
      let cmd = set_param ''instance_name'' (GStr instanceName) cmd in
      let cmd = set_param ''model_names'' (strings_val ([modelName])) cmd in
      andThen (optSemicolon p) (\<lambda>p.
      Inr (cmd, p))))))"

definition parseAdminDeleteModelInstance :: "string \<Rightarrow> Parser \<Rightarrow> gerror + CliCommand \<times> Parser" where
  "parseAdminDeleteModelInstance providerName p =
     (andThen (nextToken p) (\<lambda>p.
      andThen (orError (\<lambda>err. WrapError ''expected model instance name: %w'' [] err) (parseQuotedString p)) (\<lambda>instanceName.
      andThen (nextToken p) (\<lambda>p.
      if curT p = TokenModel then parseAdminDeleteModel providerName instanceName p else
      let cmd = NewCommand ''admin_delete_model_instance'' in
      let cmd = set_param ''provider_name'' (GStr providerName) cmd in
      let cmd = set_param ''instance_names'' (strings_val ([instanceName])) cmd in
      andThen (optSemicolon p) (\<lambda>p.
      Inr (cmd, p))))))"

definition parseAdminDeleteProvider :: "Parser \<Rightarrow> gerror + CliCommand \<times> Parser" where
  "parseAdminDeleteProvider p =
     (andThen (nextToken p) (\<lambda>p.
      andThen (orError (\<lambda>err. WrapError ''expected provider name: %w'' [] err) (parseQuotedString p)) (\<lambda>providerName.
      andThen (nextToken p) (\<lambda>p.
      if curT p = TokenInstance then parseAdminDeleteModelInstance providerName p else
      let cmd = NewCommand ''admin_delete_model_providers'' in
      let cmd = set_param ''provider_names'' (strings_val ([providerName])) cmd in
      andThen (optSemicolon p) (\<lambda>p.
      Inr (cmd, p))))))"

definition parseAdminDeleteSoftFingerprint :: "Parser \<Rightarrow> gerror + CliCommand \<times> Parser" where
  "parseAdminDeleteSoftFingerprint p =
     (andThen (nextToken p) (\<lambda>p.
      if curT p \<noteq> TokenFingerprint then Inl (PlainError ''expected FINGERPRINT after SOFT'' []) else
      andThen (nextToken p) (\<lambda>p.
      let cmd = NewCommand ''admin_delete_soft_fingerprint'' in
      andThen (optSemicolon p) (\<lambda>p.
      Inr (cmd, p)))))"

definition parseAdminDeleteCommands :: "Parser \<Rightarrow> gerror + CliCommand \<times> Parser" where
  "parseAdminDeleteCommands p =
     (andThen (nextToken p) (\<lambda>p.
      if curT p = TokenAPI then parseAPIDeleteAPIServer p
      else if curT p = TokenAdmin then parseAPIDeleteAdminServer p
      else if curT p = TokenProvider then parseAdminDeleteProvider p
      else if curT p = TokenSoft then parseAdminDeleteSoftFingerprint p
      else Inl (PlainError ''unknown ADD target: %s'' [curV p])))"

definition parseAdminEnableModel :: "Parser \<Rightarrow> gerror + CliCommand \<times> Parser" where
  "parseAdminEnableModel p =
     (andThen (nextToken p) (\<lambda>p.
      andThen (orError (\<lambda>err. WrapError ''expected provider name: %w'' [] err) (parseQuotedString p)) (\<lambda>providerName.
      andThen (nextToken p) (\<lambda>p.
      if curT p \<noteq> TokenInstance then Inl (PlainError ''expected INSTANCE'' []) else
      andThen (nextToken p) (\<lambda>p.
      andThen (orError (\<lambda>err. WrapError ''expected model instance name: %w'' [] err) (parseQuotedString p)) (\<lambda>instanceName.
      andThen (nextToken p) (\<lambda>p.
      if curT p \<noteq> TokenModel then Inl (PlainError ''expected MODEL'' []) else
      andThen (nextToken p) (\<lambda>p.
      andThen (orError (\<lambda>err. WrapError ''expected model name: %w'' [] err) (parseQuotedString p)) (\<lambda>modelName.
      andThen (nextToken p) (\<lambda>p.
      let cmd = NewCommand ''admin_enable_model'' in
      let cmd = set_param ''provider_name'' (GStr providerName) cmd in
      let cmd = set_param ''instance_name'' (GStr instanceName) cmd in
      let cmd = set_param ''model_name'' (GStr modelName) cmd in
      andThen (optSemicolon p) (\<lambda>p.
      Inr (cmd, p))))))))))))"

definition parseAdminEnableCommand :: "Parser \<Rightarrow> gerror + CliCommand \<times> Parser" where
  "parseAdminEnableCommand p =
     (andThen (nextToken p) (\<lambda>p.
      if curT p = TokenProvider then parseAdminEnableModel p else Inl (PlainError ''unknown ENABLE target: %s'' [curV p])))"

definition parseAdminDisableModel :: "Parser \<Rightarrow> gerror + CliCommand \<times> Parser" where
  "parseAdminDisableModel p =
     (andThen (nextToken p) (\<lambda>p.
      andThen (orError (\<lambda>err. WrapError ''expected provider name: %w'' [] err) (parseQuotedString p)) (\<lambda>providerName.
      andThen (nextToken p) (\<lambda>p.
      if curT p \<noteq> TokenInstance then Inl (PlainError ''expected INSTANCE'' []) else
      andThen (nextToken p) (\<lambda>p.
      andThen (orError (\<lambda>err. WrapError ''expected model instance name: %w'' [] err) (parseQuotedString p)) (\<lambda>instanceName.
      andThen (nextToken p) (\<lambda>p.
      if curT p \<noteq> TokenModel then Inl (PlainError ''expected MODEL'' []) else
      andThen (nextToken p) (\<lambda>p.
      andThen (orError (\<lambda>err. WrapError ''expected model name: %w'' [] err) (parseQuotedString p)) (\<lambda>modelName.
      andThen (nextToken p) (\<lambda>p.
      let cmd = NewCommand ''admin_disable_model'' in
      let cmd = set_param ''provider_name'' (GStr providerName) cmd in
      let cmd = set_param ''instance_name'' (GStr instanceName) cmd in
      let cmd = set_param ''model_name'' (GStr modelName) cmd in
      andThen (optSemicolon p) (\<lambda>p.
      Inr (cmd, p))))))))))))"

definition parseAdminDisableCommand :: "Parser \<Rightarrow> gerror + CliCommand \<times> Parser" where
  "parseAdminDisableCommand p =
     (andThen (nextToken p) (\<lambda>p.
      if curT p = TokenProvider then parseAdminDisableModel p else Inl (PlainError ''unknown DISABLE target: %s'' [curV p])))"

definition parseAdminSaveConfig :: "Parser \<Rightarrow> gerror + CliCommand \<times> Parser" where
  "parseAdminSaveConfig p =
     (andThen (nextToken p) (\<lambda>p.
      if curT p \<noteq> TokenAs then Inl (PlainError ''expected AS after CONFIG'' []) else
      andThen (nextToken p) (\<lambda>p.
      andThen (parseQuotedString p) (\<lambda>path.
      let cmd = NewCommand ''admin_save_config_command'' in
      let cmd = set_param ''path'' (GStr path) cmd in
      andThen (optSemicolon p) (\<lambda>p.
      Inr (cmd, p))))))"

definition parseAdminSaveCommand :: "Parser \<Rightarrow> gerror + CliCommand \<times> Parser" where
  "parseAdminSaveCommand p =
     (andThen (nextToken p) (\<lambda>p.
      if curT p = TokenConfig then parseAdminSaveConfig p else Inl (PlainError ''unknown ADD target: %s'' [curV p])))"

definition parseAdminUseAPIServer :: "Parser \<Rightarrow> gerror + CliCommand \<times> Parser" where
  "parseAdminUseAPIServer p =
     (andThen (nextToken p) (\<lambda>p.
      andThen (parseQuotedString p) (\<lambda>serverName.
      andThen (nextToken p) (\<lambda>p.
      let cmd = NewCommand ''admin_use_api_server'' in
      let cmd = set_param ''server_name'' (GStr serverName) cmd in
      andThen (optSemicolon p) (\<lambda>p.
      Inr (cmd, p))))))"

definition parseAdminUseAdminServer :: "Parser \<Rightarrow> gerror + CliCommand \<times> Parser" where
  "parseAdminUseAdminServer p =
     (andThen (nextToken p) (\<lambda>p.
      let cmd = NewCommand ''admin_use_admin_server'' in
      andThen (optSemicolon p) (\<lambda>p.
      Inr (cmd, p))))"

definition parseAdminUseCommand :: "Parser \<Rightarrow> gerror + CliCommand \<times> Parser" where
  "parseAdminUseCommand p =
     (andThen (nextToken p) (\<lambda>p.
      if curT p = TokenAPI then parseAdminUseAPIServer p
      else if curT p = TokenAdmin then parseAdminUseAdminServer p
      else Inl (PlainError ''expected API or ADMIN after USE'' [])))"

definition parseStartIngestion :: "Parser \<Rightarrow> gerror + CliCommand \<times> Parser" where
  "parseStartIngestion p =
     (andThen (nextToken p) (\<lambda>p.
      if curT p \<noteq> TokenIngestion then Inl (PlainError ''expect INGESTION'' []) else
      andThen (nextToken p) (\<lambda>p.
      andThen (parseQuotedString p) (\<lambda>uri.
      let cmd = NewCommand ''admin_start_ingestion_command'' in
      let cmd = set_param ''uri'' (GStr uri) cmd in
      andThen (nextToken p) (\<lambda>p.
      andThen (optSemicolon p) (\<lambda>p.
      Inr (cmd, p)))))))"

definition parseAdminIngestCommand :: "Parser \<Rightarrow> gerror + CliCommand \<times> Parser" where
  "parseAdminIngestCommand p =
     (andThen (nextToken p) (\<lambda>p.
      andThen (parseQuotedString p) (\<lambda>uri.
      let cmd = NewCommand ''admin_ingest_command'' in
      let cmd = set_param ''uri'' (GStr uri) cmd in
      andThen (nextToken p) (\<lambda>p.
      andThen (optSemicolon p) (\<lambda>p.
      Inr (cmd, p))))))"

definition parseMessageQueueCommand :: "Parser \<Rightarrow> gerror + CliCommand \<times> Parser" where
  "parseMessageQueueCommand p =
     (andThen (nextToken p) (\<lambda>p.
      andThen (
        if curT p = TokenShow then
          andThen (nextToken p) (\<lambda>p.
          let cmd = NewCommand ''user_show_message_queue_command'' in
          Inr (cmd, p))
        else if curT p = TokenList then
          andThen (nextToken p) (\<lambda>p.
          let cmd = NewCommand ''user_list_message_queue_command'' in
          if curT p = TokenPending then
            let cmd = set_param ''pending'' (GBool True) cmd in
            andThen (nextToken p) (\<lambda>p.
            Inr (cmd, p))
          else
            let cmd = set_param ''pending'' (GBool False) cmd in
            Inr (cmd, p))
        else if curT p = TokenPublish then
          andThen (nextToken p) (\<lambda>p.
          andThen (orError (\<lambda>err. PlainError ''expected message after PUBLISH'' []) (parseQuotedString p)) (\<lambda>message.
          andThen (nextToken p) (\<lambda>p.
          let cmd = NewCommand ''user_publish_message_command'' in
          let cmd = set_param ''message'' (GStr message) cmd in
          Inr (cmd, p))))
        else if curT p = TokenPull then
          andThen (nextToken p) (\<lambda>p.
          andThen (case parseNumber p of
            Inl _ \<Rightarrow>
              let messageCount = (1 :: int) in
              Inr (messageCount, p)
            | Inr messageCount \<Rightarrow>
              andThen (nextToken p) (\<lambda>p.
              Inr (messageCount, p))) (\<lambda>(messageCount, p).
          if messageCount \<le> 0 \<or> messageCount > MaxManualPullMessages then
            Inl (PlainError ''message count must be between 1 and %d'' [show_int MaxManualPullMessages])
          else
            let cmd = NewCommand ''user_pull_message_command'' in
            let cmd = set_param ''message_count'' (GInt (of_int messageCount)) cmd in
            if curT p = TokenNoACK then
              let cmd = set_param ''ack_policy'' (GStr ''NOACK'') cmd in
              andThen (nextToken p) (\<lambda>p.
              Inr (cmd, p))
            else
              let cmd = set_param ''ack_policy'' (GStr ''ACK'') cmd in
              Inr (cmd, p)))
        else Inl (PlainError ''expected WITH'' [])) (\<lambda>(cmd, p).
      andThen (optSemicolon p) (\<lambda>p.
      Inr (cmd, p)))))"

definition parseAdminRemoveUserCommand :: "Parser \<Rightarrow> gerror + CliCommand \<times> Parser" where
  "parseAdminRemoveUserCommand p =
     (andThen (nextToken p) (\<lambda>p.
      andThen (parseQuotedString p) (\<lambda>userName.
      andThen (nextToken p) (\<lambda>p.
      if curT p = TokenIngestion then parseAdminRemoveUserIngestionTasks userName p else Inl (PlainError ''expected INGESTION after USER'' [])))))"

definition parseAdminRemoveCommands :: "Parser \<Rightarrow> gerror + CliCommand \<times> Parser" where
  "parseAdminRemoveCommands p =
     (andThen (nextToken p) (\<lambda>p.
      if curT p = TokenIngestion then parseAdminRemoveIngestionTasks p
      else if curT p = TokenUser then parseAdminRemoveUserCommand p
      else Inl (PlainError ''expected SERVICE'' [])))"

definition parseAdminPurgeOrphanCommand :: "bool \<Rightarrow> Parser \<Rightarrow> gerror + CliCommand \<times> Parser" where
  "parseAdminPurgeOrphanCommand preview p =
     (andThen (nextToken p) (\<lambda>p.
      let cmd = NewCommand ''admin_purge_orphan_command'' in
      let cmd = set_param ''preview'' (GBool preview) cmd in
      Inr (cmd, p)))"

definition parseAdminPurgeUserCommand :: "bool \<Rightarrow> Parser \<Rightarrow> gerror + CliCommand \<times> Parser" where
  "parseAdminPurgeUserCommand preview p =
     (andThen (nextToken p) (\<lambda>p.
      andThen (parseQuotedString p) (\<lambda>userName.
      let cmd = NewCommand ''admin_purge_user_command'' in
      let cmd = set_param ''preview'' (GBool preview) cmd in
      let cmd = set_param ''user_name'' (GStr userName) cmd in
      Inr (cmd, p))))"

definition parseAdminPurgeUsersCommand :: "bool \<Rightarrow> Parser \<Rightarrow> gerror + CliCommand \<times> Parser" where
  "parseAdminPurgeUsersCommand preview p =
     (andThen (nextToken p) (\<lambda>p.
      let userStatus = (None :: string option) in
      let days = (None :: int option) in
      let planName = (None :: string option) in
      andThen (ploop (\<lambda>(days, planName, userStatus) p.
        if curT p = TokenPlan then
          andThen (nextToken p) (\<lambda>p.
          if planName \<noteq> None then Inl (PlainError ''duplicate PLAN after USERS'' []) else
          andThen (parseQuotedString p) (\<lambda>plan.
          let planName = Some plan in
          andThen (nextToken p) (\<lambda>p.
          Inr (True, (days, planName, userStatus), p))))
        else if curT p = TokenDays then
          andThen (nextToken p) (\<lambda>p.
          if days \<noteq> None then Inl (PlainError ''duplicate DAYS after USERS'' []) else
          andThen (parseNumber p) (\<lambda>dayCount.
          let days = Some dayCount in
          andThen (nextToken p) (\<lambda>p.
          Inr (True, (days, planName, userStatus), p))))
        else if curT p = TokenInactive then
          andThen (nextToken p) (\<lambda>p.
          if userStatus \<noteq> None then Inl (PlainError ''duplicate INACTIVE or ACTIVE after USERS'' []) else
          let inactiveStatus = ''inactive'' in
          let userStatus = Some inactiveStatus in
          Inr (True, (days, planName, userStatus), p))
        else if curT p = TokenActive then
          andThen (nextToken p) (\<lambda>p.
          if userStatus \<noteq> None then Inl (PlainError ''duplicate INACTIVE or ACTIVE after USERS'' []) else
          let activeStatus = ''active'' in
          let userStatus = Some activeStatus in
          Inr (True, (days, planName, userStatus), p))
        else if curT p = TokenSemicolon then
          andThen (nextToken p) (\<lambda>p.
          Inr (False, (days, planName, userStatus), p))
        else Inr (False, (days, planName, userStatus), p)) (days, planName, userStatus) p) (\<lambda>((days, planName, userStatus), p).
      let cmd = NewCommand ''admin_purge_users_command'' in
      let cmd = set_param ''preview'' (GBool preview) cmd in
      let cmd = (if planName \<noteq> None then set_param ''plan_name'' (GStr (the planName)) cmd else cmd) in
      let cmd = (if userStatus \<noteq> None then set_param ''user_status'' (GStr (the userStatus)) cmd else cmd) in
      let cmd = (if days \<noteq> None then set_param ''days'' (GInt (of_int (the days))) cmd else cmd) in
      Inr (cmd, p))))"

definition parseAdminPurgeCommand :: "Parser \<Rightarrow> gerror + CliCommand \<times> Parser" where
  "parseAdminPurgeCommand p =
     (andThen (nextToken p) (\<lambda>p.
      let preview = False in
      andThen (
        if curT p = TokenPreview then
          andThen (nextToken p) (\<lambda>p.
          let preview = True in
          Inr (preview, p))
        else Inr (preview, p)) (\<lambda>(preview, p).
      if curT p = TokenOrphan then parseAdminPurgeOrphanCommand preview p
      else if curT p = TokenUser then parseAdminPurgeUserCommand preview p
      else if curT p = TokenUsers then parseAdminPurgeUsersCommand preview p
      else Inl (PlainError ''expected PREVIEW, USER, USERS after PURGE'' []))))"

definition parseAdminCommand :: "Parser \<Rightarrow> gerror + CliCommand \<times> Parser" where
  "parseAdminCommand p =
     (if curT p = TokenLogin then parseAdminLoginUser p
      else if curT p = TokenLogout then parseAdminLogout p
      else if curT p = TokenPing then parseAdminPingServer p
      else if curT p = TokenLive then parseAdminLiveServer p
      else if curT p = TokenHealth then parseAdminHealthServer p
      else if curT p = TokenList then parseAdminListCommands p
      else if curT p = TokenShow then parseAdminShowCommands p
      else if curT p = TokenStats then parseAdminStatsCommands p
      else if curT p = TokenCheck then parseAdminCheck p
      else if curT p = TokenCreate then parseAdminCreateCommand p
      else if curT p = TokenDrop then parseAdminDropCommands p
      else if curT p = TokenAlter then parseAdminAlterCommands p
      else if curT p = TokenGrant then parseAdminGrantCommands p
      else if curT p = TokenRevoke then parseAdminRevokeCommands p
      else if curT p = TokenSet then parseAdminSetCommand p
      else if curT p = TokenReset then parseAdminResetCommand p
      else if curT p = TokenBenchmark then parseAdminBenchmarkCommand p
      else if curT p = TokenStart then parseAdminStartService p
      else if curT p = TokenShutdown then parseAdminShutdownCommands p
      else if curT p = TokenRestart then parseAdminRestart p
      else if curT p = TokenMQ then parseMessageQueueCommand p
      else if curT p = TokenRemove then parseAdminRemoveCommands p
      else if curT p = TokenStop then parseAdminStopCommands p
      else if curT p = TokenAdd then parseAdminAddCommand p
      else if curT p = TokenDelete then parseAdminDeleteCommands p
      else if curT p = TokenEnable then parseAdminEnableCommand p
      else if curT p = TokenDisable then parseAdminDisableCommand p
      else if curT p = TokenSave then parseAdminSaveCommand p
      else if curT p = TokenUse then parseAdminUseCommand p
      else if curT p = TokenPurge then parseAdminPurgeCommand p
      else Inl (PlainError ''unknown command: %s'' [curV p]))"

end
