(* ===== verification/CliRun.thy ===== *)
theory CliRun
  imports CliAdminEdit
begin

text \<open>
  From a line to a command and from a command to the method that runs it: \<^verbatim>\<open>Parse\<close> (\<^verbatim>\<open>cli/parser.go\<close>), the tables of commands
  (\<^verbatim>\<open>cli/cli_http.go\<close>), \<^verbatim>\<open>execute\<close> and the commands that start with a backslash (\<^verbatim>\<open>cli/cli.go\<close>), and the errors as they are shown.
  The methods that send requests to a server are an argument \<open>call\<close>, by name; whether a text is JSON is the argument \<open>json_ok\<close>.
\<close>

section \<open>Parsing a line\<close>

abbreviation (input) APIMode :: string where "APIMode \<equiv> ''api''"
abbreviation (input) AdminMode :: string where "AdminMode \<equiv> ''admin''"

definition parseMetaCommand :: "Parser \<Rightarrow> gerror + CliCommand \<times> Parser" where
  "parseMetaCommand p =
     (let cmd = NewCommand ''meta'';
          cmdName = (if take 1 (curV p) = [CHR 0x5C] then drop 1 (curV p) else curV p);
          cmd = set_param ''command'' (GStr (ToLower cmdName)) cmd
      in andThen (nextToken p) (\<lambda>p.
         andThen (ploop (\<lambda>args p.
           if curT p \<noteq> TokenEOF then andThen (nextToken p) (\<lambda>p'. Inr (True, args @ [curV p], p'))
           else Inr (False, args, p)) [] p) (\<lambda>(args, p).
         Inr (set_param ''args'' (strings_val args) cmd, p))))"

definition parseCommand :: "(string \<Rightarrow> bool) \<Rightarrow> string \<Rightarrow> Parser \<Rightarrow> gerror + CliCommand \<times> Parser" where
  "parseCommand json_ok cliMode p =
     (if curT p \<noteq> TokenIdentifier \<and> \<not> isKeyword (curT p) then Inl (PlainError ''expected command, got %s'' [curV p])
      else if cliMode = AdminMode then parseAdminCommand p
      else if cliMode = APIMode then parseUserCommand json_ok p
      else Inl (PlainError ''unknown mode: %s'' [cliMode]))"

definition Parse :: "(string \<Rightarrow> bool) \<Rightarrow> string \<Rightarrow> Parser \<Rightarrow> gerror + (CliCommand \<times> Parser) option" where
  "Parse json_ok cliMode p =
     (if curT p = TokenEOF then Inr None
      else if curT p = TokenIdentifier \<and> take 1 (curV p) = [CHR 0x5C] then andThen (parseMetaCommand p) (\<lambda>r. Inr (Some r))
      else andThen (parseCommand json_ok cliMode p) (\<lambda>r. Inr (Some r)))"

section \<open>Running a command\<close>

definition admin_commands1 :: "(string \<times> string) list" where
  "admin_commands1 = [
    (''admin_login_user'', ''LoginUserByCommand''), (''admin_logout'', ''Logout''), (''admin_ping_store'', ''AdminPingStoreCommand''),
    (''admin_ping_engine'', ''AdminPingEngineCommand''), (''admin_ping_mq'', ''AdminPingMQCommand''),
    (''admin_ping_cache'', ''AdminPingCacheCommand''), (''admin_ping_server'', ''PingServerByCommand''),
    (''admin_live_server'', ''AdminLiveServerCommand''), (''admin_health_server'', ''AdminHealthServerCommand''),
    (''benchmark'', ''RunBenchmark''), (''admin_list_services'', ''AdminListServicesCommand''),
    (''admin_start_service'', ''AdminStartServiceCommand''), (''admin_restart_service'', ''AdminRestartServiceCommand''),
    (''admin_shutdown_service'', ''AdminShutdownServiceCommand''), (''admin_grant_user_admin'', ''AdminGrantUserAdminCommand''),
    (''admin_revoke_user_admin'', ''AdminRevokeUserAdminCommand''), (''admin_grant_role_permission'', ''AdminGrantRolePermissionCommand''),
    (''admin_revoke_role_permission'', ''AdminRevokeRolePermissionCommand''),
    (''admin_show_role_permission'', ''AdminShowRolePermissionCommand''), (''admin_create_user'', ''AdminCreateUserCommand''),
    (''admin_create_user_api_key'', ''AdminCreateUserAPIKeyCommand''), (''admin_create_role'', ''AdminCreateRoleCommand''),
    (''admin_activate_user'', ''AdminActivateUser''), (''admin_alter_user'', ''AdminAlterUserPassword''),
    (''admin_alter_role'', ''AdminAlterRole''), (''admin_alter_provider_instance'', ''CommonAlterProviderInstanceCommand''),
    (''admin_drop_user'', ''AdminDropUserCommand''), (''admin_drop_user_api_key'', ''AdminDropUserAPIKeyCommand''),
    (''admin_drop_role'', ''AdminDropRoleCommand''), (''admin_show_service'', ''AdminShowService''),
    (''admin_show_version_command'', ''AdminShowVersionCommand''), (''admin_show_current'', ''CommonShowCurrentCommand''),
    (''admin_list_variables'', ''AdminListVariablesCommand''), (''admin_list_configs'', ''AdminListConfigsCommand''),
    (''admin_list_environments'', ''AdminListEnvironmentsCommand''), (''admin_show_variable'', ''AdminShowVariable''),
    (''admin_set_license'', ''AdminSetLicenseCommand''), (''admin_set_soft_fingerprint'', ''AdminSetSoftFingerprintCommand''),
    (''admin_set_license_config'', ''AdminSetLicenseConfigCommand''), (''admin_set_variable'', ''AdminSetVariableCommand''),
    (''admin_set_role_default_model'', ''AdminSetRoleDefaultModelsCommand''), (''admin_set_log_level'', ''AdminSetLogLevelCommand''),
    (''admin_reset_role_default_model'', ''AdminResetRoleDefaultModelsCommand''),
    (''admin_list_resources_command'', ''AdminListResourcesCommand''), (''admin_list_roles_command'', ''AdminListRolesCommand''),
    (''admin_list_available_providers'', ''CommonAvailableProvidersCommand''), (''admin_show_provider'', ''CommonShowProviderCommand''),
    (''admin_show_provider_instance'', ''CommonShowProviderInstanceCommand''),
    (''admin_show_provider_instance_balance'', ''CommonShowProviderInstanceBalanceCommand''),
    (''admin_show_provider_model'', ''CommonShowProviderModelCommand''), (''admin_list_provider_models'', ''CommonListModelsCommand''),
    (''admin_list_provider_instance_models'', ''CommonListInstanceModelsCommand''),
    (''admin_list_provider_instances'', ''CommonListProviderInstancesCommand''), (''admin_show_model'', ''CommonShowModelCommand''),
    (''admin_list_providers'', ''AdminListProvidersCommand''), (''admin_list_all_models'', ''CommonListAllModels''),
    (''list_admin_tasks'', ''ListAdminTasks''), (''admin_list_ingestors'', ''ListAdminIngestors''),
    (''admin_stop_ingestion_tasks'', ''AdminStopIngestionCommand''), (''admin_remove_ingestion_tasks'', ''AdminRemoveIngestionCommand''),
    (''admin_shutdown_ingestor_command'', ''AdminShutdownIngestor''), (''list_admin_ingestion_tasks'', ''ListAdminIngestionTasks''),
    (''admin_show_ingestion_log'', ''AdminShowIngestionLogCommand''),
    (''admin_show_ingestion_messages'', ''AdminShowIngestionMessagesCommand''),
    (''user_list_message_queue_command'', ''UserListMessageQueueCommand''), (''user_publish_message_command'', ''UserPublishMessageCommand''),
    (''user_pull_message_command'', ''UserPullMessageCommand''), (''user_show_message_queue_command'', ''UserShowMessageQueueCommand''),
    (''admin_check_license'', ''AdminCheckLicenseCommand'')]"

definition admin_commands2 :: "(string \<times> string) list" where
  "admin_commands2 = [
    (''admin_verify_license'', ''AdminVerifyLicenseCommand''), (''admin_check_provider_with_key'', ''CommonCheckProviderWithKeyCommand''),
    (''admin_check_provider_instance'', ''CommonCheckProviderConnectionCommand''),
    (''admin_show_fingerprint'', ''AdminShowFingerprintCommand''), (''admin_show_soft_fingerprint'', ''AdminShowSoftFingerprintCommand''),
    (''admin_show_license'', ''AdminShowLicenseCommand''), (''admin_show_user'', ''AdminShowUserCommand''),
    (''admin_show_role'', ''AdminShowRoleCommand''), (''admin_show_role_default_models'', ''AdminShowRoleDefaultModelsCommand''),
    (''admin_show_user_activity_command'', ''AdminShowUserActivityCommand''),
    (''admin_show_user_summary_command'', ''AdminShowUserSummaryCommand''),
    (''admin_show_user_dataset_command'', ''AdminShowUserDatasetCommand''),
    (''admin_show_user_storage_command'', ''AdminShowUserStorageCommand''),
    (''admin_show_user_quota_command'', ''AdminShowUserQuotaCommand''), (''admin_show_user_index_command'', ''AdminShowUserIndexCommand''),
    (''admin_show_user_permission_command'', ''AdminShowUserPermissionCommand''),
    (''admin_show_users_summary_command'', ''AdminShowUsersSummaryCommand''),
    (''admin_show_users_activity_command'', ''AdminShowUsersActivityCommand''),
    (''admin_show_users_plan_summary'', ''AdminShowUsersPlanSummaryCommand''),
    (''admin_show_users_plan_quota'', ''AdminShowUsersPlanQuotaCommand''), (''admin_stats_user'', ''AdminStatsUserCommand''),
    (''admin_stats_users'', ''AdminStatsUsersCommand''), (''admin_stats_summary'', ''AdminStatsSummaryCommand''),
    (''admin_list_users_command'', ''AdminListUsersCommand''), (''admin_list_users_condition_command'', ''AdminListUsersConditionCommand''),
    (''admin_show_quota_summary'', ''AdminShowQuotaSummaryCommand''), (''admin_show_tasks_summary'', ''AdminShowTasksSummaryCommand''),
    (''admin_show_data_summary'', ''AdminShowDataSummaryCommand''), (''admin_show_data_orphan'', ''AdminShowDataOrphanCommand''),
    (''admin_show_data_storage'', ''AdminShowDataStorageCommand''), (''admin_show_data_index'', ''AdminShowDataIndexCommand''),
    (''admin_purge_orphan_command'', ''AdminPurgeOrphanCommand''), (''admin_purge_user_command'', ''AdminPurgeUserCommand''),
    (''admin_purge_users_command'', ''AdminPurgeUsersCommand''),
    (''admin_list_user_ingestion_tasks'', ''AdminListUserIngestionTasksCommand''),
    (''admin_list_user_datasets'', ''AdminListUserDatasetsCommand''), (''admin_list_user_agents'', ''AdminListUserAgentsCommand''),
    (''admin_list_user_chats'', ''AdminListUserChatsCommand''), (''admin_list_user_searches'', ''AdminListUserSearchesCommand''),
    (''admin_list_user_models'', ''AdminListUserModelsCommand''), (''admin_list_user_files'', ''AdminListUserFilesCommand''),
    (''admin_list_user_keys'', ''AdminListUserKeysCommand''), (''admin_list_user_providers'', ''AdminListUserProvidersCommand''),
    (''admin_list_user_provider_instances'', ''AdminListUserProviderInstancesCommand''),
    (''admin_list_user_provider_instance_models'', ''AdminListUserProviderInstanceModelsCommand''),
    (''admin_list_user_default_models'', ''AdminListUserDefaultModelsCommand''),
    (''admin_list_user_operation_logs'', ''AdminListUserLogsCommand''),
    (''admin_stop_user_ingestion_tasks_command'', ''AdminStopUserIngestionTasksCommand''),
    (''admin_remove_user_ingestion_tasks_command'', ''AdminRemoveUserIngestionTasksCommand''),
    (''admin_add_provider'', ''AdminAddProviderCommand''), (''admin_add_model_instance'', ''AdminAddModelInstanceCommand''),
    (''admin_add_models'', ''AdminAddModelsCommand''), (''admin_delete_model_providers'', ''AdminDeleteProvidersCommand''),
    (''admin_delete_model_instance'', ''AdminDeleteInstancesCommand''), (''admin_delete_model'', ''AdminDeleteModelsCommand''),
    (''admin_delete_soft_fingerprint'', ''AdminDeleteSoftFingerprintCommand''),
    (''admin_enable_model'', ''CommonEnableOrDisableModelCommand''), (''admin_disable_model'', ''CommonEnableOrDisableModelCommand''),
    (''admin_show_admin_server'', ''CommonShowAdminServerCommand''), (''admin_show_api_server'', ''CommonShowAPIServerCommand''),
    (''admin_show_log_level'', ''AdminShowLogLevelCommand''), (''admin_show_hardware'', ''CommonShowHardwareCommand''),
    (''admin_list_api_servers'', ''CommonListAPIServersCommand''), (''api_add_api_server'', ''AddAPIServerCommand''),
    (''api_delete_api_server'', ''DeleteAPIServerCommand''), (''admin_save_config_command'', ''CommonSaveServerConfigCommand''),
    (''admin_use_api_server'', ''CommonUseAPIServerCommand''), (''admin_use_admin_server'', ''CommonUseAdminServerCommand''),
    (''admin_list_bucket_objects'', ''AdminListBucketObjects'')]"

definition user_commands1 :: "(string \<times> string) list" where
  "user_commands1 = [
    (''api_register_user'', ''RegisterUser''), (''api_login_user'', ''LoginUserByCommand''), (''api_logout'', ''Logout''),
    (''api_ping_server'', ''PingServerByCommand''), (''api_set_log_level'', ''APISetLogLevelCommand''),
    (''api_set_cores'', ''APISetCoresCommand''), (''api_set_memory'', ''APISetMemoryCommand''),
    (''api_set_concurrency'', ''APISetConcurrencyCommand''), (''benchmark'', ''RunBenchmark''),
    (''api_list_datasets'', ''APIListDatasetsCommand''), (''api_list_dataset_documents'', ''APIListDatasetDocumentsCommand''),
    (''api_list_dataset_files'', ''APIListDatasetFilesCommand''), (''api_list_agents'', ''APIListAgentsCommand''),
    (''api_list_chats'', ''APIListChatsCommand''), (''api_list_searches'', ''APIListSearchesCommand''),
    (''api_list_memories'', ''APIListMemoriesCommand''), (''search_on_datasets'', ''SearchOnDatasets''),
    (''api_create_api_key'', ''APICreateAPIKeyCommand''), (''api_create_dataset'', ''APICreateDatasetCommand''),
    (''api_create_agent'', ''APICreateAgentCommand''), (''api_create_chat'', ''APICreateChatCommand''),
    (''api_create_search'', ''APICreateSearchCommand''), (''api_create_memory'', ''APICreateMemoryCommand''),
    (''api_create_model_group'', ''APICreateModelGroupCommand''), (''api_create_group'', ''APICreateGroupCommand''),
    (''api_add_group_model'', ''APIAddGroupModelCommand''), (''api_list_api_keys'', ''APIListAPIKeysCommand''),
    (''api_delete_api_key'', ''APIDeleteAPIKeyCommand''), (''api_set_api_key'', ''APISetAPIKeyCommand''),
    (''api_unset_api_key'', ''APIUnsetAPIKeyCommand''), (''api_show_version'', ''APIShowVersionCommand''),
    (''api_show_api_key'', ''APIShowAPIKeyCommand''), (''api_show_current'', ''CommonShowCurrentCommand''),
    (''api_list_available_providers'', ''CommonAvailableProvidersCommand''), (''api_show_provider'', ''CommonShowProviderCommand''),
    (''api_show_provider_instance'', ''CommonShowProviderInstanceCommand''),
    (''api_show_provider_instance_balance'', ''CommonShowProviderInstanceBalanceCommand''),
    (''api_show_provider_instance_task'', ''APIShowProviderInstanceTaskCommand''),
    (''api_show_provider_model'', ''CommonShowProviderModelCommand''), (''api_list_provider_models'', ''CommonListModelsCommand''),
    (''api_list_provider_instance_models'', ''CommonListInstanceModelsCommand''),
    (''api_list_provider_instance_models_sync'', ''CommonListInstanceModelsSyncCommand''),
    (''api_list_provider_instance_tasks'', ''APIListModelInstanceTasksCommand''), (''api_show_model'', ''CommonShowModelCommand''),
    (''api_list_all_models'', ''CommonListAllModels''), (''api_add_provider'', ''APIAddProviderCommand''),
    (''api_list_providers'', ''APIListProvidersCommand''), (''api_list_groups'', ''APIListGroupsCommand''),
    (''api_delete_provider'', ''APIDeleteProviderCommand''), (''api_delete_model_group'', ''APIDeleteModelGroupCommand''),
    (''api_delete_group_model'', ''APIDeleteGroupModelCommand''), (''api_delete_provider_instance'', ''APIDeleteProviderInstanceCommand''),
    (''api_drop_dataset'', ''APIDropDatasetCommand''), (''api_drop_chat'', ''APIDropChatCommand''),
    (''api_drop_search'', ''APIDropSearchCommand''), (''api_drop_memory'', ''APIDropMemoryCommand''),
    (''api_drop_agent'', ''APIDropAgentCommand''), (''api_add_provider_instance'', ''APIAddProviderInstanceCommand''),
    (''api_list_provider_instances'', ''CommonListProviderInstancesCommand''),
    (''api_alter_provider_instance'', ''CommonAlterProviderInstanceCommand'')]"

definition user_commands2 :: "(string \<times> string) list" where
  "user_commands2 = [
    (''api_delete_provider_instance_model'', ''APIDeleteProviderInstanceModelCommand''),
    (''enable_model'', ''CommonEnableOrDisableModelCommand''), (''disable_model'', ''CommonEnableOrDisableModelCommand''),
    (''api_add_custom_model'', ''APIAddCustomModelCommand''), (''api_chat_to_model'', ''APIChatToModelCommand''),
    (''api_openai_chat'', ''APIOpenaiChatCommand''), (''api_embed_user_text'', ''EmbedUserTextCommand''),
    (''api_rarank_user_document'', ''APIRerankUserDocumentCommand''), (''chat completions'', ''ChatCompletions''),
    (''tts_user_command'', ''APITTSUserCommand''), (''asr_user_command'', ''APIASRUserCommand''),
    (''ocr_user_command'', ''APIOCRUserCommand''), (''api_model_parse_file'', ''APIModelParseFileCommand''),
    (''check_provider_connection'', ''CommonCheckProviderConnectionCommand''),
    (''check_provider_with_key'', ''CommonCheckProviderWithKeyCommand''), (''api_use_model'', ''APIUseModelCommand''),
    (''api_use_api_server'', ''CommonUseAPIServerCommand''), (''api_use_admin_server'', ''CommonUseAdminServerCommand''),
    (''api_set_default_model'', ''APISetDefaultModelCommand''), (''api_reset_default_model'', ''APIResetDefaultModelCommand''),
    (''api_list_default_models'', ''APIListDefaultModelsCommand''), (''api_parse_documents'', ''APIParseDocumentsCommand''),
    (''api_start_ingestion'', ''APIStartIngestionCommand''), (''api_stop_ingestion'', ''APIStopIngestionCommand''),
    (''api_list_ingestion_tasks'', ''APIListIngestionTasks''), (''api_list_sync_logs'', ''APIListSyncLogsCommand''),
    (''api_remove_task'', ''APIRemoveTaskCommand''), (''user_parse_local_file_command'', ''APIParseLocalFileCommand''),
    (''api_show_admin_server'', ''CommonShowAdminServerCommand''), (''api_show_api_server'', ''CommonShowAPIServerCommand''),
    (''api_show_log_level'', ''APIShowLogLevelCommand''), (''api_show_hardware'', ''CommonShowHardwareCommand''),
    (''api_show_cores'', ''APIShowCoresCommand''), (''api_show_memory'', ''APIShowMemoryCommand''),
    (''api_show_concurrency'', ''APIShowConcurrencyCommand''), (''api_show_quota'', ''APIShowQuotaCommand''),
    (''api_show_model_stats'', ''APIShowModelStatsCommand''), (''api_show_group_stats'', ''APIShowGroupStatsCommand''),
    (''api_list_model_groups'', ''APIListModelGroupCommand''), (''api_show_model_group'', ''APIShowModelGroupCommand''),
    (''api_list_api_servers'', ''CommonListAPIServersCommand''), (''api_list_environments'', ''APIListEnvironmentsCommand''),
    (''api_add_api_server'', ''AddAPIServerCommand''), (''api_delete_api_server'', ''DeleteAPIServerCommand''),
    (''api_add_admin_server'', ''AddAdminServerCommand''), (''api_delete_admin_server'', ''DeleteAdminServerCommand''),
    (''api_save_config_command'', ''CommonSaveServerConfigCommand''), (''file_system_command'', ''ExecuteFilesystemCommand''),
    (''dev_chunk'', ''DevChunkCommand''), (''dev_create_chunk_store'', ''DevCreateChunkStoreCommand''),
    (''dev_drop_chunk_store'', ''DevDropChunkStoreCommand''), (''dev_create_metadata_store'', ''DevCreateMetadataStoreCommand''),
    (''dev_drop_metadata_store'', ''DevDropMetadataStoreCommand''), (''dev_update_chunk'', ''DevUpdateChunkCommand''),
    (''dev_get_chunk'', ''DevGetChunkCommand''), (''dev_set_meta'', ''DevSetMetaCommand''), (''dev_delete_meta'', ''DevDeleteMetaCommand''),
    (''dev_remove_chunks'', ''DevRemoveChunksCommand''), (''dev_get_metadata'', ''DevGetMetadataCommand'')]"

definition admin_commands :: "(string \<times> string) list" where
  "admin_commands = admin_commands1 @ admin_commands2"

definition user_commands :: "(string \<times> string) list" where
  "user_commands = user_commands1 @ user_commands2"

record 's CLI =
  cli_Mode :: string
  cli_running :: bool
  cli_client :: 's

type_synonym 's clicall = "string \<Rightarrow> int \<Rightarrow> CliCommand \<Rightarrow> 's CLI \<Rightarrow> gerror option \<times> 's CLI"

definition ExecuteTable :: "(string \<times> string) list \<Rightarrow> 's clicall \<Rightarrow> 's clicall" where
  "ExecuteTable tbl call = (\<lambda>t commandCount cmd c.
     case map_of tbl t of
       Some m \<Rightarrow> call m commandCount cmd c
     | None \<Rightarrow> (Some (PlainError ''command '%s' would be executed with API'' [t]), c))"

definition ExecuteAdminCommand :: "'s clicall \<Rightarrow> int \<Rightarrow> CliCommand \<Rightarrow> 's CLI \<Rightarrow> gerror option \<times> 's CLI" where
  "ExecuteAdminCommand call commandCount cmd c =
     (if cmd_Type cmd = ''api_add_admin_server'' then (Some (PlainError ''cannot add admin server in admin mode'' []), c)
      else if cmd_Type cmd = ''api_delete_admin_server'' then (Some (PlainError ''cannot delete admin server in admin mode'' []), c)
      else ExecuteTable admin_commands call (cmd_Type cmd) commandCount cmd c)"

definition ExecuteUserCommand :: "'s clicall \<Rightarrow> int \<Rightarrow> CliCommand \<Rightarrow> 's CLI \<Rightarrow> gerror option \<times> 's CLI" where
  "ExecuteUserCommand call commandCount cmd c =
     (if cmd_Type cmd \<in> {''search_help'', ''openai_chat_help'', ''chat completions help''} then (None, c)
      else ExecuteTable user_commands call (cmd_Type cmd) commandCount cmd c)"

definition ExecuteCommand :: "'s clicall \<Rightarrow> int \<Rightarrow> CliCommand \<Rightarrow> 's CLI \<Rightarrow> gerror option \<times> 's CLI" where
  "ExecuteCommand call commandCount cmd c =
     (if cli_Mode c = APIMode then ExecuteUserCommand call commandCount cmd c
      else if cli_Mode c = AdminMode then ExecuteAdminCommand call commandCount cmd c
      else (Some (PlainError ''invalid server type: %s'' [cli_Mode c]), c))"

text \<open>The working directory, or the error of asking for it, is the argument \<open>cwd\<close>; what is printed is not kept.\<close>

definition handleMetaCommand :: "gerror + string \<Rightarrow> CliCommand \<Rightarrow> 's CLI \<Rightarrow> gerror option \<times> 's CLI" where
  "handleMetaCommand cwd cmd c =
     (case get_param ''command'' cmd of
        GStr command1 \<Rightarrow>
          if command1 \<in> {''q'', ''quit'', ''exit''} then (None, c\<lparr>cli_running := False\<rparr>)
          else if command1 \<in> {''?'', ''h'', ''help''} then (None, c)
          else if command1 = ''pwd''
          then (case cwd of Inl err \<Rightarrow> (Some (WrapError ''get working directory: %w'' [] err), c) | Inr dir \<Rightarrow> (None, c))
          else (Some (PlainError (''unknown meta command: '' @ [CHR 0x5C] @ ''%s'') [command1]), c)
      | _ \<Rightarrow> (Some (PanicError ''interface conversion''), c))"

definition cli_execute :: "(string \<Rightarrow> bool) \<Rightarrow> 's clicall \<Rightarrow> gerror + string \<Rightarrow> string \<Rightarrow> 's CLI \<Rightarrow> gerror option \<times> 's CLI" where
  "cli_execute json_ok call cwd inp c =
     (case andThen (NewParser inp) (Parse json_ok (cli_Mode c)) of
        Inl err \<Rightarrow> (Some err, c)
      | Inr None \<Rightarrow> (None, c)
      | Inr (Some (cmd, p)) \<Rightarrow> if cmd_Type cmd = ''meta'' then handleMetaCommand cwd cmd c else ExecuteCommand call 1 cmd c)"

text \<open>
  The text of an error as it is shown: every span in single quotes is taken out, with the spaces around it made one.
\<close>

abbreviation (input) quote_char :: char where "quote_char \<equiv> CHR 0x27"

function strip_quoted :: "string \<Rightarrow> string" where
  "strip_quoted msg =
     (let rest = dropWhile (\<lambda>c. c \<noteq> quote_char) msg; after = dropWhile (\<lambda>c. c \<noteq> quote_char) (drop 1 rest)
      in if rest = [] then msg else if after = [] then msg
         else let head1 = rev (dropWhile (\<lambda>c. c = CHR '' '') (rev (takeWhile (\<lambda>c. c \<noteq> quote_char) msg)));
                  tail1 = dropWhile (\<lambda>c. c = CHR '' '') (drop 1 after)
              in strip_quoted (if head1 = [] then tail1 else if tail1 = [] then head1 else head1 @ '' '' @ tail1))"
  by pat_completeness auto
termination
proof (relation "measure length")
  fix msg rest after head1 tail1 :: string
  assume r: "rest = dropWhile (\<lambda>c. c \<noteq> quote_char) msg" "after = dropWhile (\<lambda>c. c \<noteq> quote_char) (drop 1 rest)" "rest \<noteq> []" "after \<noteq> []"
    and h: "head1 = rev (dropWhile (\<lambda>c. c = CHR '' '') (rev (takeWhile (\<lambda>c. c \<noteq> quote_char) msg)))"
    and t: "tail1 = dropWhile (\<lambda>c. c = CHR '' '') (drop 1 after)"
  have "length (takeWhile (\<lambda>c. c \<noteq> quote_char) msg) + length rest = length msg"
    unfolding r(1) by (metis length_append takeWhile_dropWhile_id)
  moreover have "length after \<le> length rest - 1" "length tail1 \<le> length after - 1" "length head1 \<le> length (takeWhile (\<lambda>c. c \<noteq> quote_char) msg)"
    unfolding r(2) t h by (metis length_drop length_dropWhile_le, metis length_drop length_dropWhile_le, metis length_dropWhile_le length_rev)
  moreover have "0 < length rest" "0 < length after"
    using r(3,4) by simp_all
  ultimately have "length head1 + 1 + length tail1 < length msg"
    by linarith
  then show "((if head1 = [] then tail1 else if tail1 = [] then head1 else head1 @ '' '' @ tail1), msg) \<in> measure length"
    by simp
qed simp

declare strip_quoted.simps [simp del]

definition sanitizeCLIError :: "string \<Rightarrow> string" where
  "sanitizeCLIError msg = (let s = TrimSpace (strip_quoted msg) in if s = [] then ''command failed'' else s)"

end
