(* ===== verification/CliProgress.thy ===== *)
theory CliProgress
  imports CliParser "HOL-Library.Sublist"
begin

text \<open>
  How the parsers of the command line client move on: every token read makes what is left of the input shorter, until its end. The
  judgement \<open>ok_res\<close> carries this through the parsers: a parser either fails with an error of the code or returns a result with the
  given property, and its rules, in the collection \<open>parse_rules\<close>, follow the parsers step by step.
\<close>

section \<open>The scanner\<close>

lemma keyword_types:
  assumes "keyword w = Some t"
  shows "t < TokenIdentifier"
proof -
  have "list_all (\<lambda>(w, t). t < TokenIdentifier) (keywords1 @ keywords2 @ keywords3)"
    by (simp add: keywords1_def keywords2_def keywords3_def)
  then show ?thesis
    using map_of_SomeD [OF assms [unfolded keyword_def]] by (auto simp: list_all_iff)
qed

lemma scan_ident_shorter: "scan_ident ident rest = Inr (t, r) \<Longrightarrow> length r \<le> length rest \<and> tk_Type t \<noteq> TokenEOF"
  using length_dropWhile_le [of is_ident "dropWhile is_ws rest"] length_dropWhile_le [of is_ws rest]
  by (auto simp: scan_ident_def dest!: keyword_types split: if_splits option.splits)

lemma scan_number_shorter:
  assumes "scan_number (c # cs) = (t, r)" and "isDigit c"
  shows "length r \<le> length cs \<and> tk_Type t \<noteq> TokenEOF"
proof (cases "dropWhile isDigit cs")
  case Nil
  with assms show ?thesis
    by (auto simp: scan_number_def Let_def)
next
  case (Cons d ds)
  have "length (d # ds) \<le> length cs"
    using length_dropWhile_le [of isDigit cs] unfolding Cons .
  then have "length (dropWhile isDigit ds) \<le> length cs"
    using length_dropWhile_le [of isDigit ds] by simp
  with Cons assms show ?thesis
    by (auto simp: scan_number_def Let_def length_dropWhile_le split: if_splits)
qed

lemma scan_quoted_shorter:
  assumes "scan_quoted q cs = (t, r)"
  shows "length r \<le> length cs \<and> tk_Type t \<noteq> TokenEOF"
proof -
  have le: "length (dropWhile (\<lambda>c. c \<noteq> NULL \<and> c \<noteq> q) cs) \<le> length cs"
    by (rule length_dropWhile_le)
  show ?thesis
  proof (cases "dropWhile (\<lambda>c. c \<noteq> NULL \<and> c \<noteq> q) cs")
    case Nil
    then show ?thesis
      using assms unfolding scan_quoted_def Nil by auto
  next
    case (Cons d ds)
    show ?thesis
      using assms le unfolding scan_quoted_def Cons by (auto split: if_splits)
  qed
qed

lemma punctuation_types: "punctuation c = Some t \<Longrightarrow> t \<noteq> TokenEOF"
  by (auto simp: punctuation_def split: if_splits)

lemma scan_shorter:
  assumes "scan s = Inr (t, r)"
  shows "length r + (if tk_Type t = TokenEOF then 0 else 1) \<le> length s"
proof (cases "dropWhile is_ws s")
  case Nil
  with assms show ?thesis
    unfolding scan_def Nil by auto
next
  case (Cons c cs)
  have len: "length (c # cs) \<le> length s"
    using length_dropWhile_le [of is_ws s] unfolding Cons .
  have id: "length r \<le> length (dropWhile is_ident cs) \<and> tk_Type t \<noteq> TokenEOF"
    if "scan_ident (takeWhile is_ident (c # cs)) (dropWhile is_ident (c # cs)) = Inr (t, r)" and "isLetter c \<or> c = CHR ''_''"
    using scan_ident_shorter [OF that(1)] that(2) by (simp add: is_ident_def split: if_splits)
  note le = len length_dropWhile_le [of is_ident cs] length_dropWhile_le [of "\<lambda>c. isLetter c \<or> c = CHR ''?''" cs]
  show ?thesis
  proof (cases "punctuation c")
    case None
    then show ?thesis
      using assms le id scan_quoted_shorter [of c cs t r] scan_number_shorter [of c cs t r]
      unfolding scan_def Cons by (auto simp: newToken_def split: if_splits)
  next
    case (Some p)
    then show ?thesis
      using assms le punctuation_types [OF Some] unfolding scan_def Cons by (auto simp: newToken_def)
  qed
qed

text \<open>
  What is left is a suffix of what was there. The scanner panics on the word CHUNK at the very end of the input, in upper or lower
  case: the lexer looks for the word after it behind the end.
\<close>

definition ends_chunk :: "string \<Rightarrow> bool" where
  "ends_chunk s \<longleftrightarrow> suffix ''CHUNK'' (ToUpper s)"

lemma suffix_while: "suffix r (dropWhile P s) \<Longrightarrow> suffix r s"
  using suffix_dropWhile suffix_order.trans by blast

lemma scan_number_suffix:
  assumes "scan_number s = (t, r)"
  shows "suffix r s"
proof (rule suffix_while [of _ isDigit])
  show "suffix r (dropWhile isDigit s)"
  proof (cases "dropWhile isDigit s")
    case Nil
    with assms show ?thesis
      unfolding scan_number_def Let_def Nil by simp
  next
    case (Cons c cs)
    with assms suffix_while [of r isDigit cs] show ?thesis
      unfolding scan_number_def Let_def Cons by (auto split: if_splits intro: suffix_ConsI suffix_dropWhile)
  qed
qed

lemma scan_quoted_suffix:
  assumes "scan_quoted q s = (t, r)"
  shows "suffix r s"
proof (rule suffix_while [of _ "\<lambda>c. c \<noteq> NULL \<and> c \<noteq> q"])
  show "suffix r (dropWhile (\<lambda>c. c \<noteq> NULL \<and> c \<noteq> q) s)"
  proof (cases "dropWhile (\<lambda>c. c \<noteq> NULL \<and> c \<noteq> q) s")
    case Nil
    with assms show ?thesis
      unfolding scan_quoted_def Nil by simp
  next
    case (Cons c cs)
    with assms show ?thesis
      unfolding scan_quoted_def Cons by (auto split: if_splits intro: suffix_ConsI)
  qed
qed

lemma scan_ident_suffix: "scan_ident w s = Inr (t, r) \<Longrightarrow> suffix r s"
  using suffix_while [OF suffix_dropWhile [of is_ident "dropWhile is_ws s"]] by (auto simp: scan_ident_def split: if_splits)

lemma scan_suffix:
  assumes "scan s = Inr (t, r)"
  shows "suffix r s"
proof (rule suffix_while [of _ is_ws])
  show "suffix r (dropWhile is_ws s)"
  proof (cases "dropWhile is_ws s")
    case Nil
    with assms show ?thesis
      unfolding scan_def Nil by simp
  next
    case (Cons c cs)
    have w: "suffix r (c # cs)" if "scan_ident (takeWhile is_ident (c # cs)) (dropWhile is_ident (c # cs)) = Inr (t, r)"
      by (rule suffix_while [OF scan_ident_suffix [OF that]])
    have n: "suffix r (c # cs)" if "scan_number (c # cs) = (t, r)"
      by (rule scan_number_suffix [OF that])
    have q: "suffix r (c # cs)" if "scan_quoted c cs = (t, r)"
      using scan_quoted_suffix [OF that] by (rule suffix_ConsI)
    have m: "suffix (dropWhile (\<lambda>c. isLetter c \<or> c = CHR ''?'') cs) (c # cs)" "suffix cs (c # cs)"
      by (auto intro: suffix_ConsI suffix_dropWhile)
    show ?thesis
      using assms w n q m unfolding scan_def Cons by (auto split: if_splits option.splits)
  qed
qed

lemma to_upper_letter: "\<lbrakk>to_upper c = d; 65 \<le> (of_char d :: nat); (of_char d :: nat) \<le> 90\<rbrakk> \<Longrightarrow> isLetter c"
  by (auto simp: to_upper_def isLetter_def Let_def split: if_splits)

lemma chunk_letters: "ToUpper w = ''CHUNK'' \<Longrightarrow> list_all isLetter w"
  by (auto simp: ToUpper_def list_all_iff dest!: to_upper_letter)

lemma not_letters:
  "\<not> isLetter (CHR '';'')" "\<not> isLetter (CHR '','')" "\<not> isLetter (CHR ''/'')" "\<not> isLetter (CHR ''-'')" "\<not> isLetter (CHR ''['')"
  "\<not> isLetter (CHR '']'')" "\<not> isLetter (CHR 0x27)" "\<not> isLetter (CHR 0x22)" "\<not> isLetter (CHR 0x5C)"
  by (simp_all add: isLetter_def)

lemma letter_neq:
  assumes "isLetter c" and "\<not> isLetter d"
  shows "c \<noteq> d"
  using assms by blast

lemma letter_first:
  assumes "isLetter c"
  shows "punctuation c = None \<and> c \<noteq> CHR 0x27 \<and> c \<noteq> CHR 0x22 \<and> c \<noteq> CHR 0x5C \<and> c \<noteq> NULL"
proof -
  note n = not_letters [THEN letter_neq [OF assms]] not_NULL(1) [THEN letter_neq [OF assms]]
  show ?thesis
    unfolding punctuation_def by (simp only: n if_False simp_thms)
qed

lemma scan_panics: "scan s = Inl err \<longleftrightarrow> err = PanicError ''slice bounds out of range'' \<and> ToUpper (dropWhile is_ws s) = ''CHUNK''"
proof (cases "dropWhile is_ws s")
  case Nil
  show ?thesis
    unfolding scan_def Nil by (simp add: ToUpper_def)
next
  case (Cons c cs)
  let ?w = "takeWhile is_ident (c # cs)" and ?r = "dropWhile is_ident (c # cs)"
  have id: "scan_ident ?w ?r = Inl err \<longleftrightarrow> err = PanicError ''slice bounds out of range'' \<and> ToUpper ?w = ''CHUNK'' \<and> ?r = []"
    by (auto simp: scan_ident_def)
  have all: "ToUpper ?w = ''CHUNK'' \<and> ?r = [] \<longleftrightarrow> ToUpper (c # cs) = ''CHUNK''"
  proof
    assume "ToUpper ?w = ''CHUNK'' \<and> ?r = []"
    moreover have "?w @ ?r = c # cs"
      by (rule takeWhile_dropWhile_id)
    ultimately show "ToUpper (c # cs) = ''CHUNK''"
      by (metis append_Nil2)
  next
    assume u: "ToUpper (c # cs) = ''CHUNK''"
    then have "\<forall>x\<in>set (c # cs). is_ident x"
      using chunk_letters [OF u] by (auto simp: list_all_iff is_ident_def)
    then have "?w = c # cs" "?r = []"
      by (simp_all only: takeWhile_eq_all_conv dropWhile_eq_Nil_conv)
    with u show "ToUpper ?w = ''CHUNK'' \<and> ?r = []"
      by simp
  qed
  have first: "isLetter c" if "ToUpper (c # cs) = ''CHUNK''"
    using chunk_letters [OF that] by simp
  show ?thesis
  proof (cases "isLetter c")
    case True
    then show ?thesis
      unfolding scan_def Cons using letter_first [OF True] id all by simp
  next
    case False
    then have "\<not> ToUpper (c # cs) = ''CHUNK''"
      using first by blast
    moreover from this have "scan_ident ?w ?r \<noteq> Inl err"
      using id all by blast
    then have "scan s \<noteq> Inl err"
      unfolding scan_def Cons by (cases "punctuation c") (simp_all del: takeWhile.simps dropWhile.simps)
    ultimately show ?thesis
      unfolding Cons by blast
  qed
qed

lemma ends_chunk_suffix: "\<lbrakk>ends_chunk r; suffix r s\<rbrakk> \<Longrightarrow> ends_chunk s"
  unfolding ends_chunk_def ToUpper_def using map_mono_suffix suffix_order.trans by blast

lemma ends_chunk_scan: "scan s = Inr (t, r) \<Longrightarrow> ends_chunk r \<Longrightarrow> ends_chunk s"
  using ends_chunk_suffix scan_suffix by blast

lemma ends_chunk_panic: "ToUpper (dropWhile is_ws s) = ''CHUNK'' \<Longrightarrow> ends_chunk s"
  unfolding ends_chunk_def ToUpper_def by (metis map_mono_suffix suffix_dropWhile)

text \<open>At its end, or at a zero byte, the input stays where it is.\<close>

definition at_end :: "string \<Rightarrow> bool" where
  "at_end s = (case dropWhile is_ws s of [] \<Rightarrow> True | c # cs \<Rightarrow> c = NULL)"

lemma scan_end: "at_end s \<Longrightarrow> \<exists>r. scan s = Inr (\<lparr>tk_Type = TokenEOF, tk_Value = []\<rparr>, r) \<and> at_end r"
proof (cases "dropWhile is_ws s")
  case Nil
  show ?thesis
    unfolding scan_def Nil by (simp add: at_end_def)
next
  case (Cons c cs)
  assume "at_end s"
  then have "c = NULL"
    by (simp add: at_end_def Cons)
  then show ?thesis
    unfolding scan_def Cons by (simp add: at_end_def punctuation_def)
qed

lemma scan_not_end:
  assumes "scan s = Inr (t, r)" and "tk_Type t = TokenEOF"
  shows "at_end s"
proof (rule ccontr)
  assume n: "\<not> at_end s"
  then obtain c cs where s: "dropWhile is_ws s = c # cs" "c \<noteq> NULL"
    unfolding at_end_def by (cases "dropWhile is_ws s") auto
  show False
  proof (cases "punctuation c")
    case None
    have "False" if "scan_ident (takeWhile is_ident (c # cs)) (dropWhile is_ident (c # cs)) = Inr (t, r)"
      using scan_ident_shorter [OF that] assms(2) by simp
    then show ?thesis
      using assms None s(2) scan_quoted_shorter [of c cs t r] scan_number_shorter [of c cs t r]
      unfolding scan_def s(1) by (auto simp: newToken_def split: if_splits)
  next
    case (Some t')
    then show ?thesis
      using assms punctuation_types [OF Some] unfolding scan_def s(1) by (auto simp: newToken_def)
  qed
qed

section \<open>Reading tokens\<close>

definition pok :: "bool \<Rightarrow> Parser \<Rightarrow> bool" where
  "pok B p \<longleftrightarrow> lx_ok (ps_lexer p) \<and> (curT p = TokenEOF \<longrightarrow> peekT p = TokenEOF) \<and> (peekT p = TokenEOF \<longrightarrow> at_end (lx_rest (ps_lexer p))) \<and>
     (ends_chunk (lx_rest (ps_lexer p)) \<longrightarrow> B)"

definition ok_err :: "bool \<Rightarrow> gerror \<Rightarrow> bool" where
  "ok_err B err \<longleftrightarrow> err \<noteq> fuel_error \<and> (\<forall>m. err = PanicError m \<longrightarrow> B)"

definition ok_res :: "bool \<Rightarrow> ('a \<Rightarrow> bool) \<Rightarrow> gerror + 'a \<Rightarrow> bool" where
  "ok_res B Q r = (case r of Inl err \<Rightarrow> ok_err B err | Inr x \<Rightarrow> Q x)"

lemma ok_res_simps [simp]: "ok_res B Q (Inl err) \<longleftrightarrow> ok_err B err" "ok_res B Q (Inr x) \<longleftrightarrow> Q x"
  by (simp_all add: ok_res_def)

lemma ok_err_simps [simp]: "ok_err B (PlainError m xs)" "ok_err B (WrapError m xs e)" "ok_err B (PanicError m) = B"
  by (simp_all add: ok_err_def fuel_error_def)

lemma NextToken_ok:
  assumes "lx_ok l" and "ends_chunk (lx_rest l) \<longrightarrow> B"
  shows "ok_res B (\<lambda>(t, l'). lx_ok l' \<and> length (lx_rest l') + (if tk_Type t = TokenEOF then 0 else 1) \<le> length (lx_rest l) \<and>
    (tk_Type t = TokenEOF \<longleftrightarrow> at_end (lx_rest l)) \<and> (tk_Type t = TokenEOF \<longrightarrow> at_end (lx_rest l')) \<and>
    (ends_chunk (lx_rest l') \<longrightarrow> B)) (NextToken l)"
proof (cases "scan (lx_rest l)")
  case (Inl err)
  have "ok_err B err"
    using Inl [unfolded scan_panics] ends_chunk_panic assms(2) by auto
  then show ?thesis
    using NextToken_scan [OF assms(1)] Inl by simp
next
  case (Inr x)
  obtain t r where x: "x = (t, r)"
    by (cases x)
  have "tk_Type t = TokenEOF \<longleftrightarrow> at_end (lx_rest l)" "tk_Type t = TokenEOF \<longrightarrow> at_end r" "ends_chunk r \<longrightarrow> B"
    using scan_end [of "lx_rest l"] scan_not_end [of "lx_rest l" t r] ends_chunk_scan [of "lx_rest l" t r] assms(2) Inr x by auto
  then show ?thesis
    using NextToken_scan [OF assms(1)] Inr x scan_shorter [of "lx_rest l" t r]
    by (auto simp: agrees_def ok_res_def split: sum.splits prod.splits)
qed

lemma nextToken_ok:
  assumes "pok B p"
  shows "ok_res B (\<lambda>p'. pok B p' \<and> psize p' + (if curT p = TokenEOF then 0 else 1) \<le> psize p \<and> ps_cur p' = ps_peek p) (nextToken p)"
proof -
  have l: "lx_ok (ps_lexer p)" "ends_chunk (lx_rest (ps_lexer p)) \<longrightarrow> B" and p: "peekT p = TokenEOF \<Longrightarrow> at_end (lx_rest (ps_lexer p))"
    using assms by (simp_all add: pok_def)
  show ?thesis
    using NextToken_ok [OF l] p by (cases "NextToken (ps_lexer p)") (auto simp: nextToken_def psize_def pok_def)
qed

lemma ok_andThen: "\<lbrakk>ok_res B P r; \<And>x. P x \<Longrightarrow> ok_res B Q (f x)\<rbrakk> \<Longrightarrow> ok_res B Q (andThen r f)"
  by (cases r) (simp_all add: andThen_def)

lemma ok_mono: "\<lbrakk>ok_res B P r; \<And>x. P x \<Longrightarrow> Q x\<rbrakk> \<Longrightarrow> ok_res B Q r"
  by (cases r) simp_all

lemma ok_let: "ok_res B Q (f x) \<Longrightarrow> ok_res B Q (Let x f)"
  by simp

lemma ok_if: "\<lbrakk>c \<Longrightarrow> ok_res B Q a; \<not> c \<Longrightarrow> ok_res B Q b\<rbrakk> \<Longrightarrow> ok_res B Q (if c then a else b)"
  by simp

lemma ok_prod: "ok_res B Q (f a b) \<Longrightarrow> ok_res B Q (case (a, b) of (x, y) \<Rightarrow> f x y)"
  by simp

section \<open>Parsers of commands\<close>

text \<open>
  The results of a parser that is started with at most \<open>n\<close> tokens and characters left: a value, or a command of one of the kinds \<open>K\<close>;
  and the results of one round of a loop, which goes on only with less left.
\<close>

definition vpost :: "bool \<Rightarrow> nat \<Rightarrow> 'a \<times> Parser \<Rightarrow> bool" where
  "vpost B n = (\<lambda>(x, q). pok B q \<and> psize q \<le> n)"

definition has_kind :: "string list \<Rightarrow> CliCommand \<Rightarrow> bool" where
  "has_kind K cmd \<longleftrightarrow> cmd_Type cmd \<in> set K"

definition cpost :: "bool \<Rightarrow> string list \<Rightarrow> nat \<Rightarrow> CliCommand \<times> Parser \<Rightarrow> bool" where
  "cpost B K n = (\<lambda>(cmd, q). pok B q \<and> psize q \<le> n \<and> has_kind K cmd)"

definition lpost :: "bool \<Rightarrow> nat \<Rightarrow> bool \<times> 'a \<times> Parser \<Rightarrow> bool" where
  "lpost B m = (\<lambda>(go, x, q). pok B q \<and> psize q \<le> m \<and> (go \<longrightarrow> psize q < m))"

definition clpost :: "bool \<Rightarrow> string list \<Rightarrow> nat \<Rightarrow> bool \<times> CliCommand \<times> Parser \<Rightarrow> bool" where
  "clpost B K m = (\<lambda>(go, cmd, q). pok B q \<and> psize q \<le> m \<and> (go \<longrightarrow> psize q < m) \<and> has_kind K cmd)"

lemmas post_defs = vpost_def cpost_def lpost_def clpost_def

text \<open>A loop whose rounds keep an invariant and go on only with less left does not run out of fuel.\<close>

lemma ploop_n_ok:
  assumes body: "\<And>x q. \<lbrakk>I x; pok B q; psize q \<le> psize p\<rbrakk> \<Longrightarrow> ok_res B (\<lambda>(go, x', q'). I x' \<and> lpost B (psize q) (go, x', q')) (body x q)"
    and "I x" and "pok B q" and "psize q \<le> psize p" and "psize q < k"
  shows "ok_res B (\<lambda>(x', q'). I x' \<and> pok B q' \<and> psize q' \<le> psize q) (ploop_n k body x q)"
  using assms(2-)
proof (induction k arbitrary: x q)
  case (Suc k)
  have b: "ok_res B (\<lambda>(go, x', q'). I x' \<and> lpost B (psize q) (go, x', q')) (body x q)"
    using Suc.prems body by simp
  show ?case
  proof (cases "body x q")
    case (Inr r)
    obtain go x' q' where r: "r = (go, x', q')"
      by (cases r)
    have q': "I x'" "pok B q'" "psize q' \<le> psize q" "go \<Longrightarrow> psize q' < psize q"
      using b Inr r by (simp_all add: lpost_def)
    have "ok_res B (\<lambda>(x', q'). I x' \<and> pok B q' \<and> psize q' \<le> psize q) (ploop_n k body x' q')" if go
      by (rule ok_mono [OF Suc.IH]) (use q' that Suc.prems in auto)
    then show ?thesis
      using Inr r q' by simp
  qed (use b in simp)
qed simp

lemma ploop_inv:
  assumes "\<And>x q. \<lbrakk>I x; pok B q; psize q \<le> psize p\<rbrakk> \<Longrightarrow> ok_res B (\<lambda>(go, x', q'). I x' \<and> lpost B (psize q) (go, x', q')) (body x q)"
    and "I x" and "pok B p"
  shows "ok_res B (\<lambda>(x', q'). I x' \<and> pok B q' \<and> psize q' \<le> psize p) (ploop body x p)"
  unfolding ploop_def by (rule ploop_n_ok [OF assms(1) assms(2,3) order_refl lessI])

lemma ok_ploop:
  assumes "\<And>x q. \<lbrakk>pok B q; psize q \<le> psize p\<rbrakk> \<Longrightarrow> ok_res B (lpost B (psize q)) (body x q)" and "pok B p"
  shows "ok_res B (vpost B (psize p)) (ploop body x p)"
  by (rule ok_mono [OF ploop_inv [of "\<lambda>_. True", OF ok_mono [OF assms(1)]]]) (use assms(2) in \<open>auto simp: vpost_def lpost_def\<close>)

lemma ok_ploop_cmd:
  assumes "\<And>cmd q. \<lbrakk>has_kind K cmd; pok B q; psize q \<le> psize p\<rbrakk> \<Longrightarrow> ok_res B (clpost B K (psize q)) (body cmd q)"
    and "has_kind K cmd" and "pok B p"
  shows "ok_res B (cpost B K (psize p)) (ploop body cmd p)"
  by (rule ok_mono [OF ploop_inv [of "\<lambda>c. has_kind K c", OF ok_mono [OF assms(1)]]])
    (use assms(2,3) in \<open>auto simp: cpost_def clpost_def lpost_def\<close>)

section \<open>Rules for the steps of a parser\<close>

lemma next_ok:
  assumes "pok B p" and "\<And>q. \<lbrakk>pok B q; psize q \<le> psize p; curT p \<noteq> TokenEOF \<longrightarrow> psize q < psize p; curT p = TokenEOF \<longrightarrow> curT q = TokenEOF\<rbrakk>
      \<Longrightarrow> ok_res B Q (f q)"
  shows "ok_res B Q (andThen (nextToken p) f)"
  by (rule ok_andThen [OF nextToken_ok [OF assms(1)]], rule assms(2)) (use assms(1) in \<open>auto simp: pok_def split: if_splits\<close>)

lemma next_tail_ok:
  assumes "pok B p"
  shows "ok_res B (\<lambda>q. pok B q \<and> psize q \<le> psize p) (nextToken p)"
  by (rule ok_mono [OF nextToken_ok [OF assms]]) auto

lemma optSemicolon_ok:
  assumes "pok B p" and "\<And>q. \<lbrakk>pok B q; psize q \<le> psize p\<rbrakk> \<Longrightarrow> ok_res B Q (f q)"
  shows "ok_res B Q (andThen (optSemicolon p) f)"
proof (rule ok_andThen)
  show "ok_res B (\<lambda>q. pok B q \<and> psize q \<le> psize p) (optSemicolon p)"
    using next_tail_ok [OF assms(1)] assms(1) by (simp add: optSemicolon_def)
qed (use assms(2) in simp)

lemma expectPeek_ok:
  assumes "pok B p" and "\<And>q. \<lbrakk>pok B q; psize q \<le> psize p; curT q = t\<rbrakk> \<Longrightarrow> ok_res B Q (f q)"
  shows "ok_res B Q (andThen (expectPeek t p) f)"
proof (rule ok_andThen)
  show "ok_res B (\<lambda>q. pok B q \<and> psize q \<le> psize p \<and> curT q = t) (expectPeek t p)"
  proof (cases "peekT p = t")
    case True
    have "ok_res B (\<lambda>q. pok B q \<and> psize q \<le> psize p \<and> curT q = t) (nextToken p)"
      by (rule ok_mono [OF nextToken_ok [OF assms(1)]]) (use True in auto)
    with True show ?thesis
      by (simp add: expectPeek_def)
  qed (simp add: expectPeek_def fuel_error_def)
qed (use assms(2) in simp)

lemma expectSemicolon_ok:
  assumes "pok B p" and "\<And>q. \<lbrakk>pok B q; psize q \<le> psize p\<rbrakk> \<Longrightarrow> ok_res B Q (f q)"
  shows "ok_res B Q (andThen (expectSemicolon p) f)"
proof (rule ok_andThen)
  show "ok_res B (\<lambda>q. pok B q \<and> psize q \<le> psize p) (expectSemicolon p)"
    using next_tail_ok [OF assms(1)] assms(1) by (simp add: expectSemicolon_def fuel_error_def)
qed (use assms(2) in simp)

text \<open>The same steps under a bound on what is left, where no loop has to be shown to go on.\<close>

lemma bounded_next_ok:
  assumes "pok B p" and "psize p \<le> n" and "\<And>q. \<lbrakk>pok B q; psize q \<le> n\<rbrakk> \<Longrightarrow> ok_res B (cpost B K n) (f q)"
  shows "ok_res B (cpost B K n) (andThen (nextToken p) f)"
  by (rule next_ok [OF assms(1)]) (use assms(2,3) in auto)

lemma bounded_semicolon_ok:
  assumes "pok B p" and "psize p \<le> n" and "\<And>q. \<lbrakk>pok B q; psize q \<le> n\<rbrakk> \<Longrightarrow> ok_res B (cpost B K n) (f q)"
  shows "ok_res B (cpost B K n) (andThen (optSemicolon p) f)" "ok_res B (cpost B K n) (andThen (expectSemicolon p) f)"
  by (rule optSemicolon_ok [OF assms(1)] expectSemicolon_ok [OF assms(1)], use assms(2,3) in auto)+

lemma bounded_peek_ok:
  assumes "pok B p" and "psize p \<le> n" and "\<And>q. \<lbrakk>pok B q; psize q \<le> n\<rbrakk> \<Longrightarrow> ok_res B (cpost B K n) (f q)"
  shows "ok_res B (cpost B K n) (andThen (expectPeek t p) f)"
  by (rule expectPeek_ok [OF assms(1)]) (use assms(2,3) in auto)

lemma command_ok: "\<lbrakk>pok B q; psize q \<le> n; has_kind K cmd\<rbrakk> \<Longrightarrow> ok_res B (cpost B K n) (Inr (cmd, q))"
  by (simp add: cpost_def)

lemma round_ok:
  "\<lbrakk>pok B q; psize q \<le> m; go \<Longrightarrow> psize q < m\<rbrakk> \<Longrightarrow> ok_res B (lpost B m) (Inr (go, x, q))"
  "\<lbrakk>pok B q; psize q \<le> m; go \<Longrightarrow> psize q < m; has_kind K cmd\<rbrakk> \<Longrightarrow> ok_res B (clpost B K m) (Inr (go, cmd, q))"
  by (simp_all add: lpost_def clpost_def)

lemma error_ok: "ok_res B Q (Inl (PlainError m xs))" "ok_res B Q (Inl (WrapError m xs e))"
  by simp_all

lemma has_kind_intros:
  "has_kind K cmd \<Longrightarrow> has_kind K (set_param k v cmd)"
  "has_kind K cmd \<Longrightarrow> has_kind K (markSet cmd m)"
  "\<lbrakk>has_kind K cmd; has_kind K cmd'\<rbrakk> \<Longrightarrow> has_kind K (if c then cmd else cmd')"
  "t \<in> set K \<Longrightarrow> has_kind K (NewCommand t)"
  by (auto simp: has_kind_def markSet_def split: goval.split)

lemmas bounded_rules = bounded_next_ok bounded_semicolon_ok bounded_peek_ok error_ok command_ok round_ok has_kind_intros list.set_intros

text \<open>Calls that only look at the current token.\<close>

lemma ok_value: "\<lbrakk>ok_res B (\<lambda>_. True) r; \<And>x. r = Inr x \<Longrightarrow> ok_res B Q (f x)\<rbrakk> \<Longrightarrow> ok_res B Q (andThen r f)"
  by (cases r) (simp_all add: andThen_def)

lemma ok_orError: "\<lbrakk>ok_res B P r; \<And>e. ok_err B (g e)\<rbrakk> \<Longrightarrow> ok_res B P (orError g r)"
  by (cases r) (simp_all add: orError_def)

lemma ok_orError_panic: "\<lbrakk>ok_res B P r; ok_err B e'\<rbrakk> \<Longrightarrow> ok_res B P (orError (\<lambda>e. unless_panic e e') r)"
  by (cases r) (auto simp: orError_def unless_panic_def split: gerror.splits)

lemma token_values_ok:
  "ok_res B (\<lambda>_. curT p = TokenQuotedString) (parseQuotedString p)"
  "ok_res B (\<lambda>_. curT p = TokenIdentifier) (parseIdentifier p)"
  "ok_res B (\<lambda>_. curT p \<in> {TokenIdentifier, TokenQuotedString, TokenInteger, TokenFloat}) (parseVariableValue p)"
  "ok_res B (\<lambda>_. curT p = TokenInteger) (parseNumber p)"
  "ok_res B (\<lambda>_. curT p \<in> {TokenInteger, TokenFloat}) (parseFloat p)"
  "ok_res B (\<lambda>_. curT p = TokenQuotedString) (parseJSONLiteral json_ok p)"
  by (auto simp: parseQuotedString_def parseIdentifier_def parseVariableValue_def parseNumber_def parseFloat_def parseJSONLiteral_def
      Atoi_def ParseFloat_def Let_def fuel_error_def)

lemma plain_values_ok:
  "ok_res B (\<lambda>_. True) (Atoi s)" "ok_res B (\<lambda>_. True) (parseHostPort s)" "ok_res B (\<lambda>_. True) (parseModelNames s)"
  by (auto simp: Atoi_def parseHostPort_def parseModelNames_def Let_def fuel_error_def split: sum.split option.split)

lemmas values_ok = token_values_ok plain_values_ok

text \<open>Blocks whose result is bound to the variables that follow, and loops.\<close>

lemma ok_assoc: "ok_res B Q (andThen r (\<lambda>x. andThen (f x) g)) \<Longrightarrow> ok_res B Q (andThen (andThen r f) g)"
  by (cases r) (simp_all add: andThen_def)

lemma ok_then_if:
  "\<lbrakk>c \<Longrightarrow> ok_res B Q (andThen a g); \<not> c \<Longrightarrow> ok_res B Q (andThen b g)\<rbrakk> \<Longrightarrow> ok_res B Q (andThen (if c then a else b) g)"
  by simp

text \<open>Where the block gives a text, a command or a command and a parser, what follows is looked at once.\<close>

lemma ok_then_same: "ok_res B Q (andThen a g) \<Longrightarrow> ok_res B Q (andThen (if c then a else a) g)"
  by simp

lemma ok_then_text:
  fixes f :: "string \<Rightarrow> gerror + CliCommand \<times> Parser"
  assumes "ok_res B (\<lambda>_. True) (if c then a else b)" and "\<And>x. ok_res B (cpost B K n) (f x)"
  shows "ok_res B (cpost B K n) (andThen (if c then a else b) f)"
  using assms by (rule ok_andThen)

lemma ok_then_cmd:
  assumes "ok_res B (has_kind K) (if c then a else b)" and "\<And>cmd. has_kind K cmd \<Longrightarrow> ok_res B (cpost B K n) (f cmd)"
  shows "ok_res B (cpost B K n) (andThen (if c then a else b) f)"
  using assms by (rule ok_andThen)

lemma ok_then_cmd_parser:
  assumes "ok_res B (cpost B K n) (if c then a else b)" and "\<And>cmd q. \<lbrakk>pok B q; psize q \<le> n; has_kind K cmd\<rbrakk> \<Longrightarrow> ok_res B (cpost B K n) (f (cmd, q))"
  shows "ok_res B (cpost B K n) (andThen (if c then a else b) f)"
  by (rule ok_andThen [OF assms(1)]) (use assms(2) in \<open>auto simp: cpost_def\<close>)

lemma ok_kind: "has_kind K cmd \<Longrightarrow> ok_res B (has_kind K) (Inr cmd)"
  by simp

lemma ok_true: "ok_res B P r \<Longrightarrow> ok_res B (\<lambda>_. True) r"
  by (erule ok_mono) simp

text \<open>Comparisons of texts say nothing about what is left of the input.\<close>

lemma ok_if_text:
  fixes s t :: string
  shows "\<lbrakk>ok_res B Q a; ok_res B Q b\<rbrakk> \<Longrightarrow> ok_res B Q (if s = t then a else b)"
    and "\<lbrakk>ok_res B Q a; ok_res B Q b\<rbrakk> \<Longrightarrow> ok_res B Q (if s = t \<or> c then a else b)"
    and "\<lbrakk>ok_res B Q (andThen d g); ok_res B Q (andThen e g)\<rbrakk> \<Longrightarrow> ok_res B Q (andThen (if s = t then d else e) g)"
    and "\<lbrakk>ok_res B Q (andThen d g); ok_res B Q (andThen e g)\<rbrakk> \<Longrightarrow> ok_res B Q (andThen (if s = t \<or> c then d else e) g)"
  by simp_all

lemma ok_then_let: "ok_res B Q (andThen (f x) g) \<Longrightarrow> ok_res B Q (andThen (Let x f) g)"
  by simp

lemma ok_then_Inr: "ok_res B Q (g x) \<Longrightarrow> ok_res B Q (andThen (Inr x) g)"
  by (simp add: andThen_def)

lemma ok_then_Inl: "ok_err B e \<Longrightarrow> ok_res B Q (andThen (Inl e) g)"
  by (simp add: andThen_def)

lemma ok_then_prod: "ok_res B Q (andThen (h a b) g) \<Longrightarrow> ok_res B Q (andThen (case (a, b) of (x, y) \<Rightarrow> h x y) g)"
  by simp

lemma ok_then_case: "(\<And>a b. ok_res B Q (andThen (k a b y) g)) \<Longrightarrow> ok_res B Q (andThen ((case z of (a, b) \<Rightarrow> k a b) y) g)"
  by (cases z) simp

lemma ok_option:
  "\<lbrakk>ok_res B Q a; \<And>x. ok_res B Q (f x)\<rbrakk> \<Longrightarrow> ok_res B Q (case z of None \<Rightarrow> a | Some x \<Rightarrow> f x)"
  "\<lbrakk>ok_res B Q (andThen b g); \<And>x. ok_res B Q (andThen (h x) g)\<rbrakk> \<Longrightarrow> ok_res B Q (andThen (case w of None \<Rightarrow> b | Some x \<Rightarrow> h x) g)"
  by (auto split: option.split)

lemma ok_then_sum:
  "\<lbrakk>\<And>e. ok_res B Q (andThen (a e) g); \<And>x. ok_res B Q (andThen (f x) g)\<rbrakk> \<Longrightarrow> ok_res B Q (andThen (case r of Inl e \<Rightarrow> a e | Inr x \<Rightarrow> f x) g)"
  by (auto split: sum.split)

lemmas ok_blocks = ok_assoc ok_kind ok_then_same ok_then_text ok_then_cmd ok_then_cmd_parser ok_if_text ok_then_if ok_then_let ok_then_Inr ok_then_Inl ok_then_prod ok_then_case ok_then_sum ok_option

lemma ok_case: "(\<And>a b. ok_res B Q (k a b y)) \<Longrightarrow> ok_res B Q ((case z of (a, b) \<Rightarrow> k a b) y)"
  by (cases z) simp

lemma ok_split: "(\<And>a b. ok_res B Q (k a b)) \<Longrightarrow> ok_res B Q (case z of (a, b) \<Rightarrow> k a b)"
  by (cases z) simp

lemma loop_ok:
  assumes "pok B p" and "\<And>x q. \<lbrakk>pok B q; psize q \<le> psize p\<rbrakk> \<Longrightarrow> ok_res B (lpost B (psize q)) (body x q)"
    and "\<And>x q. \<lbrakk>pok B q; psize q \<le> psize p\<rbrakk> \<Longrightarrow> ok_res B Q (f (x, q))"
  shows "ok_res B Q (andThen (ploop body x p) f)"
  by (rule ok_andThen [OF ok_ploop [OF assms(2) assms(1)]]) (use assms(3) in \<open>auto simp: vpost_def\<close>)

lemma loop_tail_ok:
  assumes "pok B p" and "\<And>x q. \<lbrakk>pok B q; psize q \<le> psize p\<rbrakk> \<Longrightarrow> ok_res B (lpost B (psize q)) (body x q)"
    and "\<And>x q. \<lbrakk>pok B q; psize q \<le> psize p\<rbrakk> \<Longrightarrow> Q (x, q)"
  shows "ok_res B Q (ploop body x p)"
  by (rule ok_mono [OF ok_ploop [OF assms(2) assms(1)]]) (use assms(3) in \<open>auto simp: vpost_def\<close>)

lemma loop_cmd_ok:
  assumes "pok B p" and "has_kind K cmd"
    and "\<And>cmd q. \<lbrakk>has_kind K cmd; pok B q; psize q \<le> psize p\<rbrakk> \<Longrightarrow> ok_res B (clpost B K (psize q)) (body cmd q)"
    and "\<And>cmd q. \<lbrakk>has_kind K cmd; pok B q; psize q \<le> psize p\<rbrakk> \<Longrightarrow> ok_res B (cpost B K n) (f (cmd, q))"
  shows "ok_res B (cpost B K n) (andThen (ploop body cmd p) f)"
  by (rule ok_andThen [OF ok_ploop_cmd [OF assms(3,2,1)]]) (use assms(4) in \<open>auto simp: cpost_def\<close>)

lemma loop_cmd_tail_ok:
  assumes "pok B p" and "has_kind K cmd" and "psize p \<le> n"
    and "\<And>cmd q. \<lbrakk>has_kind K cmd; pok B q; psize q \<le> psize p\<rbrakk> \<Longrightarrow> ok_res B (clpost B K (psize q)) (body cmd q)"
  shows "ok_res B (cpost B K n) (ploop body cmd p)"
  by (rule ok_mono [OF ok_ploop_cmd [OF assms(4,2,1)]]) (use assms(3) in \<open>auto simp: cpost_def\<close>)

lemmas value_rules = values_ok [THEN ok_true] values_ok [THEN ok_andThen] values_ok [THEN ok_orError, THEN ok_andThen] values_ok [THEN ok_orError_panic, THEN ok_andThen]

lemmas step_rules = bounded_rules next_ok optSemicolon_ok expectPeek_ok expectSemicolon_ok value_rules loop_cmd_ok loop_cmd_tail_ok loop_ok loop_tail_ok
  ok_blocks ok_let ok_if ok_prod ok_case ok_split

lemma parseQuotedStringList_ok:
  assumes "pok B p"
  shows "ok_res B (\<lambda>(x, q). pok B q \<and> psize q < psize p) (parseQuotedStringList p)"
  unfolding parseQuotedStringList_def by (rule step_rules assms | assumption | (auto; fail))+

lemma string_list_ok:
  assumes "pok B p" and "\<And>x q. \<lbrakk>pok B q; psize q < psize p\<rbrakk> \<Longrightarrow> ok_res B Q (f (x, q))"
  shows "ok_res B Q (andThen (parseQuotedStringList p) f)"
  by (rule ok_andThen [OF parseQuotedStringList_ok [OF assms(1)]]) (use assms(2) in auto)

lemma string_list_panic_ok:
  assumes "pok B p" and "\<And>x q. \<lbrakk>pok B q; psize q < psize p\<rbrakk> \<Longrightarrow> ok_res B Q (f (x, q))" and "ok_err B e'"
  shows "ok_res B Q (andThen (orError (\<lambda>e. unless_panic e e') (parseQuotedStringList p)) f)"
  by (rule ok_andThen [OF ok_orError_panic [OF parseQuotedStringList_ok [OF assms(1)] assms(3)]]) (use assms(2) in auto)

lemmas parse_rules = string_list_ok string_list_panic_ok step_rules

end
