(* ===== verification/CliUserKinds.thy ===== *)
theory CliUserKinds
  imports CliProgress CliUserRun
begin

text \<open>
  The parsers of the commands of the user: each ends, on every input, with an error of the code or with a command of one of the kinds
  listed. Every lemma follows the parser of one word that starts a command, with the parsers it calls.
\<close>

text \<open>Calls of parsers for which this is known.\<close>

lemma call_ok: "\<lbrakk>ok_res B (cpost B K (psize p)) r; psize p \<le> n; set K \<subseteq> set K'\<rbrakk> \<Longrightarrow> ok_res B (cpost B K' n) r"
  by (erule ok_mono) (auto simp: cpost_def has_kind_def)

lemma call_then_ok:
  assumes "ok_res B (cpost B K (psize p)) r" and "psize p \<le> n" and "\<And>cmd q. \<lbrakk>pok B q; psize q \<le> n\<rbrakk> \<Longrightarrow> ok_res B (cpost B K' n) (f (cmd, q))"
  shows "ok_res B (cpost B K' n) (andThen r f)"
  by (rule ok_andThen [OF assms(1)]) (use assms(2,3) in \<open>auto simp: cpost_def\<close>)

lemma call_then_kind:
  assumes "ok_res B (cpost B K (psize p)) r" and "psize p \<le> n" and "set K \<subseteq> set K'"
    and "\<And>cmd q. \<lbrakk>pok B q; psize q \<le> n; has_kind K' cmd\<rbrakk> \<Longrightarrow> ok_res B (cpost B K' n) (f (cmd, q))"
  shows "ok_res B (cpost B K' n) (andThen r f)"
  by (rule ok_andThen [OF assms(1)]) (use assms(2-4) in \<open>auto simp: cpost_def has_kind_def\<close>)

lemma kinds_subset:
  "set K \<subseteq> set K" "set K \<subseteq> set (K @ L)" "set K \<subseteq> set L \<Longrightarrow> set K \<subseteq> set (K' @ L)"
  "set [] \<subseteq> S" "\<lbrakk>k \<in> S; set K \<subseteq> S\<rbrakk> \<Longrightarrow> set (k # K) \<subseteq> S"
  by auto

lemma parseBool_ok:
  assumes "pok B p"
  shows "ok_res B (\<lambda>(x, q). pok B q \<and> psize q \<le> psize p) (parseBool p)"
  unfolding parseBool_def by (rule parse_rules assms | assumption | (auto; fail))+

lemma parseBool_rule:
  assumes "pok B p" and "\<And>x q. \<lbrakk>pok B q; psize q \<le> psize p\<rbrakk> \<Longrightarrow> ok_res B Q (f (x, q))" and "ok_err B e'"
  shows "ok_res B Q (andThen (orError (\<lambda>e. unless_panic e e') (parseBool p)) f)"
  by (rule ok_andThen [OF ok_orError_panic [OF parseBool_ok [OF assms(1)] assms(3)]]) (use assms(2) in auto)

lemma parseChatCompletionsBody_ok:
  assumes "pok B p"
  shows "ok_res B (cpost B
    [''chat completions help'', ''chat completions'']
    (psize p)) (parseChatCompletionsBody p)"
  unfolding parseChatCompletionsBody_def parseChatCompletionsBody_option_def
  by (rule parseBool_rule parse_rules assms | assumption | (auto; fail))+

lemma parseAPIPingServer_ok:
  assumes "pok B p"
  shows "ok_res B (cpost B
    [''api_ping_server'']
    (psize p)) (parseAPIPingServer p)"
  unfolding parseAPIPingServer_def
  by (rule parse_rules assms | assumption | (auto; fail))+

lemma parseAPIShowCommands_ok:
  assumes "pok B p"
  shows "ok_res B (cpost B
    [''api_show_api_server'', ''api_show_admin_server'', ''api_show_concurrency'', ''api_show_cores'', ''api_show_current'',
     ''api_show_group_stats'', ''api_show_model_group'', ''api_show_hardware'', ''api_show_api_key'', ''api_show_log_level'',
     ''api_show_memory'', ''api_show_model_stats'', ''api_show_model'', ''api_show_provider_instance_balance'',
     ''api_show_provider_instance_task'', ''api_show_provider_instance'', ''api_show_provider_model'', ''api_show_provider'',
     ''api_show_quota'', ''api_show_version'']
    (psize p)) (parseAPIShowCommands p)"
  unfolding parseAPIShowCommands_def parseAPIShowVersion_def parseAPIShowQuota_def parseAPIShowProviderCommands_def
    parseAPIShowProviderModel_def parseAPIShowProviderInstance_def parseAPIShowProviderInstanceTask_def
    parseAPIShowProviderInstanceBalance_def parseAPIShowModel_def parseAPIShowModelStats_def parseAPIShowMemory_def
    parseAPIShowLogCommands_def parseShowLogLevel_def parseAPIShowKey_def parseAPIShowHardware_def parseAPIShowGroup_def
    parseAPIShowGroupStats_def parseAPIShowCurrent_def parseAPIShowCores_def parseAPIShowConcurrency_def parseAPIShowAdmin_def
    parseAPIShowAPI_def
  by (rule parse_rules assms | assumption | (auto; fail))+

lemma parseAPIListCommands_ok:
  assumes "pok B p"
  shows "ok_res B (cpost B
    [''api_list_api_keys'', ''api_list_api_servers'', ''api_list_agents'', ''api_list_all_models'',
     ''api_list_available_providers'', ''api_list_chats'', ''api_list_dataset_documents'', ''api_list_dataset_files'',
     ''api_list_ingestion_tasks'', ''api_list_sync_logs'', ''api_list_datasets'', ''api_list_default_models'',
     ''api_list_environments'', ''api_list_memories'', ''api_list_model_groups'', ''api_list_provider_instance_models'',
     ''api_list_provider_instance_models_sync'', ''api_list_provider_instance_tasks'', ''api_list_provider_instances'',
     ''api_list_provider_models'', ''api_list_providers'', ''api_list_searches'']
    (psize p)) (parseAPIListCommands p)"
  unfolding parseAPIListCommands_def parseAPIListSyncLogs_def parseAPIListSearches_def parseAPIListProviders_def
    parseAPIListProviderCommands_def parseListProviderModels_def parseListProviderInstances_def parseListProviderInstanceCommands_def
    parseListProviderInstanceTasks_def parseListProviderInstanceModels_def parseAPIListModelGroups_def parseAPIListMemories_def
    parseAPIListIngestionTasks_def parseAPIListEnvironments_def parseAPIListDefaultModels_def parseAPIListDatasets_def
    parseAPIListDatasetCommands_def parseAPIListDatasetSyncLogs_def parseSyncLogsWithOptions_def parseAPIListDatasetIngestionTasks_def
    parseAPIListDatasetFiles_def parseAPIListDatasetDocuments_def parseAPIListChats_def parseAPIListAvailableProviders_def
    parseAPIListAllModels_def parseAPIListAgents_def parseAPIListAPIServers_def parseAPIListAPIKeys_def
  by (rule parse_rules assms | assumption | (auto; fail))+

lemma parseAPIImport_ok:
  assumes "pok B p"
  shows "ok_res B (cpost B
    [''import_docs_into_dataset'']
    (psize p)) (parseAPIImport p)"
  unfolding parseAPIImport_def
  by (rule parse_rules assms | assumption | (auto; fail))+

lemma parseAPIRetrieve_ok:
  assumes "pok B p"
  shows "ok_res B (cpost B
    [''search_help'', ''search_on_datasets'', ''ce_search'']
    (psize p)) (parseAPIRetrieve p)"
  unfolding parseAPIRetrieve_def
  by (rule parse_rules assms | assumption | (simp (no_asm) only: goval.case) | (auto; fail))+

lemma parseAPIASR_ok:
  assumes "pok B p"
  shows "ok_res B (cpost B
    [''asr_user_command'']
    (psize p)) (parseAPIASR p)"
  unfolding parseAPIASR_def
  by (rule parse_rules assms | assumption | (auto; fail))+

lemma parseAPITTS_ok:
  assumes "pok B p"
  shows "ok_res B (cpost B
    [''tts_user_command'']
    (psize p)) (parseAPITTS p)"
  unfolding parseAPITTS_def
  by (rule parse_rules assms | assumption | (auto; fail))+

lemma parseAPIChat_ok:
  assumes "pok B p"
  shows "ok_res B (cpost B
    [''chat completions help'', ''chat completions'', ''api_chat_to_model'']
    (psize p)) (parseAPIChat p)"
  unfolding parseAPIChat_def
  by (rule parseBool_rule parseChatCompletionsBody_ok [THEN call_ok] kinds_subset parse_rules assms | assumption | (auto; fail))+

lemma parseAPIThink_ok:
  assumes "pok B p"
  shows "ok_res B (cpost B
    [''chat completions help'', ''chat completions'', ''api_chat_to_model'']
    (psize p)) (parseAPIThink p)"
  unfolding parseAPIThink_def
  by (rule parseAPIChat_ok [THEN call_then_kind] kinds_subset parse_rules assms | assumption | (auto; fail))+

lemma parseAPIAddCommands_ok:
  assumes "pok B p"
  shows "ok_res B (cpost B
    [''api_add_group_model'', ''api_add_custom_model'', ''api_add_provider_instance'', ''api_add_provider'',
     ''api_add_api_server'', ''api_add_admin_server'']
    (psize p)) (parseAPIAddCommands p)"
  unfolding parseAPIAddCommands_def parseAddAdminServer_def parseAddAPIServer_def parseAPIAddProvider_def parseAddProviderInstance_def
    parseAPIAddModel_def parseAPIAddGroupModel_def
  by (rule parse_rules assms | assumption | (auto; fail))+

lemma parseAPIAlterCommands_ok:
  assumes "pok B p"
  shows "ok_res B (cpost B
    [''api_alter_provider_instance'']
    (psize p)) (parseAPIAlterCommands p)"
  unfolding parseAPIAlterCommands_def parseAPIAlterInstance_def
  by (rule parse_rules assms | assumption | (auto; fail))+

lemma parseAPICheck_ok:
  assumes "pok B p"
  shows "ok_res B (cpost B
    [''check_provider_connection'', ''check_provider_with_key'']
    (psize p)) (parseAPICheck p)"
  unfolding parseAPICheck_def parseCheckProviderByKeyCommand_def parseCheckInstanceCommand_def
  by (rule parse_rules assms | assumption | (auto; fail))+

lemma parseAPICreateCommands_ok:
  assumes "pok B p"
  shows "ok_res B (cpost B
    [''api_create_agent'', ''api_create_chat'', ''api_create_dataset'', ''api_create_api_key'', ''api_create_memory'',
     ''api_create_provider_instance'', ''api_create_search'', ''api_create_model_group'', ''dev_create_chunk_store'',
     ''dev_create_metadata_store'']
    (psize p)) (parseAPICreateCommands p)"
  unfolding parseAPICreateCommands_def parseDevCreateMetadataStore_def parseDevCreateChunkStore_def parseAPIModelCreateGroup_def
    parseAPICreateSearch_def parseAPICreateProviderInstance_def parseAPICreateMemory_def parseAPICreateKey_def
    parseAPICreateDataset_def parseAPICreateChat_def parseAPICreateAgent_def
  by (rule parse_rules assms | assumption | (auto; fail))+

lemma parseAPIDeleteCommands_ok:
  assumes "pok B p"
  shows "ok_res B (cpost B
    [''api_delete_api_server'', ''api_delete_admin_server'', ''api_delete_model_group'', ''api_delete_group_model'',
     ''api_delete_provider_instance_model'', ''api_delete_provider_instance'', ''api_delete_provider'', ''dev_delete_meta'']
    (psize p)) (parseAPIDeleteCommands p)"
  unfolding parseAPIDeleteCommands_def parseDevDeleteMeta_def parseAPIDeleteProvider_def parseAPIDeleteProviderInstance_def
    parseAPIDeleteProviderInstanceModels_def parseAPIDeleteGroupModel_def parseAPIDeleteGroup_def parseAPIDeleteAdminServer_def
    parseAPIDeleteAPIServer_def
  by (rule parse_rules assms | assumption | (auto; fail))+

lemma parseAPIDisable_ok:
  assumes "pok B p"
  shows "ok_res B (cpost B
    [''disable_model'']
    (psize p)) (parseAPIDisable p)"
  unfolding parseAPIDisable_def
  by (rule parse_rules assms | assumption | (auto; fail))+

lemma parseAPIDropCommands_ok:
  assumes "pok B p"
  shows "ok_res B (cpost B
    [''api_delete_api_key'', ''api_drop_agent'', ''api_drop_chat'', ''api_drop_dataset'', ''api_drop_memory'', ''api_drop_search'',
     ''dev_drop_chunk_store'', ''dev_drop_metadata_store'']
    (psize p)) (parseAPIDropCommands p)"
  unfolding parseAPIDropCommands_def parseDevDropMetadataStore_def parseDevDropChunkStore_def parseAPIDropSearch_def parseAPIDropMemory_def
    parseAPIDropDataset_def parseAPIDropChat_def parseAPIDropAgent_def parseAPIDropAPIKey_def
  by (rule parse_rules assms | assumption | (auto; fail))+

lemma parseAPIEmbed_ok:
  assumes "pok B p"
  shows "ok_res B (cpost B
    [''api_embed_user_text'']
    (psize p)) (parseAPIEmbed p)"
  unfolding parseAPIEmbed_def
  by (rule parse_rules assms | assumption | (auto; fail))+

lemma parseAPIEnable_ok:
  assumes "pok B p"
  shows "ok_res B (cpost B
    [''enable_model'']
    (psize p)) (parseAPIEnable p)"
  unfolding parseAPIEnable_def
  by (rule parse_rules assms | assumption | (auto; fail))+

lemma parseAPILoginUser_ok:
  assumes "pok B p"
  shows "ok_res B (cpost B
    [''api_login_user'']
    (psize p)) (parseAPILoginUser p)"
  unfolding parseAPILoginUser_def
  by (rule parse_rules assms | assumption | (auto; fail))+

lemma parseAPILogout_ok:
  assumes "pok B p"
  shows "ok_res B (cpost B
    [''api_logout'']
    (psize p)) (parseAPILogout p)"
  unfolding parseAPILogout_def
  by (rule parse_rules assms | assumption | (auto; fail))+

lemma parseAPIOCR_ok:
  assumes "pok B p"
  shows "ok_res B (cpost B
    [''ocr_user_command'']
    (psize p)) (parseAPIOCR p)"
  unfolding parseAPIOCR_def
  by (rule parse_rules assms | assumption | (auto; fail))+

lemma parseAPIRegister_ok:
  assumes "pok B p"
  shows "ok_res B (cpost B
    [''api_register_user'']
    (psize p)) (parseAPIRegister p)"
  unfolding parseAPIRegister_def
  by (rule parse_rules assms | assumption | (auto; fail))+

lemma parseAPIRemove_ok:
  assumes "pok B p"
  shows "ok_res B (cpost B
    [''api_remove_task'', ''dev_remove_chunks'']
    (psize p)) (parseAPIRemove p)"
  unfolding parseAPIRemove_def parseDevRemoveChunk_def parseAPIRemoveTask_def
  by (rule parse_rules assms | assumption | (auto; fail))+

lemma parseAPIRerank_ok:
  assumes "pok B p"
  shows "ok_res B (cpost B
    [''api_rarank_user_document'']
    (psize p)) (parseAPIRerank p)"
  unfolding parseAPIRerank_def
  by (rule parse_rules assms | assumption | (auto; fail))+

lemma parseAPIResetCommands_ok:
  assumes "pok B p"
  shows "ok_res B (cpost B
    [''reset_default_model'', ''api_unset_api_key'']
    (psize p)) (parseAPIResetCommands p)"
  unfolding parseAPIResetCommands_def parseAPIResetKey_def parseAPIResetDefaultModel_def
  by (rule parse_rules assms | assumption | (auto; fail))+

lemma parseAPISave_ok:
  assumes "pok B p"
  shows "ok_res B (cpost B
    [''api_save_config_command'']
    (psize p)) (parseAPISave p)"
  unfolding parseAPISave_def parseAPISaveConfig_def
  by (rule parse_rules assms | assumption | (auto; fail))+

lemma parseAPISetCommands_ok:
  assumes "pok B p"
  shows "ok_res B (cpost B
    [''api_set_api_key'', ''api_set_concurrency'', ''api_set_cores'', ''api_set_default_model'', ''api_set_log_level'',
     ''api_set_memory'', ''dev_set_meta'']
    (psize p)) (parseAPISetCommands p)"
  unfolding parseAPISetCommands_def parseDevSetMeta_def parseAPISetMemory_def parseAPISetLog_def parseAPISetLogLevel_def
    parseAPISetDefault_def parseAPISetCores_def parseAPISetConcurrency_def parseAPISetAPIKey_def
  by (rule parse_rules assms | assumption | (auto; fail))+

lemma parseAPIStream_ok:
  assumes "pok B p"
  shows "ok_res B (cpost B
    [''asr_user_command'', ''chat completions help'', ''chat completions'', ''api_chat_to_model'', ''tts_user_command'']
    (psize p)) (parseAPIStream p)"
  unfolding parseAPIStream_def
  by (rule parseAPIChat_ok [THEN call_ok] parseAPIThink_ok [THEN call_ok] parseAPIASR_ok [THEN call_ok] parseAPITTS_ok [THEN call_ok] kinds_subset parse_rules assms | assumption | (auto; fail))+

lemma parseAPIUseCommands_ok:
  assumes "pok B p"
  shows "ok_res B (cpost B
    [''api_use_api_server'', ''api_use_admin_server'', ''api_use_model'']
    (psize p)) (parseAPIUseCommands p)"
  unfolding parseAPIUseCommands_def parseAPIUseModel_def parseAPIUseAdminServer_def parseAPIUseAPIServer_def
  by (rule parse_rules assms | assumption | (auto; fail))+

definition statement_kinds :: "string list" where
  "statement_kinds =
     [''api_ping_server''] @
     [''api_show_api_server'', ''api_show_admin_server'', ''api_show_concurrency'', ''api_show_cores'', ''api_show_current'',
      ''api_show_group_stats'', ''api_show_model_group'', ''api_show_hardware'', ''api_show_api_key'', ''api_show_log_level'',
      ''api_show_memory'', ''api_show_model_stats'', ''api_show_model'', ''api_show_provider_instance_balance'',
      ''api_show_provider_instance_task'', ''api_show_provider_instance'', ''api_show_provider_model'', ''api_show_provider'',
      ''api_show_quota'', ''api_show_version''] @
     [''api_list_api_keys'', ''api_list_api_servers'', ''api_list_agents'', ''api_list_all_models'',
      ''api_list_available_providers'', ''api_list_chats'', ''api_list_dataset_documents'', ''api_list_dataset_files'',
      ''api_list_ingestion_tasks'', ''api_list_sync_logs'', ''api_list_datasets'', ''api_list_default_models'',
      ''api_list_environments'', ''api_list_memories'', ''api_list_model_groups'', ''api_list_provider_instance_models'',
      ''api_list_provider_instance_models_sync'', ''api_list_provider_instance_tasks'', ''api_list_provider_instances'',
      ''api_list_provider_models'', ''api_list_providers'', ''api_list_searches''] @
     [''import_docs_into_dataset''] @
     [''search_help'', ''search_on_datasets'', ''ce_search'']"

lemma parseUserStatement_ok:
  assumes "pok B p"
  shows "ok_res B (cpost B statement_kinds (psize p)) (parseUserStatement p)"
  unfolding parseUserStatement_def statement_kinds_def
  by (rule parseAPIPingServer_ok [THEN call_ok] parseAPIShowCommands_ok [THEN call_ok] parseAPIListCommands_ok [THEN call_ok]
      parseAPIImport_ok [THEN call_ok] parseAPIRetrieve_ok [THEN call_ok]
      ok_if error_ok kinds_subset list.set_intros assms order_refl)+

lemma parseBenchmarkCommand_ok:
  assumes "pok B p"
  shows "ok_res B (cpost B [''benchmark''] (psize p)) (parseBenchmarkCommand p)"
  unfolding parseBenchmarkCommand_def by (rule parseUserStatement_ok [THEN call_then_ok] parse_rules assms | assumption | (auto; fail))+

lemma parseDevChunk_ok:
  assumes "pok B p"
  shows "ok_res B (cpost B
    [''dev_chunk'']
    (psize p)) (parseDevChunk explain p)"
  unfolding parseDevChunk_def
  by (rule parse_rules assms | assumption | (auto; fail))+

lemma parseDevExplain_ok:
  assumes "pok B p"
  shows "ok_res B (cpost B
    [''dev_chunk'']
    (psize p)) (parseDevExplain p)"
  unfolding parseDevExplain_def parseDevChunk_def
  by (rule parse_rules assms | assumption | (auto; fail))+

lemma parseDevGetCommand_ok:
  assumes "pok B p"
  shows "ok_res B (cpost B
    [''dev_get_chunk'', ''dev_get_metadata'']
    (psize p)) (parseDevGetCommand p)"
  unfolding parseDevGetCommand_def parseGetMetadata_def parseGetChunk_def
  by (rule parse_rules assms | assumption | (auto; fail))+

lemma parseDevUpdateCommand_ok:
  assumes "pok B p"
  shows "ok_res B (cpost B
    [''dev_update_chunk'']
    (psize p)) (parseDevUpdateCommand p)"
  unfolding parseDevUpdateCommand_def parseUpdateChunk_def
  by (rule parse_rules assms | assumption | (auto; fail))+

lemma parseFileSystemCommands_ok:
  assumes "pok B p"
  shows "ok_res B (cpost B
    [''file_system_command'']
    (psize p)) (parseFileSystemCommands p)"
  unfolding parseFileSystemCommands_def
  by (rule parse_rules assms | assumption | (auto; fail))+

lemma parseOpenaiChat_ok:
  assumes "pok B p"
  shows "ok_res B (cpost B
    [''openai_chat_help'', ''api_openai_chat'']
    (psize p)) (parseOpenaiChat json_ok p)"
  unfolding parseOpenaiChat_def parseOpenaiChat_option_def
  by (rule parseBool_rule parse_rules assms | assumption | (auto; fail))+

lemma parseParseCommands_ok:
  assumes "pok B p"
  shows "ok_res B (cpost B
    [''api_model_parse_file'', ''parse_dataset'', ''api_parse_documents'', ''user_parse_local_file_command'']
    (psize p)) (parseParseCommands p)"
  unfolding parseParseCommands_def parseAPIParseLocalFile_def parseAPIParseDocs_def parseAPIParseDataset_def parseAPIModelParse_def
  by (rule parse_rules assms | assumption | (auto; fail))+

lemma parseUserStartIngestion_ok:
  assumes "pok B p"
  shows "ok_res B (cpost B
    [''api_start_ingestion'']
    (psize p)) (parseUserStartIngestion p)"
  unfolding parseUserStartIngestion_def
  by (rule parse_rules assms | assumption | (auto; fail))+

lemma parseUserStopIngestion_ok:
  assumes "pok B p"
  shows "ok_res B (cpost B
    [''api_stop_ingestion'']
    (psize p)) (parseUserStopIngestion p)"
  unfolding parseUserStopIngestion_def
  by (rule parse_rules assms | assumption | (auto; fail))+

definition user_kinds :: "string list" where
  "user_kinds =
     [''api_login_user''] @
     [''api_logout''] @
     [''api_ping_server''] @
     [''api_register_user''] @
     [''api_list_api_keys'', ''api_list_api_servers'', ''api_list_agents'', ''api_list_all_models'',
      ''api_list_available_providers'', ''api_list_chats'', ''api_list_dataset_documents'', ''api_list_dataset_files'',
      ''api_list_ingestion_tasks'', ''api_list_sync_logs'', ''api_list_datasets'', ''api_list_default_models'',
      ''api_list_environments'', ''api_list_memories'', ''api_list_model_groups'', ''api_list_provider_instance_models'',
      ''api_list_provider_instance_models_sync'', ''api_list_provider_instance_tasks'', ''api_list_provider_instances'',
      ''api_list_provider_models'', ''api_list_providers'', ''api_list_searches''] @
     [''api_show_api_server'', ''api_show_admin_server'', ''api_show_concurrency'', ''api_show_cores'', ''api_show_current'',
      ''api_show_group_stats'', ''api_show_model_group'', ''api_show_hardware'', ''api_show_api_key'', ''api_show_log_level'',
      ''api_show_memory'', ''api_show_model_stats'', ''api_show_model'', ''api_show_provider_instance_balance'',
      ''api_show_provider_instance_task'', ''api_show_provider_instance'', ''api_show_provider_model'', ''api_show_provider'',
      ''api_show_quota'', ''api_show_version''] @
     [''api_create_agent'', ''api_create_chat'', ''api_create_dataset'', ''api_create_api_key'', ''api_create_memory'',
      ''api_create_provider_instance'', ''api_create_search'', ''api_create_model_group'', ''dev_create_chunk_store'',
      ''dev_create_metadata_store''] @
     [''api_delete_api_key'', ''api_drop_agent'', ''api_drop_chat'', ''api_drop_dataset'', ''api_drop_memory'',
      ''api_drop_search'', ''dev_drop_chunk_store'', ''dev_drop_metadata_store''] @
     [''api_add_group_model'', ''api_add_custom_model'', ''api_add_provider_instance'', ''api_add_provider'',
      ''api_add_api_server'', ''api_add_admin_server''] @
     [''api_delete_api_server'', ''api_delete_admin_server'', ''api_delete_model_group'', ''api_delete_group_model'',
      ''api_delete_provider_instance_model'', ''api_delete_provider_instance'', ''api_delete_provider'', ''dev_delete_meta''] @
     [''api_alter_provider_instance''] @
     [''api_set_api_key'', ''api_set_concurrency'', ''api_set_cores'', ''api_set_default_model'', ''api_set_log_level'',
      ''api_set_memory'', ''dev_set_meta''] @
     [''reset_default_model'', ''api_unset_api_key''] @
     [''import_docs_into_dataset''] @
     [''search_help'', ''search_on_datasets'', ''ce_search''] @
     [''api_model_parse_file'', ''parse_dataset'', ''api_parse_documents'', ''user_parse_local_file_command''] @
     [''benchmark''] @
     [''enable_model''] @
     [''disable_model''] @
     [''chat completions help'', ''chat completions'', ''api_chat_to_model''] @
     [''asr_user_command'', ''chat completions help'', ''chat completions'', ''api_chat_to_model'', ''tts_user_command''] @
     [''chat completions help'', ''chat completions'', ''api_chat_to_model''] @
     [''api_embed_user_text''] @
     [''api_rarank_user_document''] @
     [''asr_user_command''] @
     [''tts_user_command''] @
     [''ocr_user_command''] @
     [''check_provider_connection'', ''check_provider_with_key''] @
     [''api_start_ingestion''] @
     [''api_stop_ingestion''] @
     [''api_save_config_command''] @
     [''api_use_api_server'', ''api_use_admin_server'', ''api_use_model''] @
     [''dev_update_chunk''] @
     [''api_remove_task'', ''dev_remove_chunks''] @
     [''dev_get_chunk'', ''dev_get_metadata''] @
     [''dev_chunk''] @
     [''dev_chunk''] @
     [''openai_chat_help'', ''api_openai_chat''] @
     [''file_system_command'']"

lemma parseUserCommand_ok:
  assumes "pok B p"
  shows "ok_res B (cpost B user_kinds (psize p)) (parseUserCommand json_ok p)"
  unfolding parseUserCommand_def user_kinds_def
  by (rule parseAPILoginUser_ok [THEN call_ok] parseAPILogout_ok [THEN call_ok] parseAPIPingServer_ok [THEN call_ok]
      parseAPIRegister_ok [THEN call_ok] parseAPIListCommands_ok [THEN call_ok] parseAPIShowCommands_ok [THEN call_ok]
      parseAPICreateCommands_ok [THEN call_ok] parseAPIDropCommands_ok [THEN call_ok] parseAPIAddCommands_ok [THEN call_ok]
      parseAPIDeleteCommands_ok [THEN call_ok] parseAPIAlterCommands_ok [THEN call_ok] parseAPISetCommands_ok [THEN call_ok]
      parseAPIResetCommands_ok [THEN call_ok] parseAPIImport_ok [THEN call_ok] parseAPIRetrieve_ok [THEN call_ok]
      parseParseCommands_ok [THEN call_ok] parseBenchmarkCommand_ok [THEN call_ok] parseAPIEnable_ok [THEN call_ok]
      parseAPIDisable_ok [THEN call_ok] parseAPIChat_ok [THEN call_ok] parseAPIStream_ok [THEN call_ok] parseAPIThink_ok [THEN call_ok]
      parseAPIEmbed_ok [THEN call_ok] parseAPIRerank_ok [THEN call_ok] parseAPIASR_ok [THEN call_ok] parseAPITTS_ok [THEN call_ok]
      parseAPIOCR_ok [THEN call_ok] parseAPICheck_ok [THEN call_ok] parseUserStartIngestion_ok [THEN call_ok]
      parseUserStopIngestion_ok [THEN call_ok] parseAPISave_ok [THEN call_ok] parseAPIUseCommands_ok [THEN call_ok]
      parseDevUpdateCommand_ok [THEN call_ok] parseAPIRemove_ok [THEN call_ok] parseDevGetCommand_ok [THEN call_ok]
      parseDevExplain_ok [THEN call_ok] parseDevChunk_ok [THEN call_ok] parseOpenaiChat_ok [THEN call_ok]
      parseFileSystemCommands_ok [THEN call_ok]
      ok_if error_ok kinds_subset list.set_intros assms order_refl)+

end
