(* ===== verification/CliAdminKinds.thy ===== *)
theory CliAdminKinds
  imports CliUserKinds CliAdminEdit
begin

text \<open>
  The parsers of the commands of the administrator, as in \<open>CliUserKinds\<close>.
\<close>

lemma parseAdminLoginUser_ok:
  assumes "pok B p"
  shows "ok_res B (cpost B
    [''admin_login_user'']
    (psize p)) (parseAdminLoginUser p)"
  unfolding parseAdminLoginUser_def
  by (rule parse_rules assms | assumption | (auto; fail))+

lemma parseAdminLogout_ok:
  assumes "pok B p"
  shows "ok_res B (cpost B
    [''admin_logout'']
    (psize p)) (parseAdminLogout p)"
  unfolding parseAdminLogout_def
  by (rule parse_rules assms | assumption | (auto; fail))+

lemma parseAdminPingServer_ok:
  assumes "pok B p"
  shows "ok_res B (cpost B
    [''admin_ping_store'', ''admin_ping_engine'', ''admin_ping_mq'', ''admin_ping_cache'', ''admin_ping_server'']
    (psize p)) (parseAdminPingServer p)"
  unfolding parseAdminPingServer_def
  by (rule parse_rules assms | assumption | (auto; fail))+

lemma parseAdminLiveServer_ok:
  assumes "pok B p"
  shows "ok_res B (cpost B
    [''admin_live_server'']
    (psize p)) (parseAdminLiveServer p)"
  unfolding parseAdminLiveServer_def
  by (rule parse_rules assms | assumption | (auto; fail))+

lemma parseAdminHealthServer_ok:
  assumes "pok B p"
  shows "ok_res B (cpost B
    [''admin_health_server'']
    (psize p)) (parseAdminHealthServer p)"
  unfolding parseAdminHealthServer_def
  by (rule parse_rules assms | assumption | (auto; fail))+

lemma parseAdminListCommands_ok:
  assumes "pok B p"
  shows "ok_res B (cpost B
    [''admin_list_api_servers'', ''admin_list_available_providers'', ''admin_list_configs'', ''admin_list_environments'',
     ''admin_list_ingestors'', ''admin_list_all_models'', ''admin_list_provider_instance_models'',
     ''admin_list_provider_instances'', ''admin_list_provider_models'', ''admin_list_providers'', ''admin_list_resources_command'',
     ''admin_list_roles_command'', ''admin_list_services'', ''admin_list_user_default_models'', ''admin_list_user_operation_logs'',
     ''admin_list_user_provider_instances'', ''admin_list_user_provider_instance_models'', ''admin_list_user_chats'',
     ''admin_list_user_searches'', ''admin_list_user_models'', ''admin_list_user_files'', ''admin_list_user_keys'',
     ''admin_list_user_providers'', ''admin_list_users_command'', ''admin_list_users_condition_command'', ''admin_list_variables'']
    (psize p)) (parseAdminListCommands p)"
  unfolding parseAdminListCommands_def parseAdminListVariables_def parseAdminListUsersCommand_def parseAdminListUserCommand_def
    parseAdminListUserProviderInstanceModels_def parseAdminListUserLogs_def parseAdminListUserIngestionTasks_def
    parseAdminListUserDefaultModels_def parseAdminListUserDatasetsEE_def parseAdminListUserAgentsEE_def parseAdminListServices_def
    parseAdminListRoles_def parseAdminListResources_def parseAdminListProviders_def parseAdminListProviderCommands_def
    parseAdminListProviderModels_def parseAdminListProviderInstances_def parseAdminListProviderInstance_def parseAdminListModels_def
    parseAdminListIngestors_def parseAdminListIngestionTasks_def parseAdminListEnvironments_def parseAdminListConfigs_def
    parseAdminListAvailableProviders_def parseAdminListAPIServers_def
  by (rule parse_rules assms | assumption | (auto; fail))+

lemma parseAdminShowCommands_ok:
  assumes "pok B p"
  shows "ok_res B (cpost B
    [''admin_show_api_server'', ''admin_show_admin_server'', ''admin_show_current'', ''admin_show_data_summary'',
     ''admin_show_data_orphan'', ''admin_show_data_storage'', ''admin_show_data_index'', ''admin_show_fingerprint'',
     ''admin_show_hardware'', ''admin_show_license'', ''admin_show_log_level'', ''admin_show_model'',
     ''admin_show_provider_instance_balance'', ''admin_show_provider_instance'', ''admin_show_provider_model'',
     ''admin_show_provider'', ''admin_show_quota_summary'', ''admin_show_role_permission'', ''admin_show_role_default_models'',
     ''admin_show_role'', ''admin_show_service'', ''admin_show_soft_fingerprint'', ''admin_show_tasks_summary'',
     ''admin_show_user_activity_command'', ''admin_show_user'', ''admin_show_user_dataset_command'',
     ''admin_show_user_index_command'', ''admin_show_user_permission_command'', ''admin_show_user_quota_command'',
     ''admin_show_user_storage_command'', ''admin_show_user_summary_command'', ''admin_show_users_activity_command'',
     ''admin_show_users_plan_summary'', ''admin_show_users_plan_quota'', ''admin_show_users_summary_command'',
     ''admin_show_variable'', ''admin_show_version_command'']
    (psize p)) (parseAdminShowCommands p)"
  unfolding parseAdminShowCommands_def parseAdminShowVersion_def parseAdminShowVariable_def parseAdminShowUsersCommands_def
    parseAdminShowUsersPlan_def parseAdminShowUsersActivity_def parseAdminShowUserCommands_def parseAdminShowUserSummaryCommand_def
    parseAdminShowUserStorageCommand_def parseAdminShowUserQuotaCommand_def parseAdminShowUserPermissionCommand_def
    parseAdminShowUserIndexCommand_def parseAdminShowUserDataSetCommand_def parseAdminShowUser_def parseAdminShowActivityCommand_def
    parseAdminShowTasks_def parseAdminShowSoftFingerprint_def parseAdminShowService_def parseAdminShowRole_def parseAdminShowQuota_def
    parseAdminShowProvider_def parseAdminShowProviderModel_def parseAdminShowProviderInstance_def
    parseAdminShowProviderInstanceBalance_def parseAdminShowModel_def parseAdminShowLogCommands_def parseAdminShowLogLevel_def
    parseAdminShowLicense_def parseAdminShowIngestionLog_def parseAdminShowHardware_def parseAdminShowFingerprint_def
    parseAdminShowData_def parseAdminShowCurrent_def parseAdminShowAdminServer_def parseAdminShowAPI_def
  by (rule parse_rules assms | assumption | (auto; fail))+

lemma parseAdminStatsCommands_ok:
  assumes "pok B p"
  shows "ok_res B (cpost B
    [''admin_stats_summary'', ''admin_stats_user'', ''admin_stats_users'']
    (psize p)) (parseAdminStatsCommands p)"
  unfolding parseAdminStatsCommands_def parseAdminStatsUsers_def parseAdminStatsUser_def parseAdminStatsSummary_def
  by (rule parse_rules assms | assumption | (auto; fail))+

lemma parseAdminCheck_ok:
  assumes "pok B p"
  shows "ok_res B (cpost B
    [''admin_check_license'', ''admin_verify_license'', ''admin_check_provider_instance'', ''admin_check_provider_with_key'']
    (psize p)) (parseAdminCheck p)"
  unfolding parseAdminCheck_def parseAdminCheckProvider_def parseAdminCheckProviderInstance_def parseAdminCheckLicense_def
  by (rule parse_rules assms | assumption | (auto; fail))+

lemma parseAdminCreateCommand_ok:
  assumes "pok B p"
  shows "ok_res B (cpost B
    [''admin_create_role'', ''admin_create_user_api_key'', ''admin_create_user'']
    (psize p)) (parseAdminCreateCommand p)"
  unfolding parseAdminCreateCommand_def parseAdminCreateUser_def parseAdminCreateUserAPIKeyCommand_def parseAdminCreateRole_def
  by (rule parse_rules assms | assumption | (auto; fail))+

lemma parseAdminDropCommands_ok:
  assumes "pok B p"
  shows "ok_res B (cpost B
    [''admin_drop_role'', ''admin_drop_user_api_key'', ''admin_drop_user'']
    (psize p)) (parseAdminDropCommands p)"
  unfolding parseAdminDropCommands_def parseAdminDropUser_def parseAdminDropUserAPIKey_def parseAdminDropRole_def
  by (rule parse_rules assms | assumption | (auto; fail))+

lemma parseAdminAlterCommands_ok:
  assumes "pok B p"
  shows "ok_res B (cpost B
    [''admin_alter_provider_instance'', ''admin_alter_role'', ''admin_activate_user'', ''admin_alter_user'', ''alter_user_role'']
    (psize p)) (parseAdminAlterCommands p)"
  unfolding parseAdminAlterCommands_def parseAdminAlterUser_def parseAdminActivateUser_def parseAdminAlterRole_def parseAdminAlterProvider_def
  by (rule parse_rules assms | assumption | (auto; fail))+

lemma parseAdminGrantCommands_ok:
  assumes "pok B p"
  shows "ok_res B (cpost B
    [''admin_grant_user_admin'', ''admin_grant_role_permission'']
    (psize p)) (parseAdminGrantCommands p)"
  unfolding parseAdminGrantCommands_def parseAdminGrantPermission_def parseAdminGrantAdmin_def
  by (rule parse_rules assms | assumption | (auto; fail))+

lemma parseAdminRevokeCommands_ok:
  assumes "pok B p"
  shows "ok_res B (cpost B
    [''admin_revoke_user_admin'', ''admin_revoke_role_permission'']
    (psize p)) (parseAdminRevokeCommands p)"
  unfolding parseAdminRevokeCommands_def parseAdminRevokePermission_def parseAdminRevokeAdmin_def
  by (rule parse_rules assms | assumption | (auto; fail))+

lemma parseAdminSetCommand_ok:
  assumes "pok B p"
  shows "ok_res B (cpost B
    [''admin_set_license_config'', ''admin_set_license'', ''admin_set_log_level'', ''admin_set_role_default_model'',
     ''admin_set_soft_fingerprint'', ''admin_set_variable'']
    (psize p)) (parseAdminSetCommand p)"
  unfolding parseAdminSetCommand_def parseAdminSetVariable_def parseAdminSetSoftFingerprint_def parseAdminSetRoleDefaultModel_def
    parseAdminSetLog_def parseAdminSetLogLevel_def parseAdminSetLicense_def
  by (rule parse_rules assms | assumption | (auto; fail))+

lemma parseAdminResetCommand_ok:
  assumes "pok B p"
  shows "ok_res B (cpost B
    [''admin_reset_role_default_model'']
    (psize p)) (parseAdminResetCommand p)"
  unfolding parseAdminResetCommand_def
  by (rule parse_rules assms | assumption | (auto; fail))+

lemma parseAdminBenchmarkCommand_ok:
  assumes "pok B p"
  shows "ok_res B (cpost B [''benchmark''] (psize p)) (parseAdminBenchmarkCommand p)"
  unfolding parseAdminBenchmarkCommand_def by (rule parseUserStatement_ok [THEN call_then_ok] parse_rules assms | assumption | (auto; fail))+

lemma parseAdminStartService_ok:
  assumes "pok B p"
  shows "ok_res B (cpost B
    [''admin_start_service'']
    (psize p)) (parseAdminStartService p)"
  unfolding parseAdminStartService_def
  by (rule parse_rules assms | assumption | (auto; fail))+

lemma parseAdminShutdownCommands_ok:
  assumes "pok B p"
  shows "ok_res B (cpost B
    [''admin_shutdown_ingestor_command'', ''admin_shutdown_service'']
    (psize p)) (parseAdminShutdownCommands p)"
  unfolding parseAdminShutdownCommands_def parseAdminShutdownService_def parseAdminShutdownIngestor_def
  by (rule parse_rules assms | assumption | (auto; fail))+

lemma parseAdminRestart_ok:
  assumes "pok B p"
  shows "ok_res B (cpost B
    [''admin_restart_service'']
    (psize p)) (parseAdminRestart p)"
  unfolding parseAdminRestart_def
  by (rule parse_rules assms | assumption | (auto; fail))+

lemma parseMessageQueueCommand_ok:
  assumes "pok B p"
  shows "ok_res B (cpost B
    [''user_show_message_queue_command'', ''user_list_message_queue_command'', ''user_publish_message_command'',
     ''user_pull_message_command'']
    (psize p)) (parseMessageQueueCommand p)"
  unfolding parseMessageQueueCommand_def
  by (rule parse_rules assms | assumption | (auto; fail))+

lemma parseAdminRemoveCommands_ok:
  assumes "pok B p"
  shows "ok_res B (cpost B
    []
    (psize p)) (parseAdminRemoveCommands p)"
  unfolding parseAdminRemoveCommands_def parseAdminRemoveUserCommand_def parseAdminRemoveUserIngestionTasks_def
    parseAdminRemoveIngestionTasks_def
  by (rule parse_rules assms | assumption | (auto; fail))+

lemma parseAdminStopCommands_ok:
  assumes "pok B p"
  shows "ok_res B (cpost B
    []
    (psize p)) (parseAdminStopCommands p)"
  unfolding parseAdminStopCommands_def parseAdminStopUserCommand_def parseAdminStopUserIngestionTasks_def parseAdminStopIngestionTasks_def
  by (rule parse_rules assms | assumption | (auto; fail))+

lemma parseAdminAddCommand_ok:
  assumes "pok B p"
  shows "ok_res B (cpost B
    [''api_add_api_server'', ''api_add_admin_server'', ''admin_add_models'', ''admin_add_model_instance'', ''admin_add_provider'']
    (psize p)) (parseAdminAddCommand p)"
  unfolding parseAdminAddCommand_def parseAdminAddModelProvider_def parseAdminAddModelInstance_def parseAdminAddModel_def
    parseAddAdminServer_def parseAddAPIServer_def
  by (rule parse_rules assms | assumption | (auto; fail))+

lemma parseAdminDeleteCommands_ok:
  assumes "pok B p"
  shows "ok_res B (cpost B
    [''api_delete_api_server'', ''api_delete_admin_server'', ''admin_delete_model'', ''admin_delete_model_instance'',
     ''admin_delete_model_providers'', ''admin_delete_soft_fingerprint'']
    (psize p)) (parseAdminDeleteCommands p)"
  unfolding parseAdminDeleteCommands_def parseAdminDeleteSoftFingerprint_def parseAdminDeleteProvider_def parseAdminDeleteModelInstance_def
    parseAdminDeleteModel_def parseAPIDeleteAdminServer_def parseAPIDeleteAPIServer_def
  by (rule parse_rules assms | assumption | (auto; fail))+

lemma parseAdminEnableCommand_ok:
  assumes "pok B p"
  shows "ok_res B (cpost B
    [''admin_enable_model'']
    (psize p)) (parseAdminEnableCommand p)"
  unfolding parseAdminEnableCommand_def parseAdminEnableModel_def
  by (rule parse_rules assms | assumption | (auto; fail))+

lemma parseAdminDisableCommand_ok:
  assumes "pok B p"
  shows "ok_res B (cpost B
    [''admin_disable_model'']
    (psize p)) (parseAdminDisableCommand p)"
  unfolding parseAdminDisableCommand_def parseAdminDisableModel_def
  by (rule parse_rules assms | assumption | (auto; fail))+

lemma parseAdminSaveCommand_ok:
  assumes "pok B p"
  shows "ok_res B (cpost B
    [''admin_save_config_command'']
    (psize p)) (parseAdminSaveCommand p)"
  unfolding parseAdminSaveCommand_def parseAdminSaveConfig_def
  by (rule parse_rules assms | assumption | (auto; fail))+

lemma parseAdminUseCommand_ok:
  assumes "pok B p"
  shows "ok_res B (cpost B
    [''admin_use_api_server'', ''admin_use_admin_server'']
    (psize p)) (parseAdminUseCommand p)"
  unfolding parseAdminUseCommand_def parseAdminUseAdminServer_def parseAdminUseAPIServer_def
  by (rule parse_rules assms | assumption | (auto; fail))+

lemma parseAdminPurgeCommand_ok:
  assumes "pok B p"
  shows "ok_res B (cpost B
    [''admin_purge_orphan_command'', ''admin_purge_user_command'', ''admin_purge_users_command'']
    (psize p)) (parseAdminPurgeCommand p)"
  unfolding parseAdminPurgeCommand_def parseAdminPurgeUsersCommand_def parseAdminPurgeUserCommand_def parseAdminPurgeOrphanCommand_def
  by (rule parse_rules assms | assumption | (auto; fail))+

definition admin_kinds :: "string list" where
  "admin_kinds =
     [''admin_login_user''] @
     [''admin_logout''] @
     [''admin_ping_store'', ''admin_ping_engine'', ''admin_ping_mq'', ''admin_ping_cache'', ''admin_ping_server''] @
     [''admin_live_server''] @
     [''admin_health_server''] @
     [''admin_list_api_servers'', ''admin_list_available_providers'', ''admin_list_configs'', ''admin_list_environments'',
      ''admin_list_ingestors'', ''admin_list_all_models'', ''admin_list_provider_instance_models'',
      ''admin_list_provider_instances'', ''admin_list_provider_models'', ''admin_list_providers'',
      ''admin_list_resources_command'', ''admin_list_roles_command'', ''admin_list_services'', ''admin_list_user_default_models'',
      ''admin_list_user_operation_logs'', ''admin_list_user_provider_instances'', ''admin_list_user_provider_instance_models'',
      ''admin_list_user_chats'', ''admin_list_user_searches'', ''admin_list_user_models'', ''admin_list_user_files'',
      ''admin_list_user_keys'', ''admin_list_user_providers'', ''admin_list_users_command'',
      ''admin_list_users_condition_command'', ''admin_list_variables''] @
     [''admin_show_api_server'', ''admin_show_admin_server'', ''admin_show_current'', ''admin_show_data_summary'',
      ''admin_show_data_orphan'', ''admin_show_data_storage'', ''admin_show_data_index'', ''admin_show_fingerprint'',
      ''admin_show_hardware'', ''admin_show_license'', ''admin_show_log_level'', ''admin_show_model'',
      ''admin_show_provider_instance_balance'', ''admin_show_provider_instance'', ''admin_show_provider_model'',
      ''admin_show_provider'', ''admin_show_quota_summary'', ''admin_show_role_permission'', ''admin_show_role_default_models'',
      ''admin_show_role'', ''admin_show_service'', ''admin_show_soft_fingerprint'', ''admin_show_tasks_summary'',
      ''admin_show_user_activity_command'', ''admin_show_user'', ''admin_show_user_dataset_command'',
      ''admin_show_user_index_command'', ''admin_show_user_permission_command'', ''admin_show_user_quota_command'',
      ''admin_show_user_storage_command'', ''admin_show_user_summary_command'', ''admin_show_users_activity_command'',
      ''admin_show_users_plan_summary'', ''admin_show_users_plan_quota'', ''admin_show_users_summary_command'',
      ''admin_show_variable'', ''admin_show_version_command''] @
     [''admin_stats_summary'', ''admin_stats_user'', ''admin_stats_users''] @
     [''admin_check_license'', ''admin_verify_license'', ''admin_check_provider_instance'', ''admin_check_provider_with_key''] @
     [''admin_create_role'', ''admin_create_user_api_key'', ''admin_create_user''] @
     [''admin_drop_role'', ''admin_drop_user_api_key'', ''admin_drop_user''] @
     [''admin_alter_provider_instance'', ''admin_alter_role'', ''admin_activate_user'', ''admin_alter_user'', ''alter_user_role''] @
     [''admin_grant_user_admin'', ''admin_grant_role_permission''] @
     [''admin_revoke_user_admin'', ''admin_revoke_role_permission''] @
     [''admin_set_license_config'', ''admin_set_license'', ''admin_set_log_level'', ''admin_set_role_default_model'',
      ''admin_set_soft_fingerprint'', ''admin_set_variable''] @
     [''admin_reset_role_default_model''] @
     [''benchmark''] @
     [''admin_start_service''] @
     [''admin_shutdown_ingestor_command'', ''admin_shutdown_service''] @
     [''admin_restart_service''] @
     [''user_show_message_queue_command'', ''user_list_message_queue_command'', ''user_publish_message_command'',
      ''user_pull_message_command''] @
     [] @
     [] @
     [''api_add_api_server'', ''api_add_admin_server'', ''admin_add_models'', ''admin_add_model_instance'', ''admin_add_provider''] @
     [''api_delete_api_server'', ''api_delete_admin_server'', ''admin_delete_model'', ''admin_delete_model_instance'',
      ''admin_delete_model_providers'', ''admin_delete_soft_fingerprint''] @
     [''admin_enable_model''] @
     [''admin_disable_model''] @
     [''admin_save_config_command''] @
     [''admin_use_api_server'', ''admin_use_admin_server''] @
     [''admin_purge_orphan_command'', ''admin_purge_user_command'', ''admin_purge_users_command'']"

lemma parseAdminCommand_ok:
  assumes "pok B p"
  shows "ok_res B (cpost B admin_kinds (psize p)) (parseAdminCommand p)"
  unfolding parseAdminCommand_def admin_kinds_def
  by (rule parseAdminLoginUser_ok [THEN call_ok] parseAdminLogout_ok [THEN call_ok] parseAdminPingServer_ok [THEN call_ok]
      parseAdminLiveServer_ok [THEN call_ok] parseAdminHealthServer_ok [THEN call_ok] parseAdminListCommands_ok [THEN call_ok]
      parseAdminShowCommands_ok [THEN call_ok] parseAdminStatsCommands_ok [THEN call_ok] parseAdminCheck_ok [THEN call_ok]
      parseAdminCreateCommand_ok [THEN call_ok] parseAdminDropCommands_ok [THEN call_ok] parseAdminAlterCommands_ok [THEN call_ok]
      parseAdminGrantCommands_ok [THEN call_ok] parseAdminRevokeCommands_ok [THEN call_ok] parseAdminSetCommand_ok [THEN call_ok]
      parseAdminResetCommand_ok [THEN call_ok] parseAdminBenchmarkCommand_ok [THEN call_ok] parseAdminStartService_ok [THEN call_ok]
      parseAdminShutdownCommands_ok [THEN call_ok] parseAdminRestart_ok [THEN call_ok] parseMessageQueueCommand_ok [THEN call_ok]
      parseAdminRemoveCommands_ok [THEN call_ok] parseAdminStopCommands_ok [THEN call_ok] parseAdminAddCommand_ok [THEN call_ok]
      parseAdminDeleteCommands_ok [THEN call_ok] parseAdminEnableCommand_ok [THEN call_ok] parseAdminDisableCommand_ok [THEN call_ok]
      parseAdminSaveCommand_ok [THEN call_ok] parseAdminUseCommand_ok [THEN call_ok] parseAdminPurgeCommand_ok [THEN call_ok]
      ok_if error_ok kinds_subset list.set_intros assms order_refl)+

end
