(* ===== verification/CliLaws.thy ===== *)
theory CliLaws
  imports CliRun CliAdminKinds
begin

text \<open>
  The command line client as a whole: its lexer is a function of the text, parsing ends on every text, where it panics, which commands
  it can return in each mode and which of them a method runs, and what of an error is shown.
\<close>

section \<open>Tokens\<close>

text \<open>
  What the parser relies on in the lexer: a source of tokens that uses up something with every token until it has no more. A source
  answers with its end after at most as many tokens as it has left.
\<close>

fun tokens_of :: "('s \<Rightarrow> gerror + Token \<times> 's) \<Rightarrow> nat \<Rightarrow> 's \<Rightarrow> gerror + Token list" where
  "tokens_of next_token 0 s = Inr []"
| "tokens_of next_token (Suc k) s = andThen (next_token s) (\<lambda>(t, s'). andThen (tokens_of next_token k s') (\<lambda>ts. Inr (t # ts)))"

locale token_source =
  fixes next_token :: "'s \<Rightarrow> gerror + Token \<times> 's" and left :: "'s \<Rightarrow> nat" and valid :: "'s \<Rightarrow> bool"
  assumes progress: "\<lbrakk>valid s; next_token s = Inr (t, s')\<rbrakk> \<Longrightarrow> valid s' \<and> left s' + (if tk_Type t = TokenEOF then 0 else 1) \<le> left s"
begin

lemma reaches_end:
  assumes "valid s" and "left s < k" and "tokens_of next_token k s = Inr ts"
  shows "\<exists>t\<in>set ts. tk_Type t = TokenEOF"
  using assms
proof (induction k arbitrary: s ts)
  case (Suc k)
  obtain t s' ts' where n: "next_token s = Inr (t, s')" "tokens_of next_token k s' = Inr ts'" "ts = t # ts'"
    using Suc.prems(3) by (auto simp: andThen_def split: sum.splits)
  show ?case
    using progress [OF Suc.prems(1) n(1)] Suc.IH [of s' ts'] Suc.prems(2) n by (cases "tk_Type t = TokenEOF") auto
qed simp

end

interpretation scanner: token_source scan length "\<lambda>_. True"
  by unfold_locales (use scan_shorter in blast)

interpretation lexer: token_source NextToken "\<lambda>l. length (lx_rest l)" lx_ok
proof
  fix l t l'
  assume l: "lx_ok l" and n: "NextToken l = Inr (t, l')"
  show "lx_ok l' \<and> length (lx_rest l') + (if tk_Type t = TokenEOF then 0 else 1) \<le> length (lx_rest l)"
    using NextToken_ok [OF l, of True] n by (auto split: if_splits)
qed

abbreviation lex_tokens :: "nat \<Rightarrow> Lexer \<Rightarrow> gerror + Token list" where
  "lex_tokens \<equiv> tokens_of NextToken"

abbreviation scan_tokens :: "nat \<Rightarrow> string \<Rightarrow> gerror + Token list" where
  "scan_tokens \<equiv> tokens_of scan"

lemma lexer_reaches_end:
  "lex_tokens (Suc (length inp)) (NewLexer inp) = Inr ts \<Longrightarrow> \<exists>t\<in>set ts. tk_Type t = TokenEOF"
  using lexer.reaches_end [OF NewLexer_ok(1), of inp "Suc (length inp)" ts] by (simp only: NewLexer_ok(2) lessI)

lemma lex_scan: "lx_ok l \<Longrightarrow> lex_tokens k l = scan_tokens k (lx_rest l)"
proof (induction k arbitrary: l)
  case (Suc k)
  show ?case
    using NextToken_scan [OF Suc.prems] Suc.IH
    by (cases "scan (lx_rest l)") (auto simp: agrees_def andThen_def split: sum.splits)
qed simp

text \<open>
  Tokens written out, a space after each: quoted texts in single quotes, numbers, punctuation and words. CHUNK is left out, as what it
  is depends on the word after it.
\<close>

definition print_token :: "Token \<Rightarrow> string" where
  "print_token t = (if tk_Type t = TokenQuotedString then quote_char # tk_Value t @ [quote_char] else tk_Value t)"

definition wf_number :: "Token \<Rightarrow> bool" where
  "wf_number t =
     (let v = tk_Value t; a = takeWhile isDigit v; b = drop 1 (dropWhile isDigit v)
      in a \<noteq> [] \<and> (tk_Type t = TokenInteger \<and> v = a \<or> tk_Type t = TokenFloat \<and> b \<noteq> [] \<and> list_all isDigit b \<and> v = a @ CHR ''.'' # b))"

definition wf_word :: "Token \<Rightarrow> bool" where
  "wf_word t =
     (let v = tk_Value t
      in v \<noteq> [] \<and> (isLetter (hd v) \<or> hd v = CHR ''_'') \<and> list_all is_ident v \<and> ToUpper v \<noteq> ''CHUNK'' \<and>
         tk_Type t = (case keyword (ToUpper v) of Some k \<Rightarrow> k | None \<Rightarrow> TokenIdentifier))"

definition wf_token :: "Token \<Rightarrow> bool" where
  "wf_token t \<longleftrightarrow>
     tk_Type t = TokenQuotedString \<and> list_all (\<lambda>c. c \<noteq> NULL \<and> c \<noteq> quote_char) (tk_Value t) \<or>
     wf_number t \<or> wf_word t \<or> (case tk_Value t of [c] \<Rightarrow> punctuation c = Some (tk_Type t) | _ \<Rightarrow> False)"

lemma while_all:
  assumes "list_all P v" and "\<not> P c"
  shows "takeWhile P (v @ c # s) = v" "dropWhile P (v @ c # s) = c # s"
  using assms by (induction v) auto

lemma scan_space: "scan (CHR '' '' # s) = scan s"
  by (simp add: scan_def is_ws_def)

lemma not_space: "\<not> is_ident (CHR '' '')" "\<not> isDigit (CHR '' '')"
  by (simp_all add: is_ident_def isLetter_def isDigit_def)

lemma not_ws: "isLetter c \<Longrightarrow> \<not> is_ws c" "isDigit c \<Longrightarrow> \<not> is_ws c" "\<not> is_ws (CHR ''_'')" "\<not> is_ws quote_char" "punctuation c = Some t \<Longrightarrow> \<not> is_ws c"
  by (auto simp: is_ws_def isLetter_def isDigit_def punctuation_def split: if_splits)

lemma scan_quoted_print:
  assumes "list_all (\<lambda>c. c \<noteq> NULL \<and> c \<noteq> quote_char) v"
  shows "scan (quote_char # v @ quote_char # s) = Inr (\<lparr>tk_Type = TokenQuotedString, tk_Value = v\<rparr>, s)"
proof -
  have "dropWhile is_ws (quote_char # v @ quote_char # s) = quote_char # v @ quote_char # s"
    by (simp add: not_ws)
  moreover have "punctuation quote_char = None"
    by (simp add: punctuation_def)
  moreover have "scan_quoted quote_char (v @ quote_char # s) = (\<lparr>tk_Type = TokenQuotedString, tk_Value = v\<rparr>, s)"
    unfolding scan_quoted_def while_all [OF assms, of quote_char s, simplified] by simp
  ultimately show ?thesis
    unfolding scan_def by simp
qed

lemma scan_word_print:
  assumes "wf_word t"
  shows "scan (tk_Value t @ CHR '' '' # s) = Inr (t, CHR '' '' # s)"
proof -
  let ?v = "tk_Value t"
  have v: "?v \<noteq> []" "isLetter (hd ?v) \<or> hd ?v = CHR ''_''" "list_all is_ident ?v" "ToUpper ?v \<noteq> ''CHUNK''"
    and ty: "tk_Type t = (case keyword (ToUpper ?v) of Some k \<Rightarrow> k | None \<Rightarrow> TokenIdentifier)"
    using assms by (simp_all add: wf_word_def Let_def)
  obtain c cs where c: "?v @ CHR '' '' # s = c # cs" "c = hd ?v"
    using v(1) by (cases ?v) auto
  have w: "takeWhile is_ident (c # cs) = ?v" "dropWhile is_ident (c # cs) = CHR '' '' # s"
    using while_all [OF v(3) not_space(1), of s] c(1) by simp_all
  have first: "punctuation c = None \<and> c \<noteq> CHR 0x27 \<and> c \<noteq> CHR 0x22 \<and> c \<noteq> CHR 0x5C \<and> c \<noteq> NULL \<and> \<not> is_ws c \<and> (isLetter c \<or> c = CHR ''_'')"
    using v(2) c(2) letter_first [of c] not_ws(1,3) by (auto simp: punctuation_def)
  have "scan_ident ?v (CHR '' '' # s) = Inr (t, CHR '' '' # s)"
    using v(4) ty by (simp add: scan_ident_def)
  then show ?thesis
    unfolding c(1) scan_def using first w by (simp del: takeWhile.simps dropWhile.simps add: dropWhile.simps(2) [of is_ws])
qed

lemma digit_first: "isDigit c \<Longrightarrow> punctuation c = None \<and> c \<noteq> CHR 0x27 \<and> c \<noteq> CHR 0x22 \<and> c \<noteq> CHR 0x5C \<and> c \<noteq> NULL \<and> \<not> isLetter c \<and> c \<noteq> CHR ''_'' \<and> c \<noteq> CHR ''.''"
  by (intro conjI) (auto simp: isDigit_def isLetter_def punctuation_def Let_def)

lemma scan_number_print:
  assumes "wf_number t"
  shows "scan (tk_Value t @ CHR '' '' # s) = Inr (t, CHR '' '' # s)"
proof -
  define v where "v = tk_Value t"
  define a where "a = takeWhile isDigit v"
  define b where "b = drop 1 (dropWhile isDigit v)"
  have wf: "a \<noteq> [] \<and> (tk_Type t = TokenInteger \<and> v = a \<or> tk_Type t = TokenFloat \<and> b \<noteq> [] \<and> list_all isDigit b \<and> v = a @ CHR ''.'' # b)"
    using assms unfolding wf_number_def Let_def v_def [symmetric] a_def [symmetric] b_def [symmetric] .
  have a: "a \<noteq> []" "list_all isDigit a"
    using conjunct1 [OF wf] by (simp, unfold a_def list_all_iff, blast dest: set_takeWhileD)
  have t: "tk_Type t = TokenInteger \<and> v = a \<or> tk_Type t = TokenFloat \<and> b \<noteq> [] \<and> list_all isDigit b \<and> v = a @ CHR ''.'' # b"
    by (rule conjunct2 [OF wf])
  obtain c cs where c: "v @ CHR '' '' # s = c # cs" "c = hd a"
    using a(1) t by (cases a) auto
  have d: "isDigit c"
    using a c(2) by (cases a) auto
  have dot: "\<not> isDigit (CHR ''.'')"
    by (simp add: isDigit_def)
  have "scan_number (v @ CHR '' '' # s) = (t, CHR '' '' # s)"
  proof (cases "tk_Type t = TokenInteger")
    case True
    then have "v = a"
      using t by auto
    then show ?thesis
      unfolding scan_number_def Let_def using while_all [OF a(2) not_space(2), of s] True by (simp add: v_def)
  next
    case False
    then have v: "v = a @ CHR ''.'' # b" and b: "b \<noteq> []" "list_all isDigit b" and ty: "tk_Type t = TokenFloat"
      using t by auto
    have w: "takeWhile isDigit (v @ CHR '' '' # s) = a" "dropWhile isDigit (v @ CHR '' '' # s) = CHR ''.'' # b @ CHR '' '' # s"
      using while_all [OF a(2) dot, of "b @ CHR '' '' # s"] v by simp_all
    show ?thesis
      unfolding scan_number_def Let_def w using while_all [OF b(2) not_space(2), of s] b(1) v ty by (simp add: v_def)
  qed
  then show ?thesis
    unfolding scan_def using digit_first [OF d] not_ws(2) [OF d] d c(1)
    by (simp add: v_def dropWhile.simps(2) [of is_ws])
qed

lemma scan_punctuation_print: "punctuation c = Some k \<Longrightarrow> scan (c # s) = Inr (newToken k c, s)"
  by (simp add: scan_def not_ws(5))

lemma scan_print:
  assumes "wf_token t"
  shows "scan (print_token t @ CHR '' '' # s) = Inr (t, CHR '' '' # s)"
proof -
  consider (quoted) "tk_Type t = TokenQuotedString" "list_all (\<lambda>c. c \<noteq> NULL \<and> c \<noteq> quote_char) (tk_Value t)"
    | (number) "wf_number t" | (word) "wf_word t" | (punct) c where "tk_Value t = [c]" "punctuation c = Some (tk_Type t)"
    using assms unfolding wf_token_def by (auto split: list.splits)
  then show ?thesis
  proof cases
    case quoted
    then show ?thesis
      using scan_quoted_print [OF quoted(2), of "CHR '' '' # s"] by (simp add: print_token_def)
  next
    case number
    then have "tk_Type t \<noteq> TokenQuotedString"
      by (auto simp: wf_number_def Let_def)
    then show ?thesis
      using scan_number_print [OF number] by (simp add: print_token_def)
  next
    case word
    then have "tk_Type t \<noteq> TokenQuotedString"
      by (auto simp: wf_word_def Let_def dest!: keyword_types split: option.splits)
    then show ?thesis
      using scan_word_print [OF word] by (simp add: print_token_def)
  next
    case punct
    have "tk_Type t \<noteq> TokenQuotedString" "(of_char c :: nat) < 128"
      using punct(2) by (auto simp: punctuation_def split: if_splits)
    then show ?thesis
      using scan_punctuation_print [OF punct(2), of "CHR '' '' # s"] punct(1)
      by (simp add: print_token_def newToken_def byte_string_def)
  qed
qed

lemma scan_tokens_space: "scan_tokens k (CHR '' '' # s) = scan_tokens k s"
  by (cases k) (simp_all add: scan_space)

lemma scan_tokens_print:
  "list_all wf_token ts \<Longrightarrow> scan_tokens (length ts) (concat (map (\<lambda>t. print_token t @ '' '') ts)) = Inr ts"
  by (induction ts) (simp_all add: scan_print andThen_def scan_tokens_space)

section \<open>Parsing ends\<close>

lemma NewParser_ok: "ok_res (ends_chunk inp) (pok (ends_chunk inp)) (NewParser inp)"
proof -
  let ?t = "\<lparr>tk_Type = 0, tk_Value = []\<rparr>" and ?B = "ends_chunk inp"
  let ?p = "\<lparr>ps_lexer = NewLexer inp, ps_cur = ?t, ps_peek = ?t, ps_original = inp\<rparr>"
  have p: "pok ?B ?p"
    using NewLexer_ok [of inp] by (simp add: pok_def)
  have "ok_res ?B (pok ?B) (andThen (nextToken ?p) nextToken)"
    by (rule next_ok [OF p]) (rule ok_mono [OF next_tail_ok], auto)
  then show ?thesis
    by (simp add: NewParser_def andThen_def Let_def)
qed

lemma parseMetaCommand_ok:
  assumes "pok B p"
  shows "ok_res B (cpost B [''meta''] (psize p)) (parseMetaCommand p)"
  unfolding parseMetaCommand_def by (rule parse_rules assms | assumption | (auto; fail))+

definition parse_kinds :: "string \<Rightarrow> string list" where
  "parse_kinds cliMode = ''meta'' # (if cliMode = AdminMode then admin_kinds else if cliMode = APIMode then user_kinds else [])"

lemma parseCommand_ok:
  assumes "pok B p"
  shows "ok_res B (cpost B (parse_kinds cliMode) (psize p)) (parseCommand json_ok cliMode p)"
proof -
  have a: "ok_res B (cpost B (parse_kinds cliMode) (psize p)) (parseAdminCommand p)" if "cliMode = AdminMode"
    by (rule call_ok [OF parseAdminCommand_ok [OF assms]]) (use that in \<open>auto simp: parse_kinds_def\<close>)
  have u: "ok_res B (cpost B (parse_kinds cliMode) (psize p)) (parseUserCommand json_ok p)" if "cliMode = APIMode"
    by (rule call_ok [OF parseUserCommand_ok [OF assms]]) (use that in \<open>auto simp: parse_kinds_def\<close>)
  show ?thesis
    unfolding parseCommand_def using a u by simp
qed

lemma Parse_ok:
  assumes "pok B p"
  shows "ok_res B (\<lambda>r. case r of None \<Rightarrow> True | Some (cmd, q) \<Rightarrow> has_kind (parse_kinds cliMode) cmd) (Parse json_ok cliMode p)"
proof -
  have m: "ok_res B (cpost B (parse_kinds cliMode) (psize p)) (parseMetaCommand p)"
    by (rule call_ok [OF parseMetaCommand_ok [OF assms]]) (simp_all add: parse_kinds_def)
  have s: "ok_res B (\<lambda>r. case r of None \<Rightarrow> True | Some (cmd, q) \<Rightarrow> has_kind (parse_kinds cliMode) cmd) (andThen r (\<lambda>r. Inr (Some r)))"
    if "ok_res B (cpost B (parse_kinds cliMode) (psize p)) r" for r
    by (rule ok_andThen [OF that]) (simp add: cpost_def split: prod.splits)
  show ?thesis
    unfolding Parse_def using s [OF m] s [OF parseCommand_ok [OF assms, of cliMode json_ok]] by simp
qed

lemma parse_line_ok:
  "ok_res (ends_chunk inp) (\<lambda>r. case r of None \<Rightarrow> True | Some (cmd, q) \<Rightarrow> has_kind (parse_kinds cliMode) cmd)
     (andThen (NewParser inp) (Parse json_ok cliMode))"
  by (rule ok_andThen [OF NewParser_ok Parse_ok])

section \<open>Which commands run\<close>

definition api_help :: "string list" where
  "api_help = [''search_help'', ''openai_chat_help'', ''chat completions help'']"

definition api_unserved :: "string list" where
  "api_unserved = [''api_create_provider_instance'', ''import_docs_into_dataset'', ''reset_default_model'', ''ce_search'', ''parse_dataset'']"

definition admin_unserved :: "string list" where
  "admin_unserved = [''alter_user_role'']"

lemma user_kinds_served: "set user_kinds \<subseteq> set (api_help @ api_unserved @ map fst user_commands)"
  unfolding user_kinds_def api_help_def api_unserved_def user_commands_def user_commands1_def user_commands2_def
    append.simps list.map fst_conv map_append
  by (rule kinds_subset(4,5) list.set_intros)+

lemma admin_kinds_served:
  "set admin_kinds \<subseteq> set ([''api_add_admin_server'', ''api_delete_admin_server''] @ admin_unserved @ map fst admin_commands)"
  unfolding admin_kinds_def admin_unserved_def admin_commands_def admin_commands1_def admin_commands2_def append.simps list.map fst_conv map_append
  by (rule kinds_subset(4,5) list.set_intros)+

lemma api_unserved_table: "list_all (\<lambda>k. k \<notin> set (map fst user_commands)) (api_help @ api_unserved)"
  by (simp add: api_help_def api_unserved_def user_commands_def user_commands1_def user_commands2_def)

lemma admin_unserved_table: "list_all (\<lambda>k. k \<notin> set (map fst admin_commands)) admin_unserved"
  by (simp add: admin_unserved_def admin_commands_def admin_commands1_def admin_commands2_def)

lemma parsed_kind:
  assumes "andThen (NewParser inp) (Parse json_ok cliMode) = Inr (Some (cmd, p))"
  shows "cmd_Type cmd \<in> set (parse_kinds cliMode)"
  using parse_line_ok [of inp cliMode json_ok] assms by (simp add: has_kind_def)

text \<open>What a table does with a command, by whether its kind is in it.\<close>

lemma ExecuteTable_cases:
  "t \<notin> set (map fst tbl) \<Longrightarrow> ExecuteTable tbl call t n cmd c = (Some (PlainError ''command '%s' would be executed with API'' [t]), c)"
  "t \<in> set (map fst tbl) \<Longrightarrow> ExecuteTable tbl call t n cmd c = call (the (map_of tbl t)) n cmd c"
  by (auto simp: ExecuteTable_def map_of_eq_None_iff split: option.split) (metis domI dom_map_of_conv_image_fst fst_conv imageI option.distinct(1))

lemma api_served:
  assumes "cmd_Type cmd \<in> set (parse_kinds APIMode)" and "cmd_Type cmd \<noteq> ''meta''"
  shows "ExecuteUserCommand call n cmd c =
    (if cmd_Type cmd \<in> set api_help then (None, c)
     else if cmd_Type cmd \<in> set api_unserved then (Some (PlainError ''command '%s' would be executed with API'' [cmd_Type cmd]), c)
     else call (the (map_of user_commands (cmd_Type cmd))) n cmd c)"
proof -
  have k: "cmd_Type cmd \<in> set api_help \<or> cmd_Type cmd \<in> set api_unserved \<or> cmd_Type cmd \<in> set (map fst user_commands)"
    using subsetD [OF user_kinds_served, of "cmd_Type cmd"] assms by (simp add: parse_kinds_def)
  have h: "cmd_Type cmd \<in> {''search_help'', ''openai_chat_help'', ''chat completions help''} \<longleftrightarrow> cmd_Type cmd \<in> set api_help"
    by (simp add: api_help_def)
  have u: "cmd_Type cmd \<in> set api_unserved \<Longrightarrow> cmd_Type cmd \<notin> set (map fst user_commands)"
    using api_unserved_table unfolding list_all_iff set_append by blast
  show ?thesis
    unfolding ExecuteUserCommand_def h using k ExecuteTable_cases(1) [OF u, of call n cmd c] ExecuteTable_cases(2) [of "cmd_Type cmd" user_commands call n cmd c]
    by (cases "cmd_Type cmd \<in> set api_help"; cases "cmd_Type cmd \<in> set api_unserved") simp_all
qed

lemma admin_served:
  assumes "cmd_Type cmd \<in> set (parse_kinds AdminMode)" and "cmd_Type cmd \<noteq> ''meta''"
  shows "ExecuteAdminCommand call n cmd c =
    (if cmd_Type cmd = ''api_add_admin_server'' then (Some (PlainError ''cannot add admin server in admin mode'' []), c)
     else if cmd_Type cmd = ''api_delete_admin_server'' then (Some (PlainError ''cannot delete admin server in admin mode'' []), c)
     else if cmd_Type cmd \<in> set admin_unserved then (Some (PlainError ''command '%s' would be executed with API'' [cmd_Type cmd]), c)
     else call (the (map_of admin_commands (cmd_Type cmd))) n cmd c)"
proof -
  have k: "cmd_Type cmd = ''api_add_admin_server'' \<or> cmd_Type cmd = ''api_delete_admin_server'' \<or> cmd_Type cmd \<in> set admin_unserved \<or>
      cmd_Type cmd \<in> set (map fst admin_commands)"
    using subsetD [OF admin_kinds_served, of "cmd_Type cmd"] assms by (simp add: parse_kinds_def)
  have u: "cmd_Type cmd \<in> set admin_unserved \<Longrightarrow> cmd_Type cmd \<notin> set (map fst admin_commands)"
    using admin_unserved_table unfolding list_all_iff by blast
  show ?thesis
    unfolding ExecuteAdminCommand_def using k ExecuteTable_cases(1) [OF u, of call n cmd c] ExecuteTable_cases(2) [of "cmd_Type cmd" admin_commands call n cmd c]
    by (cases "cmd_Type cmd \<in> set admin_unserved") auto
qed

text \<open>The command inside a BENCHMARK of the administrator is one of the user, which no method of the administrator runs.\<close>

lemma statement_then:
  assumes "pok B p" and "\<And>cmd q. \<lbrakk>pok B q; has_kind statement_kinds cmd\<rbrakk> \<Longrightarrow> ok_res B Q (f (cmd, q))"
  shows "ok_res B Q (andThen (parseUserStatement p) f)"
  by (rule ok_andThen [OF parseUserStatement_ok [OF assms(1)]]) (use assms(2) in \<open>auto simp: cpost_def\<close>)

lemma benchmark_nested:
  assumes "pok B p"
  shows "ok_res B (\<lambda>(cmd, q). \<exists>nested. get_param ''command'' cmd = command_val nested \<and> has_kind statement_kinds nested) (parseAdminBenchmarkCommand p)"
  unfolding parseAdminBenchmarkCommand_def
  by (rule statement_then parse_rules assms | assumption | (auto; fail))+

lemma statements_not_admin:
  assumes "k \<in> set statement_kinds"
  shows "k \<notin> set (map fst admin_commands) \<and> k \<noteq> ''api_add_admin_server'' \<and> k \<noteq> ''api_delete_admin_server''"
proof -
  have s: "list_all (\<lambda>k. take 5 k \<in> {''api_p'', ''api_s'', ''api_l'', ''impor'', ''searc'', ''ce_se''} \<and> k \<noteq> ''api_add_admin_server'' \<and> k \<noteq> ''api_delete_admin_server'') statement_kinds"
    by (simp add: statement_kinds_def)
  have a: "list_all (\<lambda>k. take 5 k \<notin> {''api_p'', ''api_s'', ''api_l'', ''impor'', ''searc'', ''ce_se''}) (map fst admin_commands)"
    by (simp add: admin_commands_def admin_commands1_def admin_commands2_def)
  show ?thesis
    using s a assms unfolding list_all_iff by blast
qed

section \<open>Errors as they are shown\<close>

abbreviation quotes :: "string \<Rightarrow> nat" where
  "quotes s \<equiv> length (filter (\<lambda>c. c = quote_char) s)"

lemma no_quotes: "dropWhile (\<lambda>c. c \<noteq> quote_char) s = [] \<Longrightarrow> quotes s = 0"
  by (auto simp: filter_empty_conv)

lemma quotes_tl: "quotes (drop 1 s) = 0 \<Longrightarrow> quotes s \<le> 1"
  by (cases s) auto

lemma one_quote:
  assumes "dropWhile (\<lambda>c. c \<noteq> quote_char) (drop 1 (dropWhile (\<lambda>c. c \<noteq> quote_char) s)) = []"
  shows "quotes s \<le> 1"
proof -
  let ?P = "\<lambda>c. c \<noteq> quote_char"
  have "quotes (takeWhile ?P s) = 0"
    by (auto simp: filter_empty_conv dest: set_takeWhileD)
  moreover have "quotes (dropWhile ?P s) \<le> 1"
    by (rule quotes_tl [OF no_quotes [OF assms]])
  ultimately show ?thesis
    by (metis (no_types, lifting) add_0 filter_append length_append takeWhile_dropWhile_id)
qed

lemma strip_quoted_quotes: "quotes (strip_quoted msg) \<le> 1"
proof (induction msg rule: strip_quoted.induct)
  case (1 msg)
  let ?rest = "dropWhile (\<lambda>c. c \<noteq> quote_char) msg"
  let ?after = "dropWhile (\<lambda>c. c \<noteq> quote_char) (drop 1 ?rest)"
  show ?case
  proof (cases "?rest = [] \<or> ?after = []")
    case True
    then have "strip_quoted msg = msg"
      by (subst strip_quoted.simps) (auto simp: Let_def)
    moreover from True have "quotes msg \<le> 1"
    proof
      assume r: "?rest = []"
      show ?thesis
        unfolding no_quotes [OF r] by simp
    qed (rule one_quote)
    ultimately show ?thesis
      by simp
  next
    case False
    then show ?thesis
      by (subst strip_quoted.simps) (simp only: Let_def if_False de_Morgan_disj 1 [OF refl refl _ _ refl refl] not_False_eq_True)
  qed
qed

lemma trim_left_quotes: "quotes (trim_left rs s) \<le> quotes s"
proof (induction rs s rule: trim_left.induct)
  case (1 rs s)
  have d: "quotes (drop n s) \<le> quotes s" for n
    by (metis (no_types, lifting) append_take_drop_id filter_append le_add2 length_append)
  show ?case
    using 1 d [of "space_prefix rs s"] by (subst trim_left.simps) (auto intro: order_trans)
qed

lemma TrimSpace_quotes: "quotes (TrimSpace s) \<le> quotes s"
  unfolding TrimSpace_def rev_filter [symmetric] length_rev
  by (rule order_trans [OF trim_left_quotes]) (simp add: rev_filter [symmetric] trim_left_quotes)

section \<open>Claims\<close>

text \<open>C25: the lexer is a function of the text: the tokens it gives, one after the other, or the panic, are those of the scanner.\<close>

theorem lexer_scanner: "lex_tokens k (NewLexer inp) = scan_tokens k inp"
  using lex_scan [OF NewLexer_ok(1)] NewLexer_ok(2) by simp

text \<open>C26: tokens that are written out, a space after each, are read back by the lexer: quoted texts without quotes inside,
  numbers, punctuation, and words other than CHUNK.\<close>

theorem tokens_round_trip:
  assumes "list_all wf_token ts"
  shows "lex_tokens (length ts) (NewLexer (concat (map (\<lambda>t. print_token t @ '' '') ts))) = Inr ts"
  using scan_tokens_print [OF assms] lex_scan [OF NewLexer_ok(1)] NewLexer_ok(2) by simp

theorem tokens_round_trip_witness:
  "lex_tokens 5 (NewLexer ''Drop dataset 'my docs' 1.5 ; '') =
     Inr [\<lparr>tk_Type = TokenDrop, tk_Value = ''Drop''\<rparr>, \<lparr>tk_Type = TokenDataset, tk_Value = ''dataset''\<rparr>,
          \<lparr>tk_Type = TokenQuotedString, tk_Value = ''my docs''\<rparr>, \<lparr>tk_Type = TokenFloat, tk_Value = ''1.5''\<rparr>,
          \<lparr>tk_Type = TokenSemicolon, tk_Value = '';''\<rparr>]"
proof -
  let ?ts = "[\<lparr>tk_Type = TokenDrop, tk_Value = ''Drop''\<rparr>, \<lparr>tk_Type = TokenDataset, tk_Value = ''dataset''\<rparr>,
    \<lparr>tk_Type = TokenQuotedString, tk_Value = ''my docs''\<rparr>, \<lparr>tk_Type = TokenFloat, tk_Value = ''1.5''\<rparr>,
    \<lparr>tk_Type = TokenSemicolon, tk_Value = '';''\<rparr>]"
  have "list_all wf_token ?ts"
    by code_simp
  from tokens_round_trip [OF this] show ?thesis
    by (simp add: print_token_def eval_nat_numeral)
qed

text \<open>C22: parsing ends on every text in every mode: no loop of a parser runs out of the fuel that the length of the text gives it.\<close>

theorem parse_ends: "andThen (NewParser inp) (Parse json_ok cliMode) \<noteq> Inl fuel_error"
  using parse_line_ok [of inp cliMode json_ok] by (cases "andThen (NewParser inp) (Parse json_ok cliMode)") (auto simp: ok_err_def)

text \<open>C27: a text whose parsing panics ends with CHUNK, in upper or lower case.\<close>

theorem parse_panics:
  assumes "andThen (NewParser inp) (Parse json_ok cliMode) = Inl (PanicError m)"
  shows "suffix ''CHUNK'' (ToUpper inp)"
  using parse_line_ok [of inp cliMode json_ok] assms by (simp add: ends_chunk_def)

theorem parse_panics_witness: "suffix ''CHUNK'' (ToUpper ''get chunk'')"
proof (rule parse_panics)
  show "andThen (NewParser ''get chunk'') (Parse (\<lambda>_. False) APIMode) = Inl (PanicError ''slice bounds out of range'')"
    by code_simp
qed

text \<open>C23: a line of the user that parses is run by the method that the table names for it, shows a help text or is a command with a backslash,
  but for five kinds of commands that parse and are then refused.
\<close>

theorem api_execute:
  assumes "andThen (NewParser inp) (Parse json_ok APIMode) = Inr (Some (cmd, p))" and "cli_Mode c = APIMode"
  shows "cli_execute json_ok call cwd inp c =
    (if cmd_Type cmd = ''meta'' then handleMetaCommand cwd cmd c
     else if cmd_Type cmd \<in> set api_help then (None, c)
     else if cmd_Type cmd \<in> set api_unserved then (Some (PlainError ''command '%s' would be executed with API'' [cmd_Type cmd]), c)
     else call (the (map_of user_commands (cmd_Type cmd))) 1 cmd c)"
  using api_served [OF parsed_kind [OF assms(1)], of call 1 c] assms by (simp add: cli_execute_def ExecuteCommand_def)

theorem api_execute_witness:
  "cli_execute (\<lambda>_. False) (\<lambda>m n cmd c. (None, c\<lparr>cli_client := m\<rparr>)) (Inr []) ''list datasets;''
     \<lparr>cli_Mode = APIMode, cli_running = True, cli_client = []\<rparr> =
   (None, \<lparr>cli_Mode = APIMode, cli_running = True, cli_client = ''APIListDatasetsCommand''\<rparr>)"
proof -
  let ?c = "\<lparr>cli_Mode = APIMode, cli_running = True, cli_client = [] :: string\<rparr>"
  have "case andThen (NewParser ''list datasets;'') (Parse (\<lambda>_. False) APIMode) of Inr (Some (cmd, p)) \<Rightarrow> cmd_Type cmd = ''api_list_datasets'' | _ \<Rightarrow> False"
    by code_simp
  then obtain cmd p where p: "andThen (NewParser ''list datasets;'') (Parse (\<lambda>_. False) APIMode) = Inr (Some (cmd, p))" "cmd_Type cmd = ''api_list_datasets''"
    by (auto split: sum.splits option.splits)
  have m: "map_of user_commands ''api_list_datasets'' = Some ''APIListDatasetsCommand''"
    by (simp add: user_commands_def user_commands1_def user_commands2_def)
  show ?thesis
    using api_execute [OF p(1), of ?c "\<lambda>m n cmd c. (None, c\<lparr>cli_client := m\<rparr>)" "Inr []"] m p(2) by (simp add: api_help_def api_unserved_def)
qed

text \<open>C24: a line of the administrator that parses is run by the method that the table names for it, but for the change of a role and the
  servers of administrators, which are refused.
\<close>

theorem admin_execute:
  assumes "andThen (NewParser inp) (Parse json_ok AdminMode) = Inr (Some (cmd, p))" and "cli_Mode c = AdminMode"
  shows "cli_execute json_ok call cwd inp c =
    (if cmd_Type cmd = ''meta'' then handleMetaCommand cwd cmd c
     else if cmd_Type cmd = ''api_add_admin_server'' then (Some (PlainError ''cannot add admin server in admin mode'' []), c)
     else if cmd_Type cmd = ''api_delete_admin_server'' then (Some (PlainError ''cannot delete admin server in admin mode'' []), c)
     else if cmd_Type cmd \<in> set admin_unserved then (Some (PlainError ''command '%s' would be executed with API'' [cmd_Type cmd]), c)
     else call (the (map_of admin_commands (cmd_Type cmd))) 1 cmd c)"
  using admin_served [OF parsed_kind [OF assms(1)], of call 1 c] assms by (simp add: cli_execute_def ExecuteCommand_def)

theorem admin_execute_witness:
  "cli_execute (\<lambda>_. False) (\<lambda>m n cmd c. (None, c\<lparr>cli_client := m\<rparr>)) (Inr []) ''list services;''
     \<lparr>cli_Mode = AdminMode, cli_running = True, cli_client = []\<rparr> =
   (None, \<lparr>cli_Mode = AdminMode, cli_running = True, cli_client = ''AdminListServicesCommand''\<rparr>)"
proof -
  let ?c = "\<lparr>cli_Mode = AdminMode, cli_running = True, cli_client = [] :: string\<rparr>"
  have "case andThen (NewParser ''list services;'') (Parse (\<lambda>_. False) AdminMode) of Inr (Some (cmd, p)) \<Rightarrow> cmd_Type cmd = ''admin_list_services'' | _ \<Rightarrow> False"
    by code_simp
  then obtain cmd p where p: "andThen (NewParser ''list services;'') (Parse (\<lambda>_. False) AdminMode) = Inr (Some (cmd, p))" "cmd_Type cmd = ''admin_list_services''"
    by (auto split: sum.splits option.splits)
  have m: "map_of admin_commands ''admin_list_services'' = Some ''AdminListServicesCommand''"
    by (simp add: admin_commands_def admin_commands1_def admin_commands2_def)
  show ?thesis
    using admin_execute [OF p(1), of ?c "\<lambda>m n cmd c. (None, c\<lparr>cli_client := m\<rparr>)" "Inr []"] m p(2) by (simp add: admin_unserved_def)
qed

text \<open>C28: the command inside a BENCHMARK of the administrator is refused whatever it is: no BENCHMARK runs in that mode.\<close>

theorem admin_benchmark_refused:
  assumes "NewParser inp = Inr p" and "curT p = TokenBenchmark" and "Parse json_ok AdminMode p = Inr (Some (cmd, q))"
  shows "\<exists>nested. get_param ''command'' cmd = command_val nested \<and>
    ExecuteAdminCommand call n nested c = (Some (PlainError ''command '%s' would be executed with API'' [cmd_Type nested]), c)"
proof -
  have ok: "pok (ends_chunk inp) p"
    using NewParser_ok [of inp] assms(1) by simp
  have "parseAdminBenchmarkCommand p = Inr (cmd, q)"
    using assms(2,3) by (simp add: Parse_def parseCommand_def isKeyword_def parseAdminCommand_def andThen_def split: sum.splits)
  then obtain nested where n: "get_param ''command'' cmd = command_val nested" "cmd_Type nested \<in> set statement_kinds"
    using benchmark_nested [OF ok] by (auto simp: has_kind_def)
  show ?thesis
    using n(1) statements_not_admin [OF n(2)] ExecuteTable_cases(1) [of "cmd_Type nested" admin_commands call n nested c]
    by (auto simp: ExecuteAdminCommand_def)
qed

theorem admin_benchmark_refused_witness:
  "\<exists>nested. ExecuteAdminCommand (\<lambda>m n cmd c. (None, c)) 1 nested \<lparr>cli_Mode = AdminMode, cli_running = True, cli_client = ()\<rparr> =
     (Some (PlainError ''command '%s' would be executed with API'' [cmd_Type nested]), \<lparr>cli_Mode = AdminMode, cli_running = True, cli_client = ()\<rparr>)"
proof -
  have "case NewParser ''benchmark 1 1 ping'' of
      Inr p \<Rightarrow> curT p = TokenBenchmark \<and> (case Parse (\<lambda>_. False) AdminMode p of Inr (Some r) \<Rightarrow> True | _ \<Rightarrow> False)
    | Inl e \<Rightarrow> False"
    by code_simp
  then obtain p cmd q where "NewParser ''benchmark 1 1 ping'' = Inr p" "curT p = TokenBenchmark" "Parse (\<lambda>_. False) AdminMode p = Inr (Some (cmd, q))"
    by (auto split: sum.splits option.splits)
  from admin_benchmark_refused [OF this] show ?thesis
    by blast
qed

text \<open>C29: an error is shown without any span in single quotes: at most one quote is left.\<close>

theorem shown_error_quotes: "quotes (sanitizeCLIError msg) \<le> 1"
  using order_trans [OF TrimSpace_quotes strip_quoted_quotes, of msg] by (simp add: sanitizeCLIError_def Let_def)

end
