(* ===== verification/Spec2Isabelle.thy ===== *)
theory Spec2Isabelle
  imports EngineLaws Loops TaskQueue Cache AsyncPool Store ChannelIO Messages StreamManager MessageStream Scratchpad Managed
    Background Subgraph Fork EventFile CliLaws
begin

text \<open>
  A verification library for the agent harness of RAGFlow and for the language of its command line client: the graph engine, the Go
  packages under \<^verbatim>\<open>src/internal/harness/graph\<close>, the event log and replay of its runs, under \<^verbatim>\<open>src/internal/harness/events\<close> and
  \<^verbatim>\<open>src/internal/harness/replay\<close>, and the lexer and the parsers of commands under \<^verbatim>\<open>src/internal/cli\<close>. Names of files below are relative to
  \<^verbatim>\<open>graph\<close>, those of events and replay to \<^verbatim>\<open>src/internal/harness\<close>, those of the client to \<^verbatim>\<open>src/internal\<close>.

  \<^bold>\<open>The program.\<close> A client builds a state graph of nodes, edges, conditional edges and branches and compiles it.
  The engine then runs it in supersteps: from the nodes that have completed it finds the next tasks, reads the
  input of each from channels, runs them, and applies what they return to the channels. A channel decides itself
  how several values of one step combine. A run stops at its end, at the recursion limit, at a failure, or at an
  interrupt before, after or inside a node; a checkpointer keeps the channels and the completed tasks under a
  thread, and a later run on the thread resumes from there. A recorder turns the callbacks of a run into events of a log; a
  recorded trace can be replayed with substitutions, compared with another, or forked at an event. The command line client reads a
  line, cuts it into tokens, parses a command by recursive descent in the mode of a user or of an administrator, and looks the kind of the
  command up in a table of methods that send requests to a server.

  \<^bold>\<open>Theories and the code they model.\<close>

  \<^item> \<open>Prelude\<close>: Go maps as association lists with distinct keys, joining and splitting of strings, the type of an
    operation that changes its receiver and may fail (\<open>outcome\<close>), collections of rewrite rules.
  \<^item> \<open>GoValue\<close>: dynamic values (one constructor per dynamic type the code tells apart), 64-bit integers as words,
    doubles as rationals with rounding, printing and the JSON view of values.
  \<^item> \<open>GraphErrors\<close>: the errors as one datatype and the predicates on them (\<^verbatim>\<open>errors/errors.go\<close>).
  \<^item> \<open>Channels\<close>, \<open>ChannelLaws\<close>, \<open>Registry\<close>: every channel type of \<^verbatim>\<open>channels/*.go\<close> with all its methods, and the registry
    of named channels. Shown: a channel and a registry restored from their checkpoint behave like the original; what
    an aggregating channel computes; when a barrier opens; updating many channels does not depend on the order of
    the map.
  \<^item> \<open>StateGraph\<close>: building, validating and compiling a graph (\<^verbatim>\<open>graph/graph.go\<close>). Shown: built graphs refer to known nodes
    only; \<^verbatim>\<open>Compile\<close> accepts exactly the graphs it should; the reachability search is right and terminates.
  \<^item> \<open>Config\<close>: run configurations (\<^verbatim>\<open>types/config.go\<close>). \<open>Checkpoint\<close>, \<open>Savers\<close>: checkpoints and their map form, the
    manager with optimistic versions and the saver in memory (\<^verbatim>\<open>checkpoint/checkpoint.go\<close>, \<^verbatim>\<open>checkpoint/memory.go\<close>).
    Shown: round trips, that a stale writer is refused, that a save cuts its thread to its bound, that the last
    checkpoint saved to a thread is the one returned.
  \<^item> \<open>Retry\<close>: both retry executors and the backoff (\<^verbatim>\<open>pregel/retry.go\<close>, \<^verbatim>\<open>pregel/retry_multi.go\<close>).
  \<^item> \<open>StateMaps\<close>, \<open>Routing\<close>, \<open>EngineIO\<close>, \<open>Engine\<close>, \<open>EngineLaws\<close>: the engine (\<^verbatim>\<open>pregel/engine.go\<close>): conversion and merging of
    states, the choice of the next tasks in both trigger modes, input and output through channels, the run with
    its checkpoints and interrupts, and the theorems on whole runs: a run makes at most as many steps as the
    recursion limit; on an acyclic graph in DAG mode a run that succeeds has completed every node,
    and a limit above the number of nodes is never reached; a run after a node's interrupt
    starts with the tasks completed before it.
  \<^item> \<open>Interrupts\<close>, \<open>Loops\<close>: interrupts raised inside a node with the resume values that answer them
    (\<^verbatim>\<open>interrupt/interrupt.go\<close>), and the nodes that run a sub-graph in a loop or once per item (\<^verbatim>\<open>graph/loop.go\<close>,
    \<^verbatim>\<open>graph/parallel.go\<close>).
  \<^item> \<open>TaskQueue\<close>: priorities, the two task queues and the optimised engine (\<^verbatim>\<open>pregel/optimized.go\<close>). Shown: the queue refines
    the list of arrivals from which the earliest of the shortest is taken; the next task is least in the order of
    priorities where the subtraction does not overflow; applying writes does not depend on the order of completion.
  \<^item> \<open>Cache\<close>: caches of node outputs (\<^verbatim>\<open>pregel/cache.go\<close>, \<^verbatim>\<open>pregel/cache_async.go\<close>). Shown: the bound on the size, what is evicted,
    and that calls through a cache return what the function returns.
  \<^item> \<open>AsyncPool\<close>: the asynchronous executor as a step relation over all interleavings of its goroutines, the
    pipeline, the limiter (\<^verbatim>\<open>pregel/async.go\<close>). Shown: the limit on running tasks, one result per task, and that
    the tasks always come to their end.
  \<^item> \<open>Store\<close>: the store with namespaces and times to live (\<^verbatim>\<open>store/memory.go\<close>). Shown: it is a table in which the last write
    counts, and expired values stay expired.
  \<^item> \<open>ChannelIO\<close>: readers and writers of channels with their selectors, transformers, validators, triggers and batches
    (\<^verbatim>\<open>pregel/read.go\<close>, \<^verbatim>\<open>pregel/write.go\<close>). Shown: what a write does to every channel and that reading returns it; a
    validated write keeps the declared types.
  \<^item> \<open>Messages\<close>: conversations, the reducer that adds messages to them, filters, the message graph and the chat format
    (\<^verbatim>\<open>graph/message.go\<close>). Shown: the reducer updates by identifier, keeps order and uniqueness and is idempotent on messages with identifiers; a filter is
    the pipeline it describes; messages added to a state are read back.
  \<^item> \<open>Streams\<close>, \<open>StreamManager\<close>, \<open>MessageStream\<close>: streams of chunks with filters, maps and iterators (\<^verbatim>\<open>types/stream.go\<close>), the events
    of a run on their way to its caller (\<^verbatim>\<open>pregel/stream.go\<close>, \<^verbatim>\<open>RunSync\<close>), and messages gathered from chunks of text
    (\<^verbatim>\<open>pregel/messages.go\<close>). Emitters, readers and the forwarding goroutine are step relations. Shown: accepted chunks are
    read exactly once and in order; iterators read the filtered and mapped channel; the final event of a run
    arrives under every schedule while its context is not done, and what a done context can lose or block; with a collecting
    emitter every message is emitted exactly once.
  \<^item> \<open>Scratchpad\<close>, \<open>Managed\<close>: the scratchpad of an execution, with stacks and node contexts as objects in a heap
    (\<^verbatim>\<open>types/scratchpad.go\<close>), and managed values, runtimes, configuration patches and namespaces (\<^verbatim>\<open>managed/managed.go\<close>). Shown: the
    stacks refine separate lists, snapshots and restores are inverse, what merging does, round trips of namespaces.
  \<^item> \<open>PriorityHeap\<close>, \<open>Background\<close>: the binary heap of background tasks and the executor with its queue, its workers and its two
    phases of stopping (\<^verbatim>\<open>pregel/background.go\<close>), a step relation over all interleavings. Shown: a pop returns a task of the
    highest priority; every accepted task is executed at most once and reported once with the result of its function; which
    tasks count as active; that nothing panics before a stop has closed the queue, and what happens afterwards.
  \<^item> \<open>Subgraph\<close>: the manager of sub-graphs, its stack of namespaces, and registries with a namespace (\<^verbatim>\<open>pregel/subgraph.go\<close>). Shown:
    what executing a node of a sub-graph does on every path, that the stack is balanced, that plain namespaces are isolated.
  \<^item> \<open>Events\<close>, \<open>EventLaws\<close>, \<open>EventFile\<close>: events with their payloads, filters and iterators, the store in memory, the logical clock and
    the recorder (\<^verbatim>\<open>events/event.go\<close>, \<^verbatim>\<open>store.go\<close>, \<^verbatim>\<open>memory.go\<close>, \<^verbatim>\<open>clock.go\<close>, \<^verbatim>\<open>recorder.go\<close>), and the store in segment files
    (\<^verbatim>\<open>events/localfile.go\<close>). Shown: what a recorder leaves in a store, ordered reading, garbage collection, and that events in files
    survive a restart as JSON keeps them.
  \<^item> \<open>Replay\<close>, \<open>Fork\<close>: replay with substitutions, comparison of traces, checkpoints rebuilt from events and forks
    (\<^verbatim>\<open>replay/*.go\<close>). Shown: a replay without substitutions repeats the calls of its trace and where it diverges, what divergences there can be, what a comparison reports, that a
    run resumed from a rebuilt checkpoint finds the state and the completed nodes of the trace, which events a fork takes over.
  \<^item> \<open>CliTokens\<close>, \<open>CliLexer\<close>: tokens, keywords and the lexer with its positions and slices (\<^verbatim>\<open>cli/types.go\<close>, \<^verbatim>\<open>cli/lexer.go\<close>), and a scanner on
    lists that it refines. \<open>CliParser\<close>: the parser and its helpers (\<^verbatim>\<open>cli/parser.go\<close>). \<open>CliDev\<close>, \<open>CliUserList\<close>, \<open>CliUserEdit\<close>, \<open>CliUserRun\<close>,
    \<open>CliAdmin\<close>, \<open>CliAdminEdit\<close>: one definition per parser of a command, under its name in the code, statement by statement
    (\<^verbatim>\<open>cli/dev_parser.go\<close>, \<^verbatim>\<open>cli/user_parser.go\<close>, \<^verbatim>\<open>cli/admin_parser.go\<close>, \<^verbatim>\<open>cli/admin_command_ee.go\<close>). \<open>CliRun\<close>: \<^verbatim>\<open>Parse\<close>, the tables of commands
    (\<^verbatim>\<open>cli/cli_http.go\<close>), \<^verbatim>\<open>execute\<close>, commands with a backslash and the text of errors (\<^verbatim>\<open>cli/cli.go\<close>).
  \<^item> \<open>CliProgress\<close>, \<open>CliUserKinds\<close>, \<open>CliAdminKinds\<close>, \<open>CliLaws\<close>: a judgement on parsers with a rule for each of their steps; by it, for every word
    that starts a command, that its parser ends and which kinds of commands it makes. Shown: the lexer is a function of the text and reads
    back what is written out; parsing ends on every text; the only panic is at a text that ends with CHUNK; which method runs a
    parsed line and which kinds of commands none runs; what of an error is shown.

  \<^bold>\<open>Interfaces.\<close> What one part relies on in another is a locale, interpreted on the model's own definitions:
  the methods of a channel that can be saved and restored (\<open>channel_adt\<close>), the log of a thread (\<open>thread_log\<close>), the checkpointer behind a run (\<open>base_checkpointer\<close>, interpreted by the saver in
  memory), a stable priority queue (\<open>stable_queue\<close>), a cache that may forget but not invent (\<open>output_cache\<close>, interpreted
  by the cache in memory and the empty one), a table of values (\<open>value_store\<close>), a family of stacks (\<open>stack_store\<close>,
  interpreted by the stacks of a scratchpad), a queue that answers with a maximum (\<open>max_queue\<close>, interpreted by the binary heap), a table
  with scopes (\<open>scoped_table\<close>, interpreted by the namespaced registries), a log of events (\<open>event_log\<close>, interpreted by the store in memory and the store
  in files), a source of tokens (\<open>token_source\<close>, interpreted by the lexer and by the scanner).

  \<^bold>\<open>Conventions.\<close> Go leaves the order of map iteration open: the order is an argument \<open>ord\<close> where it can matter, and the
  theorems hold for every order. What comes from outside the repository, or from parts of the standard library that
  are opaque to the code, is an argument too: identifiers drawn at random, the clock, JSON and hash functions, the
  functions of nodes and conditions, \<^verbatim>\<open>sort.Slice\<close>, regular expressions. A panic is the error \<open>PanicError\<close>. Loops are
  structural recursions, or recursions with a termination proof: the loop of a run ends by the recursion limit, the
  loop node by its maximal number of iterations, the search for reachable nodes by the number of nodes. Fuel is
  used in two places. The loops of the parsers of commands (\<open>ploop\<close>) get one more than the characters and tokens that are left, and \<open>parse_ends\<close>
  shows that this is enough on every text. In \<open>Streams\<close> the loop of a filtering iterator gets one more than the chunks in the channel and nested iterators
  their depth, and \<open>iterator_reads_view\<close> shows that this is enough. Call bodies that hold a mutex are single steps; the concurrency inside a superstep is modelled by
  running the tasks in order, as they share nothing but the channels they read and their functions are total functions of their
  input, and that of the executor by the
  step relations of \<open>AsyncPool\<close> and \<open>Background\<close>.

  \<^bold>\<open>Not modelled.\<close> Of the engine: callbacks, remote and traced engines, telemetry, the
  state inspector; which events task goroutines emit is left open. Of the store the vector indexes; of the asynchronous
  executor \<^verbatim>\<open>ExecuteBatch\<close>; of the asynchronous cache its executor; of \<^verbatim>\<open>managed\<close> the extraction by reflection. The packages
  \<^verbatim>\<open>task\<close> and \<^verbatim>\<open>runnable\<close> wrap functions of the user. The stores of events and checkpoints behind NATS are clients of a
  service. Of the command line client: the methods that send requests and print answers, its start-up, its prompt and its view of a file
  system; texts are bytes, and upper and lower case are those of ASCII. Outside these directories the repository holds services, data access,
  document parsing and clients of external systems, which are input and output around libraries this library cannot
  see.
\<close>

end
